(* ===== verification/Prelude.thy ===== *)
theory Prelude
  imports Complex_Main "HOL-Library.Product_Lexorder" "HOL-Library.Sublist"
begin

text \<open>
  The part of Python that every component of the program uses: exceptions as values, the
  scalar values that arrive in the broker's dictionaries, truthiness and the \<open>or\<close> operator,
  \<open>float()\<close>, \<open>int()\<close>, \<open>str()\<close> and \<open>round()\<close>, the string methods \<open>strip\<close>, \<open>upper\<close>, \<open>lower\<close> and
  \<open>removeprefix\<close>, timestamps, and the few query shapes the SQL layer is used with.

  Conventions.
  \<^item> Strings are byte strings in UTF-8, so an ASCII literal is the literal itself and a Chinese
    literal is \<open>utf8\<close> of its code points (theory Messages).
  \<^item> Python floats are real numbers: rounding errors, infinities and NaN are outside the model.
  \<^item> A datetime is an int, the microseconds since the epoch in UTC without zone; a date is an int,
    the days since the epoch.
  \<^item> An exception is the left side of a sum.
\<close>

named_theorems py_eval "equations that evaluate Python operations on concrete values"
named_theorems store_simps "reading back what an update of a stored row or of the database wrote"

section \<open>Exceptions\<close>

datatype exn =
    RuntimeError string
  | ValueError string
  | AttributeError string
  | IntegrityError string
  | OtherError string

primrec exn_str :: "exn \<Rightarrow> string" where
  "exn_str (RuntimeError m) = m"
| "exn_str (ValueError m) = m"
| "exn_str (AttributeError m) = m"
| "exn_str (IntegrityError m) = m"
| "exn_str (OtherError m) = m"

definition is_ok :: "exn + 'a \<Rightarrow> bool" where
  "is_ok r = (case r of Inl _ \<Rightarrow> False | Inr _ \<Rightarrow> True)"

lemma is_ok_Inr: "is_ok r \<Longrightarrow> \<exists>x. r = Inr x"
  by (cases r) (auto simp: is_ok_def)

section \<open>Strings\<close>

fun utf8_char :: "nat \<Rightarrow> string" where
  "utf8_char c =
     (if c < 128 then [char_of c]
      else if c < 2048 then [char_of (192 + c div 64), char_of (128 + c mod 64)]
      else [char_of (224 + c div 4096), char_of (128 + (c div 64) mod 64), char_of (128 + c mod 64)])"

definition utf8 :: "nat list \<Rightarrow> string" where
  "utf8 cs = concat (map utf8_char cs)"

lemma utf8_char_nonempty [simp]: "utf8_char c \<noteq> []"
  by simp

lemma utf8_Cons_nonempty [simp]: "utf8 (c # cs) \<noteq> []"
  by (simp add: utf8_def del: utf8_char.simps)

definition upper_char :: "char \<Rightarrow> char" where
  "upper_char c = (let n = of_char c :: nat in if 97 \<le> n \<and> n \<le> 122 then char_of (n - 32) else c)"

definition lower_char :: "char \<Rightarrow> char" where
  "lower_char c = (let n = of_char c :: nat in if 65 \<le> n \<and> n \<le> 90 then char_of (n + 32) else c)"

definition py_upper :: "string \<Rightarrow> string" where
  "py_upper s = map upper_char s"

definition py_lower :: "string \<Rightarrow> string" where
  "py_lower s = map lower_char s"

definition is_space :: "char \<Rightarrow> bool" where
  "is_space c = (let n = of_char c :: nat in n = 32 \<or> (9 \<le> n \<and> n \<le> 13) \<or> (28 \<le> n \<and> n \<le> 31))"

definition py_strip :: "string \<Rightarrow> string" where
  "py_strip s = rev (dropWhile is_space (rev (dropWhile is_space s)))"

definition py_contains :: "string \<Rightarrow> string \<Rightarrow> bool" where
  "py_contains pat s = sublist pat s"

definition removeprefix :: "string \<Rightarrow> string \<Rightarrow> string" where
  "removeprefix p s = (if take (length p) s = p then drop (length p) s else s)"

fun join_with :: "string \<Rightarrow> string list \<Rightarrow> string" where
  "join_with sep [] = []"
| "join_with sep [x] = x"
| "join_with sep (x # y # zs) = x @ sep @ join_with sep (y # zs)"

definition ends_with :: "string \<Rightarrow> string \<Rightarrow> bool" where
  "ends_with suf s = suffix suf s"

definition starts_with :: "string \<Rightarrow> string \<Rightarrow> bool" where
  "starts_with p s = prefix p s"

lemmas [py_eval] =
  py_upper_def py_lower_def upper_char_def lower_char_def is_space_def py_strip_def
  py_contains_def removeprefix_def Let_def char_of_def bit_0 sublist_Cons_right
  ends_with_def starts_with_def

lemma upper_char_idem [simp]: "upper_char (upper_char c) = upper_char c"
  by (auto simp: upper_char_def Let_def)

lemma is_space_upper [simp]: "is_space (upper_char c) = is_space c"
  by (auto simp: upper_char_def is_space_def Let_def)

lemma py_upper_idem [simp]: "py_upper (py_upper s) = py_upper s"
  by (simp add: py_upper_def)

lemma dropWhile_upper:
  "dropWhile is_space (map upper_char s) = map upper_char (dropWhile is_space s)"
  by (induction s) auto

lemma strip_upper: "py_strip (py_upper s) = py_upper (py_strip s)"
  by (simp add: py_strip_def py_upper_def dropWhile_upper rev_map)

lemma dropWhile_idem: "dropWhile P (dropWhile P s) = dropWhile P s"
  by (induction s) auto

lemma last_dropWhile_keep:
  assumes "dropWhile P s \<noteq> []" and "dropWhile P (rev s) = rev s"
  shows "dropWhile P (rev (dropWhile P s)) = rev (dropWhile P s)"
proof -
  from assms(1) have "s \<noteq> []" by auto
  with assms(2) have "\<not> P (last s)"
    by (metis dropWhile_eq_self_iff hd_rev rev_is_Nil_conv)
  moreover have "last (dropWhile P s) = last s"
    using assms(1) by (metis dropWhile_eq_drop last_drop drop_eq_Nil leI)
  ultimately show ?thesis
    using assms(1) by (simp add: dropWhile_eq_self_iff hd_rev)
qed

lemma py_strip_idem [simp]: "py_strip (py_strip s) = py_strip s"
proof (cases "dropWhile is_space s = []")
  case True
  then show ?thesis by (simp only: py_strip_def dropWhile.simps rev.simps)
next
  case False
  let ?t = "dropWhile is_space s" and ?P = is_space
  let ?u = "rev (dropWhile ?P (rev ?t))"
  have "dropWhile ?P ?u = ?u"
  proof (cases "dropWhile ?P (rev ?t) = []")
    case True
    then show ?thesis by (simp only: rev.simps dropWhile.simps)
  next
    case nonempty: False
    have "dropWhile ?P (rev (rev ?t)) = rev (rev ?t)" by (simp add: dropWhile_idem)
    with nonempty show ?thesis by (rule last_dropWhile_keep)
  qed
  then show ?thesis by (simp add: py_strip_def dropWhile_idem)
qed

section \<open>Scalar values of the broker's dictionaries\<close>

text \<open>
  A response row of the broker, or a JSON object read back from the database, is a dictionary
  from strings to scalars. A float object carries the text that \<open>str()\<close> gives for it.
\<close>

datatype pyval =
    PNone
  | PBool bool
  | PInt int
  | PFloat real string
  | PStr string

type_synonym row = "(string \<times> pyval) list"

definition row_get :: "row \<Rightarrow> string \<Rightarrow> pyval" where
  "row_get r k = (case map_of r k of None \<Rightarrow> PNone | Some v \<Rightarrow> v)"

fun truthy :: "pyval \<Rightarrow> bool" where
  "truthy PNone = False"
| "truthy (PBool b) = b"
| "truthy (PInt i) = (i \<noteq> 0)"
| "truthy (PFloat x _) = (x \<noteq> 0)"
| "truthy (PStr s) = (s \<noteq> [])"

text \<open>\<open>a or b\<close>, and \<open>row.get(k1) or row.get(k2) or ...\<close> ending in the last value.\<close>

definition py_or :: "pyval \<Rightarrow> pyval \<Rightarrow> pyval" where
  "py_or a b = (if truthy a then a else b)"

fun get_or :: "row \<Rightarrow> string list \<Rightarrow> pyval" where
  "get_or r [] = PNone"
| "get_or r [k] = row_get r k"
| "get_or r (k # k' # ks) = py_or (row_get r k) (get_or r (k' # ks))"

fun digit_val :: "char \<Rightarrow> nat option" where
  "digit_val c = (let n = of_char c :: nat in if 48 \<le> n \<and> n \<le> 57 then Some (n - 48) else None)"

text \<open>Reads leading decimal digits: the value, their number, and what is left.\<close>

fun read_digits :: "nat \<Rightarrow> nat \<Rightarrow> string \<Rightarrow> nat \<times> nat \<times> string" where
  "read_digits acc n [] = (acc, n, [])"
| "read_digits acc n (c # cs) =
     (case digit_val c of
        Some d \<Rightarrow> read_digits (10 * acc + d) (Suc n) cs
      | None \<Rightarrow> (acc, n, c # cs))"

fun read_sign :: "string \<Rightarrow> bool \<times> string" where
  "read_sign (c # cs) = (if c = CHR ''-'' then (True, cs) else if c = CHR ''+'' then (False, cs) else (False, c # cs))"
| "read_sign [] = (False, [])"

fun read_exponent :: "string \<Rightarrow> int option" where
  "read_exponent [] = Some 0"
| "read_exponent (c # cs) =
     (if c = CHR ''e'' \<or> c = CHR ''E'' then
        (let (neg, ds) = read_sign cs; (v, n, rest) = read_digits 0 0 ds
         in if n = 0 \<or> rest \<noteq> [] then None else Some (if neg then - int v else int v))
      else None)"

text \<open>
  \<open>float(s)\<close> on decimal notation; \<open>None\<close> is the ValueError. The spellings of infinities and NaN
  and underscores between digits are outside the model.
\<close>

definition parse_float :: "string \<Rightarrow> real option" where
  "parse_float s =
     (let (neg, t) = read_sign (py_strip s);
          (ip, ni, r1) = read_digits 0 0 t;
          (fp, nf, r2) = (case r1 of c # cs \<Rightarrow> (if c = CHR ''.'' then read_digits 0 0 cs else (0, 0, r1)) | [] \<Rightarrow> (0, 0, r1))
      in if ni + nf = 0 then None
         else (case read_exponent r2 of
                 None \<Rightarrow> None
               | Some e \<Rightarrow> (let m = real ip + real fp / 10 ^ nf;
                               v = (if 0 \<le> e then m * 10 ^ nat e else m / 10 ^ nat (- e))
                           in Some (if neg then - v else v))))"

fun py_float :: "pyval \<Rightarrow> exn + real" where
  "py_float PNone = Inl (OtherError ''float() argument must be a string or a real number'')"
| "py_float (PBool b) = Inr (if b then 1 else 0)"
| "py_float (PInt i) = Inr (of_int i)"
| "py_float (PFloat x _) = Inr x"
| "py_float (PStr s) =
     (case parse_float s of
        Some x \<Rightarrow> Inr x
      | None \<Rightarrow> Inl (ValueError (''could not convert string to float: '' @ s)))"

text \<open>\<open>float(value or 0)\<close>, raising on text that is no number; and the guarded form returning 0.\<close>

definition float_or_0 :: "pyval \<Rightarrow> exn + real" where
  "float_or_0 v = py_float (py_or v (PInt 0))"

definition float_value :: "pyval \<Rightarrow> real" where
  "float_value v = (case float_or_0 v of Inl _ \<Rightarrow> 0 | Inr x \<Rightarrow> x)"

text \<open>\<open>int(x)\<close> of a float truncates towards zero.\<close>

definition py_int :: "real \<Rightarrow> int" where
  "py_int x = (if 0 \<le> x then \<lfloor>x\<rfloor> else \<lceil>x\<rceil>)"

definition int_value :: "pyval \<Rightarrow> int" where
  "int_value v = py_int (float_value v)"

text \<open>\<open>int(v)\<close> of a scalar: text must be a decimal integer.\<close>

definition parse_int :: "string \<Rightarrow> int option" where
  "parse_int s =
     (let (neg, t) = read_sign (py_strip s); (v, n, rest) = read_digits 0 0 t
      in if n = 0 \<or> rest \<noteq> [] then None else Some (if neg then - int v else int v))"

fun py_int_of :: "pyval \<Rightarrow> exn + int" where
  "py_int_of PNone = Inl (OtherError ''int() argument must be a string or a real number'')"
| "py_int_of (PBool b) = Inr (if b then 1 else 0)"
| "py_int_of (PInt i) = Inr i"
| "py_int_of (PFloat x _) = Inr (py_int x)"
| "py_int_of (PStr s) =
     (case parse_int s of
        Some i \<Rightarrow> Inr i
      | None \<Rightarrow> Inl (ValueError (''invalid literal for int() with base 10: '' @ s)))"

function digits :: "int \<Rightarrow> string" where
  "digits n = (if n < 10 then [char_of (48 + n)] else digits (n div 10) @ [char_of (48 + n mod 10)])"
  by pat_completeness auto
termination
  by (relation "measure nat") auto

declare digits.simps [simp del]

definition str_int :: "int \<Rightarrow> string" where
  "str_int i = (if i < 0 then CHR ''-'' # digits (- i) else digits i)"

fun py_str :: "pyval \<Rightarrow> string" where
  "py_str PNone = ''None''"
| "py_str (PBool b) = (if b then ''True'' else ''False'')"
| "py_str (PInt i) = str_int i"
| "py_str (PFloat _ s) = s"
| "py_str (PStr s) = s"

text \<open>\<open>str(value or "")\<close>.\<close>

definition str_or_empty :: "pyval \<Rightarrow> string" where
  "str_or_empty v = py_str (py_or v (PStr []))"

section \<open>Numbers\<close>

text \<open>\<open>round(x, n)\<close>: to \<open>n\<close> decimals, ties to the even digit.\<close>

definition round_half_even :: "real \<Rightarrow> int" where
  "round_half_even y =
     (let f = \<lfloor>y\<rfloor>; d = y - of_int f
      in if d < 1/2 then f else if 1/2 < d then f + 1 else if even f then f else f + 1)"

definition py_round :: "nat \<Rightarrow> real \<Rightarrow> real" where
  "py_round n x = of_int (round_half_even (x * 10 ^ n)) / 10 ^ n"

text \<open>The format \<open>{x:.nf}\<close>.\<close>

definition pad_zeros :: "nat \<Rightarrow> string \<Rightarrow> string" where
  "pad_zeros w s = replicate (w - length s) CHR ''0'' @ s"

definition fmt_fixed :: "nat \<Rightarrow> real \<Rightarrow> string" where
  "fmt_fixed n x =
     (let m = round_half_even (\<bar>x\<bar> * 10 ^ n)
      in (if x < 0 then ''-'' else '''') @ digits (m div 10 ^ n)
         @ (if n = 0 then [] else CHR ''.'' # pad_zeros n (digits (m mod 10 ^ n))))"

text \<open>\<open>x or d\<close> on a nullable and on a plain number, and the truth of a nullable number.\<close>

definition opt_or :: "'a::zero option \<Rightarrow> 'a \<Rightarrow> 'a" where
  "opt_or x d = (case x of None \<Rightarrow> d | Some v \<Rightarrow> if v = 0 then d else v)"

definition num_or :: "'a::zero \<Rightarrow> 'a \<Rightarrow> 'a" where
  "num_or x d = (if x = 0 then d else x)"

definition opt_truthy :: "'a::zero option \<Rightarrow> bool" where
  "opt_truthy x = (case x of None \<Rightarrow> False | Some v \<Rightarrow> v \<noteq> 0)"

definition str_or :: "string \<Rightarrow> string \<Rightarrow> string" where
  "str_or s d = (if s = [] then d else s)"

lemma float_value_num [simp]:
  "float_value PNone = 0" "float_value (PInt i) = of_int i" "float_value (PFloat x s) = x"
  by (auto simp: float_value_def float_or_0_def py_or_def)

lemma py_int_of_int [simp]: "py_int (of_int i) = i"
  by (simp add: py_int_def)

lemma int_value_PInt [simp]: "int_value (PInt i) = i"
  by (simp add: int_value_def)

lemma py_int_nonneg: "0 \<le> x \<Longrightarrow> 0 \<le> py_int x"
  by (simp add: py_int_def)

lemma py_int_le: "0 \<le> x \<Longrightarrow> of_int (py_int x) \<le> x"
  by (simp add: py_int_def)

lemma opt_or_simps [simp]:
  "opt_or None d = d" "opt_or (Some v) d = (if v = 0 then d else v)"
  by (simp_all add: opt_or_def)

lemma opt_truthy_simps [simp]: "opt_truthy None = False" "opt_truthy (Some v) = (v \<noteq> 0)"
  by (simp_all add: opt_truthy_def)

lemma opt_truthy_iff: "opt_truthy x \<longleftrightarrow> (\<exists>v. x = Some v \<and> v \<noteq> 0)"
  by (cases x) auto

lemma str_or_eq_Nil [simp]: "str_or s d = [] \<longleftrightarrow> s = [] \<and> d = []"
  by (simp add: str_or_def)

lemma round_half_even_of_int [simp]: "round_half_even (of_int i) = i"
  by (simp add: round_half_even_def)

lemma round_half_even_bounds:
  "of_int (round_half_even y) \<le> y + 1/2" "y - 1/2 \<le> of_int (round_half_even y)"
  by (auto simp: round_half_even_def Let_def; linarith)+

lemma round_half_even_mono: "x \<le> y \<Longrightarrow> round_half_even x \<le> round_half_even y"
proof -
  assume le: "x \<le> y"
  then have fl: "\<lfloor>x\<rfloor> \<le> \<lfloor>y\<rfloor>" by (rule floor_mono)
  show ?thesis
  proof (cases "\<lfloor>x\<rfloor> = \<lfloor>y\<rfloor>")
    case True
    with le show ?thesis by (auto simp: round_half_even_def Let_def)
  next
    case False
    with fl have "\<lfloor>x\<rfloor> + 1 \<le> \<lfloor>y\<rfloor>" by linarith
    then show ?thesis by (auto simp: round_half_even_def Let_def)
  qed
qed

lemma py_round_mono: "x \<le> y \<Longrightarrow> py_round n x \<le> py_round n y"
  unfolding py_round_def
  by (intro divide_right_mono of_int_le_iff [THEN iffD2] round_half_even_mono mult_right_mono) auto

lemma py_round_close: "\<bar>py_round n x - x\<bar> \<le> 1 / (2 * 10 ^ n)"
proof -
  have p: "(0::real) < 10 ^ n" by simp
  have eq: "py_round n x - x = (of_int (round_half_even (x * 10 ^ n)) - x * 10 ^ n) / 10 ^ n"
    using p by (simp add: py_round_def field_simps)
  have "\<bar>of_int (round_half_even (x * 10 ^ n)) - x * 10 ^ n\<bar> \<le> 1/2"
    using round_half_even_bounds [of "x * 10 ^ n"] by linarith
  with p show ?thesis by (simp add: eq abs_divide field_simps)
qed

section \<open>Time\<close>

definition seconds :: "int \<Rightarrow> int" where "seconds n = n * 1000000"
definition minutes :: "int \<Rightarrow> int" where "minutes n = seconds (60 * n)"
definition days :: "int \<Rightarrow> int" where "days n = seconds (86400 * n)"

text \<open>\<open>t.date()\<close> as days since the epoch; Monday is weekday 0 (the epoch was a Thursday).\<close>

definition date_of :: "int \<Rightarrow> int" where "date_of t = t div 86400000000"
definition weekday :: "int \<Rightarrow> int" where "weekday d = (d + 3) mod 7"
definition minute_of_day :: "int \<Rightarrow> int" where "minute_of_day t = (t mod 86400000000) div 60000000"

text \<open>The civil date of a day number, for the texts that print one.\<close>

definition civil :: "int \<Rightarrow> int \<times> int \<times> int" where
  "civil d =
     (let z = d + 719468; era = z div 146097; doe = z - era * 146097;
          yoe = (doe - doe div 1460 + doe div 36524 - doe div 146096) div 365;
          doy = doe - (365 * yoe + yoe div 4 - yoe div 100);
          mp = (5 * doy + 2) div 153; dd = doy - (153 * mp + 2) div 5 + 1;
          mm = (if mp < 10 then mp + 3 else mp - 9);
          yy = yoe + era * 400 + (if mm \<le> 2 then 1 else 0)
      in (yy, mm, dd))"

definition pad2 :: "int \<Rightarrow> string" where
  "pad2 i = pad_zeros 2 (str_int i)"

definition iso_date :: "int \<Rightarrow> string" where
  "iso_date d = (let (y, m, dd) = civil d in pad_zeros 4 (str_int y) @ ''-'' @ pad2 m @ ''-'' @ pad2 dd)"

text \<open>The format \<open>%Y-%m-%d %H:%M\<close>, and \<open>isoformat()\<close> (which adds the seconds).\<close>

definition fmt_minute :: "int \<Rightarrow> string" where
  "fmt_minute t = iso_date (date_of t) @ '' '' @ pad2 (minute_of_day t div 60) @ '':'' @ pad2 (minute_of_day t mod 60)"

definition isoformat :: "int \<Rightarrow> string" where
  "isoformat t =
     (let us = t mod 1000000
      in iso_date (date_of t) @ ''T'' @ pad2 (minute_of_day t div 60) @ '':'' @ pad2 (minute_of_day t mod 60)
         @ '':'' @ pad2 ((t div 1000000) mod 60)
         @ (if us = 0 then [] else CHR ''.'' # pad_zeros 6 (str_int us)))"

lemmas [py_eval] = seconds_def minutes_def days_def date_of_def weekday_def minute_of_day_def

section \<open>Queries\<close>

text \<open>
  A table is the list of its rows in insertion order. A query filters the list; ORDER BY is a
  stable sort; LIMIT 1 takes the first row. A query without ORDER BY yields insertion order.
\<close>

definition scalar :: "'a list \<Rightarrow> 'a option" where
  "scalar xs = (case xs of [] \<Rightarrow> None | x # _ \<Rightarrow> Some x)"

definition order_desc :: "('a \<Rightarrow> int) \<Rightarrow> 'a list \<Rightarrow> 'a list" where
  "order_desc f xs = sort_key (\<lambda>x. - f x) xs"

definition order_desc2 :: "('a \<Rightarrow> int) \<Rightarrow> ('a \<Rightarrow> int) \<Rightarrow> 'a list \<Rightarrow> 'a list" where
  "order_desc2 f g xs = sort_key (\<lambda>x. (- f x, - g x)) xs"

definition get_row :: "('a \<Rightarrow> int) \<Rightarrow> int \<Rightarrow> 'a list \<Rightarrow> 'a option" where
  "get_row rid i xs = scalar (filter (\<lambda>x. rid x = i) xs)"

definition put_row :: "('a \<Rightarrow> int) \<Rightarrow> 'a \<Rightarrow> 'a list \<Rightarrow> 'a list" where
  "put_row rid x xs = map (\<lambda>y. if rid y = rid x then x else y) xs"

definition next_id :: "('a \<Rightarrow> int) \<Rightarrow> 'a list \<Rightarrow> int" where
  "next_id rid xs = fold (\<lambda>x m. max m (rid x)) xs 0 + 1"

lemma scalar_Nil [simp]: "scalar [] = None" by (simp add: scalar_def)
lemma scalar_Cons [simp]: "scalar (x # xs) = Some x" by (simp add: scalar_def)

lemma scalar_eq_None [simp]: "scalar xs = None \<longleftrightarrow> xs = []"
  by (cases xs) auto

lemma scalar_SomeD: "scalar xs = Some x \<Longrightarrow> x \<in> set xs"
  by (cases xs) auto

lemma scalar_filter_SomeD: "scalar (filter P xs) = Some x \<Longrightarrow> P x \<and> x \<in> set xs"
  by (auto dest: scalar_SomeD)

lemma set_order_desc [simp]: "set (order_desc f xs) = set xs"
  by (simp add: order_desc_def)

lemma set_order_desc2 [simp]: "set (order_desc2 f g xs) = set xs"
  by (simp add: order_desc2_def)

lemma order_desc_Nil [simp]: "order_desc f xs = [] \<longleftrightarrow> xs = []"
  by (metis set_order_desc set_empty)

lemma order_desc2_Nil [simp]: "order_desc2 f g xs = [] \<longleftrightarrow> xs = []"
  by (metis set_order_desc2 set_empty)

lemma scalar_order_desc_max:
  assumes "scalar (order_desc f xs) = Some x" and "y \<in> set xs"
  shows "f y \<le> f x"
proof -
  obtain ys where ys: "order_desc f xs = x # ys"
    using assms(1) by (cases "order_desc f xs") auto
  have "sorted (map (\<lambda>x. - f x) (x # ys))"
    unfolding ys [symmetric] order_desc_def by (rule sorted_sort_key)
  moreover have "y \<in> set (x # ys)"
    using assms(2) unfolding ys [symmetric] by simp
  ultimately show ?thesis by auto
qed

lemma get_row_SomeD: "get_row rid i xs = Some x \<Longrightarrow> x \<in> set xs \<and> rid x = i"
  by (auto simp: get_row_def dest: scalar_SomeD)

lemma map_rid_put_row [simp]: "map rid (put_row rid x xs) = map rid xs"
  by (induction xs) (auto simp: put_row_def)

lemma length_put_row [simp]: "length (put_row rid x xs) = length xs"
  by (simp add: put_row_def)

lemma set_put_row_subset: "set (put_row rid x xs) \<subseteq> insert x (set xs)"
  by (auto simp: put_row_def)

lemma put_row_in_set: "x \<in> set xs \<Longrightarrow> rid x = rid y \<Longrightarrow> y \<in> set (put_row rid y xs)"
  by (force simp: put_row_def)

lemma put_row_other: "z \<in> set xs \<Longrightarrow> rid z \<noteq> rid x \<Longrightarrow> z \<in> set (put_row rid x xs)"
  by (force simp: put_row_def)

lemma set_put_rowD: "y \<in> set (put_row rid x xs) \<Longrightarrow> y = x \<or> (y \<in> set xs \<and> rid y \<noteq> rid x)"
  by (auto simp: put_row_def split: if_splits)

lemma fold_max_ge: "a \<le> fold (\<lambda>x m. max m (rid x)) xs a" for a :: int
  by (induction xs arbitrary: a) (auto intro: order_trans [OF max.cobounded1])

lemma fold_max_upper: "x \<in> set xs \<Longrightarrow> rid x \<le> fold (\<lambda>x m. max m (rid x)) xs a" for a :: int
proof (induction xs arbitrary: a)
  case Nil
  then show ?case by simp
next
  case (Cons y ys)
  then show ?case
    using fold_max_ge [of "max a (rid y)" rid ys] by auto
qed

lemma next_id_fresh: "x \<in> set xs \<Longrightarrow> rid x < next_id rid xs"
  unfolding next_id_def using fold_max_upper [of x xs rid 0] by linarith

text \<open>
  Find by key, then update or insert: how the services write a row that is unique by a key
  (a unique constraint of the table).
\<close>

definition upsert :: "('a \<Rightarrow> 'k) \<Rightarrow> ('a \<Rightarrow> 'a) \<Rightarrow> 'a \<Rightarrow> 'a list \<Rightarrow> 'a list" where
  "upsert key upd new xs =
     (if key new \<in> key ` set xs then map (\<lambda>y. if key y = key new then upd y else y) xs else xs @ [new])"

lemma map_key_upsert:
  assumes "\<And>y. key (upd y) = key y"
  shows "map key (upsert key upd new xs) = (if key new \<in> key ` set xs then map key xs else map key xs @ [key new])"
  by (auto simp: upsert_def assms)

lemma upsert_distinct:
  assumes "\<And>y. key (upd y) = key y" and "distinct (map key xs)"
  shows "distinct (map key (upsert key upd new xs))"
  using assms(2) by (simp add: map_key_upsert [of key upd, OF assms(1)])

lemma upsert_keys:
  assumes "\<And>y. key (upd y) = key y"
  shows "key ` set (upsert key upd new xs) = insert (key new) (key ` set xs)"
proof -
  have "key ` set ys = set (map key ys)" for ys by simp
  then show ?thesis by (simp only: map_key_upsert [of key upd, OF assms]) auto
qed

lemma upsert_other:
  assumes "\<And>y. key (upd y) = key y" and "P (key new) = False"
  shows "filter (\<lambda>y. P (key y)) (upsert key upd new xs) = filter (\<lambda>y. P (key y)) xs"
proof -
  have "filter (\<lambda>y. P (key y)) (map (\<lambda>y. if key y = key new then upd y else y) xs) = filter (\<lambda>y. P (key y)) xs"
    by (induction xs) (use assms in auto)
  then show ?thesis using assms(2) by (simp add: upsert_def)
qed

text \<open>Writing a whole row under its key.\<close>

lemma upsert_put:
  assumes "distinct (map key xs)"
  shows "distinct (map key (upsert key (\<lambda>_. x) x xs)) \<and> x \<in> set (upsert key (\<lambda>_. x) x xs)"
proof -
  have "map key (map (\<lambda>y. if key y = key x then x else y) xs) = map key xs" by simp
  with assms show ?thesis by (simp only: upsert_def split: if_split) (force simp: upsert_def image_iff)
qed

lemma upsert_put_other:
  assumes "\<not> P (key x)"
  shows "filter (\<lambda>y. P (key y)) (upsert key (\<lambda>_. x) x xs) = filter (\<lambda>y. P (key y)) xs"
proof -
  have "filter (\<lambda>y. P (key y)) (map (\<lambda>y. if key y = key x then x else y) xs) = filter (\<lambda>y. P (key y)) xs"
    by (induction xs) (use assms in auto)
  then show ?thesis using assms by (simp add: upsert_def)
qed

lemma upsert_member:
  assumes "\<And>y. key (upd y) = key y" and "y \<in> set (upsert key upd new xs)"
  shows "y \<in> set xs \<and> key y \<noteq> key new \<or> key y = key new \<and> (y = new \<or> (\<exists>z \<in> set xs. y = upd z))"
proof (cases "key new \<in> key ` set xs")
  case True
  with assms(2) show ?thesis by (auto simp: upsert_def assms(1) split: if_splits)
next
  case False
  then have "\<forall>z \<in> set xs. key z \<noteq> key new" by (metis imageI)
  with assms(2) False show ?thesis by (auto simp: upsert_def)
qed

text \<open>
  A table whose rows have unique ids, the contract of every table that services update in place: an
  update of a row and the insertion of a row under the next id keep the ids unique, and an id names
  one row.
\<close>

locale keyed_table =
  fixes rid :: "'a \<Rightarrow> int" and unique :: "'a list \<Rightarrow> bool"
  assumes unique_iff: "unique xs \<longleftrightarrow> distinct (map rid xs)"
begin

lemma put [simp]: "unique (put_row rid x xs) = unique xs"
  by (simp add: unique_iff)

lemma append: "unique xs \<Longrightarrow> rid x = next_id rid xs \<Longrightarrow> unique (xs @ [x])"
  by (auto simp: unique_iff dest: next_id_fresh [of _ _ rid])

lemma same: "unique xs \<Longrightarrow> x \<in> set xs \<Longrightarrow> y \<in> set xs \<Longrightarrow> rid x = rid y \<Longrightarrow> x = y"
  by (auto simp: unique_iff distinct_map inj_on_def)

lemma filter_distinct: "unique xs \<Longrightarrow> distinct (map rid (filter P xs))"
  by (simp add: unique_iff distinct_map_filter)

lemma get: "unique xs \<Longrightarrow> x \<in> set xs \<Longrightarrow> get_row rid (rid x) xs = Some x"
proof -
  assume u: "unique xs" and x: "x \<in> set xs"
  then have "get_row rid (rid x) xs \<noteq> None" by (auto simp: get_row_def filter_empty_conv)
  then obtain y where y: "get_row rid (rid x) xs = Some y" by auto
  with u x show ?thesis by (auto dest: get_row_SomeD same)
qed

end

text \<open>
  A protective stop: every step of the rule that maintains it keeps the stop or raises it, as long as
  the position is one the rule applies to. Then no sequence of steps lowers it.
\<close>

locale tightening_stop =
  fixes stop :: "'p \<Rightarrow> real" and step :: "'e \<Rightarrow> 'p \<Rightarrow> 'p" and applies :: "'p \<Rightarrow> bool"
  assumes tighten: "applies p \<Longrightarrow> stop p \<le> stop (step e p)"
    and still_applies: "applies p \<Longrightarrow> applies (step e p)"
begin

lemma never_lowered: "applies p \<Longrightarrow> stop p \<le> stop (fold step es p)"
proof (induction es arbitrary: p)
  case (Cons e es)
  then show ?case using tighten [of p e] still_applies [of p e] by (auto intro: order_trans)
qed simp

end

section \<open>Loops that may raise\<close>

text \<open>A for loop over a list with a state, left at the first exception.\<close>

fun foldM :: "('a \<Rightarrow> 's \<Rightarrow> exn + 's) \<Rightarrow> 'a list \<Rightarrow> 's \<Rightarrow> exn + 's" where
  "foldM f [] s = Inr s"
| "foldM f (x # xs) s = (case f x s of Inl e \<Rightarrow> Inl e | Inr s' \<Rightarrow> foldM f xs s')"

lemma foldM_ConsE:
  assumes "foldM f (x # xs) s = Inr r"
  obtains s' where "f x s = Inr s'" "foldM f xs s' = Inr r"
  using assms by (auto split: sum.splits)

lemma foldM_append: "foldM f (xs @ ys) s = (case foldM f xs s of Inl e \<Rightarrow> Inl e | Inr s' \<Rightarrow> foldM f ys s')"
  by (induction xs arbitrary: s) (auto split: sum.splits)

text \<open>The rule of invariants for such a loop.\<close>

lemma foldM_invariant:
  assumes "foldM f xs s = Inr r" and "I s"
    and "\<And>x s s'. x \<in> set xs \<Longrightarrow> I s \<Longrightarrow> f x s = Inr s' \<Longrightarrow> I s'"
  shows "I r"
  using assms
proof (induction xs arbitrary: s)
  case (Cons x xs)
  from Cons.prems(1) obtain s' where s': "f x s = Inr s'" "foldM f xs s' = Inr r" by (rule foldM_ConsE)
  have "I s'" using Cons.prems(2,3) s'(1) by auto
  then show ?case using Cons.IH [OF s'(2)] Cons.prems(3) by auto
qed simp

end
