(* ===== verification/Models.thy ===== *)
theory Models
  imports Prelude
begin

text \<open>
  The data model: the rows of the database (app/models.py), the settings (app/config.py), the
  constants of app/domain.py, and the database as a record of tables. A status column that the
  program compares with a fixed set of literals is a datatype with one constructor per literal;
  free text stays a string. Columns that only print (the JSON payload of an audit row or of an
  issue) are left out, and so is raw_response_json of an order: no modelled code reads them.
\<close>

section \<open>Enumerations\<close>

datatype direction = LONG | SHORT | RISK

datatype priority = Prio_S | Prio_A | Prio_B | Prio_C

datatype plan_status =
    PL_ACTIVE | PL_PLANNED | PL_ARMED | PL_TRIGGERED | PL_ORDER_SUBMITTED | PL_IN_POSITION
  | PL_WAIT_PULLBACK | PL_NO_CHASE | PL_WAITLIST | PL_MISSED_BY_CAPITAL | PL_BLOCKED | PL_PAUSED
  | PL_INVALIDATED | PL_EXPIRED | PL_COOLDOWN

datatype approval_status =
    NOT_REVIEWED | APPROVED_FOR_SIM_TRADE | REJECTED_BY_RISK | REJECTED_BY_PRICE | REJECTED_BY_DATA
  | REJECTED_BY_MARKET | REJECTED_BY_CAPITAL | REJECTED_BY_RECONCILIATION

datatype capital_status = CAPITAL_UNKNOWN | CAPITAL_FULL | CAPITAL_LIMITED | CAPITAL_AVAILABLE

datatype alert_status = NOT_ARMED | ALERT_ARMED | ALERT_ERROR

datatype side = BUY | SELL

datatype order_status =
    OS_SUBMITTED | OS_PARTIALLY_FILLED | OS_FILLED | OS_FILLED_INFERRED | OS_CANCELLED | OS_FAILED
  | OS_UNKNOWN_REMOTE_MISSING | OS_SELL_WAITING_RECONCILIATION

datatype position_status = POS_OPEN | POS_CLOSED | POS_CLOSED_UNVERIFIED

datatype position_source = FUTU_DETECTED | LOCAL_AND_FUTU_CONFIRMED | LOCAL_STRATEGY

datatype severity = INFO | WARN | HIGH | CRITICAL

datatype issue_status = ISSUE_OPEN | ISSUE_RESOLVED

datatype issue_type =
    REMOTE_POSITION_WITHOUT_LOCAL | LOCAL_POSITION_MISSING_REMOTE | REMOTE_ORDER_WITHOUT_LOCAL
  | LOCAL_ORDER_MISSING_REMOTE | POSITION_QTY_MISMATCH | POSITION_COST_MISMATCH | SELL_ORDER_STUCK
  | BUY_ORDER_INFERRED_FILLED | CLOSE_UNVERIFIED | ORDER_STATUS_UNKNOWN | ACCOUNT_SYNC_FAILED
  | RECONCILIATION_RUN_FAILED | OTHER_ISSUE string

datatype market_state = RISK_ON | NEUTRAL_POSITIVE | NEUTRAL_NEGATIVE | RISK_OFF | MARKET_UNKNOWN

datatype trend = STRONG_UPTREND | UPTREND | SIDEWAYS | DOWNTREND | TREND_UNKNOWN

datatype daily_state =
    DAILY_STRONG_BULL | DAILY_WEAK_BULL | DAILY_RANGE | DAILY_WEAK_BEAR | DAILY_STRONG_BEAR | DAILY_UNKNOWN

datatype timeframe = DAILY | HOUR_60 | MIN_15 | MIN_5

datatype event_type =
    BOTTOM_PASSIVATION | BOTTOM_STRUCTURE | BOTTOM_FAILED
  | TOP_PASSIVATION | TOP_STRUCTURE | TOP_INVALIDATED

datatype trading_phase =
    IDLE | CANDIDATE_POOL | STRUCTURE_DETECTED | BATTLE_WATCH | PLAN_READY | SIM_POSITION
  | RISK_PROTECTION | COOLDOWN | TREND_OK | WATCH_BOTTOM | BOTTOM_CONFIRMED | WAIT_15M_TRIGGER
  | ENTRY_CANDIDATE | IN_POSITION | EXIT_CANDIDATE

datatype signal_type = ENTRY | REDUCE | EXIT

datatype signal_status =
    PENDING | APPROVED | REJECTED | CANCELLED_BY_STRUCTURE | CANCELLED_BY_TRIGGER
  | CANCELLED_BY_MARKET | EXPIRED

datatype script = NO_SCRIPT | SCRIPT_A_BOTTOM_TREND_RESUME | SCRIPT_B_TOP_INVALIDATION_CONTINUATION

definition TRADEABLE_MARKETS :: "market_state list" where
  "TRADEABLE_MARKETS = [RISK_ON, NEUTRAL_POSITIVE]"

definition ENTRY_TRENDS :: "trend list" where
  "ENTRY_TRENDS = [STRONG_UPTREND, UPTREND]"

section \<open>Settings\<close>

record settings =
  enable_sim_trading :: bool
  enable_real_trading :: bool
  max_positions :: int
  risk_per_trade_pct :: real
  max_symbol_position_pct :: real
  max_spread_pct :: real
  max_daily_new_trades :: int
  max_daily_loss_pct :: real
  max_consecutive_losses :: int
  entry_order_timeout_seconds :: int
  sell_reconcile_retry_seconds :: int
  max_exit_order_retries :: int
  buy_order_match_window_minutes :: int
  orphan_take_profit_pct :: real
  orphan_stop_loss_pct :: real
  force_intraday_exit :: bool
  enable_overnight_hold :: bool
  no_new_entry_before_minutes_after_open :: int
  no_new_entry_before_close_minutes :: int

definition default_settings :: settings where
  "default_settings = \<lparr>
     enable_sim_trading = True, enable_real_trading = False, max_positions = 1,
     risk_per_trade_pct = 5/1000, max_symbol_position_pct = 4/10, max_spread_pct = 2/1000,
     max_daily_new_trades = 3, max_daily_loss_pct = 15/1000, max_consecutive_losses = 3,
     entry_order_timeout_seconds = 60, sell_reconcile_retry_seconds = 120, max_exit_order_retries = 3,
     buy_order_match_window_minutes = 240, orphan_take_profit_pct = 3/100, orphan_stop_loss_pct = 2/100,
     force_intraday_exit = True, enable_overnight_hold = False,
     no_new_entry_before_minutes_after_open = 60, no_new_entry_before_close_minutes = 30\<rparr>"

definition assert_simulation_only :: "settings \<Rightarrow> exn + unit" where
  "assert_simulation_only st =
     (if enable_real_trading st then Inl (RuntimeError ''Real trading is disabled in this version'') else Inr ())"

section \<open>Ledger rows\<close>

record trade_plan =
  pl_id :: int
  pl_symbol :: string
  pl_name :: string
  pl_direction :: direction
  pl_source_structure_id :: int
  pl_battle_pool_id :: int
  pl_daily_state :: daily_state
  pl_structure_type :: event_type
  pl_priority_level :: priority
  pl_entry_mode :: string
  pl_breakout_entry_price :: "real option"
  pl_pullback_entry_low :: "real option"
  pl_pullback_entry_high :: "real option"
  pl_low_absorb_entry_low :: "real option"
  pl_low_absorb_entry_high :: "real option"
  pl_stop_price :: real
  pl_target_1 :: real
  pl_target_2 :: real
  pl_trailing_rule :: string
  pl_time_stop_rule :: string
  pl_invalid_condition :: string
  pl_risk_reward_1 :: real
  pl_risk_reward_2 :: real
  pl_alert_status :: alert_status
  pl_status :: plan_status
  pl_reason :: string
  pl_no_chase_above :: "real option"
  pl_no_chase_below :: "real option"
  pl_current_price :: "real option"
  pl_current_change_pct :: "real option"
  pl_last_validated_at :: "int option"
  pl_rules_approval_status :: approval_status
  pl_rules_reject_reason :: string
  pl_capital_status :: capital_status
  pl_capital_reason :: string
  pl_activation_status :: string
  pl_waitlist_rank :: "int option"
  pl_simulated_order_id :: "int option"
  pl_missed_by_capital_at :: "int option"
  pl_missed_by_capital_price :: "real option"
  pl_suggested_shares :: "int option"
  pl_available_cash_snapshot :: "real option"
  pl_max_new_position_value :: "real option"
  pl_manual_checklist :: "string list"
  pl_created_at :: int
  pl_updated_at :: int

record position =
  pos_id :: int
  pos_symbol :: string
  pos_status :: position_status
  pos_entry_signal_id :: int
  pos_entry_price :: real
  pos_stop_price :: real
  pos_trailing_stop :: "real option"
  pos_shares :: int
  pos_risk_amount :: real
  pos_current_r :: real
  pos_exit_reason :: string
  pos_source_trade_plan_id :: "int option"
  pos_entry_order_id :: "int option"
  pos_exit_order_id :: "int option"
  pos_target_1 :: "real option"
  pos_target_2 :: "real option"
  pos_max_r :: real
  pos_min_r :: real
  pos_partial_exit_done :: bool
  pos_trailing_stop_price :: "real option"
  pos_overnight_policy :: string
  pos_source :: position_source
  pos_is_orphan :: bool
  pos_name :: string
  pos_available_shares :: int
  pos_current_price :: "real option"
  pos_market_value :: real
  pos_unrealized_pnl :: real
  pos_unrealized_pnl_pct :: real
  pos_exit_price :: "real option"
  pos_realized_pnl :: "real option"
  pos_close_verified :: bool
  pos_close_source :: string
  pos_take_profit_pct :: "real option"
  pos_stop_loss_pct :: "real option"
  pos_last_synced_at :: "int option"
  pos_last_risk_checked_at :: "int option"
  pos_last_error :: string
  pos_updated_at :: int

record sim_order =
  so_id :: int
  so_trade_plan_id :: "int option"
  so_symbol :: string
  so_side :: side
  so_qty :: int
  so_limit_price :: real
  so_submitted_price :: "real option"
  so_submitted_at :: int
  so_futu_order_id :: string
  so_status :: order_status
  so_reason :: string
  so_dealt_qty :: int
  so_dealt_avg_price :: "real option"
  so_retry_count :: int

record sim_deal =
  sd_id :: int
  sd_sim_order_id :: int
  sd_symbol :: string
  sd_side :: side
  sd_qty :: int
  sd_price :: real
  sd_dealt_at :: int
  sd_futu_deal_id :: string

record audit_log =
  al_action :: string
  al_symbol :: string
  al_subject_type :: string
  al_subject_id :: "int option"
  al_status :: string
  al_reason :: string
  al_created_at :: int

record issue =
  is_id :: int
  is_symbol :: string
  is_type :: issue_type
  is_severity :: severity
  is_status :: issue_status
  is_remote_order_id :: string
  is_local_order_id :: "int option"
  is_position_id :: "int option"
  is_trade_plan_id :: "int option"
  is_reason :: string
  is_first_seen_at :: int
  is_last_seen_at :: int
  is_resolved_at :: "int option"

text \<open>The rows a new row starts from: the column defaults of the model class.\<close>

definition new_position :: "string \<Rightarrow> real \<Rightarrow> real \<Rightarrow> int \<Rightarrow> real \<Rightarrow> int \<Rightarrow> position" where
  "new_position symbol entry stop shares risk now = \<lparr>
     pos_id = 0, pos_symbol = symbol, pos_status = POS_OPEN, pos_entry_signal_id = 0,
     pos_entry_price = entry, pos_stop_price = stop, pos_trailing_stop = None, pos_shares = shares,
     pos_risk_amount = risk, pos_current_r = 0, pos_exit_reason = [], pos_source_trade_plan_id = None,
     pos_entry_order_id = None, pos_exit_order_id = None, pos_target_1 = None, pos_target_2 = None,
     pos_max_r = 0, pos_min_r = 0, pos_partial_exit_done = False, pos_trailing_stop_price = None,
     pos_overnight_policy = ''INTRADAY_ONLY'', pos_source = LOCAL_STRATEGY, pos_is_orphan = False,
     pos_name = [], pos_available_shares = 0, pos_current_price = None, pos_market_value = 0,
     pos_unrealized_pnl = 0, pos_unrealized_pnl_pct = 0, pos_exit_price = None,
     pos_realized_pnl = None, pos_close_verified = False, pos_close_source = [],
     pos_take_profit_pct = None, pos_stop_loss_pct = None, pos_last_synced_at = None,
     pos_last_risk_checked_at = None, pos_last_error = [], pos_updated_at = now\<rparr>"

definition new_order :: "string \<Rightarrow> side \<Rightarrow> int \<Rightarrow> real \<Rightarrow> int \<Rightarrow> sim_order" where
  "new_order symbol sd qty price now = \<lparr>
     so_id = 0, so_trade_plan_id = None, so_symbol = symbol, so_side = sd, so_qty = qty,
     so_limit_price = price, so_submitted_price = None, so_submitted_at = now, so_futu_order_id = [],
     so_status = OS_SUBMITTED, so_reason = [], so_dealt_qty = 0, so_dealt_avg_price = None,
     so_retry_count = 0\<rparr>"

end
