(* ===== verification/Messages.thy ===== *)
theory Messages
  imports Prelude
begin

text \<open>
  The Chinese message texts of the program, as the UTF-8 bytes of their code points. The comment of
  each says what it means; the section says which file it comes from.
\<close>

section \<open>app/services/position_sync.py\<close>

definition zh_no_buy_candidate :: string where \<comment> \<open>no local unfinished BUY candidate order\<close>
  "zh_no_buy_candidate = utf8 [27809, 26377, 26412, 22320, 26410, 23436, 25104, 32, 66, 85, 89, 32, 20505, 36873,
     35746, 21333]"

definition zh_many_buy_candidates :: string where \<comment> \<open>several unfinished BUY candidates of the same symbol, not bound\<close>
  "zh_many_buy_candidates = utf8 [23384, 22312, 22810, 20010, 21516, 26631, 30340, 26410, 23436, 25104, 32, 66, 85, 89,
     32, 20505, 36873, 35746, 21333, 65292, 36991, 20813, 35823, 32465, 23450]"

definition zh_match_all :: string where \<comment> \<open>quantity, price and submission time match\<close>
  "zh_match_all = utf8 [25968, 37327, 12289, 20215, 26684, 21644, 25552, 20132, 26102, 38388, 22343, 21305,
     37197]"

definition zh_match_no_price :: string where \<comment> \<open>quantity and time match, no price to compare\<close>
  "zh_match_no_price = utf8 [25968, 37327, 21644, 25552, 20132, 26102, 38388, 21305, 37197, 65292, 36828, 31471,
     25104, 26412, 20215, 25110, 35746, 21333, 20215, 26684, 19981, 21487, 29992]"

definition zh_miss_qty :: string where \<comment> \<open>quantity does not match\<close>
  "zh_miss_qty = utf8 [25968, 37327, 19981, 21305, 37197]"

definition zh_miss_price :: string where \<comment> \<open>price deviates beyond the threshold\<close>
  "zh_miss_price = utf8 [20215, 26684, 20559, 24046, 36229, 36807, 38408, 20540]"

definition zh_miss_price_data :: string where \<comment> \<open>no price data\<close>
  "zh_miss_price_data = utf8 [20215, 26684, 25968, 25454, 19981, 21487, 29992]"

definition zh_miss_time :: string where \<comment> \<open>submission time outside the matching window\<close>
  "zh_miss_time = utf8 [35746, 21333, 25552, 20132, 26102, 38388, 36229, 20986, 21305, 37197, 31383, 21475]"

definition zh_low_confidence :: string where \<comment> \<open>low-confidence match\<close>
  "zh_low_confidence = utf8 [20302, 32622, 20449, 21305, 37197]"

definition zh_separator :: string where \<comment> \<open>full-width semicolon\<close>
  "zh_separator = utf8 [65307]"

definition zh_fill_inferred :: string where \<comment> \<open>the Futu position exists, the entry order is inferred filled\<close>
  "zh_fill_inferred = utf8 [70, 117, 116, 117, 32, 25345, 20179, 23384, 22312, 65292, 25512, 26029, 20837, 22330,
     35746, 21333, 24050, 25104, 20132]"

definition zh_orphan_low_confidence :: string where \<comment> \<open>Futu position exists but BUY candidates are several or uncertain, not bound\<close>
  "zh_orphan_low_confidence = utf8 [70, 117, 116, 117, 32, 25345, 20179, 23384, 22312, 65292, 20294, 26412, 22320, 23384,
     22312, 22810, 20010, 25110, 20302, 32622, 20449, 26410, 23436, 25104, 32, 66, 85,
     89, 32, 21333, 65292, 26410, 33258, 21160, 32465, 23450]"

definition zh_orphan_bound :: string where \<comment> \<open>Futu position bound back to a local entry order\<close>
  "zh_orphan_bound = utf8 [70, 117, 116, 117, 32, 27169, 25311, 36134, 25143, 23384, 22312, 25345, 20179, 65292,
     24050, 21453, 21521, 32465, 23450, 26412, 22320, 20837, 22330, 35746, 21333]"

definition zh_orphan_unbound :: string where \<comment> \<open>Futu position without a local position\<close>
  "zh_orphan_unbound = utf8 [70, 117, 116, 117, 32, 27169, 25311, 36134, 25143, 23384, 22312, 25345, 20179, 65292,
     20294, 26412, 22320, 27809, 26377, 23545, 24212, 25345, 20179, 35760, 24405]"

definition zh_closed_confirmed :: string where \<comment> \<open>position gone at Futu and a local SELL fill confirms it\<close>
  "zh_closed_confirmed = utf8 [70, 117, 116, 117, 32, 27169, 25311, 36134, 25143, 24050, 26080, 35813, 25345, 20179,
     65292, 19988, 26412, 22320, 32, 83, 69, 76, 76, 32, 25104, 20132, 24050, 30830,
     35748]"

definition zh_closed_unverified :: string where \<comment> \<open>position gone at Futu without a confirmed SELL fill\<close>
  "zh_closed_unverified = utf8 [70, 117, 116, 117, 32, 27169, 25311, 36134, 25143, 24050, 26080, 35813, 25345, 20179,
     65292, 20294, 26412, 22320, 26410, 30830, 35748, 32, 83, 69, 76, 76, 32, 25104,
     20132]"

section \<open>app/services/order_sync.py\<close>

definition zh_deals_unsupported :: string where \<comment> \<open>simulated trading does not support deal data\<close>
  "zh_deals_unsupported = utf8 [27169, 25311, 20132, 26131, 19981, 25903, 25345, 25104, 20132, 25968, 25454]"

definition zh_sell_not_returned :: string where \<comment> \<open>the SELL order was not returned by open orders, waiting for reconciliation\<close>
  "zh_sell_not_returned = utf8 [39118, 25511, 21334, 20986, 21333, 26410, 22312, 32, 111, 112, 101, 110, 32, 111, 114,
     100, 101, 114, 115, 32, 36820, 22238, 65292, 31561, 24453, 25345, 20179, 47,
     25104, 20132, 23545, 36134, 30830, 35748]"

definition zh_entry_not_returned :: string where \<comment> \<open>the entry order was not returned by open orders, waiting for reconciliation\<close>
  "zh_entry_not_returned = utf8 [70, 117, 116, 117, 32, 111, 112, 101, 110, 32, 111, 114, 100, 101, 114, 115, 32, 26410,
     36820, 22238, 35813, 20837, 22330, 35746, 21333, 65292, 31561, 24453, 25104,
     20132, 47, 25345, 20179, 23545, 36134, 30830, 35748]"

definition zh_entry_timeout :: string where \<comment> \<open>the entry limit order exceeded its waiting time\<close>
  "zh_entry_timeout = utf8 [20837, 22330, 38480, 20215, 21333, 36229, 36807, 31561, 24453, 26102, 38388]"

definition zh_order_id_missing :: string where \<comment> \<open>the order id does not exist\<close>
  "zh_order_id_missing = utf8 [35746, 21333, 21495, 19981, 23384, 22312]"

section \<open>app/services/trade_reconciler.py\<close>

definition zh_account_sync_failed_colon :: string where \<comment> \<open>account sync failed: \<close>
  "zh_account_sync_failed_colon = utf8 [36134, 25143, 21516, 27493, 22833, 36133, 65306]"

definition zh_account_sync_failed_check :: string where \<comment> \<open>account sync failed, needs a manual check\<close>
  "zh_account_sync_failed_check = utf8 [36134, 25143, 21516, 27493, 22833, 36133, 65292, 38656, 35201, 20154, 24037, 26816,
     26597]"

definition zh_gate_corrupt :: string where \<comment> \<open>the stored gate status is corrupt, new entries forbidden\<close>
  "zh_gate_corrupt = utf8 [20132, 26131, 23545, 36134, 38392, 38376, 29366, 24577, 25439, 22351, 65292, 31105,
     27490, 26032, 24320, 20179]"

definition zh_remote_position_no_local :: string where \<comment> \<open>Futu holds a position but there is no local OPEN position\<close>
  "zh_remote_position_no_local = utf8 [23500, 36884, 36134, 25143, 23384, 22312, 25345, 20179, 65292, 20294, 26412, 22320,
     27809, 26377, 32, 79, 80, 69, 78, 32, 80, 111, 115, 105, 116, 105, 111, 110]"

definition zh_local_open_no_remote :: string where \<comment> \<open>local position OPEN but gone at Futu\<close>
  "zh_local_open_no_remote = utf8 [26412, 22320, 20173, 20026, 32, 79, 80, 69, 78, 65292, 20294, 23500, 36884, 36134,
     25143, 24050, 26080, 35813, 25345, 20179]"

definition zh_qty_mismatch :: string where \<comment> \<open>local and Futu quantities differ\<close>
  "zh_qty_mismatch = utf8 [26412, 22320, 25345, 20179, 25968, 37327, 19982, 23500, 36884, 25345, 20179, 25968,
     37327, 19981, 19968, 33268]"

definition zh_cost_mismatch :: string where \<comment> \<open>local and Futu cost differ by more than one percent\<close>
  "zh_cost_mismatch = utf8 [26412, 22320, 25345, 20179, 25104, 26412, 19982, 23500, 36884, 25345, 20179, 25104,
     26412, 20559, 24046, 36229, 36807, 32, 49, 37]"

definition zh_remote_order_no_local :: string where \<comment> \<open>Futu reports an order without a local SimOrder\<close>
  "zh_remote_order_no_local = utf8 [23500, 36884, 32, 111, 112, 101, 110, 32, 111, 114, 100, 101, 114, 115, 32, 23384,
     22312, 35746, 21333, 65292, 20294, 26412, 22320, 27809, 26377, 23545, 24212, 32,
     83, 105, 109, 79, 114, 100, 101, 114]"

definition zh_sell_stuck :: string where \<comment> \<open>SELL order confirmed neither by open orders nor by deals\<close>
  "zh_sell_stuck = utf8 [39118, 25511, 21334, 20986, 21333, 26410, 22312, 36828, 31471, 32, 111, 112, 101, 110,
     32, 111, 114, 100, 101, 114, 115, 32, 25110, 25104, 20132, 20013, 30830, 35748]"

definition zh_local_order_missing :: string where \<comment> \<open>local order confirmed neither by open orders nor by deals\<close>
  "zh_local_order_missing = utf8 [26412, 22320, 35746, 21333, 26410, 22312, 36828, 31471, 32, 111, 112, 101, 110, 32,
     111, 114, 100, 101, 114, 115, 32, 25110, 25104, 20132, 20013, 30830, 35748]"

definition zh_close_unconfirmed :: string where \<comment> \<open>position gone at Futu, no confirmed SELL fill\<close>
  "zh_close_unconfirmed = utf8 [20179, 20301, 24050, 20174, 23500, 36884, 28040, 22833, 65292, 20294, 26412, 22320,
     27809, 26377, 30830, 35748, 32, 83, 69, 76, 76, 32, 25104, 20132]"

definition zh_buy_inferred :: string where \<comment> \<open>BUY order inferred filled from the remote position\<close>
  "zh_buy_inferred = utf8 [66, 85, 89, 32, 35746, 21333, 30001, 36828, 31471, 25345, 20179, 21453, 25512, 20026,
     25104, 20132]"

definition zh_health_critical :: string where \<comment> \<open>critical account sync or reconciliation problem\<close>
  "zh_health_critical = utf8 [23384, 22312, 20851, 38190, 36134, 25143, 21516, 27493, 25110, 23545, 36134, 38382,
     39064]"

definition zh_health_high :: string where \<comment> \<open>high-priority ledger inconsistency\<close>
  "zh_health_high = utf8 [23384, 22312, 39640, 20248, 20808, 32423, 20132, 26131, 36134, 26412, 19981, 19968,
     33268]"

definition zh_health_warn :: string where \<comment> \<open>non-blocking reconciliation notice\<close>
  "zh_health_warn = utf8 [23384, 22312, 38750, 38459, 26029, 23545, 36134, 25552, 37266]"

definition zh_health_ok :: string where \<comment> \<open>ledger reconciled\<close>
  "zh_health_ok = utf8 [20132, 26131, 36134, 26412, 23545, 36134, 27491, 24120]"

definition zh_sync_failed :: string where \<comment> \<open>sync failed\<close>
  "zh_sync_failed = utf8 [21516, 27493, 22833, 36133]"

definition zh_account :: string where \<comment> \<open>account\<close>
  "zh_account = utf8 [36134, 25143]"

section \<open>app/services/portfolio_manager.py\<close>

definition zh_max_positions_reached :: string where \<comment> \<open>maximum number of positions reached\<close>
  "zh_max_positions_reached = utf8 [24050, 36798, 21040, 26368, 22823, 25345, 20179, 25968]"

definition zh_no_equity :: string where \<comment> \<open>account equity unreadable, new entries forbidden\<close>
  "zh_no_equity = utf8 [26080, 27861, 35835, 21462, 32, 70, 117, 116, 117, 32, 27169, 25311, 36134, 25143,
     26435, 30410, 65292, 31105, 27490, 26032, 24320, 20179]"

definition zh_no_cash :: string where \<comment> \<open>not enough available cash\<close>
  "zh_no_cash = utf8 [70, 117, 116, 117, 32, 27169, 25311, 36134, 25143, 21487, 29992, 36164, 37329, 19981,
     36275]"

definition zh_capital_ok :: string where \<comment> \<open>capital allows evaluating a new plan\<close>
  "zh_capital_ok = utf8 [36164, 37329, 20801, 35768, 35780, 20272, 26032, 35745, 21010]"

definition zh_capital_unknown_colon :: string where \<comment> \<open>cannot confirm funds, positions or open orders: \<close>
  "zh_capital_unknown_colon = utf8 [26080, 27861, 30830, 35748, 27169, 25311, 36134, 25143, 36164, 37329, 12289, 25345,
     20179, 25110, 26410, 25104, 20132, 35746, 21333, 65306]"

definition zh_symbol_held :: string where \<comment> \<open>the symbol is already held\<close>
  "zh_symbol_held = utf8 [21516, 26631, 30340, 24050, 26377, 27169, 25311, 25345, 20179]"

definition zh_symbol_ordered :: string where \<comment> \<open>the symbol already has an unfinished order\<close>
  "zh_symbol_ordered = utf8 [21516, 26631, 30340, 24050, 26377, 26410, 23436, 25104, 27169, 25311, 35746, 21333]"

definition zh_capital_gate_ok :: string where \<comment> \<open>capital gate passed\<close>
  "zh_capital_gate_ok = utf8 [36164, 37329, 38392, 38376, 36890, 36807]"

definition zh_portfolio_not_synced :: string where \<comment> \<open>account not synced yet\<close>
  "zh_portfolio_not_synced = utf8 [23578, 26410, 21516, 27493, 32, 70, 117, 116, 117, 32, 27169, 25311, 36134, 25143]"

definition zh_portfolio_corrupt :: string where \<comment> \<open>stored portfolio sync status corrupt\<close>
  "zh_portfolio_corrupt = utf8 [32452, 21512, 36134, 25143, 21516, 27493, 29366, 24577, 25439, 22351]"

section \<open>app/services/realtime_execution_validator.py\<close>

definition zh_no_quote :: string where \<comment> \<open>no real-time quote\<close>
  "zh_no_quote = utf8 [23454, 26102, 34892, 24773, 32570, 22833]"

definition zh_market_current :: string where \<comment> \<open>market state refreshed on the current trading day\<close>
  "zh_market_current = utf8 [24066, 22330, 39118, 21521, 26631, 24050, 25353, 24403, 21069, 32654, 32929, 20132,
     26131, 26085, 21047, 26032]"

definition zh_market_stale :: string where \<comment> \<open>market state is not of the current trading day\<close>
  "zh_market_stale = utf8 [24066, 22330, 39118, 21521, 26631, 19981, 26159, 24403, 21069, 32654, 32929, 20132,
     26131, 26085, 25968, 25454, 65292, 31105, 27490, 27839, 29992, 26087, 29366,
     24577, 24320, 20179]"

definition zh_below_stop :: string where \<comment> \<open>price at or below the stop\<close>
  "zh_below_stop = utf8 [24403, 21069, 20215, 36300, 30772, 27490, 25439, 20215]"

definition zh_above_no_chase :: string where \<comment> \<open>price above the no-chase line\<close>
  "zh_above_no_chase = utf8 [24403, 21069, 20215, 36229, 36807, 31105, 27490, 36861, 20215, 21306]"

definition zh_cooldown_until :: string where \<comment> \<open>cooldown until \<close>
  "zh_cooldown_until = utf8 [20919, 21364, 26399, 33267, 32]"

definition zh_no_ma20 :: string where \<comment> \<open>latest 60m MA20 missing\<close>
  "zh_no_ma20 = utf8 [32570, 23569, 26368, 26032, 32, 54, 48, 32, 20998, 38047, 32, 77, 65, 50, 48]"

definition zh_above_ma20 :: string where \<comment> \<open>price not below the 60m MA20 (\<close>
  "zh_above_ma20 = utf8 [24403, 21069, 20215, 26410, 36300, 30772, 32, 54, 48, 32, 20998, 38047, 32, 77, 65, 50,
     48, 65288]"

definition zh_below_ma20 :: string where \<comment> \<open>price below the 60m MA20 (\<close>
  "zh_below_ma20 = utf8 [24403, 21069, 20215, 20302, 20110, 32, 54, 48, 32, 20998, 38047, 32, 77, 65, 50, 48,
     65288]"

definition zh_close_paren :: string where \<comment> \<open>closing parenthesis\<close>
  "zh_close_paren = utf8 [65289]"

section \<open>app/services/rules_approval.py\<close>

definition zh_sim_off :: string where \<comment> \<open>simulated trading is switched off\<close>
  "zh_sim_off = utf8 [27169, 25311, 20132, 26131, 24635, 24320, 20851, 26410, 24320, 21551]"

definition zh_real_on :: string where \<comment> \<open>real trading must be off\<close>
  "zh_real_on = utf8 [30495, 23454, 20132, 26131, 37197, 32622, 24517, 39035, 20851, 38381]"

definition zh_only_sa :: string where \<comment> \<open>only S and A plans trade automatically\<close>
  "zh_only_sa = utf8 [20165, 32, 83, 47, 65, 32, 32423, 20801, 35768, 33258, 21160, 27169, 25311, 20132, 26131]"

definition zh_only_long :: string where \<comment> \<open>only long plans\<close>
  "zh_only_long = utf8 [31532, 19968, 29256, 21482, 20801, 35768, 22810, 22836]"

definition zh_not_triggered :: string where \<comment> \<open>the plan is not fully triggered\<close>
  "zh_not_triggered = utf8 [35745, 21010, 23578, 26410, 23436, 25972, 35302, 21457]"

definition zh_below_breakout :: string where \<comment> \<open>breakout price not reached\<close>
  "zh_below_breakout = utf8 [23578, 26410, 36798, 21040, 31361, 30772, 20215]"

definition zh_chasing :: string where \<comment> \<open>above the no-chase line\<close>
  "zh_chasing = utf8 [36229, 36807, 31105, 27490, 36861, 20215, 32447]"

definition zh_no_spread :: string where \<comment> \<open>no real-time bid and ask\<close>
  "zh_no_spread = utf8 [23454, 26102, 20080, 21334, 20215, 19981, 21487, 29992]"

definition zh_wide_spread :: string where \<comment> \<open>spread too wide\<close>
  "zh_wide_spread = utf8 [20080, 21334, 20215, 24046, 36807, 22823]"

definition zh_no_volume :: string where \<comment> \<open>no real-time volume\<close>
  "zh_no_volume = utf8 [23454, 26102, 25104, 20132, 37327, 19981, 21487, 29992]"

definition zh_bad_volume :: string where \<comment> \<open>abnormal real-time volume\<close>
  "zh_bad_volume = utf8 [23454, 26102, 25104, 20132, 37327, 24322, 24120]"

definition zh_no_short_trend :: string where \<comment> \<open>short trend not checked\<close>
  "zh_no_short_trend = utf8 [30701, 21608, 26399, 36235, 21183, 23578, 26410, 23436, 25104, 26657, 39564]"

definition zh_short_trend_broken :: string where \<comment> \<open>short trend broken\<close>
  "zh_short_trend_broken = utf8 [30701, 21608, 26399, 36235, 21183, 24050, 30772, 22351]"

definition zh_market_not_refreshed :: string where \<comment> \<open>market state of the day not refreshed\<close>
  "zh_market_not_refreshed = utf8 [20170, 26085, 24066, 22330, 39118, 21521, 26631, 23578, 26410, 23436, 25104, 21047,
     26032]"

definition zh_market_risk_off :: string where \<comment> \<open>market is risk off\<close>
  "zh_market_risk_off = utf8 [24066, 22330, 22788, 20110, 39118, 38505, 20851, 38381, 29366, 24577]"

definition zh_entry_time_forbidden :: string where \<comment> \<open>new entries are forbidden at this time\<close>
  "zh_entry_time_forbidden = utf8 [24403, 21069, 22788, 20110, 31105, 27490, 26032, 24320, 20179, 26102, 38388]"

definition zh_rules_passed :: string where \<comment> \<open>all approval rules passed\<close>
  "zh_rules_passed = utf8 [20840, 37096, 33258, 21160, 23457, 25209, 35268, 21017, 36890, 36807]"

definition zh_gate_never_run :: string where \<comment> \<open>reconciliation never completed, new entries forbidden\<close>
  "zh_gate_never_run = utf8 [23578, 26410, 23436, 25104, 20132, 26131, 23545, 36134, 65292, 31105, 27490, 26032,
     24320, 20179]"

definition zh_gate_blocking_issue :: string where \<comment> \<open>an open HIGH or CRITICAL issue forbids new entries\<close>
  "zh_gate_blocking_issue = utf8 [23384, 22312, 32, 72, 73, 71, 72, 47, 67, 82, 73, 84, 73, 67, 65, 76, 32, 23545, 36134,
     38382, 39064, 65292, 31105, 27490, 26032, 24320, 20179]"

definition zh_gate_forbids :: string where \<comment> \<open>the gate forbids new entries\<close>
  "zh_gate_forbids = utf8 [20132, 26131, 23545, 36134, 38392, 38376, 31105, 27490, 26032, 24320, 20179]"

definition zh_gate_passed :: string where \<comment> \<open>the gate is open\<close>
  "zh_gate_passed = utf8 [20132, 26131, 23545, 36134, 38392, 38376, 36890, 36807]"

definition zh_daily_trades_reached :: string where \<comment> \<open>daily number of new trades reached\<close>
  "zh_daily_trades_reached = utf8 [24050, 36798, 21040, 24403, 26085, 26368, 22823, 26032, 24320, 20179, 27425, 25968]"

definition zh_daily_loss_reached :: string where \<comment> \<open>daily loss stop reached\<close>
  "zh_daily_loss_reached = utf8 [24050, 35302, 21457, 24403, 26085, 20111, 25439, 20572, 27490, 32447]"

definition zh_losing_streak :: string where \<comment> \<open>maximum losing streak reached\<close>
  "zh_losing_streak = utf8 [24050, 36798, 21040, 26368, 22823, 36830, 32493, 20111, 25439, 27425, 25968]"

section \<open>app/services/sim_order_executor.py\<close>

definition zh_budget_too_small :: string where \<comment> \<open>the risk budget does not buy one share\<close>
  "zh_budget_too_small = utf8 [39118, 38505, 39044, 31639, 19981, 36275, 20197, 36141, 20080, 32, 49, 32, 32929]"

section \<open>app/services/position_manager.py\<close>

definition zh_no_price :: string where \<comment> \<open>cannot read the position's price\<close>
  "zh_no_price = utf8 [26080, 27861, 35835, 21462, 25345, 20179, 24403, 21069, 20215]"

definition zh_retry_limit :: string where \<comment> \<open>exit order reached its retry limit, check the account by hand\<close>
  "zh_retry_limit = utf8 [39118, 25511, 36864, 20986, 21333, 36798, 21040, 26368, 22823, 37325, 35797, 27425,
     25968, 65292, 38656, 35201, 20154, 24037, 26816, 26597, 23500, 36884, 36134, 25143]"

section \<open>app/services/sim_loop.py\<close>

definition zh_reconciliation_run_failed :: string where \<comment> \<open>reconciliation run failed: \<close>
  "zh_reconciliation_run_failed = utf8 [20132, 26131, 23545, 36134, 36816, 34892, 22833, 36133, 65306]"

section \<open>app/services/daily_state.py\<close>

definition zh_daily_short_history :: string where \<comment> \<open>not enough daily bars or indicators\<close>
  "zh_daily_short_history = utf8 [26085, 32447, 34892, 24773, 25110, 25351, 26631, 21382, 21490, 19981, 36275]"

definition zh_daily_not_formed :: string where \<comment> \<open>MA20, MA60 or MACD not formed yet\<close>
  "zh_daily_not_formed = utf8 [77, 65, 50, 48, 12289, 77, 65, 54, 48, 32, 25110, 32, 77, 65, 67, 68, 32, 23578, 26410,
     24418, 25104]"

definition zh_daily_strong_bull :: string where \<comment> \<open>price above a rising MA20 above MA60, MACD positive\<close>
  "zh_daily_strong_bull = utf8 [20215, 26684, 31449, 19978, 32, 77, 65, 50, 48, 65292, 77, 65, 50, 48, 32, 39640,
     20110, 32, 77, 65, 54, 48, 32, 19988, 25345, 32493, 19978, 34892, 65292, 77, 65,
     67, 68, 32, 20301, 20110, 38646, 36724, 19978, 26041]"

definition zh_daily_weak_bull :: string where \<comment> \<open>price near MA20, averages not bearish, MACD not deeply weak\<close>
  "zh_daily_weak_bull = utf8 [20215, 26684, 23432, 22312, 32, 77, 65, 50, 48, 32, 38468, 36817, 65292, 22343, 32447,
     32467, 26500, 26410, 36716, 31354, 65292, 77, 65, 67, 68, 32, 26410, 36827, 20837,
     28145, 24230, 24369, 21183]"

definition zh_daily_range :: string where \<comment> \<open>price around MA20, slope nearly flat\<close>
  "zh_daily_range = utf8 [20215, 26684, 22260, 32469, 32, 77, 65, 50, 48, 32, 19982, 32, 66, 79, 76, 76, 32,
     20013, 36712, 21453, 22797, 65292, 77, 65, 50, 48, 32, 26012, 29575, 25509, 36817,
     24179, 22374]"

definition zh_daily_strong_bear :: string where \<comment> \<open>price below a falling MA20 below MA60\<close>
  "zh_daily_strong_bear = utf8 [20215, 26684, 20302, 20110, 32, 77, 65, 50, 48, 65292, 77, 65, 50, 48, 32, 20302,
     20110, 32, 77, 65, 54, 48, 32, 19988, 32487, 32493, 19979, 34892, 65292, 21453,
     24377, 26410, 25910, 22797, 20013, 36712]"

definition zh_daily_weak_bear :: string where \<comment> \<open>price below MA20 or MA20 weak, not fully bearish\<close>
  "zh_daily_weak_bear = utf8 [20215, 26684, 36300, 30772, 32, 77, 65, 50, 48, 32, 25110, 32, 77, 65, 50, 48, 32,
     24050, 36716, 24369, 65292, 20294, 23578, 26410, 24418, 25104, 23436, 25972,
     31354, 22836, 25490, 21015]"

definition zh_daily_no_date :: string where \<comment> \<open>a daily state without a date cannot be stored\<close>
  "zh_daily_no_date = utf8 [19981, 33021, 25345, 20037, 21270, 27809, 26377, 26085, 26399, 30340, 26085, 32447,
     29366, 24577]"

section \<open>app/services/structures.py\<close>

definition zh_act_long_plan :: string where \<comment> \<open>make a long plan and wait for the key price\<close>
  "zh_act_long_plan = utf8 [29983, 25104, 22810, 22836, 35745, 21010, 24182, 31561, 24453, 20851, 38190, 20215,
     20301]"

definition zh_act_assess_short :: string where \<comment> \<open>assess a downward plan, do not sell short\<close>
  "zh_act_assess_short = utf8 [35780, 20272, 19979, 34892, 35745, 21010, 65292, 19981, 30452, 25509, 20570, 31354]"

definition zh_act_protect :: string where \<comment> \<open>watch under risk protection, do not close\<close>
  "zh_act_protect = utf8 [36827, 20837, 39118, 38505, 20445, 25252, 35266, 23519, 65292, 19981, 30452, 25509,
     28165, 20179]"

definition zh_act_assess_resume :: string where \<comment> \<open>assess a trend-resumption plan\<close>
  "zh_act_assess_resume = utf8 [35780, 20272, 24378, 36235, 21183, 24674, 22797, 35745, 21010]"

definition zh_act_watch_structure :: string where \<comment> \<open>keep watching until the structure is confirmed\<close>
  "zh_act_watch_structure = utf8 [32487, 32493, 35266, 23519, 65292, 31561, 24453, 32467, 26500, 30830, 35748]"

section \<open>app/services/entry_trigger.py\<close>

definition zh_trg_no_bottom :: string where \<comment> \<open>a valid 60m bottom structure is missing\<close>
  "zh_trg_no_bottom = utf8 [32570, 23569, 26377, 25928, 30340, 32, 54, 48, 32, 20998, 38047, 24213, 32467, 26500,
     21069, 32622, 26465, 20214]"

definition zh_trg_bottom_failed :: string where \<comment> \<open>the 60m bottom structure failed or is invalid\<close>
  "zh_trg_bottom_failed = utf8 [54, 48, 32, 20998, 38047, 24213, 32467, 26500, 24050, 32463, 22833, 36133, 25110,
     22833, 25928]"

definition zh_trg_no_bars :: string where \<comment> \<open>15m bars missing\<close>
  "zh_trg_no_bars = utf8 [49, 53, 32, 20998, 38047, 34892, 24773, 32570, 22833]"

definition zh_trg_expired :: string where \<comment> \<open>the 60m bottom structure has expired\<close>
  "zh_trg_expired = utf8 [54, 48, 32, 20998, 38047, 24213, 32467, 26500, 24050, 32463, 36807, 26399]"

definition zh_trg_wait_new_bar :: string where \<comment> \<open>waiting for a new 15m bar after the confirmation\<close>
  "zh_trg_wait_new_bar = utf8 [31561, 24453, 24213, 32467, 26500, 30830, 35748, 21518, 30340, 26032, 32, 49, 53, 32,
     20998, 38047, 32, 75, 32, 32447]"

definition zh_trg_short_history :: string where \<comment> \<open>15m history too short\<close>
  "zh_trg_short_history = utf8 [49, 53, 32, 20998, 38047, 21382, 21490, 19981, 36275, 65292, 26080, 27861, 30830,
     35748, 31361, 30772, 19982, 21160, 33021, 25913, 21892]"

definition zh_trg_no_indicator :: string where \<comment> \<open>15m indicator missing\<close>
  "zh_trg_no_indicator = utf8 [49, 53, 32, 20998, 38047, 25351, 26631, 32570, 22833]"

definition zh_trg_indicator_short :: string where \<comment> \<open>15m indicator history too short\<close>
  "zh_trg_indicator_short = utf8 [49, 53, 32, 20998, 38047, 25351, 26631, 21382, 21490, 19981, 36275]"

definition zh_trg_below_ma20 :: string where \<comment> \<open>waiting for the 15m close to regain MA20\<close>
  "zh_trg_below_ma20 = utf8 [31561, 24453, 32, 49, 53, 32, 20998, 38047, 25910, 30424, 20215, 31449, 22238, 32, 77,
     65, 50, 48]"

definition zh_trg_no_breakout_a :: string where \<comment> \<open>waiting to break the high of the last \<close>
  "zh_trg_no_breakout_a = utf8 [31561, 24453, 31361, 30772, 26368, 36817, 32]"

definition zh_trg_no_breakout_b :: string where \<comment> \<open> 15m bars\<close>
  "zh_trg_no_breakout_b = utf8 [32, 26681, 32, 49, 53, 32, 20998, 38047, 39640, 28857]"

definition zh_trg_no_hist_a :: string where \<comment> \<open>waiting for the MACD histogram to improve \<close>
  "zh_trg_no_hist_a = utf8 [31561, 24453, 32, 77, 65, 67, 68, 32, 26609, 36830, 32493, 32]"

definition zh_trg_no_hist_b :: string where \<comment> \<open> bars in a row\<close>
  "zh_trg_no_hist_b = utf8 [32, 26681, 25913, 21892]"

definition zh_trg_dif_falling :: string where \<comment> \<open>waiting for the 15m DIF to flatten or rise\<close>
  "zh_trg_dif_falling = utf8 [31561, 24453, 32, 49, 53, 32, 20998, 38047, 32, 68, 73, 70, 32, 36208, 24179, 25110,
     19978, 34892]"

definition zh_trg_low_volume :: string where \<comment> \<open>waiting for the 15m volume\<close>
  "zh_trg_low_volume = utf8 [31561, 24453, 32, 49, 53, 32, 20998, 38047, 25104, 20132, 37327, 36798, 21040, 26368,
     20302, 30830, 35748, 35201, 27714]"

definition zh_trg_no_invalidation :: string where \<comment> \<open>the 60m structure has no usable invalidation level\<close>
  "zh_trg_no_invalidation = utf8 [54, 48, 32, 20998, 38047, 24213, 32467, 26500, 32570, 23569, 26377, 25928, 22833,
     25928, 20301]"

definition zh_trg_too_far :: string where \<comment> \<open>trigger price too far from the invalidation level\<close>
  "zh_trg_too_far = utf8 [35302, 21457, 20215, 36317, 31163, 32, 54, 48, 32, 20998, 38047, 32467, 26500, 22833,
     25928, 20301, 36807, 36828, 65292, 31561, 24453, 26356, 21512, 29702, 30340,
     39118, 38505, 25910, 30410, 20301, 32622]"

definition zh_trg_done_a :: string where \<comment> \<open>15m trend resumption: MA20 regained, broke \<close>
  "zh_trg_done_a = utf8 [49, 53, 32, 20998, 38047, 36235, 21183, 24674, 22797, 35302, 21457, 65306, 25910,
     22797, 32, 77, 65, 50, 48, 12289, 31361, 30772, 32]"

definition zh_trg_done_b :: string where \<comment> \<open>, MACD improving, DIF rising, volume confirmed\<close>
  "zh_trg_done_b = utf8 [12289, 77, 65, 67, 68, 32, 26609, 36830, 32493, 25913, 21892, 12289, 68, 73, 70, 32,
     19978, 34892, 12289, 37327, 33021, 30830, 35748]"

section \<open>app/services/corrections.py\<close>

definition zh_cor_expired_a :: string where \<comment> \<open>the entry proposal was not approved within \<close>
  "zh_cor_expired_a = utf8 [20837, 22330, 24314, 35758, 36229, 36807, 32]"

definition zh_cor_expired_b :: string where \<comment> \<open> 15m bars\<close>
  "zh_cor_expired_b = utf8 [32, 26681, 32, 49, 53, 32, 20998, 38047, 32, 75, 32, 32447, 20173, 26410, 23457, 25209]"

definition zh_cor_neutral_negative :: string where \<comment> \<open>neutral to weak\<close>
  "zh_cor_neutral_negative = utf8 [20013, 24615, 20559, 24369]"

definition zh_cor_risk_off :: string where \<comment> \<open>risk off\<close>
  "zh_cor_risk_off = utf8 [39118, 38505, 20851, 38381]"

definition zh_cor_no_entries :: string where \<comment> \<open>new entries not allowed\<close>
  "zh_cor_no_entries = utf8 [19981, 20801, 35768, 26032, 24320, 20179]"

definition zh_cor_market_a :: string where \<comment> \<open>market state downgraded to\<close>
  "zh_cor_market_a = utf8 [24066, 22330, 29366, 24577, 24050, 38477, 32423, 20026, 8220]"

definition zh_cor_market_b :: string where \<comment> \<open>new entries no longer allowed\<close>
  "zh_cor_market_b = utf8 [8221, 65292, 19981, 20877, 20801, 35768, 26032, 24320, 20179]"

definition zh_cor_after_trigger :: string where \<comment> \<open>after the 15m trigger, at \<close>
  "zh_cor_after_trigger = utf8 [49, 53, 32, 20998, 38047, 35302, 21457, 21518, 20110, 32]"

definition zh_cor_below_level :: string where \<comment> \<open> fell back to the trigger level \<close>
  "zh_cor_below_level = utf8 [32, 36300, 22238, 35302, 21457, 20301, 32]"

definition zh_cor_below :: string where \<comment> \<open> below\<close>
  "zh_cor_below = utf8 [32, 19979, 26041]"

definition zh_cor_below_ma20 :: string where \<comment> \<open> fell below MA20\<close>
  "zh_cor_below_ma20 = utf8 [32, 36300, 22238, 32, 77, 65, 50, 48, 32, 19979, 26041]"

definition zh_cor_hist_weak :: string where \<comment> \<open> MACD histogram weakened again\<close>
  "zh_cor_hist_weak = utf8 [32, 77, 65, 67, 68, 32, 26609, 37325, 26032, 36716, 24369]"

definition zh_cor_deviation :: string where \<comment> \<open>price deviates from the proposed entry by \<close>
  "zh_cor_deviation = utf8 [24403, 21069, 20215, 26684, 20559, 31163, 24314, 35758, 20837, 22330, 20215, 32]"

definition zh_cor_exceeds :: string where \<comment> \<open>, above \<close>
  "zh_cor_exceeds = utf8 [65292, 36229, 36807, 32]"

definition zh_cor_limit :: string where \<comment> \<open> limit\<close>
  "zh_cor_limit = utf8 [32, 38480, 21046]"

definition zh_cor_no_structure :: string where \<comment> \<open>the source 60m structure does not exist\<close>
  "zh_cor_no_structure = utf8 [26469, 28304, 32, 54, 48, 32, 20998, 38047, 24213, 32467, 26500, 19981, 23384, 22312]"

definition zh_cor_structure_failed :: string where \<comment> \<open>the source 60m structure failed or is invalid\<close>
  "zh_cor_structure_failed = utf8 [26469, 28304, 32, 54, 48, 32, 20998, 38047, 24213, 32467, 26500, 24050, 32463, 22833,
     36133, 25110, 22833, 25928]"

definition zh_cor_confirmed_a :: string where \<comment> \<open>the source 60m structure, at \<close>
  "zh_cor_confirmed_a = utf8 [26469, 28304, 32, 54, 48, 32, 20998, 38047, 24213, 32467, 26500, 24050, 22312, 32]"

definition zh_cor_confirmed_b :: string where \<comment> \<open> was confirmed failed\<close>
  "zh_cor_confirmed_b = utf8 [32, 30830, 35748, 22833, 36133]"

section \<open>app/services/state_machine.py\<close>

definition zh_sm_wait_filter :: string where \<comment> \<open>waiting for the market and trend filters\<close>
  "zh_sm_wait_filter = utf8 [31561, 24453, 24066, 22330, 21644, 20010, 32929, 36235, 21183, 36807, 28388, 36890,
     36807]"

definition zh_sm_cooldown :: string where \<comment> \<open>cooling down, structures are only recorded\<close>
  "zh_sm_cooldown = utf8 [20919, 21364, 26399, 20869, 21482, 35760, 24405, 32467, 26500, 65292, 19981, 29983,
     25104, 20837, 22330, 24314, 35758]"

definition zh_sm_wait_data :: string where \<comment> \<open>waiting for bars and indicators\<close>
  "zh_sm_wait_data = utf8 [31561, 24453, 26377, 25928, 34892, 24773, 21644, 25351, 26631]"

definition zh_sm_market_forbids :: string where \<comment> \<open>market forbids entries, waiting for it to recover\<close>
  "zh_sm_market_forbids = utf8 [24066, 22330, 19981, 20801, 35768, 26032, 24320, 20179, 65307, 32487, 32493, 35760,
     24405, 32467, 26500, 65292, 31561, 24453, 24066, 22330, 29615, 22659, 24674, 22797]"

definition zh_sm_wait_trend :: string where \<comment> \<open>waiting for the stock trend to recover\<close>
  "zh_sm_wait_trend = utf8 [31561, 24453, 20010, 32929, 36235, 21183, 24674, 22797, 33267, 32, 85, 80, 84, 82, 69,
     78, 68, 32, 25110, 32, 83, 84, 82, 79, 78, 71, 95, 85, 80, 84, 82, 69, 78, 68]"

definition zh_sm_wait_approval :: string where \<comment> \<open>waiting for manual approval or rejection\<close>
  "zh_sm_wait_approval = utf8 [31561, 24453, 20154, 24037, 23457, 25209, 25110, 25298, 32477]"

definition zh_sm_bottom_failed :: string where \<comment> \<open>cooling down after the bottom structure failed\<close>
  "zh_sm_bottom_failed = utf8 [24213, 32467, 26500, 22833, 36133, 21518, 36827, 20837, 20919, 21364, 26399]"

definition zh_sm_wait_structure :: string where \<comment> \<open>waiting for a passivation or structure\<close>
  "zh_sm_wait_structure = utf8 [31561, 24453, 24213, 38045, 21270, 25110, 21487, 35299, 37322, 32467, 26500, 20107,
     20214]"

definition zh_sm_wait_confirm :: string where \<comment> \<open>waiting for the bottom structure\<close>
  "zh_sm_wait_confirm = utf8 [31561, 24453, 24213, 32467, 26500, 30830, 35748, 65292, 19981, 33021, 30452, 25509,
     20080, 20837]"

definition zh_sm_structure_invalid :: string where \<comment> \<open>bottom structure invalid, cooling down\<close>
  "zh_sm_structure_invalid = utf8 [24213, 32467, 26500, 22833, 25928, 65292, 20919, 21364, 21518, 37325, 26032, 35266,
     23519]"

definition zh_sm_confirmed :: string where \<comment> \<open>60m bottom confirmed, next the 15m trigger\<close>
  "zh_sm_confirmed = utf8 [54, 48, 32, 20998, 38047, 24213, 32467, 26500, 24050, 30830, 35748, 65292, 19981,
     30452, 25509, 20080, 20837, 65307, 19979, 19968, 27493, 31561, 24453, 32, 49, 53,
     32, 20998, 38047, 36235, 21183, 24674, 22797, 35302, 21457]"

definition zh_sm_wait_15m :: string where \<comment> \<open>waiting for the 15m trigger\<close>
  "zh_sm_wait_15m = utf8 [31561, 24453, 32, 49, 53, 32, 20998, 38047, 25910, 22797, 32, 77, 65, 50, 48, 12289,
     31361, 30772, 36817, 26399, 39640, 28857, 12289, 77, 65, 67, 68, 32, 25913, 21892,
     19982, 37327, 33021, 30830, 35748]"

definition zh_sm_structure_expired :: string where \<comment> \<open>structure expired, cooling down\<close>
  "zh_sm_structure_expired = utf8 [32467, 26500, 36807, 26399, 65292, 20919, 21364, 21518, 31561, 24453, 26032, 30340, 32,
     54, 48, 32, 20998, 38047, 24213, 32467, 26500]"

definition zh_sm_top_invalidated :: string where \<comment> \<open>the top-invalidation script does not bypass the main chain\<close>
  "zh_sm_top_invalidated = utf8 [39030, 32467, 26500, 22833, 25928, 21095, 26412, 26242, 19981, 32469, 36807, 32, 54,
     48, 32, 20998, 38047, 24213, 32467, 26500, 19982, 32, 49, 53, 32, 20998, 38047,
     35302, 21457, 20027, 38142, 36335]"

definition zh_sm_wait_resume :: string where \<comment> \<open>waiting for the trend-resumption script\<close>
  "zh_sm_wait_resume = utf8 [31561, 24453, 24213, 32467, 26500, 21518, 30340, 36235, 21183, 24674, 22797, 21095,
     26412]"

definition zh_sm_wait_portfolio :: string where \<comment> \<open>waiting for portfolio risk to free up\<close>
  "zh_sm_wait_portfolio = utf8 [31561, 24453, 32452, 21512, 39118, 38505, 37322, 25918]"

definition zh_sm_wait_auditable :: string where \<comment> \<open>waiting for an auditable 15m trigger\<close>
  "zh_sm_wait_auditable = utf8 [31561, 24453, 21487, 23457, 35745, 30340, 32, 49, 53, 32, 20998, 38047, 35302, 21457]"

definition zh_sm_no_stop :: string where \<comment> \<open>no structure low or ATR, no entry\<close>
  "zh_sm_no_stop = utf8 [32570, 23569, 32, 54, 48, 32, 20998, 38047, 32467, 26500, 20302, 28857, 25110, 23545,
     24212, 32, 65, 84, 82, 65292, 19981, 20801, 35768, 29983, 25104, 20837, 22330,
     24314, 35758]"

definition zh_sm_no_risk :: string where \<comment> \<open>no clear stop, no entry\<close>
  "zh_sm_no_risk = utf8 [26080, 28165, 26224, 27490, 25439, 20301, 65292, 19981, 20801, 35768, 29983, 25104,
     20837, 22330, 24314, 35758]"

definition zh_sm_entry_action :: string where \<comment> \<open>entry candidate\<close>
  "zh_sm_entry_action = utf8 [20837, 22330, 20505, 36873]"

definition zh_sm_wait_sim :: string where \<comment> \<open>waiting for approval before the simulated position\<close>
  "zh_sm_wait_sim = utf8 [31561, 24453, 20154, 24037, 23457, 25209, 65307, 25209, 20934, 21518, 25165, 36827,
     20837, 27169, 25311, 25345, 20179]"

definition zh_sm_wait_recovery :: string where \<comment> \<open>waiting for data, manual control only\<close>
  "zh_sm_wait_recovery = utf8 [31561, 24453, 25968, 25454, 24674, 22797, 65292, 21482, 20801, 35768, 20154, 24037,
     39118, 25511]"

definition zh_sm_hard_stop :: string where \<comment> \<open>hard stop hit, close candidate\<close>
  "zh_sm_hard_stop = utf8 [30828, 27490, 25439, 35302, 21457, 65292, 26368, 39640, 20248, 20808, 32423, 28165,
     20179, 20505, 36873]"

definition zh_sm_wait_exit :: string where \<comment> \<open>waiting for manual confirmation of the exit\<close>
  "zh_sm_wait_exit = utf8 [31561, 24453, 20154, 24037, 30830, 35748, 27169, 25311, 36864, 20986]"

definition zh_sm_trigger_failed :: string where \<comment> \<open>15m entry trigger failed: \<close>
  "zh_sm_trigger_failed = utf8 [49, 53, 32, 20998, 38047, 20837, 22330, 35302, 21457, 22833, 36133, 65306]"

definition zh_sm_wait_exit_manual :: string where \<comment> \<open>waiting for manual exit, no automatic real order\<close>
  "zh_sm_wait_exit_manual = utf8 [31561, 24453, 20154, 24037, 30830, 35748, 36864, 20986, 65292, 19981, 25191, 34892,
     23454, 30424, 33258, 21160, 19979, 21333]"

definition zh_sm_downgrade_exit :: string where \<comment> \<open>market downgraded and price below the 60m MA60\<close>
  "zh_sm_downgrade_exit = utf8 [24066, 22330, 38477, 32423, 19988, 20010, 32929, 36300, 30772, 32, 54, 48, 32, 20998,
     38047, 32, 77, 65, 54, 48, 65292, 29983, 25104, 36864, 20986, 20505, 36873]"

definition zh_sm_protect :: string where \<comment> \<open>risk tightened, watching MA60 and the stop\<close>
  "zh_sm_protect = utf8 [26242, 20572, 21152, 20179, 24182, 25910, 32039, 39118, 38505, 65292, 32487, 32493,
     35266, 23519, 32, 54, 48, 32, 20998, 38047, 32, 77, 65, 54, 48, 32, 21644, 30828,
     27490, 25439]"

definition zh_sm_reduce_a :: string where \<comment> \<open>position profit \<close>
  "zh_sm_reduce_a = utf8 [25345, 20179, 30408, 21033, 32]"

definition zh_sm_reduce_b :: string where \<comment> \<open>R with a top structure, reduce candidate\<close>
  "zh_sm_reduce_b = utf8 [82, 32, 19988, 20986, 29616, 39030, 32467, 26500, 65292, 29983, 25104, 39118, 38505,
     20943, 20179, 20505, 36873, 65292, 19981, 30452, 25509, 28165, 20179]"

definition zh_sm_wait_reduce :: string where \<comment> \<open>waiting for the reduce approval or the trailing stop\<close>
  "zh_sm_wait_reduce = utf8 [31561, 24453, 20943, 20179, 23457, 25209, 25110, 28369, 21160, 27490, 30408, 35302,
     21457]"

definition zh_sm_trend_break :: string where \<comment> \<open>trend broken: close below MA60\<close>
  "zh_sm_trend_break = utf8 [36235, 21183, 30772, 22351, 65306, 25910, 30424, 36300, 30772, 32, 77, 65, 54, 48,
     65292, 28165, 20179, 20505, 36873]"

definition zh_sm_trailing_hit :: string where \<comment> \<open>trailing stop hit, close candidate\<close>
  "zh_sm_trailing_hit = utf8 [28369, 21160, 27490, 30408, 35302, 21457, 65292, 28165, 20179, 20505, 36873]"

definition zh_sm_tracking :: string where \<comment> \<open>tracking stop, top structure, trend and trailing stop\<close>
  "zh_sm_tracking = utf8 [32487, 32493, 36319, 36394, 30828, 27490, 25439, 12289, 39030, 32467, 26500, 12289,
     36235, 21183, 30772, 22351, 21644, 28369, 21160, 27490, 30408]"

definition zh_sm_reduce_action :: string where \<comment> \<open>reduce candidate\<close>
  "zh_sm_reduce_action = utf8 [20943, 20179, 20505, 36873]"

definition zh_sm_exit_action :: string where \<comment> \<open>close candidate\<close>
  "zh_sm_exit_action = utf8 [28165, 20179, 20505, 36873]"

definition zh_sm_after_structure :: string where \<comment> \<open>source structure failed, cooling down\<close>
  "zh_sm_after_structure = utf8 [26469, 28304, 32467, 26500, 22833, 36133, 65292, 36827, 20837, 20919, 21364, 26399,
     24182, 31561, 24453, 26032, 30340, 32, 54, 48, 32, 20998, 38047, 24213, 32467,
     26500]"

definition zh_sm_after_trigger :: string where \<comment> \<open>proposal cancelled, waiting for a new 15m trigger\<close>
  "zh_sm_after_trigger = utf8 [21407, 24314, 35758, 24050, 21462, 28040, 65307, 32467, 26500, 20173, 26377, 25928,
     26102, 31561, 24453, 26032, 30340, 32, 49, 53, 32, 20998, 38047, 36235, 21183,
     24674, 22797, 35302, 21457]"

definition zh_sm_after_market :: string where \<comment> \<open>market downgraded, entries frozen\<close>
  "zh_sm_after_market = utf8 [24066, 22330, 38477, 32423, 65292, 20923, 32467, 26032, 24320, 20179, 24182, 31561,
     24453, 24066, 22330, 37325, 26032, 20801, 35768]"

definition zh_sm_after_expiry :: string where \<comment> \<open>proposal expired, waiting for a new 15m trigger\<close>
  "zh_sm_after_expiry = utf8 [21407, 24314, 35758, 24050, 36807, 26399, 65307, 22914, 32467, 26500, 20173, 26377,
     25928, 65292, 31561, 24453, 26032, 30340, 32, 49, 53, 32, 20998, 38047, 35302,
     21457]"

section \<open>app/services/monitor_state.py\<close>

definition zh_mon_check_reduce :: string where \<comment> \<open>check the reduce or exit plan\<close>
  "zh_mon_check_reduce = utf8 [26816, 26597, 20943, 20179, 25110, 36864, 20986, 35745, 21010, 65292, 19981, 26426,
     26800, 28165, 20179]"

definition zh_mon_tracking :: string where \<comment> \<open>simulated position tracked\<close>
  "zh_mon_tracking = utf8 [27169, 25311, 25345, 20179, 25345, 32493, 36319, 36394]"

definition zh_mon_wait_stop :: string where \<comment> \<open>waiting for stop, target or a risk structure\<close>
  "zh_mon_wait_stop = utf8 [31561, 24453, 27490, 25439, 12289, 30446, 26631, 20301, 25110, 26032, 30340, 39118,
     38505, 32467, 26500]"

definition zh_mon_after_cooldown :: string where \<comment> \<open>waiting for a structure after the cooldown\<close>
  "zh_mon_after_cooldown = utf8 [20919, 21364, 26399, 32467, 26463, 21518, 31561, 24453, 26032, 30340, 32467, 26500]"

definition zh_mon_cooling :: string where \<comment> \<open>cooling down until \<close>
  "zh_mon_cooling = utf8 [20919, 21364, 33267, 32]"

definition zh_mon_cooldown :: string where \<comment> \<open>cooling down, no plans\<close>
  "zh_mon_cooldown = utf8 [20919, 21364, 26399, 20869, 21482, 35760, 24405, 65292, 19981, 29983, 25104, 35745,
     21010]"

definition zh_mon_review :: string where \<comment> \<open>waiting for the key price and a manual review\<close>
  "zh_mon_review = utf8 [31561, 24453, 20851, 38190, 20215, 20301, 21040, 36798, 21518, 20154, 24037, 22797,
     26680]"

definition zh_mon_scoring :: string where \<comment> \<open>waiting for the structure score\<close>
  "zh_mon_scoring = utf8 [31561, 24453, 32467, 26500, 35780, 20998, 19982, 37325, 28857, 20316, 25112, 27744,
     31579, 36873]"

definition zh_mon_wait_daily :: string where \<comment> \<open>waiting for the daily state and a 60m structure\<close>
  "zh_mon_wait_daily = utf8 [31561, 24453, 26085, 32447, 29366, 24577, 19982, 32, 54, 48, 32, 20998, 38047, 32467,
     26500]"

definition zh_mon_not_candidate :: string where \<comment> \<open>not in the candidate pool\<close>
  "zh_mon_not_candidate = utf8 [26410, 36827, 20837, 26412, 36718, 20505, 36873, 27744]"

definition zh_mon_next_screen :: string where \<comment> \<open>waiting for the next screening\<close>
  "zh_mon_next_screen = utf8 [31561, 24453, 19979, 19968, 27425, 20840, 24066, 22330, 26465, 20214, 36873, 32929]"

section \<open>app/services/battle_pool.py\<close>

definition zh_bp_daily_a :: string where \<comment> \<open>daily state contributes \<close>
  "zh_bp_daily_a = utf8 [26085, 32447, 29366, 24577, 36129, 29486, 32]"

definition zh_bp_points :: string where \<comment> \<open> points\<close>
  "zh_bp_points = utf8 [32, 20998]"

definition zh_bp_structure :: string where \<comment> \<open>structure clarity contributes \<close>
  "zh_bp_structure = utf8 [32467, 26500, 28165, 26224, 24230, 36129, 29486, 32]"

definition zh_bp_freshness :: string where \<comment> \<open>structure freshness contributes \<close>
  "zh_bp_freshness = utf8 [32467, 26500, 26102, 25928, 36129, 29486, 32]"

definition zh_bp_candidate :: string where \<comment> \<open>candidate rank and tags contribute \<close>
  "zh_bp_candidate = utf8 [20505, 36873, 27744, 25490, 24207, 19982, 22810, 26631, 31614, 36129, 29486, 32]"

definition zh_bp_stop_near :: string where \<comment> \<open>stop distance acceptable, 12 points\<close>
  "zh_bp_stop_near = utf8 [32467, 26500, 27490, 25439, 36317, 31163, 21487, 25511, 65292, 36129, 29486, 32, 49,
     50, 32, 20998]"

definition zh_bp_stop_far :: string where \<comment> \<open>stop too far, minus 18 points\<close>
  "zh_bp_stop_far = utf8 [32467, 26500, 27490, 25439, 36317, 31163, 36807, 36828, 65292, 25187, 32, 49, 56, 32,
     20998]"

definition zh_bp_no_atr :: string where \<comment> \<open>no ATR or structure level, minus 20 points\<close>
  "zh_bp_no_atr = utf8 [32570, 23569, 32, 65, 84, 82, 32, 25110, 32467, 26500, 39640, 20302, 28857, 65292,
     25187, 32, 50, 48, 32, 20998, 19988, 19981, 33021, 29983, 25104, 35745, 21010]"

definition zh_bp_conflict :: string where \<comment> \<open>conflicting structures, minus 12 points\<close>
  "zh_bp_conflict = utf8 [36817, 26399, 39030, 24213, 32467, 26500, 20914, 31361, 65292, 25187, 32, 49, 50, 32,
     20998]"

definition zh_bp_act_top :: string where \<comment> \<open>risk protection in a bull market, downward plan in a bear market\<close>
  "zh_bp_act_top = utf8 [24378, 22810, 22836, 20013, 36827, 20837, 39118, 38505, 20445, 25252, 65292, 24369,
     31354, 22836, 20013, 35780, 20272, 19979, 34892, 35745, 21010]"

definition zh_bp_act_watch :: string where \<comment> \<open>keep watching, no trade\<close>
  "zh_bp_act_watch = utf8 [32487, 32493, 35266, 23519, 65292, 19981, 33021, 30452, 25509, 20132, 26131]"

definition zh_bp_wait_60m :: string where \<comment> \<open>waiting for the 60m structure\<close>
  "zh_bp_wait_60m = utf8 [31561, 24453, 32, 54, 48, 32, 20998, 38047, 32467, 26500, 30830, 35748]"

definition zh_bp_wait_long :: string where \<comment> \<open>waiting for an entry price and a review\<close>
  "zh_bp_wait_long = utf8 [31561, 24453, 31361, 30772, 20215, 12289, 22238, 36393, 21306, 25110, 20302, 21560,
     21306, 21040, 20215, 21518, 20154, 24037, 22797, 26680]"

definition zh_bp_wait_short :: string where \<comment> \<open>waiting for the breakdown price and a review\<close>
  "zh_bp_wait_short = utf8 [31561, 24453, 36300, 30772, 30830, 35748, 20215, 21518, 20154, 24037, 22797, 26680]"

definition zh_bp_wait_risk :: string where \<comment> \<open>watch whether the risk spreads\<close>
  "zh_bp_wait_risk = utf8 [35266, 23519, 39118, 38505, 26159, 21542, 25193, 25955, 65292, 19981, 30452, 25509,
     20570, 31354, 25110, 28165, 20179]"

section \<open>app/services/trade_plan.py\<close>

definition zh_tp_dropped :: string where \<comment> \<open>; the structure is no longer in the S/A pool\<close>
  "zh_tp_dropped = utf8 [65307, 23545, 24212, 32467, 26500, 24050, 19981, 22312, 32, 83, 47, 65, 32, 32423,
     37325, 28857, 20316, 25112, 27744]"

definition zh_tp_invalid_long_a :: string where \<comment> \<open>60m close below \<close>
  "zh_tp_invalid_long_a = utf8 [54, 48, 32, 20998, 38047, 25910, 30424, 36300, 30772, 32]"

definition zh_tp_invalid_long_b :: string where \<comment> \<open> or the structure is marked failed\<close>
  "zh_tp_invalid_long_b = utf8 [32, 25110, 32467, 26500, 34987, 26631, 35760, 20026, 22833, 36133]"

definition zh_tp_invalid_short_a :: string where \<comment> \<open>60m close back above \<close>
  "zh_tp_invalid_short_a = utf8 [54, 48, 32, 20998, 38047, 25910, 30424, 37325, 26032, 31449, 19978, 32]"

definition zh_tp_invalid_short_b :: string where \<comment> \<open>, the downward plan is void\<close>
  "zh_tp_invalid_short_b = utf8 [65292, 19979, 34892, 35745, 21010, 22833, 25928]"

definition zh_tp_trailing :: string where \<comment> \<open>trailing rule\<close>
  "zh_tp_trailing = utf8 [36798, 21040, 32, 49, 82, 32, 21518, 27490, 25439, 25260, 33267, 25104, 26412, 38468,
     36817, 65307, 36798, 21040, 32, 49, 46, 53, 82, 32, 21518, 38145, 23450, 32, 48,
     46, 53, 82, 65307, 36798, 21040, 32, 50, 82, 32, 21518, 25353, 32, 54, 48, 32,
     20998, 38047, 21069, 20302, 47, 21069, 39640, 12289, 77, 65, 50, 48, 32, 19982,
     32, 65, 84, 82, 32, 25910, 32039, 12290]"

definition zh_tp_time_long :: string where \<comment> \<open>time stop of a long plan\<close>
  "zh_tp_time_long = utf8 [31361, 30772, 21518, 32, 50, 32, 33267, 32, 51, 32, 26681, 32, 54, 48, 32, 20998,
     38047, 32, 75, 32, 26410, 32487, 32493, 36208, 24378, 21017, 35745, 21010, 22833,
     25928]"

definition zh_tp_time_short :: string where \<comment> \<open>time stop of a downward plan\<close>
  "zh_tp_time_short = utf8 [36300, 30772, 21518, 32, 50, 32, 33267, 32, 51, 32, 26681, 32, 54, 48, 32, 20998,
     38047, 32, 75, 32, 26410, 32487, 32493, 36208, 24369, 21017, 35745, 21010, 22833,
     25928]"

definition zh_tp_check_1 :: string where \<comment> \<open>structure still valid\<close>
  "zh_tp_check_1 = utf8 [32467, 26500, 20173, 28982, 26377, 25928]"

definition zh_tp_check_2 :: string where \<comment> \<open>price not above the no-chase line\<close>
  "zh_tp_check_2 = utf8 [23454, 26102, 20215, 26684, 26410, 36229, 36807, 31105, 27490, 36861, 20215, 32447]"

definition zh_tp_check_3 :: string where \<comment> \<open>spread within the limit\<close>
  "zh_tp_check_3 = utf8 [30424, 21475, 20215, 24046, 31526, 21512, 38480, 21046]"

definition zh_tp_check_4 :: string where \<comment> \<open>market and capital gates allow\<close>
  "zh_tp_check_4 = utf8 [24066, 22330, 19982, 36164, 37329, 38392, 38376, 20801, 35768]"

definition zh_tp_check_5 :: string where \<comment> \<open>no position or unfinished order of the symbol\<close>
  "zh_tp_check_5 = utf8 [26080, 21516, 26631, 30340, 25345, 20179, 25110, 26410, 23436, 25104, 35746, 21333]"

definition zh_tp_level :: string where \<comment> \<open> level battle item; \<close>
  "zh_tp_level = utf8 [32, 32423, 37325, 28857, 20316, 25112, 65307]"

definition zh_tp_tags :: string where \<comment> \<open>; candidate tags: \<close>
  "zh_tp_tags = utf8 [65307, 20505, 36873, 26631, 31614, 65306]"

definition zh_tp_none :: string where \<comment> \<open>none\<close>
  "zh_tp_none = utf8 [26080]"

definition zh_tp_review :: string where \<comment> \<open>. The plan only gives key prices and must be reviewed.\<close>
  "zh_tp_review = utf8 [12290, 35745, 21010, 21482, 25552, 20379, 20851, 38190, 20215, 20301, 65292, 24517,
     39035, 20154, 24037, 22797, 26680, 12290]"

lemmas zh_defs =
  zh_no_buy_candidate_def
  zh_many_buy_candidates_def
  zh_match_all_def
  zh_match_no_price_def
  zh_miss_qty_def
  zh_miss_price_def
  zh_miss_price_data_def
  zh_miss_time_def
  zh_low_confidence_def
  zh_separator_def
  zh_fill_inferred_def
  zh_orphan_low_confidence_def
  zh_orphan_bound_def
  zh_orphan_unbound_def
  zh_closed_confirmed_def
  zh_closed_unverified_def
  zh_deals_unsupported_def
  zh_sell_not_returned_def
  zh_entry_not_returned_def
  zh_entry_timeout_def
  zh_order_id_missing_def
  zh_account_sync_failed_colon_def
  zh_account_sync_failed_check_def
  zh_gate_corrupt_def
  zh_remote_position_no_local_def
  zh_local_open_no_remote_def
  zh_qty_mismatch_def
  zh_cost_mismatch_def
  zh_remote_order_no_local_def
  zh_sell_stuck_def
  zh_local_order_missing_def
  zh_close_unconfirmed_def
  zh_buy_inferred_def
  zh_health_critical_def
  zh_health_high_def
  zh_health_warn_def
  zh_health_ok_def
  zh_sync_failed_def
  zh_account_def
  zh_max_positions_reached_def
  zh_no_equity_def
  zh_no_cash_def
  zh_capital_ok_def
  zh_capital_unknown_colon_def
  zh_symbol_held_def
  zh_symbol_ordered_def
  zh_capital_gate_ok_def
  zh_portfolio_not_synced_def
  zh_portfolio_corrupt_def
  zh_no_quote_def
  zh_market_current_def
  zh_market_stale_def
  zh_below_stop_def
  zh_above_no_chase_def
  zh_cooldown_until_def
  zh_no_ma20_def
  zh_above_ma20_def
  zh_below_ma20_def
  zh_close_paren_def
  zh_sim_off_def
  zh_real_on_def
  zh_only_sa_def
  zh_only_long_def
  zh_not_triggered_def
  zh_below_breakout_def
  zh_chasing_def
  zh_no_spread_def
  zh_wide_spread_def
  zh_no_volume_def
  zh_bad_volume_def
  zh_no_short_trend_def
  zh_short_trend_broken_def
  zh_market_not_refreshed_def
  zh_market_risk_off_def
  zh_entry_time_forbidden_def
  zh_rules_passed_def
  zh_gate_never_run_def
  zh_gate_blocking_issue_def
  zh_gate_forbids_def
  zh_gate_passed_def
  zh_daily_trades_reached_def
  zh_daily_loss_reached_def
  zh_losing_streak_def
  zh_budget_too_small_def
  zh_no_price_def
  zh_retry_limit_def
  zh_reconciliation_run_failed_def
  zh_daily_short_history_def
  zh_daily_not_formed_def
  zh_daily_strong_bull_def
  zh_daily_weak_bull_def
  zh_daily_range_def
  zh_daily_strong_bear_def
  zh_daily_weak_bear_def
  zh_daily_no_date_def
  zh_act_long_plan_def
  zh_act_assess_short_def
  zh_act_protect_def
  zh_act_assess_resume_def
  zh_act_watch_structure_def
  zh_trg_no_bottom_def
  zh_trg_bottom_failed_def
  zh_trg_no_bars_def
  zh_trg_expired_def
  zh_trg_wait_new_bar_def
  zh_trg_short_history_def
  zh_trg_no_indicator_def
  zh_trg_indicator_short_def
  zh_trg_below_ma20_def
  zh_trg_no_breakout_a_def
  zh_trg_no_breakout_b_def
  zh_trg_no_hist_a_def
  zh_trg_no_hist_b_def
  zh_trg_dif_falling_def
  zh_trg_low_volume_def
  zh_trg_no_invalidation_def
  zh_trg_too_far_def
  zh_trg_done_a_def
  zh_trg_done_b_def
  zh_cor_expired_a_def
  zh_cor_expired_b_def
  zh_cor_neutral_negative_def
  zh_cor_risk_off_def
  zh_cor_no_entries_def
  zh_cor_market_a_def
  zh_cor_market_b_def
  zh_cor_after_trigger_def
  zh_cor_below_level_def
  zh_cor_below_def
  zh_cor_below_ma20_def
  zh_cor_hist_weak_def
  zh_cor_deviation_def
  zh_cor_exceeds_def
  zh_cor_limit_def
  zh_cor_no_structure_def
  zh_cor_structure_failed_def
  zh_cor_confirmed_a_def
  zh_cor_confirmed_b_def
  zh_sm_wait_filter_def
  zh_sm_cooldown_def
  zh_sm_wait_data_def
  zh_sm_market_forbids_def
  zh_sm_wait_trend_def
  zh_sm_wait_approval_def
  zh_sm_bottom_failed_def
  zh_sm_wait_structure_def
  zh_sm_wait_confirm_def
  zh_sm_structure_invalid_def
  zh_sm_confirmed_def
  zh_sm_wait_15m_def
  zh_sm_structure_expired_def
  zh_sm_top_invalidated_def
  zh_sm_wait_resume_def
  zh_sm_wait_portfolio_def
  zh_sm_wait_auditable_def
  zh_sm_no_stop_def
  zh_sm_no_risk_def
  zh_sm_entry_action_def
  zh_sm_wait_sim_def
  zh_sm_wait_recovery_def
  zh_sm_hard_stop_def
  zh_sm_wait_exit_def
  zh_sm_trigger_failed_def
  zh_sm_wait_exit_manual_def
  zh_sm_downgrade_exit_def
  zh_sm_protect_def
  zh_sm_reduce_a_def
  zh_sm_reduce_b_def
  zh_sm_wait_reduce_def
  zh_sm_trend_break_def
  zh_sm_trailing_hit_def
  zh_sm_tracking_def
  zh_sm_reduce_action_def
  zh_sm_exit_action_def
  zh_sm_after_structure_def
  zh_sm_after_trigger_def
  zh_sm_after_market_def
  zh_sm_after_expiry_def
  zh_mon_check_reduce_def
  zh_mon_tracking_def
  zh_mon_wait_stop_def
  zh_mon_after_cooldown_def
  zh_mon_cooling_def
  zh_mon_cooldown_def
  zh_mon_review_def
  zh_mon_scoring_def
  zh_mon_wait_daily_def
  zh_mon_not_candidate_def
  zh_mon_next_screen_def
  zh_bp_daily_a_def
  zh_bp_points_def
  zh_bp_structure_def
  zh_bp_freshness_def
  zh_bp_candidate_def
  zh_bp_stop_near_def
  zh_bp_stop_far_def
  zh_bp_no_atr_def
  zh_bp_conflict_def
  zh_bp_act_top_def
  zh_bp_act_watch_def
  zh_bp_wait_60m_def
  zh_bp_wait_long_def
  zh_bp_wait_short_def
  zh_bp_wait_risk_def
  zh_tp_dropped_def
  zh_tp_invalid_long_a_def
  zh_tp_invalid_long_b_def
  zh_tp_invalid_short_a_def
  zh_tp_invalid_short_b_def
  zh_tp_trailing_def
  zh_tp_time_long_def
  zh_tp_time_short_def
  zh_tp_check_1_def
  zh_tp_check_2_def
  zh_tp_check_3_def
  zh_tp_check_4_def
  zh_tp_check_5_def
  zh_tp_level_def
  zh_tp_tags_def
  zh_tp_none_def
  zh_tp_review_def

lemma zh_nonempty [simp]:
  "zh_no_buy_candidate \<noteq> []"
  "zh_many_buy_candidates \<noteq> []"
  "zh_match_all \<noteq> []"
  "zh_match_no_price \<noteq> []"
  "zh_miss_qty \<noteq> []"
  "zh_miss_price \<noteq> []"
  "zh_miss_price_data \<noteq> []"
  "zh_miss_time \<noteq> []"
  "zh_low_confidence \<noteq> []"
  "zh_separator \<noteq> []"
  "zh_fill_inferred \<noteq> []"
  "zh_orphan_low_confidence \<noteq> []"
  "zh_orphan_bound \<noteq> []"
  "zh_orphan_unbound \<noteq> []"
  "zh_closed_confirmed \<noteq> []"
  "zh_closed_unverified \<noteq> []"
  "zh_deals_unsupported \<noteq> []"
  "zh_sell_not_returned \<noteq> []"
  "zh_entry_not_returned \<noteq> []"
  "zh_entry_timeout \<noteq> []"
  "zh_order_id_missing \<noteq> []"
  "zh_account_sync_failed_colon \<noteq> []"
  "zh_account_sync_failed_check \<noteq> []"
  "zh_gate_corrupt \<noteq> []"
  "zh_remote_position_no_local \<noteq> []"
  "zh_local_open_no_remote \<noteq> []"
  "zh_qty_mismatch \<noteq> []"
  "zh_cost_mismatch \<noteq> []"
  "zh_remote_order_no_local \<noteq> []"
  "zh_sell_stuck \<noteq> []"
  "zh_local_order_missing \<noteq> []"
  "zh_close_unconfirmed \<noteq> []"
  "zh_buy_inferred \<noteq> []"
  "zh_health_critical \<noteq> []"
  "zh_health_high \<noteq> []"
  "zh_health_warn \<noteq> []"
  "zh_health_ok \<noteq> []"
  "zh_sync_failed \<noteq> []"
  "zh_account \<noteq> []"
  "zh_max_positions_reached \<noteq> []"
  "zh_no_equity \<noteq> []"
  "zh_no_cash \<noteq> []"
  "zh_capital_ok \<noteq> []"
  "zh_capital_unknown_colon \<noteq> []"
  "zh_symbol_held \<noteq> []"
  "zh_symbol_ordered \<noteq> []"
  "zh_capital_gate_ok \<noteq> []"
  "zh_portfolio_not_synced \<noteq> []"
  "zh_portfolio_corrupt \<noteq> []"
  "zh_no_quote \<noteq> []"
  "zh_market_current \<noteq> []"
  "zh_market_stale \<noteq> []"
  "zh_below_stop \<noteq> []"
  "zh_above_no_chase \<noteq> []"
  "zh_cooldown_until \<noteq> []"
  "zh_no_ma20 \<noteq> []"
  "zh_above_ma20 \<noteq> []"
  "zh_below_ma20 \<noteq> []"
  "zh_close_paren \<noteq> []"
  "zh_sim_off \<noteq> []"
  "zh_real_on \<noteq> []"
  "zh_only_sa \<noteq> []"
  "zh_only_long \<noteq> []"
  "zh_not_triggered \<noteq> []"
  "zh_below_breakout \<noteq> []"
  "zh_chasing \<noteq> []"
  "zh_no_spread \<noteq> []"
  "zh_wide_spread \<noteq> []"
  "zh_no_volume \<noteq> []"
  "zh_bad_volume \<noteq> []"
  "zh_no_short_trend \<noteq> []"
  "zh_short_trend_broken \<noteq> []"
  "zh_market_not_refreshed \<noteq> []"
  "zh_market_risk_off \<noteq> []"
  "zh_entry_time_forbidden \<noteq> []"
  "zh_rules_passed \<noteq> []"
  "zh_gate_never_run \<noteq> []"
  "zh_gate_blocking_issue \<noteq> []"
  "zh_gate_forbids \<noteq> []"
  "zh_gate_passed \<noteq> []"
  "zh_daily_trades_reached \<noteq> []"
  "zh_daily_loss_reached \<noteq> []"
  "zh_losing_streak \<noteq> []"
  "zh_budget_too_small \<noteq> []"
  "zh_no_price \<noteq> []"
  "zh_retry_limit \<noteq> []"
  "zh_reconciliation_run_failed \<noteq> []"
  "zh_daily_short_history \<noteq> []"
  "zh_daily_not_formed \<noteq> []"
  "zh_daily_strong_bull \<noteq> []"
  "zh_daily_weak_bull \<noteq> []"
  "zh_daily_range \<noteq> []"
  "zh_daily_strong_bear \<noteq> []"
  "zh_daily_weak_bear \<noteq> []"
  "zh_daily_no_date \<noteq> []"
  "zh_act_long_plan \<noteq> []"
  "zh_act_assess_short \<noteq> []"
  "zh_act_protect \<noteq> []"
  "zh_act_assess_resume \<noteq> []"
  "zh_act_watch_structure \<noteq> []"
  "zh_trg_no_bottom \<noteq> []"
  "zh_trg_bottom_failed \<noteq> []"
  "zh_trg_no_bars \<noteq> []"
  "zh_trg_expired \<noteq> []"
  "zh_trg_wait_new_bar \<noteq> []"
  "zh_trg_short_history \<noteq> []"
  "zh_trg_no_indicator \<noteq> []"
  "zh_trg_indicator_short \<noteq> []"
  "zh_trg_below_ma20 \<noteq> []"
  "zh_trg_no_breakout_a \<noteq> []"
  "zh_trg_no_breakout_b \<noteq> []"
  "zh_trg_no_hist_a \<noteq> []"
  "zh_trg_no_hist_b \<noteq> []"
  "zh_trg_dif_falling \<noteq> []"
  "zh_trg_low_volume \<noteq> []"
  "zh_trg_no_invalidation \<noteq> []"
  "zh_trg_too_far \<noteq> []"
  "zh_trg_done_a \<noteq> []"
  "zh_trg_done_b \<noteq> []"
  "zh_cor_expired_a \<noteq> []"
  "zh_cor_expired_b \<noteq> []"
  "zh_cor_neutral_negative \<noteq> []"
  "zh_cor_risk_off \<noteq> []"
  "zh_cor_no_entries \<noteq> []"
  "zh_cor_market_a \<noteq> []"
  "zh_cor_market_b \<noteq> []"
  "zh_cor_after_trigger \<noteq> []"
  "zh_cor_below_level \<noteq> []"
  "zh_cor_below \<noteq> []"
  "zh_cor_below_ma20 \<noteq> []"
  "zh_cor_hist_weak \<noteq> []"
  "zh_cor_deviation \<noteq> []"
  "zh_cor_exceeds \<noteq> []"
  "zh_cor_limit \<noteq> []"
  "zh_cor_no_structure \<noteq> []"
  "zh_cor_structure_failed \<noteq> []"
  "zh_cor_confirmed_a \<noteq> []"
  "zh_cor_confirmed_b \<noteq> []"
  "zh_sm_wait_filter \<noteq> []"
  "zh_sm_cooldown \<noteq> []"
  "zh_sm_wait_data \<noteq> []"
  "zh_sm_market_forbids \<noteq> []"
  "zh_sm_wait_trend \<noteq> []"
  "zh_sm_wait_approval \<noteq> []"
  "zh_sm_bottom_failed \<noteq> []"
  "zh_sm_wait_structure \<noteq> []"
  "zh_sm_wait_confirm \<noteq> []"
  "zh_sm_structure_invalid \<noteq> []"
  "zh_sm_confirmed \<noteq> []"
  "zh_sm_wait_15m \<noteq> []"
  "zh_sm_structure_expired \<noteq> []"
  "zh_sm_top_invalidated \<noteq> []"
  "zh_sm_wait_resume \<noteq> []"
  "zh_sm_wait_portfolio \<noteq> []"
  "zh_sm_wait_auditable \<noteq> []"
  "zh_sm_no_stop \<noteq> []"
  "zh_sm_no_risk \<noteq> []"
  "zh_sm_entry_action \<noteq> []"
  "zh_sm_wait_sim \<noteq> []"
  "zh_sm_wait_recovery \<noteq> []"
  "zh_sm_hard_stop \<noteq> []"
  "zh_sm_wait_exit \<noteq> []"
  "zh_sm_trigger_failed \<noteq> []"
  "zh_sm_wait_exit_manual \<noteq> []"
  "zh_sm_downgrade_exit \<noteq> []"
  "zh_sm_protect \<noteq> []"
  "zh_sm_reduce_a \<noteq> []"
  "zh_sm_reduce_b \<noteq> []"
  "zh_sm_wait_reduce \<noteq> []"
  "zh_sm_trend_break \<noteq> []"
  "zh_sm_trailing_hit \<noteq> []"
  "zh_sm_tracking \<noteq> []"
  "zh_sm_reduce_action \<noteq> []"
  "zh_sm_exit_action \<noteq> []"
  "zh_sm_after_structure \<noteq> []"
  "zh_sm_after_trigger \<noteq> []"
  "zh_sm_after_market \<noteq> []"
  "zh_sm_after_expiry \<noteq> []"
  "zh_mon_check_reduce \<noteq> []"
  "zh_mon_tracking \<noteq> []"
  "zh_mon_wait_stop \<noteq> []"
  "zh_mon_after_cooldown \<noteq> []"
  "zh_mon_cooling \<noteq> []"
  "zh_mon_cooldown \<noteq> []"
  "zh_mon_review \<noteq> []"
  "zh_mon_scoring \<noteq> []"
  "zh_mon_wait_daily \<noteq> []"
  "zh_mon_not_candidate \<noteq> []"
  "zh_mon_next_screen \<noteq> []"
  "zh_bp_daily_a \<noteq> []"
  "zh_bp_points \<noteq> []"
  "zh_bp_structure \<noteq> []"
  "zh_bp_freshness \<noteq> []"
  "zh_bp_candidate \<noteq> []"
  "zh_bp_stop_near \<noteq> []"
  "zh_bp_stop_far \<noteq> []"
  "zh_bp_no_atr \<noteq> []"
  "zh_bp_conflict \<noteq> []"
  "zh_bp_act_top \<noteq> []"
  "zh_bp_act_watch \<noteq> []"
  "zh_bp_wait_60m \<noteq> []"
  "zh_bp_wait_long \<noteq> []"
  "zh_bp_wait_short \<noteq> []"
  "zh_bp_wait_risk \<noteq> []"
  "zh_tp_dropped \<noteq> []"
  "zh_tp_invalid_long_a \<noteq> []"
  "zh_tp_invalid_long_b \<noteq> []"
  "zh_tp_invalid_short_a \<noteq> []"
  "zh_tp_invalid_short_b \<noteq> []"
  "zh_tp_trailing \<noteq> []"
  "zh_tp_time_long \<noteq> []"
  "zh_tp_time_short \<noteq> []"
  "zh_tp_check_1 \<noteq> []"
  "zh_tp_check_2 \<noteq> []"
  "zh_tp_check_3 \<noteq> []"
  "zh_tp_check_4 \<noteq> []"
  "zh_tp_check_5 \<noteq> []"
  "zh_tp_level \<noteq> []"
  "zh_tp_tags \<noteq> []"
  "zh_tp_none \<noteq> []"
  "zh_tp_review \<noteq> []"
  by (simp_all add: zh_defs)

text \<open>
  The texts are never computed when an operation is evaluated: they stay constants.
\<close>

declare zh_defs [code del]

end
