(* ===== verification/Ledger.thy ===== *)
theory Ledger
  imports Models Messages
begin

text \<open>
  The ledger tables of the database, the audit trail (app/services/audit.py), what
  \<open>session.commit()\<close> does to the update timestamps, and the broker as the program sees it
  (the trade provider's methods, with their answers as parameters).

  The session runs with \<open>autoflush=False\<close> (app/db.py): a query sees the rows as last flushed, but
  hands out the live objects. Where the difference shows, the operation keeps the ledger it
  started from and filters on that one (Order_Sync, Reconciler).
\<close>

section \<open>Tables\<close>

text \<open>A JSON text stored in system_configs: what \<open>json.loads\<close> gives, or a JSONDecodeError.\<close>

datatype 'a stored_json = JsonCorrupt | JsonValue 'a

record position_snapshot =
  sn_symbol :: string
  sn_name :: string
  sn_qty :: real
  sn_available_qty :: real
  sn_cost_price :: real
  sn_market_value :: real
  sn_pl_value :: real
  sn_pl_ratio :: real
  sn_currency :: string

record portfolio_sync =
  ps_ok :: bool
  ps_status :: capital_status
  ps_available_cash :: real
  ps_account_equity :: real
  ps_buying_power :: real
  ps_account_equity_source :: string
  ps_account_equity_sync_status :: string
  ps_open_positions :: int
  ps_open_orders :: int
  ps_remote_positions :: int
  ps_remote_orders :: int
  ps_positions :: "position_snapshot list"
  ps_reason :: string
  ps_error :: string
  ps_updated_at :: "int option"

record ledger =
  positions :: "position list"
  orders :: "sim_order list"
  deals :: "sim_deal list"
  plans :: "trade_plan list"
  issues :: "issue list"
  audits :: "audit_log list"
  gate_config :: "row stored_json option"
  portfolio_config :: "portfolio_sync stored_json option"

definition empty_ledger :: ledger where
  "empty_ledger = \<lparr>positions = [], orders = [], deals = [], plans = [], issues = [], audits = [],
     gate_config = None, portfolio_config = None\<rparr>"

section \<open>Operations every service uses\<close>

definition write_audit ::
  "string \<Rightarrow> string \<Rightarrow> string \<Rightarrow> int option \<Rightarrow> string \<Rightarrow> string \<Rightarrow> int \<Rightarrow> 'z ledger_scheme \<Rightarrow> 'z ledger_scheme" where
  "write_audit action symbol subject_type subject_id status reason now db =
     db\<lparr>audits := audits db @ [\<lparr>al_action = action, al_symbol = symbol, al_subject_type = subject_type,
       al_subject_id = subject_id, al_status = status, al_reason = reason, al_created_at = now\<rparr>]\<rparr>"

abbreviation put_position :: "position \<Rightarrow> 'z ledger_scheme \<Rightarrow> 'z ledger_scheme" where
  "put_position p db \<equiv> db\<lparr>positions := put_row pos_id p (positions db)\<rparr>"

abbreviation put_order :: "sim_order \<Rightarrow> 'z ledger_scheme \<Rightarrow> 'z ledger_scheme" where
  "put_order ord db \<equiv> db\<lparr>orders := put_row so_id ord (orders db)\<rparr>"

abbreviation put_plan :: "trade_plan \<Rightarrow> 'z ledger_scheme \<Rightarrow> 'z ledger_scheme" where
  "put_plan pl db \<equiv> db\<lparr>plans := put_row pl_id pl (plans db)\<rparr>"

definition plan_of :: "int option \<Rightarrow> 'z ledger_scheme \<Rightarrow> trade_plan option" where
  "plan_of i db = (case i of None \<Rightarrow> None | Some k \<Rightarrow> if k = 0 then None else get_row pl_id k (plans db))"

definition set_plan_status :: "plan_status \<Rightarrow> trade_plan \<Rightarrow> 'z ledger_scheme \<Rightarrow> 'z ledger_scheme" where
  "set_plan_status st pl db = put_plan (pl\<lparr>pl_status := st\<rparr>) db"

text \<open>
  A commit writes the rows whose columns changed and sets their \<open>updated_at\<close> (the model's
  \<open>onupdate\<close>); rows set to the values they already had are not written.
\<close>

definition touch_position :: "int \<Rightarrow> position list \<Rightarrow> position \<Rightarrow> position" where
  "touch_position now old p = (if p \<in> set old then p else p\<lparr>pos_updated_at := now\<rparr>)"

definition touch_plan :: "int \<Rightarrow> trade_plan list \<Rightarrow> trade_plan \<Rightarrow> trade_plan" where
  "touch_plan now old p = (if p \<in> set old then p else p\<lparr>pl_updated_at := now\<rparr>)"

definition commit :: "int \<Rightarrow> 'z ledger_scheme \<Rightarrow> 'z ledger_scheme \<Rightarrow> 'z ledger_scheme" where
  "commit now old db =
     db\<lparr>positions := map (touch_position now (positions old)) (positions db),
        plans := map (touch_plan now (plans old)) (plans db)\<rparr>"

lemma write_audit_sel [simp]:
  "positions (write_audit a s t i st r n db) = positions db"
  "orders (write_audit a s t i st r n db) = orders db"
  "deals (write_audit a s t i st r n db) = deals db"
  "plans (write_audit a s t i st r n db) = plans db"
  "issues (write_audit a s t i st r n db) = issues db"
  "gate_config (write_audit a s t i st r n db) = gate_config db"
  "portfolio_config (write_audit a s t i st r n db) = portfolio_config db"
  "ledger.more (write_audit a s t i st r n db) = ledger.more db"
  by (simp_all add: write_audit_def)

lemma set_plan_status_sel [simp]:
  "positions (set_plan_status st pl db) = positions db"
  "orders (set_plan_status st pl db) = orders db"
  "deals (set_plan_status st pl db) = deals db"
  "issues (set_plan_status st pl db) = issues db"
  "audits (set_plan_status st pl db) = audits db"
  "gate_config (set_plan_status st pl db) = gate_config db"
  "portfolio_config (set_plan_status st pl db) = portfolio_config db"
  "ledger.more (set_plan_status st pl db) = ledger.more db"
  by (simp_all add: set_plan_status_def)

lemma touch_position_sel [simp]:
  "pos_id (touch_position n old p) = pos_id p"
  "pos_symbol (touch_position n old p) = pos_symbol p"
  "pos_status (touch_position n old p) = pos_status p"
  "pos_entry_price (touch_position n old p) = pos_entry_price p"
  "pos_stop_price (touch_position n old p) = pos_stop_price p"
  "pos_shares (touch_position n old p) = pos_shares p"
  "pos_available_shares (touch_position n old p) = pos_available_shares p"
  "pos_current_r (touch_position n old p) = pos_current_r p"
  "pos_exit_reason (touch_position n old p) = pos_exit_reason p"
  "pos_source (touch_position n old p) = pos_source p"
  "pos_source_trade_plan_id (touch_position n old p) = pos_source_trade_plan_id p"
  "pos_close_verified (touch_position n old p) = pos_close_verified p"
  "pos_close_source (touch_position n old p) = pos_close_source p"
  "pos_trailing_stop_price (touch_position n old p) = pos_trailing_stop_price p"
  "pos_is_orphan (touch_position n old p) = pos_is_orphan p"
  "pos_last_error (touch_position n old p) = pos_last_error p"
  "pos_risk_amount (touch_position n old p) = pos_risk_amount p"
  "pos_exit_price (touch_position n old p) = pos_exit_price p"
  "pos_realized_pnl (touch_position n old p) = pos_realized_pnl p"
  by (simp_all add: touch_position_def)

lemma touch_plan_sel [simp]:
  "pl_id (touch_plan n old p) = pl_id p"
  "pl_symbol (touch_plan n old p) = pl_symbol p"
  "pl_status (touch_plan n old p) = pl_status p"
  "pl_direction (touch_plan n old p) = pl_direction p"
  "pl_priority_level (touch_plan n old p) = pl_priority_level p"
  "pl_rules_approval_status (touch_plan n old p) = pl_rules_approval_status p"
  "pl_stop_price (touch_plan n old p) = pl_stop_price p"
  "pl_current_price (touch_plan n old p) = pl_current_price p"
  "pl_last_validated_at (touch_plan n old p) = pl_last_validated_at p"
  "pl_breakout_entry_price (touch_plan n old p) = pl_breakout_entry_price p"
  "pl_no_chase_above (touch_plan n old p) = pl_no_chase_above p"
  "pl_capital_status (touch_plan n old p) = pl_capital_status p"
  "pl_waitlist_rank (touch_plan n old p) = pl_waitlist_rank p"
  by (simp_all add: touch_plan_def)

lemma commit_sel [simp]:
  "orders (commit n old db) = orders db"
  "deals (commit n old db) = deals db"
  "issues (commit n old db) = issues db"
  "audits (commit n old db) = audits db"
  "gate_config (commit n old db) = gate_config db"
  "portfolio_config (commit n old db) = portfolio_config db"
  "ledger.more (commit n old db) = ledger.more db"
  "positions (commit n old db) = map (touch_position n (positions old)) (positions db)"
  "plans (commit n old db) = map (touch_plan n (plans old)) (plans db)"
  by (simp_all add: commit_def)

lemma plan_of_SomeD: "plan_of i db = Some pl \<Longrightarrow> pl \<in> set (plans db) \<and> i = Some (pl_id pl)"
  by (auto simp: plan_of_def split: option.splits if_splits dest: get_row_SomeD)

section \<open>The broker\<close>

text \<open>
  What the trade provider answers during one call of a service: each read has one answer, each
  order and each cancellation an answer that depends on what was sent.
\<close>

record broker =
  get_account_info :: "exn + row"
  get_positions :: "exn + row list"
  get_open_orders :: "exn + row list"
  get_deals :: "exn + row list"
  place_simulated_order :: "string \<Rightarrow> side \<Rightarrow> int \<Rightarrow> real \<Rightarrow> exn + row"
  cancel_order :: "string \<Rightarrow> exn + unit"

text \<open>A broker that answers with given rows and accepts every order under one id.\<close>

definition scripted_broker :: "row \<Rightarrow> row list \<Rightarrow> row list \<Rightarrow> row list \<Rightarrow> string \<Rightarrow> broker" where
  "scripted_broker account ps os ds new_id = \<lparr>get_account_info = Inr account, get_positions = Inr ps,
     get_open_orders = Inr os, get_deals = Inr ds,
     place_simulated_order = (\<lambda>_ _ _ _. Inr [(''order_id'', PStr new_id)]), cancel_order = (\<lambda>_. Inr ())\<rparr>"

lemma scripted_broker_sel [simp]:
  "get_account_info (scripted_broker a ps os ds i) = Inr a"
  "get_positions (scripted_broker a ps os ds i) = Inr ps"
  "get_open_orders (scripted_broker a ps os ds i) = Inr os"
  "get_deals (scripted_broker a ps os ds i) = Inr ds"
  "place_simulated_order (scripted_broker a ps os ds i) = (\<lambda>_ _ _ _. Inr [(''order_id'', PStr i)])"
  "cancel_order (scripted_broker a ps os ds i) = (\<lambda>_. Inr ())"
  by (simp_all add: scripted_broker_def)

text \<open>A triggered long plan with round prices.\<close>

definition sample_plan :: "int \<Rightarrow> string \<Rightarrow> trade_plan" where
  "sample_plan i symbol = \<lparr>pl_id = i, pl_symbol = symbol, pl_name = [], pl_direction = LONG,
     pl_source_structure_id = 1, pl_battle_pool_id = 1, pl_daily_state = DAILY_STRONG_BULL,
     pl_structure_type = BOTTOM_STRUCTURE, pl_priority_level = Prio_A, pl_entry_mode = ''BREAKOUT'',
     pl_breakout_entry_price = Some 100, pl_pullback_entry_low = None, pl_pullback_entry_high = None,
     pl_low_absorb_entry_low = None, pl_low_absorb_entry_high = None, pl_stop_price = 95,
     pl_target_1 = 105, pl_target_2 = 110, pl_trailing_rule = [], pl_time_stop_rule = [],
     pl_invalid_condition = [], pl_risk_reward_1 = 1, pl_risk_reward_2 = 2, pl_alert_status = ALERT_ARMED,
     pl_status = PL_TRIGGERED, pl_reason = [], pl_no_chase_above = Some 102, pl_no_chase_below = None,
     pl_current_price = Some 101, pl_current_change_pct = None, pl_last_validated_at = Some 0,
     pl_rules_approval_status = NOT_REVIEWED, pl_rules_reject_reason = [], pl_capital_status = CAPITAL_UNKNOWN,
     pl_capital_reason = [], pl_activation_status = [], pl_waitlist_rank = None, pl_simulated_order_id = None,
     pl_missed_by_capital_at = None, pl_missed_by_capital_price = None, pl_suggested_shares = None,
     pl_available_cash_snapshot = None, pl_max_new_position_value = None, pl_manual_checklist = [],
     pl_created_at = 0, pl_updated_at = 0\<rparr>"

record order_request =
  rq_symbol :: string
  rq_side :: side
  rq_qty :: int
  rq_price :: real

text \<open>
  The simulated-order method of app/providers/futu_trade_provider.py around the broker's own call:
  the switch, the check of quantity and price, the market prefix and the rounding of the price.
\<close>

definition futu_place_order ::
  "(real \<Rightarrow> int \<Rightarrow> string \<Rightarrow> side \<Rightarrow> exn + row list) \<Rightarrow> settings \<Rightarrow> string \<Rightarrow> side \<Rightarrow> int \<Rightarrow> real \<Rightarrow> exn + row" where
  "futu_place_order sdk st symbol sd qty limit_price =
     (if \<not> enable_sim_trading st then Inl (RuntimeError ''Simulated trading is disabled'')
      else if qty \<le> 0 \<or> limit_price \<le> 0 then Inl (ValueError ''qty and limit_price must be positive'')
      else (let code = (if starts_with ''US.'' symbol then symbol else ''US.'' @ symbol)
            in case sdk (py_round 2 limit_price) qty code sd of
                 Inl e \<Rightarrow> Inl e
               | Inr rows \<Rightarrow> Inr (case rows of [] \<Rightarrow> [] | r # _ \<Rightarrow> r)))"

definition futu_trade_provider_init :: "settings \<Rightarrow> exn + unit" where
  "futu_trade_provider_init st = assert_simulation_only st"

end
