(* ===== verification/Position_Sync.thy ===== *)
theory Position_Sync
  imports Ledger
begin

text \<open>
  app/services/position_sync.py: the broker's positions are copied into the local table. A remote
  position creates or updates its local row; a new one is bound to the one unfinished BUY order that
  matches it in quantity, price and time, or becomes an orphan; a local position the broker no
  longer reports is closed, verified by a filled SELL order or not.
\<close>

section \<open>Symbols and row values\<close>

definition normalize_symbol :: "pyval \<Rightarrow> string" where
  "normalize_symbol v =
     (let s = py_upper (py_strip (str_or_empty v))
      in if s = [] then [] else if CHR ''.'' \<in> set s then s else ''US.'' @ s)"

abbreviation norm_sym :: "string \<Rightarrow> string" where
  "norm_sym s \<equiv> normalize_symbol (PStr s)"

definition symbol_aliases :: "string \<Rightarrow> string list" where
  "symbol_aliases s = [s, removeprefix ''US.'' s]"

definition ratio_value :: "pyval \<Rightarrow> real" where
  "ratio_value v = (let ratio = float_value v in if 1 < \<bar>ratio\<bar> then ratio / 100 else ratio)"

fun first_present :: "row \<Rightarrow> string list \<Rightarrow> pyval \<Rightarrow> pyval" where
  "first_present r [] d = d"
| "first_present r (k # ks) d =
     (case map_of r k of None \<Rightarrow> first_present r ks d
      | Some v \<Rightarrow> if v = PNone then first_present r ks d else v)"

text \<open>The values that the loop reads from one row of the broker.\<close>

record remote_position =
  rp_quantity :: int
  rp_symbol :: string
  rp_cost :: real
  rp_market_value :: real
  rp_current :: real
  rp_pnl :: real
  rp_pnl_pct :: real
  rp_available :: int
  rp_name :: pyval

definition read_remote_position :: "row \<Rightarrow> remote_position" where
  "read_remote_position row =
     (let quantity = int_value (get_or row [''qty'', ''quantity'']);
          cost = float_value (get_or row [''cost_price'', ''average_price'']);
          market_value = float_value (get_or row [''market_val'', ''market_value'']);
          current0 = float_value (get_or row [''nominal_price'', ''current_price'', ''last_price'']);
          current = (if current0 \<le> 0 \<and> quantity > 0 \<and> market_value > 0 then market_value / of_int quantity else current0);
          pnl = float_value (get_or row [''pl_val'', ''pl_value'']);
          pnl_pct = (if current > 0 \<and> cost > 0 then (current - cost) / cost else ratio_value (row_get row ''pl_ratio''))
      in \<lparr>rp_quantity = quantity, rp_symbol = normalize_symbol (get_or row [''code'', ''symbol'']),
          rp_cost = cost, rp_market_value = market_value, rp_current = current, rp_pnl = pnl,
          rp_pnl_pct = pnl_pct,
          rp_available = int_value (first_present row [''can_sell_qty'', ''available_qty''] (PInt quantity)),
          rp_name = get_or row [''stock_name'', ''name'']\<rparr>)"

section \<open>Binding a remote position to a local BUY order\<close>

datatype confidence = NO_MATCH | LOW | MEDIUM | HIGH_CONFIDENCE

record order_match =
  om_order :: "sim_order option"
  om_confidence :: confidence
  om_reason :: string
  om_candidates :: "sim_order list"

definition unresolved_buy :: "string list \<Rightarrow> sim_order \<Rightarrow> bool" where
  "unresolved_buy aliases ord \<longleftrightarrow>
     so_symbol ord \<in> set aliases \<and> so_side ord = BUY
     \<and> so_status ord \<in> {OS_SUBMITTED, OS_PARTIALLY_FILLED, OS_UNKNOWN_REMOTE_MISSING}"

definition qty_matches :: "sim_order \<Rightarrow> int \<Rightarrow> bool" where
  "qty_matches ord remote_quantity =
     (let expected = num_or (so_dealt_qty ord) (so_qty ord)
      in \<bar>of_int expected - of_int remote_quantity\<bar> \<le> max 1 (of_int remote_quantity * (5/100) :: real))"

definition reference_price :: "sim_order \<Rightarrow> real" where
  "reference_price ord = opt_or (so_dealt_avg_price ord) (num_or (so_limit_price ord) (opt_or (so_submitted_price ord) 0))"

definition time_matches :: "sim_order \<Rightarrow> int \<Rightarrow> settings \<Rightarrow> bool" where
  "time_matches ord now st \<longleftrightarrow>
     date_of (so_submitted_at ord) = date_of now
     \<or> now - minutes (buy_order_match_window_minutes st) \<le> so_submitted_at ord"

definition matching_unresolved_buy_order ::
  "sim_order list \<Rightarrow> string list \<Rightarrow> int \<Rightarrow> real \<Rightarrow> int \<Rightarrow> settings \<Rightarrow> order_match" where
  "matching_unresolved_buy_order os aliases remote_quantity remote_cost now st =
     (case order_desc2 so_submitted_at so_id (filter (unresolved_buy aliases) os) of
        [] \<Rightarrow> \<lparr>om_order = None, om_confidence = NO_MATCH, om_reason = zh_no_buy_candidate, om_candidates = []\<rparr>
      | [ord] \<Rightarrow>
          (let qty_match = qty_matches ord remote_quantity;
               ref = reference_price ord;
               price_available = (remote_cost > 0 \<and> ref \<noteq> 0);
               price_match = (price_available \<and> \<bar>ref - remote_cost\<bar> / remote_cost \<le> 3/100);
               time_match = time_matches ord now st;
               misses = (if \<not> qty_match then [zh_miss_qty] else [])
                 @ (if price_available \<and> \<not> price_match then [zh_miss_price] else [])
                 @ (if \<not> price_available then [zh_miss_price_data] else [])
                 @ (if \<not> time_match then [zh_miss_time] else [])
           in if qty_match \<and> price_match \<and> time_match
              then \<lparr>om_order = Some ord, om_confidence = HIGH_CONFIDENCE, om_reason = zh_match_all, om_candidates = [ord]\<rparr>
              else if qty_match \<and> time_match \<and> \<not> price_available
              then \<lparr>om_order = Some ord, om_confidence = MEDIUM, om_reason = zh_match_no_price, om_candidates = [ord]\<rparr>
              else \<lparr>om_order = None, om_confidence = LOW,
                     om_reason = str_or (join_with zh_separator misses) zh_low_confidence, om_candidates = [ord]\<rparr>)
      | candidates \<Rightarrow> \<lparr>om_order = None, om_confidence = LOW, om_reason = zh_many_buy_candidates, om_candidates = candidates\<rparr>)"

section \<open>One remote row\<close>

text \<open>The new row, with the order it was bound to (if any).\<close>

definition create_position ::
  "settings \<Rightarrow> int \<Rightarrow> remote_position \<Rightarrow> order_match \<Rightarrow> 'z ledger_scheme \<Rightarrow> position \<times> 'z ledger_scheme" where
  "create_position st now rp m db =
     (let cost = rp_cost rp; symbol = rp_symbol rp; q = rp_quantity rp;
          p = (new_position symbol cost (cost * (1 - orphan_stop_loss_pct st)) q (cost * orphan_stop_loss_pct st * of_int q) now)
                \<lparr>pos_id := next_id pos_id (positions db),
                 pos_source := (if om_order m = None then FUTU_DETECTED else LOCAL_AND_FUTU_CONFIRMED),
                 pos_is_orphan := (om_order m = None),
                 pos_source_trade_plan_id := Option.bind (om_order m) so_trade_plan_id,
                 pos_entry_order_id := map_option so_id (om_order m),
                 pos_take_profit_pct := Some (orphan_take_profit_pct st),
                 pos_stop_loss_pct := Some (orphan_stop_loss_pct st),
                 pos_target_1 := Some (cost * (1 + orphan_take_profit_pct st)),
                 pos_overnight_policy := ''FUTU_ACCOUNT''\<rparr>;
          db1 = db\<lparr>positions := positions db @ [p]\<rparr>;
          db2 = (case om_order m of
                   Some ord \<Rightarrow>
                     (let dbo = put_order (ord\<lparr>so_status := OS_FILLED_INFERRED, so_dealt_qty := q, so_dealt_avg_price := Some cost\<rparr>) db1;
                          dbp = (case plan_of (so_trade_plan_id ord) dbo of
                                   None \<Rightarrow> dbo | Some pl \<Rightarrow> set_plan_status PL_IN_POSITION pl dbo)
                      in write_audit ''SIM_ORDER_FILLED_INFERRED'' symbol ''SimOrder'' (Some (so_id ord))
                           ''FILLED_INFERRED'' zh_fill_inferred now dbp)
                 | None \<Rightarrow>
                     (if om_candidates m = [] then db1
                      else write_audit ''ORPHAN_POSITION_MATCH_LOW_CONFIDENCE'' symbol ''Position'' (Some (pos_id p))
                             ''WARNING'' zh_orphan_low_confidence now db1))
      in (p, write_audit ''ORPHAN_POSITION_DETECTED'' symbol ''Position'' (Some (pos_id p)) ''OPEN''
               (if om_order m = None then zh_orphan_unbound else zh_orphan_bound) now db2))"

definition adopt_position :: "string \<Rightarrow> position \<Rightarrow> position" where
  "adopt_position symbol p =
     (let linked = (opt_truthy (pos_source_trade_plan_id p) \<or> opt_truthy (pos_entry_order_id p))
      in p\<lparr>pos_symbol := symbol,
           pos_source := (if linked then LOCAL_AND_FUTU_CONFIRMED else FUTU_DETECTED),
           pos_is_orphan := (if linked then pos_is_orphan p else True)\<rparr>)"

definition refresh_position :: "settings \<Rightarrow> int \<Rightarrow> remote_position \<Rightarrow> position \<Rightarrow> position" where
  "refresh_position st now rp p =
     (let entry = num_or (rp_cost rp) (pos_entry_price p);
          p1 = p\<lparr>pos_status := POS_OPEN,
                 pos_name := (if truthy (rp_name rp) then py_str (rp_name rp) else pos_name p),
                 pos_shares := rp_quantity rp,
                 pos_available_shares := max (rp_available rp) 0,
                 pos_entry_price := entry,
                 pos_current_price := (if rp_current rp = 0 then pos_current_price p else Some (rp_current rp)),
                 pos_market_value := num_or (rp_market_value rp) (rp_current rp * of_int (rp_quantity rp)),
                 pos_unrealized_pnl := rp_pnl rp,
                 pos_unrealized_pnl_pct := rp_pnl_pct rp,
                 pos_last_synced_at := Some now,
                 pos_last_error := []\<rparr>;
          take = opt_or (pos_take_profit_pct p1) (orphan_take_profit_pct st);
          stop = opt_or (pos_stop_loss_pct p1) (orphan_stop_loss_pct st)
      in if pos_is_orphan p1
         then p1\<lparr>pos_take_profit_pct := Some take, pos_stop_loss_pct := Some stop,
                 pos_stop_price := entry * (1 - stop), pos_target_1 := Some (entry * (1 + take))\<rparr>
         else p1)"

record 'z sync_state =
  sy_db :: 'z
  sy_seen :: "string list"
  sy_created :: int
  sy_updated :: int

definition sync_remote_row ::
  "settings \<Rightarrow> int \<Rightarrow> row \<Rightarrow> 'z ledger_scheme sync_state \<Rightarrow> 'z ledger_scheme sync_state" where
  "sync_remote_row st now row s =
     (let rp = read_remote_position row; db = sy_db s
      in if rp_quantity rp \<le> 0 \<or> rp_symbol rp = [] then s
         else
           (let aliases = symbol_aliases (rp_symbol rp);
                m = matching_unresolved_buy_order (orders db) aliases (rp_quantity rp) (rp_cost rp) now st
            in case scalar (filter (\<lambda>p. pos_symbol p \<in> set aliases) (positions db)) of
                 None \<Rightarrow>
                   (let (p, db1) = create_position st now rp m db
                    in s\<lparr>sy_db := put_position (refresh_position st now rp p) db1,
                         sy_seen := rp_symbol rp # sy_seen s, sy_created := sy_created s + 1\<rparr>)
               | Some p \<Rightarrow>
                   s\<lparr>sy_db := put_position (refresh_position st now rp (adopt_position (rp_symbol rp) p)) db,
                     sy_seen := rp_symbol rp # sy_seen s, sy_updated := sy_updated s + 1\<rparr>))"

section \<open>Positions the broker no longer reports\<close>

definition filled_sell_order :: "sim_order list \<Rightarrow> position \<Rightarrow> sim_order option" where
  "filled_sell_order os p =
     scalar (order_desc2 so_submitted_at so_id
       (filter (\<lambda>x. so_symbol x \<in> set (symbol_aliases (norm_sym (pos_symbol p))) \<and> so_side x = SELL
                   \<and> so_status x \<in> {OS_FILLED, OS_FILLED_INFERRED}) os))"

definition mark_verified_closed_from_sell_order :: "position \<Rightarrow> sim_order \<Rightarrow> int \<Rightarrow> position" where
  "mark_verified_closed_from_sell_order p ord now =
     (let sold = num_or (so_dealt_qty ord) (so_qty ord);
          exit_price = opt_or (so_dealt_avg_price ord) (so_limit_price ord)
      in p\<lparr>pos_status := POS_CLOSED, pos_exit_order_id := Some (so_id ord), pos_exit_price := Some exit_price,
           pos_realized_pnl := Some ((exit_price - pos_entry_price p) * of_int sold),
           pos_close_verified := True, pos_close_source := ''SELL_ORDER_FILLED'',
           pos_shares := 0, pos_available_shares := 0, pos_last_synced_at := Some now\<rparr>)"

definition mark_closed_unverified :: "position \<Rightarrow> position" where
  "mark_closed_unverified p =
     p\<lparr>pos_status := POS_CLOSED_UNVERIFIED, pos_exit_price := None, pos_realized_pnl := None,
       pos_close_verified := False, pos_close_source := ''REMOTE_POSITION_MISSING''\<rparr>"

definition closed_row :: "int \<Rightarrow> sim_order list \<Rightarrow> position \<Rightarrow> position" where
  "closed_row now os p =
     (let p1 = (case filled_sell_order os p of
                  Some ord \<Rightarrow> mark_verified_closed_from_sell_order p ord now
                | None \<Rightarrow> mark_closed_unverified p)
      in p1\<lparr>pos_exit_reason := str_or (pos_exit_reason p1) ''FUTU_POSITION_NO_LONGER_PRESENT'',
            pos_available_shares := 0, pos_last_synced_at := Some now\<rparr>)"

definition close_missing_position :: "int \<Rightarrow> position \<Rightarrow> 'z ledger_scheme \<Rightarrow> 'z ledger_scheme" where
  "close_missing_position now p db =
     (let sell = filled_sell_order (orders db) p;
          db1 = put_position (closed_row now (orders db) p) db;
          db2 = (case plan_of (pos_source_trade_plan_id p) db1 of
                   None \<Rightarrow> db1
                 | Some pl \<Rightarrow> if pl_status pl = PL_IN_POSITION then set_plan_status PL_COOLDOWN pl db1 else db1)
      in (case sell of
            Some _ \<Rightarrow> write_audit ''POSITION_RECONCILED_CLOSED'' (pos_symbol p) ''Position'' (Some (pos_id p)) ''CLOSED''
                        zh_closed_confirmed now db2
          | None \<Rightarrow> write_audit ''POSITION_RECONCILED_CLOSED_UNVERIFIED'' (pos_symbol p) ''Position'' (Some (pos_id p))
                      ''CLOSED_UNVERIFIED'' zh_closed_unverified now db2))"

definition gone_at_broker :: "string list \<Rightarrow> position \<Rightarrow> bool" where
  "gone_at_broker seen p \<longleftrightarrow>
     pos_symbol p \<notin> set seen \<and> pos_source p \<in> {FUTU_DETECTED, LOCAL_AND_FUTU_CONFIRMED}"

fun close_missing :: "int \<Rightarrow> string list \<Rightarrow> position list \<Rightarrow> 'z ledger_scheme \<times> int \<Rightarrow> 'z ledger_scheme \<times> int" where
  "close_missing now seen [] (db, n) = (db, n)"
| "close_missing now seen (p # ps) (db, n) =
     (if gone_at_broker seen p
      then close_missing now seen ps (close_missing_position now p db, n + 1)
      else close_missing now seen ps (db, n))"

record sync_counts =
  sc_remote :: int
  sc_created :: int
  sc_updated :: int
  sc_closed :: int

definition unique_positions :: "position list \<Rightarrow> bool" where
  "unique_positions ps \<longleftrightarrow> distinct (map pos_symbol ps)"

text \<open>
  The column \<open>positions.symbol\<close> is unique: the commit raises when two rows would carry the same
  symbol, and nothing is written.
\<close>

definition sync_futu_positions_to_local ::
  "broker \<Rightarrow> settings \<Rightarrow> int \<Rightarrow> 'z ledger_scheme \<Rightarrow> exn + ('z ledger_scheme \<times> sync_counts)" where
  "sync_futu_positions_to_local br st now db =
     (case get_positions br of
        Inl e \<Rightarrow> Inl e
      | Inr rows \<Rightarrow>
          (let s = fold (sync_remote_row st now) rows \<lparr>sy_db = db, sy_seen = [], sy_created = 0, sy_updated = 0\<rparr>;
               local_open = filter (\<lambda>p. pos_status p = POS_OPEN) (positions (sy_db s));
               (db1, n) = close_missing now (sy_seen s) local_open (sy_db s, 0)
           in if unique_positions (positions db1)
              then Inr (commit now db db1,
                     \<lparr>sc_remote = int (length rows), sc_created = sy_created s, sc_updated = sy_updated s, sc_closed = n\<rparr>)
              else Inl (IntegrityError ''UNIQUE constraint failed: positions.symbol'')))"

section \<open>Lemmas\<close>

text \<open>Normalising a symbol.\<close>

lemma py_str_PStr_or: "str_or_empty (PStr s) = s"
  by (simp add: str_or_empty_def py_or_def)

lemma upper_prefix: "py_upper (''US.'' @ s) = ''US.'' @ py_upper s"
  by (simp add: py_upper_def upper_char_def)

lemma strip_US_dot:
  assumes "py_strip s = s" and "s \<noteq> []"
  shows "py_strip (''US.'' @ s) = ''US.'' @ s"
proof -
  have "dropWhile is_space (rev s) = rev s"
  proof -
    have hd: "\<not> is_space (hd s)"
    proof
      assume "is_space (hd s)"
      then have "length (dropWhile is_space s) < length s"
        using assms(2) by (cases s) (auto simp: less_Suc_eq_le length_dropWhile_le)
      moreover have "length (py_strip s) \<le> length (dropWhile is_space s)"
        unfolding py_strip_def by (metis length_rev length_dropWhile_le)
      ultimately show False using assms(1) by simp
    qed
    then have "dropWhile is_space s = s"
      using assms(2) by (cases s) auto
    with assms(1) show ?thesis
      by (metis py_strip_def rev_swap)
  qed
  then have r: "dropWhile is_space (rev s @ rev ''US.'') = rev s @ rev ''US.''"
    using assms(2) by (metis append_is_Nil_conv dropWhile_eq_self_iff hd_append2 rev_is_Nil_conv)
  have "dropWhile is_space (''US.'' @ s) = ''US.'' @ s"
    by (simp add: is_space_def)
  then show ?thesis
    unfolding py_strip_def using r by (simp del: append_Cons append_Nil)
qed

lemma norm_sym_idem: "norm_sym (normalize_symbol v) = normalize_symbol v"
proof -
  define s where "s = py_upper (py_strip (str_or_empty v))"
  have st: "py_strip s = s" "py_upper s = s"
    by (simp_all add: s_def strip_upper)
  have n: "normalize_symbol v = (if s = [] then [] else if CHR ''.'' \<in> set s then s else ''US.'' @ s)"
    by (simp add: normalize_symbol_def s_def Let_def)
  show ?thesis
  proof (cases "s = []")
    case True
    then have e: "normalize_symbol v = []" by (simp add: n)
    have "py_upper (py_strip []) = []" by (simp add: py_strip_def py_upper_def)
    then show ?thesis unfolding e by (simp add: normalize_symbol_def py_str_PStr_or)
  next
    case False
    show ?thesis
    proof (cases "CHR ''.'' \<in> set s")
      case True
      with False have e: "normalize_symbol v = s" by (simp add: n)
      show ?thesis unfolding e using st False True by (simp add: normalize_symbol_def py_str_PStr_or)
    next
      case no_dot: False
      have u: "py_upper (py_strip (''US.'' @ s)) = ''US.'' @ s"
        using strip_US_dot [OF st(1) False] st(2) by (simp only: upper_prefix)
      have n': "normalize_symbol v = ''US.'' @ s" using False no_dot by (simp add: n)
      show ?thesis
        unfolding n' using u by (simp add: normalize_symbol_def py_str_PStr_or del: append_Cons append_Nil)
    qed
  qed
qed

lemma norm_sym_has_dot: "normalize_symbol v \<noteq> [] \<Longrightarrow> CHR ''.'' \<in> set (normalize_symbol v)"
  by (auto simp: normalize_symbol_def Let_def split: if_splits)

text \<open>Binding: what a returned order satisfies.\<close>

lemma order_desc2_singleton:
  assumes "order_desc2 f g xs = [x]"
  shows "xs = [x]"
proof -
  have "length xs = length (order_desc2 f g xs)" by (simp add: order_desc2_def)
  then have "length xs = 1" using assms by simp
  then obtain y where y: "xs = [y]" by (cases xs) auto
  have "set xs = {x}" by (metis assms set_order_desc2 list.simps(15) empty_set)
  with y show ?thesis by simp
qed

lemma order_desc2_one [simp]: "order_desc2 f g [x] = [x]"
  by (simp add: order_desc2_def)

definition price_compatible :: "sim_order \<Rightarrow> real \<Rightarrow> bool" where
  "price_compatible ord cost \<longleftrightarrow>
     (if cost > 0 \<and> reference_price ord \<noteq> 0 then \<bar>reference_price ord - cost\<bar> / cost \<le> 3/100 else True)"

lemma matching_one:
  "om_order (matching_unresolved_buy_order os al q cost now st) = Some ord
   \<Longrightarrow> filter (unresolved_buy al) os = [ord]"
  by (rule order_desc2_singleton [of so_submitted_at so_id])
    (auto simp: matching_unresolved_buy_order_def Let_def split: list.splits if_splits)

text \<open>What the steps do to the table of positions.\<close>

definition unique_ids :: "position list \<Rightarrow> bool" where
  "unique_ids ps \<longleftrightarrow> distinct (map pos_id ps)"

interpretation position_table: keyed_table pos_id unique_ids
  by unfold_locales (rule unique_ids_def)

lemma create_position_fst:
  "pos_id (fst (create_position st now rp m db)) = next_id pos_id (positions db)"
  "pos_symbol (fst (create_position st now rp m db)) = rp_symbol rp"
  "pos_source (fst (create_position st now rp m db)) \<in> {FUTU_DETECTED, LOCAL_AND_FUTU_CONFIRMED}"
  by (simp_all add: create_position_def Let_def new_position_def)

lemma create_position_positions [simp]:
  "positions (snd (create_position st now rp m db)) = positions db @ [fst (create_position st now rp m db)]"
  by (auto simp: create_position_def Let_def split: option.splits)

lemma refresh_position_sel [simp]:
  "pos_id (refresh_position st now rp p) = pos_id p"
  "pos_symbol (refresh_position st now rp p) = pos_symbol p"
  "pos_status (refresh_position st now rp p) = POS_OPEN"
  "pos_shares (refresh_position st now rp p) = rp_quantity rp"
  "pos_source (refresh_position st now rp p) = pos_source p"
  "pos_entry_price (refresh_position st now rp p) = num_or (rp_cost rp) (pos_entry_price p)"
  by (simp_all add: refresh_position_def Let_def)

lemma adopt_position_sel [simp]:
  "pos_id (adopt_position s p) = pos_id p"
  "pos_symbol (adopt_position s p) = s"
  "pos_source (adopt_position s p) = FUTU_DETECTED \<or> pos_source (adopt_position s p) = LOCAL_AND_FUTU_CONFIRMED"
  by (simp_all add: adopt_position_def Let_def)

definition mirrored :: "remote_position \<Rightarrow> position list \<Rightarrow> bool" where
  "mirrored rp ps \<longleftrightarrow> (\<exists>p \<in> set ps. pos_symbol p = rp_symbol rp \<and> pos_status p = POS_OPEN
     \<and> pos_source p \<in> {FUTU_DETECTED, LOCAL_AND_FUTU_CONFIRMED} \<and> pos_shares p = rp_quantity rp)"

definition live_row :: "row \<Rightarrow> bool" where
  "live_row row \<longleftrightarrow> rp_quantity (read_remote_position row) > 0 \<and> rp_symbol (read_remote_position row) \<noteq> []"

abbreviation row_symbol :: "row \<Rightarrow> string" where
  "row_symbol row \<equiv> rp_symbol (read_remote_position row)"

lemma sync_row_skip [simp]: "\<not> live_row row \<Longrightarrow> sync_remote_row st now row s = s"
  by (auto simp: sync_remote_row_def live_row_def Let_def)

text \<open>A live row changes one position, named by its symbol or its bare symbol, or appends one.\<close>

lemma sync_row_effect:
  assumes "live_row row"
  obtains p where "positions (sy_db (sync_remote_row st now row s)) = put_row pos_id p (positions (sy_db s))"
      "\<exists>q \<in> set (positions (sy_db s)). pos_id q = pos_id p \<and> pos_symbol q \<in> set (symbol_aliases (row_symbol row))"
      "pos_symbol p = row_symbol row" "pos_status p = POS_OPEN" "pos_shares p = rp_quantity (read_remote_position row)"
      "pos_source p \<in> {FUTU_DETECTED, LOCAL_AND_FUTU_CONFIRMED}"
  | p where "positions (sy_db (sync_remote_row st now row s)) = positions (sy_db s) @ [p]"
      "pos_id p = next_id pos_id (positions (sy_db s))"
      "pos_symbol p = row_symbol row" "pos_status p = POS_OPEN" "pos_shares p = rp_quantity (read_remote_position row)"
      "pos_source p \<in> {FUTU_DETECTED, LOCAL_AND_FUTU_CONFIRMED}"
proof -
  let ?rp = "read_remote_position row" and ?al = "symbol_aliases (row_symbol row)" and ?ps = "positions (sy_db s)"
  let ?m = "matching_unresolved_buy_order (orders (sy_db s)) ?al (rp_quantity ?rp) (rp_cost ?rp) now st"
  have live: "\<not> (rp_quantity ?rp \<le> 0 \<or> row_symbol row = [])" using assms by (auto simp: live_row_def)
  show thesis
  proof (cases "scalar (filter (\<lambda>p. pos_symbol p \<in> set ?al) ?ps)")
    case None
    let ?c = "create_position st now ?rp ?m (sy_db s)"
    let ?p = "refresh_position st now ?rp (fst ?c)"
    have "put_row pos_id ?p (?ps @ [fst ?c]) = ?ps @ [?p]"
      by (auto simp: put_row_def create_position_fst intro!: map_idI dest: next_id_fresh [of _ ?ps pos_id])
    then have "positions (sy_db (sync_remote_row st now row s)) = ?ps @ [?p]"
      using live None by (simp add: sync_remote_row_def Let_def case_prod_beta)
    then show thesis using that(2) create_position_fst [of st now ?rp ?m "sy_db s"] by simp
  next
    case (Some q)
    then have "q \<in> set ?ps" "pos_symbol q \<in> set ?al" by (auto dest: scalar_filter_SomeD)
    then show thesis
      using that(1) [of "refresh_position st now ?rp (adopt_position (row_symbol row) q)"] live Some
      by (auto simp: sync_remote_row_def Let_def)
  qed
qed

lemma sync_row_unique_ids:
  "unique_ids (positions (sy_db s)) \<Longrightarrow> unique_ids (positions (sy_db (sync_remote_row st now row s)))"
proof (cases "live_row row")
  case True
  then show "unique_ids (positions (sy_db s)) \<Longrightarrow> ?thesis"
    by (rule sync_row_effect [of row st now s]) (auto simp: position_table.append)
qed simp

lemma sync_row_seen:
  "sy_seen (sync_remote_row st now row s) = (if live_row row then row_symbol row # sy_seen s else sy_seen s)"
  by (auto simp: sync_remote_row_def live_row_def Let_def case_prod_beta split: option.splits)

lemma sync_row_mirrors:
  assumes "live_row row"
  shows "mirrored (read_remote_position row) (positions (sy_db (sync_remote_row st now row s)))"
  by (rule sync_row_effect [OF assms, of st now s]) (auto simp: mirrored_def intro: put_row_in_set)

lemma sync_row_keeps_mirrored:
  assumes m: "mirrored rp (positions (sy_db s))" and u: "unique_ids (positions (sy_db s))"
    and other: "live_row row \<Longrightarrow> rp_symbol rp \<notin> set (symbol_aliases (row_symbol row))"
  shows "mirrored rp (positions (sy_db (sync_remote_row st now row s)))"
proof (cases "live_row row")
  case True
  from m obtain q where q: "q \<in> set (positions (sy_db s))" "pos_symbol q = rp_symbol rp"
      "pos_status q = POS_OPEN" "pos_shares q = rp_quantity rp"
      "pos_source q \<in> {FUTU_DETECTED, LOCAL_AND_FUTU_CONFIRMED}"
    by (auto simp: mirrored_def)
  show ?thesis
  proof (rule sync_row_effect [OF True, of st now s])
    fix p
    assume pos: "positions (sy_db (sync_remote_row st now row s)) = put_row pos_id p (positions (sy_db s))"
      and ex: "\<exists>q \<in> set (positions (sy_db s)). pos_id q = pos_id p \<and> pos_symbol q \<in> set (symbol_aliases (row_symbol row))"
    have "pos_id q \<noteq> pos_id p"
      using ex q(1,2) other [OF True] position_table.same [OF u] by metis
    then have "q \<in> set (put_row pos_id p (positions (sy_db s)))"
      using q(1) by (simp add: put_row_other)
    with q pos show ?thesis by (auto simp: mirrored_def)
  next
    fix p
    assume "positions (sy_db (sync_remote_row st now row s)) = positions (sy_db s) @ [p]"
    with q show ?thesis by (auto simp: mirrored_def)
  qed
qed (simp add: m)

lemma sync_row_not_open:
  assumes "p \<in> set (positions (sy_db (sync_remote_row st now row s)))" and "pos_status p \<noteq> POS_OPEN"
  shows "p \<in> set (positions (sy_db s))"
proof (cases "live_row row")
  case True
  then show ?thesis
    by (rule sync_row_effect [of row st now s]) (use assms in \<open>auto dest: set_put_rowD\<close>)
qed (use assms in simp)

text \<open>All rows of one answer.\<close>

definition separate_rows :: "row list \<Rightarrow> bool" where
  "separate_rows rows \<longleftrightarrow>
     sorted_wrt (\<lambda>r r'. row_symbol r \<notin> set (symbol_aliases (row_symbol r'))) (filter live_row rows)"

lemma sync_rows_unique_ids:
  "unique_ids (positions (sy_db s)) \<Longrightarrow> unique_ids (positions (sy_db (fold (sync_remote_row st now) rows s)))"
  by (induction rows arbitrary: s) (auto intro: sync_row_unique_ids)

lemma sync_rows_seen:
  "set (sy_seen (fold (sync_remote_row st now) rows s)) = set (sy_seen s) \<union> row_symbol ` set (filter live_row rows)"
  by (induction rows arbitrary: s) (auto simp: sync_row_seen)

lemma sync_rows_not_open:
  "p \<in> set (positions (sy_db (fold (sync_remote_row st now) rows s))) \<Longrightarrow> pos_status p \<noteq> POS_OPEN
   \<Longrightarrow> p \<in> set (positions (sy_db s))"
  by (induction rows arbitrary: s) (auto dest: sync_row_not_open)

lemma sync_rows_keep_mirrored:
  assumes "mirrored rp (positions (sy_db s))" and "unique_ids (positions (sy_db s))"
    and "\<And>r. r \<in> set (filter live_row rows) \<Longrightarrow> rp_symbol rp \<notin> set (symbol_aliases (row_symbol r))"
  shows "mirrored rp (positions (sy_db (fold (sync_remote_row st now) rows s)))"
  using assms
proof (induction rows arbitrary: s)
  case (Cons r rows)
  have "mirrored rp (positions (sy_db (sync_remote_row st now r s)))"
    by (rule sync_row_keeps_mirrored [OF Cons.prems(1,2)]) (use Cons.prems(3) in auto)
  then show ?case
    using Cons.IH [OF _ sync_row_unique_ids [OF Cons.prems(2)]] Cons.prems(3) by auto
qed simp

lemma sync_rows_mirror:
  assumes "unique_ids (positions (sy_db s))" and "separate_rows rows" and "r \<in> set rows" and "live_row r"
  shows "mirrored (read_remote_position r) (positions (sy_db (fold (sync_remote_row st now) rows s)))"
  using assms
proof (induction rows arbitrary: s)
  case (Cons r' rows)
  have u: "unique_ids (positions (sy_db (sync_remote_row st now r' s)))"
    by (rule sync_row_unique_ids [OF Cons.prems(1)])
  show ?case
  proof (cases "r = r'")
    case True
    with Cons.prems have "mirrored (read_remote_position r) (positions (sy_db (sync_remote_row st now r' s)))"
      by (simp add: sync_row_mirrors)
    moreover have "\<And>x. x \<in> set (filter live_row rows) \<Longrightarrow> row_symbol r \<notin> set (symbol_aliases (row_symbol x))"
      using True Cons.prems(2,4) by (simp add: separate_rows_def)
    ultimately show ?thesis
      using sync_rows_keep_mirrored [OF _ u, of "read_remote_position r" rows] by simp
  next
    case False
    have "separate_rows rows"
      using Cons.prems(2) by (auto simp: separate_rows_def split: if_splits)
    with False Cons.prems Cons.IH [OF u] show ?thesis by simp
  qed
qed simp

text \<open>Closing: every missing position, and no other row, becomes its closed row.\<close>

lemma closed_row_sel [simp]:
  "pos_id (closed_row now os p) = pos_id p"
  "pos_symbol (closed_row now os p) = pos_symbol p"
  by (simp_all add: closed_row_def Let_def mark_verified_closed_from_sell_order_def mark_closed_unverified_def
      split: option.splits)

lemma closed_row_status:
  "pos_status (closed_row now os p) = (if filled_sell_order os p = None then POS_CLOSED_UNVERIFIED else POS_CLOSED)"
  by (simp add: closed_row_def Let_def mark_verified_closed_from_sell_order_def mark_closed_unverified_def
      split: option.splits)

lemma close_missing_position_sel [simp]:
  "positions (close_missing_position now p db) = put_row pos_id (closed_row now (orders db) p) (positions db)"
  "orders (close_missing_position now p db) = orders db"
  by (auto simp: close_missing_position_def Let_def split: option.splits)

lemma close_missing_orders: "orders (fst (close_missing now seen ps (db, n))) = orders db"
  by (induction ps arbitrary: db n) auto

lemma close_missing_positions:
  assumes "unique_ids (positions db)" and "distinct (map pos_id ps)" and "set ps \<subseteq> set (positions db)"
  shows "positions (fst (close_missing now seen ps (db, n))) =
    map (\<lambda>p. if p \<in> set ps \<and> gone_at_broker seen p then closed_row now (orders db) p else p) (positions db)"
  using assms
proof (induction ps arbitrary: db n)
  case (Cons p ps)
  show ?case
  proof (cases "gone_at_broker seen p")
    case False
    with Cons show ?thesis by (auto intro!: map_cong)
  next
    case True
    let ?db = "close_missing_position now p db"
    have sub: "set ps \<subseteq> set (positions ?db)"
    proof
      fix q assume q: "q \<in> set ps"
      then have "pos_id q \<in> pos_id ` set ps" by (rule imageI)
      with Cons.prems(2) have "pos_id q \<noteq> pos_id p" by (auto simp del: image_eqI)
      with q Cons.prems(3) show "q \<in> set (positions ?db)" by (auto intro: put_row_other)
    qed
    have one: "p \<notin> set ps" "closed_row now (orders db) p \<notin> set ps"
      using Cons.prems(2) by (force simp: image_iff)+
    have same: "\<And>q. q \<in> set (positions db) \<Longrightarrow> pos_id q = pos_id p \<Longrightarrow> q = p"
      using Cons.prems(1,3) by (auto dest: position_table.same)
    have "positions (fst (close_missing now seen ps (?db, n + 1))) =
        map (\<lambda>q. if q \<in> set ps \<and> gone_at_broker seen q then closed_row now (orders ?db) q else q) (positions ?db)"
      by (rule Cons.IH [OF _ _ sub]) (use Cons.prems in auto)
    then show ?thesis
      using True one by (auto simp: put_row_def dest: same)
  qed
qed simp

definition broker_view :: "position list \<Rightarrow> (string \<times> int) set" where
  "broker_view ps = (\<lambda>p. (pos_symbol p, pos_shares p)) ` set (filter (\<lambda>p. pos_status p = POS_OPEN
      \<and> pos_source p \<in> {FUTU_DETECTED, LOCAL_AND_FUTU_CONFIRMED}) ps)"

definition remote_view :: "row list \<Rightarrow> (string \<times> int) set" where
  "remote_view rows = (\<lambda>r. (row_symbol r, rp_quantity (read_remote_position r))) ` set (filter live_row rows)"

lemma broker_view_commit [simp]:
  "broker_view (map (touch_position now old) ps) = broker_view ps"
  by (force simp: broker_view_def image_iff)

lemma unique_positionsD:
  "unique_positions ps \<Longrightarrow> p \<in> set ps \<Longrightarrow> q \<in> set ps \<Longrightarrow> pos_symbol p = pos_symbol q \<Longrightarrow> p = q"
  by (auto simp: unique_positions_def distinct_map inj_on_def)

text \<open>The table before the commit, as the loop over the rows and the closing of the missing ones left it.\<close>

lemma sync_result:
  assumes "get_positions br = Inr rows" and "sync_futu_positions_to_local br st now db = Inr (db', c)"
    and "unique_ids (positions db)"
  defines "s \<equiv> fold (sync_remote_row st now) rows \<lparr>sy_db = db, sy_seen = [], sy_created = 0, sy_updated = 0\<rparr>"
  obtains ps where "positions db' = map (touch_position now (positions db)) ps" "orders db' = orders (sy_db s)"
    "ps = map (\<lambda>p. if pos_status p = POS_OPEN \<and> gone_at_broker (sy_seen s) p
                    then closed_row now (orders (sy_db s)) p else p) (positions (sy_db s))"
    "unique_positions ps" "unique_ids (positions (sy_db s))"
proof -
  let ?open = "filter (\<lambda>p. pos_status p = POS_OPEN) (positions (sy_db s))"
  let ?r = "close_missing now (sy_seen s) ?open (sy_db s, 0)"
  have u: "unique_ids (positions (sy_db s))"
    unfolding s_def by (rule sync_rows_unique_ids) (simp add: assms(3))
  have d: "distinct (map pos_id ?open)"
    by (rule position_table.filter_distinct [OF u])
  have eq: "positions (fst ?r) = map (\<lambda>p. if pos_status p = POS_OPEN \<and> gone_at_broker (sy_seen s) p
                    then closed_row now (orders (sy_db s)) p else p) (positions (sy_db s))"
    by (subst close_missing_positions [OF u d]) (auto intro!: map_cong)
  have "positions db' = map (touch_position now (positions db)) (positions (fst ?r)) \<and> unique_positions (positions (fst ?r))
      \<and> orders db' = orders (sy_db s)"
    using assms(1,2) close_missing_orders [of now "sy_seen s" ?open "sy_db s" 0] by (auto simp: sync_futu_positions_to_local_def Let_def s_def [symmetric]
        split: prod.splits if_splits)
  with that eq u show thesis by metis
qed

section \<open>Properties\<close>

text \<open>Inputs of the witnesses: one remote row, and a local position the broker does not report.\<close>

definition aapl_row :: row where
  "aapl_row = [(''code'', PStr ''aapl''), (''qty'', PInt 5), (''cost_price'', PInt 100), (''nominal_price'', PInt 101)]"

definition gone_position :: ledger where
  "gone_position = empty_ledger\<lparr>positions :=
     [(new_position ''US.MSFT'' 100 95 6 30 0)\<lparr>pos_id := 1, pos_source := FUTU_DETECTED\<rparr>]\<rparr>"

text \<open>C2. After a successful synchronisation, the OPEN positions that the local table attributes to the
  broker are exactly the positions of the broker's answer: the same symbols with the same
  quantities, nothing missing and nothing left over. The rows of the answer are for different
  symbols and the ids of the table are unique.\<close>

theorem sync_refines_broker:
  assumes "get_positions br = Inr rows" and "separate_rows rows" and "unique_ids (positions db)"
    and "sync_futu_positions_to_local br st now db = Inr (db', c)"
  shows "broker_view (positions db') = remote_view rows"
proof -
  let ?s = "fold (sync_remote_row st now) rows \<lparr>sy_db = db, sy_seen = [], sy_created = 0, sy_updated = 0\<rparr>"
  obtain ps where ps: "positions db' = map (touch_position now (positions db)) ps"
    "ps = map (\<lambda>p. if pos_status p = POS_OPEN \<and> gone_at_broker (sy_seen ?s) p
                    then closed_row now (orders (sy_db ?s)) p else p) (positions (sy_db ?s))"
    "unique_positions ps"
    using sync_result [OF assms(1,4,3)] by blast
  have seen: "set (sy_seen ?s) = row_symbol ` set (filter live_row rows)"
    by (simp add: sync_rows_seen)
  have mirror: "mirrored (read_remote_position r) ps" if "r \<in> set rows" "live_row r" for r
    using sync_rows_mirror [OF _ assms(2) that, of ?s st now] assms(3) that seen
      sync_rows_mirror [of "\<lparr>sy_db = db, sy_seen = [], sy_created = 0, sy_updated = 0\<rparr>" rows r st now]
    by (auto simp: mirrored_def ps(2) gone_at_broker_def assms(2) intro!: bexI)
  have "remote_view rows \<subseteq> broker_view ps"
    using mirror by (fastforce simp: remote_view_def broker_view_def mirrored_def image_iff)
  moreover have "broker_view ps \<subseteq> remote_view rows"
  proof
    fix x assume "x \<in> broker_view ps"
    then obtain p where p: "p \<in> set ps" "x = (pos_symbol p, pos_shares p)" "pos_status p = POS_OPEN"
        "pos_source p \<in> {FUTU_DETECTED, LOCAL_AND_FUTU_CONFIRMED}"
      by (auto simp: broker_view_def)
    then have "pos_symbol p \<in> set (sy_seen ?s)"
      by (auto simp: ps(2) gone_at_broker_def closed_row_status split: if_splits)
    then obtain r where r: "r \<in> set rows" "live_row r" "pos_symbol p = row_symbol r"
      by (auto simp: seen)
    with mirror p(1) unique_positionsD [OF ps(3)] have "pos_shares p = rp_quantity (read_remote_position r)"
      by (metis mirrored_def)
    with r p(2) show "x \<in> remote_view rows" by (auto simp: remote_view_def)
  qed
  ultimately show ?thesis by (simp add: ps(1))
qed

lemma closed_row_verified:
  "filled_sell_order os p = Some ord \<Longrightarrow> pos_status (closed_row now os p) = POS_CLOSED
     \<and> pos_close_verified (closed_row now os p) \<and> pos_exit_price (closed_row now os p) \<noteq> None
     \<and> pos_shares (closed_row now os p) = 0"
  by (simp add: closed_row_def mark_verified_closed_from_sell_order_def Let_def)

lemma closed_row_unverified:
  "filled_sell_order os p = None \<Longrightarrow> pos_status (closed_row now os p) = POS_CLOSED_UNVERIFIED
     \<and> \<not> pos_close_verified (closed_row now os p) \<and> pos_exit_price (closed_row now os p) = None
     \<and> pos_realized_pnl (closed_row now os p) = None"
  by (simp add: closed_row_def mark_closed_unverified_def Let_def)

definition sell_evidence :: "sim_order list \<Rightarrow> position \<Rightarrow> sim_order \<Rightarrow> bool" where
  "sell_evidence os p ord \<longleftrightarrow>
     ord \<in> set os \<and> so_side ord = SELL \<and> so_status ord \<in> {OS_FILLED, OS_FILLED_INFERRED}
     \<and> so_symbol ord \<in> set (symbol_aliases (norm_sym (pos_symbol p)))"

lemma filled_sell_order_Some: "filled_sell_order os p = Some ord \<Longrightarrow> sell_evidence os p ord"
  by (auto simp: filled_sell_order_def sell_evidence_def dest: scalar_SomeD)

lemma filled_sell_order_None: "filled_sell_order os p = None \<longleftrightarrow> (\<nexists>ord. sell_evidence os p ord)"
  by (auto simp: filled_sell_order_def sell_evidence_def filter_empty_conv)

lemma sell_evidence_symbol: "pos_symbol p = pos_symbol q \<Longrightarrow> sell_evidence os p = sell_evidence os q"
  by (auto simp: sell_evidence_def fun_eq_iff)

theorem sync_refines_broker_witness:
  "\<exists>db' c. sync_futu_positions_to_local (scripted_broker [] [aapl_row] [] [] []) default_settings 0 gone_position = Inr (db', c)
     \<and> broker_view (positions db') = {(''US.AAPL'', 5)}"
proof -
  have "is_ok (sync_futu_positions_to_local (scripted_broker [] [aapl_row] [] [] []) default_settings 0 gone_position)"
    by code_simp
  then obtain db' c where r: "sync_futu_positions_to_local (scripted_broker [] [aapl_row] [] [] []) default_settings 0 gone_position = Inr (db', c)"
    by (metis is_ok_Inr surj_pair)
  have "broker_view (positions db') = remote_view [aapl_row]"
    by (rule sync_refines_broker [OF _ _ _ r])
      (simp_all add: separate_rows_def unique_ids_def gone_position_def)
  moreover have "remote_view [aapl_row] = {(''US.AAPL'', 5)}"
    by code_simp
  ultimately show ?thesis using r by metis
qed

text \<open>A position that is not OPEN after a synchronisation was so before, or it was closed by this
  one: CLOSED, verified and priced when a filled SELL order of its symbol is recorded, and
  CLOSED_UNVERIFIED, without an exit price or a profit, when no such order exists.\<close>

theorem sync_closes_by_evidence:
  assumes "get_positions br = Inr rows" and "unique_ids (positions db)"
    and "sync_futu_positions_to_local br st now db = Inr (db', c)"
    and "p \<in> set (positions db')" and "pos_status p \<noteq> POS_OPEN"
  shows "p \<in> set (positions db) \<or>
    (if \<exists>ord. sell_evidence (orders db') p ord
     then pos_status p = POS_CLOSED \<and> pos_close_verified p \<and> pos_exit_price p \<noteq> None \<and> pos_shares p = 0
     else pos_status p = POS_CLOSED_UNVERIFIED \<and> \<not> pos_close_verified p \<and> pos_exit_price p = None
       \<and> pos_realized_pnl p = None)"
proof -
  let ?s = "fold (sync_remote_row st now) rows \<lparr>sy_db = db, sy_seen = [], sy_created = 0, sy_updated = 0\<rparr>"
  obtain ps where ps: "positions db' = map (touch_position now (positions db)) ps"
    "orders db' = orders (sy_db ?s)"
    "ps = map (\<lambda>p. if pos_status p = POS_OPEN \<and> gone_at_broker (sy_seen ?s) p
                    then closed_row now (orders (sy_db ?s)) p else p) (positions (sy_db ?s))"
    using sync_result [OF assms(1,3,2)] by blast
  have "p \<in> touch_position now (positions db) ` set ps" using assms(4) by (simp only: ps(1) set_map)
  then obtain q where q: "q \<in> set (positions (sy_db ?s))"
      "p = touch_position now (positions db) (if pos_status q = POS_OPEN \<and> gone_at_broker (sy_seen ?s) q
                    then closed_row now (orders (sy_db ?s)) q else q)"
    unfolding ps(3) set_map by blast
  show ?thesis
  proof (cases "pos_status q = POS_OPEN")
    case False
    then have "q \<in> set (positions db)" using sync_rows_not_open [OF q(1)] by simp
    with False q(2) show ?thesis by (simp add: touch_position_def)
  next
    case True
    with assms(5) q(2) have p: "p = touch_position now (positions db) (closed_row now (orders db') q)"
      by (auto simp: ps(2) split: if_splits)
    have "pos_symbol p = pos_symbol q" by (simp add: p)
    then have ev: "sell_evidence (orders db') p = sell_evidence (orders db') q" by (rule sell_evidence_symbol)
    show ?thesis
    proof (cases "filled_sell_order (orders db') q")
      case None
      then have "\<not> (\<exists>ord. sell_evidence (orders db') p ord)" unfolding ev by (simp add: filled_sell_order_None)
      with closed_row_unverified [OF None, of now] show ?thesis by (simp add: p)
    next
      case (Some ord)
      then have "\<exists>ord. sell_evidence (orders db') p ord" unfolding ev by (auto dest: filled_sell_order_Some)
      with closed_row_verified [OF Some, of now] show ?thesis by (simp add: p)
    qed
  qed
qed

theorem sync_closes_by_evidence_witness:
  "\<exists>db' c p. sync_futu_positions_to_local (scripted_broker [] [] [] [] []) default_settings 5 gone_position = Inr (db', c)
     \<and> positions db' = [p] \<and> pos_status p = POS_CLOSED_UNVERIFIED \<and> pos_exit_price p = None"
proof -
  let ?r = "sync_futu_positions_to_local (scripted_broker [] [] [] [] []) default_settings 5 gone_position"
  have "map_sum id (\<lambda>(db, _). (map (\<lambda>p. (pos_id p, pos_status p)) (positions db), orders db)) ?r = Inr ([(1, POS_CLOSED_UNVERIFIED)], [])"
    by code_simp
  then obtain db' c p where r: "?r = Inr (db', c)" and p: "positions db' = [p]" "pos_status p = POS_CLOSED_UNVERIFIED" "orders db' = []"
    by (cases ?r) (auto simp: map_eq_Cons_conv)
  have "p \<in> set (positions gone_position) \<or>
    (if \<exists>ord. sell_evidence (orders db') p ord
     then pos_status p = POS_CLOSED \<and> pos_close_verified p \<and> pos_exit_price p \<noteq> None \<and> pos_shares p = 0
     else pos_status p = POS_CLOSED_UNVERIFIED \<and> \<not> pos_close_verified p \<and> pos_exit_price p = None
       \<and> pos_realized_pnl p = None)"
    by (rule sync_closes_by_evidence [OF _ _ r]) (simp_all add: p unique_ids_def gone_position_def)
  then have "pos_exit_price p = None"
    using p(2,3) by (auto simp: sell_evidence_def gone_position_def new_position_def)
  with r p show ?thesis by blast
qed

text \<open>A remote position is bound to a local BUY order exactly when that order is the only unfinished
  BUY order of the symbol, its quantity agrees within five percent (at least one share), it was
  submitted on the same day or within the matching window, and, where both prices are known, its
  price is within three percent of the broker's cost.\<close>

theorem binding_iff:
  "om_order (matching_unresolved_buy_order os al q cost now st) = Some ord \<longleftrightarrow>
     filter (unresolved_buy al) os = [ord] \<and> qty_matches ord q \<and> time_matches ord now st \<and> price_compatible ord cost"
proof (cases "filter (unresolved_buy al) os = [ord]")
  case True
  then show ?thesis
    by (auto simp: matching_unresolved_buy_order_def price_compatible_def Let_def)
next
  case False
  then show ?thesis using matching_one by blast
qed

text \<open>Normalising a symbol twice changes nothing.\<close>

theorem normalize_symbol_idempotent: "normalize_symbol (PStr (normalize_symbol v)) = normalize_symbol v"
  by (rule norm_sym_idem)

end
