(* ===== verification/Order_Sync.thy ===== *)
theory Order_Sync
  imports Position_Sync
begin

text \<open>
  app/services/order_sync.py: the local simulated orders follow the broker's open orders and deals.
  A fill opens or closes a position, an overdue entry is cancelled, an overdue exit waits for the
  reconciliation. Queries run on the rows as last flushed, which during one call are the rows it
  started with (\<open>base\<close>); they hand out the live rows.
\<close>

section \<open>Statuses\<close>

definition RECONCILE_STATUSES :: "order_status list" where
  "RECONCILE_STATUSES = [OS_SUBMITTED, OS_PARTIALLY_FILLED, OS_UNKNOWN_REMOTE_MISSING, OS_SELL_WAITING_RECONCILIATION]"

definition FILLED_STATUSES :: "string list" where
  "FILLED_STATUSES = [''FILLED'', ''FILLED_ALL'']"

definition CANCELLED_STATUSES :: "string list" where
  "CANCELLED_STATUSES = [''CANCELLED'', ''CANCELLED_ALL'', ''CANCELLED_PART'']"

definition FAILED_STATUSES :: "string list" where
  "FAILED_STATUSES = [''FAILED'', ''DISABLED'', ''DELETED'']"

definition normalize_status :: "string \<Rightarrow> order_status" where
  "normalize_status value =
     (let upper = py_upper value
      in if upper \<in> set FILLED_STATUSES then OS_FILLED
         else if upper \<in> set CANCELLED_STATUSES then OS_CANCELLED
         else if upper \<in> set FAILED_STATUSES then OS_FAILED
         else if py_contains ''PART'' upper then OS_PARTIALLY_FILLED
         else OS_SUBMITTED)"

definition append_reason :: "string \<Rightarrow> string \<Rightarrow> string" where
  "append_reason existing addition =
     (if py_contains addition existing then existing
      else if existing \<noteq> [] then existing @ zh_separator @ addition else addition)"

definition is_missing_remote_order :: "exn \<Rightarrow> bool" where
  "is_missing_remote_order e \<longleftrightarrow>
     py_contains zh_order_id_missing (exn_str e) \<or> py_contains ''order does not exist'' (py_lower (exn_str e))"

section \<open>Fills\<close>

text \<open>The live row of the first stored position with the given property.\<close>

definition find_position :: "'z ledger_scheme \<Rightarrow> (position \<Rightarrow> bool) \<Rightarrow> 'z ledger_scheme \<Rightarrow> position option" where
  "find_position base P db =
     (case scalar (filter P (positions base)) of None \<Rightarrow> None | Some p \<Rightarrow> get_row pos_id (pos_id p) (positions db))"

definition dealt_or_qty :: "sim_order \<Rightarrow> int" where
  "dealt_or_qty ord = num_or (so_dealt_qty ord) (so_qty ord)"

definition buy_fill :: "'z ledger_scheme \<Rightarrow> sim_order \<Rightarrow> trade_plan \<Rightarrow> int \<Rightarrow> 'z ledger_scheme \<Rightarrow> 'z ledger_scheme" where
  "buy_fill base ord plan now db =
     (let symbol = norm_sym (so_symbol ord); q = dealt_or_qty ord;
          link = (\<lambda>p. p\<lparr>pos_symbol := symbol, pos_status := POS_OPEN,
                       pos_source_trade_plan_id := Some (pl_id plan), pos_entry_order_id := Some (so_id ord),
                       pos_target_1 := Some (pl_target_1 plan), pos_target_2 := Some (pl_target_2 plan),
                       pos_overnight_policy := ''INTRADAY_ONLY''\<rparr>);
          db1 = (case find_position base (\<lambda>p. pos_symbol p \<in> set (symbol_aliases symbol)) db of
                   None \<Rightarrow>
                     db\<lparr>positions := positions db
                         @ [link ((new_position symbol (opt_or (so_dealt_avg_price ord) (so_limit_price ord))
                                    (pl_stop_price plan) q
                                    (opt_or (so_dealt_avg_price ord) (so_limit_price ord - pl_stop_price plan) * of_int q) now)
                                  \<lparr>pos_id := next_id pos_id (positions db), pos_available_shares := q\<rparr>)]\<rparr>
                 | Some p \<Rightarrow> put_position (link p) db)
      in write_audit ''POSITION_OPENED'' (so_symbol ord) ''Position'' None ''OPEN'' [] now
           (set_plan_status PL_IN_POSITION plan db1))"

definition sell_position :: "sim_order \<Rightarrow> position \<Rightarrow> position" where
  "sell_position ord p =
     (let sold = dealt_or_qty ord;
          p1 = p\<lparr>pos_shares := max 0 (pos_shares p - sold), pos_available_shares := max 0 (pos_available_shares p - sold)\<rparr>;
          exit_price = opt_or (so_dealt_avg_price ord) (so_limit_price ord)
      in if pos_shares p1 = 0
         then p1\<lparr>pos_status := POS_CLOSED, pos_exit_order_id := Some (so_id ord), pos_exit_price := Some exit_price,
                 pos_realized_pnl := Some ((exit_price - pos_entry_price p) * of_int sold),
                 pos_close_verified := True, pos_close_source := ''SELL_ORDER_FILLED''\<rparr>
         else if so_reason ord = ''TARGET_1_PARTIAL''
         then p1\<lparr>pos_partial_exit_done := True, pos_stop_price := max (pos_stop_price p) (pos_entry_price p)\<rparr>
         else p1)"

definition sell_fill :: "'z ledger_scheme \<Rightarrow> sim_order \<Rightarrow> int \<Rightarrow> 'z ledger_scheme \<Rightarrow> 'z ledger_scheme" where
  "sell_fill base ord now db =
     (case find_position base (\<lambda>p. pos_symbol p \<in> set (symbol_aliases (norm_sym (so_symbol ord))) \<and> pos_status p = POS_OPEN) db of
        None \<Rightarrow> db
      | Some p \<Rightarrow>
          (let db1 = put_position (sell_position ord p) db
           in if pos_shares (sell_position ord p) = 0
              then write_audit ''POSITION_CLOSED'' (so_symbol ord) ''Position'' (Some (pos_id p)) ''INFO'' [] now db1
              else db1))"

definition open_or_close_position :: "'z ledger_scheme \<Rightarrow> sim_order \<Rightarrow> int \<Rightarrow> 'z ledger_scheme \<Rightarrow> 'z ledger_scheme" where
  "open_or_close_position base ord now db =
     (case so_side ord of
        BUY \<Rightarrow> (case plan_of (so_trade_plan_id ord) db of None \<Rightarrow> db | Some plan \<Rightarrow> buy_fill base ord plan now db)
      | SELL \<Rightarrow> sell_fill base ord now db)"

section \<open>One local order\<close>

record 'z order_run =
  or_db :: 'z
  or_updated :: int
  or_filled :: int
  or_missing :: int
  or_cancels :: "string list"

definition read_order_row :: "row \<Rightarrow> sim_order \<Rightarrow> exn + sim_order" where
  "read_order_row row ord =
     (case float_or_0 (row_get row ''dealt_qty'') of
        Inl e \<Rightarrow> Inl e
      | Inr q \<Rightarrow> (case float_or_0 (row_get row ''dealt_avg_price'') of
           Inl e \<Rightarrow> Inl e
         | Inr a \<Rightarrow> Inr (ord\<lparr>so_status := normalize_status (str_or_empty (get_or row [''order_status'', ''status''])),
                            so_dealt_qty := py_int q, so_dealt_avg_price := (if a = 0 then None else Some a)\<rparr>)))"

definition mark_cancelled :: "sim_order \<Rightarrow> string \<Rightarrow> int \<Rightarrow> 'z ledger_scheme \<Rightarrow> 'z ledger_scheme" where
  "mark_cancelled ord reason now db =
     (let db1 = put_order (ord\<lparr>so_status := OS_CANCELLED, so_reason := reason\<rparr>) db;
          db2 = (case plan_of (so_trade_plan_id ord) db1 of None \<Rightarrow> db1 | Some plan \<Rightarrow> set_plan_status PL_ARMED plan db1)
      in write_audit ''SIM_ORDER_CANCELLED'' (so_symbol ord) ''SimOrder'' (Some (so_id ord)) ''INFO'' reason now db2)"

definition mark_remote_missing :: "sim_order \<Rightarrow> string \<Rightarrow> int \<Rightarrow> 'z ledger_scheme \<Rightarrow> 'z ledger_scheme" where
  "mark_remote_missing ord reason now db =
     write_audit ''SIM_ORDER_REMOTE_MISSING'' (so_symbol ord) ''SimOrder'' (Some (so_id ord))
       ''WAITING_RECONCILIATION'' reason now
       (put_order (ord\<lparr>so_status := OS_UNKNOWN_REMOTE_MISSING, so_reason := reason\<rparr>) db)"

definition sell_waiting :: "sim_order \<Rightarrow> int \<Rightarrow> 'z ledger_scheme \<Rightarrow> 'z ledger_scheme" where
  "sell_waiting ord now db =
     write_audit ''SELL_ORDER_WAITING_RECONCILIATION'' (so_symbol ord) ''SimOrder'' (Some (so_id ord))
       ''WAITING_RECONCILIATION'' zh_sell_not_returned now
       (put_order (ord\<lparr>so_status := OS_SELL_WAITING_RECONCILIATION,
                      so_reason := append_reason (so_reason ord) zh_sell_not_returned\<rparr>) db)"

definition overdue :: "int \<Rightarrow> int \<Rightarrow> sim_order \<Rightarrow> bool" where
  "overdue now timeout_seconds ord \<longleftrightarrow>
     so_status ord = OS_SUBMITTED \<and> so_submitted_at ord < now - seconds timeout_seconds"

definition check_timeout ::
  "broker \<Rightarrow> int \<Rightarrow> int \<Rightarrow> sim_order \<Rightarrow> 'z ledger_scheme order_run \<Rightarrow> 'z ledger_scheme order_run" where
  "check_timeout br now timeout_seconds ord s =
     (if \<not> overdue now timeout_seconds ord then s
      else (case so_side ord of
        SELL \<Rightarrow> s\<lparr>or_db := sell_waiting ord now (or_db s), or_missing := or_missing s + 1\<rparr>
      | BUY \<Rightarrow>
          (let s1 = s\<lparr>or_cancels := or_cancels s @ [so_futu_order_id ord]\<rparr>
           in case cancel_order br (so_futu_order_id ord) of
                Inl e \<Rightarrow>
                  (if is_missing_remote_order e
                   then s1\<lparr>or_db := mark_remote_missing ord zh_entry_not_returned now (or_db s), or_missing := or_missing s + 1\<rparr>
                   else s1\<lparr>or_db := put_order (ord\<lparr>so_reason := exn_str e\<rparr>) (or_db s)\<rparr>)
              | Inr _ \<Rightarrow> s1\<lparr>or_db := mark_cancelled ord zh_entry_timeout now (or_db s)\<rparr>)))"

definition reconcile_order ::
  "'z ledger_scheme \<Rightarrow> broker \<Rightarrow> int \<Rightarrow> int \<Rightarrow> (string \<Rightarrow> row option) \<Rightarrow> sim_order \<Rightarrow> 'z ledger_scheme order_run
     \<Rightarrow> exn + 'z ledger_scheme order_run" where
  "reconcile_order base br now timeout_seconds by_id ord s =
     (case by_id (so_futu_order_id ord) of
        Some (c # cs) \<Rightarrow>
          (case read_order_row (c # cs) ord of
             Inl e \<Rightarrow> Inl e
           | Inr o1 \<Rightarrow>
               (let s1 = s\<lparr>or_db := put_order o1 (or_db s), or_updated := or_updated s + 1\<rparr>
                in if so_status o1 = OS_FILLED
                   then Inr (s1\<lparr>or_db := open_or_close_position base o1 now (or_db s1), or_filled := or_filled s + 1\<rparr>)
                   else if so_status o1 \<in> {OS_CANCELLED, OS_FAILED} then Inr s1
                   else Inr (check_timeout br now timeout_seconds o1 s1)))
      | _ \<Rightarrow> Inr (check_timeout br now timeout_seconds ord s))"

section \<open>One deal\<close>

definition order_of_deal :: "'z ledger_scheme \<Rightarrow> row \<Rightarrow> 'z ledger_scheme \<Rightarrow> sim_order option" where
  "order_of_deal base row db =
     (case scalar (filter (\<lambda>x. so_futu_order_id x = str_or_empty (row_get row ''order_id'')) (orders base)) of
        None \<Rightarrow> None | Some x \<Rightarrow> get_row so_id (so_id x) (orders db))"

definition order_with_deal :: "sim_deal list \<Rightarrow> int \<Rightarrow> real \<Rightarrow> sim_order \<Rightarrow> sim_order" where
  "order_with_deal stored deal_qty price ord =
     (let existing_qty = sum_list (map sd_qty (filter (\<lambda>d. sd_sim_order_id d = so_id ord) stored));
          o1 = ord\<lparr>so_dealt_qty := existing_qty + deal_qty,
                   so_dealt_avg_price := (if price = 0 then so_dealt_avg_price ord else Some price)\<rparr>
      in if so_dealt_qty o1 \<ge> so_qty o1 then o1\<lparr>so_status := OS_FILLED\<rparr> else o1)"

definition apply_deal ::
  "'z ledger_scheme \<Rightarrow> int \<Rightarrow> row \<Rightarrow> 'z ledger_scheme order_run \<Rightarrow> exn + 'z ledger_scheme order_run" where
  "apply_deal base now row s =
     (let deal_id = str_or_empty (row_get row ''deal_id''); db = or_db s
      in if deal_id = [] \<or> deal_id \<in> set (map sd_futu_deal_id (deals base)) then Inr s
         else (case order_of_deal base row db of
           None \<Rightarrow> Inr s
         | Some ord \<Rightarrow>
             (case float_or_0 (row_get row ''qty'') of
                Inl e \<Rightarrow> Inl e
              | Inr q \<Rightarrow> (case float_or_0 (row_get row ''price'') of
                   Inl e \<Rightarrow> Inl e
                 | Inr price \<Rightarrow>
                     (let d = \<lparr>sd_id = next_id sd_id (deals db), sd_sim_order_id = so_id ord, sd_symbol = so_symbol ord,
                               sd_side = so_side ord, sd_qty = py_int q, sd_price = price, sd_dealt_at = now,
                               sd_futu_deal_id = deal_id\<rparr>;
                          o2 = order_with_deal (deals base) (py_int q) price ord;
                          db1 = put_order o2 (db\<lparr>deals := deals db @ [d]\<rparr>)
                      in if so_dealt_qty o2 \<ge> so_qty o2
                         then Inr (s\<lparr>or_db := open_or_close_position base o2 now db1, or_filled := or_filled s + 1\<rparr>)
                         else Inr (s\<lparr>or_db := db1\<rparr>))))))"

section \<open>The whole synchronisation\<close>

definition open_order_index :: "row list \<Rightarrow> string \<Rightarrow> row option" where
  "open_order_index rows = map_of (rev (map (\<lambda>r. (str_or_empty (row_get r ''order_id''), r)) rows))"

text \<open>The deals, and whether the account supports them; other errors are raised.\<close>

definition read_deals :: "broker \<Rightarrow> exn + (row list \<times> bool)" where
  "read_deals br =
     (case get_deals br of
        Inr ds \<Rightarrow> Inr (ds, True)
      | Inl e \<Rightarrow> (case e of
          RuntimeError m \<Rightarrow> if py_contains zh_deals_unsupported m then Inr ([], False) else Inl e
        | _ \<Rightarrow> Inl e))"

record order_sync_counts =
  oc_updated :: int
  oc_filled :: int
  oc_missing :: int
  oc_deals_supported :: bool

definition needs_reconcile :: "sim_order \<Rightarrow> bool" where
  "needs_reconcile ord \<longleftrightarrow> so_status ord \<in> set RECONCILE_STATUSES"

text \<open>
  The columns \<open>positions.symbol\<close> and \<open>sim_deals.futu_deal_id\<close> are unique: the commit raises when a
  row repeats one, and nothing is written (orders already cancelled at the broker stay cancelled).
  The result carries the ids of the orders whose cancellation was requested.
\<close>

definition sync_sim_orders ::
  "broker \<Rightarrow> int \<Rightarrow> int \<Rightarrow> 'z ledger_scheme \<Rightarrow> exn + ('z ledger_scheme \<times> order_sync_counts \<times> string list)" where
  "sync_sim_orders br timeout_seconds now db =
     (case get_open_orders br of
        Inl e \<Rightarrow> Inl e
      | Inr rows \<Rightarrow> (case read_deals br of
           Inl e \<Rightarrow> Inl e
         | Inr (ds, supported) \<Rightarrow>
             (case foldM (reconcile_order db br now timeout_seconds (open_order_index rows))
                     (filter needs_reconcile (orders db))
                     \<lparr>or_db = db, or_updated = 0, or_filled = 0, or_missing = 0, or_cancels = []\<rparr> of
                Inl e \<Rightarrow> Inl e
              | Inr s \<Rightarrow> (case foldM (apply_deal db now) ds s of
                   Inl e \<Rightarrow> Inl e
                 | Inr s1 \<Rightarrow>
                     (if \<not> unique_positions (positions (or_db s1))
                      then Inl (IntegrityError ''UNIQUE constraint failed: positions.symbol'')
                      else if \<not> distinct (map sd_futu_deal_id (deals (or_db s1)))
                      then Inl (IntegrityError ''UNIQUE constraint failed: sim_deals.futu_deal_id'')
                      else Inr (commit now db (or_db s1),
                             \<lparr>oc_updated = or_updated s1, oc_filled = or_filled s1, oc_missing = or_missing s1,
                              oc_deals_supported = supported\<rparr>, or_cancels s1))))))"

section \<open>Lemmas\<close>

text \<open>What each operation leaves alone.\<close>

lemma find_position_in: "find_position base P db = Some p \<Longrightarrow> p \<in> set (positions db)"
  by (auto simp: find_position_def split: option.splits dest: get_row_SomeD)

lemma buy_fill_sel [simp]:
  "orders (buy_fill base ord plan now db) = orders db"
  "deals (buy_fill base ord plan now db) = deals db"
  by (simp_all add: buy_fill_def Let_def split: option.split)

lemma sell_fill_sel [simp]:
  "orders (sell_fill base ord now db) = orders db"
  "deals (sell_fill base ord now db) = deals db"
  by (simp_all add: sell_fill_def Let_def split: option.split)

lemma open_or_close_sel [simp]:
  "orders (open_or_close_position base ord now db) = orders db"
  "deals (open_or_close_position base ord now db) = deals db"
  by (simp_all add: open_or_close_position_def split: side.split option.split)

lemma waiting_sel [simp]:
  "positions (sell_waiting ord now db) = positions db"
  "deals (sell_waiting ord now db) = deals db"
  "positions (mark_remote_missing ord r now db) = positions db"
  "deals (mark_remote_missing ord r now db) = deals db"
  "positions (mark_cancelled ord r now db) = positions db"
  "deals (mark_cancelled ord r now db) = deals db"
  by (simp_all add: sell_waiting_def mark_remote_missing_def mark_cancelled_def Let_def split: option.split)

lemma check_timeout_sel [simp]:
  "positions (or_db (check_timeout br now t ord s)) = positions (or_db s)"
  "deals (or_db (check_timeout br now t ord s)) = deals (or_db s)"
  by (simp_all add: check_timeout_def Let_def split: side.split sum.split)

text \<open>An operation on an order replaces that order's row or leaves the table as it is.\<close>

definition same_order :: "sim_order \<Rightarrow> sim_order \<Rightarrow> bool" where
  "same_order a b \<longleftrightarrow> so_id a = so_id b \<and> so_futu_order_id a = so_futu_order_id b \<and> so_side a = so_side b
     \<and> so_symbol a = so_symbol b \<and> so_qty a = so_qty b"

lemma same_order_refl [simp]: "same_order a a"
  by (simp add: same_order_def)

lemma check_timeout_orders:
  "orders (or_db (check_timeout br now t ord s)) = orders (or_db s) \<and> \<not> overdue now t ord
   \<or> (\<exists>x. orders (or_db (check_timeout br now t ord s)) = put_row so_id x (orders (or_db s)) \<and> same_order x ord)"
  by (auto simp: check_timeout_def Let_def sell_waiting_def mark_remote_missing_def mark_cancelled_def same_order_def
      split: side.split sum.split option.split)

lemma read_order_row_same: "read_order_row row ord = Inr x \<Longrightarrow> same_order x ord"
  by (auto simp: read_order_row_def same_order_def split: sum.splits)

lemma read_order_row_status:
  "read_order_row row ord = Inr x \<Longrightarrow> so_status x = normalize_status (str_or_empty (get_or row [''order_status'', ''status'']))"
  by (auto simp: read_order_row_def split: sum.splits)

lemma put_row_twice: "rid x = rid y \<Longrightarrow> put_row rid x (put_row rid y xs) = put_row rid x xs"
  by (simp add: put_row_def)

text \<open>The order is in the broker's answer with a final fill.\<close>

definition reported_filled :: "(string \<Rightarrow> row option) \<Rightarrow> sim_order \<Rightarrow> bool" where
  "reported_filled by_id ord =
     (case by_id (so_futu_order_id ord) of
        None \<Rightarrow> False
      | Some row \<Rightarrow> row \<noteq> [] \<and> normalize_status (str_or_empty (get_or row [''order_status'', ''status''])) = OS_FILLED)"

lemma reported_filled_same: "same_order a b \<Longrightarrow> reported_filled by_id a = reported_filled by_id b"
  by (simp add: reported_filled_def same_order_def)

definition settled :: "(string \<Rightarrow> row option) \<Rightarrow> sim_order \<Rightarrow> bool" where
  "settled by_id ord \<longleftrightarrow> \<not> (needs_reconcile ord \<and> reported_filled by_id ord)"

lemma reconcile_order_sel:
  assumes "reconcile_order base br now t by_id ord s = Inr s'"
  shows "deals (or_db s') = deals (or_db s)"
    and "\<not> reported_filled by_id ord \<Longrightarrow> positions (or_db s') = positions (or_db s)"
  using assms read_order_row_status
  by (auto simp: reconcile_order_def reported_filled_def Let_def split: option.splits list.splits sum.splits if_splits
      dest: read_order_row_status)

lemma reconcile_order_orders:
  assumes "reconcile_order base br now t by_id ord s = Inr s'"
  shows "(orders (or_db s') = orders (or_db s) \<and> \<not> reported_filled by_id ord)
    \<or> (\<exists>x. orders (or_db s') = put_row so_id x (orders (or_db s)) \<and> same_order x ord \<and> settled by_id x)"
proof (cases "\<exists>c cs. by_id (so_futu_order_id ord) = Some (c # cs)")
  case False
  then have nf: "\<not> reported_filled by_id ord" by (auto simp: reported_filled_def neq_Nil_conv split: option.split)
  have "s' = check_timeout br now t ord s"
    using assms False by (auto simp: reconcile_order_def split: option.splits list.splits)
  with check_timeout_orders [of br now t ord s] nf show ?thesis
    by (auto simp: settled_def reported_filled_same)
next
  case True
  then obtain c cs where row: "by_id (so_futu_order_id ord) = Some (c # cs)" by blast
  then obtain o1 where o1: "read_order_row (c # cs) ord = Inr o1"
    using assms by (auto simp: reconcile_order_def split: sum.splits)
  note st = read_order_row_status [OF o1] and same = read_order_row_same [OF o1]
  let ?s1 = "s\<lparr>or_db := put_order o1 (or_db s), or_updated := or_updated s + 1\<rparr>"
  show ?thesis
  proof (cases "so_status o1 \<in> {OS_FILLED, OS_CANCELLED, OS_FAILED}")
    case True
    then have "orders (or_db s') = put_row so_id o1 (orders (or_db s))"
      using assms row o1 by (auto simp: reconcile_order_def Let_def split: if_splits)
    moreover have "settled by_id o1"
      using True by (auto simp: settled_def needs_reconcile_def RECONCILE_STATUSES_def)
    ultimately show ?thesis using same by blast
  next
    case False
    then have s': "s' = check_timeout br now t o1 ?s1"
      using assms row o1 by (auto simp: reconcile_order_def Let_def)
    have nf: "\<not> reported_filled by_id ord" using False row st by (auto simp: reported_filled_def)
    then have nf1: "\<not> reported_filled by_id o1" using reported_filled_same [OF same] by simp
    from check_timeout_orders [of br now t o1 ?s1] show ?thesis
    proof (elim disjE exE conjE)
      assume "orders (or_db (check_timeout br now t o1 ?s1)) = orders (or_db ?s1)"
      then show ?thesis using nf1 same s' by (auto simp: settled_def)
    next
      fix x
      assume x: "orders (or_db (check_timeout br now t o1 ?s1)) = put_row so_id x (orders (or_db ?s1))" "same_order x o1"
      then have "orders (or_db s') = put_row so_id x (orders (or_db s))"
        using s' by (simp add: put_row_twice same_order_def)
      moreover have "same_order x ord" using x(2) same by (simp add: same_order_def)
      moreover have "settled by_id x" using nf1 reported_filled_same [OF x(2)] by (simp add: settled_def)
      ultimately show ?thesis by blast
    qed
  qed
qed

text \<open>The loop over the local orders settles every one of them.\<close>

definition unique_orders :: "sim_order list \<Rightarrow> bool" where
  "unique_orders os \<longleftrightarrow> distinct (map so_id os)"

interpretation order_table: keyed_table so_id unique_orders
  by unfold_locales (rule unique_orders_def)

lemma reconcile_loop_settles:
  assumes "foldM (reconcile_order base br now t by_id) xs s = Inr s'"
    and "distinct (map so_id xs)"
    and "\<And>a. a \<in> set (orders (or_db s)) \<Longrightarrow> settled by_id a \<or> a \<in> set xs"
    and "unique_orders (orders (or_db s))" and "set xs \<subseteq> set (orders (or_db s))"
  shows "\<forall>a \<in> set (orders (or_db s')). settled by_id a"
  using assms
proof (induction xs arbitrary: s)
  case Nil
  then show ?case by auto
next
  case (Cons x xs)
  from Cons.prems(1) obtain s1 where s1: "reconcile_order base br now t by_id x s = Inr s1"
      "foldM (reconcile_order base br now t by_id) xs s1 = Inr s'" by (rule foldM_ConsE)
  have x: "x \<in> set (orders (or_db s))" and fresh: "\<And>a. a \<in> set xs \<Longrightarrow> so_id a \<noteq> so_id x"
    using Cons.prems(2,5) by (auto simp: image_iff)
  have uniq: "\<And>a. a \<in> set (orders (or_db s)) \<Longrightarrow> so_id a = so_id x \<Longrightarrow> a = x"
    using order_table.same [OF Cons.prems(4)] x by blast
  from reconcile_order_orders [OF s1(1)] show ?case
  proof (elim disjE exE conjE)
    assume same: "orders (or_db s1) = orders (or_db s)" and nf: "\<not> reported_filled by_id x"
    have "settled by_id x" using nf by (simp add: settled_def)
    then show ?thesis
      using Cons.prems(2-5) by (intro Cons.IH [OF s1(2)]) (auto simp: same)
  next
    fix y
    assume y: "orders (or_db s1) = put_row so_id y (orders (or_db s))" "same_order y x" "settled by_id y"
    then have id: "so_id y = so_id x" by (simp add: same_order_def)
    show ?thesis
    proof (rule Cons.IH [OF s1(2)])
      show "distinct (map so_id xs)" using Cons.prems(2) by simp
      show "unique_orders (orders (or_db s1))" using Cons.prems(4) y(1) by simp
      show "set xs \<subseteq> set (orders (or_db s1))"
        using Cons.prems(5) fresh by (auto simp: y(1) id intro: put_row_other)
      fix a assume "a \<in> set (orders (or_db s1))"
      then show "settled by_id a \<or> a \<in> set xs"
        using Cons.prems(3) [of a] y(3) by (auto simp: y(1) id dest!: set_put_rowD)
    qed
  qed
qed

text \<open>A deal keeps that, and is known afterwards unless no stored order carries its order id.\<close>

lemma order_with_deal_same:
  "same_order (order_with_deal ds q price ord) ord"
  "so_status (order_with_deal ds q price ord) = so_status ord \<or> so_status (order_with_deal ds q price ord) = OS_FILLED"
  by (auto simp: order_with_deal_def Let_def same_order_def)

lemma apply_deal_orders:
  assumes "apply_deal base now row s = Inr s'"
  shows "orders (or_db s') = orders (or_db s)
    \<or> (\<exists>x y. orders (or_db s') = put_row so_id x (orders (or_db s)) \<and> y \<in> set (orders (or_db s)) \<and> same_order x y
        \<and> (so_status x = so_status y \<or> so_status x = OS_FILLED))"
proof (cases "order_of_deal base row (or_db s)")
  case None
  then show ?thesis using assms by (auto simp: apply_deal_def Let_def split: if_splits)
next
  case (Some y)
  then have "y \<in> set (orders (or_db s))"
    by (auto simp: order_of_deal_def split: option.splits dest: get_row_SomeD)
  moreover have "\<exists>q price. orders (or_db s') = orders (or_db s)
      \<or> orders (or_db s') = put_row so_id (order_with_deal (deals base) q price y) (orders (or_db s))"
    using assms Some by (auto simp: apply_deal_def Let_def split: if_splits sum.splits) blast+
  ultimately show ?thesis using order_with_deal_same by metis
qed

lemma apply_deal_settled:
  assumes "apply_deal base now row s = Inr s'" and "\<forall>a \<in> set (orders (or_db s)). settled by_id a"
  shows "\<forall>a \<in> set (orders (or_db s')). settled by_id a"
proof -
  from apply_deal_orders [OF assms(1)] consider
      (same) "orders (or_db s') = orders (or_db s)"
    | (put) x y where "orders (or_db s') = put_row so_id x (orders (or_db s))" "y \<in> set (orders (or_db s))"
        "same_order x y" "so_status x = so_status y \<or> so_status x = OS_FILLED"
    by blast
  then show ?thesis
  proof cases
    case same
    with assms(2) show ?thesis by simp
  next
    case put
    have "settled by_id y" using assms(2) put(2) by blast
    then have "settled by_id x"
      using put(4) reported_filled_same [OF put(3)]
      by (auto simp: settled_def needs_reconcile_def RECONCILE_STATUSES_def)
    then show ?thesis using assms(2) by (auto simp: put(1) dest!: set_put_rowD)
  qed
qed

lemma apply_deal_deals:
  assumes "apply_deal base now row s = Inr s'"
  shows "deals (or_db s') = deals (or_db s) \<and> (str_or_empty (row_get row ''deal_id'') = []
      \<or> str_or_empty (row_get row ''deal_id'') \<in> set (map sd_futu_deal_id (deals base))
      \<or> order_of_deal base row (or_db s) = None)
    \<or> (\<exists>d. deals (or_db s') = deals (or_db s) @ [d] \<and> sd_futu_deal_id d = str_or_empty (row_get row ''deal_id''))"
  using assms by (auto simp: apply_deal_def Let_def split: if_splits option.splits sum.splits)

text \<open>Ids and broker ids of the orders never change.\<close>

definition order_keys :: "sim_order list \<Rightarrow> (int \<times> string) list" where
  "order_keys os = map (\<lambda>x. (so_id x, so_futu_order_id x)) os"

lemma order_keys_put:
  assumes "unique_orders os" and "y \<in> set os" and "same_order x y"
  shows "order_keys (put_row so_id x os) = order_keys os"
proof -
  have "so_futu_order_id z = so_futu_order_id x" if "z \<in> set os" "so_id z = so_id x" for z
    using assms that by (auto simp: unique_orders_def distinct_map inj_on_def same_order_def)
  then show ?thesis by (auto simp: order_keys_def put_row_def)
qed

lemma unique_orders_keys: "unique_orders os = distinct (map fst (order_keys os))"
  by (simp add: unique_orders_def order_keys_def comp_def)

lemma reconcile_order_keys:
  assumes "reconcile_order base br now t by_id x s = Inr s'" and "unique_orders (orders (or_db s))"
    and "\<exists>y \<in> set (orders (or_db s)). so_id y = so_id x \<and> so_futu_order_id y = so_futu_order_id x"
  shows "order_keys (orders (or_db s')) = order_keys (orders (or_db s))"
  using reconcile_order_orders [OF assms(1)]
proof (elim disjE exE conjE)
  fix y assume y: "orders (or_db s') = put_row so_id y (orders (or_db s))" "same_order y x"
  from assms(3) obtain z where z: "z \<in> set (orders (or_db s))" "so_id z = so_id x" "so_futu_order_id z = so_futu_order_id x"
    by blast
  have "so_futu_order_id w = so_futu_order_id y" if "w \<in> set (orders (or_db s))" "so_id w = so_id y" for w
    using assms(2) that z y(2) by (auto simp: unique_orders_def distinct_map inj_on_def same_order_def)
  then show ?thesis by (auto simp: y(1) order_keys_def put_row_def)
qed simp

lemma apply_deal_keys:
  assumes "apply_deal base now row s = Inr s'" and "unique_orders (orders (or_db s))"
  shows "order_keys (orders (or_db s')) = order_keys (orders (or_db s))"
  using apply_deal_orders [OF assms(1)] assms(2) by (auto intro: order_keys_put)

lemma order_of_deal_None:
  assumes "order_keys (orders db) = order_keys (orders base)"
  shows "order_of_deal base row db = None
    \<longleftrightarrow> str_or_empty (row_get row ''order_id'') \<notin> snd ` set (order_keys (orders base))"
proof -
  let ?k = "str_or_empty (row_get row ''order_id'')"
  have keys: "snd ` set (order_keys (orders base)) = so_futu_order_id ` set (orders base)"
    by (simp add: order_keys_def image_image)
  show ?thesis
  proof (cases "scalar (filter (\<lambda>x. so_futu_order_id x = ?k) (orders base))")
    case None
    then show ?thesis unfolding keys by (auto simp: order_of_deal_def filter_empty_conv)
  next
    case (Some x)
    then have x: "x \<in> set (orders base)" "so_futu_order_id x = ?k" by (auto dest: scalar_filter_SomeD)
    then have "so_id x \<in> set (map fst (order_keys (orders db)))"
      by (simp add: assms) (force simp: order_keys_def)
    then have "get_row so_id (so_id x) (orders db) \<noteq> None"
      by (auto simp: get_row_def order_keys_def filter_empty_conv)
    moreover have "?k \<in> so_futu_order_id ` set (orders base)" using x by (metis imageI)
    ultimately show ?thesis using Some by (auto simp: order_of_deal_def keys)
  qed
qed

text \<open>What the two loops leave, seen from outside.\<close>

abbreviation start_run :: "'z ledger_scheme \<Rightarrow> 'z ledger_scheme order_run" where
  "start_run db \<equiv> \<lparr>or_db = db, or_updated = 0, or_filled = 0, or_missing = 0, or_cancels = []\<rparr>"

lemma reconcile_loop_frame:
  assumes "foldM (reconcile_order db br now t by_id) (filter needs_reconcile (orders db)) (start_run db) = Inr s1"
    and "unique_orders (orders db)"
  shows "order_keys (orders (or_db s1)) = order_keys (orders db) \<and> deals (or_db s1) = deals db"
  using assms(1)
proof (rule foldM_invariant)
  fix x s s'
  assume x: "x \<in> set (filter needs_reconcile (orders db))"
    and I: "order_keys (orders (or_db s)) = order_keys (orders db) \<and> deals (or_db s) = deals db"
    and step: "reconcile_order db br now t by_id x s = Inr s'"
  have "(so_id x, so_futu_order_id x) \<in> set (order_keys (orders (or_db s)))"
    using x I by (auto simp: order_keys_def)
  then have "\<exists>y \<in> set (orders (or_db s)). so_id y = so_id x \<and> so_futu_order_id y = so_futu_order_id x"
    by (auto simp: order_keys_def)
  moreover have "unique_orders (orders (or_db s))" using assms(2) I by (simp add: unique_orders_keys)
  ultimately show "order_keys (orders (or_db s')) = order_keys (orders db) \<and> deals (or_db s') = deals db"
    using reconcile_order_keys [OF step] reconcile_order_sel(1) [OF step] I by simp
qed simp

definition deal_done :: "'z ledger_scheme \<Rightarrow> sim_deal list \<Rightarrow> row \<Rightarrow> bool" where
  "deal_done base ds row \<longleftrightarrow> str_or_empty (row_get row ''deal_id'') = []
     \<or> str_or_empty (row_get row ''deal_id'') \<in> set (map sd_futu_deal_id ds)
     \<or> str_or_empty (row_get row ''order_id'') \<notin> snd ` set (order_keys (orders base))"

lemma apply_deal_done:
  assumes "deal_done base (deals base) row" and "order_keys (orders (or_db s)) = order_keys (orders base)"
  shows "apply_deal base now row s = Inr s"
  using assms order_of_deal_None [OF assms(2), of row]
  by (auto simp: apply_deal_def deal_done_def Let_def)

lemma deal_loop_done:
  assumes "foldM (apply_deal base now) ds s = Inr s'"
    and "order_keys (orders (or_db s)) = order_keys (orders base)" and "unique_orders (orders base)"
    and "set (deals base) \<subseteq> set (deals (or_db s))"
  shows "order_keys (orders (or_db s')) = order_keys (orders base)
    \<and> set (deals (or_db s)) \<subseteq> set (deals (or_db s')) \<and> (\<forall>row \<in> set ds. deal_done base (deals (or_db s')) row)"
  using assms
proof (induction ds arbitrary: s)
  case (Cons row ds)
  from Cons.prems(1) obtain s1 where s1: "apply_deal base now row s = Inr s1"
      "foldM (apply_deal base now) ds s1 = Inr s'" by (rule foldM_ConsE)
  have keys: "order_keys (orders (or_db s1)) = order_keys (orders base)"
    using apply_deal_keys [OF s1(1)] Cons.prems(2,3) by (simp add: unique_orders_keys)
  have sub: "set (deals (or_db s)) \<subseteq> set (deals (or_db s1))"
    using apply_deal_deals [OF s1(1)] by auto
  have done1: "deal_done base (deals (or_db s1)) row"
    using apply_deal_deals [OF s1(1)] order_of_deal_None [OF Cons.prems(2), of row] Cons.prems(4) sub
    by (auto simp: deal_done_def)
  from Cons.IH [OF s1(2) keys Cons.prems(3)] Cons.prems(4) sub
  have "order_keys (orders (or_db s')) = order_keys (orders base)
    \<and> set (deals (or_db s1)) \<subseteq> set (deals (or_db s')) \<and> (\<forall>row \<in> set ds. deal_done base (deals (or_db s')) row)"
    by auto
  with sub done1 show ?case by (auto simp: deal_done_def)
qed simp

lemma deal_loop_settled:
  assumes "foldM (apply_deal base now) ds s = Inr s'" and "\<forall>a \<in> set (orders (or_db s)). settled by_id a"
  shows "\<forall>a \<in> set (orders (or_db s')). settled by_id a"
  using assms(1,2) by (rule foldM_invariant) (auto dest: apply_deal_settled)

lemma sync_orders_result:
  assumes "sync_sim_orders br t now db = Inr (db', c, cancels)"
  obtains rows ds supported s1 s2 where
    "get_open_orders br = Inr rows" "read_deals br = Inr (ds, supported)"
    "foldM (reconcile_order db br now t (open_order_index rows)) (filter needs_reconcile (orders db)) (start_run db) = Inr s1"
    "foldM (apply_deal db now) ds s1 = Inr s2" "db' = commit now db (or_db s2)"
  using assms by (auto simp: sync_sim_orders_def split: sum.splits if_splits)

lemma commit_same_positions:
  "positions db' = positions db \<Longrightarrow> positions (commit now db db') = positions db"
  by (auto simp: touch_position_def intro: map_idI)

section \<open>Properties\<close>

text \<open>C4. No fill is applied twice across two synchronisations: when the broker gives the same answers
  to a second synchronisation, however much later, that one leaves every position exactly as the
  first one left it.\<close>

theorem fills_applied_once:
  assumes "unique_orders (orders db)"
    and "sync_sim_orders br t now db = Inr (db1, c1, k1)"
    and "sync_sim_orders br t now' db1 = Inr (db2, c2, k2)"
  shows "positions db2 = positions db1"
proof -
  obtain rows ds b s1 s2 where r1: "get_open_orders br = Inr rows" "read_deals br = Inr (ds, b)"
    "foldM (reconcile_order db br now t (open_order_index rows)) (filter needs_reconcile (orders db)) (start_run db) = Inr s1"
    "foldM (apply_deal db now) ds s1 = Inr s2" "db1 = commit now db (or_db s2)"
    by (rule sync_orders_result [OF assms(2)])
  obtain s3 s4 where r2:
    "foldM (reconcile_order db1 br now' t (open_order_index rows)) (filter needs_reconcile (orders db1)) (start_run db1) = Inr s3"
    "foldM (apply_deal db1 now') ds s3 = Inr s4" "db2 = commit now' db1 (or_db s4)"
    using r1(1,2) by (auto intro: sync_orders_result [OF assms(3)])
  let ?ix = "open_order_index rows"
  from reconcile_loop_frame [OF r1(3) assms(1)]
  have f1: "order_keys (orders (or_db s1)) = order_keys (orders db)" "deals (or_db s1) = deals db" by auto
  have d: "order_keys (orders db1) = order_keys (orders db)" "\<forall>row \<in> set ds. deal_done db (deals db1) row"
    using deal_loop_done [OF r1(4) f1(1) assms(1)] f1(2) r1(5) by auto
  have u: "unique_orders (orders db1)" using assms(1) d(1) by (simp add: unique_orders_keys)
  have "\<forall>a \<in> set (orders (or_db s1)). settled ?ix a"
    using reconcile_loop_settles [OF r1(3)] assms(1)
    by (auto simp: unique_orders_def distinct_map_filter settled_def)
  then have settled: "\<forall>a \<in> set (orders db1). settled ?ix a"
    using deal_loop_settled [OF r1(4)] r1(5) by simp
  have p3: "positions (or_db s3) = positions db1"
    using r2(1) by (rule foldM_invariant) (use settled reconcile_order_sel(2) in \<open>force simp: settled_def\<close>)+
  from reconcile_loop_frame [OF r2(1) u]
  have "order_keys (orders (or_db s3)) = order_keys (orders db1)" by simp
  moreover have "\<forall>row \<in> set ds. deal_done db1 (deals db1) row" using d by (simp add: deal_done_def)
  ultimately have "s4 = s3"
    using foldM_invariant [OF r2(2), of "\<lambda>s. s = s3"] apply_deal_done by force
  then show ?thesis using commit_same_positions [of "or_db s4" db1 now'] p3 r2(3) by simp
qed

text \<open>Inputs of the witnesses: a position of which a SELL order takes half, reported filled by the
  broker's order list, and by its deals as well.\<close>

definition half_sold :: ledger where
  "half_sold = empty_ledger\<lparr>
     positions := [(new_position ''US.AAPL'' 100 95 6 30 0)\<lparr>pos_id := 1, pos_available_shares := 6\<rparr>],
     orders := [(new_order ''US.AAPL'' SELL 3 105 0)\<lparr>so_id := 1, so_futu_order_id := ''F1'', so_reason := ''TARGET_1_PARTIAL''\<rparr>]\<rparr>"

definition sell_report :: broker where
  "sell_report = scripted_broker [] []
     [[(''order_id'', PStr ''F1''), (''order_status'', PStr ''FILLED_ALL''), (''dealt_qty'', PInt 3), (''dealt_avg_price'', PInt 106)]]
     [] []"

definition sell_report_and_deal :: broker where
  "sell_report_and_deal = sell_report\<lparr>get_deals := Inr [[(''deal_id'', PStr ''D1''), (''order_id'', PStr ''F1''), (''qty'', PInt 3), (''price'', PInt 106)]]\<rparr>"

theorem fills_applied_once_witness:
  "\<exists>db1 c1 k1 db2 c2 k2. sync_sim_orders sell_report 60 1 half_sold = Inr (db1, c1, k1)
     \<and> sync_sim_orders sell_report 60 200000000 db1 = Inr (db2, c2, k2) \<and> positions db2 = positions db1"
proof -
  have "is_ok (case sync_sim_orders sell_report 60 1 half_sold of Inl e \<Rightarrow> Inl e
      | Inr (db1, _) \<Rightarrow> sync_sim_orders sell_report 60 200000000 db1)" by code_simp
  then obtain db1 c1 k1 db2 c2 k2 where
    r: "sync_sim_orders sell_report 60 1 half_sold = Inr (db1, c1, k1)"
       "sync_sim_orders sell_report 60 200000000 db1 = Inr (db2, c2, k2)"
    by (auto simp: is_ok_def split: sum.splits prod.splits)
  have "unique_orders (orders half_sold)" by (simp add: unique_orders_def half_sold_def)
  from fills_applied_once [OF this r] r show ?thesis by blast
qed

text \<open>After a synchronisation no local order that the broker reports as finally filled is still
  waiting: every unfinished order of the result is one the broker does not report as filled.\<close>

theorem reported_fills_settled:
  assumes "unique_orders (orders db)" and "get_open_orders br = Inr rows"
    and "sync_sim_orders br t now db = Inr (db', c, k)" and "a \<in> set (orders db')"
  shows "\<not> (needs_reconcile a \<and> reported_filled (open_order_index rows) a)"
proof -
  obtain ds b s1 s2 where r:
    "foldM (reconcile_order db br now t (open_order_index rows)) (filter needs_reconcile (orders db)) (start_run db) = Inr s1"
    "foldM (apply_deal db now) ds s1 = Inr s2" "db' = commit now db (or_db s2)"
    using assms(2) by (auto intro: sync_orders_result [OF assms(3)])
  have "\<forall>a \<in> set (orders (or_db s1)). settled (open_order_index rows) a"
    using reconcile_loop_settles [OF r(1)] assms(1)
    by (auto simp: unique_orders_def distinct_map_filter settled_def)
  with deal_loop_settled [OF r(2)] r(3) assms(4) show ?thesis by (auto simp: settled_def)
qed

theorem reported_fills_settled_witness:
  "\<exists>db' c k a. sync_sim_orders sell_report 60 1 half_sold = Inr (db', c, k) \<and> orders db' = [a]
     \<and> \<not> (needs_reconcile a \<and> reported_filled (open_order_index
        [[(''order_id'', PStr ''F1''), (''order_status'', PStr ''FILLED_ALL''), (''dealt_qty'', PInt 3), (''dealt_avg_price'', PInt 106)]]) a)"
proof -
  let ?r = "sync_sim_orders sell_report 60 1 half_sold"
  have "map_sum id (\<lambda>(db, _). map so_id (orders db)) ?r = Inr [1]" by code_simp
  then obtain db' c k a where r: "?r = Inr (db', c, k)" and a: "orders db' = [a]"
    by (cases ?r) (auto simp: map_eq_Cons_conv)
  have u: "unique_orders (orders half_sold)" by (simp add: unique_orders_def half_sold_def)
  show ?thesis
    by (intro exI conjI, rule r, rule a, rule reported_fills_settled [OF u _ r])
      (simp_all add: a sell_report_def)
qed

definition triggered_buy :: ledger where
  "triggered_buy = empty_ledger\<lparr>plans := [sample_plan 1 ''US.AAPL''],
     orders := [(new_order ''US.AAPL'' BUY 3 105 0)\<lparr>so_id := 1, so_futu_order_id := ''F1'', so_trade_plan_id := Some 1\<rparr>]\<rparr>"

text \<open>One fill reported by the order list and by the deals of the same answer is booked twice: a SELL
  of three of six shares leaves the position closed with no shares, and a second position is opened
  for a filled BUY, so that the commit fails. (Reported by the order list alone, the SELL leaves
  three shares.)\<close>

theorem fill_reported_twice:
  "map_sum id (\<lambda>(db, _). map (\<lambda>p. (pos_status p, pos_shares p)) (positions db)) (sync_sim_orders sell_report 60 1 half_sold)
     = Inr [(POS_OPEN, 3)]
   \<and> map_sum id (\<lambda>(db, _). map (\<lambda>p. (pos_status p, pos_shares p)) (positions db)) (sync_sim_orders sell_report_and_deal 60 1 half_sold)
     = Inr [(POS_CLOSED, 0)]
   \<and> sync_sim_orders sell_report_and_deal 60 1 triggered_buy = Inl (IntegrityError ''UNIQUE constraint failed: positions.symbol'')"
  by (intro conjI; code_simp)

end
