(* ===== verification/Reconciler.thy ===== *)
theory Reconciler
  imports Order_Sync "HOL-Library.AList"
begin

text \<open>
  app/services/trade_reconciler.py: the ledger is compared with the broker, every disagreement is an
  issue row, issues that are gone are resolved, and the severities of the open issues decide whether
  new entries are allowed (the gate). The stored gate is read back by the approval rules.
\<close>

section \<open>Issues\<close>

definition MANAGED_ISSUE_TYPES :: "issue_type list" where
  "MANAGED_ISSUE_TYPES =
     [REMOTE_POSITION_WITHOUT_LOCAL, LOCAL_POSITION_MISSING_REMOTE, REMOTE_ORDER_WITHOUT_LOCAL,
      LOCAL_ORDER_MISSING_REMOTE, POSITION_QTY_MISMATCH, POSITION_COST_MISMATCH, SELL_ORDER_STUCK,
      BUY_ORDER_INFERRED_FILLED, CLOSE_UNVERIFIED, ORDER_STATUS_UNKNOWN, ACCOUNT_SYNC_FAILED,
      RECONCILIATION_RUN_FAILED]"

definition BLOCKING_SEVERITIES :: "severity list" where
  "BLOCKING_SEVERITIES = [HIGH, CRITICAL]"

fun SEVERITY_RANK :: "severity \<Rightarrow> int" where
  "SEVERITY_RANK INFO = 0"
| "SEVERITY_RANK WARN = 1"
| "SEVERITY_RANK HIGH = 2"
| "SEVERITY_RANK CRITICAL = 3"

fun severity_str :: "severity \<Rightarrow> string" where
  "severity_str INFO = ''INFO''"
| "severity_str WARN = ''WARN''"
| "severity_str HIGH = ''HIGH''"
| "severity_str CRITICAL = ''CRITICAL''"

type_synonym issue_key = "issue_type \<times> string \<times> string \<times> int option \<times> int option \<times> int option"

definition issue_key :: "issue \<Rightarrow> issue_key" where
  "issue_key i = (is_type i, is_symbol i, is_remote_order_id i, is_local_order_id i, is_position_id i, is_trade_plan_id i)"

text \<open>The arguments of one upsert.\<close>

record issue_note =
  nt_type :: issue_type
  nt_symbol :: string
  nt_severity :: severity
  nt_reason :: string
  nt_remote_order_id :: string
  nt_local_order_id :: "int option"
  nt_position_id :: "int option"
  nt_trade_plan_id :: "int option"

definition note_key :: "issue_note \<Rightarrow> issue_key" where
  "note_key n = (nt_type n, (if nt_symbol n = [] then [] else norm_sym (nt_symbol n)), nt_remote_order_id n,
     nt_local_order_id n, nt_position_id n, nt_trade_plan_id n)"

text \<open>
  The upsert looks for an open issue with the same key among the flushed rows and updates it, or
  adds a new one; the flag says which.
\<close>

definition new_issue :: "int \<Rightarrow> int \<Rightarrow> issue_note \<Rightarrow> issue" where
  "new_issue i now n =
     (let (ty, symbol, remote, local, pos, plan) = note_key n
      in \<lparr>is_id = i, is_symbol = symbol, is_type = ty, is_severity = nt_severity n, is_status = ISSUE_OPEN,
          is_remote_order_id = remote, is_local_order_id = local, is_position_id = pos, is_trade_plan_id = plan,
          is_reason = nt_reason n, is_first_seen_at = now, is_last_seen_at = now, is_resolved_at = None\<rparr>)"

definition update_issue :: "int \<Rightarrow> issue_note \<Rightarrow> issue \<Rightarrow> issue" where
  "update_issue now n i =
     i\<lparr>is_severity := nt_severity n, is_reason := nt_reason n, is_last_seen_at := now, is_resolved_at := None\<rparr>"

definition upsert_issue ::
  "'z ledger_scheme \<Rightarrow> int \<Rightarrow> issue_note \<Rightarrow> 'z ledger_scheme \<Rightarrow> issue \<times> bool \<times> 'z ledger_scheme" where
  "upsert_issue base now n db =
     (let found = (case scalar (filter (\<lambda>i. is_status i = ISSUE_OPEN \<and> issue_key i = note_key n) (issues base)) of
                     None \<Rightarrow> None | Some i \<Rightarrow> get_row is_id (is_id i) (issues db))
      in case found of
           None \<Rightarrow> (let i = new_issue (next_id is_id (issues db)) now n in (i, True, db\<lparr>issues := issues db @ [i]\<rparr>))
         | Some i0 \<Rightarrow> (let i = update_issue now n i0 in (i, False, db\<lparr>issues := put_row is_id i (issues db)\<rparr>)))"

record 'z check_run =
  ck_db :: 'z
  ck_seen :: "issue_key list"
  ck_opened :: int

definition note_issue :: "'z ledger_scheme \<Rightarrow> int \<Rightarrow> issue_note \<Rightarrow> 'z ledger_scheme check_run \<Rightarrow> 'z ledger_scheme check_run" where
  "note_issue base now n s =
     (let (i, created, db) = upsert_issue base now n (ck_db s)
      in \<lparr>ck_db = db, ck_seen = issue_key i # ck_seen s, ck_opened = ck_opened s + (if created then 1 else 0)\<rparr>)"

section \<open>The checks\<close>

definition remote_quantity :: "row \<Rightarrow> int" where
  "remote_quantity row = int_value (get_or row [''qty'', ''quantity''])"

definition remote_symbol :: "row \<Rightarrow> string" where
  "remote_symbol row = normalize_symbol (get_or row [''code'', ''symbol''])"

definition remote_positions_by_symbol :: "row list \<Rightarrow> (string \<times> row) list" where
  "remote_positions_by_symbol rows =
     fold (\<lambda>row m. if remote_quantity row \<le> 0 then m
                   else if remote_symbol row = [] then m else AList.update (remote_symbol row) row m) rows []"

definition local_open_position :: "'z ledger_scheme \<Rightarrow> string \<Rightarrow> position option" where
  "local_open_position db symbol =
     scalar (filter (\<lambda>p. pos_status p = POS_OPEN \<and> pos_symbol p \<in> set (symbol_aliases (norm_sym symbol))) (positions db))"

definition remote_position_notes :: "'z ledger_scheme \<Rightarrow> string \<times> row \<Rightarrow> issue_note list" where
  "remote_position_notes db r =
     (case local_open_position db (fst r) of
        Some _ \<Rightarrow> []
      | None \<Rightarrow> [\<lparr>nt_type = REMOTE_POSITION_WITHOUT_LOCAL, nt_symbol = fst r, nt_severity = HIGH,
                  nt_reason = zh_remote_position_no_local, nt_remote_order_id = [], nt_local_order_id = None,
                  nt_position_id = None, nt_trade_plan_id = None\<rparr>])"

definition position_note :: "position \<Rightarrow> issue_type \<Rightarrow> severity \<Rightarrow> string \<Rightarrow> issue_note" where
  "position_note p ty sev reason =
     \<lparr>nt_type = ty, nt_symbol = norm_sym (pos_symbol p), nt_severity = sev, nt_reason = reason,
      nt_remote_order_id = [], nt_local_order_id = None, nt_position_id = Some (pos_id p),
      nt_trade_plan_id = pos_source_trade_plan_id p\<rparr>"

definition local_position_notes :: "(string \<times> row) list \<Rightarrow> position \<Rightarrow> issue_note list" where
  "local_position_notes remote p =
     (case map_of remote (norm_sym (pos_symbol p)) of
        Some (c # cs) \<Rightarrow>
          (let row = c # cs; remote_cost = float_value (get_or row [''cost_price'', ''average_price''])
           in (if pos_shares p \<noteq> remote_quantity row
               then [position_note p POSITION_QTY_MISMATCH HIGH zh_qty_mismatch] else [])
            @ (if remote_cost > 0 \<and> pos_entry_price p > 0 \<and> \<bar>pos_entry_price p - remote_cost\<bar> / remote_cost > 1/100
               then [position_note p POSITION_COST_MISMATCH WARN zh_cost_mismatch] else []))
      | _ \<Rightarrow> [position_note p LOCAL_POSITION_MISSING_REMOTE HIGH zh_local_open_no_remote])"

definition remote_order_notes :: "'z ledger_scheme \<Rightarrow> row \<Rightarrow> issue_note list" where
  "remote_order_notes db row =
     (let order_id = str_or_empty (row_get row ''order_id'')
      in if order_id = [] then []
         else if (\<exists>x \<in> set (orders db). so_futu_order_id x = order_id) then []
         else [\<lparr>nt_type = REMOTE_ORDER_WITHOUT_LOCAL, nt_symbol = remote_symbol row, nt_severity = WARN,
                nt_reason = zh_remote_order_no_local, nt_remote_order_id = order_id, nt_local_order_id = None,
                nt_position_id = None, nt_trade_plan_id = None\<rparr>])"

definition order_note :: "sim_order \<Rightarrow> issue_type \<Rightarrow> severity \<Rightarrow> string \<Rightarrow> issue_note" where
  "order_note x ty sev reason =
     \<lparr>nt_type = ty, nt_symbol = norm_sym (so_symbol x), nt_severity = sev, nt_reason = reason,
      nt_remote_order_id = so_futu_order_id x, nt_local_order_id = Some (so_id x), nt_position_id = None,
      nt_trade_plan_id = so_trade_plan_id x\<rparr>"

definition local_order_notes :: "string list \<Rightarrow> string list \<Rightarrow> sim_order \<Rightarrow> issue_note list" where
  "local_order_notes remote_order_ids remote_deal_order_ids x =
     (let i = so_futu_order_id x
      in if i \<noteq> [] \<and> (i \<in> set remote_order_ids \<or> i \<in> set remote_deal_order_ids) then []
         else case so_side x of
                SELL \<Rightarrow> [order_note x SELL_ORDER_STUCK HIGH zh_sell_stuck]
              | BUY \<Rightarrow> [order_note x LOCAL_ORDER_MISSING_REMOTE WARN zh_local_order_missing])"

definition order_ids :: "row list \<Rightarrow> string list" where
  "order_ids rows = map (\<lambda>r. str_or_empty (row_get r ''order_id'')) (filter (\<lambda>r. truthy (row_get r ''order_id'')) rows)"

definition check_remote_positions_without_local ::
  "'z ledger_scheme \<Rightarrow> int \<Rightarrow> (string \<times> row) list \<Rightarrow> 'z ledger_scheme check_run \<Rightarrow> 'z ledger_scheme check_run" where
  "check_remote_positions_without_local base now remote =
     fold (note_issue base now) (concat (map (remote_position_notes base) remote))"

definition check_local_positions ::
  "'z ledger_scheme \<Rightarrow> int \<Rightarrow> (string \<times> row) list \<Rightarrow> 'z ledger_scheme check_run \<Rightarrow> 'z ledger_scheme check_run" where
  "check_local_positions base now remote =
     fold (note_issue base now)
       (concat (map (local_position_notes remote)
          (filter (\<lambda>p. pos_status p = POS_OPEN \<and> pos_source p \<in> {FUTU_DETECTED, LOCAL_AND_FUTU_CONFIRMED, LOCAL_STRATEGY})
             (positions base))))"

definition check_remote_orders_without_local ::
  "'z ledger_scheme \<Rightarrow> int \<Rightarrow> row list \<Rightarrow> 'z ledger_scheme check_run \<Rightarrow> 'z ledger_scheme check_run" where
  "check_remote_orders_without_local base now rows =
     fold (note_issue base now) (concat (map (remote_order_notes base) rows))"

definition check_local_orders ::
  "'z ledger_scheme \<Rightarrow> int \<Rightarrow> string list \<Rightarrow> string list \<Rightarrow> 'z ledger_scheme check_run \<Rightarrow> 'z ledger_scheme check_run" where
  "check_local_orders base now ids deal_ids =
     fold (note_issue base now) (concat (map (local_order_notes ids deal_ids) (filter needs_reconcile (orders base))))"

definition check_closed_unverified ::
  "'z ledger_scheme \<Rightarrow> int \<Rightarrow> 'z ledger_scheme check_run \<Rightarrow> 'z ledger_scheme check_run" where
  "check_closed_unverified base now =
     fold (note_issue base now)
       (map (\<lambda>p. position_note p CLOSE_UNVERIFIED WARN zh_close_unconfirmed)
          (filter (\<lambda>p. pos_status p = POS_CLOSED_UNVERIFIED) (positions base)))"

definition check_inferred_buy_orders ::
  "'z ledger_scheme \<Rightarrow> int \<Rightarrow> 'z ledger_scheme check_run \<Rightarrow> 'z ledger_scheme check_run" where
  "check_inferred_buy_orders base now =
     fold (note_issue base now)
       (map (\<lambda>x. order_note x BUY_ORDER_INFERRED_FILLED INFO zh_buy_inferred)
          (filter (\<lambda>x. so_status x = OS_FILLED_INFERRED \<and> so_side x = BUY) (orders base)))"

text \<open>The open issues of the flushed rows that were not seen again are resolved.\<close>

definition stale :: "'z ledger_scheme \<Rightarrow> issue_key list \<Rightarrow> issue \<Rightarrow> bool" where
  "stale base seen i \<longleftrightarrow>
     (\<exists>j \<in> set (issues base). is_id j = is_id i \<and> is_status j = ISSUE_OPEN \<and> is_type j \<in> set MANAGED_ISSUE_TYPES)
     \<and> issue_key i \<notin> set seen"

definition resolve_stale_issues ::
  "'z ledger_scheme \<Rightarrow> issue_key list \<Rightarrow> int \<Rightarrow> 'z ledger_scheme \<Rightarrow> 'z ledger_scheme \<times> int" where
  "resolve_stale_issues base seen now db =
     (db\<lparr>issues := map (\<lambda>i. if stale base seen i
                       then i\<lparr>is_status := ISSUE_RESOLVED, is_resolved_at := Some now, is_last_seen_at := now\<rparr> else i) (issues db)\<rparr>,
      int (length (filter (stale base seen) (issues db))))"

section \<open>The health payload\<close>

definition max_severity :: "severity list \<Rightarrow> severity" where
  "max_severity vs = fold (\<lambda>v r. if SEVERITY_RANK v > SEVERITY_RANK r then v else r) vs INFO"

fun health_reason :: "severity \<Rightarrow> string" where
  "health_reason CRITICAL = zh_health_critical"
| "health_reason HIGH = zh_health_high"
| "health_reason WARN = zh_health_warn"
| "health_reason INFO = zh_health_ok"

definition gate_mode :: "bool \<Rightarrow> string \<Rightarrow> string \<Rightarrow> string" where
  "gate_mode allow_new_entries severity reason =
     (if severity = ''CRITICAL'' \<and> (py_contains zh_sync_failed reason \<or> py_contains zh_account reason) then ''SYNC_FAILED''
      else if \<not> allow_new_entries \<or> severity \<in> {''HIGH'', ''CRITICAL''} then ''PROTECTIVE''
      else if severity = ''WARN'' then ''DEGRADED''
      else ''NORMAL'')"

record health =
  he_ok :: bool
  he_severity :: severity
  he_mode :: string
  he_issues_opened :: int
  he_issues_resolved :: int
  he_open_issues :: int
  he_critical_issues :: int
  he_high_issues :: int
  he_allow_new_entries :: bool
  he_reason :: string
  he_deals_supported :: bool

definition open_issues :: "'z ledger_scheme \<Rightarrow> issue list" where
  "open_issues db = filter (\<lambda>i. is_status i = ISSUE_OPEN) (issues db)"

definition count_severity :: "severity \<Rightarrow> issue list \<Rightarrow> int" where
  "count_severity v iss = int (length (filter (\<lambda>i. is_severity i = v) iss))"

definition health_payload :: "'z ledger_scheme \<Rightarrow> int \<Rightarrow> int \<Rightarrow> bool \<Rightarrow> string \<Rightarrow> health" where
  "health_payload db issues_opened issues_resolved deals_supported reason =
     (let iss = open_issues db;
          sev = max_severity (map is_severity iss);
          allow = (\<forall>i \<in> set iss. is_severity i \<notin> set BLOCKING_SEVERITIES);
          reason_text = str_or reason (health_reason sev)
      in \<lparr>he_ok = allow, he_severity = sev, he_mode = gate_mode allow (severity_str sev) reason_text,
          he_issues_opened = issues_opened, he_issues_resolved = issues_resolved, he_open_issues = int (length iss),
          he_critical_issues = count_severity CRITICAL iss, he_high_issues = count_severity HIGH iss,
          he_allow_new_entries = allow, he_reason = reason_text, he_deals_supported = deals_supported\<rparr>)"

section \<open>One reconciliation\<close>

text \<open>The three answers of the broker, or the exception that ends the attempt.\<close>

definition read_broker :: "broker \<Rightarrow> exn + (row list \<times> row list \<times> row list \<times> bool)" where
  "read_broker br =
     (case get_positions br of
        Inl e \<Rightarrow> Inl e
      | Inr ps \<Rightarrow> (case get_open_orders br of
          Inl e \<Rightarrow> Inl e
        | Inr os \<Rightarrow> (case read_deals br of Inl e \<Rightarrow> Inl e | Inr (ds, supported) \<Rightarrow> Inr (ps, os, ds, supported))))"

definition account_failure_note :: "exn \<Rightarrow> issue_note" where
  "account_failure_note e =
     \<lparr>nt_type = ACCOUNT_SYNC_FAILED, nt_symbol = [], nt_severity = CRITICAL,
      nt_reason = zh_account_sync_failed_colon @ exn_str e, nt_remote_order_id = [], nt_local_order_id = None,
      nt_position_id = None, nt_trade_plan_id = None\<rparr>"

definition run_trade_reconciliation :: "broker \<Rightarrow> int \<Rightarrow> 'z ledger_scheme \<Rightarrow> 'z ledger_scheme \<times> health" where
  "run_trade_reconciliation br now db =
     (let start = \<lparr>ck_db = db, ck_seen = [], ck_opened = 0\<rparr>
      in case read_broker br of
           Inl e \<Rightarrow>
             (let s = note_issue db now (account_failure_note e) start
              in (ck_db s, health_payload (ck_db s) (ck_opened s) 0 False zh_account_sync_failed_check))
         | Inr (ps, os, ds, supported) \<Rightarrow>
             (let remote = remote_positions_by_symbol ps;
                  s1 = check_remote_positions_without_local db now remote start;
                  s2 = check_local_positions db now remote s1;
                  s3 = check_remote_orders_without_local db now os s2;
                  s4 = check_local_orders db now (order_ids os) (order_ids ds) s3;
                  s5 = check_closed_unverified db now s4;
                  s6 = check_inferred_buy_orders db now s5;
                  (db1, resolved) = resolve_stale_issues db (ck_seen s6) now (ck_db s6)
              in (db1, health_payload db1 (ck_opened s6) resolved supported [])))"

section \<open>The stored gate\<close>

datatype gate_time = GateText pyval | GateTime "int option"

record gate =
  ga_allow_new_entries :: bool
  ga_severity :: string
  ga_mode :: string
  ga_reason :: string
  ga_open_issues :: int
  ga_high_issues :: int
  ga_critical_issues :: int
  ga_updated_at :: gate_time

definition gate_row :: "gate \<Rightarrow> pyval \<Rightarrow> row" where
  "gate_row g updated_at =
     [(''allow_new_entries'', PBool (ga_allow_new_entries g)), (''severity'', PStr (ga_severity g)),
      (''mode'', PStr (ga_mode g)), (''reason'', PStr (ga_reason g)), (''open_issues'', PInt (ga_open_issues g)),
      (''high_issues'', PInt (ga_high_issues g)), (''critical_issues'', PInt (ga_critical_issues g)),
      (''updated_at'', updated_at)]"

definition save_gate ::
  "bool \<Rightarrow> string \<Rightarrow> string \<Rightarrow> int \<Rightarrow> int \<Rightarrow> int \<Rightarrow> int \<Rightarrow> 'z ledger_scheme \<Rightarrow> 'z ledger_scheme \<times> gate" where
  "save_gate allow severity reason n_open n_high n_critical now db =
     (let updated_at = PStr (isoformat now @ ''+00:00'');
          g = \<lparr>ga_allow_new_entries = allow, ga_severity = severity, ga_mode = gate_mode allow severity reason,
               ga_reason = reason, ga_open_issues = n_open, ga_high_issues = n_high, ga_critical_issues = n_critical,
               ga_updated_at = GateText updated_at\<rparr>
      in (db\<lparr>gate_config := Some (JsonValue (gate_row g updated_at))\<rparr>, g))"

definition save_reconciliation_gate_status :: "health \<Rightarrow> int \<Rightarrow> 'z ledger_scheme \<Rightarrow> 'z ledger_scheme \<times> gate" where
  "save_reconciliation_gate_status h now db =
     save_gate (he_allow_new_entries h) (severity_str (he_severity h)) (he_reason h)
       (he_open_issues h) (he_high_issues h) (he_critical_issues h) now db"

definition run_failure_note :: "string \<Rightarrow> issue_note" where
  "run_failure_note reason =
     \<lparr>nt_type = RECONCILIATION_RUN_FAILED, nt_symbol = [], nt_severity = CRITICAL, nt_reason = reason,
      nt_remote_order_id = [], nt_local_order_id = None, nt_position_id = None, nt_trade_plan_id = None\<rparr>"

text \<open>A new issue has no id yet when the audit row is written.\<close>

definition save_reconciliation_gate_failure :: "string \<Rightarrow> int \<Rightarrow> 'z ledger_scheme \<Rightarrow> 'z ledger_scheme \<times> gate" where
  "save_reconciliation_gate_failure reason now db =
     (let (i, created, db1) = upsert_issue db now (run_failure_note reason) db;
          db2 = write_audit ''RECONCILIATION_RUN_FAILED'' [] ''ReconciliationIssue''
                  (if created then None else Some (is_id i)) ''FAILED'' reason now db1
      in save_gate False ''CRITICAL'' reason 1 0 1 now db2)"

definition normalize_gate_payload :: "row \<Rightarrow> exn + gate" where
  "normalize_gate_payload payload =
     (let severity = py_str (py_or (row_get payload ''severity'') (PStr ''INFO''));
          allow = truthy (row_get payload ''allow_new_entries'');
          reason = str_or_empty (row_get payload ''reason'')
      in case py_int_of (py_or (row_get payload ''open_issues'') (PInt 0)) of
           Inl e \<Rightarrow> Inl e
         | Inr n_open \<Rightarrow> (case py_int_of (py_or (row_get payload ''high_issues'') (PInt 0)) of
             Inl e \<Rightarrow> Inl e
           | Inr n_high \<Rightarrow> (case py_int_of (py_or (row_get payload ''critical_issues'') (PInt 0)) of
               Inl e \<Rightarrow> Inl e
             | Inr n_critical \<Rightarrow>
                 Inr \<lparr>ga_allow_new_entries = allow, ga_severity = severity,
                      ga_mode = py_str (py_or (row_get payload ''mode'') (PStr (gate_mode allow severity reason))),
                      ga_reason = reason, ga_open_issues = n_open, ga_high_issues = n_high,
                      ga_critical_issues = n_critical, ga_updated_at = GateText (row_get payload ''updated_at'')\<rparr>)))"

definition corrupt_gate :: gate where
  "corrupt_gate = \<lparr>ga_allow_new_entries = False, ga_severity = ''CRITICAL'', ga_mode = ''SYNC_FAILED'',
     ga_reason = zh_gate_corrupt, ga_open_issues = 0, ga_high_issues = 0, ga_critical_issues = 1,
     ga_updated_at = GateText PNone\<rparr>"

definition reconciliation_gate_status :: "'z ledger_scheme \<Rightarrow> exn + gate option" where
  "reconciliation_gate_status db =
     (case gate_config db of
        Some JsonCorrupt \<Rightarrow> Inr (Some corrupt_gate)
      | Some (JsonValue payload) \<Rightarrow> (case normalize_gate_payload payload of Inl e \<Rightarrow> Inl e | Inr g \<Rightarrow> Inr (Some g))
      | None \<Rightarrow>
          (let iss = open_issues db; sev = max_severity (map is_severity iss);
               n_critical = count_severity CRITICAL iss; n_high = count_severity HIGH iss;
               allow = (n_critical = 0 \<and> n_high = 0); reason = health_reason sev
           in if iss = [] then Inr None
              else Inr (Some \<lparr>ga_allow_new_entries = allow, ga_severity = severity_str sev,
                              ga_mode = gate_mode allow (severity_str sev) reason, ga_reason = reason,
                              ga_open_issues = int (length iss), ga_high_issues = n_high,
                              ga_critical_issues = n_critical,
                              ga_updated_at = GateTime (Some (Max (is_last_seen_at ` set iss)))\<rparr>)))"

section \<open>Lemmas\<close>

text \<open>All the upserts of a run whose three reads succeeded.\<close>

definition all_notes :: "row list \<Rightarrow> row list \<Rightarrow> row list \<Rightarrow> 'z ledger_scheme \<Rightarrow> issue_note list" where
  "all_notes ps os ds db =
     concat (map (remote_position_notes db) (remote_positions_by_symbol ps))
     @ concat (map (local_position_notes (remote_positions_by_symbol ps))
         (filter (\<lambda>p. pos_status p = POS_OPEN \<and> pos_source p \<in> {FUTU_DETECTED, LOCAL_AND_FUTU_CONFIRMED, LOCAL_STRATEGY})
           (positions db)))
     @ concat (map (remote_order_notes db) os)
     @ concat (map (local_order_notes (order_ids os) (order_ids ds)) (filter needs_reconcile (orders db)))
     @ map (\<lambda>p. position_note p CLOSE_UNVERIFIED WARN zh_close_unconfirmed)
         (filter (\<lambda>p. pos_status p = POS_CLOSED_UNVERIFIED) (positions db))
     @ map (\<lambda>x. order_note x BUY_ORDER_INFERRED_FILLED INFO zh_buy_inferred)
         (filter (\<lambda>x. so_status x = OS_FILLED_INFERRED \<and> so_side x = BUY) (orders db))"

abbreviation start_checks :: "'z ledger_scheme \<Rightarrow> 'z ledger_scheme check_run" where
  "start_checks db \<equiv> \<lparr>ck_db = db, ck_seen = [], ck_opened = 0\<rparr>"

lemma run_reconciliation_ok:
  assumes "read_broker br = Inr (ps, os, ds, supported)"
  shows "run_trade_reconciliation br now db =
    (let s = fold (note_issue db now) (all_notes ps os ds db) (start_checks db);
         (db1, resolved) = resolve_stale_issues db (ck_seen s) now (ck_db s)
     in (db1, health_payload db1 (ck_opened s) resolved supported []))"
  using assms
  by (simp add: run_trade_reconciliation_def all_notes_def check_remote_positions_without_local_def
      check_local_positions_def check_remote_orders_without_local_def check_local_orders_def
      check_closed_unverified_def check_inferred_buy_orders_def Let_def)

lemma all_notes_cong:
  "positions db' = positions db \<Longrightarrow> orders db' = orders db \<Longrightarrow> all_notes ps os ds db' = all_notes ps os ds db"
proof -
  assume same: "positions db' = positions db" "orders db' = orders db"
  have "remote_position_notes db' = remote_position_notes db" "remote_order_notes db' = remote_order_notes db"
    by (simp_all add: fun_eq_iff remote_position_notes_def remote_order_notes_def local_open_position_def same Let_def)
  then show ?thesis by (simp add: all_notes_def same)
qed

text \<open>What a loop of upserts keeps: stored issues stay, and only seen ones change.\<close>

definition unique_issues :: "issue list \<Rightarrow> bool" where
  "unique_issues iss \<longleftrightarrow> distinct (map is_id iss)"

interpretation issue_table: keyed_table is_id unique_issues
  by unfold_locales (rule unique_issues_def)

definition same_issue :: "issue \<Rightarrow> issue \<Rightarrow> bool" where
  "same_issue i j \<longleftrightarrow> is_id i = is_id j \<and> issue_key i = issue_key j \<and> is_status i = is_status j"

definition tracks :: "'z ledger_scheme \<Rightarrow> 'z ledger_scheme check_run \<Rightarrow> bool" where
  "tracks base s \<longleftrightarrow>
     unique_issues (issues (ck_db s))
     \<and> (\<forall>j \<in> set (issues base). \<exists>i \<in> set (issues (ck_db s)). same_issue i j)
     \<and> (\<forall>i \<in> set (issues (ck_db s)). (issue_key i \<in> set (ck_seen s) \<and> is_status i = ISSUE_OPEN) \<or> i \<in> set (issues base))
     \<and> (\<forall>k \<in> set (ck_seen s). \<exists>i \<in> set (issues (ck_db s)). is_status i = ISSUE_OPEN \<and> issue_key i = k)
     \<and> positions (ck_db s) = positions base \<and> orders (ck_db s) = orders base"

lemma tracks_start: "unique_issues (issues base) \<Longrightarrow> tracks base (start_checks base)"
  by (auto simp: tracks_def same_issue_def)

lemma found_issue:
  assumes "tracks base s" and "scalar (filter (\<lambda>i. is_status i = ISSUE_OPEN \<and> issue_key i = k) (issues base)) = Some j"
  obtains i where "get_row is_id (is_id j) (issues (ck_db s)) = Some i" "i \<in> set (issues (ck_db s))"
    "issue_key i = k" "is_status i = ISSUE_OPEN"
proof -
  from assms(2) have j: "j \<in> set (issues base)" "is_status j = ISSUE_OPEN" "issue_key j = k"
    by (auto dest: scalar_filter_SomeD)
  with assms(1) obtain i where i: "i \<in> set (issues (ck_db s))" "same_issue i j" by (auto simp: tracks_def)
  then have "get_row is_id (is_id j) (issues (ck_db s)) \<noteq> None"
    by (auto simp: get_row_def filter_empty_conv same_issue_def)
  then obtain i' where i': "get_row is_id (is_id j) (issues (ck_db s)) = Some i'" by auto
  with i assms(1) have "i' = i"
    by (auto simp: tracks_def same_issue_def dest!: get_row_SomeD intro: issue_table.same)
  with i i' j that show thesis by (auto simp: same_issue_def)
qed

lemma new_issue_sel [simp]:
  "is_id (new_issue i now n) = i" "issue_key (new_issue i now n) = note_key n"
  "is_status (new_issue i now n) = ISSUE_OPEN" "is_severity (new_issue i now n) = nt_severity n"
  by (simp_all add: new_issue_def issue_key_def split: prod.split)

lemma update_issue_sel [simp]:
  "is_id (update_issue now n i) = is_id i" "issue_key (update_issue now n i) = issue_key i"
  "is_status (update_issue now n i) = is_status i" "is_severity (update_issue now n i) = nt_severity n"
  by (simp_all add: update_issue_def issue_key_def)

lemma is_type_key: "is_type i = fst (issue_key i)"
  by (simp add: issue_key_def)

text \<open>One upsert: an update of a live issue of the key, or a new one.\<close>

definition has_open :: "'z ledger_scheme \<Rightarrow> issue_key \<Rightarrow> bool" where
  "has_open db k \<longleftrightarrow> (\<exists>j \<in> set (issues db). is_status j = ISSUE_OPEN \<and> issue_key j = k)"

lemma note_issue_cases:
  assumes "tracks base s"
  obtains (found) i where "has_open base (note_key n)"
      "i \<in> set (issues (ck_db s))" "issue_key i = note_key n" "is_status i = ISSUE_OPEN"
      "note_issue base now n s = \<lparr>ck_db = (ck_db s)\<lparr>issues := put_row is_id (update_issue now n i) (issues (ck_db s))\<rparr>,
          ck_seen = note_key n # ck_seen s, ck_opened = ck_opened s\<rparr>"
  | (created) "\<not> has_open base (note_key n)"
      "note_issue base now n s =
          \<lparr>ck_db = (ck_db s)\<lparr>issues := issues (ck_db s) @ [new_issue (next_id is_id (issues (ck_db s))) now n]\<rparr>,
           ck_seen = note_key n # ck_seen s, ck_opened = ck_opened s + 1\<rparr>"
proof (cases "scalar (filter (\<lambda>i. is_status i = ISSUE_OPEN \<and> issue_key i = note_key n) (issues base))")
  case None
  then have "\<not> has_open base (note_key n)" by (auto simp: has_open_def filter_empty_conv)
  with None show thesis by (intro created) (simp_all add: note_issue_def upsert_issue_def Let_def)
next
  case (Some j)
  then obtain i where i: "get_row is_id (is_id j) (issues (ck_db s)) = Some i" "i \<in> set (issues (ck_db s))"
    "issue_key i = note_key n" "is_status i = ISSUE_OPEN" by (rule found_issue [OF assms])
  have "has_open base (note_key n)" using Some by (auto simp: has_open_def dest: scalar_filter_SomeD)
  with i Some show thesis
    by (intro found [of i]) (simp_all add: note_issue_def upsert_issue_def Let_def)
qed

lemma tracks_step:
  assumes t: "tracks base s"
  shows "tracks base (note_issue base now n s)"
  using t
proof (rule note_issue_cases [where n = n and now = now])
  fix i
  assume i: "i \<in> set (issues (ck_db s))" "issue_key i = note_key n" "is_status i = ISSUE_OPEN"
    and s': "note_issue base now n s = \<lparr>ck_db = (ck_db s)\<lparr>issues := put_row is_id (update_issue now n i) (issues (ck_db s))\<rparr>,
          ck_seen = note_key n # ck_seen s, ck_opened = ck_opened s\<rparr>"
  let ?iss = "put_row is_id (update_issue now n i) (issues (ck_db s))"
  have new: "update_issue now n i \<in> set ?iss" using i(1) by (simp add: put_row_in_set)
  have keep: "\<exists>z \<in> set ?iss. same_issue z y" if y: "y \<in> set (issues (ck_db s))" for y
  proof (cases "is_id y = is_id i")
    case True
    then have "y = i" using t y i(1) by (auto simp: tracks_def intro: issue_table.same)
    with new show ?thesis by (auto simp: same_issue_def intro!: bexI [of _ "update_issue now n i"])
  next
    case False
    with y have "y \<in> set ?iss" by (simp add: put_row_other)
    then show ?thesis by (auto simp: same_issue_def)
  qed
  have "\<exists>z \<in> set ?iss. same_issue z j" if "j \<in> set (issues base)" for j
  proof -
    from t that obtain y where "y \<in> set (issues (ck_db s))" "same_issue y j" by (auto simp: tracks_def)
    with keep show ?thesis by (fastforce simp: same_issue_def)
  qed
  moreover have "\<exists>z \<in> set ?iss. is_status z = ISSUE_OPEN \<and> issue_key z = k" if "k \<in> set (note_key n # ck_seen s)" for k
  proof (cases "k = note_key n")
    case True
    with new i show ?thesis by (auto intro!: bexI [of _ "update_issue now n i"])
  next
    case False
    with that t obtain y where "y \<in> set (issues (ck_db s))" "is_status y = ISSUE_OPEN" "issue_key y = k"
      by (auto simp: tracks_def)
    with keep show ?thesis by (fastforce simp: same_issue_def)
  qed
  ultimately show ?thesis
    using t i by (auto simp: tracks_def s' dest!: set_put_rowD)
next
  assume s': "note_issue base now n s =
          \<lparr>ck_db = (ck_db s)\<lparr>issues := issues (ck_db s) @ [new_issue (next_id is_id (issues (ck_db s))) now n]\<rparr>,
           ck_seen = note_key n # ck_seen s, ck_opened = ck_opened s + 1\<rparr>"
  have "unique_issues (issues (ck_db s) @ [new_issue (next_id is_id (issues (ck_db s))) now n])"
    by (rule issue_table.append) (use t in \<open>simp_all add: tracks_def\<close>)
  with t show ?thesis by (fastforce simp: tracks_def s')
qed

lemma tracks_fold: "tracks base s \<Longrightarrow> tracks base (fold (note_issue base now) ns s)"
  by (induction ns arbitrary: s) (auto intro: tracks_step)

lemma seen_fold:
  "tracks base s \<Longrightarrow> set (ck_seen (fold (note_issue base now) ns s)) = note_key ` set ns \<union> set (ck_seen s)"
proof (induction ns arbitrary: s)
  case (Cons n ns)
  have "set (ck_seen (note_issue base now n s)) = insert (note_key n) (set (ck_seen s))"
    using Cons.prems by (rule note_issue_cases [where n = n and now = now]) auto
  with Cons.IH [OF tracks_step [OF Cons.prems]] show ?case by auto
qed simp

lemma opened_fold:
  "tracks base s \<Longrightarrow> \<forall>n \<in> set ns. has_open base (note_key n)
   \<Longrightarrow> ck_opened (fold (note_issue base now) ns s) = ck_opened s"
proof (induction ns arbitrary: s)
  case (Cons n ns)
  have "ck_opened (note_issue base now n s) = ck_opened s"
    using Cons.prems(1) by (rule note_issue_cases [where n = n and now = now]) (use Cons.prems(2) in auto)
  with Cons.IH [OF tracks_step [OF Cons.prems(1)]] Cons.prems(2) show ?case by auto
qed simp

text \<open>The run as a whole: which managed issues are open afterwards.\<close>

definition managed :: "issue \<Rightarrow> bool" where
  "managed i \<longleftrightarrow> is_type i \<in> set MANAGED_ISSUE_TYPES"

text \<open>Which types an upsert can have, with the severity that belongs to the type.\<close>

fun type_severity :: "issue_type \<Rightarrow> severity" where
  "type_severity REMOTE_POSITION_WITHOUT_LOCAL = HIGH"
| "type_severity LOCAL_POSITION_MISSING_REMOTE = HIGH"
| "type_severity REMOTE_ORDER_WITHOUT_LOCAL = WARN"
| "type_severity LOCAL_ORDER_MISSING_REMOTE = WARN"
| "type_severity POSITION_QTY_MISMATCH = HIGH"
| "type_severity POSITION_COST_MISMATCH = WARN"
| "type_severity SELL_ORDER_STUCK = HIGH"
| "type_severity BUY_ORDER_INFERRED_FILLED = INFO"
| "type_severity CLOSE_UNVERIFIED = WARN"
| "type_severity ORDER_STATUS_UNKNOWN = WARN"
| "type_severity ACCOUNT_SYNC_FAILED = CRITICAL"
| "type_severity RECONCILIATION_RUN_FAILED = CRITICAL"
| "type_severity (OTHER_ISSUE _) = WARN"

definition well_typed :: "issue_note \<Rightarrow> bool" where
  "well_typed n \<longleftrightarrow> nt_type n \<in> set MANAGED_ISSUE_TYPES \<and> nt_severity n = type_severity (nt_type n)"

definition blocking :: "severity \<Rightarrow> bool" where
  "blocking v \<longleftrightarrow> v \<in> set BLOCKING_SEVERITIES"

definition unknown_at_broker :: "row list \<Rightarrow> row list \<Rightarrow> sim_order \<Rightarrow> bool" where
  "unknown_at_broker os ds x \<longleftrightarrow>
     so_futu_order_id x = [] \<or> so_futu_order_id x \<notin> set (order_ids os) \<union> set (order_ids ds)"

definition position_agrees :: "(string \<times> row) list \<Rightarrow> position \<Rightarrow> bool" where
  "position_agrees remote p \<longleftrightarrow>
     (case map_of remote (norm_sym (pos_symbol p)) of None \<Rightarrow> False
      | Some row \<Rightarrow> row \<noteq> [] \<and> pos_shares p = remote_quantity row)"

lemma blocking_simps [simp]: "blocking HIGH" "blocking CRITICAL" "\<not> blocking WARN" "\<not> blocking INFO"
  by (simp_all add: blocking_def BLOCKING_SEVERITIES_def)

lemma position_note_sel [simp]:
  "nt_type (position_note p ty sev r) = ty" "nt_severity (position_note p ty sev r) = sev"
  by (simp_all add: position_note_def)

lemma order_note_sel [simp]:
  "nt_type (order_note p ty sev r) = ty" "nt_severity (order_note p ty sev r) = sev"
  by (simp_all add: order_note_def)

lemma remote_position_notes_facts:
  "n \<in> set (remote_position_notes db r) \<Longrightarrow> well_typed n"
  "(\<exists>n \<in> set (remote_position_notes db r). blocking (nt_severity n)) \<longleftrightarrow> local_open_position db (fst r) = None"
  by (auto simp: remote_position_notes_def well_typed_def MANAGED_ISSUE_TYPES_def split: option.splits)

lemma local_position_notes_facts:
  "n \<in> set (local_position_notes remote p) \<Longrightarrow> well_typed n"
  "(\<exists>n \<in> set (local_position_notes remote p). blocking (nt_severity n)) \<longleftrightarrow> \<not> position_agrees remote p"
proof -
  consider "map_of remote (norm_sym (pos_symbol p)) = None" | "map_of remote (norm_sym (pos_symbol p)) = Some []"
    | c cs where "map_of remote (norm_sym (pos_symbol p)) = Some (c # cs)"
    by (metis neq_Nil_conv option.exhaust)
  note cs = this
  show "n \<in> set (local_position_notes remote p) \<Longrightarrow> well_typed n"
    using cs by cases (auto simp: local_position_notes_def well_typed_def MANAGED_ISSUE_TYPES_def Let_def split: if_splits)
  show "(\<exists>n \<in> set (local_position_notes remote p). blocking (nt_severity n)) \<longleftrightarrow> \<not> position_agrees remote p"
    using cs by cases (auto simp: local_position_notes_def position_agrees_def Let_def)
qed

lemma remote_order_notes_facts:
  "n \<in> set (remote_order_notes db row) \<Longrightarrow> well_typed n \<and> \<not> blocking (nt_severity n)"
  by (auto simp: remote_order_notes_def well_typed_def MANAGED_ISSUE_TYPES_def Let_def split: if_splits)

lemma local_order_notes_facts:
  "n \<in> set (local_order_notes (order_ids os) (order_ids ds) x) \<Longrightarrow> well_typed n"
  "(\<exists>n \<in> set (local_order_notes (order_ids os) (order_ids ds) x). blocking (nt_severity n))
     \<longleftrightarrow> so_side x = SELL \<and> unknown_at_broker os ds x"
  by (cases "so_side x"; auto simp: local_order_notes_def well_typed_def unknown_at_broker_def MANAGED_ISSUE_TYPES_def
      Let_def split: if_splits)+

lemma well_typed_notes: "n \<in> set (all_notes ps os ds db) \<Longrightarrow> well_typed n"
  by (auto simp: all_notes_def dest: remote_position_notes_facts(1) local_position_notes_facts(1) remote_order_notes_facts
      local_order_notes_facts(1)) (auto simp: well_typed_def MANAGED_ISSUE_TYPES_def)

lemma note_key_type [simp]: "fst (note_key n) = nt_type n"
  by (simp add: note_key_def)

lemma managed_note: "n \<in> set (all_notes ps os ds db) \<Longrightarrow> fst (note_key n) \<in> set MANAGED_ISSUE_TYPES"
  by (auto dest: well_typed_notes simp: well_typed_def)

text \<open>Agreement of the ledger with the three answers, as far as it decides about new entries.\<close>

definition ledger_agrees :: "row list \<Rightarrow> row list \<Rightarrow> row list \<Rightarrow> 'z ledger_scheme \<Rightarrow> bool" where
  "ledger_agrees ps os ds db \<longleftrightarrow>
     (\<forall>r \<in> set (remote_positions_by_symbol ps). local_open_position db (fst r) \<noteq> None)
     \<and> (\<forall>p \<in> set (positions db). pos_status p \<noteq> POS_OPEN \<or> position_agrees (remote_positions_by_symbol ps) p)
     \<and> (\<forall>x \<in> set (orders db). \<not> (needs_reconcile x \<and> so_side x = SELL \<and> unknown_at_broker os ds x))"

lemma source_cases: "pos_source p \<in> {FUTU_DETECTED, LOCAL_AND_FUTU_CONFIRMED, LOCAL_STRATEGY}"
  by (cases "pos_source p") auto

lemma blocking_notes:
  "(\<exists>n \<in> set (all_notes ps os ds db). blocking (nt_severity n)) \<longleftrightarrow> \<not> ledger_agrees ps os ds db"
proof -
  let ?r = "remote_positions_by_symbol ps"
  have "(\<exists>n \<in> set (all_notes ps os ds db). blocking (nt_severity n)) \<longleftrightarrow>
      (\<exists>r \<in> set ?r. \<exists>n \<in> set (remote_position_notes db r). blocking (nt_severity n))
    \<or> (\<exists>p \<in> set (positions db). pos_status p = POS_OPEN \<and> (\<exists>n \<in> set (local_position_notes ?r p). blocking (nt_severity n)))
    \<or> (\<exists>x \<in> set (orders db). needs_reconcile x
         \<and> (\<exists>n \<in> set (local_order_notes (order_ids os) (order_ids ds) x). blocking (nt_severity n)))"
    using remote_order_notes_facts source_cases
    by (simp add: all_notes_def bex_Un) blast
  then show ?thesis
    unfolding ledger_agrees_def remote_position_notes_facts(2) local_position_notes_facts(2) local_order_notes_facts(2)
    by (simp add: conj_ac)
qed

definition resolved_issue :: "int \<Rightarrow> issue \<Rightarrow> issue" where
  "resolved_issue now i = i\<lparr>is_status := ISSUE_RESOLVED, is_resolved_at := Some now, is_last_seen_at := now\<rparr>"

lemma resolve_issues:
  "issues (fst (resolve_stale_issues base seen now db)) = map (\<lambda>i. if stale base seen i then resolved_issue now i else i) (issues db)"
  by (simp add: resolve_stale_issues_def resolved_issue_def)

lemma open_after_resolve:
  "set (open_issues (fst (resolve_stale_issues base seen now db)))
     = {i \<in> set (issues db). is_status i = ISSUE_OPEN \<and> \<not> stale base seen i}"
  by (auto simp: open_issues_def resolve_issues resolved_issue_def split: if_splits)

lemma run_open_issues:
  assumes "read_broker br = Inr (ps, os, ds, supported)" and "unique_issues (issues db)"
    and "run_trade_reconciliation br now db = (db', h)"
  shows "issue_key ` set (filter managed (open_issues db')) = note_key ` set (all_notes ps os ds db)"
proof -
  let ?s = "fold (note_issue db now) (all_notes ps os ds db) (start_checks db)"
  have t: "tracks db ?s" by (intro tracks_fold tracks_start assms(2))
  have seen: "set (ck_seen ?s) = note_key ` set (all_notes ps os ds db)"
    using seen_fold [OF tracks_start [OF assms(2)], of now "all_notes ps os ds db"] by simp
  have db': "set (open_issues db') = {i \<in> set (issues (ck_db ?s)). is_status i = ISSUE_OPEN \<and> \<not> stale db (ck_seen ?s) i}"
    using assms(3) open_after_resolve [of db "ck_seen ?s" now "ck_db ?s"]
    by (simp add: run_reconciliation_ok [OF assms(1)] Let_def split_def)
  show ?thesis
  proof (intro equalityI subsetI)
    fix k assume "k \<in> issue_key ` set (filter managed (open_issues db'))"
    then obtain i where i: "k = issue_key i" "i \<in> set (issues (ck_db ?s))" "is_status i = ISSUE_OPEN" "managed i"
        "\<not> stale db (ck_seen ?s) i" by (auto simp: db')
    have "issue_key i \<in> set (ck_seen ?s)"
    proof (rule ccontr)
      assume no: "issue_key i \<notin> set (ck_seen ?s)"
      with t i(2) have "i \<in> set (issues db)" by (auto simp: tracks_def)
      with i no show False by (auto simp: stale_def managed_def)
    qed
    with i(1) seen show "k \<in> note_key ` set (all_notes ps os ds db)" by simp
  next
    fix k assume k: "k \<in> note_key ` set (all_notes ps os ds db)"
    then have "k \<in> set (ck_seen ?s)" using seen by simp
    with t obtain i where i: "i \<in> set (issues (ck_db ?s))" "is_status i = ISSUE_OPEN" "issue_key i = k"
      by (auto simp: tracks_def)
    moreover have "\<not> stale db (ck_seen ?s) i" using i(3) \<open>k \<in> set (ck_seen ?s)\<close> by (simp add: stale_def)
    moreover have "managed i" using k i(3) managed_note by (auto simp: managed_def is_type_key)
    ultimately show "k \<in> issue_key ` set (filter managed (open_issues db'))" by (auto simp: db')
  qed
qed

lemma run_keeps:
  assumes "read_broker br = Inr (ps, os, ds, supported)" and "unique_issues (issues db)"
    and "run_trade_reconciliation br now db = (db', h)"
  shows "unique_issues (issues db')" "positions db' = positions db" "orders db' = orders db"
proof -
  let ?s = "fold (note_issue db now) (all_notes ps os ds db) (start_checks db)"
  have t: "tracks db ?s" by (intro tracks_fold tracks_start assms(2))
  have db': "db' = fst (resolve_stale_issues db (ck_seen ?s) now (ck_db ?s))"
    using assms(3) by (simp add: run_reconciliation_ok [OF assms(1)] Let_def split_def)
  have "map is_id (issues db') = map is_id (issues (ck_db ?s))"
    by (simp add: db' resolve_issues resolved_issue_def)
  with t show "unique_issues (issues db')" by (simp add: tracks_def unique_issues_def)
  from t show "positions db' = positions db" "orders db' = orders db"
    by (simp_all add: tracks_def db' resolve_stale_issues_def)
qed

text \<open>The severities of the stored issues belong to their types, and every run keeps that.\<close>

definition issues_typed :: "issue list \<Rightarrow> bool" where
  "issues_typed iss \<longleftrightarrow> (\<forall>i \<in> set iss. is_status i \<noteq> ISSUE_OPEN \<or> (managed i \<and> is_severity i = type_severity (is_type i)))"

lemma issues_typed_step:
  assumes t: "tracks base s" and n: "well_typed n" and w: "issues_typed (issues (ck_db s))"
  shows "issues_typed (issues (ck_db (note_issue base now n s)))"
  using t
proof (rule note_issue_cases [where n = n and now = now])
  fix i
  assume i: "i \<in> set (issues (ck_db s))" "issue_key i = note_key n" "is_status i = ISSUE_OPEN"
    and s': "note_issue base now n s = \<lparr>ck_db = (ck_db s)\<lparr>issues := put_row is_id (update_issue now n i) (issues (ck_db s))\<rparr>,
          ck_seen = note_key n # ck_seen s, ck_opened = ck_opened s\<rparr>"
  have "is_type (update_issue now n i) = nt_type n" by (simp add: is_type_key i(2))
  then show ?thesis
    using n w by (auto simp: s' issues_typed_def managed_def well_typed_def dest!: set_put_rowD)
next
  assume s': "note_issue base now n s =
          \<lparr>ck_db = (ck_db s)\<lparr>issues := issues (ck_db s) @ [new_issue (next_id is_id (issues (ck_db s))) now n]\<rparr>,
           ck_seen = note_key n # ck_seen s, ck_opened = ck_opened s + 1\<rparr>"
  have "is_type (new_issue i now n) = nt_type n" for i by (simp add: is_type_key)
  then show ?thesis using n w by (auto simp: s' issues_typed_def managed_def well_typed_def)
qed

lemma issues_typed_fold:
  "tracks base s \<Longrightarrow> \<forall>n \<in> set ns. well_typed n \<Longrightarrow> issues_typed (issues (ck_db s))
   \<Longrightarrow> issues_typed (issues (ck_db (fold (note_issue base now) ns s)))"
  by (induction ns arbitrary: s) (auto intro: tracks_step issues_typed_step)

lemma issues_typed_resolve:
  "issues_typed (issues db) \<Longrightarrow> issues_typed (issues (fst (resolve_stale_issues base seen now db)))"
  by (auto simp: issues_typed_def resolve_issues resolved_issue_def managed_def)

lemma run_keeps_typed:
  assumes "unique_issues (issues db)" and "issues_typed (issues db)" and "run_trade_reconciliation br now db = (db', h)"
  shows "issues_typed (issues db')"
proof (cases "read_broker br")
  case (Inl e)
  have n: "well_typed (account_failure_note e)"
    by (simp add: well_typed_def account_failure_note_def MANAGED_ISSUE_TYPES_def)
  from issues_typed_step [OF tracks_start [OF assms(1)] n, of now] assms(2,3) show ?thesis
    by (auto simp: run_trade_reconciliation_def Inl Let_def)
next
  case (Inr r)
  obtain ps os ds supported where r: "r = (ps, os, ds, supported)" by (cases r) auto
  let ?s = "fold (note_issue db now) (all_notes ps os ds db) (start_checks db)"
  have "issues_typed (issues (ck_db ?s))"
    by (rule issues_typed_fold [OF tracks_start [OF assms(1)]]) (use assms(2) well_typed_notes in auto)
  from issues_typed_resolve [OF this, of db "ck_seen ?s" now] assms(3) show ?thesis
    by (simp add: run_reconciliation_ok [OF Inr [unfolded r]] Let_def split_def)
qed

lemma health_allow: "he_allow_new_entries (health_payload db a b c d) \<longleftrightarrow> (\<forall>i \<in> set (open_issues db). \<not> blocking (is_severity i))"
  by (simp add: health_payload_def Let_def blocking_def)

lemma gate_of_run:
  assumes "unique_issues (issues db)" and "issues_typed (issues db)"
    and "run_trade_reconciliation br now db = (db', h)"
  shows "he_allow_new_entries h \<longleftrightarrow>
    (case read_broker br of Inl _ \<Rightarrow> False | Inr (ps, os, ds, _) \<Rightarrow> ledger_agrees ps os ds db)"
proof (cases "read_broker br")
  case (Inl e)
  let ?n = "account_failure_note e"
  let ?s = "note_issue db now ?n (start_checks db)"
  have t: "tracks db ?s" by (intro tracks_step tracks_start assms(1))
  have "note_key ?n \<in> set (ck_seen ?s)"
    using tracks_start [OF assms(1)] by (rule note_issue_cases [where n = ?n and now = now]) auto
  with t obtain i where i: "i \<in> set (issues (ck_db ?s))" "is_status i = ISSUE_OPEN" "issue_key i = note_key ?n"
    by (auto simp: tracks_def)
  have "db' = ck_db ?s" and h: "h = health_payload db' (ck_opened ?s) 0 False zh_account_sync_failed_check"
    using assms(3) by (auto simp: run_trade_reconciliation_def Inl Let_def)
  moreover have "is_severity i = CRITICAL"
    using i run_keeps_typed [OF assms] \<open>db' = ck_db ?s\<close>
    by (auto simp: issues_typed_def is_type_key account_failure_note_def)
  ultimately show ?thesis using i by (auto simp: Inl health_allow open_issues_def)
next
  case (Inr r)
  obtain ps os ds supported where r: "r = (ps, os, ds, supported)" by (cases r) auto
  note ok = Inr [unfolded r]
  let ?s = "fold (note_issue db now) (all_notes ps os ds db) (start_checks db)"
  have h: "he_allow_new_entries h \<longleftrightarrow> (\<forall>i \<in> set (open_issues db'). \<not> blocking (is_severity i))"
    using assms(3) by (auto simp: run_reconciliation_ok [OF ok] Let_def split_def health_allow)
  have keys: "issue_key ` set (filter managed (open_issues db')) = note_key ` set (all_notes ps os ds db)"
    by (rule run_open_issues [OF ok assms(1,3)])
  have typed: "managed i" "is_severity i = type_severity (fst (issue_key i))" if "i \<in> set (open_issues db')" for i
    using run_keeps_typed [OF assms] that by (auto simp: issues_typed_def open_issues_def is_type_key)
  have sev: "nt_severity n = type_severity (nt_type n)" if "n \<in> set (all_notes ps os ds db)" for n
    using well_typed_notes [OF that] by (simp add: well_typed_def)
  have "(\<exists>i \<in> set (open_issues db'). blocking (is_severity i))
    \<longleftrightarrow> (\<exists>k \<in> issue_key ` set (filter managed (open_issues db')). blocking (type_severity (fst k)))"
    using typed by auto
  also have "\<dots> \<longleftrightarrow> (\<exists>n \<in> set (all_notes ps os ds db). blocking (nt_severity n))"
    unfolding keys using sev by (simp add: bex_simps(7))
  finally show ?thesis using h blocking_notes [of ps os ds db] by (auto simp: ok)
qed

section \<open>Properties\<close>

text \<open>C6. A reconciliation allows new entries exactly when all three reads of the broker succeeded and the
  ledger agrees with the answers: every live position of the broker has an OPEN local position of
  its symbol, every OPEN local position is reported with the same quantity, and every unfinished SELL
  order is known to the broker. In particular issues that have disappeared never keep the gate shut.\<close>

theorem gate_opens_iff_ledger_agrees:
  assumes "unique_issues (issues db)" and "issues_typed (issues db)"
    and "run_trade_reconciliation br now db = (db', h)"
  shows "he_allow_new_entries h \<longleftrightarrow>
    (case read_broker br of Inl _ \<Rightarrow> False | Inr (ps, os, ds, _) \<Rightarrow> ledger_agrees ps os ds db)"
  by (rule gate_of_run [OF assms])

text \<open>A broker and a ledger that agree, and one HIGH issue left over from an earlier disagreement.\<close>

definition msft_position :: position where
  "msft_position = (new_position ''US.MSFT'' 100 95 6 30 0)\<lparr>pos_id := 1, pos_source := FUTU_DETECTED\<rparr>"

definition msft_held :: ledger where
  "msft_held = empty_ledger\<lparr>positions := [msft_position],
     issues := [new_issue 1 0 (position_note msft_position POSITION_QTY_MISMATCH HIGH [])]\<rparr>"

definition msft_broker :: "int \<Rightarrow> broker" where
  "msft_broker q = scripted_broker [] [[(''code'', PStr ''US.MSFT''), (''qty'', PInt q), (''cost_price'', PInt 100)]] [] [] []"

theorem gate_opens_iff_ledger_agrees_witness:
  "he_allow_new_entries (snd (run_trade_reconciliation (msft_broker 6) 9 msft_held))
   \<and> \<not> he_allow_new_entries (snd (run_trade_reconciliation (msft_broker 5) 9 msft_held))"
proof -
  have u: "unique_issues (issues msft_held)" "issues_typed (issues msft_held)"
    by (simp_all add: msft_held_def msft_position_def unique_issues_def issues_typed_def managed_def new_issue_def note_key_def
        position_note_def MANAGED_ISSUE_TYPES_def)
  have rd: "read_broker (msft_broker q) = Inr ([[(''code'', PStr ''US.MSFT''), (''qty'', PInt q), (''cost_price'', PInt 100)]], [], [], True)" for q
    by (simp add: read_broker_def msft_broker_def read_deals_def)
  have "ledger_agrees [[(''code'', PStr ''US.MSFT''), (''qty'', PInt 6), (''cost_price'', PInt 100)]] [] [] msft_held"
    "\<not> ledger_agrees [[(''code'', PStr ''US.MSFT''), (''qty'', PInt 5), (''cost_price'', PInt 100)]] [] [] msft_held"
    by code_simp+
  with gate_opens_iff_ledger_agrees [OF u, of "msft_broker 6" 9 "fst (run_trade_reconciliation (msft_broker 6) 9 msft_held)"]
    gate_opens_iff_ledger_agrees [OF u, of "msft_broker 5" 9 "fst (run_trade_reconciliation (msft_broker 5) 9 msft_held)"]
  show ?thesis by (simp add: rd)
qed

text \<open>C8. After a reconciliation whose reads succeeded, the open managed issues are exactly the
  disagreements found by this run: each one is open, and no other is.\<close>

theorem open_issues_are_current_disagreements:
  assumes "read_broker br = Inr (ps, os, ds, supported)" and "unique_issues (issues db)"
    and "run_trade_reconciliation br now db = (db', h)"
  shows "issue_key ` {i \<in> set (open_issues db'). managed i} = note_key ` set (all_notes ps os ds db)"
  using run_open_issues [OF assms] by simp

theorem open_issues_are_current_disagreements_witness:
  "\<exists>db' h. run_trade_reconciliation (msft_broker 6) 9 msft_held = (db', h) \<and> filter managed (open_issues db') = []"
proof -
  obtain db' h where r: "run_trade_reconciliation (msft_broker 6) 9 msft_held = (db', h)" by (metis surj_pair)
  have "issue_key ` {i \<in> set (open_issues db'). managed i}
    = note_key ` set (all_notes [[(''code'', PStr ''US.MSFT''), (''qty'', PInt 6), (''cost_price'', PInt 100)]] [] [] msft_held)"
    by (rule open_issues_are_current_disagreements [OF _ _ r])
      (simp_all add: read_broker_def msft_broker_def read_deals_def unique_issues_def msft_held_def)
  moreover have "all_notes [[(''code'', PStr ''US.MSFT''), (''qty'', PInt 6), (''cost_price'', PInt 100)]] [] [] msft_held = []"
    by code_simp
  ultimately show ?thesis using r by (auto simp: filter_empty_conv)
qed

text \<open>Reconciling again with unchanged answers finds nothing new and resolves nothing: no issue is
  opened twice and the set of open managed issues stays as it is.\<close>

theorem reconciliation_idempotent:
  assumes "read_broker br = Inr (ps, os, ds, supported)" and "unique_issues (issues db)"
    and "run_trade_reconciliation br now db = (db1, h1)"
    and "run_trade_reconciliation br now' db1 = (db2, h2)"
  shows "he_issues_opened h2 = 0 \<and> he_issues_resolved h2 = 0
    \<and> issue_key ` {i \<in> set (open_issues db2). managed i} = issue_key ` {i \<in> set (open_issues db1). managed i}"
proof -
  note keep = run_keeps [OF assms(1,2,3)]
  have nts: "all_notes ps os ds db1 = all_notes ps os ds db" by (rule all_notes_cong [OF keep(2,3)])
  have k1: "issue_key ` set (filter managed (open_issues db1)) = note_key ` set (all_notes ps os ds db)"
    by (rule run_open_issues [OF assms(1,2,3)])
  have k2: "issue_key ` set (filter managed (open_issues db2)) = note_key ` set (all_notes ps os ds db1)"
    by (rule run_open_issues [OF assms(1) keep(1) assms(4)])
  let ?s = "fold (note_issue db1 now') (all_notes ps os ds db1) (start_checks db1)"
  have t: "tracks db1 ?s" by (intro tracks_fold tracks_start keep(1))
  have "\<forall>n \<in> set (all_notes ps os ds db1). has_open db1 (note_key n)"
  proof
    fix n assume "n \<in> set (all_notes ps os ds db1)"
    then have "note_key n \<in> issue_key ` set (filter managed (open_issues db1))" unfolding k1 nts by (rule imageI)
    then show "has_open db1 (note_key n)" by (auto simp: has_open_def open_issues_def)
  qed
  then have opened: "ck_opened ?s = 0" using opened_fold [OF tracks_start [OF keep(1)]] by simp
  have seen: "set (ck_seen ?s) = note_key ` set (all_notes ps os ds db1)"
    using seen_fold [OF tracks_start [OF keep(1)], of now' "all_notes ps os ds db1"] by simp
  have "\<not> stale db1 (ck_seen ?s) i" if i: "i \<in> set (issues (ck_db ?s))" for i
  proof
    assume st: "stale db1 (ck_seen ?s) i"
    then obtain j where j: "j \<in> set (issues db1)" "is_id j = is_id i" "is_status j = ISSUE_OPEN" "managed j"
      by (auto simp: stale_def managed_def)
    with t obtain z where z: "z \<in> set (issues (ck_db ?s))" "same_issue z j" by (auto simp: tracks_def)
    with j i t have "z = i" by (auto simp: tracks_def same_issue_def intro: issue_table.same)
    with z j have "issue_key i \<in> issue_key ` set (filter managed (open_issues db1))"
      by (auto simp: same_issue_def open_issues_def)
    with k1 seen nts st show False by (simp add: stale_def)
  qed
  then have "filter (stale db1 (ck_seen ?s)) (issues (ck_db ?s)) = []" by (simp add: filter_empty_conv)
  then have "he_issues_opened h2 = 0" "he_issues_resolved h2 = 0"
    using assms(4) opened
    by (auto simp: run_reconciliation_ok [OF assms(1)] Let_def split_def health_payload_def resolve_stale_issues_def)
  with k1 k2 nts show ?thesis by simp
qed

theorem reconciliation_idempotent_witness:
  "\<exists>db1 h1 db2 h2. run_trade_reconciliation (msft_broker 5) 9 msft_held = (db1, h1) \<and> he_issues_opened h1 = 0
     \<and> run_trade_reconciliation (msft_broker 5) 20 db1 = (db2, h2) \<and> he_issues_opened h2 = 0 \<and> he_issues_resolved h2 = 0"
proof -
  obtain db1 h1 where r1: "run_trade_reconciliation (msft_broker 5) 9 msft_held = (db1, h1)" by (metis surj_pair)
  obtain db2 h2 where r2: "run_trade_reconciliation (msft_broker 5) 20 db1 = (db2, h2)" by (metis surj_pair)
  have rd: "read_broker (msft_broker 5) = Inr ([[(''code'', PStr ''US.MSFT''), (''qty'', PInt 5), (''cost_price'', PInt 100)]], [], [], True)"
    by (simp add: read_broker_def msft_broker_def read_deals_def)
  have u: "unique_issues (issues msft_held)" by (simp add: unique_issues_def msft_held_def)
  have "he_issues_opened (snd (run_trade_reconciliation (msft_broker 5) 9 msft_held)) = 0" by code_simp
  with reconciliation_idempotent [OF rd u r1 r2] r1 r2 show ?thesis by auto
qed

lemma py_or_PStr: "s \<noteq> [] \<Longrightarrow> py_or (PStr s) v = PStr s"
  by (simp add: py_or_def)

lemma gate_mode_nonempty: "gate_mode a sv r \<noteq> []"
  by (simp add: gate_mode_def)

lemma severity_str_nonempty: "severity_str v \<noteq> []"
  by (cases v) simp_all

lemma py_int_of_or_0: "py_int_of (py_or (PInt i) (PInt 0)) = Inr i"
  by (simp add: py_or_def)

lemma normalize_saved_gate:
  "ga_severity g \<noteq> [] \<Longrightarrow> ga_mode g \<noteq> []
   \<Longrightarrow> normalize_gate_payload (gate_row g v) = Inr (g\<lparr>ga_updated_at := GateText v\<rparr>)"
  by (simp add: normalize_gate_payload_def gate_row_def row_get_def py_or_PStr py_int_of_or_0 py_str_PStr_or Let_def)

lemma stored_status:
  "reconciliation_gate_status (fst (save_reconciliation_gate_status h now db)) = Inr (Some (snd (save_reconciliation_gate_status h now db)))"
  "ga_allow_new_entries (snd (save_reconciliation_gate_status h now db)) = he_allow_new_entries h"
  by (simp_all add: save_reconciliation_gate_status_def save_gate_def
      reconciliation_gate_status_def normalize_saved_gate severity_str_nonempty gate_mode_nonempty Let_def split_def)

lemma stored_failure:
  "reconciliation_gate_status (fst (save_reconciliation_gate_failure reason now db))
     = Inr (Some (snd (save_reconciliation_gate_failure reason now db)))"
  "\<not> ga_allow_new_entries (snd (save_reconciliation_gate_failure reason now db))"
  by (simp_all add: save_reconciliation_gate_failure_def save_gate_def
      reconciliation_gate_status_def normalize_saved_gate severity_str_nonempty gate_mode_nonempty Let_def split_def)

text \<open>The gate that is stored is the gate that the approval rules read back, for a reconciliation and
  for one that failed.\<close>

theorem stored_gate_roundtrip:
  "reconciliation_gate_status (fst (save_reconciliation_gate_status h now db)) = Inr (Some (snd (save_reconciliation_gate_status h now db)))
   \<and> reconciliation_gate_status (fst (save_reconciliation_gate_failure reason now db))
     = Inr (Some (snd (save_reconciliation_gate_failure reason now db)))"
  by (simp add: stored_status stored_failure)

lemma upserted_issue:
  assumes "unique_issues (issues db)" and "upsert_issue db now n db = (i, created, db')"
  shows "i \<in> set (issues db') \<and> is_status i = ISSUE_OPEN \<and> issue_key i = note_key n
    \<and> is_severity i = nt_severity n \<and> is_reason i = nt_reason n \<and> is_last_seen_at i = now"
proof (cases "scalar (filter (\<lambda>i. is_status i = ISSUE_OPEN \<and> issue_key i = note_key n) (issues db))")
  case None
  then have "i = new_issue (next_id is_id (issues db)) now n" "issues db' = issues db @ [i]"
    using assms(2) by (auto simp: upsert_issue_def Let_def)
  then show ?thesis by (simp add: new_issue_def issue_key_def split: prod.split)
next
  case (Some j)
  have j: "j \<in> set (issues db)" "is_status j = ISSUE_OPEN" "issue_key j = note_key n"
    using scalar_SomeD [OF Some] by auto
  have "get_row is_id (is_id j) (issues db) = Some j"
    by (rule issue_table.get [OF assms(1) j(1)])
  then have "i = update_issue now n j" "issues db' = put_row is_id i (issues db)"
    using assms(2) Some by (auto simp: upsert_issue_def Let_def)
  moreover from this j(1) have "i \<in> set (issues db')" by (auto simp: put_row_def update_issue_def)
  ultimately show ?thesis using j by (simp add: update_issue_def issue_key_def)
qed

text \<open>C10. After a reconciliation that raised, the gate that the approval reads back is the failed one: it is shut,
  its severity is CRITICAL and it carries the reason; an open issue of the failed run with severity CRITICAL
  and that reason is stored, and the failure is audited.\<close>

theorem failed_run_shuts_gate:
  assumes "unique_issues (issues db)" and "save_reconciliation_gate_failure reason now db = (db', g)"
  shows "reconciliation_gate_status db' = Inr (Some g) \<and> \<not> ga_allow_new_entries g \<and> ga_severity g = ''CRITICAL'' \<and> ga_reason g = reason
    \<and> (\<exists>i \<in> set (issues db'). is_type i = RECONCILIATION_RUN_FAILED \<and> is_status i = ISSUE_OPEN \<and> is_severity i = CRITICAL
        \<and> is_reason i = reason \<and> is_last_seen_at i = now)
    \<and> (\<exists>row. audits db' = audits db @ [row] \<and> al_action row = ''RECONCILIATION_RUN_FAILED'' \<and> al_status row = ''FAILED''
        \<and> al_reason row = reason)"
proof -
  obtain i created db1 where u: "upsert_issue db now (run_failure_note reason) db = (i, created, db1)" by (metis surj_pair)
  note facts = upserted_issue [OF assms(1) u]
  have rows: "nt_severity (run_failure_note reason) = CRITICAL" "nt_reason (run_failure_note reason) = reason"
    "nt_type (run_failure_note reason) = RECONCILIATION_RUN_FAILED" by (simp_all add: run_failure_note_def)
  have "is_type i = RECONCILIATION_RUN_FAILED" using facts rows(3) by (simp add: issue_key_def note_key_def)
  moreover have "audits db1 = audits db" using u by (auto simp: upsert_issue_def Let_def split: option.splits)
  moreover have "save_gate False ''CRITICAL'' reason 1 0 1 now (write_audit ''RECONCILIATION_RUN_FAILED'' [] ''ReconciliationIssue''
      (if created then None else Some (is_id i)) ''FAILED'' reason now db1) = (db', g)"
    using assms(2) by (simp add: save_reconciliation_gate_failure_def u)
  ultimately show ?thesis
    using stored_failure [of reason now db] facts rows
    by (auto simp: assms(2) save_gate_def Let_def write_audit_def)
qed

theorem failed_run_shuts_gate_witness:
  "\<exists>i \<in> set (issues (fst (save_reconciliation_gate_failure ''timeout'' 9 msft_held))).
     is_type i = RECONCILIATION_RUN_FAILED \<and> is_severity i = CRITICAL \<and> is_status i = ISSUE_OPEN"
proof -
  have u: "unique_issues (issues msft_held)" by (simp add: unique_issues_def msft_held_def)
  obtain db' g where s: "save_reconciliation_gate_failure ''timeout'' 9 msft_held = (db', g)" by fastforce
  from failed_run_shuts_gate [OF u s] show ?thesis unfolding s by auto
qed

end
