(* ===== verification/Portfolio.thy ===== *)
theory Portfolio
  imports Order_Sync "HOL-Library.Multiset"
begin

text \<open>
  app/services/portfolio_manager.py: the capital state of the simulated account, what is stored of it,
  its copy on the active plans, and the capital gate of a new order.
\<close>

section \<open>The state of the account\<close>

record portfolio_state =
  pf_status :: capital_status
  pf_available_cash :: real
  pf_open_positions :: int
  pf_open_orders :: int
  pf_reason :: string
  pf_account_equity :: real
  pf_buying_power :: real
  pf_account_equity_source :: string
  pf_sync_status :: string

definition position_is_open :: "row \<Rightarrow> bool" where
  "position_is_open row \<longleftrightarrow> float_value (get_or row [''qty'', ''quantity'']) > 0"

definition order_is_open :: "row \<Rightarrow> bool" where
  "order_is_open row \<longleftrightarrow>
     py_upper (str_or_empty (get_or row [''order_status'', ''status'']))
       \<in> {''SUBMITTED'', ''SUBMITTING'', ''WAITING_SUBMIT'', ''PARTIALLY_FILLED'', ''PART_FILLED''}"

text \<open>\<open>float(a or b or d)\<close> with a number \<open>d\<close> at the end.\<close>

definition float_or_num :: "pyval \<Rightarrow> real \<Rightarrow> exn + real" where
  "float_or_num v d = (if truthy v then py_float v else Inr d)"

definition position_snapshot_of :: "row \<Rightarrow> exn + position_snapshot" where
  "position_snapshot_of row =
     (case float_or_0 (get_or row [''qty'', ''quantity'']) of Inl e \<Rightarrow> Inl e | Inr q \<Rightarrow>
     (case float_or_0 (get_or row [''can_sell_qty'', ''available_qty'']) of Inl e \<Rightarrow> Inl e | Inr available \<Rightarrow>
     (case float_or_0 (get_or row [''cost_price'', ''average_price'']) of Inl e \<Rightarrow> Inl e | Inr cost \<Rightarrow>
     (case float_or_0 (get_or row [''market_val'', ''market_value'']) of Inl e \<Rightarrow> Inl e | Inr market_value \<Rightarrow>
     (case float_or_0 (get_or row [''pl_val'', ''pl_value'']) of Inl e \<Rightarrow> Inl e | Inr pl \<Rightarrow>
     (case float_or_0 (row_get row ''pl_ratio'') of Inl e \<Rightarrow> Inl e | Inr ratio \<Rightarrow>
        Inr \<lparr>sn_symbol = str_or_empty (get_or row [''code'', ''symbol'']),
             sn_name = str_or_empty (get_or row [''stock_name'', ''name'']),
             sn_qty = q, sn_available_qty = available, sn_cost_price = cost, sn_market_value = market_value,
             sn_pl_value = pl, sn_pl_ratio = ratio / 100,
             sn_currency = py_str (py_or (row_get row ''currency'') (PStr ''USD''))\<rparr>))))))"

definition open_local_positions :: "'z ledger_scheme \<Rightarrow> position list" where
  "open_local_positions db = filter (\<lambda>p. pos_status p = POS_OPEN) (positions db)"

definition pending_orders :: "'z ledger_scheme \<Rightarrow> sim_order list" where
  "pending_orders db = filter (\<lambda>x. so_status x \<in> {OS_SUBMITTED, OS_PARTIALLY_FILLED}) (orders db)"

text \<open>The part of the computation that reads the account; any exception ends it.\<close>

definition read_portfolio ::
  "broker option \<Rightarrow> settings \<Rightarrow> 'z ledger_scheme \<Rightarrow> exn + (portfolio_state \<times> int \<times> int \<times> row list)" where
  "read_portfolio provider st db =
     (case (case provider of None \<Rightarrow> Inr [] | Some br \<Rightarrow> get_account_info br) of Inl e \<Rightarrow> Inl e | Inr account \<Rightarrow>
     (case (case provider of None \<Rightarrow> Inr [] | Some br \<Rightarrow> get_positions br) of Inl e \<Rightarrow> Inl e | Inr remote_positions \<Rightarrow>
     (case (case provider of None \<Rightarrow> Inr [] | Some br \<Rightarrow> get_open_orders br) of Inl e \<Rightarrow> Inl e | Inr remote_orders \<Rightarrow>
     (case float_or_0 (row_get account ''cash'') of Inl e \<Rightarrow> Inl e | Inr available_cash \<Rightarrow>
     (case float_or_num (get_or account [''power'', ''max_power_short'']) available_cash of Inl e \<Rightarrow> Inl e | Inr buying_power \<Rightarrow>
     (case float_or_num (get_or account [''total_assets'', ''net_assets'', ''market_val'']) available_cash of
        Inl e \<Rightarrow> Inl e
      | Inr account_equity \<Rightarrow>
          (let remote_position_count = int (length (filter position_is_open remote_positions));
               remote_order_count = int (length (filter order_is_open remote_orders));
               open_positions = max (int (length (open_local_positions db))) remote_position_count;
               open_orders = max (int (length (pending_orders db))) remote_order_count;
               (status, reason) =
                 (if open_positions \<ge> max_positions st then (CAPITAL_FULL, zh_max_positions_reached)
                  else if account_equity \<le> 0 then (CAPITAL_UNKNOWN, zh_no_equity)
                  else if available_cash \<le> 0 \<and> provider \<noteq> None then (CAPITAL_LIMITED, zh_no_cash)
                  else (CAPITAL_AVAILABLE, zh_capital_ok))
           in Inr (\<lparr>pf_status = status, pf_available_cash = available_cash, pf_open_positions = open_positions,
                    pf_open_orders = open_orders, pf_reason = reason, pf_account_equity = account_equity,
                    pf_buying_power = buying_power, pf_account_equity_source = ''FUTU_SIM_ACCOUNT'',
                    pf_sync_status = (if account_equity > 0 then ''OK'' else ''FAILED'')\<rparr>,
                   remote_position_count, remote_order_count, remote_positions))))))))"

definition failed_portfolio :: "exn \<Rightarrow> portfolio_state" where
  "failed_portfolio e =
     \<lparr>pf_status = CAPITAL_UNKNOWN, pf_available_cash = 0, pf_open_positions = 0, pf_open_orders = 0,
      pf_reason = zh_capital_unknown_colon @ exn_str e, pf_account_equity = 0, pf_buying_power = 0,
      pf_account_equity_source = ''UNKNOWN'', pf_sync_status = ''FAILED''\<rparr>"

fun map_exn :: "('a \<Rightarrow> exn + 'b) \<Rightarrow> 'a list \<Rightarrow> exn + 'b list" where
  "map_exn f [] = Inr []"
| "map_exn f (x # xs) =
     (case f x of Inl e \<Rightarrow> Inl e | Inr y \<Rightarrow> (case map_exn f xs of Inl e \<Rightarrow> Inl e | Inr ys \<Rightarrow> Inr (y # ys)))"

definition save_portfolio_sync ::
  "bool \<Rightarrow> portfolio_state \<Rightarrow> int \<Rightarrow> int \<Rightarrow> row list \<Rightarrow> string \<Rightarrow> int \<Rightarrow> 'z ledger_scheme \<Rightarrow> exn + 'z ledger_scheme" where
  "save_portfolio_sync good state remote_positions remote_orders position_rows error now db =
     (case map_exn position_snapshot_of (filter position_is_open position_rows) of
        Inl e \<Rightarrow> Inl e
      | Inr snapshots \<Rightarrow>
          Inr (db\<lparr>portfolio_config := Some (JsonValue
            \<lparr>ps_ok = good, ps_status = pf_status state, ps_available_cash = pf_available_cash state,
             ps_account_equity = pf_account_equity state, ps_buying_power = pf_buying_power state,
             ps_account_equity_source = pf_account_equity_source state,
             ps_account_equity_sync_status = pf_sync_status state, ps_open_positions = pf_open_positions state,
             ps_open_orders = pf_open_orders state, ps_remote_positions = remote_positions,
             ps_remote_orders = remote_orders, ps_positions = snapshots, ps_reason = pf_reason state,
             ps_error = error, ps_updated_at = Some now\<rparr>)\<rparr>))"

definition CAPITAL_PLAN_STATUSES :: "plan_status list" where
  "CAPITAL_PLAN_STATUSES =
     [PL_ACTIVE, PL_PLANNED, PL_ARMED, PL_TRIGGERED, PL_WAITLIST, PL_MISSED_BY_CAPITAL, PL_NO_CHASE, PL_WAIT_PULLBACK]"

definition plan_with_capital :: "portfolio_state \<Rightarrow> settings \<Rightarrow> trade_plan \<Rightarrow> trade_plan" where
  "plan_with_capital state st pl =
     (if pl_priority_level pl \<in> {Prio_S, Prio_A} \<and> pl_status pl \<in> set CAPITAL_PLAN_STATUSES
      then pl\<lparr>pl_capital_status := pf_status state,
              pl_capital_reason := (if pf_status state = CAPITAL_AVAILABLE then [] else pf_reason state),
              pl_available_cash_snapshot := Some (pf_available_cash state),
              pl_max_new_position_value := Some (if pf_account_equity state > 0
                then pf_account_equity state * max_symbol_position_pct st else 0)\<rparr>
      else pl)"

definition apply_portfolio_state_to_plans ::
  "portfolio_state \<Rightarrow> settings \<Rightarrow> int \<Rightarrow> 'z ledger_scheme \<Rightarrow> 'z ledger_scheme" where
  "apply_portfolio_state_to_plans state st now db =
     commit now db (db\<lparr>plans := map (plan_with_capital state st) (plans db)\<rparr>)"

text \<open>
  What a failure leaves: the failed state is stored and put on the plans. A reported position that cannot
  be read as numbers ends here as well, but only if the state was stored before: the first time the blank
  row of the interrupted attempt is still pending, a second row with its key is added, and the commit
  fails.
\<close>

definition portfolio_failure ::
  "exn \<Rightarrow> settings \<Rightarrow> int \<Rightarrow> 'z ledger_scheme \<Rightarrow> 'z ledger_scheme \<times> portfolio_state" where
  "portfolio_failure e st now db =
     (let state = failed_portfolio e;
          db1 = (case save_portfolio_sync False state 0 0 [] (exn_str e) now db of Inl _ \<Rightarrow> db | Inr d \<Rightarrow> d)
      in (apply_portfolio_state_to_plans state st now db1, state))"

definition get_portfolio_state ::
  "broker option \<Rightarrow> settings \<Rightarrow> int \<Rightarrow> 'z ledger_scheme \<Rightarrow> exn + ('z ledger_scheme \<times> portfolio_state)" where
  "get_portfolio_state provider st now db =
     (case read_portfolio provider st db of
        Inl e \<Rightarrow> Inr (portfolio_failure e st now db)
      | Inr (state, n_positions, n_orders, rows) \<Rightarrow>
          (case save_portfolio_sync True state n_positions n_orders rows [] now db of
             Inr db1 \<Rightarrow> Inr (apply_portfolio_state_to_plans state st now db1, state)
           | Inl e \<Rightarrow>
               (if portfolio_config db = None
                then Inl (IntegrityError ''UNIQUE constraint failed: system_configs.key'')
                else Inr (portfolio_failure e st now db))))"

section \<open>The capital gate\<close>

definition capital_allows_new_order ::
  "trade_plan \<Rightarrow> portfolio_state \<Rightarrow> settings \<Rightarrow> 'z ledger_scheme \<Rightarrow> bool \<times> string" where
  "capital_allows_new_order plan state st db =
     (if pf_status state \<noteq> CAPITAL_AVAILABLE then (False, pf_reason state)
      else if pf_account_equity_source state \<noteq> ''FUTU_SIM_ACCOUNT'' \<or> pf_sync_status state \<noteq> ''OK'' \<or> pf_account_equity state \<le> 0
      then (False, zh_no_equity)
      else if (\<exists>p \<in> set (positions db). pos_symbol p = pl_symbol plan \<and> pos_status p = POS_OPEN) then (False, zh_symbol_held)
      else if (\<exists>x \<in> set (orders db). so_symbol x = pl_symbol plan \<and> so_status x \<in> {OS_SUBMITTED, OS_PARTIALLY_FILLED})
      then (False, zh_symbol_ordered)
      else if pf_open_positions state \<ge> max_positions st then (False, zh_max_positions_reached)
      else (True, zh_capital_gate_ok))"

section \<open>The waiting list\<close>

definition waitlisted :: "trade_plan \<Rightarrow> bool" where
  "waitlisted pl \<longleftrightarrow> pl_status pl \<in> {PL_WAITLIST, PL_MISSED_BY_CAPITAL}"

definition prio_class :: "trade_plan \<Rightarrow> int" where
  "prio_class pl = (if pl_priority_level pl = Prio_S then 0 else 1)"

text \<open>
  Sorting compares the tuples (class, last validation, id); a missing and a present validation time
  of the same class cannot be compared.
\<close>

definition incomparable :: "trade_plan list \<Rightarrow> bool" where
  "incomparable pls \<longleftrightarrow>
     (\<exists>a \<in> set pls. \<exists>b \<in> set pls. prio_class a = prio_class b \<and> pl_last_validated_at a = None \<and> pl_last_validated_at b \<noteq> None)"

definition time_or_0 :: "int option \<Rightarrow> int" where
  "time_or_0 t = (case t of None \<Rightarrow> 0 | Some v \<Rightarrow> v)"

definition waitlist_order :: "trade_plan list \<Rightarrow> trade_plan list" where
  "waitlist_order pls = sort_key (\<lambda>p. (prio_class p, time_or_0 (pl_last_validated_at p), pl_id p)) pls"

definition rank_waitlisted_plans :: "int \<Rightarrow> 'z ledger_scheme \<Rightarrow> exn + ('z ledger_scheme \<times> trade_plan list)" where
  "rank_waitlisted_plans now db =
     (let pls = filter waitlisted (plans db)
      in if incomparable pls
         then Inl (OtherError ''unorderable types: NoneType and datetime'')
         else
           (let ranked = map (\<lambda>(i, p). p\<lparr>pl_waitlist_rank := Some (int i + 1)\<rparr>) (enumerate 0 (waitlist_order pls))
            in Inr (commit now db (fold (\<lambda>p d. put_plan p d) ranked db), ranked)))"

section \<open>The stored state\<close>

definition no_portfolio :: "string \<Rightarrow> portfolio_sync" where
  "no_portfolio error =
     \<lparr>ps_ok = False, ps_status = CAPITAL_UNKNOWN, ps_available_cash = 0, ps_account_equity = 0, ps_buying_power = 0,
      ps_account_equity_source = [], ps_account_equity_sync_status = [], ps_open_positions = 0, ps_open_orders = 0,
      ps_remote_positions = 0, ps_remote_orders = 0, ps_positions = [], ps_reason = [], ps_error = error,
      ps_updated_at = None\<rparr>"

definition portfolio_sync_status :: "'z ledger_scheme \<Rightarrow> portfolio_sync" where
  "portfolio_sync_status db =
     (case portfolio_config db of
        None \<Rightarrow> no_portfolio zh_portfolio_not_synced
      | Some JsonCorrupt \<Rightarrow> no_portfolio zh_portfolio_corrupt
      | Some (JsonValue v) \<Rightarrow> v)"

definition futu_position_snapshot :: "'z ledger_scheme \<Rightarrow> position_snapshot list" where
  "futu_position_snapshot db = ps_positions (portfolio_sync_status db)"

record account_connection =
  ac_ok :: bool
  ac_status :: capital_status
  ac_remote_positions :: int
  ac_remote_orders :: int
  ac_updated_at :: "int option"
  ac_error :: string

definition check_sim_account_connection ::
  "broker option \<Rightarrow> settings \<Rightarrow> int \<Rightarrow> 'z ledger_scheme \<Rightarrow> exn + ('z ledger_scheme \<times> account_connection)" where
  "check_sim_account_connection provider st now db =
     (case get_portfolio_state provider st now db of Inl e \<Rightarrow> Inl e | Inr (db1, state) \<Rightarrow>
     (let saved = portfolio_sync_status db1
      in Inr (db1, \<lparr>ac_ok = ps_ok saved, ac_status = pf_status state, ac_remote_positions = ps_remote_positions saved,
                ac_remote_orders = ps_remote_orders saved, ac_updated_at = ps_updated_at saved, ac_error = ps_error saved\<rparr>)))"

section \<open>Lemmas\<close>

lemma apply_portfolio_sel [simp]:
  "positions (apply_portfolio_state_to_plans state st now db) = positions db"
  "orders (apply_portfolio_state_to_plans state st now db) = orders db"
  "issues (apply_portfolio_state_to_plans state st now db) = issues db"
  "gate_config (apply_portfolio_state_to_plans state st now db) = gate_config db"
  "portfolio_config (apply_portfolio_state_to_plans state st now db) = portfolio_config db"
  by (simp_all add: apply_portfolio_state_to_plans_def touch_position_def map_idI)

lemma save_portfolio_sel:
  "save_portfolio_sync g state a b rows e now db = Inr db' \<Longrightarrow>
     positions db' = positions db \<and> orders db' = orders db \<and> issues db' = issues db \<and> gate_config db' = gate_config db
     \<and> plans db' = plans db"
  by (auto simp: save_portfolio_sync_def split: sum.splits)

lemma get_portfolio_keeps:
  assumes "get_portfolio_state provider st now db = Inr (db', state)"
  shows "positions db' = positions db" "orders db' = orders db" "issues db' = issues db" "gate_config db' = gate_config db"
  using assms save_portfolio_sel
  by (auto simp: get_portfolio_state_def portfolio_failure_def Let_def split: sum.splits if_splits dest!: save_portfolio_sel)

lemma read_portfolio_state:
  assumes "read_portfolio provider st db = Inr (state, n, k, rows)"
  shows "pf_open_positions state = max (int (length (open_local_positions db))) n"
    and "pf_status state = CAPITAL_AVAILABLE \<Longrightarrow> pf_account_equity state > 0 \<and> pf_open_positions state < max_positions st
      \<and> (provider = None \<or> pf_available_cash state > 0)"
  using assms by (auto simp: read_portfolio_def Let_def split: sum.splits if_splits)

text \<open>The remote rows the state was computed from.\<close>

lemma read_portfolio_rows:
  assumes "read_portfolio (Some br) st db = Inr (state, n, k, rows)"
  shows "get_positions br = Inr rows" "n = int (length (filter position_is_open rows))"
  using assms by (auto simp: read_portfolio_def Let_def split: sum.splits if_splits)

lemma get_portfolio_available:
  assumes "get_portfolio_state provider st now db = Inr (db', state)" and "pf_status state = CAPITAL_AVAILABLE"
  shows "\<exists>n k rows. read_portfolio provider st db = Inr (state, n, k, rows)"
  using assms by (auto simp: get_portfolio_state_def portfolio_failure_def Let_def failed_portfolio_def split: sum.splits if_splits)

section \<open>Properties\<close>

text \<open>When the capital gate lets a plan through right after the account was read, then the account's
  equity and cash are positive, fewer than the maximum of positions are open both locally and at
  the broker, and the plan's symbol has neither an OPEN position nor an unfinished order.\<close>

theorem capital_gate_safe:
  assumes "get_portfolio_state (Some br) st now db = Inr (db1, state)"
    and "fst (capital_allows_new_order plan state st db1)"
  shows "pf_account_equity state > 0 \<and> pf_available_cash state > 0
    \<and> int (length (open_local_positions db1)) < max_positions st
    \<and> (case get_positions br of Inl _ \<Rightarrow> False | Inr rows \<Rightarrow> int (length (filter position_is_open rows)) < max_positions st)
    \<and> pl_symbol plan \<notin> pos_symbol ` set (open_local_positions db1)
    \<and> pl_symbol plan \<notin> so_symbol ` set (pending_orders db1)"
proof -
  have av: "pf_status state = CAPITAL_AVAILABLE" using assms(2) by (auto simp: capital_allows_new_order_def split: if_splits)
  then obtain n k rows where r: "read_portfolio (Some br) st db = Inr (state, n, k, rows)"
    using get_portfolio_available [OF assms(1)] by blast
  note keep = get_portfolio_keeps [OF assms(1)]
  have "open_local_positions db1 = open_local_positions db" by (simp add: open_local_positions_def keep)
  with read_portfolio_state [OF r] read_portfolio_rows [OF r] av
  have "pf_account_equity state > 0 \<and> pf_available_cash state > 0
    \<and> int (length (open_local_positions db1)) < max_positions st
    \<and> (case get_positions br of Inl _ \<Rightarrow> False | Inr rows \<Rightarrow> int (length (filter position_is_open rows)) < max_positions st)"
    by auto
  moreover have "pl_symbol plan \<notin> pos_symbol ` set (open_local_positions db1)"
    "pl_symbol plan \<notin> so_symbol ` set (pending_orders db1)"
    using assms(2) by (auto simp: capital_allows_new_order_def open_local_positions_def pending_orders_def split: if_splits)
  ultimately show ?thesis by blast
qed

definition funded_broker :: broker where
  "funded_broker = scripted_broker [(''cash'', PInt 50000), (''total_assets'', PInt 100000)] [] [] [] ''F9''"

theorem capital_gate_safe_witness:
  "\<exists>db1 state. get_portfolio_state (Some funded_broker) default_settings 7 empty_ledger = Inr (db1, state)
     \<and> fst (capital_allows_new_order (sample_plan 1 ''US.AAPL'') state default_settings db1) \<and> pf_available_cash state > 0"
proof -
  have "is_ok (get_portfolio_state (Some funded_broker) default_settings 7 empty_ledger)" by code_simp
  then obtain db1 state where r: "get_portfolio_state (Some funded_broker) default_settings 7 empty_ledger = Inr (db1, state)"
    by (metis is_ok_Inr surj_pair)
  have "(case get_portfolio_state (Some funded_broker) default_settings 7 empty_ledger of Inl _ \<Rightarrow> False
      | Inr (db1, state) \<Rightarrow> fst (capital_allows_new_order (sample_plan 1 ''US.AAPL'') state default_settings db1))"
    by code_simp
  with r have a: "fst (capital_allows_new_order (sample_plan 1 ''US.AAPL'') state default_settings db1)" by simp
  from capital_gate_safe [OF r a] r a show ?thesis by blast
qed

text \<open>When the account, the positions or the open orders cannot be read, no plan passes the capital
  gate, whatever was stored before, and the failure is stored.\<close>

theorem unread_account_blocks:
  assumes "\<not> is_ok (read_portfolio provider st db)" and "get_portfolio_state provider st now db = Inr (db1, state)"
  shows "\<not> fst (capital_allows_new_order plan state st db2) \<and> ps_ok (portfolio_sync_status db1) = False"
  using assms
  by (auto simp: get_portfolio_state_def portfolio_failure_def is_ok_def failed_portfolio_def capital_allows_new_order_def Let_def
      save_portfolio_sync_def portfolio_sync_status_def split: sum.splits)

definition dead_broker :: broker where
  "dead_broker = funded_broker\<lparr>get_positions := Inl (RuntimeError ''connection closed'')\<rparr>"

theorem unread_account_blocks_witness:
  "\<exists>db1 state. get_portfolio_state (Some dead_broker) default_settings 7 empty_ledger = Inr (db1, state)
     \<and> \<not> fst (capital_allows_new_order (sample_plan 1 ''US.AAPL'') state default_settings db1)"
proof -
  have "is_ok (get_portfolio_state (Some dead_broker) default_settings 7 empty_ledger)" by code_simp
  then obtain db1 state where r: "get_portfolio_state (Some dead_broker) default_settings 7 empty_ledger = Inr (db1, state)"
    by (metis is_ok_Inr surj_pair)
  have "\<not> is_ok (read_portfolio (Some dead_broker) default_settings empty_ledger)" by code_simp
  from unread_account_blocks [OF this r] r show ?thesis by blast
qed

text \<open>
  A reported position whose cost is no number stops the first pass of a new database: the failure is not
  stored, the commit of the second row raises. Once a state is stored the same answer only blocks entries.
\<close>

definition unreadable_broker :: broker where
  "unreadable_broker = scripted_broker [(''cash'', PInt 50000), (''total_assets'', PInt 100000)]
     [[(''code'', PStr ''US.AAPL''), (''qty'', PInt 5), (''cost_price'', PStr ''N/A'')]] [] [] ''F9''"

theorem unreadable_position_raises_once:
  "(case get_portfolio_state (Some unreadable_broker) default_settings 7 empty_ledger of
      Inl e \<Rightarrow> e = IntegrityError ''UNIQUE constraint failed: system_configs.key'' | Inr _ \<Rightarrow> False)
   \<and> (case get_portfolio_state (Some unreadable_broker) default_settings 7 (empty_ledger\<lparr>portfolio_config := Some JsonCorrupt\<rparr>) of
      Inl _ \<Rightarrow> False | Inr (_, state) \<Rightarrow> pf_status state = CAPITAL_UNKNOWN)"
  by code_simp

lemma waitlist_order_props [simp]:
  "set (waitlist_order pls) = set pls" "length (waitlist_order pls) = length pls"
  by (simp_all add: waitlist_order_def)

text \<open>Ranking the waiting list numbers all waiting plans from 1 without a gap, the S plans first and
  within a class the one validated longest ago first.\<close>

theorem waitlist_ranking:
  assumes "rank_waitlisted_plans now db = Inr (db', ranked)"
  shows "map pl_waitlist_rank ranked = map (\<lambda>i. Some (int i + 1)) [0..<length ranked]
    \<and> mset (map pl_id ranked) = mset (map pl_id (filter waitlisted (plans db)))
    \<and> sorted (map (\<lambda>p. (prio_class p, time_or_0 (pl_last_validated_at p), pl_id p)) ranked)"
proof -
  let ?w = "waitlist_order (filter waitlisted (plans db))"
  have r: "ranked = map (\<lambda>(i, p). p\<lparr>pl_waitlist_rank := Some (int i + 1)\<rparr>) (enumerate 0 ?w)"
    using assms by (auto simp: rank_waitlisted_plans_def Let_def split: if_splits)
  have key: "map f ranked = map f ?w" if f: "\<And>p r. f (p\<lparr>pl_waitlist_rank := r\<rparr>) = f p" for f :: "trade_plan \<Rightarrow> 'k"
  proof -
    have "map f ranked = map f (map snd (enumerate 0 ?w))"
      by (simp add: r f split_def del: map_snd_enumerate)
    then show ?thesis by simp
  qed
  have "map pl_waitlist_rank ranked = map (\<lambda>i. Some (int i + 1)) (map fst (enumerate 0 ?w))"
    by (simp add: r split_def del: map_fst_enumerate)
  then have "map pl_waitlist_rank ranked = map (\<lambda>i. Some (int i + 1)) [0..<length ranked]"
    by (simp add: r)
  moreover have "mset (map pl_id ranked) = mset (map pl_id (filter waitlisted (plans db)))"
    by (simp only: key [of pl_id, simplified] mset_map) (simp add: waitlist_order_def)
  moreover have "sorted (map (\<lambda>p. (prio_class p, time_or_0 (pl_last_validated_at p), pl_id p)) ranked)"
    by (subst key) (simp_all add: prio_class_def waitlist_order_def)
  ultimately show ?thesis by blast
qed

definition waiting_plans :: ledger where
  "waiting_plans = empty_ledger\<lparr>plans :=
     [(sample_plan 1 ''US.AAPL'')\<lparr>pl_status := PL_WAITLIST\<rparr>,
      (sample_plan 2 ''US.MSFT'')\<lparr>pl_status := PL_MISSED_BY_CAPITAL, pl_priority_level := Prio_S\<rparr>]\<rparr>"

theorem waitlist_ranking_witness:
  "\<exists>db' ranked. rank_waitlisted_plans 3 waiting_plans = Inr (db', ranked)
     \<and> map pl_id ranked = [2, 1] \<and> map pl_waitlist_rank ranked = [Some 1, Some 2]"
proof -
  have "map_sum id (\<lambda>(_, r). map pl_id r) (rank_waitlisted_plans 3 waiting_plans) = Inr [2, 1]" by code_simp
  then obtain db' ranked where r: "rank_waitlisted_plans 3 waiting_plans = Inr (db', ranked)" and i: "map pl_id ranked = [2, 1]"
    by (cases "rank_waitlisted_plans 3 waiting_plans") auto
  have "length ranked = 2" using i by (metis length_map length_Cons list.size(3) numeral_2_eq_2)
  moreover have "map pl_waitlist_rank ranked = map (\<lambda>i. Some (int i + 1)) [0..<length ranked]"
    using waitlist_ranking [OF r] by blast
  ultimately show ?thesis using r i by (simp add: numeral_2_eq_2)
qed

end
