(* ===== verification/Store.thy ===== *)
theory Store
  imports Ledger
begin

text \<open>
  The rows of the market and strategy tables (app/models.py) and the database as the ledger with
  these tables beside it. A JSON column that holds a list of tags is that list; columns that only
  print are left out (the raw metrics of a candidate).
\<close>

section \<open>Rows\<close>

record watchlist_item =
  wl_symbol :: string
  wl_name :: string
  wl_industry :: string
  wl_active :: bool

record kline =
  kl_symbol :: string
  kl_timeframe :: timeframe
  kl_ts :: int
  kl_open :: real
  kl_high :: real
  kl_low :: real
  kl_close :: real
  kl_volume :: real
  kl_turnover :: real
  kl_data_ok :: bool
  kl_anomaly_reason :: string

text \<open>The 26 computed columns of an indicator row (the dataclass IndicatorRow), and the row with its key.\<close>

record indicator_row =
  in_ma5 :: "real option"
  in_ma10 :: "real option"
  in_ma20 :: "real option"
  in_ma60 :: "real option"
  in_ema5 :: "real option"
  in_ema10 :: "real option"
  in_ema20 :: "real option"
  in_ema60 :: "real option"
  in_macd_dif :: "real option"
  in_macd_dea :: "real option"
  in_macd_hist :: "real option"
  in_atr :: "real option"
  in_volume_ma20 :: "real option"
  in_boll_mid :: "real option"
  in_boll_upper :: "real option"
  in_boll_lower :: "real option"
  in_rsi6 :: "real option"
  in_rsi14 :: "real option"
  in_kdj_k :: "real option"
  in_kdj_d :: "real option"
  in_kdj_j :: "real option"
  in_turnover :: "real option"
  in_turnover_ma20 :: "real option"
  in_volume_ratio :: "real option"
  in_change_pct :: "real option"
  in_amplitude_pct :: "real option"

record indicator = indicator_row +
  in_symbol :: string
  in_timeframe :: timeframe
  in_ts :: int

record market_state_row =
  ms_as_of :: int
  ms_state :: market_state
  ms_reason :: string
  ms_updated_at :: int

record stock_trend_row =
  st_symbol :: string
  st_as_of :: int
  st_trend :: trend
  st_reason :: string

record daily_state_row =
  ds_symbol :: string
  ds_as_of :: int
  ds_state :: daily_state
  ds_reason :: string

record structure_event =
  ev_id :: int
  ev_symbol :: string
  ev_timeframe :: timeframe
  ev_type :: event_type
  ev_ts :: int
  ev_price :: real
  ev_reason :: string
  ev_pivot_low :: "real option"
  ev_pivot_high :: "real option"
  ev_confirm_level :: "real option"
  ev_invalidation_level :: "real option"
  ev_trigger_level :: "real option"
  ev_parent_id :: "int option"
  ev_expires_at :: "int option"
  ev_script_version :: string
  ev_invalidated :: bool
  ev_follow_5_return :: "real option"
  ev_follow_10_return :: "real option"
  ev_follow_20_return :: "real option"
  ev_max_up_return :: "real option"
  ev_max_down_return :: "real option"
  ev_market_state :: string
  ev_stock_trend :: string
  ev_direction :: string
  ev_stage :: string
  ev_quality_score :: "real option"
  ev_battle_eligible :: bool
  ev_suggested_action :: string
  ev_became_failed :: bool
  ev_triggered_entry :: bool

record trading_state =
  ts_symbol :: string
  ts_state :: trading_phase
  ts_next_wait :: string
  ts_cooldown_until :: "int option"
  ts_last_reason :: string

record transition_log =
  tl_symbol :: string
  tl_from :: trading_phase
  tl_to :: trading_phase
  tl_reason :: string

record risk_config =
  rk_account_equity :: real
  rk_risk_per_trade_pct :: real
  rk_neutral_risk_multiplier :: real
  rk_script_b_risk_multiplier :: real
  rk_max_positions :: int
  rk_max_symbol_position_pct :: real
  rk_max_industry_exposure_pct :: real
  rk_cooldown_days :: int

record trade_signal =
  sg_id :: int
  sg_symbol :: string
  sg_type :: signal_type
  sg_script :: script
  sg_status :: signal_status
  sg_action :: string
  sg_entry_price :: "real option"
  sg_stop_price :: "real option"
  sg_target_position_pct :: "real option"
  sg_shares :: "int option"
  sg_risk_amount :: "real option"
  sg_risk_per_share :: "real option"
  sg_allowed_loss :: "real option"
  sg_position_value :: "real option"
  sg_risk_r :: "real option"
  sg_source_structure_id :: "int option"
  sg_trigger_timeframe :: "timeframe option"
  sg_trigger_ts :: "int option"
  sg_trigger_level :: "real option"
  sg_expires_at :: "int option"
  sg_cancel_reason :: string
  sg_script_version :: string
  sg_reason :: string
  sg_score_display :: "real option"
  sg_created_at :: int

record approval_record =
  ar_signal_id :: int
  ar_decision :: string
  ar_note :: string

record candidate =
  cd_symbol :: string
  cd_name :: string
  cd_market :: string
  cd_pool_type :: string
  cd_pool_types :: "string list"
  cd_tags :: "string list"
  cd_selected_reason :: string
  cd_rank_score :: real
  cd_liquidity_score :: real
  cd_heat_score :: real
  cd_technical_score :: real
  cd_active :: bool
  cd_selected_at :: int
  cd_first_selected_at :: "int option"
  cd_last_selected_at :: "int option"
  cd_age_days :: int
  cd_status :: string
  cd_carry_reason :: string
  cd_dropped_reason :: string

text \<open>The defaults of the columns.\<close>

definition new_candidate :: "string \<Rightarrow> int \<Rightarrow> candidate" where
  "new_candidate symbol now = \<lparr>cd_symbol = symbol, cd_name = [], cd_market = ''US'', cd_pool_type = [], cd_pool_types = [], cd_tags = [],
     cd_selected_reason = [], cd_rank_score = 0, cd_liquidity_score = 0, cd_heat_score = 0, cd_technical_score = 0,
     cd_active = True, cd_selected_at = now, cd_first_selected_at = None, cd_last_selected_at = None, cd_age_days = 0,
     cd_status = ''ACTIVE_TODAY'', cd_carry_reason = [], cd_dropped_reason = []\<rparr>"

record candidate_snapshot =
  cs_run_id :: string
  cs_symbol :: string
  cs_pool_type :: string
  cs_pool_types :: "string list"
  cs_tags :: "string list"
  cs_rank_score :: real

record battle_item =
  bp_id :: int
  bp_symbol :: string
  bp_direction :: direction
  bp_priority_level :: priority
  bp_source_structure_id :: int
  bp_daily_state :: daily_state
  bp_structure_type :: event_type
  bp_score :: real
  bp_reason :: string
  bp_next_wait :: string
  bp_active :: bool

section \<open>The database\<close>

record store = ledger +
  watchlist :: "watchlist_item list"
  klines :: "kline list"
  indicators :: "indicator list"
  market_states :: "market_state_row list"
  stock_trends :: "stock_trend_row list"
  daily_states :: "daily_state_row list"
  structure_events :: "structure_event list"
  trading_states :: "trading_state list"
  transition_logs :: "transition_log list"
  risk_configs :: "risk_config list"
  trade_signals :: "trade_signal list"
  approval_records :: "approval_record list"
  candidates :: "candidate list"
  candidate_snapshots :: "candidate_snapshot list"
  battle_items :: "battle_item list"

definition empty_store :: store where
  "empty_store = ledger.extend empty_ledger
     (store.fields [] [] [] [] [] [] [] [] [] [] [] [] [] [] [])"

text \<open>An indicator row with nothing computed yet.\<close>

definition blank_row :: indicator_row where
  "blank_row = \<lparr>in_ma5 = None, in_ma10 = None, in_ma20 = None, in_ma60 = None, in_ema5 =
     None, in_ema10 = None, in_ema20 = None, in_ema60 = None, in_macd_dif = None, in_macd_dea =
     None, in_macd_hist = None, in_atr = None, in_volume_ma20 = None, in_boll_mid = None,
     in_boll_upper = None, in_boll_lower = None, in_rsi6 = None, in_rsi14 = None, in_kdj_k = None,
     in_kdj_d = None, in_kdj_j = None, in_turnover = None, in_turnover_ma20 = None, in_volume_ratio
     = None, in_change_pct = None, in_amplitude_pct = None\<rparr>"

definition keyed_row :: "string \<Rightarrow> timeframe \<Rightarrow> int \<Rightarrow> indicator_row \<Rightarrow> indicator" where
  "keyed_row symbol tf t r = indicator_row.extend r (indicator.fields symbol tf t)"

section \<open>Quotes\<close>

text \<open>
  The quote provider as one call sees it: a snapshot of the given symbols, or an exception.
\<close>

type_synonym quotes = "string list \<Rightarrow> exn + row list"

text \<open>
  The clock: the time in UTC, and the conversion to the local time of New York by which the trading
  session is judged. The conversion belongs to the time-zone database, so it is a parameter.
\<close>

record clock =
  cl_utc :: int
  cl_zone :: "int \<Rightarrow> int"

definition cl_ny :: "clock \<Rightarrow> int" where
  "cl_ny ck = cl_zone ck (cl_utc ck)"

text \<open>Noon of a Monday in New York.\<close>

definition monday_noon :: clock where
  "monday_noon = \<lparr>cl_utc = days 4 + minutes (17 * 60), cl_zone = (\<lambda>t. t - minutes (5 * 60))\<rparr>"

definition row_float :: "row \<Rightarrow> string list \<Rightarrow> real" where
  "row_float row keys =
     (case filter (\<lambda>v. v \<noteq> 0) (map (\<lambda>k. float_value (row_get row k)) keys) of [] \<Rightarrow> 0 | v # _ \<Rightarrow> v)"

lemma row_float_Nil [simp]: "row_float row [] = 0"
  by (simp add: row_float_def)

end
