(* ===== verification/Rules_Approval.thy ===== *)
theory Rules_Approval
  imports Reconciler Portfolio Store
begin

text \<open>
  app/services/rules_approval.py: the checks a triggered plan must pass before an order may be sent,
  in the order of the code: the daily risk block, the sixteen checks on the plan, the quote and the
  market, the capital gate and the reconciliation gate. The first failing one decides.
\<close>

section \<open>What the approval sees of the market\<close>

text \<open>
  The context the validator built for the plan in this run; \<open>None\<close> is the empty dictionary of a plan
  that was not validated.
\<close>

record realtime_context =
  rc_current_price :: real
  rc_bid_price :: real
  rc_ask_price :: real
  rc_spread_pct :: "real option"
  rc_spread_available :: bool
  rc_volume :: real
  rc_volume_ok :: bool
  rc_volume_available :: bool
  rc_short_trend_ok :: "bool option"
  rc_short_trend_reason :: string
  rc_market_state :: market_state
  rc_market_state_available :: bool
  rc_market_state_reason :: string

record decision =
  de_decision :: approval_status
  de_reason :: string

definition approved :: "decision \<Rightarrow> bool" where
  "approved d \<longleftrightarrow> de_decision d = APPROVED_FOR_SIM_TRADE"

definition ctx_price :: "realtime_context option \<Rightarrow> real" where
  "ctx_price ctx = (case ctx of None \<Rightarrow> 0 | Some c \<Rightarrow> rc_current_price c)"

definition ctx_flag :: "(realtime_context \<Rightarrow> bool) \<Rightarrow> realtime_context option \<Rightarrow> bool" where
  "ctx_flag f ctx = (case ctx of None \<Rightarrow> False | Some c \<Rightarrow> f c)"

definition ctx_spread :: "realtime_context option \<Rightarrow> real" where
  "ctx_spread ctx = (case ctx of None \<Rightarrow> 0 | Some c \<Rightarrow> opt_or (rc_spread_pct c) 0)"

definition ctx_trend :: "realtime_context option \<Rightarrow> bool option" where
  "ctx_trend ctx = (case ctx of None \<Rightarrow> None | Some c \<Rightarrow> rc_short_trend_ok c)"

definition ctx_market_reason :: "realtime_context option \<Rightarrow> string" where
  "ctx_market_reason ctx = str_or (case ctx of None \<Rightarrow> [] | Some c \<Rightarrow> rc_market_state_reason c) zh_market_not_refreshed"

section \<open>The daily risk block\<close>

definition submitted_today :: "int \<Rightarrow> 'z ledger_scheme \<Rightarrow> int" where
  "submitted_today now db =
     int (length (filter (\<lambda>a. al_action a = ''SIM_ORDER_SUBMITTED'' \<and> date_of (al_created_at a) = date_of now) (audits db)))"

definition closed_today :: "int \<Rightarrow> 'z ledger_scheme \<Rightarrow> position list" where
  "closed_today now db =
     order_desc pos_updated_at
       (filter (\<lambda>p. pos_status p = POS_CLOSED \<and> pos_close_verified p \<and> date_of (pos_updated_at p) = date_of now) (positions db))"

definition daily_risk_block :: "settings \<Rightarrow> int \<Rightarrow> 'z ledger_scheme \<Rightarrow> string" where
  "daily_risk_block st now db =
     (if submitted_today now db \<ge> max_daily_new_trades st then zh_daily_trades_reached
      else
        (let closed_positions = closed_today now db;
             losses = filter (\<lambda>r. r < 0) (map pos_current_r closed_positions)
         in if sum_list losses \<le> - (max_daily_loss_pct st / max (risk_per_trade_pct st) (1/10000)) then zh_daily_loss_reached
            else if int (length (takeWhile (\<lambda>p. pos_current_r p < 0) closed_positions)) \<ge> max_consecutive_losses st
            then zh_losing_streak
            else []))"

section \<open>The entry window\<close>

text \<open>The argument is the local time in New York.\<close>

definition entry_time_allowed :: "settings \<Rightarrow> int \<Rightarrow> bool" where
  "entry_time_allowed st ny =
     (if weekday (date_of ny) \<ge> 5 then False
      else minute_of_day ny \<ge> (9 * 60 + 30) + no_new_entry_before_minutes_after_open st
         \<and> minute_of_day ny < 16 * 60 - no_new_entry_before_close_minutes st)"

section \<open>The reconciliation gate\<close>

text \<open>Ordering by the text of the severity puts HIGH before CRITICAL.\<close>

fun severity_text_rank :: "severity \<Rightarrow> int" where
  "severity_text_rank CRITICAL = 0"
| "severity_text_rank HIGH = 1"
| "severity_text_rank INFO = 2"
| "severity_text_rank WARN = 3"

definition blocking_issue :: "'z ledger_scheme \<Rightarrow> issue option" where
  "blocking_issue db =
     scalar (order_desc2 (\<lambda>i. severity_text_rank (is_severity i)) is_last_seen_at
       (filter (\<lambda>i. is_status i = ISSUE_OPEN \<and> is_severity i \<in> {HIGH, CRITICAL}) (issues db)))"

definition reconciliation_allows_new_entries :: "'z ledger_scheme \<Rightarrow> exn + (bool \<times> string)" where
  "reconciliation_allows_new_entries db =
     (case reconciliation_gate_status db of
        Inl e \<Rightarrow> Inl e
      | Inr None \<Rightarrow> Inr (False, zh_gate_never_run)
      | Inr (Some g) \<Rightarrow>
          (case blocking_issue db of
             Some i \<Rightarrow> Inr (False, str_or (is_reason i) zh_gate_blocking_issue)
           | None \<Rightarrow>
               (if \<not> ga_allow_new_entries g then Inr (False, str_or (ga_reason g) zh_gate_forbids)
                else Inr (True, str_or (ga_reason g) zh_gate_passed))))"

section \<open>The decision\<close>

definition approval_checks ::
  "trade_plan \<Rightarrow> realtime_context option \<Rightarrow> settings \<Rightarrow> int \<Rightarrow> (bool \<times> approval_status \<times> string) list" where
  "approval_checks plan ctx st ny =
     [(enable_sim_trading st, REJECTED_BY_RISK, zh_sim_off),
      (\<not> enable_real_trading st, REJECTED_BY_RISK, zh_real_on),
      (pl_priority_level plan \<in> {Prio_S, Prio_A}, REJECTED_BY_RISK, zh_only_sa),
      (pl_direction plan = LONG, REJECTED_BY_RISK, zh_only_long),
      (pl_status plan = PL_TRIGGERED, REJECTED_BY_PRICE, zh_not_triggered),
      (ctx_price ctx \<ge> opt_or (pl_breakout_entry_price plan) 0, REJECTED_BY_PRICE, zh_below_breakout),
      (ctx_price ctx \<le> opt_or (pl_no_chase_above plan) 0, REJECTED_BY_PRICE, zh_chasing),
      (ctx_flag rc_spread_available ctx, REJECTED_BY_DATA, zh_no_spread),
      (ctx_spread ctx \<le> max_spread_pct st, REJECTED_BY_DATA, zh_wide_spread),
      (ctx_flag rc_volume_available ctx, REJECTED_BY_DATA, zh_no_volume),
      (ctx_flag rc_volume_ok ctx, REJECTED_BY_DATA, zh_bad_volume),
      (ctx_trend ctx \<noteq> None, REJECTED_BY_DATA, zh_no_short_trend),
      (ctx_trend ctx = Some True, REJECTED_BY_PRICE, zh_short_trend_broken),
      (ctx_flag rc_market_state_available ctx, REJECTED_BY_DATA, ctx_market_reason ctx),
      (\<not> ctx_flag (\<lambda>c. rc_market_state c = RISK_OFF) ctx, REJECTED_BY_MARKET, zh_market_risk_off),
      (entry_time_allowed st ny, REJECTED_BY_RISK, zh_entry_time_forbidden)]"

fun first_failed :: "(bool \<times> approval_status \<times> string) list \<Rightarrow> (approval_status \<times> string) option" where
  "first_failed [] = None"
| "first_failed ((passed, d, r) # cs) = (if passed then first_failed cs else Some (d, r))"

definition reject_plan ::
  "trade_plan \<Rightarrow> approval_status \<Rightarrow> string \<Rightarrow> int \<Rightarrow> 'z ledger_scheme \<Rightarrow> 'z ledger_scheme \<times> decision" where
  "reject_plan plan d reason now db =
     (write_audit ''RULES_REJECTED'' (pl_symbol plan) ''TradePlan'' (Some (pl_id plan)) ''REJECTED'' reason now
        (put_plan (plan\<lparr>pl_rules_approval_status := d, pl_rules_reject_reason := reason\<rparr>) db),
      \<lparr>de_decision = d, de_reason = reason\<rparr>)"

definition miss_by_capital ::
  "trade_plan \<Rightarrow> realtime_context option \<Rightarrow> portfolio_state \<Rightarrow> string \<Rightarrow> int \<Rightarrow> 'z ledger_scheme \<Rightarrow> 'z ledger_scheme \<times> decision" where
  "miss_by_capital plan ctx state reason now db =
     (write_audit ''MISSED_BY_CAPITAL'' (pl_symbol plan) ''TradePlan'' (Some (pl_id plan)) ''BLOCKED'' reason now
        (put_plan (plan\<lparr>pl_status := (if pl_status plan = PL_TRIGGERED then PL_MISSED_BY_CAPITAL else PL_WAITLIST),
                       pl_capital_status := pf_status state, pl_capital_reason := reason,
                       pl_missed_by_capital_at := Some now,
                       pl_missed_by_capital_price := map_option rc_current_price ctx\<rparr>) db),
      \<lparr>de_decision = REJECTED_BY_CAPITAL, de_reason = reason\<rparr>)"

definition reject_by_reconciliation ::
  "trade_plan \<Rightarrow> string \<Rightarrow> int \<Rightarrow> 'z ledger_scheme \<Rightarrow> 'z ledger_scheme \<times> decision" where
  "reject_by_reconciliation plan reason now db =
     (write_audit ''RULES_REJECTED_BY_RECONCILIATION'' (pl_symbol plan) ''TradePlan'' (Some (pl_id plan)) ''REJECTED'' reason now
        (put_plan (plan\<lparr>pl_rules_approval_status := REJECTED_BY_RECONCILIATION, pl_rules_reject_reason := reason\<rparr>) db),
      \<lparr>de_decision = REJECTED_BY_RECONCILIATION, de_reason = reason\<rparr>)"

definition approve_plan :: "trade_plan \<Rightarrow> int \<Rightarrow> 'z ledger_scheme \<Rightarrow> 'z ledger_scheme \<times> decision" where
  "approve_plan plan now db =
     (write_audit ''RULES_APPROVED'' (pl_symbol plan) ''TradePlan'' (Some (pl_id plan)) ''APPROVED'' zh_rules_passed now
        (put_plan (plan\<lparr>pl_rules_approval_status := APPROVED_FOR_SIM_TRADE, pl_rules_reject_reason := []\<rparr>) db),
      \<lparr>de_decision = APPROVED_FOR_SIM_TRADE, de_reason = zh_rules_passed\<rparr>)"

text \<open>Every branch ends in a commit.\<close>

definition rules_approve_trade_plan ::
  "trade_plan \<Rightarrow> realtime_context option \<Rightarrow> portfolio_state \<Rightarrow> settings \<Rightarrow> clock \<Rightarrow> 'z ledger_scheme
     \<Rightarrow> exn + ('z ledger_scheme \<times> decision)" where
  "rules_approve_trade_plan plan ctx state st ck db =
     (let now = cl_utc ck; finish = (\<lambda>(db1, d). Inr (commit now db db1, d)); risk_block = daily_risk_block st now db
      in if risk_block \<noteq> [] then finish (reject_plan plan REJECTED_BY_RISK risk_block now db)
         else case first_failed (approval_checks plan ctx st (cl_ny ck)) of
           Some (d, reason) \<Rightarrow> finish (reject_plan plan d reason now db)
         | None \<Rightarrow>
             (let (allowed, capital_reason) = capital_allows_new_order plan state st db
              in if \<not> allowed then finish (miss_by_capital plan ctx state capital_reason now db)
                 else case reconciliation_allows_new_entries db of
                   Inl e \<Rightarrow> Inl e
                 | Inr (False, reason) \<Rightarrow> finish (reject_by_reconciliation plan reason now db)
                 | Inr (True, _) \<Rightarrow> finish (approve_plan plan now db)))"

section \<open>Lemmas\<close>

lemma first_failed_None: "first_failed cs = None \<longleftrightarrow> (\<forall>c \<in> set cs. fst c)"
  by (induction cs rule: first_failed.induct) auto

lemma first_failed_Some: "first_failed cs = Some (d, r) \<Longrightarrow> (False, d, r) \<in> set cs"
  by (induction cs rule: first_failed.induct) (auto split: if_splits)

lemma gate_open_no_blocking:
  assumes "reconciliation_allows_new_entries db = Inr (True, r)"
  shows "\<forall>i \<in> set (open_issues db). is_severity i \<notin> {HIGH, CRITICAL}"
  using assms
  by (auto simp: reconciliation_allows_new_entries_def blocking_issue_def open_issues_def filter_empty_conv
      split: sum.splits option.splits if_splits)

lemma rules_approve_cases:
  assumes "rules_approve_trade_plan plan ctx state st ck db = Inr (db', d)"
  obtains (rejected) dd r where "db' = commit (cl_utc ck) db (fst (reject_plan plan dd r (cl_utc ck) db))" "de_decision d = dd"
      "daily_risk_block st (cl_utc ck) db \<noteq> [] \<and> dd = REJECTED_BY_RISK
        \<or> (False, dd, r) \<in> set (approval_checks plan ctx st (cl_ny ck))"
  | (missed) r where "db' = commit (cl_utc ck) db (fst (miss_by_capital plan ctx state r (cl_utc ck) db))"
      "de_decision d = REJECTED_BY_CAPITAL" "\<not> fst (capital_allows_new_order plan state st db)"
      "\<forall>c \<in> set (approval_checks plan ctx st (cl_ny ck)). fst c"
  | (gated) r where "db' = commit (cl_utc ck) db (fst (reject_by_reconciliation plan r (cl_utc ck) db))"
      "de_decision d = REJECTED_BY_RECONCILIATION" "reconciliation_allows_new_entries db = Inr (False, r)"
  | (passed) r where "db' = commit (cl_utc ck) db (fst (approve_plan plan (cl_utc ck) db))" "approved d"
      "daily_risk_block st (cl_utc ck) db = []" "\<forall>c \<in> set (approval_checks plan ctx st (cl_ny ck)). fst c"
      "fst (capital_allows_new_order plan state st db)" "reconciliation_allows_new_entries db = Inr (True, r)"
proof (cases "daily_risk_block st (cl_utc ck) db = []")
  case False
  with assms show thesis
    by (intro rejected) (auto simp: rules_approve_trade_plan_def reject_plan_def Let_def)
next
  case True
  show thesis
  proof (cases "first_failed (approval_checks plan ctx st (cl_ny ck))")
    case (Some x)
    obtain dd r where x: "x = (dd, r)" by fastforce
    show thesis
      by (rule rejected [of dd r]) (use assms True Some x first_failed_Some in
          \<open>auto simp: rules_approve_trade_plan_def reject_plan_def Let_def\<close>)
  next
    case None
    then have all: "\<forall>c \<in> set (approval_checks plan ctx st (cl_ny ck)). fst c" by (simp add: first_failed_None)
    show thesis
    proof (cases "fst (capital_allows_new_order plan state st db)")
      case False
      with assms True None all show thesis
        by (intro missed) (auto simp: rules_approve_trade_plan_def miss_by_capital_def Let_def split_def)
    next
      case cap: True
      then obtain b r where g: "reconciliation_allows_new_entries db = Inr (b, r)"
        using assms True None by (auto simp: rules_approve_trade_plan_def Let_def split_def split: sum.splits)
      show thesis
      proof (cases b)
        case True
        with assms \<open>daily_risk_block st (cl_utc ck) db = []\<close> None all cap g show thesis
          by (intro passed [of r]) (auto simp: rules_approve_trade_plan_def approve_plan_def approved_def Let_def split_def)
      next
        case False
        with assms \<open>daily_risk_block st (cl_utc ck) db = []\<close> None all cap g show thesis
          by (intro gated [of r])
            (auto simp: rules_approve_trade_plan_def reject_by_reconciliation_def Let_def split_def)
      qed
    qed
  qed
qed

text \<open>
  The daily limits, stated on the rows: the entries sent today are fewer than allowed, the losses (in
  units of risk) of the positions whose closing today is verified stay above the limit, and these closings,
  newest first, do not begin with too many losses.
\<close>

definition within_daily_limits :: "settings \<Rightarrow> int \<Rightarrow> 'z ledger_scheme \<Rightarrow> bool" where
  "within_daily_limits st now db \<longleftrightarrow>
     int (length (filter (\<lambda>a. al_action a = ''SIM_ORDER_SUBMITTED'' \<and> date_of (al_created_at a) = date_of now) (audits db)))
       < max_daily_new_trades st
     \<and> (let closings = filter (\<lambda>p. pos_status p = POS_CLOSED \<and> pos_close_verified p \<and> date_of (pos_updated_at p) = date_of now)
                          (positions db)
        in - (max_daily_loss_pct st / max (risk_per_trade_pct st) (1/10000)) < (\<Sum>p\<leftarrow>closings. min 0 (pos_current_r p))
         \<and> (\<exists>ps. mset ps = mset closings \<and> sorted_wrt (\<lambda>p q. pos_updated_at q \<le> pos_updated_at p) ps
              \<and> int (length (takeWhile (\<lambda>p. pos_current_r p < 0) ps)) < max_consecutive_losses st))"

lemma sum_losses: "sum_list (filter (\<lambda>r. r < 0) (map f xs)) = (\<Sum>x\<leftarrow>xs. min 0 (f x :: real))"
  by (induction xs) (auto simp: min_def)

lemma sum_list_perm:
  assumes "mset xs = mset ys"
  shows "(\<Sum>x\<leftarrow>xs. f x) = (\<Sum>x\<leftarrow>ys. f x :: real)"
  using arg_cong [OF assms, of "\<lambda>M. sum_mset (image_mset f M)"] by (simp only: mset_map [symmetric] sum_mset_sum_list)

lemma no_block_within_limits:
  assumes "daily_risk_block st now db = []"
  shows "within_daily_limits st now db"
proof -
  let ?closings = "filter (\<lambda>p. pos_status p = POS_CLOSED \<and> pos_close_verified p \<and> date_of (pos_updated_at p) = date_of now) (positions db)"
  have perm: "mset (closed_today now db) = mset ?closings" by (simp add: closed_today_def order_desc_def)
  have "sorted (map (\<lambda>p. - pos_updated_at p) (closed_today now db))" by (simp add: closed_today_def order_desc_def)
  then have newest: "sorted_wrt (\<lambda>p q. pos_updated_at q \<le> pos_updated_at p) (closed_today now db)"
    by (simp only: sorted_map neg_le_iff_le)
  have "sum_list (map (\<lambda>p. min 0 (pos_current_r p)) (closed_today now db)) = (\<Sum>p\<leftarrow>?closings. min 0 (pos_current_r p))"
    by (rule sum_list_perm [OF perm])
  then have loss: "- (max_daily_loss_pct st / max (risk_per_trade_pct st) (1/10000)) < (\<Sum>p\<leftarrow>?closings. min 0 (pos_current_r p))"
    and streak: "int (length (takeWhile (\<lambda>p. pos_current_r p < 0) (closed_today now db))) < max_consecutive_losses st"
    and sent: "submitted_today now db < max_daily_new_trades st"
    using assms by (auto simp: daily_risk_block_def zh_nonempty sum_losses Let_def split: if_splits)
  show ?thesis unfolding within_daily_limits_def Let_def
    by (intro conjI exI [of _ "closed_today now db"] loss streak perm newest sent [unfolded submitted_today_def])
qed

section \<open>Properties\<close>

text \<open>C3. A plan is approved only if simulated trading is on and real trading off, it is a triggered long S
  or A plan, the price lies between its breakout price and its no-chase line, spread, volume and short
  trend are there and confirmed, the market state is of today and not RISK_OFF, New York is inside the entry
  window of a weekday, the daily limits are kept (entries sent, losses realised, losing closings in a row), the
  account has equity and room, the symbol has neither position nor pending order, and the reconciliation
  gate is open with no open HIGH or CRITICAL issue.\<close>

theorem approved_only_if_all_rules_hold:
  assumes "rules_approve_trade_plan plan ctx state st ck db = Inr (db', d)" and "approved d"
  shows "enable_sim_trading st \<and> \<not> enable_real_trading st
    \<and> pl_priority_level plan \<in> {Prio_S, Prio_A} \<and> pl_direction plan = LONG \<and> pl_status plan = PL_TRIGGERED
    \<and> (case ctx of None \<Rightarrow> False | Some c \<Rightarrow>
         opt_or (pl_breakout_entry_price plan) 0 \<le> rc_current_price c
         \<and> rc_current_price c \<le> opt_or (pl_no_chase_above plan) 0
         \<and> rc_spread_available c \<and> opt_or (rc_spread_pct c) 0 \<le> max_spread_pct st
         \<and> rc_volume_available c \<and> rc_volume_ok c \<and> rc_short_trend_ok c = Some True
         \<and> rc_market_state_available c \<and> rc_market_state c \<noteq> RISK_OFF)
    \<and> weekday (date_of (cl_ny ck)) < 5
    \<and> 9 * 60 + 30 + no_new_entry_before_minutes_after_open st \<le> minute_of_day (cl_ny ck)
    \<and> minute_of_day (cl_ny ck) < 16 * 60 - no_new_entry_before_close_minutes st
    \<and> within_daily_limits st (cl_utc ck) db
    \<and> fst (capital_allows_new_order plan state st db)
    \<and> pf_status state = CAPITAL_AVAILABLE \<and> 0 < pf_account_equity state \<and> pf_open_positions state < max_positions st
    \<and> (\<forall>p \<in> set (positions db). pos_symbol p = pl_symbol plan \<longrightarrow> pos_status p \<noteq> POS_OPEN)
    \<and> (\<forall>x \<in> set (orders db). so_symbol x = pl_symbol plan \<longrightarrow> so_status x \<notin> {OS_SUBMITTED, OS_PARTIALLY_FILLED})
    \<and> (\<forall>i \<in> set (issues db). is_status i = ISSUE_OPEN \<longrightarrow> is_severity i \<notin> {HIGH, CRITICAL})
    \<and> (case reconciliation_gate_status db of Inr (Some g) \<Rightarrow> ga_allow_new_entries g | _ \<Rightarrow> False)"
  using assms(1)
proof (cases rule: rules_approve_cases)
  case rejected
  with assms(2) show ?thesis by (auto simp: approved_def approval_checks_def)
next
  case missed
  with assms(2) show ?thesis by (simp add: approved_def)
next
  case gated
  with assms(2) show ?thesis by (simp add: approved_def)
next
  case (passed r)
  have gate: "case reconciliation_gate_status db of Inr (Some g) \<Rightarrow> ga_allow_new_entries g | _ \<Rightarrow> False"
    using passed(6) by (auto simp: reconciliation_allows_new_entries_def split: sum.splits option.splits if_splits)
  have capital: "pf_status state = CAPITAL_AVAILABLE \<and> 0 < pf_account_equity state \<and> pf_open_positions state < max_positions st"
    "\<forall>p \<in> set (positions db). pos_symbol p = pl_symbol plan \<longrightarrow> pos_status p \<noteq> POS_OPEN"
    "\<forall>x \<in> set (orders db). so_symbol x = pl_symbol plan \<longrightarrow> so_status x \<notin> {OS_SUBMITTED, OS_PARTIALLY_FILLED}"
    using passed(5) by (auto simp: capital_allows_new_order_def split: if_splits)
  have issues: "\<forall>i \<in> set (issues db). is_status i = ISSUE_OPEN \<longrightarrow> is_severity i \<notin> {HIGH, CRITICAL}"
    using gate_open_no_blocking [OF passed(6)] by (simp add: open_issues_def)
  have ctx: "\<exists>c. ctx = Some c"
    using passed(4) by (cases ctx) (auto simp: approval_checks_def ctx_flag_def)
  then obtain c where c: "ctx = Some c" by blast
  have window: "weekday (date_of (cl_ny ck)) < 5 \<and> 9 * 60 + 30 + no_new_entry_before_minutes_after_open st \<le> minute_of_day (cl_ny ck)
      \<and> minute_of_day (cl_ny ck) < 16 * 60 - no_new_entry_before_close_minutes st"
    using passed(4) by (auto simp: approval_checks_def entry_time_allowed_def split: if_splits)
  from passed(4) show ?thesis
    using no_block_within_limits [OF passed(3)] gate capital issues window passed(5)
    by (simp add: c approval_checks_def ctx_price_def ctx_spread_def ctx_flag_def ctx_trend_def)
qed

text \<open>A context in which nothing speaks against the sample plan, and a ledger with an open gate.\<close>

definition good_context :: realtime_context where
  "good_context = \<lparr>rc_current_price = 101, rc_bid_price = 101, rc_ask_price = 101, rc_spread_pct = Some 0,
     rc_spread_available = True, rc_volume = 1000, rc_volume_ok = True, rc_volume_available = True,
     rc_short_trend_ok = Some True, rc_short_trend_reason = [], rc_market_state = RISK_ON,
     rc_market_state_available = True, rc_market_state_reason = []\<rparr>"

definition cleared_ledger :: ledger where
  "cleared_ledger = empty_ledger\<lparr>plans := [sample_plan 1 ''US.AAPL''],
     gate_config := Some (JsonValue [(''allow_new_entries'', PBool True)])\<rparr>"

definition funded_state :: portfolio_state where
  "funded_state =
     (case get_portfolio_state (Some funded_broker) default_settings (cl_utc monday_noon) empty_ledger of
        Inl e \<Rightarrow> failed_portfolio e
      | Inr (_, state) \<Rightarrow> state)"

theorem approved_only_if_all_rules_hold_witness:
  "\<exists>db' d. rules_approve_trade_plan (sample_plan 1 ''US.AAPL'') (Some good_context) funded_state default_settings monday_noon
       cleared_ledger = Inr (db', d) \<and> approved d
     \<and> fst (capital_allows_new_order (sample_plan 1 ''US.AAPL'') funded_state default_settings cleared_ledger)
     \<and> within_daily_limits default_settings (cl_utc monday_noon) cleared_ledger"
proof -
  let ?r = "rules_approve_trade_plan (sample_plan 1 ''US.AAPL'') (Some good_context) funded_state default_settings monday_noon cleared_ledger"
  have "map_sum id (\<lambda>(_, d). approved d) ?r = Inr True" by code_simp
  then obtain db' d where r: "?r = Inr (db', d)" "approved d" by (cases ?r) auto
  from approved_only_if_all_rules_hold [OF this] r show ?thesis by blast
qed

end
