(* ===== verification/Validator.thy ===== *)
theory Validator
  imports Rules_Approval
begin

text \<open>
  app/services/realtime_execution_validator.py: the active S and A plans are compared with the
  real-time quote; each gets a new status and the context with which the approval rules judge it.
\<close>

definition VALIDATION_STATUSES :: "plan_status list" where
  "VALIDATION_STATUSES = [PL_ACTIVE, PL_ARMED, PL_WAIT_PULLBACK, PL_PLANNED, PL_WAITLIST, PL_MISSED_BY_CAPITAL, PL_NO_CHASE]"

fun plan_status_str :: "plan_status \<Rightarrow> string" where
  "plan_status_str PL_ACTIVE = ''ACTIVE''"
| "plan_status_str PL_PLANNED = ''PLANNED''"
| "plan_status_str PL_ARMED = ''ARMED''"
| "plan_status_str PL_TRIGGERED = ''TRIGGERED''"
| "plan_status_str PL_ORDER_SUBMITTED = ''ORDER_SUBMITTED''"
| "plan_status_str PL_IN_POSITION = ''IN_POSITION''"
| "plan_status_str PL_WAIT_PULLBACK = ''WAIT_PULLBACK''"
| "plan_status_str PL_NO_CHASE = ''NO_CHASE''"
| "plan_status_str PL_WAITLIST = ''WAITLIST''"
| "plan_status_str PL_MISSED_BY_CAPITAL = ''MISSED_BY_CAPITAL''"
| "plan_status_str PL_BLOCKED = ''BLOCKED''"
| "plan_status_str PL_PAUSED = ''PAUSED''"
| "plan_status_str PL_INVALIDATED = ''INVALIDATED''"
| "plan_status_str PL_EXPIRED = ''EXPIRED''"
| "plan_status_str PL_COOLDOWN = ''COOLDOWN''"

definition to_validate :: "trade_plan \<Rightarrow> bool" where
  "to_validate pl \<longleftrightarrow> pl_priority_level pl \<in> {Prio_S, Prio_A} \<and> pl_direction pl = LONG \<and> pl_status pl \<in> set VALIDATION_STATUSES"

definition quote_index :: "row list \<Rightarrow> string \<Rightarrow> row option" where
  "quote_index rows = map_of (rev (map (\<lambda>r. (normalize_symbol (get_or r [''code'', ''symbol'']), r)) rows))"

text \<open>An empty row counts as no row.\<close>

definition quote_of :: "row list \<Rightarrow> string \<Rightarrow> row option" where
  "quote_of rows symbol = (case quote_index rows (norm_sym symbol) of Some (c # cs) \<Rightarrow> Some (c # cs) | _ \<Rightarrow> None)"

definition latest_market :: "'z store_scheme \<Rightarrow> market_state_row option" where
  "latest_market db = scalar (order_desc ms_updated_at (market_states db))"

definition market_state_is_current :: "market_state_row option \<Rightarrow> clock \<Rightarrow> bool" where
  "market_state_is_current m ck =
     (case m of None \<Rightarrow> False
      | Some r \<Rightarrow> date_of (cl_zone ck (ms_updated_at r)) = date_of (cl_zone ck (cl_utc ck)))"

definition latest_indicator :: "string \<Rightarrow> timeframe \<Rightarrow> 'z store_scheme \<Rightarrow> indicator option" where
  "latest_indicator symbol tf db =
     scalar (order_desc in_ts (filter (\<lambda>i. in_symbol i = symbol \<and> in_timeframe i = tf) (indicators db)))"

definition short_trend_status :: "string \<Rightarrow> real \<Rightarrow> 'z store_scheme \<Rightarrow> bool option \<times> string" where
  "short_trend_status symbol current db =
     (case latest_indicator symbol HOUR_60 db of
        None \<Rightarrow> (None, zh_no_ma20)
      | Some i \<Rightarrow>
          (let ma20 = opt_or (in_ma20 i) 0
           in if ma20 = 0 \<or> current \<le> 0 then (None, zh_no_ma20)
              else if current \<ge> ma20 then (Some True, zh_above_ma20 @ fmt_fixed 2 ma20 @ zh_close_paren)
              else (Some False, zh_below_ma20 @ fmt_fixed 2 ma20 @ zh_close_paren)))"

definition realtime_context_of ::
  "trade_plan \<Rightarrow> row \<Rightarrow> market_state_row option \<Rightarrow> bool \<Rightarrow> 'z store_scheme \<Rightarrow> realtime_context" where
  "realtime_context_of plan row market current_market db =
     (let current = row_float row [''last_price'', ''cur_price''];
          bid = row_float row [''bid_price'', ''bid_price_1''];
          ask = row_float row [''ask_price'', ''ask_price_1''];
          spread_available = (current \<noteq> 0 \<and> bid > 0 \<and> ask \<ge> bid);
          volume = row_float row [''volume'', ''turnover''];
          (trend_ok, trend_reason) = short_trend_status (pl_symbol plan) current db
      in \<lparr>rc_current_price = current, rc_bid_price = bid, rc_ask_price = ask,
          rc_spread_pct = (if spread_available then Some ((ask - bid) / current) else None),
          rc_spread_available = spread_available, rc_volume = volume, rc_volume_ok = (volume > 0),
          rc_volume_available = (volume > 0), rc_short_trend_ok = trend_ok, rc_short_trend_reason = trend_reason,
          rc_market_state = (case market of None \<Rightarrow> MARKET_UNKNOWN | Some m \<Rightarrow> ms_state m),
          rc_market_state_available = (market \<noteq> None \<and> current_market),
          rc_market_state_reason = (if current_market then zh_market_current else zh_market_stale)\<rparr>)"

section \<open>One plan\<close>

record validation_counts =
  vc_validated :: int
  vc_triggered :: int
  vc_invalidated :: int
  vc_no_chase :: int

record 'z validation =
  va_db :: 'z
  va_contexts :: "(int \<times> realtime_context) list"
  va_counts :: validation_counts

text \<open>The status by the price alone, with the reject reason it writes (if it writes one).\<close>

definition price_status :: "trade_plan \<Rightarrow> real \<Rightarrow> plan_status \<times> string option" where
  "price_status plan current =
     (if current \<le> pl_stop_price plan then (PL_INVALIDATED, Some zh_below_stop)
      else if opt_truthy (pl_no_chase_above plan) \<and> current > opt_or (pl_no_chase_above plan) 0
      then (PL_NO_CHASE, Some zh_above_no_chase)
      else if opt_truthy (pl_breakout_entry_price plan) \<and> current \<ge> opt_or (pl_breakout_entry_price plan) 0
      then (PL_TRIGGERED, Some [])
      else if opt_truthy (pl_breakout_entry_price plan) \<and> current \<ge> opt_or (pl_breakout_entry_price plan) 0 * (995/1000)
      then (PL_ARMED, None)
      else (PL_ACTIVE, None))"

definition cooldown_block :: "string \<Rightarrow> int \<Rightarrow> 'z store_scheme \<Rightarrow> int option" where
  "cooldown_block symbol now db =
     (case scalar (filter (\<lambda>t. ts_symbol t = symbol) (trading_states db)) of
        None \<Rightarrow> None
      | Some t \<Rightarrow> (case ts_cooldown_until t of
          None \<Rightarrow> None
        | Some d \<Rightarrow> if ts_state t = COOLDOWN \<and> d \<ge> date_of now then Some d else None))"

definition validated_plan :: "trade_plan \<Rightarrow> row \<Rightarrow> int \<Rightarrow> 'z store_scheme \<Rightarrow> trade_plan" where
  "validated_plan plan row now db =
     (let current = row_float row [''last_price'', ''cur_price''];
          (status, reason) = price_status plan current;
          p1 = plan\<lparr>pl_current_price := Some current,
                    pl_current_change_pct := Some (row_float row [''change_rate'', ''change_pct''] / 100),
                    pl_last_validated_at := Some now, pl_status := status,
                    pl_rules_reject_reason := (case reason of None \<Rightarrow> pl_rules_reject_reason plan | Some r \<Rightarrow> r)\<rparr>
      in case cooldown_block (pl_symbol plan) now db of
           None \<Rightarrow> p1
         | Some d \<Rightarrow> p1\<lparr>pl_status := PL_PAUSED, pl_rules_reject_reason := zh_cooldown_until @ iso_date d\<rparr>)"

definition count_status :: "plan_status \<Rightarrow> validation_counts \<Rightarrow> validation_counts" where
  "count_status status c =
     (let c1 = c\<lparr>vc_validated := vc_validated c + 1\<rparr>
      in case status of
           PL_INVALIDATED \<Rightarrow> c1\<lparr>vc_invalidated := vc_invalidated c + 1\<rparr>
         | PL_NO_CHASE \<Rightarrow> c1\<lparr>vc_no_chase := vc_no_chase c + 1\<rparr>
         | PL_TRIGGERED \<Rightarrow> c1\<lparr>vc_triggered := vc_triggered c + 1\<rparr>
         | _ \<Rightarrow> c1)"

definition validate_plan ::
  "row list \<Rightarrow> market_state_row option \<Rightarrow> clock \<Rightarrow> trade_plan \<Rightarrow> 'z store_scheme validation \<Rightarrow> 'z store_scheme validation" where
  "validate_plan snapshots market ck plan v =
     (let db = va_db v; now = cl_utc ck
      in case quote_of snapshots (pl_symbol plan) of
           None \<Rightarrow>
             v\<lparr>va_db := put_plan (plan\<lparr>pl_status := PL_PAUSED, pl_rules_reject_reason := zh_no_quote\<rparr>) db\<rparr>
         | Some row \<Rightarrow>
             (let ctx = realtime_context_of plan row market (market_state_is_current market ck) db;
                  p1 = validated_plan plan row now db
              in v\<lparr>va_db := write_audit ''TRADE_PLAN_VALIDATED'' (pl_symbol plan) ''TradePlan'' (Some (pl_id plan))
                             (plan_status_str (pl_status p1)) (pl_rules_reject_reason p1) now (put_plan p1 db),
                    va_contexts := (pl_id plan, ctx) # va_contexts v,
                    va_counts := count_status (fst (price_status plan (rc_current_price ctx))) (va_counts v)\<rparr>))"

section \<open>All plans\<close>

definition validate_active_trade_plans ::
  "quotes \<Rightarrow> clock \<Rightarrow> 'z store_scheme \<Rightarrow> exn + 'z store_scheme validation" where
  "validate_active_trade_plans quotes ck db =
     (let pls = sort_key (\<lambda>p. (pl_created_at p, pl_id p)) (filter to_validate (plans db));
          start = \<lparr>va_db = db, va_contexts = [],
                   va_counts = \<lparr>vc_validated = 0, vc_triggered = 0, vc_invalidated = 0, vc_no_chase = 0\<rparr>\<rparr>
      in case (if pls = [] then Inr [] else quotes (map pl_symbol pls)) of
           Inl e \<Rightarrow> Inl e
         | Inr snapshots \<Rightarrow>
             (let v = fold (validate_plan snapshots (latest_market db) ck) pls start
              in Inr (v\<lparr>va_db := commit (cl_utc ck) db (va_db v)\<rparr>)))"

section \<open>Lemmas\<close>

definition unique_plans :: "trade_plan list \<Rightarrow> bool" where
  "unique_plans pls \<longleftrightarrow> distinct (map pl_id pls)"

interpretation plan_table: keyed_table pl_id unique_plans
  by unfold_locales (rule unique_plans_def)

lemma validated_plan_sel [simp]:
  "pl_id (validated_plan plan row now db) = pl_id plan"
  "pl_symbol (validated_plan plan row now db) = pl_symbol plan"
  "pl_rules_approval_status (validated_plan plan row now db) = pl_rules_approval_status plan"
  "pl_stop_price (validated_plan plan row now db) = pl_stop_price plan"
  "pl_current_price (validated_plan plan row now db) = Some (row_float row [''last_price'', ''cur_price''])"
  by (simp_all add: validated_plan_def Let_def split: prod.split option.split)

lemma validated_triggered:
  assumes "pl_status (validated_plan plan row now db) = PL_TRIGGERED"
  shows "pl_stop_price plan < row_float row [''last_price'', ''cur_price'']
    \<and> opt_truthy (pl_breakout_entry_price plan) \<and> opt_or (pl_breakout_entry_price plan) 0 \<le> row_float row [''last_price'', ''cur_price'']
    \<and> \<not> (opt_truthy (pl_no_chase_above plan) \<and> row_float row [''last_price'', ''cur_price''] > opt_or (pl_no_chase_above plan) 0)
    \<and> cooldown_block (pl_symbol plan) now db = None"
  using assms
  by (auto simp: validated_plan_def price_status_def Let_def split: if_splits option.splits)

lemma cooldown_block_cong: "trading_states db' = trading_states db \<Longrightarrow> cooldown_block symbol now db' = cooldown_block symbol now db"
  by (simp add: cooldown_block_def)

lemma store_write_audit [simp]:
  "trading_states (write_audit a s t i st r n db) = trading_states db"
  "market_states (write_audit a s t i st r n db) = market_states db"
  "indicators (write_audit a s t i st r n db) = indicators db"
  by (simp_all add: write_audit_def)

lemma validate_plan_frame:
  "trading_states (va_db (validate_plan sn m ck pl v)) = trading_states (va_db v)"
  "positions (va_db (validate_plan sn m ck pl v)) = positions (va_db v)"
  "orders (va_db (validate_plan sn m ck pl v)) = orders (va_db v)"
  "issues (va_db (validate_plan sn m ck pl v)) = issues (va_db v)"
  "gate_config (va_db (validate_plan sn m ck pl v)) = gate_config (va_db v)"
  by (simp_all add: validate_plan_def Let_def split: option.split)

text \<open>A plan in its entry window at its current price, and with the context to prove it.\<close>

definition in_entry_window :: "trade_plan \<Rightarrow> bool" where
  "in_entry_window p \<longleftrightarrow>
     (case pl_current_price p of None \<Rightarrow> False
      | Some price \<Rightarrow> pl_stop_price p < price \<and> opt_truthy (pl_breakout_entry_price p)
          \<and> opt_or (pl_breakout_entry_price p) 0 \<le> price
          \<and> (if opt_truthy (pl_no_chase_above p) then price \<le> opt_or (pl_no_chase_above p) 0 else True))"

definition has_context :: "(int \<times> realtime_context) list \<Rightarrow> trade_plan \<Rightarrow> bool" where
  "has_context cs p \<longleftrightarrow> (\<exists>x \<in> set cs. fst x = pl_id p \<and> Some (rc_current_price (snd x)) = pl_current_price p)"

definition validated_ok :: "'z store_scheme \<Rightarrow> int \<Rightarrow> 'z store_scheme validation \<Rightarrow> bool" where
  "validated_ok db now v \<longleftrightarrow> trading_states (va_db v) = trading_states db
     \<and> (\<forall>p \<in> set (plans (va_db v)). p \<in> set (plans db) \<or> pl_status p \<noteq> PL_TRIGGERED
          \<or> (in_entry_window p \<and> cooldown_block (pl_symbol p) now db = None \<and> has_context (va_contexts v) p))"

lemma validated_plan_window:
  assumes "pl_status (validated_plan plan row now db) = PL_TRIGGERED"
  shows "in_entry_window (validated_plan plan row now db)"
proof -
  have "pl_breakout_entry_price (validated_plan plan row now db) = pl_breakout_entry_price plan"
    "pl_no_chase_above (validated_plan plan row now db) = pl_no_chase_above plan"
    by (simp_all add: validated_plan_def Let_def split: prod.split option.split)
  with validated_triggered [OF assms] show ?thesis by (auto simp: in_entry_window_def)
qed

lemma validate_plan_ok:
  assumes "validated_ok db (cl_utc ck) v"
  shows "validated_ok db (cl_utc ck) (validate_plan sn m ck pl v)"
proof (cases "quote_of sn (pl_symbol pl)")
  case None
  then show ?thesis using assms
    by (auto simp: validated_ok_def validate_plan_def Let_def dest!: set_put_rowD)
next
  case (Some row)
  let ?p = "validated_plan pl row (cl_utc ck) (va_db v)"
  let ?ctx = "realtime_context_of pl row m (market_state_is_current m ck) (va_db v)"
  have price: "rc_current_price ?ctx = row_float row [''last_price'', ''cur_price'']"
    by (simp add: realtime_context_of_def Let_def split: prod.split)
  have pl: "plans (va_db (validate_plan sn m ck pl v)) = put_row pl_id ?p (plans (va_db v))"
    "va_contexts (validate_plan sn m ck pl v) = (pl_id pl, ?ctx) # va_contexts v"
    by (simp_all add: validate_plan_def Some Let_def)
  have ctx: "has_context (va_contexts (validate_plan sn m ck pl v)) ?p"
    unfolding has_context_def pl(2) by (rule bexI [of _ "(pl_id pl, ?ctx)"]) (simp_all add: price)
  have mono: "has_context (va_contexts v) p \<Longrightarrow> has_context (va_contexts (validate_plan sn m ck pl v)) p" for p
    by (auto simp: has_context_def pl(2))
  have "pl_status ?p \<noteq> PL_TRIGGERED \<or> in_entry_window ?p \<and> cooldown_block (pl_symbol ?p) (cl_utc ck) db = None
      \<and> has_context (va_contexts (validate_plan sn m ck pl v)) ?p"
    using assms validated_plan_window [of pl row "cl_utc ck" "va_db v"] validated_triggered [of pl row "cl_utc ck" "va_db v"]
      cooldown_block_cong [of "va_db v" db] ctx
    by (auto simp: validated_ok_def)
  then show ?thesis
    using assms mono by (auto simp: validated_ok_def pl(1) validate_plan_frame dest!: set_put_rowD)
qed

section \<open>Properties\<close>

text \<open>A plan that is triggered after a validation was triggered before it, or its current price lies above
  its stop, at or above its breakout price and not above its no-chase line, its symbol is not
  cooling down, and the context handed to the approval carries that price.\<close>

theorem triggered_plans_are_in_window:
  assumes "validate_active_trade_plans quotes ck db = Inr v"
    and "p \<in> set (plans (va_db v))" and "pl_status p = PL_TRIGGERED"
  shows "(\<exists>q \<in> set (plans db). pl_id q = pl_id p \<and> pl_status q = PL_TRIGGERED)
    \<or> (in_entry_window p \<and> cooldown_block (pl_symbol p) (cl_utc ck) db = None \<and> has_context (va_contexts v) p)"
proof -
  obtain sn pls c where v: "v = (fold (validate_plan sn (latest_market db) ck) pls
      \<lparr>va_db = db, va_contexts = [], va_counts = c\<rparr>)\<lparr>va_db := commit (cl_utc ck) db (va_db (fold (validate_plan sn (latest_market db) ck) pls
      \<lparr>va_db = db, va_contexts = [], va_counts = c\<rparr>))\<rparr>"
    using assms(1) by (auto simp: validate_active_trade_plans_def Let_def split: sum.splits)
  let ?w = "fold (validate_plan sn (latest_market db) ck) pls \<lparr>va_db = db, va_contexts = [], va_counts = c\<rparr>"
  have "validated_ok db (cl_utc ck) (fold (validate_plan sn (latest_market db) ck) pls w)" if "validated_ok db (cl_utc ck) w" for w
    using that by (induction pls arbitrary: w) (auto intro: validate_plan_ok)
  then have ok: "validated_ok db (cl_utc ck) ?w" by (simp add: validated_ok_def)
  from assms(2) obtain q where q: "q \<in> set (plans (va_db ?w))" "p = touch_plan (cl_utc ck) (plans db) q"
    by (auto simp: v)
  have st: "pl_status q = PL_TRIGGERED" using assms(3) q(2) by simp
  have cur: "pl_current_price p = pl_current_price q" "pl_id p = pl_id q" "pl_symbol p = pl_symbol q" by (simp_all add: q(2))
  have win: "in_entry_window p = in_entry_window q" by (simp add: in_entry_window_def q(2) touch_plan_def split: option.split)
  from ok q(1) st show ?thesis
    by (auto simp: validated_ok_def win cur v has_context_def)
qed

text \<open>A market day with one waiting plan, the average of its 60-minute bars, and a quote above its breakout.\<close>

definition market_day :: store where
  "market_day = empty_store\<lparr>
     plans := [(sample_plan 1 ''US.AAPL'')\<lparr>pl_status := PL_ACTIVE, pl_current_price := None\<rparr>],
     market_states := [\<lparr>ms_as_of = cl_utc monday_noon, ms_state = RISK_ON, ms_reason = [], ms_updated_at = cl_utc monday_noon\<rparr>],
     indicators := [keyed_row ''US.AAPL'' HOUR_60 0 (blank_row\<lparr>in_ma20 := Some 99\<rparr>)]\<rparr>"

definition aapl_quote :: "string list \<Rightarrow> exn + row list" where
  "aapl_quote symbols = Inr [[(''code'', PStr ''US.AAPL''), (''last_price'', PInt 101), (''bid_price'', PInt 101),
     (''ask_price'', PInt 101), (''volume'', PInt 1000)]]"

theorem triggered_plans_are_in_window_witness:
  "\<exists>v p. validate_active_trade_plans aapl_quote monday_noon market_day = Inr v \<and> plans (va_db v) = [p]
     \<and> pl_status p = PL_TRIGGERED \<and> in_entry_window p \<and> has_context (va_contexts v) p"
proof -
  let ?r = "validate_active_trade_plans aapl_quote monday_noon market_day"
  have "map_sum id (\<lambda>v. map pl_status (plans (va_db v))) ?r = Inr [PL_TRIGGERED]" by code_simp
  then obtain v p where v: "?r = Inr v" "plans (va_db v) = [p]" "pl_status p = PL_TRIGGERED"
    by (cases ?r) (auto simp: map_eq_Cons_conv)
  have "\<not> (\<exists>q \<in> set (plans market_day). pl_status q = PL_TRIGGERED)" by code_simp
  with triggered_plans_are_in_window [OF v(1) _ v(3)] v show ?thesis by auto
qed

end
