(* ===== verification/Executor.thy ===== *)
theory Executor
  imports Validator
begin

text \<open>
  app/services/sim_order_executor.py: the approved plans are turned into BUY limit orders, one per
  run: the first order the broker accepts ends it.
\<close>

section \<open>Size and price\<close>

definition computed_shares :: "settings \<Rightarrow> trade_plan \<Rightarrow> int" where
  "computed_shares st plan =
     (let risk_per_share = opt_or (pl_breakout_entry_price plan) 0 - pl_stop_price plan;
          equity = (if max_symbol_position_pct st > 0
                    then opt_or (pl_max_new_position_value plan) 0 / max_symbol_position_pct st else 0);
          risk_budget = risk_per_trade_pct st * equity
      in if risk_per_share > 0 then \<lfloor>risk_budget / risk_per_share\<rfloor> else 0)"

definition order_qty :: "settings \<Rightarrow> trade_plan \<Rightarrow> int" where
  "order_qty st plan =
     (let qty = opt_or (pl_suggested_shares plan) 0 in if qty \<le> 0 then computed_shares st plan else qty)"

definition order_current :: "trade_plan \<Rightarrow> real" where
  "order_current plan = opt_or (pl_current_price plan) (opt_or (pl_breakout_entry_price plan) 0)"

definition order_limit :: "trade_plan \<Rightarrow> real" where
  "order_limit plan = min (order_current plan) (opt_or (pl_no_chase_above plan) (order_current plan))"

section \<open>One plan\<close>

definition executable :: "trade_plan \<Rightarrow> bool" where
  "executable pl \<longleftrightarrow> pl_status pl = PL_TRIGGERED \<and> pl_rules_approval_status pl = APPROVED_FOR_SIM_TRADE \<and> pl_direction pl = LONG"

definition has_pending_order :: "string \<Rightarrow> 'z ledger_scheme \<Rightarrow> bool" where
  "has_pending_order symbol db \<longleftrightarrow>
     (\<exists>x \<in> set (orders db). so_symbol x = symbol \<and> so_status x \<in> {OS_SUBMITTED, OS_PARTIALLY_FILLED})"

record 'z exec_run =
  ex_db :: 'z
  ex_requests :: "(order_request \<times> bool) list"
  ex_submitted :: int
  ex_failed :: int

definition buy_order :: "trade_plan \<Rightarrow> int \<Rightarrow> int \<Rightarrow> int \<Rightarrow> sim_order" where
  "buy_order plan i qty now =
     (new_order (pl_symbol plan) BUY qty (py_round 2 (order_limit plan)) now)
       \<lparr>so_id := i, so_trade_plan_id := Some (pl_id plan), so_submitted_price := Some (order_current plan),
        so_reason := ''First Valid Trade rules approval''\<rparr>"

definition submit_order ::
  "broker \<Rightarrow> trade_plan \<Rightarrow> int \<Rightarrow> int \<Rightarrow> 'z ledger_scheme exec_run \<Rightarrow> 'z ledger_scheme exec_run" where
  "submit_order br plan qty now s =
     (let db = ex_db s; ord = buy_order plan (next_id so_id (orders db)) qty now;
          rq = \<lparr>rq_symbol = pl_symbol plan, rq_side = BUY, rq_qty = qty, rq_price = order_limit plan\<rparr>
      in case place_simulated_order br (pl_symbol plan) BUY qty (order_limit plan) of
           Inr response \<Rightarrow>
             (let o1 = ord\<lparr>so_futu_order_id := str_or_empty (row_get response ''order_id'')\<rparr>;
                  p1 = plan\<lparr>pl_status := PL_ORDER_SUBMITTED, pl_simulated_order_id := Some (so_id ord)\<rparr>
              in s\<lparr>ex_db := write_audit ''SIM_ORDER_SUBMITTED'' (pl_symbol plan) ''SimOrder'' (Some (so_id ord)) ''SUBMITTED'' [] now
                             (put_plan p1 (db\<lparr>orders := orders db @ [o1]\<rparr>)),
                   ex_requests := ex_requests s @ [(rq, True)], ex_submitted := ex_submitted s + 1\<rparr>)
         | Inl e \<Rightarrow>
             (let o1 = ord\<lparr>so_status := OS_FAILED, so_reason := exn_str e\<rparr>;
                  p1 = plan\<lparr>pl_status := PL_BLOCKED, pl_rules_reject_reason := exn_str e\<rparr>
              in s\<lparr>ex_db := write_audit ''SIM_ORDER_FAILED'' (pl_symbol plan) ''SimOrder'' (Some (so_id ord)) ''FAILED'' (exn_str e) now
                             (put_plan p1 (db\<lparr>orders := orders db @ [o1]\<rparr>)),
                   ex_requests := ex_requests s @ [(rq, False)], ex_failed := ex_failed s + 1\<rparr>))"

definition execute_plan ::
  "broker \<Rightarrow> settings \<Rightarrow> int \<Rightarrow> trade_plan \<Rightarrow> 'z ledger_scheme exec_run \<Rightarrow> 'z ledger_scheme exec_run" where
  "execute_plan br st now plan s =
     (if has_pending_order (pl_symbol plan) (ex_db s) then s
      else
        (let qty = order_qty st plan
         in if qty \<le> 0
            then s\<lparr>ex_db := put_plan (plan\<lparr>pl_status := PL_BLOCKED, pl_rules_reject_reason := zh_budget_too_small\<rparr>) (ex_db s),
                   ex_failed := ex_failed s + 1\<rparr>
            else submit_order br plan qty now s))"

text \<open>The loop ends as soon as an order was submitted.\<close>

fun execute_plans ::
  "broker \<Rightarrow> settings \<Rightarrow> int \<Rightarrow> trade_plan list \<Rightarrow> 'z ledger_scheme exec_run \<Rightarrow> 'z ledger_scheme exec_run" where
  "execute_plans br st now [] s = s"
| "execute_plans br st now (p # ps) s =
     (let s1 = execute_plan br st now p s
      in if ex_submitted s1 \<noteq> 0 then s1 else execute_plans br st now ps s1)"

definition validation_order :: "trade_plan list \<Rightarrow> trade_plan list" where
  "validation_order pls =
     sort_key (\<lambda>p. (if pl_last_validated_at p = None then 0 else 1 :: int, time_or_0 (pl_last_validated_at p), pl_id p)) pls"

text \<open>
  Plans blocked without an order are committed with the next commit; here at the end of the run.
\<close>

definition execute_approved_sim_orders ::
  "broker \<Rightarrow> settings \<Rightarrow> int \<Rightarrow> 'z ledger_scheme \<Rightarrow> exn + 'z ledger_scheme exec_run" where
  "execute_approved_sim_orders br st now db =
     (let start = \<lparr>ex_db = db, ex_requests = [], ex_submitted = 0, ex_failed = 0\<rparr>
      in case assert_simulation_only st of
           Inl e \<Rightarrow> Inl e
         | Inr _ \<Rightarrow>
             (if \<not> enable_sim_trading st then Inr start
              else (let s = execute_plans br st now (validation_order (filter executable (plans db))) start
                    in Inr (s\<lparr>ex_db := commit now db (ex_db s)\<rparr>))))"

section \<open>Lemmas\<close>

lemma set_validation_order [simp]: "set (validation_order pls) = set pls"
  by (simp add: validation_order_def)

definition order_for :: "settings \<Rightarrow> trade_plan \<Rightarrow> order_request \<Rightarrow> bool" where
  "order_for st plan rq \<longleftrightarrow>
     rq_symbol rq = pl_symbol plan \<and> rq_side rq = BUY \<and> rq_qty rq = order_qty st plan \<and> 0 < rq_qty rq
     \<and> rq_price rq = order_limit plan"

definition executed_ok :: "settings \<Rightarrow> 'z ledger_scheme \<Rightarrow> 'z ledger_scheme exec_run \<Rightarrow> bool" where
  "executed_ok st db s \<longleftrightarrow>
     (\<forall>r \<in> set (ex_requests s). \<exists>plan \<in> set (plans db). executable plan \<and> order_for st plan (fst r))
     \<and> int (length (filter snd (ex_requests s))) = ex_submitted s"

lemma execute_plan_ok:
  assumes "executed_ok st db s" and "plan \<in> set (plans db)" and "executable plan"
  shows "executed_ok st db (execute_plan br st now plan s)"
  using assms
  by (auto simp: executed_ok_def execute_plan_def submit_order_def order_for_def Let_def split: sum.splits)

lemma execute_plan_submitted:
  "ex_submitted (execute_plan br st now plan s) \<in> {ex_submitted s, ex_submitted s + 1}"
  by (auto simp: execute_plan_def submit_order_def Let_def split: sum.splits)

lemma execute_plans_ok:
  assumes "executed_ok st db s" and "ex_submitted s = 0" and "\<forall>p \<in> set ps. p \<in> set (plans db) \<and> executable p"
  shows "executed_ok st db (execute_plans br st now ps s) \<and> ex_submitted (execute_plans br st now ps s) \<in> {0, 1}"
  using assms
proof (induction ps arbitrary: s)
  case (Cons p ps)
  have ok: "executed_ok st db (execute_plan br st now p s)"
    by (rule execute_plan_ok) (use Cons.prems in auto)
  show ?case
  proof (cases "ex_submitted (execute_plan br st now p s) = 0")
    case True
    with Cons.IH [OF ok True] Cons.prems(3) show ?thesis by (simp add: Let_def)
  next
    case False
    with ok execute_plan_submitted [of br st now p s] Cons.prems(2) show ?thesis by (auto simp: Let_def)
  qed
qed simp

lemma order_limit_no_chase:
  "order_limit plan \<le> order_current plan" "opt_truthy (pl_no_chase_above plan) \<Longrightarrow> order_limit plan \<le> opt_or (pl_no_chase_above plan) 0"
  by (auto simp: order_limit_def opt_truthy_iff)

section \<open>Properties\<close>

text \<open>C7. At most one BUY order is accepted per run, and every order sent belongs to a triggered, approved
  long plan of the database, has a positive quantity, and a limit not above the plan's current price
  and not above its no-chase line.\<close>

theorem executor_orders_safe:
  assumes "execute_approved_sim_orders br st now db = Inr s"
  shows "length (filter snd (ex_requests s)) \<le> 1
    \<and> (\<forall>r \<in> set (ex_requests s). \<exists>plan \<in> set (plans db). executable plan \<and> order_for st plan (fst r)
         \<and> rq_price (fst r) \<le> order_current plan
         \<and> (if opt_truthy (pl_no_chase_above plan) then rq_price (fst r) \<le> opt_or (pl_no_chase_above plan) 0 else True))"
proof -
  let ?start = "\<lparr>ex_db = db, ex_requests = [], ex_submitted = 0, ex_failed = 0\<rparr>"
  let ?s = "execute_plans br st now (validation_order (filter executable (plans db))) ?start"
  have ok: "executed_ok st db ?s \<and> ex_submitted ?s \<in> {0, 1}"
    by (rule execute_plans_ok) (auto simp: executed_ok_def)
  have "ex_requests s = [] \<or> ex_requests s = ex_requests ?s"
    using assms by (auto simp: execute_approved_sim_orders_def Let_def split: sum.splits if_splits)
  then show ?thesis
  proof
    assume r: "ex_requests s = ex_requests ?s"
    have "length (filter snd (ex_requests s)) \<le> 1" using ok r by (auto simp: executed_ok_def)
    moreover have "\<exists>plan \<in> set (plans db). executable plan \<and> order_for st plan (fst x)
         \<and> rq_price (fst x) \<le> order_current plan
         \<and> (if opt_truthy (pl_no_chase_above plan) then rq_price (fst x) \<le> opt_or (pl_no_chase_above plan) 0 else True)"
      if "x \<in> set (ex_requests s)" for x
    proof -
      from ok r that obtain plan where "plan \<in> set (plans db)" "executable plan" "order_for st plan (fst x)"
        by (auto simp: executed_ok_def)
      with order_limit_no_chase [of plan] show ?thesis by (intro bexI [of _ plan]) (auto simp: order_for_def)
    qed
    ultimately show ?thesis by blast
  qed simp
qed

definition approved_plans :: ledger where
  "approved_plans = empty_ledger\<lparr>plans :=
     [(sample_plan 1 ''US.AAPL'')\<lparr>pl_rules_approval_status := APPROVED_FOR_SIM_TRADE, pl_max_new_position_value := Some 40000\<rparr>,
      (sample_plan 2 ''US.MSFT'')\<lparr>pl_rules_approval_status := APPROVED_FOR_SIM_TRADE, pl_max_new_position_value := Some 40000,
        pl_stop_price := 99\<rparr>]\<rparr>"

theorem executor_orders_safe_witness:
  "\<exists>s. execute_approved_sim_orders funded_broker default_settings 5 approved_plans = Inr s
     \<and> map (\<lambda>r. (rq_symbol (fst r), rq_qty (fst r), rq_price (fst r))) (ex_requests s) = [(''US.AAPL'', 100, 101)]
     \<and> length (filter snd (ex_requests s)) \<le> 1"
proof -
  let ?r = "execute_approved_sim_orders funded_broker default_settings 5 approved_plans"
  have "map_sum id (\<lambda>s. map (\<lambda>r. (rq_symbol (fst r), rq_qty (fst r), rq_price (fst r))) (ex_requests s)) ?r
      = Inr [(''US.AAPL'', 100, 101)]" by code_simp
  then obtain s where s: "?r = Inr s" "map (\<lambda>r. (rq_symbol (fst r), rq_qty (fst r), rq_price (fst r))) (ex_requests s) = [(''US.AAPL'', 100, 101)]"
    by (cases ?r) auto
  have "length (filter snd (ex_requests s)) \<le> 1" using executor_orders_safe [OF s(1)] by blast
  with s show ?thesis by (intro exI [of _ s]) simp
qed

text \<open>Without suggested shares, the number of shares times the distance from breakout to stop stays within
  the risk budget of the account's equity.\<close>

theorem order_risk_within_budget:
  assumes "opt_or (pl_suggested_shares plan) 0 \<le> 0" and "max_symbol_position_pct st > 0" and "order_qty st plan > 0"
  shows "of_int (order_qty st plan) * (opt_or (pl_breakout_entry_price plan) 0 - pl_stop_price plan)
    \<le> risk_per_trade_pct st * (opt_or (pl_max_new_position_value plan) 0 / max_symbol_position_pct st)"
proof -
  let ?r = "opt_or (pl_breakout_entry_price plan) 0 - pl_stop_price plan"
  let ?b = "risk_per_trade_pct st * (opt_or (pl_max_new_position_value plan) 0 / max_symbol_position_pct st)"
  have pos: "?r > 0" and q: "order_qty st plan = \<lfloor>?b / ?r\<rfloor>"
    using assms by (auto simp: order_qty_def computed_shares_def Let_def split: if_splits)
  have "of_int (order_qty st plan) \<le> ?b / ?r" unfolding q by (rule of_int_floor_le)
  then show ?thesis using pos_le_divide_eq [OF pos] by blast
qed

theorem order_risk_within_budget_witness:
  "of_int (order_qty default_settings ((sample_plan 1 ''A'')\<lparr>pl_max_new_position_value := Some 40000\<rparr>)) * (100 - 95 :: real) \<le> 500"
proof -
  let ?p = "(sample_plan 1 ''A'')\<lparr>pl_max_new_position_value := Some 40000\<rparr>"
  have "order_qty default_settings ?p > 0" by code_simp
  then show ?thesis
    using order_risk_within_budget [of ?p default_settings] by (simp add: sample_plan_def default_settings_def)
qed

text \<open>The size of an order is not limited by the largest value a symbol may have: with an account of
  100,000 and at most 40 percent of it per symbol, a stop one percent below the breakout gives an
  order of 500 shares at 101, which is 50,500.\<close>

theorem order_value_exceeds_symbol_limit:
  "\<exists>s. execute_approved_sim_orders funded_broker default_settings 5 (approved_plans\<lparr>plans := tl (plans approved_plans)\<rparr>) = Inr s
     \<and> (\<exists>r \<in> set (ex_requests s). snd r \<and> of_int (rq_qty (fst r)) * rq_price (fst r) > (40000 :: real))"
proof -
  let ?r = "execute_approved_sim_orders funded_broker default_settings 5 (approved_plans\<lparr>plans := tl (plans approved_plans)\<rparr>)"
  have "map_sum id (\<lambda>s. map (\<lambda>r. (snd r, rq_qty (fst r), rq_price (fst r))) (ex_requests s)) ?r = Inr [(True, 500, 101)]"
    by code_simp
  then show ?thesis by (cases ?r) (auto simp: map_eq_Cons_conv)
qed

end
