(* ===== verification/Position_Manager.thy ===== *)
theory Position_Manager
  imports Validator
begin

text \<open>
  app/services/position_manager.py: every OPEN position is priced, its stops are checked, and an exit
  order is sent when one of the exit rules fires, no exit order is pending, and the retry rules allow
  it. An exception in one position is recorded and the others go on.
\<close>

definition EXIT_RETRY_REASONS :: "string list" where
  "EXIT_RETRY_REASONS =
     [''HARD_STOP'', ''ORPHAN_TAKE_PROFIT'', ''TARGET_2_OR_TRAILING'', ''FORCED_INTRADAY_EXIT'', ''TARGET_1_PARTIAL'']"

section \<open>Prices\<close>

definition snapshot_price :: "row option \<Rightarrow> real" where
  "snapshot_price r = (case r of None \<Rightarrow> 0 | Some row \<Rightarrow>
     float_value (get_or row [''last_price'', ''cur_price'', ''nominal_price'']))"

definition exit_limit_price :: "row option \<Rightarrow> real \<Rightarrow> real" where
  "exit_limit_price r current =
     (let bid = (case r of None \<Rightarrow> 0 | Some row \<Rightarrow> float_value (get_or row [''bid_price'', ''bid_price_1'']));
          reference = (if bid > 0 then bid else current * (995/1000))
      in py_round 2 (max reference (1/100)))"

definition near_close :: "int \<Rightarrow> bool" where
  "near_close ny \<longleftrightarrow> weekday (date_of ny) < 5 \<and> minute_of_day ny \<ge> 15 * 60 + 45"

section \<open>Marking a position to the market\<close>

definition position_risk :: "position \<Rightarrow> real" where
  "position_risk p = max (pos_entry_price p - pos_stop_price p) (1/10000)"

definition stop_pct_of :: "settings \<Rightarrow> position \<Rightarrow> real" where
  "stop_pct_of st p = opt_or (pos_stop_loss_pct p) (orphan_stop_loss_pct st)"

definition take_pct_of :: "settings \<Rightarrow> position \<Rightarrow> real" where
  "take_pct_of st p = opt_or (pos_take_profit_pct p) (orphan_take_profit_pct st)"

definition mark_position :: "settings \<Rightarrow> int \<Rightarrow> real \<Rightarrow> position \<Rightarrow> position" where
  "mark_position st now current p =
     (let p1 = p\<lparr>pos_current_price := Some current,
                pos_market_value := current * of_int (pos_shares p),
                pos_unrealized_pnl := (current - pos_entry_price p) * of_int (pos_shares p),
                pos_unrealized_pnl_pct := (if pos_entry_price p > 0 then (current - pos_entry_price p) / pos_entry_price p else 0),
                pos_last_risk_checked_at := Some now, pos_last_error := []\<rparr>;
          p2 = (if pos_is_orphan p
                then p1\<lparr>pos_stop_price := pos_entry_price p * (1 - stop_pct_of st p),
                        pos_target_1 := Some (pos_entry_price p * (1 + take_pct_of st p))\<rparr>
                else p1);
          r = (current - pos_entry_price p) / position_risk p2
      in p2\<lparr>pos_current_r := r, pos_max_r := max (pos_max_r p) r, pos_min_r := min (pos_min_r p) r\<rparr>)"

definition hard_stop :: "position \<Rightarrow> real" where
  "hard_stop p = max (pos_stop_price p) (opt_or (pos_trailing_stop_price p) 0)"

datatype exit_rule = SELL_ALL string | SELL_PART int string | TRAIL | NO_EXIT

definition exit_rule_of :: "settings \<Rightarrow> real \<Rightarrow> position \<Rightarrow> exit_rule" where
  "exit_rule_of st current p =
     (if current \<le> hard_stop p then SELL_ALL ''HARD_STOP''
      else if pos_is_orphan p \<and> pos_unrealized_pnl_pct p \<ge> take_pct_of st p then SELL_ALL ''ORPHAN_TAKE_PROFIT''
      else if opt_truthy (pos_target_2 p) \<and> current \<ge> opt_or (pos_target_2 p) 0 then SELL_ALL ''TARGET_2_OR_TRAILING''
      else if opt_truthy (pos_target_1 p) \<and> current \<ge> opt_or (pos_target_1 p) 0 \<and> \<not> pos_partial_exit_done p
      then SELL_PART (min (pos_available_shares p) (max 1 (pos_shares p div 2))) ''TARGET_1_PARTIAL''
      else if pos_current_r p \<ge> 3/2 then TRAIL
      else NO_EXIT)"

definition trail_position :: "position \<Rightarrow> position" where
  "trail_position p =
     p\<lparr>pos_trailing_stop_price := Some (max (opt_or (pos_trailing_stop_price p) (pos_stop_price p))
        (pos_entry_price p + position_risk p / 2))\<rparr>"

text \<open>The position after a check at a price, before anything is sold.\<close>

definition position_after :: "settings \<Rightarrow> int \<Rightarrow> real \<Rightarrow> position \<Rightarrow> position" where
  "position_after st now current p =
     (let p1 = mark_position st now current p
      in if exit_rule_of st current p1 = TRAIL then trail_position p1 else p1)"

text \<open>Quantity and reason; an empty reason means that nothing is to be sold.\<close>

definition exit_signal :: "settings \<Rightarrow> clock \<Rightarrow> real \<Rightarrow> position \<Rightarrow> int \<times> string" where
  "exit_signal st ck current p =
     (if force_intraday_exit st \<and> near_close (cl_ny ck) then (pos_available_shares p, ''FORCED_INTRADAY_EXIT'')
      else case exit_rule_of st current p of
             SELL_ALL r \<Rightarrow> (pos_available_shares p, r)
           | SELL_PART q r \<Rightarrow> (q, r)
           | TRAIL \<Rightarrow> (0, [])
           | NO_EXIT \<Rightarrow> (0, []))"

section \<open>Pending exit orders\<close>

abbreviation position_aliases :: "position \<Rightarrow> string set" where
  "position_aliases p \<equiv> set (symbol_aliases (norm_sym (pos_symbol p)))"

definition active_exit_order_exists :: "position \<Rightarrow> 'z ledger_scheme \<Rightarrow> bool" where
  "active_exit_order_exists p db \<longleftrightarrow>
     (\<exists>x \<in> set (orders db). so_symbol x \<in> position_aliases p \<and> so_side x = SELL \<and> so_status x \<in> {OS_SUBMITTED, OS_PARTIALLY_FILLED})"

definition exit_reason_retryable :: "string \<Rightarrow> bool" where
  "exit_reason_retryable reason \<longleftrightarrow> (\<exists>item \<in> set EXIT_RETRY_REASONS. py_contains item reason)"

definition waiting_exit :: "position \<Rightarrow> sim_order \<Rightarrow> bool" where
  "waiting_exit p x \<longleftrightarrow> so_symbol x \<in> position_aliases p \<and> so_side x = SELL \<and> so_status x = OS_SELL_WAITING_RECONCILIATION"

definition retry_cutoff :: "settings \<Rightarrow> clock \<Rightarrow> int" where
  "retry_cutoff st ck = cl_utc ck - seconds (sell_reconcile_retry_seconds st)"

definition retryable_waiting_exit_order :: "settings \<Rightarrow> clock \<Rightarrow> position \<Rightarrow> 'z ledger_scheme \<Rightarrow> sim_order option" where
  "retryable_waiting_exit_order st ck p db =
     scalar (filter (\<lambda>x. exit_reason_retryable (so_reason x) \<or> pos_exit_reason p \<in> set EXIT_RETRY_REASONS)
       (order_desc2 so_submitted_at so_id
          (filter (\<lambda>x. waiting_exit p x \<and> so_submitted_at x \<le> retry_cutoff st ck) (orders db))))"

definition waiting_exit_order_before_retry_window :: "settings \<Rightarrow> clock \<Rightarrow> position \<Rightarrow> 'z ledger_scheme \<Rightarrow> bool" where
  "waiting_exit_order_before_retry_window st ck p db \<longleftrightarrow>
     (\<exists>x \<in> set (orders db). waiting_exit p x \<and> so_submitted_at x > retry_cutoff st ck)"

definition remote_or_recent_position_exists :: "broker \<Rightarrow> position \<Rightarrow> bool" where
  "remote_or_recent_position_exists br p =
     (case get_positions br of
        Inl (AttributeError _) \<Rightarrow> pos_shares p > 0
      | Inl _ \<Rightarrow> pos_shares p > 0 \<and> pos_last_synced_at p \<noteq> None
      | Inr rows \<Rightarrow>
          (\<exists>row \<in> set rows. remote_symbol row \<in> position_aliases p \<and> remote_quantity row > 0)
          \<or> (pos_shares p > 0 \<and> pos_last_synced_at p \<noteq> None))"

section \<open>One position\<close>

datatype exit_outcome = OUT_HELD | OUT_SKIPPED | OUT_SUBMITTED | OUT_ERROR

record 'z manage_run =
  mr_db :: 'z
  mr_requests :: "(order_request \<times> int) list"
  mr_submitted :: int
  mr_errors :: int
  mr_skipped :: int

text \<open>What the retry rules say: hold, hold at the limit, or send with this retry count.\<close>

datatype retry_verdict = RETRY_HOLD | RETRY_LIMIT | SEND "sim_order option" int

definition retry_verdict_of :: "broker \<Rightarrow> settings \<Rightarrow> clock \<Rightarrow> position \<Rightarrow> 'z ledger_scheme \<Rightarrow> retry_verdict" where
  "retry_verdict_of br st ck p db =
     (if active_exit_order_exists p db then RETRY_HOLD
      else case retryable_waiting_exit_order st ck p db of
             Some x \<Rightarrow>
               (if \<not> remote_or_recent_position_exists br p then RETRY_HOLD
                else if so_retry_count x + 1 > max_exit_order_retries st then RETRY_LIMIT
                else SEND (Some x) (so_retry_count x + 1))
           | None \<Rightarrow> (if waiting_exit_order_before_retry_window st ck p db then RETRY_HOLD else SEND None 0))"

definition exit_order :: "position \<Rightarrow> int \<Rightarrow> int \<Rightarrow> real \<Rightarrow> string \<Rightarrow> string \<Rightarrow> int \<Rightarrow> int \<Rightarrow> sim_order" where
  "exit_order p i quantity price futu_id reason retries now =
     (new_order (pos_symbol p) SELL quantity price now)
       \<lparr>so_id := i, so_trade_plan_id := pos_source_trade_plan_id p, so_submitted_price := Some price,
        so_futu_order_id := futu_id, so_reason := reason, so_retry_count := retries\<rparr>"

abbreviation audit_position :: "string \<Rightarrow> position \<Rightarrow> string \<Rightarrow> string \<Rightarrow> int \<Rightarrow> 'z ledger_scheme \<Rightarrow> 'z ledger_scheme" where
  "audit_position action p status reason now db \<equiv>
     write_audit action (pos_symbol p) ''Position'' (Some (pos_id p)) status reason now db"

text \<open>Sends the exit order; the position is the one already written to the table.\<close>

definition send_exit ::
  "broker \<Rightarrow> int \<Rightarrow> row option \<Rightarrow> real \<Rightarrow> int \<Rightarrow> string \<Rightarrow> sim_order option \<Rightarrow> int \<Rightarrow> position \<Rightarrow> 'z ledger_scheme
     \<Rightarrow> 'z ledger_scheme \<times> exit_outcome \<times> (order_request \<times> int)" where
  "send_exit br now snapshot current quantity reason retried retries p db =
     (let price = exit_limit_price snapshot current;
          rq = (\<lparr>rq_symbol = pos_symbol p, rq_side = SELL, rq_qty = quantity, rq_price = price\<rparr>, retries)
      in case place_simulated_order br (pos_symbol p) SELL quantity price of
           Inr response \<Rightarrow>
             (let x = exit_order p (next_id so_id (orders db)) quantity price
                        (str_or_empty (row_get response ''order_id'')) reason retries now;
                  p1 = p\<lparr>pos_exit_reason := reason\<rparr>;
                  db1 = audit_position (if reason = ''HARD_STOP'' then ''STOP_LOSS_TRIGGERED'' else ''TAKE_PROFIT_TRIGGERED'')
                          p ''INFO'' reason now (put_position p1 (db\<lparr>orders := orders db @ [x]\<rparr>));
                  db2 = (if retried = None then db1 else audit_position ''EXIT_ORDER_RETRIED'' p ''INFO'' [] now db1)
              in (db2, OUT_SUBMITTED, rq))
         | Inl e \<Rightarrow>
             (audit_position ''POSITION_EXIT_ORDER_FAILED'' p ''FAILED'' (exn_str e) now
                (put_position (p\<lparr>pos_last_error := exn_str e\<rparr>) db), OUT_ERROR, rq))"

definition manage_position ::
  "broker \<Rightarrow> settings \<Rightarrow> clock \<Rightarrow> row option \<Rightarrow> position \<Rightarrow> 'z ledger_scheme
     \<Rightarrow> exn + ('z ledger_scheme \<times> exit_outcome \<times> (order_request \<times> int) list)" where
  "manage_position br st ck snapshot p0 db0 =
     (let now = cl_utc ck; current = num_or (snapshot_price snapshot) (opt_or (pos_current_price p0) 0)
      in if current \<le> 0 then Inl (RuntimeError zh_no_price)
         else
           (let p1 = mark_position st now current p0;
                p = position_after st now current p0;
                db1 = put_position p db0;
                db = (if exit_rule_of st current p1 = TRAIL then audit_position ''TRAILING_STOP_UPDATED'' p ''INFO'' [] now db1 else db1);
                (quantity, reason) = exit_signal st ck current p1
            in if reason = [] then Inr (db, OUT_HELD, [])
               else if pos_available_shares p \<le> 0 \<or> quantity \<le> 0 then
                 (let message = ''position exists but sellable_qty = 0, skip exit order''
                  in Inr (audit_position ''POSITION_EXIT_SKIPPED'' p ''SKIPPED'' message now
                            (put_position (p\<lparr>pos_last_error := message\<rparr>) db), OUT_SKIPPED, []))
               else case retry_verdict_of br st ck p db of
                 RETRY_HOLD \<Rightarrow> Inr (db, OUT_HELD, [])
               | RETRY_LIMIT \<Rightarrow>
                   Inr ((if pos_last_error p \<noteq> zh_retry_limit
                         then audit_position ''EXIT_ORDER_RETRY_LIMIT_REACHED'' p ''FAILED'' zh_retry_limit now
                                (put_position (p\<lparr>pos_last_error := zh_retry_limit\<rparr>) db)
                         else db), OUT_HELD, [])
               | SEND retried retries \<Rightarrow>
                   (let (db2, outcome, rq) = send_exit br now snapshot current quantity reason retried retries p db
                    in Inr (db2, outcome, [rq]))))"

section \<open>All positions\<close>

definition manage_one ::
  "broker \<Rightarrow> settings \<Rightarrow> clock \<Rightarrow> row list \<Rightarrow> position \<Rightarrow> 'z ledger_scheme manage_run \<Rightarrow> 'z ledger_scheme manage_run" where
  "manage_one br st ck snapshots p s =
     (case manage_position br st ck (quote_of snapshots (pos_symbol p)) p (mr_db s) of
        Inr (db, outcome, rqs) \<Rightarrow>
          s\<lparr>mr_db := db, mr_requests := mr_requests s @ rqs,
            mr_submitted := mr_submitted s + (if outcome = OUT_SUBMITTED then 1 else 0),
            mr_errors := mr_errors s + (if outcome = OUT_ERROR then 1 else 0),
            mr_skipped := mr_skipped s + (if outcome = OUT_SKIPPED then 1 else 0)\<rparr>
      | Inl e \<Rightarrow>
          s\<lparr>mr_db := audit_position ''POSITION_RISK_CHECK_FAILED'' p ''FAILED'' (exn_str e) (cl_utc ck)
                      (put_position (p\<lparr>pos_last_error := exn_str e, pos_last_risk_checked_at := Some (cl_utc ck)\<rparr>) (mr_db s)),
            mr_errors := mr_errors s + 1\<rparr>)"

definition manage_positions ::
  "quotes \<Rightarrow> broker \<Rightarrow> settings \<Rightarrow> clock \<Rightarrow> 'z ledger_scheme \<Rightarrow> exn + 'z ledger_scheme manage_run" where
  "manage_positions quotes br st ck db =
     (let ps = open_local_positions db
      in case (if ps = [] then Inr [] else quotes (map pos_symbol ps)) of
           Inl e \<Rightarrow> Inl e
         | Inr snapshots \<Rightarrow>
             (let s = fold (manage_one br st ck snapshots) ps
                        \<lparr>mr_db = db, mr_requests = [], mr_submitted = 0, mr_errors = 0, mr_skipped = 0\<rparr>
              in Inr (s\<lparr>mr_db := commit (cl_utc ck) db (mr_db s)\<rparr>)))"

section \<open>Lemmas\<close>

lemma mark_position_sel [simp]:
  "pos_id (mark_position st now c p) = pos_id p" "pos_symbol (mark_position st now c p) = pos_symbol p"
  "pos_available_shares (mark_position st now c p) = pos_available_shares p"
  "pos_shares (mark_position st now c p) = pos_shares p"
  "pos_is_orphan (mark_position st now c p) = pos_is_orphan p"
  "pos_entry_price (mark_position st now c p) = pos_entry_price p"
  "pos_trailing_stop_price (mark_position st now c p) = pos_trailing_stop_price p"
  "\<not> pos_is_orphan p \<Longrightarrow> pos_stop_price (mark_position st now c p) = pos_stop_price p"
  by (simp_all add: mark_position_def Let_def)

lemma trail_position_sel [simp]:
  "pos_id (trail_position p) = pos_id p" "pos_symbol (trail_position p) = pos_symbol p"
  "pos_available_shares (trail_position p) = pos_available_shares p"
  "pos_is_orphan (trail_position p) = pos_is_orphan p"
  "pos_stop_price (trail_position p) = pos_stop_price p"
  by (simp_all add: trail_position_def)

lemma position_after_sel [simp]:
  "pos_id (position_after st now c p) = pos_id p" "pos_symbol (position_after st now c p) = pos_symbol p"
  "pos_available_shares (position_after st now c p) = pos_available_shares p"
  "pos_is_orphan (position_after st now c p) = pos_is_orphan p"
  "\<not> pos_is_orphan p \<Longrightarrow> pos_stop_price (position_after st now c p) = pos_stop_price p"
  by (simp_all add: position_after_def Let_def)

definition strategy_position :: "position \<Rightarrow> bool" where
  "strategy_position p \<longleftrightarrow> \<not> pos_is_orphan p \<and> 0 \<le> pos_stop_price p"

lemma hard_stop_mark: "\<not> pos_is_orphan p \<Longrightarrow> hard_stop (mark_position st now c p) = hard_stop p"
  by (simp add: hard_stop_def)

lemma hard_stop_trail: "0 \<le> pos_stop_price p \<Longrightarrow> hard_stop p \<le> hard_stop (trail_position p)"
  by (cases "pos_trailing_stop_price p") (auto simp: hard_stop_def trail_position_def)

interpretation managed_stop: tightening_stop hard_stop "\<lambda>(st, now, c). position_after st now c" strategy_position
proof unfold_locales
  fix p :: position and e :: "settings \<times> int \<times> real"
  assume a: "strategy_position p"
  obtain st now c where e: "e = (st, now, c)" by (cases e)
  show "hard_stop p \<le> hard_stop ((\<lambda>(st, now, c). position_after st now c) e p)"
    using a hard_stop_trail [of "mark_position st now c p"]
    by (simp add: e position_after_def strategy_position_def hard_stop_mark Let_def)
  show "strategy_position ((\<lambda>(st, now, c). position_after st now c) e p)"
    using a by (simp add: e strategy_position_def)
qed

lemma send_exit_facts:
  assumes "send_exit br now sn c q reason retried n p db = (db', outcome, rq)"
  shows "rq_symbol (fst rq) = pos_symbol p" "rq_side (fst rq) = SELL" "rq_qty (fst rq) = q" "snd rq = n"
    "rq_price (fst rq) = exit_limit_price sn c"
    "\<exists>xs. orders db' = orders db @ xs \<and> (\<forall>x \<in> set xs. so_retry_count x = n)"
  using assms by (auto simp: send_exit_def exit_order_def Let_def split: sum.splits)

lemma exit_limit_price_pos: "1/100 \<le> exit_limit_price sn c"
proof -
  have one: "round_half_even (1 :: real) = 1" using round_half_even_of_int [of 1] by simp
  have "py_round 2 (1/100) \<le> exit_limit_price sn c"
    unfolding exit_limit_price_def Let_def by (rule py_round_mono) simp
  then show ?thesis by (simp add: py_round_def one)
qed

lemma exit_signal_qty: "fst (exit_signal st ck c p) \<le> max 0 (pos_available_shares p)"
  by (auto simp: exit_signal_def exit_rule_of_def Let_def split: exit_rule.split if_splits)

definition retries_nonneg :: "'z ledger_scheme \<Rightarrow> bool" where
  "retries_nonneg db \<longleftrightarrow> (\<forall>x \<in> set (orders db). 0 \<le> so_retry_count x)"

lemma retryable_in_orders: "retryable_waiting_exit_order st ck p db = Some x \<Longrightarrow> x \<in> set (orders db)"
  by (auto simp: retryable_waiting_exit_order_def dest!: scalar_filter_SomeD)

lemma retry_verdict_send:
  assumes "retry_verdict_of br st ck p db = SEND x n" and "retries_nonneg db"
  shows "\<not> active_exit_order_exists p db \<and> 0 \<le> n \<and> n \<le> max 0 (max_exit_order_retries st)"
proof (cases "retryable_waiting_exit_order st ck p db")
  case None
  with assms show ?thesis by (auto simp: retry_verdict_of_def split: if_splits)
next
  case (Some y)
  have "0 \<le> so_retry_count y" using retryable_in_orders [OF Some] assms(2) by (simp add: retries_nonneg_def)
  with assms(1) Some show ?thesis by (auto simp: retry_verdict_of_def split: if_splits)
qed

lemma active_exit_cong:
  "pos_symbol p = pos_symbol q \<Longrightarrow> orders db = orders db' \<Longrightarrow> active_exit_order_exists p db = active_exit_order_exists q db'"
  by (simp add: active_exit_order_exists_def)

lemma manage_position_orders:
  assumes "manage_position br st ck sn p db = Inr (db', outcome, rqs)" and "retries_nonneg db"
  shows "(\<exists>xs. orders db' = orders db @ xs) \<and> retries_nonneg db'"
proof (cases "orders db' = orders db")
  case True
  with assms(2) show ?thesis by (simp add: retries_nonneg_def)
next
  case False
  let ?c = "num_or (snapshot_price sn) (opt_or (pos_current_price p) 0)" and ?now = "cl_utc ck"
  let ?p = "position_after st ?now ?c p" and ?p1 = "mark_position st ?now ?c p"
  let ?db1 = "put_position ?p db"
  let ?db = "if exit_rule_of st ?c ?p1 = TRAIL then audit_position ''TRAILING_STOP_UPDATED'' ?p ''INFO'' [] ?now ?db1 else ?db1"
  obtain q reason where sig: "exit_signal st ck ?c ?p1 = (q, reason)" by (metis surj_pair)
  from assms(1) False sig obtain x n r where s: "retry_verdict_of br st ck ?p ?db = SEND x n"
      "send_exit br ?now sn ?c q reason x n ?p ?db = (db', outcome, r)"
    by (auto simp: manage_position_def Let_def split: if_splits prod.splits retry_verdict.splits)
  have "retries_nonneg ?db" using assms(2) by (simp add: retries_nonneg_def)
  with retry_verdict_send [OF s(1)] have n: "0 \<le> n" by blast
  have "orders ?db = orders db" by simp
  with send_exit_facts(6) [OF s(2)] obtain xs where "orders db' = orders db @ xs" "\<forall>x \<in> set xs. so_retry_count x = n" by auto
  with n assms(2) show ?thesis by (auto simp: retries_nonneg_def)
qed

text \<open>
  When a position is to be sold at a price, stated on its row: at or below its stop (of an orphan, its loss
  limit) or its trailing stop, an orphan at its profit limit, at one of its targets, or before the close
  of New York when positions are not kept over night; how many shares follows from it.
\<close>

definition checked_price :: "row option \<Rightarrow> position \<Rightarrow> real" where
  "checked_price sn p = num_or (snapshot_price sn) (opt_or (pos_current_price p) 0)"

definition first_target :: "settings \<Rightarrow> position \<Rightarrow> real" where
  "first_target st p = (if pos_is_orphan p then pos_entry_price p * (1 + take_pct_of st p) else opt_or (pos_target_1 p) 0)"

definition sell_all_due :: "settings \<Rightarrow> int \<Rightarrow> real \<Rightarrow> position \<Rightarrow> bool" where
  "sell_all_due st ny c p \<longleftrightarrow>
     c \<le> (if pos_is_orphan p then pos_entry_price p * (1 - stop_pct_of st p) else pos_stop_price p)
     \<or> c \<le> opt_or (pos_trailing_stop_price p) 0
     \<or> pos_is_orphan p \<and> take_pct_of st p \<le> (if 0 < pos_entry_price p then (c - pos_entry_price p) / pos_entry_price p else 0)
     \<or> opt_or (pos_target_2 p) 0 \<noteq> 0 \<and> opt_or (pos_target_2 p) 0 \<le> c
     \<or> force_intraday_exit st \<and> weekday (date_of ny) < 5 \<and> 15 * 60 + 45 \<le> minute_of_day ny"

definition exit_due :: "settings \<Rightarrow> int \<Rightarrow> real \<Rightarrow> position \<Rightarrow> int \<Rightarrow> bool" where
  "exit_due st ny c p q \<longleftrightarrow>
     (if sell_all_due st ny c p then q = pos_available_shares p
      else first_target st p \<noteq> 0 \<and> first_target st p \<le> c \<and> \<not> pos_partial_exit_done p
        \<and> q = min (pos_available_shares p) (max 1 (pos_shares p div 2)))"

lemma opt_truthy_or: "opt_truthy x \<longleftrightarrow> opt_or x 0 \<noteq> 0"
  by (cases x) simp_all

lemma marked_sel:
  "pos_stop_price (mark_position st now c p) = (if pos_is_orphan p then pos_entry_price p * (1 - stop_pct_of st p) else pos_stop_price p)"
  "opt_or (pos_target_1 (mark_position st now c p)) 0 = first_target st p"
  "pos_target_2 (mark_position st now c p) = pos_target_2 p"
  "pos_unrealized_pnl_pct (mark_position st now c p) = (if 0 < pos_entry_price p then (c - pos_entry_price p) / pos_entry_price p else 0)"
  "take_pct_of st (mark_position st now c p) = take_pct_of st p"
  "pos_partial_exit_done (mark_position st now c p) = pos_partial_exit_done p"
  by (simp_all add: mark_position_def first_target_def take_pct_of_def Let_def)

lemma sell_all_iff:
  "sell_all_due st ny c p \<longleftrightarrow>
     (\<exists>r. exit_rule_of st c (mark_position st now c p) = SELL_ALL r) \<or> force_intraday_exit st \<and> near_close ny"
  by (simp add: sell_all_due_def exit_rule_of_def hard_stop_def marked_sel opt_truthy_or near_close_def le_max_iff_disj)

lemma exit_signal_due:
  assumes "exit_signal st ck c (mark_position st now c p) = (q, r)" and "r \<noteq> []"
  shows "exit_due st (cl_ny ck) c p q"
proof (cases "sell_all_due st (cl_ny ck) c p")
  case True
  then show ?thesis using assms by (auto simp: exit_due_def exit_signal_def sell_all_iff [where now = now] split: if_splits)
next
  case False
  then have rule: "\<nexists>r. exit_rule_of st c (mark_position st now c p) = SELL_ALL r" "\<not> (force_intraday_exit st \<and> near_close (cl_ny ck))"
    by (simp_all add: sell_all_iff [where now = now])
  then obtain q' r' where part: "exit_rule_of st c (mark_position st now c p) = SELL_PART q' r'" "q = q'"
    using assms by (cases "exit_rule_of st c (mark_position st now c p)") (auto simp: exit_signal_def)
  then have "opt_or (pos_target_1 (mark_position st now c p)) 0 \<noteq> 0 \<and> opt_or (pos_target_1 (mark_position st now c p)) 0 \<le> c
      \<and> \<not> pos_partial_exit_done (mark_position st now c p)
      \<and> q' = min (pos_available_shares p) (max 1 (pos_shares p div 2))"
    by (auto simp: exit_rule_of_def opt_truthy_or split: if_splits)
  then show ?thesis using False part(2) by (simp add: exit_due_def marked_sel)
qed

text \<open>A request that the rules allow for a position: what it sells and when.\<close>

definition exit_allowed :: "settings \<Rightarrow> 'z ledger_scheme \<Rightarrow> position \<Rightarrow> order_request \<times> int \<Rightarrow> bool" where
  "exit_allowed st db p r \<longleftrightarrow>
     rq_symbol (fst r) = pos_symbol p \<and> rq_side (fst r) = SELL \<and> 0 < rq_qty (fst r)
     \<and> rq_qty (fst r) \<le> pos_available_shares p \<and> 1/100 \<le> rq_price (fst r)
     \<and> (\<forall>x \<in> set (orders db). so_symbol x \<in> position_aliases p \<longrightarrow> so_side x = SELL
          \<longrightarrow> so_status x \<notin> {OS_SUBMITTED, OS_PARTIALLY_FILLED})
     \<and> 0 \<le> snd r \<and> snd r \<le> max 0 (max_exit_order_retries st)"

definition exit_justified :: "settings \<Rightarrow> clock \<Rightarrow> row list \<Rightarrow> 'z ledger_scheme \<Rightarrow> position \<Rightarrow> order_request \<times> int \<Rightarrow> bool" where
  "exit_justified st ck sn db p r \<longleftrightarrow>
     pos_status p = POS_OPEN \<and> exit_allowed st db p r
     \<and> exit_due st (cl_ny ck) (checked_price (quote_of sn (pos_symbol p)) p) p (rq_qty (fst r))"

lemma manage_position_requests:
  assumes "manage_position br st ck sn p db = Inr (db', outcome, rqs)" and "retries_nonneg db"
  shows "rqs = [] \<or> (\<exists>r. rqs = [r] \<and> exit_allowed st db p r \<and> exit_due st (cl_ny ck) (checked_price sn p) p (rq_qty (fst r)))"
proof (cases rqs)
  case (Cons r rest)
  let ?c = "checked_price sn p" and ?now = "cl_utc ck"
  let ?p = "position_after st ?now ?c p" and ?p1 = "mark_position st ?now ?c p"
  let ?db1 = "put_position ?p db"
  let ?db = "if exit_rule_of st ?c ?p1 = TRAIL then audit_position ''TRAILING_STOP_UPDATED'' ?p ''INFO'' [] ?now ?db1 else ?db1"
  obtain q reason where sig: "exit_signal st ck ?c ?p1 = (q, reason)" by (metis surj_pair)
  from assms(1) Cons sig obtain x n where s: "retry_verdict_of br st ck ?p ?db = SEND x n"
      "send_exit br ?now sn ?c q reason x n ?p ?db = (db', outcome, r)" "0 < q" "reason \<noteq> []" "rest = []"
    by (auto simp: manage_position_def checked_price_def [symmetric] Let_def split: if_splits prod.splits retry_verdict.splits)
  have "retries_nonneg ?db" using assms(2) by (simp add: retries_nonneg_def)
  note v = retry_verdict_send [OF s(1) this]
  have "q \<le> max 0 (pos_available_shares p)" using exit_signal_qty [of st ck ?c ?p1] sig by simp
  with s(3) have "q \<le> pos_available_shares p" by auto
  moreover have "active_exit_order_exists ?p ?db = active_exit_order_exists p db"
    by (rule active_exit_cong) simp_all
  ultimately have "exit_allowed st db p r"
    using v send_exit_facts [OF s(2)] s(3) exit_limit_price_pos by (simp add: exit_allowed_def active_exit_order_exists_def)
  moreover have "exit_due st (cl_ny ck) ?c p (rq_qty (fst r))"
    using exit_signal_due [OF sig s(4)] send_exit_facts(3) [OF s(2)] by simp
  ultimately show ?thesis using Cons s(5) by blast
qed simp

lemma exit_allowed_prefix: "orders db' = orders db @ xs \<Longrightarrow> exit_allowed st db' p r \<Longrightarrow> exit_allowed st db p r"
  by (simp add: exit_allowed_def)

text \<open>The requests so far belong to different ones of the positions looked at so far, in their order.\<close>

definition managed_ok ::
  "settings \<Rightarrow> clock \<Rightarrow> row list \<Rightarrow> 'z ledger_scheme \<Rightarrow> position list \<Rightarrow> 'z ledger_scheme manage_run \<Rightarrow> bool" where
  "managed_ok st ck sn db seen s \<longleftrightarrow> retries_nonneg (mr_db s) \<and> (\<exists>xs. orders (mr_db s) = orders db @ xs)
     \<and> (\<exists>ps. subseq ps seen \<and> list_all2 (exit_justified st ck sn db) ps (mr_requests s))"

lemma manage_one_ok:
  assumes "managed_ok st ck sn db seen s" and "pos_status p = POS_OPEN"
  shows "managed_ok st ck sn db (seen @ [p]) (manage_one br st ck sn p s)"
proof -
  obtain ps where ps: "subseq ps seen" "list_all2 (exit_justified st ck sn db) ps (mr_requests s)"
    using assms(1) by (auto simp: managed_ok_def)
  have longer: "subseq ps (seen @ [p])" "subseq (ps @ [p]) (seen @ [p])" using ps(1) by (auto intro: list_emb_append2 list_emb_append_mono)
  show ?thesis
  proof (cases "manage_position br st ck (quote_of sn (pos_symbol p)) p (mr_db s)")
    case (Inl e)
    then show ?thesis using assms(1) ps(2) longer(1) by (auto simp: managed_ok_def manage_one_def retries_nonneg_def)
  next
    case (Inr r)
    obtain db' outcome rqs where r: "r = (db', outcome, rqs)" by (cases r) auto
    note m = Inr [unfolded r]
    have nn: "retries_nonneg (mr_db s)" using assms(1) by (simp add: managed_ok_def)
    obtain xs where xs: "orders (mr_db s) = orders db @ xs" using assms(1) by (auto simp: managed_ok_def)
    from manage_position_orders [OF m nn] xs have step: "\<exists>ys. orders db' = orders db @ ys" "retries_nonneg db'" by auto
    have "rqs = [] \<or> (\<exists>r. rqs = [r] \<and> exit_justified st ck sn db p r)"
      using manage_position_requests [OF m nn] exit_allowed_prefix [OF xs] assms(2) by (auto simp: exit_justified_def)
    then have "\<exists>ps'. subseq ps' (seen @ [p]) \<and> list_all2 (exit_justified st ck sn db) ps' (mr_requests s @ rqs)"
    proof
      assume "rqs = []"
      then show ?thesis using longer(1) ps(2) by auto
    next
      assume "\<exists>r. rqs = [r] \<and> exit_justified st ck sn db p r"
      then have "list_all2 (exit_justified st ck sn db) (ps @ [p]) (mr_requests s @ rqs)"
        using ps(2) by (auto intro: list_all2_appendI)
      then show ?thesis using longer(2) by blast
    qed
    then show ?thesis using step by (simp add: managed_ok_def manage_one_def m)
  qed
qed

section \<open>Properties\<close>

text \<open>C5. A run of the position manager sends at most one exit order for each OPEN position, and only when the
  position is due at the price of its quote (or its last known price): its stop, trailing stop, profit limit
  or a target is reached, or the day ends and positions are not kept over night. The order sells all
  sellable shares, or, when only the first target is reached and for the first time, half the position;
  it never sells more than the sellable shares, its price is at least one cent, no other SELL order of the
  symbol is pending, and its retry count is within the configured number of retries.\<close>

theorem exit_orders_safe:
  assumes "manage_positions quotes br st ck db = Inr s" and "retries_nonneg db"
  shows "\<exists>sn ps. (mr_requests s = [] \<or> quotes (map pos_symbol (open_local_positions db)) = Inr sn)
    \<and> subseq ps (filter (\<lambda>p. pos_status p = POS_OPEN) (positions db))
    \<and> list_all2 (exit_justified st ck sn db) ps (mr_requests s)"
proof -
  let ?start = "\<lparr>mr_db = db, mr_requests = [], mr_submitted = 0, mr_errors = 0, mr_skipped = 0\<rparr>"
  let ?ps = "open_local_positions db"
  show ?thesis
  proof (cases "?ps = []")
    case True
    then have "mr_requests s = []" using assms(1) by (auto simp: manage_positions_def Let_def)
    then show ?thesis by (intro exI [of _ "[]"]) simp
  next
    case False
    then obtain sn where sn: "quotes (map pos_symbol ?ps) = Inr sn"
      and s: "mr_requests s = mr_requests (fold (manage_one br st ck sn) ?ps ?start)"
      using assms(1) by (auto simp: manage_positions_def Let_def split: sum.splits)
    have "managed_ok st ck sn db (seen @ qs) (fold (manage_one br st ck sn) qs s0)"
      if "managed_ok st ck sn db seen s0" "\<forall>p \<in> set qs. pos_status p = POS_OPEN" for qs seen s0
      using that
    proof (induction qs arbitrary: seen s0)
      case (Cons q qs)
      from Cons.IH [OF manage_one_ok [OF Cons.prems(1), of q br]] Cons.prems(2) show ?case by simp
    qed simp
    from this [of "[]" ?start ?ps] assms(2) have "managed_ok st ck sn db ?ps (fold (manage_one br st ck sn) ?ps ?start)"
      by (simp add: managed_ok_def open_local_positions_def)
    then obtain ps where "subseq ps ?ps" "list_all2 (exit_justified st ck sn db) ps (mr_requests s)"
      by (auto simp: managed_ok_def s)
    then show ?thesis using sn by (auto simp: open_local_positions_def)
  qed
qed

definition falling_aapl :: ledger where
  "falling_aapl = empty_ledger\<lparr>positions :=
     [(new_position ''US.AAPL'' 100 95 6 30 0)\<lparr>pos_id := 1, pos_available_shares := 6\<rparr>]\<rparr>"

theorem exit_orders_safe_witness:
  "\<exists>s r. manage_positions (\<lambda>_. Inr [[(''code'', PStr ''US.AAPL''), (''last_price'', PInt 94)]]) funded_broker default_settings
      monday_noon falling_aapl = Inr s
     \<and> mr_requests s = [r] \<and> rq_qty (fst r) = 6 \<and> exit_allowed default_settings falling_aapl (hd (positions falling_aapl)) r"
proof -
  let ?r = "manage_positions (\<lambda>_. Inr [[(''code'', PStr ''US.AAPL''), (''last_price'', PInt 94)]]) funded_broker default_settings
      monday_noon falling_aapl"
  have "map_sum id (\<lambda>s. map (\<lambda>r. rq_qty (fst r)) (mr_requests s)) ?r = Inr [6]" by code_simp
  then obtain s r where s: "?r = Inr s" "mr_requests s = [r]" "rq_qty (fst r) = 6"
    by (cases ?r) (auto simp: map_eq_Cons_conv)
  have "retries_nonneg falling_aapl" by (simp add: retries_nonneg_def falling_aapl_def empty_ledger_def)
  from exit_orders_safe [OF s(1) this] s(2) obtain sn ps where
    ps: "subseq ps (filter (\<lambda>p. pos_status p = POS_OPEN) (positions falling_aapl))"
      "list_all2 (exit_justified default_settings monday_noon sn falling_aapl) ps [r]" by auto
  then obtain p where "ps = [p]" "exit_justified default_settings monday_noon sn falling_aapl p r"
    by (auto simp: list_all2_Cons2)
  moreover from this ps(1) have "p \<in> set (positions falling_aapl)"
    using list_emb_set [OF ps(1)] by fastforce
  ultimately have "exit_allowed default_settings falling_aapl (hd (positions falling_aapl)) r"
    by (simp add: exit_justified_def falling_aapl_def)
  with s show ?thesis by blast
qed

text \<open>C9. Over any sequence of price checks, whatever the prices, the effective stop (the higher of stop
  price and trailing stop) of a position that is not an orphan is never lowered.\<close>

theorem stop_never_lowered:
  assumes "\<not> pos_is_orphan p" and "0 \<le> pos_stop_price p"
  shows "hard_stop p \<le> hard_stop (fold (\<lambda>(st, now, c). position_after st now c) checks p)"
  using managed_stop.never_lowered [of p checks] assms by (simp add: strategy_position_def)

theorem stop_never_lowered_witness:
  "hard_stop (hd (positions falling_aapl))
     \<le> hard_stop (fold (\<lambda>(st, now, c). position_after st now c) [(default_settings, 0, 108), (default_settings, 1, 96)] (hd (positions falling_aapl)))"
  by (rule stop_never_lowered) (simp_all add: falling_aapl_def new_position_def)

text \<open>A position whose price is at or below its effective stop is sold at once: outside the forced exit,
  with sellable shares, no pending SELL order and none waiting for reconciliation, an order for all
  sellable shares is sent, and it is recorded when the broker accepts it.\<close>

theorem hard_stop_sells:
  assumes "0 < num_or (snapshot_price sn) (opt_or (pos_current_price p) 0)"
    and "num_or (snapshot_price sn) (opt_or (pos_current_price p) 0)
      \<le> hard_stop (mark_position st (cl_utc ck) (num_or (snapshot_price sn) (opt_or (pos_current_price p) 0)) p)"
    and "0 < pos_available_shares p"
    and "\<forall>x \<in> set (orders db). so_side x = BUY \<or> so_symbol x \<notin> position_aliases p"
    and "is_ok (place_simulated_order br (pos_symbol p) SELL (pos_available_shares p)
      (exit_limit_price sn (num_or (snapshot_price sn) (opt_or (pos_current_price p) 0))))"
  shows "\<exists>db' rq. manage_position br st ck sn p db = Inr (db', OUT_SUBMITTED, [(rq, 0)])
    \<and> rq_qty rq = pos_available_shares p \<and> rq_side rq = SELL
    \<and> (\<exists>x. orders db' = orders db @ [x] \<and> so_qty x = pos_available_shares p \<and> so_side x = SELL \<and> so_status x = OS_SUBMITTED)"
proof -
  let ?c = "num_or (snapshot_price sn) (opt_or (pos_current_price p) 0)" and ?now = "cl_utc ck"
  let ?p = "position_after st ?now ?c p" and ?p1 = "mark_position st ?now ?c p"
  have rule: "exit_rule_of st ?c ?p1 = SELL_ALL ''HARD_STOP''" using assms(2) by (simp add: exit_rule_of_def)
  then have sig: "fst (exit_signal st ck ?c ?p1) = pos_available_shares p" "snd (exit_signal st ck ?c ?p1) \<noteq> []"
    by (simp_all add: exit_signal_def)
  have none: "\<not> active_exit_order_exists ?p (put_position ?p db)" "\<not> waiting_exit_order_before_retry_window st ck ?p (put_position ?p db)"
    "retryable_waiting_exit_order st ck ?p (put_position ?p db) = None"
    using assms(4)
    by (auto simp: active_exit_order_exists_def waiting_exit_order_before_retry_window_def waiting_exit_def
        retryable_waiting_exit_order_def filter_empty_conv)
  then have v: "retry_verdict_of br st ck ?p (put_position ?p db) = SEND None 0"
    by (simp add: retry_verdict_of_def)
  obtain resp where "place_simulated_order br (pos_symbol p) SELL (pos_available_shares p) (exit_limit_price sn ?c) = Inr resp"
    using assms(5) by (auto dest: is_ok_Inr)
  then show ?thesis
    using assms(1,3) sig v rule
    by (simp add: manage_position_def Let_def split_def send_exit_def exit_order_def new_order_def)
qed

theorem hard_stop_sells_witness:
  "\<exists>db' rq. manage_position funded_broker default_settings monday_noon (Some [(''last_price'', PInt 94)]) (hd (positions falling_aapl)) falling_aapl
     = Inr (db', OUT_SUBMITTED, [(rq, 0)]) \<and> rq_qty rq = 6"
proof -
  let ?p = "hd (positions falling_aapl)"
  have c: "num_or (snapshot_price (Some [(''last_price'', PInt 94)])) (opt_or (pos_current_price ?p) 0) = 94"
    by (simp add: snapshot_price_def num_or_def row_get_def py_or_def)
  have h: "hard_stop (mark_position default_settings (cl_utc monday_noon) 94 ?p) = 95" by code_simp
  have "\<exists>db' rq. manage_position funded_broker default_settings monday_noon (Some [(''last_price'', PInt 94)]) ?p falling_aapl
     = Inr (db', OUT_SUBMITTED, [(rq, 0)]) \<and> rq_qty rq = pos_available_shares ?p \<and> rq_side rq = SELL
    \<and> (\<exists>x. orders db' = orders falling_aapl @ [x] \<and> so_qty x = pos_available_shares ?p \<and> so_side x = SELL \<and> so_status x = OS_SUBMITTED)"
    by (rule hard_stop_sells, unfold c h) (simp_all add: falling_aapl_def empty_ledger_def new_position_def funded_broker_def is_ok_def)
  then show ?thesis by (auto simp: falling_aapl_def)
qed

end
