(* ===== verification/Sim_Loop.thy ===== *)
theory Sim_Loop
  imports Executor Position_Manager
begin

text \<open>
  app/services/sim_loop.py: one pass of the simulated trading loop. Orders and positions are
  synchronised, the ledger is reconciled and the gate stored, positions are managed, the account is
  read, plans are validated, triggered plans are approved one by one until one passes, and the
  approved plans are executed.
\<close>

section \<open>The approval loop\<close>

text \<open>The interface between the loop and the approval rules: \<open>True\<close> for an approval.\<close>

fun approve_first :: "(trade_plan \<Rightarrow> 's \<Rightarrow> exn + ('s \<times> bool)) \<Rightarrow> trade_plan list \<Rightarrow> 's \<Rightarrow> exn + ('s \<times> bool)" where
  "approve_first approve [] s = Inr (s, False)"
| "approve_first approve (p # ps) s =
     (case approve p s of
        Inl e \<Rightarrow> Inl e
      | Inr (s1, granted) \<Rightarrow> if granted then Inr (s1, True) else approve_first approve ps s1)"

text \<open>
  What the loop relies on: a refusal takes the plan out of the executable ones and adds none, an
  approval is given only when entries are cleared, and deciding does not change whether they are.
\<close>

locale entry_approval =
  fixes approve :: "trade_plan \<Rightarrow> 's \<Rightarrow> exn + ('s \<times> bool)" and execs :: "'s \<Rightarrow> int set" and cleared :: "'s \<Rightarrow> bool"
  assumes refused: "approve p s = Inr (s', False) \<Longrightarrow> execs s' \<subseteq> execs s - {pl_id p}"
    and granted: "approve p s = Inr (s', True) \<Longrightarrow> cleared s"
    and stable: "approve p s = Inr (s', b) \<Longrightarrow> cleared s' = cleared s"
begin

lemma none_approved: "approve_first approve ps s = Inr (s', False) \<Longrightarrow> execs s' \<subseteq> execs s - pl_id ` set ps"
proof (induction ps arbitrary: s)
  case (Cons p ps)
  from Cons.prems obtain s1 where s1: "approve p s = Inr (s1, False)" "approve_first approve ps s1 = Inr (s', False)"
    by (auto split: sum.splits if_splits)
  from Cons.IH [OF s1(2)] refused [OF s1(1)] show ?case by auto
qed simp

lemma approved_cleared: "approve_first approve ps s = Inr (s', True) \<Longrightarrow> cleared s"
proof (induction ps arbitrary: s)
  case (Cons p ps)
  from Cons.prems consider (now) s1 where "approve p s = Inr (s1, True)"
    | (later) s1 where "approve p s = Inr (s1, False)" "approve_first approve ps s1 = Inr (s', True)"
    by (auto split: sum.splits if_splits)
  then show ?case
  proof cases
    case now
    then show ?thesis by (rule granted)
  next
    case later
    from Cons.IH [OF later(2)] stable [OF later(1)] show ?thesis by simp
  qed
qed simp

lemma cleared_kept: "approve_first approve ps s = Inr (s', b) \<Longrightarrow> cleared s' = cleared s"
proof (induction ps arbitrary: s)
  case (Cons p ps)
  from Cons.prems consider (now) "approve p s = Inr (s', True)"
    | (later) s1 where "approve p s = Inr (s1, False)" "approve_first approve ps s1 = Inr (s', b)"
    by (auto split: sum.splits if_splits)
  then show ?case
  proof cases
    case now
    then show ?thesis by (rule stable)
  next
    case later
    from Cons.IH [OF later(2)] stable [OF later(1)] show ?thesis by simp
  qed
qed simp

end

definition approve_triggered ::
  "(int \<times> realtime_context) list \<Rightarrow> portfolio_state \<Rightarrow> settings \<Rightarrow> clock \<Rightarrow> trade_plan \<Rightarrow> 'z ledger_scheme
     \<Rightarrow> exn + ('z ledger_scheme \<times> bool)" where
  "approve_triggered contexts portfolio st ck plan db =
     (let p1 = plan\<lparr>pl_available_cash_snapshot := Some (pf_available_cash portfolio),
                   pl_max_new_position_value := Some (pf_account_equity portfolio * max_symbol_position_pct st)\<rparr>
      in case rules_approve_trade_plan p1 (map_of contexts (pl_id plan)) portfolio st ck db of
           Inl e \<Rightarrow> Inl e
         | Inr (db1, d) \<Rightarrow> Inr (db1, approved d))"

section \<open>One pass\<close>

text \<open>The broker as each phase of the pass meets it, and an exception of the reconciliation before its first write, if any.\<close>

record pass_env =
  pe_orders :: broker
  pe_positions :: broker
  pe_reconcile :: broker
  pe_reconcile_fault :: "exn option"
  pe_manage :: broker
  pe_portfolio :: broker
  pe_execute :: broker
  pe_manage_quotes :: quotes
  pe_validate_quotes :: quotes
  pe_clock :: clock

record 'z pass_result =
  pr_db :: 'z
  pr_reconciled :: 'z
  pr_health :: "health option"
  pr_gate :: gate
  pr_portfolio :: portfolio_state
  pr_approved :: bool
  pr_exit_requests :: "(order_request \<times> int) list"
  pr_entry_requests :: "(order_request \<times> bool) list"
  pr_waitlist :: int

text \<open>
  A failed read of the positions is recorded and the pass goes on; a failed commit leaves the session
  unusable, so the next statement raises.
\<close>

definition position_phase :: "broker \<Rightarrow> settings \<Rightarrow> int \<Rightarrow> 'z ledger_scheme \<Rightarrow> exn + 'z ledger_scheme" where
  "position_phase br st now db =
     (case sync_futu_positions_to_local br st now db of
        Inr (db1, _) \<Rightarrow> Inr db1
      | Inl e \<Rightarrow> (case e of IntegrityError _ \<Rightarrow> Inl (OtherError ''PendingRollbackError'') | _ \<Rightarrow> Inr db))"

definition reconcile_phase ::
  "broker \<Rightarrow> exn option \<Rightarrow> int \<Rightarrow> 'z ledger_scheme \<Rightarrow> 'z ledger_scheme \<times> health option \<times> gate" where
  "reconcile_phase br fault now db =
     (case fault of
        None \<Rightarrow>
          (let (db1, h) = run_trade_reconciliation br now db; (db2, g) = save_reconciliation_gate_status h now db1
           in (db2, Some h, g))
      | Some e \<Rightarrow>
          (let (db1, g) = save_reconciliation_gate_failure (zh_reconciliation_run_failed @ exn_str e) now db
           in (db1, None, g)))"

definition run_sim_loop :: "pass_env \<Rightarrow> settings \<Rightarrow> 'z store_scheme \<Rightarrow> exn + 'z store_scheme pass_result" where
  "run_sim_loop env st db =
     (let ck = pe_clock env; now = cl_utc ck
      in case assert_simulation_only st of Inl e \<Rightarrow> Inl e | Inr _ \<Rightarrow>
        (case sync_sim_orders (pe_orders env) (entry_order_timeout_seconds st) now db of Inl e \<Rightarrow> Inl e | Inr (db1, _, _) \<Rightarrow>
        (case position_phase (pe_positions env) st now db1 of Inl e \<Rightarrow> Inl e | Inr db2 \<Rightarrow>
        (let (db3, h, g) = reconcile_phase (pe_reconcile env) (pe_reconcile_fault env) now db2
         in case manage_positions (pe_manage_quotes env) (pe_manage env) st ck db3 of Inl e \<Rightarrow> Inl e | Inr mg \<Rightarrow>
        (case get_portfolio_state (Some (pe_portfolio env)) st now (mr_db mg) of Inl e \<Rightarrow> Inl e | Inr (db4, portfolio) \<Rightarrow>
        (case validate_active_trade_plans (pe_validate_quotes env) ck db4 of Inl e \<Rightarrow> Inl e | Inr v \<Rightarrow>
        (let triggered = validation_order (filter (\<lambda>p. pl_status p = PL_TRIGGERED) (plans (va_db v)))
         in case approve_first (approve_triggered (va_contexts v) portfolio st ck) triggered (va_db v) of
              Inl e \<Rightarrow> Inl e | Inr (db5, granted) \<Rightarrow>
        (case execute_approved_sim_orders (pe_execute env) st now db5 of Inl e \<Rightarrow> Inl e | Inr ex \<Rightarrow>
        (case rank_waitlisted_plans now (ex_db ex) of Inl e \<Rightarrow> Inl e | Inr (db6, ranked) \<Rightarrow>
           Inr \<lparr>pr_db = db6, pr_reconciled = db3, pr_health = h, pr_gate = g, pr_portfolio = portfolio,
                pr_approved = granted, pr_exit_requests = mr_requests mg,
                pr_entry_requests = ex_requests ex, pr_waitlist = int (length ranked)\<rparr>)))))))))"

section \<open>Lemmas\<close>

text \<open>The approval rules keep the interface.\<close>

definition exec_ids :: "'z ledger_scheme \<Rightarrow> int set" where
  "exec_ids db = pl_id ` {p \<in> set (plans db). executable p}"

definition entries_cleared :: "'z ledger_scheme \<Rightarrow> bool" where
  "entries_cleared db \<longleftrightarrow> (case reconciliation_allows_new_entries db of Inr (True, _) \<Rightarrow> True | _ \<Rightarrow> False)"

lemma entries_cleared_cong:
  "issues db' = issues db \<Longrightarrow> gate_config db' = gate_config db \<Longrightarrow> entries_cleared db' = entries_cleared db"
proof -
  assume i: "issues db' = issues db" and g: "gate_config db' = gate_config db"
  have "open_issues db' = open_issues db" and b: "blocking_issue db' = blocking_issue db"
    by (simp_all add: open_issues_def blocking_issue_def i)
  then have "reconciliation_gate_status db' = reconciliation_gate_status db"
    unfolding reconciliation_gate_status_def g by (simp only:)
  then show ?thesis unfolding entries_cleared_def reconciliation_allows_new_entries_def b by (simp only:)
qed

lemma decision_frame [simp]:
  "issues (fst (reject_plan p d r now db)) = issues db" "gate_config (fst (reject_plan p d r now db)) = gate_config db"
  "issues (fst (miss_by_capital p ctx s r now db)) = issues db" "gate_config (fst (miss_by_capital p ctx s r now db)) = gate_config db"
  "issues (fst (reject_by_reconciliation p r now db)) = issues db" "gate_config (fst (reject_by_reconciliation p r now db)) = gate_config db"
  "issues (fst (approve_plan p now db)) = issues db" "gate_config (fst (approve_plan p now db)) = gate_config db"
  by (simp_all add: reject_plan_def miss_by_capital_def reject_by_reconciliation_def approve_plan_def)

lemma executable_touch [simp]: "executable (touch_plan now old p) = executable p"
  by (simp add: executable_def)

lemma exec_ids_commit [simp]: "exec_ids (commit now old db) = exec_ids db"
  by (force simp: exec_ids_def image_iff)

lemma exec_ids_put:
  assumes "\<not> executable x"
  shows "exec_ids (put_plan x db) \<subseteq> exec_ids db - {pl_id x}"
  using assms by (auto simp: exec_ids_def dest!: set_put_rowD)

lemma exec_ids_audit [simp]: "exec_ids (write_audit a s t i st r n db) = exec_ids db"
  by (simp add: exec_ids_def)

lemma checks_never_approve: "(False, d, r) \<in> set (approval_checks plan ctx st ny) \<Longrightarrow> d \<noteq> APPROVED_FOR_SIM_TRADE"
  by (auto simp: approval_checks_def)

lemma rules_refused:
  assumes "rules_approve_trade_plan plan ctx state st ck db = Inr (db', d)" and "\<not> approved d"
  shows "exec_ids db' \<subseteq> exec_ids db - {pl_id plan}"
  using assms(1)
proof (cases rule: rules_approve_cases)
  case (rejected dd r)
  have "dd \<noteq> APPROVED_FOR_SIM_TRADE" using rejected(3) checks_never_approve by blast
  then have "\<not> executable (plan\<lparr>pl_rules_approval_status := dd, pl_rules_reject_reason := r\<rparr>)"
    by (simp add: executable_def)
  from exec_ids_put [OF this] show ?thesis by (simp add: rejected(1) reject_plan_def)
next
  case (missed r)
  let ?p = "plan\<lparr>pl_status := (if pl_status plan = PL_TRIGGERED then PL_MISSED_BY_CAPITAL else PL_WAITLIST),
      pl_capital_status := pf_status state, pl_capital_reason := r, pl_missed_by_capital_at := Some (cl_utc ck),
      pl_missed_by_capital_price := map_option rc_current_price ctx\<rparr>"
  have plan_ids: "pl_id ?p = pl_id plan" by simp
  have "\<not> executable ?p" by (simp add: executable_def)
  from exec_ids_put [OF this, of db] show ?thesis
    by (simp only: missed(1) miss_by_capital_def fst_conv exec_ids_commit exec_ids_audit plan_ids)
next
  case (gated r)
  have "\<not> executable (plan\<lparr>pl_rules_approval_status := REJECTED_BY_RECONCILIATION, pl_rules_reject_reason := r\<rparr>)"
    by (simp add: executable_def)
  from exec_ids_put [OF this] show ?thesis by (simp add: gated(1) reject_by_reconciliation_def)
next
  case (passed r)
  with assms(2) show ?thesis by simp
qed

lemma rules_keep_gate:
  assumes "rules_approve_trade_plan plan ctx state st ck db = Inr (db', d)"
  shows "entries_cleared db' = entries_cleared db"
  using assms by (cases rule: rules_approve_cases) (auto intro!: entries_cleared_cong)

lemma rules_granted:
  assumes "rules_approve_trade_plan plan ctx state st ck db = Inr (db', d)" and "approved d"
  shows "entries_cleared db"
  using assms(1)
proof (cases rule: rules_approve_cases)
  case (rejected dd r)
  have "dd \<noteq> APPROVED_FOR_SIM_TRADE" using rejected(3) checks_never_approve by blast
  with assms(2) rejected(2) show ?thesis by (simp add: approved_def)
next
  case (passed r)
  then show ?thesis by (simp add: entries_cleared_def)
qed (use assms(2) in \<open>auto simp: approved_def\<close>)

interpretation rules: entry_approval "approve_triggered contexts portfolio st ck" exec_ids entries_cleared
  for contexts portfolio st ck
proof unfold_locales
  fix p :: trade_plan and s s' :: "'a ledger_scheme" and b
  let ?p = "p\<lparr>pl_available_cash_snapshot := Some (pf_available_cash portfolio),
              pl_max_new_position_value := Some (pf_account_equity portfolio * max_symbol_position_pct st)\<rparr>"
  have step: "\<exists>d. rules_approve_trade_plan ?p (map_of contexts (pl_id p)) portfolio st ck s = Inr (s', d) \<and> b = approved d"
    if "approve_triggered contexts portfolio st ck p s = Inr (s', b)" for b
    using that by (auto simp: approve_triggered_def Let_def split: sum.splits)
  show "exec_ids s' \<subseteq> exec_ids s - {pl_id p}" if "approve_triggered contexts portfolio st ck p s = Inr (s', False)"
    using step [OF that] rules_refused by fastforce
  show "entries_cleared s" if "approve_triggered contexts portfolio st ck p s = Inr (s', True)"
    using step [OF that] rules_granted by fastforce
  show "entries_cleared s' = entries_cleared s" if "approve_triggered contexts portfolio st ck p s = Inr (s', b)"
    using step [OF that] rules_keep_gate by fastforce
qed

text \<open>The phases before and after the reconciliation leave the issues and the stored gate alone.\<close>

definition same_gate :: "'z ledger_scheme \<Rightarrow> 'z ledger_scheme \<Rightarrow> bool" where
  "same_gate db db' \<longleftrightarrow> issues db' = issues db \<and> gate_config db' = gate_config db"

lemma same_gate_refl [simp]: "same_gate db db"
  by (simp add: same_gate_def)

lemma same_gate_trans: "same_gate a b \<Longrightarrow> same_gate b c \<Longrightarrow> same_gate a c"
  by (simp add: same_gate_def)

lemma fill_gate [simp]:
  "issues (open_or_close_position base x now db) = issues db"
  "gate_config (open_or_close_position base x now db) = gate_config db"
  by (simp_all add: open_or_close_position_def buy_fill_def sell_fill_def Let_def split: side.split option.split)

lemma timeout_gate [simp]:
  "issues (or_db (check_timeout br now t x s)) = issues (or_db s)"
  "gate_config (or_db (check_timeout br now t x s)) = gate_config (or_db s)"
  by (simp_all add: check_timeout_def sell_waiting_def mark_remote_missing_def mark_cancelled_def Let_def
      split: side.split sum.split option.split)

lemma reconcile_order_gate:
  "reconcile_order base br now t ix x s = Inr s' \<Longrightarrow> same_gate (or_db s) (or_db s')"
  by (auto simp: reconcile_order_def same_gate_def Let_def split: option.splits list.splits sum.splits if_splits)

lemma apply_deal_gate: "apply_deal base now row s = Inr s' \<Longrightarrow> same_gate (or_db s) (or_db s')"
  by (auto simp: apply_deal_def same_gate_def Let_def split: option.splits sum.splits if_splits)

lemma foldM_same_gate:
  assumes "foldM f xs s = Inr r" and "\<And>x s s'. f x s = Inr s' \<Longrightarrow> same_gate (g s) (g s')"
  shows "same_gate (g s) (g r)"
  using assms(1) by (rule foldM_invariant) (auto intro: same_gate_trans assms(2))

lemma sync_orders_gate:
  assumes "sync_sim_orders br t now db = Inr (db', c, k)"
  shows "same_gate db db'"
proof -
  obtain rows ds b s1 s2 where
    "foldM (reconcile_order db br now t (open_order_index rows)) (filter needs_reconcile (orders db)) (start_run db) = Inr s1"
    "foldM (apply_deal db now) ds s1 = Inr s2" "db' = commit now db (or_db s2)"
    by (rule sync_orders_result [OF assms])
  with foldM_same_gate [of "reconcile_order db br now t (open_order_index rows)" _ "start_run db" s1 or_db]
    foldM_same_gate [of "apply_deal db now" ds s1 s2 or_db] reconcile_order_gate apply_deal_gate
  show ?thesis by (fastforce simp: same_gate_def)
qed

lemma create_position_gate [simp]:
  "issues (snd (create_position st now rp m db)) = issues db"
  "gate_config (snd (create_position st now rp m db)) = gate_config db"
  by (simp_all add: create_position_def Let_def split: option.split)

lemma sync_row_gate: "same_gate (sy_db s) (sy_db (sync_remote_row st now row s))"
  by (auto simp: sync_remote_row_def Let_def same_gate_def split_def split: option.split)

lemma sync_rows_gate: "same_gate (sy_db s) (sy_db (fold (sync_remote_row st now) rows s))"
  by (induction rows arbitrary: s) (auto intro: same_gate_trans sync_row_gate)

lemma close_missing_gate: "same_gate db (fst (close_missing now seen ps (db, n)))"
proof (induction ps arbitrary: db n)
  case (Cons p ps)
  have "same_gate db (close_missing_position now p db)"
    by (simp add: close_missing_position_def same_gate_def Let_def split: option.split)
  with Cons.IH [of "close_missing_position now p db" "n + 1"] Cons.IH [of db n] show ?case
    by (auto simp: Let_def intro: same_gate_trans)
qed simp

lemma position_phase_gate: "position_phase br st now db = Inr db' \<Longrightarrow> same_gate db db'"
proof -
  assume p: "position_phase br st now db = Inr db'"
  show ?thesis
  proof (cases "sync_futu_positions_to_local br st now db")
    case (Inl e)
    with p show ?thesis by (auto simp: position_phase_def split: exn.splits)
  next
    case (Inr r)
    obtain c where r: "r = (db', c)" using p Inr by (cases r) (auto simp: position_phase_def)
    from Inr r obtain rows n db1 where
      "db' = commit now db db1"
      "db1 = fst (close_missing now (sy_seen (fold (sync_remote_row st now) rows \<lparr>sy_db = db, sy_seen = [], sy_created = 0, sy_updated = 0\<rparr>)) n
        (sy_db (fold (sync_remote_row st now) rows \<lparr>sy_db = db, sy_seen = [], sy_created = 0, sy_updated = 0\<rparr>), 0))"
      by (auto simp: sync_futu_positions_to_local_def Let_def split_def split: sum.splits if_splits)
    with close_missing_gate [of "sy_db (fold (sync_remote_row st now) rows \<lparr>sy_db = db, sy_seen = [], sy_created = 0, sy_updated = 0\<rparr>)"]
      sync_rows_gate [of "\<lparr>sy_db = db, sy_seen = [], sy_created = 0, sy_updated = 0\<rparr>" st now rows]
    show ?thesis by (auto simp: same_gate_def)
  qed
qed

lemma manage_position_gate:
  "manage_position br st ck r p db = Inr (db', oc, rqs) \<Longrightarrow> same_gate db db'"
  by (auto simp: manage_position_def send_exit_def same_gate_def Let_def
      split: if_splits prod.splits retry_verdict.splits sum.splits)

lemma manage_one_gate: "same_gate (mr_db s) (mr_db (manage_one br st ck sn p s))"
  by (auto simp: manage_one_def same_gate_def split: sum.split dest!: manage_position_gate)

lemma manage_gate: "manage_positions quotes br st ck db = Inr s \<Longrightarrow> same_gate db (mr_db s)"
proof -
  have "same_gate (mr_db s0) (mr_db (fold (manage_one br st ck sn) ps s0))" for sn ps s0
    by (induction ps arbitrary: s0) (auto intro: same_gate_trans manage_one_gate)
  from this [of "\<lparr>mr_db = db, mr_requests = [], mr_submitted = 0, mr_errors = 0, mr_skipped = 0\<rparr>"]
  show "manage_positions quotes br st ck db = Inr s \<Longrightarrow> ?thesis"
    by (auto simp: manage_positions_def same_gate_def Let_def split: sum.splits)
qed

lemma validate_gate: "validate_active_trade_plans quotes ck db = Inr v \<Longrightarrow> same_gate db (va_db v)"
proof -
  have "same_gate (va_db v0) (va_db (fold (validate_plan sn m ck) ps v0))" for sn m ps v0
    by (induction ps arbitrary: v0) (auto simp: same_gate_def validate_plan_frame)
  from this [of "\<lparr>va_db = db, va_contexts = [], va_counts = \<lparr>vc_validated = 0, vc_triggered = 0, vc_invalidated = 0, vc_no_chase = 0\<rparr>\<rparr>"]
  show "validate_active_trade_plans quotes ck db = Inr v \<Longrightarrow> ?thesis"
    by (auto simp: validate_active_trade_plans_def same_gate_def Let_def split: sum.splits)
qed

text \<open>The gate stored by the reconciliation phase is the one the approval rules meet.\<close>

lemma reconcile_phase_cleared:
  assumes "reconcile_phase br fault now db = (db', h, g)" and "entries_cleared db'"
    and "unique_issues (issues db)" and "issues_typed (issues db)"
  shows "\<exists>he ps os ds supported. fault = None \<and> h = Some he \<and> he_allow_new_entries he
    \<and> read_broker br = Inr (ps, os, ds, supported) \<and> ledger_agrees ps os ds db'"
proof -
  obtain gr where stored: "reconciliation_gate_status db' = Inr (Some gr)" "ga_allow_new_entries gr"
    using assms(2) by (auto simp: entries_cleared_def reconciliation_allows_new_entries_def
        split: sum.splits option.splits bool.splits if_splits)
  show ?thesis
  proof (cases fault)
    case (Some e)
    let ?f = "save_reconciliation_gate_failure (zh_reconciliation_run_failed @ exn_str e) now db"
    have "db' = fst ?f" using assms(1) by (simp add: reconcile_phase_def Some Let_def split_def)
    with stored stored_failure [of "zh_reconciliation_run_failed @ exn_str e" now db] show ?thesis by simp
  next
    case None
    obtain db1 he where run: "run_trade_reconciliation br now db = (db1, he)" by (metis surj_pair)
    let ?f = "save_reconciliation_gate_status he now db1"
    have f: "db' = fst ?f" "h = Some he" using assms(1) by (auto simp: reconcile_phase_def None run Let_def split_def)
    have allow: "he_allow_new_entries he"
      using stored stored_status [of he now db1] f(1) by simp
    have frame: "positions db' = positions db1" "orders db' = orders db1"
      by (simp_all add: f(1) save_reconciliation_gate_status_def save_gate_def Let_def)
    from gate_of_run [OF assms(3,4) run] allow obtain ps os ds supported
      where rd: "read_broker br = Inr (ps, os, ds, supported)" "ledger_agrees ps os ds db"
      by (auto split: sum.splits)
    have "ledger_agrees ps os ds db'"
      using rd(2) run_keeps(2,3) [OF rd(1) assms(3) run] frame by (simp add: ledger_agrees_def local_open_position_def)
    with rd(1) None f(2) allow show ?thesis by blast
  qed
qed

lemma no_executable_no_order:
  assumes "execute_approved_sim_orders br st now db = Inr s" and "exec_ids db = {}"
  shows "ex_requests s = []"
proof -
  have "filter executable (plans db) = []" using assms(2) by (auto simp: exec_ids_def filter_empty_conv)
  then show ?thesis
    using assms(1) by (auto simp: execute_approved_sim_orders_def validation_order_def Let_def split: sum.splits if_splits)
qed

text \<open>The steps of a pass that came to its end.\<close>

lemma run_sim_loop_steps:
  assumes "run_sim_loop env st db = Inr r"
  obtains db1 c k db2 mg db4 v db5 ex where
    "sync_sim_orders (pe_orders env) (entry_order_timeout_seconds st) (cl_utc (pe_clock env)) db = Inr (db1, c, k)"
    "position_phase (pe_positions env) st (cl_utc (pe_clock env)) db1 = Inr db2"
    "reconcile_phase (pe_reconcile env) (pe_reconcile_fault env) (cl_utc (pe_clock env)) db2 = (pr_reconciled r, pr_health r, pr_gate r)"
    "manage_positions (pe_manage_quotes env) (pe_manage env) st (pe_clock env) (pr_reconciled r) = Inr mg"
    "get_portfolio_state (Some (pe_portfolio env)) st (cl_utc (pe_clock env)) (mr_db mg) = Inr (db4, pr_portfolio r)"
    "validate_active_trade_plans (pe_validate_quotes env) (pe_clock env) db4 = Inr v"
    "approve_first (approve_triggered (va_contexts v) (pr_portfolio r) st (pe_clock env))
       (validation_order (filter (\<lambda>p. pl_status p = PL_TRIGGERED) (plans (va_db v)))) (va_db v) = Inr (db5, pr_approved r)"
    "execute_approved_sim_orders (pe_execute env) st (cl_utc (pe_clock env)) db5 = Inr ex"
    "pr_entry_requests r = ex_requests ex" "pr_exit_requests r = mr_requests mg"
  using assms by (auto simp: run_sim_loop_def Let_def split: sum.splits prod.splits)

section \<open>Properties\<close>

text \<open>C1. No BUY order leaves the program unless, in the same pass, a plan was approved by the rules and the
  reconciliation cleared the ledger: no fault, all reads of the broker succeeded, its health allows
  entries, and the ledger agrees with the positions and orders the broker reported.\<close>

theorem entries_only_after_agreement:
  assumes "run_sim_loop env st db = Inr r" and "pr_entry_requests r \<noteq> []"
    and "unique_issues (issues db)" and "issues_typed (issues db)"
  shows "pr_approved r \<and> pe_reconcile_fault env = None
    \<and> (\<exists>he ps os ds supported. pr_health r = Some he \<and> he_allow_new_entries he
        \<and> read_broker (pe_reconcile env) = Inr (ps, os, ds, supported) \<and> ledger_agrees ps os ds (pr_reconciled r))"
proof -
  obtain db1 c k db2 mg db4 v db5 ex where steps:
    "sync_sim_orders (pe_orders env) (entry_order_timeout_seconds st) (cl_utc (pe_clock env)) db = Inr (db1, c, k)"
    "position_phase (pe_positions env) st (cl_utc (pe_clock env)) db1 = Inr db2"
    "reconcile_phase (pe_reconcile env) (pe_reconcile_fault env) (cl_utc (pe_clock env)) db2 = (pr_reconciled r, pr_health r, pr_gate r)"
    "manage_positions (pe_manage_quotes env) (pe_manage env) st (pe_clock env) (pr_reconciled r) = Inr mg"
    "get_portfolio_state (Some (pe_portfolio env)) st (cl_utc (pe_clock env)) (mr_db mg) = Inr (db4, pr_portfolio r)"
    "validate_active_trade_plans (pe_validate_quotes env) (pe_clock env) db4 = Inr v"
    "approve_first (approve_triggered (va_contexts v) (pr_portfolio r) st (pe_clock env))
       (validation_order (filter (\<lambda>p. pl_status p = PL_TRIGGERED) (plans (va_db v)))) (va_db v) = Inr (db5, pr_approved r)"
    "execute_approved_sim_orders (pe_execute env) st (cl_utc (pe_clock env)) db5 = Inr ex"
    "pr_entry_requests r = ex_requests ex"
    by (rule run_sim_loop_steps [OF assms(1)]) blast
  have granted: "pr_approved r"
  proof (rule ccontr)
    assume "\<not> pr_approved r"
    with steps(7) have "exec_ids db5 \<subseteq> exec_ids (va_db v) - pl_id ` {p \<in> set (plans (va_db v)). pl_status p = PL_TRIGGERED}"
      using rules.none_approved by fastforce
    then have "exec_ids db5 = {}" by (auto simp: exec_ids_def executable_def)
    with no_executable_no_order [OF steps(8)] assms(2) steps(9) show False by simp
  qed
  with steps(7) have "entries_cleared (va_db v)" by (auto intro: rules.approved_cleared)
  then have cleared: "entries_cleared (pr_reconciled r)"
    using validate_gate [OF steps(6)] get_portfolio_keeps(3,4) [OF steps(5)] manage_gate [OF steps(4)]
      entries_cleared_cong [of "va_db v" "pr_reconciled r"] by (simp add: same_gate_def)
  have "issues db2 = issues db"
    using sync_orders_gate [OF steps(1)] position_phase_gate [OF steps(2)] by (simp add: same_gate_def)
  with reconcile_phase_cleared [OF steps(3) cleared] assms(3,4) granted show ?thesis by simp
qed

definition quiet_pass :: "broker \<Rightarrow> quotes \<Rightarrow> pass_env" where
  "quiet_pass br q = \<lparr>pe_orders = br, pe_positions = br, pe_reconcile = br, pe_reconcile_fault = None, pe_manage = br,
     pe_portfolio = br, pe_execute = br, pe_manage_quotes = q, pe_validate_quotes = q, pe_clock = monday_noon\<rparr>"

text \<open>On the sample market day the plan is triggered, approved and bought within one pass.\<close>

theorem entries_only_after_agreement_witness:
  "\<exists>r. run_sim_loop (quiet_pass funded_broker aapl_quote) default_settings market_day = Inr r
     \<and> map (\<lambda>q. (rq_symbol (fst q), rq_qty (fst q))) (pr_entry_requests r) = [(''US.AAPL'', 100)]
     \<and> (\<exists>he. pr_health r = Some he \<and> he_allow_new_entries he)"
proof -
  let ?r = "run_sim_loop (quiet_pass funded_broker aapl_quote) default_settings market_day"
  have "map_sum id (\<lambda>r. map (\<lambda>q. (rq_symbol (fst q), rq_qty (fst q))) (pr_entry_requests r)) ?r = Inr [(''US.AAPL'', 100)]"
    by code_simp
  then obtain r where r: "?r = Inr r" "map (\<lambda>q. (rq_symbol (fst q), rq_qty (fst q))) (pr_entry_requests r) = [(''US.AAPL'', 100)]"
    by (cases ?r) auto
  have u: "unique_issues (issues market_day)" "issues_typed (issues market_day)"
    by (simp_all add: market_day_def empty_store_def unique_issues_def issues_typed_def empty_ledger_def ledger.defs store.defs)
  have "pr_entry_requests r \<noteq> []" using r(2) by auto
  from entries_only_after_agreement [OF r(1) this u]
  obtain he where "pr_health r = Some he" "he_allow_new_entries he" by blast
  with r show ?thesis by (intro exI [of _ r] conjI exI [of _ he])
qed

text \<open>
  A plan whose order was cancelled is ARMED again and keeps its old approval. Its quote has no bid and
  no ask. The other plan passes the rules but the risk budget does not buy one share of it.
\<close>

definition approved_earlier :: trade_plan where
  "approved_earlier = (sample_plan 2 ''US.MSFT'')\<lparr>pl_status := PL_ARMED, pl_rules_approval_status := APPROVED_FOR_SIM_TRADE\<rparr>"

definition unaffordable :: trade_plan where
  "unaffordable = (sample_plan 1 ''US.AAPL'')\<lparr>pl_status := PL_ACTIVE, pl_breakout_entry_price := Some 1000,
     pl_stop_price := 100, pl_no_chase_above := Some 1010\<rparr>"

definition two_quotes :: quotes where
  "two_quotes symbols = Inr [
     [(''code'', PStr ''US.AAPL''), (''last_price'', PInt 1005), (''bid_price'', PInt 1005), (''ask_price'', PInt 1005), (''volume'', PInt 9)],
     [(''code'', PStr ''US.MSFT''), (''last_price'', PInt 101)]]"

definition bought :: "exn + store pass_result \<Rightarrow> string list" where
  "bought r = (case r of Inl _ \<Rightarrow> [] | Inr x \<Rightarrow> map (\<lambda>q. rq_symbol (fst q)) (pr_entry_requests x))"

text \<open>An approval of an earlier pass is executed without a new decision: alone, the plan without a bid
  and an ask is refused and nothing is bought; beside a plan that is approved but cannot be afforded,
  it is bought.\<close>

theorem stale_approval_is_executed:
  "bought (run_sim_loop (quiet_pass funded_broker two_quotes) default_settings (market_day\<lparr>plans := [approved_earlier]\<rparr>)) = []
   \<and> bought (run_sim_loop (quiet_pass funded_broker two_quotes) default_settings
       (market_day\<lparr>plans := [unaffordable, approved_earlier]\<rparr>)) = [''US.MSFT'']"
  by (rule conjI; code_simp)

end
