(* ===== verification/Market_Trend.thy ===== *)
theory Market_Trend
  imports Store
begin

text \<open>
  app/services/market.py, trend.py and daily_state.py: the state of the market from the benchmark
  symbols, the trend of a stock from its daily and 60-minute bars, and its daily state; each is
  computed from the latest bars with their indicators and stored under its date.
\<close>

section \<open>Bars with their indicators\<close>

definition latest_bar :: "string \<Rightarrow> timeframe \<Rightarrow> 'z store_scheme \<Rightarrow> kline option" where
  "latest_bar symbol tf db =
     scalar (order_desc kl_ts (filter (\<lambda>b. kl_symbol b = symbol \<and> kl_timeframe b = tf \<and> kl_data_ok b) (klines db)))"

definition indicator_at :: "string \<Rightarrow> timeframe \<Rightarrow> int \<Rightarrow> 'z store_scheme \<Rightarrow> indicator option" where
  "indicator_at symbol tf t db =
     scalar (filter (\<lambda>i. in_symbol i = symbol \<and> in_timeframe i = tf \<and> in_ts i = t) (indicators db))"

definition latest_of :: "string \<Rightarrow> timeframe \<Rightarrow> 'z store_scheme \<Rightarrow> (kline \<times> indicator) option" where
  "latest_of symbol tf db =
     (case latest_bar symbol tf db of
        None \<Rightarrow> None
      | Some b \<Rightarrow> (case indicator_at symbol tf (kl_ts b) db of None \<Rightarrow> None | Some i \<Rightarrow> Some (b, i)))"

section \<open>The market\<close>

definition latest_joined :: "string \<Rightarrow> 'z store_scheme \<Rightarrow> (kline \<times> indicator) option" where
  "latest_joined symbol db = latest_of symbol DAILY db"

record market_diagnostic =
  md_symbol :: string
  md_ready :: bool
  md_passed :: bool
  md_as_of :: "int option"
  md_close :: "real option"
  md_ma20 :: "real option"
  md_ma60 :: "real option"
  md_macd_dif :: "real option"
  md_above_ma60 :: "bool option"
  md_ma_bullish :: "bool option"
  md_momentum_ok :: "bool option"
  md_reason :: string

definition diagnose :: "'z store_scheme \<Rightarrow> string \<Rightarrow> market_diagnostic" where
  "diagnose db symbol =
     (case latest_joined symbol db of
        None \<Rightarrow> \<lparr>md_symbol = symbol, md_ready = False, md_passed = False, md_as_of = None, md_close = None,
            md_ma20 = None, md_ma60 = None, md_macd_dif = None, md_above_ma60 = None, md_ma_bullish = None,
            md_momentum_ok = None, md_reason = symbol @ '' market data or indicators missing''\<rparr>
      | Some (b, i) \<Rightarrow>
          (case (in_ma60 i, in_ma20 i, in_macd_dif i) of
             (Some ma60, Some ma20, Some dif) \<Rightarrow>
               (let above = kl_close b > ma60; bullish = ma20 \<ge> ma60; momentum = (dif \<ge> 0 \<or> kl_close b \<ge> ma20)
                in \<lparr>md_symbol = symbol, md_ready = True, md_passed = (above \<and> bullish \<and> momentum),
                    md_as_of = Some (date_of (kl_ts b)), md_close = Some (kl_close b), md_ma20 = Some ma20,
                    md_ma60 = Some ma60, md_macd_dif = Some dif, md_above_ma60 = Some above,
                    md_ma_bullish = Some bullish, md_momentum_ok = Some momentum,
                    md_reason = symbol @ '': close '' @ (if above then ''>'' else ''<='') @ '' MA60, MA20 ''
                      @ (if bullish then ''>='' else ''<'') @ '' MA60, MACD '' @ (if momentum then ''ok'' else ''weak'')\<rparr>)
           | _ \<Rightarrow> \<lparr>md_symbol = symbol, md_ready = False, md_passed = False, md_as_of = Some (date_of (kl_ts b)),
               md_close = Some (kl_close b), md_ma20 = in_ma20 i, md_ma60 = in_ma60 i, md_macd_dif = in_macd_dif i,
               md_above_ma60 = None, md_ma_bullish = None, md_momentum_ok = None,
               md_reason = symbol @ '' market indicators insufficient''\<rparr>))"

definition market_diagnostics :: "string list \<Rightarrow> 'z store_scheme \<Rightarrow> market_diagnostic list" where
  "market_diagnostics symbols db = map (diagnose db) symbols"

record market_evaluation =
  me_as_of :: int
  me_state :: market_state
  me_reason :: string

text \<open>Without any bar the date is today's, a parameter.\<close>

definition evaluate_market :: "int \<Rightarrow> string list \<Rightarrow> 'z store_scheme \<Rightarrow> market_evaluation" where
  "evaluate_market today symbols db =
     (let ds = market_diagnostics symbols db; ready = filter md_ready ds;
          dates = concat (map (\<lambda>d. case md_as_of d of None \<Rightarrow> [] | Some t \<Rightarrow> [t]) ds);
          as_of = (if dates = [] then today else Max (set dates)); reason = join_with ''; '' (map md_reason ds);
          strong = length (filter md_passed ready)
      in \<lparr>me_as_of = as_of,
          me_state = (if length ready \<noteq> length symbols then RISK_OFF
                      else if strong = length ready then RISK_ON
                      else if strong \<ge> 1 then NEUTRAL_POSITIVE else RISK_OFF),
          me_reason = reason\<rparr>)"

text \<open>A row that is set to the values it had is not written, so its time of update stays.\<close>

definition persist_market_state :: "market_evaluation \<Rightarrow> int \<Rightarrow> 'z store_scheme \<Rightarrow> 'z store_scheme" where
  "persist_market_state ev now db =
     db\<lparr>market_states := upsert ms_as_of
         (\<lambda>m. if ms_state m = me_state ev \<and> ms_reason m = me_reason ev then m
              else m\<lparr>ms_state := me_state ev, ms_reason := me_reason ev, ms_updated_at := now\<rparr>)
         \<lparr>ms_as_of = me_as_of ev, ms_state = me_state ev, ms_reason = me_reason ev, ms_updated_at = now\<rparr>
         (market_states db)\<rparr>"

section \<open>The trend of a stock\<close>

definition trend_reason :: "kline \<Rightarrow> real \<Rightarrow> real \<Rightarrow> kline \<Rightarrow> real \<Rightarrow> real \<Rightarrow> string" where
  "trend_reason bar dma20 dma60 hb hma20 hma60 =
     ''daily close='' @ fmt_fixed 2 (kl_close bar) @ '', MA20='' @ fmt_fixed 2 dma20 @ '', MA60='' @ fmt_fixed 2 dma60
     @ ''; 60m close='' @ fmt_fixed 2 (kl_close hb) @ '', MA20='' @ fmt_fixed 2 hma20 @ '', MA60='' @ fmt_fixed 2 hma60"

definition evaluate_stock_trend :: "string \<Rightarrow> 'z store_scheme \<Rightarrow> trend \<times> string" where
  "evaluate_stock_trend symbol db =
     (case (latest_of symbol DAILY db, latest_of symbol HOUR_60 db) of
        (Some (dbar, di), Some (hbar, hi)) \<Rightarrow>
          (case (in_ma20 di, in_ma60 di, in_macd_dif di, in_ma20 hi, in_ma60 hi) of
             (Some dma20, Some dma60, Some dif, Some hma20, Some hma60) \<Rightarrow>
               (let daily_bull = (kl_close dbar > dma60 \<and> dma20 > dma60);
                    hourly_not_bear = (kl_close hbar \<ge> hma60 \<or> hma20 \<ge> hma60);
                    macd_not_deep = (dif > - (\<bar>kl_close dbar\<bar> * (2/100)))
                in (if daily_bull \<and> hourly_not_bear \<and> kl_close dbar > dma20 \<and> dif > 0 then STRONG_UPTREND
                    else if daily_bull \<and> hourly_not_bear \<and> macd_not_deep then UPTREND
                    else if kl_close dbar < dma60 \<and> dma20 < dma60 then DOWNTREND
                    else SIDEWAYS,
                    trend_reason dbar dma20 dma60 hbar hma20 hma60))
           | _ \<Rightarrow> (TREND_UNKNOWN, ''indicator history insufficient''))
      | _ \<Rightarrow> (TREND_UNKNOWN, ''daily or 60m data missing''))"

definition persist_stock_trend :: "string \<Rightarrow> trend \<times> string \<Rightarrow> 'z store_scheme \<Rightarrow> exn + 'z store_scheme" where
  "persist_stock_trend symbol ev db =
     (case scalar (order_desc kl_ts (filter (\<lambda>b. kl_symbol b = symbol \<and> kl_timeframe b = DAILY) (klines db))) of
        None \<Rightarrow> Inl (ValueError (''cannot persist trend for '' @ symbol @ '': no daily bar''))
      | Some b \<Rightarrow>
          Inr (db\<lparr>stock_trends := upsert (\<lambda>t. (st_symbol t, st_as_of t)) (\<lambda>t. t\<lparr>st_trend := fst ev, st_reason := snd ev\<rparr>)
                 \<lparr>st_symbol = symbol, st_as_of = date_of (kl_ts b), st_trend = fst ev, st_reason = snd ev\<rparr> (stock_trends db)\<rparr>))"

section \<open>The daily state\<close>

record daily_evaluation =
  de_symbol :: string
  de_as_of :: "int option"
  de_state :: daily_state
  de_why :: string

definition joined_bars :: "string \<Rightarrow> timeframe \<Rightarrow> 'z store_scheme \<Rightarrow> (kline \<times> indicator) list" where
  "joined_bars symbol tf db =
     concat (map (\<lambda>b. map (\<lambda>i. (b, i))
         (filter (\<lambda>i. in_symbol i = symbol \<and> in_timeframe i = tf \<and> in_ts i = kl_ts b) (indicators db)))
       (order_desc kl_ts (filter (\<lambda>b. kl_symbol b = symbol \<and> kl_timeframe b = tf \<and> kl_data_ok b) (klines db))))"

text \<open>The classification by close, averages, slope, MACD and the middle band; dividing by a zero average raises.\<close>

definition classify_daily :: "real \<Rightarrow> real \<Rightarrow> real \<Rightarrow> real \<Rightarrow> real \<Rightarrow> real option \<Rightarrow> exn + daily_state \<times> string" where
  "classify_daily close ma20 ma60 dif slope boll_mid =
     (let distance = (if ma20 \<noteq> 0 then \<bar>close - ma20\<bar> / ma20 else 1)
      in if close > ma20 \<and> ma20 > ma60 \<and> slope > 0 \<and> dif > 0 \<and> distance \<le> 18/100
         then Inr (DAILY_STRONG_BULL, zh_daily_strong_bull)
         else if close \<ge> ma20 * (97/100) \<and> ma20 \<ge> ma60 * (98/100) \<and> slope \<ge> - ma20 * (2/1000) \<and> dif \<ge> - close * (1/100)
         then Inr (DAILY_WEAK_BULL, zh_daily_weak_bull)
         else if ma20 = 0 then Inl (OtherError ''float division by zero'')
         else if \<bar>close - ma20\<bar> / ma20 \<le> 5/100 \<and> \<bar>slope\<bar> / ma20 \<le> 1/100 then Inr (DAILY_RANGE, zh_daily_range)
         else if close < ma20 \<and> ma20 < ma60 \<and> slope < 0 \<and> (case boll_mid of None \<Rightarrow> True | Some m \<Rightarrow> close < m)
         then Inr (DAILY_STRONG_BEAR, zh_daily_strong_bear)
         else Inr (DAILY_WEAK_BEAR, zh_daily_weak_bear))"

definition evaluate_daily_state :: "string \<Rightarrow> 'z store_scheme \<Rightarrow> exn + daily_evaluation" where
  "evaluate_daily_state symbol db =
     (let rows = take 6 (joined_bars symbol DAILY db)
      in if length rows < 6
         then Inr \<lparr>de_symbol = symbol, de_as_of = None, de_state = DAILY_UNKNOWN, de_why = zh_daily_short_history\<rparr>
         else (let (b, i) = hd rows; prior = snd (last rows); as_of = Some (date_of (kl_ts b))
               in case (in_ma20 i, in_ma60 i, in_macd_dif i, in_ma20 prior) of
                    (Some ma20, Some ma60, Some dif, Some prior20) \<Rightarrow>
                      (case classify_daily (kl_close b) ma20 ma60 dif (ma20 - prior20) (in_boll_mid i) of
                         Inl e \<Rightarrow> Inl e
                       | Inr (s, r) \<Rightarrow> Inr \<lparr>de_symbol = symbol, de_as_of = as_of, de_state = s, de_why = r\<rparr>)
                  | _ \<Rightarrow> Inr \<lparr>de_symbol = symbol, de_as_of = as_of, de_state = DAILY_UNKNOWN, de_why = zh_daily_not_formed\<rparr>))"

definition persist_daily_state :: "daily_evaluation \<Rightarrow> 'z store_scheme \<Rightarrow> exn + 'z store_scheme" where
  "persist_daily_state ev db =
     (case de_as_of ev of
        None \<Rightarrow> Inl (ValueError zh_daily_no_date)
      | Some d \<Rightarrow>
          Inr (db\<lparr>daily_states := upsert (\<lambda>s. (ds_symbol s, ds_as_of s)) (\<lambda>s. s\<lparr>ds_state := de_state ev, ds_reason := de_why ev\<rparr>)
                 \<lparr>ds_symbol = de_symbol ev, ds_as_of = d, ds_state = de_state ev, ds_reason = de_why ev\<rparr> (daily_states db)\<rparr>))"

section \<open>Lemmas\<close>

lemma diagnose_passed: "md_passed (diagnose db s) \<Longrightarrow> md_ready (diagnose db s)"
  by (auto simp: diagnose_def Let_def split: option.splits)

lemma latest_of_SomeD:
  assumes "latest_of symbol tf db = Some (b, i)"
  shows "b \<in> set (klines db) \<and> kl_symbol b = symbol \<and> kl_timeframe b = tf \<and> kl_data_ok b
    \<and> i \<in> set (indicators db) \<and> in_symbol i = symbol \<and> in_timeframe i = tf \<and> in_ts i = kl_ts b"
  using assms
  by (auto simp: latest_of_def latest_bar_def indicator_at_def split: option.splits dest!: scalar_SomeD)

lemma length_filter_all: "length (filter P xs) = length xs \<longleftrightarrow> (\<forall>x \<in> set xs. P x)"
  by (metis filter_True length_filter_less nat_neq_iff)

section \<open>Properties\<close>

text \<open>The market is RISK_ON exactly when every benchmark symbol has indicators and passes its three
  checks, NEUTRAL_POSITIVE exactly when all have indicators and some but not all pass; otherwise it
  is RISK_OFF, in particular when data of one symbol is missing.\<close>

theorem market_state_by_checks:
  "(me_state (evaluate_market today symbols db) = RISK_ON \<longleftrightarrow> (\<forall>s \<in> set symbols. md_passed (diagnose db s)))
   \<and> (me_state (evaluate_market today symbols db) = NEUTRAL_POSITIVE
        \<longleftrightarrow> (\<forall>s \<in> set symbols. md_ready (diagnose db s)) \<and> (\<exists>s \<in> set symbols. md_passed (diagnose db s))
          \<and> \<not> (\<forall>s \<in> set symbols. md_passed (diagnose db s)))
   \<and> me_state (evaluate_market today symbols db) \<in> {RISK_ON, NEUTRAL_POSITIVE, RISK_OFF}"
proof -
  let ?ds = "map (diagnose db) symbols"
  let ?ready = "filter md_ready ?ds"
  have ready: "length ?ready = length symbols \<longleftrightarrow> (\<forall>s \<in> set symbols. md_ready (diagnose db s))"
    using length_filter_all [of md_ready ?ds] by simp
  have all: "length (filter md_passed ?ready) = length ?ready
      \<longleftrightarrow> (\<forall>s \<in> set symbols. md_ready (diagnose db s) \<longrightarrow> md_passed (diagnose db s))"
    unfolding length_filter_all by auto
  have some: "length (filter md_passed ?ready) \<ge> 1 \<longleftrightarrow> (\<exists>s \<in> set symbols. md_passed (diagnose db s))"
    using diagnose_passed [of db] by (auto simp: Suc_le_eq filter_empty_conv simp del: filter_filter)
  have state: "me_state (evaluate_market today symbols db) =
    (if length ?ready \<noteq> length symbols then RISK_OFF else if length (filter md_passed ?ready) = length ?ready then RISK_ON
     else if length (filter md_passed ?ready) \<ge> 1 then NEUTRAL_POSITIVE else RISK_OFF)"
    by (simp only: evaluate_market_def market_diagnostics_def Let_def market_evaluation.simps)
  show ?thesis
    unfolding state ready all some using diagnose_passed [of db] by auto
qed

text \<open>Storing the same evaluation again, even on a later day, does not renew the time of update: the
  database stays as it is, so a market state that was not of the current trading day stays so.\<close>

theorem unchanged_market_not_renewed:
  assumes "distinct (map ms_as_of (market_states db))"
    and "\<exists>m \<in> set (market_states db). ms_as_of m = me_as_of ev \<and> ms_state m = me_state ev \<and> ms_reason m = me_reason ev"
  shows "market_states (persist_market_state ev now db) = market_states db"
proof -
  obtain m where m: "m \<in> set (market_states db)" "ms_as_of m = me_as_of ev" "ms_state m = me_state ev" "ms_reason m = me_reason ev"
    using assms(2) by blast
  have same: "x = m" if "x \<in> set (market_states db)" "ms_as_of x = me_as_of ev" for x
    using that m(1,2) assms(1) by (simp add: distinct_map inj_on_def)
  have key: "me_as_of ev \<in> ms_as_of ` set (market_states db)" using m(1,2) by (metis imageI)
  have "(if ms_as_of x = me_as_of ev then if ms_state x = me_state ev \<and> ms_reason x = me_reason ev then x
      else x\<lparr>ms_state := me_state ev, ms_reason := me_reason ev, ms_updated_at := now\<rparr> else x) = x"
    if "x \<in> set (market_states db)" for x
    using same [OF that] m(3,4) by auto
  then show ?thesis by (simp add: persist_market_state_def upsert_def key map_idI)
qed

definition monday_market :: store where
  "monday_market = empty_store\<lparr>market_states := [\<lparr>ms_as_of = 4, ms_state = RISK_ON, ms_reason = ''ok'', ms_updated_at = days 4\<rparr>]\<rparr>"

theorem unchanged_market_not_renewed_witness:
  "map ms_updated_at (market_states (persist_market_state \<lparr>me_as_of = 4, me_state = RISK_ON, me_reason = ''ok''\<rparr> (days 5) monday_market)) = [days 4]"
proof -
  have "distinct (map ms_as_of (market_states monday_market))"
    "\<exists>m \<in> set (market_states monday_market). ms_as_of m = me_as_of \<lparr>me_as_of = 4, me_state = RISK_ON, me_reason = ''ok''\<rparr>
      \<and> ms_state m = me_state \<lparr>me_as_of = 4, me_state = RISK_ON, me_reason = ''ok''\<rparr>
      \<and> ms_reason m = me_reason \<lparr>me_as_of = 4, me_state = RISK_ON, me_reason = ''ok''\<rparr>" by code_simp+
  from unchanged_market_not_renewed [OF this] show ?thesis by (simp add: monday_market_def)
qed

text \<open>Two benchmarks, of which only the first closes above its MA60.\<close>

definition mixed_market :: store where
  "mixed_market = empty_store\<lparr>
     klines := map (\<lambda>(s, c). \<lparr>kl_symbol = s, kl_timeframe = DAILY, kl_ts = 1, kl_open = c, kl_high = c, kl_low = c, kl_close = c,
       kl_volume = 1, kl_turnover = 0, kl_data_ok = True, kl_anomaly_reason = []\<rparr>) [(''SPY'', 110), (''QQQ'', 90)],
     indicators := map (\<lambda>s. keyed_row s DAILY 1 (blank_row\<lparr>in_ma20 := Some 105, in_ma60 := Some 100, in_macd_dif := Some 1\<rparr>))
       [''SPY'', ''QQQ'']\<rparr>"

theorem market_state_by_checks_witness:
  "me_state (evaluate_market 0 [''SPY'', ''QQQ''] mixed_market) = NEUTRAL_POSITIVE"
proof -
  have "(\<forall>s \<in> set [''SPY'', ''QQQ'']. md_ready (diagnose mixed_market s)) \<and> (\<exists>s \<in> set [''SPY'', ''QQQ'']. md_passed (diagnose mixed_market s))
    \<and> \<not> (\<forall>s \<in> set [''SPY'', ''QQQ'']. md_passed (diagnose mixed_market s))" by code_simp
  with market_state_by_checks [of 0 "[''SPY'', ''QQQ'']" mixed_market] show ?thesis by blast
qed

end
