(* ===== verification/Structures.thy ===== *)
theory Structures
  imports Market_Trend
begin

text \<open>
  app/services/structures.py: the detection of bottom and top structures in a series of bars, and
  the table of structure events. A family (bottom or top) goes round in a cycle: passivation,
  structure, then failure or invalidation, each naming the one before it as its parent.
\<close>

section \<open>Configuration and detections\<close>

record structure_config =
  sc_lookback_bars :: nat
  sc_confirmation_bars :: nat
  sc_minimum_history_bars :: nat
  sc_near_low_atr_multiple :: real
  sc_near_high_atr_multiple :: real
  sc_minimum_pre_move_atr :: real
  sc_minimum_pre_move_pct :: real
  sc_minimum_volume_ratio :: real
  sc_structure_expiry_days :: int
  sc_script_version :: string

definition STRUCTURE_CONFIG :: structure_config where
  "STRUCTURE_CONFIG = \<lparr>sc_lookback_bars = 30, sc_confirmation_bars = 8, sc_minimum_history_bars = 40,
     sc_near_low_atr_multiple = 8/10, sc_near_high_atr_multiple = 8/10, sc_minimum_pre_move_atr = 2,
     sc_minimum_pre_move_pct = 6/100, sc_minimum_volume_ratio = 65/100, sc_structure_expiry_days = 14,
     sc_script_version = ''macd-structure-v2''\<rparr>"

record detection =
  dt_symbol :: string
  dt_timeframe :: timeframe
  dt_type :: event_type
  dt_ts :: int
  dt_price :: real
  dt_reason :: string
  dt_pivot_low :: "real option"
  dt_pivot_high :: "real option"
  dt_confirm_level :: "real option"
  dt_invalidation_level :: "real option"
  dt_trigger_level :: "real option"
  dt_parent_type :: "event_type option"
  dt_parent_ts :: "int option"
  dt_expires_at :: "int option"
  dt_script_version :: string

definition new_detection :: "kline \<Rightarrow> event_type \<Rightarrow> string \<Rightarrow> detection" where
  "new_detection b ty reason = \<lparr>dt_symbol = kl_symbol b, dt_timeframe = kl_timeframe b, dt_type = ty, dt_ts = kl_ts b,
     dt_price = kl_close b, dt_reason = reason, dt_pivot_low = None, dt_pivot_high = None, dt_confirm_level = None,
     dt_invalidation_level = None, dt_trigger_level = None, dt_parent_type = None, dt_parent_ts = None,
     dt_expires_at = None, dt_script_version = sc_script_version STRUCTURE_CONFIG\<rparr>"

section \<open>The series\<close>

definition joined_series :: "string \<Rightarrow> timeframe \<Rightarrow> nat \<Rightarrow> 'z store_scheme \<Rightarrow> (kline \<times> indicator) list" where
  "joined_series symbol tf limit db =
     concat (map (\<lambda>b. case indicator_at symbol tf (kl_ts b) db of
                         None \<Rightarrow> []
                       | Some i \<Rightarrow> if in_macd_dif i \<noteq> None \<and> in_macd_hist i \<noteq> None then [(b, i)] else [])
       (rev (take limit (order_desc kl_ts
         (filter (\<lambda>b. kl_symbol b = symbol \<and> kl_timeframe b = tf \<and> kl_data_ok b) (klines db))))))"

text \<open>A number that the series guarantees to be there.\<close>

definition num_of :: "real option \<Rightarrow> real" where
  "num_of x = (case x of None \<Rightarrow> 0 | Some v \<Rightarrow> v)"

section \<open>Detection at one bar\<close>

text \<open>What a bar is compared with: its lookback and confirmation windows and the bar before it.\<close>

record bar_view =
  bv_bar :: kline
  bv_ind :: indicator
  bv_prev :: indicator
  bv_lookback :: "(kline \<times> indicator) list"
  bv_recent :: "(kline \<times> indicator) list"

definition view_at :: "structure_config \<Rightarrow> (kline \<times> indicator) list \<Rightarrow> nat \<Rightarrow> bar_view" where
  "view_at cfg series i =
     \<lparr>bv_bar = fst (series ! i), bv_ind = snd (series ! i), bv_prev = snd (series ! (i - 1)),
      bv_lookback = drop (i - sc_lookback_bars cfg) (take i series),
      bv_recent = drop (i - sc_confirmation_bars cfg) (take i series)\<rparr>"

definition lows_of :: "(kline \<times> indicator) list \<Rightarrow> real list" where "lows_of s = map (kl_low \<circ> fst) s"
definition highs_of :: "(kline \<times> indicator) list \<Rightarrow> real list" where "highs_of s = map (kl_high \<circ> fst) s"
definition difs_of :: "(kline \<times> indicator) list \<Rightarrow> real list" where
  "difs_of s = map num_of (filter (\<lambda>x. x \<noteq> None) (map (in_macd_dif \<circ> snd) s))"

definition stage_low :: "bar_view \<Rightarrow> real" where "stage_low v = Min (set (lows_of (bv_lookback v)))"
definition stage_high :: "bar_view \<Rightarrow> real" where "stage_high v = Max (set (highs_of (bv_lookback v)))"
definition hist_improving :: "bar_view \<Rightarrow> bool" where
  "hist_improving v \<longleftrightarrow> num_of (in_macd_hist (bv_ind v)) > num_of (in_macd_hist (bv_prev v))"
definition hist_weakening :: "bar_view \<Rightarrow> bool" where
  "hist_weakening v \<longleftrightarrow> num_of (in_macd_hist (bv_ind v)) < num_of (in_macd_hist (bv_prev v))"

definition expiry :: "structure_config \<Rightarrow> bar_view \<Rightarrow> int" where
  "expiry cfg v = kl_ts (bv_bar v) + days (sc_structure_expiry_days cfg)"

definition bottom_passivation_at :: "structure_config \<Rightarrow> bar_view \<Rightarrow> detection option" where
  "bottom_passivation_at cfg v =
     (let b = bv_bar v; atr = num_of (in_atr (bv_ind v)); low = stage_low v; high = stage_high v;
          near_low = (kl_low b \<le> low + sc_near_low_atr_multiple cfg * atr);
          pre_move = ((high - kl_low b) / max high (1/10000) \<ge> sc_minimum_pre_move_pct cfg
                      \<or> high - kl_low b \<ge> sc_minimum_pre_move_atr cfg * atr);
          dif_higher_low = (num_of (in_macd_dif (bv_ind v)) > Min (set (difs_of (bv_lookback v))));
          pivot = min (kl_low b) low
      in if near_low \<and> pre_move \<and> dif_higher_low \<and> hist_improving v
         then Some ((new_detection b BOTTOM_PASSIVATION
                (''price near stage low '' @ fmt_fixed 2 pivot @ '' while MACD DIF holds a higher low and histogram improves''))
              \<lparr>dt_pivot_low := Some pivot, dt_invalidation_level := Some pivot, dt_expires_at := Some (expiry cfg v)\<rparr>)
         else None)"

definition top_passivation_at :: "structure_config \<Rightarrow> bar_view \<Rightarrow> detection option" where
  "top_passivation_at cfg v =
     (let b = bv_bar v; atr = num_of (in_atr (bv_ind v)); low = stage_low v; high = stage_high v;
          near_high = (kl_high b \<ge> high - sc_near_high_atr_multiple cfg * atr);
          pre_move = ((kl_high b - low) / max low (1/10000) \<ge> sc_minimum_pre_move_pct cfg
                      \<or> kl_high b - low \<ge> sc_minimum_pre_move_atr cfg * atr);
          dif_lower_high = (num_of (in_macd_dif (bv_ind v)) < Max (set (difs_of (bv_lookback v))));
          pivot = max (kl_high b) high
      in if near_high \<and> pre_move \<and> dif_lower_high \<and> hist_weakening v
         then Some ((new_detection b TOP_PASSIVATION
                (''price near stage high '' @ fmt_fixed 2 pivot @ '' while MACD DIF fails to confirm and histogram weakens''))
              \<lparr>dt_pivot_high := Some pivot, dt_invalidation_level := Some pivot, dt_expires_at := Some (expiry cfg v)\<rparr>)
         else None)"

definition bottom_structure_at :: "structure_config \<Rightarrow> bar_view \<Rightarrow> detection \<Rightarrow> detection option" where
  "bottom_structure_at cfg v passivation =
     (let b = bv_bar v; i = bv_ind v; key_high = Max (set (highs_of (bv_recent v)));
          ma20_ok = (case in_ma20 i of None \<Rightarrow> False | Some m \<Rightarrow> kl_close b \<ge> m);
          volume_ok = (case in_volume_ma20 i of None \<Rightarrow> True | Some m \<Rightarrow> kl_volume b \<ge> m * sc_minimum_volume_ratio cfg);
          dif_turning = (num_of (in_macd_dif i) \<ge> num_of (in_macd_dif (bv_prev v)));
          pivot = dt_pivot_low passivation
      in if kl_close b \<ge> key_high \<and> ma20_ok \<and> hist_improving v \<and> dif_turning \<and> volume_ok
         then Some ((new_detection b BOTTOM_STRUCTURE
                (''bottom passivation confirmed above '' @ fmt_fixed 2 key_high @ ''; pivot low '' @ fmt_fixed 2 (num_of pivot)
                 @ ''; MA20 recovered, MACD improved, and volume accepted''))
              \<lparr>dt_pivot_low := pivot, dt_confirm_level := Some key_high, dt_invalidation_level := pivot,
               dt_trigger_level := Some key_high, dt_parent_type := Some BOTTOM_PASSIVATION,
               dt_parent_ts := Some (dt_ts passivation), dt_expires_at := Some (expiry cfg v)\<rparr>)
         else None)"

definition top_structure_at :: "structure_config \<Rightarrow> bar_view \<Rightarrow> detection \<Rightarrow> detection option" where
  "top_structure_at cfg v passivation =
     (let b = bv_bar v; key_low = Min (set (lows_of (bv_recent v)));
          dif_down = (num_of (in_macd_dif (bv_ind v)) \<le> num_of (in_macd_dif (bv_prev v)));
          pivot = dt_pivot_high passivation
      in if kl_close b \<le> key_low \<and> hist_weakening v \<and> dif_down
         then Some ((new_detection b TOP_STRUCTURE
                (''top passivation confirmed below '' @ fmt_fixed 2 key_low @ ''; pivot high '' @ fmt_fixed 2 (num_of pivot)
                 @ ''; MACD weakening continued''))
              \<lparr>dt_pivot_high := pivot, dt_confirm_level := Some key_low, dt_invalidation_level := pivot,
               dt_trigger_level := Some key_low, dt_parent_type := Some TOP_PASSIVATION,
               dt_parent_ts := Some (dt_ts passivation), dt_expires_at := Some (expiry cfg v)\<rparr>)
         else None)"

definition bottom_failed_at :: "bar_view \<Rightarrow> detection \<Rightarrow> detection option" where
  "bottom_failed_at v structure =
     (case dt_invalidation_level structure of
        None \<Rightarrow> None
      | Some level \<Rightarrow>
          if kl_close (bv_bar v) < level \<and> hist_weakening v
          then Some ((new_detection (bv_bar v) BOTTOM_FAILED
                 (''bottom structure failed below invalidation '' @ fmt_fixed 2 level
                  @ '' with renewed MACD histogram deterioration''))
               \<lparr>dt_pivot_low := dt_pivot_low structure, dt_confirm_level := dt_confirm_level structure,
                dt_invalidation_level := Some level, dt_parent_type := Some BOTTOM_STRUCTURE,
                dt_parent_ts := Some (dt_ts structure)\<rparr>)
          else None)"

definition top_invalidated_at :: "bar_view \<Rightarrow> detection \<Rightarrow> detection option" where
  "top_invalidated_at v structure =
     (case (dt_invalidation_level structure, in_ma20 (bv_ind v)) of
        (Some level, Some ma20) \<Rightarrow>
          if kl_close (bv_bar v) > level \<and> kl_close (bv_bar v) > ma20
          then Some ((new_detection (bv_bar v) TOP_INVALIDATED
                 (''top structure invalidated above '' @ fmt_fixed 2 level @ '' while price held above MA20''))
               \<lparr>dt_pivot_high := dt_pivot_high structure, dt_confirm_level := dt_confirm_level structure,
                dt_invalidation_level := Some level, dt_parent_type := Some TOP_STRUCTURE,
                dt_parent_ts := Some (dt_ts structure)\<rparr>)
          else None
      | _ \<Rightarrow> None)"

text \<open>The pending passivation and structure of the two families.\<close>

record pending =
  pn_bottom_passivation :: "detection option"
  pn_bottom_structure :: "detection option"
  pn_top_passivation :: "detection option"
  pn_top_structure :: "detection option"

definition earlier :: "detection option \<Rightarrow> bar_view \<Rightarrow> detection option" where
  "earlier d v = (case d of None \<Rightarrow> None | Some x \<Rightarrow> if dt_ts x < kl_ts (bv_bar v) then Some x else None)"

definition view_ready :: "bar_view \<Rightarrow> bool" where
  "view_ready v \<longleftrightarrow> bv_lookback v \<noteq> [] \<and> difs_of (bv_lookback v) \<noteq> [] \<and> in_macd_hist (bv_prev v) \<noteq> None
     \<and> opt_truthy (in_atr (bv_ind v))"

abbreviation list_of :: "'a option \<Rightarrow> 'a list" where
  "list_of x \<equiv> (case x of None \<Rightarrow> [] | Some y \<Rightarrow> [y])"

abbreviation or_else :: "'a option \<Rightarrow> 'a option \<Rightarrow> 'a option" where
  "or_else x y \<equiv> (case x of None \<Rightarrow> y | Some _ \<Rightarrow> x)"

definition detect_at_index :: "structure_config \<Rightarrow> (kline \<times> indicator) list \<Rightarrow> nat \<Rightarrow> pending \<Rightarrow> detection list" where
  "detect_at_index cfg series i pn =
     (let v = view_at cfg series i;
          bp_new = (if pn_bottom_passivation pn = None \<and> pn_bottom_structure pn = None then bottom_passivation_at cfg v else None);
          tp_new = (if pn_top_passivation pn = None \<and> pn_top_structure pn = None then top_passivation_at cfg v else None);
          bp = or_else bp_new (pn_bottom_passivation pn); tp = or_else tp_new (pn_top_passivation pn);
          bs_new = (if pn_bottom_structure pn = None then (case earlier bp v of None \<Rightarrow> None | Some p \<Rightarrow> bottom_structure_at cfg v p) else None);
          ts_new = (if pn_top_structure pn = None then (case earlier tp v of None \<Rightarrow> None | Some p \<Rightarrow> top_structure_at cfg v p) else None);
          bf_new = (case earlier (pn_bottom_structure pn) v of None \<Rightarrow> None | Some s \<Rightarrow> bottom_failed_at v s);
          ti_new = (case earlier (pn_top_structure pn) v of None \<Rightarrow> None | Some s \<Rightarrow> top_invalidated_at v s)
      in if view_ready v
         then list_of bp_new @ list_of tp_new @ list_of bs_new @ list_of ts_new @ list_of bf_new @ list_of ti_new
         else [])"

section \<open>The whole series\<close>

definition absorb :: "detection \<Rightarrow> pending \<Rightarrow> pending" where
  "absorb d pn =
     (case dt_type d of
        BOTTOM_PASSIVATION \<Rightarrow> pn\<lparr>pn_bottom_passivation := Some d\<rparr>
      | BOTTOM_STRUCTURE \<Rightarrow> pn\<lparr>pn_bottom_structure := Some d\<rparr>
      | BOTTOM_FAILED \<Rightarrow> pn\<lparr>pn_bottom_passivation := None, pn_bottom_structure := None\<rparr>
      | TOP_PASSIVATION \<Rightarrow> pn\<lparr>pn_top_passivation := Some d\<rparr>
      | TOP_STRUCTURE \<Rightarrow> pn\<lparr>pn_top_structure := Some d\<rparr>
      | TOP_INVALIDATED \<Rightarrow> pn\<lparr>pn_top_passivation := None, pn_top_structure := None\<rparr>)"

definition scan_bar :: "structure_config \<Rightarrow> (kline \<times> indicator) list \<Rightarrow> nat \<Rightarrow> detection list \<times> pending \<Rightarrow> detection list \<times> pending" where
  "scan_bar cfg series i s =
     (let found = detect_at_index cfg series i (snd s) in (fst s @ found, fold absorb found (snd s)))"

definition nothing_pending :: pending where
  "nothing_pending = \<lparr>pn_bottom_passivation = None, pn_bottom_structure = None, pn_top_passivation = None, pn_top_structure = None\<rparr>"

definition detect_in_series :: "structure_config \<Rightarrow> (kline \<times> indicator) list \<Rightarrow> detection list" where
  "detect_in_series cfg series =
     (if length series < sc_minimum_history_bars cfg then []
      else fst (fold (scan_bar cfg series) [sc_lookback_bars cfg + 5..<length series] ([], nothing_pending)))"

definition detect_latest_structures :: "structure_config \<Rightarrow> string \<Rightarrow> timeframe \<Rightarrow> 'z store_scheme \<Rightarrow> detection list" where
  "detect_latest_structures cfg symbol tf db = detect_in_series cfg (joined_series symbol tf 160 db)"

section \<open>The table of structure events\<close>

definition event_direction :: "event_type \<Rightarrow> string \<Rightarrow> string" where
  "event_direction ty daily_state =
     (if ty \<in> {BOTTOM_PASSIVATION, BOTTOM_STRUCTURE, TOP_INVALIDATED} then ''LONG''
      else if ty = TOP_STRUCTURE \<and> daily_state \<in> {''DAILY_WEAK_BEAR'', ''DAILY_STRONG_BEAR''} then ''SHORT''
      else ''RISK'')"

fun event_stage :: "event_type \<Rightarrow> string" where
  "event_stage BOTTOM_PASSIVATION = ''PASSIVATION''"
| "event_stage TOP_PASSIVATION = ''PASSIVATION''"
| "event_stage BOTTOM_STRUCTURE = ''CONFIRMED''"
| "event_stage TOP_STRUCTURE = ''CONFIRMED''"
| "event_stage BOTTOM_FAILED = ''FAILED''"
| "event_stage TOP_INVALIDATED = ''INVALIDATED''"

definition event_action :: "event_type \<Rightarrow> string \<Rightarrow> string" where
  "event_action ty daily_state =
     (if ty = BOTTOM_STRUCTURE then zh_act_long_plan
      else if ty = TOP_STRUCTURE \<and> daily_state \<in> {''DAILY_WEAK_BEAR'', ''DAILY_STRONG_BEAR''} then zh_act_assess_short
      else if ty = TOP_STRUCTURE then zh_act_protect
      else if ty = TOP_INVALIDATED then zh_act_assess_resume
      else zh_act_watch_structure)"

definition event_key :: "structure_event \<Rightarrow> string \<times> timeframe \<times> event_type \<times> int" where
  "event_key e = (ev_symbol e, ev_timeframe e, ev_type e, ev_ts e)"

definition detection_key :: "detection \<Rightarrow> string \<times> timeframe \<times> event_type \<times> int" where
  "detection_key d = (dt_symbol d, dt_timeframe d, dt_type d, dt_ts d)"

definition event_with :: "string \<times> timeframe \<times> event_type \<times> int \<Rightarrow> structure_event list \<Rightarrow> structure_event option" where
  "event_with k es = scalar (filter (\<lambda>e. event_key e = k) es)"

definition parent_event :: "detection \<Rightarrow> structure_event list \<Rightarrow> structure_event option" where
  "parent_event d es =
     (case (dt_parent_type d, dt_parent_ts d) of
        (Some ty, Some t) \<Rightarrow> event_with (dt_symbol d, dt_timeframe d, ty, t) es
      | _ \<Rightarrow> None)"

definition new_event :: "string \<Rightarrow> string \<Rightarrow> structure_event option \<Rightarrow> int \<Rightarrow> detection \<Rightarrow> structure_event" where
  "new_event market_state stock_trend parent i d = \<lparr>
     ev_id = i, ev_symbol = dt_symbol d, ev_timeframe = dt_timeframe d, ev_type = dt_type d, ev_ts = dt_ts d,
     ev_price = dt_price d, ev_reason = dt_reason d, ev_pivot_low = dt_pivot_low d, ev_pivot_high = dt_pivot_high d,
     ev_confirm_level = dt_confirm_level d, ev_invalidation_level = dt_invalidation_level d,
     ev_trigger_level = dt_trigger_level d, ev_parent_id = map_option ev_id parent, ev_expires_at = dt_expires_at d,
     ev_script_version = dt_script_version d, ev_invalidated = False, ev_follow_5_return = None,
     ev_follow_10_return = None, ev_follow_20_return = None, ev_max_up_return = None, ev_max_down_return = None,
     ev_market_state = market_state, ev_stock_trend = stock_trend, ev_direction = event_direction (dt_type d) stock_trend,
     ev_stage = event_stage (dt_type d), ev_quality_score = None, ev_battle_eligible = False,
     ev_suggested_action = event_action (dt_type d) stock_trend, ev_became_failed = False, ev_triggered_entry = False\<rparr>"

text \<open>What a new event does to its parent.\<close>

definition mark_parent :: "event_type \<Rightarrow> structure_event \<Rightarrow> structure_event" where
  "mark_parent ty p =
     (if ty = BOTTOM_FAILED then p\<lparr>ev_became_failed := True, ev_invalidated := True\<rparr>
      else if ty = TOP_INVALIDATED then p\<lparr>ev_invalidated := True\<rparr> else p)"

definition reclassify :: "string \<Rightarrow> detection \<Rightarrow> structure_event \<Rightarrow> structure_event" where
  "reclassify stock_trend d e =
     e\<lparr>ev_direction := event_direction (dt_type d) stock_trend, ev_stage := event_stage (dt_type d),
       ev_suggested_action := event_action (dt_type d) stock_trend\<rparr>"

definition persist_detection :: "string \<Rightarrow> string \<Rightarrow> detection \<Rightarrow> structure_event list \<Rightarrow> structure_event list" where
  "persist_detection market_state stock_trend d es =
     (case event_with (detection_key d) es of
        Some e \<Rightarrow> put_row ev_id (reclassify stock_trend d e) es
      | None \<Rightarrow>
          (let parent = parent_event d es;
               es' = es @ [new_event market_state stock_trend parent (next_id ev_id es) d]
           in case parent of None \<Rightarrow> es' | Some p \<Rightarrow> put_row ev_id (mark_parent (dt_type d) p) es'))"

definition persist_structure_detections ::
  "detection list \<Rightarrow> string \<Rightarrow> string \<Rightarrow> 'z store_scheme \<Rightarrow> 'z store_scheme \<times> structure_event list" where
  "persist_structure_detections detections market_state stock_trend db =
     (let es = fold (persist_detection market_state stock_trend) detections (structure_events db)
      in (db\<lparr>structure_events := es\<rparr>,
          concat (map (\<lambda>d. list_of (event_with (detection_key d) es)) detections)))"

text \<open>
  The returns after an event. An event of price zero that has bars after it divides by zero.
\<close>

definition follow_bars :: "structure_event \<Rightarrow> 'z store_scheme \<Rightarrow> kline list" where
  "follow_bars e db =
     take 20 (sort_key kl_ts (filter (\<lambda>b. kl_symbol b = ev_symbol e \<and> kl_timeframe b = ev_timeframe e
        \<and> kl_ts b > ev_ts e \<and> kl_data_ok b) (klines db)))"

definition follow_event :: "kline list \<Rightarrow> structure_event \<Rightarrow> exn + structure_event" where
  "follow_event bars e =
     (let ret = (\<lambda>x. x / ev_price e - 1)
      in if bars = [] then Inr e
         else if ev_price e = 0 then Inl (OtherError ''float division by zero'')
         else Inr (e\<lparr>
           ev_follow_5_return := (if length bars \<ge> 5 then Some (ret (kl_close (bars ! 4))) else ev_follow_5_return e),
           ev_follow_10_return := (if length bars \<ge> 10 then Some (ret (kl_close (bars ! 9))) else ev_follow_10_return e),
           ev_follow_20_return := (if length bars \<ge> 20 then Some (ret (kl_close (bars ! 19))) else ev_follow_20_return e),
           ev_max_up_return := Some (ret (Max (set (map kl_high bars)))),
           ev_max_down_return := Some (ret (Min (set (map kl_low bars))))\<rparr>))"

definition follow_step :: "'z store_scheme \<Rightarrow> structure_event \<Rightarrow> structure_event list \<times> int \<Rightarrow> exn + structure_event list \<times> int" where
  "follow_step db e acc =
     (if ev_follow_5_return e \<noteq> None then Inr (fst acc @ [e], snd acc)
      else case follow_event (follow_bars e db) e of
             Inl x \<Rightarrow> Inl x
           | Inr e' \<Rightarrow> Inr (fst acc @ [e'], snd acc + 1))"

definition update_structure_follow_through :: "'z store_scheme \<Rightarrow> exn + 'z store_scheme \<times> int" where
  "update_structure_follow_through db =
     (case foldM (follow_step db) (structure_events db) ([], 0) of
        Inl x \<Rightarrow> Inl x
      | Inr (es, updated) \<Rightarrow> Inr (db\<lparr>structure_events := es\<rparr>, updated))"

section \<open>Lemmas: a family goes round in a cycle\<close>

text \<open>
  The events of one family in the order of detection: their types go round in the given cycle; each
  event but the first of a round names the one just before as its parent, comes later and keeps its
  pivot; its invalidation level is the pivot; and the round ends only beyond that pivot.
\<close>

definition follows :: "(detection \<Rightarrow> real option) \<Rightarrow> detection \<Rightarrow> detection \<Rightarrow> bool" where
  "follows pivot e prev \<longleftrightarrow> dt_parent_type e = Some (dt_type prev) \<and> dt_parent_ts e = Some (dt_ts prev)
     \<and> dt_ts prev < dt_ts e \<and> pivot e = pivot prev"

definition entry_ok :: "event_type list \<Rightarrow> (detection \<Rightarrow> real option) \<Rightarrow> (real \<Rightarrow> real \<Rightarrow> bool) \<Rightarrow> detection list \<Rightarrow> detection \<Rightarrow> bool" where
  "entry_ok cyc pivot beyond before e \<longleftrightarrow>
     dt_type e = cyc ! (length before mod 3) \<and> dt_invalidation_level e = pivot e
     \<and> (if length before mod 3 = 0 then dt_parent_type e = None \<and> dt_parent_ts e = None
        else follows pivot e (last before))
     \<and> (length before mod 3 = 2 \<longrightarrow> (\<exists>level. pivot e = Some level \<and> beyond (dt_price e) level))"

definition cycle_ok :: "event_type list \<Rightarrow> (detection \<Rightarrow> real option) \<Rightarrow> (real \<Rightarrow> real \<Rightarrow> bool) \<Rightarrow> detection list \<Rightarrow> bool" where
  "cycle_ok cyc pivot beyond es \<longleftrightarrow> (\<forall>k < length es. entry_ok cyc pivot beyond (take k es) (es ! k))"

definition family_pending :: "detection list \<Rightarrow> detection option \<Rightarrow> detection option \<Rightarrow> bool" where
  "family_pending es p s \<longleftrightarrow>
     (length es mod 3 = 0 \<longrightarrow> p = None \<and> s = None)
     \<and> (length es mod 3 = 1 \<longrightarrow> p = Some (last es) \<and> s = None)
     \<and> (length es mod 3 = 2 \<longrightarrow> p \<noteq> None \<and> s = Some (last es))"

lemma cycle_ok_snoc: "cycle_ok cyc pivot beyond (es @ [e]) \<longleftrightarrow> cycle_ok cyc pivot beyond es \<and> entry_ok cyc pivot beyond es e"
  by (auto simp: cycle_ok_def nth_append less_Suc_eq)

text \<open>What each detector promises of its detection.\<close>

lemmas detector_defs = bottom_passivation_at_def top_passivation_at_def bottom_structure_at_def top_structure_at_def
  bottom_failed_at_def top_invalidated_at_def new_detection_def Let_def

lemma bottom_passivation_D:
  "bottom_passivation_at cfg v = Some d \<Longrightarrow> dt_type d = BOTTOM_PASSIVATION \<and> dt_ts d = kl_ts (bv_bar v)
     \<and> dt_parent_type d = None \<and> dt_parent_ts d = None \<and> dt_invalidation_level d = dt_pivot_low d"
  by (auto simp: detector_defs split: if_splits)

lemma top_passivation_D:
  "top_passivation_at cfg v = Some d \<Longrightarrow> dt_type d = TOP_PASSIVATION \<and> dt_ts d = kl_ts (bv_bar v)
     \<and> dt_parent_type d = None \<and> dt_parent_ts d = None \<and> dt_invalidation_level d = dt_pivot_high d"
  by (auto simp: detector_defs split: if_splits)

lemma bottom_structure_D:
  "bottom_structure_at cfg v p = Some d \<Longrightarrow> dt_type d = BOTTOM_STRUCTURE \<and> dt_ts d = kl_ts (bv_bar v)
     \<and> dt_parent_type d = Some BOTTOM_PASSIVATION \<and> dt_parent_ts d = Some (dt_ts p)
     \<and> dt_invalidation_level d = dt_pivot_low d \<and> dt_pivot_low d = dt_pivot_low p"
  by (auto simp: detector_defs split: if_splits)

lemma top_structure_D:
  "top_structure_at cfg v p = Some d \<Longrightarrow> dt_type d = TOP_STRUCTURE \<and> dt_ts d = kl_ts (bv_bar v)
     \<and> dt_parent_type d = Some TOP_PASSIVATION \<and> dt_parent_ts d = Some (dt_ts p)
     \<and> dt_invalidation_level d = dt_pivot_high d \<and> dt_pivot_high d = dt_pivot_high p"
  by (auto simp: detector_defs split: if_splits)

lemma bottom_failed_D:
  "bottom_failed_at v s = Some d \<Longrightarrow> dt_type d = BOTTOM_FAILED \<and> dt_ts d = kl_ts (bv_bar v)
     \<and> dt_parent_type d = Some BOTTOM_STRUCTURE \<and> dt_parent_ts d = Some (dt_ts s)
     \<and> dt_invalidation_level d = dt_invalidation_level s \<and> dt_pivot_low d = dt_pivot_low s
     \<and> (\<exists>level. dt_invalidation_level s = Some level \<and> dt_price d < level)"
  by (auto simp: detector_defs split: if_splits option.splits)

lemma top_invalidated_D:
  "top_invalidated_at v s = Some d \<Longrightarrow> dt_type d = TOP_INVALIDATED \<and> dt_ts d = kl_ts (bv_bar v)
     \<and> dt_parent_type d = Some TOP_STRUCTURE \<and> dt_parent_ts d = Some (dt_ts s)
     \<and> dt_invalidation_level d = dt_invalidation_level s \<and> dt_pivot_high d = dt_pivot_high s
     \<and> (\<exists>level. dt_invalidation_level s = Some level \<and> dt_price d > level)"
  by (auto simp: detector_defs split: if_splits option.splits)

text \<open>
  One bar, as one family sees it: at most one event, of the type that is due, and the pending pair
  moves on with it. The three detectors of a family are parameters here.
\<close>

definition before_now :: "int \<Rightarrow> detection option \<Rightarrow> detection option" where
  "before_now now x = (case x of None \<Rightarrow> None | Some d \<Rightarrow> if dt_ts d < now then Some d else None)"

lemma before_now_simps [simp]:
  "before_now now None = None" "before_now now (Some d) = (if dt_ts d < now then Some d else None)"
  by (simp_all add: before_now_def)

lemma earlier_before_now: "earlier d v = before_now (kl_ts (bv_bar v)) d"
  by (simp add: earlier_def before_now_def)

definition family_found ::
  "int \<Rightarrow> detection option \<Rightarrow> (detection \<Rightarrow> detection option)
   \<Rightarrow> (detection \<Rightarrow> detection option) \<Rightarrow> detection option \<times> detection option \<Rightarrow> detection list" where
  "family_found now p_new s_of f_of ps =
     (let pn = (if fst ps = None \<and> snd ps = None then p_new else None);
          sn = (if snd ps = None then (case before_now now (or_else pn (fst ps)) of None \<Rightarrow> None | Some x \<Rightarrow> s_of x) else None);
          fn = (case before_now now (snd ps) of None \<Rightarrow> None | Some x \<Rightarrow> f_of x)
      in list_of pn @ list_of sn @ list_of fn)"

definition family_next :: "event_type list \<Rightarrow> detection \<Rightarrow> detection option \<times> detection option \<Rightarrow> detection option \<times> detection option" where
  "family_next cyc d ps =
     (if dt_type d = cyc ! 0 then (Some d, snd ps) else if dt_type d = cyc ! 1 then (fst ps, Some d)
      else if dt_type d = cyc ! 2 then (None, None) else ps)"

locale event_family =
  fixes cyc :: "event_type list" and pivot :: "detection \<Rightarrow> real option" and beyond :: "real \<Rightarrow> real \<Rightarrow> bool"
    and now :: int and p_new :: "detection option" and s_of f_of :: "detection \<Rightarrow> detection option"
  assumes three: "cyc ! 0 \<noteq> cyc ! 1" "cyc ! 1 \<noteq> cyc ! 2" "cyc ! 0 \<noteq> cyc ! 2"
    and first: "p_new = Some d \<Longrightarrow> dt_type d = cyc ! 0 \<and> dt_ts d = now \<and> dt_parent_type d = None
      \<and> dt_parent_ts d = None \<and> dt_invalidation_level d = pivot d"
    and second: "s_of p = Some d \<Longrightarrow> dt_type d = cyc ! 1 \<and> dt_ts d = now \<and> dt_parent_type d = Some (cyc ! 0)
      \<and> dt_parent_ts d = Some (dt_ts p) \<and> dt_invalidation_level d = pivot d \<and> pivot d = pivot p"
    and third: "f_of s = Some d \<Longrightarrow> dt_type d = cyc ! 2 \<and> dt_ts d = now \<and> dt_parent_type d = Some (cyc ! 1)
      \<and> dt_parent_ts d = Some (dt_ts s) \<and> dt_invalidation_level d = dt_invalidation_level s \<and> pivot d = pivot s
      \<and> (\<exists>level. dt_invalidation_level s = Some level \<and> beyond (dt_price d) level)"
begin

lemma last_of_cycle:
  assumes "cycle_ok cyc pivot beyond es" "length es mod 3 = Suc n"
  shows "dt_type (last es) = cyc ! n \<and> dt_invalidation_level (last es) = pivot (last es)"
proof -
  have ne: "es \<noteq> []" using assms(2) by auto
  then have "entry_ok cyc pivot beyond (take (length es - 1) es) (last es)"
    using assms(1) by (auto simp: cycle_ok_def last_conv_nth)
  moreover have "(length es - 1) mod 3 = n" using ne assms(2) by (cases "length es") (auto simp: mod_Suc split: if_splits)
  ultimately show ?thesis by (simp add: entry_ok_def)
qed

lemma at_most_one:
  assumes "family_pending es (fst ps) (snd ps)"
  shows "family_found now p_new s_of f_of ps =
    (if length es mod 3 = 0 then list_of p_new
     else if length es mod 3 = 1 then (if dt_ts (last es) < now then list_of (s_of (last es)) else [])
     else (if dt_ts (last es) < now then list_of (f_of (last es)) else []))"
proof -
  consider "length es mod 3 = 0" | "length es mod 3 = 1" | "length es mod 3 = 2" by linarith
  then show ?thesis
  proof cases
    case 1
    then have "ps = (None, None)" using assms by (cases ps) (simp add: family_pending_def)
    then show ?thesis using 1 first by (cases p_new) (auto simp: family_found_def)
  next
    case 2
    then have "ps = (Some (last es), None)" using assms by (cases ps) (simp add: family_pending_def)
    then show ?thesis using 2 by (simp add: family_found_def)
  next
    case 3
    then obtain x where "ps = (Some x, Some (last es))" using assms by (cases ps) (auto simp: family_pending_def)
    then show ?thesis using 3 by (simp add: family_found_def)
  qed
qed

lemma advances:
  assumes "cycle_ok cyc pivot beyond es" "family_pending es (fst ps) (snd ps)"
    and "found = family_found now p_new s_of f_of ps" "ps' = fold (family_next cyc) found ps"
  shows "cycle_ok cyc pivot beyond (es @ found) \<and> family_pending (es @ found) (fst ps') (snd ps')"
proof (cases "found = []")
  case True
  then show ?thesis using assms by simp
next
  case False
  note found = at_most_one [OF assms(2), folded assms(3)]
  consider "length es mod 3 = 0" | "length es mod 3 = 1" | "length es mod 3 = 2" by linarith
  then show ?thesis
  proof cases
    case 1
    then obtain d where d: "p_new = Some d" "found = [d]" using found False by (cases p_new) auto
    then show ?thesis using assms 1 first [OF d(1)]
      by (auto simp: cycle_ok_snoc entry_ok_def family_pending_def family_next_def mod_Suc)
  next
    case 2
    then obtain d where d: "s_of (last es) = Some d" "found = [d]" "dt_ts (last es) < now"
      using found False by (cases "s_of (last es)") (auto split: if_splits)
    then show ?thesis using assms 2 second [OF d(1)] last_of_cycle [OF assms(1), of 0] three
      by (auto simp: cycle_ok_snoc entry_ok_def family_pending_def family_next_def mod_Suc follows_def)
  next
    case 3
    then obtain d where d: "f_of (last es) = Some d" "found = [d]" "dt_ts (last es) < now"
      using found False by (cases "f_of (last es)") (auto split: if_splits)
    then show ?thesis using assms 3 third [OF d(1)] last_of_cycle [OF assms(1), of 1] three
      by (auto simp: cycle_ok_snoc entry_ok_def family_pending_def family_next_def mod_Suc follows_def)
  qed
qed

end

definition bottom_cycle :: "event_type list" where
  "bottom_cycle = [BOTTOM_PASSIVATION, BOTTOM_STRUCTURE, BOTTOM_FAILED]"

definition top_cycle :: "event_type list" where
  "top_cycle = [TOP_PASSIVATION, TOP_STRUCTURE, TOP_INVALIDATED]"

interpretation bottom: event_family bottom_cycle dt_pivot_low "(<)" "kl_ts (bv_bar v)"
  "bottom_passivation_at cfg v" "bottom_structure_at cfg v" "bottom_failed_at v" for cfg v
  by unfold_locales (auto simp: bottom_cycle_def dest: bottom_passivation_D bottom_structure_D bottom_failed_D)

interpretation top: event_family top_cycle dt_pivot_high "(>)" "kl_ts (bv_bar v)"
  "top_passivation_at cfg v" "top_structure_at cfg v" "top_invalidated_at v" for cfg v
  by unfold_locales (auto simp: top_cycle_def dest: top_passivation_D top_structure_D top_invalidated_D)

definition family_of :: "event_type list \<Rightarrow> detection list \<Rightarrow> detection list" where
  "family_of cyc es = filter (\<lambda>d. dt_type d \<in> set cyc) es"

definition bottom_pair :: "pending \<Rightarrow> detection option \<times> detection option" where
  "bottom_pair pn = (pn_bottom_passivation pn, pn_bottom_structure pn)"

definition top_pair :: "pending \<Rightarrow> detection option \<times> detection option" where
  "top_pair pn = (pn_top_passivation pn, pn_top_structure pn)"

lemma family_of_append [simp]: "family_of cyc (xs @ ys) = family_of cyc xs @ family_of cyc ys"
  by (simp add: family_of_def)

lemma family_of_optional:
  "(\<And>d. x = Some d \<Longrightarrow> dt_type d = ty) \<Longrightarrow> family_of cyc (list_of x) = (if ty \<in> set cyc then list_of x else [])"
  by (cases x) (auto simp: family_of_def)

lemma detect_families:
  "family_of bottom_cycle (detect_at_index cfg series i pn) =
     (if view_ready (view_at cfg series i)
      then family_found (kl_ts (bv_bar (view_at cfg series i))) (bottom_passivation_at cfg (view_at cfg series i))
        (bottom_structure_at cfg (view_at cfg series i)) (bottom_failed_at (view_at cfg series i)) (bottom_pair pn)
      else [])"
  "family_of top_cycle (detect_at_index cfg series i pn) =
     (if view_ready (view_at cfg series i)
      then family_found (kl_ts (bv_bar (view_at cfg series i))) (top_passivation_at cfg (view_at cfg series i))
        (top_structure_at cfg (view_at cfg series i)) (top_invalidated_at (view_at cfg series i)) (top_pair pn)
      else [])"
proof -
  define v where "v = view_at cfg series i"
  define bp tp where "bp = (if pn_bottom_passivation pn = None \<and> pn_bottom_structure pn = None then bottom_passivation_at cfg v else None)"
    and "tp = (if pn_top_passivation pn = None \<and> pn_top_structure pn = None then top_passivation_at cfg v else None)"
  define bs ts where
    "bs = (if pn_bottom_structure pn = None then (case earlier (or_else bp (pn_bottom_passivation pn)) v of None \<Rightarrow> None | Some p \<Rightarrow> bottom_structure_at cfg v p) else None)"
    and "ts = (if pn_top_structure pn = None then (case earlier (or_else tp (pn_top_passivation pn)) v of None \<Rightarrow> None | Some p \<Rightarrow> top_structure_at cfg v p) else None)"
  define bf ti where "bf = (case earlier (pn_bottom_structure pn) v of None \<Rightarrow> None | Some s \<Rightarrow> bottom_failed_at v s)"
    and "ti = (case earlier (pn_top_structure pn) v of None \<Rightarrow> None | Some s \<Rightarrow> top_invalidated_at v s)"
  have all: "detect_at_index cfg series i pn =
      (if view_ready v then list_of bp @ list_of tp @ list_of bs @ list_of ts @ list_of bf @ list_of ti else [])"
    by (simp only: detect_at_index_def Let_def v_def bp_def tp_def bs_def ts_def bf_def ti_def)
  have types: "\<And>d. bp = Some d \<Longrightarrow> dt_type d = BOTTOM_PASSIVATION" "\<And>d. tp = Some d \<Longrightarrow> dt_type d = TOP_PASSIVATION"
    "\<And>d. bs = Some d \<Longrightarrow> dt_type d = BOTTOM_STRUCTURE" "\<And>d. ts = Some d \<Longrightarrow> dt_type d = TOP_STRUCTURE"
    "\<And>d. bf = Some d \<Longrightarrow> dt_type d = BOTTOM_FAILED" "\<And>d. ti = Some d \<Longrightarrow> dt_type d = TOP_INVALIDATED"
    unfolding bp_def tp_def bs_def ts_def bf_def ti_def
    by (auto split: option.splits if_splits dest: bottom_passivation_D bottom_structure_D bottom_failed_D
        top_passivation_D top_structure_D top_invalidated_D)
  have parts:
    "family_of cyc (list_of bp) = (if BOTTOM_PASSIVATION \<in> set cyc then list_of bp else [])"
    "family_of cyc (list_of tp) = (if TOP_PASSIVATION \<in> set cyc then list_of tp else [])"
    "family_of cyc (list_of bs) = (if BOTTOM_STRUCTURE \<in> set cyc then list_of bs else [])"
    "family_of cyc (list_of ts) = (if TOP_STRUCTURE \<in> set cyc then list_of ts else [])"
    "family_of cyc (list_of bf) = (if BOTTOM_FAILED \<in> set cyc then list_of bf else [])"
    "family_of cyc (list_of ti) = (if TOP_INVALIDATED \<in> set cyc then list_of ti else [])" for cyc
    by (rule family_of_optional, erule types)+
  have nil: "family_of cyc [] = []" for cyc by (simp add: family_of_def)
  have split: "family_of bottom_cycle (detect_at_index cfg series i pn) = (if view_ready v then list_of bp @ list_of bs @ list_of bf else [])"
    "family_of top_cycle (detect_at_index cfg series i pn) = (if view_ready v then list_of tp @ list_of ts @ list_of ti else [])"
    unfolding all if_distrib [of "family_of bottom_cycle"] if_distrib [of "family_of top_cycle"] family_of_append parts nil
    by (simp_all add: bottom_cycle_def top_cycle_def)
  show "family_of bottom_cycle (detect_at_index cfg series i pn) =
     (if view_ready (view_at cfg series i)
      then family_found (kl_ts (bv_bar (view_at cfg series i))) (bottom_passivation_at cfg (view_at cfg series i))
        (bottom_structure_at cfg (view_at cfg series i)) (bottom_failed_at (view_at cfg series i)) (bottom_pair pn)
      else [])"
    unfolding split v_def [symmetric]
    by (simp only: family_found_def bottom_pair_def fst_conv snd_conv Let_def bp_def bs_def bf_def earlier_before_now)
  show "family_of top_cycle (detect_at_index cfg series i pn) =
     (if view_ready (view_at cfg series i)
      then family_found (kl_ts (bv_bar (view_at cfg series i))) (top_passivation_at cfg (view_at cfg series i))
        (top_structure_at cfg (view_at cfg series i)) (top_invalidated_at (view_at cfg series i)) (top_pair pn)
      else [])"
    unfolding split v_def [symmetric]
    by (simp only: family_found_def top_pair_def fst_conv snd_conv Let_def tp_def ts_def ti_def earlier_before_now)
qed

lemma absorb_pairs:
  "bottom_pair (fold absorb ds pn) = fold (family_next bottom_cycle) (family_of bottom_cycle ds) (bottom_pair pn)"
  "top_pair (fold absorb ds pn) = fold (family_next top_cycle) (family_of top_cycle ds) (top_pair pn)"
proof -
  have step: "bottom_pair (absorb d pn) = (if dt_type d \<in> set bottom_cycle then family_next bottom_cycle d (bottom_pair pn) else bottom_pair pn)"
    "top_pair (absorb d pn) = (if dt_type d \<in> set top_cycle then family_next top_cycle d (top_pair pn) else top_pair pn)" for d pn
    by (cases "dt_type d"; simp add: absorb_def bottom_pair_def top_pair_def family_next_def bottom_cycle_def top_cycle_def)+
  show "bottom_pair (fold absorb ds pn) = fold (family_next bottom_cycle) (family_of bottom_cycle ds) (bottom_pair pn)"
    by (induction ds arbitrary: pn) (simp_all add: family_of_def step)
  show "top_pair (fold absorb ds pn) = fold (family_next top_cycle) (family_of top_cycle ds) (top_pair pn)"
    by (induction ds arbitrary: pn) (simp_all add: family_of_def step)
qed

text \<open>The invariant of the scan, for both families.\<close>

definition scan_ok :: "detection list \<times> pending \<Rightarrow> bool" where
  "scan_ok s \<longleftrightarrow>
     cycle_ok bottom_cycle dt_pivot_low (<) (family_of bottom_cycle (fst s))
     \<and> family_pending (family_of bottom_cycle (fst s)) (fst (bottom_pair (snd s))) (snd (bottom_pair (snd s)))
     \<and> cycle_ok top_cycle dt_pivot_high (>) (family_of top_cycle (fst s))
     \<and> family_pending (family_of top_cycle (fst s)) (fst (top_pair (snd s))) (snd (top_pair (snd s)))"

lemma scan_bar_ok:
  assumes "scan_ok s"
  shows "scan_ok (scan_bar cfg series i s)"
proof (cases "view_ready (view_at cfg series i)")
  case True
  note families = detect_families [of cfg series i "snd s", unfolded if_P [OF True]]
  have parts: "cycle_ok bottom_cycle dt_pivot_low (<) (family_of bottom_cycle (fst s))"
    "family_pending (family_of bottom_cycle (fst s)) (fst (bottom_pair (snd s))) (snd (bottom_pair (snd s)))"
    "cycle_ok top_cycle dt_pivot_high (>) (family_of top_cycle (fst s))"
    "family_pending (family_of top_cycle (fst s)) (fst (top_pair (snd s))) (snd (top_pair (snd s)))"
    using assms by (auto simp: scan_ok_def)
  show ?thesis
    using bottom.advances [OF parts(1,2) families(1) refl] top.advances [OF parts(3,4) families(2) refl]
    by (simp add: scan_ok_def scan_bar_def Let_def absorb_pairs)
next
  case False
  then have "detect_at_index cfg series i (snd s) = []" by (simp add: detect_at_index_def)
  then show ?thesis using assms by (simp add: scan_bar_def)
qed

lemma scan_ok_fold: "scan_ok s \<Longrightarrow> scan_ok (fold (scan_bar cfg series) js s)"
  by (induction js arbitrary: s) (simp_all add: scan_bar_ok)

lemma scan_ok_start: "scan_ok ([], nothing_pending)"
  by (simp add: scan_ok_def family_of_def cycle_ok_def family_pending_def bottom_pair_def top_pair_def nothing_pending_def)

section \<open>Lemmas: storing detections\<close>

definition unique_events :: "structure_event list \<Rightarrow> bool" where
  "unique_events es \<longleftrightarrow> distinct (map ev_id es)"

interpretation event_table: keyed_table ev_id unique_events
  by unfold_locales (simp add: unique_events_def)

definition events_ok :: "structure_event list \<Rightarrow> bool" where
  "events_ok es \<longleftrightarrow> unique_events es \<and> distinct (map event_key es)"

text \<open>An event carries the direction, stage and action its type has under the daily state.\<close>

definition classified :: "string \<Rightarrow> structure_event \<Rightarrow> bool" where
  "classified t e \<longleftrightarrow> ev_direction e = event_direction (ev_type e) t \<and> ev_stage e = event_stage (ev_type e)
     \<and> ev_suggested_action e = event_action (ev_type e) t"

lemma event_with_SomeD: "event_with k es = Some e \<Longrightarrow> e \<in> set es \<and> event_key e = k"
  by (auto simp: event_with_def dest: scalar_filter_SomeD)

lemma event_with_None: "event_with k es = None \<longleftrightarrow> k \<notin> event_key ` set es"
  by (auto simp: event_with_def filter_empty_conv)

lemma new_event_sel [simp]:
  "event_key (new_event m t p i d) = detection_key d" "ev_id (new_event m t p i d) = i" "classified t (new_event m t p i d)"
  by (simp_all add: new_event_def event_key_def detection_key_def classified_def)

lemma reclassify_sel [simp]:
  "event_key (reclassify t d e) = event_key e" "ev_id (reclassify t d e) = ev_id e"
  "dt_type d = ev_type e \<Longrightarrow> classified t (reclassify t d e)"
  by (simp_all add: reclassify_def event_key_def classified_def)

lemma mark_parent_sel [simp]:
  "event_key (mark_parent ty e) = event_key e" "ev_id (mark_parent ty e) = ev_id e"
  "classified t (mark_parent ty e) = classified t e"
  by (simp_all add: mark_parent_def event_key_def classified_def)

lemma put_event_as_map:
  assumes "unique_events es" "e \<in> set es" "ev_id (f e) = ev_id e"
  shows "put_row ev_id (f e) es = map (\<lambda>x. if ev_id x = ev_id e then f x else x) es"
  using assms event_table.same [OF assms(1)] by (auto simp: put_row_def)

text \<open>The step either changes rows in place or also adds one; ids, keys and the classification are kept.\<close>

lemma persist_detection_shape:
  assumes "events_ok es"
  shows "\<exists>f. (\<forall>e. ev_id (f e) = ev_id e \<and> event_key (f e) = event_key e)
      \<and> (\<forall>e \<in> set es. classified t e \<longrightarrow> classified t (f e))
      \<and> (detection_key d \<in> event_key ` set es \<longrightarrow> persist_detection m t d es = map f es
           \<and> (\<forall>e \<in> set es. event_key e = detection_key d \<longrightarrow> classified t (f e)))
      \<and> (detection_key d \<notin> event_key ` set es \<longrightarrow>
           (\<exists>p. persist_detection m t d es = map f es @ [new_event m t p (next_id ev_id es) d]))"
proof (cases "event_with (detection_key d) es")
  case None
  show ?thesis
  proof (cases "parent_event d es")
    case N: None
    have "persist_detection m t d es = map id es @ [new_event m t None (next_id ev_id es) d]"
      using None N by (simp add: persist_detection_def)
    then show ?thesis using None by (intro exI [of _ id]) (auto simp: event_with_None)
  next
    case (Some p)
    then have p: "p \<in> set es" by (auto simp: parent_event_def split: option.splits dest: event_with_SomeD)
    let ?f = "\<lambda>x. if ev_id x = ev_id p then mark_parent (dt_type d) x else x"
    have "put_row ev_id (mark_parent (dt_type d) p) es = map ?f es"
      using put_event_as_map [of es p "mark_parent (dt_type d)"] p assms by (simp add: events_ok_def)
    moreover have "next_id ev_id es \<noteq> ev_id p" using next_id_fresh [OF p, of ev_id] by simp
    ultimately have "persist_detection m t d es = map ?f es @ [new_event m t (Some p) (next_id ev_id es) d]"
      using None Some by (simp add: persist_detection_def put_row_def)
    then show ?thesis using None by (intro exI [of _ ?f]) (auto simp: event_with_None)
  qed
next
  case (Some e)
  let ?f = "\<lambda>x. if ev_id x = ev_id e then reclassify t d x else x"
  have e: "e \<in> set es" "event_key e = detection_key d" using event_with_SomeD [OF Some] by auto
  then have ty: "dt_type d = ev_type e" by (simp add: event_key_def detection_key_def)
  have only: "x = e" if "x \<in> set es" "event_key x = detection_key d" for x
    using that e assms by (auto simp: events_ok_def distinct_map inj_on_def)
  have "persist_detection m t d es = map ?f es"
    using put_event_as_map [of es e "reclassify t d"] e(1) assms Some by (simp add: events_ok_def persist_detection_def)
  moreover have "\<forall>x \<in> set es. event_key x = detection_key d \<longrightarrow> classified t (?f x)" using only ty by auto
  moreover have "classified t (?f x)" if "x \<in> set es" "classified t x" for x
    using that event_table.same [of es x e] e(1) assms ty by (auto simp: events_ok_def)
  moreover have "detection_key d \<in> event_key ` set es" using e by (metis imageI)
  ultimately show ?thesis by (intro exI [of _ ?f]) auto
qed

lemma persist_detection_ok:
  assumes "events_ok es"
  shows "events_ok (persist_detection m t d es)"
    and "event_key ` set (persist_detection m t d es) = insert (detection_key d) (event_key ` set es)"
proof -
  obtain f where f: "\<And>e. ev_id (f e) = ev_id e" "\<And>e. event_key (f e) = event_key e"
    "\<And>e. e \<in> set es \<Longrightarrow> classified t e \<Longrightarrow> classified t (f e)"
    "detection_key d \<in> event_key ` set es \<Longrightarrow> persist_detection m t d es = map f es
       \<and> (\<forall>e \<in> set es. event_key e = detection_key d \<longrightarrow> classified t (f e))"
    "detection_key d \<notin> event_key ` set es \<Longrightarrow> \<exists>p. persist_detection m t d es = map f es @ [new_event m t p (next_id ev_id es) d]"
    using persist_detection_shape [OF assms, of t d m] by metis
  have "map ev_id (map f es) = map ev_id es" "map event_key (map f es) = map event_key es" by (simp_all add: f)
  note keep = this
  show "events_ok (persist_detection m t d es)"
  proof (cases "detection_key d \<in> event_key ` set es")
    case True
    then show ?thesis using f(4) keep assms by (simp only: events_ok_def unique_events_def)
  next
    case False
    then obtain p where "persist_detection m t d es = map f es @ [new_event m t p (next_id ev_id es) d]" using f(5) by blast
    moreover have "next_id ev_id es \<notin> ev_id ` set es" using next_id_fresh [of _ es ev_id] by fastforce
    ultimately show ?thesis using assms False
      by (simp add: events_ok_def unique_events_def f comp_def image_image)
  qed
  show "event_key ` set (persist_detection m t d es) = insert (detection_key d) (event_key ` set es)"
  proof (cases "detection_key d \<in> event_key ` set es")
    case True
    then show ?thesis using f(4) by (simp add: image_image f(2) insert_absorb)
  next
    case False
    then obtain p where "persist_detection m t d es = map f es @ [new_event m t p (next_id ev_id es) d]" using f(5) by blast
    then show ?thesis by (simp add: image_image f(2))
  qed
qed

definition settled_db :: "string \<Rightarrow> detection \<Rightarrow> structure_event list \<Rightarrow> bool" where
  "settled_db t d es \<longleftrightarrow> (\<exists>e \<in> set es. event_key e = detection_key d \<and> classified t e)"

lemma persist_detection_settles:
  assumes "events_ok es" and "settled_db t x es \<or> x = d"
  shows "settled_db t x (persist_detection m t d es)"
proof -
  obtain f where f: "\<And>e. ev_id (f e) = ev_id e" "\<And>e. event_key (f e) = event_key e"
    "\<And>e. e \<in> set es \<Longrightarrow> classified t e \<Longrightarrow> classified t (f e)"
    "detection_key d \<in> event_key ` set es \<Longrightarrow> persist_detection m t d es = map f es
       \<and> (\<forall>e \<in> set es. event_key e = detection_key d \<longrightarrow> classified t (f e))"
    "detection_key d \<notin> event_key ` set es \<Longrightarrow> \<exists>p. persist_detection m t d es = map f es @ [new_event m t p (next_id ev_id es) d]"
    using persist_detection_shape [OF assms(1), of t d m] by metis
  show ?thesis
  proof (cases "detection_key d \<in> event_key ` set es")
    case True
    have "settled_db t x (map f es)"
      using assms(2) True f(2,3) f(4) [OF True] by (auto simp: settled_db_def)
    then show ?thesis using f(4) [OF True] by simp
  next
    case False
    then obtain p where p: "persist_detection m t d es = map f es @ [new_event m t p (next_id ev_id es) d]" using f(5) by blast
    show ?thesis using assms(2) f(2,3) unfolding p by (auto simp: settled_db_def)
  qed
qed

lemma persist_settled_is_identity:
  assumes "events_ok es" "settled_db t d es"
  shows "persist_detection m t d es = es"
proof -
  obtain e where e: "e \<in> set es" "event_key e = detection_key d" "classified t e" using assms(2) by (auto simp: settled_db_def)
  have "detection_key d \<in> event_key ` set es" using e by (metis imageI)
  then have "event_with (detection_key d) es \<noteq> None" by (simp add: event_with_None)
  then obtain x where x: "event_with (detection_key d) es = Some x" by auto
  then have "x = e" using e assms(1) event_with_SomeD [OF x] by (auto simp: events_ok_def distinct_map inj_on_def)
  moreover have "dt_type d = ev_type e" using e(2) by (simp add: event_key_def detection_key_def)
  ultimately have "reclassify t d x = x" using e(3) by (simp add: reclassify_def classified_def)
  moreover have "put_row ev_id x es = es"
    using event_table.same [of es] x e(1) assms(1) \<open>x = e\<close> by (auto simp: put_row_def events_ok_def intro: map_idI)
  ultimately show ?thesis using x by (simp add: persist_detection_def)
qed

lemma persist_fold:
  assumes "events_ok es"
  shows "events_ok (fold (persist_detection m t) ds es)
    \<and> event_key ` set (fold (persist_detection m t) ds es) = event_key ` set es \<union> detection_key ` set ds
    \<and> (\<forall>d. settled_db t d es \<or> d \<in> set ds \<longrightarrow> settled_db t d (fold (persist_detection m t) ds es))"
  using assms
proof (induction ds arbitrary: es)
  case (Cons d ds)
  show ?case
    using Cons.IH [OF persist_detection_ok(1) [OF Cons.prems, of m t d]] persist_detection_ok(2) [OF Cons.prems, of m t d]
      persist_detection_settles [OF Cons.prems, of t _ d m]
    by auto
qed simp

lemma persist_settled_fold:
  assumes "events_ok es" "\<forall>d \<in> set ds. settled_db t d es"
  shows "fold (persist_detection m t) ds es = es"
  using assms by (induction ds) (simp_all add: persist_settled_is_identity)

section \<open>Properties\<close>

text \<open>C18. In every series of bars the events of a family go round: a passivation, then its structure,
  then its failure (for bottoms) or invalidation (for tops), then a new passivation. Each names the
  event just before as its parent, lies strictly after it and keeps its pivot, and a bottom fails only
  at a close below its pivot low, a top is invalidated only at a close above its pivot high.\<close>

theorem structures_form_cycles:
  "cycle_ok bottom_cycle dt_pivot_low (<) (family_of bottom_cycle (detect_latest_structures cfg symbol tf db))
   \<and> cycle_ok top_cycle dt_pivot_high (>) (family_of top_cycle (detect_latest_structures cfg symbol tf db))"
proof -
  have "scan_ok (fold (scan_bar cfg series) js ([], nothing_pending))" for series js
    by (rule scan_ok_fold [OF scan_ok_start])
  moreover have "scan_ok ([], nothing_pending)" by (rule scan_ok_start)
  ultimately show ?thesis
    by (simp add: detect_latest_structures_def detect_in_series_def scan_ok_def)
qed

text \<open>Storing detections adds exactly the keys that were missing, keeps ids and keys unique, and is
  idempotent: storing them once more under the same daily state changes nothing.\<close>

theorem persisting_is_idempotent:
  assumes "events_ok (structure_events db)"
    and "db' = fst (persist_structure_detections ds m t db)"
  shows "events_ok (structure_events db')
    \<and> event_key ` set (structure_events db') = event_key ` set (structure_events db) \<union> detection_key ` set ds
    \<and> fst (persist_structure_detections ds m t db') = db'"
  using persist_fold [OF assms(1), of m t ds]
  by (simp add: assms(2) persist_structure_detections_def Let_def persist_settled_fold)

text \<open>A full round of a bottom, stored into an empty table.\<close>

definition sample_detection :: "event_type \<Rightarrow> int \<Rightarrow> event_type option \<Rightarrow> int option \<Rightarrow> detection" where
  "sample_detection ty t parent parent_ts = \<lparr>dt_symbol = ''AAPL'', dt_timeframe = HOUR_60, dt_type = ty, dt_ts = t,
     dt_price = 100, dt_reason = [], dt_pivot_low = Some 95, dt_pivot_high = None, dt_confirm_level = None,
     dt_invalidation_level = Some 95, dt_trigger_level = None, dt_parent_type = parent, dt_parent_ts = parent_ts,
     dt_expires_at = None, dt_script_version = []\<rparr>"

definition sample_round :: "detection list" where
  "sample_round = [sample_detection BOTTOM_PASSIVATION 1 None None,
     sample_detection BOTTOM_STRUCTURE 2 (Some BOTTOM_PASSIVATION) (Some 1),
     sample_detection BOTTOM_FAILED 3 (Some BOTTOM_STRUCTURE) (Some 2)]"

theorem persisting_is_idempotent_witness:
  "(let db = fst (persist_structure_detections sample_round [] [] empty_store)
    in map ev_parent_id (structure_events db) = [None, Some 1, Some 2]
       \<and> map ev_became_failed (structure_events db) = [False, True, False]
       \<and> fst (persist_structure_detections sample_round [] [] db) = db)"
proof -
  define db where "db = fst (persist_structure_detections sample_round [] [] empty_store)"
  have "events_ok (structure_events empty_store)" by code_simp
  from persisting_is_idempotent [OF this db_def] have "fst (persist_structure_detections sample_round [] [] db) = db" by blast
  moreover have "map ev_parent_id (structure_events db) = [None, Some 1, Some 2]"
    "map ev_became_failed (structure_events db) = [False, True, False]"
    unfolding db_def by code_simp+
  ultimately show ?thesis by (simp only: Let_def db_def [symmetric])
qed

end
