(* ===== verification/Entry_Trigger.thy ===== *)
theory Entry_Trigger
  imports Structures
begin

text \<open>
  app/services/entry_trigger.py and corrections.py: the 15-minute trigger of an entry after a
  confirmed bottom structure, and what withdraws a pending entry proposal: the failure of its
  structure or of its trigger, its age, and the market.
\<close>

section \<open>Configuration\<close>

record entry_trigger_config =
  tc_breakout_lookback_bars :: nat
  tc_histogram_improvement_bars :: nat
  tc_minimum_volume_ratio :: real
  tc_maximum_stop_distance_pct :: real
  tc_maximum_stop_distance_atr :: real
  tc_script_version :: string

definition ENTRY_TRIGGER_CONFIG :: entry_trigger_config where
  "ENTRY_TRIGGER_CONFIG = \<lparr>tc_breakout_lookback_bars = 8, tc_histogram_improvement_bars = 3, tc_minimum_volume_ratio = 65/100,
     tc_maximum_stop_distance_pct = 8/100, tc_maximum_stop_distance_atr = 4, tc_script_version = ''macd-15m-trigger-v1''\<rparr>"

record correction_config =
  cc_signal_expiry_bars :: nat
  cc_trigger_failure_bars :: nat
  cc_maximum_entry_deviation_pct :: real

definition CORRECTION_CONFIG :: correction_config where
  "CORRECTION_CONFIG = \<lparr>cc_signal_expiry_bars = 4, cc_trigger_failure_bars = 5, cc_maximum_entry_deviation_pct = 3/100\<rparr>"

section \<open>The trigger\<close>

record trigger_evaluation =
  te_triggered :: bool
  te_reason :: string
  te_trigger_ts :: "int option"
  te_trigger_price :: "real option"
  te_trigger_level :: "real option"
  te_script_version :: string

definition no_trigger :: "string \<Rightarrow> trigger_evaluation" where
  "no_trigger reason = \<lparr>te_triggered = False, te_reason = reason, te_trigger_ts = None, te_trigger_price = None,
     te_trigger_level = None, te_script_version = tc_script_version ENTRY_TRIGGER_CONFIG\<rparr>"

definition trigger_bars :: "string \<Rightarrow> int \<Rightarrow> nat \<Rightarrow> 'z store_scheme \<Rightarrow> kline list" where
  "trigger_bars symbol latest_ts limit db =
     rev (take limit (order_desc kl_ts (filter (\<lambda>b. kl_symbol b = symbol \<and> kl_timeframe b = MIN_15
        \<and> kl_ts b \<le> latest_ts \<and> kl_data_ok b) (klines db))))"

text \<open>Each value is above the one before, and all are there.\<close>

fun improving :: "real option list \<Rightarrow> bool" where
  "improving (Some a # Some b # rest) \<longleftrightarrow> a < b \<and> improving (Some b # rest)"
| "improving (_ # _ # _) \<longleftrightarrow> False"
| "improving _ \<longleftrightarrow> True"

text \<open>The five checks on the bars, each with the reason given when it fails.\<close>

definition trigger_checks ::
  "entry_trigger_config \<Rightarrow> kline \<Rightarrow> real \<Rightarrow> real \<Rightarrow> real \<Rightarrow> real \<Rightarrow> real option list \<Rightarrow> real option \<Rightarrow> (bool \<times> string) list" where
  "trigger_checks cfg bar level ma20 dif volume_ma20 histogram dif_previous =
     [(kl_close bar \<ge> ma20, zh_trg_below_ma20),
      (kl_close bar > level, zh_trg_no_breakout_a @ digits (int (tc_breakout_lookback_bars cfg)) @ zh_trg_no_breakout_b),
      (length histogram = tc_histogram_improvement_bars cfg \<and> improving histogram,
         zh_trg_no_hist_a @ digits (int (tc_histogram_improvement_bars cfg)) @ zh_trg_no_hist_b),
      ((case dif_previous of None \<Rightarrow> False | Some d \<Rightarrow> dif \<ge> d), zh_trg_dif_falling),
      (kl_volume bar \<ge> volume_ma20 * tc_minimum_volume_ratio cfg, zh_trg_low_volume)]"

definition invalidation_of :: "structure_event \<Rightarrow> real option" where
  "invalidation_of structure =
     (if opt_truthy (ev_invalidation_level structure) then ev_invalidation_level structure else ev_pivot_low structure)"

definition last_n_of :: "nat \<Rightarrow> 'a list \<Rightarrow> 'a list" where
  "last_n_of n xs = drop (length xs - n) xs"

text \<open>The evaluation once the bars and their indicators are there.\<close>

definition evaluate_trigger ::
  "entry_trigger_config \<Rightarrow> structure_event \<Rightarrow> kline \<Rightarrow> kline list \<Rightarrow> indicator list \<Rightarrow> exn + trigger_evaluation" where
  "evaluate_trigger cfg structure bar bars inds =
     (let ind = last inds
      in case (in_ma20 ind, in_macd_dif ind, in_macd_hist ind, in_atr ind, in_volume_ma20 ind) of
           (Some ma20, Some dif, Some hist, Some atr, Some volume_ma20) \<Rightarrow>
             (let level = Max (set (map kl_high (butlast (last_n_of (tc_breakout_lookback_bars cfg + 1) bars))));
                  histogram = map in_macd_hist (last_n_of (tc_histogram_improvement_bars cfg) inds);
                  checks = trigger_checks cfg bar level ma20 dif volume_ma20 histogram (in_macd_dif (last (butlast inds)))
              in case invalidation_of structure of
                   None \<Rightarrow> Inr (no_trigger zh_trg_no_invalidation)
                 | Some invalidation \<Rightarrow>
                     if invalidation \<ge> kl_close bar then Inr (no_trigger zh_trg_no_invalidation)
                     else if kl_close bar = 0 then Inl (OtherError ''float division by zero'')
                     else (let distance = kl_close bar - invalidation;
                               failed = map snd (filter (\<lambda>c. \<not> fst c) (checks @
                                 [(distance / kl_close bar \<le> tc_maximum_stop_distance_pct cfg
                                   \<and> distance \<le> atr * tc_maximum_stop_distance_atr cfg, zh_trg_too_far)]))
                           in Inr \<lparr>te_triggered = (failed = []),
                                te_reason = (if failed \<noteq> [] then join_with zh_separator failed
                                             else zh_trg_done_a @ fmt_fixed 2 level @ zh_trg_done_b),
                                te_trigger_ts = Some (kl_ts bar), te_trigger_price = Some (kl_close bar),
                                te_trigger_level = Some level, te_script_version = tc_script_version ENTRY_TRIGGER_CONFIG\<rparr>))
         | _ \<Rightarrow> Inr (no_trigger zh_trg_indicator_short))"

definition evaluate_15m_trend_resume :: "string \<Rightarrow> structure_event \<Rightarrow> 'z store_scheme \<Rightarrow> exn + trigger_evaluation" where
  "evaluate_15m_trend_resume symbol structure db =
     (let cfg = ENTRY_TRIGGER_CONFIG
      in if ev_type structure \<noteq> BOTTOM_STRUCTURE \<or> ev_timeframe structure \<noteq> HOUR_60 then Inr (no_trigger zh_trg_no_bottom)
         else if ev_invalidated structure \<or> ev_became_failed structure then Inr (no_trigger zh_trg_bottom_failed)
         else (case latest_bar symbol MIN_15 db of
           None \<Rightarrow> Inr (no_trigger zh_trg_no_bars)
         | Some bar \<Rightarrow>
             if (case ev_expires_at structure of None \<Rightarrow> False | Some x \<Rightarrow> kl_ts bar > x) then Inr (no_trigger zh_trg_expired)
             else if kl_ts bar \<le> ev_ts structure then Inr (no_trigger zh_trg_wait_new_bar)
             else (let limit = max (tc_breakout_lookback_bars cfg + 1) (tc_histogram_improvement_bars cfg);
                       bars = trigger_bars symbol (kl_ts bar) limit db;
                       inds = map (\<lambda>b. indicator_at symbol MIN_15 (kl_ts b) db) bars
                   in if length bars < limit then Inr (no_trigger zh_trg_short_history)
                      else if None \<in> set inds then Inr (no_trigger zh_trg_no_indicator)
                      else evaluate_trigger cfg structure bar bars (map the inds))))"

section \<open>Corrections of a pending entry\<close>

record correction =
  co_status :: signal_status
  co_reason :: string
  co_target_state :: trading_phase
  co_start_cooldown :: bool

definition bars_after_trigger :: "trade_signal \<Rightarrow> 'z store_scheme \<Rightarrow> kline list" where
  "bars_after_trigger sg db =
     (case sg_trigger_ts sg of
        None \<Rightarrow> []
      | Some t \<Rightarrow> sort_key kl_ts (filter (\<lambda>b. kl_symbol b = sg_symbol sg \<and> kl_timeframe b = MIN_15
            \<and> kl_ts b > t \<and> kl_data_ok b) (klines db)))"

definition fmt_percent :: "real \<Rightarrow> string" where
  "fmt_percent x = fmt_fixed 1 (x * 100) @ ''%''"

text \<open>The first bar after the trigger that undoes it; the histogram is compared with the last one known.\<close>

fun trigger_undone :: "real \<Rightarrow> real option \<Rightarrow> (kline \<times> indicator option) list \<Rightarrow> string option" where
  "trigger_undone level previous [] = None"
| "trigger_undone level previous ((b, i) # rest) =
     (let start = zh_cor_after_trigger @ fmt_minute (kl_ts b);
          hist = (case i of None \<Rightarrow> None | Some x \<Rightarrow> in_macd_hist x)
      in if kl_close b < level then Some (start @ zh_cor_below_level @ fmt_fixed 2 level @ zh_cor_below)
         else if (case i of None \<Rightarrow> False | Some x \<Rightarrow> (case in_ma20 x of None \<Rightarrow> False | Some m \<Rightarrow> kl_close b < m))
         then Some (start @ zh_cor_below_ma20)
         else if (case (hist, previous) of (Some h, Some p) \<Rightarrow> h < p | _ \<Rightarrow> False) then Some (start @ zh_cor_hist_weak)
         else trigger_undone level (case hist of None \<Rightarrow> previous | Some h \<Rightarrow> Some h) rest)"

definition entry_trigger_failure_reason :: "trade_signal \<Rightarrow> 'z store_scheme \<Rightarrow> exn + string option" where
  "entry_trigger_failure_reason sg db =
     (case (sg_trigger_ts sg, sg_trigger_level sg, sg_entry_price sg) of
        (Some t, Some level, Some entry) \<Rightarrow>
          (let bars = take (cc_trigger_failure_bars CORRECTION_CONFIG) (bars_after_trigger sg db);
               previous = (case indicator_at (sg_symbol sg) MIN_15 t db of None \<Rightarrow> None | Some i \<Rightarrow> in_macd_hist i)
           in if bars = [] then Inr None
              else (case trigger_undone level previous (map (\<lambda>b. (b, indicator_at (sg_symbol sg) MIN_15 (kl_ts b) db)) bars) of
                Some reason \<Rightarrow> Inr (Some reason)
              | None \<Rightarrow>
                  if entry = 0 then Inl (OtherError ''float division by zero'')
                  else (let deviation = \<bar>kl_close (last bars) - entry\<bar> / entry; limit = cc_maximum_entry_deviation_pct CORRECTION_CONFIG
                        in if deviation > limit
                           then Inr (Some (zh_cor_deviation @ fmt_percent deviation @ zh_cor_exceeds @ fmt_percent limit @ zh_cor_limit))
                           else Inr None)))
      | _ \<Rightarrow> Inr None)"

definition event_by_id :: "int option \<Rightarrow> 'z store_scheme \<Rightarrow> structure_event option" where
  "event_by_id i db =
     (case i of None \<Rightarrow> None | Some k \<Rightarrow> if k = 0 then None else get_row ev_id k (structure_events db))"

definition structure_failure :: "structure_event option \<Rightarrow> 'z store_scheme \<Rightarrow> string option" where
  "structure_failure structure db =
     (case structure of
        None \<Rightarrow> Some zh_cor_no_structure
      | Some s \<Rightarrow>
          if ev_invalidated s \<or> ev_became_failed s then Some zh_cor_structure_failed
          else (case scalar (order_desc ev_ts (filter (\<lambda>e. ev_type e = BOTTOM_FAILED \<and> ev_parent_id e = Some (ev_id s)) (structure_events db))) of
                  None \<Rightarrow> None
                | Some f \<Rightarrow> Some (zh_cor_confirmed_a @ fmt_minute (ev_ts f) @ zh_cor_confirmed_b)))"

abbreviation put_signal :: "trade_signal \<Rightarrow> 'z store_scheme \<Rightarrow> 'z store_scheme" where
  "put_signal sg db \<equiv> db\<lparr>trade_signals := put_row sg_id sg (trade_signals db)\<rparr>"

definition cancel_signal ::
  "trade_signal \<Rightarrow> signal_status \<Rightarrow> string \<Rightarrow> trading_phase \<Rightarrow> bool \<Rightarrow> 'z store_scheme \<Rightarrow> correction option \<times> 'z store_scheme" where
  "cancel_signal sg status reason target start_cooldown db =
     (Some \<lparr>co_status = status, co_reason = reason, co_target_state = target, co_start_cooldown = start_cooldown\<rparr>,
      put_signal (sg\<lparr>sg_status := status, sg_cancel_reason := reason\<rparr>) db)"

definition market_label :: "market_state \<Rightarrow> string" where
  "market_label m = (case m of NEUTRAL_NEGATIVE \<Rightarrow> zh_cor_neutral_negative | RISK_OFF \<Rightarrow> zh_cor_risk_off | _ \<Rightarrow> zh_cor_no_entries)"

definition pending_signals :: "string \<Rightarrow> signal_type \<Rightarrow> 'z store_scheme \<Rightarrow> trade_signal list" where
  "pending_signals symbol ty db = filter (\<lambda>s. sg_symbol s = symbol \<and> sg_type s = ty \<and> sg_status s = PENDING) (trade_signals db)"

definition reconcile_pending_entry :: "string \<Rightarrow> market_state \<Rightarrow> 'z store_scheme \<Rightarrow> exn + correction option \<times> 'z store_scheme" where
  "reconcile_pending_entry symbol market db =
     (case scalar (order_desc sg_created_at (pending_signals symbol ENTRY db)) of
        None \<Rightarrow> Inr (None, db)
      | Some sg \<Rightarrow>
          (case structure_failure (event_by_id (sg_source_structure_id sg) db) db of
             Some reason \<Rightarrow> Inr (cancel_signal sg CANCELLED_BY_STRUCTURE reason COOLDOWN True db)
           | None \<Rightarrow>
               (case entry_trigger_failure_reason sg db of
                  Inl e \<Rightarrow> Inl e
                | Inr (Some reason) \<Rightarrow> Inr (cancel_signal sg CANCELLED_BY_TRIGGER reason WAIT_15M_TRIGGER False db)
                | Inr None \<Rightarrow>
                    if length (bars_after_trigger sg db) \<ge> cc_signal_expiry_bars CORRECTION_CONFIG
                    then Inr (cancel_signal sg EXPIRED
                      (zh_cor_expired_a @ digits (int (cc_signal_expiry_bars CORRECTION_CONFIG)) @ zh_cor_expired_b) WAIT_15M_TRIGGER False db)
                    else if market \<notin> set TRADEABLE_MARKETS
                    then Inr (cancel_signal sg CANCELLED_BY_MARKET (zh_cor_market_a @ market_label market @ zh_cor_market_b) IDLE False db)
                    else Inr (None, db))))"

section \<open>Lemmas\<close>

definition unique_signals :: "trade_signal list \<Rightarrow> bool" where
  "unique_signals xs \<longleftrightarrow> distinct (map sg_id xs)"

interpretation signal_table: keyed_table sg_id unique_signals
  by unfold_locales (simp add: unique_signals_def)

lemma pending_signals_iff:
  "x \<in> set (pending_signals symbol ty db) \<longleftrightarrow>
     x \<in> set (trade_signals db) \<and> sg_symbol x = symbol \<and> sg_type x = ty \<and> sg_status x = PENDING"
  by (auto simp: pending_signals_def)

text \<open>Withdrawing a pending signal takes exactly it out of the pending ones.\<close>

lemma pending_after_put:
  assumes "status \<noteq> PENDING"
  shows "pending_signals symbol ty (put_signal (sg\<lparr>sg_status := status, sg_cancel_reason := reason\<rparr>) db)
    = filter (\<lambda>x. sg_id x \<noteq> sg_id sg) (pending_signals symbol ty db)"
proof -
  let ?new = "sg\<lparr>sg_status := status, sg_cancel_reason := reason\<rparr>"
  have "filter P (put_row sg_id ?new xs) = filter (\<lambda>x. sg_id x \<noteq> sg_id sg \<and> P x) xs" if "\<not> P ?new" for P :: "trade_signal \<Rightarrow> bool" and xs
    using that by (induction xs) (auto simp: put_row_def)
  from this [of "\<lambda>x. sg_symbol x = symbol \<and> sg_type x = ty \<and> sg_status x = PENDING"] show ?thesis
    using assms by (simp add: pending_signals_def conj_ac)
qed

lemma cancelled_is_gone:
  assumes "status \<noteq> PENDING"
    and "cancel_signal sg status reason target cooldown db = (c, db')"
  shows "c \<noteq> None \<and> sg_id sg \<notin> sg_id ` set (pending_signals symbol ty db')
    \<and> pending_signals symbol ty db' = filter (\<lambda>x. sg_id x \<noteq> sg_id sg) (pending_signals symbol ty db)"
proof -
  have db': "db' = put_signal (sg\<lparr>sg_status := status, sg_cancel_reason := reason\<rparr>) db" and c: "c \<noteq> None"
    using assms(2) by (auto simp: cancel_signal_def)
  have "pending_signals symbol ty db' = filter (\<lambda>x. sg_id x \<noteq> sg_id sg) (pending_signals symbol ty db)"
    unfolding db' by (rule pending_after_put [OF assms(1)])
  then show ?thesis using c by auto
qed

lemma structure_failure_D:
  "structure_failure structure db = None \<Longrightarrow>
     \<exists>s. structure = Some s \<and> \<not> ev_invalidated s \<and> \<not> ev_became_failed s
       \<and> (\<forall>e \<in> set (structure_events db). ev_type e = BOTTOM_FAILED \<longrightarrow> ev_parent_id e \<noteq> Some (ev_id s))"
  by (auto simp: structure_failure_def filter_empty_conv split: option.splits if_splits)

lemma failure_reason_total:
  "sg_entry_price sg \<noteq> Some 0 \<Longrightarrow> \<exists>r. entry_trigger_failure_reason sg db = Inr r"
  by (auto simp: entry_trigger_failure_reason_def Let_def split: option.splits)

text \<open>What the correction of a pending proposal comes to: it is kept only while nothing speaks against it.\<close>

lemma reconcile_cases:
  assumes "scalar (order_desc sg_created_at (pending_signals symbol ENTRY db)) = Some sg"
    and "entry_trigger_failure_reason sg db = Inr failure"
  obtains (kept) "reconcile_pending_entry symbol market db = Inr (None, db)"
      "structure_failure (event_by_id (sg_source_structure_id sg) db) db = None" "failure = None"
      "length (bars_after_trigger sg db) < 4" "market \<in> set TRADEABLE_MARKETS"
  | (withdrawn) status reason target cooldown where
      "reconcile_pending_entry symbol market db = Inr (cancel_signal sg status reason target cooldown db)"
      "status \<in> {CANCELLED_BY_STRUCTURE, CANCELLED_BY_TRIGGER, EXPIRED, CANCELLED_BY_MARKET}"
proof (cases "structure_failure (event_by_id (sg_source_structure_id sg) db) db")
  case (Some r)
  then show thesis by (intro withdrawn [of CANCELLED_BY_STRUCTURE r COOLDOWN True]) (simp_all add: reconcile_pending_entry_def assms(1))
next
  case None
  show thesis
  proof (cases failure)
    case (Some r)
    then show thesis
      by (intro withdrawn [of CANCELLED_BY_TRIGGER r WAIT_15M_TRIGGER False]) (simp_all add: reconcile_pending_entry_def assms None)
  next
    case N: None
    show thesis
    proof (cases "length (bars_after_trigger sg db) \<ge> cc_signal_expiry_bars CORRECTION_CONFIG")
      case True
      then show thesis using None N
        by (intro withdrawn [of EXPIRED _ WAIT_15M_TRIGGER False]) (simp_all add: reconcile_pending_entry_def assms)
    next
      case False
      show thesis
      proof (cases "market \<in> set TRADEABLE_MARKETS")
        case True
        then show thesis using False None N
          by (intro kept) (simp_all add: reconcile_pending_entry_def assms CORRECTION_CONFIG_def)
      next
        case F: False
        then show thesis using False None N
          by (intro withdrawn [of CANCELLED_BY_MARKET _ IDLE False]) (simp_all add: reconcile_pending_entry_def assms)
      qed
    qed
  qed
qed

lemma reconcile_result:
  assumes "reconcile_pending_entry symbol market db = Inr (c, db')"
  shows "c = None \<and> db' = db
    \<or> (\<exists>sg status reason target cooldown. (c, db') = cancel_signal sg status reason target cooldown db
        \<and> sg \<in> set (pending_signals symbol ENTRY db) \<and> status \<noteq> PENDING)"
proof (cases "scalar (order_desc sg_created_at (pending_signals symbol ENTRY db))")
  case None
  then show ?thesis using assms unfolding reconcile_pending_entry_def None by simp
next
  case (Some sg)
  have mem: "sg \<in> set (pending_signals symbol ENTRY db)" using scalar_SomeD [OF Some] by simp
  show ?thesis
  proof (cases "structure_failure (event_by_id (sg_source_structure_id sg) db) db")
    case F: (Some reason)
    then have "(c, db') = cancel_signal sg CANCELLED_BY_STRUCTURE reason COOLDOWN True db"
      using assms Some by (simp add: reconcile_pending_entry_def)
    with mem show ?thesis by (metis signal_status.distinct(5))
  next
    case None
    then obtain failure where f: "entry_trigger_failure_reason sg db = Inr failure"
      using assms Some by (auto simp: reconcile_pending_entry_def split: sum.splits)
    from Some f show ?thesis
    proof (cases rule: reconcile_cases [where market = market])
      case kept
      then show ?thesis using assms by simp
    next
      case (withdrawn status reason target cooldown)
      then have "(c, db') = cancel_signal sg status reason target cooldown db" "status \<noteq> PENDING" using assms by auto
      with mem show ?thesis by metis
    qed
  qed
qed

section \<open>Properties\<close>

text \<open>A pending entry proposal does not wait for ever: as soon as four 15-minute bars have followed its
  trigger, the next correction of its symbol withdraws it, whatever the market and the bars say, and
  leaves every other proposal as it was.\<close>

theorem overdue_proposal_is_withdrawn:
  assumes "scalar (order_desc sg_created_at (pending_signals symbol ENTRY db)) = Some sg"
    and "4 \<le> length (bars_after_trigger sg db)" and "sg_entry_price sg \<noteq> Some 0"
  shows "\<exists>c db'. reconcile_pending_entry symbol market db = Inr (Some c, db')
    \<and> pending_signals symbol ENTRY db' = filter (\<lambda>x. sg_id x \<noteq> sg_id sg) (pending_signals symbol ENTRY db)"
proof -
  obtain failure where f: "entry_trigger_failure_reason sg db = Inr failure" using failure_reason_total [OF assms(3)] by blast
  from assms(1) f show ?thesis
  proof (cases rule: reconcile_cases [where market = market])
    case kept
    then show ?thesis using assms(2) by simp
  next
    case (withdrawn status reason target cooldown)
    obtain c db' where c: "cancel_signal sg status reason target cooldown db = (c, db')" by fastforce
    from cancelled_is_gone [OF _ c] withdrawn(2)
    have "c \<noteq> None" "pending_signals symbol ENTRY db' = filter (\<lambda>x. sg_id x \<noteq> sg_id sg) (pending_signals symbol ENTRY db)" by auto
    then show ?thesis using withdrawn(1) c by auto
  qed
qed

text \<open>The usable 15-minute bars, the latest first.\<close>

definition recent_bars :: "string \<Rightarrow> 'z store_scheme \<Rightarrow> kline list" where
  "recent_bars symbol db = order_desc kl_ts (filter (\<lambda>b. kl_symbol b = symbol \<and> kl_timeframe b = MIN_15 \<and> kl_data_ok b) (klines db))"

lemma trigger_bars_recent:
  assumes "latest_bar symbol MIN_15 db = Some bar"
  shows "trigger_bars symbol (kl_ts bar) n db = rev (take n (recent_bars symbol db)) \<and> hd (recent_bars symbol db) = bar"
proof -
  have first: "scalar (recent_bars symbol db) = Some bar" using assms by (simp add: latest_bar_def recent_bars_def)
  have "kl_ts b \<le> kl_ts bar" if "b \<in> set (filter (\<lambda>b. kl_symbol b = symbol \<and> kl_timeframe b = MIN_15 \<and> kl_data_ok b) (klines db))" for b
    by (rule scalar_order_desc_max [OF first [unfolded recent_bars_def] that])
  then have "filter (\<lambda>b. kl_symbol b = symbol \<and> kl_timeframe b = MIN_15 \<and> kl_ts b \<le> kl_ts bar \<and> kl_data_ok b) (klines db)
      = filter (\<lambda>b. kl_symbol b = symbol \<and> kl_timeframe b = MIN_15 \<and> kl_data_ok b) (klines db)"
    by (auto intro!: filter_cong)
  moreover have "hd (recent_bars symbol db) = bar" using first by (cases "recent_bars symbol db") auto
  ultimately show ?thesis by (simp add: trigger_bars_def recent_bars_def)
qed

lemma evaluate_trigger_D:
  assumes "evaluate_trigger cfg structure bar bars inds = Inr te" and "te_triggered te"
    and "highs = set (map kl_high (butlast (last_n_of (tc_breakout_lookback_bars cfg + 1) bars)))"
  shows "\<exists>ma20 dif hist atr volume invalidation. in_ma20 (last inds) = Some ma20 \<and> in_macd_dif (last inds) = Some dif
    \<and> in_macd_hist (last inds) = Some hist \<and> in_atr (last inds) = Some atr \<and> in_volume_ma20 (last inds) = Some volume
    \<and> invalidation_of structure = Some invalidation
    \<and> invalidation < kl_close bar \<and> ma20 \<le> kl_close bar \<and> Max highs < kl_close bar
    \<and> length (last_n_of (tc_histogram_improvement_bars cfg) inds) = tc_histogram_improvement_bars cfg
    \<and> improving (map in_macd_hist (last_n_of (tc_histogram_improvement_bars cfg) inds))
    \<and> (\<exists>d. in_macd_dif (last (butlast inds)) = Some d \<and> d \<le> dif)
    \<and> volume * tc_minimum_volume_ratio cfg \<le> kl_volume bar
    \<and> (kl_close bar - invalidation) / kl_close bar \<le> tc_maximum_stop_distance_pct cfg
    \<and> kl_close bar - invalidation \<le> atr * tc_maximum_stop_distance_atr cfg
    \<and> te_trigger_ts te = Some (kl_ts bar) \<and> te_trigger_price te = Some (kl_close bar) \<and> te_trigger_level te = Some (Max highs)"
proof -
  note ev = assms(1) [unfolded evaluate_trigger_def Let_def]
  have not_short: "Inr (no_trigger r) \<noteq> Inr te" for r using assms(2) by (auto simp: no_trigger_def)
  obtain ma20 where ma20: "in_ma20 (last inds) = Some ma20" using ev not_short by (cases "in_ma20 (last inds)") simp_all
  obtain dif where dif: "in_macd_dif (last inds) = Some dif" using ev not_short ma20 by (cases "in_macd_dif (last inds)") simp_all
  obtain hist where hist: "in_macd_hist (last inds) = Some hist" using ev not_short ma20 dif by (cases "in_macd_hist (last inds)") simp_all
  obtain atr where atr: "in_atr (last inds) = Some atr" using ev not_short ma20 dif hist by (cases "in_atr (last inds)") simp_all
  obtain vol where vol: "in_volume_ma20 (last inds) = Some vol" using ev not_short ma20 dif hist atr by (cases "in_volume_ma20 (last inds)") simp_all
  note ev' = ev [unfolded ma20 dif hist atr vol prod.case option.case, folded assms(3)]
  obtain x where x: "invalidation_of structure = Some x" using ev' not_short by (cases "invalidation_of structure") simp_all
  have low: "\<not> x \<ge> kl_close bar" "kl_close bar \<noteq> 0" using ev' [unfolded x option.case] not_short by (auto split: if_splits)
  note te = ev' [unfolded x option.case if_not_P [OF low(1)] if_not_P [OF low(2)]]
  have rising: "\<exists>d. in_macd_dif (last (butlast inds)) = Some d \<and> d \<le> dif"
    using te assms(2) by (cases "in_macd_dif (last (butlast inds))")
      (auto simp: trigger_checks_def filter_empty_conv simp del: filter.simps split del: if_split)
  show ?thesis
    using te assms(2) x ma20 dif hist atr vol low rising
    by (auto simp: trigger_checks_def filter_empty_conv simp del: filter.simps split del: if_split)
qed

text \<open>
  The confirmation of a breakout on the latest bar, the two bars before it and their indicators: the close
  is at or above its MA20, the MACD histogram has risen twice, the DIF has not fallen, the volume reaches 65
  percent of its average, and the stop at the level given is at most four ATR and eight percent away.
\<close>

definition breakout_confirmed :: "kline \<Rightarrow> indicator \<Rightarrow> indicator \<Rightarrow> indicator \<Rightarrow> real \<Rightarrow> bool" where
  "breakout_confirmed bar ind i1 i2 stop \<longleftrightarrow>
     (\<exists>ma20 h h1 h2 d d1 atr vol. in_ma20 ind = Some ma20 \<and> ma20 \<le> kl_close bar
        \<and> in_macd_hist i2 = Some h2 \<and> in_macd_hist i1 = Some h1 \<and> in_macd_hist ind = Some h \<and> h2 < h1 \<and> h1 < h
        \<and> in_macd_dif i1 = Some d1 \<and> in_macd_dif ind = Some d \<and> d1 \<le> d
        \<and> in_volume_ma20 ind = Some vol \<and> vol * (65/100) \<le> kl_volume bar
        \<and> in_atr ind = Some atr \<and> kl_close bar - stop \<le> 4 * atr
        \<and> stop < kl_close bar \<and> (kl_close bar - stop) / kl_close bar \<le> 8/100)"

lemma improving_three: "improving [a, b, c] \<longleftrightarrow> (\<exists>x y z. a = Some x \<and> b = Some y \<and> c = Some z \<and> x < y \<and> y < z)"
  by (cases a; cases b; cases c) auto

text \<open>C19. A trigger is given only for a confirmed 60-minute bottom that has neither failed nor expired, at the
  latest usable 15-minute bar, which lies after it: the close is above the highs of the eight bars before
  and at or above its MA20, the MACD histogram has risen over the last three bars, the DIF has not fallen,
  the volume reaches 65 percent of its average, and the close lies above the level at which the structure
  fails, by at most eight percent of the price and four ATR.\<close>

theorem trigger_is_sound:
  assumes "evaluate_15m_trend_resume symbol bottom db = Inr te" and "te_triggered te"
  shows "ev_type bottom = BOTTOM_STRUCTURE \<and> ev_timeframe bottom = HOUR_60
    \<and> \<not> ev_invalidated bottom \<and> \<not> ev_became_failed bottom
    \<and> (\<exists>bar b1 b2 older ind i1 i2 level invalidation. recent_bars symbol db = bar # b1 # b2 # older \<and> length older \<ge> 6
        \<and> te_trigger_ts te = Some (kl_ts bar) \<and> te_trigger_price te = Some (kl_close bar) \<and> te_trigger_level te = Some level
        \<and> ev_ts bottom < kl_ts bar \<and> (\<forall>x. ev_expires_at bottom = Some x \<longrightarrow> kl_ts bar \<le> x)
        \<and> indicator_at symbol MIN_15 (kl_ts bar) db = Some ind \<and> indicator_at symbol MIN_15 (kl_ts b1) db = Some i1
        \<and> indicator_at symbol MIN_15 (kl_ts b2) db = Some i2
        \<and> level = Max (kl_high ` set (b1 # b2 # take 6 older)) \<and> level < kl_close bar
        \<and> invalidation_of bottom = Some invalidation \<and> breakout_confirmed bar ind i1 i2 invalidation)"
proof -
  have not_yet: "Inr (no_trigger r) \<noteq> Inr te" for r using assms(2) by (auto simp: no_trigger_def)
  note ev = assms(1) [unfolded evaluate_15m_trend_resume_def Let_def]
  have valid: "\<not> (ev_type bottom \<noteq> BOTTOM_STRUCTURE \<or> ev_timeframe bottom \<noteq> HOUR_60)"
    "\<not> (ev_invalidated bottom \<or> ev_became_failed bottom)" using ev not_yet by (auto split: if_splits)
  note ev1 = ev [unfolded if_not_P [OF valid(1)] if_not_P [OF valid(2)]]
  obtain bar where bar: "latest_bar symbol MIN_15 db = Some bar" using ev1 not_yet by (cases "latest_bar symbol MIN_15 db") simp_all
  note ev2 = ev1 [unfolded bar option.case]
  have after: "\<not> (case ev_expires_at bottom of None \<Rightarrow> False | Some x \<Rightarrow> kl_ts bar > x)" "\<not> kl_ts bar \<le> ev_ts bottom"
    using ev2 not_yet by (auto split: if_splits)
  have limit: "max (tc_breakout_lookback_bars ENTRY_TRIGGER_CONFIG + 1) (tc_histogram_improvement_bars ENTRY_TRIGGER_CONFIG) = 9"
    by (simp add: ENTRY_TRIGGER_CONFIG_def)
  note ev3 = ev2 [unfolded if_not_P [OF after(1)] if_not_P [OF after(2)] limit]
  have found: "\<not> length (trigger_bars symbol (kl_ts bar) 9 db) < 9"
    "None \<notin> set (map (\<lambda>b. indicator_at symbol MIN_15 (kl_ts b) db) (trigger_bars symbol (kl_ts bar) 9 db))"
    using ev3 not_yet by (auto split: if_splits)
  note ev4 = ev3 [unfolded if_not_P [OF found(1)] if_not_P [OF found(2)]]
  obtain before where before: "recent_bars symbol db = bar # before" "length before \<ge> 8"
    and bars: "trigger_bars symbol (kl_ts bar) 9 db = rev (take 8 before) @ [bar]"
    using trigger_bars_recent [OF bar, of 9] found(1) by (cases "recent_bars symbol db") (auto simp: eval_nat_numeral)
  define inds where "inds = map the (map (\<lambda>b. indicator_at symbol MIN_15 (kl_ts b) db) (rev (take 8 before) @ [bar]))"
  obtain ind where ind: "indicator_at symbol MIN_15 (kl_ts bar) db = Some ind" using found(2) unfolding bars
    by (cases "indicator_at symbol MIN_15 (kl_ts bar) db") auto
  then have last: "last inds = ind" by (simp add: inds_def)
  have highs: "set (map kl_high (butlast (last_n_of 9 (rev (take 8 before) @ [bar])))) = kl_high ` set (take 8 before)"
    using before(2) by (simp add: last_n_of_def)
  have highs': "set (map kl_high (butlast (last_n_of (tc_breakout_lookback_bars ENTRY_TRIGGER_CONFIG + 1)
      (rev (take 8 before) @ [bar])))) = kl_high ` set (take 8 before)"
    using highs by (simp add: ENTRY_TRIGGER_CONFIG_def)
  obtain b1 b2 older where split: "before = b1 # b2 # older" "length older \<ge> 6"
    using before(2) by (cases before; cases "tl before") auto
  have inds_eq: "inds = map (\<lambda>b. the (indicator_at symbol MIN_15 (kl_ts b) db)) (rev (take 6 older)) @
      [the (indicator_at symbol MIN_15 (kl_ts b2) db), the (indicator_at symbol MIN_15 (kl_ts b1) db), ind]"
    by (simp add: inds_def split(1) ind)
  obtain i1 i2 where older: "indicator_at symbol MIN_15 (kl_ts b1) db = Some i1" "indicator_at symbol MIN_15 (kl_ts b2) db = Some i2"
    using found(2) unfolding bars split(1)
    by (cases "indicator_at symbol MIN_15 (kl_ts b1) db"; cases "indicator_at symbol MIN_15 (kl_ts b2) db") auto
  have three: "last_n_of 3 inds = [i2, i1, ind]" "last (butlast inds) = i1"
    unfolding inds_eq older option.sel by (simp_all add: last_n_of_def butlast_append)
  have config: "tc_histogram_improvement_bars ENTRY_TRIGGER_CONFIG = 3" "tc_minimum_volume_ratio ENTRY_TRIGGER_CONFIG = 65/100"
    "tc_maximum_stop_distance_pct ENTRY_TRIGGER_CONFIG = 8/100" "tc_maximum_stop_distance_atr ENTRY_TRIGGER_CONFIG = 4"
    by (simp_all add: ENTRY_TRIGGER_CONFIG_def)
  note facts = evaluate_trigger_D [OF ev4 [unfolded bars, folded inds_def] assms(2) refl, unfolded highs' last config three]
  have eight: "take 8 before = b1 # b2 # take 6 older" by (simp add: split(1))
  from facts obtain ma20 dif hist atr vol invalidation d1 where f:
    "in_ma20 ind = Some ma20" "in_macd_dif ind = Some dif" "in_macd_hist ind = Some hist" "in_atr ind = Some atr"
    "in_volume_ma20 ind = Some vol" "invalidation_of bottom = Some invalidation" "invalidation < kl_close bar" "ma20 \<le> kl_close bar"
    "Max (kl_high ` set (take 8 before)) < kl_close bar" "improving (map in_macd_hist [i2, i1, ind])"
    "in_macd_dif i1 = Some d1" "d1 \<le> dif" "vol * (65/100) \<le> kl_volume bar"
    "(kl_close bar - invalidation) / kl_close bar \<le> 8/100" "kl_close bar - invalidation \<le> atr * 4"
    "te_trigger_ts te = Some (kl_ts bar)" "te_trigger_price te = Some (kl_close bar)"
    "te_trigger_level te = Some (Max (kl_high ` set (take 8 before)))" by blast
  obtain h1 h2 where h: "in_macd_hist i2 = Some h2" "in_macd_hist i1 = Some h1" "h2 < h1" "h1 < hist"
    using f(3,10) unfolding list.map improving_three by auto
  have "breakout_confirmed bar ind i1 i2 invalidation"
    unfolding breakout_confirmed_def using f(1-5,7,8,11-15) h by (simp add: mult.commute)
  moreover have "\<forall>x. ev_expires_at bottom = Some x \<longrightarrow> kl_ts bar \<le> x" "ev_ts bottom < kl_ts bar" using after by auto
  ultimately show ?thesis
    using valid ind older before(1) split f(6,9,16-18) unfolding eight by simp
qed

section \<open>Witnesses\<close>

text \<open>Nine 15-minute bars after a bottom, the last one breaking out, with rising MACD.\<close>

definition breakout_bar :: "int \<Rightarrow> kline" where
  "breakout_bar k = \<lparr>kl_symbol = ''AAPL'', kl_timeframe = MIN_15, kl_ts = minutes (15 * k), kl_open = 100, kl_high = 101,
     kl_low = 99, kl_close = (if k = 9 then 103 else 100), kl_volume = 100, kl_turnover = 10000, kl_data_ok = True,
     kl_anomaly_reason = []\<rparr>"

definition breakout_indicator :: "int \<Rightarrow> indicator" where
  "breakout_indicator k = keyed_row ''AAPL'' MIN_15 (minutes (15 * k)) (blank_row\<lparr>in_ma20 := Some 100,
     in_macd_dif := Some (of_int k), in_macd_hist := Some (of_int k), in_atr := Some 2, in_volume_ma20 := Some 100\<rparr>)"

definition sample_bottom :: structure_event where
  "sample_bottom = new_event [] [] None 7 (sample_detection BOTTOM_STRUCTURE 2 (Some BOTTOM_PASSIVATION) (Some 1))"

definition breakout_store :: store where
  "breakout_store = empty_store\<lparr>klines := map breakout_bar [1..9], indicators := map breakout_indicator [1..9],
     structure_events := [sample_bottom]\<rparr>"

theorem trigger_is_sound_witness:
  "\<exists>te bar before level. evaluate_15m_trend_resume ''AAPL'' sample_bottom breakout_store = Inr te \<and> te_triggered te
     \<and> recent_bars ''AAPL'' breakout_store = bar # before \<and> te_trigger_level te = Some level \<and> level < kl_close bar"
proof -
  have "(case evaluate_15m_trend_resume ''AAPL'' sample_bottom breakout_store of Inl _ \<Rightarrow> False | Inr te \<Rightarrow> te_triggered te)"
    by code_simp
  then obtain te where te: "evaluate_15m_trend_resume ''AAPL'' sample_bottom breakout_store = Inr te" "te_triggered te"
    by (auto split: sum.splits)
  from trigger_is_sound [OF te] te show ?thesis by blast
qed

definition waiting_proposal :: trade_signal where
  "waiting_proposal = \<lparr>sg_id = 1, sg_symbol = ''AAPL'', sg_type = ENTRY, sg_script = SCRIPT_A_BOTTOM_TREND_RESUME,
     sg_status = PENDING, sg_action = [], sg_entry_price = Some 100, sg_stop_price = Some 95, sg_target_position_pct = None,
     sg_shares = Some 10, sg_risk_amount = Some 50, sg_risk_per_share = Some 5, sg_allowed_loss = None,
     sg_position_value = None, sg_risk_r = Some 1, sg_source_structure_id = Some 7, sg_trigger_timeframe = Some MIN_15,
     sg_trigger_ts = Some (minutes 75), sg_trigger_level = Some 99, sg_expires_at = None, sg_cancel_reason = [],
     sg_script_version = [], sg_reason = [], sg_score_display = None, sg_created_at = 0\<rparr>"

definition overdue_store :: store where
  "overdue_store = breakout_store\<lparr>trade_signals := [waiting_proposal]\<rparr>"

theorem overdue_proposal_is_withdrawn_witness:
  "\<exists>c db'. reconcile_pending_entry ''AAPL'' RISK_ON overdue_store = Inr (Some c, db')
     \<and> pending_signals ''AAPL'' ENTRY db' = [] \<and> pending_signals ''AAPL'' ENTRY overdue_store = [waiting_proposal]"
proof -
  have hyps: "scalar (order_desc sg_created_at (pending_signals ''AAPL'' ENTRY overdue_store)) = Some waiting_proposal"
    "4 \<le> length (bars_after_trigger waiting_proposal overdue_store)" "sg_entry_price waiting_proposal \<noteq> Some 0"
    "pending_signals ''AAPL'' ENTRY overdue_store = [waiting_proposal]" by code_simp+
  from overdue_proposal_is_withdrawn [OF hyps(1-3), of RISK_ON] show ?thesis unfolding hyps(4) by simp
qed

end
