(* ===== verification/Risk.thy ===== *)
theory Risk
  imports Market_Trend
begin

text \<open>
  app/services/risk.py: the stop of a structure, the size of a position within the risk budget and
  the cap per symbol, and the limits on the open positions.
\<close>

section \<open>The stop\<close>

record structure_stop =
  ss_stop_price :: real
  ss_atr :: real
  ss_reference_level :: real
  ss_reason :: string

definition stop_of_level :: "real \<Rightarrow> real \<Rightarrow> real \<Rightarrow> real \<Rightarrow> string \<Rightarrow> structure_stop option" where
  "stop_of_level entry_price level atr factor reason =
     (let stop = level - atr * factor
      in if stop \<le> 0 \<or> stop \<ge> entry_price then None
         else Some \<lparr>ss_stop_price = stop, ss_atr = atr, ss_reference_level = level, ss_reason = reason\<rparr>)"

definition calculate_structure_stop :: "structure_event \<Rightarrow> real \<Rightarrow> script \<Rightarrow> 'z store_scheme \<Rightarrow> structure_stop option" where
  "calculate_structure_stop structure entry_price script db =
     (if ev_timeframe structure \<noteq> HOUR_60 \<or> entry_price \<le> 0 then None
      else case indicator_at (ev_symbol structure) HOUR_60 (ev_ts structure) db of
        None \<Rightarrow> None
      | Some i \<Rightarrow> (case in_atr i of
          None \<Rightarrow> None
        | Some atr \<Rightarrow>
            if atr \<le> 0 then None
            else (case script of
              SCRIPT_A_BOTTOM_TREND_RESUME \<Rightarrow>
                (if ev_type structure \<noteq> BOTTOM_STRUCTURE then None
                 else case ev_pivot_low structure of
                   None \<Rightarrow> None
                 | Some level \<Rightarrow> stop_of_level entry_price level atr (1/2)
                     (''60m bottom structure pivot '' @ fmt_fixed 2 level @ '' minus 0.5 ATR ('' @ fmt_fixed 2 atr @ '')''))
            | SCRIPT_B_TOP_INVALIDATION_CONTINUATION \<Rightarrow>
                (if ev_type structure \<noteq> TOP_INVALIDATED then None
                 else case ev_invalidation_level structure of
                   None \<Rightarrow> None
                 | Some level \<Rightarrow> stop_of_level entry_price level atr (1/4)
                     (''60m top invalidation breakout '' @ fmt_fixed 2 level @ '' minus 0.25 ATR ('' @ fmt_fixed 2 atr @ '')''))
            | NO_SCRIPT \<Rightarrow> None)))"

section \<open>The size\<close>

definition default_risk_config :: risk_config where
  "default_risk_config = \<lparr>rk_account_equity = 100000, rk_risk_per_trade_pct = 1/100, rk_neutral_risk_multiplier = 5/10,
     rk_script_b_risk_multiplier = 5/10, rk_max_positions = 5, rk_max_symbol_position_pct = 2/10,
     rk_max_industry_exposure_pct = 35/100, rk_cooldown_days = 10\<rparr>"

definition get_or_create_risk_config :: "'z store_scheme \<Rightarrow> risk_config \<times> 'z store_scheme" where
  "get_or_create_risk_config db =
     (case scalar (risk_configs db) of
        Some c \<Rightarrow> (c, db)
      | None \<Rightarrow> (default_risk_config, db\<lparr>risk_configs := [default_risk_config]\<rparr>))"

record risk_result =
  rr_entry_price :: real
  rr_stop_price :: real
  rr_risk_per_share :: real
  rr_allowed_loss :: real
  rr_shares :: int
  rr_position_value :: real
  rr_position_pct :: real

definition risk_multiplier :: "risk_config \<Rightarrow> market_state \<Rightarrow> script \<Rightarrow> real" where
  "risk_multiplier c market_state script =
     (if market_state = NEUTRAL_POSITIVE then rk_neutral_risk_multiplier c else 1)
     * (if script = SCRIPT_B_TOP_INVALIDATION_CONTINUATION then rk_script_b_risk_multiplier c else 1)"

text \<open>\<open>int(a // b)\<close> for a positive \<open>b\<close>.\<close>

definition whole_shares :: "real \<Rightarrow> real \<Rightarrow> int" where
  "whole_shares amount per_share = \<lfloor>amount / per_share\<rfloor>"

definition calculate_position_size ::
  "risk_config \<Rightarrow> real \<Rightarrow> real option \<Rightarrow> market_state \<Rightarrow> script \<Rightarrow> real option \<Rightarrow> risk_result option" where
  "calculate_position_size c entry_price stop_price market_state script account_equity =
     (case stop_price of
        None \<Rightarrow> None
      | Some stop \<Rightarrow>
          if entry_price \<le> 0 \<or> stop \<le> 0 \<or> stop \<ge> entry_price then None
          else (case account_equity of
            None \<Rightarrow> None
          | Some equity \<Rightarrow>
              if equity \<le> 0 then None
              else (let risk_per_share = entry_price - stop;
                        allowed_loss = equity * rk_risk_per_trade_pct c * risk_multiplier c market_state script;
                        shares_by_risk = whole_shares allowed_loss risk_per_share;
                        shares_by_cap = whole_shares (equity * rk_max_symbol_position_pct c) entry_price;
                        shares = max 0 (min shares_by_risk shares_by_cap);
                        position_value = of_int shares * entry_price
                    in if shares \<le> 0 then None
                       else Some \<lparr>rr_entry_price = entry_price, rr_stop_price = stop, rr_risk_per_share = risk_per_share,
                         rr_allowed_loss = allowed_loss, rr_shares = shares, rr_position_value = position_value,
                         rr_position_pct = position_value / equity\<rparr>)))"

section \<open>The open positions\<close>

definition open_position_rows :: "'z store_scheme \<Rightarrow> position list" where
  "open_position_rows db = filter (\<lambda>p. pos_status p = POS_OPEN) (positions db)"

definition watch_item :: "string \<Rightarrow> 'z store_scheme \<Rightarrow> watchlist_item option" where
  "watch_item symbol db = scalar (filter (\<lambda>w. wl_symbol w = symbol) (watchlist db))"

definition industry_value :: "string \<Rightarrow> 'z store_scheme \<Rightarrow> real" where
  "industry_value industry db =
     sum_list (map (\<lambda>p. case watch_item (pos_symbol p) db of
                          None \<Rightarrow> 0
                        | Some w \<Rightarrow> if wl_industry w = industry then of_int (pos_shares p) * pos_entry_price p else 0)
       (open_position_rows db))"

text \<open>The exposure is divided by the configured equity; a zero there raises.\<close>

definition portfolio_allows_new_position :: "string \<Rightarrow> risk_config \<Rightarrow> 'z store_scheme \<Rightarrow> exn + bool \<times> string" where
  "portfolio_allows_new_position symbol c db =
     (if \<exists>p \<in> set (open_position_rows db). pos_symbol p = symbol
      then Inr (False, symbol @ '' already has open simulated position'')
      else if int (length (open_position_rows db)) \<ge> rk_max_positions c then Inr (False, ''maximum open positions reached'')
      else (case watch_item symbol db of
              None \<Rightarrow> Inr (True, ''portfolio risk checks passed'')
            | Some w \<Rightarrow>
                if wl_industry w = [] then Inr (True, ''portfolio risk checks passed'')
                else if rk_account_equity c = 0 then Inl (OtherError ''float division by zero'')
                else if industry_value (wl_industry w) db / rk_account_equity c \<ge> rk_max_industry_exposure_pct c
                then Inr (False, ''industry exposure limit reached for '' @ wl_industry w)
                else Inr (True, ''portfolio risk checks passed'')))"

section \<open>Lemmas\<close>

lemma stop_of_level_SomeD:
  "stop_of_level entry_price level atr factor reason = Some s \<Longrightarrow>
     0 < ss_stop_price s \<and> ss_stop_price s < entry_price \<and> ss_stop_price s = level - atr * factor
     \<and> ss_reference_level s = level"
  by (auto simp: stop_of_level_def Let_def split: if_splits)

lemma structure_stop_bounds:
  "calculate_structure_stop structure entry_price script db = Some s \<Longrightarrow>
     0 < ss_stop_price s \<and> ss_stop_price s < entry_price \<and> ss_stop_price s < ss_reference_level s"
  by (auto simp: calculate_structure_stop_def split: if_splits option.splits script.splits dest!: stop_of_level_SomeD)

lemma whole_shares_bounds:
  assumes "0 < per_share"
  shows "of_int (whole_shares amount per_share) * per_share \<le> amount"
    and "amount < of_int (whole_shares amount per_share + 1) * per_share"
proof -
  have "of_int \<lfloor>amount / per_share\<rfloor> \<le> amount / per_share" "amount / per_share < of_int \<lfloor>amount / per_share\<rfloor> + 1" by linarith+
  then show "of_int (whole_shares amount per_share) * per_share \<le> amount"
    "amount < of_int (whole_shares amount per_share + 1) * per_share"
    unfolding whole_shares_def of_int_add of_int_1
    by (simp_all only: pos_le_divide_eq [OF assms] pos_divide_less_eq [OF assms])
qed

lemma position_size_SomeD:
  assumes "calculate_position_size c entry_price stop_price market_state script account_equity = Some r"
  shows "\<exists>equity. account_equity = Some equity \<and> stop_price = Some (rr_stop_price r) \<and> rr_entry_price r = entry_price
    \<and> rr_risk_per_share r = entry_price - rr_stop_price r \<and> 0 < rr_stop_price r \<and> rr_stop_price r < entry_price \<and> rr_shares r > 0
    \<and> of_int (rr_shares r) * (entry_price - rr_stop_price r) \<le> equity * rk_risk_per_trade_pct c * risk_multiplier c market_state script
    \<and> of_int (rr_shares r) * entry_price \<le> equity * rk_max_symbol_position_pct c"
proof -
  obtain stop equity where given: "stop_price = Some stop" "account_equity = Some equity" "0 < entry_price" "0 < stop" "stop < entry_price"
    using assms by (auto simp: calculate_position_size_def split: option.splits if_splits)
  define budget where "budget = equity * rk_risk_per_trade_pct c * risk_multiplier c market_state script"
  define cap where "cap = equity * rk_max_symbol_position_pct c"
  define n where "n = min (whole_shares budget (entry_price - stop)) (whole_shares cap entry_price)"
  have r: "n > 0" "rr_stop_price r = stop" "rr_entry_price r = entry_price" "rr_risk_per_share r = entry_price - stop" "rr_shares r = n"
    using assms given by (auto simp: calculate_position_size_def Let_def budget_def cap_def n_def split: if_splits)
  have pos: "0 < entry_price - stop" using given by simp
  have below: "real_of_int n \<le> of_int (whole_shares budget (entry_price - stop))" "real_of_int n \<le> of_int (whole_shares cap entry_price)"
    by (simp_all add: n_def)
  have "of_int n * (entry_price - stop) \<le> budget" "of_int n * entry_price \<le> cap"
    using mult_right_mono [OF below(1) less_imp_le [OF pos]] mult_right_mono [OF below(2) less_imp_le [OF given(3)]]
      whole_shares_bounds(1) [OF pos, of budget] whole_shares_bounds(1) [OF given(3), of cap]
    by linarith+
  then show ?thesis using given r by (simp add: budget_def cap_def)
qed

section \<open>Properties\<close>

text \<open>C26. With a stop between zero and the entry price, the computed size is the largest number of shares
  that keeps both limits: the loss down to the stop stays within the risk budget and the value within
  the cap per symbol, one share more would break one of the two, and there is no size exactly when
  a single share breaks one.\<close>

theorem size_is_largest_within_limits:
  assumes "0 < stop" "stop < entry_price" "0 < equity"
  shows "case calculate_position_size c entry_price (Some stop) market_state script (Some equity) of
      None \<Rightarrow> equity * rk_risk_per_trade_pct c * risk_multiplier c market_state script < entry_price - stop
        \<or> equity * rk_max_symbol_position_pct c < entry_price
    | Some r \<Rightarrow> rr_shares r > 0 \<and> rr_stop_price r = stop \<and> rr_position_value r = of_int (rr_shares r) * entry_price
        \<and> of_int (rr_shares r) * (entry_price - stop) \<le> equity * rk_risk_per_trade_pct c * risk_multiplier c market_state script
        \<and> rr_position_value r \<le> equity * rk_max_symbol_position_pct c
        \<and> (of_int (rr_shares r + 1) * (entry_price - stop) > equity * rk_risk_per_trade_pct c * risk_multiplier c market_state script
           \<or> of_int (rr_shares r + 1) * entry_price > equity * rk_max_symbol_position_pct c)"
proof -
  define budget where "budget = equity * rk_risk_per_trade_pct c * risk_multiplier c market_state script"
  define cap where "cap = equity * rk_max_symbol_position_pct c"
  define n where "n = min (whole_shares budget (entry_price - stop)) (whole_shares cap entry_price)"
  have calc: "calculate_position_size c entry_price (Some stop) market_state script (Some equity) =
    (if n \<le> 0 then None else Some \<lparr>rr_entry_price = entry_price, rr_stop_price = stop, rr_risk_per_share = entry_price - stop,
        rr_allowed_loss = budget, rr_shares = n, rr_position_value = of_int n * entry_price,
        rr_position_pct = of_int n * entry_price / equity\<rparr>)"
    using assms by (auto simp: calculate_position_size_def Let_def budget_def cap_def n_def)
  have pos: "0 < entry_price - stop" "0 < entry_price" using assms by auto
  note by_risk = whole_shares_bounds [OF pos(1), of budget] and by_cap = whole_shares_bounds [OF pos(2), of cap]
  have below: "real_of_int n \<le> of_int (whole_shares budget (entry_price - stop))" "real_of_int n \<le> of_int (whole_shares cap entry_price)"
    by (simp_all add: n_def)
  have le: "of_int n * (entry_price - stop) \<le> budget" "of_int n * entry_price \<le> cap"
    using mult_right_mono [OF below(1) less_imp_le [OF pos(1)]] mult_right_mono [OF below(2) less_imp_le [OF pos(2)]] by_risk(1) by_cap(1)
    by linarith+
  have gt: "of_int (n + 1) * (entry_price - stop) > budget \<or> of_int (n + 1) * entry_price > cap"
    using by_risk(2) by_cap(2) by (auto simp: n_def min_def)
  show ?thesis
  proof (cases "n \<le> 0")
    case True
    then have "of_int (n + 1) * (entry_price - stop) \<le> 1 * (entry_price - stop)" "of_int (n + 1) * entry_price \<le> 1 * entry_price"
      using pos by (intro mult_right_mono; simp)+
    then have "budget < entry_price - stop \<or> cap < entry_price" using gt by (simp only: mult_1) linarith
    then show ?thesis using True unfolding calc by (simp add: budget_def cap_def)
  next
    case False
    then show ?thesis using le gt unfolding calc by (simp add: budget_def cap_def)
  qed
qed

theorem size_is_largest_within_limits_witness:
  "map_option rr_shares (calculate_position_size default_risk_config 100 (Some 95) RISK_ON SCRIPT_A_BOTTOM_TREND_RESUME (Some 100000)) = Some 200
   \<and> map_option rr_shares (calculate_position_size default_risk_config 100 (Some 99) RISK_ON SCRIPT_A_BOTTOM_TREND_RESUME (Some 100000)) = Some 200
   \<and> calculate_position_size default_risk_config 100 (Some 95) RISK_ON SCRIPT_A_BOTTOM_TREND_RESUME (Some 400) = None"
proof -
  have "map_option rr_shares (calculate_position_size default_risk_config 100 (Some 95) RISK_ON SCRIPT_A_BOTTOM_TREND_RESUME (Some 100000)) = Some 200"
    using size_is_largest_within_limits [of 95 100 100000 default_risk_config RISK_ON SCRIPT_A_BOTTOM_TREND_RESUME]
    by (simp add: calculate_position_size_def whole_shares_def default_risk_config_def risk_multiplier_def)
  moreover have "map_option rr_shares (calculate_position_size default_risk_config 100 (Some 99) RISK_ON SCRIPT_A_BOTTOM_TREND_RESUME (Some 100000)) = Some 200"
    by (simp add: calculate_position_size_def whole_shares_def default_risk_config_def risk_multiplier_def)
  moreover have "calculate_position_size default_risk_config 100 (Some 95) RISK_ON SCRIPT_A_BOTTOM_TREND_RESUME (Some 400) = None"
    by (simp add: calculate_position_size_def whole_shares_def default_risk_config_def risk_multiplier_def)
  ultimately show ?thesis by blast
qed

end
