(* ===== verification/State_Machine.thy ===== *)
theory State_Machine
  imports Entry_Trigger Risk Portfolio
begin

text \<open>
  app/services/state_machine.py: the trading state of a symbol. One call advances it: it corrects a
  pending entry proposal, respects a cool-down, manages an open position, or follows the structures
  of the symbol up to a new entry proposal. Every change of state is logged.

  Entry, reduce and exit signals are proposals; nothing here trades. An exception leaves the call
  with nothing committed but what was committed before (a new state row, the risk settings).
\<close>

section \<open>Texts of the enumerations\<close>

fun market_text :: "market_state \<Rightarrow> string" where
  "market_text RISK_ON = ''RISK_ON''"
| "market_text NEUTRAL_POSITIVE = ''NEUTRAL_POSITIVE''"
| "market_text NEUTRAL_NEGATIVE = ''NEUTRAL_NEGATIVE''"
| "market_text RISK_OFF = ''RISK_OFF''"
| "market_text MARKET_UNKNOWN = ''UNKNOWN''"

fun trend_text :: "trend \<Rightarrow> string" where
  "trend_text STRONG_UPTREND = ''STRONG_UPTREND''"
| "trend_text UPTREND = ''UPTREND''"
| "trend_text SIDEWAYS = ''SIDEWAYS''"
| "trend_text DOWNTREND = ''DOWNTREND''"
| "trend_text TREND_UNKNOWN = ''UNKNOWN''"

fun timeframe_text :: "timeframe \<Rightarrow> string" where
  "timeframe_text DAILY = ''1d''"
| "timeframe_text HOUR_60 = ''60m''"
| "timeframe_text MIN_15 = ''15m''"
| "timeframe_text MIN_5 = ''5m''"

section \<open>The state row and its transitions\<close>

definition state_of :: "string \<Rightarrow> 'z store_scheme \<Rightarrow> trading_state option" where
  "state_of symbol db = scalar (filter (\<lambda>r. ts_symbol r = symbol) (trading_states db))"

definition new_state :: "string \<Rightarrow> trading_state" where
  "new_state symbol = \<lparr>ts_symbol = symbol, ts_state = IDLE, ts_next_wait = zh_sm_wait_filter, ts_cooldown_until = None,
     ts_last_reason = []\<rparr>"

definition get_or_create_trading_state :: "string \<Rightarrow> 'z store_scheme \<Rightarrow> trading_state \<times> 'z store_scheme" where
  "get_or_create_trading_state symbol db =
     (case state_of symbol db of
        Some r \<Rightarrow> (r, db)
      | None \<Rightarrow> (new_state symbol, db\<lparr>trading_states := trading_states db @ [new_state symbol]\<rparr>))"

definition put_state :: "trading_state \<Rightarrow> 'z store_scheme \<Rightarrow> 'z store_scheme" where
  "put_state r db = db\<lparr>trading_states := map (\<lambda>y. if ts_symbol y = ts_symbol r then r else y) (trading_states db)\<rparr>"

definition transition ::
  "trading_state \<Rightarrow> trading_phase \<Rightarrow> string \<Rightarrow> string \<Rightarrow> 'z store_scheme \<Rightarrow> trading_state \<times> 'z store_scheme" where
  "transition r to_state reason next_wait db =
     (if ts_state r = to_state \<and> ts_last_reason r = reason
      then (let r' = r\<lparr>ts_next_wait := next_wait\<rparr> in (r', put_state r' db))
      else (let r' = r\<lparr>ts_state := to_state, ts_last_reason := reason, ts_next_wait := next_wait\<rparr>
            in (r', put_state r' (db\<lparr>transition_logs := transition_logs db @
                 [\<lparr>tl_symbol = ts_symbol r, tl_from = ts_state r, tl_to = to_state, tl_reason = reason\<rparr>]\<rparr>))))"

definition cool_down ::
  "int \<Rightarrow> trading_state \<Rightarrow> trading_phase \<Rightarrow> string \<Rightarrow> string \<Rightarrow> 'z store_scheme \<Rightarrow> trading_state \<times> 'z store_scheme" where
  "cool_down today r to_state reason next_wait db =
     (let (c, db1) = get_or_create_risk_config db
      in transition (r\<lparr>ts_cooldown_until := Some (today + rk_cooldown_days c)\<rparr>) to_state reason next_wait db1)"

section \<open>Queries\<close>

definition latest_event :: "string \<Rightarrow> event_type set \<Rightarrow> 'z store_scheme \<Rightarrow> structure_event option" where
  "latest_event symbol types db =
     scalar (order_desc ev_ts (filter (\<lambda>e. ev_symbol e = symbol \<and> ev_timeframe e = HOUR_60 \<and> ev_type e \<in> types) (structure_events db)))"

definition signal_exists :: "string \<Rightarrow> signal_type \<Rightarrow> 'z store_scheme \<Rightarrow> bool" where
  "signal_exists symbol ty db \<longleftrightarrow> pending_signals symbol ty db \<noteq> []"

definition open_position_of :: "string \<Rightarrow> 'z store_scheme \<Rightarrow> position option" where
  "open_position_of symbol db = scalar (filter (\<lambda>p. pos_symbol p = symbol \<and> pos_status p = POS_OPEN) (positions db))"

section \<open>Signals\<close>

definition blank_signal :: "string \<Rightarrow> signal_type \<Rightarrow> int \<Rightarrow> int \<Rightarrow> trade_signal" where
  "blank_signal symbol ty i now = \<lparr>sg_id = i, sg_symbol = symbol, sg_type = ty, sg_script = NO_SCRIPT, sg_status = PENDING,
     sg_action = [], sg_entry_price = None, sg_stop_price = None, sg_target_position_pct = None, sg_shares = None,
     sg_risk_amount = None, sg_risk_per_share = None, sg_allowed_loss = None, sg_position_value = None, sg_risk_r = None,
     sg_source_structure_id = None, sg_trigger_timeframe = None, sg_trigger_ts = None, sg_trigger_level = None,
     sg_expires_at = None, sg_cancel_reason = [], sg_script_version = [], sg_reason = [], sg_score_display = None,
     sg_created_at = now\<rparr>"

definition add_signal :: "trade_signal \<Rightarrow> 'z store_scheme \<Rightarrow> 'z store_scheme" where
  "add_signal sg db = db\<lparr>trade_signals := trade_signals db @ [sg]\<rparr>"

definition position_signal :: "signal_type \<Rightarrow> string \<Rightarrow> int \<Rightarrow> position \<Rightarrow> string \<Rightarrow> int \<Rightarrow> 'z store_scheme \<Rightarrow> 'z store_scheme" where
  "position_signal ty action shares p reason now db =
     (if signal_exists (pos_symbol p) ty db then db
      else add_signal ((blank_signal (pos_symbol p) ty (next_id sg_id (trade_signals db)) now)
        \<lparr>sg_action := action, sg_stop_price := Some (opt_or (pos_trailing_stop p) (pos_stop_price p)),
         sg_shares := Some shares, sg_risk_amount := Some 0, sg_risk_r := Some (pos_current_r p), sg_reason := reason\<rparr>) db)"

definition create_reduce_signal :: "position \<Rightarrow> string \<Rightarrow> int \<Rightarrow> 'z store_scheme \<Rightarrow> 'z store_scheme" where
  "create_reduce_signal p reason now db =
     position_signal REDUCE zh_sm_reduce_action (max 1 (pos_shares p div 3)) p reason now db"

definition create_exit_signal :: "position \<Rightarrow> string \<Rightarrow> int \<Rightarrow> 'z store_scheme \<Rightarrow> 'z store_scheme" where
  "create_exit_signal p reason now db = position_signal EXIT zh_sm_exit_action (pos_shares p) p reason now db"

definition display_score :: "script \<Rightarrow> market_state \<Rightarrow> real" where
  "display_score script market =
     (if script = SCRIPT_A_BOTTOM_TREND_RESUME then 70 else 60) + (if market = RISK_ON then 10 else 0)"

definition correction_next_wait :: "signal_status \<Rightarrow> string" where
  "correction_next_wait st =
     (if st = CANCELLED_BY_STRUCTURE then zh_sm_after_structure
      else if st = CANCELLED_BY_TRIGGER then zh_sm_after_trigger
      else if st = CANCELLED_BY_MARKET then zh_sm_after_market
      else zh_sm_after_expiry)"

section \<open>Managing an open position\<close>

definition current_r_of :: "position \<Rightarrow> real \<Rightarrow> real" where
  "current_r_of p close =
     (let risk = pos_entry_price p - pos_stop_price p in if risk > 0 then (close - pos_entry_price p) / risk else 0)"

definition update_trailing_stop :: "real \<Rightarrow> real option \<Rightarrow> real \<Rightarrow> market_state \<Rightarrow> position \<Rightarrow> position" where
  "update_trailing_stop close atr current_r market p =
     (case atr of
        None \<Rightarrow> p
      | Some a \<Rightarrow>
          if current_r < 1 then p
          else (let base = (if current_r \<ge> 1 then pos_entry_price p else pos_stop_price p);
                    candidate = (if current_r \<ge> 2 then max base (close - a * (if market = RISK_ON then 2 else 3/2)) else base)
                in p\<lparr>pos_trailing_stop := Some (case pos_trailing_stop p of
                      None \<Rightarrow> max (pos_stop_price p) candidate
                    | Some t \<Rightarrow> max t candidate)\<rparr>))"

text \<open>Tightening to the entry price when the market turns against an open position.\<close>

definition protect_position :: "real \<Rightarrow> position \<Rightarrow> position" where
  "protect_position current_r p =
     (if current_r > 0
      then p\<lparr>pos_trailing_stop := Some (max (opt_or (pos_trailing_stop p) (pos_stop_price p)) (pos_entry_price p))\<rparr> else p)"

definition exit_candidate ::
  "trading_state \<Rightarrow> position \<Rightarrow> string \<Rightarrow> string \<Rightarrow> string \<Rightarrow> int \<Rightarrow> 'z store_scheme \<Rightarrow> trading_state \<times> 'z store_scheme" where
  "exit_candidate r p signal_reason reason next_wait now db =
     transition r EXIT_CANDIDATE reason next_wait (create_exit_signal p signal_reason now (put_position p db))"

text \<open>The 60-minute bar is below its MA60.\<close>

definition hour_breakdown :: "string \<Rightarrow> 'z store_scheme \<Rightarrow> bool" where
  "hour_breakdown symbol db =
     (case latest_of symbol HOUR_60 db of
        None \<Rightarrow> False
      | Some (b, i) \<Rightarrow> (case in_ma60 i of None \<Rightarrow> False | Some m \<Rightarrow> kl_close b < m))"

text \<open>A position whose stop and trigger hold, in a market that allows trading.\<close>

definition manage_healthy ::
  "trading_state \<Rightarrow> position \<Rightarrow> kline \<Rightarrow> indicator \<Rightarrow> market_state \<Rightarrow> int \<Rightarrow> 'z store_scheme \<Rightarrow> trading_state \<times> 'z store_scheme" where
  "manage_healthy r p bar ind market now db =
     (let current_r = pos_current_r p
      in if latest_event (pos_symbol p) {TOP_STRUCTURE} db \<noteq> None \<and> current_r > 0
         then transition r RISK_PROTECTION ''top structure risk protection'' zh_sm_wait_reduce
           (create_reduce_signal p (zh_sm_reduce_a @ fmt_fixed 2 current_r @ zh_sm_reduce_b) now (put_position p db))
         else if (case in_ma60 ind of None \<Rightarrow> False | Some m \<Rightarrow> kl_close bar < m)
         then exit_candidate r p zh_sm_trend_break ''trend break exit candidate'' zh_sm_wait_exit now db
         else (let p' = update_trailing_stop (kl_close bar) (in_atr ind) current_r market p
               in if opt_truthy (pos_trailing_stop p') \<and> kl_close bar \<le> the (pos_trailing_stop p')
                  then exit_candidate r p' zh_sm_trailing_hit ''trailing stop triggered'' zh_sm_wait_exit now db
                  else transition r IN_POSITION (''position healthy at '' @ fmt_fixed 2 current_r @ ''R'') zh_sm_tracking
                    (put_position p' db)))"

definition manage_held_position ::
  "trading_state \<Rightarrow> position \<Rightarrow> market_state \<Rightarrow> int \<Rightarrow> 'z store_scheme \<Rightarrow> exn + trading_state \<times> 'z store_scheme" where
  "manage_held_position r position market now db =
     (case latest_of (pos_symbol position) DAILY db of
        None \<Rightarrow> Inr (transition r IN_POSITION ''position held but latest data missing'' zh_sm_wait_recovery db)
      | Some (bar, ind) \<Rightarrow>
          (let p = position\<lparr>pos_current_r := current_r_of position (kl_close bar)\<rparr>
           in if kl_close bar \<le> pos_stop_price p
              then Inr (exit_candidate r p zh_sm_hard_stop ''hard stop triggered'' zh_sm_wait_exit now db)
              else (case (case get_row sg_id (pos_entry_signal_id p) (trade_signals db) of
                            None \<Rightarrow> Inr None | Some sg \<Rightarrow> entry_trigger_failure_reason sg db) of
                Inl e \<Rightarrow> Inl e
              | Inr (Some failure) \<Rightarrow>
                  Inr (exit_candidate r p (zh_sm_trigger_failed @ failure) failure zh_sm_wait_exit_manual now db)
              | Inr None \<Rightarrow>
                  if market \<notin> set TRADEABLE_MARKETS
                  then (if hour_breakdown (pos_symbol p) db
                        then Inr (exit_candidate r p zh_sm_downgrade_exit ''market downgrade with 60m MA60 breakdown'' zh_sm_wait_exit_manual now db)
                        else Inr (transition r RISK_PROTECTION
                          (''market state '' @ market_text market @ '' downgraded while position is open'') zh_sm_protect
                          (put_position (protect_position (pos_current_r p) p) db)))
                  else Inr (manage_healthy r p bar ind market now db))))"

section \<open>The entry proposal\<close>

definition entry_reason :: "structure_event \<Rightarrow> trigger_evaluation \<Rightarrow> int \<Rightarrow> real \<Rightarrow> real \<Rightarrow> structure_stop \<Rightarrow> risk_result \<Rightarrow> string" where
  "entry_reason structure te t price level stop risk =
     te_reason te @ ''; '' @
     (''structure_id='' @ str_int (ev_id structure) @ ''; structure_timeframe='' @ timeframe_text (ev_timeframe structure) @ ''; ''
      @ ''structure_ts='' @ isoformat (ev_ts structure) @ ''; trigger_timeframe=15m; ''
      @ ''trigger_ts='' @ isoformat t @ ''; trigger_price='' @ fmt_fixed 2 price @ ''; ''
      @ ''trigger_level='' @ fmt_fixed 2 level)
     @ ''; stop_source='' @ ss_reason stop @ ''; ''
     @ ''stop='' @ fmt_fixed 2 (rr_stop_price risk) @ ''; risk_per_share='' @ fmt_fixed 2 (rr_risk_per_share risk) @ ''; ''
     @ ''allowed_loss='' @ fmt_fixed 2 (rr_allowed_loss risk) @ ''; position_value='' @ fmt_fixed 2 (rr_position_value risk) @ ''; ''
     @ ''shares='' @ str_int (rr_shares risk) @ ''; ''
     @ ''generated by state machine, not score''"

definition entry_signal ::
  "string \<Rightarrow> market_state \<Rightarrow> script \<Rightarrow> structure_event \<Rightarrow> trigger_evaluation \<Rightarrow> int \<Rightarrow> real \<Rightarrow> real \<Rightarrow> structure_stop
   \<Rightarrow> risk_result \<Rightarrow> int \<Rightarrow> int \<Rightarrow> trade_signal" where
  "entry_signal symbol market script structure te t price level stop risk i now =
     (blank_signal symbol ENTRY i now)\<lparr>
       sg_script := script, sg_action := zh_sm_entry_action, sg_entry_price := Some (rr_entry_price risk),
       sg_stop_price := Some (rr_stop_price risk), sg_target_position_pct := Some (rr_position_pct risk),
       sg_shares := Some (rr_shares risk), sg_risk_amount := Some (rr_risk_per_share risk * of_int (rr_shares risk)),
       sg_risk_per_share := Some (rr_risk_per_share risk), sg_allowed_loss := Some (rr_allowed_loss risk),
       sg_position_value := Some (rr_position_value risk), sg_risk_r := Some 1,
       sg_source_structure_id := Some (ev_id structure), sg_trigger_timeframe := Some MIN_15, sg_trigger_ts := Some t,
       sg_trigger_level := Some level,
       sg_expires_at := Some (t + minutes (15 * int (cc_signal_expiry_bars CORRECTION_CONFIG))),
       sg_script_version := str_or (ev_script_version structure) ''structure-v1'' @ ''+'' @ te_script_version te,
       sg_reason := entry_reason structure te t price level stop risk,
       sg_score_display := Some (display_score script market)\<rparr>"

text \<open>The size is computed from the equity of the last account synchronisation; without one it is zero.\<close>

definition create_entry_candidate ::
  "trading_state \<Rightarrow> string \<Rightarrow> market_state \<Rightarrow> script \<Rightarrow> structure_event \<Rightarrow> trigger_evaluation \<Rightarrow> int \<Rightarrow> 'z store_scheme
   \<Rightarrow> exn + trading_state \<times> 'z store_scheme" where
  "create_entry_candidate r symbol market script structure te now db =
     (if signal_exists symbol ENTRY db
      then Inr (transition r ENTRY_CANDIDATE ''pending entry signal already exists'' zh_sm_wait_approval db)
      else (let (c, db1) = get_or_create_risk_config db
            in case portfolio_allows_new_position symbol c db1 of
                 Inl e \<Rightarrow> Inl e
               | Inr (allowed, portfolio_reason) \<Rightarrow>
                   if \<not> allowed then Inr (transition r TREND_OK portfolio_reason zh_sm_wait_portfolio db1)
                   else (case (te_trigger_price te, te_trigger_ts te, te_trigger_level te) of
                     (Some price, Some t, Some level) \<Rightarrow>
                       (case calculate_structure_stop structure price script db1 of
                          None \<Rightarrow> Inr (transition r WAIT_15M_TRIGGER ''60m structure stop unavailable'' zh_sm_no_stop db1)
                        | Some stop \<Rightarrow>
                            (case calculate_position_size c price (Some (ss_stop_price stop)) market script
                                    (Some (ps_account_equity (portfolio_sync_status db1))) of
                               None \<Rightarrow> Inr (transition r WAIT_15M_TRIGGER ''risk calculation failed or stop unavailable'' zh_sm_no_risk db1)
                             | Some risk \<Rightarrow>
                                 (let sg = entry_signal symbol market script structure te t price level stop risk
                                        (next_id sg_id (trade_signals db1)) now;
                                      db2 = add_signal sg (db1\<lparr>structure_events :=
                                        put_row ev_id (structure\<lparr>ev_triggered_entry := True\<rparr>) (structure_events db1)\<rparr>)
                                  in Inr (transition r ENTRY_CANDIDATE (sg_reason sg) zh_sm_wait_sim db2))))
                   | _ \<Rightarrow> Inr (transition r WAIT_15M_TRIGGER ''15m trigger source is incomplete'' zh_sm_wait_auditable db1))))"

section \<open>Advancing a symbol\<close>

text \<open>A bottom that is confirmed and valid: wait for the 15-minute trigger, and propose the entry on it.\<close>

definition await_trigger ::
  "int \<Rightarrow> trading_state \<Rightarrow> string \<Rightarrow> market_state \<Rightarrow> structure_event \<Rightarrow> int \<Rightarrow> 'z store_scheme \<Rightarrow> exn + trading_state \<times> 'z store_scheme" where
  "await_trigger today r symbol market bottom now db =
     (let (r1, db1) = (if ts_state r \<notin> {BOTTOM_CONFIRMED, WAIT_15M_TRIGGER}
                       then transition r BOTTOM_CONFIRMED (ev_reason bottom) zh_sm_confirmed db else (r, db));
          (r2, db2) = transition r1 WAIT_15M_TRIGGER (''waiting for 15m trigger after structure #'' @ str_int (ev_id bottom)) zh_sm_wait_15m db1
      in case evaluate_15m_trend_resume symbol bottom db2 of
           Inl e \<Rightarrow> Inl e
         | Inr te \<Rightarrow>
             if te_triggered te then create_entry_candidate r2 symbol market SCRIPT_A_BOTTOM_TREND_RESUME bottom te now db2
             else if te_reason te = zh_trg_expired then Inr (cool_down today r2 COOLDOWN (te_reason te) zh_sm_structure_expired db2)
             else (let r3 = r2\<lparr>ts_last_reason := te_reason te, ts_next_wait := te_reason te\<rparr> in Inr (r3, put_state r3 db2)))"

definition follow_structures ::
  "int \<Rightarrow> trading_state \<Rightarrow> string \<Rightarrow> market_state \<Rightarrow> trend \<Rightarrow> int \<Rightarrow> 'z store_scheme \<Rightarrow> exn + trading_state \<times> 'z store_scheme" where
  "follow_structures today r symbol market stock_trend now db =
     (let bottom = latest_event symbol {BOTTOM_STRUCTURE} db;
          failure = latest_event symbol {BOTTOM_FAILED} db;
          latest = latest_event symbol {BOTTOM_PASSIVATION, BOTTOM_STRUCTURE, BOTTOM_FAILED, TOP_STRUCTURE, TOP_INVALIDATED} db
      in if (case (bottom, failure) of (Some b, Some f) \<Rightarrow> ev_ts f \<ge> ev_ts b | _ \<Rightarrow> False)
         then Inr (cool_down today r COOLDOWN (ev_reason (the failure)) zh_sm_bottom_failed db)
         else (case latest of
           None \<Rightarrow> Inr (transition r TREND_OK ''market and stock trend passed, no structure opportunity'' zh_sm_wait_structure db)
         | Some e \<Rightarrow>
             if ev_type e = BOTTOM_PASSIVATION then Inr (transition r WATCH_BOTTOM (ev_reason e) zh_sm_wait_confirm db)
             else if ev_type e = BOTTOM_FAILED then Inr (cool_down today r COOLDOWN (ev_reason e) zh_sm_bottom_failed db)
             else (case bottom of
               Some b \<Rightarrow>
                 if ev_invalidated b \<or> ev_became_failed b
                 then Inr (cool_down today r COOLDOWN ''60m bottom structure is no longer valid'' zh_sm_structure_invalid db)
                 else await_trigger today r symbol market b now db
             | None \<Rightarrow>
                 if ev_type e = TOP_INVALIDATED \<and> stock_trend = STRONG_UPTREND \<and> market \<in> set TRADEABLE_MARKETS
                 then Inr (transition r TREND_OK (ev_reason e) zh_sm_top_invalidated db)
                 else Inr (transition r TREND_OK (ev_reason e) zh_sm_wait_resume db))))"

text \<open>A symbol without a position, once its data are there.\<close>

definition advance_flat ::
  "int \<Rightarrow> trading_state \<Rightarrow> string \<Rightarrow> market_state \<Rightarrow> trend \<Rightarrow> int \<Rightarrow> 'z store_scheme \<Rightarrow> exn + trading_state \<times> 'z store_scheme" where
  "advance_flat today r symbol market stock_trend now db =
     (if market \<notin> set TRADEABLE_MARKETS
      then Inr (transition r
             (if ts_state r \<in> {WATCH_BOTTOM, BOTTOM_CONFIRMED, WAIT_15M_TRIGGER, ENTRY_CANDIDATE} then COOLDOWN else IDLE)
             (''market state '' @ market_text market @ '' forbids new entries'') zh_sm_market_forbids db)
      else if stock_trend \<notin> set ENTRY_TRENDS
      then Inr (transition r IDLE (''stock trend '' @ trend_text stock_trend @ '' is not eligible'') zh_sm_wait_trend db)
      else if signal_exists symbol ENTRY db
      then Inr (transition r ENTRY_CANDIDATE ''pending entry signal already exists'' zh_sm_wait_approval db)
      else follow_structures today r symbol market stock_trend now db)"

definition advance_cleared ::
  "int \<Rightarrow> trading_state \<Rightarrow> string \<Rightarrow> market_state \<Rightarrow> trend \<Rightarrow> int \<Rightarrow> 'z store_scheme \<Rightarrow> exn + trading_state \<times> 'z store_scheme" where
  "advance_cleared today r symbol market stock_trend now db =
     (case latest_of symbol DAILY db of
        None \<Rightarrow> Inr (transition r IDLE ''data missing or indicators unavailable'' zh_sm_wait_data db)
      | Some _ \<Rightarrow> (case open_position_of symbol db of
          Some p \<Rightarrow> manage_held_position r p market now db
        | None \<Rightarrow> advance_flat today r symbol market stock_trend now db))"

definition cooling :: "int \<Rightarrow> trading_state \<Rightarrow> bool" where
  "cooling today r \<longleftrightarrow> (case ts_cooldown_until r of None \<Rightarrow> False | Some d \<Rightarrow> d \<ge> today)"

definition advance_state_machine ::
  "string \<Rightarrow> market_state \<Rightarrow> trend \<Rightarrow> int \<Rightarrow> int \<Rightarrow> 'z store_scheme \<Rightarrow> exn + trading_state \<times> 'z store_scheme" where
  "advance_state_machine symbol market stock_trend today now db0 =
     (let (r, db1) = get_or_create_trading_state symbol db0
      in case reconcile_pending_entry symbol market db1 of
           Inl e \<Rightarrow> Inl e
         | Inr (Some c, db) \<Rightarrow>
             (if co_start_cooldown c then Inr (cool_down today r (co_target_state c) (co_reason c) (correction_next_wait (co_status c)) db)
              else Inr (transition r (co_target_state c) (co_reason c) (correction_next_wait (co_status c)) db))
         | Inr (None, db) \<Rightarrow>
             (if cooling today r
              then Inr (transition r COOLDOWN (''cooldown active until '' @ iso_date (the (ts_cooldown_until r))) zh_sm_cooldown db)
              else advance_cleared today r symbol market stock_trend now db))"

section \<open>Lemmas: what a call does not touch\<close>

lemma transition_sel [simp]:
  "trade_signals (snd (transition r s a b db)) = trade_signals db"
  "positions (snd (transition r s a b db)) = positions db"
  "structure_events (snd (transition r s a b db)) = structure_events db"
  "klines (snd (transition r s a b db)) = klines db"
  "indicators (snd (transition r s a b db)) = indicators db"
  "risk_configs (snd (transition r s a b db)) = risk_configs db"
  "portfolio_config (snd (transition r s a b db)) = portfolio_config db"
  "watchlist (snd (transition r s a b db)) = watchlist db"
  "ts_symbol (fst (transition r s a b db)) = ts_symbol r"
  "ts_state (fst (transition r s a b db)) = s"
  by (auto simp: transition_def put_state_def Let_def)

lemma transition_D:
  "transition r s a b db = (r', db') \<Longrightarrow> trade_signals db' = trade_signals db \<and> risk_configs db' = risk_configs db
     \<and> portfolio_config db' = portfolio_config db \<and> positions db' = positions db \<and> ts_state r' = s"
  using transition_sel [of r s a b db] by simp

lemma risk_config_sel [simp]:
  "trade_signals (snd (get_or_create_risk_config db)) = trade_signals db"
  "positions (snd (get_or_create_risk_config db)) = positions db"
  "structure_events (snd (get_or_create_risk_config db)) = structure_events db"
  "klines (snd (get_or_create_risk_config db)) = klines db"
  "indicators (snd (get_or_create_risk_config db)) = indicators db"
  "trading_states (snd (get_or_create_risk_config db)) = trading_states db"
  "transition_logs (snd (get_or_create_risk_config db)) = transition_logs db"
  "portfolio_config (snd (get_or_create_risk_config db)) = portfolio_config db"
  by (auto simp: get_or_create_risk_config_def split: option.splits)

lemma cool_down_sel [simp]:
  "trade_signals (snd (cool_down today r s a b db)) = trade_signals db"
  "positions (snd (cool_down today r s a b db)) = positions db"
  "structure_events (snd (cool_down today r s a b db)) = structure_events db"
  by (auto simp: cool_down_def split_beta Let_def)

lemma put_state_sel [simp]:
  "trade_signals (put_state r db) = trade_signals db"
  "positions (put_state r db) = positions db"
  "structure_events (put_state r db) = structure_events db"
  "transition_logs (put_state r db) = transition_logs db"
  by (auto simp: put_state_def)

lemma add_signal_sel [simp]:
  "trade_signals (add_signal sg db) = trade_signals db @ [sg]"
  "positions (add_signal sg db) = positions db"
  "structure_events (add_signal sg db) = structure_events db"
  "trading_states (add_signal sg db) = trading_states db"
  "transition_logs (add_signal sg db) = transition_logs db"
  by (simp_all add: add_signal_def)

lemma position_signal_sel [simp]:
  "positions (position_signal ty a n p why now db) = positions db"
  "structure_events (position_signal ty a n p why now db) = structure_events db"
  "trading_states (position_signal ty a n p why now db) = trading_states db"
  "transition_logs (position_signal ty a n p why now db) = transition_logs db"
  by (simp_all add: position_signal_def)

lemma create_signal_sel [simp]:
  "positions (create_exit_signal p why now db) = positions db"
  "trading_states (create_exit_signal p why now db) = trading_states db"
  "transition_logs (create_exit_signal p why now db) = transition_logs db"
  "positions (create_reduce_signal p why now db) = positions db"
  "trading_states (create_reduce_signal p why now db) = trading_states db"
  "transition_logs (create_reduce_signal p why now db) = transition_logs db"
  by (simp_all add: create_exit_signal_def create_reduce_signal_def)

lemma cancel_signal_sel [simp]:
  "positions (snd (cancel_signal sg st why target cd db)) = positions db"
  "trading_states (snd (cancel_signal sg st why target cd db)) = trading_states db"
  "transition_logs (snd (cancel_signal sg st why target cd db)) = transition_logs db"
  "structure_events (snd (cancel_signal sg st why target cd db)) = structure_events db"
  by (simp_all add: cancel_signal_def)

lemma reconcile_frame:
  assumes "reconcile_pending_entry symbol market db = Inr (c, db')"
  shows "positions db' = positions db \<and> trading_states db' = trading_states db \<and> transition_logs db' = transition_logs db
    \<and> (c = None \<longrightarrow> db' = db)"
  using reconcile_result [OF assms] by (auto simp: cancel_signal_def)

section \<open>Lemmas: the log of transitions\<close>

text \<open>
  The log of a symbol, replayed from IDLE, leads to its current state; two state machines write to
  this log, and what they owe to it is the contract of a locale.
\<close>

fun replay :: "trading_phase \<Rightarrow> transition_log list \<Rightarrow> trading_phase option" where
  "replay s [] = Some s"
| "replay s (l # ls) = (if tl_from l = s then replay (tl_to l) ls else None)"

definition logs_of :: "string \<Rightarrow> 'z store_scheme \<Rightarrow> transition_log list" where
  "logs_of symbol db = filter (\<lambda>l. tl_symbol l = symbol) (transition_logs db)"

definition log_ok :: "'z store_scheme \<Rightarrow> bool" where
  "log_ok db \<longleftrightarrow> distinct (map ts_symbol (trading_states db))
     \<and> (\<forall>r \<in> set (trading_states db). replay IDLE (logs_of (ts_symbol r) db) = Some (ts_state r))
     \<and> tl_symbol ` set (transition_logs db) \<subseteq> ts_symbol ` set (trading_states db)"

text \<open>The row in hand is the stored one, as far as the state goes.\<close>

definition in_hand :: "trading_state \<Rightarrow> 'z store_scheme \<Rightarrow> bool" where
  "in_hand r db \<longleftrightarrow> log_ok db \<and> (\<exists>q \<in> set (trading_states db). ts_symbol q = ts_symbol r \<and> ts_state q = ts_state r)"

lemma replay_append: "replay s (ls @ ls') = (case replay s ls of None \<Rightarrow> None | Some t \<Rightarrow> replay t ls')"
  by (induction ls arbitrary: s) auto

lemma in_hand_cong:
  "trading_states db' = trading_states db \<Longrightarrow> transition_logs db' = transition_logs db \<Longrightarrow> in_hand r db' = in_hand r db"
  by (simp add: in_hand_def log_ok_def logs_of_def)

lemma put_state_logged:
  assumes "log_ok db" "q \<in> set (trading_states db)" "ts_symbol q = ts_symbol r"
    and "\<forall>l \<in> set ext. tl_symbol l = ts_symbol r" "replay IDLE (logs_of (ts_symbol r) db @ ext) = Some (ts_state r)"
  shows "in_hand r (put_state r (db\<lparr>transition_logs := transition_logs db @ ext\<rparr>))"
proof -
  let ?f = "\<lambda>y. if ts_symbol y = ts_symbol r then r else y" and ?db = "put_state r (db\<lparr>transition_logs := transition_logs db @ ext\<rparr>)"
  have states: "trading_states ?db = map ?f (trading_states db)" "transition_logs ?db = transition_logs db @ ext"
    by (simp_all add: put_state_def)
  have symbols: "map ts_symbol (map ?f (trading_states db)) = map ts_symbol (trading_states db)" by simp
  have logs: "logs_of x ?db = logs_of x db @ (if x = ts_symbol r then ext else [])" for x
    using assms(4) by (auto simp: logs_of_def states filter_empty_conv)
  have "ts_symbol ` set (map ?f (trading_states db)) = ts_symbol ` set (trading_states db)" using symbols by (metis set_map)
  moreover have "tl_symbol ` set ext \<subseteq> ts_symbol ` set (trading_states db)" using assms(2-4) by (metis image_subsetI imageI)
  ultimately have "tl_symbol ` set (transition_logs ?db) \<subseteq> ts_symbol ` set (trading_states ?db)"
    using assms(1) unfolding states by (simp only: log_ok_def set_append image_Un) blast
  moreover have "replay IDLE (logs_of (ts_symbol y) ?db) = Some (ts_state y)" if "y \<in> set (trading_states ?db)" for y
  proof (cases "ts_symbol y = ts_symbol r")
    case True
    then have "y = r" using that by (auto simp: states split: if_splits)
    then show ?thesis using assms(5) by (simp add: logs)
  next
    case False
    then have "y \<in> set (trading_states db)" using that by (auto simp: states split: if_splits)
    then show ?thesis using assms(1) False by (simp add: logs log_ok_def)
  qed
  moreover have "distinct (map ts_symbol (trading_states ?db))" using assms(1) unfolding states symbols by (simp add: log_ok_def)
  ultimately have "log_ok ?db" by (simp add: log_ok_def)
  moreover have "?f q \<in> set (trading_states ?db)" unfolding states set_map using assms(2) by (rule imageI)
  ultimately show ?thesis using assms(3) by (auto simp: in_hand_def)
qed

lemma put_same_state:
  assumes "in_hand r db"
  shows "in_hand r (put_state r db)"
proof -
  obtain q where q: "log_ok db" "q \<in> set (trading_states db)" "ts_symbol q = ts_symbol r" "ts_state q = ts_state r"
    using assms by (auto simp: in_hand_def)
  then have "replay IDLE (logs_of (ts_symbol r) db @ []) = Some (ts_state r)" by (metis append_Nil2 log_ok_def)
  from put_state_logged [OF q(1-3) _ this] show ?thesis by simp
qed

lemma transition_in_hand:
  assumes "in_hand r db"
  shows "in_hand (fst (transition r s reason wait db)) (snd (transition r s reason wait db))"
proof (cases "ts_state r = s \<and> ts_last_reason r = reason")
  case True
  have "in_hand (r\<lparr>ts_next_wait := wait\<rparr>) db" using assms by (simp add: in_hand_def)
  then show ?thesis using True by (simp add: transition_def Let_def put_same_state)
next
  case False
  define r' where "r' = r\<lparr>ts_state := s, ts_last_reason := reason, ts_next_wait := wait\<rparr>"
  define l where "l = \<lparr>tl_symbol = ts_symbol r, tl_from = ts_state r, tl_to = s, tl_reason = reason\<rparr>"
  obtain q where q: "log_ok db" "q \<in> set (trading_states db)" "ts_symbol q = ts_symbol r'" "ts_state q = ts_state r"
    using assms by (auto simp: in_hand_def r'_def)
  have "replay IDLE (logs_of (ts_symbol r') db) = Some (ts_state r)" using q by (metis log_ok_def)
  then have "replay IDLE (logs_of (ts_symbol r') db @ [l]) = Some (ts_state r')" by (simp add: replay_append l_def r'_def)
  moreover have "\<forall>x \<in> set [l]. tl_symbol x = ts_symbol r'" by (simp add: l_def r'_def)
  ultimately have "in_hand r' (put_state r' (db\<lparr>transition_logs := transition_logs db @ [l]\<rparr>))"
    by (intro put_state_logged [OF q(1-3)])
  then show ?thesis unfolding transition_def if_not_P [OF False] Let_def fst_conv snd_conv r'_def l_def .
qed

text \<open>Every step of the machine keeps the row in hand.\<close>

lemma in_hand_frame [simp]:
  "in_hand r (db\<lparr>positions := ps\<rparr>) = in_hand r db"
  "in_hand r (db\<lparr>structure_events := es\<rparr>) = in_hand r db"
  "in_hand r (add_signal sg db) = in_hand r db"
  "in_hand r (create_exit_signal p why now db) = in_hand r db"
  "in_hand r (create_reduce_signal p why now db) = in_hand r db"
  "in_hand r (snd (get_or_create_risk_config db)) = in_hand r db"
  by (rule in_hand_cong; simp)+

lemma cool_down_in_hand:
  assumes "in_hand r db"
  shows "in_hand (fst (cool_down today r s reason wait db)) (snd (cool_down today r s reason wait db))"
proof -
  obtain c db1 where c: "get_or_create_risk_config db = (c, db1)" by fastforce
  have "in_hand r db1" using assms in_hand_frame(6) [of r db] c by simp
  then have "in_hand (r\<lparr>ts_cooldown_until := Some (today + rk_cooldown_days c)\<rparr>) db1" by (simp add: in_hand_def)
  then show ?thesis by (simp add: cool_down_def c transition_in_hand)
qed

lemma exit_candidate_in_hand:
  "in_hand r db \<Longrightarrow> in_hand (fst (exit_candidate r p why reason wait now db)) (snd (exit_candidate r p why reason wait now db))"
  unfolding exit_candidate_def by (rule transition_in_hand) simp

lemmas in_hand_intros = transition_in_hand cool_down_in_hand exit_candidate_in_hand put_same_state

lemma manage_healthy_in_hand:
  assumes "in_hand r db"
  shows "in_hand (fst (manage_healthy r p bar ind market now db)) (snd (manage_healthy r p bar ind market now db))"
  using assms unfolding manage_healthy_def Let_def
  by (auto intro!: transition_in_hand exit_candidate_in_hand)

lemma manage_held_position_in_hand:
  assumes "in_hand r db" "manage_held_position r p market now db = Inr (r', db')"
  shows "in_hand r' db'"
proof -
  have "in_hand (fst x) (snd x)" if "manage_held_position r p market now db = Inr x" for x
    using that assms(1) unfolding manage_held_position_def Let_def
    by (auto split: option.splits sum.splits if_splits
        intro!: transition_in_hand exit_candidate_in_hand manage_healthy_in_hand)
  from this [OF assms(2)] show ?thesis by simp
qed

lemma create_entry_in_hand:
  assumes "in_hand r db" "create_entry_candidate r symbol market script structure te now db = Inr (r', db')"
  shows "in_hand r' db'"
proof -
  obtain c db1 where c: "get_or_create_risk_config db = (c, db1)" by fastforce
  have "in_hand r db1" using assms(1) in_hand_frame(6) [of r db] c by simp
  then have "in_hand (fst x) (snd x)" if "create_entry_candidate r symbol market script structure te now db = Inr x" for x
    using that assms(1) unfolding create_entry_candidate_def c Let_def prod.case
    by (auto split: option.splits sum.splits if_splits intro!: transition_in_hand)
  from this [OF assms(2)] show ?thesis by simp
qed

lemma await_trigger_in_hand:
  assumes "in_hand r db" "await_trigger today r symbol market bottom now db = Inr (r', db')"
  shows "in_hand r' db'"
proof -
  obtain r1 db1 where 1: "(if ts_state r \<notin> {BOTTOM_CONFIRMED, WAIT_15M_TRIGGER}
      then transition r BOTTOM_CONFIRMED (ev_reason bottom) zh_sm_confirmed db else (r, db)) = (r1, db1)" by fastforce
  obtain r2 db2 where 2: "transition r1 WAIT_15M_TRIGGER (''waiting for 15m trigger after structure #'' @ str_int (ev_id bottom)) zh_sm_wait_15m db1
      = (r2, db2)" by fastforce
  have "in_hand r1 db1" using assms(1) transition_in_hand [OF assms(1), of BOTTOM_CONFIRMED "ev_reason bottom" zh_sm_confirmed] 1
    by (auto split: if_splits)
  from transition_in_hand [OF this] have hand: "in_hand r2 db2" by (metis 2 fst_conv snd_conv)
  then have "in_hand (r2\<lparr>ts_last_reason := x, ts_next_wait := x\<rparr>) db2" for x by (simp add: in_hand_def)
  note put = put_same_state [OF this]
  note body = assms(2) [unfolded await_trigger_def Let_def 1 2 prod.case]
  obtain te where te: "evaluate_15m_trend_resume symbol bottom db2 = Inr te" using body by (auto split: sum.splits)
  note body' = body [unfolded te sum.case]
  consider "te_triggered te" | "\<not> te_triggered te" "te_reason te = zh_trg_expired" | "\<not> te_triggered te" "te_reason te \<noteq> zh_trg_expired" by blast
  then show ?thesis
  proof cases
    case 1
    then show ?thesis using body' create_entry_in_hand [OF hand] by simp
  next
    case 2
    then show ?thesis using body' cool_down_in_hand [OF hand, of today COOLDOWN zh_trg_expired zh_sm_structure_expired]
      by (auto dest!: arg_cong [of _ _ fst] simp: prod_eq_iff)
  next
    case 3
    then show ?thesis using body' put by auto
  qed
qed

lemma follow_structures_in_hand:
  assumes "in_hand r db" "follow_structures today r symbol market stock_trend now db = Inr (r', db')"
  shows "in_hand r' db'"
proof -
  have "in_hand (fst x) (snd x)" if "follow_structures today r symbol market stock_trend now db = Inr x" for x
    using that assms(1) await_trigger_in_hand [OF assms(1)] unfolding follow_structures_def Let_def
    by (auto split: option.splits if_splits intro!: transition_in_hand cool_down_in_hand)
  from this [OF assms(2)] show ?thesis by simp
qed

lemma advance_cleared_in_hand:
  assumes "in_hand r db" "advance_cleared today r symbol market stock_trend now db = Inr (r', db')"
  shows "in_hand r' db'"
proof -
  have "in_hand (fst x) (snd x)" if "advance_cleared today r symbol market stock_trend now db = Inr x" for x
    using that assms(1) follow_structures_in_hand [OF assms(1)] manage_held_position_in_hand [OF assms(1)]
    unfolding advance_cleared_def advance_flat_def
    by (auto split: option.splits if_splits intro!: transition_in_hand)
  from this [OF assms(2)] show ?thesis by simp
qed

lemma get_state_in_hand:
  assumes "log_ok db" "get_or_create_trading_state symbol db = (r, db')"
  shows "in_hand r db' \<and> ts_symbol r = symbol"
proof (cases "state_of symbol db")
  case None
  then have fresh: "symbol \<notin> ts_symbol ` set (trading_states db)" by (auto simp: state_of_def filter_empty_conv)
  have r: "r = new_state symbol" "db' = db\<lparr>trading_states := trading_states db @ [new_state symbol]\<rparr>"
    using assms(2) None by (auto simp: get_or_create_trading_state_def)
  have "\<forall>l \<in> set (transition_logs db). tl_symbol l \<noteq> symbol" using assms(1) fresh by (metis image_eqI log_ok_def subsetD)
  then have "logs_of symbol db' = []" by (simp add: logs_of_def r filter_empty_conv)
  then have "log_ok db'" using assms(1) fresh by (auto simp: log_ok_def r logs_of_def new_state_def)
  then show ?thesis by (auto simp: in_hand_def r new_state_def)
next
  case (Some q)
  then have "q \<in> set (trading_states db)" "ts_symbol q = symbol" by (auto simp: state_of_def dest: scalar_filter_SomeD)
  then show ?thesis using assms Some by (auto simp: in_hand_def get_or_create_trading_state_def)
qed

lemma advance_log_ok:
  assumes "log_ok db" "advance_state_machine symbol market stock_trend today now db = Inr (r', db')"
  shows "log_ok db'"
proof -
  obtain r db1 where 1: "get_or_create_trading_state symbol db = (r, db1)" by fastforce
  have hand: "in_hand r db1" using get_state_in_hand [OF assms(1) 1] by simp
  note body = assms(2) [unfolded advance_state_machine_def Let_def 1 prod.case]
  obtain c db2 where 2: "reconcile_pending_entry symbol market db1 = Inr (c, db2)" using body by (auto split: sum.splits)
  have hand2: "in_hand r db2" using hand in_hand_cong [of db2 db1 r] reconcile_frame [OF 2] by simp
  note body' = body [unfolded 2 sum.case prod.case]
  have "in_hand r' db'"
  proof (cases c)
    case (Some k)
    have "in_hand (fst x) (snd x)" if "(if co_start_cooldown k then cool_down today r (co_target_state k) (co_reason k) (correction_next_wait (co_status k)) db2
      else transition r (co_target_state k) (co_reason k) (correction_next_wait (co_status k)) db2) = x" for x
      using that transition_in_hand [OF hand2] cool_down_in_hand [OF hand2] by auto
    moreover have "(if co_start_cooldown k then cool_down today r (co_target_state k) (co_reason k) (correction_next_wait (co_status k)) db2
      else transition r (co_target_state k) (co_reason k) (correction_next_wait (co_status k)) db2) = (r', db')"
      using body' by (simp add: Some split: if_splits)
    ultimately show ?thesis by fastforce
  next
    case None
    show ?thesis
    proof (cases "cooling today r")
      case True
      then have "transition r COOLDOWN (''cooldown active until '' @ iso_date (the (ts_cooldown_until r))) zh_sm_cooldown db2 = (r', db')"
        using body' by (simp add: None)
      with transition_in_hand [OF hand2] show ?thesis by (metis fst_conv snd_conv)
    next
      case False
      then show ?thesis using body' advance_cleared_in_hand [OF hand2] by (simp add: None)
    qed
  qed
  then show ?thesis by (simp add: in_hand_def)
qed

text \<open>What every machine that writes the log owes to it, and what follows for any sequence of its steps.\<close>

locale logged_machine =
  fixes step :: "'e \<Rightarrow> 'z store_scheme \<Rightarrow> exn + 'z store_scheme"
  assumes step_logged: "log_ok db \<Longrightarrow> step e db = Inr db' \<Longrightarrow> log_ok db'"
begin

lemma runs_logged: "log_ok db \<Longrightarrow> foldM step es db = Inr db' \<Longrightarrow> log_ok db'"
  by (erule foldM_invariant [of step es db db' log_ok]) (auto intro: step_logged)

end

type_synonym advance_call = "string \<times> market_state \<times> trend \<times> int \<times> int"

definition advance_step :: "advance_call \<Rightarrow> 'z store_scheme \<Rightarrow> exn + 'z store_scheme" where
  "advance_step c db =
     (case c of (symbol, market, stock_trend, today, now) \<Rightarrow>
        (case advance_state_machine symbol market stock_trend today now db of Inl e \<Rightarrow> Inl e | Inr (_, db') \<Rightarrow> Inr db'))"

interpretation advance_log: logged_machine advance_step
proof unfold_locales
  fix db db' :: "'z store_scheme" and e
  assume "log_ok db" "advance_step e db = Inr db'"
  then show "log_ok db'" by (cases e) (auto simp: advance_step_def split: sum.splits intro: advance_log_ok)
qed

section \<open>Lemmas: the signals a call adds\<close>

text \<open>One pending signal of a type and symbol, where none was pending.\<close>

definition adds_signal :: "(trade_signal \<Rightarrow> bool) \<Rightarrow> 'z store_scheme \<Rightarrow> 'z store_scheme \<Rightarrow> bool" where
  "adds_signal P db db' \<longleftrightarrow> (\<exists>sg. trade_signals db' = trade_signals db @ [sg] \<and> sg_status sg = PENDING
     \<and> pending_signals (sg_symbol sg) (sg_type sg) db = [] \<and> sg_id sg = next_id sg_id (trade_signals db) \<and> P sg)"

definition keeps_or_adds :: "(trade_signal \<Rightarrow> bool) \<Rightarrow> 'z store_scheme \<Rightarrow> 'z store_scheme \<Rightarrow> bool" where
  "keeps_or_adds P db db' \<longleftrightarrow> trade_signals db' = trade_signals db \<or> adds_signal P db db'"

lemma keeps_refl [simp]: "trade_signals db' = trade_signals db \<Longrightarrow> keeps_or_adds P db db'"
  by (simp add: keeps_or_adds_def)

lemma keeps_or_adds_cong:
  assumes "trade_signals db1 = trade_signals db" "trade_signals db1' = trade_signals db'"
  shows "keeps_or_adds P db1 db1' = keeps_or_adds P db db'"
  using assms by (simp add: keeps_or_adds_def adds_signal_def pending_signals_def)

lemma keeps_or_adds_frame [simp]:
  "keeps_or_adds P db (snd (transition r s a b db')) = keeps_or_adds P db db'"
  "keeps_or_adds P (db\<lparr>positions := ps\<rparr>) db' = keeps_or_adds P db db'"
  by (rule keeps_or_adds_cong; simp)+

lemma keeps_or_adds_mono: "keeps_or_adds P db db' \<Longrightarrow> (\<And>sg. P sg \<Longrightarrow> Q sg) \<Longrightarrow> keeps_or_adds Q db db'"
  by (auto simp: keeps_or_adds_def adds_signal_def)

lemma create_signal_adds:
  "ty \<noteq> ENTRY \<Longrightarrow> keeps_or_adds (\<lambda>s. sg_type s \<noteq> ENTRY) db (position_signal ty action n p why now db)"
  by (auto simp: position_signal_def signal_exists_def keeps_or_adds_def adds_signal_def blank_signal_def)

lemma exit_candidate_adds:
  "keeps_or_adds (\<lambda>s. sg_type s \<noteq> ENTRY) db (snd (exit_candidate r p why reason wait now db))"
  using create_signal_adds [of EXIT "put_position p db" zh_sm_exit_action "pos_shares p" p why now]
  by (simp add: exit_candidate_def create_exit_signal_def)

lemma manage_healthy_adds:
  "keeps_or_adds (\<lambda>s. sg_type s \<noteq> ENTRY) db (snd (manage_healthy r p bar ind market now db))"
proof -
  have "keeps_or_adds (\<lambda>s. sg_type s \<noteq> ENTRY) db (snd (transition r s a b (create_reduce_signal p why now (put_position p db))))" for s a b why
    using create_signal_adds [of REDUCE "put_position p db" zh_sm_reduce_action "max 1 (pos_shares p div 3)" p why now]
    by (simp add: create_reduce_signal_def)
  then show ?thesis unfolding manage_healthy_def Let_def by (simp add: exit_candidate_adds)
qed

lemma manage_held_position_adds:
  "manage_held_position r p market now db = Inr (r', db') \<Longrightarrow> keeps_or_adds (\<lambda>s. sg_type s \<noteq> ENTRY) db db'"
proof -
  have "keeps_or_adds (\<lambda>s. sg_type s \<noteq> ENTRY) db (snd x)" if "manage_held_position r p market now db = Inr x" for x
    using that unfolding manage_held_position_def Let_def
    by (auto split: option.splits sum.splits if_splits simp: exit_candidate_adds manage_healthy_adds)
  then show "manage_held_position r p market now db = Inr (r', db') \<Longrightarrow> keeps_or_adds (\<lambda>s. sg_type s \<noteq> ENTRY) db db'" by fastforce
qed

text \<open>What the machine promises of an entry proposal: a valid bottom as its source, and a size within the risk budget.\<close>

definition sound_entry :: "'z store_scheme \<Rightarrow> string \<Rightarrow> market_state \<Rightarrow> structure_event \<Rightarrow> trade_signal \<Rightarrow> bool" where
  "sound_entry db symbol market bottom sg \<longleftrightarrow> sg_symbol sg = symbol \<and> sg_status sg = PENDING
     \<and> sg_source_structure_id sg = Some (ev_id bottom)
     \<and> (\<exists>price stop shares. sg_entry_price sg = Some price \<and> sg_stop_price sg = Some stop \<and> sg_shares sg = Some shares
          \<and> 0 < stop \<and> stop < price \<and> 0 < shares
          \<and> of_int shares * (price - stop) \<le> ps_account_equity (portfolio_sync_status db)
              * rk_risk_per_trade_pct (fst (get_or_create_risk_config db))
              * risk_multiplier (fst (get_or_create_risk_config db)) market SCRIPT_A_BOTTOM_TREND_RESUME)"

lemma create_entry_result:
  assumes "create_entry_candidate r symbol market script bottom te now db = Inr x" "get_or_create_risk_config db = (c, db1)"
  shows "trade_signals (snd x) = trade_signals db
    \<or> (pending_signals symbol ENTRY db = [] \<and> (\<exists>price t level stop risk sg.
        calculate_position_size c price (Some (ss_stop_price stop)) market script (Some (ps_account_equity (portfolio_sync_status db1))) = Some risk
        \<and> sg = entry_signal symbol market script bottom te t price level stop risk (next_id sg_id (trade_signals db1)) now
        \<and> x = transition r ENTRY_CANDIDATE (sg_reason sg) zh_sm_wait_sim
            (add_signal sg (db1\<lparr>structure_events := put_row ev_id (bottom\<lparr>ev_triggered_entry := True\<rparr>) (structure_events db1)\<rparr>))))"
proof -
  have same: "trade_signals db1 = trade_signals db" using risk_config_sel(1) [of db] assms(2) by simp
  show ?thesis
  proof (cases "signal_exists symbol ENTRY db")
    case True
    then show ?thesis using assms(1) by (auto simp: create_entry_candidate_def)
  next
    case False
    note body = assms(1) [unfolded create_entry_candidate_def assms(2) Let_def prod.case if_not_P [OF False]]
    obtain allowed why where p: "portfolio_allows_new_position symbol c db1 = Inr (allowed, why)"
      using body by (cases "portfolio_allows_new_position symbol c db1") auto
    note body1 = body [unfolded p sum.case prod.case]
    show ?thesis
    proof (cases allowed)
      case ok: True
      show ?thesis
      proof (cases "te_trigger_price te = None \<or> te_trigger_ts te = None \<or> te_trigger_level te = None")
        case True
        then show ?thesis using body1 ok same by (auto split: option.splits)
      next
        case given: False
        then obtain price t level where given: "te_trigger_price te = Some price" "te_trigger_ts te = Some t" "te_trigger_level te = Some level" by auto
        note body2 = body1 [unfolded given prod.case option.case]
        show ?thesis
        proof (cases "calculate_structure_stop bottom price script db1")
          case None
          then show ?thesis using body2 ok same by auto
        next
          case stop: (Some stop)
          show ?thesis
          proof (cases "calculate_position_size c price (Some (ss_stop_price stop)) market script (Some (ps_account_equity (portfolio_sync_status db1)))")
            case None
            then show ?thesis using body2 [unfolded stop option.case] ok same by auto
          next
            case (Some risk)
            then have "x = transition r ENTRY_CANDIDATE
                (sg_reason (entry_signal symbol market script bottom te t price level stop risk (next_id sg_id (trade_signals db1)) now)) zh_sm_wait_sim
                (add_signal (entry_signal symbol market script bottom te t price level stop risk (next_id sg_id (trade_signals db1)) now)
                  (db1\<lparr>structure_events := put_row ev_id (bottom\<lparr>ev_triggered_entry := True\<rparr>) (structure_events db1)\<rparr>))"
              using body2 [unfolded stop option.case] ok by simp
            then show ?thesis using Some False unfolding signal_exists_def by blast
          qed
        qed
      qed
    qed (use body1 same in auto)
  qed
qed

lemma create_entry_adds:
  assumes "create_entry_candidate r symbol market SCRIPT_A_BOTTOM_TREND_RESUME bottom te now db = Inr (r', db')"
  shows "keeps_or_adds (\<lambda>sg. sg_type sg = ENTRY \<and> sound_entry db symbol market bottom sg \<and> ts_state r' = ENTRY_CANDIDATE) db db'"
proof -
  obtain c db1 where c: "get_or_create_risk_config db = (c, db1)" by fastforce
  then have same: "trade_signals db1 = trade_signals db" "portfolio_sync_status db1 = portfolio_sync_status db"
    using risk_config_sel(1,8) [of db] by (simp_all add: portfolio_sync_status_def)
  consider "trade_signals db' = trade_signals db"
    | price t level stop risk sg where "pending_signals symbol ENTRY db = []"
      "calculate_position_size c price (Some (ss_stop_price stop)) market SCRIPT_A_BOTTOM_TREND_RESUME
        (Some (ps_account_equity (portfolio_sync_status db1))) = Some risk"
      "sg = entry_signal symbol market SCRIPT_A_BOTTOM_TREND_RESUME bottom te t price level stop risk (next_id sg_id (trade_signals db1)) now"
      "(r', db') = transition r ENTRY_CANDIDATE (sg_reason sg) zh_sm_wait_sim
        (add_signal sg (db1\<lparr>structure_events := put_row ev_id (bottom\<lparr>ev_triggered_entry := True\<rparr>) (structure_events db1)\<rparr>))"
    using create_entry_result [OF assms c] by auto
  then show ?thesis
  proof cases
    case (2 price t level stop risk sg)
    have sg: "sg_symbol sg = symbol" "sg_type sg = ENTRY" "sg_status sg = PENDING" "sg_id sg = next_id sg_id (trade_signals db)"
      "sg_source_structure_id sg = Some (ev_id bottom)" "sg_entry_price sg = Some (rr_entry_price risk)"
      "sg_stop_price sg = Some (rr_stop_price risk)" "sg_shares sg = Some (rr_shares risk)"
      by (simp_all add: 2(3) entry_signal_def blank_signal_def same)
    have "sound_entry db symbol market bottom sg"
      using position_size_SomeD [OF 2(2)] by (auto simp: sound_entry_def sg same c)
    moreover have "trade_signals db' = trade_signals db @ [sg]" "ts_state r' = ENTRY_CANDIDATE"
      using arg_cong [OF 2(4), of snd] arg_cong [OF 2(4), of fst] by (simp_all add: same)
    ultimately show ?thesis using 2(1) sg by (auto simp: keeps_or_adds_def adds_signal_def)
  qed simp
qed

lemma sound_entry_cong:
  "risk_configs db' = risk_configs db \<Longrightarrow> portfolio_config db' = portfolio_config db
   \<Longrightarrow> sound_entry db' symbol market bottom sg = sound_entry db symbol market bottom sg"
  by (simp add: sound_entry_def portfolio_sync_status_def get_or_create_risk_config_def split: option.splits)

lemma await_trigger_adds:
  assumes "await_trigger today r symbol market bottom now db = Inr (r', db')"
  shows "keeps_or_adds (\<lambda>sg. sg_type sg = ENTRY \<and> sound_entry db symbol market bottom sg \<and> ts_state r' = ENTRY_CANDIDATE) db db'"
proof -
  obtain r1 db1 where 1: "(if ts_state r \<notin> {BOTTOM_CONFIRMED, WAIT_15M_TRIGGER}
      then transition r BOTTOM_CONFIRMED (ev_reason bottom) zh_sm_confirmed db else (r, db)) = (r1, db1)" by fastforce
  obtain r2 db2 where 2: "transition r1 WAIT_15M_TRIGGER (''waiting for 15m trigger after structure #'' @ str_int (ev_id bottom)) zh_sm_wait_15m db1
      = (r2, db2)" by fastforce
  have same1: "trade_signals db1 = trade_signals db" "risk_configs db1 = risk_configs db" "portfolio_config db1 = portfolio_config db"
    using 1 by (auto split: if_splits dest: transition_D)
  have same2: "trade_signals db2 = trade_signals db" "risk_configs db2 = risk_configs db" "portfolio_config db2 = portfolio_config db"
    using transition_D [OF 2] same1 by simp_all
  note body = assms(1) [unfolded await_trigger_def Let_def 1 2 prod.case]
  obtain te where te: "evaluate_15m_trend_resume symbol bottom db2 = Inr te" using body by (auto split: sum.splits)
  note body' = body [unfolded te sum.case]
  show ?thesis
  proof (cases "te_triggered te")
    case True
    then have "create_entry_candidate r2 symbol market SCRIPT_A_BOTTOM_TREND_RESUME bottom te now db2 = Inr (r', db')" using body' by simp
    from create_entry_adds [OF this] show ?thesis
      unfolding sound_entry_cong [OF same2(2,3)] keeps_or_adds_cong [OF same2(1) refl] .
  next
    case False
    have "trade_signals (snd x) = trade_signals db2" if "(if te_reason te = zh_trg_expired
        then Inr (cool_down today r2 COOLDOWN (te_reason te) zh_sm_structure_expired db2)
        else Inr (r2\<lparr>ts_last_reason := te_reason te, ts_next_wait := te_reason te\<rparr>, put_state (r2\<lparr>ts_last_reason := te_reason te, ts_next_wait := te_reason te\<rparr>) db2))
        = (Inr x :: exn + _)" for x
      using that by (auto split: if_splits)
    from this [of "(r', db')"] body' False have "trade_signals db' = trade_signals db" by (simp add: same2)
    then show ?thesis by simp
  qed
qed

definition valid_bottom :: "'z store_scheme \<Rightarrow> string \<Rightarrow> structure_event \<Rightarrow> bool" where
  "valid_bottom db symbol e \<longleftrightarrow> e \<in> set (structure_events db) \<and> ev_symbol e = symbol \<and> ev_type e = BOTTOM_STRUCTURE
     \<and> ev_timeframe e = HOUR_60 \<and> \<not> ev_invalidated e \<and> \<not> ev_became_failed e"

lemma latest_event_D:
  "latest_event symbol types db = Some e \<Longrightarrow> e \<in> set (structure_events db) \<and> ev_symbol e = symbol \<and> ev_timeframe e = HOUR_60
     \<and> ev_type e \<in> types"
  by (auto simp: latest_event_def dest!: scalar_SomeD)

lemma follow_structures_adds:
  assumes "follow_structures today r symbol market stock_trend now db = Inr (r', db')"
  shows "keeps_or_adds (\<lambda>sg. sg_type sg = ENTRY \<and> (\<exists>b. valid_bottom db symbol b \<and> sound_entry db symbol market b sg)
    \<and> ts_state r' = ENTRY_CANDIDATE) db db'"
proof -
  have "trade_signals (snd x) = trade_signals db
      \<or> (\<exists>b. valid_bottom db symbol b \<and> await_trigger today r symbol market b now db = Inr x)"
    if "follow_structures today r symbol market stock_trend now db = Inr x" for x
    using that unfolding follow_structures_def Let_def
    by (auto split: option.splits if_splits simp: valid_bottom_def dest: latest_event_D)
  from this [OF assms] show ?thesis
    by (auto dest!: await_trigger_adds elim!: keeps_or_adds_mono)
qed

lemma advance_cleared_adds:
  assumes "advance_cleared today r symbol market stock_trend now db = Inr (r', db')"
  shows "keeps_or_adds (\<lambda>sg. sg_type sg = ENTRY \<longrightarrow> market \<in> set TRADEABLE_MARKETS \<and> stock_trend \<in> set ENTRY_TRENDS
    \<and> open_position_of symbol db = None \<and> (\<exists>b. valid_bottom db symbol b \<and> sound_entry db symbol market b sg)
    \<and> ts_state r' = ENTRY_CANDIDATE) db db'"
proof (cases "latest_of symbol DAILY db")
  case None
  then show ?thesis using assms by (auto simp: advance_cleared_def dest: transition_D)
next
  case data: (Some x)
  show ?thesis
  proof (cases "open_position_of symbol db")
    case (Some p)
    then have "manage_held_position r p market now db = Inr (r', db')" using assms data by (simp add: advance_cleared_def)
    show ?thesis by (rule keeps_or_adds_mono [OF manage_held_position_adds [OF \<open>manage_held_position r p market now db = Inr (r', db')\<close>]]) simp
  next
    case None
    then have flat: "advance_flat today r symbol market stock_trend now db = Inr (r', db')"
      using assms data by (simp add: advance_cleared_def)
    show ?thesis
    proof (cases "market \<in> set TRADEABLE_MARKETS \<and> stock_trend \<in> set ENTRY_TRENDS \<and> \<not> signal_exists symbol ENTRY db")
      case True
      then have "follow_structures today r symbol market stock_trend now db = Inr (r', db')" using flat by (simp add: advance_flat_def)
      from follow_structures_adds [OF this] show ?thesis by (rule keeps_or_adds_mono) (use None True in simp)
    next
      case False
      then have "trade_signals db' = trade_signals db" using flat by (auto simp: advance_flat_def dest: transition_D split: if_splits)
      then show ?thesis by simp
    qed
  qed
qed

text \<open>The whole call: it withdraws a pending proposal, or it may add one signal.\<close>

lemma advance_signals:
  assumes "advance_state_machine symbol market stock_trend today now db = Inr (r', db')"
  obtains (withdrawn) sg status reason where "trade_signals db' = put_row sg_id (sg\<lparr>sg_status := status, sg_cancel_reason := reason\<rparr>) (trade_signals db)"
      "sg \<in> set (pending_signals symbol ENTRY db)" "status \<noteq> PENDING"
  | (advanced) "keeps_or_adds (\<lambda>sg. sg_type sg = ENTRY \<longrightarrow> market \<in> set TRADEABLE_MARKETS \<and> stock_trend \<in> set ENTRY_TRENDS
    \<and> open_position_of symbol db = None \<and> (\<exists>b. valid_bottom db symbol b \<and> sound_entry db symbol market b sg)
    \<and> ts_state r' = ENTRY_CANDIDATE) db db'"
proof -
  obtain r db1 where 1: "get_or_create_trading_state symbol db = (r, db1)" by fastforce
  then have same: "trade_signals db1 = trade_signals db" "positions db1 = positions db" "structure_events db1 = structure_events db"
    "risk_configs db1 = risk_configs db" "portfolio_config db1 = portfolio_config db"
    by (auto simp: get_or_create_trading_state_def split: option.splits)
  note body = assms(1) [unfolded advance_state_machine_def Let_def 1 prod.case]
  obtain c db2 where 2: "reconcile_pending_entry symbol market db1 = Inr (c, db2)" using body by (auto split: sum.splits)
  note body' = body [unfolded 2 sum.case prod.case]
  from reconcile_result [OF 2] consider (none) "c = None" "db2 = db1"
    | (some) sg status reason target cooldown where "(c, db2) = cancel_signal sg status reason target cooldown db1"
      "sg \<in> set (pending_signals symbol ENTRY db1)" "status \<noteq> PENDING" by blast
  then show thesis
  proof cases
    case some
    then have "c \<noteq> None" "trade_signals db2 = put_row sg_id (sg\<lparr>sg_status := status, sg_cancel_reason := reason\<rparr>) (trade_signals db)"
      by (auto simp: cancel_signal_def same)
    moreover have "trade_signals db' = trade_signals db2"
    proof -
      obtain k where k: "c = Some k" using \<open>c \<noteq> None\<close> by auto
      have "trade_signals (snd x) = trade_signals db2" if "(if co_start_cooldown k
          then Inr (cool_down today r (co_target_state k) (co_reason k) (correction_next_wait (co_status k)) db2)
          else Inr (transition r (co_target_state k) (co_reason k) (correction_next_wait (co_status k)) db2)) = (Inr x :: exn + _)" for x
        using that by (auto split: if_splits)
      from this [of "(r', db')"] body' show ?thesis by (simp add: k)
    qed
    ultimately show thesis using some(2,3) by (intro withdrawn) (simp_all add: pending_signals_def same)
  next
    case none
    show thesis
    proof (cases "cooling today r")
      case True
      then have "trade_signals db' = trade_signals db"
        using body' transition_D [of r COOLDOWN _ _ db1 r' db'] by (simp add: none same)
      then show thesis by (intro advanced) simp
    next
      case False
      then have "advance_cleared today r symbol market stock_trend now db1 = Inr (r', db')" using body' by (simp add: none)
      from advance_cleared_adds [OF this] show thesis
        by (intro advanced) (simp add: keeps_or_adds_cong [OF same(1) refl] sound_entry_cong [OF same(4,5)]
            valid_bottom_def open_position_of_def same)
    qed
  qed
qed

text \<open>At most one pending signal of a type and symbol.\<close>

definition one_pending :: "'z store_scheme \<Rightarrow> bool" where
  "one_pending db \<longleftrightarrow> distinct (map (\<lambda>s. (sg_symbol s, sg_type s)) (filter (\<lambda>s. sg_status s = PENDING) (trade_signals db)))"

lemma filter_put_dropped:
  assumes "\<not> P x"
  shows "filter P (put_row rid x xs) = filter P (filter (\<lambda>y. rid y \<noteq> rid x) xs)"
  using assms by (induction xs) (auto simp: put_row_def)

lemma distinct_map_filter_filter: "distinct (map f (filter P xs)) \<Longrightarrow> distinct (map f (filter P (filter Q xs)))"
  by (induction xs) (auto split: if_splits)

lemma advance_one_pending:
  assumes "one_pending db" "advance_state_machine symbol market stock_trend today now db = Inr (r', db')"
  shows "one_pending db'"
  using assms(2)
proof (cases rule: advance_signals)
  case (withdrawn sg status reason)
  then show ?thesis using assms(1)
    by (simp add: one_pending_def filter_put_dropped [where rid = sg_id] distinct_map_filter_filter del: filter_filter)
next
  case advanced
  then consider "trade_signals db' = trade_signals db"
    | sg where "trade_signals db' = trade_signals db @ [sg]" "sg_status sg = PENDING" "pending_signals (sg_symbol sg) (sg_type sg) db = []"
    by (auto simp: keeps_or_adds_def adds_signal_def)
  then show ?thesis
    using assms(1) by cases (auto simp: one_pending_def pending_signals_def filter_empty_conv)
qed

section \<open>Lemmas: the protective stop of a position\<close>

text \<open>What a day does to the stop of a position: it is trailed, tightened to the entry price, or left alone.\<close>

datatype stop_move = Mark real | Trail real real "real option" market_state | Protect real real

fun move_stop :: "stop_move \<Rightarrow> position \<Rightarrow> position" where
  "move_stop (Mark r) p = p\<lparr>pos_current_r := r\<rparr>"
| "move_stop (Trail r close atr market) p = update_trailing_stop close atr r market (p\<lparr>pos_current_r := r\<rparr>)"
| "move_stop (Protect r cr) p = protect_position cr (p\<lparr>pos_current_r := r\<rparr>)"

definition protective_stop :: "position \<Rightarrow> real" where
  "protective_stop p = (case pos_trailing_stop p of None \<Rightarrow> pos_stop_price p | Some t \<Rightarrow> max t (pos_stop_price p))"

definition entry_positive :: "position \<Rightarrow> bool" where
  "entry_positive p \<longleftrightarrow> 0 < pos_entry_price p"

lemma move_stop_tightens: "entry_positive p \<Longrightarrow> protective_stop p \<le> protective_stop (move_stop e p)"
  by (cases e)
    (auto simp: protective_stop_def update_trailing_stop_def protect_position_def entry_positive_def opt_or_def Let_def split: option.splits)

interpretation trailed_stop: tightening_stop protective_stop move_stop entry_positive
proof unfold_locales
  show "entry_positive p \<Longrightarrow> protective_stop p \<le> protective_stop (move_stop e p)" for p e by (rule move_stop_tightens)
  show "entry_positive p \<Longrightarrow> entry_positive (move_stop e p)" for p e
    by (cases e) (auto simp: entry_positive_def update_trailing_stop_def protect_position_def Let_def split: option.splits)
qed

lemma move_stop_id: "pos_id (move_stop e p) = pos_id p"
  by (cases e) (auto simp: update_trailing_stop_def protect_position_def Let_def split: option.splits)

lemma manage_held_position_moves:
  assumes "manage_held_position r p market now db = Inr (r', db')"
  shows "positions db' = positions db \<or> (\<exists>e. positions db' = put_row pos_id (move_stop e p) (positions db))"
proof (cases "latest_of (pos_symbol p) DAILY db")
  case None
  then show ?thesis using assms by (auto simp: manage_held_position_def dest: transition_D)
next
  case (Some x)
  obtain bar ind where x: "x = (bar, ind)" by (cases x)
  define cr where "cr = current_r_of p (kl_close bar)"
  define q where "q = p\<lparr>pos_current_r := cr\<rparr>"
  note body = assms [unfolded manage_held_position_def Some x option.case prod.case Let_def, folded cr_def, folded q_def]
  have mark: "q = move_stop (Mark cr) p" by (simp add: q_def)
  have exits: "positions (snd (exit_candidate r z why reason wait now db)) = put_row pos_id z (positions db)" for z why reason wait
    by (simp add: exit_candidate_def)
  have healthy: "\<exists>e. positions (snd (manage_healthy r q bar ind market now db)) = put_row pos_id (move_stop e p) (positions db)"
  proof -
    have "positions (snd (manage_healthy r q bar ind market now db)) \<in>
        {put_row pos_id q (positions db), put_row pos_id (update_trailing_stop (kl_close bar) (in_atr ind) (pos_current_r q) market q) (positions db)}"
      by (simp add: manage_healthy_def Let_def exits)
    then consider "positions (snd (manage_healthy r q bar ind market now db)) = put_row pos_id q (positions db)"
      | "positions (snd (manage_healthy r q bar ind market now db)) =
          put_row pos_id (update_trailing_stop (kl_close bar) (in_atr ind) (pos_current_r q) market q) (positions db)" by blast
    then show ?thesis
    proof cases
      case 1
      then show ?thesis using mark by metis
    next
      case 2
      have "update_trailing_stop (kl_close bar) (in_atr ind) (pos_current_r q) market q = move_stop (Trail cr (kl_close bar) (in_atr ind) market) p"
        by (simp add: q_def)
      with 2 show ?thesis by metis
    qed
  qed
  have "(\<exists>why reason wait. y = exit_candidate r q why reason wait now db)
      \<or> (\<exists>reason wait. y = transition r RISK_PROTECTION reason wait (put_position (protect_position (pos_current_r q) q) db))
      \<or> y = manage_healthy r q bar ind market now db" if "manage_held_position r p market now db = Inr y" for y
    using that unfolding manage_held_position_def Some x option.case prod.case Let_def cr_def [symmetric] q_def [symmetric]
    by (simp split: if_splits sum.splits option.splits) blast+
  from this [OF assms] consider (exit) why reason wait where "(r', db') = exit_candidate r q why reason wait now db"
    | (protect) reason wait where "(r', db') = transition r RISK_PROTECTION reason wait (put_position (protect_position (pos_current_r q) q) db)"
    | (healthy) "(r', db') = manage_healthy r q bar ind market now db" by blast
  then show ?thesis
  proof cases
    case (exit why reason wait)
    then have "positions db' = put_row pos_id q (positions db)" using exits by (metis snd_conv)
    then show ?thesis using mark by metis
  next
    case (protect reason wait)
    then have "positions db' = put_row pos_id (protect_position (pos_current_r q) q) (positions db)"
      using transition_sel(2) [of r RISK_PROTECTION reason wait "put_position (protect_position (pos_current_r q) q) db"] by (simp flip: protect)
    moreover have "protect_position (pos_current_r q) q = move_stop (Protect cr cr) p" by (simp add: q_def)
    moreover have "pos_id (protect_position (pos_current_r q) q) = pos_id p" by (simp add: q_def protect_position_def)
    ultimately show ?thesis by metis
  next
    case healthy
    with \<open>\<exists>e. positions (snd (manage_healthy r q bar ind market now db)) = put_row pos_id (move_stop e p) (positions db)\<close>
    show ?thesis by (metis snd_conv)
  qed
qed

definition stops_kept :: "position list \<Rightarrow> position list \<Rightarrow> bool" where
  "stops_kept ps ps' \<longleftrightarrow> (\<forall>p \<in> set ps. \<exists>p' \<in> set ps'. pos_id p' = pos_id p \<and> protective_stop p \<le> protective_stop p')"

lemma stops_kept_refl [simp]: "stops_kept ps ps"
  by (auto simp: stops_kept_def)

lemma stops_kept_trans: "stops_kept ps ps' \<Longrightarrow> stops_kept ps' ps'' \<Longrightarrow> stops_kept ps ps''"
  unfolding stops_kept_def by (metis order_trans)

lemma stops_kept_move:
  assumes "unique_ids ps" "p \<in> set ps" "entry_positive p"
  shows "stops_kept ps (put_row pos_id (move_stop e p) ps)"
  unfolding stops_kept_def
proof
  fix q assume q: "q \<in> set ps"
  show "\<exists>p' \<in> set (put_row pos_id (move_stop e p) ps). pos_id p' = pos_id q \<and> protective_stop q \<le> protective_stop p'"
  proof (cases "pos_id q = pos_id p")
    case True
    then have "q = p" using position_table.same [OF assms(1) q assms(2)] by simp
    then show ?thesis using put_row_in_set [OF assms(2), of pos_id "move_stop e p"] move_stop_tightens [OF assms(3)] move_stop_id by metis
  next
    case False
    then have "q \<in> set (put_row pos_id (move_stop e p) ps)" using q by (intro put_row_other) (simp_all add: move_stop_id)
    then show ?thesis by auto
  qed
qed

lemma advance_flat_positions:
  assumes "advance_flat today r symbol market stock_trend now db = Inr (r', db')"
  shows "positions db' = positions db"
proof -
  have entry: "positions (snd x) = positions db" if "create_entry_candidate r symbol market script bottom te now db = Inr x"
    for r script bottom te x and db :: "'a store_scheme"
  proof -
    obtain c db1 where c: "get_or_create_risk_config db = (c, db1)" by fastforce
    then have "positions db1 = positions db" using risk_config_sel(2) [of db] by simp
    then show ?thesis using that unfolding create_entry_candidate_def c Let_def prod.case
      by (auto split: option.splits sum.splits if_splits)
  qed
  have wait: "positions (snd x) = positions db" if "await_trigger today r symbol market bottom now db = Inr x" for bottom x
    using that entry unfolding await_trigger_def Let_def split_beta
    by (auto split: sum.splits if_splits)
  have "positions (snd x) = positions db" if "advance_flat today r symbol market stock_trend now db = Inr x" for x
    using that wait unfolding advance_flat_def follow_structures_def Let_def
    by (auto split: option.splits if_splits)
  from this [OF assms] show ?thesis by simp
qed

lemma advance_positions:
  assumes "advance_state_machine symbol market stock_trend today now db = Inr (r', db')"
  shows "positions db' = positions db \<or> (\<exists>p e. p \<in> set (positions db) \<and> positions db' = put_row pos_id (move_stop e p) (positions db))"
proof -
  obtain r db1 where 1: "get_or_create_trading_state symbol db = (r, db1)" by fastforce
  then have same: "positions db1 = positions db" by (auto simp: get_or_create_trading_state_def split: option.splits)
  note body = assms(1) [unfolded advance_state_machine_def Let_def 1 prod.case]
  obtain c db2 where 2: "reconcile_pending_entry symbol market db1 = Inr (c, db2)" using body by (auto split: sum.splits)
  note body' = body [unfolded 2 sum.case prod.case]
  have same2: "positions db2 = positions db" using reconcile_frame [OF 2] same by simp
  have "positions (snd x) = positions db2 \<or> advance_cleared today r symbol market stock_trend now db2 = Inr x"
    if "(case c of None \<Rightarrow> if cooling today r then Inr (transition r COOLDOWN (''cooldown active until '' @ iso_date (the (ts_cooldown_until r))) zh_sm_cooldown db2)
           else advance_cleared today r symbol market stock_trend now db2
         | Some k \<Rightarrow> if co_start_cooldown k then Inr (cool_down today r (co_target_state k) (co_reason k) (correction_next_wait (co_status k)) db2)
           else Inr (transition r (co_target_state k) (co_reason k) (correction_next_wait (co_status k)) db2)) = Inr x" for x
    using that by (auto split: option.splits if_splits)
  from this [of "(r', db')"] body' consider "positions db' = positions db2" | "advance_cleared today r symbol market stock_trend now db2 = Inr (r', db')"
    by (cases c) auto
  then show ?thesis
  proof cases
    case 2
    have "positions db' = positions db2 \<or> (\<exists>p e. p \<in> set (positions db2) \<and> positions db' = put_row pos_id (move_stop e p) (positions db2))"
    proof (cases "latest_of symbol DAILY db2 = None \<or> open_position_of symbol db2 = None")
      case True
      then show ?thesis using 2 by (auto simp: advance_cleared_def split: option.splits dest: transition_D advance_flat_positions)
    next
      case False
      then obtain p where p: "open_position_of symbol db2 = Some p" "manage_held_position r p market now db2 = Inr (r', db')"
        using 2 by (auto simp: advance_cleared_def)
      then have "p \<in> set (positions db2)" by (auto simp: open_position_of_def dest: scalar_filter_SomeD)
      then show ?thesis using manage_held_position_moves [OF p(2)] by auto
    qed
    then show ?thesis by (simp add: same2)
  qed (simp add: same2)
qed

lemma signal_after_position_signal: "signal_exists (pos_symbol p) ty (position_signal ty action n p why now db)"
  by (auto simp: position_signal_def signal_exists_def pending_signals_def blank_signal_def)

section \<open>Properties\<close>

text \<open>C14. A new entry proposal is made only in a market and a trend that allow it, for a symbol without an open
  position and without another pending proposal; its source is a 60-minute bottom that is still
  valid, its stop lies below its price, and its loss down to the stop stays within the risk budget of
  the last synchronised account.\<close>

theorem entry_proposals_are_sound:
  assumes "advance_state_machine symbol market stock_trend today now db = Inr (r', db')"
    and "sg \<in> set (trade_signals db')" "sg_type sg = ENTRY" "sg_id sg \<notin> sg_id ` set (trade_signals db)"
  shows "market \<in> set TRADEABLE_MARKETS \<and> stock_trend \<in> set ENTRY_TRENDS \<and> open_position_of symbol db = None
    \<and> pending_signals symbol ENTRY db = [] \<and> ts_state r' = ENTRY_CANDIDATE
    \<and> (\<exists>bottom. valid_bottom db symbol bottom \<and> sound_entry db symbol market bottom sg)"
  using assms(1)
proof (cases rule: advance_signals)
  case (withdrawn q status reason)
  then have "sg_id sg \<in> sg_id ` set (trade_signals db)"
    using assms(2) by (metis image_set map_rid_put_row imageI)
  then show ?thesis using assms(4) by simp
next
  case advanced
  then have "adds_signal (\<lambda>sg. sg_type sg = ENTRY \<longrightarrow> market \<in> set TRADEABLE_MARKETS \<and> stock_trend \<in> set ENTRY_TRENDS
    \<and> open_position_of symbol db = None \<and> (\<exists>b. valid_bottom db symbol b \<and> sound_entry db symbol market b sg)
    \<and> ts_state r' = ENTRY_CANDIDATE) db db'"
    using assms(2,4) unfolding keeps_or_adds_def by (metis imageI)
  then obtain x where x: "trade_signals db' = trade_signals db @ [x]" "pending_signals (sg_symbol x) (sg_type x) db = []"
    "sg_type x = ENTRY \<longrightarrow> market \<in> set TRADEABLE_MARKETS \<and> stock_trend \<in> set ENTRY_TRENDS
    \<and> open_position_of symbol db = None \<and> (\<exists>b. valid_bottom db symbol b \<and> sound_entry db symbol market b x)
    \<and> ts_state r' = ENTRY_CANDIDATE"
    unfolding adds_signal_def by blast
  have "sg = x" using assms(2,4) unfolding x(1) by (metis Un_iff empty_iff imageI insert_iff list.set(1,2) set_append)
  then show ?thesis using x(2,3) assms(3) by (auto simp: sound_entry_def)
qed

text \<open>C16. However often and for whichever symbols the machine runs, there is never a second pending signal of
  one type for one symbol.\<close>

theorem never_two_pending_signals:
  assumes "one_pending db" "foldM advance_step calls db = Inr db'"
  shows "one_pending db'"
  by (rule foldM_invariant [OF assms(2), of one_pending])
    (auto simp: advance_step_def assms(1) split: sum.splits prod.splits intro: advance_one_pending)

text \<open>C17. However often the machine runs, the protective stop of no entry_positive position is ever lowered: every
  position is still there, with a stop at least as high.\<close>

theorem protective_stops_never_lowered:
  assumes "unique_ids (positions db)" "\<forall>p \<in> set (positions db). entry_positive p" "foldM advance_step calls db = Inr db'"
  shows "stops_kept (positions db) (positions db')"
proof -
  define I where "I ps \<longleftrightarrow> unique_ids ps \<and> (\<forall>p \<in> set ps. entry_positive p) \<and> stops_kept (positions db) ps" for ps
  have "I (positions db')"
  proof (rule foldM_invariant [OF assms(3)])
    show "I (positions db)" using assms(1,2) by (simp add: I_def)
    fix c s s'
    assume I: "I (positions s)" and step: "advance_step c s = Inr s'"
    obtain symbol market stock_trend today now where c: "c = (symbol, market, stock_trend, today, now)" by (cases c)
    then obtain r' where "advance_state_machine symbol market stock_trend today now s = Inr (r', s')"
      using step by (auto simp: advance_step_def split: sum.splits)
    from advance_positions [OF this] consider "positions s' = positions s"
      | p e where "p \<in> set (positions s)" "positions s' = put_row pos_id (move_stop e p) (positions s)" by blast
    then show "I (positions s')"
    proof cases
      case 1
      then show ?thesis using I by (simp add: I_def)
    next
      case (2 p e)
      have "entry_positive (move_stop e p)" using I 2(1) trailed_stop.still_applies by (auto simp: I_def)
      then have "\<forall>q \<in> set (positions s'). entry_positive q" using I set_put_row_subset [of pos_id "move_stop e p" "positions s"]
        unfolding 2(2) I_def by blast
      moreover have "stops_kept (positions s) (positions s')"
        unfolding 2(2) using I 2(1) by (intro stops_kept_move) (auto simp: I_def)
      ultimately show ?thesis using I 2(2) stops_kept_trans by (auto simp: I_def)
    qed
  qed
  then show ?thesis by (simp add: I_def)
qed

text \<open>A position whose latest daily close is at or below its stop always gets an exit signal, unless the
  symbol is cooling down or a pending entry proposal is corrected first.\<close>

theorem hard_stop_is_proposed:
  assumes "pending_signals symbol ENTRY db = []" "\<forall>r. state_of symbol db = Some r \<longrightarrow> \<not> cooling today r"
    and "latest_of symbol DAILY db = Some (bar, ind)" "open_position_of symbol db = Some p" "kl_close bar \<le> pos_stop_price p"
  shows "\<exists>r' db'. advance_state_machine symbol market stock_trend today now db = Inr (r', db')
    \<and> ts_state r' = EXIT_CANDIDATE \<and> signal_exists symbol EXIT db'"
proof -
  obtain r db1 where 1: "get_or_create_trading_state symbol db = (r, db1)" by fastforce
  then have warm: "\<not> cooling today r" using assms(2)
    by (auto simp: get_or_create_trading_state_def cooling_def new_state_def split: option.splits)
  have same: "trade_signals db1 = trade_signals db" "positions db1 = positions db" "klines db1 = klines db" "indicators db1 = indicators db"
    using 1 by (auto simp: get_or_create_trading_state_def split: option.splits)
  then have "reconcile_pending_entry symbol market db1 = Inr (None, db1)"
    using assms(1) by (simp add: reconcile_pending_entry_def pending_signals_def order_desc_def)
  moreover have p: "open_position_of symbol db1 = Some p" "pos_symbol p = symbol"
    using assms(4) by (auto simp: open_position_of_def same dest: scalar_filter_SomeD)
  moreover have "latest_of symbol DAILY db1 = Some (bar, ind)"
    using assms(3) by (simp add: latest_of_def latest_bar_def indicator_at_def same cong: option.case_cong)
  ultimately have run: "advance_state_machine symbol market stock_trend today now db =
      Inr (exit_candidate r (p\<lparr>pos_current_r := current_r_of p (kl_close bar)\<rparr>) zh_sm_hard_stop ''hard stop triggered'' zh_sm_wait_exit now db1)"
    using assms(5) warm 1 by (simp add: advance_state_machine_def advance_cleared_def manage_held_position_def Let_def)
  obtain r' db' where x: "exit_candidate r (p\<lparr>pos_current_r := current_r_of p (kl_close bar)\<rparr>) zh_sm_hard_stop ''hard stop triggered'' zh_sm_wait_exit now db1 = (r', db')"
    by fastforce
  let ?q = "p\<lparr>pos_current_r := current_r_of p (kl_close bar)\<rparr>"
  have "signal_exists (pos_symbol ?q) EXIT (create_exit_signal ?q zh_sm_hard_stop now (put_position ?q db1))"
    unfolding create_exit_signal_def by (rule signal_after_position_signal)
  moreover have "trade_signals db' = trade_signals (create_exit_signal ?q zh_sm_hard_stop now (put_position ?q db1))" "ts_state r' = EXIT_CANDIDATE"
    using x by (auto simp: exit_candidate_def dest: transition_D)
  ultimately have "signal_exists symbol EXIT db'" "ts_state r' = EXIT_CANDIDATE"
    using p(2) by (simp_all add: signal_exists_def pending_signals_def)
  then show ?thesis using run x by simp
qed

text \<open>A symbol that cools down is not managed at all: its positions and signals stay as they are, whatever its price.\<close>

lemma cooling_suspends_management:
  assumes "pending_signals symbol ENTRY db = []" "state_of symbol db = Some r" "cooling today r"
    and "advance_state_machine symbol market stock_trend today now db = Inr (r', db')"
  shows "positions db' = positions db \<and> trade_signals db' = trade_signals db"
proof -
  have "reconcile_pending_entry symbol market db = Inr (None, db)"
    using assms(1) by (simp add: reconcile_pending_entry_def order_desc_def)
  then show ?thesis using assms(2-4)
    by (auto simp: advance_state_machine_def get_or_create_trading_state_def dest: transition_D)
qed

section \<open>Witnesses\<close>

definition daily_bar :: "real \<Rightarrow> kline" where
  "daily_bar close = \<lparr>kl_symbol = ''AAPL'', kl_timeframe = DAILY, kl_ts = 0, kl_open = 100, kl_high = 110, kl_low = 90,
     kl_close = close, kl_volume = 100, kl_turnover = 10000, kl_data_ok = True, kl_anomaly_reason = []\<rparr>"

text \<open>The breakout of the trigger's witness with a daily bar, an ATR for the stop, and a synchronised account.\<close>

definition entry_store :: store where
  "entry_store = breakout_store\<lparr>klines := daily_bar 103 # klines breakout_store,
     indicators := keyed_row ''AAPL'' DAILY 0 blank_row # keyed_row ''AAPL'' HOUR_60 2 (blank_row\<lparr>in_atr := Some 2\<rparr>)
       # indicators breakout_store,
     portfolio_config := Some (JsonValue ((no_portfolio [])\<lparr>ps_account_equity := 100000\<rparr>))\<rparr>"

lemma entry_store_run:
  "case advance_state_machine ''AAPL'' RISK_ON UPTREND 1 0 entry_store of
     Inl _ \<Rightarrow> False | Inr (r, db) \<Rightarrow> map (\<lambda>s. (sg_type s, sg_shares s, sg_stop_price s, sg_id s)) (trade_signals db) = [(ENTRY, Some 111, Some 94, 1)]"
  by code_simp

theorem entry_proposals_are_sound_witness:
  "\<exists>r' db' sg bottom. advance_state_machine ''AAPL'' RISK_ON UPTREND 1 0 entry_store = Inr (r', db') \<and> trade_signals db' = [sg]
     \<and> ts_state r' = ENTRY_CANDIDATE \<and> sg_shares sg = Some 111 \<and> sg_stop_price sg = Some 94
     \<and> valid_bottom entry_store ''AAPL'' bottom \<and> sound_entry entry_store ''AAPL'' RISK_ON bottom sg"
proof -
  obtain r' db' where run: "advance_state_machine ''AAPL'' RISK_ON UPTREND 1 0 entry_store = Inr (r', db')"
    "map (\<lambda>s. (sg_type s, sg_shares s, sg_stop_price s, sg_id s)) (trade_signals db') = [(ENTRY, Some 111, Some 94, 1)]"
    using entry_store_run by (auto split: sum.splits)
  then obtain sg where sg: "trade_signals db' = [sg]" "sg_type sg = ENTRY" "sg_shares sg = Some 111" "sg_stop_price sg = Some 94"
    by (cases "trade_signals db'") auto
  have "trade_signals entry_store = []" by code_simp
  then have "sg_id sg \<notin> sg_id ` set (trade_signals entry_store)" by simp
  from entry_proposals_are_sound [OF run(1) _ sg(2) this] run(1) sg show ?thesis by auto
qed

lemma done_text_differs: "(zh_trg_done_a @ xs = CHR ''p'' # ys) = False"
proof -
  have "char_of (49::nat) \<noteq> CHR ''p''" by code_simp
  then show ?thesis by (simp add: zh_trg_done_a_def utf8_def)
qed

theorem never_two_pending_signals_witness:
  "\<exists>db'. foldM advance_step [(''AAPL'', RISK_ON, UPTREND, 1, 0), (''AAPL'', RISK_ON, UPTREND, 1, 0)] entry_store = Inr db'
     \<and> length (trade_signals db') = 1 \<and> one_pending db'"
proof -
  have "case foldM advance_step [(''AAPL'', RISK_ON, UPTREND, 1, 0), (''AAPL'', RISK_ON, UPTREND, 1, 0)] entry_store of
      Inl _ \<Rightarrow> False | Inr db \<Rightarrow> length (trade_signals db) = 1"
    by (code_simp, simp only: append_assoc append_Cons done_text_differs if_False, code_simp)
  then obtain db' where run: "foldM advance_step [(''AAPL'', RISK_ON, UPTREND, 1, 0), (''AAPL'', RISK_ON, UPTREND, 1, 0)] entry_store = Inr db'"
    "length (trade_signals db') = 1" by (auto split: sum.splits)
  have "one_pending entry_store" by code_simp
  from never_two_pending_signals [OF this run(1)] run show ?thesis by blast
qed

text \<open>A position entry_positive at 100 with its stop at 95, and a daily close.\<close>

definition held_store :: "real \<Rightarrow> store" where
  "held_store close = empty_store\<lparr>klines := [daily_bar close], indicators := [keyed_row ''AAPL'' DAILY 0 (blank_row\<lparr>in_atr := Some 2\<rparr>)],
     positions := [(new_position ''AAPL'' 100 95 10 50 0)\<lparr>pos_id := 1\<rparr>]\<rparr>"

theorem protective_stops_never_lowered_witness:
  "\<exists>db'. foldM advance_step [(''AAPL'', RISK_ON, UPTREND, 1, 0)] (held_store 106) = Inr db'
     \<and> map protective_stop (positions (held_store 106)) = [95] \<and> map protective_stop (positions db') = [100]
     \<and> stops_kept (positions (held_store 106)) (positions db')"
proof -
  have "case foldM advance_step [(''AAPL'', RISK_ON, UPTREND, 1, 0)] (held_store 106) of
      Inl _ \<Rightarrow> False | Inr db \<Rightarrow> map protective_stop (positions db) = [100]" by code_simp
  then obtain db' where run: "foldM advance_step [(''AAPL'', RISK_ON, UPTREND, 1, 0)] (held_store 106) = Inr db'"
    "map protective_stop (positions db') = [100]" by (auto split: sum.splits)
  have "unique_ids (positions (held_store 106))" "\<forall>p \<in> set (positions (held_store 106)). entry_positive p"
    "map protective_stop (positions (held_store 106)) = [95]" by code_simp+
  with protective_stops_never_lowered [OF this(1,2) run(1)] run show ?thesis by (intro exI [of _ db'] conjI)
qed

theorem hard_stop_is_proposed_witness:
  "\<exists>r' db'. advance_state_machine ''AAPL'' RISK_OFF SIDEWAYS 1 0 (held_store 94) = Inr (r', db')
    \<and> ts_state r' = EXIT_CANDIDATE \<and> signal_exists ''AAPL'' EXIT db' \<and> \<not> signal_exists ''AAPL'' EXIT (held_store 94)"
proof -
  define bar where "bar = daily_bar 94"
  define ind where "ind = keyed_row ''AAPL'' DAILY 0 (blank_row\<lparr>in_atr := Some 2\<rparr>)"
  define p where "p = (new_position ''AAPL'' 100 95 10 50 0)\<lparr>pos_id := 1\<rparr>"
  have "pending_signals ''AAPL'' ENTRY (held_store 94) = []" "state_of ''AAPL'' (held_store 94) = None"
    "latest_of ''AAPL'' DAILY (held_store 94) = Some (bar, ind)" "open_position_of ''AAPL'' (held_store 94) = Some p"
    "kl_close bar \<le> pos_stop_price p" "\<not> signal_exists ''AAPL'' EXIT (held_store 94)"
    unfolding bar_def ind_def p_def by code_simp+
  note facts = this
  have "\<forall>r. state_of ''AAPL'' (held_store 94) = Some r \<longrightarrow> \<not> cooling 1 r" using facts(2) by simp
  from hard_stop_is_proposed [OF facts(1) this facts(3,4,5)] facts(6) show ?thesis by simp
qed

end
