(* ===== verification/Approvals.thy ===== *)
theory Approvals
  imports State_Machine Validator
begin

text \<open>
  app/services/approvals.py: the manual decision on a signal. Approving an entry corrects the
  proposal once more and opens the simulated position; approving a reduction or an exit shrinks or
  closes it and starts a cool-down. The state of the symbol is set without an entry in the log.
\<close>

section \<open>The state without a log\<close>

definition set_state :: "string \<Rightarrow> trading_phase \<Rightarrow> string \<Rightarrow> 'z store_scheme \<Rightarrow> 'z store_scheme" where
  "set_state symbol s reason db =
     (case state_of symbol db of
        None \<Rightarrow> db
      | Some r \<Rightarrow> put_state (r\<lparr>ts_state := s, ts_last_reason := reason\<rparr>) db)"

definition cooldown_after_exit :: "int \<Rightarrow> string \<Rightarrow> 'z store_scheme \<Rightarrow> 'z store_scheme" where
  "cooldown_after_exit today symbol db =
     (let (c, db1) = get_or_create_risk_config db
      in case state_of symbol db1 of
           None \<Rightarrow> db1
         | Some r \<Rightarrow> put_state (r\<lparr>ts_state := COOLDOWN, ts_cooldown_until := Some (today + rk_cooldown_days c),
             ts_last_reason := ''simulated exit approved, cooldown started''\<rparr>) db1)"

section \<open>Approving\<close>

text \<open>Without a stored market state the market counts as RISK_ON.\<close>

definition approval_market :: "'z store_scheme \<Rightarrow> market_state" where
  "approval_market db = (case latest_market db of None \<Rightarrow> RISK_ON | Some m \<Rightarrow> ms_state m)"

definition approved_position :: "trade_signal \<Rightarrow> int \<Rightarrow> int \<Rightarrow> position" where
  "approved_position sg i now =
     (new_position (sg_symbol sg) (the (sg_entry_price sg)) (the (sg_stop_price sg)) (the (sg_shares sg)) (opt_or (sg_risk_amount sg) 0) now)
       \<lparr>pos_id := i, pos_entry_signal_id := sg_id sg\<rparr>"

text \<open>
  The new row violates the unique symbol at the commit when the symbol has a row already, open or
  closed. The second part of a result is what the database holds afterwards.
\<close>

definition approve_entry :: "trade_signal \<Rightarrow> int \<Rightarrow> 'z store_scheme \<Rightarrow> (exn + unit) \<times> 'z store_scheme" where
  "approve_entry sg now db =
     (if sg_stop_price sg = None \<or> sg_entry_price sg = None \<or> \<not> opt_truthy (sg_shares sg)
      then (Inl (ValueError ''entry signal missing stop, entry, or shares''), db)
      else if sg_source_structure_id sg = None \<or> sg_trigger_timeframe sg \<noteq> Some MIN_15 \<or> sg_trigger_ts sg = None
        \<or> sg_trigger_level sg = None
      then (Inl (ValueError ''entry signal missing structure or trigger source''), db)
      else (case reconcile_pending_entry (sg_symbol sg) (approval_market db) db of
              Inl e \<Rightarrow> (Inl e, db)
            | Inr (Some c, db1) \<Rightarrow> (Inl (ValueError (''entry signal is no longer valid: '' @ co_reason c)), db1)
            | Inr (None, db1) \<Rightarrow>
                if sg_symbol sg \<in> pos_symbol ` set (positions db1)
                then (Inl (IntegrityError ''UNIQUE constraint failed: positions.symbol''), db1)
                else (Inr (), set_state (sg_symbol sg) IN_POSITION ''manual approval created simulated position''
                       (db1\<lparr>positions := positions db1 @ [approved_position sg (next_id pos_id (positions db1)) now]\<rparr>))))"

definition approve_reduce :: "trade_signal \<Rightarrow> int \<Rightarrow> 'z store_scheme \<Rightarrow> 'z store_scheme" where
  "approve_reduce sg today db =
     (case open_position_of (sg_symbol sg) db of
        None \<Rightarrow> db
      | Some p \<Rightarrow>
          if \<not> opt_truthy (sg_shares sg) then db
          else (let left = max 0 (pos_shares p - the (sg_shares sg))
                in if left = 0
                   then cooldown_after_exit today (sg_symbol sg)
                     (put_position (p\<lparr>pos_shares := left, pos_status := POS_CLOSED, pos_exit_reason := ''fully reduced by approval''\<rparr>) db)
                   else set_state (sg_symbol sg) IN_POSITION ''manual approval reduced simulated position''
                     (put_position (p\<lparr>pos_shares := left\<rparr>) db)))"

definition approve_exit :: "trade_signal \<Rightarrow> int \<Rightarrow> 'z store_scheme \<Rightarrow> 'z store_scheme" where
  "approve_exit sg today db =
     (case open_position_of (sg_symbol sg) db of
        None \<Rightarrow> db
      | Some p \<Rightarrow> cooldown_after_exit today (sg_symbol sg)
          (put_position (p\<lparr>pos_status := POS_CLOSED, pos_exit_reason := sg_reason sg\<rparr>) db))"

definition record_decision :: "trade_signal \<Rightarrow> signal_status \<Rightarrow> string \<Rightarrow> string \<Rightarrow> 'z store_scheme \<Rightarrow> 'z store_scheme" where
  "record_decision sg status text remark db =
     (put_signal (sg\<lparr>sg_status := status\<rparr>) db)\<lparr>approval_records := approval_records db @
        [\<lparr>ar_signal_id = sg_id sg, ar_decision = text, ar_note = remark\<rparr>]\<rparr>"

definition approve_signal :: "int \<Rightarrow> string \<Rightarrow> int \<Rightarrow> int \<Rightarrow> 'z store_scheme \<Rightarrow> (exn + unit) \<times> 'z store_scheme" where
  "approve_signal i remark today now db =
     (case get_row sg_id i (trade_signals db) of
        None \<Rightarrow> (Inl (ValueError (''signal '' @ str_int i @ '' not found'')), db)
      | Some sg \<Rightarrow>
          if sg_status sg \<noteq> PENDING then (Inl (ValueError (''signal '' @ str_int i @ '' is not pending'')), db)
          else (case (case sg_type sg of
                        ENTRY \<Rightarrow> approve_entry sg now db
                      | REDUCE \<Rightarrow> (Inr (), approve_reduce sg today db)
                      | EXIT \<Rightarrow> (Inr (), approve_exit sg today db)) of
                  (Inl e, db1) \<Rightarrow> (Inl e, db1)
                | (Inr _, db1) \<Rightarrow> (Inr (), record_decision sg APPROVED ''APPROVED'' remark db1)))"

definition reject_signal :: "int \<Rightarrow> string \<Rightarrow> 'z store_scheme \<Rightarrow> (exn + unit) \<times> 'z store_scheme" where
  "reject_signal i remark db =
     (case get_row sg_id i (trade_signals db) of
        None \<Rightarrow> (Inl (ValueError (''signal '' @ str_int i @ '' not found'')), db)
      | Some sg \<Rightarrow> (Inr (), record_decision sg REJECTED ''REJECTED'' remark db))"

section \<open>Lemmas\<close>

lemma set_state_sel [simp]:
  "positions (set_state symbol s why db) = positions db"
  "trade_signals (set_state symbol s why db) = trade_signals db"
  "transition_logs (set_state symbol s why db) = transition_logs db"
  by (auto simp: set_state_def split: option.splits)

lemma cooldown_after_exit_sel [simp]:
  "positions (cooldown_after_exit today symbol db) = positions db"
  "trade_signals (cooldown_after_exit today symbol db) = trade_signals db"
  "transition_logs (cooldown_after_exit today symbol db) = transition_logs db"
  by (simp_all add: cooldown_after_exit_def split_beta Let_def split: option.splits)

lemma record_decision_sel [simp]:
  "positions (record_decision sg st t n db) = positions db"
  "transition_logs (record_decision sg st t n db) = transition_logs db"
  "trade_signals (record_decision sg st t n db) = put_row sg_id (sg\<lparr>sg_status := st\<rparr>) (trade_signals db)"
  by (simp_all add: record_decision_def)

lemma one_key_one_row:
  assumes "distinct (map f xs)" "\<forall>y \<in> set xs. f y = k" "x \<in> set xs"
  shows "xs = [x]"
proof (cases xs)
  case (Cons y ys)
  have "ys = []"
  proof (rule ccontr)
    assume "ys \<noteq> []"
    then obtain z where "z \<in> set ys" by (cases ys) auto
    then show False using assms(1,2) Cons by (auto simp: image_iff)
  qed
  then show ?thesis using assms(3) Cons by simp
qed (use assms(3) in simp)

lemma latest_pending_is:
  assumes "one_pending db" "sg \<in> set (trade_signals db)" "sg_type sg = ENTRY" "sg_status sg = PENDING"
  shows "pending_signals (sg_symbol sg) ENTRY db = [sg]"
proof -
  let ?P = "\<lambda>s. sg_symbol s = sg_symbol sg \<and> sg_type s = ENTRY \<and> sg_status s = PENDING"
  have "distinct (map (\<lambda>s. (sg_symbol s, sg_type s)) (filter ?P (trade_signals db)))"
    using assms(1) distinct_map_filter_filter [of "\<lambda>s. (sg_symbol s, sg_type s)" "\<lambda>s. sg_status s = PENDING" "trade_signals db" ?P]
    by (simp add: one_pending_def conj_ac)
  from one_key_one_row [OF this, of "(sg_symbol sg, ENTRY)" sg] assms have "filter ?P (trade_signals db) = [sg]" by simp
  then show ?thesis by (simp add: pending_signals_def)
qed

lemma order_desc_single [simp]: "order_desc f [x] = [x]"
  by (simp add: order_desc_def)

lemma approve_entry_result:
  assumes "approve_entry sg now db = (res, db1)"
  shows "(\<exists>x. res = Inl x) \<and> positions db1 = positions db
    \<or> res = Inr () \<and> reconcile_pending_entry (sg_symbol sg) (approval_market db) db = Inr (None, db)
      \<and> sg_stop_price sg \<noteq> None \<and> sg_entry_price sg \<noteq> None \<and> opt_truthy (sg_shares sg)
      \<and> sg_symbol sg \<notin> pos_symbol ` set (positions db)
      \<and> positions db1 = positions db @ [approved_position sg (next_id pos_id (positions db)) now]"
proof (cases "reconcile_pending_entry (sg_symbol sg) (approval_market db) db")
  case (Inl e)
  then show ?thesis using assms by (auto simp: approve_entry_def split: if_splits)
next
  case (Inr x)
  obtain c db2 where x: "x = (c, db2)" by (cases x)
  note frame = reconcile_frame [OF Inr [unfolded x]]
  show ?thesis
  proof (cases c)
    case None
    then have "db2 = db" using frame by simp
    then show ?thesis using assms Inr x None by (auto simp: approve_entry_def split: if_splits)
  next
    case (Some k)
    then show ?thesis using assms Inr x frame by (auto simp: approve_entry_def split: if_splits)
  qed
qed

lemma approve_signal_entry:
  assumes "get_row sg_id i (trade_signals db) = Some sg" "sg_type sg = ENTRY" "sg_status sg = PENDING"
    and "approve_entry sg now db = (res, db1)"
  shows "approve_signal i remark today now db =
    (case res of Inl e \<Rightarrow> (Inl e, db1) | Inr _ \<Rightarrow> (Inr (), record_decision sg APPROVED ''APPROVED'' remark db1))"
  using assms by (cases res) (simp_all add: approve_signal_def)

section \<open>Properties\<close>

text \<open>C20. Approving an entry proposal succeeds only while nothing speaks against it: it is pending, its structure
  neither failed nor was invalidated, its trigger holds, fewer than four 15-minute bars followed, and
  the market allows entries; then exactly one position is opened, with the prices and shares of the
  proposal, and the signal is approved. Otherwise no position is opened.\<close>

theorem approved_entry_is_still_valid:
  assumes "one_pending db" "get_row sg_id i (trade_signals db) = Some sg" "sg_type sg = ENTRY"
    and "approve_signal i remark today now db = (result, db')"
  shows "(result = Inr () \<longrightarrow> sg_status sg = PENDING
      \<and> structure_failure (event_by_id (sg_source_structure_id sg) db) db = None
      \<and> entry_trigger_failure_reason sg db = Inr None \<and> length (bars_after_trigger sg db) < 4
      \<and> approval_market db \<in> set TRADEABLE_MARKETS \<and> sg_symbol sg \<notin> pos_symbol ` set (positions db)
      \<and> (\<exists>p. positions db' = positions db @ [p] \<and> pos_symbol p = sg_symbol sg \<and> pos_status p = POS_OPEN
          \<and> Some (pos_entry_price p) = sg_entry_price sg \<and> Some (pos_stop_price p) = sg_stop_price sg
          \<and> Some (pos_shares p) = sg_shares sg \<and> pos_entry_signal_id p = sg_id sg))
    \<and> (result \<noteq> Inr () \<longrightarrow> positions db' = positions db)"
proof (cases "sg_status sg = PENDING")
  case False
  then show ?thesis using assms(2,4) by (auto simp: approve_signal_def)
next
  case pending: True
  have sg: "sg \<in> set (trade_signals db)" using get_row_SomeD [OF assms(2)] by simp
  have newest: "scalar (order_desc sg_created_at (pending_signals (sg_symbol sg) ENTRY db)) = Some sg"
    using latest_pending_is [OF assms(1) sg assms(3) pending] by simp
  obtain res db1 where e: "approve_entry sg now db = (res, db1)" by fastforce
  note out = assms(4) [unfolded approve_signal_entry [OF assms(2,3) pending e]]
  from approve_entry_result [OF e] show ?thesis
  proof (elim disjE conjE exE)
    fix x assume "res = Inl x" "positions db1 = positions db"
    then show ?thesis using out by auto
  next
    assume r: "res = Inr ()" "reconcile_pending_entry (sg_symbol sg) (approval_market db) db = Inr (None, db)"
      and sound: "sg_stop_price sg \<noteq> None" "sg_entry_price sg \<noteq> None" "opt_truthy (sg_shares sg)"
      and fresh: "sg_symbol sg \<notin> pos_symbol ` set (positions db)"
      and db1: "positions db1 = positions db @ [approved_position sg (next_id pos_id (positions db)) now]"
    have nofail: "structure_failure (event_by_id (sg_source_structure_id sg) db) db = None"
      using r(2) by (cases "structure_failure (event_by_id (sg_source_structure_id sg) db) db")
        (simp_all add: reconcile_pending_entry_def newest cancel_signal_def)
    obtain failure where f: "entry_trigger_failure_reason sg db = Inr failure"
      using r(2) by (cases "entry_trigger_failure_reason sg db") (simp_all add: reconcile_pending_entry_def newest nofail)
    from newest f have kept: "failure = None \<and> length (bars_after_trigger sg db) < 4 \<and> approval_market db \<in> set TRADEABLE_MARKETS"
    proof (cases rule: reconcile_cases [where market = "approval_market db"])
      case (withdrawn status reason target cooldown)
      then show ?thesis using r(2) by (simp add: cancel_signal_def)
    qed simp
    have "positions db' = positions db @ [approved_position sg (next_id pos_id (positions db)) now]" "result = Inr ()"
      using out r(1) db1 by auto
    moreover have "pos_symbol (approved_position sg k now) = sg_symbol sg" "pos_status (approved_position sg k now) = POS_OPEN"
      "Some (pos_entry_price (approved_position sg k now)) = sg_entry_price sg"
      "Some (pos_stop_price (approved_position sg k now)) = sg_stop_price sg"
      "Some (pos_shares (approved_position sg k now)) = sg_shares sg" "pos_entry_signal_id (approved_position sg k now) = sg_id sg" for k
      using sound by (auto simp: approved_position_def new_position_def opt_truthy_iff)
    ultimately show ?thesis using kept f pending fresh nofail by auto
  qed
qed

text \<open>A symbol that has been traded once can never be entered by approval again: the closed position keeps
  the unique symbol, so the approval of every later entry proposal fails at the commit and opens nothing.\<close>

theorem traded_symbol_cannot_be_approved:
  assumes "get_row sg_id i (trade_signals db) = Some sg" "sg_type sg = ENTRY"
    and "sg_symbol sg \<in> pos_symbol ` set (positions db)"
  shows "\<exists>e db'. approve_signal i remark today now db = (Inl e, db') \<and> positions db' = positions db"
proof -
  obtain result db' where run: "approve_signal i remark today now db = (result, db')" by fastforce
  show ?thesis
  proof (cases "sg_status sg = PENDING")
    case False
    then show ?thesis using assms(1) by (simp add: approve_signal_def)
  next
    case True
    obtain res db1 where e: "approve_entry sg now db = (res, db1)" by fastforce
    from approve_entry_result [OF e] assms(3) obtain x where "res = Inl x" "positions db1 = positions db" by blast
    then show ?thesis using approve_signal_entry [OF assms(1,2) True e] by simp
  qed
qed

section \<open>Witnesses\<close>

text \<open>The fresh proposal of the trigger's witness: a bottom, its breakout, and no bar since.\<close>

definition fresh_proposal :: trade_signal where
  "fresh_proposal = waiting_proposal\<lparr>sg_trigger_ts := Some (minutes 135), sg_trigger_level := Some 101, sg_entry_price := Some 103\<rparr>"

definition proposal_store :: store where
  "proposal_store = breakout_store\<lparr>trade_signals := [fresh_proposal]\<rparr>"

theorem approved_entry_is_still_valid_witness:
  "\<exists>db' p. approve_signal 1 [] 0 0 proposal_store = (Inr (), db') \<and> positions db' = [p] \<and> pos_symbol p = ''AAPL''
     \<and> pos_entry_price p = 103 \<and> pos_stop_price p = 95"
proof -
  have hyps: "one_pending proposal_store" "get_row sg_id 1 (trade_signals proposal_store) = Some fresh_proposal"
    "sg_type fresh_proposal = ENTRY" "positions proposal_store = []" "fst (approve_signal 1 [] 0 0 proposal_store) = Inr ()" by code_simp+
  obtain db' where run: "approve_signal 1 [] 0 0 proposal_store = (Inr (), db')" using hyps(5) by (metis prod.collapse)
  have "sg_symbol fresh_proposal = ''AAPL''" "sg_entry_price fresh_proposal = Some 103" "sg_stop_price fresh_proposal = Some 95" by code_simp+
  with approved_entry_is_still_valid [OF hyps(1-3) run] run hyps(4) show ?thesis by auto
qed

theorem traded_symbol_cannot_be_approved_witness:
  "\<exists>e db'. approve_signal 1 [] 0 0 (proposal_store\<lparr>positions := [(new_position ''AAPL'' 100 95 10 50 0)\<lparr>pos_status := POS_CLOSED\<rparr>]\<rparr>) = (Inl e, db')
     \<and> length (positions db') = 1"
proof -
  let ?db = "proposal_store\<lparr>positions := [(new_position ''AAPL'' 100 95 10 50 0)\<lparr>pos_status := POS_CLOSED\<rparr>]\<rparr>"
  have "get_row sg_id 1 (trade_signals ?db) = Some fresh_proposal" "sg_type fresh_proposal = ENTRY"
    "sg_symbol fresh_proposal \<in> pos_symbol ` set (positions ?db)" "length (positions ?db) = 1" by code_simp+
  then show ?thesis using traded_symbol_cannot_be_approved [of 1 ?db fresh_proposal "[]" 0 0] by auto
qed

text \<open>
  An approval sets the state without a log entry, so the log no longer replays to the state.
\<close>

lemma approval_is_not_logged:
  "log_ok (proposal_store\<lparr>trading_states := [new_state ''AAPL'']\<rparr>)
   \<and> \<not> log_ok (snd (approve_signal 1 [] 0 0 (proposal_store\<lparr>trading_states := [new_state ''AAPL'']\<rparr>)))"
  by code_simp

end
