(* ===== verification/Indicators.thy ===== *)
theory Indicators
  imports Store
begin

text \<open>
  app/services/indicators.py: the technical indicators of a series of bars (moving averages, MACD,
  ATR, Bollinger bands, RSI, KDJ) and the table of indicator rows. The lemmas compare the running
  sums with the averages they stand for and bound the oscillators.
\<close>

section \<open>Averages\<close>

fun ema_from :: "real \<Rightarrow> real option \<Rightarrow> real list \<Rightarrow> real list" where
  "ema_from alpha current [] = []"
| "ema_from alpha current (v # vs) =
     (let c = (case current of None \<Rightarrow> v | Some x \<Rightarrow> alpha * v + (1 - alpha) * x)
      in c # ema_from alpha (Some c) vs)"

definition ema :: "real list \<Rightarrow> nat \<Rightarrow> real list" where
  "ema values width = ema_from (2 / (real width + 1)) None values"

text \<open>The running total over all the values, from the value at an index on.\<close>

fun rolling_from :: "real list \<Rightarrow> nat \<Rightarrow> nat \<Rightarrow> real \<Rightarrow> real list \<Rightarrow> real option list" where
  "rolling_from values window i acc [] = []"
| "rolling_from values window i acc (v # vs) =
     (let t = (if window \<le> i then acc + v - values ! (i - window) else acc + v)
      in (if window \<le> i + 1 then Some (t / real window) else None) # rolling_from values window (i + 1) t vs)"

definition rolling_average :: "real list \<Rightarrow> nat \<Rightarrow> real option list" where
  "rolling_average values window = rolling_from values window 0 0 values"

definition window_of :: "'a list \<Rightarrow> nat \<Rightarrow> nat \<Rightarrow> 'a list" where
  "window_of values window i = take window (drop (i + 1 - window) values)"

text \<open>The square root is not computed when an operation is evaluated.\<close>

definition real_sqrt :: "real \<Rightarrow> real" where
  "real_sqrt x = sqrt x"

declare real_sqrt_def [code del]

definition rolling_std :: "real list \<Rightarrow> nat \<Rightarrow> real option list" where
  "rolling_std values window =
     map (\<lambda>i. if i + 1 < window then None
              else (let w = window_of values window i; mean = sum_list w / real window
                    in Some (real_sqrt (sum_list (map (\<lambda>v. (v - mean)\<^sup>2) w) / real window)))) [0..<length values]"

section \<open>RSI and KDJ\<close>

definition rsi_value :: "real \<Rightarrow> real \<Rightarrow> real" where
  "rsi_value gain loss = (if loss = 0 then 100 else 100 - 100 / (1 + gain / loss))"

definition last_n :: "nat \<Rightarrow> 'a list \<Rightarrow> 'a list" where
  "last_n n xs = drop (length xs - n) xs"

fun rsi_from :: "nat \<Rightarrow> nat \<Rightarrow> real \<Rightarrow> real list \<Rightarrow> real list \<Rightarrow> real \<Rightarrow> real \<Rightarrow> real list \<Rightarrow> real option list" where
  "rsi_from period i previous gains losses avg_gain avg_loss [] = []"
| "rsi_from period i previous gains losses avg_gain avg_loss (v # vs) =
     (let change = v - previous; gs = gains @ [max change 0]; ls = losses @ [max (- change) 0]
      in if i < period then None # rsi_from period (i + 1) v gs ls avg_gain avg_loss vs
         else (let g = (if i = period then sum_list (last_n period gs) / real period
                        else (avg_gain * (real period - 1) + last gs) / real period);
                   l = (if i = period then sum_list (last_n period ls) / real period
                        else (avg_loss * (real period - 1) + last ls) / real period)
               in Some (rsi_value g l) # rsi_from period (i + 1) v gs ls g l vs))"

fun rsi :: "real list \<Rightarrow> nat \<Rightarrow> real option list" where
  "rsi [] period = []"
| "rsi (v # vs) period = None # rsi_from period 1 v [] [] 0 0 vs"

definition kdj_rsv :: "real list \<Rightarrow> real list \<Rightarrow> nat \<Rightarrow> nat \<Rightarrow> real \<Rightarrow> real" where
  "kdj_rsv highs lows period i close =
     (let highest = Max (set (window_of highs period i)); lowest = Min (set (window_of lows period i))
      in if highest = lowest then 50 else (close - lowest) / (highest - lowest) * 100)"

fun kdj_from :: "real list \<Rightarrow> real list \<Rightarrow> nat \<Rightarrow> nat \<Rightarrow> real \<Rightarrow> real \<Rightarrow> real list \<Rightarrow> (real \<times> real \<times> real) option list" where
  "kdj_from highs lows period i k d [] = []"
| "kdj_from highs lows period i k d (close # cs) =
     (if i + 1 < period then None # kdj_from highs lows period (i + 1) k d cs
      else (let k1 = (2 * k + kdj_rsv highs lows period i close) / 3; d1 = (2 * d + k1) / 3
            in Some (k1, d1, 3 * k1 - 2 * d1) # kdj_from highs lows period (i + 1) k1 d1 cs))"

definition kdj :: "real list \<Rightarrow> real list \<Rightarrow> real list \<Rightarrow> nat \<Rightarrow> (real \<times> real \<times> real) option list" where
  "kdj highs lows closes period = kdj_from highs lows period 0 50 50 closes"

section \<open>The rows\<close>

definition true_ranges :: "real list \<Rightarrow> real list \<Rightarrow> real list \<Rightarrow> real list" where
  "true_ranges highs lows closes =
     map (\<lambda>i. if i = 0 then highs ! i - lows ! i
              else (let previous_close = closes ! (i - 1)
                    in max (highs ! i - lows ! i) (max \<bar>highs ! i - previous_close\<bar> \<bar>lows ! i - previous_close\<bar>)))
       [0..<length highs]"

definition turnover_of :: "kline \<Rightarrow> real" where
  "turnover_of b = (if kl_turnover b > 0 then kl_turnover b else kl_close b * kl_volume b)"

fun opt2 :: "('a \<Rightarrow> 'b \<Rightarrow> 'c) \<Rightarrow> 'a option \<Rightarrow> 'b option \<Rightarrow> 'c option" where
  "opt2 f (Some a) (Some b) = Some (f a b)"
| "opt2 f _ _ = None"

text \<open>The MACD line of every bar, its signal line from the 26th bar on, and twice their distance.\<close>

definition macd_dif :: "real list \<Rightarrow> real list" where
  "macd_dif closes = map (\<lambda>(a, b). a - b) (zip (ema closes 12) (ema closes 26))"

definition macd_dea :: "real list \<Rightarrow> real option list" where
  "macd_dea closes =
     map (\<lambda>(i, v). if i \<ge> 25 then Some v else None) (enumerate 0 (ema (macd_dif closes) 9))"

definition calculate_indicator_rows :: "kline list \<Rightarrow> indicator_row list" where
  "calculate_indicator_rows bars =
     (let ordered = sort_key kl_ts bars; closes = map kl_close ordered; highs = map kl_high ordered;
          lows = map kl_low ordered; volumes = map kl_volume ordered; turnovers = map turnover_of ordered;
          ma5 = rolling_average closes 5; ma10 = rolling_average closes 10;
          ma20 = rolling_average closes 20; ma60 = rolling_average closes 60;
          ema5 = ema closes 5; ema10 = ema closes 10; ema20 = ema closes 20; ema60 = ema closes 60;
          dif = macd_dif closes; dea = macd_dea closes;
          atr = rolling_average (true_ranges highs lows closes) 14;
          volume_ma20 = rolling_average volumes 20; turnover_ma20 = rolling_average turnovers 20;
          std20 = rolling_std closes 20; rsi6 = rsi closes 6; rsi14 = rsi closes 14; k = kdj highs lows closes 9
      in map (\<lambda>i. \<lparr>in_ma5 = ma5 ! i, in_ma10 = ma10 ! i, in_ma20 = ma20 ! i, in_ma60 = ma60 ! i,
             in_ema5 = Some (ema5 ! i), in_ema10 = Some (ema10 ! i), in_ema20 = Some (ema20 ! i), in_ema60 = Some (ema60 ! i),
             in_macd_dif = Some (dif ! i), in_macd_dea = dea ! i,
             in_macd_hist = map_option (\<lambda>e. (dif ! i - e) * 2) (dea ! i),
             in_atr = atr ! i, in_volume_ma20 = volume_ma20 ! i, in_boll_mid = ma20 ! i,
             in_boll_upper = opt2 (\<lambda>m s. m + 2 * s) (ma20 ! i) (std20 ! i),
             in_boll_lower = opt2 (\<lambda>m s. m - 2 * s) (ma20 ! i) (std20 ! i),
             in_rsi6 = rsi6 ! i, in_rsi14 = rsi14 ! i, in_kdj_k = map_option fst (k ! i),
             in_kdj_d = map_option (fst \<circ> snd) (k ! i), in_kdj_j = map_option (snd \<circ> snd) (k ! i),
             in_turnover = Some (turnovers ! i), in_turnover_ma20 = turnover_ma20 ! i,
             in_volume_ratio = (if opt_truthy (volume_ma20 ! i) then map_option (\<lambda>m. volumes ! i / m) (volume_ma20 ! i) else None),
             in_change_pct = (if i = 0 \<or> closes ! (i - 1) = 0 then None else Some (closes ! i / closes ! (i - 1) - 1)),
             in_amplitude_pct = (if i = 0 \<or> closes ! (i - 1) = 0 then None
                                 else Some ((highs ! i - lows ! i) / closes ! (i - 1)))\<rparr>) [0..<length ordered])"

section \<open>The table\<close>

definition usable_bars :: "string \<Rightarrow> timeframe \<Rightarrow> 'z store_scheme \<Rightarrow> kline list" where
  "usable_bars symbol tf db =
     sort_key kl_ts (filter (\<lambda>b. kl_symbol b = symbol \<and> kl_timeframe b = tf \<and> kl_data_ok b) (klines db))"

definition indicator_key :: "indicator \<Rightarrow> string \<times> timeframe \<times> int" where
  "indicator_key i = (in_symbol i, in_timeframe i, in_ts i)"

definition put_indicator :: "indicator \<Rightarrow> indicator list \<Rightarrow> indicator list" where
  "put_indicator i xs = upsert indicator_key (\<lambda>_. i) i xs"

definition compute_indicators_for_symbol :: "string \<Rightarrow> timeframe \<Rightarrow> 'z store_scheme \<Rightarrow> 'z store_scheme \<times> int" where
  "compute_indicators_for_symbol symbol tf db =
     (let bars = usable_bars symbol tf db;
          rows = map (\<lambda>(b, r). keyed_row symbol tf (kl_ts b) r) (zip bars (calculate_indicator_rows bars))
      in (db\<lparr>indicators := fold put_indicator rows (indicators db)\<rparr>, int (length rows)))"

section \<open>Lemmas\<close>

lemma length_ema_from [simp]: "length (ema_from a c vs) = length vs"
  by (induction a c vs rule: ema_from.induct) (simp_all add: Let_def)

lemma length_ema [simp]: "length (ema vs w) = length vs"
  by (simp add: ema_def)

lemma length_rolling_from [simp]: "length (rolling_from xs w i t vs) = length vs"
  by (induction xs w i t vs rule: rolling_from.induct) (simp_all add: Let_def)

lemma length_rolling_average [simp]: "length (rolling_average vs w) = length vs"
  by (simp add: rolling_average_def)

lemma length_rsi_from [simp]: "length (rsi_from p i v gs ls g l vs) = length vs"
  by (induction p i v gs ls g l vs rule: rsi_from.induct) (simp_all add: Let_def)

lemma length_kdj_from [simp]: "length (kdj_from hs ls p i k d cs) = length cs"
  by (induction hs ls p i k d cs rule: kdj_from.induct) (simp_all add: Let_def)

lemma length_rows [simp]: "length (calculate_indicator_rows bars) = length bars"
  by (simp add: calculate_indicator_rows_def Let_def)

text \<open>The running total is the sum of the last \<open>window\<close> values.\<close>

lemma rolling_step:
  assumes "0 < w" and "values = pre @ v # vs"
  shows "(if w \<le> length pre then sum_list (drop (length pre - w) pre) + v - values ! (length pre - w)
          else sum_list (drop (length pre - w) pre) + v) = (sum_list (drop (length (pre @ [v]) - w) (pre @ [v])) :: real)"
proof (cases "w \<le> length pre")
  case True
  let ?k = "length pre - w"
  have k: "?k < length pre" using True assms(1) by linarith
  have "sum_list (drop ?k pre) = pre ! ?k + sum_list (drop (Suc ?k) pre)"
    using Cons_nth_drop_Suc [OF k] by (metis sum_list.Cons)
  with True k assms(2) show ?thesis by (simp add: nth_append Suc_diff_le)
next
  case False
  then show ?thesis by simp
qed

lemma nth_rolling_from:
  assumes "0 < w" and "values = pre @ vs" and "j < length vs"
  shows "rolling_from values w (length pre) (sum_list (drop (length pre - w) pre)) vs ! j =
    (if w \<le> length pre + j + 1 then Some (sum_list (window_of values w (length pre + j)) / real w) else None)"
  using assms(2,3)
proof (induction vs arbitrary: pre j)
  case (Cons v vs)
  let ?t = "sum_list (drop (length (pre @ [v]) - w) (pre @ [v]))"
  have step: "rolling_from values w (length pre) (sum_list (drop (length pre - w) pre)) (v # vs) =
    (if w \<le> length pre + 1 then Some (?t / real w) else None) # rolling_from values w (length (pre @ [v])) ?t vs"
    using rolling_step [OF assms(1) Cons.prems(1)] by (simp add: Let_def)
  show ?case
  proof (cases j)
    case 0
    have "window_of values w (length pre) = drop (length (pre @ [v]) - w) (pre @ [v])" if "w \<le> length pre + 1"
    proof -
      have "window_of values w (length pre) = drop (length pre + 1 - w) (take (length pre + 1) values)"
        unfolding window_of_def take_drop using that by simp
      then show ?thesis using Cons.prems(1) by simp
    qed
    then show ?thesis by (simp only: step 0) (simp del: drop_append)
  next
    case (Suc k)
    have "values = (pre @ [v]) @ vs" using Cons.prems(1) by simp
    from Cons.IH [OF this] Cons.prems(2) Suc show ?thesis by (simp only: step) simp
  qed
qed simp

lemma nth_rolling_average:
  "0 < w \<Longrightarrow> j < length values \<Longrightarrow>
   rolling_average values w ! j = (if w \<le> j + 1 then Some (sum_list (window_of values w j) / real w) else None)"
  using nth_rolling_from [of w "values" "[]" "values" j] by (simp add: rolling_average_def)

lemma ema_from_between:
  assumes "0 \<le> a" and "a \<le> 1" and "\<And>x. current = Some x \<Longrightarrow> lo \<le> x \<and> x \<le> hi" and "\<forall>v \<in> set vs. lo \<le> v \<and> v \<le> hi"
  shows "\<forall>x \<in> set (ema_from a current vs). lo \<le> x \<and> x \<le> hi"
  using assms(3,4)
proof (induction vs arbitrary: current)
  case (Cons v vs)
  let ?c = "case current of None \<Rightarrow> v | Some x \<Rightarrow> a * v + (1 - a) * x"
  have c: "lo \<le> ?c \<and> ?c \<le> hi"
  proof (cases current)
    case (Some x)
    have "lo \<le> x \<and> x \<le> hi" "lo \<le> v \<and> v \<le> hi" using Cons.prems Some by auto
    with convex_bound_le [of x hi v "1 - a" a] convex_bound_le [of "- x" "- lo" "- v" "1 - a" a] assms(1,2) Some
    show ?thesis by simp
  qed (use Cons.prems in simp)
  from Cons.IH [of "Some ?c"] c Cons.prems(2) show ?case by (simp add: Let_def)
qed simp

lemma rsi_value_range:
  assumes "0 \<le> g" and "0 \<le> l"
  shows "0 \<le> rsi_value g l \<and> rsi_value g l \<le> 100"
proof -
  have "1 \<le> 1 + g / l" using assms by simp
  then have "100 / (1 + g / l) \<le> 100" "0 \<le> 100 / (1 + g / l)" by (auto simp: divide_le_eq)
  then show ?thesis by (simp add: rsi_value_def)
qed

lemma sum_last_n_nonneg: "\<forall>x \<in> set xs. 0 \<le> x \<Longrightarrow> 0 \<le> (sum_list (last_n n xs) :: real)"
  unfolding last_n_def by (rule sum_list_nonneg) (auto dest: in_set_dropD)

lemma rsi_from_range:
  assumes "0 < p" and "\<forall>x \<in> set gs. 0 \<le> x" and "\<forall>x \<in> set ls. 0 \<le> x" and "0 \<le> g" and "0 \<le> l"
    and "Some x \<in> set (rsi_from p i v gs ls g l vs)"
  shows "0 \<le> x \<and> x \<le> 100"
  using assms(2-)
proof (induction vs arbitrary: i v gs ls g l)
  case (Cons w vs)
  let ?gs = "gs @ [max (w - v) 0]" and ?ls = "ls @ [max (- (w - v)) 0]"
  let ?g = "if i = p then sum_list (last_n p ?gs) / real p else (g * (real p - 1) + last ?gs) / real p"
  let ?l = "if i = p then sum_list (last_n p ?ls) / real p else (l * (real p - 1) + last ?ls) / real p"
  have nn: "\<forall>x \<in> set ?gs. 0 \<le> x" "\<forall>x \<in> set ?ls. 0 \<le> x" using Cons.prems(1,2) by auto
  have p: "1 \<le> real p" using assms(1) by simp
  have g: "0 \<le> ?g" using nn(1) p Cons.prems(3) sum_last_n_nonneg [OF nn(1), of p] by simp
  have l: "0 \<le> ?l" using nn(2) p Cons.prems(4) sum_last_n_nonneg [OF nn(2), of p] by simp
  show ?case
  proof (cases "i < p")
    case True
    then have "Some x \<in> set (rsi_from p (i + 1) w ?gs ?ls g l vs)" using Cons.prems(5) by (simp add: Let_def)
    from Cons.IH [OF nn Cons.prems(3,4) this] show ?thesis .
  next
    case False
    then have "rsi_from p i v gs ls g l (w # vs) = Some (rsi_value ?g ?l) # rsi_from p (i + 1) w ?gs ?ls ?g ?l vs"
      by (simp only: rsi_from.simps Let_def if_False)
    with Cons.prems(5) consider "x = rsi_value ?g ?l" | "Some x \<in> set (rsi_from p (i + 1) w ?gs ?ls ?g ?l vs)"
      by (metis set_ConsD option.inject)
    then show ?thesis
    proof cases
      case 1
      with rsi_value_range [OF g l] show ?thesis by (simp only:)
    next
      case 2
      from Cons.IH [OF nn g l 2] show ?thesis .
    qed
  qed
qed simp

lemma window_member: "0 < w \<Longrightarrow> w \<le> i + 1 \<Longrightarrow> i < length xs \<Longrightarrow> xs ! i \<in> set (window_of xs w i)"
  by (simp add: window_of_def in_set_conv_nth) (rule exI [of _ "w - 1"], simp)

definition in_bar :: "real list \<Rightarrow> real list \<Rightarrow> real list \<Rightarrow> bool" where
  "in_bar highs lows closes \<longleftrightarrow> length highs = length closes \<and> length lows = length closes
     \<and> (\<forall>i < length closes. lows ! i \<le> closes ! i \<and> closes ! i \<le> highs ! i)"

lemma kdj_rsv_range:
  assumes "in_bar highs lows closes" and "0 < p" and "p \<le> i + 1" and "i < length closes"
  shows "0 \<le> kdj_rsv highs lows p i (closes ! i) \<and> kdj_rsv highs lows p i (closes ! i) \<le> 100"
proof -
  let ?h = "Max (set (window_of highs p i))" and ?l = "Min (set (window_of lows p i))"
  have "i < length highs" "i < length lows" using assms(1,4) by (simp_all add: in_bar_def)
  then have "highs ! i \<le> ?h" "?l \<le> lows ! i"
    using window_member [OF assms(2,3), of highs] window_member [OF assms(2,3), of lows] by simp_all
  then have "?l \<le> closes ! i" "closes ! i \<le> ?h" using assms(1,4) by (auto simp: in_bar_def intro: order_trans)
  then show ?thesis by (auto simp: kdj_rsv_def Let_def divide_le_eq)
qed

lemma smooth_range:
  "0 \<le> a \<and> a \<le> 100 \<Longrightarrow> 0 \<le> b \<and> b \<le> 100 \<Longrightarrow> 0 \<le> (2 * a + b) / 3 \<and> (2 * a + b) / 3 \<le> (100 :: real)"
  by auto

lemma kdj_from_range:
  assumes "in_bar highs lows (pre @ cs)" and "0 < p" and "0 \<le> k \<and> k \<le> 100" and "0 \<le> d \<and> d \<le> 100"
    and "Some (a, b, j) \<in> set (kdj_from highs lows p (length pre) k d cs)"
  shows "0 \<le> a \<and> a \<le> 100 \<and> 0 \<le> b \<and> b \<le> 100"
  using assms(1,3-)
proof (induction cs arbitrary: pre k d)
  case (Cons c cs)
  have bars: "in_bar highs lows ((pre @ [c]) @ cs)" using Cons.prems(1) by simp
  let ?k = "(2 * k + kdj_rsv highs lows p (length pre) c) / 3"
  let ?d = "(2 * d + ?k) / 3"
  show ?case
  proof (cases "length pre + 1 < p")
    case True
    with Cons.prems(4) have "Some (a, b, j) \<in> set (kdj_from highs lows p (length (pre @ [c])) k d cs)" by simp
    from Cons.IH [OF bars Cons.prems(2,3) this] show ?thesis .
  next
    case False
    have "(pre @ c # cs) ! length pre = c" by simp
    with kdj_rsv_range [OF Cons.prems(1) assms(2), of "length pre"] False
    have "0 \<le> kdj_rsv highs lows p (length pre) c \<and> kdj_rsv highs lows p (length pre) c \<le> 100" by simp
    with Cons.prems(2) have k: "0 \<le> ?k \<and> ?k \<le> 100" by (rule smooth_range)
    with Cons.prems(3) have d: "0 \<le> ?d \<and> ?d \<le> 100" by (rule smooth_range)
    from False Cons.prems(4) consider "a = ?k" "b = ?d"
      | "Some (a, b, j) \<in> set (kdj_from highs lows p (length (pre @ [c])) ?k ?d cs)"
      by (auto simp: Let_def)
    then show ?thesis
    proof cases
      case 1
      with k d show ?thesis by simp
    next
      case 2
      from Cons.IH [OF bars k d 2] show ?thesis .
    qed
  qed
qed simp

lemma fold_put_indicator:
  assumes "distinct (map indicator_key rows)" and "distinct (map indicator_key xs)"
  shows "distinct (map indicator_key (fold put_indicator rows xs))"
    and "\<And>r. r \<in> set rows \<Longrightarrow> r \<in> set (fold put_indicator rows xs)"
    and "\<And>P. \<forall>r \<in> set rows. \<not> P (indicator_key r)
      \<Longrightarrow> filter (\<lambda>i. P (indicator_key i)) (fold put_indicator rows xs) = filter (\<lambda>i. P (indicator_key i)) xs"
proof -
  have put: "distinct (map indicator_key (put_indicator r ys))" "r \<in> set (put_indicator r ys)"
    if "distinct (map indicator_key ys)" for r ys
    using upsert_put [of indicator_key ys r] that by (simp_all add: put_indicator_def)
  have keep: "s \<in> set (put_indicator r ys)" if "s \<in> set ys" "indicator_key s \<noteq> indicator_key r" for r s ys
    using that by (auto simp: put_indicator_def upsert_def)
  show d: "distinct (map indicator_key (fold put_indicator rows xs))"
    using assms(2) by (induction rows arbitrary: xs) (auto simp: put)
  have stay: "s \<in> set (fold put_indicator rs ys)"
    if "s \<in> set ys" "indicator_key s \<notin> indicator_key ` set rs" for s rs ys
    using that by (induction rs arbitrary: ys) (auto simp: keep)
  show "r \<in> set (fold put_indicator rows xs)" if "r \<in> set rows" for r
    using that assms
  proof (induction rows arbitrary: xs)
    case (Cons q rows)
    show ?case
    proof (cases "r = q")
      case True
      have "indicator_key r \<notin> indicator_key ` set rows" using Cons.prems(2) True by simp
      with stay [of r "put_indicator q xs" rows] put(2) [OF Cons.prems(3)] True show ?thesis by simp
    next
      case False
      with Cons show ?thesis by (simp add: put)
    qed
  qed simp
  show "filter (\<lambda>i. P (indicator_key i)) (fold put_indicator rows xs) = filter (\<lambda>i. P (indicator_key i)) xs"
    if "\<forall>r \<in> set rows. \<not> P (indicator_key r)" for P
    using that
  proof (induction rows arbitrary: xs)
    case (Cons r rows)
    then have "filter (\<lambda>i. P (indicator_key i)) (put_indicator r xs) = filter (\<lambda>i. P (indicator_key i)) xs"
      unfolding put_indicator_def by (intro upsert_put_other) auto
    with Cons show ?case by simp
  qed simp
qed

lemma put_indicator_present:
  "distinct (map indicator_key xs) \<Longrightarrow> r \<in> set xs \<Longrightarrow> put_indicator r xs = xs"
  by (auto simp: put_indicator_def upsert_def distinct_map inj_on_def intro!: map_idI)

lemma fold_put_present:
  "distinct (map indicator_key xs) \<Longrightarrow> set rows \<subseteq> set xs \<Longrightarrow> fold put_indicator rows xs = xs"
  by (induction rows) (simp_all add: put_indicator_present)

lemma keyed_row_sel [simp]:
  "in_symbol (keyed_row s tf t r) = s" "in_timeframe (keyed_row s tf t r) = tf" "in_ts (keyed_row s tf t r) = t"
  "indicator_row.truncate (keyed_row s tf t r) = r" "indicator_key (keyed_row s tf t r) = (s, tf, t)"
  by (simp_all add: keyed_row_def indicator_key_def indicator_row.defs indicator.defs)

definition new_rows :: "string \<Rightarrow> timeframe \<Rightarrow> 'z store_scheme \<Rightarrow> indicator list" where
  "new_rows symbol tf db =
     map (\<lambda>(b, r). keyed_row symbol tf (kl_ts b) r)
       (zip (usable_bars symbol tf db) (calculate_indicator_rows (usable_bars symbol tf db)))"

lemma compute_indicators_eq:
  "compute_indicators_for_symbol symbol tf db =
     (db\<lparr>indicators := fold put_indicator (new_rows symbol tf db) (indicators db)\<rparr>, int (length (new_rows symbol tf db)))"
  by (simp add: compute_indicators_for_symbol_def new_rows_def Let_def)

lemma new_rows_keys: "map indicator_key (new_rows symbol tf db) = map (\<lambda>b. (symbol, tf, kl_ts b)) (usable_bars symbol tf db)"
proof -
  have "map indicator_key (map (\<lambda>(b, r). keyed_row symbol tf (kl_ts b) r) (zip bs rs)) = map (\<lambda>b. (symbol, tf, kl_ts b)) bs"
    if "length rs = length bs" for bs and rs :: "indicator_row list"
    using that by (induction bs rs rule: list_induct2') auto
  from this [OF length_rows] show ?thesis unfolding new_rows_def .
qed

section \<open>Lemmas: an indicator looks only backwards\<close>

lemma ema_from_take: "ema_from a c (take n vs) = take n (ema_from a c vs)"
  by (induction a c vs arbitrary: n rule: ema_from.induct) (auto simp: Let_def take_Cons split: nat.split)

lemma ema_take: "ema (take n vs) w = take n (ema vs w)"
  by (simp add: ema_def ema_from_take)

lemma window_of_take:
  assumes "i < n" "w \<le> i + 1"
  shows "window_of (take n vs) w i = window_of vs w i"
proof -
  have "w \<le> n - (i + 1 - w)" using assms by linarith
  then show ?thesis by (simp add: window_of_def drop_take min_absorb1)
qed

lemma rolling_average_take: "0 < w \<Longrightarrow> rolling_average (take n vs) w = take n (rolling_average vs w)"
  by (rule nth_equalityI) (auto simp: nth_rolling_average window_of_take)

lemma take_map_upt: "take n (map f [0..<k]) = map f [0..<min n k]"
  by (simp add: take_map min_def)

lemma rolling_std_take: "rolling_std (take n vs) w = take n (rolling_std vs w)"
  unfolding rolling_std_def take_map_upt by (rule map_cong) (auto simp: window_of_take Let_def min.commute)

lemma rsi_from_take: "rsi_from p i v gs ls g l (take n vs) = take n (rsi_from p i v gs ls g l vs)"
  by (induction p i v gs ls g l vs arbitrary: n rule: rsi_from.induct)
    (auto simp: Let_def take_Cons split: nat.split)

lemma rsi_take: "rsi (take n vs) p = take n (rsi vs p)"
  by (cases vs; cases n) (simp_all add: rsi_from_take)

lemma kdj_from_take:
  assumes "i + length cs \<le> m"
  shows "kdj_from (take m hs) (take m ls) p i k d cs = kdj_from hs ls p i k d cs"
  using assms
proof (induction cs arbitrary: i k d)
  case (Cons c cs)
  have "kdj_rsv (take m hs) (take m ls) p i c = kdj_rsv hs ls p i c" if "\<not> i + 1 < p"
    using that Cons.prems by (simp add: kdj_rsv_def window_of_take)
  then show ?case using Cons by (auto simp: Let_def)
qed simp

lemma kdj_from_prefix: "kdj_from hs ls p i k d (take n cs) = take n (kdj_from hs ls p i k d cs)"
  by (induction hs ls p i k d cs arbitrary: n rule: kdj_from.induct) (auto simp: Let_def take_Cons split: nat.split)

lemma kdj_take: "kdj (take n hs) (take n ls) (take n cs) p = take n (kdj hs ls cs p)"
  using kdj_from_take [of 0 "take n cs" n hs ls p 50 50] by (simp add: kdj_def kdj_from_prefix)

lemma true_ranges_take:
  assumes "length ls = length hs" "length cs = length hs"
  shows "true_ranges (take n hs) (take n ls) (take n cs) = take n (true_ranges hs ls cs)"
  using assms unfolding true_ranges_def take_map_upt by (intro map_cong) (auto simp: Let_def min.commute)

lemma macd_dif_take: "macd_dif (take n cs) = take n (macd_dif cs)"
  by (simp add: macd_dif_def ema_take take_map take_zip)

lemma macd_dea_take: "macd_dea (take n cs) = take n (macd_dea cs)"
  by (simp add: macd_dea_def macd_dif_take ema_take take_map enumerate_eq_zip take_zip min_def)

lemma macd_lengths [simp]: "length (macd_dif cs) = length cs" "length (macd_dea cs) = length cs"
  by (simp_all add: macd_dif_def macd_dea_def)

lemma length_rsi [simp]: "length (rsi vs p) = length vs"
  by (cases vs) simp_all

lemma length_kdj [simp]: "length (kdj hs ls cs p) = length cs"
  by (simp add: kdj_def)

lemma length_rolling_std [simp]: "length (rolling_std vs w) = length vs"
  by (simp add: rolling_std_def)

lemma length_true_ranges [simp]: "length (true_ranges hs ls cs) = length hs"
  by (simp add: true_ranges_def)

lemma nth_take_pred: "i < n \<Longrightarrow> take n xs ! (i - Suc 0) = xs ! (i - Suc 0)"
  by (simp add: less_imp_diff_less)

lemma rows_take:
  assumes "sorted (map kl_ts bars)"
  shows "calculate_indicator_rows (take n bars) = take n (calculate_indicator_rows bars)"
proof -
  have "sorted (map kl_ts (take n bars))" using sorted_wrt_take [OF assms] by (simp add: take_map)
  then have same: "sort_key kl_ts bars = bars" "sort_key kl_ts (take n bars) = take n bars"
    using assms by (auto intro!: sort_key_id_if_sorted)
  show ?thesis
    unfolding calculate_indicator_rows_def Let_def same take_map_upt take_map [symmetric]
    by (rule map_cong, simp add: min.commute)
      (simp add: nth_take_pred ema_take rolling_average_take rolling_std_take rsi_take kdj_take true_ranges_take macd_dif_take macd_dea_take)
qed

section \<open>Properties\<close>

text \<open>Every average of an indicator row is the mean of the last bars of its window, in the order of their
  times, and it is missing exactly while the window is not yet full.\<close>

theorem averages_are_window_means:
  assumes "i < length bars"
  shows "let ordered = sort_key kl_ts bars; row = calculate_indicator_rows bars ! i;
             mean = (\<lambda>w vs. if w \<le> i + 1 then Some (sum_list (window_of vs w i) / real w) else None)
         in in_ma5 row = mean 5 (map kl_close ordered) \<and> in_ma10 row = mean 10 (map kl_close ordered)
          \<and> in_ma20 row = mean 20 (map kl_close ordered) \<and> in_ma60 row = mean 60 (map kl_close ordered)
          \<and> in_volume_ma20 row = mean 20 (map kl_volume ordered)
          \<and> in_turnover_ma20 row = mean 20 (map turnover_of ordered)
          \<and> in_atr row = mean 14 (true_ranges (map kl_high ordered) (map kl_low ordered) (map kl_close ordered))"
  using assms by (simp add: calculate_indicator_rows_def Let_def nth_rolling_average true_ranges_def)

definition steady_bars :: "nat \<Rightarrow> kline list" where
  "steady_bars n = map (\<lambda>i. \<lparr>kl_symbol = ''A'', kl_timeframe = DAILY, kl_ts = int i, kl_open = 10, kl_high = 12 + of_nat i,
     kl_low = 9, kl_close = 10 + of_nat i, kl_volume = 5, kl_turnover = 0, kl_data_ok = True, kl_anomaly_reason = []\<rparr>) [0..<n]"

theorem averages_are_window_means_witness:
  "in_ma5 (calculate_indicator_rows (steady_bars 6) ! 5) = Some 13 \<and> in_ma5 (calculate_indicator_rows (steady_bars 6) ! 3) = None"
proof -
  have "length (steady_bars 6) = 6" by (simp add: steady_bars_def)
  moreover have "sum_list (window_of (map kl_close (sort_key kl_ts (steady_bars 6))) 5 5) = 65" by code_simp
  ultimately show ?thesis
    using averages_are_window_means [of 5 "steady_bars 6"] averages_are_window_means [of 3 "steady_bars 6"]
    by (simp add: Let_def)
qed

text \<open>C36. The indicators look only backwards: bars that come later do not change the row of any bar before them.\<close>

theorem indicators_are_causal:
  assumes "sorted (map kl_ts (bars @ later))"
  shows "take (length bars) (calculate_indicator_rows (bars @ later)) = calculate_indicator_rows bars"
  using rows_take [OF assms, of "length bars"] by simp

theorem indicators_are_causal_witness:
  "take 4 (calculate_indicator_rows (steady_bars 6)) = calculate_indicator_rows (steady_bars 4)"
proof -
  have "[0..<6] = [0..<4] @ [4, 5]" by (simp add: upt_rec)
  then have parts: "steady_bars 6 = steady_bars 4 @ drop 4 (steady_bars 6)" by (simp add: steady_bars_def)
  have "sorted (map kl_ts (steady_bars 6))" "length (steady_bars 4) = 4" by (code_simp, simp add: steady_bars_def)
  with indicators_are_causal [of "steady_bars 4" "drop 4 (steady_bars 6)"] parts show ?thesis by simp
qed

text \<open>For bars whose close lies between low and high, the RSI and the K and D lines of every row lie
  between 0 and 100.\<close>

theorem oscillators_in_range:
  assumes "\<forall>b \<in> set bars. kl_low b \<le> kl_close b \<and> kl_close b \<le> kl_high b"
    and "row \<in> set (calculate_indicator_rows bars)"
  shows "\<forall>x \<in> {in_rsi6 row, in_rsi14 row, in_kdj_k row, in_kdj_d row}.
    case x of None \<Rightarrow> True | Some v \<Rightarrow> 0 \<le> v \<and> v \<le> 100"
proof -
  let ?o = "sort_key kl_ts bars"
  let ?c = "map kl_close ?o" and ?h = "map kl_high ?o" and ?l = "map kl_low ?o"
  obtain i where i: "i < length ?o" and row: "in_rsi6 row = rsi ?c 6 ! i" "in_rsi14 row = rsi ?c 14 ! i"
    "in_kdj_k row = map_option fst (kdj ?h ?l ?c 9 ! i)" "in_kdj_d row = map_option (fst \<circ> snd) (kdj ?h ?l ?c 9 ! i)"
    using assms(2) by (auto simp: calculate_indicator_rows_def Let_def)
  have r: "0 \<le> x \<and> x \<le> 100" if "Some x \<in> set (rsi vs p)" "0 < p" for x vs p
    using that rsi_from_range [of p "[]" "[]" 0 0 x 1] by (cases vs) auto
  have len: "length (rsi vs p) = length vs" for vs p by (cases vs) simp_all
  have rsi_ok: "case rsi ?c p ! i of None \<Rightarrow> True | Some v \<Rightarrow> 0 \<le> v \<and> v \<le> 100" if "0 < p" for p
  proof (cases "rsi ?c p ! i")
    case (Some v)
    have "rsi ?c p ! i \<in> set (rsi ?c p)" by (rule nth_mem) (use i len in simp)
    then have "Some v \<in> set (rsi ?c p)" by (simp only: Some)
    from r [OF this that] show ?thesis by (simp add: Some)
  qed simp
  have bar: "kl_low (?o ! j) \<le> kl_close (?o ! j) \<and> kl_close (?o ! j) \<le> kl_high (?o ! j)" if "j < length bars" for j
    using assms(1) nth_mem [of j ?o] that by simp
  have bars: "in_bar ?h ?l ([] @ ?c)" by (simp add: in_bar_def bar)
  have "0 \<le> a \<and> a \<le> 100 \<and> 0 \<le> b \<and> b \<le> 100" if "kdj ?h ?l ?c 9 ! i = Some (a, b, j)" for a b j
  proof (rule kdj_from_range [OF bars])
    show "Some (a, b, j) \<in> set (kdj_from ?h ?l 9 (length []) 50 50 ?c)"
      using that nth_mem [of i "kdj ?h ?l ?c 9"] i by (simp add: kdj_def)
  qed simp_all
  then have "case in_kdj_k row of None \<Rightarrow> True | Some v \<Rightarrow> 0 \<le> v \<and> v \<le> 100"
    "case in_kdj_d row of None \<Rightarrow> True | Some v \<Rightarrow> 0 \<le> v \<and> v \<le> 100"
    unfolding row by (auto split: option.split)
  with rsi_ok [of 6] rsi_ok [of 14] show ?thesis by (simp add: row(1,2))
qed

theorem oscillators_in_range_witness:
  "\<exists>v. in_kdj_k (calculate_indicator_rows (steady_bars 9) ! 8) = Some v \<and> 0 \<le> v \<and> v \<le> 100"
proof -
  have ok: "\<forall>b \<in> set (steady_bars 9). kl_low b \<le> kl_close b \<and> kl_close b \<le> kl_high b" by (simp add: steady_bars_def)
  have "calculate_indicator_rows (steady_bars 9) ! 8 \<in> set (calculate_indicator_rows (steady_bars 9))"
    by (rule nth_mem) (simp add: steady_bars_def)
  from oscillators_in_range [OF ok this]
  have "case in_kdj_k (calculate_indicator_rows (steady_bars 9) ! 8) of None \<Rightarrow> True | Some v \<Rightarrow> 0 \<le> v \<and> v \<le> 100" by simp
  moreover have "in_kdj_k (calculate_indicator_rows (steady_bars 9) ! 8) \<noteq> None" by code_simp
  ultimately show ?thesis by (auto split: option.splits)
qed

text \<open>With unique keys, computing the indicators stores exactly one row for every usable bar, the one
  calculated for it, leaves the rows of other symbols and timeframes alone, and computing again
  changes nothing.\<close>

theorem indicators_stored_once:
  assumes "distinct (map indicator_key (indicators db))" and "distinct (map kl_ts (usable_bars symbol tf db))"
    and "compute_indicators_for_symbol symbol tf db = (db1, n)"
  shows "distinct (map indicator_key (indicators db1))
    \<and> set (new_rows symbol tf db) \<subseteq> set (indicators db1)
    \<and> filter (\<lambda>i. in_symbol i \<noteq> symbol) (indicators db1) = filter (\<lambda>i. in_symbol i \<noteq> symbol) (indicators db)
    \<and> compute_indicators_for_symbol symbol tf db1 = (db1, n)"
proof -
  let ?rows = "new_rows symbol tf db"
  have db1: "db1 = db\<lparr>indicators := fold put_indicator ?rows (indicators db)\<rparr>" and n: "n = int (length ?rows)"
    using assms(3) by (simp_all add: compute_indicators_eq)
  have d: "distinct (map indicator_key ?rows)" using assms(2) by (simp add: new_rows_keys distinct_map inj_on_def)
  note f = fold_put_indicator [OF d assms(1)]
  have "fst (indicator_key r) = symbol" if "r \<in> set ?rows" for r
  proof -
    have "indicator_key r \<in> set (map indicator_key ?rows)" using that by simp
    then show ?thesis unfolding new_rows_keys by auto
  qed
  then have other: "filter (\<lambda>i. fst (indicator_key i) \<noteq> symbol) (indicators db1) = filter (\<lambda>i. fst (indicator_key i) \<noteq> symbol) (indicators db)"
    using f(3) [of "\<lambda>k. fst k \<noteq> symbol"] by (simp add: db1)
  have again: "new_rows symbol tf db1 = ?rows" by (simp add: new_rows_def usable_bars_def db1)
  have sub: "set ?rows \<subseteq> set (indicators db1)" using f(2) by (auto simp: db1)
  have dd: "distinct (map indicator_key (indicators db1))" using f(1) by (simp add: db1)
  have "compute_indicators_for_symbol symbol tf db1 = (db1, n)"
    by (simp add: compute_indicators_eq again fold_put_present [OF dd sub] n)
  with other sub dd show ?thesis by (simp add: indicator_key_def)
qed

theorem indicators_stored_once_witness:
  "\<exists>db1. compute_indicators_for_symbol ''A'' DAILY (empty_store\<lparr>klines := steady_bars 3\<rparr>) = (db1, 3)
     \<and> compute_indicators_for_symbol ''A'' DAILY db1 = (db1, 3)"
proof -
  let ?db = "empty_store\<lparr>klines := steady_bars 3\<rparr>"
  obtain db1 n where r: "compute_indicators_for_symbol ''A'' DAILY ?db = (db1, n)" by (metis surj_pair)
  have "snd (compute_indicators_for_symbol ''A'' DAILY ?db) = 3"
    "distinct (map kl_ts (usable_bars ''A'' DAILY ?db))" "distinct (map indicator_key (indicators ?db))" by code_simp+
  with indicators_stored_once [OF _ _ r] r show ?thesis by auto
qed

end
