(* ===== verification/Backtest.thy ===== *)
theory Backtest
  imports Approvals Indicators "HOL-Library.Char_ord" "HOL-Library.List_Lexorder"
begin

text \<open>
  app/services/backtest.py: the replay of stored bars through a fresh database, step by step in the
  order in which the bars became available, with the market, trend, structure, state machine and
  approval services of the live system; and the statistics of the trades it made.

  The observer of a step only reads, so it is left out. The wall clock, which the services read for
  the stamps they store, and the random run id are parameters.
\<close>

section \<open>Rows\<close>

text \<open>The class ActiveReplayTrade.\<close>

record replay_trade =
  rt_symbol :: string
  rt_signal_id :: int
  rt_position_id :: int
  rt_script :: script
  rt_source_structure_id :: "int option"
  rt_structure_type :: "event_type option"
  rt_structure_ts :: "int option"
  rt_trigger_timeframe :: "timeframe option"
  rt_trigger_reason :: string
  rt_entry_ts :: int
  rt_entry_price :: real
  rt_stop_price :: real
  rt_shares :: int
  rt_risk_amount :: real
  rt_market_state :: market_state
  rt_stock_trend :: trend
  rt_max_r :: real
  rt_min_r :: real
  rt_holding_bars :: int

record backtest_trade =
  bt_id :: int
  bt_run_id :: string
  bt_symbol :: string
  bt_script :: script
  bt_source_structure_id :: "int option"
  bt_structure_type :: "event_type option"
  bt_structure_ts :: "int option"
  bt_trigger_timeframe :: "timeframe option"
  bt_trigger_reason :: string
  bt_entry_ts :: int
  bt_entry_price :: real
  bt_stop_price :: real
  bt_shares :: int
  bt_risk_amount :: real
  bt_exit_ts :: int
  bt_exit_price :: real
  bt_exit_reason :: string
  bt_max_r :: real
  bt_min_r :: real
  bt_final_r :: real
  bt_holding_bars :: int
  bt_market_state :: market_state
  bt_stock_trend :: trend

record review_stat =
  rs_subject_type :: string
  rs_subject_id :: int
  rs_metric :: string
  rs_value :: real

text \<open>The database with the tables of the results.\<close>

record results_store = store +
  backtest_trades :: "backtest_trade list"
  review_stats :: "review_stat list"

section \<open>The bars of a run\<close>

text \<open>\<open>dict.fromkeys\<close>: every value once, in the order of first occurrence.\<close>

definition first_seen :: "'a list \<Rightarrow> 'a list" where
  "first_seen xs = rev (remdups (rev xs))"

definition backtest_symbols :: "string list \<Rightarrow> 'z store_scheme \<Rightarrow> string list" where
  "backtest_symbols market_symbols db =
     (let items = map wl_symbol (filter (\<lambda>w. wl_active w \<and> wl_symbol w \<notin> set market_symbols) (watchlist db))
      in if items \<noteq> [] then items
         else sort (remdups (filter (\<lambda>s. s \<notin> set market_symbols) (map kl_symbol (klines db)))))"

definition source_bars :: "string list \<Rightarrow> int option \<Rightarrow> 'z store_scheme \<Rightarrow> kline list" where
  "source_bars symbols until db =
     sort_key (\<lambda>b. (kl_ts b, kl_symbol b, timeframe_text (kl_timeframe b)))
       (filter (\<lambda>b. kl_symbol b \<in> set symbols \<and> kl_timeframe b \<in> {DAILY, HOUR_60, MIN_15} \<and> kl_data_ok b
          \<and> (case until of None \<Rightarrow> True | Some t \<Rightarrow> kl_ts b \<le> t)) (klines db))"

definition bar_key :: "kline \<Rightarrow> string \<times> timeframe \<times> int" where
  "bar_key b = (kl_symbol b, kl_timeframe b, kl_ts b)"

definition series_key :: "kline \<Rightarrow> string \<times> timeframe" where
  "series_key b = (kl_symbol b, kl_timeframe b)"

text \<open>The dictionary of indicator rows; the last entry of a key counts.\<close>

definition series_rows :: "kline list \<Rightarrow> string \<times> timeframe \<Rightarrow> ((string \<times> timeframe \<times> int) \<times> indicator_row) list" where
  "series_rows bars k =
     (let ordered = sort_key kl_ts (filter (\<lambda>b. series_key b = k) bars)
      in zip (map bar_key ordered) (calculate_indicator_rows ordered))"

definition precompute_indicators :: "kline list \<Rightarrow> ((string \<times> timeframe \<times> int) \<times> indicator_row) list" where
  "precompute_indicators bars = concat (map (series_rows bars) (first_seen (map series_key bars)))"

definition row_of :: "((string \<times> timeframe \<times> int) \<times> indicator_row) list \<Rightarrow> string \<times> timeframe \<times> int \<Rightarrow> indicator_row" where
  "row_of table k = (case map_of (rev table) k of None \<Rightarrow> blank_row | Some r \<Rightarrow> r)"

text \<open>A bar carries the time of its start; it is known when it ends.\<close>

definition available_at :: "kline \<Rightarrow> int" where
  "available_at b =
     (case kl_timeframe b of
        DAILY \<Rightarrow> kl_ts b + days 1
      | HOUR_60 \<Rightarrow> kl_ts b + minutes 60
      | MIN_15 \<Rightarrow> kl_ts b + minutes 15
      | MIN_5 \<Rightarrow> kl_ts b)"

definition copy_bar :: "kline \<Rightarrow> kline" where
  "copy_bar b = b\<lparr>kl_turnover := 0\<rparr>"

text \<open>Only the columns the replayed services read.\<close>

definition copy_indicator :: "kline \<Rightarrow> indicator_row \<Rightarrow> indicator" where
  "copy_indicator b r = keyed_row (kl_symbol b) (kl_timeframe b) (kl_ts b)
     (blank_row\<lparr>in_ma20 := in_ma20 r, in_ma60 := in_ma60 r, in_macd_dif := in_macd_dif r, in_macd_dea := in_macd_dea r,
        in_macd_hist := in_macd_hist r, in_atr := in_atr r, in_volume_ma20 := in_volume_ma20 r\<rparr>)"

text \<open>The fresh database: the risk settings and the watched symbols.\<close>

definition seed_item :: "'z store_scheme \<Rightarrow> string \<Rightarrow> watchlist_item" where
  "seed_item source symbol =
     (case watch_item symbol source of
        None \<Rightarrow> \<lparr>wl_symbol = symbol, wl_name = [], wl_industry = [], wl_active = True\<rparr>
      | Some w \<Rightarrow> \<lparr>wl_symbol = symbol, wl_name = wl_name w, wl_industry = wl_industry w, wl_active = True\<rparr>)"

definition seed_replay_metadata :: "'z store_scheme \<Rightarrow> string list \<Rightarrow> store \<Rightarrow> store" where
  "seed_replay_metadata source symbols db0 =
     (let (c, db) = get_or_create_risk_config db0
      in db\<lparr>risk_configs := [case scalar (risk_configs source) of None \<Rightarrow> c | Some s \<Rightarrow> s],
            watchlist := watchlist db @ map (seed_item source) symbols\<rparr>)"


section \<open>Trades\<close>

definition finish_trade :: "replay_trade \<Rightarrow> int \<Rightarrow> real \<Rightarrow> string \<Rightarrow> backtest_trade" where
  "finish_trade t exit_ts exit_price exit_reason =
     (let risk = rt_entry_price t - rt_stop_price t
      in \<lparr>bt_id = 0, bt_run_id = [], bt_symbol = rt_symbol t, bt_script = rt_script t,
          bt_source_structure_id = rt_source_structure_id t, bt_structure_type = rt_structure_type t,
          bt_structure_ts = rt_structure_ts t, bt_trigger_timeframe = rt_trigger_timeframe t,
          bt_trigger_reason = rt_trigger_reason t, bt_entry_ts = rt_entry_ts t, bt_entry_price = rt_entry_price t,
          bt_stop_price = rt_stop_price t, bt_shares = rt_shares t, bt_risk_amount = rt_risk_amount t,
          bt_exit_ts = exit_ts, bt_exit_price = exit_price, bt_exit_reason = exit_reason,
          bt_max_r = rt_max_r t, bt_min_r = rt_min_r t,
          bt_final_r = (if risk > 0 then (exit_price - rt_entry_price t) / risk else 0),
          bt_holding_bars = rt_holding_bars t, bt_market_state = rt_market_state t, bt_stock_trend = rt_stock_trend t\<rparr>)"

definition watched_trade :: "replay_trade \<Rightarrow> kline \<Rightarrow> replay_trade" where
  "watched_trade t bar =
     (let risk = rt_entry_price t - rt_stop_price t
      in t\<lparr>rt_holding_bars := rt_holding_bars t + 1,
           rt_max_r := max (rt_max_r t) ((kl_high bar - rt_entry_price t) / risk),
           rt_min_r := min (rt_min_r t) ((kl_low bar - rt_entry_price t) / risk)\<rparr>)"

text \<open>A trade against one bar: closed (\<open>Inl\<close>), or held on (\<open>Inr\<close>).\<close>

definition apply_bar_risk :: "replay_trade \<Rightarrow> kline \<Rightarrow> int \<Rightarrow> 'z store_scheme \<Rightarrow> (backtest_trade + replay_trade) \<times> 'z store_scheme" where
  "apply_bar_risk t bar ts db =
     (if rt_entry_price t - rt_stop_price t \<le> 0 then (Inl (finish_trade t ts (kl_close bar) ''INVALID_RISK''), db)
      else (let t' = watched_trade t bar
            in if kl_low bar \<le> rt_stop_price t
               then (Inl (finish_trade t' ts (rt_stop_price t) ''HARD_STOP''),
                     case get_row pos_id (rt_position_id t) (positions db) of
                       None \<Rightarrow> db
                     | Some p \<Rightarrow> put_position (p\<lparr>pos_status := POS_CLOSED, pos_exit_reason := ''HARD_STOP''\<rparr>) db)
               else (Inr t', db)))"

definition set_replay_cooldown :: "string \<Rightarrow> int \<Rightarrow> 'z store_scheme \<Rightarrow> 'z store_scheme" where
  "set_replay_cooldown symbol as_of db =
     (let (c, db1) = get_or_create_risk_config db
      in case state_of symbol db1 of
           None \<Rightarrow> db1
         | Some r \<Rightarrow> put_state (r\<lparr>ts_state := COOLDOWN, ts_cooldown_until := Some (as_of + rk_cooldown_days c)\<rparr>) db1)"

section \<open>The replay\<close>

record replay_env =
  re_market_symbols :: "string list"
  re_stock_symbols :: "string list"
  re_start :: "int option"
  re_today :: int
  re_now :: int

text \<open>The replayed database, the open trades (a dictionary by symbol) and the closed ones.\<close>

record replay_run =
  rp_db :: store
  rp_active :: "(string \<times> replay_trade) list"
  rp_completed :: "backtest_trade list"

definition release_bars :: "((string \<times> timeframe \<times> int) \<times> indicator_row) list \<Rightarrow> kline list \<Rightarrow> store \<Rightarrow> store" where
  "release_bars rows bars db =
     db\<lparr>klines := klines db @ map copy_bar bars,
        indicators := indicators db @ map (\<lambda>b. copy_indicator b (row_of rows (bar_key b))) bars\<rparr>"

definition replay_structures :: "market_evaluation \<Rightarrow> kline list \<Rightarrow> string \<Rightarrow> store \<Rightarrow> store" where
  "replay_structures market bars symbol db =
     (if (symbol, HOUR_60) \<notin> series_key ` set bars then db
      else fst (persist_structure_detections (detect_latest_structures STRUCTURE_CONFIG symbol HOUR_60 db)
             (market_text (me_state market)) (trend_text (fst (evaluate_stock_trend symbol db))) db))"

definition trigger_bar :: "string \<Rightarrow> 'z store_scheme \<Rightarrow> kline option" where
  "trigger_bar symbol db =
     scalar (order_desc kl_ts (filter (\<lambda>b. kl_symbol b = symbol \<and> kl_timeframe b = MIN_15) (klines db)))"

definition newest_pending :: "string \<Rightarrow> signal_type \<Rightarrow> 'z store_scheme \<Rightarrow> trade_signal option" where
  "newest_pending symbol ty db = scalar (order_desc sg_created_at (pending_signals symbol ty db))"

text \<open>An open trade: the exit the state machine proposed is approved at once.\<close>

definition replay_exit :: "replay_env \<Rightarrow> string \<Rightarrow> kline \<Rightarrow> replay_trade \<Rightarrow> replay_run \<Rightarrow> exn + replay_run" where
  "replay_exit env symbol bar t rp =
     (case newest_pending symbol EXIT (rp_db rp) of
        None \<Rightarrow> Inr rp
      | Some sg \<Rightarrow>
          (case approve_signal (sg_id sg) [] (re_today env) (re_now env) (rp_db rp) of
             (Inl e, _) \<Rightarrow> Inl e
           | (Inr _, db) \<Rightarrow>
               Inr \<lparr>rp_db = set_replay_cooldown symbol (date_of (kl_ts bar)) db,
                    rp_active = filter (\<lambda>x. fst x \<noteq> symbol) (rp_active rp),
                    rp_completed = rp_completed rp @ [finish_trade t (kl_ts bar) (kl_close bar) (sg_reason sg)]\<rparr>))"

definition zh_bt_auto :: string where \<comment> \<open>backtest rule: a valid signal is approved on its bar\<close>
  "zh_bt_auto = utf8 [22238, 27979, 35268, 21017, 65306, 26377, 25928, 20449, 21495, 24403, 26681, 33258, 21160, 25209, 20934]"

definition opened_trade :: "string \<Rightarrow> trade_signal \<Rightarrow> position \<Rightarrow> kline \<Rightarrow> market_state \<Rightarrow> trend \<Rightarrow> 'z store_scheme \<Rightarrow> replay_trade" where
  "opened_trade symbol sg p bar market stock_trend db =
     (let e = event_by_id (sg_source_structure_id sg) db
      in \<lparr>rt_symbol = symbol, rt_signal_id = sg_id sg, rt_position_id = pos_id p, rt_script = sg_script sg,
          rt_source_structure_id = sg_source_structure_id sg, rt_structure_type = map_option ev_type e,
          rt_structure_ts = map_option ev_ts e, rt_trigger_timeframe = sg_trigger_timeframe sg,
          rt_trigger_reason = sg_reason sg,
          rt_entry_ts = (case sg_trigger_ts sg of None \<Rightarrow> kl_ts bar | Some t \<Rightarrow> t),
          rt_entry_price = the (sg_entry_price sg), rt_stop_price = the (sg_stop_price sg),
          rt_shares = opt_or (sg_shares sg) 0, rt_risk_amount = opt_or (sg_risk_amount sg) 0,
          rt_market_state = market, rt_stock_trend = stock_trend, rt_max_r = 0, rt_min_r = 0, rt_holding_bars = 0\<rparr>)"

text \<open>No open trade: the entry the state machine proposed is approved at once.\<close>

definition replay_entry :: "replay_env \<Rightarrow> string \<Rightarrow> kline \<Rightarrow> market_state \<Rightarrow> trend \<Rightarrow> replay_run \<Rightarrow> exn + replay_run" where
  "replay_entry env symbol bar market stock_trend rp =
     (case newest_pending symbol ENTRY (rp_db rp) of
        None \<Rightarrow> Inr rp
      | Some sg \<Rightarrow>
          (case approve_signal (sg_id sg) zh_bt_auto (re_today env) (re_now env) (rp_db rp) of
             (Inl e, _) \<Rightarrow> Inl e
           | (Inr _, db) \<Rightarrow>
               (case open_position_of symbol db of
                  None \<Rightarrow> Inr (rp\<lparr>rp_db := db\<rparr>)
                | Some p \<Rightarrow>
                    if sg_entry_price sg = None \<or> sg_stop_price sg = None then Inr (rp\<lparr>rp_db := db\<rparr>)
                    else Inr (rp\<lparr>rp_db := db,
                      rp_active := rp_active rp @ [(symbol, opened_trade symbol sg p bar market stock_trend db)]\<rparr>))))"

definition replay_follow :: "replay_env \<Rightarrow> market_state \<Rightarrow> string \<Rightarrow> kline \<Rightarrow> replay_run \<Rightarrow> exn + replay_run" where
  "replay_follow env market symbol bar rp =
     (let ev = evaluate_stock_trend symbol (rp_db rp)
      in case persist_stock_trend symbol ev (rp_db rp) of
           Inl e \<Rightarrow> Inl e
         | Inr db1 \<Rightarrow>
             (case advance_state_machine symbol market (fst ev) (date_of (kl_ts bar)) (re_now env) db1 of
                Inl e \<Rightarrow> Inl e
              | Inr (_, db2) \<Rightarrow>
                  (let rp' = rp\<lparr>rp_db := db2\<rparr>
                   in case map_of (rp_active rp) symbol of
                        Some t \<Rightarrow> replay_exit env symbol bar t rp'
                      | None \<Rightarrow> replay_entry env symbol bar market (fst ev) rp')))"

definition replay_decision :: "replay_env \<Rightarrow> market_state \<Rightarrow> string \<Rightarrow> replay_run \<Rightarrow> exn + replay_run" where
  "replay_decision env market symbol rp =
     (case trigger_bar symbol (rp_db rp) of
        None \<Rightarrow> Inr rp
      | Some bar \<Rightarrow>
          (case map_of (rp_active rp) symbol of
             None \<Rightarrow> replay_follow env market symbol bar rp
           | Some t \<Rightarrow>
               (case apply_bar_risk t bar (kl_ts bar) (rp_db rp) of
                  (Inl finished, db) \<Rightarrow> Inr \<lparr>rp_db = db, rp_active = filter (\<lambda>x. fst x \<noteq> symbol) (rp_active rp),
                      rp_completed = rp_completed rp @ [finished]\<rparr>
                | (Inr t', db) \<Rightarrow> replay_follow env market symbol bar
                    (rp\<lparr>rp_db := db, rp_active := map (\<lambda>x. if fst x = symbol then (symbol, t') else x) (rp_active rp)\<rparr>))))"

definition decision_symbols :: "replay_env \<Rightarrow> int \<Rightarrow> kline list \<Rightarrow> string list" where
  "decision_symbols env t bars =
     filter (\<lambda>s. (s, MIN_15) \<in> series_key ` set bars \<and> (case re_start env of None \<Rightarrow> True | Some t0 \<Rightarrow> t0 \<le> t)) (re_stock_symbols env)"

text \<open>One step: the bars that end at this time are released, and the symbols with a new 15-minute bar decide.\<close>

definition replay_step ::
  "replay_env \<Rightarrow> ((string \<times> timeframe \<times> int) \<times> indicator_row) list \<Rightarrow> kline list \<Rightarrow> int \<Rightarrow> replay_run \<Rightarrow> exn + replay_run" where
  "replay_step env rows all_bars t rp =
     (let bars = filter (\<lambda>b. available_at b = t) all_bars;
          db1 = release_bars rows bars (rp_db rp);
          market = evaluate_market (re_today env) (re_market_symbols env) db1;
          db2 = persist_market_state market (re_now env) db1;
          db3 = fold (replay_structures market bars) (re_stock_symbols env) db2
      in foldM (replay_decision env (me_state market)) (decision_symbols env t bars) (rp\<lparr>rp_db := db3\<rparr>))"

definition replay_times :: "kline list \<Rightarrow> int list" where
  "replay_times bars = sort (remdups (map available_at bars))"

definition start_replay :: "'z store_scheme \<Rightarrow> string list \<Rightarrow> replay_run" where
  "start_replay source symbols = \<lparr>rp_db = seed_replay_metadata source symbols empty_store, rp_active = [], rp_completed = []\<rparr>"

definition replay_bars :: "replay_env \<Rightarrow> kline list \<Rightarrow> replay_run \<Rightarrow> exn + replay_run" where
  "replay_bars env bars rp = foldM (replay_step env (precompute_indicators bars) bars) (replay_times bars) rp"

text \<open>Trades still open at the end are closed at the last 15-minute bar.\<close>

definition closing_trades :: "replay_run \<Rightarrow> backtest_trade list" where
  "closing_trades rp =
     concat (map (\<lambda>(symbol, t). case trigger_bar symbol (rp_db rp) of
         None \<Rightarrow> []
       | Some bar \<Rightarrow> [finish_trade t (kl_ts bar) (kl_close bar) ''END_OF_BACKTEST'']) (rp_active rp))"

section \<open>Statistics\<close>

record backtest_stats =
  bs_trade_count :: int
  bs_win_rate :: real
  bs_avg_r :: real
  bs_median_r :: real
  bs_max_drawdown :: real
  bs_max_consecutive_losses :: int
  bs_avg_holding_period :: real
  bs_profit_factor :: real
  bs_exposure :: real
  bs_yearly_performance :: "(string \<times> real) list"
  bs_market_groups :: "(string \<times> real) list"
  bs_script_a :: real
  bs_script_b :: real
  bs_structure_success_rate :: real
  bs_signal_expiry_rate :: real
  bs_trigger_failure_rate :: real

definition mean :: "real list \<Rightarrow> real" where
  "mean xs = (if xs = [] then 0 else sum_list xs / real (length xs))"

definition share_of :: "nat \<Rightarrow> nat \<Rightarrow> real" where
  "share_of k n = (if n = 0 then 0 else real k / real n)"

definition median :: "real list \<Rightarrow> real" where
  "median xs =
     (let ordered = sort xs; middle = length ordered div 2
      in if xs = [] then 0
         else if odd (length ordered) then ordered ! middle
         else (ordered ! (middle - 1) + ordered ! middle) / 2)"

text \<open>The walk over the results: equity, peak, drawdown, and the current and the longest losing run.\<close>

record curve =
  cv_equity :: real
  cv_peak :: real
  cv_drawdown :: real
  cv_losses :: int
  cv_max_losses :: int

definition curve_start :: curve where
  "curve_start = \<lparr>cv_equity = 0, cv_peak = 0, cv_drawdown = 0, cv_losses = 0, cv_max_losses = 0\<rparr>"

definition curve_step :: "real \<Rightarrow> curve \<Rightarrow> curve" where
  "curve_step r c =
     (let equity = cv_equity c + r; peak = max (cv_peak c) equity; losses = (if r \<le> 0 then cv_losses c + 1 else 0)
      in \<lparr>cv_equity = equity, cv_peak = peak, cv_drawdown = min (cv_drawdown c) (equity - peak),
          cv_losses = losses, cv_max_losses = max (cv_max_losses c) losses\<rparr>)"

definition equity_curve :: "real list \<Rightarrow> curve" where
  "equity_curve rs = fold curve_step rs curve_start"

definition year_text :: "backtest_trade \<Rightarrow> string" where
  "year_text t = str_int (fst (civil (date_of (bt_exit_ts t))))"

text \<open>Groups in the order of their first trade.\<close>

definition grouped :: "(backtest_trade \<Rightarrow> string) \<Rightarrow> backtest_trade list \<Rightarrow> (string \<times> real list) list" where
  "grouped key trades = map (\<lambda>k. (k, map bt_final_r (filter (\<lambda>t. key t = k) trades))) (first_seen (map key trades))"

definition script_average :: "backtest_trade list \<Rightarrow> script \<Rightarrow> real" where
  "script_average trades s = mean (map bt_final_r (filter (\<lambda>t. bt_script t = s) trades))"

definition profit_factor :: "real list \<Rightarrow> real" where
  "profit_factor rs =
     (let gross_profit = sum_list (filter (\<lambda>r. r > 0) rs); gross_loss = \<bar>sum_list (filter (\<lambda>r. r \<le> 0) rs)\<bar>
      in if gross_loss \<noteq> 0 then gross_profit / gross_loss else gross_profit)"

definition calculate_stats ::
  "backtest_trade list \<Rightarrow> kline list \<Rightarrow> string list \<Rightarrow> trade_signal list \<Rightarrow> structure_event list \<Rightarrow> backtest_stats" where
  "calculate_stats trades bars symbols signals bottoms =
     (let rs = map bt_final_r trades; held = sum_list (map bt_holding_bars trades);
          decision_bars = length (filter (\<lambda>b. kl_symbol b \<in> set symbols \<and> kl_timeframe b = MIN_15) bars);
          c = equity_curve rs
      in \<lparr>bs_trade_count = int (length trades),
          bs_win_rate = share_of (length (filter (\<lambda>r. r > 0) rs)) (length trades),
          bs_avg_r = mean rs, bs_median_r = median rs,
          bs_max_drawdown = cv_drawdown c, bs_max_consecutive_losses = cv_max_losses c,
          bs_avg_holding_period = (if trades = [] then 0 else of_int held / real (length trades)),
          bs_profit_factor = profit_factor rs,
          bs_exposure = (if decision_bars = 0 then 0 else of_int held / real decision_bars),
          bs_yearly_performance = map (\<lambda>(k, vs). (k, sum_list vs)) (grouped year_text trades),
          bs_market_groups = map (\<lambda>(k, vs). (k, mean vs)) (grouped (market_text \<circ> bt_market_state) trades),
          bs_script_a = script_average trades SCRIPT_A_BOTTOM_TREND_RESUME,
          bs_script_b = script_average trades SCRIPT_B_TOP_INVALIDATION_CONTINUATION,
          bs_structure_success_rate = share_of (length (filter ev_triggered_entry bottoms)) (length bottoms),
          bs_signal_expiry_rate = share_of (length (filter (\<lambda>s. sg_status s = EXPIRED) signals)) (length signals),
          bs_trigger_failure_rate = share_of (length (filter (\<lambda>s. sg_status s = CANCELLED_BY_TRIGGER) signals)) (length signals)\<rparr>)"

definition empty_stats :: backtest_stats where
  "empty_stats = calculate_stats [] [] [] [] []"

definition stat_rows :: "backtest_stats \<Rightarrow> (string \<times> real) list" where
  "stat_rows st =
     [(''trade_count'', of_int (bs_trade_count st)), (''win_rate'', bs_win_rate st), (''avg_r'', bs_avg_r st),
      (''median_r'', bs_median_r st), (''max_drawdown'', bs_max_drawdown st),
      (''max_consecutive_losses'', of_int (bs_max_consecutive_losses st)),
      (''avg_holding_period'', bs_avg_holding_period st), (''profit_factor'', bs_profit_factor st),
      (''exposure'', bs_exposure st)]
     @ map (\<lambda>(k, v). (''yearly_performance:'' @ k, v)) (bs_yearly_performance st)
     @ map (\<lambda>(k, v). (''market_state_group_performance:'' @ k, v)) (bs_market_groups st)
     @ [(''script_a_performance'', bs_script_a st), (''script_b_performance'', bs_script_b st),
        (''structure_success_rate'', bs_structure_success_rate st), (''signal_expiry_rate'', bs_signal_expiry_rate st),
        (''trigger_failure_rate'', bs_trigger_failure_rate st)]"

definition system_stat :: "string \<times> real \<Rightarrow> review_stat" where
  "system_stat m = \<lparr>rs_subject_type = ''BACKTEST_SYSTEM'', rs_subject_id = 0, rs_metric = fst m, rs_value = snd m\<rparr>"

definition persist_stats :: "backtest_stats \<Rightarrow> 'z results_store_scheme \<Rightarrow> 'z results_store_scheme" where
  "persist_stats st db =
     db\<lparr>review_stats := filter (\<lambda>s. rs_subject_type s \<noteq> ''BACKTEST_SYSTEM'') (review_stats db) @ map system_stat (stat_rows st)\<rparr>"

section \<open>A run\<close>

record backtest_result =
  br_run_id :: string
  br_trade_ids :: "int list"
  br_stats :: backtest_stats

definition stored_trades :: "string \<Rightarrow> backtest_trade list \<Rightarrow> 'z results_store_scheme \<Rightarrow> backtest_trade list" where
  "stored_trades run_id trades db =
     map (\<lambda>(i, t). t\<lparr>bt_id := next_id bt_id (backtest_trades db) + int i, bt_run_id := run_id\<rparr>) (enumerate 0 trades)"

definition run_backtest ::
  "string list \<Rightarrow> string list option \<Rightarrow> int option \<Rightarrow> int option \<Rightarrow> string \<Rightarrow> int \<Rightarrow> int \<Rightarrow> 'z results_store_scheme
   \<Rightarrow> exn + backtest_result \<times> 'z results_store_scheme" where
  "run_backtest market_symbols symbols from_ts until run_id today now db =
     (let stock_symbols = (case symbols of Some (s # ss) \<Rightarrow> s # ss | _ \<Rightarrow> backtest_symbols market_symbols db);
          source_symbols = first_seen (market_symbols @ stock_symbols);
          bars = source_bars source_symbols until db;
          env = \<lparr>re_market_symbols = market_symbols, re_stock_symbols = stock_symbols, re_start = from_ts,
            re_today = today, re_now = now\<rparr>
      in if bars = [] then Inr (\<lparr>br_run_id = [], br_trade_ids = [], br_stats = empty_stats\<rparr>, db)
         else case replay_bars env bars (start_replay db source_symbols) of
           Inl e \<Rightarrow> Inl e
         | Inr rp \<Rightarrow>
             (let trades = stored_trades run_id (rp_completed rp @ closing_trades rp) db;
                  stats = calculate_stats trades bars stock_symbols
                    (filter (\<lambda>s. sg_type s = ENTRY) (trade_signals (rp_db rp)))
                    (filter (\<lambda>e. ev_type e = BOTTOM_STRUCTURE) (structure_events (rp_db rp)))
              in Inr (\<lparr>br_run_id = run_id, br_trade_ids = map bt_id trades, br_stats = stats\<rparr>,
                      persist_stats stats (db\<lparr>backtest_trades := backtest_trades db @ trades\<rparr>))))"


section \<open>Lemmas: the equity curve\<close>

text \<open>The equity after a number of trades, and the losing run that ends there.\<close>

definition equity_after :: "real list \<Rightarrow> nat \<Rightarrow> real" where
  "equity_after rs i = sum_list (take i rs)"

lemma equity_after_snoc [simp]:
  "i \<le> length rs \<Longrightarrow> equity_after (rs @ [r]) i = equity_after rs i"
  "equity_after (rs @ [r]) (Suc (length rs)) = equity_after rs (length rs) + r"
  "equity_after rs 0 = 0"
  by (simp_all add: equity_after_def)

lemma equity_curve_snoc: "equity_curve (rs @ [r]) = curve_step r (equity_curve rs)"
  by (simp add: equity_curve_def)

lemma cv_equity_curve: "cv_equity (equity_curve rs) = equity_after rs (length rs)"
proof (induction rs rule: rev_induct)
  case Nil
  show ?case by (simp add: equity_curve_def curve_start_def)
next
  case (snoc r rs)
  then show ?case by (simp add: equity_curve_snoc curve_step_def Let_def)
qed

lemma cv_peak_curve:
  "(\<exists>i \<le> length rs. cv_peak (equity_curve rs) = equity_after rs i) \<and> (\<forall>i \<le> length rs. equity_after rs i \<le> cv_peak (equity_curve rs))"
proof (induction rs rule: rev_induct)
  case Nil
  show ?case by (simp add: equity_curve_def curve_start_def)
next
  case (snoc r rs)
  let ?p = "cv_peak (equity_curve rs)" and ?e = "equity_after rs (length rs) + r"
  have peak: "cv_peak (equity_curve (rs @ [r])) = max ?p ?e"
    by (simp add: equity_curve_snoc curve_step_def Let_def cv_equity_curve)
  obtain i where i: "i \<le> length rs" "?p = equity_after rs i" using snoc by blast
  have "\<exists>i \<le> length (rs @ [r]). max ?p ?e = equity_after (rs @ [r]) i"
  proof (cases "?e \<le> ?p")
    case True
    then show ?thesis using i by (intro exI [of _ i]) (simp add: max_absorb1)
  next
    case False
    then show ?thesis by (intro exI [of _ "Suc (length rs)"]) simp
  qed
  moreover have "equity_after (rs @ [r]) i \<le> max ?p ?e" if "i \<le> length (rs @ [r])" for i
    using that snoc by (cases "i = Suc (length rs)") (auto simp: max.coboundedI1)
  ultimately show ?case by (simp add: peak)
qed

definition falls_by :: "real list \<Rightarrow> real \<Rightarrow> bool" where
  "falls_by rs d \<longleftrightarrow> (\<exists>i j. i \<le> j \<and> j \<le> length rs \<and> d = equity_after rs j - equity_after rs i)"

lemma falls_by_snoc: "falls_by rs d \<Longrightarrow> falls_by (rs @ [r]) d"
  unfolding falls_by_def
proof (elim exE conjE)
  fix i j assume ij: "i \<le> j" "j \<le> length rs" "d = equity_after rs j - equity_after rs i"
  then have "i \<le> j \<and> j \<le> length (rs @ [r]) \<and> d = equity_after (rs @ [r]) j - equity_after (rs @ [r]) i" by simp
  then show "\<exists>i j. i \<le> j \<and> j \<le> length (rs @ [r]) \<and> d = equity_after (rs @ [r]) j - equity_after (rs @ [r]) i" by blast
qed

lemma cv_drawdown_curve:
  "falls_by rs (cv_drawdown (equity_curve rs)) \<and> (\<forall>d. falls_by rs d \<longrightarrow> cv_drawdown (equity_curve rs) \<le> d)"
proof (induction rs rule: rev_induct)
  case Nil
  show ?case by (auto simp: equity_curve_def curve_start_def falls_by_def)
next
  case (snoc r rs)
  let ?rs = "rs @ [r]" let ?n = "length ?rs"
  let ?fall = "equity_after ?rs ?n - cv_peak (equity_curve ?rs)"
  have down: "cv_drawdown (equity_curve ?rs) = min (cv_drawdown (equity_curve rs)) ?fall"
    by (simp add: equity_curve_snoc curve_step_def Let_def cv_equity_curve)
  have fall: "falls_by ?rs ?fall" using cv_peak_curve [of ?rs] unfolding falls_by_def by (metis order_refl)
  have "falls_by ?rs (min (cv_drawdown (equity_curve rs)) ?fall)"
    using snoc fall falls_by_snoc by (auto simp: min_def)
  moreover have "min (cv_drawdown (equity_curve rs)) ?fall \<le> d" if falls: "falls_by ?rs d" for d
  proof -
    obtain i j where ij: "i \<le> j" "j \<le> ?n" "d = equity_after ?rs j - equity_after ?rs i" using falls by (auto simp: falls_by_def)
    show ?thesis
    proof (cases "j = ?n")
      case True
      have "equity_after ?rs i \<le> cv_peak (equity_curve ?rs)" using cv_peak_curve [of ?rs] ij(1,2) by simp
      then have "?fall \<le> d" using ij(3) unfolding True by linarith
      then show ?thesis by (rule min.coboundedI2)
    next
      case False
      then have "j \<le> length rs" using ij(2) by simp
      then have "falls_by rs d" using ij unfolding falls_by_def by (intro exI [of _ i] exI [of _ j]) simp
      then show ?thesis using snoc by (intro min.coboundedI1) blast
    qed
  qed
  ultimately show ?case by (simp add: down)
qed

definition losing_run :: "real list \<Rightarrow> nat \<Rightarrow> nat \<Rightarrow> bool" where
  "losing_run rs i k \<longleftrightarrow> i + k \<le> length rs \<and> (\<forall>m < k. rs ! (i + m) \<le> 0)"

lemma losing_run_snoc: "losing_run rs i k \<Longrightarrow> losing_run (rs @ [r]) i k"
  by (auto simp: losing_run_def nth_append)

lemma losing_run_grow: "losing_run rs i k \<Longrightarrow> i + k = length rs \<Longrightarrow> r \<le> 0 \<Longrightarrow> losing_run (rs @ [r]) i (Suc k)"
  by (auto simp: losing_run_def nth_append less_Suc_eq)

lemma losing_run_butlast: "losing_run (rs @ [r]) i k \<Longrightarrow> i + k \<le> length rs \<Longrightarrow> losing_run rs i k"
  unfolding losing_run_def
proof (intro conjI allI impI)
  fix m assume run: "i + k \<le> length (rs @ [r]) \<and> (\<forall>m<k. (rs @ [r]) ! (i + m) \<le> 0)" "i + k \<le> length rs" "m < k"
  then have "(rs @ [r]) ! (i + m) \<le> 0" by simp
  then show "rs ! (i + m) \<le> 0" using run(2,3) by (simp add: nth_append)
qed simp

lemma losing_run_Suc: "losing_run rs i (Suc k) \<Longrightarrow> losing_run rs i k \<and> rs ! (i + k) \<le> 0"
  by (auto simp: losing_run_def)

lemma losing_run_last: "losing_run (rs @ [r]) i (Suc k) \<Longrightarrow> i + Suc k = Suc (length rs) \<Longrightarrow> r \<le> 0 \<and> losing_run rs i k"
  using losing_run_butlast [of rs r i k] losing_run_Suc [of "rs @ [r]" i k] by (simp add: nth_append)

text \<open>The run at the end, and the longest run.\<close>

lemma cv_losses_curve:
  "(\<exists>k \<le> length rs. int k = cv_losses (equity_curve rs) \<and> losing_run rs (length rs - k) k)
   \<and> (\<forall>i k. losing_run rs i k \<and> i + k = length rs \<longrightarrow> int k \<le> cv_losses (equity_curve rs))"
proof (induction rs rule: rev_induct)
  case Nil
  show ?case by (simp add: equity_curve_def curve_start_def losing_run_def)
next
  case (snoc r rs)
  have losses: "cv_losses (equity_curve (rs @ [r])) = (if r \<le> 0 then cv_losses (equity_curve rs) + 1 else 0)"
    by (simp add: equity_curve_snoc curve_step_def Let_def)
  obtain k where k: "k \<le> length rs" "int k = cv_losses (equity_curve rs)" "losing_run rs (length rs - k) k" using snoc by blast
  have "\<exists>k \<le> length (rs @ [r]). int k = cv_losses (equity_curve (rs @ [r])) \<and> losing_run (rs @ [r]) (length (rs @ [r]) - k) k"
  proof (cases "r \<le> 0")
    case True
    then show ?thesis using k losing_run_grow [OF k(3)] by (intro exI [of _ "Suc k"]) (simp add: losses)
  next
    case False
    then show ?thesis by (intro exI [of _ 0]) (simp add: losses losing_run_def)
  qed
  moreover have "int j \<le> cv_losses (equity_curve (rs @ [r]))" if run: "losing_run (rs @ [r]) i j" "i + j = length (rs @ [r])" for i j
  proof (cases j)
    case 0
    then show ?thesis using k(2) by (auto simp: losses)
  next
    case (Suc j')
    then have "r \<le> 0" "losing_run rs i j'" using run losing_run_last [of rs r i j'] by simp_all
    then show ?thesis using snoc run(2) Suc by (auto simp: losses)
  qed
  ultimately show ?case by blast
qed

lemma cv_max_losses_curve:
  "(\<exists>i k. losing_run rs i k \<and> int k = cv_max_losses (equity_curve rs)) \<and> (\<forall>i k. losing_run rs i k \<longrightarrow> int k \<le> cv_max_losses (equity_curve rs))"
proof (induction rs rule: rev_induct)
  case Nil
  show ?case by (auto simp: equity_curve_def curve_start_def losing_run_def)
next
  case (snoc r rs)
  let ?rs = "rs @ [r]"
  have longest: "cv_max_losses (equity_curve ?rs) = max (cv_max_losses (equity_curve rs)) (cv_losses (equity_curve ?rs))"
    by (simp add: equity_curve_snoc curve_step_def Let_def)
  obtain i k where ik: "losing_run rs i k" "int k = cv_max_losses (equity_curve rs)" using snoc by blast
  obtain l where l: "int l = cv_losses (equity_curve ?rs)" "losing_run ?rs (length ?rs - l) l" using cv_losses_curve [of ?rs] by blast
  have "\<exists>i k. losing_run ?rs i k \<and> int k = cv_max_losses (equity_curve ?rs)"
    unfolding longest using losing_run_snoc [OF ik(1), of r] ik(2) l by (metis max_def)
  moreover have "int j \<le> cv_max_losses (equity_curve ?rs)" if run: "losing_run ?rs i j" for i j
  proof (cases "i + j = length ?rs")
    case True
    then have "int j \<le> cv_losses (equity_curve ?rs)" using cv_losses_curve [of ?rs] run by blast
    then show ?thesis unfolding longest by linarith
  next
    case False
    then have "i + j \<le> length rs" using run by (simp add: losing_run_def)
    from losing_run_butlast [OF run this] snoc have "int j \<le> cv_max_losses (equity_curve rs)" by blast
    then show ?thesis unfolding longest by linarith
  qed
  ultimately show ?case by blast
qed


section \<open>Lemmas: the released bars\<close>

lemma sorted_sort_key_fst: "sorted (map f (sort_key (\<lambda>x. (f x, g x)) xs))"
proof -
  let ?ys = "sort_key (\<lambda>x. (f x, g x)) xs"
  have "sorted (map (\<lambda>x. (f x, g x)) ?ys)" by simp
  then show ?thesis unfolding sorted_map by (rule sorted_wrt_mono_rel [rotated]) (auto simp: less_eq_prod_def)
qed

lemma source_bars_sorted: "sorted (map kl_ts (source_bars symbols until db))"
  unfolding source_bars_def by (rule sorted_sort_key_fst)

lemma set_first_seen [simp]: "set (first_seen xs) = set xs"
  by (simp add: first_seen_def)

lemma distinct_first_seen [simp]: "distinct (first_seen xs)"
  by (simp add: first_seen_def)

text \<open>The bars that are known at a time.\<close>

definition known_at :: "int \<Rightarrow> kline list \<Rightarrow> kline list" where
  "known_at t bars = filter (\<lambda>b. available_at b \<le> t) bars"

text \<open>The known bars of one series are its first bars.\<close>

lemma filter_prefix_closed:
  assumes "sorted (map f xs)" "\<And>x y. x \<in> set xs \<Longrightarrow> y \<in> set xs \<Longrightarrow> f x \<le> f y \<Longrightarrow> P y \<Longrightarrow> P x"
  shows "filter P xs = take (length (filter P xs)) xs"
  using assms
proof (induction xs)
  case (Cons x xs)
  show ?case
  proof (cases "P x")
    case True
    have "filter P xs = take (length (filter P xs)) xs" by (rule Cons.IH) (use Cons.prems in auto)
    then show ?thesis using True by simp
  next
    case False
    have "\<not> P y" if "y \<in> set xs" for y using Cons.prems(1) Cons.prems(2) [of x y] that False by auto
    then have "filter P xs = []" by (simp add: filter_empty_conv)
    then show ?thesis using False by simp
  qed
qed simp

lemma available_at_mono: "series_key a = series_key b \<Longrightarrow> kl_ts a \<le> kl_ts b \<Longrightarrow> available_at a \<le> available_at b"
  by (cases "kl_timeframe b") (auto simp: available_at_def series_key_def)

lemma known_series:
  assumes "sorted (map kl_ts bars)" "series = filter (\<lambda>b. series_key b = k) bars"
  shows "filter (\<lambda>b. series_key b = k) (known_at t bars) = take (length (known_at t series)) series"
proof -
  have sorted: "sorted (map kl_ts series)" unfolding assms(2) by (rule sorted_filter [OF assms(1)])
  have same: "series_key x = series_key y" if "x \<in> set series" "y \<in> set series" for x y using that by (auto simp: assms(2))
  have "filter (\<lambda>b. series_key b = k) (known_at t bars) = known_at t series"
    by (simp add: known_at_def assms(2) conj_commute)
  also have "\<dots> = take (length (known_at t series)) series"
    unfolding known_at_def
    by (rule filter_prefix_closed [OF sorted]) (meson available_at_mono order_trans same)
  finally show ?thesis .
qed

lemma series_rows_known:
  assumes "sorted (map kl_ts bars)"
  shows "\<exists>n. series_rows (known_at t bars) k = take n (series_rows bars k)"
proof -
  let ?s = "filter (\<lambda>b. series_key b = k) bars"
  obtain n where n: "filter (\<lambda>b. series_key b = k) (known_at t bars) = take n ?s"
    using known_series [OF assms refl, of k t] by blast
  have sorted: "sorted (map kl_ts ?s)" by (rule sorted_filter [OF assms])
  then have "sorted (map kl_ts (take n ?s))" using sorted_wrt_take [of "(\<le>)" "map kl_ts ?s" n] by (simp add: take_map)
  then have "series_rows (known_at t bars) k = take n (series_rows bars k)"
    by (simp add: series_rows_def Let_def n sort_key_id_if_sorted sorted rows_take take_map take_zip del: set_filter)
  then show ?thesis by blast
qed

lemma series_rows_keys: "map fst (series_rows bars k) = map bar_key (sort_key kl_ts (filter (\<lambda>b. series_key b = k) bars))"
  by (simp add: series_rows_def Let_def)

lemma precomputed_iff:
  "(bk, r) \<in> set (precompute_indicators bars) \<longleftrightarrow> (\<exists>k \<in> series_key ` set bars. (bk, r) \<in> set (series_rows bars k))"
  by (auto simp: precompute_indicators_def)

lemma series_rows_member:
  "(bk, r) \<in> set (series_rows bars k) \<Longrightarrow> (\<exists>b \<in> set bars. bar_key b = bk \<and> series_key b = k)"
proof -
  assume "(bk, r) \<in> set (series_rows bars k)"
  then have "bk \<in> set (map fst (series_rows bars k))" by force
  then show ?thesis unfolding series_rows_keys by auto
qed

text \<open>With one bar per key, the table holds one row per key.\<close>

lemma bar_row_exists: "b \<in> set bars \<Longrightarrow> \<exists>r. (bar_key b, r) \<in> set (series_rows bars (series_key b))"
proof -
  assume "b \<in> set bars"
  then have "bar_key b \<in> set (map fst (series_rows bars (series_key b)))" unfolding series_rows_keys by auto
  then show ?thesis by force
qed

lemma bar_key_series: "bar_key a = bar_key b \<Longrightarrow> series_key a = series_key b"
  by (simp add: bar_key_def series_key_def)

lemma one_row_per_key:
  assumes "distinct (map bar_key bars)" "(bk, r) \<in> set (precompute_indicators bars)" "(bk, r') \<in> set (precompute_indicators bars)"
  shows "r = r'"
proof -
  obtain k k' where k: "(bk, r) \<in> set (series_rows bars k)" "(bk, r') \<in> set (series_rows bars k')"
    using assms(2,3) [unfolded precomputed_iff] by blast
  then have "k = k'" using series_rows_member [OF k(1)] series_rows_member [OF k(2)] bar_key_series by metis
  have "mset (sort_key kl_ts (filter (\<lambda>b. series_key b = k) bars)) = mset (filter (\<lambda>b. series_key b = k) bars)" by simp
  then have "distinct (map bar_key (sort_key kl_ts (filter (\<lambda>b. series_key b = k) bars)))"
    using distinct_map_filter [OF assms(1), of "\<lambda>b. series_key b = k"] by (metis mset_eq_imp_distinct_iff mset_map)
  then have "distinct (map fst (series_rows bars k))" unfolding series_rows_keys .
  then show ?thesis using k \<open>k = k'\<close> by (metis eq_key_imp_eq_value)
qed

lemma row_of_member:
  assumes "distinct (map bar_key bars)" "(bk, r) \<in> set (precompute_indicators bars)"
  shows "row_of (precompute_indicators bars) bk = r"
proof -
  have "bk \<in> fst ` set (rev (precompute_indicators bars))" using assms(2) by (metis fst_conv image_eqI set_rev)
  then obtain r' where r': "map_of (rev (precompute_indicators bars)) bk = Some r'" by (metis map_of_eq_None_iff not_Some_eq)
  then have "(bk, r') \<in> set (precompute_indicators bars)" using map_of_SomeD [OF r'] by simp
  then show ?thesis using one_row_per_key [OF assms] r' by (simp add: row_of_def)
qed

lemma row_of_known:
  assumes "sorted (map kl_ts bars)" "distinct (map bar_key bars)" "b \<in> set (known_at t bars)"
  shows "row_of (precompute_indicators (known_at t bars)) (bar_key b) = row_of (precompute_indicators bars) (bar_key b)"
proof -
  obtain r where r: "(bar_key b, r) \<in> set (series_rows (known_at t bars) (series_key b))" using bar_row_exists [OF assms(3)] by blast
  have b: "b \<in> set bars" using assms(3) by (simp add: known_at_def)
  obtain n where "series_rows (known_at t bars) (series_key b) = take n (series_rows bars (series_key b))"
    using series_rows_known [OF assms(1)] by blast
  with r have "(bar_key b, r) \<in> set (series_rows bars (series_key b))" by (auto dest: in_set_takeD)
  then have "(bar_key b, r) \<in> set (precompute_indicators bars)" unfolding precomputed_iff using b by blast
  note this = row_of_member [OF assms(2) this]
  moreover have "distinct (map bar_key (known_at t bars))" unfolding known_at_def by (rule distinct_map_filter [OF assms(2)])
  moreover have "(bar_key b, r) \<in> set (precompute_indicators (known_at t bars))" unfolding precomputed_iff using r assms(3) by blast
  ultimately show ?thesis using row_of_member [of "known_at t bars"] by metis
qed


text \<open>The replay up to a time.\<close>

definition replay_until :: "replay_env \<Rightarrow> kline list \<Rightarrow> int \<Rightarrow> replay_run \<Rightarrow> exn + replay_run" where
  "replay_until env bars t rp =
     foldM (replay_step env (precompute_indicators bars) bars) (filter (\<lambda>u. u \<le> t) (replay_times bars)) rp"

lemma foldM_step_cong: "(\<And>x s. x \<in> set xs \<Longrightarrow> f x s = g x s) \<Longrightarrow> foldM f xs s = foldM g xs s"
proof (induction xs arbitrary: s)
  case (Cons x xs)
  then show ?case by (simp split: sum.split)
qed simp

lemma replay_times_known: "filter (\<lambda>u. u \<le> t) (replay_times bars) = replay_times (known_at t bars)"
  by (simp add: replay_times_def known_at_def filter_sort remdups_filter [symmetric] filter_map comp_def)

lemma released_known: "u \<le> t \<Longrightarrow> filter (\<lambda>b. available_at b = u) (known_at t bars) = filter (\<lambda>b. available_at b = u) bars"
  by (auto simp: known_at_def intro: filter_cong)

lemma replay_step_known:
  assumes "sorted (map kl_ts bars)" "distinct (map bar_key bars)" "u \<le> t"
  shows "replay_step env (precompute_indicators (known_at t bars)) (known_at t bars) u rp
       = replay_step env (precompute_indicators bars) bars u rp"
proof -
  have "b \<in> set (known_at t bars)" if "b \<in> set (filter (\<lambda>b. available_at b = u) bars)" for b
    using that assms(3) by (simp add: known_at_def)
  then have "release_bars (precompute_indicators (known_at t bars)) (filter (\<lambda>b. available_at b = u) bars) db
    = release_bars (precompute_indicators bars) (filter (\<lambda>b. available_at b = u) bars) db" for db
    by (simp add: release_bars_def row_of_known [OF assms(1,2)] cong: map_cong)
  then show ?thesis by (simp add: replay_step_def released_known [OF assms(3)])
qed

lemma replay_until_known:
  assumes "sorted (map kl_ts bars)" "distinct (map bar_key bars)"
  shows "replay_until env bars t rp = replay_bars env (known_at t bars) rp"
  unfolding replay_until_def replay_bars_def replay_times_known
proof (rule foldM_step_cong)
  fix u s assume "u \<in> set (replay_times (known_at t bars))"
  then have "u \<le> t" by (auto simp: replay_times_def known_at_def)
  then show "replay_step env (precompute_indicators bars) bars u s
    = replay_step env (precompute_indicators (known_at t bars)) (known_at t bars) u s"
    by (simp add: replay_step_known [OF assms])
qed

text \<open>
  When a bar has ended, from the time it carries and the length of its period: 24 hours, 60, 15 or 5
  minutes, here in microseconds.
\<close>

definition ended_by :: "int \<Rightarrow> kline \<Rightarrow> bool" where
  "ended_by t b \<longleftrightarrow>
     (case kl_timeframe b of
        DAILY \<Rightarrow> kl_ts b + 86400000000 \<le> t
      | HOUR_60 \<Rightarrow> kl_ts b + 3600000000 \<le> t
      | MIN_15 \<Rightarrow> kl_ts b + 900000000 \<le> t
      | MIN_5 \<Rightarrow> kl_ts b + 300000000 \<le> t)"

lemma known_ended:
  assumes "set (map kl_timeframe bars) \<subseteq> {DAILY, HOUR_60, MIN_15}"
  shows "known_at t bars = filter (ended_by t) bars"
  unfolding known_at_def
proof (rule filter_cong [OF refl])
  fix b assume "b \<in> set bars"
  then have "kl_timeframe b \<in> {DAILY, HOUR_60, MIN_15}" using assms by auto
  then show "available_at b \<le> t \<longleftrightarrow> ended_by t b"
    by (auto simp: available_at_def ended_by_def days_def minutes_def seconds_def)
qed

section \<open>Lemmas: a replay that never trades\<close>

text \<open>
  The size of a proposal is computed from the equity of the last account synchronisation. The
  replayed database has none, so the equity is zero.
\<close>

definition quiet :: "'z store_scheme \<Rightarrow> bool" where
  "quiet db \<longleftrightarrow> trade_signals db = [] \<and> positions db = [] \<and> portfolio_config db = None"

lemma no_equity_no_size: "calculate_position_size c price stop market script (Some 0) = None"
  by (simp add: calculate_position_size_def split: option.split)

lemma quiet_equity: "quiet db \<Longrightarrow> ps_account_equity (portfolio_sync_status db) = 0"
  by (simp add: quiet_def portfolio_sync_status_def no_portfolio_def)

lemma quiet_frame [simp]:
  "quiet (snd (transition r s a b db)) = quiet db"
  "quiet (snd (cool_down today r s a b db)) = quiet db"
  "quiet (put_state r db) = quiet db"
  "quiet (snd (get_or_create_risk_config db)) = quiet db"
  by (auto simp: quiet_def cool_down_def put_state_def split_beta Let_def)

lemma quiet_entry:
  assumes "quiet db" "create_entry_candidate r symbol market script bottom te now db = Inr x"
  shows "quiet (snd x)"
proof -
  obtain c db1 where c: "get_or_create_risk_config db = (c, db1)" by fastforce
  then have q: "quiet db1" using quiet_frame(4) [of db] assms(1) by simp
  show ?thesis using assms(2) q unfolding create_entry_candidate_def c Let_def prod.case quiet_equity [OF q]
    by (auto simp: no_equity_no_size assms(1) split: option.splits sum.splits if_splits)
qed

lemma quiet_await:
  assumes "quiet db" "await_trigger today r symbol market bottom now db = Inr x"
  shows "quiet (snd x)"
  using assms unfolding await_trigger_def Let_def split_beta
  by (auto split: sum.splits if_splits dest: quiet_entry [rotated])

lemma quiet_flat:
  assumes "quiet db" "advance_flat today r symbol market stock_trend now db = Inr x"
  shows "quiet (snd x)"
  using assms unfolding advance_flat_def follow_structures_def Let_def
  by (auto split: option.splits if_splits dest: quiet_await [rotated])

lemma quiet_cleared:
  assumes "quiet db" "advance_cleared today r symbol market stock_trend now db = Inr x"
  shows "quiet (snd x)"
proof -
  have "open_position_of symbol db = None" using assms(1) by (simp add: quiet_def open_position_of_def)
  then show ?thesis using assms unfolding advance_cleared_def by (auto split: option.splits dest: quiet_flat [rotated])
qed

lemma quiet_advance:
  assumes "quiet db" "advance_state_machine symbol market stock_trend today now db = Inr x"
  shows "quiet (snd x)"
proof -
  obtain r db1 where 1: "get_or_create_trading_state symbol db = (r, db1)" by fastforce
  have q: "quiet db1" using 1 assms(1) by (auto simp: quiet_def get_or_create_trading_state_def split: option.splits)
  note body = assms(2) [unfolded advance_state_machine_def Let_def 1 prod.case]
  have "pending_signals symbol ENTRY db1 = []" using q by (simp add: quiet_def pending_signals_def)
  then have "reconcile_pending_entry symbol market db1 = Inr (None, db1)"
    by (simp add: reconcile_pending_entry_def order_desc_def)
  note body' = body [unfolded this sum.case prod.case option.case]
  show ?thesis
  proof (cases "cooling today r")
    case True
    then show ?thesis using body' q by auto
  next
    case False
    then show ?thesis using body' quiet_cleared [OF q] by simp
  qed
qed


definition quiet_run :: "replay_run \<Rightarrow> bool" where
  "quiet_run rp \<longleftrightarrow> quiet (rp_db rp) \<and> rp_active rp = [] \<and> rp_completed rp = []"

lemma quiet_decision:
  assumes "quiet_run rp" "replay_decision env market symbol rp = Inr rp'"
  shows "quiet_run rp'"
proof (cases "trigger_bar symbol (rp_db rp)")
  case None
  then show ?thesis using assms by (simp add: replay_decision_def)
next
  case (Some bar)
  have active: "map_of (rp_active rp) symbol = None" using assms(1) by (simp add: quiet_run_def)
  note body = assms(2) [unfolded replay_decision_def Some option.case active replay_follow_def Let_def]
  obtain db1 where 1: "persist_stock_trend symbol (evaluate_stock_trend symbol (rp_db rp)) (rp_db rp) = Inr db1"
    using body by (auto split: sum.splits)
  have q1: "quiet db1" using 1 assms(1) by (auto simp: persist_stock_trend_def quiet_run_def quiet_def split: option.splits)
  note body1 = body [unfolded 1 sum.case]
  obtain r db2 where 2: "advance_state_machine symbol market (fst (evaluate_stock_trend symbol (rp_db rp))) (date_of (kl_ts bar)) (re_now env) db1
      = Inr (r, db2)" using body1 by (auto split: sum.splits)
  have q2: "quiet db2" using quiet_advance [OF q1 2] by simp
  then have "newest_pending symbol ENTRY db2 = None" by (simp add: newest_pending_def quiet_def pending_signals_def order_desc_def)
  then have "rp' = rp\<lparr>rp_db := db2\<rparr>" using body1 by (simp add: 2 replay_entry_def)
  then show ?thesis using assms(1) q2 by (simp add: quiet_run_def)
qed

lemma quiet_released [simp]:
  "quiet (release_bars rows bars db) = quiet db"
  "quiet (persist_market_state market now db) = quiet db"
  "quiet (replay_structures market bars symbol db) = quiet db"
  by (simp_all add: quiet_def release_bars_def persist_market_state_def replay_structures_def persist_structure_detections_def Let_def)

lemma quiet_fold_structures [simp]: "quiet (fold (replay_structures market bars) symbols db) = quiet db"
  by (induction symbols arbitrary: db) simp_all

lemma quiet_step:
  assumes "quiet_run rp" "replay_step env rows bars t rp = Inr rp'"
  shows "quiet_run rp'"
proof (rule foldM_invariant [where I = quiet_run, OF assms(2) [unfolded replay_step_def Let_def]])
  show "quiet_run (rp\<lparr>rp_db := fold (replay_structures market bs) symbols (persist_market_state market now (release_bars rows bs (rp_db rp)))\<rparr>)"
    for market bs symbols now using assms(1) by (simp add: quiet_run_def)
qed (rule quiet_decision)

lemma quiet_replay: "quiet_run rp \<Longrightarrow> replay_bars env bars rp = Inr rp' \<Longrightarrow> quiet_run rp'"
  unfolding replay_bars_def by (rule foldM_invariant [where I = quiet_run]) (auto intro: quiet_step)

lemma quiet_start: "quiet_run (start_replay source symbols)"
  by (simp add: quiet_run_def quiet_def start_replay_def seed_replay_metadata_def split_beta Let_def)
    (simp add: empty_store_def empty_ledger_def ledger.defs store.defs)

section \<open>Properties\<close>

text \<open>C35. The replay never looks ahead and holds nothing back: what it does up to a time is a whole replay of just the bars
  that have ended by then, a daily bar one day, an hourly bar one hour and a 15-minute bar fifteen minutes
  after the time it carries. Two histories of such bars, each in the order of time and with no bar
  twice, that agree on the ended ones lead to the same database, open and closed trades, or to the same
  error, whatever bars come later.\<close>

theorem replay_never_looks_ahead:
  assumes "sorted (map kl_ts bars)" "distinct (map bar_key bars)" "set (map kl_timeframe bars) \<subseteq> {DAILY, HOUR_60, MIN_15}"
    and "sorted (map kl_ts bars')" "distinct (map bar_key bars')" "set (map kl_timeframe bars') \<subseteq> {DAILY, HOUR_60, MIN_15}"
    and "filter (ended_by t) bars = filter (ended_by t) bars'"
  shows "replay_until env bars t rp = replay_until env bars' t rp
    \<and> replay_until env bars t rp = replay_bars env (filter (ended_by t) bars) rp"
  using replay_until_known [OF assms(1,2)] replay_until_known [OF assms(4,5)] assms(7)
  by (simp only: known_ended [OF assms(3)] known_ended [OF assms(6)])

text \<open>A backtest of the program as it is never trades, whatever bars and settings it runs on: the size of an
  entry is computed from the account equity of the last account synchronisation, the replayed
  database has none, and without equity there is no proposal. Every run reports no trade.\<close>

theorem backtest_never_trades:
  assumes "run_backtest market_symbols symbols from_ts until run_id today now db = Inr (res, db')"
  shows "bs_trade_count (br_stats res) = 0 \<and> br_trade_ids res = [] \<and> backtest_trades db' = backtest_trades db"
proof -
  define stock where "stock = (case symbols of Some (s # ss) \<Rightarrow> s # ss | _ \<Rightarrow> backtest_symbols market_symbols db)"
  define syms where "syms = first_seen (market_symbols @ stock)"
  define env where "env = \<lparr>re_market_symbols = market_symbols, re_stock_symbols = stock, re_start = from_ts, re_today = today, re_now = now\<rparr>"
  note body = assms [unfolded run_backtest_def Let_def, folded stock_def, folded syms_def env_def]
  show ?thesis
  proof (cases "source_bars syms until db = []")
    case True
    then show ?thesis using body by (auto simp: empty_stats_def calculate_stats_def Let_def)
  next
    case False
    note body' = body [unfolded if_not_P [OF False]]
    obtain rp where rp: "replay_bars env (source_bars syms until db) (start_replay db syms) = Inr rp"
      using body' by (auto split: sum.splits)
    have "quiet_run rp" by (rule quiet_replay [OF quiet_start rp])
    then have none: "stored_trades run_id (rp_completed rp @ closing_trades rp) db = []"
      by (simp add: quiet_run_def closing_trades_def stored_trades_def)
    show ?thesis using body' [unfolded rp sum.case none]
      by (auto simp: calculate_stats_def Let_def persist_stats_def)
  qed
qed

text \<open>The statistics say what their names say: the maximal drawdown is the deepest fall of the equity from one
  trade to a later one, and the maximal number of consecutive losses is the length of the longest run
  of trades without gain.\<close>

theorem drawdown_and_losing_run_are_exact:
  "let rs = map bt_final_r trades; st = calculate_stats trades bars symbols signals bottoms
   in falls_by rs (bs_max_drawdown st) \<and> (\<forall>d. falls_by rs d \<longrightarrow> bs_max_drawdown st \<le> d)
    \<and> (\<exists>i k. losing_run rs i k \<and> int k = bs_max_consecutive_losses st)
    \<and> (\<forall>i k. losing_run rs i k \<longrightarrow> int k \<le> bs_max_consecutive_losses st)"
  using cv_drawdown_curve cv_max_losses_curve by (simp add: Let_def calculate_stats_def)

section \<open>Witnesses\<close>

text \<open>A gain of 2, two losses of 1 and a gain: the equity falls by 2, and two trades in a row lose.\<close>

definition traded :: "real \<Rightarrow> backtest_trade" where
  "traded r = \<lparr>bt_id = 0, bt_run_id = [], bt_symbol = ''AAPL'', bt_script = NO_SCRIPT, bt_source_structure_id = None,
     bt_structure_type = None, bt_structure_ts = None, bt_trigger_timeframe = None, bt_trigger_reason = [], bt_entry_ts = 0,
     bt_entry_price = 100, bt_stop_price = 90, bt_shares = 1, bt_risk_amount = 10, bt_exit_ts = 0, bt_exit_price = 100 + 10 * r,
     bt_exit_reason = [], bt_max_r = r, bt_min_r = r, bt_final_r = r, bt_holding_bars = 1, bt_market_state = RISK_ON,
     bt_stock_trend = UPTREND\<rparr>"

theorem drawdown_and_losing_run_are_exact_witness:
  "bs_max_drawdown (calculate_stats (map traded [2, -1, -1, 1]) [] [] [] []) = -2 \<and> falls_by [2, -1, -1, 1] (-2)
   \<and> bs_max_consecutive_losses (calculate_stats (map traded [2, -1, -1, 1]) [] [] [] []) = 2 \<and> \<not> losing_run [2, -1, -1, 1] 1 3"
proof -
  let ?st = "calculate_stats (map traded [2, -1, -1, 1]) [] [] [] []"
  have rs: "map bt_final_r (map traded [2, -1, -1, 1]) = [2, -1, -1, 1]" by (simp add: traded_def)
  have c: "bs_max_drawdown ?st = -2" "bs_max_consecutive_losses ?st = 2"
    by (simp_all add: calculate_stats_def Let_def rs equity_curve_def curve_step_def curve_start_def traded_def)
  show ?thesis
    using drawdown_and_losing_run_are_exact [of "map traded [2, -1, -1, 1]" "[]" "[]" "[]" "[]", unfolded Let_def rs c] c by fastforce
qed

definition plain_bar :: "timeframe \<Rightarrow> int \<Rightarrow> real \<Rightarrow> kline" where
  "plain_bar tf t c = \<lparr>kl_symbol = ''AAPL'', kl_timeframe = tf, kl_ts = t, kl_open = c, kl_high = c + 1, kl_low = c - 1,
     kl_close = c, kl_volume = 1000, kl_turnover = 0, kl_data_ok = True, kl_anomaly_reason = []\<rparr>"

definition small_history :: "kline list" where
  "small_history = [plain_bar DAILY 0 100, plain_bar HOUR_60 (days 1) 100, plain_bar MIN_15 (days 1) 100]"

definition history_store :: results_store where
  "history_store = store.extend (empty_store\<lparr>klines := small_history\<rparr>) (results_store.fields [] [])"

theorem replay_never_looks_ahead_witness:
  "\<forall>env rp. replay_until env (small_history @ [plain_bar MIN_15 (days 2) 90]) (days 2) rp
     = replay_until env (small_history @ [plain_bar MIN_15 (days 2) 110]) (days 2) rp"
proof -
  let ?a = "small_history @ [plain_bar MIN_15 (days 2) 90]" and ?b = "small_history @ [plain_bar MIN_15 (days 2) 110]"
  have a: "sorted (map kl_ts ?a)" "distinct (map bar_key ?a)" "set (map kl_timeframe ?a) \<subseteq> {DAILY, HOUR_60, MIN_15}" by code_simp+
  have b: "sorted (map kl_ts ?b)" "distinct (map bar_key ?b)" "set (map kl_timeframe ?b) \<subseteq> {DAILY, HOUR_60, MIN_15}" by code_simp+
  have "filter (ended_by (days 2)) ?a = filter (ended_by (days 2)) ?b"
    by (simp add: ended_by_def plain_bar_def days_def seconds_def)
  from replay_never_looks_ahead [OF a b this] show ?thesis by blast
qed

theorem backtest_never_trades_witness:
  "\<exists>res db'. run_backtest [''SPY''] None None None ''run'' 0 0 history_store = Inr (res, db') \<and> bs_trade_count (br_stats res) = 0
     \<and> backtest_trades db' = []"
proof -
  have "is_ok (run_backtest [''SPY''] None None None ''run'' 0 0 history_store)" by code_simp
  then obtain res db' where run: "run_backtest [''SPY''] None None None ''run'' 0 0 history_store = Inr (res, db')"
    by (auto dest: is_ok_Inr)
  moreover have "backtest_trades history_store = []" by (simp add: history_store_def results_store.defs store.defs)
  ultimately show ?thesis using backtest_never_trades [OF run] by simp
qed

end
