(* ===== verification/Data_Ingestion.thy ===== *)
theory Data_Ingestion
  imports State_Machine "HOL-Library.Multiset" "HOL-Library.Char_ord" "HOL-Library.List_Lexorder"
begin

text \<open>
  app/services/data_quality.py and app/services/data_ingestion.py: the checks of a bar, the upsert of
  bars with the bad ones marked, the watch list, and the update of many symbols, where the failure of
  one answer of the data source is a result text and not an exception. The data source is a parameter.
\<close>

section \<open>Data quality\<close>

text \<open>The dataclass Bar, as the data source returns it.\<close>

record bar =
  ba_symbol :: string
  ba_timeframe :: timeframe
  ba_ts :: int
  ba_open :: real
  ba_high :: real
  ba_low :: real
  ba_close :: real
  ba_volume :: real
  ba_turnover :: real

text \<open>\<open>str()\<close> of a datetime.\<close>

definition datetime_str :: "int \<Rightarrow> string" where
  "datetime_str t = map (\<lambda>c. if c = CHR ''T'' then CHR '' '' else c) (isoformat t)"

definition bar_fault :: "bar \<Rightarrow> string \<Rightarrow> string" where
  "bar_fault b what = ba_symbol b @ '' '' @ timeframe_text (ba_timeframe b) @ what @ datetime_str (ba_ts b)"

definition validate_bar :: "bar \<Rightarrow> bool \<times> string" where
  "validate_bar b =
     (if ba_open b \<le> 0 \<or> ba_high b \<le> 0 \<or> ba_low b \<le> 0 \<or> ba_close b \<le> 0 then (False, bar_fault b '' has non-positive OHLC at '')
      else if ba_high b + 1 / 10 ^ 8 < max (ba_open b) (max (ba_close b) (ba_low b)) then (False, bar_fault b '' high is inconsistent at '')
      else if ba_low b - 1 / 10 ^ 8 > min (ba_open b) (min (ba_close b) (ba_high b)) then (False, bar_fault b '' low is inconsistent at '')
      else if ba_volume b \<le> 0 then (False, bar_fault b '' has zero volume at '')
      else (True, ''data quality passed''))"

fun validate_from :: "int option \<Rightarrow> bar list \<Rightarrow> bool \<times> string" where
  "validate_from previous [] = (True, ''data quality passed'')"
| "validate_from previous (b # bs) =
     (case validate_bar b of
        (False, reason) \<Rightarrow> (False, reason)
      | (True, _) \<Rightarrow>
          if (case previous of None \<Rightarrow> False | Some t \<Rightarrow> ba_ts b \<le> t)
          then (False, ba_symbol b @ '' '' @ timeframe_text (ba_timeframe b) @ '' timestamps are not strictly increasing'')
          else validate_from (Some (ba_ts b)) bs)"

definition validate_bars :: "bar list \<Rightarrow> bool \<times> string" where
  "validate_bars bars =
     (if bars = [] then (False, ''no bars returned from data source'') else validate_from None (sort_key ba_ts bars))"

section \<open>The watch list\<close>

text \<open>A row of the provider's watch list; absent keys are \<open>None\<close>.\<close>

record watch_row =
  wr_symbol :: string
  wr_name :: "string option"
  wr_industry :: "string option"

definition watched :: "watch_row \<Rightarrow> watchlist_item" where
  "watched r = \<lparr>wl_symbol = py_upper (wr_symbol r),
     wl_name = (case wr_name r of None \<Rightarrow> py_upper (wr_symbol r) | Some n \<Rightarrow> n),
     wl_industry = (case wr_industry r of None \<Rightarrow> [] | Some i \<Rightarrow> i), wl_active = True\<rparr>"

text \<open>
  A symbol that is named twice and not stored yet is inserted twice, as the session does not flush
  before a query, and violates the unique symbol at the commit.
\<close>

definition sync_watchlist :: "watch_row list \<Rightarrow> 'z store_scheme \<Rightarrow> exn + int \<times> 'z store_scheme" where
  "sync_watchlist rows db =
     (let items = map watched rows; seen = set (map wl_symbol items);
          fresh = filter (\<lambda>w. wl_symbol w \<notin> wl_symbol ` set (watchlist db)) items;
          kept = map (\<lambda>w. if wl_symbol w \<in> seen then w else w\<lparr>wl_active := False\<rparr>) (watchlist db)
      in if \<not> distinct (map wl_symbol fresh) then Inl (IntegrityError ''UNIQUE constraint failed: watchlist_items.symbol'')
         else Inr (int (length rows), db\<lparr>watchlist := fold (\<lambda>w. upsert wl_symbol (\<lambda>_. w) w) items kept\<rparr>))"

definition with_market :: "string list \<Rightarrow> string list \<Rightarrow> string list" where
  "with_market market symbols = fold (\<lambda>s acc. if s \<in> set acc then acc else acc @ [s]) market symbols"

definition active_symbols :: "string list \<Rightarrow> 'z store_scheme \<Rightarrow> string list" where
  "active_symbols market db = with_market market (sort (map wl_symbol (filter wl_active (watchlist db))))"

definition candidate_symbols :: "string list \<Rightarrow> 'z store_scheme \<Rightarrow> string list" where
  "candidate_symbols market db =
     with_market market (map cd_symbol (sort_key (\<lambda>c. (- cd_rank_score c, cd_symbol c)) (filter cd_active (candidates db))))"

section \<open>Bars\<close>

definition kline_key :: "kline \<Rightarrow> string \<times> timeframe \<times> int" where
  "kline_key k = (kl_symbol k, kl_timeframe k, kl_ts k)"

text \<open>The row a bar becomes: all its values, and whether it passed the check.\<close>

definition stored_bar :: "bar \<Rightarrow> kline" where
  "stored_bar b = \<lparr>kl_symbol = ba_symbol b, kl_timeframe = ba_timeframe b, kl_ts = ba_ts b, kl_open = ba_open b,
     kl_high = ba_high b, kl_low = ba_low b, kl_close = ba_close b, kl_volume = ba_volume b, kl_turnover = ba_turnover b,
     kl_data_ok = fst (validate_bar b), kl_anomaly_reason = (if fst (validate_bar b) then [] else snd (validate_bar b))\<rparr>"

definition put_bar :: "bar \<Rightarrow> kline list \<Rightarrow> kline list" where
  "put_bar b ks = upsert kline_key (\<lambda>_. stored_bar b) (stored_bar b) ks"

definition upsert_bars :: "bar list \<Rightarrow> 'z store_scheme \<Rightarrow> exn + (nat \<times> nat) \<times> 'z store_scheme" where
  "upsert_bars bars db =
     (let ordered = sort_key ba_ts bars;
          fresh = filter (\<lambda>b. kline_key (stored_bar b) \<notin> kline_key ` set (klines db)) ordered
      in if \<not> distinct (map (kline_key \<circ> stored_bar) fresh)
         then Inl (IntegrityError ''UNIQUE constraint failed: klines.symbol, klines.timeframe, klines.ts'')
         else Inr ((length bars, length (filter (\<lambda>b. \<not> fst (validate_bar b)) bars)),
                   db\<lparr>klines := fold put_bar ordered (klines db)\<rparr>))"

section \<open>Updating many symbols\<close>

text \<open>
  The session of the update: after a failed commit it is unusable until a rollback, which nothing
  here calls, so that every later query raises. The results are a dictionary by symbol and timeframe.
\<close>

record 'z update_run =
  up_db :: "'z store_scheme"
  up_broken :: bool
  up_results :: "(string \<times> string) list"
  up_progress :: "(nat \<times> nat \<times> string) list"

definition zh_updating :: string where "zh_updating = utf8 [27491, 22312, 26356, 26032, 32]" \<comment> \<open>updating\<close>
definition zh_dot :: string where "zh_dot = utf8 [32, 183, 32]" \<comment> \<open>a middle dot\<close>

definition pending_rollback :: exn where
  "pending_rollback = OtherError ''This Session's transaction has been rolled back due to a previous exception during flush.''"

type_synonym bar_source = "string \<Rightarrow> timeframe \<Rightarrow> exn + bar list"

definition series_result :: "bar_source \<Rightarrow> string \<Rightarrow> timeframe \<Rightarrow> bool \<Rightarrow> 'z store_scheme \<Rightarrow> string \<times> bool \<times> 'z store_scheme" where
  "series_result source symbol tf broken db =
     (case source symbol tf of
        Inl e \<Rightarrow> (''data source failed: '' @ exn_str e, broken, db)
      | Inr bars \<Rightarrow>
          if bars = [] then (''no bars returned from data source'', broken, db)
          else if broken then (''data source failed: '' @ exn_str pending_rollback, True, db)
          else (case upsert_bars bars db of
                  Inl e \<Rightarrow> (''data source failed: '' @ exn_str e, True, db)
                | Inr ((n, bad), db') \<Rightarrow>
                    (if bad \<noteq> 0 then ''updated '' @ str_int (int n) @ '' bars; '' @ str_int (int bad) @ '' anomalous bars isolated''
                     else ''updated '' @ str_int (int n) @ '' bars; data quality passed'', False, db')))"

definition update_series :: "bar_source \<Rightarrow> nat \<Rightarrow> string \<times> timeframe \<Rightarrow> 'z update_run \<Rightarrow> 'z update_run" where
  "update_series source all_series k u =
     (let symbol = fst k; tf = snd k; (text, broken, db) = series_result source symbol tf (up_broken u) (up_db u)
      in \<lparr>up_db = db, up_broken = broken,
          up_results = upsert fst (\<lambda>_. (symbol @ '':'' @ timeframe_text tf, text)) (symbol @ '':'' @ timeframe_text tf, text) (up_results u),
          up_progress = up_progress u @ [(length (up_progress u) + 1, all_series, zh_updating @ symbol @ zh_dot @ timeframe_text tf)]\<rparr>)"

definition update_market_data ::
  "bar_source \<Rightarrow> string list \<Rightarrow> timeframe list \<Rightarrow> 'z store_scheme \<Rightarrow> 'z update_run" where
  "update_market_data source symbols timeframes db =
     (let keys = concat (map (\<lambda>s. map (\<lambda>tf. (s, tf)) timeframes) symbols)
      in fold (update_series source (length keys)) keys
           \<lparr>up_db = db, up_broken = False, up_results = [], up_progress = []\<rparr>)"

text \<open>The timeframes when none are given: the core ones, and the display ones on request.\<close>

definition default_timeframes :: "bool \<Rightarrow> timeframe list" where
  "default_timeframes display = [DAILY, HOUR_60] @ (if display then [MIN_15, MIN_5] else [])"

section \<open>Lemmas\<close>

lemma kline_key_stored [simp]: "kline_key (stored_bar b) = (ba_symbol b, ba_timeframe b, ba_ts b)"
  by (simp add: kline_key_def stored_bar_def)

lemma upsert_const_keys: "key ` set (upsert key (\<lambda>_. x) x xs) = insert (key x) (key ` set xs)"
proof -
  have "map key (map (\<lambda>y. if key y = key x then x else y) xs) = map key xs" by simp
  then have "key ` set (map (\<lambda>y. if key y = key x then x else y) xs) = key ` set xs" by (metis list.set_map)
  then show ?thesis by (auto simp: upsert_def)
qed

lemma put_bar_distinct: "distinct (map kline_key ks) \<Longrightarrow> distinct (map kline_key (put_bar b ks)) \<and> stored_bar b \<in> set (put_bar b ks)"
  unfolding put_bar_def by (rule upsert_put)

lemma put_bar_member:
  assumes "k \<in> set (put_bar b ks)"
  shows "k = stored_bar b \<or> k \<in> set ks \<and> kline_key k \<noteq> kline_key (stored_bar b)"
proof (cases "kline_key (stored_bar b) \<in> kline_key ` set ks")
  case False
  then have "kline_key k \<noteq> kline_key (stored_bar b)" if "k \<in> set ks" using that by (metis imageI)
  then show ?thesis using assms False by (auto simp: put_bar_def upsert_def simp del: kline_key_stored)
qed (use assms in \<open>auto simp: put_bar_def upsert_def simp del: kline_key_stored split: if_splits\<close>)

lemma put_bar_keeps: "k \<in> set ks \<Longrightarrow> kline_key k \<noteq> kline_key (stored_bar b) \<Longrightarrow> k \<in> set (put_bar b ks)"
  by (auto simp: put_bar_def upsert_def image_iff)

text \<open>A row that may be used: it passed the check.\<close>

definition sound_row :: "kline \<Rightarrow> bool" where
  "sound_row k \<longleftrightarrow> (kl_data_ok k \<longrightarrow> 0 < kl_open k \<and> 0 < kl_low k \<and> 0 < kl_close k \<and> 0 < kl_volume k
     \<and> max (kl_open k) (kl_close k) \<le> kl_high k + 1 / 10 ^ 8 \<and> kl_low k - 1 / 10 ^ 8 \<le> min (kl_open k) (kl_close k))"

lemma stored_bar_sound: "sound_row (stored_bar b)"
  by (auto simp: sound_row_def stored_bar_def validate_bar_def split: if_splits)

definition bars_ok :: "kline list \<Rightarrow> bool" where
  "bars_ok ks \<longleftrightarrow> distinct (map kline_key ks) \<and> (\<forall>k \<in> set ks. sound_row k)"

lemma put_bar_ok: "bars_ok ks \<Longrightarrow> bars_ok (put_bar b ks)"
  unfolding bars_ok_def using put_bar_distinct [of ks b] stored_bar_sound [of b] put_bar_member [of _ b ks] by blast

lemma fold_put_bar:
  assumes "bars_ok ks"
  shows "bars_ok (fold put_bar bs ks)
    \<and> (\<forall>k \<in> set ks. kline_key k \<notin> (kline_key \<circ> stored_bar) ` set bs \<longrightarrow> k \<in> set (fold put_bar bs ks))
    \<and> (\<forall>k \<in> set (fold put_bar bs ks). k \<in> set ks \<or> k \<in> stored_bar ` set bs)
    \<and> (\<forall>b \<in> set bs. distinct (map (kline_key \<circ> stored_bar) bs) \<longrightarrow> stored_bar b \<in> set (fold put_bar bs ks))"
  using assms
proof (induction bs arbitrary: ks)
  case (Cons b bs)
  note IH = Cons.IH [OF put_bar_ok [OF Cons.prems, of b]]
  have "stored_bar b \<in> set (put_bar b ks)" using put_bar_distinct Cons.prems by (auto simp: bars_ok_def)
  moreover have "k \<in> set (put_bar b ks)" if "k \<in> set ks" "kline_key k \<noteq> kline_key (stored_bar b)" for k using that by (rule put_bar_keeps)
  moreover have "k = stored_bar b \<or> k \<in> set ks" if "k \<in> set (put_bar b ks)" for k using put_bar_member [OF that] by blast
  ultimately show ?case using IH by (auto simp del: kline_key_stored)
qed simp


lemma upsert_bars_ok:
  assumes "bars_ok (klines db)" "upsert_bars bars db = Inr (c, db')"
  shows "bars_ok (klines db')" "k \<in> set (klines db) \<Longrightarrow> kline_key k \<notin> (kline_key \<circ> stored_bar) ` set bars \<Longrightarrow> k \<in> set (klines db')"
    "k \<in> set (klines db') \<Longrightarrow> k \<in> set (klines db) \<or> k \<in> stored_bar ` set bars"
    "b \<in> set bars \<Longrightarrow> distinct (map (kline_key \<circ> stored_bar) bars) \<Longrightarrow> stored_bar b \<in> set (klines db')"
proof -
  have db': "klines db' = fold put_bar (sort_key ba_ts bars) (klines db)"
    using assms(2) by (auto simp: upsert_bars_def Let_def simp del: kline_key_stored split: if_splits)
  note F = fold_put_bar [OF assms(1), of "sort_key ba_ts bars"]
  have "mset (map (kline_key \<circ> stored_bar) (sort_key ba_ts bars)) = mset (map (kline_key \<circ> stored_bar) bars)" by simp
  then have same: "distinct (map (kline_key \<circ> stored_bar) (sort_key ba_ts bars)) = distinct (map (kline_key \<circ> stored_bar) bars)"
    by (rule mset_eq_imp_distinct_iff)
  show "bars_ok (klines db')" using F by (simp add: db')
  show "k \<in> set (klines db) \<Longrightarrow> kline_key k \<notin> (kline_key \<circ> stored_bar) ` set bars \<Longrightarrow> k \<in> set (klines db')"
    using F by (simp add: db' del: kline_key_stored)
  show "k \<in> set (klines db') \<Longrightarrow> k \<in> set (klines db) \<or> k \<in> stored_bar ` set bars" using F by (simp add: db')
  show "b \<in> set bars \<Longrightarrow> distinct (map (kline_key \<circ> stored_bar) bars) \<Longrightarrow> stored_bar b \<in> set (klines db')"
    using F same by (simp add: db' del: kline_key_stored)
qed

lemma series_result_ok:
  assumes "bars_ok (klines db)" "series_result source symbol tf broken db = (msg, broken', db')"
  shows "bars_ok (klines db')"
  using assms upsert_bars_ok(1) [OF assms(1)]
  by (auto simp: series_result_def split: sum.splits if_splits prod.splits)

lemma update_series_facts:
  assumes "bars_ok (klines (up_db u))"
  shows "bars_ok (klines (up_db (update_series source n k u)))"
    "fst ` set (up_results (update_series source n k u)) = insert (fst k @ '':'' @ timeframe_text (snd k)) (fst ` set (up_results u))"
    "map fst (up_progress (update_series source n k u)) = map fst (up_progress u) @ [length (up_progress u) + 1]"
proof -
  obtain msg broken db where r: "series_result source (fst k) (snd k) (up_broken u) (up_db u) = (msg, broken, db)" by (metis prod_cases3)
  show "bars_ok (klines (up_db (update_series source n k u)))" using series_result_ok [OF assms r] by (simp add: update_series_def r Let_def)
  show "fst ` set (up_results (update_series source n k u)) = insert (fst k @ '':'' @ timeframe_text (snd k)) (fst ` set (up_results u))"
    by (simp add: update_series_def r Let_def upsert_const_keys)
  show "map fst (up_progress (update_series source n k u)) = map fst (up_progress u) @ [length (up_progress u) + 1]"
    by (simp add: update_series_def r Let_def)
qed

lemma update_fold_facts:
  assumes "bars_ok (klines (up_db u))" "map fst (up_progress u) = [1..<Suc (length (up_progress u))]"
  shows "bars_ok (klines (up_db (fold (update_series source n) keys u)))
    \<and> fst ` set (up_results (fold (update_series source n) keys u))
      = (\<lambda>k. fst k @ '':'' @ timeframe_text (snd k)) ` set keys \<union> fst ` set (up_results u)
    \<and> map fst (up_progress (fold (update_series source n) keys u)) = [1..<Suc (length (up_progress u) + length keys)]"
  using assms
proof (induction keys arbitrary: u)
  case (Cons k keys)
  let ?u = "update_series source n k u"
  note F = update_series_facts [OF Cons.prems(1), of source n k]
  have "length (up_progress ?u) = length (map fst (up_progress ?u))" by simp
  then have len: "length (up_progress ?u) = Suc (length (up_progress u))" unfolding F(3) by simp
  have "map fst (up_progress ?u) = [1..<Suc (length (up_progress ?u))]" unfolding F(3) Cons.prems(2) len by simp
  from Cons.IH [OF F(1) this] show ?case using F(2) len by simp
qed simp

section \<open>Properties\<close>

text \<open>Storing bars keeps one row per symbol, timeframe and time; every bar of the answer is stored with its
  values and is marked usable exactly when it passed the check, other rows stay as they were, and no
  row that is marked usable has inconsistent prices or no volume.\<close>

theorem bars_are_stored_and_checked:
  assumes "bars_ok (klines db)" "distinct (map (\<lambda>b. (ba_symbol b, ba_timeframe b, ba_ts b)) bars)"
  shows "\<exists>db'. upsert_bars bars db = Inr ((length bars, length (filter (\<lambda>b. \<not> fst (validate_bar b)) bars)), db')
    \<and> bars_ok (klines db') \<and> (\<forall>b \<in> set bars. stored_bar b \<in> set (klines db'))
    \<and> (\<forall>k. kline_key k \<notin> (\<lambda>b. (ba_symbol b, ba_timeframe b, ba_ts b)) ` set bars \<longrightarrow> (k \<in> set (klines db') \<longleftrightarrow> k \<in> set (klines db)))"
proof -
  have d: "distinct (map (kline_key \<circ> stored_bar) bars)" using assms(2) by (simp add: comp_def)
  have "mset (map (kline_key \<circ> stored_bar) (sort_key ba_ts bars)) = mset (map (kline_key \<circ> stored_bar) bars)" by simp
  then have "distinct (map (kline_key \<circ> stored_bar) (sort_key ba_ts bars))" using d mset_eq_imp_distinct_iff by blast
  then have "distinct (map (kline_key \<circ> stored_bar) (filter (\<lambda>b. kline_key (stored_bar b) \<notin> kline_key ` set (klines db)) (sort_key ba_ts bars)))"
    by (rule distinct_map_filter)
  then obtain db' where up: "upsert_bars bars db = Inr ((length bars, length (filter (\<lambda>b. \<not> fst (validate_bar b)) bars)), db')"
    by (simp add: upsert_bars_def Let_def del: kline_key_stored)
  note U = upsert_bars_ok [OF assms(1) up]
  have "k \<in> set (klines db') \<longleftrightarrow> k \<in> set (klines db)"
    if "kline_key k \<notin> (\<lambda>b. (ba_symbol b, ba_timeframe b, ba_ts b)) ` set bars" for k
    using U(2) [of k] U(3) [of k] that by (auto simp: comp_def)
  then show ?thesis using up U(1) U(4) [OF _ d] by blast
qed

text \<open>Whatever the data source answers, and wherever it fails, the update goes through all series: each gets a
  result text, the progress counts from one to the number of series, and the stored bars stay unique
  and sound.\<close>

theorem update_survives_the_source:
  assumes "bars_ok (klines db)" "u = update_market_data source symbols timeframes db"
  shows "bars_ok (klines (up_db u))
    \<and> (\<forall>s \<in> set symbols. \<forall>tf \<in> set timeframes. s @ '':'' @ timeframe_text tf \<in> fst ` set (up_results u))
    \<and> map fst (up_progress u) = [1..<Suc (length symbols * length timeframes)]"
proof -
  let ?keys = "concat (map (\<lambda>s. map (\<lambda>tf. (s, tf)) timeframes) symbols)"
  let ?u = "\<lparr>up_db = db, up_broken = False, up_results = [], up_progress = []\<rparr> :: 'a update_run"
  have n: "length ?keys = length symbols * length timeframes" by (induction symbols) simp_all
  have u: "u = fold (update_series source (length ?keys)) ?keys ?u" by (simp add: assms(2) update_market_data_def Let_def)
  have F: "bars_ok (klines (up_db u)) \<and> fst ` set (up_results u) = (\<lambda>k. fst k @ '':'' @ timeframe_text (snd k)) ` set ?keys \<union> fst ` set (up_results ?u)
    \<and> map fst (up_progress u) = [1..<Suc (length (up_progress ?u) + length ?keys)]"
    unfolding u by (rule update_fold_facts) (simp_all add: assms(1))
  have "fst ` set (up_results u) = (\<lambda>k. fst k @ '':'' @ timeframe_text (snd k)) ` set ?keys" using F by simp
  then have "\<forall>s \<in> set symbols. \<forall>tf \<in> set timeframes. s @ '':'' @ timeframe_text tf \<in> fst ` set (up_results u)" by force
  then show ?thesis using F n by simp
qed

section \<open>Witnesses\<close>

definition sample_bar :: "string \<Rightarrow> int \<Rightarrow> real \<Rightarrow> bar" where
  "sample_bar s t volume = \<lparr>ba_symbol = s, ba_timeframe = DAILY, ba_ts = t, ba_open = 10, ba_high = 12, ba_low = 9, ba_close = 11,
     ba_volume = volume, ba_turnover = 0\<rparr>"

lemma empty_bars_ok [simp]: "bars_ok []"
  by (simp add: bars_ok_def)

lemma klines_empty [simp]: "klines empty_store = []"
  by (simp add: empty_store_def ledger.defs store.defs empty_ledger_def)

definition two_bars :: "bar list" where
  "two_bars = [sample_bar ''A'' 1 100, sample_bar ''A'' 2 0]"

theorem bars_are_stored_and_checked_witness:
  "\<exists>db'. upsert_bars two_bars empty_store = Inr ((2, 1), db') \<and> stored_bar (sample_bar ''A'' 2 0) \<in> set (klines db')"
proof -
  have "length two_bars = 2" "length (filter (\<lambda>b. \<not> fst (validate_bar b)) two_bars) = 1"
    "distinct (map (\<lambda>b. (ba_symbol b, ba_timeframe b, ba_ts b)) two_bars)"
    by (simp_all add: two_bars_def sample_bar_def validate_bar_def max_def min_def)
  with bars_are_stored_and_checked [of empty_store two_bars] obtain db' where
    "upsert_bars two_bars empty_store = Inr ((2, 1), db')" "\<forall>b \<in> set two_bars. stored_bar b \<in> set (klines db')"
    by (simp only: klines_empty empty_bars_ok) blast
  moreover have "sample_bar ''A'' 2 0 \<in> set two_bars" by (simp add: two_bars_def)
  ultimately show ?thesis by blast
qed

theorem update_survives_the_source_witness:
  "map fst (up_progress (update_market_data (\<lambda>s tf. if s = ''A'' then Inr [sample_bar ''A'' 1 100] else Inl (OtherError ''offline''))
     [''A'', ''B''] (default_timeframes False) empty_store)) = [1, 2, 3, 4]"
proof -
  show ?thesis
    using update_survives_the_source [OF _ refl, of empty_store "\<lambda>s tf. if s = ''A'' then Inr [sample_bar ''A'' 1 100] else Inl (OtherError ''offline'')"
        "[''A'', ''B'']" "default_timeframes False"]
    by (simp add: default_timeframes_def upt_rec)
qed

text \<open>
  An answer that names a time twice fails at the commit, and as nothing rolls back, every later
  series of the update fails too.
\<close>

lemma one_duplicate_spoils_the_rest:
  "map snd (up_results (update_market_data (\<lambda>s tf. Inr (if s = ''A'' then [sample_bar ''A'' 1 100, sample_bar ''A'' 1 100] else [sample_bar s 1 100]))
     [''A'', ''B''] [DAILY] empty_store))
   = [''data source failed: UNIQUE constraint failed: klines.symbol, klines.timeframe, klines.ts'',
      ''data source failed: This Session's transaction has been rolled back due to a previous exception during flush.'']"
  by (simp add: update_market_data_def update_series_def series_result_def upsert_bars_def sample_bar_def pending_rollback_def upsert_def)

end
