(* ===== verification/Screener.thy ===== *)
theory Screener
  imports Data_Ingestion
begin

text \<open>
  app/services/screener.py: the candidate pool. The rows of the stock filter are merged by symbol,
  scored, ranked and cut off; candidates that were not found again are carried on for some days and
  then dropped. The rows come from the data source.
\<close>

definition zh_carry :: string where \<comment> \<open>a candidate of the last 5 days, or still worth it for a structure, a plan or a position\<close>
  "zh_carry = utf8 [36817, 32, 53, 32, 22825, 20505, 36873, 25110, 20173, 26377, 32467, 26500, 12289, 35745, 21010, 12289, 25345,
     20179, 20215, 20540]"
definition zh_dropped :: string where \<comment> \<open>not selected again for more than 5 days, and neither a plan nor a position\<close>
  "zh_dropped = utf8 [36830, 32493, 36229, 36807, 32, 53, 32, 22825, 26410, 37325, 26032, 20837, 36873, 19988, 26080, 26377, 25928,
     35745, 21010, 25110, 25345, 20179]"
definition zh_hit_a :: string where "zh_hit_a = utf8 [21629, 20013, 32]" \<comment> \<open>hit\<close>
definition zh_hit_b :: string where "zh_hit_b = utf8 [32, 20010, 25216, 26415, 26631, 31614, 65292, 35206, 30422, 32]" \<comment> \<open>tags, in\<close>
definition zh_hit_c :: string where \<comment> \<open>pools; ranked by liquidity, activity and technical closeness\<close>
  "zh_hit_c = utf8 [32, 31867, 20505, 36873, 27744, 65307, 25353, 27969, 21160, 24615, 12289, 27963, 36291, 24230, 19982, 25216, 26415,
     25509, 36817, 24230, 25490, 24207, 12290]"

section \<open>Merging\<close>

definition POOL_PRIORITY :: "string list" where
  "POOL_PRIORITY = [''LOW_REBOUND'', ''TREND_UP'', ''HIGH_RISK'', ''WEAK_DOWN'']"

definition pool_rank :: "string \<Rightarrow> nat" where
  "pool_rank p = length (takeWhile (\<lambda>q. q \<noteq> p) POOL_PRIORITY)"

text \<open>The sets of the class MergedCandidate are lists without repetition.\<close>

record merged_candidate =
  mc_symbol :: string
  mc_name :: string
  mc_market :: string
  mc_pool_types :: "string list"
  mc_tags :: "string list"
  mc_metrics :: "(string \<times> real) list"

definition add_once :: "string \<Rightarrow> string list \<Rightarrow> string list" where
  "add_once x xs = (if x \<in> set xs then xs else xs @ [x])"

definition number_of_value :: "pyval \<Rightarrow> real option" where
  "number_of_value v = (case py_float v of Inl _ \<Rightarrow> None | Inr x \<Rightarrow> Some x)"

definition METRIC_KEYS :: "string list" where
  "METRIC_KEYS = [''cur_price'', ''market_val'', ''turnover_3d'', ''volume_ratio'']"

definition merge_metric :: "row \<Rightarrow> string \<Rightarrow> (string \<times> real) list \<Rightarrow> (string \<times> real) list" where
  "merge_metric row key ms =
     (case number_of_value (row_get row key) of
        None \<Rightarrow> ms
      | Some v \<Rightarrow> (let w = (case map_of ms key of None \<Rightarrow> v | Some previous \<Rightarrow> max previous v)
                   in upsert fst (\<lambda>_. (key, w)) (key, w) ms))"

definition merge_into :: "row \<Rightarrow> string \<Rightarrow> string \<Rightarrow> merged_candidate \<Rightarrow> merged_candidate" where
  "merge_into row pool_type tag c =
     c\<lparr>mc_pool_types := add_once pool_type (mc_pool_types c),
       mc_tags := (if tag = [] then mc_tags c else add_once tag (mc_tags c)),
       mc_metrics := fold (merge_metric row) METRIC_KEYS (mc_metrics c)\<rparr>"

definition first_merged :: "row \<Rightarrow> string \<Rightarrow> merged_candidate" where
  "first_merged row symbol = \<lparr>mc_symbol = symbol, mc_name = py_str (py_or (row_get row ''name'') (PStr symbol)),
     mc_market = py_str (py_or (row_get row ''market'') (PStr ''US'')), mc_pool_types = [], mc_tags = [], mc_metrics = []\<rparr>"

definition merge_row :: "row \<Rightarrow> merged_candidate list \<Rightarrow> merged_candidate list" where
  "merge_row row ms =
     (let symbol = py_upper (str_or_empty (row_get row ''symbol''));
          pool_type = str_or_empty (row_get row ''pool_type''); tag = str_or_empty (row_get row ''tag'')
      in if symbol = [] \<or> pool_type \<notin> set POOL_PRIORITY then ms
         else upsert mc_symbol (merge_into row pool_type tag) (merge_into row pool_type tag (first_merged row symbol)) ms)"

definition merge_candidates :: "row list \<Rightarrow> merged_candidate list" where
  "merge_candidates rows = fold merge_row rows []"

section \<open>Scoring\<close>

definition metric :: "string \<Rightarrow> merged_candidate \<Rightarrow> real \<Rightarrow> real" where
  "metric key c d = opt_or (map_of (mc_metrics c) key) d"

definition clamp_100 :: "real \<Rightarrow> real" where
  "clamp_100 x = min 100 (max 0 x)"

definition liquidity_score :: "merged_candidate \<Rightarrow> real" where
  "liquidity_score c = clamp_100 (24 * log 10 (max (metric ''turnover_3d'' c 0) 1 / 1000000 + 1))"

definition heat_score :: "merged_candidate \<Rightarrow> real" where
  "heat_score c = clamp_100 (42 * metric ''volume_ratio'' c 1)"

definition technical_score :: "merged_candidate \<Rightarrow> real" where
  "technical_score c = min 100 (25 * real (length (mc_tags c)) + 8 * real (length (mc_pool_types c) - 1))"

definition size_bonus :: "merged_candidate \<Rightarrow> real" where
  "size_bonus c = min 10 (max 0 (log 10 (max (metric ''market_val'' c 0) 1 / 2000000000 + 1) * 8))"

record scored_candidate =
  sc_symbol :: string
  sc_name :: string
  sc_market :: string
  sc_pool_types :: "string list"
  sc_tags :: "string list"
  sc_selected_reason :: string
  sc_rank_score :: real
  sc_liquidity_score :: real
  sc_heat_score :: real
  sc_technical_score :: real

definition score_candidate :: "merged_candidate \<Rightarrow> scored_candidate" where
  "score_candidate c =
     \<lparr>sc_symbol = mc_symbol c, sc_name = mc_name c, sc_market = mc_market c,
      sc_pool_types = sort_key pool_rank (mc_pool_types c), sc_tags = sort (mc_tags c),
      sc_selected_reason = zh_hit_a @ str_int (int (length (mc_tags c))) @ zh_hit_b @ str_int (int (length (mc_pool_types c))) @ zh_hit_c,
      sc_rank_score = py_round 2 (liquidity_score c * (45/100) + heat_score c * (2/10) + technical_score c * (35/100) + size_bonus c),
      sc_liquidity_score = py_round 2 (liquidity_score c), sc_heat_score = py_round 2 (heat_score c),
      sc_technical_score = py_round 2 (technical_score c)\<rparr>"

section \<open>Screening\<close>

definition ranked_candidates :: "nat \<Rightarrow> row list \<Rightarrow> scored_candidate list" where
  "ranked_candidates limit rows =
     take limit (sort_key (\<lambda>i. (- sc_rank_score i, sc_symbol i)) (map score_candidate (merge_candidates rows)))"

definition age_of :: "int \<Rightarrow> candidate \<Rightarrow> int" where
  "age_of now c = date_of now - date_of (case cd_last_selected_at c of None \<Rightarrow> cd_selected_at c | Some t \<Rightarrow> t)"

definition COMMITTED :: "string list" where
  "COMMITTED = [''BATTLE_ACTIVE'', ''PLAN_ACTIVE'', ''IN_POSITION'']"

definition carry_over :: "int \<Rightarrow> string set \<Rightarrow> candidate \<Rightarrow> candidate" where
  "carry_over now selected c =
     (if cd_active c \<and> cd_symbol c \<notin> selected
      then (if age_of now c \<le> 5 \<or> cd_status c \<in> set COMMITTED
            then c\<lparr>cd_status := ''CARRY_OVER'', cd_carry_reason := zh_carry, cd_age_days := age_of now c\<rparr>
            else c\<lparr>cd_active := False, cd_status := ''DROPPED'', cd_dropped_reason := zh_dropped\<rparr>)
      else c)"

definition selected_row :: "int \<Rightarrow> scored_candidate \<Rightarrow> candidate \<Rightarrow> candidate" where
  "selected_row now i c =
     (let first = (case cd_first_selected_at c of None \<Rightarrow> now | Some t \<Rightarrow> t)
      in c\<lparr>cd_name := sc_name i, cd_market := sc_market i, cd_pool_type := hd (sc_pool_types i), cd_pool_types := sc_pool_types i,
           cd_tags := sc_tags i, cd_selected_reason := sc_selected_reason i, cd_rank_score := sc_rank_score i,
           cd_liquidity_score := sc_liquidity_score i, cd_heat_score := sc_heat_score i,
           cd_technical_score := sc_technical_score i, cd_active := True, cd_selected_at := now,
           cd_first_selected_at := Some first, cd_last_selected_at := Some now,
           cd_age_days := date_of now - date_of first, cd_status := ''ACTIVE_TODAY'', cd_carry_reason := [], cd_dropped_reason := []\<rparr>)"

definition select_candidate :: "int \<Rightarrow> scored_candidate \<Rightarrow> candidate list \<Rightarrow> candidate list" where
  "select_candidate now i cs = upsert cd_symbol (selected_row now i) (selected_row now i (new_candidate (sc_symbol i) now)) cs"

definition snapshot_row :: "string \<Rightarrow> scored_candidate \<Rightarrow> candidate_snapshot" where
  "snapshot_row run_id i = \<lparr>cs_run_id = run_id, cs_symbol = sc_symbol i, cs_pool_type = hd (sc_pool_types i), cs_pool_types = sc_pool_types i,
     cs_tags = sc_tags i, cs_rank_score = sc_rank_score i\<rparr>"

record screening =
  sr_run_id :: string
  sr_raw_matches :: nat
  sr_unique_candidates :: nat
  sr_selected :: nat
  sr_pool_counts :: "(string \<times> nat) list"

definition screen_market :: "row list \<Rightarrow> nat \<Rightarrow> string \<Rightarrow> int \<Rightarrow> 'z store_scheme \<Rightarrow> screening \<times> 'z store_scheme" where
  "screen_market rows limit run_id now db =
     (let ranked = ranked_candidates limit rows; selected = sc_symbol ` set ranked
      in (\<lparr>sr_run_id = run_id, sr_raw_matches = length rows, sr_unique_candidates = length (merge_candidates rows),
           sr_selected = length ranked,
           sr_pool_counts = map (\<lambda>p. (p, length (filter (\<lambda>i. p \<in> set (sc_pool_types i)) ranked))) POOL_PRIORITY\<rparr>,
          db\<lparr>candidates := fold (select_candidate now) ranked (map (carry_over now selected) (candidates db)),
             candidate_snapshots := candidate_snapshots db @ map (snapshot_row run_id) ranked\<rparr>))"

section \<open>Lemmas\<close>

lemma merge_into_symbol [simp]: "mc_symbol (merge_into row p t c) = mc_symbol c"
  by (simp add: merge_into_def)

lemma first_merged_symbol [simp]: "mc_symbol (first_merged row s) = s"
  by (simp add: first_merged_def)

lemma merged_distinct: "distinct (map mc_symbol ms) \<Longrightarrow> distinct (map mc_symbol (fold merge_row rows ms))"
proof (induction rows arbitrary: ms)
  case (Cons row rows)
  have "distinct (map mc_symbol (merge_row row ms))"
    using Cons.prems by (auto simp: merge_row_def Let_def intro: upsert_distinct)
  then show ?case using Cons.IH by simp
qed simp

lemma scored_symbol [simp]: "sc_symbol (score_candidate c) = mc_symbol c"
  by (simp add: score_candidate_def)

lemma ranked_distinct: "distinct (map sc_symbol (ranked_candidates limit rows))"
proof -
  let ?xs = "map score_candidate (merge_candidates rows)" and ?f = "\<lambda>i. (- sc_rank_score i, sc_symbol i)"
  have "distinct (map sc_symbol ?xs)" using merged_distinct [of "[]" rows] by (simp add: merge_candidates_def comp_def)
  moreover have "mset (map sc_symbol (sort_key ?f ?xs)) = mset (map sc_symbol ?xs)" by (simp add: multiset.map_comp)
  ultimately have "distinct (map sc_symbol (sort_key ?f ?xs))" using mset_eq_imp_distinct_iff by blast
  then show ?thesis unfolding ranked_candidates_def take_map [symmetric] by (rule distinct_take)
qed

lemma clamp_bounds: "0 \<le> clamp_100 x" "clamp_100 x \<le> 100"
  by (simp_all add: clamp_100_def)

lemma technical_bounds: "0 \<le> technical_score c" "technical_score c \<le> 100"
  by (simp_all add: technical_score_def)

lemma size_bounds: "0 \<le> size_bonus c" "size_bonus c \<le> 10"
  by (simp_all add: size_bonus_def)

lemma rank_score_bounds: "0 \<le> sc_rank_score (score_candidate c)" "sc_rank_score (score_candidate c) \<le> 110"
proof -
  let ?x = "liquidity_score c * (45/100) + heat_score c * (2/10) + technical_score c * (35/100) + size_bonus c"
  have "0 \<le> ?x" "?x \<le> 110"
    using clamp_bounds [of "24 * log 10 (max (metric ''turnover_3d'' c 0) 1 / 1000000 + 1)"] clamp_bounds [of "42 * metric ''volume_ratio'' c 1"]
      technical_bounds [of c] size_bounds [of c]
    unfolding liquidity_score_def heat_score_def by linarith+
  then have "py_round 2 0 \<le> py_round 2 ?x" "py_round 2 ?x \<le> py_round 2 110" by (auto intro: py_round_mono)
  moreover have "py_round 2 0 = 0" "py_round 2 110 = 110" by (simp_all add: py_round_def round_half_even_def Let_def)
  ultimately show "0 \<le> sc_rank_score (score_candidate c)" "sc_rank_score (score_candidate c) \<le> 110"
    by (simp_all add: score_candidate_def)
qed

lemma carry_over_symbol [simp]: "cd_symbol (carry_over now sel c) = cd_symbol c"
  by (simp add: carry_over_def)

lemma selected_row_sel [simp]:
  "cd_symbol (selected_row now i c) = cd_symbol c" "cd_active (selected_row now i c)"
  "cd_status (selected_row now i c) = ''ACTIVE_TODAY''" "cd_last_selected_at (selected_row now i c) = Some now"
  by (simp_all add: selected_row_def Let_def)

lemma new_candidate_symbol [simp]: "cd_symbol (new_candidate s now) = s"
  by (simp add: new_candidate_def)

lemma select_fold:
  assumes "distinct (map cd_symbol cs)"
  shows "distinct (map cd_symbol (fold (select_candidate now) ranked cs))
    \<and> cd_symbol ` set (fold (select_candidate now) ranked cs) = sc_symbol ` set ranked \<union> cd_symbol ` set cs
    \<and> (\<forall>c \<in> set (fold (select_candidate now) ranked cs).
         if cd_symbol c \<in> sc_symbol ` set ranked then cd_active c \<and> cd_status c = ''ACTIVE_TODAY'' \<and> cd_last_selected_at c = Some now
         else c \<in> set cs)"
  using assms
proof (induction ranked arbitrary: cs)
  case (Cons i ranked)
  let ?cs = "select_candidate now i cs"
  have d: "distinct (map cd_symbol ?cs)" unfolding select_candidate_def by (rule upsert_distinct) (simp_all add: Cons.prems)
  have s: "cd_symbol ` set ?cs = insert (sc_symbol i) (cd_symbol ` set cs)"
    unfolding select_candidate_def using upsert_keys [of cd_symbol "selected_row now i" "selected_row now i (new_candidate (sc_symbol i) now)" cs] by simp
  have m: "c \<in> set cs \<and> cd_symbol c \<noteq> sc_symbol i \<or> cd_symbol c = sc_symbol i \<and> cd_active c \<and> cd_status c = ''ACTIVE_TODAY'' \<and> cd_last_selected_at c = Some now"
    if "c \<in> set ?cs" for c
    using upsert_member [of cd_symbol "selected_row now i" c "selected_row now i (new_candidate (sc_symbol i) now)" cs] that
    by (auto simp: select_candidate_def)
  note IH = Cons.IH [OF d]
  have "if cd_symbol c \<in> sc_symbol ` set (i # ranked) then cd_active c \<and> cd_status c = ''ACTIVE_TODAY'' \<and> cd_last_selected_at c = Some now
      else c \<in> set cs" if c: "c \<in> set (fold (select_candidate now) ranked ?cs)" for c
  proof (cases "cd_symbol c \<in> sc_symbol ` set ranked")
    case True
    then show ?thesis using IH c by simp
  next
    case False
    then have "c \<in> set ?cs" using IH c by simp
    from m [OF this] show ?thesis
    proof (elim disjE conjE)
      assume "c \<in> set cs" "cd_symbol c \<noteq> sc_symbol i"
      then show ?thesis using False by simp
    next
      assume "cd_symbol c = sc_symbol i" "cd_active c" "cd_status c = ''ACTIVE_TODAY''" "cd_last_selected_at c = Some now"
      then show ?thesis by simp
    qed
  qed
  moreover have "cd_symbol ` set (fold (select_candidate now) ranked ?cs) = sc_symbol ` set (i # ranked) \<union> cd_symbol ` set cs"
    using IH s by simp
  ultimately show ?case using IH by simp
qed simp


text \<open>A candidate that is carried on: it is young, or its status counts as a commitment.\<close>

definition carried :: "int \<Rightarrow> candidate \<Rightarrow> bool" where
  "carried now c \<longleftrightarrow> cd_active c \<and> (age_of now c \<le> 5 \<or> cd_status c \<in> set COMMITTED)"

lemma carry_over_active: "cd_symbol c \<notin> sel \<Longrightarrow> cd_active (carry_over now sel c) \<longleftrightarrow> carried now c"
  by (auto simp: carry_over_def carried_def)

lemma screened_candidate:
  assumes "distinct (map cd_symbol (candidates db))" "screen_market rows limit run_id now db = (r, db')" "c \<in> set (candidates db')"
  shows "if cd_symbol c \<in> sc_symbol ` set (ranked_candidates limit rows)
      then cd_active c \<and> cd_status c = ''ACTIVE_TODAY'' \<and> cd_last_selected_at c = Some now
      else \<exists>c0 \<in> set (candidates db). c = carry_over now (sc_symbol ` set (ranked_candidates limit rows)) c0"
proof -
  let ?sel = "sc_symbol ` set (ranked_candidates limit rows)" and ?cs = "map (carry_over now (sc_symbol ` set (ranked_candidates limit rows))) (candidates db)"
  have db': "candidates db' = fold (select_candidate now) (ranked_candidates limit rows) ?cs"
    using assms(2) by (auto simp: screen_market_def Let_def)
  have "distinct (map cd_symbol ?cs)" using assms(1) by (simp add: comp_def)
  from select_fold [OF this, of now "ranked_candidates limit rows"] assms(3)
  have "if cd_symbol c \<in> ?sel then cd_active c \<and> cd_status c = ''ACTIVE_TODAY'' \<and> cd_last_selected_at c = Some now else c \<in> set ?cs"
    unfolding db' by blast
  then show ?thesis by (auto split: if_splits)
qed

section \<open>Properties\<close>

text \<open>A screening selects the best: at most the limit, no symbol twice, none ranked behind a candidate that was
  cut off, with rank scores between 0 and 110.\<close>

theorem screening_selects_the_best:
  shows "length (ranked_candidates limit rows) = min limit (length (merge_candidates rows))
    \<and> distinct (map sc_symbol (ranked_candidates limit rows))
    \<and> (\<forall>i \<in> set (ranked_candidates limit rows). 0 \<le> sc_rank_score i \<and> sc_rank_score i \<le> 110
        \<and> (\<forall>c \<in> set (merge_candidates rows). mc_symbol c \<notin> sc_symbol ` set (ranked_candidates limit rows)
              \<longrightarrow> sc_rank_score (score_candidate c) \<le> sc_rank_score i))"
proof -
  let ?f = "\<lambda>i. (- sc_rank_score i, sc_symbol i)"
  let ?all = "sort_key ?f (map score_candidate (merge_candidates rows))"
  have split: "?all = ranked_candidates limit rows @ drop limit ?all" by (simp add: ranked_candidates_def)
  have order: "?f i \<le> ?f j" if "i \<in> set (ranked_candidates limit rows)" "j \<in> set (drop limit ?all)" for i j
  proof -
    have "sorted (map ?f ?all)" by simp
    then have "sorted (map ?f (ranked_candidates limit rows) @ map ?f (drop limit ?all))" by (metis map_append split)
    then show ?thesis using that by (auto simp: sorted_append)
  qed
  have "sc_rank_score (score_candidate c) \<le> sc_rank_score i"
    if i: "i \<in> set (ranked_candidates limit rows)" and c: "c \<in> set (merge_candidates rows)" "mc_symbol c \<notin> sc_symbol ` set (ranked_candidates limit rows)" for i c
  proof -
    have "score_candidate c \<in> set ?all" using c(1) by simp
    then have "score_candidate c \<in> set (ranked_candidates limit rows @ drop limit ?all)" by (metis split)
    moreover have "score_candidate c \<notin> set (ranked_candidates limit rows)" using c(2) by (metis imageI scored_symbol)
    ultimately have "score_candidate c \<in> set (drop limit ?all)" by simp
    from order [OF i this] show ?thesis by (auto simp: less_eq_prod_def)
  qed
  moreover have "0 \<le> sc_rank_score i \<and> sc_rank_score i \<le> 110" if i: "i \<in> set (ranked_candidates limit rows)" for i
  proof -
    have "i \<in> set ?all" using i unfolding ranked_candidates_def by (rule in_set_takeD)
    then obtain c where "i = score_candidate c" by auto
    then show ?thesis using rank_score_bounds by simp
  qed
  ultimately show ?thesis using ranked_distinct by (simp add: ranked_candidates_def min.commute)
qed

text \<open>After a screening the active candidates are the selected ones and those of the last five days: no other
  reason keeps a candidate, since the statuses that count as a commitment are never stored. A symbol
  with an open position or a plan is dropped like any other.\<close>

theorem only_recent_candidates_are_carried:
  assumes "distinct (map cd_symbol (candidates db))" "\<forall>c \<in> set (candidates db). cd_status c \<notin> set COMMITTED"
    and "screen_market rows limit run_id now db = (r, db')"
  shows "(\<forall>c \<in> set (candidates db'). cd_status c \<notin> set COMMITTED)
    \<and> (\<forall>c \<in> set (candidates db'). cd_active c \<longleftrightarrow> cd_symbol c \<in> sc_symbol ` set (ranked_candidates limit rows)
         \<or> (\<exists>c0 \<in> set (candidates db). cd_symbol c0 = cd_symbol c \<and> cd_active c0 \<and> age_of now c0 \<le> 5))"
proof (intro conjI ballI)
  let ?sel = "sc_symbol ` set (ranked_candidates limit rows)"
  fix c assume c: "c \<in> set (candidates db')"
  note S = screened_candidate [OF assms(1,3) c]
  show "cd_status c \<notin> set COMMITTED"
  proof (cases "cd_symbol c \<in> ?sel")
    case True
    then show ?thesis using S by (simp add: COMMITTED_def)
  next
    case False
    then obtain c0 where "c0 \<in> set (candidates db)" "c = carry_over now ?sel c0" using S by auto
    then show ?thesis using assms(2) by (auto simp: carry_over_def COMMITTED_def)
  qed
  show "cd_active c \<longleftrightarrow> cd_symbol c \<in> ?sel \<or> (\<exists>c0 \<in> set (candidates db). cd_symbol c0 = cd_symbol c \<and> cd_active c0 \<and> age_of now c0 \<le> 5)"
  proof (cases "cd_symbol c \<in> ?sel")
    case True
    then show ?thesis using S by simp
  next
    case False
    then obtain c0 where c0: "c0 \<in> set (candidates db)" "c = carry_over now ?sel c0" using S by auto
    have same: "c1 = c0" if "c1 \<in> set (candidates db)" "cd_symbol c1 = cd_symbol c" for c1
      using that c0 assms(1) by (auto simp: distinct_map inj_on_def)
    have "cd_status c0 \<notin> set COMMITTED" using assms(2) c0(1) by blast
    then have "cd_active c \<longleftrightarrow> cd_active c0 \<and> age_of now c0 \<le> 5"
      using carry_over_active [of c0 ?sel now] c0(2) False by (simp add: carried_def)
    moreover have "cd_symbol c0 = cd_symbol c" using c0(2) by simp
    ultimately show ?thesis using c0(1) same False by metis
  qed
qed

section \<open>Witnesses\<close>

text \<open>Two rows of one symbol and one of another are two candidates, of which one is selected.\<close>

definition some_rows :: "row list" where
  "some_rows = [[(''symbol'', PStr ''aapl''), (''pool_type'', PStr ''TREND_UP''), (''tag'', PStr ''MACD'')],
     [(''symbol'', PStr ''KO''), (''pool_type'', PStr ''LOW_REBOUND'')],
     [(''symbol'', PStr ''AAPL''), (''pool_type'', PStr ''HIGH_RISK''), (''volume_ratio'', PInt 2)],
     [(''symbol'', PStr ''IBM''), (''pool_type'', PStr ''UNKNOWN'')]]"

theorem screening_selects_the_best_witness:
  "map mc_symbol (merge_candidates some_rows) = [''AAPL'', ''KO''] \<and> length (ranked_candidates 1 some_rows) = 1
     \<and> 0 \<le> sc_rank_score (hd (ranked_candidates 1 some_rows)) \<and> sc_rank_score (hd (ranked_candidates 1 some_rows)) \<le> 110"
proof -
  have all: "map mc_symbol (merge_candidates some_rows) = [''AAPL'', ''KO'']" by code_simp
  then have "length (merge_candidates some_rows) = 2" by (metis length_map length_Cons list.size(3) numeral_2_eq_2)
  note S = screening_selects_the_best [of 1 some_rows, unfolded this]
  then have "length (ranked_candidates 1 some_rows) = 1" by simp
  moreover from this have "hd (ranked_candidates 1 some_rows) \<in> set (ranked_candidates 1 some_rows)" by (metis hd_in_set length_0_conv zero_neq_one)
  ultimately show ?thesis using S all by blast
qed

definition held_candidate :: candidate where
  "held_candidate = (new_candidate ''AAPL'' 0)\<lparr>cd_last_selected_at := Some 0\<rparr>"

definition held_store :: store where
  "held_store = empty_store\<lparr>candidates := [held_candidate], positions := [new_position ''AAPL'' 100 95 10 50 0]\<rparr>"

theorem only_recent_candidates_are_carried_witness:
  "\<exists>c. candidates (snd (screen_market [] 300 ''run'' (days 6) held_store)) = [c] \<and> \<not> cd_active c
     \<and> positions (snd (screen_market [] 300 ''run'' (days 6) held_store)) = [new_position ''AAPL'' 100 95 10 50 0]"
proof -
  obtain r db' where run: "screen_market [] 300 ''run'' (days 6) held_store = (r, db')" by fastforce
  have start: "candidates held_store = [held_candidate]" "positions held_store = [new_position ''AAPL'' 100 95 10 50 0]"
    by (simp_all add: held_store_def)
  have old: "cd_status held_candidate \<notin> set COMMITTED" "age_of (days 6) held_candidate = 6"
    by (simp_all add: held_candidate_def new_candidate_def COMMITTED_def age_of_def date_of_def days_def seconds_def)
  have none: "ranked_candidates 300 [] = []" by (simp add: ranked_candidates_def merge_candidates_def)
  have after: "candidates db' = [carry_over (days 6) {} held_candidate]" "positions db' = positions held_store"
    using run by (auto simp: screen_market_def Let_def none start)
  have "distinct (map cd_symbol (candidates held_store))" "\<forall>c \<in> set (candidates held_store). cd_status c \<notin> set COMMITTED"
    using old by (simp_all add: start)
  from only_recent_candidates_are_carried [OF this run] have "\<not> cd_active (carry_over (days 6) {} held_candidate)"
    unfolding start after none by (simp add: old)
  then show ?thesis unfolding run snd_conv after start by blast
qed

end
