(* ===== verification/Futu_Provider.thy ===== *)
theory Futu_Provider
  imports Screener
begin

text \<open>
  app/providers/futu_provider.py: what the program does around the calls of the futu SDK: the loop
  over the pages of the stock filter with its retry, the quotas it keeps by sleeping, the watch list,
  snapshots and price reminders. The SDK is a parameter: a call answers with rows or with an error
  text, and may answer the same question differently each time, so the calls are numbered.

  The connection and the history of bars are in Futu_Data.
\<close>

section \<open>Paging through the stock filter\<close>

text \<open>The pools and the patterns of each, in the order in which they are asked for.\<close>

definition PATTERNS :: "(string \<times> string) list" where
  "PATTERNS =
     [(''LOW_REBOUND'', ''MACD_LOW_IMPROVING''), (''LOW_REBOUND'', ''KDJ_LOW_GOLD_CROSS''), (''LOW_REBOUND'', ''KDJ_BOTTOM_DIVERGENCE''),
      (''LOW_REBOUND'', ''BOLL_CROSS_MIDDLE_UP''),
      (''TREND_UP'', ''MA_ALIGNMENT_LONG''), (''TREND_UP'', ''EMA_ALIGNMENT_LONG''), (''TREND_UP'', ''BOLL_BREAK_UPPER''),
      (''TREND_UP'', ''BOLL_CROSS_MIDDLE_UP''),
      (''HIGH_RISK'', ''MACD_DEATH_CROSS_HIGH''), (''HIGH_RISK'', ''MACD_TOP_DIVERGENCE''), (''HIGH_RISK'', ''KDJ_DEATH_CROSS_HIGH''),
      (''HIGH_RISK'', ''RSI_TOP_DIVERGENCE''),
      (''WEAK_DOWN'', ''MA_ALIGNMENT_SHORT''), (''WEAK_DOWN'', ''EMA_ALIGNMENT_SHORT''), (''WEAK_DOWN'', ''BOLL_CROSS_MIDDLE_DOWN'')]"

text \<open>A row of the filter: the code, the name, and the value of each filter, absent or not.\<close>

record filter_row =
  fr_stock_code :: string
  fr_stock_name :: string
  fr_values :: "(string \<times> real) list"

text \<open>The answer to call number \<open>n\<close> for a pattern, a beginning and a number of rows.\<close>

type_synonym stock_filter = "nat \<Rightarrow> string \<times> string \<Rightarrow> nat \<Rightarrow> nat \<Rightarrow> string + bool \<times> filter_row list"

definition zh_quota :: string where \<comment> \<open>at most 10 times in 30 seconds\<close>
  "zh_quota = utf8 [27599, 51, 48, 31186, 26368, 22810, 49, 48, 27425]"

text \<open>A call that hits the quota of the server is repeated once.\<close>

definition request_stock_filter ::
  "stock_filter \<Rightarrow> nat \<Rightarrow> string \<times> string \<Rightarrow> nat \<Rightarrow> nat \<Rightarrow> (string + bool \<times> filter_row list) \<times> nat" where
  "request_stock_filter sdk n p begin_at num =
     (case sdk n p begin_at num of
        Inl e \<Rightarrow> if py_contains zh_quota e then (sdk (n + 1) p begin_at num, n + 2) else (Inl e, n + 1)
      | Inr page \<Rightarrow> (Inr page, n + 1))"

function filter_pages ::
  "stock_filter \<Rightarrow> string \<times> string \<Rightarrow> nat \<Rightarrow> nat \<Rightarrow> filter_row list \<Rightarrow> (exn + filter_row list) \<times> nat" where
  "filter_pages sdk p n begin_at acc =
     (if begin_at \<ge> 300 then (Inr acc, n)
      else (case request_stock_filter sdk n p begin_at (min 200 (300 - begin_at)) of
              (Inl e, n') \<Rightarrow> (Inl (RuntimeError (''Futu get_stock_filter failed for '' @ fst p @ ''/'' @ snd p @ '': '' @ e)), n')
            | (Inr (last_page, rows), n') \<Rightarrow>
                if last_page \<or> rows = [] then (Inr (acc @ rows), n')
                else filter_pages sdk p n' (begin_at + length rows) (acc @ rows)))"
  by pat_completeness auto
termination
  by (relation "measure (\<lambda>(sdk, p, n, begin_at, acc). 300 - begin_at)") (auto simp flip: length_greater_0_conv)

declare filter_pages.simps [simp del]

text \<open>A row of the result, as the screener reads it; the text of a number is not read.\<close>

definition number_cell :: "filter_row \<Rightarrow> string \<Rightarrow> pyval" where
  "number_cell r key = (case map_of (fr_values r) key of None \<Rightarrow> PNone | Some v \<Rightarrow> PFloat v (fmt_fixed 6 v))"

definition candidate_row :: "string \<times> string \<Rightarrow> filter_row \<Rightarrow> row list" where
  "candidate_row p r =
     (let code = py_upper (fr_stock_code r); symbol = removeprefix ''US.'' code
      in if \<not> starts_with ''US.'' code \<or> starts_with ''US..'' code then []
         else [[(''symbol'', PStr symbol), (''name'', PStr (str_or (fr_stock_name r) symbol)), (''market'', PStr ''US''),
                (''pool_type'', PStr (fst p)), (''tag'', PStr (snd p)), (''cur_price'', number_cell r ''cur_price''),
                (''market_val'', number_cell r ''market_val''), (''turnover_3d'', number_cell r ''turnover_3d''),
                (''volume_ratio'', number_cell r ''volume_ratio'')]])"

fun stock_filter_candidates :: "stock_filter \<Rightarrow> (string \<times> string) list \<Rightarrow> nat \<Rightarrow> row list \<Rightarrow> (exn + row list) \<times> nat" where
  "stock_filter_candidates sdk [] n acc = (Inr acc, n)"
| "stock_filter_candidates sdk (p # ps) n acc =
     (case filter_pages sdk p n 0 [] of
        (Inl e, n') \<Rightarrow> (Inl e, n')
      | (Inr rows, n') \<Rightarrow> stock_filter_candidates sdk ps n' (acc @ concat (map (candidate_row p) rows)))"

definition get_stock_filter_candidates :: "stock_filter \<Rightarrow> (exn + row list) \<times> nat" where
  "get_stock_filter_candidates sdk = stock_filter_candidates sdk PATTERNS 0 []"

section \<open>Quotas\<close>

text \<open>
  The stock filter allows 10 requests in 30 seconds. The provider keeps the times of its requests;
  before a request it forgets the old ones and sleeps when ten are left. The history of bars allows
  one request in half a second.
\<close>

definition recent_requests :: "real \<Rightarrow> real list \<Rightarrow> real list" where
  "recent_requests now q = filter (\<lambda>t. now - t < 30) q"

definition filter_wait :: "real \<Rightarrow> real list \<Rightarrow> real" where
  "filter_wait now q =
     (let recent = recent_requests now q
      in if length recent \<ge> 10 then max 0 (302/10 - (now - hd recent)) else 0)"

definition filter_quota :: "real \<Rightarrow> real \<Rightarrow> real list \<Rightarrow> real list" where
  "filter_quota now requested_at q = recent_requests now q @ [requested_at]"

definition history_wait :: "real \<Rightarrow> real \<Rightarrow> real" where
  "history_wait now previous = (if now - previous < 55/100 then 55/100 - (now - previous) else 0)"

text \<open>
  A run of requests: the clock does not go back, and a sleep lasts at least as long as asked for. The
  first list holds the requests made, the newest first; the second the repetitions of a refused
  request, which wait too but are not recorded; the third is what the provider remembers.
\<close>

inductive quota_run :: "real list \<Rightarrow> real list \<Rightarrow> real list \<Rightarrow> bool" where
  begin_quota: "quota_run [] [] []"
| request: "quota_run h rs q \<Longrightarrow> \<forall>t \<in> set h \<union> set rs. t \<le> now \<Longrightarrow> now + filter_wait now q \<le> requested_at
    \<Longrightarrow> quota_run (requested_at # h) rs (filter_quota now requested_at q)"
| retry: "quota_run (t # h) rs q \<Longrightarrow> \<forall>s \<in> set rs. s \<le> t \<Longrightarrow> t + 302/10 \<le> retried_at
    \<Longrightarrow> quota_run (t # h) (retried_at # rs) q"

definition in_window :: "real \<Rightarrow> real list \<Rightarrow> nat" where
  "in_window t calls = length (filter (\<lambda>s. t - 30 < s \<and> s \<le> t) calls)"

section \<open>The other calls\<close>

text \<open>\<open>replace\<close> of every occurrence of the prefix of the market.\<close>

function without_us :: "string \<Rightarrow> string" where
  "without_us [] = []"
| "without_us (c # s) = (if take 3 (c # s) = ''US.'' then without_us (drop 2 s) else c # without_us s)"
  by pat_completeness auto
termination
  by (relation "measure length") auto

definition watch_rows :: "row list \<Rightarrow> watch_row list" where
  "watch_rows rows =
     concat (map (\<lambda>r. let raw = py_upper (str_or_empty (py_or (row_get r ''code'') (row_get r ''symbol''))); code = without_us raw
        in if \<not> starts_with ''US.'' raw \<or> code = [] \<or> starts_with ''.'' code then []
           else [\<lparr>wr_symbol = code, wr_name = Some (py_str (py_or (row_get r ''name'') (PStr code))),
                  wr_industry = Some (str_or_empty (row_get r ''industry''))\<rparr>]) rows)"

definition zh_us_stocks :: string where "zh_us_stocks = utf8 [32654, 32929]" \<comment> \<open>US stocks\<close>
definition zh_own_stocks :: string where "zh_own_stocks = utf8 [33258, 36873, 32929]" \<comment> \<open>own choice\<close>
definition zh_all_stocks :: string where "zh_all_stocks = utf8 [20840, 37096]" \<comment> \<open>all\<close>

definition discover_watchlist_group :: "string + row list \<Rightarrow> exn + string" where
  "discover_watchlist_group answer =
     (case answer of
        Inl e \<Rightarrow> Inl (RuntimeError (''Futu get_user_security_group failed: '' @ e))
      | Inr [] \<Rightarrow> Inl (RuntimeError ''Futu has no watchlist groups'')
      | Inr (r # rs) \<Rightarrow>
          (let names = map (\<lambda>r. str_or_empty (row_get r ''group_name'')) (r # rs);
               hits = concat (map (\<lambda>w. filter (\<lambda>g. py_contains (py_lower w) (py_lower g)) names)
                 [zh_us_stocks, ''US'', zh_own_stocks, zh_all_stocks])
           in Inr (case hits of g # _ \<Rightarrow> g | [] \<Rightarrow> py_str (row_get r ''group_name''))))"

definition futu_code :: "string \<Rightarrow> string" where
  "futu_code symbol = (if starts_with ''US.'' symbol then symbol else ''US.'' @ symbol)"

definition futu_set_price_reminder ::
  "(string \<Rightarrow> string \<Rightarrow> real \<Rightarrow> string \<Rightarrow> string + int) \<Rightarrow> string \<Rightarrow> string \<Rightarrow> real \<Rightarrow> string \<Rightarrow> exn + int" where
  "futu_set_price_reminder sdk symbol ty v remark =
     (if ty \<notin> {''PRICE_UP'', ''PRICE_DOWN''} then Inl (ValueError (''unsupported reminder type: '' @ ty))
      else case sdk (futu_code symbol) ty v (take 10 remark) of
             Inl e \<Rightarrow> Inl (RuntimeError (''Futu set_price_reminder failed for '' @ symbol @ '': '' @ e))
           | Inr i \<Rightarrow> Inr i)"

definition futu_get_price_reminders :: "(string \<Rightarrow> string + row list) \<Rightarrow> string \<Rightarrow> exn + row list" where
  "futu_get_price_reminders sdk symbol =
     (case sdk (futu_code symbol) of
        Inl e \<Rightarrow> if py_contains ''empty data'' (py_lower e) then Inr []
                 else Inl (RuntimeError (''Futu get_price_reminder failed for '' @ symbol @ '': '' @ e))
      | Inr rows \<Rightarrow> Inr rows)"

definition futu_market_snapshot :: "(string list \<Rightarrow> string + row list) \<Rightarrow> string list \<Rightarrow> exn + row list" where
  "futu_market_snapshot sdk symbols =
     (case sdk (map futu_code symbols) of
        Inl e \<Rightarrow> Inl (RuntimeError (''Futu get_market_snapshot failed: '' @ e))
      | Inr rows \<Rightarrow> Inr rows)"

section \<open>Lemmas\<close>

lemma request_calls: "request_stock_filter sdk n p b num = (res, n') \<Longrightarrow> n < n' \<and> n' \<le> n + 2"
  by (auto simp: request_stock_filter_def split: sum.splits if_splits)

lemma request_page:
  assumes "request_stock_filter sdk n p b num = (Inr (last_page, rows), n')"
  shows "\<exists>k. sdk k p b num = Inr (last_page, rows)"
  using assms by (auto simp: request_stock_filter_def split: sum.splits if_splits)

text \<open>At most two calls for every row position, and, if no page is longer than asked for, at most 300 rows.\<close>

lemma filter_pages_bounds:
  assumes "filter_pages sdk p n begin_at acc = (res, n')"
  shows "n' \<le> n + 2 * (300 - begin_at)
    \<and> (\<forall>rows. res = Inr rows \<longrightarrow> (\<forall>k b num page. sdk k p b num = Inr page \<longrightarrow> length (snd page) \<le> num)
         \<longrightarrow> length rows \<le> length acc + (300 - begin_at))"
  using assms
proof (induction sdk p n begin_at acc rule: filter_pages.induct)
  case (1 sdk p n begin_at acc)
  show ?case
  proof (cases "begin_at \<ge> 300")
    case True
    then show ?thesis using 1(2) by (auto simp: filter_pages.simps [of sdk p n])
  next
    case False
    obtain page n1 where r: "request_stock_filter sdk n p begin_at (min 200 (300 - begin_at)) = (page, n1)" by fastforce
    note calls = request_calls [OF r]
    note body = 1(2) [unfolded filter_pages.simps [of sdk p n] if_not_P [OF False] r prod.case]
    show ?thesis
    proof (cases page)
      case (Inl e)
      then show ?thesis using body calls False by auto
    next
      case (Inr pg)
      obtain last_page rows where pg: "pg = (last_page, rows)" by fastforce
      obtain k where k: "sdk k p begin_at (min 200 (300 - begin_at)) = Inr (last_page, rows)"
        using request_page r Inr pg by blast
      note body' = body [unfolded Inr pg sum.case prod.case]
      show ?thesis
      proof (cases "last_page \<or> rows = []")
        case True
        then have out: "res = Inr (acc @ rows)" "n' = n1" using body' by auto
        have "length rows \<le> 300 - begin_at" if "\<forall>k b num page. sdk k p b num = Inr page \<longrightarrow> length (snd page) \<le> num"
          using that k by fastforce
        then show ?thesis using out calls False by auto
      next
        case more: False
        then have "filter_pages sdk p n1 (begin_at + length rows) (acc @ rows) = (res, n')" using body' by simp
        note IH = 1(1) [OF False r [symmetric] Inr pg [symmetric] more this]
        have pos: "0 < length rows" using more by simp
        have "n' \<le> n + 2 * (300 - begin_at)" using IH calls False pos by linarith
        moreover have "length out \<le> length acc + (300 - begin_at)"
          if "res = Inr out" "\<forall>k b num page. sdk k p b num = Inr page \<longrightarrow> length (snd page) \<le> num" for out
        proof -
          have "length rows \<le> 300 - begin_at" using that(2) k by fastforce
          then show ?thesis using IH that by auto
        qed
        ultimately show ?thesis by blast
      qed
    qed
  qed
qed

lemma stock_filter_calls:
  "stock_filter_candidates sdk ps n acc = (res, n') \<Longrightarrow> n' \<le> n + 600 * length ps"
proof (induction ps arbitrary: n acc)
  case (Cons p ps)
  obtain pages n1 where r: "filter_pages sdk p n 0 [] = (pages, n1)" by fastforce
  have "n1 \<le> n + 600" using filter_pages_bounds [OF r] by simp
  then show ?case using Cons r by (cases pages) fastforce+
qed simp

text \<open>No window of 30 seconds holds more than ten requests; the list is newest first.\<close>

fun windows_ok :: "real list \<Rightarrow> bool" where
  "windows_ok [] = True"
| "windows_ok (t # older) = (length (filter (\<lambda>s. t - s < 30) (t # older)) \<le> 10 \<and> windows_ok older)"

text \<open>What the provider remembers: the requests that may still count, the oldest first.\<close>

lemma filter_subset_length: "(\<And>x. x \<in> set xs \<Longrightarrow> P x \<Longrightarrow> Q x) \<Longrightarrow> length (filter P xs) \<le> length (filter Q xs)"
  by (induction xs) auto

lemma sorted_hd: "sorted xs \<Longrightarrow> x \<in> set xs \<Longrightarrow> hd xs \<le> x"
  by (cases xs) auto

lemma quota_invariant:
  "quota_run h rs q \<Longrightarrow> windows_ok h \<and> sorted (rev h)
     \<and> (\<forall>now. (\<forall>t \<in> set h. t \<le> now) \<longrightarrow> recent_requests now q = recent_requests now (rev h))"
proof (induction rule: quota_run.induct)
  case (request h rs q now requested_at)
  let ?r = "recent_requests now (rev h)"
  have recent: "recent_requests now q = ?r" using request by blast
  have later: "now \<le> requested_at" using request(3) by (simp add: filter_wait_def Let_def split: if_splits)
  have few: "length ?r \<le> 10"
  proof (cases h)
    case (Cons l older)
    have "length ?r = length (filter (\<lambda>s. now - s < 30) h)" by (simp add: recent_requests_def rev_filter [symmetric])
    also have "\<dots> \<le> length (filter (\<lambda>s. l - s < 30) h)" by (rule filter_subset_length) (use request(2) Cons in auto)
    also have "\<dots> \<le> 10" using request.IH unfolding Cons windows_ok.simps(2) by blast
    finally show ?thesis .
  qed (simp add: recent_requests_def)
  have "length (filter (\<lambda>s. requested_at - s < 30) ?r) \<le> 9"
  proof (cases "length ?r \<ge> 10")
    case True
    then obtain o1 rest where r: "?r = o1 # rest" by (cases ?r) auto
    have "302/10 - (now - o1) \<le> requested_at - now" using request(3) True by (simp add: filter_wait_def recent Let_def r)
    then have "filter (\<lambda>s. requested_at - s < 30) ?r = filter (\<lambda>s. requested_at - s < 30) rest" unfolding r by simp
    also have "length \<dots> \<le> length rest" by (rule length_filter_le)
    also have "length rest \<le> 9" using few r by simp
    finally show ?thesis .
  next
    case False
    have "length (filter (\<lambda>s. requested_at - s < 30) ?r) \<le> length ?r" by (rule length_filter_le)
    then show ?thesis using False by linarith
  qed
  moreover have "filter (\<lambda>s. requested_at - s < 30) ?r = filter (\<lambda>s. requested_at - s < 30) (rev h)"
    unfolding recent_requests_def filter_filter by (rule filter_cong) (use later in auto)
  ultimately have "length (filter (\<lambda>s. requested_at - s < 30) h) \<le> 9" by (simp add: rev_filter [symmetric])
  then have windows: "windows_ok (requested_at # h)" using request.IH by simp
  have sorted: "sorted (rev (requested_at # h))"
    using request.IH request(2) later by (auto simp: sorted_append intro: order_trans)
  have "recent_requests later_on (filter_quota now requested_at q) = recent_requests later_on (rev (requested_at # h))"
    if "\<forall>t \<in> set (requested_at # h). t \<le> later_on" for later_on
  proof -
    have "now \<le> later_on" using that later by auto
    then have "filter (\<lambda>t. later_on - t < 30) ?r = filter (\<lambda>t. later_on - t < 30) (rev h)"
      unfolding recent_requests_def filter_filter by (intro filter_cong) auto
    then show ?thesis by (simp add: filter_quota_def recent) (simp add: recent_requests_def)
  qed
  then show ?case using windows sorted by blast
qed simp

lemma windows_ok_any:
  "windows_ok h \<Longrightarrow> sorted (rev h) \<Longrightarrow> in_window t h \<le> 10"
proof (induction h)
  case (Cons u older)
  show ?case
  proof (cases "u \<le> t")
    case True
    have "in_window t (u # older) \<le> length (filter (\<lambda>s. u - s < 30) (u # older))"
      unfolding in_window_def by (rule filter_subset_length) (use True in auto)
    also have "\<dots> \<le> 10" using Cons.prems(1) unfolding windows_ok.simps(2) by blast
    finally show ?thesis .
  next
    case False
    then have "in_window t (u # older) = in_window t older" by (simp add: in_window_def)
    then show ?thesis using Cons by (simp add: sorted_append)
  qed
qed (simp add: in_window_def)

text \<open>Each repetition comes 30.2 seconds after its request, and that after the repetitions before.\<close>

lemma retries_apart:
  "quota_run h rs q \<Longrightarrow> in_window t rs \<le> 1"
proof (induction rule: quota_run.induct)
  case (retry u h rs q retried_at)
  have old: "s \<le> retried_at - 302/10" if "s \<in> set rs" for s using retry that by force
  show ?case
  proof (cases "t - 30 < retried_at \<and> retried_at \<le> t")
    case True
    have "filter (\<lambda>s. t - 30 < s \<and> s \<le> t) rs = []" using True old by (force simp: filter_empty_conv)
    then show ?thesis by (simp add: in_window_def)
  next
    case False
    then show ?thesis using retry.IH by (auto simp: in_window_def)
  qed
qed (simp_all add: in_window_def)

text \<open>An unrecorded repetition and ten requests after it: eleven calls within 0.8 seconds.\<close>

lemma eleven_calls_in_a_second:
  "n \<le> 10 \<Longrightarrow> \<exists>q. quota_run (replicate n 31 @ [0]) [302/10] q \<and> length (recent_requests 31 q) \<le> n"
proof (induction n)
  case 0
  have "quota_run [0] [] (filter_quota 0 0 [])" by (rule request [OF begin_quota]) (simp_all add: filter_wait_def recent_requests_def)
  then have "quota_run [0] [302/10] (filter_quota 0 0 [])" by (rule retry) simp_all
  then show ?case by (auto simp: filter_quota_def recent_requests_def)
next
  case (Suc n)
  then obtain q where q: "quota_run (replicate n 31 @ [0]) [302/10] q" "length (recent_requests 31 q) \<le> n" by auto
  have "quota_run (31 # replicate n 31 @ [0]) [302/10] (filter_quota 31 31 q)"
    by (rule request [OF q(1)]) (use q(2) Suc.prems in \<open>auto simp: filter_wait_def Let_def\<close>)
  moreover have "length (recent_requests 31 (filter_quota 31 31 q)) \<le> Suc n"
    using q(2) by (simp add: filter_quota_def recent_requests_def)
  ultimately show ?case by auto
qed

lemma repeated_request_exceeds_quota:
  "\<exists>h rs q. quota_run h rs q \<and> in_window 31 (h @ rs) = 11"
proof -
  obtain q where "quota_run (replicate 10 31 @ [0]) [302/10] q" using eleven_calls_in_a_second [of 10] by auto
  moreover have "in_window 31 ((replicate 10 31 @ [0]) @ [302/10]) = 11" by (simp add: in_window_def)
  ultimately show ?thesis by blast
qed

section \<open>Properties\<close>

text \<open>C39. The loop over the pages of the stock filter ends, whatever the server answers: a full screening makes at
  most 9000 calls; and if no page is longer than asked for, a pattern yields at most 300 rows.\<close>

theorem stock_filter_terminates:
  assumes "get_stock_filter_candidates sdk = (res, n)"
  shows "n \<le> 9000 \<and> (\<forall>p rows m. (\<forall>k b num page. sdk k p b num = Inr page \<longrightarrow> length (snd page) \<le> num)
    \<longrightarrow> filter_pages sdk p 0 0 [] = (Inr rows, m) \<longrightarrow> length rows \<le> 300)"
proof -
  have "n \<le> 9000" using stock_filter_calls [OF assms [unfolded get_stock_filter_candidates_def]] by (simp add: PATTERNS_def)
  moreover have "length rows \<le> 300"
    if "\<forall>k b num page. sdk k p b num = Inr page \<longrightarrow> length (snd page) \<le> num" "filter_pages sdk p 0 0 [] = (Inr rows, m)" for p rows m
    using filter_pages_bounds [OF that(2)] that(1) by auto
  ultimately show ?thesis by blast
qed

text \<open>In any 30 seconds the provider makes at most ten requests to the stock filter that it records, and repeats
  at most one refused request: ten calls, the limit of the server, as long as none is refused, and
  never more than eleven.\<close>

theorem stock_filter_quota_kept:
  assumes "quota_run requests retries remembered"
  shows "in_window t requests \<le> 10 \<and> in_window t retries \<le> 1 \<and> in_window t (requests @ retries) \<le> 11"
proof -
  have "in_window t requests \<le> 10" using windows_ok_any quota_invariant [OF assms] by blast
  moreover have "in_window t retries \<le> 1" by (rule retries_apart [OF assms])
  ultimately show ?thesis by (simp add: in_window_def)
qed

section \<open>Witnesses\<close>

definition two_pages :: stock_filter where
  "two_pages k p b num = (if b = 0 then Inr (False, replicate num \<lparr>fr_stock_code = ''US.AAPL'', fr_stock_name = [], fr_values = []\<rparr>)
     else Inr (True, replicate num \<lparr>fr_stock_code = ''US.MSFT'', fr_stock_name = [], fr_values = []\<rparr>))"

theorem stock_filter_terminates_witness:
  "snd (get_stock_filter_candidates two_pages) \<le> 9000
   \<and> (\<exists>rows. filter_pages two_pages (''TREND_UP'', ''X'') 0 0 [] = (Inr rows, 2) \<and> length rows \<le> 300)"
proof -
  let ?p = "(''TREND_UP'', ''X'')"
  have short: "\<forall>k b num page. two_pages k ?p b num = Inr page \<longrightarrow> length (snd page) \<le> num" by (auto simp: two_pages_def)
  have "\<exists>rows. filter_pages two_pages ?p 0 0 [] = (Inr rows, 2)"
    by (simp add: filter_pages.simps [of two_pages ?p 0] filter_pages.simps [of two_pages ?p "Suc 0"] request_stock_filter_def two_pages_def)
  then obtain rows where rows: "filter_pages two_pages ?p 0 0 [] = (Inr rows, 2)" by blast
  note T = stock_filter_terminates [of two_pages "fst (get_stock_filter_candidates two_pages)" "snd (get_stock_filter_candidates two_pages)"]
  show ?thesis using T short rows by (metis prod.collapse)
qed

theorem stock_filter_quota_kept_witness:
  "in_window 30 [1, 0] \<le> 10 \<and> in_window 30 [1, 0] = 1 \<and> in_window (312/10) ([1, 0] @ [312/10]) \<le> 11"
proof -
  have "quota_run [0] [] (filter_quota 0 0 [])" by (rule request [OF begin_quota]) (simp_all add: filter_wait_def recent_requests_def)
  then have "quota_run [1, 0] [] (filter_quota 1 1 (filter_quota 0 0 []))"
    by (rule request) (simp_all add: filter_wait_def recent_requests_def filter_quota_def)
  then have run: "quota_run [1, 0] [312/10] (filter_quota 1 1 (filter_quota 0 0 []))" by (rule retry) simp_all
  show ?thesis using stock_filter_quota_kept [OF run, of 30] stock_filter_quota_kept [OF run, of "312/10"]
    by (simp add: in_window_def)
qed

end
