(* ===== verification/Plan_Quotes.thy ===== *)
theory Plan_Quotes
  imports Position_Sync Store "HOL-Library.Char_ord" "HOL-Library.List_Lexorder"
begin

text \<open>
  app/services/price_alert.py and app/services/plan_prices.py: the price reminders that are set at the
  broker for the active plans, and the refresh of the prices shown with the plans.

  The broker's book of reminders is a parameter: what it answers may depend on all reminders set so
  far, which the run keeps as a trace.
\<close>

section \<open>Price reminders\<close>

text \<open>A plan's entry, stop and targets; the direction in which each is crossed.\<close>

definition plan_reminders :: "trade_plan \<Rightarrow> (string \<times> string \<times> real option) list" where
  "plan_reminders p =
     (if pl_direction p = SHORT
      then [(''E'', ''PRICE_DOWN'', pl_breakout_entry_price p), (''S'', ''PRICE_UP'', Some (pl_stop_price p)),
            (''1'', ''PRICE_DOWN'', Some (pl_target_1 p)), (''2'', ''PRICE_DOWN'', Some (pl_target_2 p))]
      else [(''E'', ''PRICE_UP'', pl_breakout_entry_price p), (''S'', ''PRICE_DOWN'', Some (pl_stop_price p)),
            (''1'', ''PRICE_UP'', Some (pl_target_1 p)), (''2'', ''PRICE_UP'', Some (pl_target_2 p))])"

definition reminder_note :: "trade_plan \<Rightarrow> string \<Rightarrow> string" where
  "reminder_note p sfx = take 10 (''HT'' @ str_int (pl_id p) @ sfx)"

record reminder =
  rm_symbol :: string
  rm_type :: string
  rm_price :: "real option"
  rm_note :: string

record reminder_book =
  rb_get :: "reminder list \<Rightarrow> string \<Rightarrow> exn + row list"
  rb_set :: "reminder list \<Rightarrow> reminder \<Rightarrow> exn + unit"

definition plan_reminder :: "trade_plan \<Rightarrow> string \<times> string \<times> real option \<Rightarrow> reminder" where
  "plan_reminder p r = \<lparr>rm_symbol = pl_symbol p, rm_type = fst (snd r), rm_price = snd (snd r), rm_note = reminder_note p (fst r)\<rparr>"

definition existing_notes :: "row list \<Rightarrow> string set" where
  "existing_notes rows = (\<lambda>r. str_or_empty (row_get r ''note'')) ` set rows"

text \<open>The reminders of a plan in turn; the first failure ends it, and those set before stay set.\<close>

fun set_reminders :: "reminder_book \<Rightarrow> string set \<Rightarrow> reminder list \<Rightarrow> reminder list \<Rightarrow> (exn + unit) \<times> reminder list" where
  "set_reminders bk existing [] trace = (Inr (), trace)"
| "set_reminders bk existing (r # rs) trace =
     (if rm_note r \<in> existing then set_reminders bk existing rs trace
      else case rb_set bk trace r of
             Inl e \<Rightarrow> (Inl e, trace)
           | Inr _ \<Rightarrow> set_reminders bk existing rs (trace @ [r]))"

definition arm_plan :: "reminder_book \<Rightarrow> trade_plan \<Rightarrow> reminder list \<Rightarrow> (exn + unit) \<times> reminder list" where
  "arm_plan bk p trace =
     (case rb_get bk trace (pl_symbol p) of
        Inl e \<Rightarrow> (Inl e, trace)
      | Inr rows \<Rightarrow> set_reminders bk (existing_notes rows) (map (plan_reminder p) (plan_reminders p)) trace)"

record alert_run =
  ar_plans :: "trade_plan list"
  ar_trace :: "reminder list"
  ar_armed :: nat
  ar_failed :: "(string \<times> string) list"

definition alert_step :: "reminder_book \<Rightarrow> trade_plan \<Rightarrow> alert_run \<Rightarrow> alert_run" where
  "alert_step bk p a =
     (case arm_plan bk p (ar_trace a) of
        (Inr _, trace) \<Rightarrow> a\<lparr>ar_plans := ar_plans a @ [p\<lparr>pl_alert_status := ALERT_ARMED\<rparr>], ar_trace := trace, ar_armed := ar_armed a + 1\<rparr>
      | (Inl e, trace) \<Rightarrow> a\<lparr>ar_plans := ar_plans a @ [p\<lparr>pl_alert_status := ALERT_ERROR\<rparr>], ar_trace := trace,
             ar_failed := upsert fst (\<lambda>_. (pl_symbol p, exn_str e)) (pl_symbol p, exn_str e) (ar_failed a)\<rparr>)"

definition start_alerts :: alert_run where
  "start_alerts = \<lparr>ar_plans = [], ar_trace = [], ar_armed = 0, ar_failed = []\<rparr>"

definition set_price_alerts :: "reminder_book \<Rightarrow> int \<Rightarrow> 'z ledger_scheme \<Rightarrow> alert_run \<times> 'z ledger_scheme" where
  "set_price_alerts bk now db =
     (let a = fold (alert_step bk) (filter (\<lambda>p. pl_status p = PL_ACTIVE) (plans db)) start_alerts
      in (a, commit now db (fold put_plan (ar_plans a) db)))"

section \<open>The prices of the plans\<close>

definition LIVE_PRICE_STATUSES :: "plan_status list" where
  "LIVE_PRICE_STATUSES = [PL_ACTIVE, PL_PLANNED, PL_ARMED, PL_WAIT_PULLBACK, PL_NO_CHASE, PL_TRIGGERED, PL_ORDER_SUBMITTED,
     PL_WAITLIST, PL_MISSED_BY_CAPITAL]"

definition live_plans :: "'z ledger_scheme \<Rightarrow> trade_plan list" where
  "live_plans db = filter (\<lambda>p. pl_priority_level p \<in> {Prio_S, Prio_A} \<and> pl_status p \<in> set LIVE_PRICE_STATUSES) (plans db)"

definition quote_symbol :: "string \<Rightarrow> string" where
  "quote_symbol s = removeprefix ''US.'' (norm_sym s)"

text \<open>Dictionaries by normalised symbol: the price, and the change as a fraction; a later row counts.\<close>

definition priced_rows :: "row list \<Rightarrow> (string \<times> real \<times> real) list" where
  "priced_rows rows =
     concat (map (\<lambda>r. let symbol = normalize_symbol (get_or r [''code'', ''symbol'']); price = row_float r [''last_price'', ''cur_price'']
        in if symbol \<noteq> [] \<and> price > 0 then [(symbol, price, row_float r [''change_rate'', ''change_pct''] / 100)] else []) rows)"

definition quote_of :: "(string \<times> real \<times> real) list \<Rightarrow> string \<Rightarrow> (real \<times> real) option" where
  "quote_of qs symbol = map_of (rev qs) symbol"

definition priced_plan :: "int \<Rightarrow> (string \<times> real \<times> real) list \<Rightarrow> trade_plan \<Rightarrow> trade_plan" where
  "priced_plan now qs p =
     (case quote_of qs (norm_sym (pl_symbol p)) of
        None \<Rightarrow> p
      | Some (price, change) \<Rightarrow> p\<lparr>pl_current_price := Some price, pl_current_change_pct := Some change, pl_last_validated_at := Some now\<rparr>)"

definition with_symbol_aliases :: "(string \<times> 'v) list \<Rightarrow> (string \<times> 'v) list" where
  "with_symbol_aliases kvs =
     concat (map (\<lambda>(s, v). let n = norm_sym s in if n = [] then [] else [(n, v), (removeprefix ''US.'' n, v)]) kvs)"

text \<open>The payload; without plans it has the prices only.\<close>

record plan_prices =
  pp_prices :: "(string \<times> real) list"
  pp_changes :: "(string \<times> real) list option"
  pp_statuses :: "(string \<times> plan_status) list option"
  pp_updated_at :: int

definition refresh_trade_plan_prices :: "quotes \<Rightarrow> int \<Rightarrow> 'z ledger_scheme \<Rightarrow> exn + plan_prices \<times> 'z ledger_scheme" where
  "refresh_trade_plan_prices provider now db =
     (let live = live_plans db
      in if live = [] then Inr (\<lparr>pp_prices = [], pp_changes = None, pp_statuses = None, pp_updated_at = now\<rparr>, db)
         else case provider (sort (remdups (map (quote_symbol \<circ> pl_symbol) live))) of
           Inl e \<Rightarrow> Inl e
         | Inr rows \<Rightarrow>
             (let qs = priced_rows rows
              in Inr (\<lparr>pp_prices = with_symbol_aliases (map (\<lambda>(s, p, c). (s, p)) qs),
                       pp_changes = Some (with_symbol_aliases (map (\<lambda>(s, p, c). (s, c)) qs)),
                       pp_statuses = Some (with_symbol_aliases (map (\<lambda>p. (norm_sym (pl_symbol p), pl_status p)) live)),
                       pp_updated_at = now\<rparr>,
                      commit now db (fold put_plan (map (priced_plan now qs) live) db))))"

section \<open>Lemmas\<close>

lemma set_reminders_trace:
  assumes "set_reminders bk existing rs trace = (res, trace')"
  shows "\<exists>new. trace' = trace @ new \<and> set new \<subseteq> {r \<in> set rs. rm_note r \<notin> existing}
     \<and> (res = Inr () \<longrightarrow> new = filter (\<lambda>r. rm_note r \<notin> existing) rs)"
  using assms
proof (induction rs arbitrary: trace)
  case (Cons r rs)
  show ?case
  proof (cases "rm_note r \<in> existing")
    case True
    then have "set_reminders bk existing rs trace = (res, trace')" using Cons.prems by simp
    from Cons.IH [OF this] True show ?thesis by auto
  next
    case False
    show ?thesis
    proof (cases "rb_set bk trace r")
      case (Inl e)
      then show ?thesis using Cons.prems False by auto
    next
      case (Inr u)
      then have "set_reminders bk existing rs (trace @ [r]) = (res, trace')" using Cons.prems False by simp
      from Cons.IH [OF this] obtain new where new: "trace' = (trace @ [r]) @ new" "set new \<subseteq> {r \<in> set rs. rm_note r \<notin> existing}"
        "res = Inr () \<longrightarrow> new = filter (\<lambda>r. rm_note r \<notin> existing) rs" by blast
      then show ?thesis using False by (intro exI [of _ "r # new"]) auto
    qed
  qed
qed simp


text \<open>A plan whose levels are all covered: by reminders that existed, or by reminders set in the run.\<close>

definition covered :: "reminder_book \<Rightarrow> reminder list \<Rightarrow> trade_plan \<Rightarrow> bool" where
  "covered bk trace p \<longleftrightarrow> (\<exists>k rows. rb_get bk (take k trace) (pl_symbol p) = Inr rows
     \<and> (\<forall>x \<in> set (plan_reminders p). reminder_note p (fst x) \<in> existing_notes rows \<or> plan_reminder p x \<in> set trace))"

lemma covered_later: "covered bk trace p \<Longrightarrow> covered bk (trace @ new) p"
  unfolding covered_def
proof (elim exE conjE)
  fix k rows
  assume get: "rb_get bk (take k trace) (pl_symbol p) = Inr rows"
    and all: "\<forall>x \<in> set (plan_reminders p). reminder_note p (fst x) \<in> existing_notes rows \<or> plan_reminder p x \<in> set trace"
  have "take (min k (length trace)) (trace @ new) = take k trace" by (cases "k \<le> length trace") (simp_all add: min_def)
  then show "\<exists>k rows. rb_get bk (take k (trace @ new)) (pl_symbol p) = Inr rows
      \<and> (\<forall>x \<in> set (plan_reminders p). reminder_note p (fst x) \<in> existing_notes rows \<or> plan_reminder p x \<in> set (trace @ new))"
    using get all by (intro exI [of _ "min k (length trace)"] exI [of _ rows]) auto
qed

lemma arm_plan_covers:
  assumes "arm_plan bk p trace = (res, trace')"
  shows "\<exists>new. trace' = trace @ new \<and> (res = Inr () \<longrightarrow> covered bk trace' p)"
proof (cases "rb_get bk trace (pl_symbol p)")
  case (Inl e)
  then show ?thesis using assms by (auto simp: arm_plan_def)
next
  case (Inr rows)
  then have "set_reminders bk (existing_notes rows) (map (plan_reminder p) (plan_reminders p)) trace = (res, trace')"
    using assms by (simp add: arm_plan_def)
  from set_reminders_trace [OF this] obtain new where new: "trace' = trace @ new"
    "res = Inr () \<longrightarrow> new = filter (\<lambda>r. rm_note r \<notin> existing_notes rows) (map (plan_reminder p) (plan_reminders p))" by blast
  have "covered bk trace' p" if "res = Inr ()"
    unfolding covered_def
  proof (intro exI conjI ballI)
    show "rb_get bk (take (length trace) trace') (pl_symbol p) = Inr rows" using Inr new(1) by simp
    fix x assume "x \<in> set (plan_reminders p)"
    then show "reminder_note p (fst x) \<in> existing_notes rows \<or> plan_reminder p x \<in> set trace'"
      using new that by (auto simp: plan_reminder_def)
  qed
  then show ?thesis using new(1) by blast
qed

lemma alert_fold:
  "\<exists>out new. ar_plans (fold (alert_step bk) ps a) = ar_plans a @ out \<and> ar_trace (fold (alert_step bk) ps a) = ar_trace a @ new
    \<and> map pl_id out = map pl_id ps
    \<and> list_all2 (\<lambda>p p'. p' = p\<lparr>pl_alert_status := ALERT_ERROR\<rparr>
        \<or> p' = p\<lparr>pl_alert_status := ALERT_ARMED\<rparr> \<and> covered bk (ar_trace a @ new) p) ps out"
proof (induction ps arbitrary: a)
  case (Cons p ps)
  obtain res trace where r: "arm_plan bk p (ar_trace a) = (res, trace)" by fastforce
  obtain new1 where new1: "trace = ar_trace a @ new1" "res = Inr () \<longrightarrow> covered bk trace p" using arm_plan_covers [OF r] by blast
  let ?a = "alert_step bk p a" and ?p = "p\<lparr>pl_alert_status := (if res = Inr () then ALERT_ARMED else ALERT_ERROR)\<rparr>"
  have step: "ar_plans ?a = ar_plans a @ [?p]" "ar_trace ?a = ar_trace a @ new1"
    using r new1(1) by (auto simp: alert_step_def split: sum.splits)
  obtain out new where IH: "ar_plans (fold (alert_step bk) ps ?a) = ar_plans ?a @ out"
    "ar_trace (fold (alert_step bk) ps ?a) = ar_trace ?a @ new" "map pl_id out = map pl_id ps"
    "list_all2 (\<lambda>p p'. p' = p\<lparr>pl_alert_status := ALERT_ERROR\<rparr>
        \<or> p' = p\<lparr>pl_alert_status := ALERT_ARMED\<rparr> \<and> covered bk (ar_trace ?a @ new) p) ps out"
    using Cons.IH [of ?a] by blast
  have "res = Inr () \<longrightarrow> covered bk (ar_trace a @ new1 @ new) p" using new1 covered_later [of bk trace p new] by auto
  then show ?case using IH step by (intro exI [of _ "?p # out"] exI [of _ "new1 @ new"]) auto
qed simp

lemma plans_fold_put: "plans (fold put_plan ps db) = fold (put_row pl_id) ps (plans db)"
  by (induction ps arbitrary: db) simp_all

lemma put_rows_keep: "x \<in> set xs \<Longrightarrow> \<forall>r \<in> set rs. f r \<noteq> f x \<Longrightarrow> x \<in> set (fold (put_row f) rs xs)"
proof (induction rs arbitrary: xs)
  case (Cons r rs)
  have "x \<in> set (put_row f r xs)" using Cons.prems by (auto simp: put_row_def image_iff)
  then show ?case using Cons by simp
qed simp

lemma put_rows_member:
  assumes "distinct (map f rs)" "x \<in> set rs" "f x \<in> f ` set xs"
  shows "x \<in> set (fold (put_row f) rs xs)"
  using assms
proof (induction rs arbitrary: xs)
  case (Cons r rs)
  show ?case
  proof (cases "x = r")
    case True
    have "x \<in> set (put_row f r xs)" using Cons.prems(3) True by (auto simp: put_row_def image_iff)
    then show ?thesis using Cons.prems(1) True by (auto simp: image_iff intro!: put_rows_keep)
  next
    case False
    have "f ` set (put_row f r xs) = f ` set xs" by (metis list.set_map map_rid_put_row)
    then show ?thesis using Cons False by simp
  qed
qed simp

section \<open>Properties\<close>

text \<open>After the reminders are set, every active plan is ARMED or in ERROR, and an ARMED plan has a reminder for
  its entry, its stop and both targets: one the broker listed for it, or one set in this run.\<close>

theorem armed_plans_are_covered:
  assumes "distinct (map pl_id (plans db))" "set_price_alerts bk now db = (a, db')" "p \<in> set (plans db)" "pl_status p = PL_ACTIVE"
  shows "\<exists>p' \<in> set (plans db'). pl_id p' = pl_id p
    \<and> (pl_alert_status p' = ALERT_ERROR \<or> pl_alert_status p' = ALERT_ARMED \<and> covered bk (ar_trace a) p)"
proof -
  let ?act = "filter (\<lambda>p. pl_status p = PL_ACTIVE) (plans db)"
  have a: "a = fold (alert_step bk) ?act start_alerts" and db': "db' = commit now db (fold put_plan (ar_plans a) db)"
    using assms(2) by (auto simp: set_price_alerts_def Let_def)
  obtain out new where F: "ar_plans a = out" "ar_trace a = new" "map pl_id out = map pl_id ?act"
    "list_all2 (\<lambda>p p'. p' = p\<lparr>pl_alert_status := ALERT_ERROR\<rparr> \<or> p' = p\<lparr>pl_alert_status := ALERT_ARMED\<rparr> \<and> covered bk new p) ?act out"
    using alert_fold [of bk ?act start_alerts] unfolding a by (auto simp: start_alerts_def)
  have "p \<in> set ?act" using assms(3,4) by simp
  then obtain i where i: "i < length ?act" "?act ! i = p" unfolding in_set_conv_nth by blast
  let ?p = "out ! i"
  have p: "?p = p\<lparr>pl_alert_status := ALERT_ERROR\<rparr> \<or> ?p = p\<lparr>pl_alert_status := ALERT_ARMED\<rparr> \<and> covered bk new p"
    using list_all2_nthD [OF F(4) i(1)] i(2) by simp
  then have id: "pl_id ?p = pl_id p" by auto
  have "length out = length ?act" using F(3) by (metis length_map)
  then have "?p \<in> set (ar_plans a)" using i(1) F(1) by simp
  moreover have "distinct (map pl_id (ar_plans a))" using F(1,3) distinct_map_filter [OF assms(1)] by metis
  moreover have "pl_id ?p \<in> pl_id ` set (plans db)" using id assms(3) by simp
  ultimately have "?p \<in> set (plans (fold put_plan (ar_plans a) db))" unfolding plans_fold_put by (intro put_rows_member)
  then have "touch_plan now (plans db) ?p \<in> set (plans db')" by (simp add: db')
  moreover have "pl_id (touch_plan now (plans db) ?p) = pl_id p" "pl_alert_status (touch_plan now (plans db) ?p) = pl_alert_status ?p"
    using id by (simp_all add: touch_plan_def)
  ultimately show ?thesis using p F(2) by (intro bexI [of _ "touch_plan now (plans db) ?p"]) auto
qed


section \<open>Witnesses\<close>

text \<open>A book that accepts everything, and has a reminder for the entry of plan 1 already.\<close>

definition open_book :: reminder_book where
  "open_book = \<lparr>rb_get = (\<lambda>trace s. Inr [[(''note'', PStr ''HT1E'')]]), rb_set = (\<lambda>trace r. Inr ())\<rparr>"

definition alert_ledger :: ledger where
  "alert_ledger = empty_ledger\<lparr>plans := [(sample_plan 1 ''AAPL'')\<lparr>pl_status := PL_ACTIVE\<rparr>]\<rparr>"

theorem armed_plans_are_covered_witness:
  "\<exists>p' \<in> set (plans (snd (set_price_alerts open_book 0 alert_ledger))). pl_id p' = 1
     \<and> (pl_alert_status p' = ALERT_ERROR \<or> pl_alert_status p' = ALERT_ARMED
          \<and> covered open_book (ar_trace (fst (set_price_alerts open_book 0 alert_ledger))) ((sample_plan 1 ''AAPL'')\<lparr>pl_status := PL_ACTIVE\<rparr>))"
proof -
  let ?p = "(sample_plan 1 ''AAPL'')\<lparr>pl_status := PL_ACTIVE\<rparr>"
  have "distinct (map pl_id (plans alert_ledger))" "?p \<in> set (plans alert_ledger)" "pl_status ?p = PL_ACTIVE" "pl_id ?p = 1"
    by (simp_all add: alert_ledger_def sample_plan_def)
  then show ?thesis
    using armed_plans_are_covered [of alert_ledger open_book 0 "fst (set_price_alerts open_book 0 alert_ledger)"
        "snd (set_price_alerts open_book 0 alert_ledger)" ?p] by simp
qed

text \<open>
  A reminder is recognised by its note alone, which names the plan and the level but not the price.
  When the plan was computed anew since, the reminder stays at the old price and the plan is ARMED.
\<close>

lemma old_reminder_is_kept:
  "map rm_note (ar_trace (fst (set_price_alerts open_book 0
     (alert_ledger\<lparr>plans := map (\<lambda>p. p\<lparr>pl_breakout_entry_price := Some 999\<rparr>) (plans alert_ledger)\<rparr>)))) = [''HT1S'', ''HT11'', ''HT12'']
   \<and> map pl_alert_status (ar_plans (fst (set_price_alerts open_book 0
     (alert_ledger\<lparr>plans := map (\<lambda>p. p\<lparr>pl_breakout_entry_price := Some 999\<rparr>) (plans alert_ledger)\<rparr>)))) = [ALERT_ARMED]"
  by code_simp

end
