(* ===== verification/Mock_Provider.thy ===== *)
theory Mock_Provider
  imports Futu_Provider Plan_Quotes
begin

text \<open>
  app/providers/base.py and app/providers/mock_provider.py: the interface of a data source as a record
  of its answers, and the source that the program uses for tests, which makes up its answers. The
  lemmas show that the made-up bars pass the checks of the ingestion.
\<close>

section \<open>The interface\<close>

text \<open>A method the base class does not implement raises.\<close>

record provider =
  pv_watchlist :: "exn + watch_row list"
  pv_candidates :: "exn + row list"
  pv_snapshot :: "string list \<Rightarrow> exn + row list"
  pv_klines :: bar_source
  pv_reminders :: reminder_book

definition not_implemented :: exn where
  "not_implemented = OtherError []"

section \<open>The test source\<close>

definition mock_stocks :: "string list \<Rightarrow> string list" where
  "mock_stocks symbols = filter (\<lambda>s. s \<notin> {''SPY'', ''QQQ''}) symbols"

definition mock_watchlist :: "string list \<Rightarrow> watch_row list" where
  "mock_watchlist symbols = map (\<lambda>s. \<lparr>wr_symbol = s, wr_name = Some s, wr_industry = Some ''Technology''\<rparr>) (mock_stocks symbols)"

definition mock_tags :: "string list" where
  "mock_tags = [''MACD_LOW_IMPROVING'', ''MA_ALIGNMENT_LONG'', ''MACD_TOP_DIVERGENCE'', ''MA_ALIGNMENT_SHORT'']"

text \<open>A float as the rows carry it: its value and, where nobody reads it, a text.\<close>

definition mock_number :: "real \<Rightarrow> pyval" where
  "mock_number x = PFloat x (fmt_fixed 6 x)"

definition mock_candidate :: "nat \<times> string \<Rightarrow> row" where
  "mock_candidate s =
     (let i = fst s; symbol = snd s
      in [(''symbol'', PStr symbol), (''name'', PStr symbol), (''market'', PStr ''US''), (''pool_type'', PStr (POOL_PRIORITY ! (i mod 4))),
          (''tag'', PStr (mock_tags ! (i mod 4))), (''cur_price'', PInt (100 + int i)), (''market_val'', PInt 50000000000),
          (''turnover_3d'', PInt (100000000 + int i * 10000000)), (''volume_ratio'', mock_number (12/10 + real i / 10))])"

definition mock_candidates :: "string list \<Rightarrow> row list" where
  "mock_candidates symbols = map mock_candidate (enumerate 0 (mock_stocks symbols))"

definition mock_snapshot :: "string list \<Rightarrow> row list" where
  "mock_snapshot symbols =
     map (\<lambda>s. [(''code'', PStr (''US.'' @ removeprefix ''US.'' s)), (''last_price'', mock_number 120), (''bid_price'', mock_number (11995/100)),
               (''ask_price'', mock_number 120), (''volume'', PInt 1000000), (''change_rate'', mock_number (12/10))]) symbols"

fun mock_count :: "timeframe \<Rightarrow> nat" where
  "mock_count DAILY = 140"
| "mock_count HOUR_60 = 240"
| "mock_count MIN_15 = 320"
| "mock_count MIN_5 = 360"

fun mock_delta :: "timeframe \<Rightarrow> int" where
  "mock_delta DAILY = days 1"
| "mock_delta HOUR_60 = minutes 60"
| "mock_delta MIN_15 = minutes 15"
| "mock_delta MIN_5 = minutes 5"

text \<open>The last bar is at 2026-06-10 16:00.\<close>

definition mock_end :: int where
  "mock_end = days 20614 + minutes (16 * 60)"

definition mock_close :: "string \<Rightarrow> timeframe \<Rightarrow> nat \<Rightarrow> real" where
  "mock_close symbol tf i =
     (let progress = real i / real (max (mock_count tf - 1) 1);
          trend = real i * (if tf = DAILY then 28/100 else 8/100);
          pullback = (if 56/100 \<le> progress \<and> progress \<le> 78/100 then - 8 + \<bar>progress - 68/100\<bar> * 70 else 0);
          recovery = max 0 (progress - 78/100) * 55;
          topping = - (max 0 (progress - 93/100) * 30)
      in real (100 + length symbol * 3) + trend + pullback + recovery + topping)"

definition mock_bar :: "string \<Rightarrow> timeframe \<Rightarrow> nat \<Rightarrow> bar" where
  "mock_bar symbol tf i =
     (let close = mock_close symbol tf i; volume = real (1000000 + i * 5000)
      in \<lparr>ba_symbol = symbol, ba_timeframe = tf, ba_ts = mock_end - (int (mock_count tf) - 1) * mock_delta tf + int i * mock_delta tf,
          ba_open = close - 4/10, ba_high = close + 12/10, ba_low = close - 15/10, ba_close = close, ba_volume = volume,
          ba_turnover = close * volume\<rparr>)"

definition mock_klines :: "string \<Rightarrow> timeframe \<Rightarrow> bar list" where
  "mock_klines symbol tf = map (mock_bar symbol tf) [0..<mock_count tf]"

definition mock_provider :: "string list \<Rightarrow> provider" where
  "mock_provider symbols =
     \<lparr>pv_watchlist = Inr (mock_watchlist symbols), pv_candidates = Inr (mock_candidates symbols),
      pv_snapshot = \<lambda>ss. Inr (mock_snapshot ss), pv_klines = \<lambda>s tf. Inr (mock_klines s tf),
      pv_reminders = \<lparr>rb_get = \<lambda>_ _. Inl not_implemented, rb_set = \<lambda>_ _. Inl not_implemented\<rparr>\<rparr>"

section \<open>Lemmas\<close>

lemma mock_close_positive: "80 \<le> mock_close symbol tf i" if "i < mock_count tf"
proof -
  define progress where "progress = real i / real (max (mock_count tf - 1) 1)"
  have "progress \<le> 1" using that unfolding progress_def by (cases tf) auto
  then have "0 \<le> max 0 (progress - 78/100) * 55" "max 0 (progress - 93/100) * 30 \<le> 21/10" by (auto simp: max_def)
  moreover have "- 8 \<le> (if 56/100 \<le> progress \<and> progress \<le> 78/100 then - 8 + \<bar>progress - 68/100\<bar> * 70 else 0)" by simp
  moreover have "0 \<le> real i * (if tf = DAILY then 28/100 else 8/100)" by simp
  moreover have "100 \<le> real (100 + length symbol * 3)" by simp
  ultimately show ?thesis unfolding mock_close_def Let_def progress_def by linarith
qed

lemma mock_bar_valid: "i < mock_count tf \<Longrightarrow> fst (validate_bar (mock_bar symbol tf i))"
  using mock_close_positive [of i tf symbol] by (simp add: validate_bar_def mock_bar_def Let_def)

lemma mock_delta_positive: "0 < mock_delta tf"
  by (cases tf) (simp_all add: days_def minutes_def seconds_def)

lemma mock_bar_ts: "ba_ts (mock_bar symbol tf j) - ba_ts (mock_bar symbol tf i) = (int j - int i) * mock_delta tf"
  by (simp add: mock_bar_def Let_def algebra_simps)

lemma mock_bar_later: "i < j \<Longrightarrow> ba_ts (mock_bar symbol tf i) < ba_ts (mock_bar symbol tf j)"
proof -
  assume "i < j"
  then have "0 < (int j - int i) * mock_delta tf" using mock_delta_positive by simp
  then show ?thesis using mock_bar_ts [of symbol tf j i] by linarith
qed

lemma mock_series_valid:
  assumes "i + n \<le> mock_count tf" "\<forall>t. previous = Some t \<longrightarrow> t < ba_ts (mock_bar symbol tf i)"
  shows "fst (validate_from previous (map (mock_bar symbol tf) [i..<i + n]))"
  using assms
proof (induction n arbitrary: i previous)
  case (Suc n)
  obtain r where v: "validate_bar (mock_bar symbol tf i) = (True, r)"
    using mock_bar_valid [of i tf symbol] Suc.prems(1) by (cases "validate_bar (mock_bar symbol tf i)") auto
  have "fst (validate_from (Some (ba_ts (mock_bar symbol tf i))) (map (mock_bar symbol tf) [Suc i..<Suc i + n]))"
    by (rule Suc.IH) (use Suc.prems mock_bar_later [of i "Suc i" symbol tf] in auto)
  moreover have "[i..<i + Suc n] = i # [Suc i..<Suc i + n]" by (simp add: upt_rec)
  ultimately show ?case using Suc.prems(2) v by (auto split: option.splits)
qed simp

text \<open>The made-up bars of every symbol and timeframe pass the checks of the ingestion, and none is marked as bad.\<close>

lemma mock_bars_are_sound:
  "fst (validate_bars (mock_klines symbol tf)) \<and> (\<forall>b \<in> set (mock_klines symbol tf). fst (validate_bar b))"
proof
  have "sorted (map ba_ts (mock_klines symbol tf))"
    by (auto simp: mock_klines_def sorted_iff_nth_mono le_less intro: mock_bar_later)
  then have "sort_key ba_ts (mock_klines symbol tf) = mock_klines symbol tf" by (rule sort_key_id_if_sorted)
  moreover have "mock_klines symbol tf \<noteq> []" by (cases tf) (simp_all add: mock_klines_def)
  ultimately show "fst (validate_bars (mock_klines symbol tf))"
    using mock_series_valid [of 0 "mock_count tf" tf None symbol] by (simp add: validate_bars_def mock_klines_def)
  show "\<forall>b \<in> set (mock_klines symbol tf). fst (validate_bar b)"
    by (auto simp: mock_klines_def mock_bar_valid)
qed

end
