(* ===== verification/Battle_Pool.thy ===== *)
theory Battle_Pool
  imports Structures "HOL-Library.Char_ord" "HOL-Library.List_Lexorder"
begin

text \<open>
  app/services/battle_pool.py: the latest 60-minute structure of every active candidate is scored,
  and the candidates are ranked into the priorities S, A, B and C, of which S holds at most three and
  A at most ten.
\<close>

section \<open>The score of a structure\<close>

record battle_score =
  bs_symbol :: string
  bs_structure_id :: int
  bs_direction :: direction
  bs_priority :: priority
  bs_score :: real
  bs_daily_state :: daily_state
  bs_reason :: string
  bs_next_wait :: string

fun bullish_points :: "daily_state \<Rightarrow> int" where
  "bullish_points DAILY_STRONG_BULL = 30"
| "bullish_points DAILY_WEAK_BULL = 22"
| "bullish_points DAILY_RANGE = 12"
| "bullish_points DAILY_WEAK_BEAR = 5"
| "bullish_points DAILY_STRONG_BEAR = 0"
| "bullish_points DAILY_UNKNOWN = 0"

fun bearish_points :: "daily_state \<Rightarrow> int" where
  "bearish_points DAILY_STRONG_BEAR = 30"
| "bearish_points DAILY_WEAK_BEAR = 22"
| "bearish_points DAILY_RANGE = 12"
| "bearish_points DAILY_WEAK_BULL = 5"
| "bearish_points DAILY_STRONG_BULL = 0"
| "bearish_points DAILY_UNKNOWN = 0"

definition daily_support_points :: "event_type \<Rightarrow> daily_state \<Rightarrow> int" where
  "daily_support_points ty s =
     (if ty \<in> {BOTTOM_PASSIVATION, BOTTOM_STRUCTURE, TOP_INVALIDATED} then bullish_points s else bearish_points s)"

fun structure_points :: "event_type \<Rightarrow> int" where
  "structure_points BOTTOM_STRUCTURE = 28"
| "structure_points TOP_STRUCTURE = 28"
| "structure_points TOP_INVALIDATED = 24"
| "structure_points BOTTOM_PASSIVATION = 12"
| "structure_points TOP_PASSIVATION = 12"
| "structure_points BOTTOM_FAILED = 0"

definition battle_direction :: "event_type \<Rightarrow> daily_state \<Rightarrow> direction" where
  "battle_direction ty s =
     (if ty \<in> {BOTTOM_PASSIVATION, BOTTOM_STRUCTURE, TOP_INVALIDATED} then LONG
      else if ty = TOP_STRUCTURE \<and> s \<in> {DAILY_WEAK_BEAR, DAILY_STRONG_BEAR} then SHORT
      else RISK)"

fun direction_text :: "direction \<Rightarrow> string" where
  "direction_text LONG = ''LONG''"
| "direction_text SHORT = ''SHORT''"
| "direction_text RISK = ''RISK''"

definition suggested_action :: "event_type \<Rightarrow> string" where
  "suggested_action ty =
     (if ty = BOTTOM_STRUCTURE then zh_act_long_plan
      else if ty = TOP_STRUCTURE then zh_bp_act_top
      else if ty = TOP_INVALIDATED then zh_act_assess_resume
      else zh_bp_act_watch)"

definition battle_next_wait :: "event_type \<Rightarrow> direction \<Rightarrow> string" where
  "battle_next_wait ty d =
     (if ty \<in> {BOTTOM_PASSIVATION, TOP_PASSIVATION} then zh_bp_wait_60m
      else if d = LONG then zh_bp_wait_long
      else if d = SHORT then zh_bp_wait_short
      else zh_bp_wait_risk)"

definition opposite_types :: "event_type \<Rightarrow> event_type set" where
  "opposite_types ty =
     (if ty \<in> {BOTTOM_PASSIVATION, BOTTOM_STRUCTURE, BOTTOM_FAILED, TOP_INVALIDATED} then {TOP_PASSIVATION, TOP_STRUCTURE}
      else {BOTTOM_PASSIVATION, BOTTOM_STRUCTURE})"

definition has_structure_conflict :: "structure_event \<Rightarrow> 'z store_scheme \<Rightarrow> bool" where
  "has_structure_conflict e db =
     (case scalar (order_desc ev_ts (filter (\<lambda>x. ev_symbol x = ev_symbol e \<and> ev_timeframe x = ev_timeframe e
             \<and> ev_type x \<in> opposite_types (ev_type e) \<and> ev_ts x \<le> ev_ts e) (structure_events db))) of
        None \<Rightarrow> False
      | Some x \<Rightarrow> (ev_ts e - ev_ts x) div days 1 \<le> 5)"

definition freshness_points :: "int \<Rightarrow> structure_event \<Rightarrow> int" where
  "freshness_points now e =
     (let age_hours = max 0 (real_of_int (now - ev_ts e) / 1000000 / 3600)
      in if age_hours \<le> 24 * 3 then 15 else if age_hours \<le> 24 * 10 then 8 else 2)"

text \<open>The points of the stop and the text that goes with them.\<close>

definition stop_points :: "structure_event \<Rightarrow> direction \<Rightarrow> (kline \<times> indicator) option \<Rightarrow> real \<times> string list" where
  "stop_points e d latest =
     (case latest of
        None \<Rightarrow> (0, [])
      | Some (bar, ind) \<Rightarrow>
          (let ref = (if d = LONG then ev_pivot_low e else ev_pivot_high e)
           in if opt_truthy ref \<and> opt_truthy (in_atr ind) \<and> kl_close bar \<noteq> 0
              then (let distance = \<bar>kl_close bar - the ref\<bar> / kl_close bar
                    in if distance \<le> 5/100 then (12, [zh_bp_stop_near])
                       else if distance > 1/10 then (- 18, [zh_bp_stop_far]) else (0, []))
              else (- 20, [zh_bp_no_atr])))"

definition candidate_points :: "candidate \<Rightarrow> real" where
  "candidate_points c = min 18 (cd_rank_score c * (12/100)) + min 8 (real (length (cd_tags c)) * 2)"

definition priority_of_score :: "real \<Rightarrow> priority" where
  "priority_of_score x = (if x \<ge> 85 then Prio_S else if x \<ge> 70 then Prio_A else if x \<ge> 50 then Prio_B else Prio_C)"

definition latest_daily_state :: "string \<Rightarrow> 'z store_scheme \<Rightarrow> daily_state" where
  "latest_daily_state symbol db =
     (case scalar (order_desc ds_as_of (filter (\<lambda>s. ds_symbol s = symbol) (daily_states db))) of
        None \<Rightarrow> DAILY_UNKNOWN | Some s \<Rightarrow> ds_state s)"

definition score_structure_event :: "int \<Rightarrow> 'z store_scheme \<Rightarrow> structure_event \<Rightarrow> battle_score" where
  "score_structure_event now db e =
     (let s = latest_daily_state (ev_symbol e) db; d = battle_direction (ev_type e) s;
          daily = daily_support_points (ev_type e) s; clarity = structure_points (ev_type e); fresh = freshness_points now e;
          candidate = scalar (filter (\<lambda>c. cd_symbol c = ev_symbol e \<and> cd_active c) (candidates db));
          pool = (case candidate of None \<Rightarrow> 0 | Some c \<Rightarrow> candidate_points c);
          (stop, stop_reasons) = stop_points e d (scalar (joined_bars (ev_symbol e) HOUR_60 db));
          conflict = has_structure_conflict e db;
          raw = of_int daily + of_int clarity + of_int fresh + pool + stop - (if conflict then 12 else 0);
          score = py_round 2 (max 0 (min 100 raw));
          reasons = [zh_bp_daily_a @ digits daily @ zh_bp_points, zh_bp_structure @ digits clarity @ zh_bp_points,
              zh_bp_freshness @ digits fresh @ zh_bp_points]
            @ (case candidate of None \<Rightarrow> [] | Some c \<Rightarrow> [zh_bp_candidate @ fmt_fixed 0 (candidate_points c) @ zh_bp_points])
            @ stop_reasons @ (if conflict then [zh_bp_conflict] else [])
      in \<lparr>bs_symbol = ev_symbol e, bs_structure_id = ev_id e, bs_direction = d, bs_priority = priority_of_score score,
          bs_score = score, bs_daily_state = s, bs_reason = join_with zh_separator reasons,
          bs_next_wait = battle_next_wait (ev_type e) d\<rparr>)"

section \<open>The ranking\<close>

definition scored_events :: "'z store_scheme \<Rightarrow> structure_event list" where
  "scored_events db =
     filter (\<lambda>e. ev_timeframe e = HOUR_60 \<and> (\<exists>c \<in> set (candidates db). cd_symbol c = ev_symbol e \<and> cd_active c)) (structure_events db)"

definition latest_structure_events :: "'z store_scheme \<Rightarrow> structure_event list" where
  "latest_structure_events db =
     map (\<lambda>s. the (scalar (order_desc ev_ts (filter (\<lambda>e. ev_symbol e = s) (scored_events db)))))
       (sort (remdups (map ev_symbol (scored_events db))))"

record rank_counts =
  rc_S :: nat
  rc_A :: nat
  rc_B :: nat
  rc_C :: nat

definition capped_priority :: "rank_counts \<Rightarrow> priority \<Rightarrow> priority" where
  "capped_priority n p =
     (let p1 = (if p = Prio_S \<and> rc_S n \<ge> 3 then Prio_A else p)
      in if p1 = Prio_A \<and> rc_A n \<ge> 10 then Prio_B else p1)"

fun counted :: "priority \<Rightarrow> rank_counts \<Rightarrow> rank_counts" where
  "counted Prio_S n = n\<lparr>rc_S := rc_S n + 1\<rparr>"
| "counted Prio_A n = n\<lparr>rc_A := rc_A n + 1\<rparr>"
| "counted Prio_B n = n\<lparr>rc_B := rc_B n + 1\<rparr>"
| "counted Prio_C n = n\<lparr>rc_C := rc_C n + 1\<rparr>"

definition ranked_item :: "battle_score \<Rightarrow> priority \<Rightarrow> event_type \<Rightarrow> battle_item \<Rightarrow> battle_item" where
  "ranked_item sc p ty b = b\<lparr>bp_direction := bs_direction sc, bp_priority_level := p, bp_source_structure_id := bs_structure_id sc,
     bp_daily_state := bs_daily_state sc, bp_structure_type := ty, bp_score := bs_score sc, bp_reason := bs_reason sc,
     bp_next_wait := bs_next_wait sc, bp_active := True\<rparr>"

definition new_item :: "int \<Rightarrow> string \<Rightarrow> battle_item" where
  "new_item i symbol = \<lparr>bp_id = i, bp_symbol = symbol, bp_direction = RISK, bp_priority_level = Prio_C,
     bp_source_structure_id = 0, bp_daily_state = DAILY_UNKNOWN, bp_structure_type = BOTTOM_PASSIVATION, bp_score = 0,
     bp_reason = [], bp_next_wait = [], bp_active = True\<rparr>"

definition ranked_event :: "battle_score \<Rightarrow> priority \<Rightarrow> structure_event \<Rightarrow> structure_event" where
  "ranked_event sc p e = e\<lparr>ev_quality_score := Some (bs_score sc), ev_battle_eligible := (p \<in> {Prio_S, Prio_A}),
     ev_direction := direction_text (bs_direction sc), ev_stage := event_stage (ev_type e),
     ev_suggested_action := suggested_action (ev_type e)\<rparr>"

text \<open>The event is the one that was scored in the same call, so it is always found.\<close>

definition rank_step :: "battle_score \<Rightarrow> rank_counts \<times> 'z store_scheme \<Rightarrow> rank_counts \<times> 'z store_scheme" where
  "rank_step sc acc =
     (let n = fst acc; db = snd acc; p = capped_priority n (bs_priority sc)
      in case get_row ev_id (bs_structure_id sc) (structure_events db) of
           None \<Rightarrow> acc
         | Some e \<Rightarrow>
             (counted p n,
              db\<lparr>battle_items := upsert bp_symbol (ranked_item sc p (ev_type e))
                   (ranked_item sc p (ev_type e) (new_item (next_id bp_id (battle_items db)) (bs_symbol sc))) (battle_items db),
                 structure_events := put_row ev_id (ranked_event sc p e) (structure_events db)\<rparr>))"

definition ranking :: "int \<Rightarrow> 'z store_scheme \<Rightarrow> battle_score list" where
  "ranking now db = sort_key (\<lambda>sc. (- bs_score sc, bs_symbol sc)) (map (score_structure_event now db) (latest_structure_events db))"

definition archived :: "'z store_scheme \<Rightarrow> 'z store_scheme" where
  "archived db = db\<lparr>battle_items := map (\<lambda>b. b\<lparr>bp_active := False\<rparr>) (battle_items db)\<rparr>"

definition rank_battle_pool :: "int \<Rightarrow> 'z store_scheme \<Rightarrow> rank_counts \<times> 'z store_scheme" where
  "rank_battle_pool now db =
     fold rank_step (ranking now db) (\<lparr>rc_S = 0, rc_A = 0, rc_B = 0, rc_C = 0\<rparr>, archived db)"

section \<open>Lemmas\<close>

lemma score_bounds: "0 \<le> py_round 2 (max 0 (min 100 x)) \<and> py_round 2 (max 0 (min 100 x)) \<le> 100"
proof -
  have zero: "py_round 2 0 = 0" using round_half_even_of_int [of 0] by (simp add: py_round_def)
  have hundred: "py_round 2 100 = 100" using round_half_even_of_int [of 10000] by (simp add: py_round_def)
  show ?thesis
    using py_round_mono [of 0 "max 0 (min 100 x)" 2] py_round_mono [of "max 0 (min 100 x)" 100 2] by (simp add: zero hundred)
qed

lemma score_structure_event_sel:
  "bs_symbol (score_structure_event now db e) = ev_symbol e"
  "0 \<le> bs_score (score_structure_event now db e) \<and> bs_score (score_structure_event now db e) \<le> 100"
  "bs_priority (score_structure_event now db e) = priority_of_score (bs_score (score_structure_event now db e))"
  by (simp_all add: score_structure_event_def Let_def split_beta score_bounds)

lemma latest_structure_symbols: "map ev_symbol (latest_structure_events db) = sort (remdups (map ev_symbol (scored_events db)))"
proof -
  have "ev_symbol (the (scalar (order_desc ev_ts (filter (\<lambda>e. ev_symbol e = s) (scored_events db))))) = s"
    if "s \<in> set (sort (remdups (map ev_symbol (scored_events db))))" for s
  proof -
    have "filter (\<lambda>e. ev_symbol e = s) (scored_events db) \<noteq> []" using that by (auto simp: filter_empty_conv)
    then obtain e where "scalar (order_desc ev_ts (filter (\<lambda>e. ev_symbol e = s) (scored_events db))) = Some e"
      by (metis not_None_eq order_desc_Nil scalar_eq_None)
    then show ?thesis by (auto dest!: scalar_SomeD)
  qed
  then show ?thesis unfolding latest_structure_events_def map_map comp_def by (rule map_idI)
qed

lemma ranking_symbols: "distinct (map bs_symbol (ranking now db))"
proof -
  have "map bs_symbol (map (score_structure_event now db) (latest_structure_events db)) = map ev_symbol (latest_structure_events db)"
    by (simp add: score_structure_event_sel)
  then have "distinct (map bs_symbol (map (score_structure_event now db) (latest_structure_events db)))"
    unfolding latest_structure_symbols by simp
  then show ?thesis unfolding ranking_def distinct_map set_sort by (simp add: distinct_map)
qed

lemma ranking_sorted: "sorted_wrt (\<lambda>x y. bs_score x \<ge> bs_score y) (ranking now db)"
proof -
  have "sorted (map (\<lambda>sc. (- bs_score sc, bs_symbol sc)) (ranking now db))" unfolding ranking_def by (rule sorted_sort_key)
  then have "sorted_wrt (\<lambda>x y. (- bs_score x, bs_symbol x) \<le> (- bs_score y, bs_symbol y)) (ranking now db)"
    by (simp add: sorted_wrt_map)
  then show ?thesis by (rule sorted_wrt_mono_rel [rotated]) (auto simp: less_eq_prod_def)
qed

lemma ranking_member:
  "sc \<in> set (ranking now db) \<Longrightarrow> 0 \<le> bs_score sc \<and> bs_score sc \<le> 100 \<and> bs_priority sc = priority_of_score (bs_score sc)"
  by (auto simp: ranking_def score_structure_event_sel)

lemma length_filter_upsert:
  assumes "distinct (map key xs)" "\<And>y. key (upd y) = key y" "\<And>y. P (upd y) = q" "P new = q"
    and "\<And>y. y \<in> set xs \<Longrightarrow> key y = key new \<Longrightarrow> \<not> P y"
  shows "length (filter P (upsert key upd new xs)) = length (filter P xs) + (if q then 1 else 0)"
proof -
  have one: "length (filter P (map (\<lambda>y. if key y = key new then upd y else y) ys)) = length (filter P ys) + (if q then 1 else 0)"
    if "distinct (map key ys)" "key new \<in> key ` set ys" "\<And>y. y \<in> set ys \<Longrightarrow> key y = key new \<Longrightarrow> \<not> P y" for ys
    using that
  proof (induction ys)
    case (Cons y ys)
    show ?case
    proof (cases "key y = key new")
      case True
      then have "\<forall>z \<in> set ys. key z \<noteq> key new" using Cons.prems(1) by (metis distinct.simps(2) image_eqI list.map(2) list.set_map)
      then have "map (\<lambda>y. if key y = key new then upd y else y) ys = ys" by (auto intro: map_idI)
      then show ?thesis using True Cons.prems(3) [of y] assms(3) [of y] by simp
    next
      case False
      then show ?thesis using Cons by auto
    qed
  qed simp
  show ?thesis
  proof (cases "key new \<in> key ` set xs")
    case True
    then show ?thesis using one [OF assms(1) True assms(5)] by (simp add: upsert_def)
  next
    case False
    then show ?thesis using assms(4) by (simp add: upsert_def)
  qed
qed

text \<open>The order of the priorities, and the invariant of the ranking loop.\<close>

fun prio_level :: "priority \<Rightarrow> nat" where
  "prio_level Prio_S = 0" | "prio_level Prio_A = 1" | "prio_level Prio_B = 2" | "prio_level Prio_C = 3"

definition active_with :: "priority \<Rightarrow> battle_item list \<Rightarrow> nat" where
  "active_with p bs = length (filter (\<lambda>b. bp_active b \<and> bp_priority_level b = p) bs)"

text \<open>Why an active item has its priority: its score, or a priority that was full.\<close>

definition earned :: "rank_counts \<Rightarrow> battle_item \<Rightarrow> bool" where
  "earned n b \<longleftrightarrow> 0 \<le> bp_score b \<and> bp_score b \<le> 100
     \<and> (case bp_priority_level b of
          Prio_S \<Rightarrow> bp_score b \<ge> 85
        | Prio_A \<Rightarrow> bp_score b \<ge> 70 \<and> (bp_score b < 85 \<or> rc_S n \<ge> 3)
        | Prio_B \<Rightarrow> bp_score b \<ge> 50 \<and> (bp_score b < 70 \<or> rc_A n \<ge> 10 \<and> (bp_score b < 85 \<or> rc_S n \<ge> 3))
        | Prio_C \<Rightarrow> bp_score b < 50)"

definition rank_ok :: "string set \<Rightarrow> rank_counts \<times> 'z store_scheme \<Rightarrow> bool" where
  "rank_ok done acc \<longleftrightarrow>
     distinct (map bp_symbol (battle_items (snd acc)))
     \<and> active_with Prio_S (battle_items (snd acc)) = rc_S (fst acc) \<and> rc_S (fst acc) \<le> 3
     \<and> active_with Prio_A (battle_items (snd acc)) = rc_A (fst acc) \<and> rc_A (fst acc) \<le> 10
     \<and> (\<forall>b \<in> set (battle_items (snd acc)). bp_active b \<longrightarrow> bp_symbol b \<in> done \<and> earned (fst acc) b)
     \<and> (\<forall>b \<in> set (battle_items (snd acc)). \<forall>c \<in> set (battle_items (snd acc)).
          bp_active b \<longrightarrow> bp_active c \<longrightarrow> bp_score b > bp_score c \<longrightarrow> prio_level (bp_priority_level b) \<le> prio_level (bp_priority_level c))"

lemma ranked_item_sel [simp]:
  "bp_symbol (ranked_item sc p ty b) = bp_symbol b" "bp_active (ranked_item sc p ty b)"
  "bp_priority_level (ranked_item sc p ty b) = p" "bp_score (ranked_item sc p ty b) = bs_score sc"
  "bp_symbol (new_item i symbol) = symbol"
  by (simp_all add: ranked_item_def new_item_def)

lemma earned_mono: "earned n b \<Longrightarrow> rc_S n \<le> rc_S m \<Longrightarrow> rc_A n \<le> rc_A m \<Longrightarrow> earned m b"
  by (auto simp: earned_def split: priority.splits)

lemma counted_mono: "rc_S n \<le> rc_S (counted p n) \<and> rc_A n \<le> rc_A (counted p n)"
  by (cases p) auto

text \<open>The priority given to a score: it is earned, and never above one that a higher score got before.\<close>

lemma capped_earned:
  assumes "0 \<le> x" "x \<le> 100" "p = capped_priority n (priority_of_score x)" "bp_priority_level b = p" "bp_score b = x"
  shows "earned (counted p n) b"
  using assms by (auto simp: earned_def capped_priority_def priority_of_score_def Let_def split: if_splits priority.splits)

lemma capped_below:
  assumes "earned n b" "x \<le> bp_score b"
  shows "prio_level (bp_priority_level b) \<le> prio_level (capped_priority n (priority_of_score x))"
  using assms by (cases "bp_priority_level b") (auto simp: earned_def capped_priority_def priority_of_score_def Let_def)

lemma rank_step_ok:
  assumes "rank_ok done acc" "bs_symbol sc \<notin> done" "0 \<le> bs_score sc" "bs_score sc \<le> 100"
    and "bs_priority sc = priority_of_score (bs_score sc)"
    and "\<forall>b \<in> set (battle_items (snd acc)). bp_active b \<longrightarrow> bs_score sc \<le> bp_score b"
  shows "rank_ok (insert (bs_symbol sc) done) (rank_step sc acc)
    \<and> (\<forall>b \<in> set (battle_items (snd (rank_step sc acc))). bp_active b \<longrightarrow> bs_score sc \<le> bp_score b)"
proof (cases "get_row ev_id (bs_structure_id sc) (structure_events (snd acc))")
  case None
  then have "rank_step sc acc = acc" by (simp add: rank_step_def)
  then show ?thesis using assms(1,6) by (auto simp: rank_ok_def)
next
  case (Some e)
  obtain n db where acc: "acc = (n, db)" by (cases acc)
  define p where "p = capped_priority n (priority_of_score (bs_score sc))"
  define upd where "upd = ranked_item sc p (ev_type e)"
  define new where "new = upd (new_item (next_id bp_id (battle_items db)) (bs_symbol sc))"
  define items where "items = upsert bp_symbol upd new (battle_items db)"
  have step: "rank_step sc acc = (counted p n, db\<lparr>battle_items := items, structure_events := put_row ev_id (ranked_event sc p e) (structure_events db)\<rparr>)"
    using Some acc by (simp add: rank_step_def Let_def items_def new_def upd_def p_def assms(5))
  have upd: "bp_symbol (upd b) = bp_symbol b" "bp_active (upd b)" "bp_priority_level (upd b) = p" "bp_score (upd b) = bs_score sc" for b
    by (simp_all add: upd_def)
  have new: "bp_symbol new = bs_symbol sc" by (simp add: new_def upd)
  have ok: "distinct (map bp_symbol (battle_items db))" "active_with Prio_S (battle_items db) = rc_S n" "rc_S n \<le> 3"
    "active_with Prio_A (battle_items db) = rc_A n" "rc_A n \<le> 10"
    "\<And>b. b \<in> set (battle_items db) \<Longrightarrow> bp_active b \<Longrightarrow> bp_symbol b \<in> done \<and> earned n b"
    "\<And>b c. b \<in> set (battle_items db) \<Longrightarrow> c \<in> set (battle_items db) \<Longrightarrow> bp_active b \<Longrightarrow> bp_active c \<Longrightarrow> bp_score b > bp_score c
       \<Longrightarrow> prio_level (bp_priority_level b) \<le> prio_level (bp_priority_level c)"
    using assms(1) by (auto simp: rank_ok_def acc)
  have idle: "\<not> bp_active b" if "b \<in> set (battle_items db)" "bp_symbol b = bp_symbol new" for b
    using ok(6) [OF that(1)] that(2) assms(2) by (auto simp: new)
  have active: "active_with q items = active_with q (battle_items db) + (if p = q then 1 else 0)" for q
    unfolding active_with_def items_def
    by (rule length_filter_upsert) (use ok(1) upd idle in \<open>auto simp: new_def\<close>)
  have member: "b \<in> set (battle_items db) \<and> bp_symbol b \<noteq> bs_symbol sc
      \<or> bp_symbol b = bs_symbol sc \<and> bp_active b \<and> bp_priority_level b = p \<and> bp_score b = bs_score sc" if "b \<in> set items" for b
    using upsert_member [of bp_symbol upd, OF upd(1) that [unfolded items_def]] by (auto simp: new upd) (simp_all add: new_def upd)
  have here: "earned (counted p n) b" if "bp_priority_level b = p" "bp_score b = bs_score sc" for b
    using capped_earned [OF assms(3,4) p_def that(1,2)] .
  have before: "earned (counted p n) b" "prio_level (bp_priority_level b) \<le> prio_level p" "bs_score sc \<le> bp_score b" "bp_symbol b \<in> done"
    if "b \<in> set (battle_items db)" "bp_active b" for b
    using ok(6) [OF that] assms(6) that counted_mono [of n p] earned_mono [of n b "counted p n"] capped_below [of n b "bs_score sc"]
    by (auto simp: acc p_def)
  have caps: "(p = Prio_S \<longrightarrow> rc_S n < 3) \<and> (p = Prio_A \<longrightarrow> rc_A n < 10)"
    by (auto simp: p_def capped_priority_def Let_def split: if_splits)
  have counts: "rc_S (counted p n) = rc_S n + (if p = Prio_S then 1 else 0)" "rc_A (counted p n) = rc_A n + (if p = Prio_A then 1 else 0)"
    by (cases p; simp)+
  have "distinct (map bp_symbol items)" unfolding items_def by (rule upsert_distinct [of bp_symbol upd, OF upd(1) ok(1)])
  moreover have "\<forall>b \<in> set items. bp_active b \<longrightarrow> bp_symbol b \<in> insert (bs_symbol sc) done \<and> earned (counted p n) b"
    using member before here by fastforce
  moreover have "prio_level (bp_priority_level b) \<le> prio_level (bp_priority_level c)"
    if "b \<in> set items" "c \<in> set items" "bp_active b" "bp_active c" "bp_score b > bp_score c" for b c
    using member [OF that(1)] member [OF that(2)] before [of b] before [of c] ok(7) [of b c] that(3-5) by auto
  moreover have "\<forall>b \<in> set items. bp_active b \<longrightarrow> bs_score sc \<le> bp_score b"
    using member before by fastforce
  ultimately show ?thesis
    unfolding step using ok(2-5) active caps counts by (auto simp: rank_ok_def)
qed

lemma rank_fold_ok:
  assumes "rank_ok done acc" "distinct (map bs_symbol scs)" "bs_symbol ` set scs \<inter> done = {}"
    and "\<forall>sc \<in> set scs. 0 \<le> bs_score sc \<and> bs_score sc \<le> 100 \<and> bs_priority sc = priority_of_score (bs_score sc)"
    and "sorted_wrt (\<lambda>x y. bs_score x \<ge> bs_score y) scs"
    and "\<forall>sc \<in> set scs. \<forall>b \<in> set (battle_items (snd acc)). bp_active b \<longrightarrow> bs_score sc \<le> bp_score b"
  shows "rank_ok (done \<union> bs_symbol ` set scs) (fold rank_step scs acc)"
  using assms
proof (induction scs arbitrary: "done" acc)
  case (Cons sc scs)
  have new: "bs_symbol sc \<notin> done" using Cons.prems(3) by auto
  have step: "rank_ok (insert (bs_symbol sc) done) (rank_step sc acc)
    \<and> (\<forall>b \<in> set (battle_items (snd (rank_step sc acc))). bp_active b \<longrightarrow> bs_score sc \<le> bp_score b)"
    using Cons.prems(4,6) by (intro rank_step_ok [OF Cons.prems(1) new]) auto
  have "rank_ok (insert (bs_symbol sc) done \<union> bs_symbol ` set scs) (fold rank_step scs (rank_step sc acc))"
  proof (rule Cons.IH)
    show "\<forall>x \<in> set scs. \<forall>b \<in> set (battle_items (snd (rank_step sc acc))). bp_active b \<longrightarrow> bs_score x \<le> bp_score b"
      using step Cons.prems(5) by (auto intro: order_trans)
  qed (use step Cons.prems in auto)
  then show ?case by simp
qed simp

lemma ranking_ok:
  assumes "distinct (map bp_symbol (battle_items db))"
  shows "rank_ok (bs_symbol ` set (ranking now db)) (rank_battle_pool now db)"
proof -
  have "rank_ok {} (\<lparr>rc_S = 0, rc_A = 0, rc_B = 0, rc_C = 0\<rparr>, archived db)"
    using assms by (auto simp: rank_ok_def archived_def active_with_def comp_def)
  then have "rank_ok ({} \<union> bs_symbol ` set (ranking now db)) (fold rank_step (ranking now db) (\<lparr>rc_S = 0, rc_A = 0, rc_B = 0, rc_C = 0\<rparr>, archived db))"
    by (rule rank_fold_ok [OF _ ranking_symbols _ _ ranking_sorted]) (auto simp: archived_def dest: ranking_member)
  then show ?thesis by (simp add: rank_battle_pool_def)
qed

section \<open>Properties\<close>

text \<open>C21. After a ranking at most three symbols are in priority S and at most ten in A, every active item has a
  score from 0 to 100 that reaches the threshold of its priority (85, 70, 50), there is one item per
  symbol, and the reported numbers are those of the active items.\<close>

theorem battle_pool_limits:
  assumes "distinct (map bp_symbol (battle_items db))" "rank_battle_pool now db = (counts, db')"
  shows "distinct (map bp_symbol (battle_items db'))
    \<and> active_with Prio_S (battle_items db') = rc_S counts \<and> rc_S counts \<le> 3
    \<and> active_with Prio_A (battle_items db') = rc_A counts \<and> rc_A counts \<le> 10
    \<and> (\<forall>b \<in> set (battle_items db'). bp_active b \<longrightarrow> 0 \<le> bp_score b \<and> bp_score b \<le> 100
        \<and> (bp_priority_level b = Prio_S \<longrightarrow> bp_score b \<ge> 85) \<and> (bp_priority_level b = Prio_A \<longrightarrow> bp_score b \<ge> 70)
        \<and> (bp_priority_level b = Prio_B \<longrightarrow> bp_score b \<ge> 50))"
  using ranking_ok [OF assms(1), of now] unfolding assms(2)
  by (auto simp: rank_ok_def earned_def split: priority.splits)

text \<open>A higher score never gets a lower priority: of two active items the one with the higher score has the
  same or the better priority, whatever the limits cut off.\<close>

theorem priorities_follow_scores:
  assumes "distinct (map bp_symbol (battle_items db))" "rank_battle_pool now db = (counts, db')"
    and "b \<in> set (battle_items db')" "c \<in> set (battle_items db')" "bp_active b" "bp_active c" "bp_score c < bp_score b"
  shows "prio_level (bp_priority_level b) \<le> prio_level (bp_priority_level c)"
  using ranking_ok [OF assms(1), of now] assms(3-7) unfolding assms(2) by (auto simp: rank_ok_def)

section \<open>Witnesses\<close>

text \<open>Five candidates in a strong daily trend, each with a fresh bottom and a stop near its price.\<close>

definition pool_symbols :: "string list" where
  "pool_symbols = [''AA'', ''BB'', ''CC'', ''DD'', ''EE'']"

definition pool_store :: store where
  "pool_store = empty_store\<lparr>
     candidates := map (\<lambda>s. (new_candidate s 0)\<lparr>cd_name := s, cd_tags := [[], [], [], []],
       cd_rank_score := (if s = ''EE'' then 10 else 100)\<rparr>) pool_symbols,
     daily_states := map (\<lambda>s. \<lparr>ds_symbol = s, ds_as_of = 0, ds_state = DAILY_STRONG_BULL, ds_reason = []\<rparr>) pool_symbols,
     structure_events := map (\<lambda>(i, s). (new_event [] [] None i (sample_detection BOTTOM_STRUCTURE 2 None None))\<lparr>ev_symbol := s\<rparr>)
       (zip [1, 2, 3, 4, 5] pool_symbols)\<rparr>"

lemma pool_run:
  "map (\<lambda>b. (bp_symbol b, bp_priority_level b)) (battle_items (snd (rank_battle_pool 2 pool_store)))
     = [(''AA'', Prio_S), (''BB'', Prio_S), (''CC'', Prio_S), (''DD'', Prio_A), (''EE'', Prio_A)]"
  by code_simp

theorem battle_pool_limits_witness:
  "rc_S (fst (rank_battle_pool 2 pool_store)) = 3 \<and> rc_A (fst (rank_battle_pool 2 pool_store)) = 2
   \<and> active_with Prio_S (battle_items (snd (rank_battle_pool 2 pool_store))) = 3
   \<and> active_with Prio_A (battle_items (snd (rank_battle_pool 2 pool_store))) = 2"
proof -
  obtain counts db' where run: "rank_battle_pool 2 pool_store = (counts, db')" by fastforce
  have start: "distinct (map bp_symbol (battle_items pool_store))" by code_simp
  have "rc_S (fst (rank_battle_pool 2 pool_store)) = 3" "rc_A (fst (rank_battle_pool 2 pool_store)) = 2" by code_simp+
  with battle_pool_limits [OF start run] show ?thesis by (simp add: run)
qed

theorem priorities_follow_scores_witness:
  "\<exists>b c. b \<in> set (battle_items (snd (rank_battle_pool 2 pool_store))) \<and> c \<in> set (battle_items (snd (rank_battle_pool 2 pool_store)))
     \<and> bp_symbol b = ''DD'' \<and> bp_symbol c = ''EE'' \<and> bp_score c < bp_score b
     \<and> prio_level (bp_priority_level b) \<le> prio_level (bp_priority_level c)"
proof -
  obtain counts db' where run: "rank_battle_pool 2 pool_store = (counts, db')" by fastforce
  define b where "b = battle_items (snd (rank_battle_pool 2 pool_store)) ! 3"
  define c where "c = battle_items (snd (rank_battle_pool 2 pool_store)) ! 4"
  have start: "distinct (map bp_symbol (battle_items pool_store))" by code_simp
  have "length (battle_items (snd (rank_battle_pool 2 pool_store))) = 5" using arg_cong [OF pool_run, of length] by simp
  then have mem: "b \<in> set (battle_items db')" "c \<in> set (battle_items db')" by (simp_all add: b_def c_def run)
  have facts: "bp_active b" "bp_active c" "bp_symbol b = ''DD''" "bp_symbol c = ''EE''" "bp_score c < bp_score b"
    unfolding b_def c_def by code_simp+
  from priorities_follow_scores [OF start run mem facts(1,2,5)] facts mem show ?thesis unfolding run snd_conv by blast
qed

end
