(* ===== verification/Trade_Plans.thy ===== *)
theory Trade_Plans
  imports Battle_Pool
begin

text \<open>
  app/services/trade_plan.py: every active item of the priorities S and A of the battle pool gets a
  trade plan with its entry, its stop and two targets; a plan whose structure has left these
  priorities is invalidated.
\<close>

section \<open>The prices of a plan\<close>

definition PLAN_EVENT_TYPES :: "event_type list" where
  "PLAN_EVENT_TYPES = [BOTTOM_STRUCTURE, TOP_STRUCTURE, TOP_INVALIDATED]"

record plan_levels =
  lv_reference :: real
  lv_entry :: real
  lv_stop :: real
  lv_target_1 :: real
  lv_target_2 :: real
  lv_entry_mode :: string
  lv_invalid :: string
  lv_absorb :: "(real \<times> real) option"

definition plan_reference :: "structure_event \<Rightarrow> real" where
  "plan_reference e = opt_or (ev_confirm_level e) (opt_or (ev_trigger_level e) (ev_price e))"

definition long_levels :: "real \<Rightarrow> structure_event \<Rightarrow> plan_levels option" where
  "long_levels atr e =
     (case (if ev_type e = BOTTOM_STRUCTURE then ev_pivot_low e else ev_invalidation_level e) of
        None \<Rightarrow> None
      | Some stop_reference \<Rightarrow>
          (let entry = plan_reference e + (1/10) * atr; stop = stop_reference - (1/2) * atr
           in if stop \<le> 0 \<or> stop \<ge> entry then None
              else (let risk = entry - stop in Some \<lparr>lv_reference = plan_reference e, lv_entry = entry, lv_stop = stop,
                lv_target_1 = entry + (15/10) * risk, lv_target_2 = entry + 2 * risk,
                lv_entry_mode = (if ev_type e = TOP_INVALIDATED then ''BREAKOUT'' else ''BREAKOUT_OR_PULLBACK''),
                lv_invalid = zh_tp_invalid_long_a @ fmt_fixed 2 stop_reference @ zh_tp_invalid_long_b,
                lv_absorb = Some (max (stop + (25/100) * atr) stop_reference, stop_reference + (6/10) * atr)\<rparr>)))"

definition short_levels :: "real \<Rightarrow> structure_event \<Rightarrow> plan_levels option" where
  "short_levels atr e =
     (case (if opt_truthy (ev_pivot_high e) then ev_pivot_high e else ev_invalidation_level e) of
        None \<Rightarrow> None
      | Some stop_reference \<Rightarrow>
          (let entry = plan_reference e - (1/10) * atr; stop = stop_reference + (1/2) * atr
           in if entry \<le> 0 \<or> stop \<le> entry then None
              else (let risk = stop - entry in Some \<lparr>lv_reference = plan_reference e, lv_entry = entry, lv_stop = stop,
                lv_target_1 = max (1/100) (entry - (15/10) * risk), lv_target_2 = max (1/100) (entry - 2 * risk),
                lv_entry_mode = ''BREAKDOWN_REVIEW'',
                lv_invalid = zh_tp_invalid_short_a @ fmt_fixed 2 stop_reference @ zh_tp_invalid_short_b,
                lv_absorb = None\<rparr>)))"

fun priority_text :: "priority \<Rightarrow> string" where
  "priority_text Prio_S = ''S''"
| "priority_text Prio_A = ''A''"
| "priority_text Prio_B = ''B''"
| "priority_text Prio_C = ''C''"

definition manual_checklist :: "string list" where
  "manual_checklist = [zh_tp_check_1, zh_tp_check_2, zh_tp_check_3, zh_tp_check_4, zh_tp_check_5]"

text \<open>The values as the update they make of the plan's row.\<close>

definition plan_values :: "string \<Rightarrow> string list \<Rightarrow> real \<Rightarrow> battle_item \<Rightarrow> structure_event \<Rightarrow> plan_levels \<Rightarrow> trade_plan \<Rightarrow> trade_plan" where
  "plan_values nm tags atr item e lv pl =
     (let buffer = max ((5/100) * atr) (lv_reference lv * (2/1000)); long = (bp_direction item = LONG)
      in pl\<lparr>pl_name := nm, pl_direction := bp_direction item, pl_daily_state := bp_daily_state item,
          pl_structure_type := ev_type e, pl_priority_level := bp_priority_level item, pl_entry_mode := lv_entry_mode lv,
          pl_breakout_entry_price := Some (py_round 4 (lv_entry lv)),
          pl_pullback_entry_low := Some (py_round 4 (lv_reference lv - buffer)),
          pl_pullback_entry_high := Some (py_round 4 (lv_reference lv + buffer)),
          pl_low_absorb_entry_low := map_option (\<lambda>r. py_round 4 (fst r)) (lv_absorb lv),
          pl_low_absorb_entry_high := map_option (\<lambda>r. py_round 4 (snd r)) (lv_absorb lv),
          pl_stop_price := py_round 4 (lv_stop lv), pl_target_1 := py_round 4 (lv_target_1 lv), pl_target_2 := py_round 4 (lv_target_2 lv),
          pl_trailing_rule := zh_tp_trailing, pl_time_stop_rule := (if long then zh_tp_time_long else zh_tp_time_short),
          pl_invalid_condition := lv_invalid lv, pl_risk_reward_1 := 15/10, pl_risk_reward_2 := 2,
          pl_no_chase_above := (if long then Some (py_round 4 (lv_entry lv + (1/2) * atr)) else None),
          pl_no_chase_below := (if long then None else Some (py_round 4 (lv_entry lv - (1/2) * atr))),
          pl_activation_status := ''PLANNED'', pl_manual_checklist := manual_checklist,
          pl_reason := priority_text (bp_priority_level item) @ zh_tp_level @ bp_reason item @ zh_tp_tags
            @ (if tags = [] then zh_tp_none else join_with '', '' tags) @ zh_tp_review\<rparr>)"

definition build_trade_plan_values :: "'z store_scheme \<Rightarrow> battle_item \<Rightarrow> structure_event \<Rightarrow> (trade_plan \<Rightarrow> trade_plan) option" where
  "build_trade_plan_values db item e =
     (case scalar (filter (\<lambda>i. in_symbol i = ev_symbol e \<and> in_timeframe i = HOUR_60 \<and> in_ts i = ev_ts e) (indicators db)) of
        None \<Rightarrow> None
      | Some ind \<Rightarrow>
          (case in_atr ind of
             None \<Rightarrow> None
           | Some atr \<Rightarrow>
               if atr \<le> 0 then None
               else (let candidate = scalar (filter (\<lambda>c. cd_symbol c = ev_symbol e) (candidates db));
                         nm = (case candidate of None \<Rightarrow> ev_symbol e | Some c \<Rightarrow> cd_name c);
                         tags = (case candidate of None \<Rightarrow> [] | Some c \<Rightarrow> cd_tags c)
                     in map_option (plan_values nm tags atr item e)
                          (if bp_direction item = LONG then long_levels atr e else short_levels atr e))))"

section \<open>Generating the plans\<close>

definition active_items :: "'z store_scheme \<Rightarrow> battle_item list" where
  "active_items db = filter (\<lambda>b. bp_active b \<and> bp_priority_level b \<in> {Prio_S, Prio_A}) (battle_items db)"

definition item_plan :: "'z store_scheme \<Rightarrow> battle_item \<Rightarrow> (structure_event \<times> (trade_plan \<Rightarrow> trade_plan)) option" where
  "item_plan db item =
     (case get_row ev_id (bp_source_structure_id item) (structure_events db) of
        None \<Rightarrow> None
      | Some e \<Rightarrow>
          if ev_type e \<notin> set PLAN_EVENT_TYPES \<or> bp_direction item = RISK then None
          else map_option (\<lambda>f. (e, f)) (build_trade_plan_values db item e))"

definition new_plan :: "int \<Rightarrow> string \<Rightarrow> int \<Rightarrow> int \<Rightarrow> int \<Rightarrow> trade_plan" where
  "new_plan i symbol structure_id item_id now = \<lparr>pl_id = i, pl_symbol = symbol, pl_name = [], pl_direction = LONG,
     pl_source_structure_id = structure_id, pl_battle_pool_id = item_id, pl_daily_state = DAILY_UNKNOWN,
     pl_structure_type = BOTTOM_STRUCTURE, pl_priority_level = Prio_C, pl_entry_mode = ''BREAKOUT'', pl_breakout_entry_price = None,
     pl_pullback_entry_low = None, pl_pullback_entry_high = None, pl_low_absorb_entry_low = None, pl_low_absorb_entry_high = None,
     pl_stop_price = 0, pl_target_1 = 0, pl_target_2 = 0, pl_trailing_rule = [], pl_time_stop_rule = [], pl_invalid_condition = [],
     pl_risk_reward_1 = 0, pl_risk_reward_2 = 0, pl_alert_status = NOT_ARMED, pl_status = PL_ACTIVE, pl_reason = [],
     pl_no_chase_above = None, pl_no_chase_below = None, pl_current_price = None, pl_current_change_pct = None,
     pl_last_validated_at = None, pl_rules_approval_status = NOT_REVIEWED, pl_rules_reject_reason = [],
     pl_capital_status = CAPITAL_UNKNOWN, pl_capital_reason = [], pl_activation_status = ''PLANNED'', pl_waitlist_rank = None,
     pl_simulated_order_id = None, pl_missed_by_capital_at = None, pl_missed_by_capital_price = None, pl_suggested_shares = None,
     pl_available_cash_snapshot = None, pl_max_new_position_value = None, pl_manual_checklist = [], pl_created_at = now,
     pl_updated_at = now\<rparr>"

record plan_run =
  pr_keys :: "(string \<times> int) list"
  pr_generated :: nat
  pr_skipped :: nat
  pr_plans :: "trade_plan list"

text \<open>The plan is looked up among the rows stored before the call: a pending row is not flushed by a query.\<close>

definition plan_step :: "int \<Rightarrow> 'z store_scheme \<Rightarrow> battle_item \<Rightarrow> plan_run \<Rightarrow> plan_run" where
  "plan_step now db item r =
     (case item_plan db item of
        None \<Rightarrow> r\<lparr>pr_skipped := pr_skipped r + 1\<rparr>
      | Some (e, f) \<Rightarrow>
          (let planned = (\<lambda>pl. (f pl)\<lparr>pl_battle_pool_id := bp_id item, pl_status := PL_ACTIVE\<rparr>)
           in r\<lparr>pr_keys := (bp_symbol item, ev_id e) # pr_keys r, pr_generated := pr_generated r + 1,
                pr_plans :=
                  (case scalar (filter (\<lambda>p. pl_symbol p = bp_symbol item \<and> pl_source_structure_id p = ev_id e) (plans db)) of
                     None \<Rightarrow> pr_plans r @ [planned (new_plan (next_id pl_id (pr_plans r)) (bp_symbol item) (ev_id e) (bp_id item) now)]
                   | Some p \<Rightarrow> map (\<lambda>q. if pl_id q = pl_id p then planned q else q) (pr_plans r))\<rparr>))"

definition PENDING_STATUSES :: "plan_status list" where
  "PENDING_STATUSES = [PL_PLANNED, PL_ACTIVE, PL_ARMED, PL_WAIT_PULLBACK, PL_NO_CHASE, PL_TRIGGERED, PL_WAITLIST,
     PL_MISSED_BY_CAPITAL, PL_PAUSED]"

text \<open>The second query selects by the stored status, before the changes of this call.\<close>

definition dropped :: "(string \<times> int) list \<Rightarrow> trade_plan list \<Rightarrow> trade_plan \<Rightarrow> trade_plan" where
  "dropped keys stored pl =
     (if (\<exists>p \<in> set stored. pl_id p = pl_id pl \<and> pl_status p \<in> set PENDING_STATUSES) \<and> (pl_symbol pl, pl_source_structure_id pl) \<notin> set keys
      then pl\<lparr>pl_status := PL_INVALIDATED, pl_invalid_condition := pl_invalid_condition pl @ zh_tp_dropped\<rparr>
      else pl)"

definition plan_pass :: "int \<Rightarrow> 'z store_scheme \<Rightarrow> plan_run" where
  "plan_pass now db = fold (plan_step now db) (active_items db) \<lparr>pr_keys = [], pr_generated = 0, pr_skipped = 0, pr_plans = plans db\<rparr>"

definition generate_trade_plans :: "int \<Rightarrow> 'z store_scheme \<Rightarrow> (nat \<times> nat) \<times> 'z store_scheme" where
  "generate_trade_plans now db =
     (let r = plan_pass now db
      in ((pr_generated r, pr_skipped r),
          commit now db (db\<lparr>plans := map (dropped (pr_keys r) (plans db)) (pr_plans r)\<rparr>)))"

section \<open>Lemmas\<close>

lemma plan_values_sel [simp]:
  "pl_id (plan_values nm tags atr item e lv pl) = pl_id pl"
  "pl_symbol (plan_values nm tags atr item e lv pl) = pl_symbol pl"
  "pl_source_structure_id (plan_values nm tags atr item e lv pl) = pl_source_structure_id pl"
  "pl_stop_price (plan_values nm tags atr item e lv pl) = py_round 4 (lv_stop lv)"
  "pl_target_1 (plan_values nm tags atr item e lv pl) = py_round 4 (lv_target_1 lv)"
  "pl_target_2 (plan_values nm tags atr item e lv pl) = py_round 4 (lv_target_2 lv)"
  "pl_breakout_entry_price (plan_values nm tags atr item e lv pl) = Some (py_round 4 (lv_entry lv))"
  "pl_no_chase_above (plan_values nm tags atr item e lv pl)
     = (if bp_direction item = LONG then Some (py_round 4 (lv_entry lv + (1/2) * atr)) else None)"
  "pl_no_chase_below (plan_values nm tags atr item e lv pl)
     = (if bp_direction item = LONG then None else Some (py_round 4 (lv_entry lv - (1/2) * atr)))"
  "pl_direction (plan_values nm tags atr item e lv pl) = bp_direction item"
  by (simp_all add: plan_values_def Let_def)

lemma build_SomeD:
  assumes "build_trade_plan_values db item e = Some f"
  shows "\<exists>nm tags atr lv. f = plan_values nm tags atr item e lv \<and> atr > 0
    \<and> (if bp_direction item = LONG then long_levels atr e else short_levels atr e) = Some lv"
  using assms unfolding build_trade_plan_values_def Let_def
  by (fastforce split: option.splits if_splits)

lemma long_levels_order:
  assumes "long_levels atr e = Some lv"
  shows "0 < lv_stop lv \<and> lv_stop lv < lv_entry lv \<and> lv_target_1 lv = lv_entry lv + (15/10) * (lv_entry lv - lv_stop lv)
    \<and> lv_target_2 lv = lv_entry lv + 2 * (lv_entry lv - lv_stop lv)"
  using assms unfolding long_levels_def Let_def by (auto split: option.splits if_splits)

lemma short_levels_order:
  assumes "short_levels atr e = Some lv"
  shows "0 < lv_entry lv \<and> lv_entry lv < lv_stop lv \<and> lv_target_1 lv = max (1/100) (lv_entry lv - (15/10) * (lv_stop lv - lv_entry lv))
    \<and> lv_target_2 lv = max (1/100) (lv_entry lv - 2 * (lv_stop lv - lv_entry lv))"
  using assms unfolding short_levels_def Let_def by (auto split: option.splits if_splits)

lemma round_4_close: "\<bar>py_round 4 x - x\<bar> \<le> 1/20000"
  using py_round_close [of 4 x] by simp

lemma reward_close:
  assumes "t = en + r * (en - st)" "0 \<le> r"
  shows "\<bar>(py_round 4 t - py_round 4 en) - r * (py_round 4 en - py_round 4 st)\<bar> \<le> (1 + r) / 10000"
proof -
  let ?t = "py_round 4 t - t" and ?e = "py_round 4 en - en" and ?s = "py_round 4 st - st"
  have "(py_round 4 t - py_round 4 en) - r * (py_round 4 en - py_round 4 st) = ?t - (1 + r) * ?e + r * ?s"
    by (simp add: assms(1) algebra_simps)
  also have "\<bar>\<dots>\<bar> \<le> \<bar>?t\<bar> + (1 + r) * \<bar>?e\<bar> + r * \<bar>?s\<bar>"
  proof -
    have "\<bar>(1 + r) * ?e\<bar> = (1 + r) * \<bar>?e\<bar>" "\<bar>r * ?s\<bar> = r * \<bar>?s\<bar>" using assms(2) by (simp_all add: abs_mult)
    then show ?thesis by linarith
  qed
  also have "\<dots> \<le> 1/20000 + (1 + r) * (1/20000) + r * (1/20000)"
    using assms(2) by (intro add_mono mult_left_mono round_4_close) auto
  also have "\<dots> = (1 + r) / 10000" by (simp add: field_simps)
  finally show ?thesis .
qed

lemma round_4_cent [simp]: "py_round 4 (1/100) = 1/100"
  using round_half_even_of_int [of 100] by (simp add: py_round_def)

lemma floored_reward_close:
  assumes "t = max (1/100) (en - r * (st - en))" "0 \<le> r"
  shows "\<bar>py_round 4 t - max (1/100) (py_round 4 en - r * (py_round 4 st - py_round 4 en))\<bar> \<le> (1 + r) / 10000"
proof -
  let ?u = "en + r * (en - st)"
  have u: "en - r * (st - en) = ?u" by (simp add: algebra_simps)
  have "mono (py_round 4)" by (simp add: mono_def py_round_mono)
  then have "py_round 4 t = max (1/100) (py_round 4 ?u)"
    unfolding assms(1) u by (simp only: max_of_mono [symmetric] round_4_cent)
  moreover have "py_round 4 en - r * (py_round 4 st - py_round 4 en) = py_round 4 en + r * (py_round 4 en - py_round 4 st)"
    by (simp add: algebra_simps)
  moreover have "\<bar>max c x - max c y\<bar> \<le> \<bar>x - y\<bar>" for c x y :: real by (auto simp: max_def)
  note this [of "1/100" "py_round 4 ?u" "py_round 4 en + r * (py_round 4 en - py_round 4 st)"]
  ultimately show ?thesis using reward_close [OF refl assms(2), of en st] by linarith
qed

lemma item_planD:
  assumes "item_plan db item = Some (e, f)"
  shows "ev_id e = bp_source_structure_id item \<and> build_trade_plan_values db item e = Some f"
  using assms unfolding item_plan_def by (auto split: option.splits if_splits dest: get_row_SomeD)

text \<open>What the pass keeps: the stored rows stay at their place, and a row is either as stored or belongs to a planned item.\<close>

definition key_of :: "trade_plan \<Rightarrow> string \<times> int" where
  "key_of pl = (pl_symbol pl, pl_source_structure_id pl)"

definition pass_ok :: "trade_plan list \<Rightarrow> plan_run \<Rightarrow> bool" where
  "pass_ok stored r \<longleftrightarrow> distinct (map pl_id (pr_plans r))
     \<and> (\<forall>p \<in> set stored. \<exists>q \<in> set (pr_plans r). pl_id q = pl_id p \<and> key_of q = key_of p)
     \<and> (\<forall>q \<in> set (pr_plans r). q \<in> set stored \<or> key_of q \<in> set (pr_keys r) \<and> pl_status q = PL_ACTIVE)
     \<and> (\<forall>p \<in> set stored. key_of p \<in> set (pr_keys r) \<or> p \<in> set (pr_plans r))"

lemma plan_step_ok:
  assumes ok: "pass_ok (plans db) r"
  shows "pass_ok (plans db) (plan_step now db item r)"
proof (cases "item_plan db item")
  case None
  with ok show ?thesis by (simp add: plan_step_def pass_ok_def)
next
  case (Some ef)
  obtain e f where ef: "ef = (e, f)" by fastforce
  define planned where "planned = (\<lambda>pl. (f pl)\<lparr>pl_battle_pool_id := bp_id item, pl_status := PL_ACTIVE\<rparr>)"
  have keep: "pl_id (planned q) = pl_id q" "key_of (planned q) = key_of q" "pl_status (planned q) = PL_ACTIVE" for q
    using item_planD [OF Some [unfolded ef]] by (auto simp: planned_def key_of_def dest!: build_SomeD)
  let ?k = "(bp_symbol item, ev_id e)"
  let ?found = "scalar (filter (\<lambda>p. pl_symbol p = bp_symbol item \<and> pl_source_structure_id p = ev_id e) (plans db))"
  show ?thesis
  proof (cases ?found)
    case None
    define new where "new = planned (new_plan (next_id pl_id (pr_plans r)) (bp_symbol item) (ev_id e) (bp_id item) now)"
    have step: "plan_step now db item r
        = r\<lparr>pr_keys := ?k # pr_keys r, pr_generated := pr_generated r + 1, pr_plans := pr_plans r @ [new]\<rparr>"
      by (simp add: plan_step_def Some ef None planned_def new_def Let_def)
    have "key_of (new_plan i (bp_symbol item) (ev_id e) j now) = ?k" "pl_id (new_plan i (bp_symbol item) (ev_id e) j now) = i" for i j
      by (simp_all add: key_of_def new_plan_def)
    then have "pl_id new = next_id pl_id (pr_plans r)" "key_of new = ?k" "pl_status new = PL_ACTIVE"
      unfolding new_def keep by blast+
    then show ?thesis using ok by (auto simp: pass_ok_def step dest: next_id_fresh [where rid = pl_id])
  next
    case (Some p)
    then have p: "p \<in> set (plans db)" "key_of p = ?k" by (auto dest!: scalar_filter_SomeD simp: key_of_def)
    define upd where "upd = (\<lambda>q. if pl_id q = pl_id p then planned q else q)"
    have step: "plan_step now db item r
        = r\<lparr>pr_keys := ?k # pr_keys r, pr_generated := pr_generated r + 1, pr_plans := map upd (pr_plans r)\<rparr>"
      by (simp add: plan_step_def \<open>item_plan db item = Some ef\<close> ef Some planned_def upd_def Let_def)
    have upd: "pl_id (upd q) = pl_id q" "key_of (upd q) = key_of q" for q by (simp_all add: upd_def keep)
    have key: "key_of q = ?k" if "q \<in> set (pr_plans r)" "pl_id q = pl_id p" for q
      using ok that p unfolding pass_ok_def by (metis distinct_map inj_onD)
    have "\<forall>q \<in> set (pr_plans r). upd q \<in> set (plans db) \<or> key_of (upd q) \<in> set (?k # pr_keys r) \<and> pl_status (upd q) = PL_ACTIVE"
      using ok key by (auto simp: pass_ok_def upd_def keep)
    moreover have "\<forall>s \<in> set (plans db). key_of s \<in> set (?k # pr_keys r) \<or> s \<in> upd ` set (pr_plans r)"
      using ok key by (force simp: pass_ok_def upd_def)
    moreover have "\<forall>s \<in> set (plans db). \<exists>q \<in> upd ` set (pr_plans r). pl_id q = pl_id s \<and> key_of q = key_of s"
      using ok by (fastforce simp: pass_ok_def upd)
    ultimately show ?thesis using ok by (simp add: pass_ok_def step comp_def upd)
  qed
qed

lemma plan_fold_ok: "pass_ok (plans db) r \<Longrightarrow> pass_ok (plans db) (fold (plan_step now db) items r)"
  by (induction items arbitrary: r) (simp_all add: plan_step_ok)

lemma plan_pass_ok: "distinct (map pl_id (plans db)) \<Longrightarrow> pass_ok (plans db) (plan_pass now db)"
  unfolding plan_pass_def by (rule plan_fold_ok) (auto simp: pass_ok_def)

lemma plan_step_keys:
  "set (pr_keys (plan_step now db item r)) = (if item_plan db item = None then {} else {(bp_symbol item, bp_source_structure_id item)}) \<union> set (pr_keys r)"
  "pr_generated (plan_step now db item r) + pr_skipped (plan_step now db item r) = pr_generated r + pr_skipped r + 1"
  by (auto simp: plan_step_def Let_def split: option.splits prod.splits dest: item_planD)

lemma plan_pass_keys:
  "set (pr_keys (plan_pass now db)) = {(bp_symbol b, bp_source_structure_id b) |b. b \<in> set (active_items db) \<and> item_plan db b \<noteq> None}"
  "pr_generated (plan_pass now db) + pr_skipped (plan_pass now db) = length (active_items db)"
proof -
  have "set (pr_keys (fold (plan_step now db) items r))
      = {(bp_symbol b, bp_source_structure_id b) |b. b \<in> set items \<and> item_plan db b \<noteq> None} \<union> set (pr_keys r)
    \<and> pr_generated (fold (plan_step now db) items r) + pr_skipped (fold (plan_step now db) items r)
      = pr_generated r + pr_skipped r + length items" for items r
  proof (induction items arbitrary: r)
    case (Cons b bs)
    show ?case using Cons.IH [of "plan_step now db b r"] plan_step_keys [of now db b r] by auto
  qed simp
  then show "set (pr_keys (plan_pass now db)) = {(bp_symbol b, bp_source_structure_id b) |b. b \<in> set (active_items db) \<and> item_plan db b \<noteq> None}"
    "pr_generated (plan_pass now db) + pr_skipped (plan_pass now db) = length (active_items db)"
    by (simp_all add: plan_pass_def)
qed

lemma planned_survives:
  assumes "pass_ok (plans db) r" "item \<notin> set items" "bp_symbol item \<notin> bp_symbol ` set items"
    and "\<exists>q \<in> set (pr_plans r). P q \<and> pl_symbol q = bp_symbol item"
  shows "\<exists>q \<in> set (pr_plans (fold (plan_step now db) items r)). P q \<and> pl_symbol q = bp_symbol item"
  using assms
proof (induction items arbitrary: r)
  case (Cons b bs)
  obtain q where q: "q \<in> set (pr_plans r)" "P q" "pl_symbol q = bp_symbol item" using Cons.prems(4) by blast
  have "q \<in> set (pr_plans (plan_step now db b r))"
  proof (cases "item_plan db b")
    case (Some ef)
    obtain e f where ef: "ef = (e, f)" by fastforce
    have other: "pl_id q \<noteq> pl_id p"
      if "scalar (filter (\<lambda>p. pl_symbol p = bp_symbol b \<and> pl_source_structure_id p = ev_id e) (plans db)) = Some p" for p
    proof
      assume same: "pl_id q = pl_id p"
      have p: "p \<in> set (plans db)" "pl_symbol p = bp_symbol b" using that by (auto dest!: scalar_filter_SomeD)
      then obtain x where x: "x \<in> set (pr_plans r)" "pl_id x = pl_id p" "key_of x = key_of p"
        using Cons.prems(1) unfolding pass_ok_def by blast
      have "x = q" using Cons.prems(1) q(1) x(1,2) same unfolding pass_ok_def by (metis distinct_map inj_onD)
      then have "bp_symbol item = bp_symbol b" using x(3) q(3) p(2) by (simp add: key_of_def)
      then show False using Cons.prems(3) by simp
    qed
    show ?thesis
      using q(1) other by (force simp: plan_step_def Some ef Let_def split: option.splits)
  qed (use q in \<open>simp add: plan_step_def\<close>)
  with q have "\<exists>q \<in> set (pr_plans (plan_step now db b r)). P q \<and> pl_symbol q = bp_symbol item" by blast
  then show ?case using Cons.IH [OF plan_step_ok [OF Cons.prems(1)]] Cons.prems(2,3) by simp
qed simp

lemma plan_step_plans:
  assumes "pass_ok (plans db) r" "item_plan db item = Some (e, f)"
  shows "\<exists>q \<in> set (pr_plans (plan_step now db item r)). (pl_source_structure_id q = ev_id e \<and> pl_status q = PL_ACTIVE
      \<and> pl_battle_pool_id q = bp_id item) \<and> pl_symbol q = bp_symbol item"
proof -
  define planned where "planned = (\<lambda>pl. (f pl)\<lparr>pl_battle_pool_id := bp_id item, pl_status := PL_ACTIVE\<rparr>)"
  have keep: "key_of (planned q) = key_of q" "pl_status (planned q) = PL_ACTIVE" "pl_battle_pool_id (planned q) = bp_id item" for q
    using item_planD [OF assms(2)] by (auto simp: planned_def key_of_def dest!: build_SomeD)
  have goal: ?thesis if "planned q \<in> set (pr_plans (plan_step now db item r))" "key_of q = (bp_symbol item, ev_id e)" for q
    using that keep [of q] by (auto simp: key_of_def intro!: bexI [OF _ that(1)])
  show ?thesis
  proof (cases "scalar (filter (\<lambda>p. pl_symbol p = bp_symbol item \<and> pl_source_structure_id p = ev_id e) (plans db))")
    case None
    show ?thesis
      by (rule goal [of "new_plan (next_id pl_id (pr_plans r)) (bp_symbol item) (ev_id e) (bp_id item) now"])
        (simp_all add: plan_step_def assms(2) None planned_def Let_def, simp add: key_of_def new_plan_def)
  next
    case (Some p)
    then have p: "p \<in> set (plans db)" "key_of p = (bp_symbol item, ev_id e)" by (auto dest!: scalar_filter_SomeD simp: key_of_def)
    then obtain x where x: "x \<in> set (pr_plans r)" "pl_id x = pl_id p" "key_of x = key_of p" using assms(1) unfolding pass_ok_def by blast
    show ?thesis
      by (rule goal [of x]) (use x p in \<open>auto simp: plan_step_def assms(2) Some planned_def Let_def\<close>)
  qed
qed

lemma generated_plans:
  "plans (snd (generate_trade_plans now db))
     = map (touch_plan now (plans db) \<circ> dropped (pr_keys (plan_pass now db)) (plans db)) (pr_plans (plan_pass now db))"
  by (simp add: generate_trade_plans_def Let_def)

lemma touched_same: "p \<in> set old \<Longrightarrow> touch_plan now old p = p"
  by (simp add: touch_plan_def)

lemma touch_plan_keys [simp]:
  "key_of (touch_plan now old p) = key_of p" "pl_battle_pool_id (touch_plan now old p) = pl_battle_pool_id p"
  by (simp_all add: touch_plan_def key_of_def)

lemma dropped_sel [simp]: "key_of (dropped keys stored p) = key_of p" "pl_battle_pool_id (dropped keys stored p) = pl_battle_pool_id p"
  by (simp_all add: dropped_def key_of_def)

lemma dropped_kept: "key_of p \<in> set keys \<Longrightarrow> dropped keys stored p = p"
  by (simp add: dropped_def key_of_def)

text \<open>A plan that waits after the generation belongs to an item that could be planned.\<close>

lemma pending_plans_planned:
  assumes "distinct (map pl_id (plans db))" "generate_trade_plans now db = (counts, db')"
    and pl: "pl \<in> set (plans db')" "pl_status pl \<in> set PENDING_STATUSES"
  shows "\<exists>b \<in> set (active_items db). item_plan db b \<noteq> None \<and> bp_symbol b = pl_symbol pl \<and> bp_source_structure_id b = pl_source_structure_id pl"
proof -
  let ?r = "plan_pass now db"
  note ok = plan_pass_ok [OF assms(1), of now]
  have plans': "plans db' = map (touch_plan now (plans db) \<circ> dropped (pr_keys ?r) (plans db)) (pr_plans ?r)"
    using generated_plans [of now db] by (simp add: assms(2))
  obtain q where q: "q \<in> set (pr_plans ?r)" "pl = touch_plan now (plans db) (dropped (pr_keys ?r) (plans db) q)"
    using pl(1) by (auto simp: plans')
  have "key_of q \<in> set (pr_keys ?r)"
  proof (rule ccontr)
    assume no: "key_of q \<notin> set (pr_keys ?r)"
    with ok q(1) have stored: "q \<in> set (plans db)" by (auto simp: pass_ok_def)
    show False using pl(2) no stored unfolding q(2) by (auto simp: dropped_def key_of_def PENDING_STATUSES_def split: if_splits)
  qed
  moreover have "key_of pl = key_of q" by (simp add: q(2))
  ultimately obtain b where "b \<in> set (active_items db)" "item_plan db b \<noteq> None" "key_of pl = (bp_symbol b, bp_source_structure_id b)"
    unfolding plan_pass_keys by auto
  then show ?thesis by (intro bexI [of _ b]) (simp_all add: key_of_def)
qed

section \<open>Properties\<close>

text \<open>C22. The prices of a plan are in order: a long plan has its stop below its entry, both targets above, the second not
  below the first, and the no-chase line not below the entry; a short plan mirrors this (down to the floor
  of one cent). In both directions the first target is 1.5 times and the second twice the risk away from the
  entry (for a short plan not below one cent), up to the rounding of the stored prices to four decimals.\<close>

theorem plan_prices_in_order:
  assumes "build_trade_plan_values db item e = Some f" "pl_breakout_entry_price (f pl) = Some entry"
  shows "if bp_direction item = LONG
    then 0 \<le> pl_stop_price (f pl) \<and> pl_stop_price (f pl) \<le> entry \<and> entry \<le> pl_target_1 (f pl) \<and> pl_target_1 (f pl) \<le> pl_target_2 (f pl)
      \<and> (\<exists>line. pl_no_chase_above (f pl) = Some line \<and> entry \<le> line)
      \<and> \<bar>(pl_target_1 (f pl) - entry) - (15/10) * (entry - pl_stop_price (f pl))\<bar> \<le> 25/100000
      \<and> \<bar>(pl_target_2 (f pl) - entry) - 2 * (entry - pl_stop_price (f pl))\<bar> \<le> 3/10000
    else 0 \<le> entry \<and> entry \<le> pl_stop_price (f pl) \<and> 1/100 \<le> pl_target_2 (f pl) \<and> pl_target_2 (f pl) \<le> pl_target_1 (f pl)
      \<and> pl_target_1 (f pl) \<le> max (1/100) entry \<and> (\<exists>line. pl_no_chase_below (f pl) = Some line \<and> line \<le> entry)
      \<and> \<bar>pl_target_1 (f pl) - max (1/100) (entry - (15/10) * (pl_stop_price (f pl) - entry))\<bar> \<le> 25/100000
      \<and> \<bar>pl_target_2 (f pl) - max (1/100) (entry - 2 * (pl_stop_price (f pl) - entry))\<bar> \<le> 3/10000"
proof -
  obtain nm tags atr lv where f: "f = plan_values nm tags atr item e lv" and atr: "atr > 0"
    and lv: "(if bp_direction item = LONG then long_levels atr e else short_levels atr e) = Some lv"
    using build_SomeD [OF assms(1)] by blast
  have entry: "entry = py_round 4 (lv_entry lv)" using assms(2) by (simp add: f)
  have zero: "0 \<le> py_round 4 x" if "0 < x" for x
    using py_round_mono [of 0 x 4] that round_half_even_of_int [of 0] by (simp add: py_round_def)
  show ?thesis
  proof (cases "bp_direction item = LONG")
    case True
    then have o: "0 < lv_stop lv" "lv_stop lv < lv_entry lv" "lv_target_1 lv = lv_entry lv + (15/10) * (lv_entry lv - lv_stop lv)"
      "lv_target_2 lv = lv_entry lv + 2 * (lv_entry lv - lv_stop lv)" using lv long_levels_order by (auto split: if_splits)
    have mono: "py_round 4 (lv_stop lv) \<le> entry" "entry \<le> py_round 4 (lv_target_1 lv)"
      "py_round 4 (lv_target_1 lv) \<le> py_round 4 (lv_target_2 lv)" "entry \<le> py_round 4 (lv_entry lv + (1/2) * atr)"
      unfolding entry by (rule py_round_mono; use o atr in \<open>simp\<close>)+
    show ?thesis
      using True zero [OF o(1)] mono reward_close [OF o(3)] reward_close [OF o(4)] by (simp add: f entry)
  next
    case False
    then have o: "0 < lv_entry lv" "lv_entry lv < lv_stop lv" "lv_target_1 lv = max (1/100) (lv_entry lv - (15/10) * (lv_stop lv - lv_entry lv))"
      "lv_target_2 lv = max (1/100) (lv_entry lv - 2 * (lv_stop lv - lv_entry lv))" using lv short_levels_order by (auto split: if_splits)
    have "py_round 4 (lv_target_1 lv) \<le> max (1/100) entry"
    proof (cases "lv_entry lv \<le> 1/100")
      case True
      moreover have "0 < (15/10) * (lv_stop lv - lv_entry lv)" using o(2) by simp
      ultimately have "lv_target_1 lv = 1/100" unfolding o(3) by (intro max_absorb1) linarith
      then show ?thesis unfolding \<open>lv_target_1 lv = 1/100\<close> round_4_cent by simp
    next
      case False
      then have "lv_target_1 lv \<le> lv_entry lv" unfolding o(3) using o(2) by simp
      then show ?thesis unfolding entry using py_round_mono [of "lv_target_1 lv" "lv_entry lv" 4] by linarith
    qed
    moreover have "1/100 \<le> py_round 4 (lv_target_2 lv)"
      using py_round_mono [of "1/100" "lv_target_2 lv" 4] unfolding round_4_cent o(4) by simp
    moreover have "lv_target_2 lv \<le> lv_target_1 lv" unfolding o(3,4) using o(2) by (intro max.mono order_refl diff_left_mono mult_right_mono) auto
    moreover have "entry \<le> py_round 4 (lv_stop lv)" "py_round 4 (lv_target_2 lv) \<le> py_round 4 (lv_target_1 lv)"
      "py_round 4 (lv_entry lv - (1/2) * atr) \<le> entry"
      unfolding entry using calculation(3) o atr by (simp_all add: py_round_mono)
    ultimately show ?thesis
      using False zero [OF o(1)] floored_reward_close [OF o(3)] floored_reward_close [OF o(4)] by (simp add: f entry)
  qed
qed

text \<open>A plan with an active item of priority S or A for it, whose values can be computed.\<close>

definition is_planned :: "'z store_scheme \<Rightarrow> trade_plan \<Rightarrow> bool" where
  "is_planned db pl \<longleftrightarrow> (\<exists>b \<in> set (active_items db). item_plan db b \<noteq> None
     \<and> bp_symbol b = pl_symbol pl \<and> bp_source_structure_id b = pl_source_structure_id pl)"


text \<open>Every planned item has an active plan afterwards that points back to it, whatever the status the plan had before: a
  plan that was submitted or in position is active again.\<close>

theorem planned_items_have_active_plans:
  assumes "distinct (map pl_id (plans db))" "distinct (map bp_symbol (battle_items db))"
    and "b \<in> set (active_items db)" "item_plan db b = Some (e, f)"
  shows "\<exists>pl \<in> set (plans (snd (generate_trade_plans now db))). pl_symbol pl = bp_symbol b \<and> pl_source_structure_id pl = ev_id e
    \<and> pl_status pl = PL_ACTIVE \<and> pl_battle_pool_id pl = bp_id b"
proof -
  obtain before after where split: "active_items db = before @ b # after" using assms(3) by (meson split_list)
  have "distinct (map bp_symbol (active_items db))" unfolding active_items_def by (rule distinct_map_filter [OF assms(2)])
  then have out: "bp_symbol b \<notin> bp_symbol ` set after" "b \<notin> set after" by (auto simp: split)
  define r where "r = fold (plan_step now db) before \<lparr>pr_keys = [], pr_generated = 0, pr_skipped = 0, pr_plans = plans db\<rparr>"
  have start: "pass_ok (plans db) \<lparr>pr_keys = [], pr_generated = 0, pr_skipped = 0, pr_plans = plans db\<rparr>"
    using assms(1) by (auto simp: pass_ok_def)
  have ok: "pass_ok (plans db) r" unfolding r_def by (rule plan_fold_ok [OF start])
  have pass: "plan_pass now db = fold (plan_step now db) after (plan_step now db b r)" by (simp add: plan_pass_def split r_def)
  obtain q where q: "q \<in> set (pr_plans (plan_pass now db))" "pl_source_structure_id q = ev_id e" "pl_status q = PL_ACTIVE"
      "pl_battle_pool_id q = bp_id b" "pl_symbol q = bp_symbol b"
    using planned_survives [OF plan_step_ok [OF ok] out(2,1) plan_step_plans [OF ok assms(4)], of now] unfolding pass by blast
  have "key_of q \<in> set (pr_keys (plan_pass now db))"
    using q(2,5) assms(3,4) item_planD [OF assms(4)] by (force simp: plan_pass_keys key_of_def)
  note kept = dropped_kept [OF this, of "plans db"]
  have "touch_plan now (plans db) q \<in> set (plans (snd (generate_trade_plans now db)))"
    unfolding generated_plans using q(1) kept by force
  then show ?thesis by (rule rev_bexI) (use q touch_plan_keys(1) [of now "plans db" q] in \<open>simp add: key_of_def\<close>)
qed

section \<open>Witnesses\<close>

text \<open>A confirmed bottom of an item of priority S; its plan is in position, another plan waits for a structure that is gone.\<close>

definition planning_store :: store where
  "planning_store = empty_store\<lparr>
     indicators := [keyed_row ''AA'' HOUR_60 2 (blank_row\<lparr>in_atr := Some 2\<rparr>)],
     structure_events := [(new_event [] [] None 7 (sample_detection BOTTOM_STRUCTURE 2 None None))\<lparr>ev_symbol := ''AA'',
       ev_pivot_low := Some 95, ev_confirm_level := Some 100\<rparr>],
     battle_items := [(new_item 3 ''AA'')\<lparr>bp_direction := LONG, bp_priority_level := Prio_S, bp_source_structure_id := 7\<rparr>],
     plans := [(new_plan 1 ''AA'' 7 3 0)\<lparr>pl_status := PL_IN_POSITION, pl_rules_approval_status := APPROVED_FOR_SIM_TRADE\<rparr>,
       new_plan 2 ''BB'' 8 4 0]\<rparr>"

definition planning_event :: structure_event where
  "planning_event = structure_events planning_store ! 0"

definition planning_item :: battle_item where
  "planning_item = battle_items planning_store ! 0"

lemma planning_ids: "distinct (map pl_id (plans planning_store))" "distinct (map bp_symbol (battle_items planning_store))"
  by code_simp+

theorem plan_prices_in_order_witness:
  "\<exists>f. build_trade_plan_values planning_store planning_item planning_event = Some f
     \<and> pl_stop_price (f (new_plan 1 ''AA'' 7 3 0)) \<le> 1002/10 \<and> 1002/10 \<le> pl_target_1 (f (new_plan 1 ''AA'' 7 3 0))"
proof -
  obtain f where f: "build_trade_plan_values planning_store planning_item planning_event = Some f"
    and entry: "pl_breakout_entry_price (f (new_plan 1 ''AA'' 7 3 0)) = Some (1002/10)"
  proof (cases "build_trade_plan_values planning_store planning_item planning_event")
    case None
    have "build_trade_plan_values planning_store planning_item planning_event \<noteq> None" by code_simp
    with None show ?thesis by simp
  next
    case (Some f)
    have "map_option (\<lambda>f. pl_breakout_entry_price (f (new_plan 1 ''AA'' 7 3 0)))
        (build_trade_plan_values planning_store planning_item planning_event) = Some (Some (1002/10))" by code_simp
    with Some that show ?thesis by simp
  qed
  have "bp_direction planning_item = LONG" by code_simp
  with plan_prices_in_order [OF f entry] f show ?thesis by simp
qed


theorem planned_items_have_active_plans_witness:
  "pl_status (plans planning_store ! 0) = PL_IN_POSITION
   \<and> (\<exists>pl \<in> set (plans (snd (generate_trade_plans 5 planning_store))). pl_symbol pl = ''AA'' \<and> pl_status pl = PL_ACTIVE)"
proof -
  have mem: "planning_item \<in> set (active_items planning_store)" by (simp add: planning_item_def planning_store_def active_items_def new_item_def)
  have "item_plan planning_store planning_item \<noteq> None" by code_simp
  then obtain e f where plan: "item_plan planning_store planning_item = Some (e, f)" by auto
  have "bp_symbol planning_item = ''AA''" "pl_status (plans planning_store ! 0) = PL_IN_POSITION" by code_simp+
  with planned_items_have_active_plans [OF planning_ids mem plan, of 5] show ?thesis by auto
qed

end
