(* ===== verification/Monitor.thy ===== *)
theory Monitor
  imports State_Machine
begin

text \<open>
  app/services/monitor_state.py: the state of a symbol as the daily pipeline keeps it, from its
  position, its structures, its plan, its place in the battle pool and among the candidates. It
  writes the same state rows and the same log as the state machine.
\<close>

section \<open>Refreshing a symbol\<close>

definition monitor_transition ::
  "trading_state \<Rightarrow> trading_phase \<Rightarrow> string \<Rightarrow> string \<Rightarrow> 'z store_scheme \<Rightarrow> trading_state \<times> 'z store_scheme" where
  "monitor_transition r to_state reason next_wait db =
     (let r' = r\<lparr>ts_state := to_state, ts_last_reason := reason, ts_next_wait := next_wait\<rparr>
      in (r', put_state r' (if ts_state r \<noteq> to_state
                then db\<lparr>transition_logs := transition_logs db @
                  [\<lparr>tl_symbol = ts_symbol r, tl_from = ts_state r, tl_to = to_state, tl_reason = reason\<rparr>]\<rparr>
                else db)))"

definition blank_state :: "string \<Rightarrow> trading_state" where
  "blank_state symbol = \<lparr>ts_symbol = symbol, ts_state = IDLE, ts_next_wait = [], ts_cooldown_until = None, ts_last_reason = []\<rparr>"

definition state_row :: "string \<Rightarrow> 'z store_scheme \<Rightarrow> trading_state \<times> 'z store_scheme" where
  "state_row symbol db =
     (case state_of symbol db of
        Some r \<Rightarrow> (r, db)
      | None \<Rightarrow> (blank_state symbol, db\<lparr>trading_states := trading_states db @ [blank_state symbol]\<rparr>))"

definition last_event :: "string \<Rightarrow> 'z store_scheme \<Rightarrow> structure_event option" where
  "last_event symbol db = scalar (order_desc ev_ts (filter (\<lambda>e. ev_symbol e = symbol) (structure_events db)))"

definition active_plan :: "string \<Rightarrow> 'z store_scheme \<Rightarrow> trade_plan option" where
  "active_plan symbol db = scalar (order_desc pl_updated_at (filter (\<lambda>p. pl_symbol p = symbol \<and> pl_status p = PL_ACTIVE) (plans db)))"

definition active_battle :: "string \<Rightarrow> 'z store_scheme \<Rightarrow> battle_item option" where
  "active_battle symbol db = scalar (filter (\<lambda>b. bp_symbol b = symbol \<and> bp_active b) (battle_items db))"

definition active_candidate :: "string \<Rightarrow> 'z store_scheme \<Rightarrow> candidate option" where
  "active_candidate symbol db = scalar (filter (\<lambda>c. cd_symbol c = symbol \<and> cd_active c) (candidates db))"

text \<open>What the symbol is waiting for when it has no position and is not cooling down.\<close>

definition watch_stage :: "string \<Rightarrow> 'z store_scheme \<Rightarrow> trading_phase \<times> string \<times> string" where
  "watch_stage symbol db =
     (case active_plan symbol db of
        Some p \<Rightarrow> (PLAN_READY, pl_reason p, zh_mon_review)
      | None \<Rightarrow>
          (case active_battle symbol db of
             Some b \<Rightarrow> (BATTLE_WATCH, bp_reason b, bp_next_wait b)
           | None \<Rightarrow>
               (case last_event symbol db of
                  Some e \<Rightarrow> (STRUCTURE_DETECTED, ev_reason e, zh_mon_scoring)
                | None \<Rightarrow>
                    (case active_candidate symbol db of
                       Some c \<Rightarrow> (CANDIDATE_POOL, cd_selected_reason c, zh_mon_wait_daily)
                     | None \<Rightarrow> (IDLE, zh_mon_not_candidate, zh_mon_next_screen)))))"

definition refresh_monitor_state :: "string \<Rightarrow> int \<Rightarrow> 'z store_scheme \<Rightarrow> trading_state \<times> 'z store_scheme" where
  "refresh_monitor_state symbol today db0 =
     (let (r, db) = state_row symbol db0; event = last_event symbol db
      in if open_position_of symbol db \<noteq> None
         then (case event of
             Some e \<Rightarrow>
               if ev_type e = TOP_STRUCTURE then monitor_transition r RISK_PROTECTION (ev_reason e) zh_mon_check_reduce db
               else monitor_transition r SIM_POSITION zh_mon_tracking zh_mon_wait_stop db
           | None \<Rightarrow> monitor_transition r SIM_POSITION zh_mon_tracking zh_mon_wait_stop db)
         else if (case event of None \<Rightarrow> False | Some e \<Rightarrow> ev_type e = BOTTOM_FAILED)
         then (let (c, db1) = get_or_create_risk_config db
               in monitor_transition (r\<lparr>ts_cooldown_until := Some (today + rk_cooldown_days c)\<rparr>) COOLDOWN
                    (ev_reason (the event)) zh_mon_after_cooldown db1)
         else if cooling today r
         then monitor_transition r COOLDOWN (zh_mon_cooling @ iso_date (the (ts_cooldown_until r))) zh_mon_cooldown db
         else (let (s, reason, wait) = watch_stage symbol db in monitor_transition r s reason wait db))"

section \<open>Lemmas\<close>

lemma monitor_transition_in_hand:
  assumes "in_hand r db"
  shows "in_hand (fst (monitor_transition r s reason wait db)) (snd (monitor_transition r s reason wait db))"
proof -
  define r' where "r' = r\<lparr>ts_state := s, ts_last_reason := reason, ts_next_wait := wait\<rparr>"
  show ?thesis
  proof (cases "ts_state r = s")
    case True
    then have "in_hand r' db" using assms by (simp add: in_hand_def r'_def)
    then have "in_hand r' (put_state r' db)" by (rule put_same_state)
    then show ?thesis using True by (simp add: monitor_transition_def r'_def Let_def)
  next
    case False
    define l where "l = \<lparr>tl_symbol = ts_symbol r, tl_from = ts_state r, tl_to = s, tl_reason = reason\<rparr>"
    obtain q where q: "log_ok db" "q \<in> set (trading_states db)" "ts_symbol q = ts_symbol r'" "ts_state q = ts_state r"
      using assms by (auto simp: in_hand_def r'_def)
    then have "replay IDLE (logs_of (ts_symbol r') db) = Some (ts_state r)" by (metis log_ok_def)
    then have "replay IDLE (logs_of (ts_symbol r') db @ [l]) = Some (ts_state r')" by (simp add: replay_append l_def r'_def)
    moreover have "\<forall>x \<in> set [l]. tl_symbol x = ts_symbol r'" by (simp add: l_def r'_def)
    ultimately have "in_hand r' (put_state r' (db\<lparr>transition_logs := transition_logs db @ [l]\<rparr>))"
      by (intro put_state_logged [OF q(1-3)])
    then show ?thesis using False by (simp add: monitor_transition_def r'_def l_def Let_def)
  qed
qed

text \<open>A fresh row in state IDLE has no log yet, whichever machine adds it.\<close>

lemma fresh_row_in_hand:
  assumes "log_ok db" "state_of (ts_symbol r) db = None" "ts_state r = IDLE"
  shows "in_hand r (db\<lparr>trading_states := trading_states db @ [r]\<rparr>)"
proof -
  have fresh: "ts_symbol r \<notin> ts_symbol ` set (trading_states db)" using assms(2) by (auto simp: state_of_def filter_empty_conv)
  have "\<forall>l \<in> set (transition_logs db). tl_symbol l \<noteq> ts_symbol r" using assms(1) fresh by (metis image_eqI log_ok_def subsetD)
  then have "logs_of (ts_symbol r) db = []" by (simp add: logs_of_def filter_empty_conv)
  then show ?thesis using assms(1,3) fresh by (auto simp: in_hand_def log_ok_def logs_of_def)
qed

lemma state_row_in_hand:
  assumes "log_ok db"
  shows "in_hand (fst (state_row symbol db)) (snd (state_row symbol db)) \<and> ts_symbol (fst (state_row symbol db)) = symbol"
proof (cases "state_of symbol db")
  case None
  then have "in_hand (blank_state symbol) (db\<lparr>trading_states := trading_states db @ [blank_state symbol]\<rparr>)"
    using assms by (intro fresh_row_in_hand) (simp_all add: blank_state_def)
  then show ?thesis using None by (simp add: state_row_def blank_state_def)
next
  case (Some q)
  then have "q \<in> set (trading_states db)" "ts_symbol q = symbol" by (auto simp: state_of_def dest: scalar_filter_SomeD)
  then show ?thesis using assms Some by (auto simp: in_hand_def state_row_def)
qed

lemma refresh_in_hand:
  assumes "log_ok db"
  shows "in_hand (fst (refresh_monitor_state symbol today db)) (snd (refresh_monitor_state symbol today db))"
proof -
  obtain r db1 where 1: "state_row symbol db = (r, db1)" by fastforce
  obtain c db2 where 2: "get_or_create_risk_config db1 = (c, db2)" by fastforce
  obtain s reason wait where 3: "watch_stage symbol db1 = (s, reason, wait)" by (cases "watch_stage symbol db1")
  have hand: "in_hand r db1" using state_row_in_hand [OF assms, of symbol] 1 by simp
  then have hand2: "in_hand r db2" using in_hand_frame(6) [of r db1] 2 by simp
  then have "in_hand (r\<lparr>ts_cooldown_until := x\<rparr>) db2" for x by (simp add: in_hand_def)
  note step = monitor_transition_in_hand [OF this] monitor_transition_in_hand [OF hand]
  show ?thesis unfolding refresh_monitor_state_def Let_def 1 2 3 prod.case
    by (simp add: step split: option.split)
qed

definition refresh_step :: "string \<times> int \<Rightarrow> 'z store_scheme \<Rightarrow> exn + 'z store_scheme" where
  "refresh_step c db = Inr (snd (refresh_monitor_state (fst c) (snd c) db))"

interpretation monitor_log: logged_machine refresh_step
  by unfold_locales (auto simp: refresh_step_def in_hand_def dest: refresh_in_hand)

text \<open>The two machines on one database, in any order.\<close>

datatype machine_call = Advance advance_call | Refresh "string \<times> int"

fun machine_step :: "machine_call \<Rightarrow> 'z store_scheme \<Rightarrow> exn + 'z store_scheme" where
  "machine_step (Advance c) db = advance_step c db"
| "machine_step (Refresh c) db = refresh_step c db"

interpretation machines_log: logged_machine machine_step
proof unfold_locales
  fix db db' :: "'z store_scheme" and e
  assume "log_ok db" "machine_step e db = Inr db'"
  then show "log_ok db'" by (cases e) (auto intro: advance_log.step_logged monitor_log.step_logged)
qed

lemma state_of_put:
  assumes "state_of (ts_symbol r) db \<noteq> None"
  shows "state_of (ts_symbol r) (put_state r db) = Some r"
proof -
  have "filter (\<lambda>y. ts_symbol y = ts_symbol r) (map (\<lambda>y. if ts_symbol y = ts_symbol r then r else y) xs)
      = map (\<lambda>_. r) (filter (\<lambda>y. ts_symbol y = ts_symbol r) xs)" for xs
    by (induction xs) auto
  moreover have "scalar (map (\<lambda>_. r) ys) = Some r" if "ys \<noteq> []" for ys :: "trading_state list"
    using that by (cases ys) auto
  ultimately show ?thesis using assms by (simp add: state_of_def put_state_def)
qed

lemma state_of_logs [simp]: "state_of s (db\<lparr>transition_logs := ls\<rparr>) = state_of s db"
  by (simp add: state_of_def)

lemma monitor_transition_result:
  assumes "state_of (ts_symbol r) db \<noteq> None"
  shows "ts_symbol (fst (monitor_transition r s reason wait db)) = ts_symbol r
    \<and> ts_state (fst (monitor_transition r s reason wait db)) = s
    \<and> state_of (ts_symbol r) (snd (monitor_transition r s reason wait db)) = Some (fst (monitor_transition r s reason wait db))"
proof -
  define r' where "r' = r\<lparr>ts_state := s, ts_last_reason := reason, ts_next_wait := wait\<rparr>"
  have "ts_symbol r' = ts_symbol r" by (simp add: r'_def)
  moreover have "ts_state r' = s" by (simp add: r'_def)
  ultimately show ?thesis
    using assms state_of_put [of r' db] state_of_put [of r' "db\<lparr>transition_logs := transition_logs db @
      [\<lparr>tl_symbol = ts_symbol r, tl_from = ts_state r, tl_to = s, tl_reason = reason\<rparr>]\<rparr>"]
    by (simp add: monitor_transition_def Let_def flip: r'_def)
qed

lemma state_row_frame:
  assumes "state_row symbol db = (r, db')"
  shows "open_position_of symbol db' = open_position_of symbol db \<and> last_event symbol db' = last_event symbol db
    \<and> watch_stage symbol db' = watch_stage symbol db \<and> ts_symbol r = symbol \<and> state_of symbol db' \<noteq> None
    \<and> (cooling today r \<longleftrightarrow> (\<exists>q. state_of symbol db = Some q \<and> cooling today q))"
proof (cases "state_of symbol db")
  case None
  then have "r = blank_state symbol" "db' = db\<lparr>trading_states := trading_states db @ [blank_state symbol]\<rparr>"
    using assms by (auto simp: state_row_def)
  then show ?thesis using None
    by (simp add: open_position_of_def last_event_def watch_stage_def active_plan_def active_battle_def active_candidate_def
        blank_state_def state_of_def cooling_def cong: option.case_cong)
next
  case (Some q)
  then show ?thesis using assms by (auto simp: state_row_def state_of_def dest: scalar_filter_SomeD)
qed

text \<open>Without a failed bottom the refresh keeps the cool-down the row had.\<close>

lemma cooldown_kept:
  assumes "\<nexists>e. last_event symbol db = Some e \<and> ev_type e = BOTTOM_FAILED" and "open_position_of symbol db = None"
  shows "ts_cooldown_until (fst (refresh_monitor_state symbol today db))
    = (case state_of symbol db of None \<Rightarrow> None | Some q \<Rightarrow> ts_cooldown_until q)"
proof -
  obtain r db1 where 1: "state_row symbol db = (r, db1)" by fastforce
  obtain s reason wait where 3: "watch_stage symbol db1 = (s, reason, wait)" by (cases "watch_stage symbol db1")
  have event: "(case last_event symbol db1 of None \<Rightarrow> False | Some e \<Rightarrow> ev_type e = BOTTOM_FAILED) = False"
    and flat: "open_position_of symbol db1 = None"
    using assms state_row_frame [OF 1, of today] by (auto split: option.split)
  have "ts_cooldown_until r = (case state_of symbol db of None \<Rightarrow> None | Some q \<Rightarrow> ts_cooldown_until q)"
    using 1 by (auto simp: state_row_def blank_state_def split: option.splits)
  moreover have "ts_cooldown_until (fst (monitor_transition r x y z db1)) = ts_cooldown_until r" for x y z
    by (simp add: monitor_transition_def Let_def)
  ultimately show ?thesis unfolding refresh_monitor_state_def Let_def 1 3 prod.case event using flat by simp
qed

section \<open>Properties\<close>

text \<open>C15. The log of transitions is complete: after any sequence of calls of the state machine and of the
  monitor, in any order and for any symbols, the log of each symbol replayed from IDLE is connected and
  ends in the state that is stored.\<close>

theorem log_replays_to_state:
  assumes "log_ok db" "foldM machine_step calls db = Inr db'" "r \<in> set (trading_states db')"
  shows "replay IDLE (logs_of (ts_symbol r) db') = Some (ts_state r)"
  using machines_log.runs_logged [OF assms(1,2)] assms(3) by (simp add: log_ok_def)

text \<open>The monitor shows a symbol in the state its rows call for, whatever state it was in: with an open
  position it is tracked or protected, after a failed bottom or within a cool-down it cools down,
  otherwise a plan comes before the battle pool, the battle pool before a structure, a structure before
  the candidate pool, and a symbol with none of them is idle.\<close>

theorem monitor_state_is_determined:
  "ts_symbol (fst (refresh_monitor_state symbol today db)) = symbol
   \<and> state_of symbol (snd (refresh_monitor_state symbol today db)) = Some (fst (refresh_monitor_state symbol today db))
   \<and> ts_state (fst (refresh_monitor_state symbol today db)) =
     (if open_position_of symbol db \<noteq> None
      then (if (\<exists>e. last_event symbol db = Some e \<and> ev_type e = TOP_STRUCTURE) then RISK_PROTECTION else SIM_POSITION)
      else if (\<exists>e. last_event symbol db = Some e \<and> ev_type e = BOTTOM_FAILED)
        \<or> (\<exists>q. state_of symbol db = Some q \<and> cooling today q)
      then COOLDOWN
      else fst (watch_stage symbol db))"
proof -
  obtain r db1 where 1: "state_row symbol db = (r, db1)" by fastforce
  obtain c db2 where 2: "get_or_create_risk_config db1 = (c, db2)" by fastforce
  obtain s reason wait where 3: "watch_stage symbol db1 = (s, reason, wait)" by (cases "watch_stage symbol db1")
  note frame = state_row_frame [OF 1, of today]
  have "state_of symbol db2 = state_of symbol db1" using risk_config_sel(6) [of db1] 2 by (simp add: state_of_def)
  then have there: "state_of (ts_symbol r) db1 \<noteq> None" "state_of (ts_symbol (r\<lparr>ts_cooldown_until := x\<rparr>)) db2 \<noteq> None" for x
    using frame by auto
  note go = monitor_transition_result [OF there(1)] monitor_transition_result [OF there(2)]
  have r: "ts_symbol r = symbol" "ts_symbol (r\<lparr>ts_cooldown_until := x\<rparr>) = symbol" for x using frame by auto
  note go = go [unfolded r]
  show ?thesis
  proof (cases "open_position_of symbol db = None")
    case False
    then show ?thesis unfolding refresh_monitor_state_def Let_def 1 2 3 prod.case using frame go
      by (simp split: option.split)
  next
    case flat: True
    show ?thesis
    proof (cases "\<exists>e. last_event symbol db = Some e \<and> ev_type e = BOTTOM_FAILED")
      case True
      then show ?thesis unfolding refresh_monitor_state_def Let_def 1 2 3 prod.case using frame go flat by auto
    next
      case False
      then have "(case last_event symbol db1 of None \<Rightarrow> False | Some e \<Rightarrow> ev_type e = BOTTOM_FAILED) = False"
        using frame by (auto split: option.split)
      note event = this
      show ?thesis
      proof (cases "cooling today r")
        case True
        then have "\<exists>q. state_of symbol db = Some q \<and> cooling today q" using frame by blast
        then show ?thesis unfolding refresh_monitor_state_def Let_def 1 2 3 prod.case using go flat frame True by (simp add: event)
      next
        case cold: False
        then have never: "(\<exists>q. state_of symbol db = Some q \<and> cooling today q) = False" using frame by blast
        have no_failure: "(\<exists>e. last_event symbol db = Some e \<and> ev_type e = BOTTOM_FAILED) = False" using False by blast
        have s: "fst (watch_stage symbol db) = s" using frame 3 by (metis fst_conv)
        have flat1: "open_position_of symbol db1 = None" using frame flat by simp
        show ?thesis
          unfolding refresh_monitor_state_def Let_def 1 2 3 prod.case event never no_failure s
          using go flat flat1 cold by simp
      qed
    qed
  qed
qed

definition idle_store :: store where
  "idle_store = held_store 106"

theorem log_replays_to_state_witness:
  "\<exists>db' r. foldM machine_step [Refresh (''AAPL'', 1), Advance (''AAPL'', RISK_ON, UPTREND, 1, 0), Refresh (''AAPL'', 2)] idle_store = Inr db'
     \<and> trading_states db' = [r] \<and> ts_state r = SIM_POSITION \<and> length (transition_logs db') = 3
     \<and> replay IDLE (logs_of ''AAPL'' db') = Some SIM_POSITION"
proof -
  let ?calls = "[Refresh (''AAPL'', 1), Advance (''AAPL'', RISK_ON, UPTREND, 1, 0), Refresh (''AAPL'', 2)]"
  have "case foldM machine_step ?calls idle_store of Inl _ \<Rightarrow> False
    | Inr db \<Rightarrow> map (\<lambda>r. (ts_symbol r, ts_state r)) (trading_states db) = [(''AAPL'', SIM_POSITION)] \<and> length (transition_logs db) = 3"
    by code_simp
  then obtain db' where run: "foldM machine_step ?calls idle_store = Inr db'" "length (transition_logs db') = 3"
    "map (\<lambda>r. (ts_symbol r, ts_state r)) (trading_states db') = [(''AAPL'', SIM_POSITION)]"
    by (auto split: sum.splits)
  then obtain r where r: "trading_states db' = [r]" "ts_symbol r = ''AAPL''" "ts_state r = SIM_POSITION" by auto
  have "log_ok idle_store" by code_simp
  from log_replays_to_state [OF this run(1), of r] r run show ?thesis by auto
qed

end
