(* ===== verification/Pipeline.thy ===== *)
theory Pipeline
  imports Mock_Provider Indicators Structures Trade_Plans Monitor
begin

text \<open>
  app/services/pipeline.py: the daily and hourly runs. They screen the market, store bars, compute
  indicators, scan for structures the symbols whose data are sound, rank the battle pool, generate
  plans and refresh the state of every candidate. Every stage commits, so a run that raises leaves
  what the stages before it did: a result comes with the database also where it is an exception.
\<close>

definition zh_no_mock_alerts :: string where \<comment> \<open>the mock source sets no price reminders\<close>
  "zh_no_mock_alerts = utf8 [27169, 25311, 25968, 25454, 28304, 19981, 35774, 32622, 32, 70, 117, 116, 117, 32, 21040, 20215, 25552, 37266]"
definition zh_five_minutes :: string where "zh_five_minutes = utf8 [53, 32, 20998, 38047]" \<comment> \<open>5 minutes\<close>

section \<open>The state of the data of a symbol\<close>

definition newest_bar :: "string \<Rightarrow> timeframe \<Rightarrow> 'z store_scheme \<Rightarrow> kline option" where
  "newest_bar symbol tf db = scalar (order_desc kl_ts (filter (\<lambda>b. kl_symbol b = symbol \<and> kl_timeframe b = tf) (klines db)))"

definition CORE_TIMEFRAMES :: "timeframe list" where
  "CORE_TIMEFRAMES = [DAILY, HOUR_60]"

definition timeframe_label :: "timeframe \<Rightarrow> string" where
  "timeframe_label tf = (if tf = DAILY then ''daily'' else timeframe_text tf)"

text \<open>Bar, anomaly and indicator of one timeframe: a fault, or the newest bar.\<close>

definition timeframe_status :: "string \<Rightarrow> timeframe \<Rightarrow> 'z store_scheme \<Rightarrow> string + kline" where
  "timeframe_status symbol tf db =
     (case newest_bar symbol tf db of
        None \<Rightarrow> Inl (timeframe_label tf @ '' data missing'')
      | Some b \<Rightarrow>
          if \<not> kl_data_ok b then Inl (str_or (kl_anomaly_reason b) (timeframe_label tf @ '' data anomaly''))
          else if indicator_at symbol tf (kl_ts b) db = None
          then Inl (timeframe_label tf @ '' indicators missing at '' @ fmt_minute (kl_ts b))
          else Inr b)"

definition STALE_DAYS :: int where "STALE_DAYS = 7"

text \<open>The newest bars, in the order of the core timeframes, must not lie too far behind the daily one.\<close>

definition stale_fault :: "kline \<Rightarrow> timeframe \<times> kline \<Rightarrow> string option" where
  "stale_fault daily x =
     (if date_of (kl_ts daily) - date_of (kl_ts (snd x)) > STALE_DAYS
      then Some (timeframe_text (fst x) @ '' data stale at '' @ iso_date (date_of (kl_ts (snd x))) @ ''; latest daily bar is ''
             @ iso_date (date_of (kl_ts daily)))
      else None)"

definition symbol_data_status :: "string \<Rightarrow> 'z store_scheme \<Rightarrow> bool \<times> string" where
  "symbol_data_status symbol db =
     (case timeframe_status symbol DAILY db of
        Inl fault \<Rightarrow> (False, fault)
      | Inr daily \<Rightarrow>
          (case timeframe_status symbol HOUR_60 db of
             Inl fault \<Rightarrow> (False, fault)
           | Inr hour \<Rightarrow>
               (case List.map_filter (stale_fault daily) [(DAILY, daily), (HOUR_60, hour)] of
                  fault # _ \<Rightarrow> (False, fault)
                | [] \<Rightarrow> (True, ''data quality passed''))))"

definition display_data_status :: "string \<Rightarrow> 'z store_scheme \<Rightarrow> bool \<times> string" where
  "display_data_status symbol db =
     (case newest_bar symbol MIN_5 db of
        None \<Rightarrow> (False, zh_five_minutes @ '' data missing; core trading is not blocked'')
      | Some b \<Rightarrow> if \<not> kl_data_ok b then (False, str_or (kl_anomaly_reason b) (zh_five_minutes @ '' data anomaly''))
                  else (True, ''display data available''))"

section \<open>The stages\<close>

text \<open>What a run is called with: the benchmarks, whether the test source is used, the ids and the clock.\<close>

record run_args =
  ra_market_symbols :: "string list"
  ra_use_mock :: bool
  ra_run_id :: string
  ra_today :: int
  ra_now :: int

definition get_provider :: "run_args \<Rightarrow> provider \<Rightarrow> provider" where
  "get_provider a futu = (if ra_use_mock a then mock_provider ([''AAPL'', ''MSFT'', ''NVDA''] @ ra_market_symbols a) else futu)"

definition screen_with :: "provider \<Rightarrow> run_args \<Rightarrow> 'z store_scheme \<Rightarrow> (exn + screening) \<times> 'z store_scheme" where
  "screen_with p a db =
     (case pv_candidates p of
        Inl e \<Rightarrow> (Inl e, db)
      | Inr rows \<Rightarrow> (let (r, db') = screen_market rows 300 (ra_run_id a) (ra_now a) db in (Inr r, db')))"

definition run_screen_market :: "provider \<Rightarrow> run_args \<Rightarrow> 'z store_scheme \<Rightarrow> (exn + screening) \<times> 'z store_scheme" where
  "run_screen_market futu a db = screen_with (get_provider a futu) a db"

definition run_sync_watchlist :: "provider \<Rightarrow> run_args \<Rightarrow> 'z store_scheme \<Rightarrow> (exn + nat) \<times> 'z store_scheme" where
  "run_sync_watchlist futu a db =
     (case run_screen_market futu a db of (Inl e, db') \<Rightarrow> (Inl e, db') | (Inr r, db') \<Rightarrow> (Inr (sr_selected r), db'))"

definition failed_result :: "string \<times> string \<Rightarrow> bool" where
  "failed_result kv \<longleftrightarrow> starts_with ''data source failed:'' (snd kv) \<or> snd kv = ''no bars returned from data source''"

definition anomalous_result :: "string \<times> string \<Rightarrow> bool" where
  "anomalous_result kv \<longleftrightarrow> py_contains ''anomalous bars isolated'' (snd kv)"

record update_summary =
  us_updated :: int
  us_failed :: int
  us_anomalous :: int
  us_failures :: "(string \<times> string) list"
  us_details :: "(string \<times> string) list"

definition summary_of :: "(string \<times> string) list \<Rightarrow> update_summary" where
  "summary_of details =
     (let failures = filter failed_result details
      in \<lparr>us_updated = int (length details) - int (length failures), us_failed = int (length failures),
          us_anomalous = int (length (filter anomalous_result details)), us_failures = failures, us_details = details\<rparr>)"

text \<open>
  The update of the bars; with no candidate beside the benchmarks the market is screened first. The
  third component says whether the session was left with a failed transaction.
\<close>

definition run_update_market_data ::
  "provider \<Rightarrow> timeframe list \<Rightarrow> run_args \<Rightarrow> 'z store_scheme \<Rightarrow> (exn + update_summary) \<times> 'z store_scheme \<times> bool" where
  "run_update_market_data futu tfs a db =
     (let p = get_provider a futu; symbols = candidate_symbols (ra_market_symbols a) db;
          (screened, db1) = (if length symbols = length (ra_market_symbols a) \<and> \<not> ra_use_mock a
                             then (case screen_with p a db of (Inl e, d) \<Rightarrow> (Inl e, d) | (Inr _, d) \<Rightarrow> (Inr (), d))
                             else (Inr (), db))
      in case screened of
           Inl e \<Rightarrow> (Inl e, db1, False)
         | Inr _ \<Rightarrow>
             (let u = update_market_data (pv_klines p) (candidate_symbols (ra_market_symbols a) db1)
                        (if tfs = [] then default_timeframes False else tfs) db1
              in (Inr (summary_of (up_results u)), up_db u, up_broken u)))"

definition compute_series :: "string \<times> timeframe \<Rightarrow> 'z store_scheme \<times> int \<Rightarrow> 'z store_scheme \<times> int" where
  "compute_series k acc = (let (db, n) = compute_indicators_for_symbol (fst k) (snd k) (fst acc) in (db, snd acc + n))"

definition series_of :: "string list \<Rightarrow> timeframe list \<Rightarrow> (string \<times> timeframe) list" where
  "series_of symbols tfs = concat (map (\<lambda>s. map (\<lambda>tf. (s, tf)) tfs) symbols)"

definition run_compute_indicators :: "timeframe list \<Rightarrow> run_args \<Rightarrow> 'z store_scheme \<Rightarrow> int \<times> 'z store_scheme" where
  "run_compute_indicators tfs a db =
     (let (db', n) = fold compute_series (series_of (candidate_symbols (ra_market_symbols a) db) tfs) (db, 0) in (n, db'))"

record market_refresh =
  mr_market_data :: "(string \<times> string) list"
  mr_failed :: int
  mr_indicators :: int
  mr_market_state :: market_state
  mr_as_of :: int

definition run_market_refresh :: "provider \<Rightarrow> run_args \<Rightarrow> 'z store_scheme \<Rightarrow> (exn + market_refresh) \<times> 'z store_scheme" where
  "run_market_refresh futu a db =
     (let u = update_market_data (pv_klines (get_provider a futu)) (ra_market_symbols a) [DAILY] db
      in if up_broken u then (Inl pending_rollback, up_db u)
         else (let (db1, n) = fold compute_series (series_of (ra_market_symbols a) [DAILY]) (up_db u, 0);
                   ev = evaluate_market (ra_today a) (ra_market_symbols a) db1
               in (Inr \<lparr>mr_market_data = up_results u, mr_failed = int (length (filter failed_result (up_results u))),
                        mr_indicators = n, mr_market_state = me_state ev, mr_as_of = me_as_of ev\<rparr>,
                   persist_market_state ev (ra_now a) db1)))"

section \<open>The scan\<close>

fun daily_text :: "daily_state \<Rightarrow> string" where
  "daily_text DAILY_STRONG_BULL = ''DAILY_STRONG_BULL''"
| "daily_text DAILY_WEAK_BULL = ''DAILY_WEAK_BULL''"
| "daily_text DAILY_RANGE = ''DAILY_RANGE''"
| "daily_text DAILY_WEAK_BEAR = ''DAILY_WEAK_BEAR''"
| "daily_text DAILY_STRONG_BEAR = ''DAILY_STRONG_BEAR''"
| "daily_text DAILY_UNKNOWN = ''UNKNOWN''"

record scan_counts =
  sn_daily_states :: int
  sn_structures :: int

definition scan_detections :: "market_state \<Rightarrow> daily_evaluation \<Rightarrow> 'z store_scheme \<Rightarrow> 'z store_scheme \<times> structure_event list" where
  "scan_detections market ev db =
     persist_structure_detections (detect_latest_structures STRUCTURE_CONFIG (de_symbol ev) HOUR_60 db) (market_text market)
       (daily_text (de_state ev)) db"

definition scan_symbol :: "market_state \<Rightarrow> string \<Rightarrow> scan_counts \<times> 'z store_scheme \<Rightarrow> (exn + scan_counts) \<times> 'z store_scheme" where
  "scan_symbol market symbol acc =
     (let n = fst acc; db = snd acc
      in if \<not> fst (symbol_data_status symbol db) then (Inr n, db)
         else case evaluate_daily_state symbol db of
                Inl e \<Rightarrow> (Inl e, db)
              | Inr ev \<Rightarrow>
                  (case (if de_as_of ev = None then Inr (n, db)
                         else case persist_daily_state ev db of
                                Inl e \<Rightarrow> Inl e
                              | Inr db1 \<Rightarrow> Inr (n\<lparr>sn_daily_states := sn_daily_states n + 1\<rparr>, db1)) of
                     Inl e \<Rightarrow> (Inl e, db)
                   | Inr (n1, db1) \<Rightarrow>
                       (let (db2, records) = scan_detections market ev db1
                        in (Inr (n1\<lparr>sn_structures := sn_structures n1 + int (length records)\<rparr>), db2))))"

fun scan_symbols :: "market_state \<Rightarrow> string list \<Rightarrow> scan_counts \<times> 'z store_scheme \<Rightarrow> (exn + scan_counts) \<times> 'z store_scheme" where
  "scan_symbols market [] acc = (Inr (fst acc), snd acc)"
| "scan_symbols market (s # ss) acc =
     (case scan_symbol market s acc of
        (Inl e, db) \<Rightarrow> (Inl e, db)
      | (Inr n, db) \<Rightarrow> scan_symbols market ss (n, db))"

definition scanned_symbols :: "run_args \<Rightarrow> 'z store_scheme \<Rightarrow> string list" where
  "scanned_symbols a db = filter (\<lambda>s. s \<notin> set (ra_market_symbols a)) (candidate_symbols [] db)"

definition run_scan_structures :: "run_args \<Rightarrow> 'z store_scheme \<Rightarrow> (exn + scan_counts) \<times> 'z store_scheme" where
  "run_scan_structures a db =
     (let ev = evaluate_market (ra_today a) (ra_market_symbols a) db
      in case scan_symbols (me_state ev) (scanned_symbols a db) (\<lparr>sn_daily_states = 0, sn_structures = 0\<rparr>, persist_market_state ev (ra_now a) db) of
           (Inl e, db1) \<Rightarrow> (Inl e, db1)
         | (Inr n, db1) \<Rightarrow>
             (case update_structure_follow_through db1 of
                Inl e \<Rightarrow> (Inl e, db1)
              | Inr (db2, _) \<Rightarrow> (Inr n, db2)))"

section \<open>The runs\<close>

record pipeline_result =
  po_scan :: scan_counts
  po_battle_pool :: rank_counts
  po_trade_plans :: "nat \<times> nat"
  po_states :: int
  po_market_state :: market_state

definition refresh_states :: "string list \<Rightarrow> int \<Rightarrow> 'z store_scheme \<Rightarrow> 'z store_scheme" where
  "refresh_states symbols today db = fold (\<lambda>s d. snd (refresh_monitor_state s today d)) symbols db"

definition run_pipeline :: "run_args \<Rightarrow> 'z store_scheme \<Rightarrow> (exn + pipeline_result) \<times> 'z store_scheme" where
  "run_pipeline a db =
     (case run_scan_structures a db of
        (Inl e, db1) \<Rightarrow> (Inl e, db1)
      | (Inr scan, db1) \<Rightarrow>
          (let (battle, db2) = rank_battle_pool (ra_now a) db1;
               (generated, db3) = generate_trade_plans (ra_now a) db2;
               symbols = candidate_symbols [] db3;
               db4 = refresh_states symbols (ra_today a) db3
           in (Inr \<lparr>po_scan = scan, po_battle_pool = battle, po_trade_plans = generated, po_states = int (length symbols),
                    po_market_state = me_state (evaluate_market (ra_today a) (ra_market_symbols a) db4)\<rparr>, db4)))"

record run_result =
  rr_screening :: "screening option"
  rr_market_data :: update_summary
  rr_indicators :: int
  rr_pipeline :: pipeline_result

text \<open>Indicators and pipeline after an update; a session with a failed transaction raises at its next query.\<close>

definition run_after_update ::
  "screening option \<Rightarrow> timeframe list \<Rightarrow> run_args \<Rightarrow> (exn + update_summary) \<times> 'z store_scheme \<times> bool \<Rightarrow> (exn + run_result) \<times> 'z store_scheme" where
  "run_after_update screened tfs a upd =
     (case upd of
        (Inl e, db, _) \<Rightarrow> (Inl e, db)
      | (Inr summary, db, broken) \<Rightarrow>
          if broken then (Inl pending_rollback, db)
          else (let (n, db1) = run_compute_indicators tfs a db
                in case run_pipeline a db1 of
                     (Inl e, db2) \<Rightarrow> (Inl e, db2)
                   | (Inr pipeline, db2) \<Rightarrow>
                       (Inr \<lparr>rr_screening = screened, rr_market_data = summary, rr_indicators = n, rr_pipeline = pipeline\<rparr>, db2)))"

text \<open>Each stage that needs the source opens it anew.\<close>

definition run_daily :: "provider \<Rightarrow> provider \<Rightarrow> run_args \<Rightarrow> 'z store_scheme \<Rightarrow> (exn + run_result) \<times> 'z store_scheme" where
  "run_daily futu1 futu2 a db =
     (case run_screen_market futu1 a db of
        (Inl e, db1) \<Rightarrow> (Inl e, db1)
      | (Inr s, db1) \<Rightarrow> run_after_update (Some s) CORE_TIMEFRAMES a (run_update_market_data futu2 [] a db1))"

definition run_60m :: "provider \<Rightarrow> run_args \<Rightarrow> 'z store_scheme \<Rightarrow> (exn + run_result) \<times> 'z store_scheme" where
  "run_60m futu a db = run_after_update None [HOUR_60] a (run_update_market_data futu [HOUR_60] a db)"

definition run_full_refresh :: "provider \<Rightarrow> provider \<Rightarrow> run_args \<Rightarrow> 'z store_scheme \<Rightarrow> (exn + run_result) \<times> 'z store_scheme" where
  "run_full_refresh futu1 futu2 a db = run_daily futu1 futu2 a db"

definition run_set_price_alerts :: "provider \<Rightarrow> run_args \<Rightarrow> 'z store_scheme \<Rightarrow> (exn + alert_run) \<times> 'z store_scheme" where
  "run_set_price_alerts futu a db =
     (if ra_use_mock a then (Inl (RuntimeError zh_no_mock_alerts), db)
      else (let (r, db') = set_price_alerts (pv_reminders futu) (ra_now a) db in (Inr r, db')))"

section \<open>Lemmas: what a scan adds\<close>

lemma detector_series:
  "bottom_passivation_at cfg v = Some d \<Longrightarrow> dt_symbol d = kl_symbol (bv_bar v) \<and> dt_timeframe d = kl_timeframe (bv_bar v)"
  "top_passivation_at cfg v = Some d \<Longrightarrow> dt_symbol d = kl_symbol (bv_bar v) \<and> dt_timeframe d = kl_timeframe (bv_bar v)"
  "bottom_structure_at cfg v p = Some d \<Longrightarrow> dt_symbol d = kl_symbol (bv_bar v) \<and> dt_timeframe d = kl_timeframe (bv_bar v)"
  "top_structure_at cfg v p = Some d \<Longrightarrow> dt_symbol d = kl_symbol (bv_bar v) \<and> dt_timeframe d = kl_timeframe (bv_bar v)"
  "bottom_failed_at v p = Some d \<Longrightarrow> dt_symbol d = kl_symbol (bv_bar v) \<and> dt_timeframe d = kl_timeframe (bv_bar v)"
  "top_invalidated_at v p = Some d \<Longrightarrow> dt_symbol d = kl_symbol (bv_bar v) \<and> dt_timeframe d = kl_timeframe (bv_bar v)"
  by (auto simp: detector_defs split: if_splits option.splits)

lemma set_list_of: "d \<in> set (list_of x) \<longleftrightarrow> x = Some d"
  by (cases x) auto

lemma option_SomeD:
  "(if c then x else None) = Some d \<longleftrightarrow> c \<and> x = Some d"
  "(case z of None \<Rightarrow> None | Some p \<Rightarrow> f p) = Some d \<longleftrightarrow> (\<exists>p. z = Some p \<and> f p = Some d)"
  by (auto split: option.splits)

lemma detect_at_cases:
  assumes "d \<in> set (detect_at_index cfg series i pn)"
  shows "\<exists>p. bottom_passivation_at cfg (view_at cfg series i) = Some d \<or> top_passivation_at cfg (view_at cfg series i) = Some d
    \<or> bottom_structure_at cfg (view_at cfg series i) p = Some d \<or> top_structure_at cfg (view_at cfg series i) p = Some d
    \<or> bottom_failed_at (view_at cfg series i) p = Some d \<or> top_invalidated_at (view_at cfg series i) p = Some d"
proof (cases "view_ready (view_at cfg series i)")
  case True
  show ?thesis using assms unfolding detect_at_index_def Let_def
    by (simp only: True if_True set_append Un_iff set_list_of option_SomeD) blast
qed (use assms in \<open>simp add: detect_at_index_def Let_def\<close>)

lemma detect_at_series:
  assumes "d \<in> set (detect_at_index cfg series i pn)"
  shows "dt_symbol d = kl_symbol (fst (series ! i)) \<and> dt_timeframe d = kl_timeframe (fst (series ! i))"
proof -
  have bar: "bv_bar (view_at cfg series i) = fst (series ! i)" by (simp add: view_at_def)
  show ?thesis using detect_at_cases [OF assms] unfolding bar [symmetric] by (elim exE disjE) (erule detector_series)+
qed

lemma detected_of_series:
  assumes "d \<in> set (detect_in_series cfg series)"
  shows "\<exists>x \<in> set series. dt_symbol d = kl_symbol (fst x) \<and> dt_timeframe d = kl_timeframe (fst x)"
proof -
  have "\<exists>x \<in> set series. dt_symbol d = kl_symbol (fst x) \<and> dt_timeframe d = kl_timeframe (fst x)"
    if "d \<in> set (fst (fold (scan_bar cfg series) js s))" "d \<notin> set (fst s)" "\<forall>j \<in> set js. j < length series" for js s
    using that
  proof (induction js arbitrary: s)
    case (Cons j js)
    show ?case
    proof (cases "d \<in> set (fst (scan_bar cfg series j s))")
      case True
      then have "d \<in> set (detect_at_index cfg series j (snd s))" using Cons.prems(2) by (simp add: scan_bar_def Let_def)
      from detect_at_series [OF this] show ?thesis using Cons.prems(3) by auto
    next
      case False
      then show ?thesis using Cons by simp
    qed
  qed simp
  then show ?thesis using assms by (fastforce simp: detect_in_series_def split: if_splits)
qed

lemma detected_key:
  assumes "d \<in> set (detect_latest_structures cfg symbol tf db)"
  shows "dt_symbol d = symbol \<and> dt_timeframe d = tf"
proof -
  obtain x where "x \<in> set (joined_series symbol tf 160 db)" "dt_symbol d = kl_symbol (fst x)" "dt_timeframe d = kl_timeframe (fst x)"
    using detected_of_series assms unfolding detect_latest_structures_def by blast
  then show ?thesis by (auto simp: joined_series_def split: option.splits if_splits dest!: in_set_takeD)
qed

text \<open>Only the market states, the daily states and the structure events may differ.\<close>

definition same_data :: "'z store_scheme \<Rightarrow> 'z store_scheme \<Rightarrow> bool" where
  "same_data db db' \<longleftrightarrow> (\<exists>ms ds es. db' = db\<lparr>market_states := ms, daily_states := ds, structure_events := es\<rparr>)"

lemma same_dataI: "db' = db\<lparr>market_states := ms, daily_states := ds, structure_events := es\<rparr> \<Longrightarrow> same_data db db'"
  by (auto simp: same_data_def)

lemma same_data_refl [simp]: "same_data db db"
  by (rule same_dataI [where ms = "market_states db" and ds = "daily_states db" and es = "structure_events db"]) simp

lemma same_data_trans [trans]:
  assumes "same_data a b" and "same_data b c"
  shows "same_data a c"
proof -
  obtain ms ds es ms' ds' es' where "b = a\<lparr>market_states := ms, daily_states := ds, structure_events := es\<rparr>"
    "c = b\<lparr>market_states := ms', daily_states := ds', structure_events := es'\<rparr>"
    using assms by (auto simp: same_data_def)
  then have "c = a\<lparr>market_states := ms', daily_states := ds', structure_events := es'\<rparr>" by simp
  then show ?thesis by (rule same_dataI)
qed

lemma same_data_rows:
  assumes "same_data db db'"
  shows "klines db' = klines db" "indicators db' = indicators db" "candidates db' = candidates db"
    "battle_items db' = battle_items db" "plans db' = plans db" "positions db' = positions db"
  using assms by (auto simp: same_data_def)

lemma newest_bar_same: "same_data db db' \<Longrightarrow> newest_bar s tf db' = newest_bar s tf db"
  by (simp add: same_data_rows newest_bar_def)

lemma indicator_at_same: "same_data db db' \<Longrightarrow> indicator_at s tf t db' = indicator_at s tf t db"
  by (simp add: same_data_rows indicator_at_def)

lemma timeframe_status_same:
  assumes "same_data db db'"
  shows "timeframe_status s tf db' = timeframe_status s tf db"
  using newest_bar_same [OF assms, of s tf] indicator_at_same [OF assms, of s tf]
  by (cases "newest_bar s tf db") (simp_all add: timeframe_status_def)

lemma status_cong:
  assumes "same_data db db'"
  shows "symbol_data_status s db' = symbol_data_status s db"
  unfolding symbol_data_status_def timeframe_status_same [OF assms] ..

lemma persist_daily_same:
  assumes "persist_daily_state ev db = Inr db'"
  shows "same_data db db' \<and> structure_events db' = structure_events db"
proof -
  obtain ds where db': "db' = db\<lparr>daily_states := ds\<rparr>"
    using assms by (auto simp: persist_daily_state_def split: option.splits)
  then have "same_data db db'" by (intro same_dataI [where ms = "market_states db" and ds = ds and es = "structure_events db"]) simp
  then show ?thesis by (simp add: db')
qed

lemma same_data_events [simp]: "same_data db (db\<lparr>structure_events := es\<rparr>)"
  by (rule same_dataI [where ms = "market_states db" and ds = "daily_states db" and es = es]) simp

lemma daily_symbol: "evaluate_daily_state symbol db = Inr ev \<Longrightarrow> de_symbol ev = symbol"
  by (auto simp: evaluate_daily_state_def Let_def split: if_splits option.splits sum.splits prod.splits)

text \<open>Every event is an old one or belongs to one of the symbols, whose data are sound.\<close>

definition scan_adds :: "string set \<Rightarrow> 'z store_scheme \<Rightarrow> 'z store_scheme \<Rightarrow> bool" where
  "scan_adds symbols db db' \<longleftrightarrow> same_data db db' \<and> events_ok (structure_events db')
     \<and> event_key ` set (structure_events db) \<subseteq> event_key ` set (structure_events db')
     \<and> (\<forall>e \<in> set (structure_events db'). event_key e \<in> event_key ` set (structure_events db)
          \<or> ev_symbol e \<in> symbols \<and> ev_timeframe e = HOUR_60 \<and> fst (symbol_data_status (ev_symbol e) db))"

lemma scan_adds_refl: "events_ok (structure_events db) \<Longrightarrow> scan_adds S db db"
  by (auto simp: scan_adds_def)

lemma scan_adds_trans:
  assumes "scan_adds S a b" "scan_adds T b c"
  shows "scan_adds (S \<union> T) a c"
  unfolding scan_adds_def
proof (intro conjI ballI)
  show "same_data a c" using assms by (auto simp: scan_adds_def intro: same_data_trans)
  show "events_ok (structure_events c)" using assms by (simp add: scan_adds_def)
  show "event_key ` set (structure_events a) \<subseteq> event_key ` set (structure_events c)"
    using assms unfolding scan_adds_def by (meson subset_trans)
  fix e assume e: "e \<in> set (structure_events c)"
  have st: "symbol_data_status s b = symbol_data_status s a" for s using assms(1) by (simp add: scan_adds_def status_cong)
  show "event_key e \<in> event_key ` set (structure_events a)
      \<or> ev_symbol e \<in> S \<union> T \<and> ev_timeframe e = HOUR_60 \<and> fst (symbol_data_status (ev_symbol e) a)"
  proof (cases "event_key e \<in> event_key ` set (structure_events b)")
    case True
    then obtain e' where e': "e' \<in> set (structure_events b)" "event_key e' = event_key e" by auto
    then have "ev_symbol e' = ev_symbol e" "ev_timeframe e' = ev_timeframe e" by (simp_all add: event_key_def)
    moreover have "event_key e' \<in> event_key ` set (structure_events a)
        \<or> ev_symbol e' \<in> S \<and> ev_timeframe e' = HOUR_60 \<and> fst (symbol_data_status (ev_symbol e') a)"
      using assms(1) e'(1) unfolding scan_adds_def by blast
    ultimately show ?thesis using e'(2) by auto
  next
    case False
    then show ?thesis using assms(2) e st by (auto simp: scan_adds_def)
  qed
qed

lemma scan_detections_adds:
  assumes "events_ok (structure_events db)" "fst (symbol_data_status (de_symbol ev) db)"
  shows "scan_adds {de_symbol ev} db (fst (scan_detections m ev db))"
proof -
  let ?ds = "detect_latest_structures STRUCTURE_CONFIG (de_symbol ev) HOUR_60 db"
  let ?es = "fold (persist_detection (market_text m) (daily_text (de_state ev))) ?ds (structure_events db)"
  have db': "fst (scan_detections m ev db) = db\<lparr>structure_events := ?es\<rparr>"
    by (simp add: scan_detections_def persist_structure_detections_def Let_def)
  have keys: "events_ok ?es \<and> event_key ` set ?es = event_key ` set (structure_events db) \<union> detection_key ` set ?ds"
    using persist_fold [OF assms(1), of "market_text m" "daily_text (de_state ev)" ?ds] by blast
  have "\<forall>e \<in> set ?es. event_key e \<in> event_key ` set (structure_events db)
      \<or> ev_symbol e \<in> {de_symbol ev} \<and> ev_timeframe e = HOUR_60 \<and> fst (symbol_data_status (ev_symbol e) db)"
  proof
    fix e assume "e \<in> set ?es"
    with keys have "event_key e \<in> event_key ` set (structure_events db) \<or> event_key e \<in> detection_key ` set ?ds" by blast
    then have "event_key e \<in> event_key ` set (structure_events db) \<or> ev_symbol e = de_symbol ev \<and> ev_timeframe e = HOUR_60"
      by (auto simp: event_key_def detection_key_def dest!: detected_key)
    then show "event_key e \<in> event_key ` set (structure_events db)
      \<or> ev_symbol e \<in> {de_symbol ev} \<and> ev_timeframe e = HOUR_60 \<and> fst (symbol_data_status (ev_symbol e) db)"
      using assms(2) by (elim disjE conjE) simp_all
  qed
  then show ?thesis using keys unfolding db' scan_adds_def by simp
qed

lemma scan_symbol_adds:
  assumes "events_ok (structure_events (snd acc))"
  shows "scan_adds {symbol} (snd acc) (snd (scan_symbol m symbol acc))"
proof (cases "fst (symbol_data_status symbol (snd acc))")
  case True
  show ?thesis
  proof (cases "evaluate_daily_state symbol (snd acc)")
    case (Inr ev)
    let ?r = "if de_as_of ev = None then Inr (fst acc, snd acc)
      else case persist_daily_state ev (snd acc) of Inl e \<Rightarrow> Inl e
         | Inr db1 \<Rightarrow> Inr ((fst acc)\<lparr>sn_daily_states := sn_daily_states (fst acc) + 1\<rparr>, db1)"
    have sym: "de_symbol ev = symbol" by (rule daily_symbol [OF Inr])
    show ?thesis
    proof (cases ?r)
      case (Inr nd)
      have same: "same_data (snd acc) (snd nd) \<and> structure_events (snd nd) = structure_events (snd acc)"
        using Inr by (auto split: if_splits sum.splits dest: persist_daily_same)
      have first: "scan_adds {symbol} (snd acc) (snd nd)" using same assms by (auto simp: scan_adds_def)
      have "scan_adds {de_symbol ev} (snd nd) (fst (scan_detections m ev (snd nd)))"
        using same assms True sym status_cong [of "snd acc" "snd nd" symbol] by (intro scan_detections_adds) simp_all
      from scan_adds_trans [OF first this] have "scan_adds {symbol} (snd acc) (fst (scan_detections m ev (snd nd)))" by (simp add: sym)
      moreover have "snd (scan_symbol m symbol acc) = fst (scan_detections m ev (snd nd))"
        using True \<open>evaluate_daily_state symbol (snd acc) = Inr ev\<close> Inr
        by (cases nd) (simp add: scan_symbol_def Let_def split_beta)
      ultimately show ?thesis by simp
    qed (use True Inr assms in \<open>simp add: scan_symbol_def Let_def scan_adds_refl\<close>)
  qed (use True assms in \<open>simp add: scan_symbol_def Let_def scan_adds_refl\<close>)
qed (use assms in \<open>simp add: scan_symbol_def Let_def scan_adds_refl\<close>)

lemma scan_adds_mono: "scan_adds S db db' \<Longrightarrow> S \<subseteq> T \<Longrightarrow> scan_adds T db db'"
  by (auto simp: scan_adds_def)

lemma scan_symbols_adds:
  "events_ok (structure_events (snd acc)) \<Longrightarrow> scan_adds (set ss) (snd acc) (snd (scan_symbols m ss acc))"
proof (induction ss arbitrary: acc)
  case (Cons s ss)
  obtain res db where step: "scan_symbol m s acc = (res, db)" by fastforce
  have first: "scan_adds {s} (snd acc) db" using scan_symbol_adds [OF Cons.prems, of s m] step by simp
  show ?case
  proof (cases res)
    case (Inl e)
    then show ?thesis using step first by (auto intro: scan_adds_mono)
  next
    case (Inr n)
    have "scan_adds (set ss) db (snd (scan_symbols m ss (n, db)))"
      using Cons.IH [of "(n, db)"] first by (simp add: scan_adds_def)
    from scan_adds_trans [OF first this] show ?thesis using step Inr by simp
  qed
qed (simp add: scan_adds_refl)

lemma follow_event_key: "follow_event bars e = Inr e' \<Longrightarrow> event_key e' = event_key e \<and> ev_id e' = ev_id e"
  by (auto simp: follow_event_def Let_def event_key_def split: if_splits)

lemma follow_fold_keys:
  "foldM (follow_step db) es acc = Inr acc' \<Longrightarrow> map event_key (fst acc') = map event_key (fst acc @ es) \<and> map ev_id (fst acc') = map ev_id (fst acc @ es)"
proof (induction es arbitrary: acc)
  case (Cons e es)
  from Cons.prems obtain a1 where a1: "follow_step db e acc = Inr a1" "foldM (follow_step db) es a1 = Inr acc'"
    by (rule foldM_ConsE)
  have "\<exists>e'. fst a1 = fst acc @ [e'] \<and> event_key e' = event_key e \<and> ev_id e' = ev_id e"
    using a1(1) by (auto simp: follow_step_def split: if_splits sum.splits dest: follow_event_key)
  then show ?case using Cons.IH [OF a1(2)] by auto
qed simp

lemma follow_through_adds:
  assumes "events_ok (structure_events db)" "update_structure_follow_through db = Inr (db', n)"
  shows "scan_adds {} db db'"
proof -
  obtain es where es: "foldM (follow_step db) (structure_events db) ([], 0) = Inr (es, n)" "db' = db\<lparr>structure_events := es\<rparr>"
    using assms(2) by (auto simp: update_structure_follow_through_def split: sum.splits prod.splits)
  have keys: "map event_key es = map event_key (structure_events db)" "map ev_id es = map ev_id (structure_events db)"
    using follow_fold_keys [OF es(1)] by simp_all
  then have "event_key ` set es = event_key ` set (structure_events db)" by (metis list.set_map)
  then show ?thesis using assms(1) keys es(2)
    by (auto simp: scan_adds_def events_ok_def unique_events_def)
qed

lemma market_same: "same_data db (persist_market_state ev now db) \<and> structure_events (persist_market_state ev now db) = structure_events db"
proof -
  obtain ms where db': "persist_market_state ev now db = db\<lparr>market_states := ms\<rparr>" by (simp add: persist_market_state_def)
  have "same_data db (db\<lparr>market_states := ms\<rparr>)"
    by (rule same_dataI [where ms = ms and ds = "daily_states db" and es = "structure_events db"]) simp
  then show ?thesis by (simp add: db')
qed

lemma scan_run_adds:
  assumes "events_ok (structure_events db)" "run_scan_structures a db = (res, db')"
  shows "scan_adds (set (scanned_symbols a db)) db db'"
proof -
  let ?ev = "evaluate_market (ra_today a) (ra_market_symbols a) db"
  let ?db0 = "persist_market_state ?ev (ra_now a) db"
  obtain r1 db1 where run: "scan_symbols (me_state ?ev) (scanned_symbols a db) (\<lparr>sn_daily_states = 0, sn_structures = 0\<rparr>, ?db0) = (r1, db1)"
    by fastforce
  have "scan_adds {} db ?db0" using market_same [of db ?ev "ra_now a"] assms(1) by (auto simp: scan_adds_def)
  moreover have "scan_adds (set (scanned_symbols a db)) ?db0 db1"
    using scan_symbols_adds [of "(\<lparr>sn_daily_states = 0, sn_structures = 0\<rparr>, ?db0)" "scanned_symbols a db" "me_state ?ev"] run market_same [of db ?ev "ra_now a"] assms(1)
    by simp
  ultimately have first: "scan_adds (set (scanned_symbols a db)) db db1" using scan_adds_trans by fastforce
  show ?thesis
  proof (cases r1)
    case (Inl e)
    then show ?thesis using assms(2) run first by (simp add: run_scan_structures_def Let_def)
  next
    case (Inr n)
    show ?thesis
    proof (cases "update_structure_follow_through db1")
      case (Inr dn)
      obtain db2 k where dn: "dn = (db2, k)" by fastforce
      have "scan_adds {} db1 db2" using first follow_through_adds [of db1 db2 k] Inr dn by (simp add: scan_adds_def)
      moreover have "db' = db2" using assms(2) run \<open>r1 = Inr n\<close> Inr dn by (simp add: run_scan_structures_def Let_def)
      ultimately show ?thesis using scan_adds_trans [OF first] by fastforce
    qed (use assms(2) run Inr first in \<open>simp add: run_scan_structures_def Let_def\<close>)
  qed
qed


section \<open>Lemmas: the whole run\<close>

lemma rank_step_frame [simp]:
  "plans (snd (rank_step sc acc)) = plans (snd acc)" "candidates (snd (rank_step sc acc)) = candidates (snd acc)"
  by (simp_all add: rank_step_def Let_def split: option.splits)

lemma rank_fold_frame [simp]:
  "plans (snd (fold rank_step scs acc)) = plans (snd acc)" "candidates (snd (fold rank_step scs acc)) = candidates (snd acc)"
  by (induction scs arbitrary: acc) simp_all

lemma rank_frame [simp]:
  "plans (snd (rank_battle_pool now db)) = plans db" "candidates (snd (rank_battle_pool now db)) = candidates db"
  by (simp_all add: rank_battle_pool_def archived_def)

lemma generate_frame [simp]:
  "battle_items (snd (generate_trade_plans now db)) = battle_items db"
  "candidates (snd (generate_trade_plans now db)) = candidates db"
  by (simp_all add: generate_trade_plans_def Let_def commit_def)

text \<open>What refreshing the state of one symbol leaves alone.\<close>

definition same_rows :: "'z store_scheme \<Rightarrow> 'z store_scheme \<Rightarrow> bool" where
  "same_rows db db' \<longleftrightarrow> battle_items db' = battle_items db \<and> plans db' = plans db \<and> candidates db' = candidates db
     \<and> positions db' = positions db \<and> structure_events db' = structure_events db"

lemma same_rows_refl [simp]: "same_rows db db"
  by (simp add: same_rows_def)

lemma same_rows_trans: "same_rows a b \<Longrightarrow> same_rows b c \<Longrightarrow> same_rows a c"
  by (simp add: same_rows_def)

lemma put_state_other: "t \<noteq> ts_symbol r \<Longrightarrow> state_of t (put_state r db) = state_of t db"
proof -
  assume "t \<noteq> ts_symbol r"
  then have "filter (\<lambda>x. ts_symbol x = t) (map (\<lambda>y. if ts_symbol y = ts_symbol r then r else y) xs) = filter (\<lambda>x. ts_symbol x = t) xs" for xs
    by (induction xs) auto
  then show ?thesis by (simp add: state_of_def put_state_def)
qed

lemma monitor_transition_frame:
  "same_rows db (snd (monitor_transition r s reason wait db))"
  "t \<noteq> ts_symbol r \<Longrightarrow> state_of t (snd (monitor_transition r s reason wait db)) = state_of t db"
proof -
  show "same_rows db (snd (monitor_transition r s reason wait db))"
    by (simp add: monitor_transition_def Let_def same_rows_def put_state_def)
  assume "t \<noteq> ts_symbol r"
  then show "state_of t (snd (monitor_transition r s reason wait db)) = state_of t db"
    by (simp add: monitor_transition_def Let_def put_state_other)
qed

lemma state_row_rows:
  "state_row symbol db = (r, db') \<Longrightarrow> same_rows db db' \<and> ts_symbol r = symbol \<and> (t \<noteq> symbol \<longrightarrow> state_of t db' = state_of t db)"
  by (auto simp: state_row_def same_rows_def state_of_def blank_state_def split: option.splits dest: scalar_filter_SomeD)

lemma risk_config_rows:
  "get_or_create_risk_config db = (c, db') \<Longrightarrow> same_rows db db' \<and> state_of t db' = state_of t db"
  by (auto simp: get_or_create_risk_config_def same_rows_def state_of_def split: option.splits)

lemma refresh_rows:
  "same_rows db (snd (refresh_monitor_state symbol today db))
   \<and> (t \<noteq> symbol \<longrightarrow> state_of t (snd (refresh_monitor_state symbol today db)) = state_of t db)"
proof -
  obtain r db1 where row: "state_row symbol db = (r, db1)" by fastforce
  obtain c db2 where cfg: "get_or_create_risk_config db1 = (c, db2)" by fastforce
  note R = state_row_rows [OF row, of t] and C = risk_config_rows [OF cfg, of t]
  have T: "same_rows db (snd (monitor_transition q s reason wait d))
      \<and> (t \<noteq> symbol \<longrightarrow> state_of t (snd (monitor_transition q s reason wait d)) = state_of t db)"
    if "same_rows db d" "t \<noteq> symbol \<longrightarrow> state_of t d = state_of t db" "ts_symbol q = symbol" for q s reason wait d
    using that monitor_transition_frame(1) [of d q s reason wait] monitor_transition_frame(2) [of t q s reason wait d]
    by (auto intro: same_rows_trans)
  have one: "same_rows db db1" "t \<noteq> symbol \<longrightarrow> state_of t db1 = state_of t db" "ts_symbol r = symbol" using R by auto
  have two: "same_rows db db2" "t \<noteq> symbol \<longrightarrow> state_of t db2 = state_of t db" using R C by (auto intro: same_rows_trans)
  have "ts_symbol (r\<lparr>ts_cooldown_until := u\<rparr>) = symbol" for u using one(3) by simp
  note two' = T [OF two this]
  show ?thesis
    unfolding refresh_monitor_state_def row Let_def prod.case cfg
    using T [OF one] two' by (simp split: option.splits prod.splits)
qed

text \<open>
  The state the rows of a symbol call for, from its open position, its newest event, its cool-down, its
  plans, its place in the battle pool and among the candidates, in this order.
\<close>

definition called_for :: "string \<Rightarrow> int \<Rightarrow> trading_state \<Rightarrow> 'z store_scheme \<Rightarrow> trading_phase" where
  "called_for symbol today r db =
     (let newest = scalar (order_desc ev_ts (filter (\<lambda>e. ev_symbol e = symbol) (structure_events db)));
          newest_is = (\<lambda>ty. \<exists>e. newest = Some e \<and> ev_type e = ty)
      in if \<exists>p \<in> set (positions db). pos_symbol p = symbol \<and> pos_status p = POS_OPEN
         then (if newest_is TOP_STRUCTURE then RISK_PROTECTION else SIM_POSITION)
         else if newest_is BOTTOM_FAILED \<or> (\<exists>d. ts_cooldown_until r = Some d \<and> today \<le> d) then COOLDOWN
         else if \<exists>p \<in> set (plans db). pl_symbol p = symbol \<and> pl_status p = PL_ACTIVE then PLAN_READY
         else if \<exists>b \<in> set (battle_items db). bp_symbol b = symbol \<and> bp_active b then BATTLE_WATCH
         else if newest \<noteq> None then STRUCTURE_DETECTED
         else if \<exists>c \<in> set (candidates db). cd_symbol c = symbol \<and> cd_active c then CANDIDATE_POOL
         else IDLE)"

definition shown_right :: "int \<Rightarrow> string \<Rightarrow> 'z store_scheme \<Rightarrow> bool" where
  "shown_right today symbol db \<longleftrightarrow> (\<exists>r. state_of symbol db = Some r \<and> ts_state r = called_for symbol today r db)"

lemma called_for_rows: "same_rows db db' \<Longrightarrow> called_for s today r db' = called_for s today r db"
  by (simp only: same_rows_def called_for_def)

lemma watch_stage_rows:
  "fst (watch_stage s db) =
     (if \<exists>p \<in> set (plans db). pl_symbol p = s \<and> pl_status p = PL_ACTIVE then PLAN_READY
      else if \<exists>b \<in> set (battle_items db). bp_symbol b = s \<and> bp_active b then BATTLE_WATCH
      else if last_event s db \<noteq> None then STRUCTURE_DETECTED
      else if \<exists>c \<in> set (candidates db). cd_symbol c = s \<and> cd_active c then CANDIDATE_POOL
      else IDLE)"
proof -
  have some: "scalar xs \<noteq> None \<longleftrightarrow> xs \<noteq> []" for xs :: "'x list" by (cases xs) (simp_all add: scalar_def)
  have "(\<exists>p \<in> set (plans db). pl_symbol p = s \<and> pl_status p = PL_ACTIVE) \<longleftrightarrow> active_plan s db \<noteq> None"
    "(\<exists>b \<in> set (battle_items db). bp_symbol b = s \<and> bp_active b) \<longleftrightarrow> active_battle s db \<noteq> None"
    "(\<exists>c \<in> set (candidates db). cd_symbol c = s \<and> cd_active c) \<longleftrightarrow> active_candidate s db \<noteq> None"
    unfolding active_plan_def active_battle_def active_candidate_def some by (auto simp: filter_empty_conv)
  then show ?thesis unfolding watch_stage_def by (simp only:) (simp split: option.split)
qed

lemma called_for_stages:
  "called_for symbol today r db =
     (if open_position_of symbol db \<noteq> None
      then (if \<exists>e. last_event symbol db = Some e \<and> ev_type e = TOP_STRUCTURE then RISK_PROTECTION else SIM_POSITION)
      else if (\<exists>e. last_event symbol db = Some e \<and> ev_type e = BOTTOM_FAILED)
        \<or> (\<exists>d. ts_cooldown_until r = Some d \<and> today \<le> d) then COOLDOWN
      else fst (watch_stage symbol db))"
proof -
  have "(\<exists>p \<in> set (positions db). pos_symbol p = symbol \<and> pos_status p = POS_OPEN) \<longleftrightarrow> open_position_of symbol db \<noteq> None"
    by (auto simp: open_position_of_def filter_empty_conv)
  then show ?thesis unfolding called_for_def watch_stage_rows Let_def last_event_def [symmetric] by (simp only:)
qed

lemma refresh_shows:
  "shown_right today symbol (snd (refresh_monitor_state symbol today db))"
proof -
  let ?db' = "snd (refresh_monitor_state symbol today db)" and ?r = "fst (refresh_monitor_state symbol today db)"
  have rows: "same_rows db ?db'" using refresh_rows by blast
  note shown = monitor_state_is_determined [of symbol today db]
  have cool: "(\<exists>q. state_of symbol db = Some q \<and> cooling today q) \<longleftrightarrow> (\<exists>d. ts_cooldown_until ?r = Some d \<and> today \<le> d)"
    if "\<nexists>e. last_event symbol db = Some e \<and> ev_type e = BOTTOM_FAILED" "open_position_of symbol db = None"
    using cooldown_kept [OF that, of today] by (auto simp: cooling_def split: option.splits)
  have "ts_state ?r = called_for symbol today ?r db"
  proof (cases "open_position_of symbol db = None \<and> \<not> (\<exists>e. last_event symbol db = Some e \<and> ev_type e = BOTTOM_FAILED)")
    case True
    then show ?thesis using shown cool unfolding called_for_stages by (simp only: simp_thms if_False if_True)
  next
    case False
    then show ?thesis using shown unfolding called_for_stages by (cases "open_position_of symbol db = None") (simp_all only: simp_thms if_False if_True)
  qed
  then show ?thesis using shown rows by (simp only: shown_right_def called_for_rows) blast
qed

lemma refresh_keeps_shown:
  assumes "shown_right today t db"
  shows "shown_right today t (snd (refresh_monitor_state symbol today db))"
proof (cases "t = symbol")
  case False
  let ?db' = "snd (refresh_monitor_state symbol today db)"
  have "same_rows db ?db'" "state_of t ?db' = state_of t db" using refresh_rows False by blast+
  then show ?thesis using assms by (simp add: shown_right_def called_for_rows)
qed (simp add: refresh_shows)

lemma refresh_states_facts:
  "same_rows db (refresh_states symbols today db)
   \<and> (\<forall>t. t \<in> set symbols \<or> shown_right today t db \<longrightarrow> shown_right today t (refresh_states symbols today db))"
proof (induction symbols arbitrary: db)
  case (Cons s ss)
  have step: "refresh_states (s # ss) today db = refresh_states ss today (snd (refresh_monitor_state s today db))"
    by (simp add: refresh_states_def)
  show ?case
    using Cons.IH [of "snd (refresh_monitor_state s today db)"] refresh_rows [of db s today] refresh_shows [of today s db]
      refresh_keeps_shown [of today _ db s] same_rows_trans unfolding step by (metis set_ConsD)
qed (simp add: refresh_states_def)

section \<open>Lemmas: a source that fails\<close>

definition all_fail :: "exn \<Rightarrow> bar_source" where
  "all_fail e = (\<lambda>_ _. Inl e)"

lemma upsert_put_all: "P x \<Longrightarrow> list_all P xs \<Longrightarrow> list_all P (upsert key (\<lambda>_. x) x xs)"
  by (auto simp: upsert_def list_all_iff)

lemma failed_step:
  "up_db (update_series (all_fail e) n k u) = up_db u" "up_broken (update_series (all_fail e) n k u) = up_broken u"
  "list_all failed_result (up_results u) \<Longrightarrow> list_all failed_result (up_results (update_series (all_fail e) n k u))"
proof -
  define msg where "msg = ''data source failed: '' @ exn_str e"
  define key where "key = fst k @ '':'' @ timeframe_text (snd k)"
  have series: "series_result (all_fail e) (fst k) (snd k) (up_broken u) (up_db u) = (msg, up_broken u, up_db u)"
    unfolding series_result_def all_fail_def msg_def by simp
  have results: "up_results (update_series (all_fail e) n k u) = upsert fst (\<lambda>_. (key, msg)) (key, msg) (up_results u)"
    unfolding update_series_def Let_def series key_def by simp
  show "up_db (update_series (all_fail e) n k u) = up_db u" "up_broken (update_series (all_fail e) n k u) = up_broken u"
    unfolding update_series_def Let_def series by simp_all
  have "failed_result (key, msg)" unfolding failed_result_def msg_def by (simp add: starts_with_def)
  then show "list_all failed_result (up_results u) \<Longrightarrow> list_all failed_result (up_results (update_series (all_fail e) n k u))"
    unfolding results by (rule upsert_put_all)
qed

lemma failed_series:
  "up_db (fold (update_series (all_fail e) n) ks u) = up_db u \<and> up_broken (fold (update_series (all_fail e) n) ks u) = up_broken u
   \<and> (list_all failed_result (up_results u) \<longrightarrow> list_all failed_result (up_results (fold (update_series (all_fail e) n) ks u)))"
  by (induction ks arbitrary: u) (simp_all add: failed_step)

lemma failed_update:
  "up_db (update_market_data (all_fail e) symbols tfs db) = db \<and> \<not> up_broken (update_market_data (all_fail e) symbols tfs db)
   \<and> (\<forall>kv \<in> set (up_results (update_market_data (all_fail e) symbols tfs db)). failed_result kv)"
  unfolding update_market_data_def Let_def
  using failed_series [where u = "\<lparr>up_db = db, up_broken = False, up_results = [], up_progress = []\<rparr>"] by (simp add: list_all_iff)

section \<open>Lemmas: a run that completes\<close>

lemma pipeline_ok_iff: "is_ok (fst (run_pipeline a db)) \<longleftrightarrow> is_ok (fst (run_scan_structures a db))"
  by (auto simp: run_pipeline_def is_ok_def Let_def split: prod.splits sum.splits)

lemma pipeline_candidates:
  assumes "events_ok (structure_events db)" "run_pipeline a db = (Inr r, db')"
  shows "candidate_symbols [] db' = candidate_symbols [] db"
proof -
  obtain scan db1 where scan: "run_scan_structures a db = (Inr scan, db1)"
    using assms(2) by (auto simp: run_pipeline_def split: prod.splits sum.splits)
  obtain counts db2 where rank: "rank_battle_pool (ra_now a) db1 = (counts, db2)" by fastforce
  obtain gen db3 where gen: "generate_trade_plans (ra_now a) db2 = (gen, db3)" by fastforce
  have db': "db' = refresh_states (candidate_symbols [] db3) (ra_today a) db3"
    using assms(2) by (auto simp: run_pipeline_def scan rank gen Let_def)
  have "same_data db db1" using scan_run_adds [OF assms(1) scan] by (simp add: scan_adds_def)
  moreover have "same_rows db3 db'"
    using refresh_states_facts [of db3 "candidate_symbols [] db3" "ra_today a"] db' by auto
  ultimately show ?thesis
    using rank_frame [of "ra_now a" db1] generate_frame [of "ra_now a" db2] rank gen
    by (simp add: candidate_symbols_def same_rows_def same_data_rows)
qed

section \<open>Properties\<close>


text \<open>C27. A pipeline run leaves a consistent view: at most three symbols in S and ten in A, every plan that waits for its
  price belongs to an active S or A item, and every active candidate is shown in the state its rows call
  for: with an open position tracked or, after a top, protected; after a failed bottom or within its cool-down
  cooling down; otherwise ready with an active plan, else watched in the battle pool, else with a
  structure, else in the candidate pool.\<close>

theorem pipeline_leaves_consistent_view:
  assumes "distinct (map bp_symbol (battle_items db))" "distinct (map pl_id (plans db))" "events_ok (structure_events db)"
    and "run_pipeline a db = (Inr r, db')"
  shows "active_with Prio_S (battle_items db') = rc_S (po_battle_pool r) \<and> rc_S (po_battle_pool r) \<le> 3
    \<and> active_with Prio_A (battle_items db') = rc_A (po_battle_pool r) \<and> rc_A (po_battle_pool r) \<le> 10
    \<and> (\<forall>pl \<in> set (plans db'). pl_status pl \<in> set PENDING_STATUSES \<longrightarrow>
        (\<exists>b \<in> set (active_items db'). bp_symbol b = pl_symbol pl \<and> bp_source_structure_id b = pl_source_structure_id pl))
    \<and> (\<forall>s \<in> set (candidate_symbols [] db'). \<exists>q. state_of s db' = Some q \<and> ts_state q = called_for s (ra_today a) q db')"
proof -
  obtain scan db1 where scan: "run_scan_structures a db = (Inr scan, db1)"
    using assms(4) by (auto simp: run_pipeline_def split: prod.splits sum.splits)
  obtain counts db2 where rank: "rank_battle_pool (ra_now a) db1 = (counts, db2)" by fastforce
  obtain gen db3 where gen: "generate_trade_plans (ra_now a) db2 = (gen, db3)" by fastforce
  have r: "po_battle_pool r = counts" "db' = refresh_states (candidate_symbols [] db3) (ra_today a) db3"
    using assms(4) by (auto simp: run_pipeline_def scan rank gen Let_def)
  have "same_data db db1" using scan_run_adds [OF assms(3) scan] by (simp add: scan_adds_def)
  then have items: "distinct (map bp_symbol (battle_items db1))" "distinct (map pl_id (plans db2))"
    using assms(1,2) rank_frame(1) [of "ra_now a" db1] rank by (simp_all add: same_data_rows)
  have shown: "same_rows db3 db'" "\<forall>s \<in> set (candidate_symbols [] db3). shown_right (ra_today a) s db'"
    using refresh_states_facts [of db3 "candidate_symbols [] db3" "ra_today a"] r(2) by auto
  have frame: "battle_items db' = battle_items db2" "candidate_symbols [] db' = candidate_symbols [] db3" "plans db' = plans db3"
    using shown(1) generate_frame(1) [of "ra_now a" db2] gen by (simp_all add: same_rows_def candidate_symbols_def)
  have "rank_ok (bs_symbol ` set (ranking (ra_now a) db1)) (counts, db2)" using ranking_ok [OF items(1), of "ra_now a"] rank by simp
  moreover have "\<exists>b \<in> set (active_items db'). bp_symbol b = pl_symbol pl \<and> bp_source_structure_id b = pl_source_structure_id pl"
    if "pl \<in> set (plans db')" "pl_status pl \<in> set PENDING_STATUSES" for pl
    using pending_plans_planned [OF items(2) gen that(1) [unfolded frame] that(2)] by (auto simp: active_items_def frame)
  ultimately show ?thesis using shown(2) unfolding r(1) frame(1,2) by (simp add: rank_ok_def shown_right_def)
qed

text \<open>A data source that fails does not stop the hourly run: every series is reported as failed, the stored bars stay as
  they are, and the run goes on with them, however old they are.\<close>

theorem run_survives_failed_source:
  assumes "pv_klines (get_provider a futu) = all_fail e"
    and "length (candidate_symbols (ra_market_symbols a) db) \<noteq> length (ra_market_symbols a)"
  shows "\<exists>summary. run_60m futu a db = run_after_update None [HOUR_60] a (Inr summary, db, False)
    \<and> us_updated summary = 0 \<and> (\<forall>kv \<in> set (us_details summary). failed_result kv)"
proof -
  let ?u = "update_market_data (all_fail e) (candidate_symbols (ra_market_symbols a) db) [HOUR_60] db"
  have u: "up_db ?u = db" "\<not> up_broken ?u" "\<forall>kv \<in> set (up_results ?u). failed_result kv"
    using failed_update [of e "candidate_symbols (ra_market_symbols a) db" "[HOUR_60]" db] by auto
  then have "filter failed_result (up_results ?u) = up_results ?u" by (simp add: filter_id_conv)
  then have "us_updated (summary_of (up_results ?u)) = 0" "us_details (summary_of (up_results ?u)) = up_results ?u"
    by (simp_all add: summary_of_def Let_def)
  moreover have "run_update_market_data futu [HOUR_60] a db = (Inr (summary_of (up_results ?u)), db, False)"
    using assms u by (simp add: run_update_market_data_def Let_def)
  ultimately show ?thesis using u(3) unfolding run_60m_def by metis
qed

section \<open>Witnesses\<close>

definition sample_args :: run_args where
  "sample_args = \<lparr>ra_market_symbols = [''SPY''], ra_use_mock = False, ra_run_id = ''run'', ra_today = 4, ra_now = days 4\<rparr>"


theorem pipeline_leaves_consistent_view_witness:
  "\<exists>r db'. run_pipeline sample_args pool_store = (Inr r, db') \<and> rc_S (po_battle_pool r) \<le> 3
     \<and> state_of ''AA'' db' \<noteq> None"
proof -
  have "is_ok (fst (run_scan_structures sample_args pool_store))" by code_simp
  then obtain r db' where r: "run_pipeline sample_args pool_store = (Inr r, db')"
    using pipeline_ok_iff [of sample_args pool_store] is_ok_Inr [of "fst (run_pipeline sample_args pool_store)"] by (metis prod.collapse)
  have start: "distinct (map bp_symbol (battle_items pool_store))" "distinct (map pl_id (plans pool_store))"
    "events_ok (structure_events pool_store)" by code_simp+
  have "''AA'' \<in> set (candidate_symbols [] pool_store)" by code_simp
  then have "''AA'' \<in> set (candidate_symbols [] db')" using pipeline_candidates [OF start(3) r] by simp
  moreover note ok = pipeline_leaves_consistent_view [OF start r]
  ultimately have "state_of ''AA'' db' \<noteq> None" by blast
  with ok r show ?thesis by blast
qed

definition offline :: provider where
  "offline = (mock_provider [])\<lparr>pv_klines := all_fail (OtherError ''offline'')\<rparr>"

theorem run_survives_failed_source_witness:
  "\<exists>summary. run_60m offline sample_args pool_store = run_after_update None [HOUR_60] sample_args (Inr summary, pool_store, False)
    \<and> us_updated summary = 0"
proof -
  have "pv_klines (get_provider sample_args offline) = all_fail (OtherError ''offline'')"
    by (simp add: get_provider_def sample_args_def offline_def)
  moreover have "length (candidate_symbols (ra_market_symbols sample_args) pool_store) \<noteq> length (ra_market_symbols sample_args)" by code_simp
  ultimately show ?thesis using run_survives_failed_source by blast
qed

end
