(* ===== verification/Task_Runner.thy ===== *)
theory Task_Runner
  imports Prelude
begin

text \<open>
  app/services/task_runner.py and app/services/pipeline_lock.py: the background tasks of the web
  application, of which one may be unfinished at a time, and the lock file that keeps the pipelines
  of different processes apart.

  A task is started by a request thread and run by the single worker thread of a pool. Every access
  to the table of tasks holds a lock, so an access is one step; a start takes two steps, as the pool
  is called after the lock was released. The function of a task is arbitrary: it reports progress any
  number of times and returns or raises. Ids are fresh (uuid4), the result is a type parameter.
\<close>

definition zh_task_busy_a :: string where "zh_task_busy_a = utf8 [20219, 21153, 8220]" \<comment> \<open>the task named\<close>
definition zh_task_busy_b :: string where \<comment> \<open>is running, wait for it to finish\<close>
  "zh_task_busy_b = utf8 [8221, 27491, 22312, 25191, 34892, 65292, 35831, 31561, 24453, 23436, 25104]"
definition zh_task_waiting :: string where "zh_task_waiting = utf8 [31561, 24453, 25191, 34892]" \<comment> \<open>waiting\<close>
definition zh_task_begun :: string where "zh_task_begun = utf8 [20219, 21153, 24050, 24320, 22987]" \<comment> \<open>task started\<close>
definition zh_task_done :: string where "zh_task_done = utf8 [20219, 21153, 25191, 34892, 23436, 25104]" \<comment> \<open>task done\<close>
definition zh_task_failed :: string where "zh_task_failed = utf8 [20219, 21153, 25191, 34892, 22833, 36133]" \<comment> \<open>task failed\<close>
definition zh_no_lock :: string where \<comment> \<open>the lock file cannot be created\<close>
  "zh_no_lock = utf8 [26080, 27861, 21019, 24314, 20219, 21153, 20114, 26021, 38145]"
definition zh_pipeline_busy :: string where \<comment> \<open>a pipeline is running already, this one is skipped\<close>
  "zh_pipeline_busy = utf8 [24050, 26377, 34892, 24773, 25110, 25195, 25551, 20219, 21153, 27491, 22312, 36816, 34892, 65292,
     26412, 27425, 20219, 21153, 24050, 36339, 36807]"

section \<open>Tasks\<close>

datatype task_status = TASK_PENDING | TASK_RUNNING | TASK_SUCCEEDED | TASK_FAILED

record 'r task =
  tk_id :: string
  tk_name :: string
  tk_status :: task_status
  tk_current :: int
  tk_total :: int
  tk_message :: string
  tk_result :: "'r option"
  tk_error :: string
  tk_created_at :: int
  tk_updated_at :: int

text \<open>
  The table of tasks and the active id; beside them the tasks whose start has not yet reached the
  pool, the queue of the pool, and the task its worker is in.
\<close>

datatype worker = Free | Taken string | Working string

record 'r runner =
  rn_tasks :: "'r task list"
  rn_active :: "string option"
  rn_accepted :: "string list"
  rn_queue :: "string list"
  rn_worker :: worker

definition idle_runner :: "'r runner" where
  "idle_runner = \<lparr>rn_tasks = [], rn_active = None, rn_accepted = [], rn_queue = [], rn_worker = Free\<rparr>"

definition task_of :: "string \<Rightarrow> 'r runner \<Rightarrow> 'r task option" where
  "task_of i rn = scalar (filter (\<lambda>t. tk_id t = i) (rn_tasks rn))"

definition get_active_task :: "'r runner \<Rightarrow> 'r task option" where
  "get_active_task rn = (case rn_active rn of None \<Rightarrow> None | Some i \<Rightarrow> task_of i rn)"

definition unfinished :: "'r task \<Rightarrow> bool" where
  "unfinished t \<longleftrightarrow> tk_status t \<in> {TASK_PENDING, TASK_RUNNING}"

definition new_task :: "string \<Rightarrow> string \<Rightarrow> int \<Rightarrow> 'r task" where
  "new_task i name now = \<lparr>tk_id = i, tk_name = name, tk_status = TASK_PENDING, tk_current = 0, tk_total = 0,
     tk_message = zh_task_waiting, tk_result = None, tk_error = [], tk_created_at = now, tk_updated_at = now\<rparr>"

definition start_task :: "string \<Rightarrow> string \<Rightarrow> int \<Rightarrow> 'r runner \<Rightarrow> exn + 'r runner" where
  "start_task i name now rn =
     (case get_active_task rn of
        Some t \<Rightarrow>
          if unfinished t then Inl (RuntimeError (zh_task_busy_a @ tk_name t @ zh_task_busy_b))
          else Inr (rn\<lparr>rn_tasks := rn_tasks rn @ [new_task i name now], rn_active := Some i, rn_accepted := rn_accepted rn @ [i]\<rparr>)
      | None \<Rightarrow> Inr (rn\<lparr>rn_tasks := rn_tasks rn @ [new_task i name now], rn_active := Some i, rn_accepted := rn_accepted rn @ [i]\<rparr>))"

definition update_task :: "string \<Rightarrow> int \<Rightarrow> ('r task \<Rightarrow> 'r task) \<Rightarrow> 'r runner \<Rightarrow> 'r runner" where
  "update_task i now f rn =
     rn\<lparr>rn_tasks := map (\<lambda>t. if tk_id t = i then (f t)\<lparr>tk_updated_at := now\<rparr> else t) (rn_tasks rn)\<rparr>"

definition begin_task :: "'r task \<Rightarrow> 'r task" where
  "begin_task t = t\<lparr>tk_status := TASK_RUNNING, tk_message := zh_task_begun\<rparr>"

definition progress_task :: "int \<Rightarrow> int \<Rightarrow> string \<Rightarrow> 'r task \<Rightarrow> 'r task" where
  "progress_task current whole message t = t\<lparr>tk_current := current, tk_total := whole, tk_message := message\<rparr>"

definition succeed_task :: "'r \<Rightarrow> 'r task \<Rightarrow> 'r task" where
  "succeed_task r t = t\<lparr>tk_status := TASK_SUCCEEDED, tk_result := Some r, tk_message := zh_task_done\<rparr>"

definition fail_task :: "exn \<Rightarrow> 'r task \<Rightarrow> 'r task" where
  "fail_task e t = t\<lparr>tk_status := TASK_FAILED, tk_error := exn_str e, tk_message := zh_task_failed\<rparr>"

definition progress_pct :: "'r task \<Rightarrow> real" where
  "progress_pct t = (if tk_total t = 0 then 0 else py_round 1 (of_int (tk_current t) / of_int (tk_total t) * 100))"

text \<open>The steps of the threads.\<close>

inductive runner_step :: "'r runner \<Rightarrow> 'r runner \<Rightarrow> bool" where
  start: "i \<notin> tk_id ` set (rn_tasks rn) \<Longrightarrow> start_task i name now rn = Inr rn' \<Longrightarrow> runner_step rn rn'"
| submit: "rn_accepted rn = as @ i # bs \<Longrightarrow> runner_step rn (rn\<lparr>rn_accepted := as @ bs, rn_queue := rn_queue rn @ [i]\<rparr>)"
| fetch: "rn_worker rn = Free \<Longrightarrow> rn_queue rn = i # q \<Longrightarrow> runner_step rn (rn\<lparr>rn_queue := q, rn_worker := Taken i\<rparr>)"
| launch: "rn_worker rn = Taken i \<Longrightarrow> runner_step rn (update_task i now begin_task (rn\<lparr>rn_worker := Working i\<rparr>))"
| report: "rn_worker rn = Working i \<Longrightarrow> runner_step rn (update_task i now (progress_task c n m) rn)"
| succeed: "rn_worker rn = Working i \<Longrightarrow> runner_step rn (update_task i now (succeed_task r) (rn\<lparr>rn_worker := Free\<rparr>))"
| fail: "rn_worker rn = Working i \<Longrightarrow> runner_step rn (update_task i now (fail_task e) (rn\<lparr>rn_worker := Free\<rparr>))"

inductive_cases runner_stepE: "runner_step rn rn'"

definition reachable_runner :: "'r runner \<Rightarrow> bool" where
  "reachable_runner rn \<longleftrightarrow> runner_step\<^sup>*\<^sup>* idle_runner rn"

section \<open>The lock\<close>

text \<open>
  The file system as the lock sees it: the lock files with the identity of each (a file that was
  removed and made anew is another file), and which process holds the lock of which file. A process
  takes the first path it can open; whether it can is a parameter of the process.
\<close>

definition LOCK_PATHS :: "string list" where
  "LOCK_PATHS = [''/run/headachetrade/pipeline.lock'', ''/tmp/headachetrade-pipeline.lock'']"

record lock_files =
  lf_files :: "(string \<times> nat) list"
  lf_next :: nat
  lf_held :: "(nat \<times> nat) list"

definition open_lock :: "string \<Rightarrow> lock_files \<Rightarrow> nat \<times> lock_files" where
  "open_lock path fs =
     (case map_of (lf_files fs) path of
        Some f \<Rightarrow> (f, fs)
      | None \<Rightarrow> (lf_next fs, fs\<lparr>lf_files := (path, lf_next fs) # lf_files fs, lf_next := lf_next fs + 1\<rparr>))"

definition enter_pipeline :: "nat \<Rightarrow> (string \<Rightarrow> bool) \<Rightarrow> lock_files \<Rightarrow> (exn + nat) \<times> lock_files" where
  "enter_pipeline process can_open fs =
     (case scalar (filter can_open LOCK_PATHS) of
        None \<Rightarrow> (Inl (RuntimeError zh_no_lock), fs)
      | Some path \<Rightarrow>
          (let (f, fs1) = open_lock path fs
           in if f \<in> fst ` set (lf_held fs1) then (Inl (RuntimeError zh_pipeline_busy), fs1)
              else (Inr f, fs1\<lparr>lf_held := (f, process) # lf_held fs1\<rparr>)))"

definition leave_pipeline :: "nat \<Rightarrow> nat \<Rightarrow> lock_files \<Rightarrow> lock_files" where
  "leave_pipeline process f fs = fs\<lparr>lf_held := filter (\<lambda>h. h \<noteq> (f, process)) (lf_held fs)\<rparr>"

text \<open>Every process opens paths by the same rule here; a removal of the file is a step of its own.\<close>

inductive lock_step :: "(string \<Rightarrow> bool) \<Rightarrow> lock_files \<Rightarrow> lock_files \<Rightarrow> bool" for can_open where
  enter: "enter_pipeline process can_open fs = (res, fs') \<Longrightarrow> lock_step can_open fs fs'"
| leave: "(f, process) \<in> set (lf_held fs) \<Longrightarrow> lock_step can_open fs (leave_pipeline process f fs)"

definition no_lock_files :: lock_files where
  "no_lock_files = \<lparr>lf_files = [], lf_next = 0, lf_held = []\<rparr>"

definition remove_lock_file :: "string \<Rightarrow> lock_files \<Rightarrow> lock_files" where
  "remove_lock_file path fs = fs\<lparr>lf_files := filter (\<lambda>x. fst x \<noteq> path) (lf_files fs)\<rparr>"

section \<open>Lemmas: one unfinished task\<close>

text \<open>
  Where a task is: accepted, queued or in the hands of the worker. An unfinished task is the active
  one and is in exactly one of these places.
\<close>

definition in_worker :: "'r runner \<Rightarrow> string list" where
  "in_worker rn = (case rn_worker rn of Free \<Rightarrow> [] | Taken i \<Rightarrow> [i] | Working i \<Rightarrow> [i])"

definition pipeline :: "'r runner \<Rightarrow> string list" where
  "pipeline rn = rn_accepted rn @ rn_queue rn @ in_worker rn"

definition runner_ok :: "'r runner \<Rightarrow> bool" where
  "runner_ok rn \<longleftrightarrow> distinct (map tk_id (rn_tasks rn))
     \<and> (case pipeline rn of
          [] \<Rightarrow> (\<forall>t \<in> set (rn_tasks rn). \<not> unfinished t)
        | [i] \<Rightarrow> rn_active rn = Some i \<and> (\<exists>t \<in> set (rn_tasks rn). tk_id t = i)
            \<and> (\<forall>t \<in> set (rn_tasks rn). unfinished t \<longleftrightarrow> tk_id t = i)
            \<and> (\<forall>t \<in> set (rn_tasks rn). tk_id t = i \<longrightarrow> (tk_status t = TASK_RUNNING \<longleftrightarrow> rn_worker rn = Working i))
        | _ \<Rightarrow> False)"


lemma runner_ok_pipeline:
  assumes "runner_ok rn" "i \<in> set (pipeline rn)"
  shows "pipeline rn = [i]"
proof (cases "pipeline rn")
  case (Cons j js)
  then show ?thesis using assms by (cases js) (auto simp: runner_ok_def)
qed (use assms in simp)

lemma runner_ok_busyD:
  assumes "runner_ok rn" "pipeline rn = [i]"
  shows "distinct (map tk_id (rn_tasks rn))" "rn_active rn = Some i" "\<exists>t \<in> set (rn_tasks rn). tk_id t = i"
    "\<And>t. t \<in> set (rn_tasks rn) \<Longrightarrow> unfinished t \<longleftrightarrow> tk_id t = i"
    "\<And>t. t \<in> set (rn_tasks rn) \<Longrightarrow> tk_id t = i \<Longrightarrow> tk_status t = TASK_RUNNING \<longleftrightarrow> rn_worker rn = Working i"
  using assms by (auto simp: runner_ok_def)

lemma runner_ok_idleD:
  "runner_ok rn \<Longrightarrow> pipeline rn = [] \<Longrightarrow> distinct (map tk_id (rn_tasks rn)) \<and> (\<forall>t \<in> set (rn_tasks rn). \<not> unfinished t)"
  by (simp add: runner_ok_def)

lemma task_of_member:
  assumes "distinct (map tk_id (rn_tasks rn))" "t \<in> set (rn_tasks rn)"
  shows "task_of (tk_id t) rn = Some t"
proof -
  obtain u where u: "task_of (tk_id t) rn = Some u"
    using assms(2) by (cases "filter (\<lambda>s. tk_id s = tk_id t) (rn_tasks rn)") (auto simp: task_of_def filter_empty_conv)
  then have "u \<in> set (rn_tasks rn)" "tk_id u = tk_id t" unfolding task_of_def by (auto dest: scalar_filter_SomeD)
  then show ?thesis using assms u by (metis distinct_map inj_onD)
qed

lemma start_task_iff:
  assumes "runner_ok rn"
  shows "is_ok (start_task i name now rn) \<longleftrightarrow> (\<forall>t \<in> set (rn_tasks rn). \<not> unfinished t)"
proof (cases "pipeline rn = []")
  case True
  then have none: "\<forall>t \<in> set (rn_tasks rn). \<not> unfinished t" using assms runner_ok_idleD by blast
  have "t \<in> set (rn_tasks rn)" if "get_active_task rn = Some t" for t
    using that by (auto simp: get_active_task_def task_of_def split: option.splits dest: scalar_filter_SomeD)
  then show ?thesis using none by (auto simp: start_task_def is_ok_def split: option.splits)
next
  case False
  then obtain j where "j \<in> set (pipeline rn)" by (cases "pipeline rn") auto
  then have busy: "pipeline rn = [j]" by (rule runner_ok_pipeline [OF assms])
  note D = runner_ok_busyD [OF assms busy]
  obtain t where t: "t \<in> set (rn_tasks rn)" "tk_id t = j" using D(3) by blast
  then have "get_active_task rn = Some t" using D(2) task_of_member [OF D(1) t(1)] by (simp add: get_active_task_def)
  then show ?thesis using D(4) [OF t(1)] t by (auto simp: start_task_def is_ok_def)
qed

lemma update_task_sel [simp]:
  "rn_active (update_task i now f rn) = rn_active rn"
  "rn_accepted (update_task i now f rn) = rn_accepted rn"
  "rn_queue (update_task i now f rn) = rn_queue rn"
  "rn_worker (update_task i now f rn) = rn_worker rn"
  "pipeline (update_task i now f rn) = pipeline rn"
  by (simp_all add: update_task_def pipeline_def in_worker_def)

text \<open>An update of the task in the hands of the worker.\<close>

lemma update_task_tasks:
  assumes "\<And>t. tk_id (f t) = tk_id t"
  shows "map tk_id (rn_tasks (update_task i now f rn)) = map tk_id (rn_tasks rn)"
  by (simp add: update_task_def comp_def assms cong: if_cong)

lemma worker_update_ok:
  assumes "runner_ok rn" "rn_worker rn \<in> {Taken i, Working i}" "w \<in> {Free, Working i}"
    and "\<And>t. tk_id (f t) = tk_id t" "\<And>t. tk_status t = TASK_RUNNING \<or> rn_worker rn = Taken i \<Longrightarrow> tk_status (f t) \<noteq> TASK_PENDING"
    and "\<And>t. tk_status t = TASK_RUNNING \<or> rn_worker rn = Taken i \<Longrightarrow> tk_status (f t) = TASK_RUNNING \<longleftrightarrow> w = Working i"
  shows "runner_ok (update_task i now f (rn\<lparr>rn_worker := w\<rparr>))"
proof -
  let ?rn = "update_task i now f (rn\<lparr>rn_worker := w\<rparr>)"
  have "i \<in> set (pipeline rn)" using assms(2) by (auto simp: pipeline_def in_worker_def)
  then have busy: "pipeline rn = [i]" by (rule runner_ok_pipeline [OF assms(1)])
  note D = runner_ok_busyD [OF assms(1) busy]
  have alone: "rn_accepted rn = []" "rn_queue rn = []" using busy assms(2)
    by (auto simp: pipeline_def in_worker_def append_eq_Cons_conv)
  have ids: "map tk_id (rn_tasks ?rn) = map tk_id (rn_tasks rn)" using update_task_tasks [OF assms(4), of i now "rn\<lparr>rn_worker := w\<rparr>"] by simp
  have tasks: "rn_tasks ?rn = map (\<lambda>t. if tk_id t = i then (f t)\<lparr>tk_updated_at := now\<rparr> else t) (rn_tasks rn)" by (simp add: update_task_def)
  have running: "tk_status t = TASK_RUNNING \<or> rn_worker rn = Taken i" if "t \<in> set (rn_tasks rn)" "tk_id t = i" for t
    using that D(5) assms(2) by auto
  have now: "unfinished t \<longleftrightarrow> tk_id t = i \<and> w = Working i" "tk_id t = i \<Longrightarrow> tk_status t = TASK_RUNNING \<longleftrightarrow> w = Working i"
    if tt: "t \<in> set (rn_tasks ?rn)" for t
  proof -
    obtain u where u: "u \<in> set (rn_tasks rn)" "t = (if tk_id u = i then (f u)\<lparr>tk_updated_at := now\<rparr> else u)"
      using tt unfolding tasks by auto
    show "unfinished t \<longleftrightarrow> tk_id t = i \<and> w = Working i"
      using u D(4) [OF u(1)] assms(4) running [OF u(1)] assms(5,6) [of u] by (auto simp: unfinished_def)
    show "tk_id t = i \<Longrightarrow> tk_status t = TASK_RUNNING \<longleftrightarrow> w = Working i"
      using u assms(4) running [OF u(1)] assms(6) [of u] by (auto split: if_splits)
  qed
  show ?thesis
  proof (cases "w = Free")
    case True
    then have "pipeline ?rn = []" using alone by (simp add: pipeline_def in_worker_def)
    then show ?thesis using D(1) ids now(1) True by (simp add: runner_ok_def)
  next
    case False
    then have w: "w = Working i" using assms(3) by simp
    then have "pipeline ?rn = [i]" using alone by (simp add: pipeline_def in_worker_def)
    moreover have "\<exists>t \<in> set (rn_tasks ?rn). tk_id t = i" using D(3) ids by (metis (mono_tags, lifting) image_iff list.set_map)
    ultimately show ?thesis using D(1,2) ids now w by (simp add: runner_ok_def)
  qed
qed

lemma moved_ok:
  assumes "runner_ok rn" "pipeline rn' = pipeline rn" "rn_tasks rn' = rn_tasks rn" "rn_active rn' = rn_active rn"
    and "rn_worker rn = Free" "rn_worker rn' \<in> {Free, Taken i}"
  shows "runner_ok rn'"
  using assms by (auto simp: runner_ok_def split: list.splits)

lemma new_task_sel [simp]: "tk_id (new_task i name now) = i" "tk_status (new_task i name now) = TASK_PENDING"
  by (simp_all add: new_task_def)

lemma start_ok:
  assumes "runner_ok rn" "i \<notin> tk_id ` set (rn_tasks rn)" "start_task i name now rn = Inr rn'"
  shows "runner_ok rn'"
proof -
  have none: "\<forall>t \<in> set (rn_tasks rn). \<not> unfinished t" using start_task_iff [OF assms(1), of i name now] assms(3) by (simp add: is_ok_def)
  have idle: "pipeline rn = []"
  proof (rule ccontr)
    assume "pipeline rn \<noteq> []"
    then obtain j where "j \<in> set (pipeline rn)" by (cases "pipeline rn") auto
    then have "pipeline rn = [j]" by (rule runner_ok_pipeline [OF assms(1)])
    then show False using runner_ok_busyD(3,4) [OF assms(1)] none by blast
  qed
  have rn': "rn' = rn\<lparr>rn_tasks := rn_tasks rn @ [new_task i name now], rn_active := Some i, rn_accepted := rn_accepted rn @ [i]\<rparr>"
    using assms(3) by (auto simp: start_task_def split: option.splits if_splits)
  have pipe: "pipeline rn' = [i]" "rn_worker rn' = Free"
    using idle by (auto simp: rn' pipeline_def in_worker_def split: worker.splits)
  have "distinct (map tk_id (rn_tasks rn'))" using assms(1,2) by (auto simp: rn' runner_ok_def)
  moreover have "unfinished t \<longleftrightarrow> tk_id t = i" if "t \<in> set (rn_tasks rn')" for t
    using that none assms(2) by (auto simp: rn' unfinished_def)
  moreover have "tk_status t \<noteq> TASK_RUNNING" if "t \<in> set (rn_tasks rn')" "tk_id t = i" for t
  proof -
    have "t = new_task i name now" using that assms(2) by (auto simp: rn')
    then show ?thesis by simp
  qed
  ultimately show ?thesis using pipe by (auto simp: runner_ok_def rn')
qed

lemma runner_step_ok: "runner_step rn rn' \<Longrightarrow> runner_ok rn \<Longrightarrow> runner_ok rn'"
proof (induction rule: runner_step.induct)
  case (start i rn name now rn')
  show ?case by (rule start_ok [OF start(3,1,2)])
next
  case (submit rn as i bs)
  then have busy: "pipeline rn = [i]" by (intro runner_ok_pipeline) (simp_all add: pipeline_def)
  have "pipeline (rn\<lparr>rn_accepted := as @ bs, rn_queue := rn_queue rn @ [i]\<rparr>) = pipeline rn" "rn_worker rn = Free"
    using busy submit(1) by (auto simp: pipeline_def in_worker_def append_eq_Cons_conv split: worker.splits)
  then show ?case by (intro moved_ok [OF submit(2)]) simp_all
next
  case (fetch rn i q)
  then have busy: "pipeline rn = [i]" by (intro runner_ok_pipeline) (simp_all add: pipeline_def)
  have "pipeline (rn\<lparr>rn_queue := q, rn_worker := Taken i\<rparr>) = pipeline rn"
    using busy fetch(1,2) by (auto simp: pipeline_def in_worker_def append_eq_Cons_conv)
  then show ?case using fetch(1) by (intro moved_ok [OF fetch(3), of _ i]) simp_all
next
  case (launch rn i now)
  then show ?case by (intro worker_update_ok) (simp_all add: begin_task_def)
next
  case (report rn i now c n m)
  have "runner_ok (update_task i now (progress_task c n m) (rn\<lparr>rn_worker := Working i\<rparr>))"
    using report by (intro worker_update_ok) (auto simp: progress_task_def)
  then show ?case using report(1) by (metis runner.surjective runner.update_convs(5))
next
  case (succeed rn i now r)
  then show ?case by (intro worker_update_ok) (simp_all add: succeed_task_def)
next
  case (fail rn i now e)
  then show ?case by (intro worker_update_ok) (simp_all add: fail_task_def)
qed


lemma reachable_runner_ok: "reachable_runner rn \<Longrightarrow> runner_ok rn"
  unfolding reachable_runner_def
proof (induction rule: rtranclp_induct)
  case base
  show ?case by (simp add: runner_ok_def idle_runner_def pipeline_def in_worker_def)
next
  case (step rn rn')
  then show ?case by (blast intro: runner_step_ok)
qed

lemma one_id_one_task: "distinct (map f xs) \<Longrightarrow> length (filter (\<lambda>x. f x = k) xs) \<le> 1"
proof (induction xs)
  case (Cons x xs)
  have "filter (\<lambda>y. f y = f x) xs = []" using Cons.prems by (auto simp: filter_empty_conv image_iff)
  then show ?case using Cons by auto
qed simp

lemma runner_unfinished: "runner_ok rn \<Longrightarrow> length (filter unfinished (rn_tasks rn)) \<le> 1"
proof (cases "pipeline rn")
  case Nil
  assume "runner_ok rn"
  then have "filter unfinished (rn_tasks rn) = []" using runner_ok_idleD [OF _ Nil] by (simp add: filter_empty_conv)
  then show ?thesis by simp
next
  case (Cons i js)
  assume ok: "runner_ok rn"
  have busy: "pipeline rn = [i]" by (rule runner_ok_pipeline [OF ok]) (simp add: Cons)
  note D = runner_ok_busyD [OF ok busy]
  have "filter unfinished (rn_tasks rn) = filter (\<lambda>t. tk_id t = i) (rn_tasks rn)" using D(4) by (intro filter_cong) auto
  then show ?thesis using one_id_one_task [OF D(1)] by simp
qed

text \<open>The steps that bring the task to its end, from wherever it is.\<close>

definition finishes_in :: "nat \<Rightarrow> 'r runner \<Rightarrow> bool" where
  "finishes_in n rn \<longleftrightarrow> (\<exists>rn'. (runner_step ^^ n) rn rn' \<and> (\<forall>t \<in> set (rn_tasks rn'). \<not> unfinished t))"

lemma finishes_Suc: "runner_step rn rn1 \<Longrightarrow> finishes_in n rn1 \<Longrightarrow> finishes_in (Suc n) rn"
  unfolding finishes_in_def by (blast intro: relpowp_Suc_I2)

lemma finish_idle: "runner_ok rn \<Longrightarrow> pipeline rn = [] \<Longrightarrow> finishes_in 0 rn"
  unfolding finishes_in_def using runner_ok_idleD by auto

lemma finish_working:
  assumes "runner_ok rn" "rn_worker rn = Working i"
  shows "finishes_in 1 rn"
proof -
  have step: "runner_step rn (update_task i 0 (fail_task (OtherError [])) (rn\<lparr>rn_worker := Free\<rparr>))" by (rule fail [OF assms(2)])
  have "i \<in> set (pipeline rn)" using assms(2) by (simp add: pipeline_def in_worker_def)
  then have "pipeline rn = [i]" by (rule runner_ok_pipeline [OF assms(1)])
  then have "pipeline (update_task i 0 (fail_task (OtherError [])) (rn\<lparr>rn_worker := Free\<rparr>)) = []"
    using assms(2) by (auto simp: pipeline_def in_worker_def append_eq_Cons_conv)
  with finishes_Suc [OF step finish_idle [OF runner_step_ok [OF step assms(1)]]] show ?thesis by simp
qed

lemma finish_taken:
  assumes "runner_ok rn" "rn_worker rn = Taken i"
  shows "finishes_in 2 rn"
proof -
  have step: "runner_step rn (update_task i 0 begin_task (rn\<lparr>rn_worker := Working i\<rparr>))" by (rule launch [OF assms(2)])
  from finishes_Suc [OF step finish_working [OF runner_step_ok [OF step assms(1)], of i]] show ?thesis by (simp add: numeral_2_eq_2)
qed

lemma finish_queued:
  assumes "runner_ok rn" "rn_queue rn = i # q"
  shows "finishes_in 3 rn"
proof -
  have "pipeline rn = [i]" by (rule runner_ok_pipeline [OF assms(1)]) (simp add: pipeline_def assms(2))
  then have free: "rn_worker rn = Free" using assms(2) by (auto simp: pipeline_def in_worker_def append_eq_Cons_conv split: worker.splits)
  have step: "runner_step rn (rn\<lparr>rn_queue := q, rn_worker := Taken i\<rparr>)" by (rule fetch [OF free assms(2)])
  from finishes_Suc [OF step finish_taken [OF runner_step_ok [OF step assms(1)], of i]] show ?thesis by (simp add: numeral_3_eq_3 numeral_2_eq_2)
qed

lemma finish_accepted:
  assumes "runner_ok rn" "rn_accepted rn = i # js"
  shows "finishes_in 4 rn"
proof -
  have "pipeline rn = [i]" by (rule runner_ok_pipeline [OF assms(1)]) (simp add: pipeline_def assms(2))
  then have empty: "rn_queue rn = []" using assms(2) by (simp add: pipeline_def)
  have step: "runner_step rn (rn\<lparr>rn_accepted := [] @ js, rn_queue := rn_queue rn @ [i]\<rparr>)" by (rule submit) (simp add: assms(2))
  from finishes_Suc [OF step finish_queued [OF runner_step_ok [OF step assms(1)], of i "[]"]] empty show ?thesis by (simp add: eval_nat_numeral)
qed

section \<open>Lemmas: one holder of the lock\<close>

definition lock_ok :: "(string \<Rightarrow> bool) \<Rightarrow> lock_files \<Rightarrow> bool" where
  "lock_ok can_open fs \<longleftrightarrow> length (lf_held fs) \<le> 1
     \<and> (\<forall>h \<in> set (lf_held fs). \<exists>path. scalar (filter can_open LOCK_PATHS) = Some path \<and> map_of (lf_files fs) path = Some (fst h))"

lemma lock_step_ok: "lock_step can_open fs fs' \<Longrightarrow> lock_ok can_open fs \<Longrightarrow> lock_ok can_open fs'"
proof (induction rule: lock_step.induct)
  case (enter process fs res fs')
  show ?case
  proof (cases "scalar (filter can_open LOCK_PATHS)")
    case None
    then show ?thesis using enter by (simp add: enter_pipeline_def)
  next
    case (Some path)
    obtain f fs1 where f: "open_lock path fs = (f, fs1)" by fastforce
    have opened: "map_of (lf_files fs1) path = Some f" "lf_held fs1 = lf_held fs"
      using f by (auto simp: open_lock_def split: option.splits)
    show ?thesis
    proof (cases "f \<in> fst ` set (lf_held fs1)")
      case True
      then have "fs' = fs1" using enter(1) Some f by (simp add: enter_pipeline_def)
      moreover have "map_of (lf_files fs1) path = map_of (lf_files fs) path" if "map_of (lf_files fs) path \<noteq> None"
        using f that by (auto simp: open_lock_def split: option.splits)
      ultimately show ?thesis using enter(2) Some opened by (fastforce simp: lock_ok_def)
    next
      case False
      then have fs': "fs' = fs1\<lparr>lf_held := (f, process) # lf_held fs1\<rparr>" using enter(1) Some f by (simp add: enter_pipeline_def)
      have "lf_held fs = []"
      proof (rule ccontr)
        assume "lf_held fs \<noteq> []"
        then obtain h where h: "h \<in> set (lf_held fs)" by (cases "lf_held fs") auto
        then have "map_of (lf_files fs) path = Some (fst h)" using enter(2) Some by (auto simp: lock_ok_def)
        then have "f = fst h" using f by (simp add: open_lock_def)
        then show False using False opened(2) h by auto
      qed
      then show ?thesis using opened Some by (simp add: fs' lock_ok_def)
    qed
  qed
next
  case (leave f process fs)
  then have "length (filter (\<lambda>h. h \<noteq> (f, process)) (lf_held fs)) \<le> 1" by (meson le_trans length_filter_le lock_ok_def)
  then show ?case using leave by (auto simp: lock_ok_def leave_pipeline_def)
qed

section \<open>Properties\<close>

text \<open>C37. However the threads interleave, at most one background task is unfinished, and a new one is accepted
  exactly when none is: a request never starts a second task beside a waiting or running one, and is
  never refused without one.\<close>

theorem one_unfinished_task:
  assumes "reachable_runner rn"
  shows "length (filter unfinished (rn_tasks rn)) \<le> 1
    \<and> (is_ok (start_task i name now rn) \<longleftrightarrow> (\<forall>t \<in> set (rn_tasks rn). \<not> unfinished t))"
  using runner_unfinished [OF reachable_runner_ok [OF assms]] start_task_iff [OF reachable_runner_ok [OF assms]] by simp

text \<open>C38. No task is lost: from every state the threads can reach, four steps at most bring the unfinished task to
  its end, once its function returns or raises, and then a new task is accepted again.\<close>

theorem every_task_can_finish:
  assumes "reachable_runner rn"
  shows "\<exists>n \<le> 4. \<exists>rn'. (runner_step ^^ n) rn rn' \<and> (\<forall>t \<in> set (rn_tasks rn'). \<not> unfinished t)"
proof -
  note ok = reachable_runner_ok [OF assms]
  consider (accepted) i js where "rn_accepted rn = i # js" | (queued) i q where "rn_queue rn = i # q"
    | (taken) i where "rn_worker rn = Taken i" | (working) i where "rn_worker rn = Working i"
    | (idle) "pipeline rn = []"
    by (cases "rn_accepted rn"; cases "rn_queue rn"; cases "rn_worker rn") (auto simp: pipeline_def in_worker_def)
  then have "\<exists>n \<le> 4. finishes_in n rn"
  proof cases
    case accepted
    then show ?thesis using finish_accepted [OF ok] by blast
  next
    case queued
    then show ?thesis using finish_queued [OF ok queued] by (intro exI [of _ 3]) simp
  next
    case taken
    then show ?thesis using finish_taken [OF ok taken] by (intro exI [of _ 2]) simp
  next
    case working
    then show ?thesis using finish_working [OF ok working] by (intro exI [of _ 1]) simp
  next
    case idle
    then show ?thesis using finish_idle [OF ok] by (intro exI [of _ 0]) simp
  qed
  then show ?thesis by (simp add: finishes_in_def)
qed

text \<open>The lock file keeps pipelines apart: as long as all processes can open the same paths and nothing removes
  the file, at most one of them is inside.\<close>

theorem pipelines_exclude_each_other:
  assumes "(lock_step can_open)\<^sup>*\<^sup>* no_lock_files fs"
  shows "length (lf_held fs) \<le> 1"
proof -
  have "lock_ok can_open fs" using assms
  proof (induction rule: rtranclp_induct)
    case base
    show ?case by (simp add: lock_ok_def no_lock_files_def)
  next
    case (step fs fs')
    then show ?case by (blast intro: lock_step_ok)
  qed
  then show ?thesis by (simp add: lock_ok_def)
qed

text \<open>
  Both conditions are needed. Two processes of which one cannot open the first path hold two locks;
  and so do two processes when the directory of the lock file is removed in between, which the
  service manager does when one of the units sharing it stops.
\<close>

lemma different_paths_do_not_exclude:
  "length (lf_held (snd (enter_pipeline 2 (\<lambda>p. p = ''/tmp/headachetrade-pipeline.lock'')
     (snd (enter_pipeline 1 (\<lambda>_. True) no_lock_files))))) = 2"
  by code_simp

lemma removed_lock_does_not_exclude:
  "length (lf_held (snd (enter_pipeline 2 (\<lambda>_. True)
     (remove_lock_file ''/run/headachetrade/pipeline.lock'' (snd (enter_pipeline 1 (\<lambda>_. True) no_lock_files)))))) = 2"
  by code_simp

section \<open>Witnesses\<close>

definition first_started :: "int runner" where
  "first_started = \<lparr>rn_tasks = [new_task ''t1'' ''run-daily'' 0], rn_active = Some ''t1'', rn_accepted = [''t1''], rn_queue = [],
     rn_worker = Free\<rparr>"

lemma first_started_reachable: "reachable_runner first_started"
proof -
  have "start_task ''t1'' ''run-daily'' 0 (idle_runner :: int runner) = Inr first_started"
    by (simp add: start_task_def get_active_task_def idle_runner_def first_started_def)
  moreover have "''t1'' \<notin> tk_id ` set (rn_tasks (idle_runner :: int runner))" by (simp add: idle_runner_def)
  ultimately have "runner_step (idle_runner :: int runner) first_started" by (rule start [rotated])
  then show ?thesis by (simp add: reachable_runner_def)
qed

theorem one_unfinished_task_witness:
  "length (filter unfinished (rn_tasks first_started)) \<le> 1 \<and> \<not> is_ok (start_task ''t2'' ''run-60m'' 0 first_started)"
  using one_unfinished_task [OF first_started_reachable, of "''t2''" "''run-60m''" 0]
  by (auto simp: first_started_def unfinished_def)

theorem every_task_can_finish_witness:
  "\<exists>n \<le> 4. \<exists>rn'. (runner_step ^^ n) first_started rn' \<and> (\<forall>t \<in> set (rn_tasks rn'). \<not> unfinished t)"
  by (rule every_task_can_finish [OF first_started_reachable])

theorem pipelines_exclude_each_other_witness:
  "length (lf_held (snd (enter_pipeline 2 (\<lambda>_. True) (snd (enter_pipeline 1 (\<lambda>_. True) no_lock_files))))) \<le> 1"
proof (rule pipelines_exclude_each_other [where can_open = "\<lambda>_. True"])
  have "lock_step (\<lambda>_. True) fs (snd (enter_pipeline process (\<lambda>_. True) fs))" for process fs
    by (rule enter [of process _ _ "fst (enter_pipeline process (\<lambda>_. True) fs)"]) simp
  then show "(lock_step (\<lambda>_. True))\<^sup>*\<^sup>* no_lock_files (snd (enter_pipeline 2 (\<lambda>_. True) (snd (enter_pipeline 1 (\<lambda>_. True) no_lock_files))))"
    by (meson converse_rtranclp_into_rtranclp rtranclp.rtrancl_refl)
qed

end
