(* ===== verification/Freshness.thy ===== *)
theory Freshness
  imports Store Portfolio
begin

text \<open>
  app/services/freshness.py: how old the data of each part of the screen are and when they are renewed
  next. The renewals follow the wall clock of New York on weekdays; the conversion between UTC and that
  clock belongs to the time-zone database and is a parameter. A comparison of two times of the same zone
  compares their wall clocks, as Python does.
\<close>

definition zh_fx_candidates :: string where \<comment> \<open>the full scan of each day before the opening\<close>
  "zh_fx_candidates = utf8 [32654, 32929, 24320, 30424, 21069, 27599, 26085, 23436, 25972, 25195, 25551]"
definition zh_fx_structures :: string where \<comment> \<open>after each 60-minute bar\<close>
  "zh_fx_structures = utf8 [27599, 26681, 32, 54, 48, 32, 20998, 38047, 32, 75, 32, 32447, 23436, 25104, 21518, 21047, 26032]"
definition zh_fx_battle :: string where \<comment> \<open>ranked again after each 60-minute bar\<close>
  "zh_fx_battle = utf8 [27599, 26681, 32, 54, 48, 32, 20998, 38047, 32, 75, 32, 32447, 23436, 25104, 21518, 37325, 26032,
    35780, 32423]"
definition zh_fx_plans :: string where \<comment> \<open>checked every 30 seconds, structures every hour\<close>
  "zh_fx_plans = utf8 [23454, 26102, 30830, 35748, 27599, 32, 51, 48, 32, 31186, 65307, 32467, 26500, 27599, 23567, 26102,
    21047, 26032]"
definition zh_fx_loop :: string where \<comment> \<open>the trading loop\<close>
  "zh_fx_loop = utf8 [27169, 25311, 20132, 26131, 24490, 29615]"
definition zh_fx_market :: string where \<comment> \<open>a base line ten minutes before the opening, then after each 60-minute bar\<close>
  "zh_fx_market = utf8 [24320, 30424, 21069, 32, 49, 48, 32, 20998, 38047, 29983, 25104, 24403, 26085, 22522, 32447, 65307,
    20043, 21518, 27599, 26681, 32, 54, 48, 32, 20998, 38047, 32, 75, 32, 32447, 23436, 25104, 21518, 21047, 26032]"
definition zh_fx_account :: string where \<comment> \<open>the synchronisation of the account\<close>
  "zh_fx_account = utf8 [27169, 25311, 36134, 25143, 21516, 27493]"
definition zh_fx_audit :: string where \<comment> \<open>the tasks of the system and the trading loop\<close>
  "zh_fx_audit = utf8 [31995, 32479, 20219, 21153, 19982, 27169, 25311, 20132, 26131, 24490, 29615]"
definition zh_fx_journal :: string where \<comment> \<open>after a fill or a change of a position\<close>
  "zh_fx_journal = utf8 [25104, 20132, 25110, 25345, 20179, 21464, 21270, 21518, 26356, 26032]"
definition zh_fx_none :: string where \<comment> \<open>no data yet\<close>
  "zh_fx_none = utf8 [23578, 26410, 20135, 29983, 25968, 25454]"
definition zh_fx_stale :: string where \<comment> \<open>the data may be out of date\<close>
  "zh_fx_stale = utf8 [25968, 25454, 21487, 33021, 24050, 36807, 26399]"
definition zh_fx_fresh :: string where \<comment> \<open>the data are current\<close>
  "zh_fx_fresh = utf8 [25968, 25454, 22312, 26377, 25928, 26399, 20869]"

section \<open>The next renewal\<close>

text \<open>The zone: the wall clock of an instant, and the instant of a wall clock. Slots are minutes of the day.\<close>

record zone =
  zn_local :: "int \<Rightarrow> int"
  zn_utc :: "int \<Rightarrow> int"

definition HOURLY_REFRESH_TIMES :: "int list" where
  "HOURLY_REFRESH_TIMES = [10 * 60 + 35, 11 * 60 + 35, 12 * 60 + 35, 13 * 60 + 35, 14 * 60 + 35, 15 * 60 + 35, 16 * 60 + 5]"

definition MARKET_REFRESH_TIMES :: "int list" where
  "MARKET_REFRESH_TIMES = (9 * 60 + 20) # HOURLY_REFRESH_TIMES"

text \<open>The slots of a day, if it is a weekday.\<close>

definition slots_of_day :: "int list \<Rightarrow> int \<Rightarrow> int list" where
  "slots_of_day slots d = (if weekday d \<ge> 5 then [] else map (\<lambda>s. days d + minutes s) slots)"

definition next_scheduled_refresh :: "zone \<Rightarrow> int \<Rightarrow> int list \<Rightarrow> int" where
  "next_scheduled_refresh z now slots =
     (let here = zn_local z now; today = date_of here;
          later = filter (\<lambda>c. c > here) (concat (map (\<lambda>k. slots_of_day slots (today + int k)) [0..<8]))
      in case later of c # _ \<Rightarrow> zn_utc z c | [] \<Rightarrow> now + days 1)"

definition next_weekday_time :: "zone \<Rightarrow> int \<Rightarrow> int \<Rightarrow> int" where
  "next_weekday_time z now slot = next_scheduled_refresh z now [slot]"

definition next_hourly_refresh :: "zone \<Rightarrow> int \<Rightarrow> int" where
  "next_hourly_refresh z now = next_scheduled_refresh z now HOURLY_REFRESH_TIMES"

definition next_sim_refresh :: "int \<Rightarrow> int" where
  "next_sim_refresh now = now + seconds 30"

section \<open>The age of the data\<close>

record freshness =
  fx_last_at :: "int option"
  fx_next_at :: int
  fx_schedule :: string
  fx_stale :: bool
  fx_status :: string

definition freshness_of :: "int option \<Rightarrow> int \<Rightarrow> string \<Rightarrow> int \<Rightarrow> int \<Rightarrow> freshness" where
  "freshness_of last_at next_at schedule now stale_minutes =
     (let stale = (case last_at of None \<Rightarrow> True | Some t \<Rightarrow> now - t > minutes stale_minutes)
      in \<lparr>fx_last_at = last_at, fx_next_at = next_at, fx_schedule = schedule, fx_stale = stale,
          fx_status = (if last_at = None then zh_fx_none else if stale then zh_fx_stale else zh_fx_fresh)\<rparr>)"

definition latest :: "int list \<Rightarrow> int option" where
  "latest ts = (if ts = [] then None else Some (Max (set ts)))"

definition somes :: "'a option list \<Rightarrow> 'a list" where
  "somes xs = concat (map (\<lambda>x. case x of None \<Rightarrow> [] | Some y \<Rightarrow> [y]) xs)"

definition latest_plan_time :: "'z ledger_scheme \<Rightarrow> int option" where
  "latest_plan_time db = latest (somes [latest (map pl_updated_at (plans db)), latest (somes (map pl_last_validated_at (plans db)))])"

text \<open>
  The update stamps of tables whose rows are kept without one: of the candidates, structures, battle
  items and orders, and of the orders that were filled at least in part.
\<close>

record stamps =
  st_candidates :: "int option"
  st_structures :: "int option"
  st_battle :: "int option"
  st_orders :: "int option"
  st_filled_orders :: "int option"

definition latest_trade_activity :: "stamps \<Rightarrow> 'z ledger_scheme \<Rightarrow> int option" where
  "latest_trade_activity st db = latest (somes [latest (map pos_updated_at (positions db)), st_filled_orders st])"

definition latest_position_sync :: "'z ledger_scheme \<Rightarrow> int option" where
  "latest_position_sync db = latest (somes [latest (map pos_updated_at (positions db)), ps_updated_at (portfolio_sync_status db)])"

text \<open>The sections of the screen in the order of the code.\<close>

definition all_contexts :: "zone \<Rightarrow> stamps \<Rightarrow> int \<Rightarrow> 'z store_scheme \<Rightarrow> (string \<times> freshness) list" where
  "all_contexts z st now db =
     [(''candidates'', freshness_of (st_candidates st) (next_weekday_time z now (8 * 60 + 45)) zh_fx_candidates now (26 * 60)),
      (''structures'', freshness_of (st_structures st) (next_hourly_refresh z now) zh_fx_structures now (20 * 60)),
      (''battle'', freshness_of (st_battle st) (next_hourly_refresh z now) zh_fx_battle now (20 * 60)),
      (''plans'', freshness_of (latest_plan_time db) (next_sim_refresh now) zh_fx_plans now 3),
      (''orders'', freshness_of (st_orders st) (next_sim_refresh now) zh_fx_loop now 3),
      (''positions'', freshness_of (latest_position_sync db) (next_sim_refresh now) zh_fx_loop now 3),
      (''market'', freshness_of (latest (map ms_updated_at (market_states db))) (next_scheduled_refresh z now MARKET_REFRESH_TIMES)
         zh_fx_market now (20 * 60)),
      (''portfolio'', freshness_of (ps_updated_at (portfolio_sync_status db)) (next_sim_refresh now) zh_fx_account now 3),
      (''audit'', freshness_of (latest (map al_created_at (audits db))) (next_sim_refresh now) zh_fx_audit now 3),
      (''journal'', freshness_of (latest_trade_activity st db) (next_sim_refresh now) zh_fx_journal now 3)]"

definition freshness_context :: "zone \<Rightarrow> stamps \<Rightarrow> string list \<Rightarrow> int \<Rightarrow> 'z store_scheme \<Rightarrow> (string \<times> freshness) list" where
  "freshness_context z st sections now db =
     filter (\<lambda>c. sections = [] \<or> fst c \<in> set sections) (all_contexts z st now db)"

section \<open>Lemmas\<close>

text \<open>A slot of the schedule: a weekday and a minute of the list.\<close>

definition is_slot :: "int list \<Rightarrow> int \<Rightarrow> bool" where
  "is_slot slots c \<longleftrightarrow> (\<exists>d s. weekday d < 5 \<and> s \<in> set slots \<and> c = days d + minutes s)"

definition day_slots_ok :: "int list \<Rightarrow> bool" where
  "day_slots_ok slots \<longleftrightarrow> slots \<noteq> [] \<and> sorted slots \<and> (\<forall>s \<in> set slots. 0 \<le> s \<and> s < 24 * 60)"

lemma date_of_slot: "0 \<le> s \<Longrightarrow> s < 24 * 60 \<Longrightarrow> date_of (days d + minutes s) = d"
  by (simp add: date_of_def days_def minutes_def seconds_def)

lemma slots_of_day_iff:
  assumes "day_slots_ok slots"
  shows "c \<in> set (slots_of_day slots d) \<longleftrightarrow> is_slot slots c \<and> date_of c = d"
proof
  assume "c \<in> set (slots_of_day slots d)"
  then obtain s where "weekday d < 5" "s \<in> set slots" "c = days d + minutes s"
    by (auto simp: slots_of_day_def split: if_splits)
  then show "is_slot slots c \<and> date_of c = d" using assms date_of_slot by (auto simp: is_slot_def day_slots_ok_def)
next
  assume "is_slot slots c \<and> date_of c = d"
  then obtain s where "weekday d < 5" "s \<in> set slots" "c = days d + minutes s"
    using assms date_of_slot by (auto simp: is_slot_def day_slots_ok_def)
  then show "c \<in> set (slots_of_day slots d)" by (auto simp: slots_of_day_def)
qed

lemma slots_of_day_sorted: "day_slots_ok slots \<Longrightarrow> sorted (slots_of_day slots d)"
  by (auto simp: slots_of_day_def day_slots_ok_def sorted_map days_def minutes_def seconds_def intro: sorted_wrt_mono_rel [rotated])

lemma date_of_mono: "a \<le> b \<Longrightarrow> date_of a \<le> date_of b"
  by (simp add: date_of_def zdiv_mono1)

lemma week_sorted:
  assumes "day_slots_ok slots"
  shows "sorted (concat (map (\<lambda>k. slots_of_day slots (today + int k)) [i..<j]))"
proof (induction "j - i" arbitrary: i)
  case (Suc n)
  then have ij: "[i..<j] = i # [Suc i..<j]" by (simp add: upt_conv_Cons)
  have rest: "sorted (concat (map (\<lambda>k. slots_of_day slots (today + int k)) [Suc i..<j]))" using Suc by simp
  have "x \<le> y" if "x \<in> set (slots_of_day slots (today + int i))"
    "y \<in> set (concat (map (\<lambda>k. slots_of_day slots (today + int k)) [Suc i..<j]))" for x y
  proof -
    have "date_of x < date_of y" using that assms by (auto simp: slots_of_day_iff)
    then show ?thesis using date_of_mono [of y x] by linarith
  qed
  then show ?case using slots_of_day_sorted [OF assms] rest by (simp add: ij sorted_append)
qed simp

text \<open>Within eight days there is a weekday after today.\<close>

lemma weekday_ahead: "\<exists>k \<in> {1..7}. weekday (d + k) < 5"
proof (cases "weekday (d + 1) < 5")
  case False
  have "weekday (d + 3) < 5" using False by (simp add: weekday_def) presburger
  then show ?thesis by (intro bexI [of _ 3]) auto
qed (intro bexI [of _ 1], auto)

lemma next_slot:
  assumes "day_slots_ok slots"
  shows "\<exists>c. next_scheduled_refresh z now slots = zn_utc z c \<and> is_slot slots c \<and> zn_local z now < c
    \<and> (\<forall>c'. is_slot slots c' \<and> zn_local z now < c' \<longrightarrow> c \<le> c')"
proof -
  let ?here = "zn_local z now" and ?week = "concat (map (\<lambda>k. slots_of_day slots (date_of (zn_local z now) + int k)) [0..<8])"
  let ?later = "filter (\<lambda>c. c > ?here) ?week"
  obtain k where k: "k \<in> {1..7}" "weekday (date_of ?here + k) < 5" using weekday_ahead by blast
  obtain s where s: "s \<in> set slots" "0 \<le> s" "s < 24 * 60" using assms by (cases slots) (auto simp: day_slots_ok_def)
  define far where "far = days (date_of ?here + k) + minutes s"
  have far: "is_slot slots far" "date_of far = date_of ?here + k"
    using k(2) s by (auto simp: is_slot_def far_def date_of_slot)
  have week: "c \<in> set ?week \<longleftrightarrow> is_slot slots c \<and> date_of ?here \<le> date_of c \<and> date_of c \<le> date_of ?here + 7" for c
  proof -
    have "c \<in> set ?week \<longleftrightarrow> is_slot slots c \<and> (\<exists>n < 8. date_of c = date_of ?here + int n)"
      by (auto simp: slots_of_day_iff [OF assms])
    also have "(\<exists>n < 8. date_of c = date_of ?here + int n) \<longleftrightarrow> date_of ?here \<le> date_of c \<and> date_of c \<le> date_of ?here + 7"
      by (auto intro: exI [of _ "nat (date_of c - date_of ?here)"])
    finally show ?thesis .
  qed
  have "far > ?here" using far(2) k(1) date_of_mono [of far ?here] by force
  then have "far \<in> set ?later" using far k(1) week by auto
  then obtain c cs where c: "?later = c # cs" by (cases ?later) auto
  have "c \<in> set ?later" unfolding c by simp
  then have cc: "is_slot slots c" "?here < c" using week by auto
  have "sorted ?later" using sorted_filter [of id ?week] week_sorted [OF assms] by simp
  then have first: "\<forall>x \<in> set ?later. c \<le> x" unfolding c by simp
  have "c \<le> c'" if "is_slot slots c'" "?here < c'" for c'
  proof (cases "date_of c' \<le> date_of ?here + 7")
    case True
    then have "c' \<in> set ?later" using that week date_of_mono [of ?here c'] by simp
    then show ?thesis using first by blast
  next
    case False
    then have "\<not> date_of c' \<le> date_of far" using far(2) k(1) by simp
    then have "far < c'" using date_of_mono [of c' far] by force
    then show ?thesis using first \<open>far \<in> set ?later\<close> by force
  qed
  moreover have "next_scheduled_refresh z now slots = zn_utc z c"
    unfolding next_scheduled_refresh_def Let_def c by simp
  ultimately show ?thesis using cc by blast
qed

lemma schedules_ok: "day_slots_ok HOURLY_REFRESH_TIMES" "day_slots_ok MARKET_REFRESH_TIMES" "day_slots_ok [8 * 60 + 45]"
  by (simp_all add: day_slots_ok_def HOURLY_REFRESH_TIMES_def MARKET_REFRESH_TIMES_def)

section \<open>Properties\<close>

text \<open>The daylight the conversion has to keep: a slot that lies ahead on the wall clock lies ahead in time, slots keep their
  order, and a slot's instant has its wall clock. It holds for every zone whose clock is never set back over a slot.\<close>

definition zone_ok :: "zone \<Rightarrow> int list \<Rightarrow> bool" where
  "zone_ok z slots \<longleftrightarrow> (\<forall>c. is_slot slots c \<longrightarrow> zn_local z (zn_utc z c) = c \<and> (\<forall>t. zn_local z t < c \<longrightarrow> t < zn_utc z c))"

text \<open>The renewal that is announced is the next one of the schedule: it lies ahead, falls on a weekday at one of the
  minutes of the list by the clock of New York, and no slot lies between now and it.\<close>

theorem next_refresh_is_the_next_slot:
  assumes "slots \<in> {HOURLY_REFRESH_TIMES, MARKET_REFRESH_TIMES, [8 * 60 + 45]}" "zone_ok z slots"
    "next_at = next_scheduled_refresh z now slots"
  shows "now < next_at \<and> is_slot slots (zn_local z next_at)
    \<and> (\<forall>c. is_slot slots c \<and> zn_local z now < c \<longrightarrow> zn_local z next_at \<le> c)"
proof -
  have "day_slots_ok slots" using assms(1) schedules_ok by auto
  then obtain c where c: "next_at = zn_utc z c" "is_slot slots c" "zn_local z now < c" "\<forall>c'. is_slot slots c' \<and> zn_local z now < c' \<longrightarrow> c \<le> c'"
    using next_slot unfolding assms(3) by blast
  then show ?thesis using assms(2) by (simp add: zone_ok_def)
qed

section \<open>Witnesses\<close>

text \<open>New York in winter; a Friday evening, whose next hourly renewal is the one of Monday at 10:35.\<close>

definition winter :: zone where
  "winter = \<lparr>zn_local = \<lambda>t. t - minutes 300, zn_utc = \<lambda>t. t + minutes 300\<rparr>"

theorem next_refresh_is_the_next_slot_witness:
  "next_scheduled_refresh winter (days 1 + minutes 1320) HOURLY_REFRESH_TIMES = days 4 + minutes (10 * 60 + 35 + 300)
   \<and> days 1 + minutes 1320 < next_scheduled_refresh winter (days 1 + minutes 1320) HOURLY_REFRESH_TIMES"
proof -
  have "zone_ok winter HOURLY_REFRESH_TIMES" by (simp add: zone_ok_def winter_def)
  then have "days 1 + minutes 1320 < next_scheduled_refresh winter (days 1 + minutes 1320) HOURLY_REFRESH_TIMES"
    using next_refresh_is_the_next_slot [of HOURLY_REFRESH_TIMES winter _ "days 1 + minutes 1320"] by simp
  moreover have "next_scheduled_refresh winter (days 1 + minutes 1320) HOURLY_REFRESH_TIMES = days 4 + minutes (10 * 60 + 35 + 300)"
    by code_simp
  ultimately show ?thesis by simp
qed

end
