(* ===== verification/Risk_Control.thy ===== *)
theory Risk_Control
  imports Rules_Approval
begin

text \<open>
  app/services/risk_control.py: the risk settings that a user changes on the page. They are stored as
  one JSON text in system_configs and laid over the settings of the server; a text that does not parse
  counts as none. The page shows whether an entry would be allowed at all, and why not.
\<close>

definition zh_rc_risk :: string where \<comment> \<open>the risk per trade must be above 0 and at most 5%\<close>
  "zh_rc_risk = utf8 [21333, 31508, 39118, 38505, 24517, 39035, 22823, 20110, 32, 48, 32, 19988, 19981, 24471, 36229, 36807,
    32, 53, 37]"
definition zh_rc_positions :: string where \<comment> \<open>the number of positions must be 1 to 10\<close>
  "zh_rc_positions = utf8 [26368, 22823, 25345, 20179, 25968, 24517, 39035, 22312, 32, 49, 8211, 49, 48, 32, 20043, 38388]"
definition zh_rc_symbol :: string where \<comment> \<open>the share per symbol must be between 0 and 100%\<close>
  "zh_rc_symbol = utf8 [21333, 32929, 26368, 22823, 20179, 20301, 24517, 39035, 22312, 32, 48, 8211, 49, 48, 48, 37, 32, 20043,
    38388]"
definition zh_rc_trades :: string where \<comment> \<open>the number of new trades a day must be 1 to 20\<close>
  "zh_rc_trades = utf8 [27599, 26085, 26368, 22823, 26032, 24320, 20179, 25968, 24517, 39035, 22312, 32, 49, 8211, 50, 48, 32,
    20043, 38388]"
definition zh_rc_loss :: string where \<comment> \<open>the daily loss limit must be between 0 and 10%\<close>
  "zh_rc_loss = utf8 [27599, 26085, 20111, 25439, 20572, 27490, 32447, 24517, 39035, 22312, 32, 48, 8211, 49, 48, 37, 32,
    20043, 38388]"
definition zh_rc_manual :: string where \<comment> \<open>the user changed the risk settings\<close>
  "zh_rc_manual = utf8 [29992, 25143, 25163, 21160, 20462, 25913, 39118, 25511, 37197, 32622]"
definition zh_rc_no_equity :: string where \<comment> \<open>no fresh equity of the simulated account\<close>
  "zh_rc_no_equity = utf8 [26080, 27861, 35835, 21462, 26032, 40092, 30340, 32, 70, 117, 116, 117, 32, 27169, 25311, 36134,
    25143, 26435, 30410]"
definition zh_rc_sim_off :: string where \<comment> \<open>simulated trading is switched off\<close>
  "zh_rc_sim_off = utf8 [27169, 25311, 20132, 26131, 24635, 24320, 20851, 20851, 38381]"
definition zh_rc_full :: string where \<comment> \<open>the limit of positions is reached\<close>
  "zh_rc_full = utf8 [24050, 36798, 21040, 26368, 22823, 25345, 20179, 25968]"
definition zh_rc_day_full :: string where \<comment> \<open>the limit of new trades today is reached\<close>
  "zh_rc_day_full = utf8 [24050, 36798, 21040, 20170, 26085, 26368, 22823, 26032, 24320, 20179, 27425, 25968]"
definition zh_rc_runtime :: string where \<comment> \<open>set on the page\<close>
  "zh_rc_runtime = utf8 [39029, 38754, 36816, 34892, 26102, 37197, 32622]"
definition zh_rc_server :: string where \<comment> \<open>set on the server\<close>
  "zh_rc_server = utf8 [26381, 21153, 22120, 29615, 22659, 37197, 32622]"
definition zh_rc_danger :: string where "zh_rc_danger = utf8 [21361, 38505]" \<comment> \<open>dangerous\<close>
definition zh_rc_aggressive :: string where "zh_rc_aggressive = utf8 [28608, 36827]" \<comment> \<open>aggressive\<close>
definition zh_rc_careful :: string where "zh_rc_careful = utf8 [20445, 23432]" \<comment> \<open>careful\<close>
definition zh_rc_standard :: string where "zh_rc_standard = utf8 [26631, 20934]" \<comment> \<open>standard\<close>

section \<open>The settings\<close>

text \<open>
  The ten fields. A request carries all of them with their types, and all of them are stored. The text
  is a row of system_configs beside the ledger.
\<close>

record risk_values =
  rv_risk_per_trade_pct :: real
  rv_max_positions :: int
  rv_max_symbol_position_pct :: real
  rv_max_daily_new_trades :: int
  rv_max_daily_loss_pct :: real
  rv_max_consecutive_losses :: int
  rv_force_intraday_exit :: bool
  rv_enable_overnight_hold :: bool
  rv_no_new_entry_before_minutes_after_open :: int
  rv_no_new_entry_before_close_minutes :: int

type_synonym risk_text = "risk_values stored_json option"

definition runtime_overrides :: "risk_text \<Rightarrow> risk_values option" where
  "runtime_overrides stored = (case stored of Some (JsonValue v) \<Rightarrow> Some v | _ \<Rightarrow> None)"

definition with_risk_values :: "risk_values \<Rightarrow> settings \<Rightarrow> settings" where
  "with_risk_values v st =
     st\<lparr>risk_per_trade_pct := rv_risk_per_trade_pct v, max_positions := rv_max_positions v,
        max_symbol_position_pct := rv_max_symbol_position_pct v, max_daily_new_trades := rv_max_daily_new_trades v,
        max_daily_loss_pct := rv_max_daily_loss_pct v, max_consecutive_losses := rv_max_consecutive_losses v,
        force_intraday_exit := rv_force_intraday_exit v, enable_overnight_hold := rv_enable_overnight_hold v,
        no_new_entry_before_minutes_after_open := rv_no_new_entry_before_minutes_after_open v,
        no_new_entry_before_close_minutes := rv_no_new_entry_before_close_minutes v\<rparr>"

definition effective_risk_settings :: "risk_text \<Rightarrow> settings \<Rightarrow> settings" where
  "effective_risk_settings stored st = (case runtime_overrides stored of None \<Rightarrow> st | Some v \<Rightarrow> with_risk_values v st)"

definition risk_values_of :: "settings \<Rightarrow> risk_values" where
  "risk_values_of st = \<lparr>rv_risk_per_trade_pct = risk_per_trade_pct st, rv_max_positions = max_positions st,
     rv_max_symbol_position_pct = max_symbol_position_pct st, rv_max_daily_new_trades = max_daily_new_trades st,
     rv_max_daily_loss_pct = max_daily_loss_pct st, rv_max_consecutive_losses = max_consecutive_losses st,
     rv_force_intraday_exit = force_intraday_exit st, rv_enable_overnight_hold = enable_overnight_hold st,
     rv_no_new_entry_before_minutes_after_open = no_new_entry_before_minutes_after_open st,
     rv_no_new_entry_before_close_minutes = no_new_entry_before_close_minutes st\<rparr>"

definition validate_risk :: "risk_values \<Rightarrow> exn + unit" where
  "validate_risk v =
     (if \<not> (0 < rv_risk_per_trade_pct v \<and> rv_risk_per_trade_pct v \<le> 5/100) then Inl (ValueError zh_rc_risk)
      else if \<not> (1 \<le> rv_max_positions v \<and> rv_max_positions v \<le> 10) then Inl (ValueError zh_rc_positions)
      else if \<not> (0 < rv_max_symbol_position_pct v \<and> rv_max_symbol_position_pct v \<le> 1) then Inl (ValueError zh_rc_symbol)
      else if \<not> (1 \<le> rv_max_daily_new_trades v \<and> rv_max_daily_new_trades v \<le> 20) then Inl (ValueError zh_rc_trades)
      else if \<not> (0 < rv_max_daily_loss_pct v \<and> rv_max_daily_loss_pct v \<le> 1/10) then Inl (ValueError zh_rc_loss)
      else Inr ())"

text \<open>An exception leaves the stored text and the ledger as they were.\<close>

definition update_risk_settings ::
  "risk_values \<Rightarrow> string \<Rightarrow> int \<Rightarrow> risk_text \<times> 'z ledger_scheme \<Rightarrow> (exn + risk_values) \<times> risk_text \<times> 'z ledger_scheme" where
  "update_risk_settings v reason now s =
     (case validate_risk v of
        Inl e \<Rightarrow> (Inl e, s)
      | Inr _ \<Rightarrow> (Inr v, Some (JsonValue v),
          write_audit ''RISK_CONFIG_UPDATED'' [] ''RiskConfig'' None ''SUCCESS'' (str_or reason zh_rc_manual) now (snd s)))"

definition risk_level :: "risk_values \<Rightarrow> string" where
  "risk_level v =
     (if rv_risk_per_trade_pct v > 2/100 \<or> rv_max_positions v > 5 \<or> rv_max_daily_loss_pct v > 5/100 then zh_rc_danger
      else if rv_risk_per_trade_pct v > 1/100 \<or> rv_max_symbol_position_pct v > 1/2 \<or> rv_enable_overnight_hold v then zh_rc_aggressive
      else if rv_risk_per_trade_pct v \<le> 25/10000 \<and> rv_max_positions v \<le> 1 then zh_rc_careful
      else zh_rc_standard)"

section \<open>The page\<close>

definition equity_stale :: "int \<Rightarrow> portfolio_sync \<Rightarrow> bool" where
  "equity_stale now ps = (case ps_updated_at ps of None \<Rightarrow> True | Some t \<Rightarrow> now - t > minutes 3)"

definition equity_ok :: "int \<Rightarrow> portfolio_sync \<Rightarrow> bool" where
  "equity_ok now ps \<longleftrightarrow> ps_ok ps \<and> ps_account_equity_source ps = ''FUTU_SIM_ACCOUNT'' \<and> ps_account_equity_sync_status ps = ''OK''
     \<and> ps_account_equity ps > 0 \<and> \<not> equity_stale now ps"

definition open_position_count :: "'z ledger_scheme \<Rightarrow> nat" where
  "open_position_count db = length (filter (\<lambda>p. pos_status p = POS_OPEN) (positions db))"

definition buys_of_day :: "int \<Rightarrow> 'z ledger_scheme \<Rightarrow> nat" where
  "buys_of_day now db = length (filter (\<lambda>ord. so_side ord = BUY \<and> date_of (so_submitted_at ord) = date_of now) (orders db))"

definition entry_blockers :: "settings \<Rightarrow> int \<Rightarrow> 'z ledger_scheme \<Rightarrow> string list" where
  "entry_blockers st now db =
     (if equity_ok now (portfolio_sync_status db) then [] else [zh_rc_no_equity])
     @ (if enable_sim_trading st then [] else [zh_rc_sim_off])
     @ (if int (open_position_count db) \<ge> max_positions st then [zh_rc_full] else [])
     @ (if int (buys_of_day now db) \<ge> max_daily_new_trades st then [zh_rc_day_full] else [])"

record risk_page =
  rp_equity :: real
  rp_equity_ok :: bool
  rp_equity_stale :: bool
  rp_allows_entry :: bool
  rp_blockers :: "string list"
  rp_open_positions :: nat
  rp_today_orders :: nat
  rp_effective :: risk_values
  rp_source :: string
  rp_risk_level :: string
  rp_max_loss_amount :: real
  rp_max_symbol_amount :: real
  rp_audits :: "audit_log list"

text \<open>All ten fields come from the same place.\<close>

definition risk_page_context :: "risk_text \<Rightarrow> settings \<Rightarrow> int \<Rightarrow> 'z ledger_scheme \<Rightarrow> risk_page" where
  "risk_page_context stored st now db =
     (let eff = effective_risk_settings stored st; ps = portfolio_sync_status db; blockers = entry_blockers eff now db
      in \<lparr>rp_equity = ps_account_equity ps, rp_equity_ok = equity_ok now ps, rp_equity_stale = equity_stale now ps,
          rp_allows_entry = (blockers = []), rp_blockers = blockers, rp_open_positions = open_position_count db,
          rp_today_orders = buys_of_day now db, rp_effective = risk_values_of eff,
          rp_source = (if runtime_overrides stored = None then zh_rc_server else zh_rc_runtime),
          rp_risk_level = risk_level (risk_values_of eff),
          rp_max_loss_amount = ps_account_equity ps * risk_per_trade_pct eff,
          rp_max_symbol_amount = ps_account_equity ps * max_symbol_position_pct eff,
          rp_audits = take 10 (order_desc al_created_at (filter (\<lambda>a. al_action a = ''RISK_CONFIG_UPDATED'') (audits db)))\<rparr>)"

section \<open>Lemmas\<close>

definition risk_values_ok :: "risk_values \<Rightarrow> bool" where
  "risk_values_ok v \<longleftrightarrow> 0 < rv_risk_per_trade_pct v \<and> rv_risk_per_trade_pct v \<le> 5/100 \<and> 1 \<le> rv_max_positions v \<and> rv_max_positions v \<le> 10
     \<and> 0 < rv_max_symbol_position_pct v \<and> rv_max_symbol_position_pct v \<le> 1 \<and> 1 \<le> rv_max_daily_new_trades v \<and> rv_max_daily_new_trades v \<le> 20
     \<and> 0 < rv_max_daily_loss_pct v \<and> rv_max_daily_loss_pct v \<le> 1/10"

lemma validate_risk_iff: "validate_risk v = Inr () \<longleftrightarrow> risk_values_ok v"
  by (auto simp: validate_risk_def risk_values_ok_def)

lemma risk_values_of_with [simp]: "risk_values_of (with_risk_values v st) = v"
  by (simp add: risk_values_of_def with_risk_values_def)

lemma with_keeps_switches [simp]:
  "enable_sim_trading (with_risk_values v st) = enable_sim_trading st"
  "enable_real_trading (with_risk_values v st) = enable_real_trading st"
  by (simp_all add: with_risk_values_def)

lemma with_own_values [simp]: "with_risk_values (risk_values_of st) st = st"
  by (simp add: risk_values_of_def with_risk_values_def)

text \<open>A sequence of requests, and the stored text it leaves.\<close>

fun risk_updates :: "(risk_values \<times> string \<times> int) list \<Rightarrow> risk_text \<times> 'z ledger_scheme \<Rightarrow> risk_text \<times> 'z ledger_scheme" where
  "risk_updates [] s = s"
| "risk_updates ((v, reason, now) # rs) s = risk_updates rs (snd (update_risk_settings v reason now s))"

definition stored_ok :: "risk_text \<Rightarrow> bool" where
  "stored_ok stored \<longleftrightarrow> (\<forall>v. runtime_overrides stored = Some v \<longrightarrow> risk_values_ok v)"

lemma update_result:
  "update_risk_settings v reason now s =
     (if risk_values_ok v then (Inr v, Some (JsonValue v),
        write_audit ''RISK_CONFIG_UPDATED'' [] ''RiskConfig'' None ''SUCCESS'' (str_or reason zh_rc_manual) now (snd s))
      else (case validate_risk v of Inl e \<Rightarrow> (Inl e, s) | Inr _ \<Rightarrow> (Inr v, s)))"
  using validate_risk_iff [of v] by (auto simp: update_risk_settings_def split: sum.splits)

lemma updates_stored_ok: "stored_ok (fst s) \<Longrightarrow> stored_ok (fst (risk_updates rs s))"
proof (induction rs s rule: risk_updates.induct)
  case (2 v reason now rs s)
  have "stored_ok (fst (snd (update_risk_settings v reason now s)))"
    using 2(2) by (auto simp: update_result stored_ok_def runtime_overrides_def split: sum.splits)
  then show ?case using 2(1) by simp
qed simp

section \<open>Properties\<close>

text \<open>C31. Whatever requests arrive, the settings the trading loop runs with stay within the limits: if those of the
  server are, every request that violates a limit raises and changes nothing, every other one takes
  effect as it is sent, and the switches of simulated and real trading are out of its reach.\<close>

theorem risk_settings_stay_in_limits:
  assumes "risk_values_ok (risk_values_of st)" "stored_ok (fst s)" "s' = risk_updates rs s"
  shows "risk_values_ok (risk_values_of (effective_risk_settings (fst s') st))
    \<and> enable_sim_trading (effective_risk_settings (fst s') st) = enable_sim_trading st
    \<and> enable_real_trading (effective_risk_settings (fst s') st) = enable_real_trading st
    \<and> (if risk_values_ok v
       then fst (update_risk_settings v reason now s') = Inr v
         \<and> risk_values_of (effective_risk_settings (fst (snd (update_risk_settings v reason now s'))) st) = v
       else \<not> is_ok (fst (update_risk_settings v reason now s')) \<and> snd (update_risk_settings v reason now s') = s')"
proof -
  have "stored_ok (fst s')" using updates_stored_ok [OF assms(2)] by (simp add: assms(3))
  then show ?thesis
    using assms(1) validate_risk_iff [of v]
    by (auto simp: update_result stored_ok_def effective_risk_settings_def runtime_overrides_def is_ok_def
        split: option.splits sum.splits stored_json.splits)
qed

section \<open>Witnesses\<close>

definition bold_values :: risk_values where
  "bold_values = (risk_values_of default_settings)\<lparr>rv_risk_per_trade_pct := 2/100, rv_max_positions := 3\<rparr>"

theorem risk_settings_stay_in_limits_witness:
  "risk_values_of (effective_risk_settings (fst (snd (update_risk_settings bold_values [] 0 (None, empty_ledger)))) default_settings) = bold_values
   \<and> risk_values_ok (risk_values_of (effective_risk_settings (fst (risk_updates [(bold_values, [], 0)] (None, empty_ledger))) default_settings))"
proof -
  have start: "risk_values_ok (risk_values_of default_settings)"
    by (simp add: risk_values_ok_def risk_values_of_def default_settings_def)
  have bold: "risk_values_ok bold_values"
    by (simp add: bold_values_def risk_values_ok_def risk_values_of_def default_settings_def)
  have none: "stored_ok (fst (None, empty_ledger))" by (simp add: stored_ok_def runtime_overrides_def)
  show ?thesis
    using risk_settings_stay_in_limits [OF start none, of "(None, empty_ledger)" "[]" bold_values "[]" 0]
      risk_settings_stay_in_limits [OF start none refl, of "[(bold_values, [], 0)]" bold_values "[]" 0] bold by simp
qed

section \<open>What is not checked\<close>

text \<open>
  The minutes around the opening and the close are not checked: with a negative distance to the
  opening the entry window begins before the market does.
\<close>

lemma entries_before_the_opening:
  "\<exists>v. is_ok (fst (update_risk_settings v [] 0 (None, empty_ledger)))
     \<and> entry_time_allowed (effective_risk_settings (fst (snd (update_risk_settings v [] 0 (None, empty_ledger)))) default_settings)
         (days 4 + minutes (8 * 60))"
proof -
  define v where "v = (risk_values_of default_settings)\<lparr>rv_no_new_entry_before_minutes_after_open := - 90\<rparr>"
  have "risk_values_ok v" by (simp add: v_def risk_values_ok_def risk_values_of_def default_settings_def)
  then show ?thesis
    by (intro exI [of _ v]) (simp add: update_result effective_risk_settings_def runtime_overrides_def with_risk_values_def is_ok_def
        entry_time_allowed_def v_def weekday_def date_of_def minute_of_day_def days_def minutes_def seconds_def default_settings_def risk_values_of_def)
qed

end
