(* ===== verification/Auth.thy ===== *)
theory Auth
  imports Prelude
begin

text \<open>
  app/auth.py and the authentication of app/main.py: one password for the application, a signed session
  cookie, and the check in front of every request. The hash functions, the random generator and the JSON
  library are parameters; base64 is spelt out, since the stored password and the cookie depend on it.
\<close>

definition zh_pw_set :: string where \<comment> \<open>the password is set already\<close>
  "zh_pw_set = utf8 [35775, 38382, 23494, 30721, 24050, 32463, 35774, 32622]"
definition zh_pw_short :: string where \<comment> \<open>the password needs 8 characters\<close>
  "zh_pw_short = utf8 [35775, 38382, 23494, 30721, 33267, 23569, 38656, 35201, 32, 56, 32, 20010, 23383, 31526]"
definition zh_pw_first :: string where \<comment> \<open>set a password first\<close>
  "zh_pw_first = utf8 [35831, 20808, 35774, 32622, 35775, 38382, 23494, 30721]"
definition zh_pw_login :: string where "zh_pw_login = utf8 [35831, 20808, 30331, 24405]" \<comment> \<open>log in first\<close>
definition zh_pw_wrong :: string where \<comment> \<open>the password is wrong\<close>
  "zh_pw_wrong = utf8 [35775, 38382, 23494, 30721, 19981, 27491, 30830]"

section \<open>Base64\<close>

text \<open>Strings are bytes here. The decoder is the lenient one of the standard library: it skips what is not in the alphabet.\<close>

definition B64_ALPHABET :: string where
  "B64_ALPHABET = ''ABCDEFGHIJKLMNOPQRSTUVWXYZabcdefghijklmnopqrstuvwxyz0123456789-_''"

definition b64_char :: "nat \<Rightarrow> char" where "b64_char v = B64_ALPHABET ! v"

fun b64_digits :: "nat list \<Rightarrow> nat list" where
  "b64_digits [] = []"
| "b64_digits [a] = [a div 4, (a mod 4) * 16]"
| "b64_digits [a, b] = [a div 4, (a mod 4) * 16 + b div 16, (b mod 16) * 4]"
| "b64_digits (a # b # c # r) = [a div 4, (a mod 4) * 16 + b div 16, (b mod 16) * 4 + c div 64, c mod 64] @ b64_digits r"

definition b64_padding :: "nat \<Rightarrow> string" where
  "b64_padding n = replicate ((4 - n mod 4) mod 4) (CHR ''='')"

definition urlsafe_b64encode :: "string \<Rightarrow> string" where
  "urlsafe_b64encode raw = (let ds = b64_digits (map of_char raw) in map b64_char ds @ b64_padding (length ds))"

definition b64 :: "string \<Rightarrow> string" where
  "b64 raw = rev (dropWhile (\<lambda>c. c = CHR ''='') (rev (urlsafe_b64encode raw)))"

definition b64_value :: "char \<Rightarrow> nat option" where
  "b64_value c =
     (if c = CHR ''+'' then Some 62 else if c = CHR ''/'' then Some 63
      else if c \<in> set B64_ALPHABET then Some (length (takeWhile (\<lambda>x. x \<noteq> c) B64_ALPHABET)) else None)"

text \<open>The position in the group of four, the bits left over, the padding seen, and the bytes so far.\<close>

fun a2b_base64 :: "string \<Rightarrow> nat \<Rightarrow> nat \<Rightarrow> nat \<Rightarrow> string \<Rightarrow> exn + string" where
  "a2b_base64 [] q left pads out = (if q = 0 then Inr out else Inl (ValueError ''Incorrect padding''))"
| "a2b_base64 (c # cs) q left pads out =
     (if c = CHR ''=''
      then (if q \<ge> 2 \<and> q + (pads + 1) \<ge> 4 then Inr out else a2b_base64 cs q left (if q \<ge> 2 then pads + 1 else pads) out)
      else case b64_value c of
             None \<Rightarrow> a2b_base64 cs q left pads out
           | Some v \<Rightarrow>
               if q = 0 then a2b_base64 cs 1 v 0 out
               else if q = 1 then a2b_base64 cs 2 (v mod 16) 0 (out @ [char_of (left * 4 + v div 16)])
               else if q = 2 then a2b_base64 cs 3 (v mod 4) 0 (out @ [char_of (left * 16 + v div 4)])
               else a2b_base64 cs 0 0 0 (out @ [char_of (left * 64 + v)]))"

definition is_ascii :: "string \<Rightarrow> bool" where
  "is_ascii s \<longleftrightarrow> (\<forall>c \<in> set s. (of_char c :: nat) < 128)"

definition unb64 :: "string \<Rightarrow> exn + string" where
  "unb64 raw =
     (if \<not> is_ascii raw then Inl (ValueError ''string argument should contain only ASCII characters'')
      else a2b_base64 (raw @ b64_padding (length raw)) 0 0 0 [])"

section \<open>The rows and the library\<close>

text \<open>The texts of system_configs that the authentication keeps.\<close>

type_synonym configs = "(string \<times> string) list"

definition get_value :: "string \<Rightarrow> configs \<Rightarrow> string" where
  "get_value key cfg = (case map_of cfg key of None \<Rightarrow> [] | Some v \<Rightarrow> v)"

definition set_value :: "string \<Rightarrow> string \<Rightarrow> configs \<Rightarrow> configs" where
  "set_value key v cfg = upsert fst (\<lambda>_. (key, v)) (key, v) cfg"

definition PASSWORD_HASH_KEY :: string where "PASSWORD_HASH_KEY = ''auth.password_hash''"
definition SESSION_SECRET_KEY :: string where "SESSION_SECRET_KEY = ''auth.session_secret''"
definition SESSION_VERSION_KEY :: string where "SESSION_VERSION_KEY = ''auth.session_version''"
definition PBKDF2_ITERATIONS :: int where "PBKDF2_ITERATIONS = 260000"
definition SESSION_DAYS :: int where "SESSION_DAYS = 14"

text \<open>PBKDF2 with SHA-256 of password, salt and iterations; HMAC with SHA-256 in hexadecimal of key and message; JSON of flat objects.\<close>

record crypto =
  cr_pbkdf2 :: "string \<Rightarrow> string \<Rightarrow> int \<Rightarrow> string"
  cr_hmac_hex :: "string \<Rightarrow> string \<Rightarrow> string"
  cr_json_dumps :: "row \<Rightarrow> string"
  cr_json_loads :: "string \<Rightarrow> row option"

section \<open>The password\<close>

definition password_is_configured :: "configs \<Rightarrow> bool" where
  "password_is_configured cfg \<longleftrightarrow> get_value PASSWORD_HASH_KEY cfg \<noteq> []"

text \<open>Characters, not bytes: the continuation bytes of UTF-8 do not count.\<close>

definition char_count :: "string \<Rightarrow> nat" where
  "char_count s = length (filter (\<lambda>c. (of_char c :: nat) div 64 \<noteq> 2) s)"

definition validate_password :: "string \<Rightarrow> exn + unit" where
  "validate_password pw = (if char_count pw < 8 then Inl (ValueError zh_pw_short) else Inr ())"

definition hash_password :: "crypto \<Rightarrow> string \<Rightarrow> string \<Rightarrow> string" where
  "hash_password cr salt pw =
     ''pbkdf2_sha256$'' @ str_int PBKDF2_ITERATIONS @ ''$'' @ b64 salt @ ''$'' @ b64 (cr_pbkdf2 cr pw salt PBKDF2_ITERATIONS)"

definition setup_password :: "crypto \<Rightarrow> string \<Rightarrow> string \<Rightarrow> string \<Rightarrow> configs \<Rightarrow> exn + configs" where
  "setup_password cr salt secret pw cfg =
     (if password_is_configured cfg then Inl (ValueError zh_pw_set)
      else case validate_password pw of
             Inl e \<Rightarrow> Inl e
           | Inr _ \<Rightarrow> Inr (set_value SESSION_VERSION_KEY ''1'' (set_value SESSION_SECRET_KEY secret
                       (set_value PASSWORD_HASH_KEY (hash_password cr salt pw) cfg))))"

fun split_max :: "nat \<Rightarrow> char \<Rightarrow> string \<Rightarrow> string list" where
  "split_max 0 c s = [s]"
| "split_max (Suc n) c s =
     (if c \<in> set s then takeWhile (\<lambda>x. x \<noteq> c) s # split_max n c (tl (dropWhile (\<lambda>x. x \<noteq> c) s)) else [s])"

text \<open>The number of iterations is only checked by the hash function, outside the handler of the exceptions.\<close>

definition verify_hash :: "crypto \<Rightarrow> string \<Rightarrow> string \<Rightarrow> exn + bool" where
  "verify_hash cr pw stored =
     (case split_max 3 (CHR ''$'') stored of
        [scheme, iterations_raw, salt_raw, digest_raw] \<Rightarrow>
          if scheme \<noteq> ''pbkdf2_sha256'' then Inr False
          else (case (parse_int iterations_raw, unb64 salt_raw, unb64 digest_raw) of
                  (Some iterations, Inr salt, Inr expected) \<Rightarrow>
                    if iterations < 1 then Inl (ValueError ''iteration value must be greater than 0.'')
                    else Inr (cr_pbkdf2 cr pw salt iterations = expected)
                | _ \<Rightarrow> Inr False)
      | _ \<Rightarrow> Inr False)"

definition verify_password :: "crypto \<Rightarrow> string \<Rightarrow> configs \<Rightarrow> exn + bool" where
  "verify_password cr pw cfg =
     (let stored = get_value PASSWORD_HASH_KEY cfg in if stored = [] then Inr False else verify_hash cr pw stored)"

section \<open>The session\<close>

definition session_secret :: "string \<Rightarrow> configs \<Rightarrow> string \<times> configs" where
  "session_secret fresh cfg =
     (let existing = get_value SESSION_SECRET_KEY cfg
      in if existing \<noteq> [] then (existing, cfg) else (fresh, set_value SESSION_SECRET_KEY fresh cfg))"

definition session_version :: "configs \<Rightarrow> string" where
  "session_version cfg = str_or (get_value SESSION_VERSION_KEY cfg) ''1''"

text \<open>\<open>int(t.timestamp())\<close> of a time after 1970.\<close>

definition unix_seconds :: "int \<Rightarrow> int" where
  "unix_seconds t = t div 1000000"

definition session_payload :: "string \<Rightarrow> int \<Rightarrow> string \<Rightarrow> row" where
  "session_payload version expires nonce = [(''v'', PStr version), (''exp'', PInt expires), (''nonce'', PStr nonce)]"

definition create_session_cookie :: "crypto \<Rightarrow> string \<Rightarrow> string \<Rightarrow> int \<Rightarrow> configs \<Rightarrow> string \<times> configs" where
  "create_session_cookie cr fresh nonce now cfg =
     (let (secret, cfg1) = session_secret fresh cfg;
          payload = session_payload (session_version cfg1) (unix_seconds (now + days SESSION_DAYS)) nonce;
          raw = b64 (cr_json_dumps cr payload)
      in (raw @ ''.'' @ cr_hmac_hex cr secret raw, cfg1))"

definition rsplit_dot :: "string \<Rightarrow> string \<times> string" where
  "rsplit_dot s = (rev (tl (dropWhile (\<lambda>c. c \<noteq> CHR ''.'') (rev s))), rev (takeWhile (\<lambda>c. c \<noteq> CHR ''.'') (rev s)))"

definition payload_accepted :: "crypto \<Rightarrow> int \<Rightarrow> string \<Rightarrow> string \<Rightarrow> bool" where
  "payload_accepted cr now version raw =
     (case unb64 raw of
        Inl _ \<Rightarrow> False
      | Inr text \<Rightarrow>
          (case cr_json_loads cr text of
             None \<Rightarrow> False
           | Some payload \<Rightarrow>
               py_str (row_get payload ''v'') = version
               \<and> (case py_int_of (case map_of payload ''exp'' of None \<Rightarrow> PInt 0 | Some v \<Rightarrow> v) of
                     Inl _ \<Rightarrow> False | Inr expires_at \<Rightarrow> expires_at > unix_seconds now)))"

text \<open>Comparing digests of texts that are not ASCII raises.\<close>

definition request_is_authenticated :: "crypto \<Rightarrow> string \<Rightarrow> int \<Rightarrow> string option \<Rightarrow> configs \<Rightarrow> (exn + bool) \<times> configs" where
  "request_is_authenticated cr fresh now token cfg =
     (case token of
        None \<Rightarrow> (Inr False, cfg)
      | Some tok \<Rightarrow>
          if CHR ''.'' \<notin> set tok then (Inr False, cfg)
          else (let (raw, sig) = rsplit_dot tok; (secret, cfg1) = session_secret fresh cfg
                in if \<not> is_ascii sig \<or> \<not> is_ascii (cr_hmac_hex cr secret raw)
                   then (Inl (OtherError ''comparing strings with non-ASCII characters is not supported''), cfg1)
                   else if cr_hmac_hex cr secret raw \<noteq> sig then (Inr False, cfg1)
                   else (Inr (payload_accepted cr now (session_version cfg1) raw), cfg1)))"

section \<open>In front of the routes\<close>

definition PUBLIC_PATHS :: "string list" where
  "PUBLIC_PATHS = [''/health'', ''/login'', ''/setup-password'', ''/api/auth/login'', ''/api/auth/setup-password'']"

text \<open>A request is passed on to its route, answered with a status and a message, or sent to another page.\<close>

datatype reply = Passed | Refused int string | Redirected string

definition is_public :: "string \<Rightarrow> bool" where
  "is_public path \<longleftrightarrow> starts_with ''/static/'' path \<or> path \<in> set PUBLIC_PATHS"

definition wants_json :: "string \<Rightarrow> bool" where
  "wants_json path \<longleftrightarrow> starts_with ''/api/'' path \<or> starts_with ''/tasks/'' path"

definition require_authentication :: "crypto \<Rightarrow> string \<Rightarrow> int \<Rightarrow> string \<Rightarrow> string option \<Rightarrow> configs \<Rightarrow> (exn + reply) \<times> configs" where
  "require_authentication cr fresh now path token cfg =
     (if is_public path then (Inr Passed, cfg)
      else if \<not> password_is_configured cfg
      then (Inr (if wants_json path then Refused 403 zh_pw_first else Redirected ''/setup-password''), cfg)
      else case request_is_authenticated cr fresh now token cfg of
             (Inl e, cfg1) \<Rightarrow> (Inl e, cfg1)
           | (Inr True, cfg1) \<Rightarrow> (Inr Passed, cfg1)
           | (Inr False, cfg1) \<Rightarrow> (Inr (if wants_json path then Refused 401 zh_pw_login else Redirected ''/login''), cfg1))"

datatype login_reply = Cookie string | Denied int string

definition setup_password_api :: "crypto \<Rightarrow> string \<Rightarrow> string \<Rightarrow> string \<Rightarrow> int \<Rightarrow> string \<Rightarrow> configs \<Rightarrow> login_reply \<times> configs" where
  "setup_password_api cr salt secret nonce now pw cfg =
     (case setup_password cr salt secret pw cfg of
        Inl e \<Rightarrow> (Denied 400 (exn_str e), cfg)
      | Inr cfg1 \<Rightarrow> (let (cookie, cfg2) = create_session_cookie cr secret nonce now cfg1 in (Cookie cookie, cfg2)))"

definition login_api :: "crypto \<Rightarrow> string \<Rightarrow> string \<Rightarrow> int \<Rightarrow> string \<Rightarrow> configs \<Rightarrow> (exn + login_reply) \<times> configs" where
  "login_api cr fresh nonce now pw cfg =
     (case verify_password cr pw cfg of
        Inl e \<Rightarrow> (Inl e, cfg)
      | Inr False \<Rightarrow> (Inr (Denied 401 zh_pw_wrong), cfg)
      | Inr True \<Rightarrow> (let (cookie, cfg1) = create_session_cookie cr fresh nonce now cfg in (Inr (Cookie cookie), cfg1)))"

section \<open>Lemmas: base64\<close>

lemma b64_values: "list_all (\<lambda>v. b64_value (b64_char v) = Some v \<and> b64_char v \<notin> set ''=.$'' \<and> (of_char (b64_char v) :: nat) < 128) [0..<64]"
  by code_simp

lemma b64_char_facts:
  assumes "v < 64"
  shows "b64_value (b64_char v) = Some v" "b64_char v \<noteq> CHR ''=''" "b64_char v \<noteq> CHR ''.''" "b64_char v \<noteq> CHR ''$''"
    "(of_char (b64_char v) :: nat) < 128"
proof -
  have "v \<in> set [0..<64]" using assms by simp
  then show "b64_value (b64_char v) = Some v" "b64_char v \<noteq> CHR ''=''" "b64_char v \<noteq> CHR ''.''" "b64_char v \<noteq> CHR ''$''"
    "(of_char (b64_char v) :: nat) < 128"
    using b64_values unfolding list_all_iff by (auto dest: bspec)
qed

lemma b64_digits_bound: "\<forall>x \<in> set bs. x < 256 \<Longrightarrow> \<forall>d \<in> set (b64_digits bs). d < 64"
proof (induction bs rule: b64_digits.induct)
  case (3 a b)
  have "b div 16 < 16" using 3 by (simp add: less_mult_imp_div_less)
  moreover have "a mod 4 \<le> 3" by simp
  ultimately show ?case using 3 by auto
next
  case (4 a b c r)
  have "b div 16 < 16" "c div 64 < 4" using 4(2) by (simp_all add: less_mult_imp_div_less)
  moreover have "a mod 4 \<le> 3" "b mod 16 \<le> 15" by simp_all
  ultimately have "(a mod 4) * 16 + b div 16 < 64" "(b mod 16) * 4 + c div 64 < 64" by linarith+
  then show ?case using 4 by auto
qed auto

text \<open>Decoding a group of three bytes goes on with what follows.\<close>

lemma a2b_digit:
  assumes "v < 64"
  shows "a2b_base64 (b64_char v # cs) 0 l p out = a2b_base64 cs 1 v 0 out"
    "a2b_base64 (b64_char v # cs) 1 l p out = a2b_base64 cs 2 (v mod 16) 0 (out @ [char_of (l * 4 + v div 16)])"
    "a2b_base64 (b64_char v # cs) 2 l p out = a2b_base64 cs 3 (v mod 4) 0 (out @ [char_of (l * 16 + v div 4)])"
    "a2b_base64 (b64_char v # cs) 3 l p out = a2b_base64 cs 0 0 0 (out @ [char_of (l * 64 + v)])"
  using b64_char_facts [OF assms] by simp_all

text \<open>How the digits of two and of three bytes fit together again.\<close>

lemma byte_split:
  fixes a b :: nat
  assumes "b < 16"
  shows "a div 4 * 4 + (a mod 4 * 16 + b) div 16 = a" "(a mod 4 * 16 + b) mod 16 = b"
proof -
  have "(a mod 4 * 16 + b) div 16 = a mod 4" using assms by simp
  then show "a div 4 * 4 + (a mod 4 * 16 + b) div 16 = a" by (simp only: div_mult_mod_eq)
  show "(a mod 4 * 16 + b) mod 16 = b" using assms by simp
qed

lemma byte_split2:
  fixes b c :: nat
  assumes "c < 4"
  shows "b div 16 * 16 + (b mod 16 * 4 + c) div 4 = b" "(b mod 16 * 4 + c) mod 4 = c"
proof -
  have "(b mod 16 * 4 + c) div 4 = b mod 16" using assms by simp
  then show "b div 16 * 16 + (b mod 16 * 4 + c) div 4 = b" by (simp only: div_mult_mod_eq)
  show "(b mod 16 * 4 + c) mod 4 = c" using assms by simp
qed

lemma a2b_group:
  assumes "a < 256" "b < 256" "c < 256"
  shows "a2b_base64 (map b64_char [a div 4, a mod 4 * 16 + b div 16, b mod 16 * 4 + c div 64, c mod 64] @ cs) 0 0 0 out
    = a2b_base64 cs 0 0 0 (out @ map char_of [a, b, c])"
proof -
  define d1 d2 d3 d4 where "d1 = a div 4" and "d2 = a mod 4 * 16 + b div 16" and "d3 = b mod 16 * 4 + c div 64" and "d4 = c mod 64"
  have "b div 16 < 16" "c div 64 < 4" using assms by (simp_all add: less_mult_imp_div_less)
  then have "d1 * 4 + d2 div 16 = a" "d2 mod 16 = b div 16" "b div 16 * 16 + d3 div 4 = b" "d3 mod 4 = c div 64"
    unfolding d1_def d2_def d3_def by (simp_all only: byte_split byte_split2)
  moreover have "c div 64 * 64 + d4 = c" unfolding d4_def by simp
  moreover have "\<forall>d \<in> set (b64_digits [a, b, c]). d < 64" by (rule b64_digits_bound) (use assms in simp)
  then have "d1 < 64" "d2 < 64" "d3 < 64" "d4 < 64" by (simp_all add: d1_def d2_def d3_def d4_def)
  ultimately show ?thesis
    unfolding d1_def [symmetric] d2_def [symmetric] d3_def [symmetric] d4_def [symmetric] by (simp add: a2b_digit del: a2b_base64.simps One_nat_def)
qed

lemma replicate_numeral: "replicate 2 x = [x, x]" "replicate 1 x = [x]"
  by (simp_all add: numeral_2_eq_2)

lemma a2b_padding:
  "a2b_base64 ''=='' 2 l 0 out = Inr out" "a2b_base64 ''='' 3 l 0 out = Inr out"
  by simp_all

lemma a2b_digits:
  "\<forall>x \<in> set bs. x < 256 \<Longrightarrow>
   a2b_base64 (map b64_char (b64_digits bs) @ b64_padding (length (b64_digits bs))) 0 0 0 out = Inr (out @ map char_of bs)"
proof (induction bs arbitrary: out rule: b64_digits.induct)
  case (2 a)
  define d1 d2 where "d1 = a div 4" and "d2 = a mod 4 * 16"
  have "d1 < 64" "d2 < 64" using 2 by (simp_all add: d1_def d2_def less_mult_imp_div_less)
  moreover have "d1 * 4 + d2 div 16 = a" by (simp add: d1_def d2_def)
  ultimately show ?case
    unfolding b64_digits.simps d1_def [symmetric] d2_def [symmetric] by (simp add: a2b_digit a2b_padding b64_padding_def replicate_numeral del: a2b_base64.simps One_nat_def)
next
  case (3 a b)
  define d1 d2 d3 where "d1 = a div 4" and "d2 = a mod 4 * 16 + b div 16" and "d3 = b mod 16 * 4"
  have "\<forall>d \<in> set (b64_digits [a, b]). d < 64" by (rule b64_digits_bound) (use 3 in simp)
  then have "d1 < 64" "d2 < 64" "d3 < 64" by (simp_all add: d1_def d2_def d3_def)
  moreover have "b div 16 < 16" using 3 by (simp add: less_mult_imp_div_less)
  then have "d1 * 4 + d2 div 16 = a" "d2 mod 16 = b div 16" unfolding d1_def d2_def by (simp_all only: byte_split)
  moreover have "b div 16 * 16 + d3 div 4 = b" by (simp add: d3_def)
  ultimately show ?case
    unfolding b64_digits.simps d1_def [symmetric] d2_def [symmetric] d3_def [symmetric]
    by (simp add: a2b_digit a2b_padding b64_padding_def replicate_numeral del: a2b_base64.simps One_nat_def)
next
  case (4 a b c r)
  have "b64_padding (length (b64_digits (a # b # c # r))) = b64_padding (length (b64_digits r))" by (simp add: b64_padding_def)
  then have "a2b_base64 (map b64_char (b64_digits (a # b # c # r)) @ b64_padding (length (b64_digits (a # b # c # r)))) 0 0 0 out
    = a2b_base64 (map b64_char (b64_digits r) @ b64_padding (length (b64_digits r))) 0 0 0 (out @ map char_of [a, b, c])"
    using a2b_group [of a b c _ out] 4(2) by simp
  then show ?case using 4 by simp
qed (simp add: b64_padding_def)

lemma b64_plain: "b64 bs = map b64_char (b64_digits (map of_char bs))" and b64_chars: "c \<in> set (b64 bs) \<Longrightarrow> c \<notin> set ''.$'' \<and> (of_char c :: nat) < 128"
proof -
  let ?ds = "b64_digits (map of_char bs)"
  have d: "\<forall>d \<in> set ?ds. d < 64" by (rule b64_digits_bound) simp
  then have "\<forall>c \<in> set (map b64_char ?ds). c \<noteq> CHR ''=''" using b64_char_facts(2) by auto
  then have "dropWhile (\<lambda>c. c = CHR ''='') (rev (map b64_char ?ds)) = rev (map b64_char ?ds)" by (cases "map b64_char ?ds" rule: rev_cases) auto
  moreover have "dropWhile (\<lambda>c. c = CHR ''='') (replicate n (CHR ''='') @ xs) = dropWhile (\<lambda>c. c = CHR ''='') xs" for n xs
    by (induction n) auto
  ultimately show plain: "b64 bs = map b64_char ?ds"
    by (simp add: b64_def urlsafe_b64encode_def Let_def b64_padding_def rev_map [symmetric])
  show "c \<in> set (b64 bs) \<Longrightarrow> c \<notin> set ''.$'' \<and> (of_char c :: nat) < 128"
    using d b64_char_facts(3-5) unfolding plain by auto
qed

lemma unb64_b64: "unb64 (b64 bs) = Inr bs"
proof -
  have "is_ascii (b64 bs)" using b64_chars by (auto simp: is_ascii_def)
  moreover have "a2b_base64 (b64 bs @ b64_padding (length (b64 bs))) 0 0 0 [] = Inr ([] @ map char_of (map of_char bs :: nat list))"
    unfolding b64_plain length_map by (rule a2b_digits) simp
  ultimately show ?thesis by (simp add: unb64_def comp_def)
qed

section \<open>Lemmas: stored values and texts\<close>

lemma get_set [simp]: "get_value k (set_value k v cfg) = v"
proof -
  have "map_of (map (\<lambda>y. if fst y = k then (k, v) else y) cfg) k = (if k \<in> fst ` set cfg then Some v else None)"
    by (induction cfg) auto
  then show ?thesis by (auto simp: get_value_def set_value_def upsert_def map_add_def map_of_eq_None_iff [THEN iffD2] split: option.splits)
qed

lemma get_set_other [simp]: "k \<noteq> k' \<Longrightarrow> get_value k (set_value k' v cfg) = get_value k cfg"
proof -
  assume "k \<noteq> k'"
  then have "map_of (map (\<lambda>y. if fst y = k' then (k', v) else y) cfg) k = map_of cfg k" by (induction cfg) auto
  with \<open>k \<noteq> k'\<close> show ?thesis by (simp add: get_value_def set_value_def upsert_def map_add_def split: option.splits)
qed

lemma keys_differ [simp]:
  "PASSWORD_HASH_KEY \<noteq> SESSION_SECRET_KEY" "PASSWORD_HASH_KEY \<noteq> SESSION_VERSION_KEY" "SESSION_SECRET_KEY \<noteq> SESSION_VERSION_KEY"
  "SESSION_SECRET_KEY \<noteq> PASSWORD_HASH_KEY" "SESSION_VERSION_KEY \<noteq> PASSWORD_HASH_KEY" "SESSION_VERSION_KEY \<noteq> SESSION_SECRET_KEY"
  by (simp_all add: PASSWORD_HASH_KEY_def SESSION_SECRET_KEY_def SESSION_VERSION_KEY_def)

lemma session_secret_facts:
  assumes "fresh \<noteq> []" "session_secret fresh cfg = (secret, cfg')"
  shows "session_secret fresh' cfg' = (secret, cfg')" "secret = get_value SESSION_SECRET_KEY cfg'" "secret \<noteq> []"
    "session_version cfg' = session_version cfg" "password_is_configured cfg' = password_is_configured cfg"
  using assms by (auto simp: session_secret_def Let_def session_version_def password_is_configured_def split: if_splits)

lemma takeWhile_not: "c \<notin> set s \<Longrightarrow> takeWhile (\<lambda>x. x \<noteq> c) (s @ c # t) = s"
  by (induction s) auto

lemma dropWhile_not: "c \<notin> set s \<Longrightarrow> dropWhile (\<lambda>x. x \<noteq> c) (s @ c # t) = c # t"
  by (induction s) auto

lemma rsplit_dot_join: "CHR ''.'' \<notin> set b \<Longrightarrow> rsplit_dot (a @ CHR ''.'' # b) = (a, b)"
  using takeWhile_not [of "CHR ''.''" "rev b" "rev a"] dropWhile_not [of "CHR ''.''" "rev b" "rev a"] by (simp add: rsplit_dot_def)

lemma rsplit_dot_eq:
  assumes "CHR ''.'' \<in> set s" "rsplit_dot s = (a, b)"
  shows "s = a @ CHR ''.'' # b"
proof -
  define l where "l = takeWhile (\<lambda>c. c \<noteq> CHR ''.'') (rev s)"
  define r where "r = dropWhile (\<lambda>c. c \<noteq> CHR ''.'') (rev s)"
  have "r \<noteq> []" using assms(1) by (auto simp: r_def dropWhile_eq_Nil_conv)
  moreover from this have "hd r = CHR ''.''" unfolding r_def using hd_dropWhile by blast
  ultimately have r: "r = CHR ''.'' # tl r" by (metis list.collapse)
  have "rev s = l @ r" by (simp add: l_def r_def)
  then have "rev s = l @ CHR ''.'' # tl r" using r by simp
  then have "s = rev (l @ CHR ''.'' # tl r)" by (metis rev_rev_ident)
  then show ?thesis using assms(2) by (simp add: rsplit_dot_def l_def r_def)
qed

lemma split_max_join: "c \<notin> set s \<Longrightarrow> split_max (Suc n) c (s @ c # t) = s # split_max n c t"
  using takeWhile_not [of c s t] dropWhile_not [of c s t] by simp

lemma split_hash: "split_max 3 (CHR ''$'') (hash_password cr salt pw)
   = [''pbkdf2_sha256'', str_int PBKDF2_ITERATIONS, b64 salt, b64 (cr_pbkdf2 cr pw salt PBKDF2_ITERATIONS)]"
proof -
  have "CHR ''$'' \<notin> set (str_int PBKDF2_ITERATIONS)" by code_simp
  moreover have "CHR ''$'' \<notin> set (b64 salt)" using b64_chars by fastforce
  moreover have "CHR ''$'' \<notin> set ''pbkdf2_sha256''" by simp
  ultimately show ?thesis unfolding hash_password_def numeral_3_eq_3
    using split_max_join [of "CHR ''$''" "''pbkdf2_sha256''"] split_max_join [of "CHR ''$''" "str_int PBKDF2_ITERATIONS"]
      split_max_join [of "CHR ''$''" "b64 salt"] by simp
qed

lemma iterations_text: "parse_int (str_int PBKDF2_ITERATIONS) = Some PBKDF2_ITERATIONS"
proof -
  have "str_int PBKDF2_ITERATIONS = ''260000''" by code_simp
  moreover have "py_strip ''260000'' = ''260000''" by code_simp
  ultimately show ?thesis by (simp add: parse_int_def PBKDF2_ITERATIONS_def)
qed

lemma verify_own_hash: "verify_hash cr pw' (hash_password cr salt pw) = Inr (cr_pbkdf2 cr pw' salt PBKDF2_ITERATIONS = cr_pbkdf2 cr pw salt PBKDF2_ITERATIONS)"
proof -
  have "\<not> PBKDF2_ITERATIONS < 1" by (simp add: PBKDF2_ITERATIONS_def)
  then show ?thesis by (simp add: verify_hash_def split_hash iterations_text unb64_b64)
qed

text \<open>What setting the first password means for the requests after it.\<close>

lemma set_password_verifies:
  assumes "setup_password cr salt secret pw cfg = Inr cfg'"
  shows "8 \<le> char_count pw
    \<and> verify_password cr pw' cfg' = Inr (cr_pbkdf2 cr pw' salt PBKDF2_ITERATIONS = cr_pbkdf2 cr pw salt PBKDF2_ITERATIONS)
    \<and> setup_password cr salt' secret' pw' cfg' = Inl (ValueError zh_pw_set)"
proof -
  have cfg': "cfg' = set_value SESSION_VERSION_KEY ''1'' (set_value SESSION_SECRET_KEY secret (set_value PASSWORD_HASH_KEY (hash_password cr salt pw) cfg))"
    and long: "8 \<le> char_count pw"
    using assms by (auto simp: setup_password_def validate_password_def split: if_splits sum.splits)
  have hash: "get_value PASSWORD_HASH_KEY cfg' = hash_password cr salt pw" "hash_password cr salt pw \<noteq> []"
    by (simp_all add: cfg' hash_password_def)
  then show ?thesis using long verify_own_hash by (simp add: verify_password_def setup_password_def password_is_configured_def)
qed

lemma payload_accepted_parts:
  assumes "payload_accepted cr now version raw"
  shows "\<exists>body payload expires. unb64 raw = Inr body \<and> cr_json_loads cr body = Some payload \<and> py_str (row_get payload ''v'') = version
    \<and> py_int_of (case map_of payload ''exp'' of None \<Rightarrow> PInt 0 | Some v \<Rightarrow> v) = Inr expires \<and> unix_seconds now < expires"
proof -
  obtain body where body: "unb64 raw = Inr body" using assms by (cases "unb64 raw") (auto simp: payload_accepted_def)
  then obtain payload where payload: "cr_json_loads cr body = Some payload"
    using assms by (cases "cr_json_loads cr body") (auto simp: payload_accepted_def)
  let ?exp = "case map_of payload ''exp'' of None \<Rightarrow> PInt 0 | Some v \<Rightarrow> v"
  have "py_str (row_get payload ''v'') = version" and later: "case py_int_of ?exp of Inl _ \<Rightarrow> False | Inr e \<Rightarrow> e > unix_seconds now"
    using assms unfolding payload_accepted_def body sum.case payload option.case(2) by blast+
  moreover from later obtain e where "py_int_of ?exp = Inr e" "unix_seconds now < e" by (cases "py_int_of ?exp") auto
  ultimately show ?thesis using body payload by blast
qed

text \<open>What the model relies on: the JSON library reads back the payloads it wrote, and a hexadecimal digest is ASCII without a dot.\<close>

definition crypto_ok :: "crypto \<Rightarrow> bool" where
  "crypto_ok cr \<longleftrightarrow> (\<forall>v e n. cr_json_loads cr (cr_json_dumps cr (session_payload v e n)) = Some (session_payload v e n))
     \<and> (\<forall>k m. is_ascii (cr_hmac_hex cr k m) \<and> CHR ''.'' \<notin> set (cr_hmac_hex cr k m))"

text \<open>What a login means for the requests after it.\<close>

lemma request_after_login:
  assumes "crypto_ok cr" "fresh \<noteq> []" "login_api cr fresh nonce login pw cfg = (Inr (Cookie cookie), cfg')"
    and "\<not> is_public path"
  shows "require_authentication cr fresh' now path (Some cookie) cfg' =
    (Inr (if unix_seconds now < unix_seconds (login + days 14) then Passed
          else if wants_json path then Refused 401 zh_pw_login else Redirected ''/login''), cfg')"
proof -
  have pw: "verify_password cr pw cfg = Inr True" and made: "create_session_cookie cr fresh nonce login cfg = (cookie, cfg')"
    using assms(3) by (auto simp: login_api_def split: sum.splits bool.splits prod.splits)
  obtain secret cfg1 where sec: "session_secret fresh cfg = (secret, cfg1)" by fastforce
  define payload where "payload = session_payload (session_version cfg1) (unix_seconds (login + days SESSION_DAYS)) nonce"
  define raw where "raw = b64 (cr_json_dumps cr payload)"
  have cookie: "cookie = raw @ CHR ''.'' # cr_hmac_hex cr secret raw" and cfg': "cfg' = cfg1"
    using made by (auto simp: create_session_cookie_def sec payload_def raw_def Let_def)
  note facts = session_secret_facts [OF assms(2) sec]
  have hmac: "is_ascii (cr_hmac_hex cr secret raw)" "CHR ''.'' \<notin> set (cr_hmac_hex cr secret raw)"
    and loads: "cr_json_loads cr (cr_json_dumps cr payload) = Some payload" using assms(1) by (simp_all add: crypto_ok_def payload_def)
  have "payload_accepted cr now (session_version cfg1) raw = (unix_seconds now < unix_seconds (login + days SESSION_DAYS))"
    unfolding payload_accepted_def raw_def unb64_b64 sum.case loads option.case by (simp add: payload_def session_payload_def row_get_def)
  then have "request_is_authenticated cr fresh' now (Some cookie) cfg'
    = (Inr (unix_seconds now < unix_seconds (login + days SESSION_DAYS)), cfg')"
    using hmac facts(1) unfolding cookie cfg' request_is_authenticated_def by (simp add: rsplit_dot_join)
  moreover have "password_is_configured cfg'"
    using pw facts(5) unfolding cfg' by (auto simp: verify_password_def password_is_configured_def Let_def split: if_splits)
  ultimately show ?thesis using assms(4) by (auto simp: require_authentication_def SESSION_DAYS_def)
qed

section \<open>Properties\<close>

text \<open>C29. What is not public is reached only by a request that proves itself: a password is set, and the cookie is a text
  with the signature of the application's secret, not out of date, and of the current session version.\<close>

theorem only_authenticated_requests_pass:
  assumes "require_authentication cr fresh now path token cfg = (Inr Passed, cfg')" "\<not> is_public path"
  shows "password_is_configured cfg \<and> (\<exists>raw sig body payload expires.
    token = Some (raw @ CHR ''.'' # sig) \<and> sig = cr_hmac_hex cr (fst (session_secret fresh cfg)) raw
    \<and> unb64 raw = Inr body \<and> cr_json_loads cr body = Some payload \<and> py_str (row_get payload ''v'') = session_version cfg'
    \<and> py_int_of (case map_of payload ''exp'' of None \<Rightarrow> PInt 0 | Some v \<Rightarrow> v) = Inr expires \<and> unix_seconds now < expires)"
proof -
  have pw: "password_is_configured cfg" and ok: "request_is_authenticated cr fresh now token cfg = (Inr True, cfg')"
    using assms by (auto simp: require_authentication_def split: if_splits prod.splits sum.splits bool.splits)
  obtain tok where tok: "token = Some tok" "CHR ''.'' \<in> set tok"
    using ok by (auto simp: request_is_authenticated_def split: option.splits if_splits)
  obtain raw sig where split: "rsplit_dot tok = (raw, sig)" by fastforce
  obtain secret cfg1 where sec: "session_secret fresh cfg = (secret, cfg1)" by fastforce
  have "sig = cr_hmac_hex cr secret raw" "payload_accepted cr now (session_version cfg1) raw" "cfg' = cfg1"
    using ok tok by (auto simp: request_is_authenticated_def split sec split: if_splits)
  moreover note payload_accepted_parts [OF calculation(2)]
  moreover have "tok = raw @ CHR ''.'' # sig" by (rule rsplit_dot_eq [OF tok(2) split])
  ultimately show ?thesis using pw tok(1) unfolding sec fst_conv by blast
qed

text \<open>C30. A login opens every page for fourteen days and not a second longer: with the cookie it sets, a request passes
  in front of the routes as long as fewer seconds went by, and no later one does, whatever happens
  to the session in between (a logout only asks the browser to forget the cookie).\<close>

theorem login_opens_for_fourteen_days:
  assumes "crypto_ok cr" "fresh \<noteq> []" "login_api cr fresh nonce login pw cfg = (Inr (Cookie cookie), cfg')"
    and "\<not> is_public path"
  shows "require_authentication cr fresh' now path (Some cookie) cfg' =
    (Inr (if unix_seconds now < unix_seconds (login + days 14) then Passed
          else if wants_json path then Refused 401 zh_pw_login else Redirected ''/login''), cfg')"
  using assms by (rule request_after_login)

text \<open>The password that was set first is the password: afterwards exactly the passwords with its hash are accepted,
  and no later request can set another one.\<close>

theorem first_password_is_kept:
  assumes "setup_password cr salt secret pw cfg = Inr cfg'"
  shows "8 \<le> char_count pw
    \<and> verify_password cr pw' cfg' = Inr (cr_pbkdf2 cr pw' salt PBKDF2_ITERATIONS = cr_pbkdf2 cr pw salt PBKDF2_ITERATIONS)
    \<and> setup_password cr salt' secret' pw' cfg' = Inl (ValueError zh_pw_set)"
  using set_password_verifies [OF assms] by blast

section \<open>Witnesses\<close>

text \<open>An instance: a hash that keeps the password, a digest without content, and payloads written part by part.\<close>

definition write_part :: "string \<Rightarrow> string" where
  "write_part s = concat (map (\<lambda>c. [CHR ''a'', c]) s) @ ''b''"

fun read_part :: "string \<Rightarrow> string \<times> string" where
  "read_part (x # c # r) = (if x = CHR ''a'' then (let (s, t) = read_part r in (c # s, t)) else ([], c # r))"
| "read_part r = ([], tl r)"

definition write_payload :: "row \<Rightarrow> string" where
  "write_payload r = (case r of [(_, PStr v), (_, PInt e), (_, PStr n)] \<Rightarrow>
     write_part v @ write_part n @ (if e < 0 then ''-'' else ''+'') @ replicate (nat \<bar>e\<bar>) (CHR ''1'') | _ \<Rightarrow> [])"

definition read_payload :: "string \<Rightarrow> row option" where
  "read_payload s =
     (let (v, t) = read_part s; (n, u) = read_part t
      in Some (session_payload v (if hd u = CHR ''-'' then - int (length (tl u)) else int (length (tl u))) n))"

definition sample_crypto :: crypto where
  "sample_crypto = \<lparr>cr_pbkdf2 = \<lambda>pw _ _. pw, cr_hmac_hex = \<lambda>_ _. ''00'', cr_json_dumps = write_payload, cr_json_loads = read_payload\<rparr>"

lemma read_write_part [simp]: "read_part (write_part s @ t) = (s, t)"
proof (induction s)
  case Nil
  then show ?case by (cases t) (simp_all add: write_part_def)
qed (simp add: write_part_def)

lemma sample_crypto_ok: "crypto_ok sample_crypto"
  by (simp add: crypto_ok_def sample_crypto_def write_payload_def read_payload_def session_payload_def is_ascii_def)

definition sample_password :: string where "sample_password = ''correct horse''"

lemma sample_setup: "\<exists>cfg. setup_password sample_crypto ''salt'' ''secret'' sample_password [] = Inr cfg"
proof -
  have "\<not> char_count sample_password < 8" by code_simp
  then show ?thesis by (simp add: setup_password_def validate_password_def password_is_configured_def get_value_def)
qed

lemma sample_login: "\<exists>cookie cfg cfg'. login_api sample_crypto ''f'' ''n'' 0 sample_password cfg = (Inr (Cookie cookie), cfg')"
proof -
  obtain cfg where cfg: "setup_password sample_crypto ''salt'' ''secret'' sample_password [] = Inr cfg" using sample_setup by blast
  have "verify_password sample_crypto sample_password cfg = Inr True" using set_password_verifies [OF cfg] by simp
  then have "login_api sample_crypto ''f'' ''n'' 0 sample_password cfg = (let (c, cfg1) = create_session_cookie sample_crypto ''f'' ''n'' 0 cfg in (Inr (Cookie c), cfg1))"
    by (simp add: login_api_def)
  then show ?thesis by (cases "create_session_cookie sample_crypto ''f'' ''n'' 0 cfg") (metis case_prod_conv)
qed

lemma front_page: "\<not> is_public ''/''" "\<not> wants_json ''/''"
  by code_simp+

theorem only_authenticated_requests_pass_witness:
  "\<exists>raw sig cfg. require_authentication sample_crypto ''f'' 0 ''/'' (Some (raw @ CHR ''.'' # sig)) cfg = (Inr Passed, cfg) \<and> is_ok (unb64 raw)"
proof -
  obtain cookie cfg cfg' where login: "login_api sample_crypto ''f'' ''n'' 0 sample_password cfg = (Inr (Cookie cookie), cfg')"
    using sample_login by blast
  have passed: "require_authentication sample_crypto ''f'' 0 ''/'' (Some cookie) cfg' = (Inr Passed, cfg')"
    using request_after_login [OF sample_crypto_ok _ login front_page(1), of "''f''" 0] by (simp add: unix_seconds_def days_def seconds_def)
  from only_authenticated_requests_pass [OF this front_page(1)] obtain raw sig body where
    "cookie = raw @ CHR ''.'' # sig" "unb64 raw = Inr body" by auto
  moreover have "is_ok (unb64 raw)" using calculation(2) by (simp add: is_ok_def)
  ultimately show ?thesis using passed by blast
qed

theorem login_opens_for_fourteen_days_witness:
  "\<exists>cookie cfg. require_authentication sample_crypto ''f'' (days 14 - 1) ''/'' (Some cookie) cfg = (Inr Passed, cfg)
     \<and> require_authentication sample_crypto ''f'' (days 14) ''/'' (Some cookie) cfg = (Inr (Redirected ''/login''), cfg)"
proof -
  obtain cookie cfg cfg' where "login_api sample_crypto ''f'' ''n'' 0 sample_password cfg = (Inr (Cookie cookie), cfg')"
    using sample_login by blast
  note opens = login_opens_for_fourteen_days [OF sample_crypto_ok _ this front_page(1)]
  show ?thesis
    using opens [of "''f''" "days 14 - 1"] opens [of "''f''" "days 14"] front_page(2)
    by (auto simp: unix_seconds_def days_def seconds_def)
qed

theorem first_password_is_kept_witness:
  "\<exists>cfg. setup_password sample_crypto ''salt'' ''secret'' sample_password [] = Inr cfg
     \<and> verify_password sample_crypto sample_password cfg = Inr True \<and> verify_password sample_crypto ''guess'' cfg = Inr False"
proof -
  obtain cfg where cfg: "setup_password sample_crypto ''salt'' ''secret'' sample_password [] = Inr cfg" using sample_setup by blast
  show ?thesis using first_password_is_kept [OF cfg] cfg by (simp add: sample_crypto_def sample_password_def)
qed

end
