(* ===== verification/Database.thy ===== *)
theory Database
  imports Prelude
begin

text \<open>
  app/db.py: the tables. At every start the tables of app/models.py that are missing are created, and
  in an SQLite database of an older version the columns and indexes that came later are added, one
  statement after the other. A schema is what the statements see of the database: the columns of each
  table in their order, and the indexes. Names are compared as they are written. A statement stands for
  itself, so one that fails leaves those before it done.
\<close>

type_synonym columns = "(string \<times> string) list"

record schema =
  sc_tables :: "string \<Rightarrow> columns option"
  sc_indexes :: "string \<Rightarrow> (string \<times> string list) option"

text \<open>A declaration with a text as default.\<close>

definition with_default :: "string \<Rightarrow> string \<Rightarrow> string" where
  "with_default sql_type v = sql_type @ '' DEFAULT '' @ [CHR 0x27] @ v @ [CHR 0x27]"

section \<open>The tables of the models\<close>

record model_table =
  mt_name :: string
  mt_columns :: columns
  mt_indexed :: "string list"

definition WatchlistItem_table :: model_table where
  "WatchlistItem_table = \<lparr>mt_name = ''watchlist_items'', mt_columns =
    [(''id'', ''INTEGER''), (''symbol'', ''VARCHAR(32)''), (''name'', ''VARCHAR(128)''),
     (''industry'', ''VARCHAR(128)''), (''source_group'', ''VARCHAR(128)''), (''active'', ''BOOLEAN''),
     (''created_at'', ''DATETIME''), (''updated_at'', ''DATETIME'')],
    mt_indexed = [''symbol'']\<rparr>"

definition KLine_table :: model_table where
  "KLine_table = \<lparr>mt_name = ''klines'', mt_columns =
    [(''id'', ''INTEGER''), (''symbol'', ''VARCHAR(32)''), (''timeframe'', ''VARCHAR(16)''), (''ts'', ''DATETIME''),
     (''open'', ''FLOAT''), (''high'', ''FLOAT''), (''low'', ''FLOAT''), (''close'', ''FLOAT''),
     (''volume'', ''FLOAT''), (''turnover'', ''FLOAT''), (''data_ok'', ''BOOLEAN''), (''anomaly_reason'', ''TEXT''),
     (''created_at'', ''DATETIME''), (''updated_at'', ''DATETIME'')],
    mt_indexed = [''symbol'', ''timeframe'', ''ts'']\<rparr>"

definition Indicator_table :: model_table where
  "Indicator_table = \<lparr>mt_name = ''indicators'', mt_columns =
    [(''id'', ''INTEGER''), (''symbol'', ''VARCHAR(32)''), (''timeframe'', ''VARCHAR(16)''), (''ts'', ''DATETIME''),
     (''ma5'', ''FLOAT''), (''ma10'', ''FLOAT''), (''ma20'', ''FLOAT''), (''ma60'', ''FLOAT''), (''ema5'', ''FLOAT''),
     (''ema10'', ''FLOAT''), (''ema20'', ''FLOAT''), (''ema60'', ''FLOAT''), (''macd_dif'', ''FLOAT''),
     (''macd_dea'', ''FLOAT''), (''macd_hist'', ''FLOAT''), (''atr'', ''FLOAT''), (''volume_ma20'', ''FLOAT''),
     (''boll_mid'', ''FLOAT''), (''boll_upper'', ''FLOAT''), (''boll_lower'', ''FLOAT''), (''rsi6'', ''FLOAT''),
     (''rsi14'', ''FLOAT''), (''kdj_k'', ''FLOAT''), (''kdj_d'', ''FLOAT''), (''kdj_j'', ''FLOAT''),
     (''turnover'', ''FLOAT''), (''turnover_ma20'', ''FLOAT''), (''volume_ratio'', ''FLOAT''),
     (''change_pct'', ''FLOAT''), (''amplitude_pct'', ''FLOAT''), (''created_at'', ''DATETIME''),
     (''updated_at'', ''DATETIME'')],
    mt_indexed = [''symbol'', ''timeframe'', ''ts'']\<rparr>"

definition MarketState_table :: model_table where
  "MarketState_table = \<lparr>mt_name = ''market_states'', mt_columns =
    [(''id'', ''INTEGER''), (''as_of'', ''DATE''), (''state'', ''VARCHAR(32)''), (''reason'', ''TEXT''),
     (''created_at'', ''DATETIME''), (''updated_at'', ''DATETIME'')],
    mt_indexed = [''as_of'', ''state'']\<rparr>"

definition StockTrend_table :: model_table where
  "StockTrend_table = \<lparr>mt_name = ''stock_trends'', mt_columns =
    [(''id'', ''INTEGER''), (''symbol'', ''VARCHAR(32)''), (''as_of'', ''DATE''), (''trend'', ''VARCHAR(32)''),
     (''reason'', ''TEXT''), (''created_at'', ''DATETIME''), (''updated_at'', ''DATETIME'')],
    mt_indexed = [''symbol'', ''as_of'', ''trend'']\<rparr>"

definition DailyState_table :: model_table where
  "DailyState_table = \<lparr>mt_name = ''daily_states'', mt_columns =
    [(''id'', ''INTEGER''), (''symbol'', ''VARCHAR(32)''), (''as_of'', ''DATE''), (''state'', ''VARCHAR(32)''),
     (''reason'', ''TEXT''), (''created_at'', ''DATETIME''), (''updated_at'', ''DATETIME'')],
    mt_indexed = [''symbol'', ''as_of'', ''state'']\<rparr>"

definition StructureEvent_table :: model_table where
  "StructureEvent_table = \<lparr>mt_name = ''structure_events'', mt_columns =
    [(''id'', ''INTEGER''), (''symbol'', ''VARCHAR(32)''), (''timeframe'', ''VARCHAR(16)''),
     (''event_type'', ''VARCHAR(48)''), (''event_ts'', ''DATETIME''), (''price'', ''FLOAT''), (''reason'', ''TEXT''),
     (''pivot_low'', ''FLOAT''), (''pivot_high'', ''FLOAT''), (''confirm_level'', ''FLOAT''),
     (''invalidation_level'', ''FLOAT''), (''trigger_level'', ''FLOAT''), (''parent_event_id'', ''INTEGER''),
     (''expires_at'', ''DATETIME''), (''script_version'', ''VARCHAR(64)''), (''invalidated'', ''BOOLEAN''),
     (''follow_5_return'', ''FLOAT''), (''follow_10_return'', ''FLOAT''), (''follow_20_return'', ''FLOAT''),
     (''max_up_return'', ''FLOAT''), (''max_down_return'', ''FLOAT''), (''triggered_entry'', ''BOOLEAN''),
     (''became_failed'', ''BOOLEAN''), (''market_state'', ''VARCHAR(32)''), (''stock_trend'', ''VARCHAR(32)''),
     (''direction'', ''VARCHAR(16)''), (''stage'', ''VARCHAR(24)''), (''quality_score'', ''FLOAT''),
     (''battle_eligible'', ''BOOLEAN''), (''suggested_action'', ''VARCHAR(64)''), (''created_at'', ''DATETIME''),
     (''updated_at'', ''DATETIME'')],
    mt_indexed = [''symbol'', ''timeframe'', ''event_type'', ''event_ts'', ''parent_event_id'']\<rparr>"

definition CandidateStock_table :: model_table where
  "CandidateStock_table = \<lparr>mt_name = ''candidate_stocks'', mt_columns =
    [(''id'', ''INTEGER''), (''symbol'', ''VARCHAR(32)''), (''name'', ''VARCHAR(128)''), (''market'', ''VARCHAR(16)''),
     (''pool_type'', ''VARCHAR(32)''), (''pool_types_json'', ''TEXT''), (''tags_json'', ''TEXT''),
     (''selected_reason'', ''TEXT''), (''rank_score'', ''FLOAT''), (''liquidity_score'', ''FLOAT''),
     (''heat_score'', ''FLOAT''), (''technical_score'', ''FLOAT''), (''raw_metrics_json'', ''TEXT''),
     (''active'', ''BOOLEAN''), (''selected_at'', ''DATETIME''), (''first_selected_at'', ''DATETIME''),
     (''last_selected_at'', ''DATETIME''), (''candidate_age_days'', ''INTEGER''),
     (''candidate_status'', ''VARCHAR(24)''), (''carry_reason'', ''TEXT''), (''dropped_reason'', ''TEXT''),
     (''risk_flags_json'', ''TEXT''), (''created_at'', ''DATETIME''), (''updated_at'', ''DATETIME'')],
    mt_indexed = [''symbol'', ''pool_type'', ''rank_score'', ''active'', ''selected_at'', ''candidate_status'']\<rparr>"

definition CandidateSnapshot_table :: model_table where
  "CandidateSnapshot_table = \<lparr>mt_name = ''candidate_snapshots'', mt_columns =
    [(''id'', ''INTEGER''), (''run_id'', ''VARCHAR(64)''), (''symbol'', ''VARCHAR(32)''),
     (''pool_type'', ''VARCHAR(32)''), (''pool_types_json'', ''TEXT''), (''tags_json'', ''TEXT''),
     (''rank_score'', ''FLOAT''), (''raw_metrics_json'', ''TEXT''), (''created_at'', ''DATETIME''),
     (''updated_at'', ''DATETIME'')],
    mt_indexed = [''run_id'', ''symbol'', ''pool_type'']\<rparr>"

definition BattlePoolItem_table :: model_table where
  "BattlePoolItem_table = \<lparr>mt_name = ''battle_pool_items'', mt_columns =
    [(''id'', ''INTEGER''), (''symbol'', ''VARCHAR(32)''), (''direction'', ''VARCHAR(16)''),
     (''priority_level'', ''VARCHAR(4)''), (''source_structure_id'', ''INTEGER''), (''daily_state'', ''VARCHAR(32)''),
     (''structure_type'', ''VARCHAR(48)''), (''score'', ''FLOAT''), (''reason'', ''TEXT''), (''next_wait'', ''TEXT''),
     (''status'', ''VARCHAR(24)''), (''created_at'', ''DATETIME''), (''updated_at'', ''DATETIME'')],
    mt_indexed = [''symbol'', ''priority_level'', ''source_structure_id'', ''score'', ''status'']\<rparr>"

definition TradePlan_table :: model_table where
  "TradePlan_table = \<lparr>mt_name = ''trade_plans'', mt_columns =
    [(''id'', ''INTEGER''), (''symbol'', ''VARCHAR(32)''), (''name'', ''VARCHAR(128)''),
     (''direction'', ''VARCHAR(16)''), (''source_structure_id'', ''INTEGER''), (''battle_pool_id'', ''INTEGER''),
     (''daily_state'', ''VARCHAR(32)''), (''structure_type'', ''VARCHAR(48)''), (''priority_level'', ''VARCHAR(4)''),
     (''entry_mode'', ''VARCHAR(32)''), (''breakout_entry_price'', ''FLOAT''), (''pullback_entry_low'', ''FLOAT''),
     (''pullback_entry_high'', ''FLOAT''), (''low_absorb_entry_low'', ''FLOAT''),
     (''low_absorb_entry_high'', ''FLOAT''), (''stop_price'', ''FLOAT''), (''target_1'', ''FLOAT''),
     (''target_2'', ''FLOAT''), (''trailing_rule'', ''TEXT''), (''time_stop_rule'', ''TEXT''),
     (''invalid_condition'', ''TEXT''), (''risk_reward_1'', ''FLOAT''), (''risk_reward_2'', ''FLOAT''),
     (''alert_status'', ''VARCHAR(24)''), (''status'', ''VARCHAR(24)''), (''reason'', ''TEXT''),
     (''no_chase_above'', ''FLOAT''), (''no_chase_below'', ''FLOAT''), (''current_price'', ''FLOAT''),
     (''current_change_pct'', ''FLOAT''), (''last_validated_at'', ''DATETIME''),
     (''rules_approval_status'', ''VARCHAR(40)''), (''rules_reject_reason'', ''TEXT''),
     (''capital_status'', ''VARCHAR(32)''), (''capital_reason'', ''TEXT''), (''activation_status'', ''VARCHAR(32)''),
     (''waitlist_rank'', ''INTEGER''), (''simulated_order_id'', ''INTEGER''), (''missed_by_capital_at'', ''DATETIME''),
     (''missed_by_capital_price'', ''FLOAT''), (''suggested_shares'', ''INTEGER''),
     (''available_cash_snapshot'', ''FLOAT''), (''max_new_position_value'', ''FLOAT''),
     (''manual_checklist_json'', ''TEXT''), (''created_at'', ''DATETIME''), (''updated_at'', ''DATETIME'')],
    mt_indexed = [''symbol'', ''source_structure_id'', ''battle_pool_id'', ''priority_level'', ''status'', ''rules_approval_status'', ''capital_status'', ''simulated_order_id'']\<rparr>"

definition TradingState_table :: model_table where
  "TradingState_table = \<lparr>mt_name = ''trading_states'', mt_columns =
    [(''id'', ''INTEGER''), (''symbol'', ''VARCHAR(32)''), (''state'', ''VARCHAR(48)''), (''next_wait'', ''TEXT''),
     (''cooldown_until'', ''DATE''), (''last_reason'', ''TEXT''), (''created_at'', ''DATETIME''),
     (''updated_at'', ''DATETIME'')],
    mt_indexed = [''symbol'', ''state'']\<rparr>"

definition StateTransitionLog_table :: model_table where
  "StateTransitionLog_table = \<lparr>mt_name = ''state_transition_logs'', mt_columns =
    [(''id'', ''INTEGER''), (''symbol'', ''VARCHAR(32)''), (''from_state'', ''VARCHAR(48)''),
     (''to_state'', ''VARCHAR(48)''), (''reason'', ''TEXT''), (''created_at'', ''DATETIME''),
     (''updated_at'', ''DATETIME'')],
    mt_indexed = [''symbol'']\<rparr>"

definition RiskConfig_table :: model_table where
  "RiskConfig_table = \<lparr>mt_name = ''risk_configs'', mt_columns =
    [(''id'', ''INTEGER''), (''account_equity'', ''FLOAT''), (''risk_per_trade_pct'', ''FLOAT''),
     (''neutral_risk_multiplier'', ''FLOAT''), (''script_b_risk_multiplier'', ''FLOAT''),
     (''max_positions'', ''INTEGER''), (''max_symbol_position_pct'', ''FLOAT''),
     (''max_industry_exposure_pct'', ''FLOAT''), (''cooldown_days'', ''INTEGER''), (''created_at'', ''DATETIME''),
     (''updated_at'', ''DATETIME'')],
    mt_indexed = []\<rparr>"

definition TradeSignal_table :: model_table where
  "TradeSignal_table = \<lparr>mt_name = ''trade_signals'', mt_columns =
    [(''id'', ''INTEGER''), (''symbol'', ''VARCHAR(32)''), (''signal_type'', ''VARCHAR(48)''),
     (''script'', ''VARCHAR(48)''), (''status'', ''VARCHAR(32)''), (''action'', ''VARCHAR(48)''),
     (''entry_price'', ''FLOAT''), (''stop_price'', ''FLOAT''), (''target_position_pct'', ''FLOAT''),
     (''shares'', ''INTEGER''), (''risk_amount'', ''FLOAT''), (''risk_per_share'', ''FLOAT''),
     (''allowed_loss'', ''FLOAT''), (''position_value'', ''FLOAT''), (''risk_r'', ''FLOAT''),
     (''source_structure_id'', ''INTEGER''), (''trigger_timeframe'', ''VARCHAR(16)''), (''trigger_ts'', ''DATETIME''),
     (''trigger_level'', ''FLOAT''), (''expires_at'', ''DATETIME''), (''cancel_reason'', ''TEXT''),
     (''script_version'', ''VARCHAR(64)''), (''reason'', ''TEXT''), (''score_display'', ''FLOAT''),
     (''created_at'', ''DATETIME''), (''updated_at'', ''DATETIME'')],
    mt_indexed = [''symbol'', ''signal_type'', ''status'', ''source_structure_id'']\<rparr>"

definition ApprovalRecord_table :: model_table where
  "ApprovalRecord_table = \<lparr>mt_name = ''approval_records'', mt_columns =
    [(''id'', ''INTEGER''), (''signal_id'', ''INTEGER''), (''decision'', ''VARCHAR(32)''), (''note'', ''TEXT''),
     (''created_at'', ''DATETIME''), (''updated_at'', ''DATETIME'')],
    mt_indexed = [''signal_id'']\<rparr>"

definition Position_table :: model_table where
  "Position_table = \<lparr>mt_name = ''positions'', mt_columns =
    [(''id'', ''INTEGER''), (''symbol'', ''VARCHAR(32)''), (''status'', ''VARCHAR(32)''),
     (''entry_signal_id'', ''INTEGER''), (''entry_price'', ''FLOAT''), (''stop_price'', ''FLOAT''),
     (''trailing_stop'', ''FLOAT''), (''shares'', ''INTEGER''), (''risk_amount'', ''FLOAT''),
     (''current_r'', ''FLOAT''), (''exit_reason'', ''TEXT''), (''source_trade_plan_id'', ''INTEGER''),
     (''entry_order_id'', ''INTEGER''), (''exit_order_id'', ''INTEGER''), (''target_1'', ''FLOAT''),
     (''target_2'', ''FLOAT''), (''max_r'', ''FLOAT''), (''min_r'', ''FLOAT''), (''partial_exit_done'', ''BOOLEAN''),
     (''trailing_stop_price'', ''FLOAT''), (''overnight_policy'', ''VARCHAR(24)''), (''source'', ''VARCHAR(32)''),
     (''is_orphan'', ''BOOLEAN''), (''name'', ''VARCHAR(128)''), (''available_shares'', ''INTEGER''),
     (''current_price'', ''FLOAT''), (''market_value'', ''FLOAT''), (''unrealized_pnl'', ''FLOAT''),
     (''unrealized_pnl_pct'', ''FLOAT''), (''exit_price'', ''FLOAT''), (''realized_pnl'', ''FLOAT''),
     (''close_verified'', ''BOOLEAN''), (''close_source'', ''VARCHAR(32)''), (''take_profit_pct'', ''FLOAT''),
     (''stop_loss_pct'', ''FLOAT''), (''last_synced_at'', ''DATETIME''), (''last_risk_checked_at'', ''DATETIME''),
     (''last_error'', ''TEXT''), (''created_at'', ''DATETIME''), (''updated_at'', ''DATETIME'')],
    mt_indexed = [''symbol'', ''status'', ''entry_signal_id'', ''source_trade_plan_id'', ''source'', ''is_orphan'', ''close_verified'']\<rparr>"

definition SimOrder_table :: model_table where
  "SimOrder_table = \<lparr>mt_name = ''sim_orders'', mt_columns =
    [(''id'', ''INTEGER''), (''trade_plan_id'', ''INTEGER''), (''symbol'', ''VARCHAR(32)''),
     (''side'', ''VARCHAR(8)''), (''order_type'', ''VARCHAR(16)''), (''qty'', ''INTEGER''),
     (''limit_price'', ''FLOAT''), (''submitted_price'', ''FLOAT''), (''submitted_at'', ''DATETIME''),
     (''futu_order_id'', ''VARCHAR(64)''), (''trd_env'', ''VARCHAR(16)''), (''status'', ''VARCHAR(32)''),
     (''reason'', ''TEXT''), (''raw_response_json'', ''TEXT''), (''dealt_qty'', ''INTEGER''),
     (''dealt_avg_price'', ''FLOAT''), (''retry_count'', ''INTEGER''), (''created_at'', ''DATETIME''),
     (''updated_at'', ''DATETIME'')],
    mt_indexed = [''trade_plan_id'', ''symbol'', ''submitted_at'', ''futu_order_id'', ''status'']\<rparr>"

definition SimDeal_table :: model_table where
  "SimDeal_table = \<lparr>mt_name = ''sim_deals'', mt_columns =
    [(''id'', ''INTEGER''), (''sim_order_id'', ''INTEGER''), (''symbol'', ''VARCHAR(32)''), (''side'', ''VARCHAR(8)''),
     (''qty'', ''INTEGER''), (''price'', ''FLOAT''), (''dealt_at'', ''DATETIME''), (''futu_deal_id'', ''VARCHAR(64)''),
     (''raw_json'', ''TEXT''), (''created_at'', ''DATETIME''), (''updated_at'', ''DATETIME'')],
    mt_indexed = [''sim_order_id'', ''symbol'', ''dealt_at'', ''futu_deal_id'']\<rparr>"

definition AuditLog_table :: model_table where
  "AuditLog_table = \<lparr>mt_name = ''audit_logs'', mt_columns =
    [(''id'', ''INTEGER''), (''action'', ''VARCHAR(64)''), (''symbol'', ''VARCHAR(32)''),
     (''subject_type'', ''VARCHAR(32)''), (''subject_id'', ''INTEGER''), (''status'', ''VARCHAR(24)''),
     (''reason'', ''TEXT''), (''payload_json'', ''TEXT''), (''created_at'', ''DATETIME''),
     (''updated_at'', ''DATETIME'')],
    mt_indexed = [''action'', ''symbol'']\<rparr>"

definition ReviewStat_table :: model_table where
  "ReviewStat_table = \<lparr>mt_name = ''review_stats'', mt_columns =
    [(''id'', ''INTEGER''), (''subject_type'', ''VARCHAR(32)''), (''subject_id'', ''INTEGER''),
     (''metric'', ''VARCHAR(64)''), (''value'', ''FLOAT''), (''created_at'', ''DATETIME''),
     (''updated_at'', ''DATETIME'')],
    mt_indexed = [''subject_type'', ''subject_id'', ''metric'']\<rparr>"

definition BacktestTrade_table :: model_table where
  "BacktestTrade_table = \<lparr>mt_name = ''backtest_trades'', mt_columns =
    [(''id'', ''INTEGER''), (''run_id'', ''VARCHAR(64)''), (''symbol'', ''VARCHAR(32)''),
     (''script'', ''VARCHAR(48)''), (''source_structure_id'', ''INTEGER''), (''structure_type'', ''VARCHAR(48)''),
     (''structure_ts'', ''DATETIME''), (''trigger_timeframe'', ''VARCHAR(16)''), (''trigger_reason'', ''TEXT''),
     (''entry_ts'', ''DATETIME''), (''entry_price'', ''FLOAT''), (''stop_price'', ''FLOAT''),
     (''shares'', ''INTEGER''), (''risk_amount'', ''FLOAT''), (''exit_ts'', ''DATETIME''), (''exit_price'', ''FLOAT''),
     (''exit_reason'', ''TEXT''), (''max_r'', ''FLOAT''), (''min_r'', ''FLOAT''), (''final_r'', ''FLOAT''),
     (''holding_bars'', ''INTEGER''), (''market_state_at_entry'', ''VARCHAR(32)''),
     (''stock_trend_at_entry'', ''VARCHAR(32)''), (''created_at'', ''DATETIME''), (''updated_at'', ''DATETIME'')],
    mt_indexed = [''run_id'', ''symbol'', ''entry_ts'', ''exit_ts'']\<rparr>"

definition SystemConfig_table :: model_table where
  "SystemConfig_table = \<lparr>mt_name = ''system_configs'', mt_columns =
    [(''id'', ''INTEGER''), (''key'', ''VARCHAR(128)''), (''value'', ''TEXT''), (''created_at'', ''DATETIME''),
     (''updated_at'', ''DATETIME'')],
    mt_indexed = [''key'']\<rparr>"

definition ReconciliationIssue_table :: model_table where
  "ReconciliationIssue_table = \<lparr>mt_name = ''reconciliation_issues'', mt_columns =
    [(''id'', ''INTEGER''), (''symbol'', ''VARCHAR(32)''), (''issue_type'', ''VARCHAR(64)''),
     (''severity'', ''VARCHAR(24)''), (''status'', ''VARCHAR(24)''), (''remote_order_id'', ''VARCHAR(64)''),
     (''local_order_id'', ''INTEGER''), (''position_id'', ''INTEGER''), (''trade_plan_id'', ''INTEGER''),
     (''reason'', ''TEXT''), (''payload_json'', ''TEXT''), (''first_seen_at'', ''DATETIME''),
     (''last_seen_at'', ''DATETIME''), (''resolved_at'', ''DATETIME''), (''created_at'', ''DATETIME''),
     (''updated_at'', ''DATETIME'')],
    mt_indexed = [''symbol'', ''issue_type'', ''severity'', ''status'', ''remote_order_id'', ''local_order_id'', ''position_id'', ''trade_plan_id'', ''first_seen_at'', ''last_seen_at'']\<rparr>"

definition MODEL_TABLES :: "model_table list" where
  "MODEL_TABLES = [WatchlistItem_table, KLine_table, Indicator_table, MarketState_table, StockTrend_table, DailyState_table,
     StructureEvent_table, CandidateStock_table, CandidateSnapshot_table, BattlePoolItem_table, TradePlan_table,
     TradingState_table, StateTransitionLog_table, RiskConfig_table, TradeSignal_table, ApprovalRecord_table,
     Position_table, SimOrder_table, SimDeal_table, AuditLog_table, ReviewStat_table, BacktestTrade_table,
     SystemConfig_table, ReconciliationIssue_table]"

section \<open>Statements\<close>

datatype sql = Add_Column string string string | Create_Index string string "string list" | Create_Table string columns

text \<open>Adding a column that is there raises; an index that is there is left as it is.\<close>

fun exec_sql :: "sql \<Rightarrow> schema \<Rightarrow> exn + schema" where
  "exec_sql (Add_Column t c d) sc =
     (case sc_tables sc t of
        None \<Rightarrow> Inl (OtherError (''no such table: '' @ t))
      | Some cols \<Rightarrow>
          if c \<in> fst ` set cols then Inl (OtherError (''duplicate column name: '' @ c))
          else Inr (sc\<lparr>sc_tables := (sc_tables sc)(t \<mapsto> cols @ [(c, d)])\<rparr>))"
| "exec_sql (Create_Index n t cs) sc =
     (case sc_tables sc t of
        None \<Rightarrow> Inl (OtherError (''no such table: '' @ t))
      | Some cols \<Rightarrow>
          if n \<in> dom (sc_indexes sc) then Inr sc
          else if \<not> set cs \<subseteq> fst ` set cols then Inl (OtherError (''table '' @ t @ '' has no such column''))
          else Inr (sc\<lparr>sc_indexes := (sc_indexes sc)(n \<mapsto> (t, cs))\<rparr>))"
| "exec_sql (Create_Table t cols) sc =
     (if t \<in> dom (sc_tables sc) then Inl (OtherError (''table already exists: '' @ t))
      else Inr (sc\<lparr>sc_tables := (sc_tables sc)(t \<mapsto> cols)\<rparr>))"

fun exec_all :: "sql list \<Rightarrow> schema \<Rightarrow> (exn + unit) \<times> schema" where
  "exec_all [] sc = (Inr (), sc)"
| "exec_all (q # qs) sc = (case exec_sql q sc of Inl e \<Rightarrow> (Inl e, sc) | Inr sc' \<Rightarrow> exec_all qs sc')"

section \<open>The migration\<close>

text \<open>
  The parts of the migration: columns for a table that is there, indexes for a table that is there, and
  a table unless it is there.
\<close>

datatype part = Adds string columns | Indexes string "(string \<times> string list) list" | Make string columns

fun add_columns :: "string \<Rightarrow> columns \<Rightarrow> schema \<Rightarrow> sql list" where
  "add_columns t adds sc =
     (case sc_tables sc t of
        None \<Rightarrow> []
      | Some cols \<Rightarrow> map (\<lambda>x. Add_Column t (fst x) (snd x)) (filter (\<lambda>x. fst x \<notin> fst ` set cols) adds))"

fun statements :: "part \<Rightarrow> schema \<Rightarrow> sql list" where
  "statements (Adds t adds) sc = add_columns t adds sc"
| "statements (Indexes t ixs) sc = (if t \<in> dom (sc_tables sc) then map (\<lambda>x. Create_Index (fst x) t (snd x)) ixs else [])"
| "statements (Make t cols) sc = (if t \<in> dom (sc_tables sc) then [] else [Create_Table t cols])"

fun run_parts :: "part list \<Rightarrow> schema \<Rightarrow> (exn + unit) \<times> schema" where
  "run_parts [] sc = (Inr (), sc)"
| "run_parts (p # ps) sc = (case exec_all (statements p sc) sc of (Inl e, sc') \<Rightarrow> (Inl e, sc') | (Inr _, sc') \<Rightarrow> run_parts ps sc')"

definition added_structure_events :: columns where
  "added_structure_events =
    [(''pivot_low'', ''FLOAT''), (''pivot_high'', ''FLOAT''), (''confirm_level'', ''FLOAT''),
     (''invalidation_level'', ''FLOAT''), (''trigger_level'', ''FLOAT''), (''parent_event_id'', ''INTEGER''),
     (''expires_at'', ''DATETIME''), (''script_version'', ''VARCHAR(64)''),
     (''direction'', with_default ''VARCHAR(16)'' []), (''stage'', with_default ''VARCHAR(24)'' []),
     (''quality_score'', ''FLOAT''), (''battle_eligible'', ''BOOLEAN DEFAULT 0''),
     (''suggested_action'', with_default ''VARCHAR(64)'' [])]"

definition added_indicators :: columns where
  "added_indicators =
    [(''ma5'', ''FLOAT''), (''ma10'', ''FLOAT''), (''ema5'', ''FLOAT''), (''ema10'', ''FLOAT''),
     (''ema20'', ''FLOAT''), (''ema60'', ''FLOAT''), (''boll_mid'', ''FLOAT''), (''boll_upper'', ''FLOAT''),
     (''boll_lower'', ''FLOAT''), (''rsi6'', ''FLOAT''), (''rsi14'', ''FLOAT''), (''kdj_k'', ''FLOAT''),
     (''kdj_d'', ''FLOAT''), (''kdj_j'', ''FLOAT''), (''turnover'', ''FLOAT''), (''turnover_ma20'', ''FLOAT''),
     (''volume_ratio'', ''FLOAT''), (''change_pct'', ''FLOAT''), (''amplitude_pct'', ''FLOAT'')]"

definition added_trade_signals :: columns where
  "added_trade_signals =
    [(''risk_per_share'', ''FLOAT''), (''allowed_loss'', ''FLOAT''), (''position_value'', ''FLOAT''),
     (''source_structure_id'', ''INTEGER''), (''trigger_timeframe'', ''VARCHAR(16)''), (''trigger_ts'', ''DATETIME''),
     (''trigger_level'', ''FLOAT''), (''expires_at'', ''DATETIME''), (''cancel_reason'', ''TEXT''),
     (''script_version'', ''VARCHAR(64)'')]"

definition added_candidate_stocks :: columns where
  "added_candidate_stocks =
    [(''first_selected_at'', ''DATETIME''), (''last_selected_at'', ''DATETIME''),
     (''candidate_age_days'', ''INTEGER DEFAULT 0''),
     (''candidate_status'', with_default ''VARCHAR(24)'' ''ACTIVE_TODAY''),
     (''carry_reason'', with_default ''TEXT'' []), (''dropped_reason'', with_default ''TEXT'' []),
     (''risk_flags_json'', with_default ''TEXT'' ''[]'')]"

definition added_trade_plans :: columns where
  "added_trade_plans =
    [(''no_chase_above'', ''FLOAT''), (''no_chase_below'', ''FLOAT''), (''current_price'', ''FLOAT''),
     (''current_change_pct'', ''FLOAT''), (''last_validated_at'', ''DATETIME''),
     (''rules_approval_status'', with_default ''VARCHAR(40)'' ''NOT_REVIEWED''),
     (''rules_reject_reason'', with_default ''TEXT'' []),
     (''capital_status'', with_default ''VARCHAR(32)'' ''CAPITAL_UNKNOWN''),
     (''capital_reason'', with_default ''TEXT'' []), (''activation_status'', with_default ''VARCHAR(32)'' ''PLANNED''),
     (''waitlist_rank'', ''INTEGER''), (''simulated_order_id'', ''INTEGER''), (''missed_by_capital_at'', ''DATETIME''),
     (''missed_by_capital_price'', ''FLOAT''), (''suggested_shares'', ''INTEGER''),
     (''available_cash_snapshot'', ''FLOAT''), (''max_new_position_value'', ''FLOAT''),
     (''manual_checklist_json'', with_default ''TEXT'' ''[]'')]"

definition added_positions :: columns where
  "added_positions =
    [(''source_trade_plan_id'', ''INTEGER''), (''entry_order_id'', ''INTEGER''), (''exit_order_id'', ''INTEGER''),
     (''target_1'', ''FLOAT''), (''target_2'', ''FLOAT''), (''max_r'', ''FLOAT DEFAULT 0''),
     (''min_r'', ''FLOAT DEFAULT 0''), (''partial_exit_done'', ''BOOLEAN DEFAULT 0''),
     (''trailing_stop_price'', ''FLOAT''), (''overnight_policy'', with_default ''VARCHAR(24)'' ''INTRADAY_ONLY''),
     (''source'', with_default ''VARCHAR(32)'' ''LOCAL_STRATEGY''), (''is_orphan'', ''BOOLEAN DEFAULT 0''),
     (''name'', with_default ''VARCHAR(128)'' []), (''available_shares'', ''INTEGER DEFAULT 0''),
     (''current_price'', ''FLOAT''), (''market_value'', ''FLOAT DEFAULT 0''),
     (''unrealized_pnl'', ''FLOAT DEFAULT 0''), (''unrealized_pnl_pct'', ''FLOAT DEFAULT 0''),
     (''exit_price'', ''FLOAT''), (''realized_pnl'', ''FLOAT''), (''close_verified'', ''BOOLEAN DEFAULT 0''),
     (''close_source'', with_default ''VARCHAR(32)'' []), (''take_profit_pct'', ''FLOAT''),
     (''stop_loss_pct'', ''FLOAT''), (''last_synced_at'', ''DATETIME''), (''last_risk_checked_at'', ''DATETIME''),
     (''last_error'', with_default ''TEXT'' [])]"

definition added_sim_orders :: columns where
  "added_sim_orders =
    [(''retry_count'', ''INTEGER DEFAULT 0'')]"

definition added_klines :: columns where
  "added_klines =
    [(''turnover'', ''FLOAT DEFAULT 0'')]"

definition issue_columns :: columns where
  "issue_columns =
    [(''id'', ''INTEGER PRIMARY KEY''), (''symbol'', with_default ''VARCHAR(32)'' []),
     (''issue_type'', ''VARCHAR(64)''), (''severity'', with_default ''VARCHAR(24)'' ''WARN''),
     (''status'', with_default ''VARCHAR(24)'' ''OPEN''), (''remote_order_id'', with_default ''VARCHAR(64)'' []),
     (''local_order_id'', ''INTEGER''), (''position_id'', ''INTEGER''), (''trade_plan_id'', ''INTEGER''),
     (''reason'', with_default ''TEXT'' []), (''payload_json'', with_default ''TEXT'' ''{}''),
     (''first_seen_at'', ''DATETIME''), (''last_seen_at'', ''DATETIME''), (''resolved_at'', ''DATETIME''),
     (''created_at'', ''DATETIME''), (''updated_at'', ''DATETIME'')]"

definition issue_indexed :: "string list" where
  "issue_indexed = [''symbol'', ''issue_type'', ''severity'', ''status'', ''remote_order_id'', ''local_order_id'', ''position_id'', ''trade_plan_id'', ''first_seen_at'', ''last_seen_at'']"

definition performance_indexes :: "part list" where
  "performance_indexes =
    [Indexes ''trade_plans'' [(''ix_trade_plans_status_updated'', [''status'', ''updated_at'']),
      (''ix_trade_plans_symbol_updated'', [''symbol'', ''updated_at'']),
      (''ix_trade_plans_priority_updated'', [''priority_level'', ''updated_at'']),
      (''ix_trade_plans_last_validated'', [''last_validated_at'']),
      (''ix_trade_plans_source_structure'', [''source_structure_id'']),
      (''ix_trade_plans_battle_pool'', [''battle_pool_id''])],
     Indexes ''sim_orders'' [(''ix_sim_orders_plan_submitted'', [''trade_plan_id'', ''submitted_at'']),
      (''ix_sim_orders_symbol_status'', [''symbol'', ''status'']),
      (''ix_sim_orders_status_submitted'', [''status'', ''submitted_at'']),
      (''ix_sim_orders_futu_order'', [''futu_order_id''])],
     Indexes ''positions'' [(''ix_positions_status_updated'', [''status'', ''updated_at'']),
      (''ix_positions_plan_updated'', [''source_trade_plan_id'', ''updated_at'']),
      (''ix_positions_close_verified'', [''close_verified''])],
     Indexes ''audit_logs'' [(''ix_audit_logs_subject_created'', [''subject_type'', ''subject_id'', ''created_at'']),
      (''ix_audit_logs_symbol_created'', [''symbol'', ''created_at'']),
      (''ix_audit_logs_action_created'', [''action'', ''created_at''])],
     Indexes ''reconciliation_issues'' [(''ix_reconciliation_open_severity'', [''status'', ''severity'']),
      (''ix_reconciliation_symbol_status'', [''symbol'', ''status'']),
      (''ix_reconciliation_type_seen'', [''issue_type'', ''last_seen_at''])]]"

definition index_name :: "string \<Rightarrow> string \<Rightarrow> string" where
  "index_name t c = ''ix_'' @ t @ ''_'' @ c"

definition migration :: "part list" where
  "migration =
    [Adds ''structure_events'' added_structure_events,
     Indexes ''structure_events'' [(''ix_structure_events_parent_event_id'', [''parent_event_id''])],
     Adds ''klines'' added_klines,
     Adds ''indicators'' added_indicators,
     Adds ''trade_signals'' added_trade_signals,
     Indexes ''trade_signals'' [(''ix_trade_signals_source_structure_id'', [''source_structure_id''])],
     Adds ''candidate_stocks'' added_candidate_stocks,
     Adds ''trade_plans'' added_trade_plans,
     Adds ''positions'' added_positions,
     Adds ''sim_orders'' added_sim_orders,
     Make ''reconciliation_issues'' issue_columns,
     Indexes ''reconciliation_issues'' (map (\<lambda>c. (index_name ''reconciliation_issues'' c, [c])) issue_indexed)]
    @ performance_indexes"

definition migrate_sqlite_schema :: "bool \<Rightarrow> schema \<Rightarrow> (exn + unit) \<times> schema" where
  "migrate_sqlite_schema sqlite sc = (if sqlite then run_parts migration sc else (Inr (), sc))"

text \<open>A table of the models that is missing is created with its indexes; one that is there is left alone.\<close>

definition create_missing :: "model_table \<Rightarrow> schema \<Rightarrow> schema" where
  "create_missing m sc =
     (if mt_name m \<in> dom (sc_tables sc) then sc
      else sc\<lparr>sc_tables := (sc_tables sc)(mt_name m \<mapsto> mt_columns m),
              sc_indexes := fold (\<lambda>c ix. ix(index_name (mt_name m) c \<mapsto> (mt_name m, [c]))) (mt_indexed m) (sc_indexes sc)\<rparr>)"

definition create_all :: "schema \<Rightarrow> schema" where
  "create_all sc = fold create_missing MODEL_TABLES sc"

definition init_db :: "bool \<Rightarrow> schema \<Rightarrow> (exn + unit) \<times> schema" where
  "init_db sqlite sc = migrate_sqlite_schema sqlite (create_all sc)"

section \<open>Lemmas: what a part does\<close>

text \<open>A schema grows: no table, column or index is lost.\<close>

definition grown :: "schema \<Rightarrow> schema \<Rightarrow> bool" where
  "grown sc sc' \<longleftrightarrow> (\<forall>t cols. sc_tables sc t = Some cols \<longrightarrow> (\<exists>more. sc_tables sc' t = Some (cols @ more))) \<and> sc_indexes sc \<subseteq>\<^sub>m sc_indexes sc'"

lemma grown_refl [simp]: "grown sc sc"
  by (auto simp: grown_def)

lemma grown_trans: "grown a b \<Longrightarrow> grown b c \<Longrightarrow> grown a c"
  unfolding grown_def by (metis append.assoc map_le_trans)

lemma grownI:
  assumes "\<And>t cols. sc_tables sc t = Some cols \<Longrightarrow> \<exists>more. sc_tables sc' t = Some (cols @ more)" "sc_indexes sc \<subseteq>\<^sub>m sc_indexes sc'"
  shows "grown sc sc'"
  using assms unfolding grown_def by blast

lemma grown_table: "grown sc sc' \<Longrightarrow> sc_tables sc t = Some cols \<Longrightarrow> \<exists>more. sc_tables sc' t = Some (cols @ more)"
  unfolding grown_def by blast

lemma grown_dom: "grown sc sc' \<Longrightarrow> dom (sc_indexes sc) \<subseteq> dom (sc_indexes sc')"
  unfolding grown_def by (blast dest: map_le_implies_dom_le)

fun part_table :: "part \<Rightarrow> string" where
  "part_table (Adds t _) = t" | "part_table (Indexes t _) = t" | "part_table (Make t _) = t"

text \<open>A part that has nothing left to do, and one that can be done.\<close>

fun satisfied :: "part \<Rightarrow> schema \<Rightarrow> bool" where
  "satisfied (Adds t adds) sc \<longleftrightarrow> (\<forall>cols. sc_tables sc t = Some cols \<longrightarrow> fst ` set adds \<subseteq> fst ` set cols)"
| "satisfied (Indexes t ixs) sc \<longleftrightarrow> (t \<in> dom (sc_tables sc) \<longrightarrow> fst ` set ixs \<subseteq> dom (sc_indexes sc))"
| "satisfied (Make t cols) sc \<longleftrightarrow> t \<in> dom (sc_tables sc)"

fun applicable :: "part \<Rightarrow> schema \<Rightarrow> bool" where
  "applicable (Adds t adds) sc \<longleftrightarrow> distinct (map fst adds)"
| "applicable (Indexes t ixs) sc \<longleftrightarrow> (\<forall>cols. sc_tables sc t = Some cols \<longrightarrow> (\<forall>x \<in> set ixs. set (snd x) \<subseteq> fst ` set cols))"
| "applicable (Make t cols) sc \<longleftrightarrow> True"

lemma create_again: "sc_tables sc t = Some cols \<Longrightarrow> fst ` set ixs \<subseteq> dom (sc_indexes sc)
  \<Longrightarrow> exec_all (map (\<lambda>x. Create_Index (fst x) t (snd x)) ixs) sc = (Inr (), sc)"
  by (induction ixs) auto

lemma satisfied_noop:
  assumes "satisfied p sc"
  shows "exec_all (statements p sc) sc = (Inr (), sc)"
proof (cases p)
  case (Adds t adds)
  show ?thesis
  proof (cases "sc_tables sc t")
    case (Some cols)
    then have "filter (\<lambda>x. fst x \<notin> fst ` set cols) adds = []" using assms by (auto simp: Adds filter_empty_conv)
    then show ?thesis by (simp add: Adds Some)
  qed (simp add: Adds)
next
  case (Indexes t ixs)
  then show ?thesis using assms create_again by (cases "sc_tables sc t") auto
next
  case (Make t cols)
  then show ?thesis using assms by auto
qed

lemma adds_done:
  assumes "sc_tables sc t = Some cols" "distinct (map fst adds)" "\<forall>x \<in> set adds. fst x \<notin> fst ` set cols"
  shows "exec_all (map (\<lambda>x. Add_Column t (fst x) (snd x)) adds) sc = (Inr (), sc\<lparr>sc_tables := (sc_tables sc)(t \<mapsto> cols @ adds)\<rparr>)"
  using assms
proof (induction adds arbitrary: cols sc)
  case Nil
  then have "(sc_tables sc)(t \<mapsto> cols) = sc_tables sc" by (simp add: fun_upd_idem)
  then show ?case by simp
next
  case (Cons a adds)
  let ?sc = "sc\<lparr>sc_tables := (sc_tables sc)(t \<mapsto> cols @ [a])\<rparr>"
  have "exec_all (map (\<lambda>x. Add_Column t (fst x) (snd x)) adds) ?sc = (Inr (), ?sc\<lparr>sc_tables := (sc_tables ?sc)(t \<mapsto> (cols @ [a]) @ adds)\<rparr>)"
    by (rule Cons.IH) (use Cons.prems in \<open>auto simp: image_iff\<close>)
  moreover have "(sc_tables ?sc)(t \<mapsto> (cols @ [a]) @ adds) = (sc_tables sc)(t \<mapsto> cols @ a # adds)" by simp
  moreover have "exec_sql (Add_Column t (fst a) (snd a)) sc = Inr ?sc" using Cons.prems by simp
  ultimately show ?case by (simp add: fun_upd_def del: exec_sql.simps)
qed

lemma indexes_done:
  assumes "sc_tables sc t = Some cols" "\<forall>x \<in> set ixs. set (snd x) \<subseteq> fst ` set cols"
  shows "\<exists>ix. exec_all (map (\<lambda>x. Create_Index (fst x) t (snd x)) ixs) sc = (Inr (), sc\<lparr>sc_indexes := ix\<rparr>)
    \<and> sc_indexes sc \<subseteq>\<^sub>m ix \<and> fst ` set ixs \<subseteq> dom ix"
  using assms
proof (induction ixs arbitrary: sc)
  case Nil
  show ?case by (rule exI [of _ "sc_indexes sc"]) simp
next
  case (Cons a ixs)
  define ix where "ix = (if fst a \<in> dom (sc_indexes sc) then sc_indexes sc else (sc_indexes sc)(fst a \<mapsto> (t, snd a)))"
  have a: "exec_sql (Create_Index (fst a) t (snd a)) sc = Inr (sc\<lparr>sc_indexes := ix\<rparr>)"
    using Cons.prems by (simp add: ix_def)
  have le: "sc_indexes sc \<subseteq>\<^sub>m ix" "fst a \<in> dom ix" by (auto simp: ix_def map_le_def)
  obtain ix' where "exec_all (map (\<lambda>x. Create_Index (fst x) t (snd x)) ixs) (sc\<lparr>sc_indexes := ix\<rparr>) = (Inr (), sc\<lparr>sc_indexes := ix'\<rparr>)"
    "ix \<subseteq>\<^sub>m ix'" "fst ` set ixs \<subseteq> dom ix'"
    using Cons.IH [of "sc\<lparr>sc_indexes := ix\<rparr>"] Cons.prems by auto
  moreover from this have "fst a \<in> dom ix'" using le(2) map_le_implies_dom_le by blast
  moreover have "sc_indexes sc \<subseteq>\<^sub>m ix'" using le(1) calculation(2) map_le_trans by blast
  ultimately show ?case using a by (intro exI [of _ ix']) simp
qed

lemma part_done:
  assumes "applicable p sc"
  shows "\<exists>sc'. exec_all (statements p sc) sc = (Inr (), sc') \<and> satisfied p sc' \<and> grown sc sc'
    \<and> (\<forall>t. sc_tables sc' t \<noteq> None \<longrightarrow> sc_tables sc t = None \<longrightarrow> (\<exists>cols. p = Make t cols \<and> sc_tables sc' t = Some cols))"
proof (cases p)
  case (Adds t adds)
  show ?thesis
  proof (cases "sc_tables sc t")
    case (Some cols)
    define new where "new = filter (\<lambda>x. fst x \<notin> fst ` set cols) adds"
    define sc' where "sc' = sc\<lparr>sc_tables := (sc_tables sc)(t \<mapsto> cols @ new)\<rparr>"
    have "distinct (map fst new)" "\<forall>x \<in> set new. fst x \<notin> fst ` set cols" using assms Adds by (simp_all add: distinct_map_filter new_def)
    then have "exec_all (map (\<lambda>x. Add_Column t (fst x) (snd x)) new) sc = (Inr (), sc')"
      using adds_done [OF Some, of new] unfolding sc'_def by blast
    moreover have "statements p sc = map (\<lambda>x. Add_Column t (fst x) (snd x)) new" by (simp add: Adds Some new_def)
    ultimately have "exec_all (statements p sc) sc = (Inr (), sc')" by simp
    moreover have "fst ` set adds \<subseteq> fst ` set (cols @ new)" by (auto simp: new_def)
    then have "satisfied p sc'" by (simp add: Adds sc'_def)
    moreover have "grown sc sc'" by (rule grownI) (use Some in \<open>auto simp: sc'_def\<close>)
    moreover have "\<forall>u. sc_tables sc' u \<noteq> None \<longrightarrow> sc_tables sc u \<noteq> None" using Some by (simp add: sc'_def)
    ultimately show ?thesis by blast
  qed (auto simp: Adds)
next
  case (Indexes t ixs)
  show ?thesis
  proof (cases "sc_tables sc t")
    case (Some cols)
    obtain ix where ix: "exec_all (map (\<lambda>x. Create_Index (fst x) t (snd x)) ixs) sc = (Inr (), sc\<lparr>sc_indexes := ix\<rparr>)"
      "sc_indexes sc \<subseteq>\<^sub>m ix" "fst ` set ixs \<subseteq> dom ix"
      using indexes_done [OF Some, of ixs] assms Some unfolding Indexes by auto
    have "grown sc (sc\<lparr>sc_indexes := ix\<rparr>)" by (rule grownI) (use ix(2) in auto)
    then show ?thesis using ix by (intro exI [of _ "sc\<lparr>sc_indexes := ix\<rparr>"]) (simp add: Indexes Some domIff)
  qed (auto simp: Indexes)
next
  case (Make t cols)
  show ?thesis
  proof (cases "sc_tables sc t")
    case None
    define sc' where "sc' = sc\<lparr>sc_tables := (sc_tables sc)(t \<mapsto> cols)\<rparr>"
    have "grown sc sc'" by (rule grownI) (use None in \<open>auto simp: sc'_def\<close>)
    moreover have "exec_all (statements p sc) sc = (Inr (), sc')" using None by (simp add: Make domIff sc'_def)
    ultimately show ?thesis by (intro exI [of _ sc']) (auto simp: Make sc'_def split: if_splits)
  qed (auto simp: Make)
qed

lemma satisfied_mono:
  assumes "satisfied p sc" "grown sc sc'" "sc_tables sc (part_table p) = None \<Longrightarrow> sc_tables sc' (part_table p) = None"
  shows "satisfied p sc'"
proof (cases "sc_tables sc (part_table p)")
  case None
  with assms show ?thesis by (cases p) auto
next
  case (Some cols)
  obtain more where "sc_tables sc' (part_table p) = Some (cols @ more)" using grown_table [OF assms(2) Some] by blast
  moreover have "X \<subseteq> dom (sc_indexes sc')" if "X \<subseteq> dom (sc_indexes sc)" for X using that grown_dom [OF assms(2)] by (rule subset_trans)
  ultimately show ?thesis using assms(1) Some by (cases p) (auto simp del: image_subset_iff)
qed

section \<open>Lemmas: the whole migration\<close>

text \<open>What is known of the columns of a table if it is there, and a list of parts whose indexes it covers.\<close>

definition knows :: "(string \<times> string list) list \<Rightarrow> schema \<Rightarrow> bool" where
  "knows K sc \<longleftrightarrow> (\<forall>x \<in> set K. \<forall>cols. sc_tables sc (fst x) = Some cols \<longrightarrow> set (snd x) \<subseteq> fst ` set cols)"

definition known :: "(string \<times> string list) list \<Rightarrow> string \<Rightarrow> string list" where
  "known K t = concat (map snd (filter (\<lambda>x. fst x = t) K))"

fun covered :: "string list \<Rightarrow> (string \<times> string list) list \<Rightarrow> part list \<Rightarrow> bool" where
  "covered seen K [] = True"
| "covered seen K (Adds t adds # ps) = (distinct (map fst adds) \<and> covered (t # seen) ((t, map fst adds) # K) ps)"
| "covered seen K (Indexes t ixs # ps) =
     (list_all (\<lambda>x. list_all (\<lambda>c. c \<in> set (known K t)) (snd x)) ixs \<and> covered (t # seen) K ps)"
| "covered seen K (Make t cols # ps) =
     (t \<notin> set seen \<and> list_all (\<lambda>c. c \<in> fst ` set cols) (known K t) \<and> covered (t # seen) K ps)"

lemma knows_known: "knows K sc \<Longrightarrow> sc_tables sc t = Some cols \<Longrightarrow> set (known K t) \<subseteq> fst ` set cols"
  by (auto simp: knows_def known_def)

lemma parts_done:
  assumes "covered seen K ps" "knows K sc"
  shows "\<exists>sc'. run_parts ps sc = (Inr (), sc') \<and> grown sc sc' \<and> (\<forall>p \<in> set ps. satisfied p sc')
    \<and> (\<forall>t \<in> set seen. sc_tables sc t = None \<longrightarrow> sc_tables sc' t = None)"
  using assms
proof (induction ps arbitrary: seen K sc)
  case (Cons p ps)
  have app: "applicable p sc"
  proof (cases p)
    case (Indexes t ixs)
    then have "\<forall>x \<in> set ixs. set (snd x) \<subseteq> set (known K t)" using Cons.prems(1) by (auto simp: list_all_iff)
    then show ?thesis using knows_known [OF Cons.prems(2)] unfolding Indexes by fastforce
  qed (use Cons.prems in auto)
  obtain sc1 where one: "exec_all (statements p sc) sc = (Inr (), sc1)" "satisfied p sc1" "grown sc sc1"
    "\<forall>t. sc_tables sc1 t \<noteq> None \<longrightarrow> sc_tables sc t = None \<longrightarrow> (\<exists>cols. p = Make t cols \<and> sc_tables sc1 t = Some cols)"
    using part_done [OF app] by blast
  define K1 where "K1 = (case p of Adds t adds \<Rightarrow> (t, map fst adds) # K | _ \<Rightarrow> K)"
  have rest: "covered (part_table p # seen) K1 ps" using Cons.prems(1) by (cases p) (simp_all add: K1_def)
  have old: "knows K sc1" unfolding knows_def
  proof safe
    fix t cs cols c assume x: "(t, cs) \<in> set K" "sc_tables sc1 (fst (t, cs)) = Some cols" "c \<in> set (snd (t, cs))"
    show "c \<in> fst ` set cols"
    proof (cases "sc_tables sc t")
      case None
      then have "p = Make t cols" using one(4) x(2) by fastforce
      then have "\<forall>c \<in> set (known K t). c \<in> fst ` set cols" using Cons.prems(1) by (simp add: list_all_iff)
      moreover have "c \<in> set (known K t)" using x(1,3) by (force simp: known_def)
      ultimately show ?thesis by blast
    next
      case (Some cols0)
      then obtain more where "cols = cols0 @ more" using grown_table [OF one(3) Some] x(2) by auto
      moreover have "c \<in> fst ` set cols0" using Cons.prems(2) x(1,3) Some by (fastforce simp: knows_def)
      ultimately show ?thesis by auto
    qed
  qed
  have "knows K1 sc1"
  proof (cases p)
    case (Adds t adds)
    then show ?thesis using old one(2) by (auto simp: K1_def knows_def)
  qed (use old in \<open>simp_all add: K1_def\<close>)
  from Cons.IH [OF rest this] obtain sc' where two: "run_parts ps sc1 = (Inr (), sc')" "grown sc1 sc'" "\<forall>p \<in> set ps. satisfied p sc'"
    "\<forall>t \<in> set (part_table p # seen). sc_tables sc1 t = None \<longrightarrow> sc_tables sc' t = None" by blast
  have "satisfied p sc'" by (rule satisfied_mono [OF one(2) two(2)]) (use two(4) in simp)
  moreover have "sc_tables sc' t = None" if "t \<in> set seen" "sc_tables sc t = None" for t
  proof -
    have "\<nexists>cols. p = Make t cols" using Cons.prems(1) that(1) by auto
    then have "sc_tables sc1 t = None" using one(4) that(2) by blast
    then show ?thesis using two(4) that(1) by simp
  qed
  ultimately show ?case using one(1,3) two(1-3) grown_trans by auto
qed simp

lemma parts_noop: "\<forall>p \<in> set ps. satisfied p sc \<Longrightarrow> run_parts ps sc = (Inr (), sc)"
  by (induction ps) (simp_all add: satisfied_noop)

section \<open>Lemmas: the tables of the models\<close>

text \<open>No table and no column is lost.\<close>

definition kept :: "schema \<Rightarrow> schema \<Rightarrow> bool" where
  "kept sc sc' \<longleftrightarrow> (\<forall>t cols. sc_tables sc t = Some cols \<longrightarrow> (\<exists>more. sc_tables sc' t = Some (cols @ more)))"

lemma grown_kept: "grown sc sc' \<Longrightarrow> kept sc sc'"
  by (simp add: grown_def kept_def)

lemma kept_refl [simp]: "kept sc sc"
  by (simp add: kept_def)

lemma kept_trans: "kept a b \<Longrightarrow> kept b c \<Longrightarrow> kept a c"
  unfolding kept_def by (metis append.assoc)

text \<open>A table of the models that was missing has all its columns, one that was there is as it was.\<close>

lemma create_fold:
  assumes "distinct (map mt_name ms)"
  shows "sc_tables (fold create_missing ms sc) t =
    (case sc_tables sc t of Some cols \<Rightarrow> Some cols | None \<Rightarrow> map_option mt_columns (scalar (filter (\<lambda>m. mt_name m = t) ms)))"
  using assms
proof (induction ms arbitrary: sc)
  case (Cons m ms)
  have "mt_name m \<notin> mt_name ` set ms" using Cons.prems by simp
  then have "\<forall>x \<in> set ms. mt_name x \<noteq> mt_name m" by (metis imageI)
  then have "filter (\<lambda>x. mt_name x = mt_name m) ms = []" by (simp add: filter_empty_conv)
  moreover have "sc_tables (create_missing m sc) t =
    (case sc_tables sc t of Some cols \<Rightarrow> Some cols | None \<Rightarrow> if mt_name m = t then Some (mt_columns m) else None)"
    by (auto simp: create_missing_def split: option.splits)
  ultimately show ?case using Cons by (auto simp: scalar_def split: option.splits)
qed (simp add: scalar_def split: option.split)

lemma model_names: "distinct (map mt_name MODEL_TABLES)"
  by code_simp

lemma create_all_kept: "kept sc (create_all sc)"
  by (simp add: kept_def create_all_def create_fold [OF model_names])

lemma create_all_table:
  assumes "m \<in> set MODEL_TABLES"
  shows "sc_tables (create_all sc) (mt_name m) = Some (case sc_tables sc (mt_name m) of Some cols \<Rightarrow> cols | None \<Rightarrow> mt_columns m)"
proof -
  obtain m' where "scalar (filter (\<lambda>x. mt_name x = mt_name m) MODEL_TABLES) = Some m'" "m' \<in> set MODEL_TABLES" "mt_name m' = mt_name m"
  proof (cases "filter (\<lambda>x. mt_name x = mt_name m) MODEL_TABLES")
    case Nil
    then show ?thesis using assms by (auto simp: filter_empty_conv)
  next
    case (Cons m' rest)
    have "m' \<in> set (filter (\<lambda>x. mt_name x = mt_name m) MODEL_TABLES)" unfolding Cons by simp
    then have "m' \<in> set MODEL_TABLES \<and> mt_name m' = mt_name m" by simp
    then show ?thesis using that Cons by (simp add: scalar_def)
  qed
  moreover from this have "m' = m" using assms model_names unfolding distinct_map by (meson inj_onD)
  ultimately show ?thesis by (simp add: create_all_def create_fold [OF model_names] split: option.split)
qed

text \<open>The columns that the migration adds to a table.\<close>

definition added_to :: "string \<Rightarrow> string list" where
  "added_to t = concat (map (\<lambda>p. case p of Adds t' adds \<Rightarrow> (if t' = t then map fst adds else []) | _ \<Rightarrow> []) migration)"

text \<open>
  What the migration is for, written out: the columns of the models that came after the first version,
  the indexes it creates, and the columns of the first version these indexes are built on.
\<close>

definition LATER_COLUMNS :: "(string \<times> string list) list" where
  "LATER_COLUMNS =
    [(''structure_events'',
       [''pivot_low'', ''pivot_high'', ''confirm_level'', ''invalidation_level'', ''trigger_level'',
       ''parent_event_id'', ''expires_at'', ''script_version'', ''direction'', ''stage'',
       ''quality_score'', ''battle_eligible'', ''suggested_action'']),
     (''klines'',
       [''turnover'']),
     (''indicators'',
       [''ma5'', ''ma10'', ''ema5'', ''ema10'', ''ema20'', ''ema60'', ''boll_mid'', ''boll_upper'',
       ''boll_lower'', ''rsi6'', ''rsi14'', ''kdj_k'', ''kdj_d'', ''kdj_j'', ''turnover'',
       ''turnover_ma20'', ''volume_ratio'', ''change_pct'', ''amplitude_pct'']),
     (''trade_signals'',
       [''risk_per_share'', ''allowed_loss'', ''position_value'', ''source_structure_id'',
       ''trigger_timeframe'', ''trigger_ts'', ''trigger_level'', ''expires_at'', ''cancel_reason'',
       ''script_version'']),
     (''candidate_stocks'',
       [''first_selected_at'', ''last_selected_at'', ''candidate_age_days'', ''candidate_status'',
       ''carry_reason'', ''dropped_reason'', ''risk_flags_json'']),
     (''trade_plans'',
       [''no_chase_above'', ''no_chase_below'', ''current_price'', ''current_change_pct'',
       ''last_validated_at'', ''rules_approval_status'', ''rules_reject_reason'', ''capital_status'',
       ''capital_reason'', ''activation_status'', ''waitlist_rank'', ''simulated_order_id'',
       ''missed_by_capital_at'', ''missed_by_capital_price'', ''suggested_shares'',
       ''available_cash_snapshot'', ''max_new_position_value'', ''manual_checklist_json'']),
     (''positions'',
       [''source_trade_plan_id'', ''entry_order_id'', ''exit_order_id'', ''target_1'', ''target_2'',
       ''max_r'', ''min_r'', ''partial_exit_done'', ''trailing_stop_price'', ''overnight_policy'',
       ''source'', ''is_orphan'', ''name'', ''available_shares'', ''current_price'', ''market_value'',
       ''unrealized_pnl'', ''unrealized_pnl_pct'', ''exit_price'', ''realized_pnl'', ''close_verified'',
       ''close_source'', ''take_profit_pct'', ''stop_loss_pct'', ''last_synced_at'',
       ''last_risk_checked_at'', ''last_error'']),
     (''sim_orders'',
       [''retry_count''])]"

definition LATER_INDEXES :: "string list" where
  "LATER_INDEXES =
    [''ix_structure_events_parent_event_id'', ''ix_trade_signals_source_structure_id'',
     ''ix_reconciliation_issues_symbol'', ''ix_reconciliation_issues_issue_type'',
     ''ix_reconciliation_issues_severity'', ''ix_reconciliation_issues_status'',
     ''ix_reconciliation_issues_remote_order_id'', ''ix_reconciliation_issues_local_order_id'',
     ''ix_reconciliation_issues_position_id'', ''ix_reconciliation_issues_trade_plan_id'',
     ''ix_reconciliation_issues_first_seen_at'', ''ix_reconciliation_issues_last_seen_at'',
     ''ix_trade_plans_status_updated'', ''ix_trade_plans_symbol_updated'',
     ''ix_trade_plans_priority_updated'', ''ix_trade_plans_last_validated'',
     ''ix_trade_plans_source_structure'', ''ix_trade_plans_battle_pool'', ''ix_sim_orders_plan_submitted'',
     ''ix_sim_orders_symbol_status'', ''ix_sim_orders_status_submitted'', ''ix_sim_orders_futu_order'',
     ''ix_positions_status_updated'', ''ix_positions_plan_updated'', ''ix_positions_close_verified'',
     ''ix_audit_logs_subject_created'', ''ix_audit_logs_symbol_created'', ''ix_audit_logs_action_created'',
     ''ix_reconciliation_open_severity'', ''ix_reconciliation_symbol_status'',
     ''ix_reconciliation_type_seen'']"

definition INDEXED_COLUMNS :: "(string \<times> string list) list" where
  "INDEXED_COLUMNS =
    [(''trade_plans'', [''status'', ''updated_at'', ''symbol'', ''priority_level'', ''source_structure_id'', ''battle_pool_id'']),
     (''sim_orders'', [''trade_plan_id'', ''submitted_at'', ''symbol'', ''status'', ''futu_order_id'']),
     (''positions'', [''status'', ''updated_at'']),
     (''audit_logs'', [''subject_type'', ''subject_id'', ''created_at'', ''symbol'', ''action'']),
     (''reconciliation_issues'',
       [''symbol'', ''issue_type'', ''severity'', ''status'', ''remote_order_id'', ''local_order_id'',
       ''position_id'', ''trade_plan_id'', ''first_seen_at'', ''last_seen_at''])]"

text \<open>A database the migration can run on: where one of these tables is there, it has the columns to be indexed.\<close>

definition indexable :: "schema \<Rightarrow> bool" where
  "indexable sc \<longleftrightarrow> (\<forall>(t, cs) \<in> set INDEXED_COLUMNS. \<forall>cols. sc_tables sc t = Some cols \<longrightarrow> set cs \<subseteq> fst ` set cols)"

lemma migration_covered: "covered [] INDEXED_COLUMNS migration"
  by code_simp

lemma models_indexable:
  "list_all (\<lambda>(t, cs). case scalar (filter (\<lambda>m. mt_name m = t) MODEL_TABLES) of None \<Rightarrow> True
     | Some m \<Rightarrow> list_all (\<lambda>c. c \<in> fst ` set (mt_columns m)) cs) INDEXED_COLUMNS"
  by code_simp

lemma later_added:
  "list_all (\<lambda>(t, cs). list_all (\<lambda>c. c \<in> set (added_to t)) cs \<and> t \<in> mt_name ` set MODEL_TABLES) LATER_COLUMNS"
  by code_simp

lemma later_indexed:
  "set LATER_INDEXES \<subseteq> set (concat (map (\<lambda>p. case p of Indexes t ixs \<Rightarrow> map fst ixs | _ \<Rightarrow> []) migration))"
  by code_simp

lemma indexes_on_models:
  "list_all (\<lambda>p. case p of Indexes t ixs \<Rightarrow> t \<in> mt_name ` set MODEL_TABLES | _ \<Rightarrow> True) migration"
  by code_simp

lemma indexable_known:
  assumes "indexable sc"
  shows "knows INDEXED_COLUMNS (create_all sc)"
proof -
  have "set cs \<subseteq> fst ` set cols" if x: "(t, cs) \<in> set INDEXED_COLUMNS" "sc_tables (create_all sc) t = Some cols" for t cs cols
  proof (cases "sc_tables sc t")
    case None
    then obtain m where "scalar (filter (\<lambda>m. mt_name m = t) MODEL_TABLES) = Some m" "cols = mt_columns m"
      using x(2) by (auto simp: create_all_def create_fold [OF model_names])
    then show ?thesis using models_indexable x(1) by (fastforce simp: list_all_iff)
  next
    case (Some old)
    then have "cols = old" using x(2) by (simp add: create_all_def create_fold [OF model_names])
    moreover have "set cs \<subseteq> fst ` set old" using assms x(1) Some unfolding indexable_def by fastforce
    ultimately show ?thesis by simp
  qed
  then show ?thesis unfolding knows_def by (metis prod.collapse)
qed

lemma added_satisfied:
  assumes "\<forall>p \<in> set migration. satisfied p sc" "sc_tables sc t = Some cols"
  shows "set (added_to t) \<subseteq> fst ` set cols"
proof
  fix c assume "c \<in> set (added_to t)"
  then obtain p where p: "p \<in> set migration" "c \<in> set (case p of Adds t' adds \<Rightarrow> (if t' = t then map fst adds else []) | _ \<Rightarrow> [])"
    unfolding added_to_def by auto
  then obtain adds where "p = Adds t adds" "c \<in> fst ` set adds" by (cases p) (auto split: if_splits)
  moreover have "satisfied p sc" using assms(1) p(1) by blast
  ultimately show "c \<in> fst ` set cols" using assms(2) by auto
qed

text \<open>The start of a database that can be indexed succeeds and loses nothing.\<close>

lemma start_runs:
  assumes "indexable sc"
  shows "\<exists>sc'. init_db True sc = (Inr (), sc') \<and> grown (create_all sc) sc' \<and> (\<forall>p \<in> set migration. satisfied p sc')"
  using parts_done [OF migration_covered indexable_known [OF assms]] by (auto simp: init_db_def migrate_sqlite_schema_def)

lemma start_keeps:
  assumes "indexable sc"
  shows "\<exists>sc'. init_db True sc = (Inr (), sc') \<and> kept sc sc'"
  using start_runs [OF assms] kept_trans [OF create_all_kept grown_kept] by blast

text \<open>An index of the migration is there once its table is.\<close>

lemma indexes_there:
  assumes "\<forall>p \<in> set migration. satisfied p sc" "\<And>t. t \<in> mt_name ` set MODEL_TABLES \<Longrightarrow> \<exists>cols. sc_tables sc t = Some cols"
    and "n \<in> set LATER_INDEXES"
  shows "n \<in> dom (sc_indexes sc)"
proof -
  obtain p where p: "p \<in> set migration" "n \<in> set (case p of Indexes t ixs \<Rightarrow> map fst ixs | _ \<Rightarrow> [])"
    using subsetD [OF later_indexed assms(3)] unfolding set_concat set_map by blast
  then obtain t ixs where ix: "p = Indexes t ixs" "n \<in> fst ` set ixs" by (cases p) auto
  then have "t \<in> mt_name ` set MODEL_TABLES" using indexes_on_models p(1) by (auto simp: list_all_iff)
  from assms(2) [OF this] have "t \<in> dom (sc_tables sc)" by blast
  moreover have "satisfied (Indexes t ixs) sc" using assms(1) p(1) ix(1) by blast
  ultimately show ?thesis using ix(2) by (simp only: satisfied.simps) blast
qed

section \<open>Properties\<close>

text \<open>C32. Starting the program brings an older database up to date, as long as the tables it has carry the columns to be
  indexed: the migration does not fail, no table and no column is lost, every later column and every
  index of the lists above is there afterwards, every table of the models is there, lacking a column of
  its model only if the old table lacked it and it is none of the later ones, and the next start changes
  nothing.\<close>

theorem start_completes_the_database:
  assumes "indexable sc"
  shows "\<exists>sc'. init_db True sc = (Inr (), sc') \<and> init_db True sc' = (Inr (), sc') \<and> kept sc sc'
    \<and> (\<forall>m \<in> set MODEL_TABLES. \<exists>cols. sc_tables sc' (mt_name m) = Some cols
        \<and> (\<forall>c \<in> fst ` set (mt_columns m). c \<in> fst ` set cols \<or> (\<exists>old. sc_tables sc (mt_name m) = Some old \<and> c \<notin> fst ` set old)))
    \<and> (\<forall>(t, cs) \<in> set LATER_COLUMNS. \<exists>cols. sc_tables sc' t = Some cols \<and> set cs \<subseteq> fst ` set cols)
    \<and> set LATER_INDEXES \<subseteq> dom (sc_indexes sc')"
proof -
  obtain sc' where sc': "init_db True sc = (Inr (), sc')" "grown (create_all sc) sc'" "\<forall>p \<in> set migration. satisfied p sc'"
    using start_runs [OF assms] by blast
  have complete: "\<exists>cols. sc_tables sc' (mt_name m) = Some cols
      \<and> (\<forall>c \<in> fst ` set (mt_columns m). c \<in> fst ` set cols \<or> (\<exists>old. sc_tables sc (mt_name m) = Some old \<and> c \<notin> fst ` set old))"
    if m: "m \<in> set MODEL_TABLES" for m
    using create_all_table [OF m, of sc] grown_table [OF sc'(2), of "mt_name m"] by (cases "sc_tables sc (mt_name m)") auto
  then have there: "t \<in> mt_name ` set MODEL_TABLES \<Longrightarrow> \<exists>cols. sc_tables sc' t = Some cols" for t by blast
  have later: "\<exists>cols. sc_tables sc' t = Some cols \<and> set cs \<subseteq> fst ` set cols" if "(t, cs) \<in> set LATER_COLUMNS" for t cs
  proof -
    have "set cs \<subseteq> set (added_to t)" "t \<in> mt_name ` set MODEL_TABLES"
      using later_added that by (auto simp: list_all_iff)
    then show ?thesis using there added_satisfied [OF sc'(3)] by (meson subset_trans)
  qed
  have "n \<in> dom (sc_indexes sc')" if "n \<in> set LATER_INDEXES" for n
    using indexes_there [OF sc'(3) there that] .
  moreover have "create_missing m sc' = sc'" if "m \<in> set MODEL_TABLES" for m
    using complete [OF that] by (auto simp: create_missing_def)
  then have "fold create_missing ms sc' = sc'" if "set ms \<subseteq> set MODEL_TABLES" for ms using that by (induction ms) auto
  then have "create_all sc' = sc'" by (simp add: create_all_def)
  then have "init_db True sc' = (Inr (), sc')" using parts_noop [OF sc'(3)] by (simp add: init_db_def migrate_sqlite_schema_def)
  moreover have "kept sc sc'" using create_all_kept grown_kept [OF sc'(2)] by (rule kept_trans)
  ultimately show ?thesis using sc'(1) complete later by blast
qed

section \<open>Witnesses\<close>

text \<open>A database of the first version with three of its tables, as in tests/test_migrations.py.\<close>

definition old_schema :: schema where
  "old_schema = \<lparr>sc_tables = map_of
     [(''structure_events'', [(''id'', ''INTEGER PRIMARY KEY''), (''symbol'', ''VARCHAR(32)''), (''timeframe'', ''VARCHAR(16)''),
        (''event_type'', ''VARCHAR(48)''), (''event_ts'', ''DATETIME''), (''price'', ''FLOAT''), (''reason'', ''TEXT'')]),
      (''trade_signals'', [(''id'', ''INTEGER PRIMARY KEY''), (''symbol'', ''VARCHAR(32)''), (''signal_type'', ''VARCHAR(48)''),
        (''reason'', ''TEXT'')]),
      (''positions'', [(''id'', ''INTEGER PRIMARY KEY''), (''symbol'', ''VARCHAR(32) UNIQUE''), (''status'', ''VARCHAR(32)''),
        (''entry_signal_id'', ''INTEGER NOT NULL''), (''entry_price'', ''FLOAT NOT NULL''), (''stop_price'', ''FLOAT NOT NULL''),
        (''trailing_stop'', ''FLOAT''), (''shares'', ''INTEGER NOT NULL''), (''risk_amount'', ''FLOAT NOT NULL''),
        (''current_r'', ''FLOAT DEFAULT 0''), (''exit_reason'', with_default ''TEXT'' []), (''created_at'', ''DATETIME''),
        (''updated_at'', ''DATETIME'')])],
     sc_indexes = (\<lambda>_. None)\<rparr>"

theorem start_completes_the_database_witness:
  "\<exists>sc' cols. init_db True old_schema = (Inr (), sc') \<and> kept old_schema sc'
     \<and> sc_tables sc' ''positions'' = Some cols \<and> {''take_profit_pct'', ''close_verified''} \<subseteq> fst ` set cols"
proof -
  have "indexable old_schema" by (auto simp: indexable_def INDEXED_COLUMNS_def old_schema_def)
  note fit = start_completes_the_database [OF this]
  have "\<exists>cs. (''positions'', cs) \<in> set LATER_COLUMNS \<and> {''take_profit_pct'', ''close_verified''} \<subseteq> set cs"
    by (simp add: LATER_COLUMNS_def)
  with fit show ?thesis by fastforce
qed

end
