(* ===== verification/Presentation.thy ===== *)
theory Presentation
  imports Pipeline
begin

text \<open>
  app/presentation.py and app/presentation_status.py: the texts under which the pages show codes,
  statuses, reasons, prices and times. The tables are the source's, entry for entry; the regular
  expressions with which \<open>format_reason\<close> rewrites numbers inside a reason are not modelled, its
  literal replacements are.
\<close>

section \<open>Labels\<close>

text \<open>A dictionary literal: where a key occurs twice, the later entry holds.\<close>

definition LABELS :: "(string \<times> string) list" where
  "LABELS =
     [(''RISK_ON'', (utf8 [39118, 38505, 20559, 22909, 65292, 21487, 24320, 26032, 20179])),
      (''NEUTRAL_POSITIVE'', (utf8 [20013, 24615, 20559, 24378, 65292, 35880, 24910, 24320, 20179])),
      (''NEUTRAL_NEGATIVE'', (utf8 [20013, 24615, 20559, 24369, 65292, 21482, 31649, 29702, 25345, 20179])),
      (''RISK_OFF'', (utf8 [39118, 38505, 20851, 38381, 65292, 31105, 27490, 26032, 20179])),
      (''1d'', (utf8 [26085, 32447])),
      (''60m'', (utf8 [54, 48, 32, 20998, 38047])),
      (''15m'', (utf8 [49, 53, 32, 20998, 38047])),
      (''5m'', (utf8 [53, 32, 20998, 38047])),
      (''STRONG_UPTREND'', (utf8 [24378, 19978, 28072, 36235, 21183])),
      (''UPTREND'', (utf8 [19978, 28072, 36235, 21183])),
      (''SIDEWAYS'', (utf8 [38663, 33633, 35266, 23519])),
      (''DOWNTREND'', (utf8 [19979, 36300, 36235, 21183])),
      (''UNKNOWN'', (utf8 [25968, 25454, 19981, 36275])),
      (''DAILY_STRONG_BULL'', (utf8 [26085, 32447, 24378, 22810, 22836])),
      (''DAILY_WEAK_BULL'', (utf8 [26085, 32447, 24369, 22810, 22836])),
      (''DAILY_RANGE'', (utf8 [26085, 32447, 38663, 33633])),
      (''DAILY_WEAK_BEAR'', (utf8 [26085, 32447, 24369, 31354, 22836])),
      (''DAILY_STRONG_BEAR'', (utf8 [26085, 32447, 24378, 31354, 22836])),
      (''IDLE'', (utf8 [31354, 38386, 35266, 23519])),
      (''CANDIDATE_POOL'', (utf8 [20505, 36873, 27744, 35266, 23519])),
      (''STRUCTURE_DETECTED'', (utf8 [24050, 35782, 21035, 32467, 26500])),
      (''BATTLE_WATCH'', (utf8 [37325, 28857, 20316, 25112, 35266, 23519])),
      (''PLAN_READY'', (utf8 [20132, 26131, 35745, 21010, 24050, 29983, 25104])),
      (''PRICE_ALERT_ARMED'', (utf8 [21040, 20215, 25552, 37266, 24050, 35774, 32622])),
      (''ENTRY_REVIEW'', (utf8 [31561, 24453, 20837, 22330, 22797, 26680])),
      (''SIM_POSITION'', (utf8 [27169, 25311, 25345, 20179])),
      (''EXIT_REVIEW'', (utf8 [31561, 24453, 36864, 20986, 22797, 26680])),
      (''TREND_OK'', (utf8 [36235, 21183, 21512, 26684])),
      (''WATCH_BOTTOM'', (utf8 [24213, 37096, 35266, 23519])),
      (''BOTTOM_CONFIRMED'', (utf8 [24213, 32467, 26500, 30830, 35748])),
      (''WAIT_ENTRY_TRIGGER'', (utf8 [31561, 24453, 20837, 22330, 35302, 21457])),
      (''WAIT_15M_TRIGGER'', (utf8 [31561, 24453, 32, 49, 53, 32, 20998, 38047, 35302, 21457])),
      (''ENTRY_CANDIDATE'', (utf8 [20837, 22330, 20505, 36873])),
      (''IN_POSITION'', (utf8 [25345, 20179, 31649, 29702])),
      (''RISK_PROTECTION'', (utf8 [39118, 38505, 20445, 25252, 20013])),
      (''EXIT_CANDIDATE'', (utf8 [36864, 20986, 20505, 36873])),
      (''COOLDOWN'', (utf8 [20919, 21364, 26399])),
      (''PLANNED'', (utf8 [35745, 21010, 24050, 29983, 25104])),
      (''ARMED'', (utf8 [25509, 36817, 35302, 21457])),
      (''WAIT_PULLBACK'', (utf8 [31561, 24453, 22238, 36393])),
      (''NO_CHASE'', (utf8 [31105, 27490, 36861, 20215])),
      (''TRIGGERED'', (utf8 [20215, 26684, 24050, 21040, 65292, 31561, 24453, 23457, 26680])),
      (''ORDER_SUBMITTED'', (utf8 [27169, 25311, 35746, 21333, 24050, 25552, 20132])),
      (''WAITLIST'', (utf8 [36164, 37329, 25490, 38431])),
      (''MISSED_BY_CAPITAL'', (utf8 [22240, 36164, 37329, 21344, 29992, 38169, 36807])),
      (''INVALIDATED'', (utf8 [35745, 21010, 22833, 25928])),
      (''PAUSED'', (utf8 [26242, 20572, 25191, 34892])),
      (''BLOCKED'', (utf8 [39118, 25511, 38459, 27490])),
      (''EXPIRED'', (utf8 [35745, 21010, 36807, 26399])),
      (''APPROVED_FOR_SIM_TRADE'', (utf8 [35268, 21017, 23457, 25209, 36890, 36807])),
      (''NOT_REVIEWED'', (utf8 [23578, 26410, 35268, 21017, 23457, 25209])),
      (''REJECTED_BY_RISK'', (utf8 [39118, 38505, 26465, 20214, 26242, 19981, 20801, 35768, 20837, 22330])),
      (''REJECTED_BY_PRICE'', (utf8 [24403, 21069, 20215, 26684, 19981, 36866, 21512, 20837, 22330])),
      (''REJECTED_BY_MARKET'', (utf8 [24066, 22330, 29615, 22659, 26242, 19981, 25903, 25345, 26032, 20179])),
      (''REJECTED_BY_CAPITAL'', (utf8 [24403, 21069, 21487, 29992, 36164, 37329, 19981, 36275])),
      (''REJECTED_BY_DATA'', (utf8 [34892, 24773, 25968, 25454, 26242, 19981, 23436, 25972])),
      (''REJECTED_BY_RECONCILIATION'', (utf8 [20132, 26131, 23545, 36134, 38392, 38376, 38459, 27490])),
      (''RULES_REJECTED_BY_RECONCILIATION'', (utf8 [35268, 21017, 23457, 25209, 22240, 23545, 36134, 25298, 32477])),
      (''RECONCILIATION_RUN_FAILED'', (utf8 [20132, 26131, 23545, 36134, 36816, 34892, 22833, 36133])),
      (''NORMAL'', (utf8 [36134, 26412, 27491, 24120])),
      (''DEGRADED'', (utf8 [36731, 24494, 23545, 36134, 25552, 31034])),
      (''PROTECTIVE'', (utf8 [20445, 25252, 27169, 24335])),
      (''SYNC_FAILED'', (utf8 [21516, 27493, 22833, 36133, 20445, 25252])),
      (''CAPITAL_AVAILABLE'', (utf8 [36164, 37329, 21487, 29992])),
      (''CAPITAL_LIMITED'', (utf8 [36164, 37329, 26377, 38480])),
      (''CAPITAL_FULL'', (utf8 [36164, 37329, 24050, 28385])),
      (''CAPITAL_CONFLICT'', (utf8 [36164, 37329, 20914, 31361])),
      (''CAPITAL_UNKNOWN'', (utf8 [36164, 37329, 29366, 24577, 26410, 30693])),
      (''SUBMITTED'', (utf8 [24050, 25552, 20132])),
      (''SELL_WAITING_RECONCILIATION'', (utf8 [21334, 20986, 21333, 24453, 23545, 36134])),
      (''FILLED'', (utf8 [24050, 25104, 20132])),
      (''PARTIALLY_FILLED'', (utf8 [37096, 20998, 25104, 20132])),
      (''CANCELLED'', (utf8 [24050, 21462, 28040])),
      (''FAILED'', (utf8 [22833, 36133])),
      (''SIM_ORDER_SUBMITTED'', (utf8 [27169, 25311, 35746, 21333, 24050, 25552, 20132])),
      (''SIM_ORDER_FILLED'', (utf8 [27169, 25311, 35746, 21333, 24050, 25104, 20132])),
      (''SIM_ORDER_CANCELLED'', (utf8 [27169, 25311, 35746, 21333, 24050, 21462, 28040])),
      (''SIM_ORDER_FAILED'', (utf8 [27169, 25311, 35746, 21333, 22833, 36133])),
      (''SIM_ORDER_REMOTE_MISSING'', (utf8 [36828, 31471, 35746, 21333, 24453, 23545, 36134])),
      (''SELL_ORDER_WAITING_RECONCILIATION'', (utf8 [21334, 20986, 21333, 31561, 24453, 23545, 36134])),
      (''SIM_ORDER_FILLED_INFERRED'', (utf8 [27169, 25311, 35746, 21333, 25512, 26029, 25104, 20132])),
      (''FILLED_INFERRED'', (utf8 [25512, 26029, 24050, 25104, 20132])),
      (''UNKNOWN_REMOTE_MISSING'', (utf8 [36828, 31471, 35746, 21333, 24453, 23545, 36134])),
      (''RECONCILIATION_ISSUE_OPEN'', (utf8 [23545, 36134, 38382, 39064, 24453, 22788, 29702])),
      (''RECONCILIATION_ISSUE_RESOLVED'', (utf8 [23545, 36134, 38382, 39064, 24050, 24674, 22797])),
      (''REMOTE_POSITION_WITHOUT_LOCAL'', (utf8 [23500, 36884, 26377, 20179, 26412, 22320, 26080, 20179])),
      (''LOCAL_POSITION_MISSING_REMOTE'', (utf8 [26412, 22320, 26377, 20179, 23500, 36884, 26080, 20179])),
      (''REMOTE_ORDER_WITHOUT_LOCAL'', (utf8 [36828, 31471, 35746, 21333, 26412, 22320, 32570, 22833])),
      (''POSITION_QTY_MISMATCH'', (utf8 [25345, 20179, 25968, 37327, 19981, 19968, 33268])),
      (''POSITION_COST_MISMATCH'', (utf8 [25345, 20179, 25104, 26412, 19981, 19968, 33268])),
      (''LOCAL_ORDER_MISSING_REMOTE'', (utf8 [26412, 22320, 35746, 21333, 36828, 31471, 32570, 22833])),
      (''SELL_ORDER_STUCK'', (utf8 [39118, 25511, 21334, 21333, 30097, 20284, 21345, 20303])),
      (''BUY_ORDER_INFERRED_FILLED'', (utf8 [20080, 20837, 35746, 21333, 25512, 26029, 25104, 20132])),
      (''CLOSE_UNVERIFIED'', (utf8 [20179, 20301, 20851, 38381, 26410, 39564, 35777])),
      (''ORDER_STATUS_UNKNOWN'', (utf8 [35746, 21333, 29366, 24577, 26410, 30693])),
      (''ACCOUNT_SYNC_FAILED'', (utf8 [36134, 25143, 21516, 27493, 22833, 36133])),
      (''EXIT_ORDER_RETRIED'', (utf8 [36864, 20986, 22996, 25176, 24050, 37325, 35797])),
      (''EXIT_ORDER_RETRY_LIMIT_REACHED'', (utf8 [36864, 20986, 22996, 25176, 36798, 21040, 37325, 35797, 19978, 38480])),
      (''POSITION_OPENED'', (utf8 [27169, 25311, 25345, 20179, 24050, 24314, 31435])),
      (''POSITION_CLOSED'', (utf8 [27169, 25311, 25345, 20179, 24050, 20851, 38381])),
      (''LOCAL_STRATEGY'', (utf8 [26412, 22320, 31574, 30053, 24320, 20179])),
      (''FUTU_DETECTED'', (utf8 [23500, 36884, 36134, 25143, 26816, 27979])),
      (''LOCAL_AND_FUTU_CONFIRMED'', (utf8 [26412, 22320, 35760, 24405, 32, 43, 32, 23500, 36884, 30830, 35748])),
      (''ORPHAN_POSITION_DETECTED'', (utf8 [26816, 27979, 21040, 23500, 36884, 23396, 31435, 25345, 20179])),
      (''ORPHAN_POSITION_MATCH_LOW_CONFIDENCE'', (utf8 [25345, 20179, 20302, 32622, 20449, 26410, 32465, 23450])),
      (''POSITION_RECONCILED_CLOSED'', (utf8 [23500, 36884, 25345, 20179, 24050, 32467, 26463])),
      (''POSITION_RECONCILED_CLOSED_UNVERIFIED'', (utf8 [23500, 36884, 25345, 20179, 26410, 39564, 35777, 20851, 38381])),
      (''POSITION_RISK_CHECK_FAILED'', (utf8 [25345, 20179, 39118, 25511, 26816, 26597, 22833, 36133])),
      (''POSITION_EXIT_SKIPPED'', (utf8 [25345, 20179, 36864, 20986, 26242, 26102, 36339, 36807])),
      (''POSITION_EXIT_ORDER_FAILED'', (utf8 [25345, 20179, 36864, 20986, 22996, 25176, 22833, 36133])),
      (''NO_STRUCTURE'', (utf8 [23578, 26080, 32, 54, 48, 32, 20998, 38047, 32467, 26500])),
      (''WAIT_CONFIRM'', (utf8 [31561, 24453, 32467, 26500, 30830, 35748])),
      (''STOP_TOO_WIDE'', (utf8 [27490, 25439, 36317, 31163, 19981, 21512, 26684])),
      (''BATTLE_BUT_NOT_SA'', (utf8 [20316, 25112, 35780, 32423, 26410, 36798, 32, 83, 47, 65])),
      (''PLAN_BLOCKED'', (utf8 [35745, 21010, 29983, 25104, 21463, 38459])),
      (''ACTIVE_PLAN'', (utf8 [24050, 26377, 26377, 25928, 35745, 21010])),
      (''DROPPED'', (utf8 [24050, 36864, 20986, 20505, 36873, 27744])),
      (''INFO'', (utf8 [31995, 32479, 35760, 24405])),
      (''SUCCESS'', (utf8 [25191, 34892, 25104, 21151])),
      (''WARNING'', (utf8 [38656, 35201, 20851, 27880])),
      (''ERROR'', (utf8 [25191, 34892, 22833, 36133])),
      (''TRADE_PLAN_VALIDATED'', (utf8 [20132, 26131, 35745, 21010, 24050, 23454, 26102, 26657, 39564])),
      (''RULES_APPROVED'', (utf8 [35268, 21017, 23457, 25209, 36890, 36807])),
      (''RULES_REJECTED'', (utf8 [35268, 21017, 23457, 25209, 25298, 32477])),
      (''MISSED_BY_CAPITAL'', (utf8 [22240, 36164, 37329, 21344, 29992, 38169, 36807])),
      (''BOTTOM_PASSIVATION'', (utf8 [24213, 38045, 21270])),
      (''BOTTOM_STRUCTURE'', (utf8 [24213, 32467, 26500])),
      (''BOTTOM_FAILED'', (utf8 [24213, 32467, 26500, 22833, 36133])),
      (''TOP_PASSIVATION'', (utf8 [39030, 38045, 21270])),
      (''TOP_STRUCTURE'', (utf8 [39030, 32467, 26500])),
      (''TOP_INVALIDATED'', (utf8 [39030, 32467, 26500, 22833, 25928])),
      (''LOW_REBOUND'', (utf8 [20302, 20301, 21453, 24377, 27744])),
      (''TREND_UP'', (utf8 [36235, 21183, 19978, 34892, 27744])),
      (''HIGH_RISK'', (utf8 [39640, 20301, 39118, 38505, 27744])),
      (''WEAK_DOWN'', (utf8 [24369, 21183, 19979, 34892, 27744])),
      (''MACD_LOW_IMPROVING'', (utf8 [77, 65, 67, 68, 32, 20302, 20301, 25913, 21892])),
      (''KDJ_LOW_GOLD_CROSS'', (utf8 [75, 68, 74, 32, 20302, 20301, 37329, 21449])),
      (''KDJ_BOTTOM_DIVERGENCE'', (utf8 [75, 68, 74, 32, 24213, 32972, 31163, 20505, 36873])),
      (''BOLL_CROSS_MIDDLE_UP'', (utf8 [66, 79, 76, 76, 32, 21319, 31359, 20013, 36712])),
      (''MA_ALIGNMENT_LONG'', (utf8 [22343, 32447, 22810, 22836, 25490, 21015])),
      (''EMA_ALIGNMENT_LONG'', (utf8 [25351, 25968, 22343, 32447, 22810, 22836, 25490, 21015])),
      (''BOLL_BREAK_UPPER'', (utf8 [66, 79, 76, 76, 32, 31361, 30772, 19978, 36712])),
      (''MACD_DEATH_CROSS_HIGH'', (utf8 [77, 65, 67, 68, 32, 39640, 20301, 27515, 21449])),
      (''MACD_TOP_DIVERGENCE'', (utf8 [77, 65, 67, 68, 32, 39030, 32972, 31163, 20505, 36873])),
      (''KDJ_DEATH_CROSS_HIGH'', (utf8 [75, 68, 74, 32, 39640, 20301, 27515, 21449])),
      (''RSI_TOP_DIVERGENCE'', (utf8 [82, 83, 73, 32, 39030, 32972, 31163, 20505, 36873])),
      (''MA_ALIGNMENT_SHORT'', (utf8 [22343, 32447, 31354, 22836, 25490, 21015])),
      (''EMA_ALIGNMENT_SHORT'', (utf8 [25351, 25968, 22343, 32447, 31354, 22836, 25490, 21015])),
      (''BOLL_CROSS_MIDDLE_DOWN'', (utf8 [66, 79, 76, 76, 32, 36300, 31359, 20013, 36712])),
      (''LONG'', (utf8 [20570, 22810, 35266, 23519])),
      (''SHORT'', (utf8 [19979, 34892, 35266, 23519])),
      (''RISK'', (utf8 [39118, 38505, 35266, 23519])),
      (''PASSIVATION'', (utf8 [38045, 21270, 38454, 27573])),
      (''CONFIRMED'', (utf8 [32467, 26500, 30830, 35748])),
      (''FAILED'', (utf8 [32467, 26500, 22833, 36133])),
      (''INVALIDATED'', (utf8 [32467, 26500, 22833, 25928])),
      (''BREAKOUT'', (utf8 [31361, 30772, 20837, 22330, 22797, 26680])),
      (''BREAKOUT_OR_PULLBACK'', (utf8 [31361, 30772, 25110, 22238, 36393, 22797, 26680])),
      (''BREAKDOWN_REVIEW'', (utf8 [36300, 30772, 22797, 26680])),
      (''NOT_ARMED'', (utf8 [26410, 35774, 32622, 25552, 37266])),
      (''ARMED'', (utf8 [25552, 37266, 24050, 35774, 32622])),
      (''ACTIVE'', (utf8 [25345, 32493, 30417, 25511, 20013])),
      (''ARCHIVED'', (utf8 [24050, 24402, 26723])),
      (''TREND_RECOVERY'', (utf8 [36235, 21183, 24674, 22797])),
      (''TREND_BREAK'', (utf8 [36235, 21183, 30772, 22351])),
      (''BUY'', (utf8 [20080, 20837])),
      (''SELL'', (utf8 [21334, 20986])),
      (''STOP'', (utf8 [27490, 25439])),
      (''TRAIL'', (utf8 [28369, 21160, 27490, 30408])),
      (''SCRIPT_A_BOTTOM_TREND_RESUME'', (utf8 [21095, 26412, 32, 65, 65306, 24213, 32467, 26500, 21518, 30340, 36235, 21183,
          24674, 22797])),
      (''SCRIPT_B_TOP_INVALIDATION_CONTINUATION'', (utf8 [21095, 26412, 32, 66, 65306, 39030, 32467, 26500, 22833, 25928, 21518,
          30340, 24378, 36235, 21183, 20877, 19978])),
      (''ENTRY'', (utf8 [20837, 22330, 24314, 35758])),
      (''REDUCE'', (utf8 [20943, 20179, 24314, 35758])),
      (''EXIT'', (utf8 [36864, 20986, 24314, 35758])),
      (''PENDING'', (utf8 [24453, 23457, 25209])),
      (''APPROVED'', (utf8 [24050, 25209, 20934])),
      (''REJECTED'', (utf8 [24050, 25298, 32477])),
      (''EXPIRED'', (utf8 [24050, 36807, 26399])),
      (''CANCELLED_BY_MARKET'', (utf8 [22240, 24066, 22330, 38477, 32423, 21462, 28040])),
      (''CANCELLED_BY_STRUCTURE'', (utf8 [22240, 32467, 26500, 22833, 36133, 21462, 28040])),
      (''CANCELLED_BY_TRIGGER'', (utf8 [22240, 35302, 21457, 22833, 36133, 21462, 28040])),
      (''OPEN'', (utf8 [25345, 20179, 20013])),
      (''CLOSED'', (utf8 [24050, 32467, 26463])),
      (''CLOSED_UNVERIFIED'', (utf8 [26410, 39564, 35777, 20851, 38381])),
      (''signal_count'', (utf8 [20449, 21495, 25968])),
      (''position_count'', (utf8 [25345, 20179, 25968])),
      (''structure_count'', (utf8 [32467, 26500, 20107, 20214, 25968])),
      (''win_rate'', (utf8 [32988, 29575])),
      (''avg_r'', (utf8 [24179, 22343, 32, 82])),
      (''trade_count'', (utf8 [20132, 26131, 31508, 25968])),
      (''median_r'', (utf8 [82, 32, 20013, 20301, 25968])),
      (''max_drawdown'', (utf8 [26368, 22823, 22238, 25764, 65288, 82, 65289])),
      (''max_consecutive_losses'', (utf8 [26368, 22823, 36830, 32493, 20111, 25439])),
      (''avg_holding_period'', (utf8 [24179, 22343, 25345, 26377, 32, 75, 32, 32447])),
      (''profit_factor'', (utf8 [30408, 20111, 22240, 23376])),
      (''exposure'', (utf8 [25345, 20179, 26292, 38706])),
      (''script_a_performance'', (utf8 [21095, 26412, 32, 65, 32, 24179, 22343, 32, 82])),
      (''script_b_performance'', (utf8 [21095, 26412, 32, 66, 32, 24179, 22343, 32, 82])),
      (''structure_success_rate'', (utf8 [32467, 26500, 35302, 21457, 25104, 21151, 29575])),
      (''signal_expiry_rate'', (utf8 [20449, 21495, 36807, 26399, 29575])),
      (''trigger_failure_rate'', (utf8 [35302, 21457, 22833, 36133, 29575])),
      (''loss_count'', (utf8 [20111, 25439, 31508, 25968])),
      (''pipeline_states'', (utf8 [29366, 24577, 26356, 26032, 25968]))]"

definition dict_get :: "(string \<times> 'a) list \<Rightarrow> string \<Rightarrow> 'a option" where
  "dict_get entries k = map_of (rev entries) k"

text \<open>A missing value (None) comes as the empty text; both read as a dash.\<close>

definition label_for :: "string \<Rightarrow> string" where
  "label_for v = (if v = [] then ''-'' else case dict_get LABELS v of Some t \<Rightarrow> t | None \<Rightarrow> v)"

definition css_class_for :: "string \<Rightarrow> string" where
  "css_class_for v =
     (case dict_get [(''RISK_ON'', ''market-risk-on''), (''NEUTRAL_POSITIVE'', ''market-neutral-positive''),
                     (''NEUTRAL_NEGATIVE'', ''market-neutral-negative''), (''RISK_OFF'', ''market-risk-off'')] v of
        Some c \<Rightarrow> c | None \<Rightarrow> ''market-unknown'')"

definition describe_market_state :: "string \<Rightarrow> string" where
  "describe_market_state v =
     (case dict_get
        [(''RISK_ON'', (utf8 [24066, 22330, 36235, 21183, 25903, 25345, 20570, 22810, 65292, 21487, 20197, 23547, 25214, 26032,
            26426, 20250, 12290])),
         (''NEUTRAL_POSITIVE'', (utf8 [24066, 22330, 20013, 24615, 20559, 24378, 65292, 26032, 20179, 38656, 35201, 38477,
             20302, 39118, 38505, 12290])),
         (''NEUTRAL_NEGATIVE'', (utf8 [24066, 22330, 20559, 35880, 24910, 65292, 20248, 20808, 31649, 29702, 24050, 26377,
             20179, 20301, 12290])),
         (''RISK_OFF'', (utf8 [24066, 22330, 39118, 38505, 36739, 39640, 65292, 31105, 27490, 29983, 25104, 26032, 24320, 20179,
             24314, 35758, 12290]))] v of
        Some t \<Rightarrow> t | None \<Rightarrow> (utf8 [24066, 22330, 29366, 24577, 23578, 26410, 35745, 31639, 12290]))"

definition describe_market_reason :: "string \<Rightarrow> string \<Rightarrow> string" where
  "describe_market_reason state reason =
     (if py_contains ''missing'' reason \<or> py_contains ''insufficient'' reason
      then (utf8 [24066, 22330, 22522, 20934, 25968, 25454, 25110, 25351, 26631, 19981, 23436, 25972, 65292, 31995, 32479,
          24050, 20445, 25252, 24615, 20851, 38381, 26032, 24320, 20179, 12290, 36825, 19981, 20195, 34920, 24066, 22330, 24050,
          32463, 30830, 35748, 36716, 24369, 12290])
      else if state = ''RISK_OFF''
      then (utf8 [83, 80, 89, 32, 19982, 32, 81, 81, 81, 32, 22343, 26410, 36890, 36807, 38271, 26399, 36235, 21183, 21644,
          21160, 33021, 36807, 28388, 65292, 22240, 27492, 26242, 20572, 29983, 25104, 26032, 24320, 20179, 24314, 35758,
          12290])
      else describe_market_state state)"

definition describe_script :: "string \<Rightarrow> string" where
  "describe_script v = label_for v"

section \<open>Statuses\<close>

record status_presentation =
  sp_code :: string
  sp_display_name :: string
  sp_description :: string
  sp_next_action :: string
  sp_severity :: string

definition status_entry :: "string \<Rightarrow> string \<Rightarrow> string \<Rightarrow> string \<Rightarrow> string
    \<Rightarrow> status_presentation" where
  "status_entry c n d a s =
     \<lparr>sp_code = c, sp_display_name = n, sp_description = d, sp_next_action = a, sp_severity = s\<rparr>"

definition STATUSES :: "(string \<times> status_presentation) list" where
  "STATUSES =
     [(''ACTIVE'', status_entry ''ACTIVE'' (utf8 [25345, 32493, 30417, 25511, 20013]) (utf8 [35745, 21010, 20173, 28982, 26377,
         25928, 65292, 31995, 32479, 27491, 22312, 31561, 24453, 20215, 26684, 21644, 23454, 26102, 26465, 20214, 21516, 26102,
         21512, 36866, 12290]) (utf8 [32487, 32493, 30417, 25511, 20215, 26684, 21644, 34892, 24773, 26465, 20214, 12290])
         ''info''),
      (''PLANNED'', status_entry ''PLANNED'' (utf8 [35745, 21010, 24050, 29983, 25104]) (utf8 [32467, 26500, 20215, 26684,
          26694, 26550, 24050, 32463, 29983, 25104, 65292, 23578, 26410, 36827, 20837, 23454, 26102, 25191, 34892, 12290]) (utf8
          [31561, 24453, 31995, 32479, 36827, 20837, 23454, 26102, 26657, 39564, 12290]) ''neutral''),
      (''ARMED'', status_entry ''ARMED'' (utf8 [31561, 24453, 35302, 21457]) (utf8 [20215, 26684, 25509, 36817, 20837, 22330,
          21306, 65292, 31995, 32479, 27491, 22312, 23454, 26102, 26657, 39564, 12290]) (utf8 [33509, 31361, 30772, 19988,
          26410, 36861, 39640, 65292, 23558, 36827, 20837, 35268, 21017, 23457, 25209, 12290]) ''info''),
      (''TRIGGERED'', status_entry ''TRIGGERED'' (utf8 [20215, 26684, 24050, 21040, 65292, 31561, 24453, 23457, 26680]) (utf8
          [20215, 26684, 24050, 32463, 36827, 20837, 35745, 21010, 21306, 38388, 65292, 31995, 32479, 27491, 22312, 26816,
          26597, 39118, 38505, 12289, 36164, 37329, 21644, 37325, 22797, 35746, 21333, 12290]) (utf8 [20840, 37096, 26816,
          26597, 36890, 36807, 21518, 25552, 20132, 27169, 25311, 38480, 20215, 21333, 12290]) ''success''),
      (''ORDER_SUBMITTED'', status_entry ''ORDER_SUBMITTED'' (utf8 [35746, 21333, 24050, 25552, 20132]) (utf8 [27169, 25311,
          38480, 20215, 21333, 24050, 21457, 36865, 33267, 32, 70, 117, 116, 117, 12290]) (utf8 [31561, 24453, 25104, 20132,
          25110, 36229, 26102, 25764, 21333, 12290]) ''success''),
      (''RECONCILIATION_ISSUE_OPEN'', status_entry ''RECONCILIATION_ISSUE_OPEN'' (utf8 [23545, 36134, 38382, 39064, 24453,
          22788, 29702]) (utf8 [35746, 21333, 12289, 25104, 20132, 12289, 25345, 20179, 25110, 35745, 21010, 23384, 22312,
          24453, 30830, 35748, 30340, 19981, 19968, 33268, 12290]) (utf8 [26597, 30475, 23545, 36134, 38382, 39064, 24182,
          31561, 24453, 21516, 27493, 24674, 22797, 25110, 20154, 24037, 22788, 29702, 12290]) ''warning''),
      (''RECONCILIATION_ISSUE_RESOLVED'', status_entry ''RECONCILIATION_ISSUE_RESOLVED'' (utf8 [23545, 36134, 38382, 39064,
          24050, 24674, 22797]) (utf8 [27492, 21069, 21457, 29616, 30340, 19981, 19968, 33268, 22312, 26368, 26032, 23545,
          36134, 20013, 24050, 28040, 22833, 12290]) (utf8 [32487, 32493, 35266, 23519, 21518, 32493, 21516, 27493, 12290])
          ''success''),
      (''REMOTE_POSITION_WITHOUT_LOCAL'', status_entry ''REMOTE_POSITION_WITHOUT_LOCAL'' (utf8 [23500, 36884, 26377, 20179,
          26412, 22320, 26080, 20179]) (utf8 [36828, 31471, 36134, 25143, 23384, 22312, 25345, 20179, 65292, 20294, 26412,
          22320, 27809, 26377, 32, 79, 80, 69, 78, 32, 80, 111, 115, 105, 116, 105, 111, 110, 12290]) (utf8 [36816, 34892,
          25345, 20179, 21516, 27493, 25110, 20154, 24037, 26680, 26597, 36134, 25143, 12290]) ''danger''),
      (''LOCAL_POSITION_MISSING_REMOTE'', status_entry ''LOCAL_POSITION_MISSING_REMOTE'' (utf8 [26412, 22320, 26377, 20179,
          23500, 36884, 26080, 20179]) (utf8 [26412, 22320, 20173, 35760, 24405, 32, 79, 80, 69, 78, 32, 80, 111, 115, 105, 116,
          105, 111, 110, 65292, 20294, 36828, 31471, 36134, 25143, 27809, 26377, 23545, 24212, 25345, 20179, 12290]) (utf8
          [31561, 24453, 21516, 27493, 30830, 35748, 25110, 20154, 24037, 26680, 26597, 20851, 38381, 26469, 28304, 12290])
          ''danger''),
      (''POSITION_QTY_MISMATCH'', status_entry ''POSITION_QTY_MISMATCH'' (utf8 [25345, 20179, 25968, 37327, 19981, 19968,
          33268]) (utf8 [26412, 22320, 25345, 20179, 25968, 37327, 19982, 23500, 36884, 25345, 20179, 25968, 37327, 19981,
          21516, 12290]) (utf8 [26242, 20572, 26032, 24320, 20179, 24182, 26680, 26597, 25104, 20132, 21644, 25345, 20179,
          21516, 27493, 12290]) ''danger''),
      (''POSITION_COST_MISMATCH'', status_entry ''POSITION_COST_MISMATCH'' (utf8 [25345, 20179, 25104, 26412, 19981, 19968,
          33268]) (utf8 [26412, 22320, 20837, 22330, 20215, 19982, 23500, 36884, 25104, 26412, 20215, 20559, 24046, 36229,
          36807, 38408, 20540, 12290]) (utf8 [26680, 26597, 25104, 20132, 20215, 25110, 25104, 26412, 21516, 27493, 26469,
          28304, 12290]) ''warning''),
      (''REMOTE_ORDER_WITHOUT_LOCAL'', status_entry ''REMOTE_ORDER_WITHOUT_LOCAL'' (utf8 [36828, 31471, 35746, 21333, 26412,
          22320, 32570, 22833]) (utf8 [23500, 36884, 32, 111, 112, 101, 110, 32, 111, 114, 100, 101, 114, 115, 32, 23384, 22312,
          35746, 21333, 65292, 20294, 26412, 22320, 27809, 26377, 23545, 24212, 32, 83, 105, 109, 79, 114, 100, 101, 114,
          12290]) (utf8 [26680, 26597, 35746, 21333, 26469, 28304, 24182, 34917, 20840, 26412, 22320, 35760, 24405, 12290])
          ''warning''),
      (''LOCAL_ORDER_MISSING_REMOTE'', status_entry ''LOCAL_ORDER_MISSING_REMOTE'' (utf8 [26412, 22320, 35746, 21333, 36828,
          31471, 32570, 22833]) (utf8 [26412, 22320, 24453, 23545, 36134, 35746, 21333, 26410, 22312, 36828, 31471, 25346,
          21333, 25110, 25104, 20132, 20013, 30830, 35748, 12290]) (utf8 [32487, 32493, 35746, 21333, 21644, 25104, 20132,
          23545, 36134, 12290]) ''warning''),
      (''SELL_ORDER_STUCK'', status_entry ''SELL_ORDER_STUCK'' (utf8 [39118, 25511, 21334, 21333, 30097, 20284, 21345, 20303])
          (utf8 [39118, 25511, 21334, 20986, 21333, 26410, 22312, 36828, 31471, 25346, 21333, 25110, 25104, 20132, 20013, 30830,
          35748, 12290]) (utf8 [26242, 20572, 26032, 24320, 20179, 24182, 20248, 20808, 22788, 29702, 36864, 20986, 21333,
          12290]) ''danger''),
      (''BUY_ORDER_INFERRED_FILLED'', status_entry ''BUY_ORDER_INFERRED_FILLED'' (utf8 [20080, 20837, 35746, 21333, 25512,
          26029, 25104, 20132]) (utf8 [66, 85, 89, 32, 35746, 21333, 30001, 36828, 31471, 25345, 20179, 21453, 25512, 20026,
          25104, 20132, 12290]) (utf8 [20445, 30041, 23457, 35745, 35760, 24405, 65292, 21518, 32493, 29992, 25104, 20132,
          21382, 21490, 34917, 20840, 12290]) ''info''),
      (''CLOSE_UNVERIFIED'', status_entry ''CLOSE_UNVERIFIED'' (utf8 [20179, 20301, 20851, 38381, 26410, 39564, 35777]) (utf8
          [20179, 20301, 24050, 20174, 23500, 36884, 28040, 22833, 65292, 20294, 26412, 22320, 27809, 26377, 32, 83, 69, 76, 76,
          32, 25104, 20132, 30830, 35748, 12290]) (utf8 [20154, 24037, 26680, 26597, 25104, 20132, 21382, 21490, 21644, 30408,
          20111, 12290]) ''warning''),
      (''ORDER_STATUS_UNKNOWN'', status_entry ''ORDER_STATUS_UNKNOWN'' (utf8 [35746, 21333, 29366, 24577, 26410, 30693]) (utf8
          [36828, 31471, 25110, 26412, 22320, 35746, 21333, 29366, 24577, 26080, 27861, 26144, 23556, 21040, 24050, 30693,
          29366, 24577, 12290]) (utf8 [20445, 30041, 21407, 22987, 21709, 24212, 24182, 20154, 24037, 30830, 35748, 12290])
          ''warning''),
      (''ACCOUNT_SYNC_FAILED'', status_entry ''ACCOUNT_SYNC_FAILED'' (utf8 [36134, 25143, 21516, 27493, 22833, 36133]) (utf8
          [35835, 21462, 36828, 31471, 35746, 21333, 12289, 25104, 20132, 25110, 25345, 20179, 22833, 36133, 12290]) (utf8
          [26816, 26597, 32, 79, 112, 101, 110, 68, 32, 21644, 36134, 25143, 36830, 25509, 21518, 37325, 35797, 12290])
          ''danger''),
      (''RECONCILIATION_RUN_FAILED'', status_entry ''RECONCILIATION_RUN_FAILED'' (utf8 [20132, 26131, 23545, 36134, 36816,
          34892, 22833, 36133]) (utf8 [23545, 36134, 20013, 26530, 36816, 34892, 24322, 24120, 65292, 31995, 32479, 36827,
          20837, 20445, 25252, 27169, 24335, 12290]) (utf8 [26816, 26597, 24322, 24120, 21407, 22240, 65292, 24674, 22797,
          21518, 37325, 26032, 36816, 34892, 23545, 36134, 12290]) ''danger''),
      (''REJECTED_BY_RECONCILIATION'', status_entry ''REJECTED_BY_RECONCILIATION'' (utf8 [20132, 26131, 23545, 36134, 38392,
          38376, 38459, 27490]) (utf8 [23384, 22312, 26410, 35299, 20915, 30340, 39640, 39118, 38505, 23545, 36134, 38382,
          39064, 65292, 33258, 21160, 26032, 24320, 20179, 34987, 31105, 27490, 12290]) (utf8 [20808, 22788, 29702, 23545,
          36134, 38382, 39064, 65307, 24050, 26377, 20179, 20301, 20173, 20250, 32487, 32493, 39118, 25511, 36864, 20986,
          12290]) ''danger''),
      (''SELL_WAITING_RECONCILIATION'', status_entry ''SELL_WAITING_RECONCILIATION'' (utf8 [21334, 20986, 21333, 24453, 23545,
          36134]) (utf8 [39118, 25511, 21334, 20986, 21333, 26410, 22312, 36828, 31471, 25346, 21333, 21015, 34920, 20013,
          36820, 22238, 65292, 31995, 32479, 31561, 24453, 25104, 20132, 25110, 25345, 20179, 21516, 27493, 30830, 35748,
          12290]) (utf8 [32487, 32493, 23545, 36134, 65292, 36229, 36807, 38408, 20540, 19988, 25345, 20179, 20173, 23384,
          22312, 26102, 21487, 37325, 35797, 36864, 20986, 12290]) ''warning''),
      (''IN_POSITION'', status_entry ''IN_POSITION'' (utf8 [27169, 25311, 25345, 20179, 20013]) (utf8 [27169, 25311, 35746,
          21333, 24050, 25104, 20132, 65292, 31995, 32479, 20248, 20808, 31649, 29702, 25345, 20179, 39118, 38505, 12290]) (utf8
          [30417, 25511, 27490, 25439, 12289, 30446, 26631, 20301, 19982, 31227, 21160, 27490, 30408, 12290]) ''success''),
      (''WAIT_PULLBACK'', status_entry ''WAIT_PULLBACK'' (utf8 [31561, 24453, 22238, 36393]) (utf8 [20215, 26684, 31361, 30772,
          21518, 20559, 31163, 35745, 21010, 21306, 12290]) (utf8 [31561, 24453, 20215, 26684, 22238, 36393, 21518, 37325,
          26032, 26657, 39564, 65292, 19981, 36861, 21333, 12290]) ''warning''),
      (''NO_CHASE'', status_entry ''NO_CHASE'' (utf8 [31105, 27490, 36861, 20215]) (utf8 [24403, 21069, 20215, 24050, 36229,
          36807, 31105, 27490, 36861, 20215, 32447, 65292, 31995, 32479, 19981, 20250, 36861, 21333, 12290]) (utf8 [31561,
          24453, 22238, 36393, 25110, 35745, 21010, 22833, 25928, 12290]) ''warning''),
      (''WAITLIST'', status_entry ''WAITLIST'' (utf8 [36164, 37329, 25490, 38431]) (utf8 [35745, 21010, 26377, 25928, 65292,
          20294, 36164, 37329, 25110, 25345, 20179, 25968, 37327, 19981, 20801, 35768, 24320, 26032, 20179, 12290]) (utf8
          [36164, 37329, 37322, 25918, 21518, 37325, 26032, 23454, 26102, 26657, 39564, 12290]) ''warning''),
      (''MISSED_BY_CAPITAL'', status_entry ''MISSED_BY_CAPITAL'' (utf8 [36164, 37329, 21344, 29992, 38169, 36807]) (utf8 [26426,
          20250, 21040, 20215, 26102, 36164, 37329, 24050, 34987, 20854, 20182, 25345, 20179, 21344, 29992, 12290]) (utf8
          [35760, 24405, 21518, 32493, 34920, 29616, 65292, 29992, 20110, 22797, 30424, 36164, 37329, 25928, 29575, 12290])
          ''neutral''),
      (''BLOCKED'', status_entry ''BLOCKED'' (utf8 [39118, 25511, 38459, 27490]) (utf8 [35745, 21010, 26410, 36890, 36807,
          32452, 21512, 25110, 25191, 34892, 39118, 25511, 12290]) (utf8 [31561, 24453, 38459, 22622, 21407, 22240, 35299,
          38500, 21518, 37325, 26032, 35780, 20272, 12290]) ''danger''),
      (''PAUSED'', status_entry ''PAUSED'' (utf8 [26242, 20572, 25191, 34892]) (utf8 [24066, 22330, 12289, 25968, 25454, 25110,
          20919, 21364, 26465, 20214, 26242, 19981, 20801, 35768, 25191, 34892, 12290]) (utf8 [26465, 20214, 24674, 22797,
          21518, 37325, 26032, 26657, 39564, 12290]) ''warning''),
      (''INVALIDATED'', status_entry ''INVALIDATED'' (utf8 [35745, 21010, 22833, 25928]) (utf8 [20215, 26684, 36300, 30772,
          27490, 25439, 25110, 32467, 26500, 22833, 25928, 20301, 12290]) (utf8 [19981, 20877, 20132, 26131, 35813, 35745,
          21010, 12290]) ''danger''),
      (''EXPIRED'', status_entry ''EXPIRED'' (utf8 [35745, 21010, 36807, 26399]) (utf8 [35745, 21010, 24050, 36229, 36807,
          26377, 25928, 26399, 12290]) (utf8 [31561, 24453, 26032, 30340, 32467, 26500, 21644, 35745, 21010, 12290])
          ''neutral'')]"

definition status_for :: "string \<Rightarrow> status_presentation" where
  "status_for code =
     (let v = str_or code ''UNKNOWN''
      in case dict_get STATUSES v of
           Some s \<Rightarrow> s
         | None \<Rightarrow> status_entry v v (utf8 [31995, 32479, 29366, 24577, 26242, 26080, 35828, 26126, 12290]) (utf8
             [26597, 30475, 35814, 32454, 21407, 22240, 12290]) ''neutral'')"

section \<open>The texts of the codes\<close>

text \<open>What the columns with a fixed set of values hold.\<close>

fun order_status_str :: "order_status \<Rightarrow> string" where
  "order_status_str OS_SUBMITTED = ''SUBMITTED''"
| "order_status_str OS_PARTIALLY_FILLED = ''PARTIALLY_FILLED''"
| "order_status_str OS_FILLED = ''FILLED''"
| "order_status_str OS_FILLED_INFERRED = ''FILLED_INFERRED''"
| "order_status_str OS_CANCELLED = ''CANCELLED''"
| "order_status_str OS_FAILED = ''FAILED''"
| "order_status_str OS_UNKNOWN_REMOTE_MISSING = ''UNKNOWN_REMOTE_MISSING''"
| "order_status_str OS_SELL_WAITING_RECONCILIATION = ''SELL_WAITING_RECONCILIATION''"

fun event_type_str :: "event_type \<Rightarrow> string" where
  "event_type_str BOTTOM_PASSIVATION = ''BOTTOM_PASSIVATION''"
| "event_type_str BOTTOM_STRUCTURE = ''BOTTOM_STRUCTURE''"
| "event_type_str BOTTOM_FAILED = ''BOTTOM_FAILED''"
| "event_type_str TOP_PASSIVATION = ''TOP_PASSIVATION''"
| "event_type_str TOP_STRUCTURE = ''TOP_STRUCTURE''"
| "event_type_str TOP_INVALIDATED = ''TOP_INVALIDATED''"

fun side_str :: "side \<Rightarrow> string" where
  "side_str BUY = ''BUY''"
| "side_str SELL = ''SELL''"

fun position_status_str :: "position_status \<Rightarrow> string" where
  "position_status_str POS_OPEN = ''OPEN''"
| "position_status_str POS_CLOSED = ''CLOSED''"
| "position_status_str POS_CLOSED_UNVERIFIED = ''CLOSED_UNVERIFIED''"

fun position_source_str :: "position_source \<Rightarrow> string" where
  "position_source_str FUTU_DETECTED = ''FUTU_DETECTED''"
| "position_source_str LOCAL_AND_FUTU_CONFIRMED = ''LOCAL_AND_FUTU_CONFIRMED''"
| "position_source_str LOCAL_STRATEGY = ''LOCAL_STRATEGY''"

fun capital_status_str :: "capital_status \<Rightarrow> string" where
  "capital_status_str CAPITAL_UNKNOWN = ''CAPITAL_UNKNOWN''"
| "capital_status_str CAPITAL_FULL = ''CAPITAL_FULL''"
| "capital_status_str CAPITAL_LIMITED = ''CAPITAL_LIMITED''"
| "capital_status_str CAPITAL_AVAILABLE = ''CAPITAL_AVAILABLE''"

fun approval_status_str :: "approval_status \<Rightarrow> string" where
  "approval_status_str NOT_REVIEWED = ''NOT_REVIEWED''"
| "approval_status_str APPROVED_FOR_SIM_TRADE = ''APPROVED_FOR_SIM_TRADE''"
| "approval_status_str REJECTED_BY_RISK = ''REJECTED_BY_RISK''"
| "approval_status_str REJECTED_BY_PRICE = ''REJECTED_BY_PRICE''"
| "approval_status_str REJECTED_BY_DATA = ''REJECTED_BY_DATA''"
| "approval_status_str REJECTED_BY_MARKET = ''REJECTED_BY_MARKET''"
| "approval_status_str REJECTED_BY_CAPITAL = ''REJECTED_BY_CAPITAL''"
| "approval_status_str REJECTED_BY_RECONCILIATION = ''REJECTED_BY_RECONCILIATION''"

fun phase_str :: "trading_phase \<Rightarrow> string" where
  "phase_str IDLE = ''IDLE''"
| "phase_str CANDIDATE_POOL = ''CANDIDATE_POOL''"
| "phase_str STRUCTURE_DETECTED = ''STRUCTURE_DETECTED''"
| "phase_str BATTLE_WATCH = ''BATTLE_WATCH''"
| "phase_str PLAN_READY = ''PLAN_READY''"
| "phase_str SIM_POSITION = ''SIM_POSITION''"
| "phase_str RISK_PROTECTION = ''RISK_PROTECTION''"
| "phase_str COOLDOWN = ''COOLDOWN''"
| "phase_str TREND_OK = ''TREND_OK''"
| "phase_str WATCH_BOTTOM = ''WATCH_BOTTOM''"
| "phase_str BOTTOM_CONFIRMED = ''BOTTOM_CONFIRMED''"
| "phase_str WAIT_15M_TRIGGER = ''WAIT_15M_TRIGGER''"
| "phase_str ENTRY_CANDIDATE = ''ENTRY_CANDIDATE''"
| "phase_str IN_POSITION = ''IN_POSITION''"
| "phase_str EXIT_CANDIDATE = ''EXIT_CANDIDATE''"

fun signal_type_str :: "signal_type \<Rightarrow> string" where
  "signal_type_str ENTRY = ''ENTRY''"
| "signal_type_str REDUCE = ''REDUCE''"
| "signal_type_str EXIT = ''EXIT''"

fun signal_status_str :: "signal_status \<Rightarrow> string" where
  "signal_status_str PENDING = ''PENDING''"
| "signal_status_str APPROVED = ''APPROVED''"
| "signal_status_str REJECTED = ''REJECTED''"
| "signal_status_str CANCELLED_BY_STRUCTURE = ''CANCELLED_BY_STRUCTURE''"
| "signal_status_str CANCELLED_BY_TRIGGER = ''CANCELLED_BY_TRIGGER''"
| "signal_status_str CANCELLED_BY_MARKET = ''CANCELLED_BY_MARKET''"
| "signal_status_str EXPIRED = ''EXPIRED''"

fun script_str :: "script \<Rightarrow> string" where
  "script_str NO_SCRIPT = []"
| "script_str SCRIPT_A_BOTTOM_TREND_RESUME = ''SCRIPT_A_BOTTOM_TREND_RESUME''"
| "script_str SCRIPT_B_TOP_INVALIDATION_CONTINUATION = ''SCRIPT_B_TOP_INVALIDATION_CONTINUATION''"

section \<open>Replacing text\<close>

text \<open>
  \<open>s.replace(old, new)\<close> for a non-empty \<open>old\<close>: every occurrence from the left, without overlap. The
  fuel is the length of the text; each step consumes at least one character.
\<close>

fun replace_from :: "nat \<Rightarrow> string \<Rightarrow> string \<Rightarrow> string \<Rightarrow> string" where
  "replace_from 0 old new s = s"
| "replace_from (Suc n) old new [] = []"
| "replace_from (Suc n) old new (c # cs) =
     (if take (length old) (c # cs) = old then new @ replace_from n old new (drop (length old) (c # cs))
      else c # replace_from n old new cs)"

definition py_replace :: "string \<Rightarrow> string \<Rightarrow> string \<Rightarrow> string" where
  "py_replace old new s = (if old = [] then s else replace_from (length s) old new s)"

definition REASON_REPLACEMENTS :: "(string \<times> string) list" where
  "REASON_REPLACEMENTS =
     [(''market and stock trend passed, no structure opportunity'', (utf8 [24066, 22330, 19982, 20010, 32929, 36235, 21183,
         36890, 36807, 65292, 26242, 26410, 20986, 29616, 32467, 26500, 26426, 20250])),
      (''data anomaly freezes new signals'', (utf8 [25968, 25454, 24322, 24120, 65292, 20923, 32467, 26032, 20837, 22330, 24314,
          35758])),
      (''daily data missing'', (utf8 [26085, 32447, 34892, 24773, 32570, 22833, 65292, 26080, 27861, 35780, 20272, 36235, 21183])),
      (''60m data missing'', (utf8 [54, 48, 32, 20998, 38047, 34892, 24773, 32570, 22833, 65292, 26080, 27861, 30830, 35748,
          30701, 21608, 26399, 29366, 24577])),
      (''15m data missing'', (utf8 [49, 53, 32, 20998, 38047, 34892, 24773, 32570, 22833, 65292, 26080, 27861, 21028, 26029,
          20837, 22330, 35302, 21457])),
      (''5m data missing; core trading is not blocked'', (utf8 [53, 32, 20998, 38047, 34892, 24773, 32570, 22833, 65292, 20165,
          24433, 21709, 36741, 21161, 23637, 31034, 65292, 19981, 38459, 22622, 26680, 24515, 20132, 26131, 38142, 36335])),
      (''daily data anomaly'', (utf8 [26085, 32447, 34892, 24773, 24322, 24120])),
      (''60m data anomaly'', (utf8 [54, 48, 32, 20998, 38047, 34892, 24773, 24322, 24120])),
      (''15m data anomaly'', (utf8 [49, 53, 32, 20998, 38047, 34892, 24773, 24322, 24120])),
      (''repair market data, recompute indicators, then rerun pipeline'', (utf8 [37325, 26032, 26356, 26032, 34892, 24773,
          12289, 35745, 31639, 25351, 26631, 21518, 65292, 20877, 21047, 26032, 29366, 24577, 26426])),
      (''data quality passed'', (utf8 [34892, 24773, 36136, 37327, 26816, 26597, 36890, 36807])),
      (''no bars returned from data source'', (utf8 [25968, 25454, 28304, 26410, 36820, 22238, 32, 75, 32, 32447])),
      (''data missing or indicators unavailable'', (utf8 [34892, 24773, 25110, 25351, 26631, 32570, 22833])),
      (''market data or indicators missing'', (utf8 [24066, 22330, 34892, 24773, 25110, 25351, 26631, 32570, 22833])),
      (''market indicators insufficient'', (utf8 [24066, 22330, 25351, 26631, 21382, 21490, 19981, 36275])),
      (''daily or 60m data missing'', (utf8 [26085, 32447, 25110, 32, 54, 48, 32, 20998, 38047, 25968, 25454, 32570, 22833])),
      (''indicator history insufficient'', (utf8 [25351, 26631, 21382, 21490, 19981, 36275])),
      (''indicators missing at'', (utf8 [25351, 26631, 32570, 22833, 65292, 26102, 38388])),
      (''pending entry signal already exists'', (utf8 [24050, 26377, 24453, 23457, 25209, 20837, 22330, 24314, 35758])),
      (''portfolio risk checks passed'', (utf8 [32452, 21512, 39118, 38505, 26816, 26597, 36890, 36807])),
      (''risk calculation failed or stop unavailable'', (utf8 [39118, 25511, 35745, 31639, 22833, 36133, 25110, 27490, 25439,
          20301, 19981, 28165, 26224])),
      (''waiting for 15m trigger after structure'', (utf8 [31561, 24453, 32, 54, 48, 32, 20998, 38047, 24213, 32467, 26500,
          21518, 30340, 32, 49, 53, 32, 20998, 38047, 35302, 21457, 65292, 32467, 26500])),
      (''60m bottom structure is no longer valid'', (utf8 [54, 48, 32, 20998, 38047, 24213, 32467, 26500, 24050, 32463, 22833,
          36133, 25110, 22833, 25928])),
      (''15m trigger source is incomplete'', (utf8 [49, 53, 32, 20998, 38047, 35302, 21457, 26469, 28304, 19981, 23436, 25972])),
      (''60m structure stop unavailable'', (utf8 [54, 48, 32, 20998, 38047, 32467, 26500, 27490, 25439, 26080, 27861, 35745,
          31639])),
      (''market downgrade with 60m MA60 breakdown'', (utf8 [24066, 22330, 38477, 32423, 19988, 20010, 32929, 36300, 30772, 32,
          54, 48, 32, 20998, 38047, 32, 77, 65, 54, 48])),
      (''downgraded while position is open'', (utf8 [25345, 20179, 26399, 38388, 24066, 22330, 29366, 24577, 38477, 32423])),
      (''generated by state machine, not score'', (utf8 [30001, 29366, 24577, 26426, 29983, 25104, 65292, 35780, 20998, 26410,
          21442, 19982, 35302, 21457])),
      (''price recovered MA20, broke recent key high, MACD improved, volume acceptable, 60m not weak'', (utf8 [20215, 26684,
          25910, 22797, 32, 77, 65, 50, 48, 12289, 25509, 36817, 47, 31361, 30772, 36817, 26399, 20851, 38190, 39640, 28857,
          65292, 77, 65, 67, 68, 32, 25913, 21892, 65292, 37327, 33021, 21487, 25509, 21463, 65292, 54, 48, 32, 20998, 38047,
          19981, 24369])),
      (''waiting for MA20 recovery, key high breakout, MACD improvement, volume confirmation, and 60m support'', (utf8 [31561,
          24453, 25910, 22797, 32, 77, 65, 50, 48, 12289, 31361, 30772, 20851, 38190, 39640, 28857, 12289, 77, 65, 67, 68, 32,
          25913, 21892, 12289, 37327, 33021, 30830, 35748, 19982, 32, 54, 48, 32, 20998, 38047, 25903, 25745])),
      (''price near stage low while MACD DIF holds higher low and histogram improves'', (utf8 [20215, 26684, 25509, 36817,
          38454, 27573, 20302, 20301, 65292, 68, 73, 70, 32, 26410, 21516, 27493, 30772, 20302, 65292, 77, 65, 67, 68, 32,
          26609, 25913, 21892])),
      (''price near stage high while MACD DIF fails to confirm and histogram weakens'', (utf8 [20215, 26684, 25509, 36817,
          38454, 27573, 39640, 20301, 65292, 68, 73, 70, 32, 26410, 21516, 27493, 21019, 26032, 39640, 65292, 77, 65, 67, 68,
          32, 26609, 36208, 24369])),
      (''bottom passivation confirmed by key high breakout, MA20 recovery, MACD improvement, and acceptable volume'', (utf8
          [24213, 38045, 21270, 21518, 20986, 29616, 20851, 38190, 39640, 28857, 31361, 30772, 12289, 25910, 22797, 32, 77, 65,
          50, 48, 12289, 77, 65, 67, 68, 32, 25913, 21892, 19988, 37327, 33021, 21487, 25509, 21463])),
      (''top passivation confirmed by key low break and continued MACD weakening'', (utf8 [39030, 38045, 21270, 21518, 36300,
          30772, 20851, 38190, 20302, 28857, 65292, 77, 65, 67, 68, 32, 32487, 32493, 36208, 24369])),
      (''bottom structure failed after effective low break and renewed momentum deterioration'', (utf8 [24213, 32467, 26500,
          21518, 26377, 25928, 30772, 20302, 65292, 21160, 33021, 37325, 26032, 24694, 21270])),
      (''top structure invalidated by renewed breakout with trend intact'', (utf8 [39030, 32467, 26500, 21518, 37325, 26032,
          31361, 30772, 65292, 36235, 21183, 20173, 26410, 30772, 22351])),
      (''hard stop triggered'', (utf8 [30828, 27490, 25439, 35302, 21457])),
      (''trend break exit candidate'', (utf8 [36235, 21183, 30772, 22351, 65292, 36827, 20837, 36864, 20986, 20505, 36873])),
      (''trailing stop triggered'', (utf8 [28369, 21160, 27490, 30408, 35302, 21457])),
      (''top structure risk protection'', (utf8 [39030, 32467, 26500, 39118, 38505, 20445, 25252])),
      (''position held but latest data missing'', (utf8 [25345, 20179, 20013, 20294, 26368, 26032, 25968, 25454, 32570, 22833])),
      (''position healthy'', (utf8 [25345, 20179, 29366, 24577, 27491, 24120])),
      (''manual approval created simulated position'', (utf8 [20154, 24037, 25209, 20934, 21518, 21019, 24314, 27169, 25311,
          25345, 20179])),
      (''manual approval reduced simulated position'', (utf8 [20154, 24037, 25209, 20934, 21518, 27169, 25311, 20943, 20179])),
      (''simulated exit approved, cooldown started'', (utf8 [27169, 25311, 36864, 20986, 24050, 25209, 20934, 65292, 36827,
          20837, 20919, 21364, 26399]))]"

text \<open>The loop over the table, in its order.\<close>

definition replace_reasons :: "string \<Rightarrow> string" where
  "replace_reasons reason = fold (\<lambda>(source, target) r. py_replace source target r) REASON_REPLACEMENTS reason"

section \<open>Numbers and times\<close>

text \<open>The format \<open>{x:,.nf}\<close>: commas between groups of three digits of the integral part.\<close>

fun commas :: "string \<Rightarrow> string" where
  "commas (a # b # c # d # ds) = a # b # c # CHR '','' # commas (d # ds)"
| "commas ds = ds"

definition group_digits :: "string \<Rightarrow> string" where
  "group_digits s = rev (commas (rev s))"

definition fmt_grouped :: "nat \<Rightarrow> real \<Rightarrow> string" where
  "fmt_grouped n x =
     (let m = round_half_even (\<bar>x\<bar> * 10 ^ n)
      in (if x < 0 then ''-'' else []) @ group_digits (digits (m div 10 ^ n))
         @ (if n = 0 then [] else CHR ''.'' # pad_zeros n (digits (m mod 10 ^ n))))"

definition group_int :: "int \<Rightarrow> string" where
  "group_int i = (if i < 0 then CHR ''-'' # group_digits (digits (- i)) else group_digits (digits i))"

definition format_money :: "pyval \<Rightarrow> string" where
  "format_money v = (case py_float v of Inl _ \<Rightarrow> ''-'' | Inr x \<Rightarrow> CHR ''$'' # fmt_grouped 2 x)"

definition format_percent :: "pyval \<Rightarrow> string" where
  "format_percent v = (case py_float v of Inl _ \<Rightarrow> ''-'' | Inr x \<Rightarrow> fmt_fixed 1 (x * 100) @ ''%'')"

definition format_shares :: "pyval \<Rightarrow> string" where
  "format_shares v = (case py_int_of v of Inl _ \<Rightarrow> ''-'' | Inr i \<Rightarrow> group_int i @ (utf8 [32, 32929]))"

definition format_price :: "pyval \<Rightarrow> string" where
  "format_price v = (case py_float v of Inl _ \<Rightarrow> ''-'' | Inr x \<Rightarrow> fmt_fixed 2 x)"

text \<open>The sign is always printed.\<close>

definition format_return :: "pyval \<Rightarrow> string" where
  "format_return v =
     (case py_float v of
        Inl _ \<Rightarrow> ''-''
      | Inr x \<Rightarrow> (if 0 \<le> x then ''+'' else []) @ fmt_fixed 1 (x * 100) @ ''%'')"

datatype time_value = TV_None | TV_Datetime int | TV_Date int | TV_Text string

fun format_datetime :: "time_value \<Rightarrow> string" where
  "format_datetime TV_None = ''-''"
| "format_datetime (TV_Datetime t) = fmt_minute t"
| "format_datetime (TV_Date d) = iso_date d"
| "format_datetime (TV_Text s) = str_or s ''-''"

text \<open>The argument is the conversion of UTC to the local time of Hong Kong.\<close>

fun format_system_datetime :: "(int \<Rightarrow> int) \<Rightarrow> time_value \<Rightarrow> string" where
  "format_system_datetime hk (TV_Datetime t) = fmt_minute (hk t)"
| "format_system_datetime hk v = format_datetime v"

section \<open>Lemmas\<close>

lemma replace_from_id:
  assumes "\<not> sublist old s" and "old \<noteq> []"
  shows "replace_from n old new s = s"
  using assms
proof (induction n old new s rule: replace_from.induct)
  case (3 n old new c cs)
  have "take (length old) (c # cs) \<noteq> old"
  proof
    assume "take (length old) (c # cs) = old"
    then have "c # cs = [] @ old @ drop (length old) (c # cs)" by (metis append_Nil append_take_drop_id)
    with 3(3) show False by (metis sublist_def)
  qed
  moreover have "\<not> sublist old cs" using 3(3) by (auto simp: sublist_Cons_right)
  ultimately show ?case using 3 by simp
qed auto

lemma py_replace_absent: "\<not> sublist old s \<Longrightarrow> py_replace old new s = s"
  by (simp add: py_replace_def replace_from_id)

lemma status_for_code: "sp_code (status_for c) = str_or c ''UNKNOWN''"
proof -
  have "\<forall>(k, s) \<in> set STATUSES. sp_code s = k" by (simp add: STATUSES_def status_entry_def)
  then have "dict_get STATUSES v = Some s \<Longrightarrow> sp_code s = v" for v s
    by (auto simp: dict_get_def dest!: map_of_SomeD)
  then show ?thesis by (auto simp: status_for_def Let_def status_entry_def split: option.splits)
qed

end
