(* ===== verification/Trade_Providers.thy ===== *)
theory Trade_Providers
  imports Presentation
begin

text \<open>
  The two brokers of the program: app/providers/futu_trade_provider.py, which speaks to the gateway's trade
  context (the SDK, a parameter), and app/providers/mock_trade_provider.py, which accepts every order. The
  first gives the record \<open>broker\<close> that the services of a pass call.
\<close>

section \<open>The trade context of the SDK\<close>

text \<open>
  Every call answers with a return code and data: a frame of rows, or the text of an error. A frame has a
  text form too. Queries and orders take the trading environment.
\<close>

datatype sdk_data = Frame "row list" string | Message string

fun sdk_text :: "sdk_data \<Rightarrow> string" where
  "sdk_text (Frame rows text) = text"
| "sdk_text (Message m) = m"

type_synonym sdk_answer = "int \<times> sdk_data"

record trade_context =
  tc_acc_list :: sdk_answer
  tc_accinfo :: "string \<Rightarrow> sdk_answer"
  tc_position_list :: "string \<Rightarrow> sdk_answer"
  tc_order_list :: "string \<Rightarrow> sdk_answer"
  tc_deal_list :: "string \<Rightarrow> sdk_answer"
  tc_place_order :: "string \<Rightarrow> real \<Rightarrow> int \<Rightarrow> string \<Rightarrow> side \<Rightarrow> sdk_answer"
  tc_cancel_order :: "string \<Rightarrow> string \<Rightarrow> sdk_answer"

definition SIMULATE :: string where "SIMULATE = ''SIMULATE''"

definition rows_of :: "string \<Rightarrow> sdk_answer \<Rightarrow> exn + row list" where
  "rows_of operation answer =
     (if fst answer \<noteq> 0
      then Inl (RuntimeError (''Futu simulated '' @ operation @ '' failed: '' @ sdk_text (snd answer)))
      else Inr (case snd answer of Frame rows _ \<Rightarrow> rows | Message _ \<Rightarrow> []))"

definition first_row :: "exn + row list \<Rightarrow> exn + row" where
  "first_row r = map_sum id (\<lambda>rows. case rows of [] \<Rightarrow> [] | x # _ \<Rightarrow> x) r"

section \<open>The provider\<close>

text \<open>
  The context is opened by the first call and kept; \<open>close\<close> gives it back. Opening may raise, then the
  next call tries again.
\<close>

definition futu_context :: "exn + trade_context \<Rightarrow> trade_context option \<Rightarrow> (exn + trade_context) \<times>
    trade_context option" where
  "futu_context opening trade_ctx =
     (case trade_ctx of
        Some c \<Rightarrow> (Inr c, Some c)
      | None \<Rightarrow> (case opening of Inl e \<Rightarrow> (Inl e, None) | Inr c \<Rightarrow> (Inr c, Some c)))"

definition futu_close :: "trade_context option \<Rightarrow> trade_context option" where
  "futu_close trade_ctx = None"

text \<open>A query in the simulated environment, on a context that may have failed to open.\<close>

definition futu_query :: "string \<Rightarrow> (trade_context \<Rightarrow> sdk_answer) \<Rightarrow> exn + trade_context
    \<Rightarrow> exn + row list" where
  "futu_query operation call c = (case c of Inl e \<Rightarrow> Inl e | Inr ctx \<Rightarrow> rows_of operation (call ctx))"

definition futu_get_accounts :: "exn + trade_context \<Rightarrow> exn + row list" where
  "futu_get_accounts c =
     map_sum id (filter (\<lambda>r. py_str (row_get r ''trd_env'') = SIMULATE)) (futu_query ''get_acc_list'' tc_acc_list c)"

definition futu_get_account_info :: "exn + trade_context \<Rightarrow> exn + row" where
  "futu_get_account_info c = first_row (futu_query ''accinfo_query'' (\<lambda>x. tc_accinfo x SIMULATE) c)"

definition futu_get_positions :: "exn + trade_context \<Rightarrow> exn + row list" where
  "futu_get_positions c = futu_query ''position_list_query'' (\<lambda>x. tc_position_list x SIMULATE) c"

definition futu_get_open_orders :: "exn + trade_context \<Rightarrow> exn + row list" where
  "futu_get_open_orders c = futu_query ''order_list_query'' (\<lambda>x. tc_order_list x SIMULATE) c"

definition futu_get_deals :: "exn + trade_context \<Rightarrow> exn + row list" where
  "futu_get_deals c = futu_query ''deal_list_query'' (\<lambda>x. tc_deal_list x SIMULATE) c"

definition futu_place_simulated_order ::
  "settings \<Rightarrow> exn + trade_context \<Rightarrow> string \<Rightarrow> side \<Rightarrow> int \<Rightarrow> real
      \<Rightarrow> exn + row" where
  "futu_place_simulated_order st c symbol sd qty limit_price =
     futu_place_order (\<lambda>price q code s. futu_query ''place_order'' (\<lambda>x. tc_place_order x SIMULATE price q code s) c)
       st symbol sd qty limit_price"

definition futu_cancel_order :: "exn + trade_context \<Rightarrow> string \<Rightarrow> exn + row" where
  "futu_cancel_order c order_id = first_row (futu_query ''cancel_order'' (\<lambda>x. tc_cancel_order x SIMULATE order_id) c)"

text \<open>The provider as the services see it. Nothing looks at the row that cancelling answers.\<close>

definition futu_broker :: "settings \<Rightarrow> exn + trade_context \<Rightarrow> broker" where
  "futu_broker st c =
     \<lparr>get_account_info = futu_get_account_info c, get_positions = futu_get_positions c,
      get_open_orders = futu_get_open_orders c, get_deals = futu_get_deals c,
      place_simulated_order = futu_place_simulated_order st c,
      cancel_order = (\<lambda>i. map_sum id (\<lambda>_. ()) (futu_cancel_order c i))\<rparr>"

section \<open>The mock\<close>

record mock_trade =
  mt_next_id :: int
  mt_orders :: "row list"

definition mock_trade_provider :: mock_trade where
  "mock_trade_provider = \<lparr>mt_next_id = 1, mt_orders = []\<rparr>"

definition mock_get_accounts :: "row list" where
  "mock_get_accounts = [[(''acc_id'', PStr ''mock-sim''), (''trd_env'', PStr ''SIMULATE'')]]"

definition mock_get_account_info :: row where
  "mock_get_account_info = [(''cash'', PInt 100000), (''power'', PInt 100000)]"

text \<open>The argument is the text form of the price.\<close>

definition mock_place_simulated_order ::
  "(real \<Rightarrow> string) \<Rightarrow> string \<Rightarrow> side \<Rightarrow> int \<Rightarrow> real \<Rightarrow>
      mock_trade \<Rightarrow> row \<times> mock_trade" where
  "mock_place_simulated_order show symbol sd qty limit_price s =
     (let r = [(''order_id'', PStr (''mock-'' @ str_int (mt_next_id s))), (''code'', PStr (''US.'' @ symbol)),
               (''trd_side'', PStr (side_str sd)), (''qty'', PInt qty), (''price'', PFloat limit_price (show limit_price)),
               (''order_status'', PStr ''SUBMITTED''), (''trd_env'', PStr ''SIMULATE'')]
      in (r, \<lparr>mt_next_id = mt_next_id s + 1, mt_orders = mt_orders s @ [r]\<rparr>))"

definition mock_cancel_order :: "string \<Rightarrow> row" where
  "mock_cancel_order order_id = [(''order_id'', PStr order_id), (''order_status'', PStr ''CANCELLED'')]"

text \<open>What the services see of the mock at a moment: no positions, no deals, the orders so far.\<close>

definition mock_broker :: "(real \<Rightarrow> string) \<Rightarrow> mock_trade \<Rightarrow> broker" where
  "mock_broker show s =
     \<lparr>get_account_info = Inr mock_get_account_info, get_positions = Inr [], get_open_orders = Inr (mt_orders s),
      get_deals = Inr [],
      place_simulated_order = (\<lambda>symbol sd qty price. Inr (fst (mock_place_simulated_order show symbol sd qty price s))),
      cancel_order = (\<lambda>_. Inr ())\<rparr>"

section \<open>Lemmas\<close>

text \<open>A context that answers only in the simulated environment.\<close>

definition simulated_only :: "trade_context \<Rightarrow> trade_context" where
  "simulated_only x =
     (let no = (- 1, Message ''no such environment'')
      in \<lparr>tc_acc_list = tc_acc_list x,
          tc_accinfo = (\<lambda>e. if e = SIMULATE then tc_accinfo x e else no),
          tc_position_list = (\<lambda>e. if e = SIMULATE then tc_position_list x e else no),
          tc_order_list = (\<lambda>e. if e = SIMULATE then tc_order_list x e else no),
          tc_deal_list = (\<lambda>e. if e = SIMULATE then tc_deal_list x e else no),
          tc_place_order = (\<lambda>e. if e = SIMULATE then tc_place_order x e else (\<lambda>_ _ _ _. no)),
          tc_cancel_order = (\<lambda>e. if e = SIMULATE then tc_cancel_order x e else (\<lambda>_. no))\<rparr>)"

lemma futu_query_simulated [simp]:
  "(\<And>x. call (simulated_only x) = call x) \<Longrightarrow> futu_query op call (map_sum id simulated_only c) = futu_query
      op call c"
  by (cases c) (simp_all add: futu_query_def)

lemma simulated_only_sel [simp]:
  "tc_acc_list (simulated_only x) = tc_acc_list x"
  "tc_accinfo (simulated_only x) SIMULATE = tc_accinfo x SIMULATE"
  "tc_position_list (simulated_only x) SIMULATE = tc_position_list x SIMULATE"
  "tc_order_list (simulated_only x) SIMULATE = tc_order_list x SIMULATE"
  "tc_deal_list (simulated_only x) SIMULATE = tc_deal_list x SIMULATE"
  "tc_place_order (simulated_only x) SIMULATE = tc_place_order x SIMULATE"
  "tc_cancel_order (simulated_only x) SIMULATE = tc_cancel_order x SIMULATE"
  by (simp_all add: simulated_only_def Let_def)

text \<open>Every order the mock has accepted has an id of its own.\<close>

fun mock_orders :: "(real \<Rightarrow> string) \<Rightarrow> (string \<times> side \<times> int \<times> real) list
    \<Rightarrow> mock_trade \<Rightarrow> mock_trade" where
  "mock_orders show [] s = s"
| "mock_orders show ((symbol, sd, qty, price) # os) s =
     mock_orders show os (snd (mock_place_simulated_order show symbol sd qty price s))"

lemma mock_orders_numbered:
  "mt_next_id (mock_orders show os s) = mt_next_id s + int (length os)
   \<and> map (\<lambda>r. row_get r ''order_id'') (mt_orders (mock_orders show os s))
      = map (\<lambda>r. row_get r ''order_id'') (mt_orders s)
        @ map (\<lambda>i. PStr (''mock-'' @ str_int (mt_next_id s + int i))) [0..<length os]"
proof (induction os arbitrary: s)
  case (Cons x os)
  obtain symbol sd qty price where x: "x = (symbol, sd, qty, price)" by (cases x) auto
  have "[0..<Suc (length os)] = 0 # map Suc [0..<length os]" by (simp only: map_Suc_upt) (simp only: upt_conv_Cons [of 0 "Suc
      (length os)"] zero_less_Suc)
  then show ?case
    using Cons.IH [of "snd (mock_place_simulated_order show symbol sd qty price s)"]
    by (simp add: x mock_place_simulated_order_def Let_def row_get_def comp_def add.assoc add.left_commute)
qed simp

section \<open>Properties\<close>

text \<open>C13. The broker of the program is the same for a gateway that only has the simulated environment: whatever it
  queries, orders or cancels, it never asks for a real account, accounts that are not simulated are left out,
  and an order is refused before the gateway is asked if simulated trading is off or quantity or price is
  not positive.\<close>

theorem real_account_is_never_used:
  "futu_broker st (map_sum id simulated_only c) = futu_broker st c
   \<and> futu_get_accounts (map_sum id simulated_only c) = futu_get_accounts c
   \<and> (case futu_get_accounts c of Inl _ \<Rightarrow> True | Inr rows \<Rightarrow> list_all (\<lambda>r. py_str (row_get r
       ''trd_env'') = SIMULATE) rows)
   \<and> (enable_sim_trading st \<and> 0 < qty \<and> 0 < price
      \<or> (\<exists>e. \<forall>d. place_simulated_order (futu_broker st d) symbol sd qty price = Inl e))"
proof (intro conjI)
  show "futu_broker st (map_sum id simulated_only c) = futu_broker st c"
    by (simp add: futu_broker_def futu_get_account_info_def futu_get_positions_def futu_get_open_orders_def futu_get_deals_def
        futu_place_simulated_order_def futu_cancel_order_def fun_eq_iff)
  show "futu_get_accounts (map_sum id simulated_only c) = futu_get_accounts c"
    by (simp add: futu_get_accounts_def)
  show "case futu_get_accounts c of Inl _ \<Rightarrow> True | Inr rows \<Rightarrow> list_all (\<lambda>r. py_str (row_get r
      ''trd_env'') = SIMULATE) rows"
    by (cases "futu_query ''get_acc_list'' tc_acc_list c") (simp_all add: futu_get_accounts_def list_all_iff)
  show "enable_sim_trading st \<and> 0 < qty \<and> 0 < price
      \<or> (\<exists>e. \<forall>d. place_simulated_order (futu_broker st d) symbol sd qty price = Inl e)"
  proof (cases "enable_sim_trading st \<and> 0 < qty \<and> 0 < price")
    case False
    then show ?thesis
      by (cases "enable_sim_trading st") (auto simp: futu_broker_def futu_place_simulated_order_def futu_place_order_def not_less)
  qed simp
qed

end
