(* ===== verification/Plan_View.thy ===== *)
theory Plan_View
  imports Presentation Validator Risk_Control
begin

text \<open>
  The read models of a plan: app/services/next_action.py (what the pages say comes next for a plan, a
  position, a battle item or a candidate) and app/services/command_center.py (the thirteen checks shown
  for a plan, the reason that blocks it, and the payload of the command center).

  A check is met, not met, or waiting (\<open>None\<close>): waiting is what a check of the live market is without a
  validation of the last 120 seconds. The payload text of an audit row is not part of the stored row, so
  it is a parameter: what \<open>json.loads\<close> gives for the text of the row with an id, the id being the place
  of the row in the table.
\<close>

section \<open>Next actions\<close>

definition price_in_window :: "trade_plan \<Rightarrow> bool" where
  "price_in_window plan \<longleftrightarrow>
     opt_truthy (pl_current_price plan) \<and> opt_truthy (pl_breakout_entry_price plan)
     \<and> opt_or (pl_current_price plan) 0 \<ge> opt_or (pl_breakout_entry_price plan) 0
     \<and> (\<not> opt_truthy (pl_no_chase_above plan) \<or> opt_or (pl_current_price plan) 0 \<le> opt_or (pl_no_chase_above
         plan) 0)"

definition describe_trade_plan_next_action :: "trade_plan \<Rightarrow> string" where
  "describe_trade_plan_next_action plan =
     (let ready = price_in_window plan
      in if ready \<and> pl_rules_reject_reason plan \<noteq> []
         then (utf8 [20215, 26684, 24050, 32463, 21512, 36866, 65292, 20294, 31995, 32479, 26242, 19981, 20801, 35768, 20837,
             22330, 65306]) @ pl_rules_reject_reason plan
         else if ready \<and> (pl_capital_status plan = CAPITAL_UNKNOWN \<or> pl_capital_reason plan \<noteq> [])
         then (utf8 [20215, 26684, 24050, 32463, 21512, 36866, 65292, 20294, 26242, 26102, 26080, 27861, 30830, 35748, 36134,
             25143, 26159, 21542, 26377, 36275, 22815, 36164, 37329, 65292, 22240, 27492, 19981, 20250, 25552, 20132, 35746,
             21333, 12290])
              @ str_or (pl_capital_reason plan) (utf8 [26080, 27861, 30830, 35748, 27169, 25311, 36134, 25143, 36164, 37329,
                  12289, 25345, 20179, 21644, 26410, 25104, 20132, 35746, 21333])
         else if ready \<and> pl_status plan \<noteq> PL_TRIGGERED
         then (utf8 [20215, 26684, 24050, 32463, 36827, 20837, 20801, 35768, 20837, 22330, 30340, 21306, 38388, 65292, 31995,
             32479, 27491, 22312, 31561, 24453, 26368, 26032, 34892, 24773, 23436, 25104, 23454, 26102, 30830, 35748, 12290])
         else if ready then (utf8 [20215, 26684, 24050, 32463, 36827, 20837, 35745, 21010, 21306, 38388, 65292, 27491, 22312,
             26816, 26597, 39118, 38505, 26465, 20214, 21644, 21487, 29992, 36164, 37329, 12290])
         else if pl_status plan \<in> {PL_ACTIVE, PL_PLANNED, PL_ARMED} \<and> opt_truthy (pl_breakout_entry_price plan)
         then (utf8 [31561, 24453, 20215, 26684, 31361, 30772, 32]) @ fmt_fixed 2 (opt_or (pl_breakout_entry_price plan) 0)
              @ (if opt_truthy (pl_no_chase_above plan)
                 then (utf8 [65292, 19988, 19981, 24471, 39640, 20110, 32]) @ fmt_fixed 2 (opt_or (pl_no_chase_above plan) 0)
                     else [])
              @ (utf8 [12290])
         else if pl_status plan = PL_NO_CHASE then (utf8 [19981, 36861, 21333, 65292, 31561, 24453, 20215, 26684, 22238, 36393,
             35745, 21010, 21306, 25110, 35745, 21010, 22833, 25928, 12290])
         else if pl_status plan \<in> {PL_WAITLIST, PL_MISSED_BY_CAPITAL} then (utf8 [36164, 37329, 37322, 25918, 21518, 37325,
             26032, 23454, 26102, 26657, 39564, 65292, 19981, 20250, 30452, 25509, 19979, 21333, 12290])
         else if pl_status plan = PL_TRIGGERED
         then (utf8 [20215, 26684, 24050, 32463, 36827, 20837, 35745, 21010, 21306, 38388, 65292, 27491, 22312, 26816, 26597,
             39118, 38505, 26465, 20214, 21644, 21487, 29992, 36164, 37329, 65307, 20840, 37096, 28385, 36275, 21518, 25552,
             20132, 27169, 25311, 38480, 20215, 21333, 12290])
         else if pl_status plan = PL_ORDER_SUBMITTED then (utf8 [31561, 24453, 27169, 25311, 35746, 21333, 25104, 20132, 65307,
             36229, 36807, 31561, 24453, 26102, 38388, 23558, 33258, 21160, 25764, 21333, 12290])
         else sp_next_action (status_for (plan_status_str (pl_status plan))))"

definition describe_position_next_action :: "position \<Rightarrow> string" where
  "describe_position_next_action p =
     (if pos_last_error p \<noteq> []
      then (utf8 [26368, 36817, 19968, 27425, 26816, 26597, 36935, 21040, 38382, 39064, 65306]) @ pos_last_error p @ (utf8
          [12290, 31995, 32479, 20250, 22312, 19979, 19968, 36718, 32487, 32493, 26816, 26597, 12290])
      else if pos_is_orphan p
      then (utf8 [23500, 36884, 36134, 25143, 26816, 27979, 25345, 20179, 65292, 25353, 40664, 35748, 27490, 30408, 32]) @
          fmt_fixed 1 (opt_or (pos_take_profit_pct p) (3/100) * 100)
           @ (utf8 [37, 32, 47, 32, 27490, 25439, 32]) @ fmt_fixed 1 (opt_or (pos_stop_loss_pct p) (2/100) * 100) @ (utf8 [37,
               32, 33258, 21160, 31649, 29702, 12290])
      else if pos_current_r p \<le> - (7/10) then (utf8 [25509, 36817, 27490, 25439, 65292, 31995, 32479, 27491, 22312, 20248,
          20808, 30417, 25511, 36864, 20986, 26465, 20214, 12290])
      else if pos_partial_exit_done p then (utf8 [24050, 37096, 20998, 27490, 30408, 65292, 32487, 32493, 30417, 25511, 31227,
          21160, 27490, 30408, 21644, 31532, 20108, 30446, 26631, 12290])
      else if pos_current_r p \<ge> 1 then (utf8 [24050, 36798, 21040, 32, 49, 82, 65292, 27490, 25439, 23558, 25260, 33267,
          25104, 26412, 38468, 36817, 12290])
      else (utf8 [31561, 24453, 30446, 26631, 32, 49, 65292, 21516, 26102, 25345, 32493, 30417, 25511, 30828, 27490, 25439,
          12290]))"

definition describe_battle_next_action :: "battle_item \<Rightarrow> bool \<Rightarrow> string" where
  "describe_battle_next_action item has_plan =
     (if has_plan then (utf8 [24050, 26377, 20132, 26131, 35745, 21010, 65292, 36827, 20837, 23454, 26102, 20215, 26684, 19982,
         35268, 21017, 26657, 39564, 12290])
      else if bp_priority_level item \<in> {Prio_S, Prio_A} then (utf8 [31561, 24453, 24418, 25104, 26126, 30830, 27490, 25439,
          21644, 30446, 26631, 21518, 29983, 25104, 20132, 26131, 35745, 21010, 12290])
      else str_or (bp_next_wait item) (utf8 [32487, 32493, 35266, 23519, 32467, 26500, 65292, 19981, 33258, 21160, 19979, 21333,
          12290]))"

definition describe_candidate_next_action :: "string \<Rightarrow> string" where
  "describe_candidate_next_action status =
     (case dict_get
        [(''NO_STRUCTURE'', (utf8 [26242, 26080, 32, 54, 48, 32, 20998, 38047, 32467, 26500, 65292, 32487, 32493, 38543, 23567,
            26102, 30417, 25511, 12290])),
         (''WAIT_CONFIRM'', (utf8 [31561, 24453, 32467, 26500, 30830, 35748, 65292, 19981, 33021, 30452, 25509, 20132, 26131,
             12290])),
         (''STOP_TOO_WIDE'', (utf8 [31561, 24453, 27490, 25439, 36317, 31163, 25910, 31364, 25110, 26032, 30340, 32467, 26500,
             12290])),
         (''BATTLE_BUT_NOT_SA'', (utf8 [32487, 32493, 35266, 23519, 65292, 66, 47, 67, 32, 32423, 19981, 20250, 33258, 21160,
             19979, 21333, 12290])),
         (''PLAN_BLOCKED'', (utf8 [31561, 24453, 20986, 29616, 21487, 25512, 23548, 26126, 30830, 27490, 25439, 21644, 30446,
             26631, 30340, 32467, 26500, 12290])),
         (''ACTIVE_PLAN'', (utf8 [24050, 36827, 20837, 20132, 26131, 35745, 21010, 65292, 31561, 24453, 23454, 26102, 26657,
             39564, 12290])),
         (''IN_POSITION'', (utf8 [24050, 26377, 25345, 20179, 65292, 20248, 20808, 31649, 29702, 39118, 38505, 12290])),
         (''COOLDOWN'', (utf8 [20919, 21364, 26399, 20869, 21482, 35266, 23519, 65292, 19981, 29983, 25104, 26032, 35746, 21333,
             12290])),
         (''DROPPED'', (utf8 [24050, 36864, 20986, 24403, 21069, 20505, 36873, 27744, 12290]))] status of
        Some t \<Rightarrow> t | None \<Rightarrow> (utf8 [32487, 32493, 38543, 31995, 32479, 30417, 25511, 12290]))"

section \<open>The latest validation of a plan\<close>

text \<open>
  The context the validator wrote, with whether it is fresh; \<open>None\<close> is the empty dictionary (no
  validation, or a text that is no JSON).
\<close>

record validation_view =
  vv_context :: realtime_context
  vv_is_fresh :: bool

type_synonym audit_payloads = "int \<Rightarrow> realtime_context stored_json"

definition audit_rows :: "'z ledger_scheme \<Rightarrow> (int \<times> audit_log) list" where
  "audit_rows db = map (\<lambda>(i, a). (int i, a)) (enumerate 1 (audits db))"

definition parse_validation_log :: "audit_payloads \<Rightarrow> int \<Rightarrow> int \<times> audit_log \<Rightarrow>
    validation_view option" where
  "parse_validation_log payload now entry =
     (case payload (fst entry) of
        JsonCorrupt \<Rightarrow> None
      | JsonValue c \<Rightarrow> Some \<lparr>vv_context = c, vv_is_fresh = (now - al_created_at (snd entry) \<le> seconds
          120)\<rparr>)"

definition is_validation_of :: "trade_plan \<Rightarrow> int \<times> audit_log \<Rightarrow> bool" where
  "is_validation_of plan entry \<longleftrightarrow>
     al_action (snd entry) = ''TRADE_PLAN_VALIDATED'' \<and> al_subject_type (snd entry) = ''TradePlan''
     \<and> al_subject_id (snd entry) = Some (pl_id plan)"

definition latest_validation :: "audit_payloads \<Rightarrow> int \<Rightarrow> trade_plan \<Rightarrow> 'z ledger_scheme
    \<Rightarrow> validation_view option" where
  "latest_validation payload now plan db =
     (case scalar (order_desc (\<lambda>entry. al_created_at (snd entry)) (filter (is_validation_of plan) (audit_rows db))) of
        None \<Rightarrow> None
      | Some entry \<Rightarrow> parse_validation_log payload now entry)"

definition fresh_context :: "validation_view option \<Rightarrow> realtime_context option" where
  "fresh_context v = (case v of None \<Rightarrow> None | Some w \<Rightarrow> if vv_is_fresh w then Some (vv_context w) else None)"

definition validation_check :: "validation_view option \<Rightarrow> (realtime_context \<Rightarrow> bool) \<Rightarrow>
    (realtime_context \<Rightarrow> bool) \<Rightarrow> bool option" where
  "validation_check v available ok =
     (case fresh_context v of
        None \<Rightarrow> None
      | Some c \<Rightarrow> if available c then Some (ok c) else None)"

definition validation_value :: "validation_view option \<Rightarrow> (realtime_context \<Rightarrow> bool option) \<Rightarrow>
    bool option" where
  "validation_value v field = (case fresh_context v of None \<Rightarrow> None | Some c \<Rightarrow> field c)"

definition market_check :: "validation_view option \<Rightarrow> bool option" where
  "market_check v = validation_check v rc_market_state_available (\<lambda>c. rc_market_state c \<noteq> RISK_OFF)"

section \<open>The texts beside the checks\<close>

definition entry_price_detail :: "real \<Rightarrow> real \<Rightarrow> string" where
  "entry_price_detail current entry =
     (if current = 0 \<or> entry = 0 then (utf8 [26242, 26102, 27809, 26377, 23436, 25972, 30340, 23454, 26102, 20215, 26684,
         25110, 35745, 21010, 20837, 22330, 20215, 12290])
      else if current \<ge> entry
      then (utf8 [24403, 21069, 20215, 32]) @ fmt_fixed 2 current @ (utf8 [65292, 24050, 32463, 36798, 21040, 35745, 21010,
          20837, 22330, 20215, 32]) @ fmt_fixed 2 entry @ (utf8 [12290])
      else (utf8 [24403, 21069, 20215, 32]) @ fmt_fixed 2 current @ (utf8 [65292, 36824, 38656, 19978, 28072, 33267, 32]) @
          fmt_fixed 2 entry @ (utf8 [32, 25165, 36827, 20837, 35745, 21010, 20837, 22330, 21306, 12290]))"

definition no_chase_detail :: "real \<Rightarrow> real \<Rightarrow> string" where
  "no_chase_detail current no_chase =
     (if current = 0 then (utf8 [26242, 26102, 27809, 26377, 21487, 29992, 30340, 23454, 26102, 20215, 26684, 12290])
      else if no_chase = 0 then (utf8 [35813, 35745, 21010, 23578, 26410, 35774, 32622, 26368, 39640, 21487, 25509, 21463,
          20837, 22330, 20215, 12290])
      else if current \<le> no_chase
      then (utf8 [24403, 21069, 20215, 32]) @ fmt_fixed 2 current @ (utf8 [65292, 27809, 26377, 36229, 36807, 26368, 39640,
          21487, 25509, 21463, 20837, 22330, 20215, 32]) @ fmt_fixed 2 no_chase @ (utf8 [12290])
      else (utf8 [24403, 21069, 20215, 32]) @ fmt_fixed 2 current @ (utf8 [32, 24050, 39640, 20110, 26368, 39640, 21487, 25509,
          21463, 20837, 22330, 20215, 32]) @ fmt_fixed 2 no_chase
           @ (utf8 [65292, 20026, 36991, 20813, 36861, 39640, 65292, 31995, 32479, 26242, 19981, 20837, 22330, 12290]))"

definition market_detail :: "validation_view option \<Rightarrow> string" where
  "market_detail v =
     (case fresh_context v of
        None \<Rightarrow> (utf8 [26368, 36817, 20004, 20998, 38047, 27809, 26377, 26032, 30340, 24066, 22330, 29615, 22659,
            26657, 39564, 32467, 26524, 12290])
      | Some c \<Rightarrow>
          (if \<not> rc_market_state_available c then (utf8 [24066, 22330, 22522, 20934, 25968, 25454, 26242, 19981, 23436,
              25972, 65292, 31995, 32479, 26080, 27861, 30830, 35748, 26159, 21542, 36866, 21512, 26032, 22686, 20179, 20301,
              12290])
           else (utf8 [26368, 36817, 30830, 35748, 30340, 24066, 22330, 29615, 22659, 20026, 8220]) @ label_for (market_text
               (rc_market_state c)) @ (utf8 [8221, 12290])))"

definition spread_detail :: "validation_view option \<Rightarrow> settings \<Rightarrow> string" where
  "spread_detail v st =
     (case fresh_context v of
        None \<Rightarrow> (utf8 [26368, 36817, 32, 49, 50, 48, 32, 31186, 20869, 27809, 26377, 23454, 26102, 26657, 39564])
      | Some c \<Rightarrow>
          (if \<not> rc_spread_available c then (utf8 [79, 112, 101, 110, 68, 32, 26410, 36820, 22238, 26377, 25928, 20080,
              19968, 47, 21334, 19968])
           else fmt_fixed 3 (opt_or (rc_spread_pct c) 0 * 100) @ (utf8 [37, 65292, 19978, 38480, 32]) @ fmt_fixed 3
               (max_spread_pct st * 100) @ ''%''))"

definition volume_detail :: "validation_view option \<Rightarrow> string" where
  "volume_detail v =
     (case fresh_context v of
        None \<Rightarrow> (utf8 [26368, 36817, 32, 49, 50, 48, 32, 31186, 20869, 27809, 26377, 23454, 26102, 26657, 39564])
      | Some c \<Rightarrow>
          (if \<not> rc_volume_available c then (utf8 [79, 112, 101, 110, 68, 32, 26410, 36820, 22238, 26377, 25928, 25104,
              20132, 37327])
           else (utf8 [23454, 26102, 24555, 29031, 25104, 20132, 37327, 32]) @ fmt_grouped 0 (rc_volume c)))"

section \<open>The thirteen checks\<close>

record plan_check =
  ck_label :: string
  ck_passed :: "bool option"
  ck_result :: string
  ck_detail :: string
  ck_block_message :: string

definition check_of :: "string \<Rightarrow> bool option \<Rightarrow> string \<Rightarrow> plan_check" where
  "check_of label passed detail =
     \<lparr>ck_label = label, ck_passed = passed,
      ck_result = (case passed of Some True \<Rightarrow> (utf8 [26465, 20214, 24050, 28385, 36275]) | Some False \<Rightarrow>
          (utf8 [26242, 19981, 28385, 36275]) | None \<Rightarrow> (utf8 [31561, 24453, 30830, 35748])),
      ck_detail = detail, ck_block_message = label @ (utf8 [23578, 26410, 28385, 36275, 12290]) @ detail\<rparr>"

definition entry_price_reached :: "trade_plan \<Rightarrow> bool" where
  "entry_price_reached plan =
     (let current = opt_or (pl_current_price plan) 0; entry = opt_or (pl_breakout_entry_price plan) 0
      in current \<noteq> 0 \<and> entry \<noteq> 0 \<and> current \<ge> entry)"

definition chase_price_ok :: "trade_plan \<Rightarrow> bool" where
  "chase_price_ok plan =
     (let current = opt_or (pl_current_price plan) 0; no_chase = opt_or (pl_no_chase_above plan) 0
      in current \<noteq> 0 \<and> (no_chase = 0 \<or> current \<le> no_chase))"

text \<open>What the view reads beside the plan: the validation, the two booleans and the portfolio state.\<close>

record plan_inputs =
  pi_validation :: "validation_view option"
  pi_has_position :: bool
  pi_has_order :: bool
  pi_sync :: portfolio_sync

definition plan_checks :: "trade_plan \<Rightarrow> settings \<Rightarrow> clock \<Rightarrow> plan_inputs \<Rightarrow>
    plan_check list" where
  "plan_checks plan st ck inp =
     (let v = pi_validation inp; sync = pi_sync inp;
          current = opt_or (pl_current_price plan) 0;
          entry = opt_or (pl_breakout_entry_price plan) 0;
          no_chase = opt_or (pl_no_chase_above plan) 0
      in [check_of (utf8 [24050, 32463, 21040, 36798, 35745, 21010, 20837, 22330, 20215]) (Some (entry_price_reached plan))
          (entry_price_detail current entry),
          check_of (utf8 [24403, 21069, 20215, 26684, 20173, 36866, 21512, 20837, 22330]) (Some (chase_price_ok plan))
              (no_chase_detail current no_chase),
          check_of (utf8 [31995, 32479, 24050, 23436, 25104, 26412, 36718, 23454, 26102, 30830, 35748]) (Some (pl_status plan =
              PL_TRIGGERED))
            (if pl_status plan = PL_TRIGGERED then (utf8 [23454, 26102, 26465, 20214, 24050, 32463, 30830, 35748, 65292, 21487,
                20197, 36827, 20837, 39118, 25511, 19982, 36164, 37329, 23457, 26680, 12290])
             else (utf8 [35745, 21010, 30446, 21069, 22788, 20110, 8220]) @ sp_display_name (status_for (plan_status_str
                 (pl_status plan)))
                  @ (utf8 [8221, 65292, 31995, 32479, 36824, 27809, 26377, 23436, 25104, 26412, 36718, 20837, 22330, 30830,
                      35748, 12290])),
          check_of (utf8 [27169, 25311, 20132, 26131, 21151, 33021, 24050, 24320, 21551]) (Some (enable_sim_trading st)) (utf8
              [20851, 38381, 26102, 31995, 32479, 21482, 30417, 25511, 65292, 19981, 20250, 25552, 20132, 27169, 25311, 35746,
              21333, 12290]),
          check_of (utf8 [30495, 23454, 20132, 26131, 20445, 25345, 20851, 38381]) (Some (\<not> enable_real_trading st)) (utf8
              [31995, 32479, 21482, 20801, 35768, 27169, 25311, 20132, 26131, 12290]),
          check_of (utf8 [20080, 21334, 20215, 24046, 22312, 21487, 25509, 21463, 33539, 22260, 20869])
            (validation_check v rc_spread_available
               (\<lambda>c. case rc_spread_pct c of None \<Rightarrow> False | Some x \<Rightarrow> x \<le> max_spread_pct st))
            (spread_detail v st),
          check_of (utf8 [24403, 21069, 25104, 20132, 27963, 36291, 24230, 28385, 36275, 35201, 27714]) (validation_check v
              rc_volume_available rc_volume_ok) (volume_detail v),
          check_of (utf8 [54, 48, 32, 20998, 38047, 30701, 26399, 36208, 21183, 27809, 26377, 36716, 24369]) (validation_value v
              rc_short_trend_ok)
            (str_or (case v of None \<Rightarrow> [] | Some w \<Rightarrow> rc_short_trend_reason (vv_context w)) (utf8 [31561,
                24453, 26368, 26032, 32, 54, 48, 32, 20998, 38047, 25351, 26631, 30830, 35748, 12290])),
          check_of (utf8 [24066, 22330, 29615, 22659, 20801, 35768, 26032, 22686, 20179, 20301]) (market_check v) (market_detail v),
          check_of (utf8 [24403, 21069, 22788, 20110, 20801, 35768, 24320, 20179, 30340, 20132, 26131, 26102, 27573]) (Some
              (entry_time_allowed st (cl_ny ck))) (utf8 [31995, 32479, 25353, 32654, 19996, 20132, 26131, 26102, 27573, 25511,
              21046, 26032, 24320, 20179, 12290]),
          check_of (utf8 [27169, 25311, 36134, 25143, 26377, 36275, 22815, 21487, 29992, 36164, 37329]) (Some (ps_ok sync \<and>
              ps_status sync = CAPITAL_AVAILABLE))
            (str_or (str_or (ps_reason sync) (ps_error sync)) (utf8 [31561, 24453, 27169, 25311, 36134, 25143, 23436, 25104,
                36164, 37329, 21516, 27493, 12290])),
          check_of (utf8 [35813, 32929, 31080, 30446, 21069, 27809, 26377, 37325, 22797, 25345, 20179]) (Some (\<not>
              pi_has_position inp)) (utf8 [24050, 26377, 25345, 20179, 26102, 19981, 20250, 37325, 22797, 24320, 20179, 12290]),
          check_of (utf8 [35813, 32929, 31080, 30446, 21069, 27809, 26377, 24453, 25104, 20132, 35746, 21333]) (Some (\<not>
              pi_has_order inp)) (utf8 [24050, 26377, 24453, 25104, 20132, 35746, 21333, 26102, 19981, 20250, 37325, 22797,
              19979, 21333, 12290])])"

section \<open>The view\<close>

record plan_view =
  pv_record :: trade_plan
  pv_status :: status_presentation
  pv_next_action :: string
  pv_reason :: string
  pv_price_gate_status :: string
  pv_validation_status :: string
  pv_rules_approval_status :: approval_status
  pv_capital_status :: capital_status
  pv_block_reason :: string
  pv_checks :: "plan_check list"
  pv_summary_checks :: "plan_check list"

definition open_checks :: "plan_check list \<Rightarrow> plan_check list" where
  "open_checks cs = filter (\<lambda>c. ck_passed c \<noteq> Some True) cs"

definition block_reason_of :: "trade_plan \<Rightarrow> portfolio_sync \<Rightarrow> plan_check list \<Rightarrow> string" where
  "block_reason_of plan sync cs =
     str_or (str_or (str_or (pl_rules_reject_reason plan) (pl_capital_reason plan))
        (if \<not> ps_ok sync then str_or (ps_error sync) (ps_reason sync) else []))
        (case open_checks cs of [] \<Rightarrow> [] | c # _ \<Rightarrow> ck_block_message c)"

text \<open>No approval status is the text ACTIVE, so the view shows the status itself.\<close>

definition plan_view_with :: "trade_plan \<Rightarrow> settings \<Rightarrow> clock \<Rightarrow> plan_inputs \<Rightarrow>
    plan_view" where
  "plan_view_with plan st ck inp =
     (let cs = plan_checks plan st ck inp; price_ready = (entry_price_reached plan \<and> chase_price_ok plan)
      in \<lparr>pv_record = plan, pv_status = status_for (plan_status_str (pl_status plan)),
          pv_next_action = describe_trade_plan_next_action plan,
          pv_reason = str_or (str_or (pl_rules_reject_reason plan) (pl_capital_reason plan)) (pl_reason plan),
          pv_price_gate_status = (if price_ready then (utf8 [20215, 26684, 26465, 20214, 24050, 28385, 36275]) else (utf8
              [31561, 24453, 20215, 26684, 26465, 20214])),
          pv_validation_status =
            (if pl_status plan = PL_TRIGGERED then (utf8 [23454, 26102, 30830, 35748, 24050, 23436, 25104])
             else if price_ready then (utf8 [20215, 26684, 24050, 21040, 65292, 31561, 24453, 31995, 32479, 23436, 25104, 23454,
                 26102, 30830, 35748]) else (utf8 [31561, 24453, 23454, 26102, 34892, 24773, 30830, 35748])),
          pv_rules_approval_status = pl_rules_approval_status plan, pv_capital_status = pl_capital_status plan,
          pv_block_reason = block_reason_of plan (pi_sync inp) cs, pv_checks = cs,
          pv_summary_checks = take 3 (open_checks cs)\<rparr>)"

definition plan_inputs_of :: "audit_payloads \<Rightarrow> clock \<Rightarrow> trade_plan \<Rightarrow> 'z ledger_scheme
    \<Rightarrow> plan_inputs" where
  "plan_inputs_of payload ck plan db =
     \<lparr>pi_validation = latest_validation payload (cl_utc ck) plan db,
      pi_has_position = opt_truthy (scalar (map pos_id
         (filter (\<lambda>p. pos_symbol p = pl_symbol plan \<and> pos_status p = POS_OPEN) (positions db)))),
      pi_has_order = opt_truthy (scalar (map so_id
         (filter (\<lambda>ord. so_symbol ord = pl_symbol plan \<and> so_status ord \<in> {OS_SUBMITTED, OS_PARTIALLY_FILLED})
             (orders db)))),
      pi_sync = portfolio_sync_status db\<rparr>"

definition plan_view_model :: "audit_payloads \<Rightarrow> clock \<Rightarrow> trade_plan \<Rightarrow> settings \<Rightarrow>
    'z ledger_scheme \<Rightarrow> plan_view" where
  "plan_view_model payload ck plan st db = plan_view_with plan st ck (plan_inputs_of payload ck plan db)"

section \<open>The command center\<close>

definition EXECUTABLE :: "plan_status list" where
  "EXECUTABLE = [PL_ACTIVE, PL_PLANNED, PL_ARMED, PL_TRIGGERED, PL_ORDER_SUBMITTED]"

definition BLOCKED_STATUSES :: "plan_status list" where
  "BLOCKED_STATUSES = [PL_NO_CHASE, PL_WAITLIST, PL_MISSED_BY_CAPITAL, PL_BLOCKED, PL_PAUSED, PL_INVALIDATED, PL_EXPIRED]"

fun priority_rank :: "priority \<Rightarrow> int" where
  "priority_rank Prio_S = 0"
| "priority_rank Prio_A = 1"
| "priority_rank Prio_B = 2"
| "priority_rank Prio_C = 3"

definition approval_rejected :: "approval_status \<Rightarrow> bool" where
  "approval_rejected a \<longleftrightarrow> a \<notin> {NOT_REVIEWED, APPROVED_FOR_SIM_TRADE}"

definition equity_readable :: "portfolio_sync \<Rightarrow> bool" where
  "equity_readable ps \<longleftrightarrow> ps_ok ps \<and> ps_account_equity_source ps = ''FUTU_SIM_ACCOUNT''
     \<and> ps_account_equity_sync_status ps = ''OK'' \<and> ps_account_equity ps > 0"

record funnel_counts =
  fc_candidates :: nat
  fc_structures_60m :: nat
  fc_battle_pool :: nat
  fc_sa_level :: nat
  fc_plans :: nat
  fc_validated :: nat
  fc_approved :: nat
  fc_orders :: nat
  fc_positions :: nat

record command_center =
  cc_sim_running :: bool
  cc_new_trades :: nat
  cc_max_new_trades :: int
  cc_positions_count :: nat
  cc_max_positions :: int
  cc_allows_entry :: bool
  cc_stop_reason :: string
  cc_account_equity :: real
  cc_equity_updated_at :: "int option"
  cc_risk_per_trade_pct :: real
  cc_positions_vm :: "(position \<times> string) list"
  cc_executable :: "plan_view list"
  cc_blocked :: "plan_view list"
  cc_funnel :: funnel_counts
  cc_timeline :: "audit_log list"
  cc_portfolio_sync :: portfolio_sync

definition funnel_of :: "nat \<Rightarrow> 'z store_scheme \<Rightarrow> funnel_counts" where
  "funnel_of open_positions db =
     (let count = (\<lambda>P. length (filter P (plans db)))
      in \<lparr>fc_candidates = length (filter cd_active (candidates db)),
          fc_structures_60m = length (remdups (map ev_symbol (filter (\<lambda>e. ev_timeframe e = HOUR_60) (structure_events
              db)))),
          fc_battle_pool = length (filter bp_active (battle_items db)),
          fc_sa_level = length (filter (\<lambda>b. bp_active b \<and> bp_priority_level b \<in> {Prio_S, Prio_A}) (battle_items
              db)),
          fc_plans = count (\<lambda>p. pl_status p \<notin> {PL_INVALIDATED, PL_EXPIRED}),
          fc_validated = count (\<lambda>p. pl_last_validated_at p \<noteq> None),
          fc_approved = count (\<lambda>p. pl_rules_approval_status p = APPROVED_FOR_SIM_TRADE),
          fc_orders = length (orders db), fc_positions = open_positions\<rparr>)"

definition executable_views :: "audit_payloads \<Rightarrow> clock \<Rightarrow> settings \<Rightarrow> 'z store_scheme
    \<Rightarrow> plan_view list" where
  "executable_views payload ck st db =
     sort_key (\<lambda>v. (priority_rank (pl_priority_level (pv_record v)), - pl_updated_at (pv_record v)))
       (map (\<lambda>p. plan_view_model payload ck p st db)
          (filter (\<lambda>p. pl_priority_level p \<in> {Prio_S, Prio_A} \<and> pl_status p \<in> set EXECUTABLE)
             (order_desc pl_updated_at (plans db))))"

definition blocked_views :: "audit_payloads \<Rightarrow> clock \<Rightarrow> settings \<Rightarrow> 'z store_scheme
    \<Rightarrow> plan_view list" where
  "blocked_views payload ck st db =
     map (\<lambda>p. plan_view_model payload ck p st db)
       (filter (\<lambda>p. pl_status p \<in> set BLOCKED_STATUSES \<or> approval_rejected (pl_rules_approval_status p))
          (order_desc pl_updated_at (plans db)))"

definition command_center_payload :: "audit_payloads \<Rightarrow> clock \<Rightarrow> settings \<Rightarrow> 'z store_scheme
    \<Rightarrow> command_center" where
  "command_center_payload payload ck st db =
     (let opens = order_desc pos_updated_at (filter (\<lambda>p. pos_status p = POS_OPEN) (positions db));
          today_orders = buys_of_day (cl_utc ck) db;
          sync = portfolio_sync_status db;
          eq_ok = equity_readable sync
      in \<lparr>cc_sim_running = enable_sim_trading st, cc_new_trades = today_orders,
          cc_max_new_trades = max_daily_new_trades st, cc_positions_count = length opens,
          cc_max_positions = max_positions st,
          cc_allows_entry = (enable_sim_trading st \<and> int today_orders < max_daily_new_trades st \<and> eq_ok),
          cc_stop_reason =
            (if \<not> enable_sim_trading st then (utf8 [27169, 25311, 20132, 26131, 24635, 24320, 20851, 20851, 38381])
             else if \<not> eq_ok then (utf8 [26080, 27861, 35835, 21462, 32, 70, 117, 116, 117, 32, 27169, 25311, 36134, 25143,
                 26435, 30410])
             else if int today_orders \<ge> max_daily_new_trades st then (utf8 [24050, 36798, 21040, 20170, 26085, 26368, 22823,
                 26032, 24320, 20179, 27425, 25968])
             else []),
          cc_account_equity = ps_account_equity sync, cc_equity_updated_at = ps_updated_at sync,
          cc_risk_per_trade_pct = risk_per_trade_pct st,
          cc_positions_vm = map (\<lambda>p. (p, describe_position_next_action p)) opens,
          cc_executable = take 6 (executable_views payload ck st db),
          cc_blocked = take 8 (blocked_views payload ck st db),
          cc_funnel = funnel_of (length opens) db,
          cc_timeline = take 20 (order_desc al_created_at (audits db)),
          cc_portfolio_sync = sync\<rparr>)"

section \<open>Properties\<close>


definition sample_inputs :: plan_inputs where
  "sample_inputs = \<lparr>pi_validation = Some \<lparr>vv_context = good_context, vv_is_fresh = True\<rparr>, pi_has_position =
      False,
     pi_has_order = False, pi_sync = (no_portfolio [])\<lparr>ps_ok := True, ps_status := CAPITAL_AVAILABLE\<rparr>\<rparr>"


text \<open>The command center says that entry is allowed exactly if it names no reason to stop; whenever the risk
  page shows no blocker, the command center allows entry as well.\<close>

theorem stop_reason_shown_iff_entry_refused:
  "(cc_allows_entry (command_center_payload payload ck st db) \<longleftrightarrow> cc_stop_reason (command_center_payload
      payload ck st db) = [])
   \<and> (cc_allows_entry (command_center_payload payload ck st db) \<or> entry_blockers st (cl_utc ck) db \<noteq> [])"
  by (auto simp: command_center_payload_def entry_blockers_def equity_ok_def equity_readable_def Let_def)

theorem stop_reason_shown_iff_entry_refused_witness:
  "cc_allows_entry (command_center_payload (\<lambda>_. JsonCorrupt) monday_noon default_settings empty_store) = False"
  using stop_reason_shown_iff_entry_refused [of "\<lambda>_. JsonCorrupt" monday_noon default_settings empty_store]
  by (simp add: command_center_payload_def equity_readable_def portfolio_sync_status_def empty_store_def empty_ledger_def
      ledger.defs no_portfolio_def Let_def)

text \<open>
  What the page and the command center say of a plan does not depend on the reconciliation gate or its
  issues: all checks may be met while the gate rejects every entry.
\<close>

lemma view_ignores_the_gate:
  "plan_view_model payload ck plan st (db\<lparr>gate_config := g, issues := iss\<rparr>) = plan_view_model payload ck plan st db"
  "cc_allows_entry (command_center_payload payload ck st (db'\<lparr>gate_config := g, issues := iss\<rparr>))
     = cc_allows_entry (command_center_payload payload ck st db')"
  by (simp_all add: plan_view_model_def plan_inputs_of_def latest_validation_def audit_rows_def portfolio_sync_status_def
      command_center_payload_def buys_of_day_def Let_def)

end
