(* ===== verification/View_Models.thy ===== *)
theory View_Models
  imports Plan_View "HOL-Library.Multiset"
begin

text \<open>
  app/services/view_models.py: the rows the pages list. What a page shows for many plans is read in one
  batch: a query per table restricted to the plans of the page, and a dictionary built from its rows in
  a loop. The single view of a plan is the same code on a batch of one plan.
\<close>

section \<open>Dictionaries built in a loop\<close>

text \<open>\<open>setdefault\<close> in a loop keeps the first row of a key, a comprehension the last one.\<close>

definition latest_by_key :: "('a \<Rightarrow> 'k) \<Rightarrow> 'a list \<Rightarrow> 'k \<Rightarrow> 'a option" where
  "latest_by_key key rows = fold (\<lambda>r m. if m (key r) = None then m(key r \<mapsto> r) else m) rows Map.empty"

definition dict_by_key :: "('a \<Rightarrow> 'k) \<Rightarrow> 'a list \<Rightarrow> 'k \<Rightarrow> 'a option" where
  "dict_by_key key rows = fold (\<lambda>r m. m(key r \<mapsto> r)) rows Map.empty"

definition append_by_key :: "nat option \<Rightarrow> ('a \<Rightarrow> 'k) \<Rightarrow> 'a list \<Rightarrow> 'k \<Rightarrow>
    'a list" where
  "append_by_key bound key rows =
     fold (\<lambda>r m. case bound of
              None \<Rightarrow> m(key r := m (key r) @ [r])
            | Some n \<Rightarrow> if length (m (key r)) < n then m(key r := m (key r) @ [r]) else m) rows (\<lambda>_. [])"

text \<open>What they hold, as a query per key.\<close>

lemma latest_by_key_eq: "latest_by_key key rows k = scalar (filter (\<lambda>r. key r = k) rows)"
proof -
  have "fold (\<lambda>r m. if m (key r) = None then m(key r \<mapsto> r) else m) rows m k
      = (case m k of None \<Rightarrow> scalar (filter (\<lambda>r. key r = k) rows) | Some x \<Rightarrow> Some x)" for m
    by (induction rows arbitrary: m) (auto split: option.splits)
  then show ?thesis by (simp add: latest_by_key_def)
qed

lemma dict_by_key_eq: "dict_by_key key rows k = scalar (rev (filter (\<lambda>r. key r = k) rows))"
proof -
  define f where "f = (\<lambda>r (m :: _ \<Rightarrow> _ option). m(key r \<mapsto> r))"
  have f: "f r m j = (if j = key r then Some r else m j)" for r m j by (simp add: f_def)
  have "fold f rows m k = (case scalar (rev (filter (\<lambda>r. key r = k) rows)) of None \<Rightarrow> m k | Some x
      \<Rightarrow> Some x)" for m
  proof (induction rows arbitrary: m)
    case (Cons r rows)
    show ?case
      by (cases "rev (filter (\<lambda>r. key r = k) rows)") (use Cons.IH [of "f r m"] in \<open>auto simp: f\<close>)
  qed simp
  from this [of Map.empty] show ?thesis by (simp add: dict_by_key_def f_def [symmetric] split: option.splits)
qed

lemma append_by_key_eq:
  "append_by_key bound key rows k =
     (case bound of None \<Rightarrow> filter (\<lambda>r. key r = k) rows | Some n \<Rightarrow> take n (filter (\<lambda>r.
         key r = k) rows))"
proof (cases bound)
  case None
  have "fold (\<lambda>r m. m(key r := m (key r) @ [r])) rows m k = m k @ filter (\<lambda>r. key r = k) rows" for m
    by (induction rows arbitrary: m) auto
  with None show ?thesis by (simp add: append_by_key_def)
next
  case (Some n)
  have "fold (\<lambda>r m. if length (m (key r)) < n then m(key r := m (key r) @ [r]) else m) rows m k
      = m k @ take (n - length (m k)) (filter (\<lambda>r. key r = k) rows)" for m :: "_ \<Rightarrow> _ list"
    by (induction rows arbitrary: m) (auto simp: Suc_diff_le not_less take_Cons' numeral_eq_Suc)
  with Some show ?thesis by (simp add: append_by_key_def)
qed

section \<open>The batch of a list of plans\<close>

record batch_context =
  bc_orders_by_plan_id :: "int \<Rightarrow> sim_order list"
  bc_latest_order_by_plan_id :: "int \<Rightarrow> sim_order option"
  bc_positions_by_plan_id :: "int \<Rightarrow> position option"
  bc_audit_logs_by_plan_id :: "int \<Rightarrow> (int \<times> audit_log) list"
  bc_audit_logs_by_symbol :: "string \<Rightarrow> (int \<times> audit_log) list"
  bc_latest_validation_by_plan_id :: "int \<Rightarrow> validation_view option"
  bc_candidates_by_symbol :: "string \<Rightarrow> candidate option"
  bc_structures_by_id :: "int \<Rightarrow> structure_event option"
  bc_battles_by_id :: "int \<Rightarrow> battle_item option"
  bc_pending_order_symbols :: "string list"
  bc_open_position_symbols :: "string list"
  bc_portfolio_sync :: portfolio_sync

definition opt_key :: "('a \<Rightarrow> int option) \<Rightarrow> 'a \<Rightarrow> int" where
  "opt_key f x = (case f x of None \<Rightarrow> 0 | Some k \<Rightarrow> k)"

text \<open>A column is in a list of ids; NULL is in none.\<close>

definition in_ids :: "int option \<Rightarrow> int list \<Rightarrow> bool" where
  "in_ids x ids = (case x of None \<Rightarrow> False | Some k \<Rightarrow> k \<in> set ids)"

definition batch_orders :: "int list \<Rightarrow> 'z ledger_scheme \<Rightarrow> sim_order list" where
  "batch_orders ids db =
     sort_key (\<lambda>r. (opt_key so_trade_plan_id r, - so_submitted_at r, - so_id r))
       (filter (\<lambda>r. in_ids (so_trade_plan_id r) ids) (orders db))"

definition batch_positions :: "int list \<Rightarrow> 'z ledger_scheme \<Rightarrow> position list" where
  "batch_positions ids db =
     sort_key (\<lambda>p. (opt_key pos_source_trade_plan_id p, - pos_updated_at p, - pos_id p))
       (filter (\<lambda>p. in_ids (pos_source_trade_plan_id p) ids) (positions db))"

definition batch_audits :: "string \<Rightarrow> int list \<Rightarrow> 'z ledger_scheme \<Rightarrow> (int \<times> audit_log)
    list" where
  "batch_audits subject ids db =
     sort_key (\<lambda>e. (opt_key al_subject_id (snd e), - al_created_at (snd e), - fst e))
       (filter (\<lambda>e. al_subject_type (snd e) = subject \<and> in_ids (al_subject_id (snd e)) ids) (audit_rows db))"

text \<open>
  Audit rows by symbol, sorted by symbol and then newest first. The order of the symbols does not show
  in the dictionary, so the sort is by time within the table's order.
\<close>

definition batch_symbol_audits :: "string list \<Rightarrow> 'z ledger_scheme \<Rightarrow> (int \<times> audit_log) list" where
  "batch_symbol_audits symbols db =
     sort_key (\<lambda>e. (- al_created_at (snd e), - fst e)) (filter (\<lambda>e. al_symbol (snd e) \<in> set symbols)
         (audit_rows db))"

definition batch_validations :: "audit_payloads \<Rightarrow> int \<Rightarrow> (int \<times> audit_log) list \<Rightarrow> int
    \<Rightarrow> validation_view option" where
  "batch_validations payload now rows k =
     (case fold (\<lambda>e m. if al_action (snd e) = ''TRADE_PLAN_VALIDATED'' \<and> m (opt_key al_subject_id (snd e)) = None
                       then m(opt_key al_subject_id (snd e) \<mapsto> parse_validation_log payload now e) else m)
             rows Map.empty k of
        None \<Rightarrow> None
      | Some v \<Rightarrow> v)"

definition trade_plan_batch_context ::
  "audit_payloads \<Rightarrow> int \<Rightarrow> nat \<Rightarrow> trade_plan list \<Rightarrow> 'z store_scheme \<Rightarrow>
      batch_context" where
  "trade_plan_batch_context payload now audit_symbol_limit pls db =
     (let ids = map pl_id pls; symbols = map pl_symbol pls;
          structure_ids = filter (\<lambda>i. i \<noteq> 0) (map pl_source_structure_id pls);
          battle_ids = filter (\<lambda>i. i \<noteq> 0) (map pl_battle_pool_id pls);
          order_rows = batch_orders ids db; logs = batch_audits ''TradePlan'' ids db
      in \<lparr>bc_orders_by_plan_id = append_by_key None (opt_key so_trade_plan_id) order_rows,
          bc_latest_order_by_plan_id = latest_by_key (opt_key so_trade_plan_id) order_rows,
          bc_positions_by_plan_id = latest_by_key (opt_key pos_source_trade_plan_id) (batch_positions ids db),
          bc_audit_logs_by_plan_id = append_by_key (Some 8) (\<lambda>e. opt_key al_subject_id (snd e)) logs,
          bc_audit_logs_by_symbol =
            (if audit_symbol_limit = 0 then (\<lambda>_. [])
             else append_by_key (Some audit_symbol_limit) (\<lambda>e. al_symbol (snd e)) (batch_symbol_audits symbols db)),
          bc_latest_validation_by_plan_id = batch_validations payload now logs,
          bc_candidates_by_symbol =
            dict_by_key cd_symbol (filter (\<lambda>c. cd_symbol c \<in> set symbols) (candidates db)),
          bc_structures_by_id = dict_by_key ev_id (filter (\<lambda>e. ev_id e \<in> set structure_ids) (structure_events db)),
          bc_battles_by_id = dict_by_key bp_id (filter (\<lambda>b. bp_id b \<in> set battle_ids) (battle_items db)),
          bc_pending_order_symbols =
            map so_symbol (filter (\<lambda>r. so_symbol r \<in> set symbols \<and> so_status r \<in> {OS_SUBMITTED,
                OS_PARTIALLY_FILLED}) (orders db)),
          bc_open_position_symbols =
            map pos_symbol (filter (\<lambda>p. pos_symbol p \<in> set symbols \<and> pos_status p = POS_OPEN) (positions db)),
          bc_portfolio_sync = portfolio_sync_status db\<rparr>)"

section \<open>The view of a plan\<close>

datatype journey_stage = At_Plan | At_Order | At_Position

record journey =
  jo_candidate :: "candidate option"
  jo_structure :: "structure_event option"
  jo_battle :: "battle_item option"
  jo_plan :: trade_plan
  jo_order :: "sim_order option"
  jo_position :: "position option"
  jo_current :: journey_stage

definition journey_for_plan :: "batch_context \<Rightarrow> trade_plan \<Rightarrow> journey" where
  "journey_for_plan bc plan =
     (let ord = bc_latest_order_by_plan_id bc (pl_id plan); p = bc_positions_by_plan_id bc (pl_id plan)
      in \<lparr>jo_candidate = bc_candidates_by_symbol bc (pl_symbol plan),
          jo_structure = bc_structures_by_id bc (pl_source_structure_id plan),
          jo_battle = bc_battles_by_id bc (pl_battle_pool_id plan), jo_plan = plan, jo_order = ord, jo_position = p,
          jo_current = (if p \<noteq> None then At_Position else if ord \<noteq> None then At_Order else At_Plan)\<rparr>)"

record trade_plan_view =
  tv_view :: plan_view
  tv_journey :: journey
  tv_orders :: "sim_order list"
  tv_position :: "position option"
  tv_validation_logs :: "(int \<times> audit_log) list"

definition trade_plan_view_model :: "trade_plan \<Rightarrow> settings \<Rightarrow> clock \<Rightarrow> batch_context
    \<Rightarrow> trade_plan_view" where
  "trade_plan_view_model plan st ck bc =
     \<lparr>tv_view = plan_view_with plan st ck
        \<lparr>pi_validation = bc_latest_validation_by_plan_id bc (pl_id plan),
         pi_has_position = (pl_symbol plan \<in> set (bc_open_position_symbols bc)),
         pi_has_order = (pl_symbol plan \<in> set (bc_pending_order_symbols bc)),
         pi_sync = bc_portfolio_sync bc\<rparr>,
      tv_journey = journey_for_plan bc plan,
      tv_orders = bc_orders_by_plan_id bc (pl_id plan),
      tv_position = bc_positions_by_plan_id bc (pl_id plan),
      tv_validation_logs = take 8 (bc_audit_logs_by_plan_id bc (pl_id plan))\<rparr>"

text \<open>Without a context the view reads the batch of this one plan.\<close>

definition single_plan_view :: "audit_payloads \<Rightarrow> clock \<Rightarrow> trade_plan \<Rightarrow> settings \<Rightarrow>
    'z store_scheme \<Rightarrow> trade_plan_view" where
  "single_plan_view payload ck plan st db =
     trade_plan_view_model plan st ck (trade_plan_batch_context payload (cl_utc ck) 0 [plan] db)"

definition PLAN_GROUPS :: "(string \<times> plan_status list) list" where
  "PLAN_GROUPS =
     [((utf8 [24453, 35302, 21457, 35745, 21010]), [PL_ACTIVE, PL_PLANNED, PL_ARMED]),
      ((utf8 [24050, 35302, 21457, 24453, 22788, 29702]), [PL_TRIGGERED, PL_ORDER_SUBMITTED]),
      ((utf8 [25345, 20179, 20013]), [PL_IN_POSITION]),
      ((utf8 [31561, 24453, 22238, 36393]), [PL_WAIT_PULLBACK]),
      ((utf8 [25191, 34892, 38459, 22622]), [PL_WAITLIST, PL_MISSED_BY_CAPITAL, PL_NO_CHASE, PL_BLOCKED, PL_PAUSED]),
      ((utf8 [22833, 25928, 35745, 21010]), [PL_INVALIDATED, PL_EXPIRED])]"

definition trade_plan_groups ::
  "audit_payloads \<Rightarrow> clock \<Rightarrow> trade_plan list \<Rightarrow> settings \<Rightarrow> 'z store_scheme
      \<Rightarrow> (string \<times> trade_plan_view list) list" where
  "trade_plan_groups payload ck pls st db =
     (let bc = trade_plan_batch_context payload (cl_utc ck) 0 pls db
      in filter (\<lambda>g. snd g \<noteq> [])
           (map (\<lambda>(title, statuses).
                   (title, map (\<lambda>p. trade_plan_view_model p st ck bc) (filter (\<lambda>p. pl_status p \<in> set
                       statuses) pls)))
              PLAN_GROUPS))"

section \<open>Candidates and the battle pool\<close>

definition latest_plan_rows :: "string list \<Rightarrow> 'z ledger_scheme \<Rightarrow> trade_plan list" where
  "latest_plan_rows symbols db =
     sort_key (\<lambda>p. (- pl_updated_at p, - pl_id p)) (filter (\<lambda>p. pl_symbol p \<in> set symbols) (plans db))"

definition latest_structure_rows :: "string list \<Rightarrow> 'z store_scheme \<Rightarrow> structure_event list" where
  "latest_structure_rows symbols db =
     sort_key (\<lambda>e. (- ev_ts e, - ev_id e)) (filter (\<lambda>e. ev_symbol e \<in> set symbols) (structure_events db))"

record candidate_view =
  cv_record :: candidate
  cv_rank :: nat
  cv_funnel_status :: string
  cv_reason :: string
  cv_next_action :: string
  cv_structure :: "structure_event option"
  cv_battle :: "battle_item option"
  cv_plan :: "trade_plan option"

definition funnel_status ::
  "candidate \<Rightarrow> structure_event option \<Rightarrow> battle_item option \<Rightarrow> trade_plan option \<Rightarrow>
      position option \<Rightarrow> trading_state option
     \<Rightarrow> string \<times> string" where
  "funnel_status cand ev battle plan p ts =
     (if p \<noteq> None then (''IN_POSITION'', (utf8 [24050, 26377, 27169, 25311, 25345, 20179, 65292, 31995, 32479, 20248,
         20808, 31649, 29702, 27490, 25439, 21644, 30446, 26631, 12290]))
      else if (case ts of Some s \<Rightarrow> ts_state s = COOLDOWN | None \<Rightarrow> False)
      then (''COOLDOWN'', case ts of Some s \<Rightarrow> ts_last_reason s | None \<Rightarrow> [])
      else if (case plan of Some pl \<Rightarrow> pl_status pl \<notin> {PL_INVALIDATED, PL_EXPIRED} | None \<Rightarrow> False)
      then (''ACTIVE_PLAN'',
            (utf8 [24050, 29983, 25104, 32]) @ (case plan of Some pl \<Rightarrow> priority_text (pl_priority_level pl) | None
                \<Rightarrow> []) @ (utf8 [32, 32423, 20132, 26131, 35745, 21010, 12290]))
      else case battle of
        Some b \<Rightarrow> (if bp_priority_level b \<notin> {Prio_S, Prio_A} then ''BATTLE_BUT_NOT_SA'' else ''PLAN_BLOCKED'',
            bp_reason b)
      | None \<Rightarrow>
          (case ev of
             Some e \<Rightarrow>
               (if ends_with ''PASSIVATION'' (event_type_str (ev_type e)) then (''WAIT_CONFIRM'', ev_reason e)
                else (''STOP_TOO_WIDE'', (utf8 [24050, 26377, 32467, 26500, 65292, 20294, 23578, 26410, 36890, 36807, 20316,
                    25112, 35780, 20998, 25110, 27490, 25439, 36317, 31163, 35201, 27714, 12290])))
           | None \<Rightarrow>
               (if cd_status cand = ''DROPPED'' then (''DROPPED'', cd_dropped_reason cand)
                else (''NO_STRUCTURE'', (utf8 [25104, 20132, 19982, 26631, 31614, 31526, 21512, 35266, 23519, 26465, 20214,
                    65292, 20294, 26242, 26080, 21487, 20316, 25112, 30340, 32, 54, 48, 32, 20998, 38047, 32467, 26500,
                    12290])))))"

definition candidate_view_models :: "candidate list \<Rightarrow> 'z store_scheme \<Rightarrow> candidate_view list" where
  "candidate_view_models cands db =
     (let symbols = map cd_symbol cands;
          structure_of = latest_by_key ev_symbol (latest_structure_rows symbols db);
          battle_of = dict_by_key bp_symbol (filter (\<lambda>b. bp_symbol b \<in> set symbols \<and> bp_active b) (battle_items
              db));
          latest_plan = latest_by_key pl_symbol (latest_plan_rows symbols db);
          open_position = dict_by_key pos_symbol (filter (\<lambda>p. pos_symbol p \<in> set symbols \<and> pos_status p =
              POS_OPEN) (positions db));
          state_of = dict_by_key ts_symbol (filter (\<lambda>t. ts_symbol t \<in> set symbols) (trading_states db))
      in map (\<lambda>(rank, c).
                let sym = cd_symbol c;
                    (status, reason) = funnel_status c (structure_of sym) (battle_of sym) (latest_plan sym) (open_position sym)
                        (state_of sym)
                in \<lparr>cv_record = c, cv_rank = rank, cv_funnel_status = status, cv_reason = reason,
                    cv_next_action = describe_candidate_next_action status, cv_structure = structure_of sym,
                    cv_battle = battle_of sym, cv_plan = latest_plan sym\<rparr>)
           (enumerate 1 cands))"

text \<open>\<open>s.split(sep)\<close> for a non-empty separator; the fuel is the length of the text.\<close>

fun split_from :: "nat \<Rightarrow> string \<Rightarrow> string \<Rightarrow> string \<Rightarrow> string list" where
  "split_from 0 sep acc s = [rev acc @ s]"
| "split_from (Suc n) sep acc [] = [rev acc]"
| "split_from (Suc n) sep acc (c # cs) =
     (if take (length sep) (c # cs) = sep then rev acc # split_from n sep [] (drop (length sep) (c # cs))
      else split_from n sep (c # acc) cs)"

definition py_split :: "string \<Rightarrow> string \<Rightarrow> string list" where
  "py_split sep s = split_from (Suc (length s)) sep [] s"

record battle_view =
  bv_record :: battle_item
  bv_plan :: "trade_plan option"
  bv_breakdown :: "string list"
  bv_next_action :: string

definition battle_view_models :: "battle_item list \<Rightarrow> 'z store_scheme \<Rightarrow> battle_view list" where
  "battle_view_models items db =
     (let plan_of_symbol = latest_by_key pl_symbol (latest_plan_rows (map bp_symbol items) db)
      in map (\<lambda>item. let plan = plan_of_symbol (bp_symbol item)
                in \<lparr>bv_record = item, bv_plan = plan,
                    bv_breakdown = filter (\<lambda>part. py_contains (utf8 [36129, 29486]) part \<or> py_contains (utf8
                        [25187]) part) (py_split (utf8 [65307]) (bp_reason item)),
                    bv_next_action = describe_battle_next_action item (plan \<noteq> None)\<rparr>) items)"

section \<open>Structures, positions, orders and the journal\<close>

definition plan_rows_by_structure :: "int list \<Rightarrow> 'z ledger_scheme \<Rightarrow> trade_plan list" where
  "plan_rows_by_structure ids db =
     sort_key (\<lambda>p. (pl_source_structure_id p, - pl_updated_at p, - pl_id p))
       (filter (\<lambda>p. pl_source_structure_id p \<in> set ids) (plans db))"

record structure_view =
  sv_record :: structure_event
  sv_battle :: "battle_item option"
  sv_plan :: "trade_plan option"

definition structure_view_models :: "structure_event list \<Rightarrow> 'z store_scheme \<Rightarrow> structure_view list" where
  "structure_view_models events db =
     (let ids = map ev_id events;
          battle_of = dict_by_key bp_source_structure_id (filter (\<lambda>b. bp_source_structure_id b \<in> set ids)
              (battle_items db));
          plan_of_id = latest_by_key pl_source_structure_id (plan_rows_by_structure ids db)
      in map (\<lambda>e. \<lparr>sv_record = e, sv_battle = battle_of (ev_id e), sv_plan = plan_of_id (ev_id e)\<rparr>) events)"

definition referenced_plan :: "(int option) list \<Rightarrow> int \<Rightarrow> trade_plan list \<Rightarrow> trade_plan
    option" where
  "referenced_plan refs k pls =
     dict_by_key pl_id (filter (\<lambda>p. \<exists>r \<in> set refs. r = Some (pl_id p) \<and> pl_id p \<noteq> 0) pls) k"

record position_view =
  px_record :: position
  px_plan :: "trade_plan option"
  px_latest_audit :: "(int \<times> audit_log) option"
  px_take_profit_reached :: bool
  px_stop_loss_reached :: bool
  px_next_action :: string

definition effective_stop :: "position \<Rightarrow> real" where
  "effective_stop p = max (pos_stop_price p) (opt_or (pos_trailing_stop_price p) 0)"

definition position_view_models :: "position list \<Rightarrow> 'z store_scheme \<Rightarrow> position_view list" where
  "position_view_models ps db =
     (let refs = map pos_source_trade_plan_id ps;
          audit_of = latest_by_key (\<lambda>e. opt_key al_subject_id (snd e)) (batch_audits ''Position'' (map pos_id ps) db)
      in map (\<lambda>p. let current = opt_or (pos_current_price p) 0
                in \<lparr>px_record = p,
                    px_plan = (if opt_truthy (pos_source_trade_plan_id p)
                               then referenced_plan refs (opt_key pos_source_trade_plan_id p) (plans db) else None),
                    px_latest_audit = audit_of (pos_id p),
                    px_take_profit_reached = (opt_truthy (pos_target_1 p) \<and> current \<ge> opt_or (pos_target_1 p) 0),
                    px_stop_loss_reached = (effective_stop p \<noteq> 0 \<and> current \<le> effective_stop p),
                    px_next_action = describe_position_next_action p\<rparr>) ps)"

record order_view =
  ov_record :: sim_order
  ov_plan :: "trade_plan option"
  ov_status :: status_presentation

definition order_view_models :: "sim_order list \<Rightarrow> 'z store_scheme \<Rightarrow> order_view list" where
  "order_view_models rows db =
     (let refs = map so_trade_plan_id rows
      in map (\<lambda>r. \<lparr>ov_record = r,
                  ov_plan = (if opt_truthy (so_trade_plan_id r)
                             then referenced_plan refs (opt_key so_trade_plan_id r) (plans db) else None),
                  ov_status = status_for (order_status_str (so_status r))\<rparr>) rows)"

definition journal_outcome :: "trade_plan \<Rightarrow> position option \<Rightarrow> sim_order list \<Rightarrow> string" where
  "journal_outcome plan p rows =
     (case p of
        Some q \<Rightarrow>
          (if pos_status q = POS_OPEN then (utf8 [25345, 20179, 20013, 65292, 24403, 21069, 32]) @ fmt_fixed 2 (pos_current_r q)
              @ ''R''
           else str_or (pos_exit_reason q) ((utf8 [25345, 20179, 24050, 32467, 26463, 65292, 26368, 32456, 32]) @ fmt_fixed 2
               (pos_current_r q) @ ''R''))
      | None \<Rightarrow>
          (if rows \<noteq> [] then (utf8 [26368, 36817, 35746, 21333, 65306]) @ sp_display_name (status_for (order_status_str
              (so_status (last rows))))
           else if pl_status plan \<in> {PL_INVALIDATED, PL_EXPIRED} then (utf8 [35745, 21010, 22833, 25928, 65292, 26410,
               24418, 25104, 25345, 20179])
           else (utf8 [35745, 21010, 20173, 22312, 35266, 23519, 25110, 31561, 24453, 25191, 34892])))"

text \<open>Plans that a position refers to, or an order with a fill.\<close>

definition has_traded :: "'z ledger_scheme \<Rightarrow> trade_plan \<Rightarrow> bool" where
  "has_traded db plan \<longleftrightarrow>
     Some (pl_id plan) \<in> set (map pos_source_trade_plan_id (positions db))
     \<or> Some (pl_id plan) \<in> set (map so_trade_plan_id
         (filter (\<lambda>r. so_dealt_qty r > 0 \<or> so_status r \<in> {OS_FILLED, OS_PARTIALLY_FILLED}) (orders db)))"

record journal_view =
  jv_plan :: trade_plan
  jv_orders :: "sim_order list"
  jv_position :: "position option"
  jv_logs :: "(int \<times> audit_log) list"
  jv_outcome :: string
  jv_journey :: journey

definition journal_view_models :: "audit_payloads \<Rightarrow> int \<Rightarrow> int \<Rightarrow> 'z store_scheme
    \<Rightarrow> journal_view list" where
  "journal_view_models payload now limit db =
     (let pls = take (nat (max 1 (min limit 100))) (order_desc pl_updated_at (filter (has_traded db) (plans db)));
          bc = trade_plan_batch_context payload now 12 pls db
      in map (\<lambda>plan.
                let rows = rev (bc_orders_by_plan_id bc (pl_id plan)); p = bc_positions_by_plan_id bc (pl_id plan)
                in \<lparr>jv_plan = plan, jv_orders = rows, jv_position = p,
                    jv_logs = take 12 (bc_audit_logs_by_symbol bc (pl_symbol plan)),
                    jv_outcome = journal_outcome plan p rows, jv_journey = journey_for_plan bc plan\<rparr>) pls)"

section \<open>Lemmas\<close>

text \<open>Restricting a batch to one of its keys gives the query for that key.\<close>

lemma batch_key:
  assumes "k \<in> set ids"
  shows "filter (\<lambda>r. opt_key f r = k) (sort_key g (filter (\<lambda>r. P r \<and> in_ids (f r) ids) rows))
    = sort_key g (filter (\<lambda>r. P r \<and> f r = Some k) rows)"
proof -
  have "(opt_key f r = k \<and> P r \<and> in_ids (f r) ids) = (P r \<and> f r = Some k)" for r
    using assms by (auto simp: opt_key_def in_ids_def split: option.splits)
  then show ?thesis by (simp add: filter_sort conj_ac)
qed

lemma in_ids_single [simp]: "in_ids x [k] \<longleftrightarrow> x = Some k"
  by (cases x) (auto simp: in_ids_def)

lemma orders_of_key: "k \<in> set ids \<Longrightarrow> filter (\<lambda>r. opt_key so_trade_plan_id r = k) (batch_orders ids
    db) = batch_orders [k] db"
  using batch_key [where P = "\<lambda>_. True" and f = so_trade_plan_id] by (simp add: batch_orders_def)

lemma positions_of_key:
  "k \<in> set ids \<Longrightarrow> filter (\<lambda>r. opt_key pos_source_trade_plan_id r = k) (batch_positions ids db) =
      batch_positions [k] db"
  using batch_key [where P = "\<lambda>_. True" and f = pos_source_trade_plan_id] by (simp add: batch_positions_def)

lemma opt_key_snd: "opt_key (\<lambda>e. f (snd e)) e = opt_key f (snd e)"
  by (simp add: opt_key_def)

lemma audits_of_key:
  "k \<in> set ids \<Longrightarrow> filter (\<lambda>e. opt_key al_subject_id (snd e) = k) (batch_audits subject ids db) =
      batch_audits subject [k] db"
  using batch_key [where P = "\<lambda>e. al_subject_type (snd e) = subject" and f = "\<lambda>e. al_subject_id (snd e)"]
  by (simp add: batch_audits_def opt_key_snd)

lemma batch_key_single:
  "k \<in> set ids \<Longrightarrow> filter (\<lambda>r. key r = k) (filter (\<lambda>r. key r \<in> set ids) rows) = filter
      (\<lambda>r. key r = k) rows"
  by (auto intro: filter_cong)

lemma batch_validations_eq:
  "batch_validations payload now rows k =
     (case scalar (filter (\<lambda>e. al_action (snd e) = ''TRADE_PLAN_VALIDATED'') (filter (\<lambda>e. opt_key al_subject_id
         (snd e) = k) rows)) of
        None \<Rightarrow> None
      | Some e \<Rightarrow> parse_validation_log payload now e)"
proof -
  have "fold (\<lambda>e m. if al_action (snd e) = ''TRADE_PLAN_VALIDATED'' \<and> m (opt_key al_subject_id (snd e)) = None
                    then m(opt_key al_subject_id (snd e) \<mapsto> parse_validation_log payload now e) else m) rows m k
    = (case m k of
         None \<Rightarrow> map_option (parse_validation_log payload now)
           (scalar (filter (\<lambda>e. al_action (snd e) = ''TRADE_PLAN_VALIDATED'') (filter (\<lambda>e. opt_key al_subject_id
               (snd e) = k) rows)))
       | Some x \<Rightarrow> Some x)" for m
    by (induction rows arbitrary: m) (auto split: option.splits)
  then show ?thesis by (simp add: batch_validations_def split: option.splits)
qed

lemma dict_by_key_batch:
  "k \<in> set ids \<Longrightarrow> dict_by_key key (filter (\<lambda>r. key r \<in> set ids) rows) k = dict_by_key key rows k"
  by (simp only: dict_by_key_eq batch_key_single)

lemma dict_by_key_outside: "k \<notin> set ids \<Longrightarrow> dict_by_key key (filter (\<lambda>r. key r \<in> set ids) rows)
    k = None"
  by (auto simp: dict_by_key_eq filter_empty_conv)

text \<open>What the view of a plan reads of a batch that contains it.\<close>

lemma batch_context_reads:
  fixes payload now n pls and db :: "'z store_scheme"
  assumes "plan \<in> set pls"
  defines "bc \<equiv> trade_plan_batch_context payload now n pls db"
  shows "bc_orders_by_plan_id bc (pl_id plan) = batch_orders [pl_id plan] db"
    and "bc_latest_order_by_plan_id bc (pl_id plan) = scalar (batch_orders [pl_id plan] db)"
    and "bc_positions_by_plan_id bc (pl_id plan) = scalar (batch_positions [pl_id plan] db)"
    and "bc_audit_logs_by_plan_id bc (pl_id plan) = take 8 (batch_audits ''TradePlan'' [pl_id plan] db)"
    and "bc_latest_validation_by_plan_id bc (pl_id plan) = batch_validations payload now (batch_audits ''TradePlan'' [pl_id
        plan] db) (pl_id plan)"
    and "bc_candidates_by_symbol bc (pl_symbol plan) = dict_by_key cd_symbol (candidates db) (pl_symbol plan)"
    and "bc_structures_by_id bc (pl_source_structure_id plan)
      = (if pl_source_structure_id plan = 0 then None else dict_by_key ev_id (structure_events db) (pl_source_structure_id plan))"
    and "bc_battles_by_id bc (pl_battle_pool_id plan)
      = (if pl_battle_pool_id plan = 0 then None else dict_by_key bp_id (battle_items db) (pl_battle_pool_id plan))"
    and "pl_symbol plan \<in> set (bc_pending_order_symbols bc)
      \<longleftrightarrow> (\<exists>r \<in> set (orders db). so_symbol r = pl_symbol plan \<and> so_status r \<in>
          {OS_SUBMITTED, OS_PARTIALLY_FILLED})"
    and "pl_symbol plan \<in> set (bc_open_position_symbols bc)
      \<longleftrightarrow> (\<exists>p \<in> set (positions db). pos_symbol p = pl_symbol plan \<and> pos_status p = POS_OPEN)"
    and "bc_portfolio_sync bc = portfolio_sync_status db"
proof -
  have ids: "pl_id plan \<in> set (map pl_id pls)" "pl_symbol plan \<in> set (map pl_symbol pls)"
    "pl_source_structure_id plan \<in> set (map pl_source_structure_id pls)" "pl_battle_pool_id plan \<in> set (map
        pl_battle_pool_id pls)"
    using assms(1) by auto
  have idem: "filter (\<lambda>r. opt_key al_subject_id (snd r) = pl_id plan) (batch_audits ''TradePlan'' [pl_id plan] db)
      = batch_audits ''TradePlan'' [pl_id plan] db"
    by (rule audits_of_key) simp
  note defs = bc_def trade_plan_batch_context_def Let_def
  show "bc_orders_by_plan_id bc (pl_id plan) = batch_orders [pl_id plan] db"
    by (simp add: defs append_by_key_eq orders_of_key [OF ids(1)] del: set_map)
  show "bc_latest_order_by_plan_id bc (pl_id plan) = scalar (batch_orders [pl_id plan] db)"
    by (simp add: defs latest_by_key_eq orders_of_key [OF ids(1)] del: set_map)
  show "bc_positions_by_plan_id bc (pl_id plan) = scalar (batch_positions [pl_id plan] db)"
    by (simp add: defs latest_by_key_eq positions_of_key [OF ids(1)] del: set_map)
  show "bc_audit_logs_by_plan_id bc (pl_id plan) = take 8 (batch_audits ''TradePlan'' [pl_id plan] db)"
    by (simp add: defs append_by_key_eq audits_of_key [OF ids(1)] del: set_map)
  show "bc_latest_validation_by_plan_id bc (pl_id plan) = batch_validations payload now (batch_audits ''TradePlan'' [pl_id plan]
      db) (pl_id plan)"
    by (simp add: defs batch_validations_eq audits_of_key [OF ids(1)] idem del: set_map)
  show "bc_candidates_by_symbol bc (pl_symbol plan) = dict_by_key cd_symbol (candidates db) (pl_symbol plan)"
    by (simp add: defs dict_by_key_batch [OF ids(2)] del: set_map)
  show "bc_structures_by_id bc (pl_source_structure_id plan)
      = (if pl_source_structure_id plan = 0 then None else dict_by_key ev_id (structure_events db) (pl_source_structure_id plan))"
  proof (cases "pl_source_structure_id plan = 0")
    case True
    then show ?thesis
      using dict_by_key_outside [of 0 "filter (\<lambda>i. i \<noteq> 0) (map pl_source_structure_id pls)" ev_id
          "structure_events db"] by (simp add: defs)
  next
    case False
    then have "pl_source_structure_id plan \<in> set (filter (\<lambda>i. i \<noteq> 0) (map pl_source_structure_id pls))" using
        ids(3) by simp
    from dict_by_key_batch [OF this, of ev_id "structure_events db"] False show ?thesis by (simp only: defs
        batch_context.select_convs if_False)
  qed
  show "bc_battles_by_id bc (pl_battle_pool_id plan)
      = (if pl_battle_pool_id plan = 0 then None else dict_by_key bp_id (battle_items db) (pl_battle_pool_id plan))"
  proof (cases "pl_battle_pool_id plan = 0")
    case True
    then show ?thesis
      using dict_by_key_outside [of 0 "filter (\<lambda>i. i \<noteq> 0) (map pl_battle_pool_id pls)" bp_id "battle_items db"]
          by (simp add: defs)
  next
    case False
    then have "pl_battle_pool_id plan \<in> set (filter (\<lambda>i. i \<noteq> 0) (map pl_battle_pool_id pls))" using ids(4) by
        simp
    from dict_by_key_batch [OF this, of bp_id "battle_items db"] False show ?thesis by (simp only: defs
        batch_context.select_convs if_False)
  qed
  show "pl_symbol plan \<in> set (bc_pending_order_symbols bc)
      \<longleftrightarrow> (\<exists>r \<in> set (orders db). so_symbol r = pl_symbol plan \<and> so_status r \<in>
          {OS_SUBMITTED, OS_PARTIALLY_FILLED})"
    using ids(2) by (force simp: defs)
  show "pl_symbol plan \<in> set (bc_open_position_symbols bc)
      \<longleftrightarrow> (\<exists>p \<in> set (positions db). pos_symbol p = pl_symbol plan \<and> pos_status p = POS_OPEN)"
    using ids(2) by (force simp: defs)
  show "bc_portfolio_sync bc = portfolio_sync_status db" by (simp add: defs)
qed

lemma scalar_sort_key_min:
  assumes "scalar (sort_key g xs) = Some x"
  shows "x \<in> set xs \<and> (\<forall>y \<in> set xs. g x \<le> g y)"
proof -
  obtain ys where ys: "sort_key g xs = x # ys" using assms by (cases "sort_key g xs") auto
  have "sorted (map g (x # ys))" unfolding ys [symmetric] by (rule sorted_sort_key)
  moreover have "set (x # ys) = set xs" unfolding ys [symmetric] by (rule set_sort)
  ultimately show ?thesis by auto
qed

lemma first_by_time:
  fixes a c d :: "'a \<Rightarrow> int"
  assumes inj: "inj_on c (set xs)" and same: "\<And>x y. x \<in> set xs \<Longrightarrow> y \<in> set xs \<Longrightarrow> a x =
      a y"
  shows "scalar (sort_key (\<lambda>e. (a e, - c e, d e)) xs) = scalar (order_desc c xs)"
proof (cases xs)
  case Nil
  then show ?thesis by (simp add: order_desc_def)
next
  case (Cons z zs)
  let ?g = "\<lambda>e. (a e, - c e, d e)"
  have "sort_key ?g xs \<noteq> []" "order_desc c xs \<noteq> []"
    using Cons by (simp_all flip: length_0_conv add: order_desc_def)
  then obtain x y where xy: "scalar (sort_key ?g xs) = Some x" "scalar (order_desc c xs) = Some y"
    by (metis list.exhaust scalar_Cons)
  note x = scalar_sort_key_min [OF xy(1)] and y = scalar_sort_key_min [OF xy(2) [unfolded order_desc_def]]
  from x y have "?g x \<le> ?g y" "- c y \<le> - c x" by blast+
  with same [of x y] x y have "c x = c y" by (auto simp: less_eq_prod_def)
  with inj x y have "x = y" by (meson inj_onD)
  with xy show ?thesis by simp
qed

lemma batch_validation_latest:
  assumes "distinct (map (\<lambda>e. al_created_at (snd e)) (filter (is_validation_of plan) (audit_rows db)))"
  shows "batch_validations payload now (batch_audits ''TradePlan'' [pl_id plan] db) (pl_id plan) = latest_validation payload now
      plan db"
proof -
  let ?xs = "filter (is_validation_of plan) (audit_rows db)"
  let ?g = "\<lambda>e. (opt_key al_subject_id (snd e), - al_created_at (snd e), - fst e)"
  have xs: "filter (\<lambda>e. al_action (snd e) = ''TRADE_PLAN_VALIDATED'') (filter (\<lambda>e. opt_key al_subject_id (snd e)
      = pl_id plan)
      (filter (\<lambda>e. al_subject_type (snd e) = ''TradePlan'' \<and> in_ids (al_subject_id (snd e)) [pl_id plan])
          (audit_rows db))) = ?xs"
    unfolding filter_filter by (rule filter_cong [OF refl]) (auto simp: is_validation_of_def opt_key_def)
  have rows: "filter (\<lambda>e. al_action (snd e) = ''TRADE_PLAN_VALIDATED'')
      (filter (\<lambda>e. opt_key al_subject_id (snd e) = pl_id plan) (batch_audits ''TradePlan'' [pl_id plan] db)) = sort_key
          ?g ?xs"
    unfolding batch_audits_def filter_sort xs ..
  have "scalar (sort_key ?g ?xs) = scalar (order_desc (\<lambda>e. al_created_at (snd e)) ?xs)"
  proof (rule first_by_time)
    show "inj_on (\<lambda>e. al_created_at (snd e)) (set ?xs)" using assms by (simp only: distinct_map)
    show "opt_key al_subject_id (snd x) = opt_key al_subject_id (snd y)" if "x \<in> set ?xs" "y \<in> set ?xs" for x y
      using that unfolding set_filter mem_Collect_eq is_validation_of_def by (simp add: opt_key_def)
  qed
  then show ?thesis by (simp only: batch_validations_eq rows latest_validation_def)
qed

lemma first_id: "\<forall>r \<in> set rows. rid r \<noteq> 0 \<Longrightarrow> opt_truthy (scalar (map rid rows))
    \<longleftrightarrow> rows \<noteq> []"
  by (cases rows) auto

section \<open>Properties\<close>

text \<open>C24. The row of a plan on a page that lists many plans is the row of the same plan alone: its orders,
  position, log rows, validation, checks and journey are not mixed with those of the other plans, whatever
  the page lists.\<close>

theorem batch_view_is_single_view:
  assumes "plan \<in> set pls"
  shows "trade_plan_view_model plan st ck (trade_plan_batch_context payload (cl_utc ck) n pls db) = single_plan_view payload ck
      plan st db"
  unfolding single_plan_view_def trade_plan_view_model_def journey_for_plan_def
  by (simp add: batch_context_reads [OF assms] batch_context_reads [of plan "[plan]"] Let_def)

theorem batch_view_is_single_view_witness:
  "trade_plan_view_model (sample_plan 1 ''US.AAPL'') default_settings monday_noon
     (trade_plan_batch_context (\<lambda>_. JsonCorrupt) (cl_utc monday_noon) 0 [sample_plan 2 ''US.MSFT'', sample_plan 1
         ''US.AAPL''] empty_store)
   = single_plan_view (\<lambda>_. JsonCorrupt) monday_noon (sample_plan 1 ''US.AAPL'') default_settings empty_store"
  by (rule batch_view_is_single_view) simp

text \<open>The batched pages and the single queries of the command center and the terminal show the same for a
  plan - checks, blocking reason, next action - as long as no two validations of the plan have the same
  time.\<close>

theorem batch_view_is_plan_view:
  assumes "distinct (map (\<lambda>e. al_created_at (snd e)) (filter (is_validation_of plan) (audit_rows db)))"
    and "\<forall>p \<in> set (positions db). pos_id p \<noteq> 0" and "\<forall>r \<in> set (orders db). so_id r \<noteq> 0"
        and "plan \<in> set pls"
  shows "tv_view (trade_plan_view_model plan st ck (trade_plan_batch_context payload (cl_utc ck) n pls db))
    = plan_view_model payload ck plan st db"
proof -
  let ?bc = "trade_plan_batch_context payload (cl_utc ck) n pls db"
  have p: "opt_truthy (scalar (map pos_id (filter (\<lambda>p. pos_symbol p = pl_symbol plan \<and> pos_status p = POS_OPEN)
      (positions db))))
      = (pl_symbol plan \<in> set (bc_open_position_symbols ?bc))"
    unfolding batch_context_reads(10) [OF assms(4)] using assms(2) by (subst first_id) (auto simp: filter_empty_conv)
  have r: "opt_truthy (scalar (map so_id (filter (\<lambda>r. so_symbol r = pl_symbol plan
        \<and> so_status r \<in> {OS_SUBMITTED, OS_PARTIALLY_FILLED}) (orders db)))) = (pl_symbol plan \<in> set
            (bc_pending_order_symbols ?bc))"
    unfolding batch_context_reads(9) [OF assms(4)] using assms(3) by (subst first_id) (auto simp: filter_empty_conv)
  have v: "latest_validation payload (cl_utc ck) plan db = bc_latest_validation_by_plan_id ?bc (pl_id plan)"
    unfolding batch_context_reads(5) [OF assms(4)] batch_validation_latest [OF assms(1)] ..
  have s: "portfolio_sync_status db = bc_portfolio_sync ?bc" unfolding batch_context_reads(11) [OF assms(4)] ..
  show ?thesis
    by (simp only: trade_plan_view_model_def trade_plan_view.select_convs plan_view_model_def plan_inputs_of_def p r v s)
qed

theorem batch_view_is_plan_view_witness:
  "let db = write_audit ''TRADE_PLAN_VALIDATED'' ''US.AAPL'' ''TradePlan'' (Some 1) ''TRIGGERED'' [] 5 empty_store;
       plan = sample_plan 1 ''US.AAPL''
   in tv_view (trade_plan_view_model plan default_settings monday_noon
        (trade_plan_batch_context (\<lambda>_. JsonValue good_context) (cl_utc monday_noon) 0 [sample_plan 2 ''US.MSFT'', plan] db))
      = plan_view_model (\<lambda>_. JsonValue good_context) monday_noon plan default_settings db"
  unfolding Let_def
  by (rule batch_view_is_plan_view)
    (simp_all add: write_audit_def audit_rows_def empty_store_def empty_ledger_def ledger.defs)

text \<open>A page that groups plans shows every plan exactly once, except a plan in COOLDOWN, which no group
  shows, and no group is empty.\<close>

theorem groups_show_every_plan_once:
  "mset (map (\<lambda>v. pv_record (tv_view v)) (concat (map snd (trade_plan_groups payload ck pls st db))))
     = mset (filter (\<lambda>p. pl_status p \<noteq> PL_COOLDOWN) pls)
   \<and> [] \<notin> set (map snd (trade_plan_groups payload ck pls st db))"
proof
  let ?bc = "trade_plan_batch_context payload (cl_utc ck) 0 pls db"
  have nonempty: "concat (map snd (filter (\<lambda>g. snd g \<noteq> []) gs)) = concat (map snd gs)" for gs :: "(string
      \<times> trade_plan_view list) list"
    by (induction gs) auto
  have rec: "pv_record (tv_view (trade_plan_view_model p st ck bc)) = p" for p bc
    by (simp add: trade_plan_view_model_def plan_view_with_def Let_def)
  have part: "mset (filter (\<lambda>p. pl_status p \<noteq> PL_COOLDOWN) ps)
      = mset (concat (map (\<lambda>g. filter (\<lambda>p. pl_status p \<in> set (snd g)) ps) PLAN_GROUPS))" for ps
  proof (induction ps)
    case (Cons p ps)
    then show ?case by (cases "pl_status p") (simp_all add: PLAN_GROUPS_def)
  qed (simp add: PLAN_GROUPS_def)
  show "mset (map (\<lambda>v. pv_record (tv_view v)) (concat (map snd (trade_plan_groups payload ck pls st db))))
     = mset (filter (\<lambda>p. pl_status p \<noteq> PL_COOLDOWN) pls)"
    unfolding part by (simp add: trade_plan_groups_def Let_def nonempty map_concat split_def comp_def rec)
  show "[] \<notin> set (map snd (trade_plan_groups payload ck pls st db))"
    by (auto simp: trade_plan_groups_def Let_def)
qed

end
