(* ===== verification/Terminal.thy ===== *)
theory Terminal
  imports Plan_View "HOL-Library.Char_ord" "HOL-Library.List_Lexorder"
begin

text \<open>
  app/services/terminal_api.py: what the terminal's endpoints answer - the summary with its cache, the
  lists of plans, positions and orders, the detail of a plan, the timeline of a symbol, the journal's
  curve, the daily statistics, bars, overlay lines and structures. A payload with computed values is a
  record; one that copies columns is a JSON object.

  The stored rows leave out some columns that only these pages print; they come as functions from the
  row to the value (\<open>row_extras\<close>).
\<close>

section \<open>Payloads\<close>

datatype js = JNull | JBool bool | JInt int | JNum real | JStr string | JArr "js list" | JObj "(string \<times> js) list"

definition js_opt :: "('a \<Rightarrow> js) \<Rightarrow> 'a option \<Rightarrow> js" where
  "js_opt f x = (case x of None \<Rightarrow> JNull | Some v \<Rightarrow> f v)"

text \<open>\<open>_iso\<close> of a stored time: ISO format with the offset of UTC.\<close>

definition iso_utc :: "int \<Rightarrow> string" where
  "iso_utc t = isoformat t @ ''+00:00''"

record row_extras =
  re_position_created :: "position \<Rightarrow> int"
  re_order_updated :: "sim_order \<Rightarrow> int"
  re_battle_updated :: "battle_item \<Rightarrow> int"
  re_candidate_id :: "candidate \<Rightarrow> int"

definition ACTIVE_PLAN_STATUSES :: "plan_status list" where
  "ACTIVE_PLAN_STATUSES =
     [PL_PLANNED, PL_ACTIVE, PL_ARMED, PL_TRIGGERED, PL_ORDER_SUBMITTED, PL_IN_POSITION, PL_WAIT_PULLBACK,
      PL_WAITLIST, PL_MISSED_BY_CAPITAL, PL_NO_CHASE, PL_BLOCKED, PL_PAUSED]"

definition TERMINAL_KLINE_TIMEFRAMES :: "string list" where
  "TERMINAL_KLINE_TIMEFRAMES = [''1m'', ''5m'', ''15m'', ''60m'', ''1d'']"

definition AUDIT_ACTION_NAMES :: "(string \<times> string) list" where
  "AUDIT_ACTION_NAMES =
     [(''MISSED_BY_CAPITAL'', (utf8 [36164, 37329, 26465, 20214, 26410, 28385, 36275])),
      (''POSITION_CLOSED'', (utf8 [27169, 25311, 25345, 20179, 24050, 32467, 26463])),
      (''POSITION_OPENED'', (utf8 [27169, 25311, 25345, 20179, 24050, 24314, 31435])),
      (''RULES_APPROVED'', (utf8 [33258, 21160, 35268, 21017, 23457, 25209, 36890, 36807])),
      (''RULES_REJECTED'', (utf8 [33258, 21160, 35268, 21017, 23457, 25209, 26410, 36890, 36807])),
      (''SIM_ORDER_CANCELLED'', (utf8 [27169, 25311, 35746, 21333, 24050, 25764, 38144])),
      (''SIM_ORDER_FAILED'', (utf8 [27169, 25311, 35746, 21333, 25552, 20132, 22833, 36133])),
      (''SIM_ORDER_SUBMITTED'', (utf8 [27169, 25311, 35746, 21333, 24050, 25552, 20132])),
      (''STOP_LOSS_TRIGGERED'', (utf8 [27490, 25439, 26465, 20214, 24050, 35302, 21457])),
      (''TAKE_PROFIT_TRIGGERED'', (utf8 [27490, 30408, 26465, 20214, 24050, 35302, 21457])),
      (''TRADE_PLAN_VALIDATED'', (utf8 [20132, 26131, 35745, 21010, 24050, 23436, 25104, 23454, 26102, 26657, 39564])),
      (''TRAILING_STOP_UPDATED'', (utf8 [31227, 21160, 27490, 30408, 20301, 32622, 24050, 26356, 26032]))]"

text \<open>\<open>max(1, min(limit, bound))\<close> rows of a query.\<close>

definition bounded :: "int \<Rightarrow> int \<Rightarrow> nat" where
  "bounded limit bound = nat (max 1 (min limit bound))"

section \<open>The summary\<close>

record reconciliation_summary =
  rs_open_issues :: int
  rs_critical_issues :: int
  rs_high_issues :: int
  rs_severity :: string
  rs_allow_new_entries :: bool
  rs_mode :: string
  rs_reason :: string
  rs_last_checked_at :: gate_time

text \<open>The first of the issues with the highest rank names the severity; INFO without issues.\<close>

fun severity_rank :: "severity \<Rightarrow> int" where
  "severity_rank INFO = 0"
| "severity_rank WARN = 1"
| "severity_rank HIGH = 2"
| "severity_rank CRITICAL = 3"

definition highest_severity :: "issue list \<Rightarrow> severity" where
  "highest_severity iss = fold (\<lambda>i s. if severity_rank (is_severity i) > severity_rank s then is_severity i else s) iss
      INFO"

definition reconciliation_summary_of :: "'z ledger_scheme \<Rightarrow> exn + reconciliation_summary" where
  "reconciliation_summary_of db =
     (case reconciliation_gate_status db of
        Inl e \<Rightarrow> Inl e
      | Inr (Some g) \<Rightarrow>
          Inr \<lparr>rs_open_issues = ga_open_issues g, rs_critical_issues = ga_critical_issues g,
               rs_high_issues = ga_high_issues g, rs_severity = str_or (ga_severity g) ''INFO'',
               rs_allow_new_entries = ga_allow_new_entries g, rs_mode = str_or (ga_mode g) ''NORMAL'',
               rs_reason = ga_reason g, rs_last_checked_at = ga_updated_at g\<rparr>
      | Inr None \<Rightarrow>
          (let iss = filter (\<lambda>i. is_status i = ISSUE_OPEN) (issues db);
               n_critical = int (length (filter (\<lambda>i. is_severity i = CRITICAL) iss));
               n_high = int (length (filter (\<lambda>i. is_severity i = HIGH) iss));
               grave = (n_critical \<noteq> 0 \<or> n_high \<noteq> 0)
           in Inr \<lparr>rs_open_issues = int (length iss), rs_critical_issues = n_critical, rs_high_issues = n_high,
                   rs_severity = severity_str (highest_severity iss),
                   rs_allow_new_entries = (n_critical = 0 \<and> n_high = 0),
                   rs_mode = (if grave then ''PROTECTIVE'' else if iss \<noteq> [] then ''DEGRADED'' else ''NORMAL''),
                   rs_reason = (if grave then (utf8 [23384, 22312, 39640, 39118, 38505, 23545, 36134, 38382, 39064, 65292,
                       31105, 27490, 26032, 24320, 20179, 65292, 20165, 20801, 35768, 39118, 25511, 36864, 20986])
                                else if iss = [] then (utf8 [31995, 32479, 36134, 26412, 19968, 33268, 65292, 20801, 35768,
                                    26032, 24320, 20179]) else (utf8 [23384, 22312, 36731, 24494, 23545, 36134, 25552, 31034,
                                    65292, 20801, 35768, 26032, 24320, 20179])),
                   rs_last_checked_at =
                     GateTime (if issues db = [] then None else Some (Max (is_last_seen_at ` set (issues db))))\<rparr>))"

record terminal_summary =
  tm_sim_enabled :: bool
  tm_quotes_ok :: bool
  tm_account_equity :: real
  tm_equity_source :: string
  tm_equity_sync_status :: string
  tm_equity_synced_at :: "int option"
  tm_today_realized_r :: real
  tm_positions_count :: nat
  tm_max_positions :: int
  tm_can_open_new_position :: bool
  tm_risk_stop_reason :: string
  tm_reconciliation :: reconciliation_summary

text \<open>
  An empty reason is sent as null. The mode and the two loop statuses are texts for the booleans. A portfolio
  that was never read has no source and no status; the model keeps them as empty texts.
\<close>

definition terminal_summary_of :: "risk_text \<Rightarrow> settings \<Rightarrow> int \<Rightarrow> 'z ledger_scheme
    \<Rightarrow> exn + terminal_summary" where
  "terminal_summary_of stored st now db =
     (let eff = effective_risk_settings stored st; sync = portfolio_sync_status db;
          count = length (filter (\<lambda>p. pos_status p = POS_OPEN) (positions db));
          today_orders = buys_of_day now db;
          realized = sum_list (map pos_current_r
            (filter (\<lambda>p. pos_status p = POS_CLOSED \<and> pos_close_verified p \<and> date_of (pos_updated_at p) =
                date_of now) (positions db)));
          eq_ok = equity_readable sync
      in case reconciliation_summary_of db of
           Inl e \<Rightarrow> Inl e
         | Inr rec \<Rightarrow>
             Inr \<lparr>tm_sim_enabled = enable_sim_trading eff, tm_quotes_ok = ps_ok sync, tm_account_equity =
                 ps_account_equity sync,
                  tm_equity_source = str_or (ps_account_equity_source sync) ''UNKNOWN'',
                  tm_equity_sync_status = str_or (ps_account_equity_sync_status sync) ''FAILED'', tm_equity_synced_at =
                      ps_updated_at sync,
                  tm_today_realized_r = realized, tm_positions_count = count, tm_max_positions = max_positions eff,
                  tm_can_open_new_position =
                    (enable_sim_trading eff \<and> \<not> enable_real_trading eff \<and> eq_ok \<and> int count < max_positions eff
                     \<and> int today_orders < max_daily_new_trades eff),
                  tm_risk_stop_reason =
                    (if \<not> enable_sim_trading eff then (utf8 [27169, 25311, 20132, 26131, 24490, 29615, 24050, 20851, 38381,
                        12290])
                     else if enable_real_trading eff then (utf8 [23433, 20840, 37197, 32622, 24322, 24120, 65306, 30495, 23454,
                         20132, 26131, 24517, 39035, 20445, 25345, 20851, 38381, 12290])
                     else if \<not> eq_ok
                     then str_or (str_or (ps_error sync) (ps_reason sync)) (utf8 [27169, 25311, 36134, 25143, 26435, 30410,
                         23578, 26410, 23436, 25104, 21516, 27493, 12290])
                     else if int count \<ge> max_positions eff then (utf8 [24403, 21069, 25345, 20179, 25968, 37327, 24050,
                         36798, 21040, 39118, 25511, 19978, 38480, 12290])
                     else if int today_orders \<ge> max_daily_new_trades eff then (utf8 [20170, 26085, 26032, 24320, 20179,
                         25968, 37327, 24050, 36798, 21040, 39118, 25511, 19978, 38480, 12290])
                     else []),
                  tm_reconciliation = rec\<rparr>)"

section \<open>The cache of the summary\<close>

text \<open>
  The cache is a module variable. A call is made at a reading of the monotonic clock, with a time to live
  from the settings; the summary it may have to compute is an argument. An exception leaves the cache.
\<close>

record 'p summary_cache =
  sc_expires_at :: real
  sc_payload :: "'p option"

definition clear_terminal_summary_cache :: "'p summary_cache" where
  "clear_terminal_summary_cache = \<lparr>sc_expires_at = 0, sc_payload = None\<rparr>"

definition cached_terminal_summary ::
  "int \<Rightarrow> real \<Rightarrow> exn + 'p \<Rightarrow> 'p summary_cache \<Rightarrow> (exn + 'p) \<times> 'p
      summary_cache" where
  "cached_terminal_summary summary_ttl now fresh cache =
     (let ttl = max 0 summary_ttl
      in if ttl \<le> 0 then (fresh, cache)
         else case (if now < sc_expires_at cache then sc_payload cache else None) of
           Some p \<Rightarrow> (Inr p, cache)
         | None \<Rightarrow>
             (case fresh of
                Inl e \<Rightarrow> (Inl e, cache)
              | Inr p \<Rightarrow> (Inr p, \<lparr>sc_expires_at = now + of_int ttl, sc_payload = Some p\<rparr>)))"

record 'p summary_call =
  su_ttl :: int
  su_now :: real
  su_fresh :: "exn + 'p"

fun summary_answers :: "'p summary_call list \<Rightarrow> 'p summary_cache \<Rightarrow> (exn + 'p) list" where
  "summary_answers [] cache = []"
| "summary_answers (c # cs) cache =
     (let (r, cache') = cached_terminal_summary (su_ttl c) (su_now c) (su_fresh c) cache in r # summary_answers cs cache')"

section \<open>Serialised rows\<close>

definition status_payload :: "status_presentation \<Rightarrow> js" where
  "status_payload s =
     JObj [(''code'', JStr (sp_code s)), (''display_name'', JStr (sp_display_name s)),
           (''description'', JStr (sp_description s)), (''severity'', JStr (sp_severity s)),
           (''next_action'', JStr (sp_next_action s))]"

definition check_payload :: "plan_check \<Rightarrow> js" where
  "check_payload c =
     JObj [(''label'', JStr (ck_label c)), (''passed'', js_opt JBool (ck_passed c)), (''result'', JStr (ck_result c)),
           (''detail'', JStr (ck_detail c)), (''block_message'', JStr (ck_block_message c))]"

text \<open>An empty text counts as no value.\<close>

definition js_text :: "string \<Rightarrow> js" where
  "js_text s = (if s = [] then JNull else JStr s)"

definition serialize_trade_plan :: "plan_view \<Rightarrow> js" where
  "serialize_trade_plan v =
     (let p = pv_record v; ty = event_type_str (pl_structure_type p); cap = capital_status_str (pl_capital_status p);
          appr = approval_status_str (pl_rules_approval_status p)
      in JObj
        [(''id'', JInt (pl_id p)), (''symbol'', JStr (pl_symbol p)), (''name'', JStr (pl_name p)),
         (''priority_level'', JStr (priority_text (pl_priority_level p))),
         (''direction'', JStr (direction_text (pl_direction p))),
         (''structure_type'', JStr ty), (''structure_display_name'', JStr (label_for ty)),
         (''status'', JStr (plan_status_str (pl_status p))), (''display_status'', status_payload (pv_status v)),
         (''current_price'', js_opt JNum (pl_current_price p)), (''current_change_pct'', js_opt JNum (pl_current_change_pct p)),
         (''entry_price'', js_opt JNum (pl_breakout_entry_price p)), (''no_chase_above'', js_opt JNum (pl_no_chase_above p)),
         (''stop_price'', JNum (pl_stop_price p)), (''target_1'', JNum (pl_target_1 p)), (''target_2'', JNum (pl_target_2 p)),
         (''risk_reward_1'', JNum (pl_risk_reward_1 p)), (''risk_reward_2'', JNum (pl_risk_reward_2 p)),
         (''capital_status'', JStr cap), (''capital_display_name'', JStr (label_for cap)),
         (''rules_approval_status'', JStr appr), (''rules_approval_display_name'', JStr (label_for appr)),
         (''primary_blocker'', js_text (pv_block_reason v)), (''primary_blocker_reason'', js_text (pv_block_reason v)),
         (''next_system_action'', JStr (pv_next_action v)), (''price_gate_status'', JStr (pv_price_gate_status v)),
         (''validation_status'', JStr (pv_validation_status v)), (''checks'', JArr (map check_payload (pv_checks v))),
         (''reason'', JStr (pl_reason p)), (''trailing_rule'', JStr (pl_trailing_rule p)),
         (''time_stop_rule'', JStr (pl_time_stop_rule p)), (''invalid_condition'', JStr (pl_invalid_condition p)),
         (''last_validated_at'', js_opt (\<lambda>t. JStr (iso_utc t)) (pl_last_validated_at p)),
         (''updated_at'', JStr (iso_utc (pl_updated_at p)))])"

text \<open>The price of a position that was never priced is estimated from its result in R.\<close>

definition shown_price :: "position \<Rightarrow> real option" where
  "shown_price p =
     (if pos_current_price p = None \<and> pos_shares p \<noteq> 0 \<and> pos_risk_amount p \<noteq> 0
      then Some (pos_entry_price p + pos_current_r p * pos_risk_amount p / of_int (pos_shares p))
      else pos_current_price p)"

definition serialize_position :: "row_extras \<Rightarrow> position option \<Rightarrow> js" where
  "serialize_position re x =
     (case x of None \<Rightarrow> JNull | Some p \<Rightarrow> JObj
        [(''id'', JInt (pos_id p)), (''symbol'', JStr (pos_symbol p)), (''direction'', JStr ''LONG''),
         (''status'', JStr (position_status_str (pos_status p))), (''entry_price'', JNum (pos_entry_price p)),
         (''current_price'', js_opt JNum (shown_price p)), (''current_r'', JNum (pos_current_r p)),
         (''max_r'', JNum (pos_max_r p)), (''min_r'', JNum (pos_min_r p)), (''stop_price'', JNum (pos_stop_price p)),
         (''target_1'', js_opt JNum (pos_target_1 p)), (''target_2'', js_opt JNum (pos_target_2 p)),
         (''partial_exit_done'', JBool (pos_partial_exit_done p)),
         (''trailing_stop_price'', js_opt JNum (pos_trailing_stop_price p)),
         (''next_system_action'', JStr (describe_position_next_action p)), (''exit_reason'', JStr (pos_exit_reason p)),
         (''source_trade_plan_id'', js_opt JInt (pos_source_trade_plan_id p)),
         (''entry_order_id'', js_opt JInt (pos_entry_order_id p)), (''exit_order_id'', js_opt JInt (pos_exit_order_id p)),
         (''shares'', JInt (pos_shares p)), (''available_shares'', JInt (pos_available_shares p)),
         (''name'', JStr (pos_name p)), (''source'', JStr (position_source_str (pos_source p))),
         (''is_orphan'', JBool (pos_is_orphan p)), (''market_value'', JNum (pos_market_value p)),
         (''unrealized_pnl'', JNum (pos_unrealized_pnl p)), (''unrealized_pnl_pct'', JNum (pos_unrealized_pnl_pct p)),
         (''exit_price'', js_opt JNum (pos_exit_price p)), (''realized_pnl'', js_opt JNum (pos_realized_pnl p)),
         (''close_verified'', JBool (pos_close_verified p)), (''close_source'', JStr (pos_close_source p)),
         (''take_profit_pct'', js_opt JNum (pos_take_profit_pct p)), (''stop_loss_pct'', js_opt JNum (pos_stop_loss_pct p)),
         (''last_synced_at'', js_opt (\<lambda>t. JStr (iso_utc t)) (pos_last_synced_at p)),
         (''last_risk_checked_at'', js_opt (\<lambda>t. JStr (iso_utc t)) (pos_last_risk_checked_at p)),
         (''last_error'', JStr (pos_last_error p)), (''created_at'', JStr (iso_utc (re_position_created re p))),
         (''updated_at'', JStr (iso_utc (pos_updated_at p)))])"

definition serialize_order :: "row_extras \<Rightarrow> sim_order \<Rightarrow> js" where
  "serialize_order re r =
     JObj [(''id'', JInt (so_id r)), (''trade_plan_id'', js_opt JInt (so_trade_plan_id r)), (''symbol'', JStr (so_symbol r)),
           (''side'', JStr (side_str (so_side r))), (''qty'', JInt (so_qty r)), (''limit_price'', JNum (so_limit_price r)),
           (''filled_price'', js_opt JNum (so_dealt_avg_price r)), (''filled_qty'', JInt (so_dealt_qty r)),
           (''status'', JStr (order_status_str (so_status r))),
           (''display_status'', status_payload (status_for (order_status_str (so_status r)))),
           (''submitted_at'', JStr (iso_utc (so_submitted_at r))),
           (''filled_at'', if so_dealt_qty r \<noteq> 0 then JStr (iso_utc (re_order_updated re r)) else JNull),
           (''reason'', JStr (so_reason r))]"

definition candidate_payload :: "row_extras \<Rightarrow> candidate option \<Rightarrow> js" where
  "candidate_payload re x =
     (case x of None \<Rightarrow> JNull | Some c \<Rightarrow> JObj
        [(''id'', JInt (re_candidate_id re c)), (''symbol'', JStr (cd_symbol c)), (''name'', JStr (cd_name c)),
         (''pool_type'', JStr (cd_pool_type c)), (''pool_display_name'', JStr (label_for (cd_pool_type c))),
         (''selected_reason'', JStr (cd_selected_reason c)), (''rank_score'', JNum (cd_rank_score c)),
         (''selected_at'', JStr (iso_utc (cd_selected_at c)))])"

definition structure_fields :: "structure_event \<Rightarrow> (string \<times> js) list" where
  "structure_fields e =
     [(''id'', JInt (ev_id e)), (''symbol'', JStr (ev_symbol e)), (''timeframe'', JStr (timeframe_text (ev_timeframe e))),
      (''event_ts'', JStr (iso_utc (ev_ts e))), (''event_type'', JStr (event_type_str (ev_type e))),
      (''display_name'', JStr (label_for (event_type_str (ev_type e)))), (''price'', JNum (ev_price e)),
      (''pivot_low'', js_opt JNum (ev_pivot_low e)), (''pivot_high'', js_opt JNum (ev_pivot_high e)),
      (''trigger_level'', js_opt JNum (ev_trigger_level e)), (''confirm_level'', js_opt JNum (ev_confirm_level e)),
      (''invalidation_level'', js_opt JNum (ev_invalidation_level e)), (''reason'', JStr (ev_reason e))]"

definition structure_payload :: "structure_event option \<Rightarrow> js" where
  "structure_payload x = js_opt (\<lambda>e. JObj (structure_fields e)) x"

definition battle_payload :: "battle_item option \<Rightarrow> js" where
  "battle_payload x =
     (case x of None \<Rightarrow> JNull | Some b \<Rightarrow> JObj
        [(''id'', JInt (bp_id b)), (''symbol'', JStr (bp_symbol b)), (''direction'', JStr (direction_text (bp_direction b))),
         (''priority_level'', JStr (priority_text (bp_priority_level b))),
         (''daily_state'', JStr (daily_text (bp_daily_state b))),
         (''structure_type'', JStr (event_type_str (bp_structure_type b))), (''score'', JNum (bp_score b)),
         (''reason'', JStr (bp_reason b)), (''next_wait'', JStr (bp_next_wait b)),
         (''status'', JStr (if bp_active b then ''ACTIVE'' else ''ARCHIVED''))])"

record terminal_event =
  te_id :: string
  te_time :: string
  te_type :: string
  te_title :: string
  te_description :: string
  te_severity :: string
  te_entity_type :: string
  te_entity_id :: "int option"

definition audit_event :: "int \<times> audit_log \<Rightarrow> terminal_event" where
  "audit_event entry =
     (let a = snd entry
      in \<lparr>te_id = str_int (fst entry), te_time = iso_utc (al_created_at a), te_type = al_action a,
          te_title = (case dict_get AUDIT_ACTION_NAMES (al_action a) of Some t \<Rightarrow> t | None \<Rightarrow> label_for
              (al_action a)),
          te_description = al_reason a, te_severity = py_lower (al_status a),
          te_entity_type = al_subject_type a, te_entity_id = al_subject_id a\<rparr>)"

definition event_payload :: "js \<Rightarrow> terminal_event \<Rightarrow> js" where
  "event_payload i e =
     JObj [(''id'', i), (''time'', JStr (te_time e)), (''type'', JStr (te_type e)), (''title'', JStr (te_title e)),
           (''description'', JStr (te_description e)), (''severity'', JStr (te_severity e)),
           (''linked_entity_type'', JStr (te_entity_type e)), (''linked_entity_id'', js_opt JInt (te_entity_id e))]"

definition journal_summary :: "position option \<Rightarrow> sim_order list \<Rightarrow> js" where
  "journal_summary x rows =
     (case x of
        Some p \<Rightarrow> JObj [(''status'', JStr (if pos_status p = POS_OPEN then ''OPEN'' else ''CLOSED'')),
                       (''summary'', JStr (if pos_status p = POS_OPEN then describe_position_next_action p else pos_exit_reason p)),
                       (''current_r'', JNum (pos_current_r p))]
      | None \<Rightarrow>
          (case rows of
             r # _ \<Rightarrow> JObj [(''status'', JStr (order_status_str (so_status r))),
                           (''summary'', JStr (str_or (so_reason r) (sp_description (status_for (order_status_str (so_status
                               r)))))),
                           (''current_r'', JNull)]
           | [] \<Rightarrow> JNull))"

section \<open>Lists and the detail of a plan\<close>

text \<open>\<open>value.split(",")\<close>, each part stripped and in upper case, empty parts left out.\<close>

fun split_commas :: "string \<Rightarrow> string \<Rightarrow> string list" where
  "split_commas acc [] = [rev acc]"
| "split_commas acc (c # cs) = (if c = CHR '','' then rev acc # split_commas [] cs else split_commas (c # acc) cs)"

definition priority_values :: "string \<Rightarrow> string list" where
  "priority_values text = filter (\<lambda>v. v \<noteq> []) (map (\<lambda>v. py_upper (py_strip v)) (split_commas [] text))"

record plan_filter =
  pf_status :: string
  pf_symbol :: string
  pf_priority :: string
  pf_direction :: string
  pf_active_only :: bool
  pf_limit :: int

definition plan_wanted :: "plan_filter \<Rightarrow> trade_plan \<Rightarrow> bool" where
  "plan_wanted f p \<longleftrightarrow>
     (pf_active_only f \<longrightarrow> pl_status p \<in> set ACTIVE_PLAN_STATUSES)
     \<and> (pf_status f \<noteq> [] \<longrightarrow> plan_status_str (pl_status p) = py_upper (pf_status f))
     \<and> (pf_symbol f \<noteq> [] \<longrightarrow> pl_symbol p = py_upper (pf_symbol f))
     \<and> (priority_values (pf_priority f) \<noteq> [] \<longrightarrow> priority_text (pl_priority_level p) \<in> set
         (priority_values (pf_priority f)))
     \<and> (pf_direction f \<noteq> [] \<longrightarrow> direction_text (pl_direction p) = py_upper (pf_direction f))"

definition listed_plans :: "plan_filter \<Rightarrow> 'z ledger_scheme \<Rightarrow> trade_plan list" where
  "listed_plans f db =
     sort_key (\<lambda>p. (priority_rank (pl_priority_level p), - pl_updated_at p, - pl_id p))
       (take (bounded (pf_limit f) 500) (order_desc2 pl_updated_at pl_id (filter (plan_wanted f) (plans db))))"

definition trade_plan_list :: "audit_payloads \<Rightarrow> clock \<Rightarrow> settings \<Rightarrow> plan_filter \<Rightarrow>
    'z ledger_scheme \<Rightarrow> js list" where
  "trade_plan_list payload ck st f db =
     map (\<lambda>p. serialize_trade_plan (plan_view_model payload ck p st db)) (listed_plans f db)"

definition trade_plan_detail ::
  "audit_payloads \<Rightarrow> row_extras \<Rightarrow> clock \<Rightarrow> trade_plan \<Rightarrow> settings \<Rightarrow> 'z
      store_scheme \<Rightarrow> js" where
  "trade_plan_detail payload re ck plan st db =
     (let rows = order_desc so_submitted_at (filter (\<lambda>r. so_trade_plan_id r = Some (pl_id plan)) (orders db));
          p = scalar (order_desc pos_updated_at (filter (\<lambda>p. pos_source_trade_plan_id p = Some (pl_id plan)) (positions
              db)));
          logs = take 50 (order_desc (\<lambda>e. al_created_at (snd e))
            (filter (\<lambda>e. al_subject_type (snd e) = ''TradePlan'' \<and> al_subject_id (snd e) = Some (pl_id plan))
                (audit_rows db)));
          v = plan_view_model payload ck plan st db;
          appr = approval_status_str (pl_rules_approval_status plan); cap = capital_status_str (pl_capital_status plan)
      in JObj
        [(''candidate'', candidate_payload re (scalar (filter (\<lambda>c. cd_symbol c = pl_symbol plan) (candidates db)))),
         (''structure_event'', structure_payload (get_row ev_id (pl_source_structure_id plan) (structure_events db))),
         (''battle_item'', battle_payload (get_row bp_id (pl_battle_pool_id plan) (battle_items db))),
         (''trade_plan'', serialize_trade_plan v),
         (''realtime_checks'', JArr (map check_payload (pv_checks v))),
         (''rules_approval_checks'', JObj [(''status'', JStr appr), (''display_name'', JStr (label_for appr)),
                                          (''reason'', JStr (pl_rules_reject_reason plan))]),
         (''capital_checks'', JObj [(''status'', JStr cap), (''display_name'', JStr (label_for cap)),
                                   (''reason'', JStr (pl_capital_reason plan)),
                                   (''available_cash_snapshot'', js_opt JNum (pl_available_cash_snapshot plan)),
                                   (''max_new_position_value'', js_opt JNum (pl_max_new_position_value plan))]),
         (''related_orders'', JArr (map (serialize_order re) rows)),
         (''related_position'', serialize_position re p),
         (''journal_summary'', journal_summary p rows),
         (''audit_timeline'', JArr (map (\<lambda>e. event_payload (JInt (fst e)) (audit_event e)) logs))])"

definition positions_payload :: "row_extras \<Rightarrow> string \<Rightarrow> int \<Rightarrow> 'z ledger_scheme \<Rightarrow>
    js list" where
  "positions_payload re symbol limit db =
     map (\<lambda>p. serialize_position re (Some p))
       (take (bounded limit 500)
          (order_desc pos_updated_at (filter (\<lambda>p. symbol \<noteq> [] \<longrightarrow> pos_symbol p = py_upper symbol)
              (positions db))))"

definition orders_payload :: "row_extras \<Rightarrow> string \<Rightarrow> int \<Rightarrow> 'z ledger_scheme \<Rightarrow> js
    list" where
  "orders_payload re symbol limit db =
     map (serialize_order re)
       (take (bounded limit 500)
          (order_desc so_submitted_at (filter (\<lambda>r. symbol \<noteq> [] \<longrightarrow> so_symbol r = py_upper symbol)
              (orders db))))"

section \<open>The timeline of a symbol\<close>

definition structure_event_entry :: "structure_event \<Rightarrow> terminal_event" where
  "structure_event_entry e =
     (let ty = event_type_str (ev_type e)
      in \<lparr>te_id = ''structure-'' @ str_int (ev_id e), te_time = iso_utc (ev_ts e), te_type = ''STRUCTURE'',
          te_title = label_for ty, te_description = ev_reason e,
          te_severity = (if starts_with ''TOP'' ty then ''warning'' else ''info''),
          te_entity_type = ''StructureEvent'', te_entity_id = Some (ev_id e)\<rparr>)"

definition battle_entry :: "row_extras \<Rightarrow> battle_item \<Rightarrow> terminal_event" where
  "battle_entry re b =
     \<lparr>te_id = ''battle-'' @ str_int (bp_id b), te_time = iso_utc (re_battle_updated re b), te_type = ''BATTLE_POOL'',
      te_title = (utf8 [36827, 20837, 32467, 26500, 20316, 25112, 27744, 32, 183, 32]) @ priority_text (bp_priority_level b) @
          (utf8 [32, 32423]), te_description = bp_reason b,
      te_severity = (if bp_priority_level b \<in> {Prio_S, Prio_A} then ''success'' else ''info''),
      te_entity_type = ''BattlePoolItem'', te_entity_id = Some (bp_id b)\<rparr>"

definition plan_entry :: "trade_plan \<Rightarrow> terminal_event" where
  "plan_entry p =
     (let s = status_for (plan_status_str (pl_status p))
      in \<lparr>te_id = ''plan-'' @ str_int (pl_id p), te_time = iso_utc (pl_updated_at p), te_type = ''TRADE_PLAN'',
          te_title = (utf8 [20132, 26131, 35745, 21010, 32, 183, 32]) @ sp_display_name s, te_description = pl_reason p,
              te_severity = sp_severity s,
          te_entity_type = ''TradePlan'', te_entity_id = Some (pl_id p)\<rparr>)"

definition order_entry :: "row_extras \<Rightarrow> sim_order \<Rightarrow> terminal_event" where
  "order_entry re r =
     (let s = status_for (order_status_str (so_status r))
      in \<lparr>te_id = ''order-'' @ str_int (so_id r),
          te_time = iso_utc (if so_dealt_qty r \<noteq> 0 then re_order_updated re r else so_submitted_at r),
          te_type = ''SIM_ORDER'',
          te_title = (if so_side r = BUY then (utf8 [20080, 20837]) else (utf8 [21334, 20986])) @ (utf8 [35746, 21333, 32, 183,
              32]) @ sp_display_name s,
          te_description = str_or (so_reason r) (sp_description s), te_severity = sp_severity s,
          te_entity_type = ''SimOrder'', te_entity_id = Some (so_id r)\<rparr>)"

definition position_entry :: "row_extras \<Rightarrow> position \<Rightarrow> terminal_event" where
  "position_entry re p =
     (let opened = (pos_status p = POS_OPEN)
      in \<lparr>te_id = ''position-'' @ str_int (pos_id p),
          te_time = iso_utc (if opened then re_position_created re p else pos_updated_at p), te_type = ''POSITION'',
          te_title = (if opened then (utf8 [27169, 25311, 25345, 20179, 24050, 24314, 31435]) else (utf8 [27169, 25311, 25345,
              20179, 24050, 32467, 26463])),
          te_description = (if opened then describe_position_next_action p
             else str_or (pos_exit_reason p) ((utf8 [26368, 32456, 32467, 26524, 32]) @ fmt_fixed 2 (pos_current_r p) @ ''R'')),
          te_severity = (if opened \<or> pos_current_r p \<ge> 0 then ''success'' else ''error''),
          te_entity_type = ''Position'', te_entity_id = Some (pos_id p)\<rparr>)"

definition audit_entry :: "int \<times> audit_log \<Rightarrow> terminal_event" where
  "audit_entry e = (audit_event e)\<lparr>te_id := ''audit-'' @ str_int (fst e)\<rparr>"

definition timeline_events :: "row_extras \<Rightarrow> string \<Rightarrow> nat \<Rightarrow> 'z store_scheme \<Rightarrow>
    terminal_event list" where
  "timeline_events re code n db =
     map structure_event_entry (take n (order_desc ev_ts (filter (\<lambda>e. ev_symbol e = code) (structure_events db))))
     @ map (battle_entry re) (take n (order_desc (re_battle_updated re) (filter (\<lambda>b. bp_symbol b = code) (battle_items
         db))))
     @ map plan_entry (take n (order_desc pl_updated_at (filter (\<lambda>p. pl_symbol p = code) (plans db))))
     @ map (order_entry re) (take n (order_desc (re_order_updated re) (filter (\<lambda>r. so_symbol r = code) (orders db))))
     @ map (position_entry re) (take n (order_desc pos_updated_at (filter (\<lambda>p. pos_symbol p = code) (positions db))))
     @ map audit_entry (take n (order_desc (\<lambda>e. al_created_at (snd e)) (filter (\<lambda>e. al_symbol (snd e) = code)
         (audit_rows db))))"

text \<open>Sorting with \<open>reverse=True\<close> keeps the order of equal keys.\<close>

definition sort_desc :: "('a \<Rightarrow> 'b::linorder) \<Rightarrow> 'a list \<Rightarrow> 'a list" where
  "sort_desc f xs = rev (sort_key f (rev xs))"

definition timeline_payload :: "row_extras \<Rightarrow> string \<Rightarrow> int \<Rightarrow> 'z store_scheme \<Rightarrow>
    exn + terminal_event list" where
  "timeline_payload re symbol limit db =
     (let code = py_upper (py_strip symbol); n = bounded limit 300
      in if code = [] then Inl (ValueError (utf8 [32929, 31080, 20195, 30721, 19981, 33021, 20026, 31354]))
         else Inr (take n (sort_desc (\<lambda>e. (te_time e, te_id e))
                (filter (\<lambda>e. te_time e \<noteq> []) (timeline_events re code (min n 100) db)))))"

section \<open>The journal's curve\<close>

record curve_point =
  cp_trade_number :: nat
  cp_time :: int
  cp_symbol :: string
  cp_trade_r :: real
  cp_cumulative_r :: real

record curve_state =
  cu_cumulative :: real
  cu_peak :: real
  cu_drawdown :: real
  cu_curve :: "curve_point list"

definition journal_step :: "nat \<times> position \<Rightarrow> curve_state \<Rightarrow> curve_state" where
  "journal_step x s =
     (let p = snd x; cumulative = cu_cumulative s + pos_current_r p; peak = max (cu_peak s) cumulative
      in \<lparr>cu_cumulative = cumulative, cu_peak = peak, cu_drawdown = min (cu_drawdown s) (cumulative - peak),
          cu_curve = cu_curve s @ [\<lparr>cp_trade_number = fst x, cp_time = pos_updated_at p, cp_symbol = pos_symbol p,
             cp_trade_r = pos_current_r p, cp_cumulative_r = py_round 4 cumulative\<rparr>]\<rparr>)"

definition journal_start :: curve_state where
  "journal_start = \<lparr>cu_cumulative = 0, cu_peak = 0, cu_drawdown = 0, cu_curve = []\<rparr>"

definition ended_positions :: "'z ledger_scheme \<Rightarrow> position list" where
  "ended_positions db =
     sort_key (\<lambda>p. (pos_updated_at p, pos_id p)) (filter (\<lambda>p. pos_status p \<noteq> POS_OPEN) (positions db))"

definition curve_of :: "position list \<Rightarrow> curve_state" where
  "curve_of ps = fold journal_step (enumerate 1 ps) journal_start"

record journal_totals =
  jt_closed_trades :: nat
  jt_wins :: nat
  jt_losses :: nat
  jt_win_rate :: real
  jt_average_r :: real
  jt_cumulative_r :: real
  jt_max_drawdown_r :: real
  jt_curve :: "curve_point list"

definition journal_summary_payload :: "'z ledger_scheme \<Rightarrow> journal_totals" where
  "journal_summary_payload db =
     (let ps = ended_positions db; s = curve_of ps; n = length ps; wins = length (filter (\<lambda>p. pos_current_r p > 0) ps)
      in \<lparr>jt_closed_trades = n, jt_wins = wins, jt_losses = length (filter (\<lambda>p. pos_current_r p < 0) ps),
          jt_win_rate = (if ps \<noteq> [] then py_round 4 (real wins / real n) else 0),
          jt_average_r = (if ps \<noteq> [] then py_round 4 (cu_cumulative s / real n) else 0),
          jt_cumulative_r = py_round 4 (cu_cumulative s), jt_max_drawdown_r = py_round 4 (cu_drawdown s),
          jt_curve = cu_curve s\<rparr>)"

section \<open>Daily statistics\<close>

definition rejection_reason :: "audit_log \<Rightarrow> string" where
  "rejection_reason a =
     str_or (py_strip (al_reason a))
       (case dict_get AUDIT_ACTION_NAMES (al_action a) of Some t \<Rightarrow> t | None \<Rightarrow> (utf8 [20854, 20182,
           38459, 22622]))"

definition rejection_logs :: "'z ledger_scheme \<Rightarrow> audit_log list" where
  "rejection_logs db =
     take 1000 (order_desc al_created_at
       (filter (\<lambda>a. al_action a \<in> {''RULES_REJECTED'', ''MISSED_BY_CAPITAL''}) (audits db)))"

definition count_reasons :: "string list \<Rightarrow> (string \<times> nat) list" where
  "count_reasons rs =
     map (\<lambda>r. (r, count_list rs r)) (sort_key (\<lambda>r. (- int (count_list rs r), r)) (remdups rs))"

record missed_opportunity =
  mo_plan :: trade_plan
  mo_reference_price :: "real option"
  mo_follow_up_pct :: "real option"

definition missed_of :: "trade_plan \<Rightarrow> missed_opportunity" where
  "missed_of p =
     (let ref = (if pl_status p = PL_MISSED_BY_CAPITAL then pl_missed_by_capital_price p else pl_no_chase_above p)
      in \<lparr>mo_plan = p, mo_reference_price = ref,
          mo_follow_up_pct =
            (if opt_truthy ref \<and> opt_truthy (pl_current_price p)
             then Some (py_round 4 ((opt_or (pl_current_price p) 0 / opt_or ref 0 - 1) * 100)) else None)\<rparr>)"

definition daily_stats_payload :: "'z ledger_scheme \<Rightarrow> (string \<times> nat) list \<times> missed_opportunity list" where
  "daily_stats_payload db =
     (count_reasons (map rejection_reason (rejection_logs db)),
      map missed_of (take 300 (order_desc pl_updated_at
        (filter (\<lambda>p. pl_status p \<in> {PL_NO_CHASE, PL_MISSED_BY_CAPITAL}) (plans db)))))"

text \<open>The first position of a day by its creation, the newest day first.\<close>

definition first_valid_trade_payload :: "row_extras \<Rightarrow> 'z ledger_scheme \<Rightarrow> (int \<times> position) list" where
  "first_valid_trade_payload re db =
     (let ps = sort_key (\<lambda>p. (re_position_created re p, pos_id p)) (positions db);
          day = (\<lambda>p. date_of (re_position_created re p));
          first_by_day = fold (\<lambda>p m. if day p \<in> fst ` set m then m else m @ [(day p, p)]) ps []
      in sort_key (\<lambda>x. - fst x) first_by_day)"

section \<open>Bars, overlay lines and structures\<close>

record bars_payload =
  bx_bars :: "kline list"
  bx_symbol :: string
  bx_timeframe :: string
  bx_latest_bar_at :: "int option"
  bx_anomaly_count :: nat

definition kline_payload :: "string \<Rightarrow> string \<Rightarrow> int \<Rightarrow> 'z store_scheme \<Rightarrow> exn +
    bars_payload" where
  "kline_payload symbol tf limit db =
     (let code = py_upper (py_strip symbol); t = py_lower (py_strip tf);
          rows = rev (take (bounded limit 500)
            (order_desc kl_ts (filter (\<lambda>k. kl_symbol k = code \<and> timeframe_text (kl_timeframe k) = t) (klines db))))
      in if code = [] then Inl (ValueError (utf8 [32929, 31080, 20195, 30721, 19981, 33021, 20026, 31354]))
         else if t \<notin> set TERMINAL_KLINE_TIMEFRAMES then Inl (ValueError (utf8 [24403, 21069, 32456, 31471, 20165, 25903,
             25345, 32, 49, 109, 12289, 53, 109, 12289, 49, 53, 109, 12289, 54, 48, 109, 32, 21644, 32, 49, 100, 32, 75, 32,
             32447]))
         else Inr \<lparr>bx_bars = filter kl_data_ok rows, bx_symbol = code, bx_timeframe = t,
                   bx_latest_bar_at = (if rows = [] then None else Some (kl_ts (last rows))),
                   bx_anomaly_count = length (filter (\<lambda>k. \<not> kl_data_ok k) rows)\<rparr>)"

definition overlay_plan :: "string \<Rightarrow> int option \<Rightarrow> 'z ledger_scheme \<Rightarrow> trade_plan option" where
  "overlay_plan code plan_id db =
     scalar (order_desc2 pl_updated_at pl_id
       (filter (\<lambda>p. pl_symbol p = code
           \<and> (case plan_id of Some i \<Rightarrow> pl_id p = i | None \<Rightarrow> pl_status p \<in> set
               ACTIVE_PLAN_STATUSES)) (plans db)))"

definition trade_plan_overlay_payload ::
  "string \<Rightarrow> int option \<Rightarrow> 'z ledger_scheme \<Rightarrow> string \<times> int option \<times> (string
      \<times> string \<times> real) list" where
  "trade_plan_overlay_payload symbol plan_id db =
     (let code = py_upper (py_strip symbol)
      in case overlay_plan code plan_id db of
           None \<Rightarrow> (code, None, [])
         | Some p \<Rightarrow>
             (code, Some (pl_id p),
              List.map_filter (\<lambda>(ty, label, price). map_option (\<lambda>x. (ty, label, x)) price)
                [(''ENTRY'', (utf8 [35745, 21010, 20837, 22330, 20215]), pl_breakout_entry_price p),
                 (''NO_CHASE'', (utf8 [26368, 39640, 21487, 25509, 21463, 20215]), pl_no_chase_above p),
                 (''STOP'', (utf8 [30828, 27490, 25439, 20215]), Some (pl_stop_price p)),
                 (''TARGET_1'', (utf8 [31532, 19968, 30446, 26631, 20215]), Some (pl_target_1 p)),
                 (''TARGET_2'', (utf8 [31532, 20108, 30446, 26631, 20215]), Some (pl_target_2 p)),
                 (''CURRENT'', (utf8 [24403, 21069, 20215]), pl_current_price p)]))"

definition structures_payload :: "string \<Rightarrow> string \<Rightarrow> int \<Rightarrow> 'z store_scheme \<Rightarrow> exn
    + js list" where
  "structures_payload symbol tf limit db =
     (let code = py_upper (py_strip symbol); t = py_lower (py_strip tf);
          events = rev (take (bounded limit 300)
            (order_desc ev_ts (filter (\<lambda>e. ev_symbol e = code \<and> timeframe_text (ev_timeframe e) = t)
                (structure_events db))));
          battle_of = (\<lambda>i. scalar (rev (filter (\<lambda>b. bp_source_structure_id b = i) (battle_items db))));
          plan_of_id = (\<lambda>i. scalar (order_desc2 pl_updated_at pl_id (filter (\<lambda>p. pl_source_structure_id p = i)
              (plans db))))
      in if t \<notin> set TERMINAL_KLINE_TIMEFRAMES then Inl (ValueError (utf8 [24403, 21069, 32456, 31471, 20165, 25903,
          25345, 32, 54, 48, 109, 32, 21644, 32, 49, 100, 32, 32467, 26500, 26597, 35810]))
         else Inr (map (\<lambda>e. JObj (structure_fields e
             @ [(''linked_battle_item_id'', js_opt (\<lambda>b. JInt (bp_id b)) (battle_of (ev_id e))),
                (''linked_trade_plan_id'', js_opt (\<lambda>p. JInt (pl_id p)) (plan_of_id (ev_id e)))])) events))"

text \<open>The envelope of an answer: the time given as text, or now if there is none.\<close>

record 'd envelope =
  en_data :: 'd
  en_synced_at :: string
  en_source :: string
  en_stale :: bool

definition response_envelope :: "'d \<Rightarrow> string \<Rightarrow> string option \<Rightarrow> int \<Rightarrow> 'd
    envelope" where
  "response_envelope d source synced_at now =
     \<lparr>en_data = d, en_synced_at = str_or (case synced_at of Some t \<Rightarrow> t | None \<Rightarrow> []) (iso_utc
         now), en_source = source, en_stale = False\<rparr>"

section \<open>Lemmas\<close>

definition approval_allows :: "'z ledger_scheme \<Rightarrow> bool" where
  "approval_allows db = (case reconciliation_allows_new_entries db of Inr (allowed, _) \<Rightarrow> allowed | Inl _
      \<Rightarrow> False)"

lemma status_none: "reconciliation_gate_status db = Inr None \<longleftrightarrow> gate_config db = None \<and> open_issues db = []"
  by (auto simp: reconciliation_gate_status_def Let_def split: option.splits stored_json.splits sum.splits)

text \<open>An answer of the cache is the fresh summary of this call, of an earlier call within its time to live, or what
  the cache held at the start and has not outlived.\<close>

lemma answers_from:
  assumes "i < length cs" and "summary_answers cs cache ! i = Inr p"
  shows "(\<exists>j \<le> i. su_fresh (cs ! j) = Inr p \<and> (j = i \<or> su_now (cs ! i) < su_now (cs ! j) + of_int (su_ttl
      (cs ! j))))
    \<or> (sc_payload cache = Some p \<and> su_now (cs ! i) < sc_expires_at cache)"
  using assms
proof (induction cs arbitrary: i cache)
  case (Cons c cs)
  obtain r cache' where step: "cached_terminal_summary (su_ttl c) (su_now c) (su_fresh c) cache = (r, cache')" by fastforce
  have cache': "cache' = cache \<or> (\<exists>q. su_fresh c = Inr q \<and> cache' = \<lparr>sc_expires_at = su_now c + of_int
      (su_ttl c), sc_payload = Some q\<rparr>)"
    using step by (auto simp: cached_terminal_summary_def Let_def split: if_splits option.splits sum.splits)
  show ?case
  proof (cases i)
    case 0
    with Cons.prems step have "r = Inr p" by simp
    with step have "su_fresh c = Inr p \<or> (sc_payload cache = Some p \<and> su_now c < sc_expires_at cache)"
      by (auto simp: cached_terminal_summary_def Let_def split: if_splits option.splits sum.splits)
    with 0 show ?thesis by auto
  next
    case (Suc k)
    with Cons.prems step have "k < length cs" "summary_answers cs cache' ! k = Inr p" by simp_all
    from Cons.IH [OF this] show ?thesis
    proof
      assume "\<exists>j \<le> k. su_fresh (cs ! j) = Inr p \<and> (j = k \<or> su_now (cs ! k) < su_now (cs ! j) + of_int
          (su_ttl (cs ! j)))"
      then obtain j where "j \<le> k" "su_fresh (cs ! j) = Inr p"
        "j = k \<or> su_now (cs ! k) < su_now (cs ! j) + of_int (su_ttl (cs ! j))" by blast
      then show ?thesis using Suc by (intro disjI1 exI [of _ "Suc j"]) auto
    next
      assume "sc_payload cache' = Some p \<and> su_now (cs ! k) < sc_expires_at cache'"
      with cache' Suc show ?thesis by (elim disjE exE conjE) (auto intro: exI [of _ 0])
    qed
  qed
qed simp

text \<open>The state after the trades: the last prefix sum, the highest prefix sum, and the deepest fall between two
  prefix sums.\<close>

lemma curve_snoc: "curve_of (ps @ [p]) = journal_step (Suc (length ps), p) (curve_of ps)"
  by (simp add: curve_of_def enumerate_append_eq)

definition prefix_sum :: "position list \<Rightarrow> nat \<Rightarrow> real" where
  "prefix_sum ps k = sum_list (map pos_current_r (take k ps))"

lemma prefix_sum_snoc: "k \<le> length ps \<Longrightarrow> prefix_sum (ps @ [p]) k = prefix_sum ps k"
  by (simp add: prefix_sum_def)

lemma curve_state:
  "cu_cumulative (curve_of ps) = prefix_sum ps (length ps)
   \<and> (\<forall>k \<le> length ps. prefix_sum ps k \<le> cu_peak (curve_of ps)) \<and> (\<exists>k \<le> length ps. cu_peak
       (curve_of ps) = prefix_sum ps k)
   \<and> (\<forall>j \<le> length ps. \<forall>i \<le> j. cu_drawdown (curve_of ps) \<le> prefix_sum ps j - prefix_sum ps i)
   \<and> (\<exists>j \<le> length ps. \<exists>i \<le> j. cu_drawdown (curve_of ps) = prefix_sum ps j - prefix_sum ps i)"
proof (induction ps rule: rev_induct)
  case Nil
  show ?case by (simp add: curve_of_def journal_start_def prefix_sum_def)
next
  case (snoc p ps)
  let ?s = "curve_of ps" and ?n = "length ps"
  let ?c = "cu_cumulative ?s + pos_current_r p"
  from snoc obtain kp where kp: "kp \<le> ?n" "cu_peak ?s = prefix_sum ps kp" by blast
  from snoc obtain j i where ji: "j \<le> ?n" "i \<le> j" "cu_drawdown ?s = prefix_sum ps j - prefix_sum ps i" by blast
  have new: "prefix_sum (ps @ [p]) (Suc ?n) = ?c"
    using snoc by (simp add: prefix_sum_def)
  have peak: "cu_peak (curve_of (ps @ [p])) = max (cu_peak ?s) ?c"
    and dd: "cu_drawdown (curve_of (ps @ [p])) = min (cu_drawdown ?s) (?c - max (cu_peak ?s) ?c)"
    and cum: "cu_cumulative (curve_of (ps @ [p])) = ?c"
    by (simp_all add: curve_snoc journal_step_def Let_def)
  have le: "prefix_sum (ps @ [p]) k \<le> max (cu_peak ?s) ?c" if "k \<le> Suc ?n" for k
    using that snoc new by (cases "k = Suc ?n") (auto simp: prefix_sum_snoc le_max_iff_disj)
  obtain k where k: "k \<le> Suc ?n" "max (cu_peak ?s) ?c = prefix_sum (ps @ [p]) k"
    using kp new by (cases "?c \<le> cu_peak ?s") (auto simp: max_def prefix_sum_snoc le_SucI intro: that [of kp] that [of "Suc
        ?n"])
  have low: "cu_drawdown (curve_of (ps @ [p])) \<le> prefix_sum (ps @ [p]) b - prefix_sum (ps @ [p]) a" if "b \<le> Suc ?n" "a
      \<le> b" for a b
  proof (cases "b = Suc ?n")
    case True
    with le [of a] that new show ?thesis by (simp add: dd)
  next
    case False
    with that have "cu_drawdown ?s \<le> prefix_sum ps b - prefix_sum ps a" using snoc by simp
    with False that show ?thesis by (simp add: dd prefix_sum_snoc)
  qed
  have "\<exists>b \<le> Suc ?n. \<exists>a \<le> b. cu_drawdown (curve_of (ps @ [p])) = prefix_sum (ps @ [p]) b - prefix_sum
      (ps @ [p]) a"
  proof (cases "cu_drawdown ?s \<le> ?c - max (cu_peak ?s) ?c")
    case True
    then have "cu_drawdown (curve_of (ps @ [p])) = prefix_sum (ps @ [p]) j - prefix_sum (ps @ [p]) i"
      using ji by (simp add: dd prefix_sum_snoc)
    with ji show ?thesis by (meson le_SucI)
  next
    case False
    then have "cu_drawdown (curve_of (ps @ [p])) = prefix_sum (ps @ [p]) (Suc ?n) - prefix_sum (ps @ [p]) k"
      using k new by (simp add: dd)
    with k show ?thesis by blast
  qed
  with le k low cum new peak show ?case by (simp only: length_append_singleton) metis
qed

section \<open>Properties\<close>

text \<open>C33. An answer of the summary endpoint is never older than its time to live: it is the summary of this call, or
  of an earlier call made less than that call's time to live ago, whatever the calls, their clock readings
  and their failures.\<close>

theorem cached_summary_is_fresh:
  assumes "i < length cs" and "summary_answers cs clear_terminal_summary_cache ! i = Inr p"
  shows "\<exists>j \<le> i. su_fresh (cs ! j) = Inr p \<and> (j = i \<or> su_now (cs ! i) < su_now (cs ! j) + of_int (su_ttl
      (cs ! j)))"
  using answers_from [OF assms] by (simp add: clear_terminal_summary_cache_def)

theorem cached_summary_is_fresh_witness:
  "let cs = [\<lparr>su_ttl = 5, su_now = 10, su_fresh = Inr ''a''\<rparr>, \<lparr>su_ttl = 5, su_now = 12, su_fresh = Inr
      ''b''\<rparr>]
   in \<exists>j \<le> 1. su_fresh (cs ! j) = Inr ''a'' \<and> (j = 1 \<or> su_now (cs ! 1) < su_now (cs ! j) + of_int (su_ttl
       (cs ! j)))"
  unfolding Let_def
  by (rule cached_summary_is_fresh) (simp_all add: cached_terminal_summary_def clear_terminal_summary_cache_def)

text \<open>The drawdown of the journal is the deepest fall: the least difference between the sum of the results up to a
  trade and the sum up to an earlier one, the start included.\<close>

theorem drawdown_is_deepest_fall:
  "cu_drawdown (curve_of ps)
     = Min ((\<lambda>(i, j). sum_list (map pos_current_r (take j ps)) - sum_list (map pos_current_r (take i ps)))
            ` {(i, j). i \<le> j \<and> j \<le> length ps})"
proof -
  let ?A = "{(i, j). i \<le> j \<and> j \<le> length ps}"
  have "?A \<subseteq> {..length ps} \<times> {..length ps}" by auto
  then have "finite ?A" by (rule finite_subset) simp
  then show ?thesis
    using curve_state [of ps] unfolding prefix_sum_def
    by (intro Min_eqI [symmetric]) (auto simp: image_iff)
qed

text \<open>C12. If the terminal's summary forbids new entries, the approval refuses them too; before the first
  reconciliation the summary calls the books consistent and entries allowed while the approval refuses every
  entry.\<close>

theorem summary_gate_against_approval:
  assumes "reconciliation_summary_of db = Inr s"
  shows "(rs_allow_new_entries s \<or> \<not> approval_allows db)
    \<and> (if gate_config db = None \<and> open_issues db = []
       then rs_allow_new_entries s \<and> rs_mode s = ''NORMAL'' \<and> \<not> approval_allows db
       else rs_allow_new_entries s \<and> blocking_issue db = None \<longleftrightarrow> approval_allows db)"
proof (cases "reconciliation_gate_status db")
  case (Inl e)
  with assms show ?thesis by (simp add: reconciliation_summary_of_def)
next
  case (Inr g)
  show ?thesis
  proof (cases g)
    case None
    with Inr have st: "reconciliation_gate_status db = Inr None" by simp
    then have "gate_config db = None \<and> open_issues db = []" by (simp add: status_none)
    moreover from this have "filter (\<lambda>i. is_status i = ISSUE_OPEN) (issues db) = []" by (simp add: open_issues_def)
    ultimately show ?thesis
      using assms st by (auto simp: reconciliation_summary_of_def approval_allows_def reconciliation_allows_new_entries_def Let_def)
  next
    case (Some h)
    with Inr have st: "reconciliation_gate_status db = Inr (Some h)" by simp
    then have "\<not> (gate_config db = None \<and> open_issues db = [])" using status_none [of db] by simp
    with assms st show ?thesis
      by (auto simp: reconciliation_summary_of_def approval_allows_def reconciliation_allows_new_entries_def split: option.splits)
  qed
qed

theorem summary_gate_against_approval_witness:
  "\<exists>s. reconciliation_summary_of empty_ledger = Inr s \<and> rs_allow_new_entries s \<and> \<not> approval_allows
      empty_ledger"
proof -
  obtain s where s: "reconciliation_summary_of empty_ledger = Inr s"
    by (simp add: reconciliation_summary_of_def reconciliation_gate_status_def empty_ledger_def open_issues_def Let_def)
  with summary_gate_against_approval [OF s] show ?thesis by (simp add: empty_ledger_def open_issues_def)
qed

text \<open>The terminal allows a new position exactly if it names no reason to stop; then every limit of the effective
  settings holds, and a risk page without blockers lets the terminal allow it unless real trading is
  switched on.\<close>

theorem terminal_can_open_iff_no_stop_reason:
  assumes "terminal_summary_of stored st now db = Inr s"
  shows "(tm_can_open_new_position s \<longleftrightarrow> tm_risk_stop_reason s = [])
    \<and> (tm_can_open_new_position s \<or> enable_real_trading st \<or> rp_blockers (risk_page_context stored st now db)
        \<noteq> [])
    \<and> (tm_can_open_new_position s \<longrightarrow> int (tm_positions_count s) < tm_max_positions s \<and>
        tm_account_equity s > 0)"
proof -
  have real: "enable_real_trading (effective_risk_settings stored st) = enable_real_trading st"
    by (simp add: effective_risk_settings_def with_risk_values_def split: option.splits)
  let ?eff = "effective_risk_settings stored st" and ?sync = "portfolio_sync_status db"
  let ?n = "int (length (filter (\<lambda>p. pos_status p = POS_OPEN) (positions db)))" and ?d = "int (buys_of_day now db)"
  obtain rec where rec: "reconciliation_summary_of db = Inr rec"
    using assms by (cases "reconciliation_summary_of db") (simp_all add: terminal_summary_of_def Let_def)
  note s = assms [unfolded terminal_summary_of_def Let_def rec sum.case sum.inject, symmetric]
  have can: "tm_can_open_new_position s \<longleftrightarrow> enable_sim_trading ?eff \<and> \<not> enable_real_trading ?eff
      \<and> equity_readable ?sync
      \<and> ?n < max_positions ?eff \<and> ?d < max_daily_new_trades ?eff"
    unfolding s by (rule terminal_summary.select_convs)
  have sizes: "int (tm_positions_count s) = ?n" "tm_max_positions s = max_positions ?eff" "tm_account_equity s =
      ps_account_equity ?sync"
    unfolding s terminal_summary.select_convs by (rule refl)+
  have stop: "tm_risk_stop_reason s = [] \<longleftrightarrow> enable_sim_trading ?eff \<and> \<not> enable_real_trading ?eff
      \<and> equity_readable ?sync
      \<and> \<not> ?n \<ge> max_positions ?eff \<and> \<not> ?d \<ge> max_daily_new_trades ?eff"
    unfolding s terminal_summary.select_convs by (simp split: if_split)
  have page: "rp_blockers (risk_page_context stored st now db) = [] \<longleftrightarrow> equity_ok now ?sync \<and>
      enable_sim_trading ?eff
      \<and> \<not> ?n \<ge> max_positions ?eff \<and> \<not> ?d \<ge> max_daily_new_trades ?eff"
    by (simp add: risk_page_context_def entry_blockers_def open_position_count_def Let_def)
  have "equity_ok now ?sync \<Longrightarrow> equity_readable ?sync" "equity_readable ?sync \<Longrightarrow> ps_account_equity
      ?sync > 0"
    by (simp_all add: equity_ok_def equity_readable_def)
  then show ?thesis unfolding can stop page sizes real by linarith
qed

theorem terminal_can_open_iff_no_stop_reason_witness:
  "\<exists>s. terminal_summary_of None default_settings 0 empty_ledger = Inr s \<and> \<not> tm_can_open_new_position s"
proof -
  obtain rec where "reconciliation_summary_of empty_ledger = Inr rec"
    by (simp add: reconciliation_summary_of_def reconciliation_gate_status_def empty_ledger_def open_issues_def Let_def)
  then obtain s where s: "terminal_summary_of None default_settings 0 empty_ledger = Inr s"
    by (simp add: terminal_summary_of_def Let_def)
  have "\<not> ps_account_equity (portfolio_sync_status empty_ledger) > 0"
    by (simp add: portfolio_sync_status_def empty_ledger_def no_portfolio_def)
  moreover have "tm_account_equity s = ps_account_equity (portfolio_sync_status empty_ledger)"
    using s by (auto simp: terminal_summary_of_def Let_def split: sum.splits)
  ultimately show ?thesis using s terminal_can_open_iff_no_stop_reason [OF s] by auto
qed

text \<open>The rejection statistics count every rejection of the last thousand once: the counts add up to the number
  of log rows, no reason comes twice, and the counts fall.\<close>

theorem rejections_are_counted_once:
  "sum_list (map snd (fst (daily_stats_payload db))) = length (rejection_logs db)
   \<and> distinct (map fst (fst (daily_stats_payload db)))
   \<and> sorted_wrt (\<ge>) (map snd (fst (daily_stats_payload db)))"
proof -
  let ?rs = "map rejection_reason (rejection_logs db)"
  let ?ds = "sort_key (\<lambda>r. (- int (count_list ?rs r), r)) (remdups ?rs)"
  have stats: "fst (daily_stats_payload db) = map (\<lambda>r. (r, count_list ?rs r)) ?ds"
    by (simp add: daily_stats_payload_def count_reasons_def)
  have dist: "distinct ?ds" by simp
  have "sum_list (map (count_list ?rs) ?ds) = sum (count_list ?rs) (set ?ds)"
    using dist by (rule sum_list_distinct_conv_sum_set)
  also have "\<dots> = length ?rs" by (simp add: sum_count_set)
  finally have total: "sum_list (map (count_list ?rs) ?ds) = length (rejection_logs db)" by simp
  have "sorted (map (\<lambda>r. (- int (count_list ?rs r), r)) ?ds)" by (rule sorted_sort_key)
  then have "sorted_wrt (\<lambda>a b. count_list ?rs b \<le> count_list ?rs a) ?ds"
    unfolding sorted_map by (rule sorted_wrt_mono_rel [rotated]) (auto simp: less_eq_prod_def)
  with total dist show ?thesis by (simp add: stats comp_def sorted_wrt_map)
qed

end
