(* ===== verification/Workbench.thy ===== *)
theory Workbench
  imports Terminal Pipeline
begin

text \<open>
  app/services/workbench.py: the read model of one symbol - the watchlist, the bars of the four
  timeframes with the structures and signals drawn on them, the levels of the open position, the state
  with its playbooks, and the event and signal lists. The wording of a reason goes through
  \<open>format_reason\<close> (presentation.py), which rewrites the text with regular expressions; it is the argument
  \<open>fr\<close> of the definitions that send a reason.
\<close>

definition SUPPORTED_TIMEFRAMES :: "timeframe list" where
  "SUPPORTED_TIMEFRAMES = [DAILY, HOUR_60, MIN_15, MIN_5]"

fun TIMEFRAME_LABELS :: "timeframe \<Rightarrow> string" where
  "TIMEFRAME_LABELS DAILY = (utf8 [26085, 32447])"
| "TIMEFRAME_LABELS HOUR_60 = (utf8 [54, 48, 32, 20998, 38047])"
| "TIMEFRAME_LABELS MIN_15 = (utf8 [49, 53, 32, 20998, 38047])"
| "TIMEFRAME_LABELS MIN_5 = (utf8 [53, 32, 20998, 38047])"

section \<open>The latest rows of a symbol\<close>

definition latest_trend :: "string \<Rightarrow> 'z store_scheme \<Rightarrow> stock_trend_row option" where
  "latest_trend symbol db = scalar (order_desc st_as_of (filter (\<lambda>t. st_symbol t = symbol) (stock_trends db)))"

definition latest_structure :: "string \<Rightarrow> 'z store_scheme \<Rightarrow> structure_event option" where
  "latest_structure symbol db = scalar (order_desc ev_ts (filter (\<lambda>e. ev_symbol e = symbol) (structure_events db)))"

definition pending_signal :: "string \<Rightarrow> 'z store_scheme \<Rightarrow> trade_signal option" where
  "pending_signal symbol db =
     scalar (order_desc sg_created_at (filter (\<lambda>s. sg_symbol s = symbol \<and> sg_status s = PENDING) (trade_signals db)))"

definition require_symbol :: "string \<Rightarrow> 'z store_scheme \<Rightarrow> exn + watchlist_item" where
  "require_symbol symbol db =
     (case scalar (filter (\<lambda>w. wl_symbol w = symbol) (watchlist db)) of
        None \<Rightarrow> Inl (OtherError ''symbol not found'')
      | Some w \<Rightarrow> Inr w)"

section \<open>The watchlist\<close>

definition shown_trend :: "stock_trend_row option \<Rightarrow> string" where
  "shown_trend x = (case x of None \<Rightarrow> ''UNKNOWN'' | Some t \<Rightarrow> trend_text (st_trend t))"

definition shown_phase :: "trading_state option \<Rightarrow> string" where
  "shown_phase x = (case x of None \<Rightarrow> ''IDLE'' | Some t \<Rightarrow> phase_str (ts_state t))"

definition cooldown_date :: "trading_state option \<Rightarrow> int option" where
  "cooldown_date x = (case x of None \<Rightarrow> None | Some t \<Rightarrow> ts_cooldown_until t)"

definition watchlist_row :: "(string \<Rightarrow> string) \<Rightarrow> 'z store_scheme \<Rightarrow> watchlist_item
    \<Rightarrow> js" where
  "watchlist_row fr db item =
     (let symbol = wl_symbol item; trend = shown_trend (latest_trend symbol db);
          ts = state_of symbol db; ev = latest_structure symbol db;
          (data_ok, data_reason) = symbol_data_status symbol db
      in JObj
        [(''symbol'', JStr symbol), (''name'', JStr (wl_name item)),
         (''trend'', JStr trend), (''trend_label'', JStr (label_for trend)),
         (''state'', JStr (shown_phase ts)), (''state_label'', JStr (label_for (shown_phase ts))),
         (''structure'', JStr (case ev of None \<Rightarrow> [] | Some e \<Rightarrow> event_type_str (ev_type e))),
         (''structure_label'', JStr (case ev of None \<Rightarrow> (utf8 [26242, 26080, 32467, 26500]) | Some e \<Rightarrow>
             label_for (event_type_str (ev_type e)))),
         (''pending'', JBool (pending_signal symbol db \<noteq> None)),
         (''position'', JBool (open_position_of symbol db \<noteq> None)),
         (''cooldown'', JStr (case cooldown_date ts of None \<Rightarrow> [] | Some d \<Rightarrow> iso_date d)),
         (''data_ok'', JBool data_ok), (''data_reason'', JStr (fr data_reason))])"

definition workbench_watchlist :: "(string \<Rightarrow> string) \<Rightarrow> 'z store_scheme \<Rightarrow> js list" where
  "workbench_watchlist fr db = map (watchlist_row fr db) (sort_key wl_symbol (filter wl_active (watchlist db)))"

section \<open>Signals and levels on a chart\<close>

definition chart_signal_identity :: "trade_signal \<Rightarrow> string \<times> string" where
  "chart_signal_identity s =
     (if sg_type s = ENTRY then (''BUY'', (utf8 [20080, 20837]))
      else if sg_type s = REDUCE then (''REDUCE'', (utf8 [20943, 20179]))
      else (let reason = py_lower (str_or (sg_cancel_reason s) (sg_reason s))
            in if py_contains ''hard stop'' reason \<or> py_contains (utf8 [30828, 27490, 25439]) reason then (''STOP'', (utf8
                [27490, 25439]))
               else if py_contains ''trailing stop'' reason \<or> py_contains (utf8 [28369, 21160, 27490, 30408]) reason then
                   (''TRAIL'', (utf8 [28369, 21160, 27490, 30408]))
               else (''SELL'', (utf8 [21334, 20986]))))"

record signal_marker =
  sm_ts :: int
  sm_price :: "real option"
  sm_kind :: string
  sm_label :: string
  sm_status :: signal_status
  sm_source_type :: signal_type

definition marker_timeframe :: "trade_signal \<Rightarrow> timeframe" where
  "marker_timeframe s = (case sg_trigger_timeframe s of None \<Rightarrow> DAILY | Some tf \<Rightarrow> tf)"

definition marker_ts :: "trade_signal \<Rightarrow> int" where
  "marker_ts s = (case sg_trigger_ts s of None \<Rightarrow> sg_created_at s | Some t \<Rightarrow> t)"

definition marker_of :: "trade_signal \<Rightarrow> signal_marker" where
  "marker_of s =
     (let (kind, label) = chart_signal_identity s
      in \<lparr>sm_ts = marker_ts s,
          sm_price = (if opt_truthy (sg_entry_price s) then sg_entry_price s else sg_stop_price s),
          sm_kind = kind, sm_label = label, sm_status = sg_status s, sm_source_type = sg_type s\<rparr>)"

definition signal_markers :: "string \<Rightarrow> timeframe \<Rightarrow> (int \<times> int) option \<Rightarrow> 'z
    store_scheme \<Rightarrow> signal_marker list" where
  "signal_markers symbol tf window db =
     (case window of
        None \<Rightarrow> []
      | Some (start, finish) \<Rightarrow>
          map marker_of
            (filter (\<lambda>s. marker_timeframe s = tf \<and> start \<le> marker_ts s \<and> marker_ts s \<le> finish)
               (rev (take 100 (order_desc sg_created_at (filter (\<lambda>s. sg_symbol s = symbol) (trade_signals db)))))))"

definition position_levels :: "position option \<Rightarrow> (string \<times> string \<times> real) list" where
  "position_levels x =
     (case x of
        None \<Rightarrow> []
      | Some p \<Rightarrow>
          (let unit_r = max (pos_entry_price p - pos_stop_price p) 0
           in [(''entry'', (utf8 [25345, 20179, 25104, 26412]), pos_entry_price p), (''stop'', (utf8 [21021, 22987, 27490,
               25439]), pos_stop_price p)]
              @ (case pos_trailing_stop p of None \<Rightarrow> [] | Some t \<Rightarrow> [(''trail'', (utf8 [28369, 21160,
                  27490, 30408]), t)])
              @ (if unit_r > 0
                 then map (\<lambda>m. (''r'' @ str_int m, str_int m @ ''R'', pos_entry_price p + unit_r * of_int m)) [1, 2, 3]
                 else [])))"

section \<open>The frames\<close>

text \<open>A bar is shown with the averages and MACD of the indicator row of the same time, an event with its marker.\<close>

record chart_frame =
  cf_timeframe :: timeframe
  cf_label :: string
  cf_available :: bool
  cf_data_ok :: bool
  cf_bars :: "(kline \<times> indicator option) list"
  cf_events :: "structure_event list"
  cf_signals :: "signal_marker list"
  cf_levels :: "(string \<times> string \<times> real) list"

definition frame_bars :: "string \<Rightarrow> timeframe \<Rightarrow> nat \<Rightarrow> 'z store_scheme \<Rightarrow> kline
    list" where
  "frame_bars symbol tf limit db =
     rev (take limit (order_desc kl_ts (filter (\<lambda>k. kl_symbol k = symbol \<and> kl_timeframe k = tf) (klines db))))"

definition frame_of :: "string \<Rightarrow> nat \<Rightarrow> 'z store_scheme \<Rightarrow> timeframe \<Rightarrow>
    chart_frame" where
  "frame_of symbol limit db tf =
     (let bars = frame_bars symbol tf limit db;
          window = (case bars of [] \<Rightarrow> None | b # _ \<Rightarrow> Some (kl_ts b, kl_ts (last bars)));
          rows = filter (\<lambda>i. in_symbol i = symbol \<and> in_timeframe i = tf \<and> in_ts i \<in> set (map kl_ts bars))
              (indicators db);
          events = (case window of
             None \<Rightarrow> []
           | Some (start, finish) \<Rightarrow>
               rev (take 40 (order_desc ev_ts (filter (\<lambda>e. ev_symbol e = symbol \<and> ev_timeframe e = tf
                   \<and> ev_ts e \<ge> start \<and> ev_ts e \<le> finish) (structure_events db)))))
      in \<lparr>cf_timeframe = tf, cf_label = TIMEFRAME_LABELS tf, cf_available = (bars \<noteq> []),
          cf_data_ok = (bars \<noteq> [] \<and> list_all kl_data_ok bars),
          cf_bars = map (\<lambda>b. (b, scalar (rev (filter (\<lambda>i. in_ts i = kl_ts b) rows)))) bars,
          cf_events = events, cf_signals = signal_markers symbol tf window db,
          cf_levels = position_levels (open_position_of symbol db)\<rparr>)"

definition frames_payload :: "string \<Rightarrow> nat \<Rightarrow> 'z store_scheme \<Rightarrow> string \<times> chart_frame
    list" where
  "frames_payload symbol limit db =
     (let s = py_upper symbol in (s, map (frame_of s limit db) SUPPORTED_TIMEFRAMES))"

definition bar_payload :: "kline \<times> indicator option \<Rightarrow> js" where
  "bar_payload x =
     (let b = fst x; get = (\<lambda>f. case snd x of None \<Rightarrow> JNull | Some i \<Rightarrow> js_opt JNum (f i))
      in JObj [(''ts'', JStr (isoformat (kl_ts b))), (''open'', JNum (kl_open b)), (''high'', JNum (kl_high b)),
               (''low'', JNum (kl_low b)), (''close'', JNum (kl_close b)), (''volume'', JNum (kl_volume b)),
               (''data_ok'', JBool (kl_data_ok b)), (''ma20'', get in_ma20), (''ma60'', get in_ma60),
               (''macd_dif'', get in_macd_dif), (''macd_dea'', get in_macd_dea), (''macd_hist'', get in_macd_hist)])"

definition event_marker :: "structure_event \<Rightarrow> (string \<times> js) list" where
  "event_marker e =
     [(''ts'', JStr (isoformat (ev_ts e))), (''price'', JNum (ev_price e)), (''kind'', JStr (event_type_str (ev_type e))),
      (''label'', JStr (label_for (event_type_str (ev_type e)))), (''invalidated'', JBool (ev_invalidated e))]"

definition workbench_event_payload :: "(string \<Rightarrow> string) \<Rightarrow> structure_event \<Rightarrow> js" where
  "workbench_event_payload fr e =
     JObj (event_marker e
       @ [(''id'', JInt (ev_id e)), (''timeframe'', JStr (timeframe_text (ev_timeframe e))),
          (''timeframe_label'', JStr (label_for (timeframe_text (ev_timeframe e)))), (''reason'', JStr (fr (ev_reason e))),
          (''pivot_low'', js_opt JNum (ev_pivot_low e)), (''pivot_high'', js_opt JNum (ev_pivot_high e)),
          (''confirm_level'', js_opt JNum (ev_confirm_level e)),
          (''invalidation_level'', js_opt JNum (ev_invalidation_level e)),
          (''trigger_level'', js_opt JNum (ev_trigger_level e)),
          (''expires_at'', js_opt (\<lambda>t. JStr (isoformat t)) (ev_expires_at e))])"

definition signal_payload :: "(string \<Rightarrow> string) \<Rightarrow> trade_signal \<Rightarrow> js" where
  "signal_payload fr s =
     (let ty = signal_type_str (sg_type s); scr = script_str (sg_script s); status = signal_status_str (sg_status s)
      in JObj
        [(''id'', JInt (sg_id s)), (''type'', JStr ty), (''type_label'', JStr (label_for ty)),
         (''script'', JStr scr), (''script_label'', JStr (label_for scr)),
         (''status'', JStr status), (''status_label'', JStr (label_for status)), (''action'', JStr (sg_action s)),
         (''created_at'', JStr (isoformat (sg_created_at s))), (''entry_price'', js_opt JNum (sg_entry_price s)),
         (''stop_price'', js_opt JNum (sg_stop_price s)), (''shares'', js_opt JInt (sg_shares s)),
         (''risk_amount'', js_opt JNum (sg_risk_amount s)), (''risk_r'', js_opt JNum (sg_risk_r s)),
         (''source_structure_id'', js_opt JInt (sg_source_structure_id s)),
         (''trigger_timeframe'', js_opt (\<lambda>tf. JStr (timeframe_text tf)) (sg_trigger_timeframe s)),
         (''trigger_timeframe_label'',
            JStr (label_for (case sg_trigger_timeframe s of None \<Rightarrow> [] | Some tf \<Rightarrow> timeframe_text tf))),
         (''trigger_ts'', js_opt (\<lambda>t. JStr (isoformat t)) (sg_trigger_ts s)),
         (''trigger_level'', js_opt JNum (sg_trigger_level s)),
         (''reason'', JStr (fr (str_or (sg_cancel_reason s) (sg_reason s))))])"

definition workbench_position_payload :: "position option \<Rightarrow> js" where
  "workbench_position_payload x =
     (case x of None \<Rightarrow> JNull | Some p \<Rightarrow> JObj
        [(''shares'', JInt (pos_shares p)), (''entry_price'', JNum (pos_entry_price p)), (''stop_price'', JNum (pos_stop_price p)),
         (''trailing_stop'', js_opt JNum (pos_trailing_stop p)), (''risk_amount'', JNum (pos_risk_amount p)),
         (''current_r'', JNum (pos_current_r p))])"

section \<open>The state and its playbooks\<close>

definition named_state :: "(string \<Rightarrow> string) \<Rightarrow> string \<Rightarrow> string \<Rightarrow> js" where
  "named_state fr v reason =
     JObj [(''value'', JStr (str_or v ''UNKNOWN'')), (''label'', JStr (label_for (str_or v ''UNKNOWN''))),
           (''reason'', JStr (fr reason))]"

record playbook =
  pk_name :: string
  pk_active :: bool
  pk_conditions :: "(string \<times> bool) list"

definition pending_script :: "script \<Rightarrow> trade_signal option \<Rightarrow> bool" where
  "pending_script s pending = (case pending of None \<Rightarrow> False | Some g \<Rightarrow> sg_script g = s)"

text \<open>The state WAIT_ENTRY_TRIGGER of the list is written nowhere in the program, so the phases do not have it.\<close>

definition playbook_status ::
  "market_state_row option \<Rightarrow> stock_trend_row option \<Rightarrow> trading_state option \<Rightarrow> trade_signal
      option \<Rightarrow> position option \<Rightarrow> bool
     \<Rightarrow> playbook list" where
  "playbook_status market trend ts pending p data_ok =
     (let common =
        [((utf8 [26680, 24515, 21608, 26399, 25968, 25454, 27491, 24120]), data_ok),
         ((utf8 [24066, 22330, 20801, 35768, 23547, 25214, 26032, 20179]), case market of None \<Rightarrow> False | Some m
             \<Rightarrow> ms_state m \<in> set TRADEABLE_MARKETS),
         ((utf8 [20010, 32929, 36235, 21183, 36890, 36807, 36807, 28388]), case trend of None \<Rightarrow> False | Some t
             \<Rightarrow> st_trend t \<in> {UPTREND, STRONG_UPTREND}),
         ((utf8 [24403, 21069, 27809, 26377, 27169, 25311, 25345, 20179]), p = None)];
          ready = (case ts of None \<Rightarrow> False | Some t \<Rightarrow> ts_state t \<in> {BOTTOM_CONFIRMED,
              WAIT_15M_TRIGGER, ENTRY_CANDIDATE});
          a = pending_script SCRIPT_A_BOTTOM_TREND_RESUME pending;
          b = pending_script SCRIPT_B_TOP_INVALIDATION_CONTINUATION pending
      in [\<lparr>pk_name = label_for ''SCRIPT_A_BOTTOM_TREND_RESUME'', pk_active = a,
            pk_conditions = common @ [((utf8 [29366, 24577, 26426, 24050, 36827, 20837, 24213, 32467, 26500, 30830, 35748,
                25110, 31561, 24453, 32, 49, 53, 32, 20998, 38047, 35302, 21457]), ready)]\<rparr>,
          \<lparr>pk_name = label_for ''SCRIPT_B_TOP_INVALIDATION_CONTINUATION'', pk_active = b,
            pk_conditions = common @ [((utf8 [29366, 24577, 26426, 30830, 35748, 39030, 32467, 26500, 22833, 25928, 21518,
                30340, 36235, 21183, 24310, 32493]), b)]\<rparr>])"

record workbench_state =
  wb_symbol :: string
  wb_name :: string
  wb_market :: js
  wb_market_checks :: "market_diagnostic list"
  wb_trend :: js
  wb_trading_state :: js
  wb_next_wait :: string
  wb_cooldown_until :: "int option"
  wb_data :: "bool \<times> string"
  wb_position :: js
  wb_pending_signal :: js
  wb_playbooks :: "playbook list"

definition state_payload :: "(string \<Rightarrow> string) \<Rightarrow> string list \<Rightarrow> string \<Rightarrow> 'z
    store_scheme \<Rightarrow> exn + workbench_state" where
  "state_payload fr market_symbols symbol0 db =
     (let symbol = py_upper symbol0
      in case require_symbol symbol db of
           Inl e \<Rightarrow> Inl e
         | Inr item \<Rightarrow>
             (let market = latest_market db; trend = latest_trend symbol db; ts = state_of symbol db;
                  p = open_position_of symbol db; pending = pending_signal symbol db;
                  (data_ok, data_reason) = symbol_data_status symbol db
              in Inr
                \<lparr>wb_symbol = symbol, wb_name = wl_name item,
                 wb_market = (case market of None \<Rightarrow> named_state fr [] []
                    | Some m \<Rightarrow> named_state fr (market_text (ms_state m)) (ms_reason m)),
                 wb_market_checks = map (\<lambda>c. c\<lparr>md_reason := fr (md_reason c)\<rparr>) (market_diagnostics
                     market_symbols db),
                 wb_trend = named_state fr (shown_trend trend) (case trend of None \<Rightarrow> [] | Some t \<Rightarrow>
                     st_reason t),
                 wb_trading_state = named_state fr (shown_phase ts)
                    (case ts of None \<Rightarrow> (utf8 [31561, 24453, 29366, 24577, 26426, 21021, 22987, 21270]) | Some t
                        \<Rightarrow> ts_last_reason t),
                 wb_next_wait = fr (case ts of None \<Rightarrow> (utf8 [31561, 24453, 29366, 24577, 26426, 21021, 22987,
                     21270]) | Some t \<Rightarrow> ts_next_wait t),
                 wb_cooldown_until = cooldown_date ts, wb_data = (data_ok, fr data_reason),
                 wb_position = workbench_position_payload p, wb_pending_signal = js_opt (signal_payload fr) pending,
                 wb_playbooks = playbook_status market trend ts pending p data_ok\<rparr>))"

definition events_payload :: "(string \<Rightarrow> string) \<Rightarrow> string \<Rightarrow> 'z store_scheme \<Rightarrow> exn
    + string \<times> js list" where
  "events_payload fr symbol0 db =
     (let symbol = py_upper symbol0
      in case require_symbol symbol db of
           Inl e \<Rightarrow> Inl e
         | Inr _ \<Rightarrow> Inr (symbol, map (workbench_event_payload fr)
             (take 100 (order_desc ev_ts (filter (\<lambda>e. ev_symbol e = symbol) (structure_events db))))))"

definition signals_payload :: "(string \<Rightarrow> string) \<Rightarrow> string \<Rightarrow> 'z store_scheme \<Rightarrow>
    exn + string \<times> js list" where
  "signals_payload fr symbol0 db =
     (let symbol = py_upper symbol0
      in case require_symbol symbol db of
           Inl e \<Rightarrow> Inl e
         | Inr _ \<Rightarrow> Inr (symbol, map (signal_payload fr)
             (take 100 (order_desc sg_created_at (filter (\<lambda>s. sg_symbol s = symbol) (trade_signals db))))))"

record frame_summary =
  fs_available :: bool
  fs_data_ok :: bool
  fs_bar_count :: nat
  fs_event_count :: nat
  fs_signal_count :: nat

definition debug_payload ::
  "(string \<Rightarrow> string) \<Rightarrow> string list \<Rightarrow> string \<Rightarrow> 'z store_scheme \<Rightarrow> exn
      + workbench_state \<times> (timeframe \<times> frame_summary) list" where
  "debug_payload fr market_symbols symbol db =
     (case state_payload fr market_symbols symbol db of
        Inl e \<Rightarrow> Inl e
      | Inr s \<Rightarrow> Inr (s, map (\<lambda>f. (cf_timeframe f,
           \<lparr>fs_available = cf_available f, fs_data_ok = cf_data_ok f, fs_bar_count = length (cf_bars f),
            fs_event_count = length (cf_events f), fs_signal_count = length (cf_signals f)\<rparr>))
          (snd (frames_payload symbol 120 db))))"

section \<open>Lemmas\<close>

lemma take_order_desc_newest:
  assumes "x \<in> set (take n (order_desc f xs))" and "y \<in> set xs" and "y \<notin> set (take n (order_desc f xs))"
  shows "f y \<le> f x"
proof -
  let ?ys = "order_desc f xs"
  have "sorted (map (\<lambda>x. - f x) (take n ?ys @ drop n ?ys))"
    unfolding append_take_drop_id order_desc_def by (rule sorted_sort_key)
  moreover have "y \<in> set (drop n ?ys)"
    using assms(2,3) by (metis Un_iff append_take_drop_id set_append set_order_desc)
  ultimately have "- f x \<le> - f y" using assms(1) by (simp only: map_append sorted_append) simp
  then show ?thesis by simp
qed

lemma rev_order_desc_sorted: "sorted (map f (rev (take n (order_desc f xs))))"
proof -
  have "sorted (map (\<lambda>x. - f x) (order_desc f xs))" unfolding order_desc_def by (rule sorted_sort_key)
  then have "sorted (take n (map (\<lambda>x. - f x) (order_desc f xs)))" by (rule sorted_wrt_take)
  then have "sorted_wrt (\<lambda>a b. f b \<le> f a) (take n (order_desc f xs))"
    by (simp add: take_map sorted_map)
  then show ?thesis by (simp add: sorted_map sorted_wrt_rev)
qed

section \<open>Properties\<close>

text \<open>A chart shows the newest bars of the symbol and timeframe, oldest first, at most as many as asked for; no
  bar left out is newer than one that is shown, and every structure and signal drawn lies between the first
  and the last bar shown.\<close>

theorem frame_shows_newest_bars:
  fixes symbol limit and db :: "'z store_scheme" and tf
  defines "bars \<equiv> map fst (cf_bars (frame_of symbol limit db tf))"
  shows "length bars \<le> limit \<and> sorted (map kl_ts bars)
    \<and> (\<forall>b \<in> set bars. \<forall>k \<in> set (klines db). kl_symbol k = symbol \<and> kl_timeframe k = tf \<and>
        k \<notin> set bars \<longrightarrow> kl_ts k \<le> kl_ts b)
    \<and> (\<forall>e \<in> set (cf_events (frame_of symbol limit db tf)). kl_ts (hd bars) \<le> ev_ts e \<and> ev_ts e \<le>
        kl_ts (last bars))
    \<and> (\<forall>m \<in> set (cf_signals (frame_of symbol limit db tf)). kl_ts (hd bars) \<le> sm_ts m \<and> sm_ts m \<le>
        kl_ts (last bars))"
proof (intro conjI)
  have bars: "bars = frame_bars symbol tf limit db"
    by (simp add: bars_def frame_of_def Let_def comp_def)
  show "length bars \<le> limit" by (simp add: bars frame_bars_def)
  show "sorted (map kl_ts bars)" unfolding bars frame_bars_def by (rule rev_order_desc_sorted)
  show "\<forall>b \<in> set bars. \<forall>k \<in> set (klines db). kl_symbol k = symbol \<and> kl_timeframe k = tf \<and> k
      \<notin> set bars \<longrightarrow> kl_ts k \<le> kl_ts b"
    unfolding bars frame_bars_def set_rev
  proof (intro ballI impI)
    fix b k
    let ?rows = "filter (\<lambda>k. kl_symbol k = symbol \<and> kl_timeframe k = tf) (klines db)"
    assume "b \<in> set (take limit (order_desc kl_ts ?rows))" "k \<in> set (klines db)"
      "kl_symbol k = symbol \<and> kl_timeframe k = tf \<and> k \<notin> set (take limit (order_desc kl_ts ?rows))"
    then show "kl_ts k \<le> kl_ts b"
      by (intro take_order_desc_newest [where f = kl_ts and n = limit and xs = ?rows]) auto
  qed
  show "\<forall>e \<in> set (cf_events (frame_of symbol limit db tf)). kl_ts (hd bars) \<le> ev_ts e \<and> ev_ts e \<le> kl_ts
      (last bars)"
    unfolding bars frame_of_def
    by (cases "frame_bars symbol tf limit db") (auto simp: Let_def dest!: in_set_takeD)
  show "\<forall>m \<in> set (cf_signals (frame_of symbol limit db tf)). kl_ts (hd bars) \<le> sm_ts m \<and> sm_ts m \<le>
      kl_ts (last bars)"
    unfolding bars frame_of_def
    by (cases "frame_bars symbol tf limit db")
      (auto simp: Let_def signal_markers_def marker_of_def split: prod.splits)
qed

definition shown_bar :: "int \<Rightarrow> kline" where
  "shown_bar t = \<lparr>kl_symbol = ''US.AAPL'', kl_timeframe = DAILY, kl_ts = t, kl_open = 1, kl_high = 1, kl_low = 1,
      kl_close = 1,
     kl_volume = 1, kl_turnover = 1, kl_data_ok = True, kl_anomaly_reason = []\<rparr>"

theorem frame_shows_newest_bars_witness:
  "let db = empty_store\<lparr>klines := map shown_bar [3, 1, 2]\<rparr>; f = frame_of ''US.AAPL'' 2 db DAILY
   in length (map fst (cf_bars f)) \<le> 2 \<and> sorted (map kl_ts (map fst (cf_bars f)))"
  using frame_shows_newest_bars [of "''US.AAPL''" 2 "empty_store\<lparr>klines := map shown_bar [3, 1, 2]\<rparr>" DAILY]
  unfolding Let_def by blast

end
