(* ===== verification/Commands.thy ===== *)
theory Commands
  imports Sim_Loop Backtest Pipeline Task_Runner Risk_Control Database
begin

text \<open>
  How the program's runs are started: the command line (app/cli.py) and the task routes of the web
  application (app/main.py: run_task and _run_background_task). A command runs under the pipeline lock of
  the machine and is skipped when another process holds it; a background task runs under the same lock on
  the worker thread of the task runner. Every command first creates and migrates the tables (init_db, theory
  Database), before it asks for the lock; the web application does so once, when it starts.
\<close>

section \<open>What a run needs and how it ends\<close>

text \<open>
  The sources, brokers and clock of the run, the arguments of the pipeline, the settings of the environment
  and the risk settings stored by the page, the process with its way to open lock files, and the id a
  backtest writes its rows under, and whether the database is an SQLite one. The sources and brokers of a
  pass depend on whether the test source is used.
\<close>

record command_env =
  ce_first_source :: provider
  ce_second_source :: provider
  ce_args :: run_args
  ce_pass :: "bool \<Rightarrow> pass_env"
  ce_account :: "broker option"
  ce_settings :: settings
  ce_risk_text :: risk_text
  ce_process :: nat
  ce_can_open :: "string \<Rightarrow> bool"
  ce_backtest_id :: string
  ce_sqlite :: bool

datatype 'z payload =
    Status_Ok | Screened screening | Updated update_summary | Computed int | Scanned scan_counts | Ranked rank_counts
  | Generated "nat \<times> nat" | Alerted alert_run | Ran run_result | Refreshed market_refresh | Piped pipeline_result
  | Passed "'z pass_result" | Replayed backtest_result | Account account_connection | Skipped string

text \<open>A run that raised may have committed part of its work; \<open>None\<close> leaves open which.\<close>

datatype 'z command_end = Finished "'z payload" 'z | Raised exn "'z option"

definition ended :: "('a \<Rightarrow> 'z payload) \<Rightarrow> (exn + 'a) \<times> 'z \<Rightarrow> 'z command_end" where
  "ended f r = (case r of (Inl e, db) \<Rightarrow> Raised e (Some db) | (Inr x, db) \<Rightarrow> Finished (f x) db)"

definition args_for :: "bool \<Rightarrow> command_env \<Rightarrow> run_args" where
  "args_for mock env = (ce_args env)\<lparr>ra_use_mock := mock\<rparr>"

definition backtest_end :: "command_env \<Rightarrow> 'z results_store_scheme \<Rightarrow> 'z results_store_scheme command_end"
    where
  "backtest_end env db =
     (let a = ce_args env
      in case run_backtest (ra_market_symbols a) None None None (ce_backtest_id env) (ra_today a) (ra_now a) db of
           Inl e \<Rightarrow> Raised e None
         | Inr (r, db') \<Rightarrow> Finished (Replayed r) db')"

definition pass_end :: "command_env \<Rightarrow> bool \<Rightarrow> settings \<Rightarrow> 'z results_store_scheme
    \<Rightarrow> 'z results_store_scheme command_end" where
  "pass_end env mock st db =
     (case run_sim_loop (ce_pass env mock) st db of
        Inl e \<Rightarrow> Raised e None
      | Inr r \<Rightarrow> Finished (Passed r) (pr_db r))"

definition update_end :: "provider \<Rightarrow> run_args \<Rightarrow> 'z store_scheme \<Rightarrow> 'z store_scheme
    command_end" where
  "update_end source a db = (case run_update_market_data source [] a db of (r, db', _) \<Rightarrow> ended Updated (r, db'))"

definition compute_end :: "run_args \<Rightarrow> 'z store_scheme \<Rightarrow> 'z store_scheme command_end" where
  "compute_end a db = (case run_compute_indicators CORE_TIMEFRAMES a db of (n, db') \<Rightarrow> Finished (Computed n) db')"

section \<open>The lock around a run\<close>

definition with_pipeline_lock ::
  "command_env \<Rightarrow> (unit \<Rightarrow> 'z command_end) \<Rightarrow> lock_files \<Rightarrow> (exn + 'z command_end)
      \<times> lock_files" where
  "with_pipeline_lock env body fs =
     (case enter_pipeline (ce_process env) (ce_can_open env) fs of
        (Inl e, fs1) \<Rightarrow> (Inl e, fs1)
      | (Inr f, fs1) \<Rightarrow> (Inr (body ()), leave_pipeline (ce_process env) f fs1))"

section \<open>The command line\<close>

definition COMMANDS :: "string list" where
  "COMMANDS =
     [''init-db'', ''screen-market'', ''update-core-kline'', ''compute-indicators'', ''scan-structures'',
      ''rank-battle-pool'', ''generate-trade-plans'', ''set-price-alerts'', ''run-daily'', ''run-market-refresh'',
      ''run-60m'', ''run-pipeline'', ''run-backtest'', ''monitor-60m'', ''validate-trade-plans'',
      ''execute-sim-orders'', ''sync-sim-orders'', ''manage-positions'', ''run-sim-loop'', ''check-sim-account'']"

text \<open>What a command runs under the lock; the settings are the ones the risk page left.\<close>

definition locked_command ::
  "command_env \<Rightarrow> string \<Rightarrow> bool \<Rightarrow> 'z results_store_scheme \<Rightarrow> 'z
      results_store_scheme command_end" where
  "locked_command env cmd mock db =
     (let a = args_for mock env; now = ra_now a; source = ce_first_source env;
          st = effective_risk_settings (ce_risk_text env) (ce_settings env)
      in if cmd = ''init-db'' then Finished Status_Ok db
         else if cmd = ''screen-market'' then ended Screened (run_screen_market source a db)
         else if cmd = ''update-core-kline'' then update_end source a db
         else if cmd = ''compute-indicators'' then compute_end a db
         else if cmd = ''scan-structures'' then ended Scanned (run_scan_structures a db)
         else if cmd = ''rank-battle-pool''
         then (case rank_battle_pool now db of (r, db') \<Rightarrow> Finished (Ranked r) db')
         else if cmd = ''generate-trade-plans''
         then (case generate_trade_plans now db of (r, db') \<Rightarrow> Finished (Generated r) db')
         else if cmd = ''set-price-alerts'' then ended Alerted (run_set_price_alerts source a db)
         else if cmd = ''run-daily'' then ended Ran (run_daily source (ce_second_source env) a db)
         else if cmd = ''run-market-refresh'' then ended Refreshed (run_market_refresh source a db)
         else if cmd = ''run-60m'' \<or> cmd = ''monitor-60m'' then ended Ran (run_60m source a db)
         else if cmd \<in> {''validate-trade-plans'', ''execute-sim-orders'', ''sync-sim-orders'', ''manage-positions'',
             ''run-sim-loop''}
         then pass_end env mock st db
         else if cmd = ''run-pipeline'' then ended Piped (run_pipeline a db)
         else backtest_end env db)"

text \<open>
  The parser lets only the commands through. The tables are brought up to date first, whatever the command
  and whoever holds the lock; the world of a command is the schema, the rows and the lock files. The check of
  the account takes neither the lock nor the page's risk settings. A busy lock is an answer, every other
  exception leaves the program.
\<close>

definition cli_main ::
  "command_env \<Rightarrow> string \<Rightarrow> bool \<Rightarrow> schema \<times> 'z results_store_scheme \<times> lock_files \<Rightarrow>
      'z results_store_scheme command_end \<times> schema \<times> lock_files" where
  "cli_main env cmd mock world =
     (let (sc, db, fs) = world
      in case init_db (ce_sqlite env) sc of
           (Inl e, sc') \<Rightarrow> (Raised e (Some db), sc', fs)
         | (Inr _, sc') \<Rightarrow>
             if cmd = ''check-sim-account''
             then (case check_sim_account_connection (ce_account env) (ce_settings env) (ra_now (ce_args env)) db of
                     Inl e \<Rightarrow> (Raised e (Some db), sc', fs)
                   | Inr (db', r) \<Rightarrow> (Finished (Account r) db', sc', fs))
             else (case with_pipeline_lock env (\<lambda>_. locked_command env cmd mock db) fs of
                     (Inr end, fs') \<Rightarrow> (end, sc', fs')
                   | (Inl e, fs') \<Rightarrow>
                       ((if e = RuntimeError zh_pipeline_busy then Finished (Skipped (exn_str e)) db else Raised e (Some db)),
                        sc', fs')))"

text \<open>The status the process ends with: only the check of the account reports its result in it.\<close>

definition exit_code :: "'z command_end \<Rightarrow> int" where
  "exit_code r =
     (case r of
        Finished (Account c) _ \<Rightarrow> (if ac_ok c then 0 else 1)
      | Finished _ _ \<Rightarrow> 0
      | Raised _ _ \<Rightarrow> 1)"

section \<open>The task routes\<close>

definition BACKGROUND_TASKS :: "string list" where
  "BACKGROUND_TASKS = [''screen-market'', ''update-market-data'', ''run-daily'', ''run-60m'', ''set-price-alerts'',
      ''run-backtest'']"

text \<open>The reports of progress only change what the task shows; they are in the theory Task_Runner.\<close>

definition background_body ::
  "command_env \<Rightarrow> string \<Rightarrow> bool \<Rightarrow> 'z results_store_scheme \<Rightarrow> 'z
      results_store_scheme command_end" where
  "background_body env task mock db =
     (let a = args_for mock env; source = ce_first_source env
      in if task = ''screen-market'' then ended Screened (run_screen_market source a db)
         else if task = ''update-market-data'' then update_end source a db
         else if task = ''run-daily'' then ended Ran (run_daily source (ce_second_source env) a db)
         else if task = ''run-60m'' then ended Ran (run_60m source a db)
         else if task = ''set-price-alerts'' then ended Alerted (run_set_price_alerts source a db)
         else if task = ''run-backtest'' then backtest_end env db
         else Raised (ValueError (utf8 [19981, 25903, 25345, 30340, 21518, 21488, 20219, 21153])) (Some db))"

text \<open>On the worker thread an exception, that of a busy lock too, ends the task as failed.\<close>

definition run_background_task ::
  "command_env \<Rightarrow> string \<Rightarrow> bool \<Rightarrow> 'z results_store_scheme \<times> lock_files \<Rightarrow>
      'z results_store_scheme command_end \<times> lock_files" where
  "run_background_task env task mock world =
     (let (db, fs) = world
      in case with_pipeline_lock env (\<lambda>_. background_body env task mock db) fs of
           (Inr end, fs') \<Rightarrow> (end, fs')
         | (Inl e, fs') \<Rightarrow> (Raised e (Some db), fs'))"

datatype 'z task_response = Accepted string | Conflict string | Direct "'z command_end" | Unknown_Task

text \<open>The route: the listed tasks go to the task runner, three others run in the request itself.\<close>

definition run_task ::
  "command_env \<Rightarrow> string \<Rightarrow> string \<Rightarrow> 'r runner \<Rightarrow> 'z results_store_scheme
      \<Rightarrow> 'z results_store_scheme task_response \<times> 'r runner" where
  "run_task env task new_id rn db =
     (if task \<in> set BACKGROUND_TASKS
      then (case start_task new_id task (ra_now (ce_args env)) rn of
              Inl e \<Rightarrow> (Conflict (exn_str e), rn)
            | Inr rn' \<Rightarrow> (Accepted new_id, rn'))
      else if task = ''compute-indicators'' then (Direct (compute_end (ce_args env) db), rn)
      else if task = ''scan-structures'' then (Direct (ended Scanned (run_scan_structures (ce_args env) db)), rn)
      else if task = ''run-pipeline'' then (Direct (ended Piped (run_pipeline (ce_args env) db)), rn)
      else (Unknown_Task, rn))"

section \<open>Lemmas\<close>

text \<open>The lock file of the process is held by someone.\<close>

definition lock_taken :: "command_env \<Rightarrow> lock_files \<Rightarrow> bool" where
  "lock_taken env fs =
     (case scalar (filter (ce_can_open env) LOCK_PATHS) of
        None \<Rightarrow> False
      | Some path \<Rightarrow> (case map_of (lf_files fs) path of None \<Rightarrow> False | Some f \<Rightarrow> f \<in> fst `
          set (lf_held fs)))"

lemma lock_busy:
  assumes "lock_taken env fs"
  shows "with_pipeline_lock env body fs = (Inl (RuntimeError zh_pipeline_busy), fs)"
proof -
  from assms obtain path f where f: "scalar (filter (ce_can_open env) LOCK_PATHS) = Some path"
    "map_of (lf_files fs) path = Some f" "f \<in> fst ` set (lf_held fs)"
    unfolding lock_taken_def by (auto split: option.splits simp del: image_iff)
  then have "enter_pipeline (ce_process env) (ce_can_open env) fs = (Inl (RuntimeError zh_pipeline_busy), fs)"
    by (simp only: enter_pipeline_def open_lock_def option.case Let_def prod.case if_True)
  then show ?thesis by (simp add: with_pipeline_lock_def)
qed

lemma lock_returned:
  assumes "with_pipeline_lock env body fs = (r, fs')"
  shows "lf_held fs' = lf_held fs"
proof -
  have "filter (\<lambda>h. h \<noteq> (f, p)) hs = hs" if "f \<notin> fst ` set hs" for f p and hs :: "(nat \<times> nat) list"
    using that by (auto simp: filter_id_conv image_iff)
  with assms show ?thesis
    by (auto simp: with_pipeline_lock_def enter_pipeline_def leave_pipeline_def open_lock_def split: option.splits if_splits)
qed

section \<open>Properties\<close>


definition busy_machine :: lock_files where
  "busy_machine = \<lparr>lf_files = [(''/run/headachetrade/pipeline.lock'', 0)], lf_next = 1, lf_held = [(0, 7)]\<rparr>"

definition sample_env :: command_env where
  "sample_env = \<lparr>ce_first_source = offline, ce_second_source = offline, ce_args = sample_args,
     ce_pass = (\<lambda>_. quiet_pass funded_broker (\<lambda>_. Inr [])), ce_account = None, ce_settings = default_settings,
     ce_risk_text = None, ce_process = 8, ce_can_open = (\<lambda>_. True), ce_backtest_id = ''b'', ce_sqlite = True\<rparr>"

definition no_schema :: schema where
  "no_schema = \<lparr>sc_tables = \<lambda>_. None, sc_indexes = \<lambda>_. None\<rparr>"


text \<open>
  The three tasks that the route runs in the request take no lock and do not ask the task runner: they run
  beside a background task or a command that holds the lock.
\<close>

lemma direct_tasks_run_without_lock:
  "run_task env ''run-pipeline'' i rn db = (Direct (ended Piped (run_pipeline (ce_args env) db)), rn)"
  "run_task env ''scan-structures'' i rn db = (Direct (ended Scanned (run_scan_structures (ce_args env) db)), rn)"
  "run_task env ''compute-indicators'' i rn db = (Direct (compute_end (ce_args env) db), rn)"
  by (simp_all add: run_task_def BACKGROUND_TASKS_def)

end
