(* ===== verification/Web.thy ===== *)
theory Web
  imports View_Models Workbench Commands Freshness Auth Database
begin

text \<open>
  The routes of the web application (app/main.py) that read the database and answer: the terminal's
  endpoints, the pages with the rows they show, the workbench's endpoints, and the two decisions on a
  signal. A page is the context its template is rendered with; the templates are not modelled. Signing in
  is in the theory Auth, starting tasks in the theory Commands.

  Creation times of rows without such a column come as in the theory Terminal; where a page orders log rows
  by their creation, that is the order of insertion.
\<close>

text \<open>An answer, an error with its status, a redirect, or an exception the framework answers with status 500.\<close>

datatype 'd http = Answer 'd | Http_Error int string | See_Other string | Server_Error exn

definition status_of :: "'d http \<Rightarrow> int" where
  "status_of r = (case r of Answer _ \<Rightarrow> 200 | Http_Error c _ \<Rightarrow> c | See_Other _ \<Rightarrow> 303 |
      Server_Error _ \<Rightarrow> 500)"

text \<open>What a request reads beside the database: the clock, the settings and the columns and texts kept elsewhere.\<close>

record web_env =
  we_clock :: clock
  we_settings :: settings
  we_risk_text :: risk_text
  we_payloads :: audit_payloads
  we_extras :: row_extras
  we_zone :: zone
  we_stamps :: stamps
  we_market_symbols :: "string list"
  we_summary_ttl :: int
  we_monotonic :: real
  we_format_reason :: "string \<Rightarrow> string"

definition we_now :: "web_env \<Rightarrow> int" where
  "we_now env = cl_utc (we_clock env)"

text \<open>\<open>max(..., default=None)\<close> over texts.\<close>

definition max_text :: "string list \<Rightarrow> string option" where
  "max_text xs = (case xs of [] \<Rightarrow> None | y # ys \<Rightarrow> Some (fold max ys y))"

definition db_envelope :: "web_env \<Rightarrow> 'd \<Rightarrow> string option \<Rightarrow> 'd envelope" where
  "db_envelope env d synced_at = response_envelope d ''HEADACHE_TRADE_DB'' synced_at (we_now env)"

definition futu_envelope :: "web_env \<Rightarrow> 'd \<Rightarrow> string option \<Rightarrow> 'd envelope" where
  "futu_envelope env d synced_at = response_envelope d ''FUTU_SIM_ACCOUNT'' synced_at (we_now env)"

section \<open>The terminal's endpoints\<close>

definition terminal_summary_api ::
  "web_env \<Rightarrow> 'z ledger_scheme \<Rightarrow> terminal_summary summary_cache \<Rightarrow> terminal_summary envelope
      http \<times> terminal_summary summary_cache" where
  "terminal_summary_api env db cache =
     (case cached_terminal_summary (we_summary_ttl env) (we_monotonic env)
             (terminal_summary_of (we_risk_text env) (we_settings env) (we_now env) db) cache of
        (Inl e, cache') \<Rightarrow> (Server_Error e, cache')
      | (Inr s, cache') \<Rightarrow>
          (Answer (response_envelope s (tm_equity_source s) (map_option iso_utc (tm_equity_synced_at s)) (we_now env)), cache'))"

definition trade_plans_api :: "web_env \<Rightarrow> plan_filter \<Rightarrow> 'z ledger_scheme \<Rightarrow> js list envelope
    http" where
  "trade_plans_api env f db =
     Answer (db_envelope env (trade_plan_list (we_payloads env) (we_clock env) (we_settings env) f db)
       (max_text (map (\<lambda>p. iso_utc (pl_updated_at p)) (listed_plans f db))))"

text \<open>
  The prices are read live; a source that raises is answered with 503. \<open>db_error\<close> is the text of an
  OperationalError of the database on the way, which rolls everything back: a locked database is answered with a
  warning and no prices.
\<close>

datatype price_answer = Live_Prices plan_prices | Price_Warning string

definition trade_plan_prices_api ::
  "web_env \<Rightarrow> quotes \<Rightarrow> string option \<Rightarrow> 'z ledger_scheme \<Rightarrow> price_answer http
      \<times> 'z ledger_scheme" where
  "trade_plan_prices_api env provider db_error db =
     (case refresh_trade_plan_prices provider (we_now env) db of
        Inl e \<Rightarrow> (Http_Error 503 ((utf8 [79, 112, 101, 110, 68, 32, 23454, 26102, 34892, 24773, 26242, 19981, 21487,
            29992, 65306]) @ exn_str e), db)
      | Inr (r, db') \<Rightarrow>
          (case db_error of
             None \<Rightarrow> (Answer (Live_Prices r), db')
           | Some m \<Rightarrow>
               (if py_contains ''database is locked'' (py_lower m)
                then Answer (Price_Warning (utf8 [25968, 25454, 24211, 27491, 22312, 22788, 29702, 21518, 21488, 20219, 21153,
                    65292, 26412, 27425, 23454, 26102, 20215, 26242, 26410, 20889, 20837, 65292, 39029, 38754, 23558, 20445,
                    30041, 26368, 21518, 19968, 27425, 26377, 25928, 20215, 26684, 12290]))
                else Server_Error (OtherError m), db)))"

definition trade_plan_detail_api :: "web_env \<Rightarrow> int \<Rightarrow> 'z store_scheme \<Rightarrow> js envelope http" where
  "trade_plan_detail_api env i db =
     (case get_row pl_id i (plans db) of
        None \<Rightarrow> Http_Error 404 (utf8 [20132, 26131, 35745, 21010, 19981, 23384, 22312])
      | Some plan \<Rightarrow>
          Answer (db_envelope env (trade_plan_detail (we_payloads env) (we_extras env) (we_clock env) plan (we_settings env) db)
            (Some (iso_utc (pl_updated_at plan)))))"

definition listed_positions :: "string \<Rightarrow> int \<Rightarrow> 'z ledger_scheme \<Rightarrow> position list" where
  "listed_positions symbol limit db =
     take (bounded limit 500) (order_desc pos_updated_at (filter (\<lambda>p. symbol \<noteq> [] \<longrightarrow> pos_symbol p
         = py_upper symbol) (positions db)))"

definition positions_api :: "web_env \<Rightarrow> string \<Rightarrow> int \<Rightarrow> 'z ledger_scheme \<Rightarrow> js list
    envelope http" where
  "positions_api env symbol limit db =
     Answer (futu_envelope env (positions_payload (we_extras env) symbol limit db)
       (max_text (map (\<lambda>p. iso_utc (pos_updated_at p)) (listed_positions symbol limit db))))"

definition futu_positions_api :: "web_env \<Rightarrow> 'z ledger_scheme \<Rightarrow> position_snapshot list envelope http" where
  "futu_positions_api env db =
     Answer (futu_envelope env (futu_position_snapshot db) (map_option iso_utc (ps_updated_at (portfolio_sync_status db))))"

definition listed_orders :: "string \<Rightarrow> int \<Rightarrow> 'z ledger_scheme \<Rightarrow> sim_order list" where
  "listed_orders symbol limit db =
     take (bounded limit 500) (order_desc so_submitted_at (filter (\<lambda>r. symbol \<noteq> [] \<longrightarrow> so_symbol r
         = py_upper symbol) (orders db)))"

definition sim_orders_api :: "web_env \<Rightarrow> string \<Rightarrow> int \<Rightarrow> 'z ledger_scheme \<Rightarrow> js
    list envelope http" where
  "sim_orders_api env symbol limit db =
     Answer (futu_envelope env (orders_payload (we_extras env) symbol limit db)
       (max_text (map (\<lambda>r. iso_utc (so_submitted_at r)) (listed_orders symbol limit db))))"

text \<open>A ValueError of the payload is answered with 422.\<close>

definition or_422 :: "(exn + 'a) \<Rightarrow> ('a \<Rightarrow> 'd) \<Rightarrow> 'd http" where
  "or_422 r f =
     (case r of
        Inr x \<Rightarrow> Answer (f x)
      | Inl e \<Rightarrow> (case e of ValueError m \<Rightarrow> Http_Error 422 m | _ \<Rightarrow> Server_Error e))"

definition timeline_api :: "web_env \<Rightarrow> string \<Rightarrow> int \<Rightarrow> 'z store_scheme \<Rightarrow>
    terminal_event list envelope http" where
  "timeline_api env symbol limit db =
     or_422 (timeline_payload (we_extras env) symbol limit db) (\<lambda>es. db_envelope env es (max_text (map te_time es)))"

definition journal_summary_api :: "web_env \<Rightarrow> 'z ledger_scheme \<Rightarrow> journal_totals envelope http" where
  "journal_summary_api env db =
     (let j = journal_summary_payload db
      in Answer (db_envelope env j (if jt_curve j = [] then None else Some (iso_utc (cp_time (last (jt_curve j)))))))"

definition daily_stats_api :: "web_env \<Rightarrow> 'z ledger_scheme \<Rightarrow> ((string \<times> nat) list \<times>
    missed_opportunity list) envelope http" where
  "daily_stats_api env db =
     (let d = daily_stats_payload db
      in Answer (db_envelope env d (max_text (map (\<lambda>m. iso_utc (pl_updated_at (mo_plan m))) (snd d)))))"

definition first_valid_trade_api :: "web_env \<Rightarrow> 'z ledger_scheme \<Rightarrow> (int \<times> position) list envelope
    http" where
  "first_valid_trade_api env db =
     (let d = first_valid_trade_payload (we_extras env) db
      in Answer (db_envelope env d (case d of [] \<Rightarrow> None | x # _ \<Rightarrow> Some (iso_utc (re_position_created
          (we_extras env) (snd x))))))"

text \<open>Beside the bars the answer carries symbol, timeframe and the number of bars left out.\<close>

definition kline_api :: "web_env \<Rightarrow> string \<Rightarrow> string \<Rightarrow> int \<Rightarrow> 'z store_scheme
    \<Rightarrow> (kline list envelope \<times> string \<times> string \<times> nat) http" where
  "kline_api env symbol tf limit db =
     or_422 (kline_payload symbol tf limit db)
       (\<lambda>k. (db_envelope env (bx_bars k) (map_option iso_utc (bx_latest_bar_at k)), bx_symbol k, bx_timeframe k,
           bx_anomaly_count k))"

definition trade_plan_overlays_api ::
  "web_env \<Rightarrow> string \<Rightarrow> int option \<Rightarrow> 'z ledger_scheme \<Rightarrow> (string \<times> int
      option \<times> (string \<times> string \<times> real) list) envelope http" where
  "trade_plan_overlays_api env symbol plan_id db = Answer (db_envelope env (trade_plan_overlay_payload symbol plan_id db) None)"

fun js_field :: "string \<Rightarrow> js \<Rightarrow> js" where
  "js_field k (JObj fs) = (case map_of fs k of None \<Rightarrow> JNull | Some v \<Rightarrow> v)"
| "js_field k _ = JNull"

definition js_str :: "js \<Rightarrow> string" where
  "js_str v = (case v of JStr s \<Rightarrow> s | _ \<Rightarrow> [])"

definition structures_api :: "web_env \<Rightarrow> string \<Rightarrow> string \<Rightarrow> int \<Rightarrow> 'z store_scheme
    \<Rightarrow> js list envelope http" where
  "structures_api env symbol tf limit db =
     or_422 (structures_payload symbol tf limit db)
       (\<lambda>es. db_envelope env es (max_text (map (\<lambda>e. js_str (js_field ''event_ts'' e)) es)))"

section \<open>The pages\<close>

definition section_freshness :: "web_env \<Rightarrow> string \<Rightarrow> 'z store_scheme \<Rightarrow> freshness option" where
  "section_freshness env name db = map_of (freshness_context (we_zone env) (we_stamps env) [name] (we_now env) db) name"

definition CANDIDATE_POOLS :: "string list" where
  "CANDIDATE_POOLS = [''LOW_REBOUND'', ''TREND_UP'', ''HIGH_RISK'', ''WEAK_DOWN'']"

definition candidate_pool_counts :: "'z store_scheme \<Rightarrow> (string \<times> nat) list" where
  "candidate_pool_counts db =
     map (\<lambda>pool. (pool, length (filter (\<lambda>c. cd_active c \<and> pool \<in> set (cd_pool_types c)) (candidates
         db)))) CANDIDATE_POOLS"

text \<open>The text search for a pool's code in the stored list is the membership of the code.\<close>

definition candidates_page ::
  "web_env \<Rightarrow> string \<Rightarrow> int \<Rightarrow> 'z store_scheme \<Rightarrow> candidate_view list \<times>
      string \<times> (string \<times> nat) list \<times> freshness option" where
  "candidates_page env pool limit db =
     (candidate_view_models
        (take (bounded limit 500) (sort_key (\<lambda>c. (- cd_rank_score c, cd_symbol c))
           (filter (\<lambda>c. cd_active c \<and> (pool \<noteq> [] \<longrightarrow> pool \<in> set (cd_pool_types c)))
               (candidates db)))) db,
      pool, candidate_pool_counts db, section_freshness env ''candidates'' db)"

definition latest_daily_states :: "'z store_scheme \<Rightarrow> string \<Rightarrow> daily_state_row option" where
  "latest_daily_states db = latest_by_key ds_symbol (sort_key (\<lambda>d. (ds_symbol d, - ds_as_of d)) (daily_states db))"

definition structures_page ::
  "web_env \<Rightarrow> string \<Rightarrow> int \<Rightarrow> 'z store_scheme \<Rightarrow> structure_view list \<times>
      (string \<Rightarrow> daily_state_row option) \<times> string \<times> freshness option" where
  "structures_page env scope0 limit db =
     (let scope = (if scope0 \<in> {''active'', ''history''} then scope0 else ''active'');
          wanted = (\<lambda>e. ev_timeframe e = HOUR_60
            \<and> (scope = ''active'' \<longrightarrow> (\<exists>c \<in> set (candidates db). cd_symbol c = ev_symbol e \<and>
                cd_active c)))
      in (structure_view_models (take (bounded limit 500) (order_desc ev_ts (filter wanted (structure_events db)))) db,
          latest_daily_states db, scope, section_freshness env ''structures'' db))"

definition battle_pool_page :: "web_env \<Rightarrow> int \<Rightarrow> 'z store_scheme \<Rightarrow> battle_view list \<times>
    freshness option" where
  "battle_pool_page env limit db =
     (battle_view_models (take (bounded limit 500) (sort_key (\<lambda>b. (- bp_score b, bp_symbol b)) (filter bp_active
         (battle_items db)))) db,
      section_freshness env ''battle'' db)"

definition page_plans :: "string \<Rightarrow> int \<Rightarrow> 'z ledger_scheme \<Rightarrow> trade_plan list" where
  "page_plans status limit db =
     take (bounded limit 500) (sort_key (\<lambda>p. (priority_rank (pl_priority_level p), - pl_updated_at p))
       (filter (\<lambda>p. pl_status p \<noteq> PL_EXPIRED \<and> (status \<noteq> [] \<longrightarrow> plan_status_str
           (pl_status p) = py_upper status)) (plans db)))"

definition trade_plans_page ::
  "web_env \<Rightarrow> string \<Rightarrow> int \<Rightarrow> 'z store_scheme \<Rightarrow> trade_plan list \<times> (string
      \<times> trade_plan_view list) list \<times> freshness option" where
  "trade_plans_page env status limit db =
     (let pls = page_plans status limit db
      in (pls, trade_plan_groups (we_payloads env) (we_clock env) pls (we_settings env) db, section_freshness env ''plans'' db))"

definition sim_orders_page :: "web_env \<Rightarrow> 'z store_scheme \<Rightarrow> order_view list \<times> freshness option" where
  "sim_orders_page env db =
     (order_view_models (take 300 (order_desc so_submitted_at (orders db))) db, section_freshness env ''orders'' db)"

definition positions_page :: "web_env \<Rightarrow> 'z store_scheme \<Rightarrow> position_view list \<times> portfolio_sync
    \<times> freshness option" where
  "positions_page env db =
     (position_view_models (take 300 (order_desc pos_updated_at (positions db))) db, portfolio_sync_status db,
      section_freshness env ''positions'' db)"

definition journal_page :: "web_env \<Rightarrow> 'z store_scheme \<Rightarrow> journal_view list \<times> freshness option" where
  "journal_page env db = (journal_view_models (we_payloads env) (we_now env) 50 db, section_freshness env ''journal'' db)"

definition audit_logs_page :: "web_env \<Rightarrow> 'z store_scheme \<Rightarrow> audit_log list \<times> freshness option" where
  "audit_logs_page env db = (take 500 (order_desc al_created_at (audits db)), section_freshness env ''audit'' db)"

definition market_page :: "web_env \<Rightarrow> 'z store_scheme \<Rightarrow> market_state_row option \<times>
    market_diagnostic list \<times> freshness option" where
  "market_page env db =
     (latest_market db, market_diagnostics (we_market_symbols env) db, section_freshness env ''market'' db)"

record symbol_page =
  sy_item :: "candidate + watchlist_item"
  sy_klines :: "kline list"
  sy_indicators :: "indicator list"
  sy_structures :: "structure_event list"
  sy_logs :: "transition_log list"
  sy_state :: "trading_state option"
  sy_daily_state :: "daily_state_row option"
  sy_plan :: "trade_plan option"
  sy_position :: "position option"
  sy_signals :: "trade_signal list"

definition symbol_detail :: "string \<Rightarrow> 'z store_scheme \<Rightarrow> symbol_page http" where
  "symbol_detail symbol0 db =
     (let s = py_upper symbol0;
          item = (case scalar (filter (\<lambda>c. cd_symbol c = s) (candidates db)) of
             Some c \<Rightarrow> Some (Inl c)
           | None \<Rightarrow> map_option Inr (scalar (filter (\<lambda>w. wl_symbol w = s) (watchlist db))))
      in case item of
           None \<Rightarrow> Http_Error 404 ''symbol not found''
         | Some it \<Rightarrow> Answer
             \<lparr>sy_item = it,
              sy_klines = take 80 (order_desc kl_ts (filter (\<lambda>k. kl_symbol k = s \<and> kl_timeframe k = DAILY) (klines
                  db))),
              sy_indicators = take 20 (order_desc in_ts (filter (\<lambda>i. in_symbol i = s \<and> in_timeframe i = DAILY)
                  (indicators db))),
              sy_structures = take 20 (order_desc ev_ts (filter (\<lambda>e. ev_symbol e = s) (structure_events db))),
              sy_logs = take 20 (rev (filter (\<lambda>l. tl_symbol l = s) (transition_logs db))),
              sy_state = state_of s db,
              sy_daily_state = scalar (order_desc ds_as_of (filter (\<lambda>d. ds_symbol d = s) (daily_states db))),
              sy_plan = scalar (order_desc pl_updated_at (filter (\<lambda>p. pl_symbol p = s \<and> pl_status p = PL_ACTIVE)
                  (plans db))),
              sy_position = open_position_of s db,
              sy_signals = take 20 (order_desc sg_created_at (filter (\<lambda>g. sg_symbol g = s) (trade_signals db)))\<rparr>)"

text \<open>Opening the page writes the row of the risk settings when there is none.\<close>

definition risk_page_route :: "web_env \<Rightarrow> 'z store_scheme \<Rightarrow> (risk_config \<times> risk_page) \<times> 'z
    store_scheme" where
  "risk_page_route env db =
     (let (c, db') = get_or_create_risk_config db
      in ((c, risk_page_context (we_risk_text env) (we_settings env) (we_now env) db'), db'))"

definition DASHBOARD_PLAN_STATUSES :: "plan_status list" where
  "DASHBOARD_PLAN_STATUSES =
     [PL_PLANNED, PL_ACTIVE, PL_ARMED, PL_WAIT_PULLBACK, PL_NO_CHASE, PL_TRIGGERED, PL_ORDER_SUBMITTED, PL_IN_POSITION,
      PL_WAITLIST, PL_MISSED_BY_CAPITAL]"

record dashboard =
  da_market :: "market_state_row option"
  da_market_checks :: "market_diagnostic list"
  da_candidates :: "candidate list"
  da_battle_items :: "battle_item list"
  da_plans :: "trade_plan list"
  da_signals :: "trade_signal list"
  da_positions :: "position list"
  da_reviews :: "review_stat list"
  da_approvals :: "approval_record list"
  da_candidate_count :: nat
  da_battle_count :: nat
  da_plan_count :: nat
  da_open_positions :: nat
  da_waitlist_count :: nat
  da_sim_enabled :: bool
  da_command :: command_center
  da_freshness :: "(string \<times> freshness) list"

definition dashboard_context :: "web_env \<Rightarrow> 'z results_store_scheme \<Rightarrow> dashboard" where
  "dashboard_context env db =
     (let st = effective_risk_settings (we_risk_text env) (we_settings env);
          live = filter (\<lambda>p. pl_status p \<in> set DASHBOARD_PLAN_STATUSES) (plans db);
          opens = order_desc (re_position_created (we_extras env)) (filter (\<lambda>p. pos_status p = POS_OPEN) (positions db))
      in \<lparr>da_market = latest_market db, da_market_checks = market_diagnostics (we_market_symbols env) db,
          da_candidates = take 12 (sort_key (\<lambda>c. - cd_rank_score c) (filter cd_active (candidates db))),
          da_battle_items = take 12 (sort_key (\<lambda>b. - bp_score b) (filter bp_active (battle_items db))),
          da_plans = take 6 (sort_key (\<lambda>p. (priority_rank (pl_priority_level p), - pl_updated_at p)) live),
          da_signals = take 30 (order_desc sg_created_at (filter (\<lambda>g. sg_status g = PENDING) (trade_signals db))),
          da_positions = opens, da_reviews = take 20 (rev (review_stats db)),
          da_approvals = take 20 (rev (approval_records db)),
          da_candidate_count = length (filter cd_active (candidates db)),
          da_battle_count = length (filter bp_active (battle_items db)), da_plan_count = length live,
          da_open_positions = length opens,
          da_waitlist_count = length (filter (\<lambda>p. pl_status p \<in> {PL_WAITLIST, PL_MISSED_BY_CAPITAL}) (plans db)),
          da_sim_enabled = enable_sim_trading st,
          da_command = command_center_payload (we_payloads env) (we_clock env) st db,
          da_freshness = freshness_context (we_zone env) (we_stamps env) [] (we_now env) db\<rparr>)"

section \<open>Changes\<close>

text \<open>The settings of a request; a setting out of range is answered with 422.\<close>

definition update_risk_config ::
  "web_env \<Rightarrow> risk_values \<Rightarrow> string \<Rightarrow> 'z ledger_scheme \<Rightarrow> risk_values http \<times>
      risk_text \<times> 'z ledger_scheme" where
  "update_risk_config env v why db =
     (case update_risk_settings v why (we_now env) (we_risk_text env, db) of
        (r, stored, db') \<Rightarrow> (or_422 r (\<lambda>x. x), stored, db'))"

text \<open>An exception of the decision is not mapped to a status.\<close>

definition decided :: "(exn + unit) \<times> 'z \<Rightarrow> string http \<times> 'z" where
  "decided r = (case r of (Inl e, db) \<Rightarrow> (Server_Error e, db) | (Inr _, db) \<Rightarrow> (Answer ''ok'', db))"

definition approve_route :: "web_env \<Rightarrow> int \<Rightarrow> 'z store_scheme \<Rightarrow> string http \<times> 'z
    store_scheme" where
  "approve_route env i db = decided (approve_signal i [] (date_of (we_now env)) (we_now env) db)"

definition reject_route :: "int \<Rightarrow> 'z store_scheme \<Rightarrow> string http \<times> 'z store_scheme" where
  "reject_route i db = decided (reject_signal i [] db)"

section \<open>The workbench\<close>

definition workbench_page :: "web_env \<Rightarrow> string \<Rightarrow> 'z store_scheme \<Rightarrow> (watchlist_item \<times>
    js list) http" where
  "workbench_page env symbol db =
     (case scalar (filter (\<lambda>w. wl_symbol w = py_upper symbol) (watchlist db)) of
        None \<Rightarrow> Http_Error 404 ''symbol not found''
      | Some w \<Rightarrow> Answer (w, workbench_watchlist (we_format_reason env) db))"

definition workbench_default :: "'z store_scheme \<Rightarrow> unit http" where
  "workbench_default db =
     (case scalar (sort_key id (map wl_symbol (filter wl_active (watchlist db)))) of
        None \<Rightarrow> See_Other ''/''
      | Some s \<Rightarrow> See_Other (''/workbench/'' @ s))"

text \<open>A LookupError is answered with 404; it is the only exception the payloads raise.\<close>

definition workbench_call :: "(exn + 'd) \<Rightarrow> 'd http" where
  "workbench_call r = (case r of Inr d \<Rightarrow> Answer d | Inl e \<Rightarrow> Http_Error 404 (exn_str e))"

definition api_workbench_frames :: "string \<Rightarrow> 'z store_scheme \<Rightarrow> (string \<times> chart_frame list) http"
    where
  "api_workbench_frames symbol db =
     (if filter (\<lambda>w. wl_symbol w = py_upper symbol) (watchlist db) = [] then Http_Error 404 ''symbol not found''
      else Answer (frames_payload symbol 120 db))"

definition api_workbench_state :: "web_env \<Rightarrow> string \<Rightarrow> 'z store_scheme \<Rightarrow> workbench_state
    http" where
  "api_workbench_state env symbol db =
     workbench_call (state_payload (we_format_reason env) (we_market_symbols env) symbol db)"

definition api_workbench_events :: "web_env \<Rightarrow> string \<Rightarrow> 'z store_scheme \<Rightarrow> (string \<times> js
    list) http" where
  "api_workbench_events env symbol db = workbench_call (events_payload (we_format_reason env) symbol db)"

definition api_workbench_signals :: "web_env \<Rightarrow> string \<Rightarrow> 'z store_scheme \<Rightarrow> (string \<times>
    js list) http" where
  "api_workbench_signals env symbol db = workbench_call (signals_payload (we_format_reason env) symbol db)"

definition api_workbench_debug ::
  "web_env \<Rightarrow> string \<Rightarrow> 'z store_scheme \<Rightarrow> (workbench_state \<times> (timeframe \<times>
      frame_summary) list) http" where
  "api_workbench_debug env symbol db =
     workbench_call (debug_payload (we_format_reason env) (we_market_symbols env) symbol db)"

section \<open>Tasks and signing in\<close>

text \<open>The task the runner shows, or none, which is answered as idle; a task with the percentage of its progress.\<close>

definition active_task_status :: "'r runner \<Rightarrow> ('r task \<times> real) option http" where
  "active_task_status rn = Answer (map_option (\<lambda>t. (t, progress_pct t)) (get_active_task rn))"

definition task_status_route :: "string \<Rightarrow> 'r runner \<Rightarrow> ('r task \<times> real) http" where
  "task_status_route i rn =
     (case task_of i rn of
        None \<Rightarrow> Http_Error 404 (utf8 [20219, 21153, 19981, 23384, 22312, 25110, 26381, 21153, 24050, 37325, 21551])
      | Some t \<Rightarrow> Answer (t, progress_pct t))"

text \<open>The two forms, each for its own state of the password; the other one is a redirect away.\<close>

definition setup_password_page :: "configs \<Rightarrow> unit http" where
  "setup_password_page cfg = (if password_is_configured cfg then See_Other ''/login'' else Answer ())"

definition login_page :: "configs \<Rightarrow> unit http" where
  "login_page cfg = (if \<not> password_is_configured cfg then See_Other ''/setup-password'' else Answer ())"

definition health_route :: "string http" where
  "health_route = Answer ''ok''"

text \<open>The page of the built terminal, if there is one.\<close>

definition terminal_app :: "bool \<Rightarrow> string http" where
  "terminal_app built = (if built then Answer ''index.html'' else Http_Error 503 (utf8 [84, 101, 114, 109, 105, 110, 97, 108,
      32, 21069, 31471, 23578, 26410, 26500, 24314]))"

section \<open>Properties\<close>

definition on_watchlist :: "string \<Rightarrow> 'z store_scheme \<Rightarrow> bool" where
  "on_watchlist symbol db \<longleftrightarrow> py_upper symbol \<in> wl_symbol ` set (watchlist db)"

lemma require_symbol_iff: "require_symbol s db = (if s \<in> wl_symbol ` set (watchlist db)
    then Inr (the (scalar (filter (\<lambda>w. wl_symbol w = s) (watchlist db)))) else Inl (OtherError ''symbol not found''))"
proof (cases "s \<in> wl_symbol ` set (watchlist db)")
  case True
  then have "filter (\<lambda>w. wl_symbol w = s) (watchlist db) \<noteq> []" by (auto simp: filter_empty_conv)
  then obtain w ws where "filter (\<lambda>w. wl_symbol w = s) (watchlist db) = w # ws" by (meson list.exhaust)
  with True show ?thesis by (simp add: require_symbol_def)
next
  case False
  then have "filter (\<lambda>w. wl_symbol w = s) (watchlist db) = []" by (auto simp: filter_empty_conv)
  with False show ?thesis by (simp add: require_symbol_def)
qed

lemma status_of_simps [simp]:
  "status_of (Answer d) = 200" "status_of (Http_Error c m) = c" "status_of (Server_Error e) = 500" "status_of (See_Other u) = 303"
  by (simp_all add: status_of_def)


end
