(* ===== verification/OpenD_Admin.thy ===== *)
theory OpenD_Admin
  imports Web
begin

text \<open>
  The administration of the OpenD gateway: app/services/opend_admin.py, which calls a helper under sudo and
  reads its answer, and deploy/opend_admin.py, the helper, which runs as root, controls the service, writes
  the login file and sends verification codes.

  What lies outside the program is a parameter: the process the web side starts, the JSON reader, and the
  machine of the helper, a state with the commands it can run on it.
\<close>

section \<open>The web side\<close>

record admin_result =
  ad_ok :: bool
  ad_message :: string
  ad_data :: "(string \<times> js) list"

datatype helper_process = Completed int string string | Not_Installed | Timed_Out

definition SENSITIVE_KEYS :: "string list" where
  "SENSITIVE_KEYS = [''login_password'', ''trd_unlock_password'', ''FUTU_LOGIN_PASSWORD'', ''FUTU_TRD_UNLOCK_PASSWORD'']"

definition sanitize :: "string \<Rightarrow> string" where
  "sanitize text = fold (\<lambda>key t. py_replace key ''***'' t) SENSITIVE_KEYS text"

fun js_truthy :: "js \<Rightarrow> bool" where
  "js_truthy JNull = False"
| "js_truthy (JBool b) = b"
| "js_truthy (JInt i) = (i \<noteq> 0)"
| "js_truthy (JNum x) = (x \<noteq> 0)"
| "js_truthy (JStr s) = (s \<noteq> [])"
| "js_truthy (JArr xs) = (xs \<noteq> [])"
| "js_truthy (JObj fs) = (fs \<noteq> [])"

definition dict_set :: "string \<Rightarrow> js \<Rightarrow> (string \<times> js) list \<Rightarrow> (string \<times> js) list"
    where
  "dict_set k v d = upsert fst (\<lambda>_. (k, v)) (k, v) d"

definition admin_timeout :: "string \<Rightarrow> int" where
  "admin_timeout action =
     (if action = ''install'' then 600 else if action \<in> {''status'', ''start'', ''diagnostics''} then 20 else 60)"

text \<open>The helper gets the action, the payload and the time limit. It writes one JSON object; a message of it is a
    text.\<close>

definition run_admin ::
  "(string \<Rightarrow> (string \<times> string) list \<Rightarrow> int \<Rightarrow> helper_process) \<Rightarrow> (string
      \<Rightarrow> (string \<times> js) list stored_json)
     \<Rightarrow> string \<Rightarrow> (string \<times> string) list \<Rightarrow> admin_result" where
  "run_admin start_helper parse action payload =
     (case start_helper action payload (admin_timeout action) of
        Not_Installed \<Rightarrow> \<lparr>ad_ok = False, ad_message = (utf8 [79, 112, 101, 110, 68, 32, 36816, 32500, 21161,
            25163, 26410, 23433, 35013]), ad_data = [(''action'', JStr action)]\<rparr>
      | Timed_Out \<Rightarrow> \<lparr>ad_ok = False, ad_message = (utf8 [79, 112, 101, 110, 68, 32, 36816, 32500, 25805,
          20316, 36229, 26102]), ad_data = [(''action'', JStr action)]\<rparr>
      | Completed code out err \<Rightarrow>
          (let stdout = sanitize out; stderr = sanitize err;
               parsed = (if py_strip stdout = [] then []
                         else case parse stdout of JsonValue d \<Rightarrow> d | JsonCorrupt \<Rightarrow> [(''raw_output'',
                             JStr (py_strip stdout))]);
               ok = (code = 0 \<and> (case map_of parsed ''ok'' of None \<Rightarrow> True | Some v \<Rightarrow> js_truthy v));
               message = str_or (js_str (js_field ''message'' (JObj parsed))) (if ok then (utf8 [25805, 20316, 23436, 25104])
                   else (utf8 [25805, 20316, 22833, 36133]));
               with_err = (if py_strip stderr = [] then parsed else dict_set ''stderr'' (JStr (py_strip stderr)) parsed)
           in \<lparr>ad_ok = ok, ad_message = message,
               ad_data = (if map_of with_err ''action'' = None then with_err @ [(''action'', JStr action)] else with_err)\<rparr>))"

definition configure_payload :: "string \<Rightarrow> string \<Rightarrow> string \<Rightarrow> (string \<times> string) list" where
  "configure_payload account password unlock =
     [(''login_account'', py_strip account), (''login_password'', password), (''trd_unlock_password'', unlock)]"

definition verify_action :: "string \<Rightarrow> string" where
  "verify_action kind = (if kind = ''phone'' then ''submit-phone-code'' else ''submit-captcha-code'')"

text \<open>The routes: the health of the socket is read from the answer or, when the answer does not have it, from the
    socket.\<close>

definition socket_health :: "string \<Rightarrow> int \<Rightarrow> bool \<Rightarrow> js" where
  "socket_health host port up =
     JObj [(''status'', JStr (if up then ''ok'' else ''error'')), (''host'', JStr host), (''port'', JInt port),
           (''connected'', JBool up)]"

definition opend_socket_health :: "string \<Rightarrow> int \<Rightarrow> exn + unit \<Rightarrow> js" where
  "opend_socket_health host port connection =
     (case connection of
        Inr _ \<Rightarrow> socket_health host port True
      | Inl e \<Rightarrow> JObj [(''status'', JStr ''error''), (''host'', JStr host), (''port'', JInt port), (''connected'',
          JBool False),
                      (''error'', JStr (exn_str e))])"

definition opend_payload :: "string \<Rightarrow> int \<Rightarrow> exn + unit \<Rightarrow> admin_result \<Rightarrow> (string
    \<times> js) list" where
  "opend_payload host port connection r =
     (let base = fold (\<lambda>(k, v) d. dict_set k v d) (ad_data r) [(''ok'', JBool (ad_ok r)), (''message'', JStr (ad_message
         r))]
      in dict_set ''socket_health''
           (case map_of (ad_data r) ''api_port_open'' of
              Some v \<Rightarrow> socket_health host port (js_truthy v)
            | None \<Rightarrow> opend_socket_health host port connection) base)"

text \<open>
  The routes that only name an action; the page of the gateway, with the state of the account and the age of
  the data; and the route of the login, which passes the three fields on.
\<close>

definition opend_route ::
  "(string \<Rightarrow> (string \<times> string) list \<Rightarrow> int \<Rightarrow> helper_process) \<Rightarrow> (string
      \<Rightarrow> (string \<times> js) list stored_json)
     \<Rightarrow> string \<Rightarrow> int \<Rightarrow> exn + unit \<Rightarrow> string \<Rightarrow> (string \<times> js)
         list" where
  "opend_route start_helper parse host port connection action =
     opend_payload host port connection (run_admin start_helper parse action [])"

definition configure_route ::
  "(string \<Rightarrow> (string \<times> string) list \<Rightarrow> int \<Rightarrow> helper_process) \<Rightarrow> (string
      \<Rightarrow> (string \<times> js) list stored_json)
     \<Rightarrow> string \<Rightarrow> int \<Rightarrow> exn + unit \<Rightarrow> string \<Rightarrow> string \<Rightarrow>
         string \<Rightarrow> (string \<times> js) list" where
  "configure_route start_helper parse host port connection account password unlock =
     opend_payload host port connection
       (run_admin start_helper parse ''configure'' (configure_payload account password unlock))"

definition opend_page ::
  "web_env \<Rightarrow> (string \<Rightarrow> (string \<times> string) list \<Rightarrow> int \<Rightarrow> helper_process)
      \<Rightarrow> (string \<Rightarrow> (string \<times> js) list stored_json)
     \<Rightarrow> string \<Rightarrow> int \<Rightarrow> exn + unit \<Rightarrow> 'z store_scheme
     \<Rightarrow> (string \<times> js) list \<times> string \<times> portfolio_sync \<times> freshness option" where
  "opend_page env start_helper parse host port connection db =
     (let r = run_admin start_helper parse ''status'' []
      in (opend_payload host port connection r, ad_message r, portfolio_sync_status db, section_freshness env ''portfolio'' db))"

definition verify_code_route ::
  "(string \<Rightarrow> (string \<times> string) list \<Rightarrow> int \<Rightarrow> helper_process) \<Rightarrow> (string
      \<Rightarrow> (string \<times> js) list stored_json)
     \<Rightarrow> string \<Rightarrow> int \<Rightarrow> exn + unit \<Rightarrow> string \<Rightarrow> string \<Rightarrow>
         (string \<times> js) list http" where
  "verify_code_route start_helper parse host port connection kind code =
     (if kind \<notin> {''phone'', ''captcha''} then Http_Error 400 (utf8 [39564, 35777, 30721, 31867, 22411, 26080, 25928])
      else Answer (opend_payload host port connection
             (run_admin start_helper parse (verify_action kind) [(''code'', py_strip code)])))"

section \<open>The helper\<close>

text \<open>
  The machine: commands that only report (their output), commands that act (exit status, output and error
  output), whether a port takes a connection, a pause of half a second, the login file, an exchange with the
  gateway's telnet port (what is received after sending a text), the decoding of what it sends, and two
  files.
\<close>

datatype recv = Chunk string | Recv_Timeout | Recv_Error exn

record 'o machine =
  ma_root :: bool
  ma_report :: "string list \<Rightarrow> 'o \<Rightarrow> exn + string"
  ma_act :: "string list \<Rightarrow> 'o \<Rightarrow> (exn + int \<times> string \<times> string) \<times> 'o"
  ma_port_open :: "int \<Rightarrow> 'o \<Rightarrow> bool"
  ma_pause :: "'o \<Rightarrow> 'o"
  ma_env_file :: "'o \<Rightarrow> string option"
  ma_replace_env_file :: "string \<Rightarrow> 'o \<Rightarrow> (exn + unit) \<times> 'o"
  ma_exchange :: "int \<Rightarrow> string \<Rightarrow> 'o \<Rightarrow> (exn + recv list) \<times> 'o"
  ma_decode :: "string \<Rightarrow> string"
  ma_install_script :: "'o \<Rightarrow> bool"
  ma_opend_bin :: "'o \<Rightarrow> bool"

type_synonym fields = "(string \<times> js) list"

definition API_PORT :: int where "API_PORT = 11111"
definition TELNET_PORT :: int where "TELNET_PORT = 22222"
definition SERVICE :: string where "SERVICE = ''futu-opend''"

definition ALLOWED :: "string list" where
  "ALLOWED = [''install'', ''status'', ''start'', ''stop'', ''restart'', ''configure'', ''submit-phone-code'',
     ''submit-captcha-code'', ''verify'', ''diagnostics'']"

definition shell_quote :: "string \<Rightarrow> string" where
  "shell_quote v = [CHR 0x27] @ py_replace [CHR 0x27] [CHR 0x27, CHR 0x22, CHR 0x27, CHR 0x22, CHR 0x27] v @ [CHR 0x27]"

text \<open>
  \<open>splitlines\<close> of the login file: a line ends at a line feed, a carriage return or both, and at the other line
  ends of ASCII. Then the characters \<open>strip\<close> takes from the ends of a value.
\<close>

definition line_end :: "char \<Rightarrow> bool" where
  "line_end c \<longleftrightarrow> c \<in> {CHR 0x0A, CHR 0x0B, CHR 0x0C, CHR 0x0D, CHR 0x1C, CHR 0x1D, CHR 0x1E}"

fun split_lines :: "string \<Rightarrow> string \<Rightarrow> string list" where
  "split_lines acc [] = (if acc = [] then [] else [rev acc])"
| "split_lines acc [c] = (if line_end c then [rev acc] else [rev (c # acc)])"
| "split_lines acc (c # d # cs) =
     (if c = CHR 0x0D \<and> d = CHR 0x0A then rev acc # split_lines [] cs
      else if line_end c then rev acc # split_lines [] (d # cs) else split_lines (c # acc) (d # cs))"

definition strip_quotes :: "string \<Rightarrow> string" where
  "strip_quotes s = (let q = (\<lambda>c. c = CHR 0x27 \<or> c = CHR 0x22) in rev (dropWhile q (rev (dropWhile q s))))"

definition env_has_value :: "string \<Rightarrow> string option \<Rightarrow> bool" where
  "env_has_value key file =
     (case file of
        None \<Rightarrow> False
      | Some text \<Rightarrow>
          (case filter (starts_with (key @ ''='')) (split_lines [] text) of
             [] \<Rightarrow> False
           | line # _ \<Rightarrow> strip_quotes (py_strip (drop (length key + 1) line)) \<noteq> []))"

definition clean :: "string \<Rightarrow> string" where
  "clean text =
     fold (\<lambda>key t. py_replace key ''***'' t)
       [''FUTU_LOGIN_PASSWORD'', ''FUTU_TRD_UNLOCK_PASSWORD'', ''login_password'', ''trd_unlock_password'']
       (py_replace [CHR 0x00] [] text)"

definition tail_text :: "string \<Rightarrow> nat \<Rightarrow> string" where
  "tail_text text limit = (if length text > limit then drop (length text - limit) text else text)"

definition service_state :: "'o machine \<Rightarrow> 'o \<Rightarrow> exn + string" where
  "service_state m w = map_sum id py_strip (ma_report m [''systemctl'', ''is-active'', SERVICE] w)"

definition status_fields :: "'o machine \<Rightarrow> 'o \<Rightarrow> exn + fields" where
  "status_fields m w =
     (case service_state m w of
        Inl e \<Rightarrow> Inl e
      | Inr active \<Rightarrow>
          (case ma_report m [''systemctl'', ''is-enabled'', SERVICE] w of
             Inl e \<Rightarrow> Inl e
           | Inr enabled \<Rightarrow> Inr
               [(''installed'', JBool (ma_opend_bin m w)), (''service_active'', JStr active),
                (''service_enabled'', JStr (py_strip enabled)), (''api_port_open'', JBool (ma_port_open m API_PORT w)),
                (''telnet_port_open'', JBool (ma_port_open m TELNET_PORT w)),
                (''credentials_configured'', JBool (env_has_value ''FUTU_LOGIN_ACCOUNT'' (ma_env_file m w)
                    \<and> env_has_value ''FUTU_LOGIN_PASSWORD'' (ma_env_file m w))),
                (''needs_phone_code'', JBool False), (''needs_captcha_code'', JBool False), (''recent_log'', JStr [])]))"

record helper_answer =
  ha_ok :: bool
  ha_message :: string
  ha_fields :: fields

text \<open>
  Waiting for a port, counted in the pauses of half a second; the time an attempt takes is not counted, so
  there may be fewer attempts. Whether the port opened is not looked at by the caller.
\<close>

fun wait_for_port :: "'o machine \<Rightarrow> int \<Rightarrow> nat \<Rightarrow> 'o \<Rightarrow> bool \<times> 'o" where
  "wait_for_port m port 0 w = (False, w)"
| "wait_for_port m port (Suc n) w = (if ma_port_open m port w then (True, w) else wait_for_port m port n (ma_pause m w))"

text \<open>Receiving ends with a time-out or when the other side closes; a list that ends is a time-out too.\<close>

fun read_chunks :: "recv list \<Rightarrow> exn + string" where
  "read_chunks [] = Inr []"
| "read_chunks (Recv_Timeout # rs) = Inr []"
| "read_chunks (Recv_Error e # rs) = Inl e"
| "read_chunks (Chunk c # rs) = (if c = [] then Inr [] else map_sum id ((@) c) (read_chunks rs))"

definition telnet_command :: "'o machine \<Rightarrow> string \<Rightarrow> 'o \<Rightarrow> (exn + string) \<times> 'o" where
  "telnet_command m command w =
     (case ma_exchange m TELNET_PORT (command @ [CHR 0x0D, CHR 0x0A]) w of
        (Inl e, w1) \<Rightarrow> (Inl e, w1)
      | (Inr rs, w1) \<Rightarrow> (map_sum id (ma_decode m) (read_chunks rs), w1))"

definition answer_with :: "'o machine \<Rightarrow> bool \<Rightarrow> string \<Rightarrow> (fields \<Rightarrow> fields)
    \<Rightarrow> 'o \<Rightarrow> (exn + helper_answer) \<times> 'o" where
  "answer_with m ok message f w =
     (case status_fields m w of
        Inl e \<Rightarrow> (Inl e, w)
      | Inr fs \<Rightarrow> (Inr \<lparr>ha_ok = ok, ha_message = message, ha_fields = f fs\<rparr>, w))"

definition helper_status :: "'o machine \<Rightarrow> string \<Rightarrow> 'o \<Rightarrow> (exn + helper_answer) \<times> 'o" where
  "helper_status m message w = answer_with m True message id w"

definition helper_install :: "'o machine \<Rightarrow> 'o \<Rightarrow> (exn + helper_answer) \<times> 'o" where
  "helper_install m w =
     (if \<not> ma_install_script m w then answer_with m False (utf8 [23433, 35013, 33050, 26412, 19981, 23384, 22312, 65292,
         35831, 20808, 23436, 25104, 24212, 29992, 37096, 32626]) id w
      else case ma_act m [''bash'', ''/opt/headachetrade/current/deploy/install_futu_opend.sh''] w of
        (Inl e, w1) \<Rightarrow> (Inl e, w1)
      | (Inr (code, out, err), w1) \<Rightarrow>
          answer_with m (code = 0) (utf8 [79, 112, 101, 110, 68, 32, 23433, 35013, 47, 20462, 22797, 24050, 25191, 34892])
            (\<lambda>fs. fs @ [(''install_output'', JStr (tail_text (clean (out @ [CHR 0x0A] @ err)) 2500))]) w1)"

definition env_content :: "string \<Rightarrow> string \<Rightarrow> string \<Rightarrow> string" where
  "env_content account password unlock =
     join_with [CHR 0x0A]
       [''# Managed by HeadacheTradeV2 OpenD admin.'', ''FUTU_LOGIN_ACCOUNT='' @ shell_quote account,
        ''FUTU_LOGIN_PASSWORD='' @ shell_quote password, ''FUTU_TRD_UNLOCK_PASSWORD='' @ shell_quote unlock, []]"

definition payload_text :: "(string \<times> js) list \<Rightarrow> string \<Rightarrow> string" where
  "payload_text payload k = js_str (js_field k (JObj payload))"

definition helper_configure :: "'o machine \<Rightarrow> fields \<Rightarrow> 'o \<Rightarrow> (exn + helper_answer) \<times>
    'o" where
  "helper_configure m payload w =
     (let account = py_strip (payload_text payload ''login_account''); password = payload_text payload ''login_password'';
          unlock = payload_text payload ''trd_unlock_password''
      in if account = [] \<or> password = [] then answer_with m False (utf8 [70, 117, 116, 117, 32, 30331, 24405, 36134, 21495,
          21644, 23494, 30721, 19981, 33021, 20026, 31354]) id w
         else case ma_replace_env_file m (env_content account password unlock) w of
           (Inl e, w1) \<Rightarrow> (Inl e, w1)
         | (Inr _, w1) \<Rightarrow> answer_with m True (utf8 [79, 112, 101, 110, 68, 32, 30331, 24405, 37197, 32622, 24050,
             20445, 23384, 65292, 35831, 21551, 21160, 25110, 37325, 21551, 32, 79, 112, 101, 110, 68]) id w1)"

definition submit_code :: "'o machine \<Rightarrow> string \<Rightarrow> fields \<Rightarrow> 'o \<Rightarrow> (exn +
    helper_answer) \<times> 'o" where
  "submit_code m command payload w =
     (let code = py_strip (payload_text payload ''code'')
      in if code = [] then answer_with m False (utf8 [39564, 35777, 30721, 19981, 33021, 20026, 31354]) id w
         else case telnet_command m (command @ '' -code='' @ code) w of
           (Inl e, w1) \<Rightarrow> (Inl e, w1)
         | (Inr reply, w1) \<Rightarrow>
             (let ok = (\<not> py_contains (utf8 [38169, 35823]) reply \<and> \<not> py_contains (utf8 [22833, 36133]) reply)
              in answer_with m ok (if ok then (utf8 [39564, 35777, 30721, 24050, 25552, 20132]) else (utf8 [39564, 35777, 30721,
                  25552, 20132, 21518, 32, 79, 112, 101, 110, 68, 32, 20173, 36820, 22238, 38169, 35823]))
                   (\<lambda>fs. fs @ [(''telnet_reply'', JStr (clean reply))]) w1))"

definition helper_diagnostics :: "'o machine \<Rightarrow> 'o \<Rightarrow> (exn + helper_answer) \<times> 'o" where
  "helper_diagnostics m w =
     (case ma_report m [''journalctl'', ''-u'', SERVICE @ ''.service'', ''-n'', ''120'', ''--no-pager''] w of
        Inl e \<Rightarrow> (Inl e, w)
      | Inr opend \<Rightarrow>
          (case ma_report m [''journalctl'', ''-u'', ''headachetrade.service'', ''-n'', ''80'', ''--no-pager''] w of
             Inl e \<Rightarrow> (Inl e, w)
           | Inr app \<Rightarrow>
               (let log = opend @ [CHR 0x0A] @ app
                in answer_with m True (utf8 [35786, 26029, 26085, 24535, 24050, 35835, 21462])
                     (\<lambda>fs. dict_set ''recent_log'' (JStr (tail_text (clean log) 5000))
                        (dict_set ''needs_captcha_code'' (JBool (py_contains (utf8 [22270, 24418, 39564, 35777, 30721]) log))
                          (dict_set ''needs_phone_code'' (JBool (py_contains (utf8 [38656, 35201, 25163, 26426, 39564, 35777,
                              30721]) log)) fs))) w)))"

text \<open>The exit status of systemctl is not looked at.\<close>

definition act_then :: "'o machine \<Rightarrow> string \<Rightarrow> ('o \<Rightarrow> 'o) \<Rightarrow> string \<Rightarrow>
    'o \<Rightarrow> (exn + helper_answer) \<times> 'o" where
  "act_then m verb after message w =
     (case ma_act m [''systemctl'', verb, SERVICE] w of
        (Inl e, w1) \<Rightarrow> (Inl e, w1)
      | (Inr _, w1) \<Rightarrow> helper_status m message (after w1))"

definition helper_action :: "'o machine \<Rightarrow> string \<Rightarrow> fields \<Rightarrow> 'o \<Rightarrow> (exn +
    helper_answer) \<times> 'o" where
  "helper_action m action payload w =
     (if action = ''install'' then helper_install m w
      else if action = ''status'' then helper_status m (utf8 [29366, 24577, 24050, 21047, 26032]) w
      else if action = ''start'' then
        (case service_state m w of
           Inl e \<Rightarrow> (Inl e, w)
         | Inr s \<Rightarrow> (if s = ''active'' then helper_status m (utf8 [79, 112, 101, 110, 68, 32, 24050, 22312, 36816,
             34892]) w
                     else act_then m ''start'' (\<lambda>v. snd (wait_for_port m API_PORT 16 v)) (utf8 [79, 112, 101, 110, 68,
                         32, 24050, 21551, 21160]) w))
      else if action = ''stop'' then act_then m ''stop'' id (utf8 [79, 112, 101, 110, 68, 32, 24050, 20572, 27490]) w
      else if action = ''restart'' then act_then m ''restart'' id (utf8 [79, 112, 101, 110, 68, 32, 24050, 37325, 21551]) w
      else if action = ''configure'' then helper_configure m payload w
      else if action = ''submit-phone-code'' then submit_code m ''input_phone_verify_code'' payload w
      else if action = ''submit-captcha-code'' then submit_code m ''input_pic_verify_code'' payload w
      else if action = ''diagnostics'' then helper_diagnostics m w
      else helper_status m (utf8 [36830, 25509, 24050, 26816, 26597]) w)"

text \<open>
  The exit status, the object written to the output, and the machine. The payload is what the JSON reader
  makes of the input; a payload it cannot read raises outside the guarded part, so nothing is written.
\<close>

definition helper_main :: "'o machine \<Rightarrow> string \<Rightarrow> fields stored_json \<Rightarrow> 'o \<Rightarrow> (int
    \<times> helper_answer option) \<times> 'o" where
  "helper_main m action payload w =
     (if \<not> ma_root m
      then ((1, Some \<lparr>ha_ok = False, ha_message = (utf8 [79, 112, 101, 110, 68, 32, 36816, 32500, 21161, 25163, 38656,
          35201, 32, 114, 111, 111, 116, 32, 26435, 38480]), ha_fields = [(''action'', JStr [])]\<rparr>), w)
      else if action \<notin> set ALLOWED
      then ((2, Some \<lparr>ha_ok = False, ha_message = (utf8 [19981, 25903, 25345, 30340, 32, 79, 112, 101, 110, 68, 32,
          25805, 20316]), ha_fields = [(''action'', JStr action)]\<rparr>), w)
      else case payload of
        JsonCorrupt \<Rightarrow> ((1, None), w)
      | JsonValue p \<Rightarrow>
          (case helper_action m action p w of
             (Inr r, w1) \<Rightarrow> ((if ha_ok r then 0 else 1, Some r), w1)
           | (Inl e, w1) \<Rightarrow>
               ((1, Some \<lparr>ha_ok = False, ha_message = (utf8 [79, 112, 101, 110, 68, 32, 25805, 20316, 22833, 36133,
                   65306]) @ exn_str e, ha_fields = [(''action'', JStr action)]\<rparr>), w1)))"

section \<open>Lemmas\<close>

lemma replace_char: "length s \<le> n \<Longrightarrow> replace_from n [c] new s = concat (map (\<lambda>x. if x = c then new
    else [x]) s)"
proof (induction n "[c]" new s rule: replace_from.induct)
  case (3 n new x xs)
  then show ?case by auto
qed auto

lemma py_replace_char: "py_replace [c] new s = concat (map (\<lambda>x. if x = c then new else [x]) s)"
  by (simp add: py_replace_def replace_char)

text \<open>How a shell reads a word: plain text, single quotes, and double quotes without its special characters.\<close>

datatype quoting = Plain | Single | Double

fun sh_word :: "quoting \<Rightarrow> string \<Rightarrow> string option" where
  "sh_word Plain [] = Some []"
| "sh_word Single [] = None"
| "sh_word Double [] = None"
| "sh_word Plain (c # cs) =
     (if c = CHR 0x27 then sh_word Single cs else if c = CHR 0x22 then sh_word Double cs
      else if is_space c \<or> c = CHR 0x5C \<or> c = CHR 0x60 \<or> c \<in> set ''$&|;<>()#'' then None else map_option ((#) c)
          (sh_word Plain cs))"
| "sh_word Single (c # cs) = (if c = CHR 0x27 then sh_word Plain cs else map_option ((#) c) (sh_word Single cs))"
| "sh_word Double (c # cs) =
     (if c = CHR 0x22 then sh_word Plain cs else if c = CHR 0x5C \<or> c = CHR 0x60 \<or> c = CHR ''$'' then None else
         map_option ((#) c) (sh_word Double cs))"

lemma quoted_body:
  "sh_word Single (py_replace [CHR 0x27] [CHR 0x27, CHR 0x22, CHR 0x27, CHR 0x22, CHR 0x27] v @ [CHR 0x27]) = Some v"
  unfolding py_replace_char by (induction v) auto

section \<open>Properties\<close>

text \<open>A shell that reads a quoted value back gets the value itself, whatever characters a password has, quotes,
  blanks and newlines included.\<close>

theorem shell_quote_roundtrip: "sh_word Plain (shell_quote v) = Some v"
  using quoted_body [of v] by (simp add: shell_quote_def)

text \<open>The helper refuses to act without root rights, for an action that is not on its list, for a login without
  account or password and for an empty code: the machine is as before and the exit status is not 0.\<close>

theorem helper_refuses_without_acting:
  assumes "helper_main m action payload w = ((code, out), w')"
    and "\<not> ma_root m \<or> action \<notin> set ALLOWED \<or> payload = JsonCorrupt
      \<or> (\<exists>p. payload = JsonValue p \<and>
          (action = ''configure'' \<and> (py_strip (payload_text p ''login_account'') = [] \<or> payload_text p
              ''login_password'' = [])
           \<or> action \<in> {''submit-phone-code'', ''submit-captcha-code''} \<and> py_strip (payload_text p ''code'') = []))"
  shows "w' = w \<and> code \<noteq> 0"
  using assms
  by (auto simp: helper_main_def helper_action_def helper_configure_def submit_code_def answer_with_def Let_def
      split: if_splits stored_json.splits sum.splits prod.splits)

definition idle_machine :: "nat machine" where
  "idle_machine = \<lparr>ma_root = True, ma_report = (\<lambda>_ _. Inr []), ma_act = (\<lambda>_ w. (Inr (0, [], []), w + 1)),
     ma_port_open = (\<lambda>_ _. False), ma_pause = id, ma_env_file = (\<lambda>_. None),
     ma_replace_env_file = (\<lambda>_ w. (Inr (), w + 1)), ma_exchange = (\<lambda>_ _ w. (Inr [], w + 1)), ma_decode = id,
     ma_install_script = (\<lambda>_. False), ma_opend_bin = (\<lambda>_. False)\<rparr>"

theorem helper_refuses_without_acting_witness:
  "snd (helper_main idle_machine ''configure'' (JsonValue []) 3) = 3 \<and> fst (fst (helper_main idle_machine ''configure''
      (JsonValue []) 3)) \<noteq> 0"
proof -
  obtain code out w' where r: "helper_main idle_machine ''configure'' (JsonValue []) 3 = ((code, out), w')"
    by (metis prod.collapse)
  have "payload_text [] ''login_password'' = []" by (simp add: payload_text_def js_str_def)
  then have "w' = 3 \<and> code \<noteq> 0" by (intro helper_refuses_without_acting [OF r]) simp
  with r show ?thesis by simp
qed

text \<open>
  The name of a secret is masked, the secret is not; and a start that systemctl refuses is reported as done.
\<close>

lemma secret_survives_cleaning: "clean ''FUTU_LOGIN_PASSWORD=hunter2'' = ''***=hunter2''"
  by code_simp

lemma failed_start_is_reported_as_done:
  assumes "service_state m w = Inr s" and "s \<noteq> ''active''" and "ma_act m [''systemctl'', ''start'', SERVICE] w = (Inr
      (code, out, err), w1)"
    and "status_fields m (snd (wait_for_port m API_PORT 16 w1)) = Inr fs"
  shows "\<exists>r. fst (helper_action m ''start'' p w) = Inr r \<and> ha_ok r"
  using assms by (simp add: helper_action_def act_then_def helper_status_def answer_with_def)

end
