(* ===== verification/Performance.thy ===== *)
theory Performance
  imports Web
begin

text \<open>
  app/services/performance.py: the middleware that times a request and counts its statements, and the hook
  that reports slow statements. The readings of the counter before and after are arguments; a request that
  raises is a \<open>Server_Error\<close>, logged with status 500.
\<close>

record perf_settings =
  pf_enabled :: bool
  pf_slow_request_ms :: int
  pf_slow_sql_ms :: int

record web_request =
  wr_method :: string
  wr_path :: string
  wr_query :: string

datatype perf_log =
    Perf web_request int int nat string
  | Slow_Request web_request int nat
  | N_Plus_One web_request nat int
  | Slow_Sql int string

definition duration_ms :: "real \<Rightarrow> real \<Rightarrow> int" where
  "duration_ms started finished =
     (let x = (finished - started) * 1000 in if x \<ge> 0 then \<lfloor>x\<rfloor> else \<lceil>x\<rceil>)"

definition request_kind :: "web_request \<Rightarrow> string" where
  "request_kind q = (if starts_with ''/api/'' (wr_path q) then ''api'' else ''html'')"

text \<open>The answer comes with the number of statements it took.\<close>

definition performance_middleware ::
  "perf_settings \<Rightarrow> web_request \<Rightarrow> real \<Rightarrow> real \<Rightarrow> 'd http \<times> nat
      \<Rightarrow> 'd http \<times> perf_log list" where
  "performance_middleware ps q started finished answered =
     (let (response, sql_count) = answered; ms = duration_ms started finished
      in if \<not> pf_enabled ps then (response, [])
         else (response,
           [Perf q (status_of response) ms sql_count (request_kind q)]
           @ (if ms \<ge> pf_slow_request_ms ps then [Slow_Request q ms sql_count] else [])
           @ (if sql_count > 50 then [N_Plus_One q sql_count ms] else [])))"

text \<open>\<open>s.split()\<close>: the words between white space.\<close>

fun words_from :: "string \<Rightarrow> string \<Rightarrow> string list" where
  "words_from acc [] = (if acc = [] then [] else [rev acc])"
| "words_from acc (c # cs) =
     (if is_space c then (if acc = [] then words_from [] cs else rev acc # words_from [] cs) else words_from (c # acc) cs)"

text \<open>After a statement: the request's counter, if there is a request, and the report of a slow statement.\<close>

definition after_cursor_execute ::
  "perf_settings \<Rightarrow> real option \<Rightarrow> real \<Rightarrow> string \<Rightarrow> nat option \<Rightarrow> nat
      option \<times> perf_log list" where
  "after_cursor_execute ps started finished statement metrics =
     (map_option Suc metrics,
      if \<not> pf_enabled ps then []
      else case started of
        None \<Rightarrow> []
      | Some t \<Rightarrow>
          (let ms = duration_ms t finished
           in if ms \<ge> pf_slow_sql_ms ps then [Slow_Sql ms (take 500 (join_with '' '' (words_from [] statement)))] else []))"

section \<open>Lemmas\<close>

lemma middleware_keeps_the_answer: "fst (performance_middleware ps q a b answered) = fst answered"
  by (simp add: performance_middleware_def Let_def split: prod.split)

lemma middleware_logs_every_request:
  "pf_enabled ps \<Longrightarrow> \<exists>ms k rest. snd (performance_middleware ps q a b (r, n)) = Perf q (status_of r) ms n
      k # rest"
  by (simp add: performance_middleware_def Let_def)

end
