(* ===== verification/Time_Text.thy ===== *)
theory Time_Text
  imports Prelude
begin

text \<open>
  Times as text: what the program reads of a text that it, or the gateway, has written.
  \<open>datetime.fromisoformat\<close> is used by \<open>_parse_datetime\<close> (freshness.py) and \<open>_parse_dt\<close>
      (risk_control.py) for the
  times stored inside JSON texts, \<open>strptime\<close> by the provider of bars. The forms without separators and by
  week, which nothing here writes, are not read by the model.
\<close>

section \<open>Days and dates\<close>

text \<open>The number of a civil date, the inverse of \<open>civil\<close>.\<close>

definition days_of_civil :: "int \<Rightarrow> int \<Rightarrow> int \<Rightarrow> int" where
  "days_of_civil y m d =
     (let y' = (if m \<le> 2 then y - 1 else y); era = y' div 400; yoe = y' - era * 400;
          mp = (if m > 2 then m - 3 else m + 9); doy = (153 * mp + 2) div 5 + d - 1;
          doe = yoe * 365 + yoe div 4 - yoe div 100 + doy
      in era * 146097 + doe - 719468)"

definition leap_year :: "int \<Rightarrow> bool" where
  "leap_year y \<longleftrightarrow> y mod 4 = 0 \<and> (y mod 100 \<noteq> 0 \<or> y mod 400 = 0)"

definition month_length :: "bool \<Rightarrow> int \<Rightarrow> int" where
  "month_length leap m = (if m = 2 then (if leap then 29 else 28) else if m \<in> {4, 6, 9, 11} then 30 else 31)"

definition valid_date :: "int \<Rightarrow> int \<Rightarrow> int \<Rightarrow> int option" where
  "valid_date y m d =
     (if 1 \<le> y \<and> 1 \<le> m \<and> m \<le> 12 \<and> 1 \<le> d \<and> d \<le> month_length (leap_year y) m then Some
         (days_of_civil y m d) else None)"

definition valid_time :: "int \<Rightarrow> int \<Rightarrow> int \<Rightarrow> int \<Rightarrow> int option" where
  "valid_time h mi s us = (if h \<le> 23 \<and> mi \<le> 59 \<and> s \<le> 59 then Some (seconds (3600 * h + 60 * mi + s) + us)
      else None)"

section \<open>Reading\<close>

definition all_digits :: "string \<Rightarrow> bool" where
  "all_digits s = list_all (\<lambda>c. digit_val c \<noteq> None) s"

text \<open>A number of exactly so many digits.\<close>

definition number_of :: "nat \<Rightarrow> string \<Rightarrow> int option" where
  "number_of n s = (if length s = n \<and> all_digits s then Some (int (fst (read_digits 0 0 s))) else None)"

definition read_date :: "string \<Rightarrow> int option" where
  "read_date s =
     (if length s = 10 \<and> s ! 4 = CHR ''-'' \<and> s ! 7 = CHR ''-''
      then (case (number_of 4 (take 4 s), number_of 2 (take 2 (drop 5 s)), number_of 2 (drop 8 s)) of
              (Some y, Some m, Some d) \<Rightarrow> valid_date y m d
            | _ \<Rightarrow> None)
      else None)"

text \<open>A fraction of a second has at least one digit; those after the sixth are dropped.\<close>

definition read_fraction :: "string \<Rightarrow> int option" where
  "read_fraction s =
     (case s of
        [] \<Rightarrow> Some 0
      | c # f \<Rightarrow>
          (if (c = CHR ''.'' \<or> c = CHR '','') \<and> f \<noteq> [] \<and> all_digits f
           then number_of 6 (take 6 (f @ replicate 6 (CHR ''0''))) else None))"

definition read_time :: "string \<Rightarrow> int option" where
  "read_time s =
     (if length s = 2
      then (case number_of 2 s of Some h \<Rightarrow> valid_time h 0 0 0 | None \<Rightarrow> None)
      else if length s = 5 \<and> s ! 2 = CHR '':''
      then (case (number_of 2 (take 2 s), number_of 2 (drop 3 s)) of
              (Some h, Some mi) \<Rightarrow> valid_time h mi 0 0
            | _ \<Rightarrow> None)
      else if length s \<ge> 8 \<and> s ! 2 = CHR '':'' \<and> s ! 5 = CHR '':''
      then (case (number_of 2 (take 2 s), number_of 2 (take 2 (drop 3 s)), number_of 2 (take 2 (drop 6 s)), read_fraction (drop
          8 s)) of
              (Some h, Some mi, Some sec, Some us) \<Rightarrow> valid_time h mi sec us
            | _ \<Rightarrow> None)
      else None)"

definition zone_sign :: "char \<Rightarrow> bool" where
  "zone_sign c \<longleftrightarrow> c = CHR ''+'' \<or> c = CHR ''-'' \<or> c = CHR ''Z''"

text \<open>The offset from UTC, if there is one.\<close>

definition read_offset :: "string \<Rightarrow> int option option" where
  "read_offset s =
     (case s of
        [] \<Rightarrow> Some None
      | c # r \<Rightarrow>
          (if c = CHR ''Z'' then (if r = [] then Some (Some 0) else None)
           else (case read_time r of
                   None \<Rightarrow> None
                 | Some o' \<Rightarrow> Some (Some (if c = CHR ''-'' then - o' else o')))))"

text \<open>A time and, for one with a zone, its offset. Any character may stand between date and time.\<close>

definition fromisoformat :: "string \<Rightarrow> (int \<times> int option) option" where
  "fromisoformat s =
     (if length s \<le> 10 then map_option (\<lambda>d. (days d, None)) (read_date s)
      else (let rest = drop 11 s
            in case (read_date (take 10 s), read_time (takeWhile (\<lambda>c. \<not> zone_sign c) rest),
                     read_offset (dropWhile (\<lambda>c. \<not> zone_sign c) rest)) of
                 (Some d, Some t, Some z) \<Rightarrow> Some (days d + t, z)
               | _ \<Rightarrow> None))"

definition as_utc :: "int \<times> int option \<Rightarrow> int" where
  "as_utc t = fst t - (case snd t of None \<Rightarrow> 0 | Some z \<Rightarrow> z)"

text \<open>\<open>_parse_datetime\<close> of freshness.py, and \<open>_parse_dt\<close> of risk_control.py, which also
    converts.\<close>

definition parse_datetime :: "pyval \<Rightarrow> (int \<times> int option) option" where
  "parse_datetime v = (if truthy v then fromisoformat (py_str v) else None)"

definition parse_dt :: "pyval \<Rightarrow> int option" where
  "parse_dt v = map_option as_utc (parse_datetime v)"

section \<open>The calendar\<close>

definition year_start :: "int \<Rightarrow> int" where
  "year_start y = 365 * y + y div 4 - y div 100 + y div 400"

definition year_scale :: "int \<Rightarrow> int" where
  "year_scale n = n - n div 1460 + n div 36524 - n div 146096"

lemma year_ends_a: "list_all (\<lambda>y. year_scale (year_start y) div 365 = y \<and> year_scale (year_start (y + 1) - 1) div
    365 = y) [0..199]"
  unfolding year_scale_def year_start_def by code_simp

lemma year_ends_b: "list_all (\<lambda>y. year_scale (year_start y) div 365 = y \<and> year_scale (year_start (y + 1) - 1) div
    365 = y) [200..399]"
  unfolding year_scale_def year_start_def by code_simp

lemma year_ends:
  assumes "0 \<le> y" and "y < 400"
  shows "year_scale (year_start y) div 365 = y" and "year_scale (year_start (y + 1) - 1) div 365 = y"
proof -
  from assms have "y \<in> set [0..199] \<or> y \<in> set [200..399]" unfolding set_upto atLeastAtMost_iff by linarith
  with year_ends_a year_ends_b
  show "year_scale (year_start y) div 365 = y" "year_scale (year_start (y + 1) - 1) div 365 = y"
    unfolding list_all_iff by blast+
qed

lemma div_succ:
  fixes n k :: int
  assumes "0 < k"
  shows "n div k \<le> (n + 1) div k" and "(n + 1) div k \<le> n div k + 1"
proof -
  show "n div k \<le> (n + 1) div k" using assms by (intro zdiv_mono1) auto
  have "(n + 1) div k \<le> (n + k) div k" using assms by (intro zdiv_mono1) auto
  with assms show "(n + 1) div k \<le> n div k + 1" by simp
qed

lemma year_scale_step: "0 \<le> n \<Longrightarrow> n < 146096 \<Longrightarrow> year_scale n \<le> year_scale (n + 1)"
proof -
  assume n: "0 \<le> n" "n < 146096"
  have step: "a' \<le> a + 1 \<Longrightarrow> b \<le> b' \<Longrightarrow> c = 0 \<Longrightarrow> c' = 0 \<Longrightarrow> n -
      a + b - c \<le> n + 1 - a' + b' - c'" for a a' b b' c c' :: int
    by simp
  show ?thesis
  proof (cases "n = 146095")
    case False
    with n have "n div 146096 = 0" "(n + 1) div 146096 = 0" by (auto intro!: div_pos_pos_trivial)
    with step [OF div_succ(2) [of 1460 n] div_succ(1) [of 36524 n]] show ?thesis by (simp only: year_scale_def zero_less_numeral)
  qed (simp add: year_scale_def)
qed

lemma year_start_step: "year_start y \<le> year_start (y + 1)"
  using div_succ(1) [of 4 y] div_succ(2) [of 100 y] div_succ(1) [of 400 y] by (simp add: year_start_def)

lemma year_start_le: "z \<le> 400 \<Longrightarrow> year_start z \<le> 146097"
proof (induction z rule: int_le_induct)
  case (step z)
  then show ?case using year_start_step [of "z - 1"] by simp
qed (simp add: year_start_def)

lemma year_scale_mono:
  assumes "0 \<le> a" and "a \<le> b" and "b \<le> 146096"
  shows "year_scale a \<le> year_scale b"
  using assms(2,3)
proof (induction b rule: int_ge_induct)
  case (step b)
  then have "year_scale a \<le> year_scale b" by simp
  also have "\<dots> \<le> year_scale (b + 1)" using step assms(1) by (intro year_scale_step) auto
  finally show ?case .
qed simp

lemma year_of_day:
  assumes "0 \<le> n" and "n < 146097"
  shows "\<exists>y. 0 \<le> y \<and> y < 400 \<and> year_start y \<le> n \<and> n < year_start (y + 1)"
proof -
  have "n < year_start (int k) \<Longrightarrow> \<exists>y. 0 \<le> y \<and> y < int k \<and> year_start y \<le> n \<and> n <
      year_start (y + 1)" for k
  proof (induction k)
    case 0
    with assms show ?case by (simp add: year_start_def)
  next
    case (Suc k)
    show ?case
    proof (cases "n < year_start (int k)")
      case True
      with Suc obtain y where "0 \<le> y \<and> y < int k \<and> year_start y \<le> n \<and> n < year_start (y + 1)" by auto
      then show ?thesis by (intro exI [of _ y]) auto
    next
      case False
      with Suc show ?thesis by (intro exI [of _ "int k"]) (auto simp: add.commute)
    qed
  qed
  from this [of 400] assms show ?thesis by (simp add: year_start_def)
qed

lemma year_index:
  assumes "0 \<le> n" and "n < 146097"
  defines "y \<equiv> year_scale n div 365"
  shows "0 \<le> y \<and> y < 400 \<and> year_start y \<le> n \<and> n < year_start (y + 1)"
proof -
  obtain z where z: "0 \<le> z" "z < 400" "year_start z \<le> n" "n < year_start (z + 1)" using year_of_day [OF assms(1,2)] by blast
  have "0 \<le> year_start z" using z(1) by (simp add: year_start_def)
  then have "year_scale (year_start z) \<le> year_scale n" "year_scale n \<le> year_scale (year_start (z + 1) - 1)"
    using z assms(2) year_start_le [of "z + 1"] by (auto intro!: year_scale_mono)
  then have "z \<le> y" "y \<le> z"
    unfolding y_def using year_ends [OF z(1,2)] by (metis zdiv_mono1 zero_less_numeral)+
  with z show ?thesis by simp
qed

lemma div_succ_eq:
  fixes n k :: int
  assumes "1 < k"
  shows "(n + 1) div k = n div k + (if (n + 1) mod k = 0 then 1 else 0)"
proof (cases "(n + 1) mod k = 0")
  case True
  then obtain q where q: "n + 1 = k * q" by auto
  then have "n = (k - 1) + k * (q - 1)" by (simp add: algebra_simps)
  then have "n div k = (k - 1) div k + (q - 1)" using assms by simp
  with q assms show ?thesis by simp
next
  case False
  have "n + 1 = k * (n div k) + (n mod k + 1)" by simp
  moreover have "n mod k < k" using assms by simp
  moreover have "n mod k + 1 \<noteq> k"
  proof
    assume "n mod k + 1 = k"
    then have "n + 1 = k * (n div k + 1)" using \<open>n + 1 = k * (n div k) + (n mod k + 1)\<close> by (simp add: algebra_simps)
    then have "(n + 1) mod k = 0" by simp
    with False show False ..
  qed
  ultimately have "n mod k + 1 < k" "n + 1 = k * (n div k) + (n mod k + 1)" by simp_all
  moreover have "0 \<le> n mod k + 1" using assms by (simp add: add_nonneg_nonneg)
  ultimately have "(n + 1) div k = n div k" by (intro int_div_pos_eq) simp_all
  with False show ?thesis by simp
qed

lemma year_length: "year_start (y + 1) = year_start y + (if leap_year (y + 1) then 366 else 365)"
proof -
  have days: "(if p4 \<and> (\<not> p100 \<or> p400) then 366 else 365 :: int)
      = 365 + (if p4 then 1 else 0) - (if p100 then 1 else 0) + (if p400 then 1 else 0)"
    if "p400 \<longrightarrow> p100" "p100 \<longrightarrow> p4" for p4 p100 p400
    using that by (cases p4; cases p100; cases p400) simp_all
  have count: "365 * (y + 1) + (a + i) - (b + j) + (c + k) = 365 * y + a - b + c + (365 + i - j + k)" for a b c i j k :: int
    by simp
  have "4 dvd (100::int)" "100 dvd (400::int)" by simp_all
  then have h: "x mod 400 = 0 \<longrightarrow> x mod 100 = 0" "x mod 100 = 0 \<longrightarrow> x mod 4 = 0" for x :: int
    by (meson dvd_trans mod_0_imp_dvd mod_eq_0_iff_dvd)+
  have k: "1 < (4::int)" "1 < (100::int)" "1 < (400::int)" by simp_all
  show ?thesis
    unfolding year_start_def div_succ_eq [OF k(1)] div_succ_eq [OF k(2)] div_succ_eq [OF k(3)] leap_year_def
    unfolding days [OF h(1) [of "y + 1"] h(2) [of "y + 1"]] by (rule count)
qed

lemma mod_era:
  fixes y era k :: int
  assumes "400 = q * k"
  shows "(y + era * 400) mod k = y mod k"
proof -
  have "y + era * 400 = y + (era * q) * k" by (simp only: assms mult.assoc)
  then show ?thesis by (simp only: mod_mult_self1)
qed

lemma leap_year_era: "leap_year (y + era * 400) = leap_year y"
proof -
  have "(y + era * 400) mod 4 = y mod 4" by (rule mod_era [of 100]) simp
  moreover have "(y + era * 400) mod 100 = y mod 100" by (rule mod_era [of 4]) simp
  moreover have "(y + era * 400) mod 400 = y mod 400" by (rule mod_era [of 1]) simp
  ultimately show ?thesis by (simp only: leap_year_def)
qed

text \<open>A day of the year counted from March, its month and day.\<close>

lemma month_table:
  fixes mp doy :: int
  assumes "153 * mp \<le> 5 * doy + 2" and "5 * doy + 2 < 153 * mp + 153" and "doy < (if leap then 366 else 365)"
    and "mp \<in> {0, 1, 2, 3, 4, 5, 6, 7, 8, 9, 10, 11}"
  shows "1 \<le> doy - (153 * mp + 2) div 5 + 1
    \<and> doy - (153 * mp + 2) div 5 + 1 \<le> month_length leap (if mp < 10 then mp + 3 else mp - 9)"
  using assms(4)
  by (elim insertE emptyE; use assms(1-3) in \<open>simp add: month_length_def split: if_splits\<close>)

lemma month_of_day:
  fixes doy :: int
  assumes "0 \<le> doy" and "doy < (if leap then 366 else 365)"
  defines "mp \<equiv> (5 * doy + 2) div 153"
  shows "0 \<le> mp \<and> mp \<le> 11 \<and> 1 \<le> doy - (153 * mp + 2) div 5 + 1
    \<and> doy - (153 * mp + 2) div 5 + 1 \<le> month_length leap (if mp < 10 then mp + 3 else mp - 9)"
proof -
  have bounds: "153 * mp \<le> 5 * doy + 2" "5 * doy + 2 < 153 * mp + 153" unfolding mp_def by presburger+
  have "doy \<le> 365" using assms(2) by (auto split: if_splits)
  then have mp: "0 \<le> mp" "mp \<le> 11" using bounds assms(1) by linarith+
  then have "mp \<in> {0, 1, 2, 3, 4, 5, 6, 7, 8, 9, 10, 11}" by (simp only: insert_iff empty_iff) presburger
  from month_table [OF bounds assms(2) this] mp show ?thesis by blast
qed

lemma civil_days:
  assumes "civil t = (y, m, d)"
  shows "days_of_civil y m d = t \<and> 1 \<le> m \<and> m \<le> 12 \<and> 1 \<le> d \<and> d \<le> month_length (leap_year y) m"
proof -
  define z where "z = t + 719468"
  define era where "era = z div 146097"
  define doe where "doe = z - era * 146097"
  define yoe where "yoe = year_scale doe div 365"
  define doy where "doy = doe - (365 * yoe + yoe div 4 - yoe div 100)"
  define mp where "mp = (5 * doy + 2) div 153"
  have c: "m = (if mp < 10 then mp + 3 else mp - 9)" "d = doy - (153 * mp + 2) div 5 + 1"
    "y = yoe + era * 400 + (if m \<le> 2 then 1 else 0)"
    using assms unfolding civil_def z_def [symmetric] Let_def era_def [symmetric] doe_def [symmetric]
      year_scale_def [symmetric] yoe_def [symmetric] doy_def [symmetric] mp_def [symmetric] by auto
  have "0 \<le> doe" "doe < 146097"
    unfolding doe_def era_def by (simp_all add: minus_div_mult_eq_mod)
  from year_index [OF this] have yoe: "0 \<le> yoe" "yoe < 400" "year_start yoe \<le> doe" "doe < year_start (yoe + 1)"
    by (simp_all add: yoe_def)
  have doy_eq: "doy = doe - year_start yoe" using yoe by (simp add: doy_def year_start_def)
  then have doy: "0 \<le> doy" "doy < (if leap_year (yoe + 1) then 366 else 365)"
    using yoe year_length [of yoe] by auto
  note md = month_of_day [OF doy, folded mp_def, folded c(1,2)]
  then have m: "1 \<le> m" "m \<le> 12" using c(1) by (auto split: if_splits)
  have len: "d \<le> month_length (leap_year y) m"
  proof (cases "m = 2")
    case True
    then have "y = (yoe + 1) + era * 400" using c(3) by simp
    then have "leap_year y = leap_year (yoe + 1)" by (simp only: leap_year_era)
    with md True show ?thesis by (simp add: month_length_def)
  next
    case False
    with md show ?thesis by (simp add: month_length_def)
  qed
  have y': "(if m \<le> 2 then y - 1 else y) = yoe + era * 400" using c(3) by simp
  have e: "(yoe + era * 400) div 400 = era" using yoe by simp
  have mp': "(if m > 2 then m - 3 else m + 9) = mp" using c(1) md by (auto split: if_splits)
  have "days_of_civil y m d = era * 146097 + (yoe * 365 + yoe div 4 - yoe div 100 + ((153 * mp + 2) div 5 + d - 1)) - 719468"
    unfolding days_of_civil_def Let_def y' e mp' by simp
  also have "\<dots> = era * 146097 + doe - 719468" using c(2) by (simp add: doy_def)
  also have "\<dots> = t" by (simp add: doe_def z_def)
  finally show ?thesis using len md m by simp
qed

section \<open>Numbers as text\<close>

lemma digit_chars: "list_all (\<lambda>n. digit_val (char_of (48 + n)) = Some (nat n)) [0..9 :: int]"
  by code_simp

lemma digit_char:
  fixes n :: int
  assumes "0 \<le> n" and "n < 10"
  shows "digit_val (char_of (48 + n)) = Some (nat n)"
proof -
  from assms have "n \<in> set [0..9]" unfolding set_upto atLeastAtMost_iff by linarith
  with digit_chars show ?thesis unfolding list_all_iff by blast
qed

lemma read_count: "fst (read_digits a n s) = fst (read_digits a m s)"
  by (induction s arbitrary: a n m) (simp_all split: option.split del: digit_val.simps)

lemma read_snoc:
  assumes "all_digits s" and "digit_val c = Some d"
  shows "fst (read_digits a n (s @ [c])) = 10 * fst (read_digits a n s) + d"
  using assms(1) by (induction s arbitrary: a n) (auto simp: all_digits_def assms(2) simp del: digit_val.simps)

lemma all_digits_append [simp]: "all_digits (s @ t) \<longleftrightarrow> all_digits s \<and> all_digits t"
  by (simp add: all_digits_def)

lemma digits_read: "0 \<le> n \<Longrightarrow> all_digits (digits n) \<and> int (fst (read_digits 0 0 (digits n))) = n"
proof (induction n rule: digits.induct)
  case (1 n)
  show ?case
  proof (cases "n < 10")
    case True
    with 1 have "digit_val (char_of (48 + n)) = Some (nat n)" by (intro digit_char) auto
    with True 1 show ?thesis by (subst (1 2) digits.simps) (simp add: all_digits_def del: digit_val.simps)
  next
    case False
    have d: "digit_val (char_of (48 + n mod 10)) = Some (nat (n mod 10))" by (intro digit_char) auto
    from 1 False have IH: "all_digits (digits (n div 10))" "int (fst (read_digits 0 0 (digits (n div 10)))) = n div 10" by auto
    from False have "digits n = digits (n div 10) @ [char_of (48 + n mod 10)]" by (subst digits.simps) simp
    with IH d show ?thesis by (simp add: read_snoc all_digits_def del: digit_val.simps)
  qed
qed

lemma digits_length: "0 \<le> n \<Longrightarrow> n < 10 ^ Suc k \<Longrightarrow> length (digits n) \<le> Suc k"
proof (induction k arbitrary: n)
  case 0
  then show ?case by (subst digits.simps) simp
next
  case (Suc k)
  have "n div 10 < 10 ^ Suc k" using Suc.prems(2) by simp
  with Suc show ?case by (subst digits.simps) auto
qed

lemma zeros_read: "fst (read_digits 0 n (replicate k (CHR ''0'') @ s)) = fst (read_digits 0 0 s)"
proof (induction k arbitrary: n)
  case 0
  show ?case by (simp add: read_count [of 0 n s 0])
qed simp

lemma all_digits_zeros: "all_digits (replicate k (CHR ''0''))"
  by (simp add: all_digits_def list_all_iff)

lemma number_of_pad:
  assumes "0 \<le> i" and "i < 10 ^ Suc k"
  shows "number_of (Suc k) (pad_zeros (Suc k) (str_int i)) = Some i"
    and "length (pad_zeros (Suc k) (str_int i)) = Suc k" and "all_digits (pad_zeros (Suc k) (str_int i))"
proof -
  show len: "length (pad_zeros (Suc k) (str_int i)) = Suc k"
    using digits_length [OF assms] assms(1) by (simp add: pad_zeros_def str_int_def)
  show dig: "all_digits (pad_zeros (Suc k) (str_int i))"
    using digits_read [OF assms(1)] assms(1) by (simp add: pad_zeros_def str_int_def all_digits_zeros)
  show "number_of (Suc k) (pad_zeros (Suc k) (str_int i)) = Some i"
    using len dig digits_read [OF assms(1)] assms(1) by (simp add: number_of_def pad_zeros_def str_int_def zeros_read)
qed

lemma number_of_pad2:
  assumes "0 \<le> i" and "i < 100"
  shows "number_of 2 (pad2 i) = Some i" and "length (pad2 i) = 2" and "all_digits (pad2 i)"
  using number_of_pad [of i 1] assms by (simp_all add: pad2_def numeral_2_eq_2)

section \<open>Writing and reading\<close>

lemma read_iso_date:
  assumes "1 \<le> fst (civil d)" and "fst (civil d) \<le> 9999"
  shows "read_date (iso_date d) = Some d" and "length (iso_date d) = 10"
proof -
  obtain y m dd where c: "civil d = (y, m, dd)" by (metis prod.collapse)
  note cd = civil_days [OF c]
  have y: "number_of 4 (pad_zeros 4 (str_int y)) = Some y" "length (pad_zeros 4 (str_int y)) = 4"
    using number_of_pad [of y 3] assms c by (simp_all add: numeral_eq_Suc)
  have "dd \<le> 31" using cd by (auto simp: month_length_def split: if_splits)
  note m = number_of_pad2 [of m] and dd = number_of_pad2 [of dd]
  have len: "length (pad2 m) = 2" "length (pad2 dd) = 2" using m dd cd \<open>dd \<le> 31\<close> by auto
  have shape: "iso_date d = pad_zeros 4 (str_int y) @ ''-'' @ pad2 m @ ''-'' @ pad2 dd" by (simp add: iso_date_def c)
  show "length (iso_date d) = 10" using y len by (simp add: shape)
  show "read_date (iso_date d) = Some d"
    using y len m dd cd \<open>dd \<le> 31\<close> assms c by (simp add: shape read_date_def nth_append valid_date_def)
qed

lemma clock_parts:
  fixes t :: int
  defines "x \<equiv> t mod 86400000000"
  shows "(t div 1000000) mod 60 = (x div 1000000) mod 60" and "t mod 1000000 = x mod 1000000"
    and "minute_of_day t = x div 1000000 div 60"
    and "seconds (3600 * (minute_of_day t div 60) + 60 * (minute_of_day t mod 60) + (t div 1000000) mod 60) + t mod 1000000 = x"
    and "0 \<le> minute_of_day t div 60 \<and> minute_of_day t div 60 \<le> 23"
proof -
  have t: "t = x + (t div 86400000000 * 86400) * 1000000" by (simp add: x_def)
  have s: "t div 1000000 = x div 1000000 + t div 86400000000 * 86400" by (subst t) simp
  show a: "(t div 1000000) mod 60 = (x div 1000000) mod 60"
    unfolding s using mod_mult_self1 [of "x div 1000000" "t div 86400000000 * 1440" 60] by (simp add: mult.assoc)
  show b: "t mod 1000000 = x mod 1000000" by (subst t) (rule mod_mult_self1)
  show c: "minute_of_day t = x div 1000000 div 60" by (simp add: minute_of_day_def x_def div_mult2_eq [symmetric] zdiv_zmult2_eq
      [symmetric])
  have "0 \<le> x" "x < 86400000000" by (simp_all add: x_def)
  then have q: "0 \<le> x div 1000000" "x div 1000000 < 86400" by simp_all
  have "(x div 1000000) div 3600 \<le> 86399 div 3600" using q(2) by (intro zdiv_mono1) simp_all
  then have "x div 1000000 div 60 div 60 \<le> 23" using zdiv_zmult2_eq [of 60 "x div 1000000" 60] by simp
  moreover have "0 \<le> x div 1000000 div 60 div 60" using q(1) by (simp add: pos_imp_zdiv_nonneg_iff)
  ultimately show "0 \<le> minute_of_day t div 60 \<and> minute_of_day t div 60 \<le> 23" unfolding c by (rule conjI [rotated])
  have "3600 * (w div 60 div 60) + 60 * (w div 60 mod 60) + w mod 60 = w" for w :: int
    using mult_div_mod_eq [of 60 w] mult_div_mod_eq [of 60 "w div 60"] by linarith
  from this [of "x div 1000000"] mult_div_mod_eq [of 1000000 x]
  show "seconds (3600 * (minute_of_day t div 60) + 60 * (minute_of_day t mod 60) + (t div 1000000) mod 60) + t mod 1000000 = x"
    unfolding a b c seconds_def by (simp only: mult.commute)
qed

text \<open>The clock part of \<open>isoformat\<close>.\<close>

definition iso_clock :: "int \<Rightarrow> string" where
  "iso_clock t =
     pad2 (minute_of_day t div 60) @ '':'' @ pad2 (minute_of_day t mod 60) @ '':'' @ pad2 ((t div 1000000) mod 60)
     @ (if t mod 1000000 = 0 then [] else CHR ''.'' # pad_zeros 6 (str_int (t mod 1000000)))"

lemma isoformat_parts: "isoformat t = iso_date (date_of t) @ ''T'' @ iso_clock t"
  by (simp add: isoformat_def iso_clock_def Let_def)

lemma read_iso_clock: "read_time (iso_clock t) = Some (t mod 86400000000)"
  and iso_clock_chars: "\<forall>c \<in> set (iso_clock t). \<not> zone_sign c"
proof -
  let ?h = "minute_of_day t div 60" and ?m = "minute_of_day t mod 60" and ?s = "(t div 1000000) mod 60" and ?u = "t mod 1000000"
  have h: "number_of 2 (pad2 ?h) = Some ?h" "length (pad2 ?h) = 2" "all_digits (pad2 ?h)"
    using number_of_pad2 [of ?h] clock_parts(5) [of t] by auto
  have m: "number_of 2 (pad2 ?m) = Some ?m" "length (pad2 ?m) = 2" "all_digits (pad2 ?m)"
    and s: "number_of 2 (pad2 ?s) = Some ?s" "length (pad2 ?s) = 2" "all_digits (pad2 ?s)"
  proof -
    have "0 \<le> x mod 60" "x mod 60 < 100" for x :: int using pos_mod_bound [of 60 x] by simp_all
    from number_of_pad2 [OF this] show "number_of 2 (pad2 ?m) = Some ?m" "length (pad2 ?m) = 2" "all_digits (pad2 ?m)"
      "number_of 2 (pad2 ?s) = Some ?s" "length (pad2 ?s) = 2" "all_digits (pad2 ?s)" by auto
  qed
  have u: "number_of 6 (pad_zeros 6 (str_int ?u)) = Some ?u" "length (pad_zeros 6 (str_int ?u)) = 6" "all_digits (pad_zeros 6
      (str_int ?u))"
    using number_of_pad [of ?u 5] by (simp_all add: numeral_eq_Suc)
  let ?f = "if ?u = 0 then [] else CHR ''.'' # pad_zeros 6 (str_int ?u)"
  have frac: "read_fraction ?f = Some ?u"
    using u by (cases "pad_zeros 6 (str_int ?u)") (auto simp: read_fraction_def)
  have le: "x mod 60 \<le> 59" for x :: int using pos_mod_bound [of 60 x] by simp
  have "valid_time ?h ?m ?s ?u = Some (t mod 86400000000)"
    unfolding valid_time_def clock_parts(4) using clock_parts(5) [of t] le [of "minute_of_day t"] le [of "t div 1000000"] by simp
  then show "read_time (iso_clock t) = Some (t mod 86400000000)"
    using h(1,2) m(1,2) s(1,2) frac by (simp add: iso_clock_def read_time_def nth_append)
  have digit: "all_digits w \<Longrightarrow> c \<in> set w \<Longrightarrow> \<not> zone_sign c" for w c
    by (auto simp: all_digits_def list_all_iff zone_sign_def)
  show "\<forall>c \<in> set (iso_clock t). \<not> zone_sign c"
    using h(3) m(3) s(3) u(3) by (auto simp: iso_clock_def zone_sign_def dest: digit split: if_splits)
qed

section \<open>Properties\<close>

text \<open>C40. A time that was written as text is read back as the same time: from \<open>isoformat\<close> as a time without
    zone, and
  with the offset of UTC behind it as the same instant, for every time a datetime can hold.\<close>

theorem written_times_are_read_back:
  assumes "1 \<le> fst (civil (date_of t))" and "fst (civil (date_of t)) \<le> 9999"
  shows "fromisoformat (isoformat t) = Some (t, None) \<and> parse_dt (PStr (isoformat t)) = Some t
    \<and> parse_dt (PStr (isoformat t @ ''+00:00'')) = Some t"
proof -
  note d = read_iso_date [OF assms]
  have t: "days (date_of t) + t mod 86400000000 = t" by (simp add: days_def seconds_def date_of_def)
  have clock: "takeWhile (\<lambda>c. \<not> zone_sign c) (iso_clock t) = iso_clock t" "dropWhile (\<lambda>c. \<not> zone_sign
      c) (iso_clock t) = []"
    "takeWhile (\<lambda>c. \<not> zone_sign c) (iso_clock t @ z) = iso_clock t @ takeWhile (\<lambda>c. \<not> zone_sign c) z"
    "dropWhile (\<lambda>c. \<not> zone_sign c) (iso_clock t @ z) = dropWhile (\<lambda>c. \<not> zone_sign c) z" for z
    using iso_clock_chars [of t] by (simp_all add: takeWhile_append2 dropWhile_append2)
  have off: "read_offset ''+00:00'' = Some (Some 0)" by code_simp
  have sign: "zone_sign (CHR ''+'')" by (simp add: zone_sign_def)
  have plain: "fromisoformat (isoformat t) = Some (t, None)"
    using d t by (simp add: isoformat_parts fromisoformat_def Let_def clock(1,2) read_iso_clock read_offset_def)
  have zoned: "fromisoformat (isoformat t @ ''+00:00'') = Some (t, Some 0)"
    using d t off sign by (simp add: isoformat_parts fromisoformat_def Let_def clock(3,4) read_iso_clock)
  have "isoformat t \<noteq> []" by (simp add: isoformat_parts)
  with plain zoned show ?thesis by (simp add: parse_dt_def parse_datetime_def as_utc_def)
qed

theorem written_times_are_read_back_witness:
  "fromisoformat (isoformat 1781107200000001) = Some (1781107200000001, None)"
proof -
  have "1 \<le> fst (civil (date_of 1781107200000001))" "fst (civil (date_of 1781107200000001)) \<le> 9999" by code_simp+
  from written_times_are_read_back [OF this] show ?thesis by blast
qed

end
