(* ===== verification/Futu_Data.thy ===== *)
theory Futu_Data
  imports Time_Text Futu_Provider
begin

text \<open>
  app/providers/futu_provider.py, what is left of it: the connection to the quotes, which is opened
  once and kept, the watch list, and the history of bars. The texts of time of the gateway are read
  with \<open>strptime\<close>; the wording of its ValueError is not modelled. A call of the SDK answers with rows
  or with an error text; it is a parameter, and so is the opening of the connection.
\<close>

section \<open>Reading a time by its format\<close>

definition cut :: "char \<Rightarrow> string \<Rightarrow> (string \<times> string) option" where
  "cut c s = (if c \<in> set s then Some (takeWhile (\<lambda>x. x \<noteq> c) s, tl (dropWhile (\<lambda>x. x \<noteq> c) s))
      else None)"

text \<open>A field has one or two digits; only the day may have a blank in place of its first digit.\<close>

definition field :: "int \<Rightarrow> int \<Rightarrow> string \<Rightarrow> int option" where
  "field lo hi s =
     (case number_of (if length s = 1 then 1 else 2) s of
        None \<Rightarrow> None
      | Some n \<Rightarrow> if lo \<le> n \<and> n \<le> hi then Some n else None)"

definition day_field :: "string \<Rightarrow> int option" where
  "day_field s =
     (case s of
        c # r \<Rightarrow> if c = CHR '' '' \<and> length r = 1 then field 1 9 r else field 1 31 s
      | [] \<Rightarrow> None)"

definition date_fields :: "string \<Rightarrow> string \<Rightarrow> string \<Rightarrow> int option" where
  "date_fields y m d =
     (case (number_of 4 y, field 1 12 m, day_field d) of
        (Some y', Some m', Some d') \<Rightarrow> valid_date y' m' d'
      | _ \<Rightarrow> None)"

definition clock_fields :: "string \<Rightarrow> int option" where
  "clock_fields s =
     (case cut (CHR '':'') s of
        None \<Rightarrow> None
      | Some (h, r) \<Rightarrow>
          (case cut (CHR '':'') r of
             None \<Rightarrow> None
           | Some (mi, sec) \<Rightarrow>
               (case (field 0 23 h, field 0 59 mi, field 0 59 sec) of
                  (Some h', Some mi', Some s') \<Rightarrow> valid_time h' mi' s' 0
                | _ \<Rightarrow> None)))"

text \<open>The formats \<open>%Y-%m-%d\<close> and \<open>%Y-%m-%d %H:%M:%S\<close>; the blank of the second stands for any
    number of blanks.\<close>

definition strptime_date :: "string \<Rightarrow> int option" where
  "strptime_date s =
     (case cut (CHR ''-'') s of
        None \<Rightarrow> None
      | Some (y, r) \<Rightarrow>
          (case cut (CHR ''-'') r of
             None \<Rightarrow> None
           | Some (m, d) \<Rightarrow> map_option days (date_fields y m d)))"

definition day_width :: "string \<Rightarrow> nat" where
  "day_width r = (if take 1 r = '' '' then 2 else length (takeWhile (\<lambda>c. \<not> is_space c) r))"

definition strptime_datetime :: "string \<Rightarrow> int option" where
  "strptime_datetime s =
     (case cut (CHR ''-'') s of
        None \<Rightarrow> None
      | Some (y, r) \<Rightarrow>
          (case cut (CHR ''-'') r of
             None \<Rightarrow> None
           | Some (m, dt) \<Rightarrow>
               (let n = day_width dt; blank = takeWhile is_space (drop n dt)
                in if blank = [] then None
                   else (case (date_fields y m (take n dt), clock_fields (drop (n + length blank) dt)) of
                           (Some d, Some t) \<Rightarrow> Some (days d + t)
                         | _ \<Rightarrow> None))))"

definition bar_time :: "string \<Rightarrow> int option" where
  "bar_time s = (if CHR '' '' \<in> set s then strptime_datetime s else strptime_date s)"

section \<open>The connection\<close>

text \<open>The object: its connection, and the times of its requests.\<close>

record 'c futu_state =
  fs_quote_ctx :: "'c option"
  fs_last_history_request_at :: real
  fs_stock_filter_requests :: "real list"

definition futu_provider_init :: "'c futu_state" where
  "futu_provider_init = \<lparr>fs_quote_ctx = None, fs_last_history_request_at = 0, fs_stock_filter_requests = []\<rparr>"

text \<open>Opening fails when the library is not installed or the gateway is not there.\<close>

definition quote_context :: "exn + 'c \<Rightarrow> 'c futu_state \<Rightarrow> (exn + 'c) \<times> 'c futu_state" where
  "quote_context opened st =
     (case fs_quote_ctx st of
        Some c \<Rightarrow> (Inr c, st)
      | None \<Rightarrow>
          (case opened of
             Inl e \<Rightarrow> (Inl e, st)
           | Inr c \<Rightarrow> (Inr c, st\<lparr>fs_quote_ctx := Some c\<rparr>)))"

definition futu_provider_close :: "'c futu_state \<Rightarrow> 'c futu_state" where
  "futu_provider_close st = st\<lparr>fs_quote_ctx := None\<rparr>"

section \<open>The watch list\<close>

text \<open>The group of the settings, or one that is found; its securities.\<close>

definition futu_get_watchlist ::
  "exn + 'c \<Rightarrow> ('c \<Rightarrow> string + row list) \<Rightarrow> ('c \<Rightarrow> string \<Rightarrow> string + row
      list) \<Rightarrow> string
     \<Rightarrow> 'c futu_state \<Rightarrow> (exn + watch_row list) \<times> 'c futu_state" where
  "futu_get_watchlist opened groups securities group_name st =
     (case quote_context opened st of
        (Inl e, st') \<Rightarrow> (Inl e, st')
      | (Inr c, st') \<Rightarrow>
          (case (if group_name \<noteq> [] then Inr group_name else discover_watchlist_group (groups c)) of
             Inl e \<Rightarrow> (Inl e, st')
           | Inr g \<Rightarrow>
               (case securities c g of
                  Inl e \<Rightarrow> (Inl (RuntimeError (''Futu get_user_security failed: '' @ e)), st')
                | Inr rows \<Rightarrow> (Inr (watch_rows rows), st'))))"

section \<open>The history of bars\<close>

definition KLINE_TYPES :: "(timeframe \<times> string) list" where
  "KLINE_TYPES = [(DAILY, ''K_DAY''), (HOUR_60, ''K_60M''), (MIN_15, ''K_15M''), (MIN_5, ''K_5M'')]"

definition kline_type :: "string \<Rightarrow> exn + timeframe \<times> string" where
  "kline_type tf =
     (case List.find (\<lambda>k. timeframe_text (fst k) = tf) KLINE_TYPES of
        None \<Rightarrow> Inl (ValueError (''unsupported Futu timeframe: '' @ tf))
      | Some k \<Rightarrow> Inr k)"

text \<open>\<open>row[k]\<close>, and \<open>row.get(k, 0)\<close>, which keeps a None that is there.\<close>

definition required_float :: "row \<Rightarrow> string \<Rightarrow> exn + real" where
  "required_float r k =
     (case map_of r k of
        None \<Rightarrow> Inl (OtherError (CHR 39 # k @ [CHR 39]))
      | Some v \<Rightarrow> py_float v)"

definition row_get_0 :: "row \<Rightarrow> string \<Rightarrow> pyval" where
  "row_get_0 r k = (case map_of r k of None \<Rightarrow> PInt 0 | Some v \<Rightarrow> v)"

definition bar_of_row :: "string \<Rightarrow> timeframe \<Rightarrow> row \<Rightarrow> exn + bar" where
  "bar_of_row symbol tf r =
     (let raw = py_str (py_or (row_get r ''time_key'') (row_get r ''date''))
      in case bar_time raw of
           None \<Rightarrow> Inl (ValueError (''time data does not match format: '' @ raw))
         | Some t \<Rightarrow>
           (case required_float r ''open'' of Inl e \<Rightarrow> Inl e | Inr op \<Rightarrow>
           (case required_float r ''high'' of Inl e \<Rightarrow> Inl e | Inr hi \<Rightarrow>
           (case required_float r ''low'' of Inl e \<Rightarrow> Inl e | Inr lo \<Rightarrow>
           (case required_float r ''close'' of Inl e \<Rightarrow> Inl e | Inr cl \<Rightarrow>
           (case py_float (row_get_0 r ''volume'') of Inl e \<Rightarrow> Inl e | Inr vol \<Rightarrow>
           (case float_or_0 (row_get_0 r ''turnover'') of Inl e \<Rightarrow> Inl e | Inr tu \<Rightarrow>
              Inr \<lparr>ba_symbol = py_upper symbol, ba_timeframe = tf, ba_ts = t, ba_open = op, ba_high = hi, ba_low = lo,
                   ba_close = cl, ba_volume = vol, ba_turnover = tu\<rparr>)))))))"

fun bars_of_rows :: "string \<Rightarrow> timeframe \<Rightarrow> row list \<Rightarrow> exn + bar list" where
  "bars_of_rows symbol tf [] = Inr []"
| "bars_of_rows symbol tf (r # rs) =
     (case bar_of_row symbol tf r of
        Inl e \<Rightarrow> Inl e
      | Inr b \<Rightarrow> (case bars_of_rows symbol tf rs of Inl e \<Rightarrow> Inl e | Inr bs \<Rightarrow> Inr (b # bs)))"

text \<open>
  The clock is read before the wait and again after it. The answer, how long the call slept, and the object.
\<close>

definition futu_get_klines ::
  "exn + 'c \<Rightarrow> ('c \<Rightarrow> string \<Rightarrow> string option \<Rightarrow> string option \<Rightarrow> string
      \<Rightarrow> string + row list) \<Rightarrow> real \<Rightarrow> real
     \<Rightarrow> string \<Rightarrow> string \<Rightarrow> int option \<Rightarrow> int option \<Rightarrow> 'c futu_state
         \<Rightarrow> (exn + bar list) \<times> real \<times> 'c futu_state" where
  "futu_get_klines opened request now requested_at symbol tf start_at end_at st =
     (case quote_context opened st of
        (Inl e, st') \<Rightarrow> (Inl e, 0, st')
      | (Inr c, st') \<Rightarrow>
          (case kline_type tf of
             Inl e \<Rightarrow> (Inl e, 0, st')
           | Inr (timeframe, ktype) \<Rightarrow>
               (let day = map_option (\<lambda>t. iso_date (date_of t));
                    waited = history_wait now (fs_last_history_request_at st');
                    st2 = st'\<lparr>fs_last_history_request_at := requested_at\<rparr>
                in (case request c (futu_code symbol) (day start_at) (day end_at) ktype of
                      Inl e \<Rightarrow> Inl (RuntimeError (''Futu request_history_kline failed for '' @ symbol @ '' '' @ tf @
                          '': '' @ e))
                    | Inr rows \<Rightarrow> bars_of_rows symbol timeframe rows,
                    waited, st2))))"

section \<open>Lemmas\<close>

lemma cut_append: "c \<notin> set a \<Longrightarrow> cut c (a @ c # b) = Some (a, b)"
  by (induction a) (auto simp: cut_def)

lemma digit_facts:
  assumes "all_digits w"
  shows "CHR ''-'' \<notin> set w" and "CHR '':'' \<notin> set w" and "c \<in> set w \<Longrightarrow> \<not> is_space c"
  using assms by (auto simp: all_digits_def list_all_iff is_space_def Let_def split: if_splits)

lemma field_pad2: "0 \<le> i \<Longrightarrow> i < 100 \<Longrightarrow> lo \<le> i \<Longrightarrow> i \<le> hi
    \<Longrightarrow> field lo hi (pad2 i) = Some i"
  by (simp add: field_def number_of_pad2)

lemma day_field_pad2:
  assumes "1 \<le> i" and "i \<le> 31"
  shows "day_field (pad2 i) = Some i"
proof -
  have "length (pad2 i) = 2" using number_of_pad2 [of i] assms by simp
  then obtain a b where "pad2 i = [a, b]" by (auto simp: numeral_2_eq_2 length_Suc_conv)
  moreover have "a \<noteq> CHR '' ''" using digit_facts(3) [OF number_of_pad2(3) [of i], of a] calculation assms by (auto simp:
      is_space_def)
  ultimately show ?thesis using field_pad2 [of i 1 31] assms by (simp add: day_field_def)
qed

text \<open>The text of the gateway for a time without fractions of a second.\<close>

definition gateway_time :: "int \<Rightarrow> string" where
  "gateway_time t = iso_date (date_of t) @ '' '' @ pad2 (minute_of_day t div 60) @ '':'' @ pad2 (minute_of_day t mod 60)
     @ '':'' @ pad2 ((t div 1000000) mod 60)"

lemma gateway_time_read:
  assumes "1 \<le> fst (civil (date_of t))" and "fst (civil (date_of t)) \<le> 9999" and "t mod 1000000 = 0"
  shows "bar_time (gateway_time t) = Some t"
proof -
  obtain y m d where c: "civil (date_of t) = (y, m, d)" by (metis prod.collapse)
  note cd = civil_days [OF c]
  have d31: "d \<le> 31" using cd by (auto simp: month_length_def split: if_splits)
  have le: "0 \<le> x mod 60 \<and> x mod 60 \<le> 59" for x :: int using pos_mod_bound [of 60 x] by simp
  let ?y = "pad_zeros 4 (str_int y)" and ?h = "minute_of_day t div 60" and ?mi = "minute_of_day t mod 60" and ?s = "(t div
      1000000) mod 60"
  have y: "number_of 4 ?y = Some y" "all_digits ?y" using number_of_pad [of y 3] assms c by (simp_all add: numeral_eq_Suc)
  have h: "0 \<le> ?h" "?h \<le> 23" using clock_parts(5) [of t] by auto
  have digits: "all_digits (pad2 m)" "all_digits (pad2 d)" "all_digits (pad2 ?h)" "all_digits (pad2 ?mi)"
    using number_of_pad2(3) [of m] number_of_pad2(3) [of d] number_of_pad2(3) [of ?h] number_of_pad2(3) [of ?mi] cd d31 h le [of
        "minute_of_day t"] by auto
  have clock: "clock_fields (pad2 ?h @ '':'' @ pad2 ?mi @ '':'' @ pad2 ?s) = Some (t mod 86400000000)"
  proof -
    have "field 0 23 (pad2 ?h) = Some ?h" "field 0 59 (pad2 ?mi) = Some ?mi" "field 0 59 (pad2 ?s) = Some ?s"
      using field_pad2 [of ?h 0 23] field_pad2 [of ?mi 0 59] field_pad2 [of ?s 0 59] h le [of "minute_of_day t"] le [of "t div
          1000000"] by auto
    moreover have "valid_time ?h ?mi ?s 0 = Some (t mod 86400000000)"
      using clock_parts(4) [of t] h(2) le [of "minute_of_day t"] le [of "t div 1000000"] assms(3) by (simp add: valid_time_def)
    ultimately show ?thesis
      using digit_facts(2) [OF digits(3)] digit_facts(2) [OF digits(4)] by (simp add: clock_fields_def cut_append)
  qed
  have date: "date_fields ?y (pad2 m) (pad2 d) = Some (date_of t)"
    using y field_pad2 [of m 1 12] day_field_pad2 [of d] cd d31 assms c by (simp add: date_fields_def valid_date_def)
  have len: "length (pad2 d) = 2" "length (pad2 ?h) = 2" using number_of_pad2(2) [of d] number_of_pad2(2) [of ?h] cd d31 h by auto
  then obtain d1 d2 h1 h2 where p: "pad2 d = [d1, d2]" "pad2 ?h = [h1, h2]" by (auto simp: numeral_2_eq_2 length_Suc_conv)
  have nb: "\<not> is_space d1" "\<not> is_space d2" "\<not> is_space h1"
    using digit_facts(3) [OF digits(2)] digit_facts(3) [OF digits(3)] p by auto
  have blank: "is_space (CHR '' '')" by code_simp
  have "day_width (pad2 d @ '' '' @ r) = 2" for r using nb blank by (auto simp: day_width_def p)
  moreover have "CHR '' '' \<in> set (gateway_time t)" by (simp add: gateway_time_def)
  moreover have "gateway_time t = ?y @ CHR ''-'' # pad2 m @ CHR ''-'' # pad2 d @ '' '' @ pad2 ?h @ '':'' @ pad2 ?mi @ '':'' @
      pad2 ?s"
    by (simp add: gateway_time_def iso_date_def c)
  moreover have "days (date_of t) + t mod 86400000000 = t" by (simp add: days_def seconds_def date_of_def)
  ultimately show ?thesis
    using digit_facts(1) [OF y(2)] digit_facts(1) [OF digits(1)] clock date nb blank len(1) p(2)
    by (simp add: bar_time_def strptime_datetime_def cut_append)
qed

text \<open>The row of a bar, with its numbers as numbers.\<close>

definition gateway_row :: "(real \<Rightarrow> string) \<Rightarrow> bar \<Rightarrow> row" where
  "gateway_row show_float b =
     (let num = (\<lambda>x. PFloat x (show_float x))
      in [(''code'', PStr (futu_code (ba_symbol b))), (''time_key'', PStr (gateway_time (ba_ts b))), (''open'', num (ba_open b)),
          (''close'', num (ba_close b)), (''high'', num (ba_high b)), (''low'', num (ba_low b)),
          (''volume'', num (ba_volume b)), (''turnover'', num (ba_turnover b))])"

lemma row_bar_read:
  assumes "1 \<le> fst (civil (date_of (ba_ts b)))" and "fst (civil (date_of (ba_ts b))) \<le> 9999" and "ba_ts b mod 1000000 = 0"
    and "ba_symbol b = py_upper symbol"
  shows "bar_of_row symbol (ba_timeframe b) (gateway_row show_float b) = Inr b"
proof -
  have "gateway_time (ba_ts b) \<noteq> []" by (simp add: gateway_time_def)
  then show ?thesis
    using gateway_time_read [OF assms(1-3)] assms(4)
    by (simp add: bar_of_row_def gateway_row_def row_get_def row_get_0_def required_float_def float_or_0_def py_or_def Let_def)
qed

lemma bars_of_all: "(\<And>b. b \<in> set bars \<Longrightarrow> bar_of_row symbol tf (f b) = Inr b) \<Longrightarrow>
    bars_of_rows symbol tf (map f bars) = Inr bars"
  by (induction bars) simp_all

lemma kline_type_of: "kline_type (timeframe_text tf) = Inr (tf, the (map_of KLINE_TYPES tf))"
  by (cases tf) (simp_all add: kline_type_def KLINE_TYPES_def)

theorem history_requests_keep_apart:
  assumes "futu_get_klines opened request now requested_at symbol tf start_at end_at st = (Inr bars, waited, st')"
    and "now + waited \<le> requested_at" and "fs_last_history_request_at st \<le> now"
  shows "fs_last_history_request_at st' \<ge> fs_last_history_request_at st + 55/100"
  using assms
  by (auto simp: futu_get_klines_def quote_context_def history_wait_def Let_def split: option.splits sum.splits if_splits
      prod.splits)

section \<open>Properties\<close>

text \<open>The bars that the gateway sends are the bars the program works with: every row is read as its bar, with its
    time, its
  prices and its volume, in the order sent, whatever the timeframe; and a time frame that the gateway does not
  know is refused before anything is asked.\<close>

theorem gateway_bars_are_read:
  assumes "quote_context opened st = (Inr c, st')"
    and "request c (futu_code symbol) (map_option (\<lambda>t. iso_date (date_of t)) start_at) (map_option (\<lambda>t. iso_date
        (date_of t)) end_at)
           (the (map_of KLINE_TYPES tf)) = Inr (map (gateway_row show_float) bars)"
    and "\<forall>b \<in> set bars. ba_symbol b = py_upper symbol \<and> ba_timeframe b = tf \<and> ba_ts b mod 1000000 = 0
           \<and> 1 \<le> fst (civil (date_of (ba_ts b))) \<and> fst (civil (date_of (ba_ts b))) \<le> 9999"
  shows "fst (futu_get_klines opened request now requested_at symbol (timeframe_text tf) start_at end_at st) = Inr bars
    \<and> ((\<forall>k \<in> set KLINE_TYPES. timeframe_text (fst k) \<noteq> other)
       \<longrightarrow> futu_get_klines opened request now requested_at symbol other start_at end_at st
             = (Inl (ValueError (''unsupported Futu timeframe: '' @ other)), 0, st'))"
proof (intro conjI impI)
  have "bar_of_row symbol tf (gateway_row show_float b) = Inr b" if "b \<in> set bars" for b
    using row_bar_read [of b symbol show_float] assms(3) that by auto
  then have "bars_of_rows symbol tf (map (gateway_row show_float) bars) = Inr bars" by (intro bars_of_all) simp
  then show "fst (futu_get_klines opened request now requested_at symbol (timeframe_text tf) start_at end_at st) = Inr bars"
    by (simp add: futu_get_klines_def assms(1,2) kline_type_of)
next
  assume "\<forall>k \<in> set KLINE_TYPES. timeframe_text (fst k) \<noteq> other"
  then have "List.find (\<lambda>k. timeframe_text (fst k) = other) KLINE_TYPES = None" by (auto simp: find_None_iff)
  then show "futu_get_klines opened request now requested_at symbol other start_at end_at st
      = (Inl (ValueError (''unsupported Futu timeframe: '' @ other)), 0, st')"
    by (simp add: futu_get_klines_def kline_type_def assms(1))
qed

definition noon_bar :: bar where
  "noon_bar = \<lparr>ba_symbol = ''AAPL'', ba_timeframe = HOUR_60, ba_ts = 1781107200000000, ba_open = 100, ba_high = 102,
      ba_low = 99,
     ba_close = 101, ba_volume = 5000, ba_turnover = 0\<rparr>"

theorem gateway_bars_are_read_witness:
  "fst (futu_get_klines (Inr ()) (\<lambda>_ _ _ _ _. Inr [gateway_row (\<lambda>_. ''1'') noon_bar]) 0 0 ''aapl'' ''60m'' None
      None futu_provider_init)
     = Inr [noon_bar]"
proof -
  have "py_upper ''aapl'' = ''AAPL''" by code_simp
  moreover have "1 \<le> fst (civil (date_of 1781107200000000))" "fst (civil (date_of 1781107200000000)) \<le> 9999" by code_simp+
  ultimately show ?thesis
    using gateway_bars_are_read [of "Inr ()" futu_provider_init "()" "futu_provider_init\<lparr>fs_quote_ctx := Some ()\<rparr>"
      "\<lambda>_ _ _ _ _. Inr [gateway_row (\<lambda>_. ''1'') noon_bar]" "''aapl''" None None HOUR_60 "\<lambda>_. ''1''"
          "[noon_bar]" 0 0 "''60m''"]
    by (simp add: quote_context_def futu_provider_init_def noon_bar_def)
qed

end
