(* ===== verification/Spec2Isabelle.thy ===== *)
theory Spec2Isabelle
  imports Sim_Loop Backtest Pipeline Task_Runner Freshness Risk_Control Auth Database
    Trade_Providers Web OpenD_Admin Performance Futu_Data
begin

text \<open>
  HeadacheTradeV2 (src/app) is a trading assistant for US stocks. A screener picks candidates, a
  scanner finds MACD bottoms and tops in their hourly bars, a ranking makes them a battle pool, the
  best become trade plans, and a loop that runs twice a minute turns triggered plans into orders of
  a simulated broker account and manages the positions. A web application shows all of it and starts
  background tasks. Everything goes through one SQLite database; the only other state is the
  broker's account.

  This library models the Python program under src/app as functions on the database and proves what
  makes its parts correct. A table is a list of rows in the order of insertion, a row a record, the
  database a record of tables; an operation takes the database, the time and the answers of the
  outside world and returns a result, or the exception it raises, and the database.

  \<^bold>\<open>The data.\<close>
  \<^item> Prelude: the Python operations the program uses (values of the broker's dictionaries,
    truthiness, \<open>or\<close>, \<open>float()\<close>, \<open>round()\<close>, string methods, time), exceptions, and queries on lists.
  \<^item> Models: the rows and enumerations of models.py, domain.py and config.py that the trading loop
    uses; Messages: the Chinese texts the program stores; Ledger: the tables of the trading loop, the
    audit trail (audit.py), the commit with its update stamps, and the broker as a record of answers.
  \<^item> Store: the tables of the daily pipeline (bars, indicators, structures, candidates, battle
    items, signals, states, logs) on top of the ledger.

  \<^bold>\<open>The trading loop\<close> (every 30 seconds; sim_loop.py).
  \<^item> Position_Sync (position_sync.py) copies the broker's positions; Order_Sync (order_sync.py)
    follows orders and fills; Reconciler (trade_reconciler.py) compares the two ledgers, keeps the
    table of issues and stores the gate for new entries.
  \<^item> Portfolio (portfolio_manager.py) reads the account and decides about capital; Validator
    (realtime_execution_validator.py) checks plans against quotes; Rules_Approval
    (rules_approval.py) decides; Executor (sim_order_executor.py) sends at most one order;
    Position_Manager (position_manager.py) moves stops and sends exits.
  \<^item> Sim_Loop (sim_loop.py) composes them; its theorem is the most important one: no entry without an
    approval, a reconciliation and an agreement of the ledgers in the same pass.

  \<^bold>\<open>The daily and hourly pipeline\<close> (pipeline.py).
  \<^item> Futu_Provider (providers/futu_provider.py) pages through the stock filter within its quotas,
    Futu_Data (the same file) reads its watch list and its history of bars, with the times as texts of
    Time_Text, whose theorem inverts the calendar; Screener (screener.py) makes and keeps the candidates; Data_Ingestion (data_ingestion.py,
    data_quality.py) stores checked bars; Indicators (indicators.py) computes their indicators.
  \<^item> Market_Trend (market.py, trend.py, daily_state.py) judges market and trend; Structures
    (structures.py) detects bottoms and tops; Battle_Pool (battle_pool.py) ranks; Trade_Plans
    (trade_plan.py) makes plans; Monitor (monitor_state.py) keeps the state shown per symbol;
    Plan_Quotes (price_alert.py, plan_prices.py) sets reminders and refreshes prices.
  \<^item> Mock_Provider (providers/base.py, providers/mock_provider.py): a data source as a record of its
    operations, and the source of made-up bars. Pipeline (pipeline.py) composes the stages into the
    runs: its theorems say what a whole run leaves behind.

  \<^bold>\<open>The state machine and its replay.\<close>
  \<^item> Entry_Trigger (entry_trigger.py, corrections.py), Risk (risk.py), State_Machine
    (state_machine.py) and Approvals (approvals.py) are the older way from a structure to a position
    by proposals a user approves; Backtest (backtest.py) replays history through them.

  \<^bold>\<open>Around them.\<close>
  \<^item> Task_Runner (task_runner.py, pipeline_lock.py): threads and processes as step relations.
  \<^item> Auth (auth.py, main.py): the password, the session cookie and the check in front of the routes;
    Risk_Control (risk_control.py): the risk settings a user changes; Freshness (freshness.py): the age
    of the data and the next renewal by the clock of New York.
  \<^item> Database (db.py, models.py): the tables and the migration at the start as statements on a schema.
  \<^item> Trade_Providers (providers/futu_trade_provider.py, providers/mock_trade_provider.py): the two brokers
    over the answers of the gateway's trade context; the first is a \<open>broker\<close> of the ledger.

  \<^bold>\<open>What the user sees and starts.\<close>
  \<^item> Presentation (presentation.py, presentation_status.py): the texts for codes, statuses, numbers and
    times. Plan_View (next_action.py, command_center.py): the thirteen checks shown for a plan, what
    blocks it and what comes next, and the command center; its theorem compares the checks with those of
    Rules_Approval.
  \<^item> View_Models (view_models.py): the rows of the pages, read in batches; its theorem says that a row of
    a batch is the row read alone. Terminal (terminal_api.py): the terminal's payloads, with the cache of
    the summary, the journal's curve and the statistics. Workbench (workbench.py): charts and playbooks.
  \<^item> Web (main.py): every route as the answer it gives. Commands (cli.py, main.py): the commands and
    background tasks under the lock of the machine. OpenD_Admin (opend_admin.py, deploy/opend_admin.py):
    both sides of the administration of the gateway. Performance (performance.py): the log of requests.
  These read the database through the same records; columns that only a page prints come as functions of
  the row (\<open>row_extras\<close> in Terminal), the JSON text of an audit row as a function of its id.

  Definitions carry the names of the functions they model; where a function is long, its parts have
  names of their own and the definition with the function's name composes them. PROJECT.json maps
  every definition to its lines.

  \<^bold>\<open>The lemmas\<close> of a theory come in groups: reading back what an operation wrote (collected in
  \<open>store_simps\<close>), the invariant of the component and its preservation, and the facts its properties
  need. Interfaces are locales, interpreted on the model's own operations in the theory of the
  provider: \<open>keyed_table\<close> (a table whose ids stay unique and grow) and \<open>tightening_stop\<close> (steps that
  only raise a stop) in Prelude, \<open>entry_approval\<close> (what the executor relies on) in Sim_Loop,
  \<open>logged_machine\<close> (a log that replays to the state) in State_Machine, \<open>event_family\<close> (the cycle of
  detected events) in Structures.
  Invariants over sequences of operations are stated over all lists of calls or by rule induction
  over a step relation.

  \<^bold>\<open>Conventions and bounds.\<close>
  \<^item> A string is a list of bytes, the UTF-8 text; the Chinese texts are built by \<open>utf8\<close>.
  \<^item> Python floats are real numbers: rounding errors, infinities and NaN are outside the model; what
    the program rounds (\<open>round(x, n)\<close>) is rounded to even as Python does.
  \<^item> A datetime is an int, microseconds since the epoch in UTC; the clock is read once per operation
    and passed in. The rules of the New York time zone are a parameter where they matter.
  \<^item> A query without order returns the order of insertion. The session does not flush before a query
    (autoflush is off), so queries run on the rows as last flushed; where that shows, the definitions
    pass both the flushed and the live rows. A violated unique constraint is an IntegrityError at the
    commit.
  \<^item> The broker, the SDK, quotes and random ids are parameters. Where an answer may depend on what
    was sent before, the trace of the calls is passed along. Properties hold for all such answers
    unless they name a documented behaviour as a hypothesis.
  \<^item> Every loop of the modelled code runs over a list or has a measure (\<open>filter_pages\<close> in Futu_Provider:
    what is left of 300 rows). Fuel is used in \<open>replace_from\<close> (Presentation): the length of the text,
    which is enough as every step consumes a character; and in \<open>wait_for_port\<close> (OpenD_Admin): the 16 half
    seconds of its 8 seconds.

  \<^bold>\<open>Not modelled\<close>, and why.
  \<^item> The regular expressions of \<open>format_reason\<close> (presentation.py) that rewrite numbers inside a reason: word
    boundaries and character classes of Unicode text need more than the byte strings of this model. The
    definitions that send a reason take the function as the argument \<open>fr\<close>. \<open>json_list\<close> is the JSON library.
  \<^item> Templates, static files and the parsing of requests and arguments: the framework's. A page is the
    context its template gets.
  \<^item> db.py: the engine, its pragmas and the session factory; sessions are modelled by their commits.
  \<^item> How the SDK opens its contexts and makes rows of its data frames; the sockets, processes and
    files behind the administration: what they answer is a parameter.
  \<^item> Texts that only print: payload columns of the audit trail, stored copies of broker rows, log lines.
\<close>

end
